(* ===== verification/Prelude.thy ===== *)
theory Prelude
  imports "HOL-Library.Word" "HOL-Library.Sublist"
begin

text \<open>
  Shared vocabulary of the development.

  \<^item> Rust's fixed-width integers are words (\<open>u16\<close>, \<open>u32\<close>, \<open>u64\<close>); \<open>usize\<close> counters that the
    code only moves by one, and only under a bound, are \<open>nat\<close>.
  \<^item> \<open>std::time::Duration\<close> and \<open>std::time::Instant\<close> are \<open>nat\<close> counts of nanoseconds; a function
    that reads the clock takes the reading as an argument.
  \<^item> \<open>String\<close> and \<open>&str\<close> are \<open>string\<close>: the list of the bytes of the text.
  \<^item> \<open>Result<T, E>\<close> is \<open>E + T\<close>, with \<open>Inl\<close> for \<open>Err\<close> and \<open>Inr\<close> for \<open>Ok\<close>.

  The string section models the operations of Rust's standard library that the modelled
  code calls.  The locales at the end are the interfaces the components share: lossless
  conversions, and transition systems with an invariant.
\<close>

section \<open>Machine integers and time\<close>

type_synonym u8 = "8 word"
type_synonym u16 = "16 word"
type_synonym u32 = "32 word"
type_synonym u64 = "64 word"

type_synonym duration = nat
type_synonym instant = nat

abbreviation from_secs :: "nat \<Rightarrow> duration" where
  "from_secs s \<equiv> s * 1000000000"

abbreviation from_millis :: "nat \<Rightarrow> duration" where
  "from_millis s \<equiv> s * 1000000"

abbreviation as_secs :: "duration \<Rightarrow> nat" where
  "as_secs d \<equiv> d div 1000000000"

abbreviation as_millis :: "duration \<Rightarrow> nat" where
  "as_millis d \<equiv> d div 1000000"

abbreviation u64_max :: nat where
  "u64_max \<equiv> 18446744073709551615"

text \<open>Rust's \<open>as u64\<close> on a wider unsigned value truncates; \<open>saturating_add\<close> stops at the maximum.\<close>

definition trunc_u64 :: "nat \<Rightarrow> nat" where
  "trunc_u64 n = n mod 2 ^ 64"

definition sat_add_u64 :: "nat \<Rightarrow> nat \<Rightarrow> nat" where
  "sat_add_u64 a b = min (a + b) u64_max"

lemma trunc_u64_le [simp]: "trunc_u64 n \<le> n"
  by (simp add: trunc_u64_def)

lemma trunc_u64_id: "n \<le> u64_max \<Longrightarrow> trunc_u64 n = n"
  by (simp add: trunc_u64_def)

section \<open>Strings\<close>

definition digit_char :: "nat \<Rightarrow> char" where
  "digit_char n = char_of (48 + n)"

fun show_nat :: "nat \<Rightarrow> string" where
  "show_nat n = (if n < 10 then [digit_char n] else show_nat (n div 10) @ [digit_char (n mod 10)])"

declare show_nat.simps [simp del]

definition show_int :: "int \<Rightarrow> string" where
  "show_int i = (if i < 0 then CHR ''-'' # show_nat (nat (- i)) else show_nat (nat i))"

definition is_digit :: "char \<Rightarrow> bool" where
  "is_digit c \<longleftrightarrow> 48 \<le> (of_char c :: nat) \<and> (of_char c :: nat) \<le> 57"

definition digit_val :: "char \<Rightarrow> nat" where
  "digit_val c = of_char c - 48"

definition digits_val :: "string \<Rightarrow> nat" where
  "digits_val s = foldl (\<lambda>a c. 10 * a + digit_val c) 0 s"

text \<open>\<open>str::parse\<close> for an unsigned type with maximum \<open>m\<close>: an optional plus sign, then digits.\<close>

definition parse_unsigned :: "nat \<Rightarrow> string \<Rightarrow> nat option" where
  "parse_unsigned m s =
     (let ds = (case s of c # t \<Rightarrow> if c = CHR ''+'' then t else s | [] \<Rightarrow> s)
      in if ds \<noteq> [] \<and> list_all is_digit ds \<and> digits_val ds \<le> m
         then Some (digits_val ds) else None)"

text \<open>\<open>char::is_whitespace\<close> on ASCII bytes (used by \<open>trim\<close> and \<open>split_whitespace\<close>).\<close>

definition is_space :: "char \<Rightarrow> bool" where
  "is_space c \<longleftrightarrow> (let n = (of_char c :: nat) in n = 32 \<or> (9 \<le> n \<and> n \<le> 13))"

definition trim :: "string \<Rightarrow> string" where
  "trim s = rev (dropWhile is_space (rev (dropWhile is_space s)))"

definition strip_prefix :: "string \<Rightarrow> string \<Rightarrow> string option" where
  "strip_prefix p s = (if take (length p) s = p then Some (drop (length p) s) else None)"

definition starts_with :: "string \<Rightarrow> string \<Rightarrow> bool" where
  "starts_with s p \<longleftrightarrow> take (length p) s = p"

definition ends_with :: "string \<Rightarrow> string \<Rightarrow> bool" where
  "ends_with s p \<longleftrightarrow> length p \<le> length s \<and> drop (length s - length p) s = p"

fun str_contains :: "string \<Rightarrow> string \<Rightarrow> bool" where
  "str_contains [] p \<longleftrightarrow> p = []"
| "str_contains (c # s) p \<longleftrightarrow> take (length p) (c # s) = p \<or> str_contains s p"

text \<open>\<open>str::split(char)\<close>: always at least one piece.\<close>

fun split_char :: "char \<Rightarrow> string \<Rightarrow> string list" where
  "split_char d [] = [[]]"
| "split_char d (c # s) =
     (if c = d then [] # split_char d s
      else case split_char d s of p # ps \<Rightarrow> (c # p) # ps | [] \<Rightarrow> [[c]])"

text \<open>\<open>str::split_once(char)\<close>, and \<open>rsplit_once\<close> on the last occurrence.\<close>

fun split_once :: "char \<Rightarrow> string \<Rightarrow> (string \<times> string) option" where
  "split_once d [] = None"
| "split_once d (c # s) =
     (if c = d then Some ([], s) else map_option (\<lambda>(a, b). (c # a, b)) (split_once d s))"

definition rsplit_once :: "char \<Rightarrow> string \<Rightarrow> (string \<times> string) option" where
  "rsplit_once d s = map_option (\<lambda>(a, b). (rev b, rev a)) (split_once d (rev s))"

text \<open>\<open>str::split_whitespace\<close>: the non-empty pieces between spaces.\<close>

fun split_space :: "string \<Rightarrow> string list" where
  "split_space [] = [[]]"
| "split_space (c # s) =
     (if is_space c then [] # split_space s
      else case split_space s of p # ps \<Rightarrow> (c # p) # ps | [] \<Rightarrow> [[c]])"

definition split_whitespace :: "string \<Rightarrow> string list" where
  "split_whitespace s = filter (\<lambda>p. p \<noteq> []) (split_space s)"

fun join :: "string \<Rightarrow> string list \<Rightarrow> string" where
  "join sep [] = []"
| "join sep [x] = x"
| "join sep (x # y # xs) = x @ sep @ join sep (y # xs)"

text \<open>\<open>to_lowercase\<close> on ASCII text.\<close>

definition lower_char :: "char \<Rightarrow> char" where
  "lower_char c =
     (if 65 \<le> (of_char c :: nat) \<and> (of_char c :: nat) \<le> 90 then char_of (of_char c + 32 :: nat) else c)"

definition to_lowercase :: "string \<Rightarrow> string" where
  "to_lowercase s = map lower_char s"

subsection \<open>Facts about the string operations\<close>

lemma str_contains_iff: "str_contains s p \<longleftrightarrow> (\<exists>u v. s = u @ p @ v)"
proof (induction s)
  case Nil
  then show ?case by auto
next
  case (Cons c s)
  have "take (length p) (c # s) = p \<longleftrightarrow> (\<exists>v. c # s = p @ v)"
    by (metis append_eq_conv_conj)
  with Cons.IH show ?case
    by (auto simp: Cons_eq_append_conv)
qed

lemma str_contains_trans: "str_contains s t \<Longrightarrow> str_contains t u \<Longrightarrow> str_contains s u"
  by (metis append.assoc str_contains_iff)

lemma starts_with_iff: "starts_with s p \<longleftrightarrow> (\<exists>v. s = p @ v)"
  unfolding starts_with_def by (metis append_eq_conv_conj)

lemma strip_prefix_Some_iff: "strip_prefix p s = Some r \<longleftrightarrow> s = p @ r"
  by (auto simp: strip_prefix_def) (metis append_take_drop_id)

lemma split_char_nonempty [simp]: "split_char d s \<noteq> []"
  by (induction s) (auto split: list.splits)

lemma split_once_Some: "split_once d s = Some (a, b) \<Longrightarrow> s = a @ d # b \<and> d \<notin> set a"
  by (induction s arbitrary: a b) (auto split: if_splits)

lemma split_once_append: "d \<notin> set a \<Longrightarrow> split_once d (a @ d # b) = Some (a, b)"
  by (induction a) auto

lemma split_once_None: "split_once d s = None \<longleftrightarrow> d \<notin> set s"
  by (induction s) auto

lemma rsplit_once_append: "d \<notin> set b \<Longrightarrow> rsplit_once d (a @ d # b) = Some (a, b)"
  by (simp add: rsplit_once_def split_once_append)

lemma rsplit_once_None: "rsplit_once d s = None \<longleftrightarrow> d \<notin> set s"
  by (simp add: rsplit_once_def split_once_None)

lemma split_space_nonempty [simp]: "split_space s \<noteq> []"
  by (induction s) (auto split: list.splits)

lemma split_space_word:
  assumes "list_all (\<lambda>c. \<not> is_space c) w" "is_space c"
  shows "split_space (w @ c # s) = w # split_space s"
  using assms by (induction w) auto

lemma split_whitespace_space [simp]: "is_space c \<Longrightarrow> split_whitespace (c # s) = split_whitespace s"
  by (simp add: split_whitespace_def)

lemma split_whitespace_Nil [simp]: "split_whitespace [] = []"
  by (simp add: split_whitespace_def)

lemma split_whitespace_word:
  assumes "list_all (\<lambda>c. \<not> is_space c) w" "w \<noteq> []" "is_space c"
  shows "split_whitespace (w @ c # s) = w # split_whitespace s"
  using assms by (simp add: split_whitespace_def split_space_word)

lemma of_char_digit_char: "n < 10 \<Longrightarrow> (of_char (digit_char n) :: nat) = 48 + n"
  by (simp add: digit_char_def)

lemma is_digit_digit_char [simp]: "n < 10 \<Longrightarrow> is_digit (digit_char n)"
  by (simp add: is_digit_def of_char_digit_char)

lemma digit_val_digit_char [simp]: "n < 10 \<Longrightarrow> digit_val (digit_char n) = n"
  by (simp add: digit_val_def of_char_digit_char)

lemma show_nat_nonempty [simp]: "show_nat n \<noteq> []"
  by (subst show_nat.simps) simp

lemma show_nat_digits: "list_all is_digit (show_nat n)"
proof (induction n rule: show_nat.induct)
  case (1 n)
  show ?case
  proof (cases "n < 10")
    case True
    then show ?thesis by (subst show_nat.simps) simp
  next
    case False
    with "1.IH" show ?thesis by (subst show_nat.simps) simp
  qed
qed

lemma digits_val_snoc: "digits_val (s @ [c]) = 10 * digits_val s + digit_val c"
  by (simp add: digits_val_def)

lemma digits_val_show_nat: "digits_val (show_nat n) = n"
proof (induction n rule: show_nat.induct)
  case (1 n)
  show ?case
  proof (cases "n < 10")
    case True
    then show ?thesis by (subst show_nat.simps) (simp add: digits_val_def)
  next
    case False
    with "1.IH" show ?thesis by (subst show_nat.simps) (simp add: digits_val_snoc)
  qed
qed

lemma show_nat_no_plus: "show_nat n = c # t \<Longrightarrow> c \<noteq> CHR ''+''"
  using show_nat_digits [of n] by (auto simp: is_digit_def)

lemma parse_show_nat: "n \<le> m \<Longrightarrow> parse_unsigned m (show_nat n) = Some n"
  using show_nat_digits [of n] digits_val_show_nat [of n]
  by (cases "show_nat n") (auto simp: parse_unsigned_def dest: show_nat_no_plus)

section \<open>Results and number parsing\<close>

text \<open>The \<open>?\<close> operator: go on with the value of \<open>Ok\<close>, return the error of \<open>Err\<close>.\<close>

fun bindR :: "'e + 'a \<Rightarrow> ('a \<Rightarrow> 'e + 'b) \<Rightarrow> 'e + 'b" where
  "bindR (Inl e) f = Inl e"
| "bindR (Inr x) f = f x"

definition is_ok :: "'e + 'a \<Rightarrow> bool" where
  "is_ok r \<longleftrightarrow> (\<exists>x. r = Inr x)"

lemma is_ok_simps [simp]: "is_ok (Inr x)" "\<not> is_ok (Inl e)"
  by (auto simp: is_ok_def)

lemma is_ok_bindR: "is_ok (bindR r f) \<longleftrightarrow> (\<exists>x. r = Inr x \<and> is_ok (f x))"
  by (cases r) auto

lemma bindR_Inr_iff: "bindR r f = Inr y \<longleftrightarrow> (\<exists>x. r = Inr x \<and> f x = Inr y)"
  by (cases r) auto

lemma bindR_cong [fundef_cong]:
  "r = r' \<Longrightarrow> (\<And>x. r' = Inr x \<Longrightarrow> f x = g x) \<Longrightarrow> bindR r f = bindR r' g"
  by (cases r') auto

text \<open>\<open>from_str\<close> of the unsigned types, with the texts of \<open>ParseIntError\<close>.\<close>

fun scan_digits :: "nat \<Rightarrow> nat \<Rightarrow> string \<Rightarrow> string + nat" where
  "scan_digits m r [] = Inr r"
| "scan_digits m r (c # cs) =
     (if \<not> is_digit c then Inl ''invalid digit found in string''
      else if 10 * r + digit_val c > m then Inl ''number too large to fit in target type''
      else scan_digits m (10 * r + digit_val c) cs)"

definition parse_int :: "nat \<Rightarrow> string \<Rightarrow> string + nat" where
  "parse_int m s =
     (if s = [] then Inl ''cannot parse integer from empty string''
      else if s = ''+'' \<or> s = ''-'' then Inl ''invalid digit found in string''
      else scan_digits m 0 (if hd s = CHR ''+'' then tl s else s))"

lemma foldl_digits_mono: "r \<le> foldl (\<lambda>a c. 10 * a + digit_val c) r cs"
proof (induction cs arbitrary: r)
  case (Cons c cs)
  have "r \<le> 10 * r + digit_val c" by simp
  also have "\<dots> \<le> foldl (\<lambda>a c. 10 * a + digit_val c) (10 * r + digit_val c) cs" by (rule Cons.IH)
  finally show ?case by simp
qed simp

lemma scan_digits_ok:
  "r \<le> m \<Longrightarrow> scan_digits m r cs = Inr n \<longleftrightarrow>
     list_all is_digit cs \<and> foldl (\<lambda>a c. 10 * a + digit_val c) r cs = n \<and> n \<le> m"
proof (induction cs arbitrary: r)
  case (Cons c cs)
  show ?case
  proof (cases "is_digit c \<and> 10 * r + digit_val c \<le> m")
    case True
    with Cons.IH show ?thesis by simp
  next
    case False
    with foldl_digits_mono [of "10 * r + digit_val c" cs] show ?thesis by auto
  qed
qed auto

lemma parse_int_iff: "parse_int m s = Inr n \<longleftrightarrow> parse_unsigned m s = Some n"
proof (cases s)
  case (Cons c t)
  have d: "\<not> is_digit CHR ''-''" by (simp add: is_digit_def)
  show ?thesis
    by (cases "c = CHR ''+''"; cases "c = CHR ''-'' \<and> t = []")
       (auto simp: Cons d parse_int_def parse_unsigned_def Let_def digits_val_def scan_digits_ok
         split: if_splits simp del: scan_digits.simps(2) foldl_Cons)
qed (simp add: parse_int_def parse_unsigned_def)

lemma parse_int_show_nat: "n \<le> m \<Longrightarrow> parse_int m (show_nat n) = Inr n"
  by (simp add: parse_int_iff parse_show_nat)

text \<open>\<open>{:?}\<close> of a string: quoted, with the escapes of \<open>char::escape_debug\<close> for ASCII.\<close>

definition hex_digit :: "nat \<Rightarrow> char" where
  "hex_digit n = (if n < 10 then char_of (48 + n) else char_of (87 + n))"

definition debug_char :: "char \<Rightarrow> string" where
  "debug_char c =
     (let n = (of_char c :: nat) in
      if n = 34 \<or> n = 92 then [char_of (92 :: nat), c]
      else if n = 10 then [char_of (92 :: nat), CHR ''n'']
      else if n = 13 then [char_of (92 :: nat), CHR ''r'']
      else if n = 9 then [char_of (92 :: nat), CHR ''t'']
      else if n = 0 then [char_of (92 :: nat), CHR ''0'']
      else if n < 32 \<or> n = 127 then
        char_of (92 :: nat) # ''u{'' @ (if n < 16 then [] else [hex_digit (n div 16)]) @ [hex_digit (n mod 16)] @ ''}''
      else [c])"

definition debug_str :: "string \<Rightarrow> string" where
  "debug_str s = char_of (34 :: nat) # concat (map debug_char s) @ [char_of (34 :: nat)]"

text \<open>\<open>str::lines\<close>: split at newlines, without the newline or a carriage return before it.\<close>

definition strip_cr :: "string \<Rightarrow> string" where
  "strip_cr s = (if s \<noteq> [] \<and> last s = char_of (13 :: nat) then butlast s else s)"

definition str_lines :: "string \<Rightarrow> string list" where
  "str_lines s =
     (let ps = split_char (char_of (10 :: nat)) s
      in map strip_cr (if last ps = [] then butlast ps else ps))"

definition upper_char :: "char \<Rightarrow> char" where
  "upper_char c =
     (if 97 \<le> (of_char c :: nat) \<and> (of_char c :: nat) \<le> 122 then char_of (of_char c - 32 :: nat) else c)"

definition to_uppercase :: "string \<Rightarrow> string" where
  "to_uppercase s = map upper_char s"

definition show_bool :: "bool \<Rightarrow> string" where
  "show_bool b = (if b then ''true'' else ''false'')"

definition or_empty :: "string option \<Rightarrow> string" where
  "or_empty x = (case x of None \<Rightarrow> [] | Some s \<Rightarrow> s)"

section \<open>Interfaces shared by the components\<close>

text \<open>A conversion that loses nothing, with the conversion back.\<close>

locale lossless =
  fixes to_wire :: "'a \<Rightarrow> 'b"
    and from_wire :: "'b \<Rightarrow> 'a"
  assumes from_to: "from_wire (to_wire x) = x"
begin

lemma to_eq_iff: "to_wire x = to_wire y \<longleftrightarrow> x = y"
  by (metis from_to)

lemma inj_to: "inj to_wire"
  by (rule injI) (simp add: to_eq_iff)

lemma map_from_to: "map from_wire (map to_wire xs) = xs"
  by (simp add: from_to comp_def)

end

text \<open>A conversion between two types with the same values.\<close>

locale lossless_iso = lossless +
  assumes to_from: "to_wire (from_wire y) = y"
begin

lemma bij_to: "bij to_wire"
  by (rule bijI') (auto simp: to_eq_iff intro: to_from [symmetric])

lemma to_wire_swap: "to_wire x = y \<longleftrightarrow> x = from_wire y"
  by (metis from_to to_from)

end

text \<open>A keyed store: what a lookup returns after an insertion or a removal.\<close>

locale store =
  fixes inv :: "'m \<Rightarrow> bool"
    and empty :: 'm
    and lookup :: "'m \<Rightarrow> 'k \<Rightarrow> 'v option"
    and put :: "'k \<Rightarrow> 'v \<Rightarrow> 'm \<Rightarrow> 'm"
    and del :: "'k \<Rightarrow> 'm \<Rightarrow> 'm"
  assumes inv_empty: "inv empty"
    and inv_put: "inv m \<Longrightarrow> inv (put k v m)"
    and inv_del: "inv m \<Longrightarrow> inv (del k m)"
    and lookup_empty: "lookup empty k = None"
    and lookup_put: "inv m \<Longrightarrow> lookup (put k v m) j = (if j = k then Some v else lookup m j)"
    and lookup_del: "inv m \<Longrightarrow> lookup (del k m) j = (if j = k then None else lookup m j)"
begin

lemma lookup_put_same: "inv m \<Longrightarrow> lookup (put k v m) k = Some v"
  by (simp add: lookup_put)

lemma lookup_put_other: "inv m \<Longrightarrow> j \<noteq> k \<Longrightarrow> lookup (put k v m) j = lookup m j"
  by (simp add: lookup_put)

lemma lookup_del_same: "inv m \<Longrightarrow> lookup (del k m) k = None"
  by (simp add: lookup_del)

lemma del_put: "inv m \<Longrightarrow> lookup (del k (put k v m)) j = lookup (del k m) j"
  by (simp add: lookup_put lookup_del inv_put)

lemma put_put: "inv m \<Longrightarrow> lookup (put k w (put k v m)) j = lookup (put k w m) j"
  by (simp add: lookup_put inv_put)

lemma dels_inv: "inv m \<Longrightarrow> inv (foldr del ks m)"
  by (induction ks) (auto intro: inv_del)

lemma lookup_dels:
  "inv m \<Longrightarrow> lookup (foldr del ks m) j = (if j \<in> set ks then None else lookup m j)"
  by (induction ks) (auto simp: lookup_del dels_inv)

end

text \<open>Reachable states of a labelled transition system.\<close>

inductive reach :: "('s \<Rightarrow> bool) \<Rightarrow> ('s \<Rightarrow> 'l \<Rightarrow> 's \<Rightarrow> bool) \<Rightarrow> 's \<Rightarrow> bool"
  for init :: "'s \<Rightarrow> bool" and step :: "'s \<Rightarrow> 'l \<Rightarrow> 's \<Rightarrow> bool"
  where
  reach_init: "init s \<Longrightarrow> reach init step s"
| reach_step: "reach init step s \<Longrightarrow> step s l t \<Longrightarrow> reach init step t"

fun run :: "('s \<Rightarrow> 'l \<Rightarrow> 's \<Rightarrow> bool) \<Rightarrow> 's \<Rightarrow> ('l \<times> 's) list \<Rightarrow> bool" where
  "run step s [] \<longleftrightarrow> True"
| "run step s ((l, t) # ts) \<longleftrightarrow> step s l t \<and> run step t ts"

locale step_invariant =
  fixes init :: "'s \<Rightarrow> bool"
    and step :: "'s \<Rightarrow> 'l \<Rightarrow> 's \<Rightarrow> bool"
    and inv :: "'s \<Rightarrow> bool"
  assumes init_inv: "init s \<Longrightarrow> inv s"
    and step_inv: "inv s \<Longrightarrow> step s l t \<Longrightarrow> inv t"
begin

lemma reach_inv: "reach init step s \<Longrightarrow> inv s"
  by (induction rule: reach.induct) (auto intro: init_inv step_inv)

lemma run_inv: "inv s \<Longrightarrow> run step s ts \<Longrightarrow> (l, t) \<in> set ts \<Longrightarrow> inv t"
proof (induction ts arbitrary: s)
  case (Cons x ts)
  obtain l' u where "x = (l', u)" by (cases x)
  with Cons show ?case by (auto dest: step_inv)
qed simp

end

end
