(* ===== verification/Identity.thy ===== *)
theory Identity
  imports Prelude
begin

text \<open>
  \<open>src/transport/identity.rs\<close>: the identity of a process (path, pid, start marker), how each platform
  reads it, and the guard that must pass before a recorded process is signalled.  What the operating
  system answers (files under \<open>/proc\<close>, \<open>sysctl\<close>, the Win32 calls) is an argument.
\<close>

section \<open>Identities and refusals\<close>

datatype identity_error = NoSuchProcess u32 | UnsupportedPlatform string | Unreadable string

fun display_identity_error :: "identity_error \<Rightarrow> string" where
  "display_identity_error (NoSuchProcess pid) = ''no such process: '' @ show_nat (unat pid)"
| "display_identity_error (UnsupportedPlatform p) = ''process identity unsupported on '' @ p"
| "display_identity_error (Unreadable m) = ''cannot read process identity: '' @ m"

record process_identity =
  executable_path :: string
  id_pid :: u32
  start_identity :: u64

definition identity_matches :: "process_identity \<Rightarrow> process_identity \<Rightarrow> bool" where
  "identity_matches a b \<longleftrightarrow>
     id_pid a = id_pid b \<and> start_identity a \<noteq> 0 \<and> start_identity a = start_identity b \<and>
     executable_path a \<noteq> [] \<and> executable_path a = executable_path b"

datatype refusal =
    Unverifiable identity_error
  | Mismatch process_identity process_identity
  | ProcessGone u32

fun display_refusal :: "refusal \<Rightarrow> string" where
  "display_refusal (Unverifiable e) = ''cannot verify daemon identity: '' @ display_identity_error e"
| "display_refusal (Mismatch recorded live) =
     ''recorded daemon does not match live process (recorded pid '' @ show_nat (unat (id_pid recorded)) @
     '' start '' @ show_nat (unat (start_identity recorded)) @ '', live pid '' @ show_nat (unat (id_pid live)) @
     '' start '' @ show_nat (unat (start_identity live)) @ '')''"
| "display_refusal (ProcessGone pid) = ''no process with pid '' @ show_nat (unat pid) @ ''; state is stale''"

section \<open>What each platform reads\<close>

text \<open>An I/O error is \<open>ErrorKind::NotFound\<close> or another one, with its text.\<close>

datatype io_failure = NotFoundIo string | OtherIo string

fun io_text :: "io_failure \<Rightarrow> string" where
  "io_text (NotFoundIo m) = m"
| "io_text (OtherIo m) = m"

text \<open>Linux: \<open>/proc/<pid>/stat\<close>, \<open>/proc/<pid>/exe\<close> and \<open>/proc/<pid>/cmdline\<close>.\<close>

record linux_proc =
  lp_stat :: "u32 \<Rightarrow> io_failure + string"
  lp_exe :: "u32 \<Rightarrow> io_failure + string"
  lp_cmdline :: "u32 \<Rightarrow> io_failure + string"

definition proc_path :: "u32 \<Rightarrow> string \<Rightarrow> string" where
  "proc_path pid leaf = ''/proc/'' @ show_nat (unat pid) @ ''/'' @ leaf"

definition stat_starttime :: "string \<Rightarrow> u64 option" where
  "stat_starttime stat =
     (let after_comm = (case rsplit_once (CHR '')'') stat of Some (a, rest) \<Rightarrow> rest | None \<Rightarrow> stat);
          fields = split_whitespace after_comm
      in if 19 < length fields then map_option of_nat (parse_unsigned u64_max (fields ! 19)) else None)"

definition linux_of_pid :: "linux_proc \<Rightarrow> u32 \<Rightarrow> identity_error + process_identity" where
  "linux_of_pid p pid =
     (case lp_stat p pid of
        Inl (NotFoundIo e) \<Rightarrow> Inl (NoSuchProcess pid)
      | Inl (OtherIo e) \<Rightarrow> Inl (Unreadable (proc_path pid ''stat'' @ '': '' @ e))
      | Inr stat \<Rightarrow>
          (case stat_starttime stat of
             None \<Rightarrow> Inl (Unreadable (proc_path pid ''stat'' @ '': no starttime field''))
           | Some start \<Rightarrow>
               (case lp_exe p pid of
                  Inl e \<Rightarrow> Inl (Unreadable (proc_path pid ''exe'' @ '': '' @ io_text e))
                | Inr path \<Rightarrow> Inr \<lparr>executable_path = path, id_pid = pid, start_identity = start\<rparr>)))"

text \<open>macOS: the bytes \<open>sysctl\<close> wrote for two queries, or its errno.\<close>

record mac_proc =
  mp_proc :: "u32 \<Rightarrow> int + u8 list"
  mp_args :: "u32 \<Rightarrow> int + u8 list"
  mp_lossy :: "u8 list \<Rightarrow> string"

definition ESRCH :: int where "ESRCH = 3"

definition map_errno :: "int \<Rightarrow> string \<Rightarrow> u32 \<Rightarrow> identity_error" where
  "map_errno errno what pid =
     (if errno = ESRCH then NoSuchProcess pid
      else Unreadable (''sysctl '' @ what @ '': errno '' @ show_int errno))"

definition le_u64 :: "u8 list \<Rightarrow> u64" where
  "le_u64 bs = foldr (\<lambda>b a. a * 256 + ucast b) bs 0"

definition start_time :: "mac_proc \<Rightarrow> u32 \<Rightarrow> identity_error + u64" where
  "start_time p pid =
     (case mp_proc p pid of
        Inl errno \<Rightarrow> Inl (map_errno errno ''KERN_PROC_PID'' pid)
      | Inr buf \<Rightarrow>
          if length buf = 0 then Inl (NoSuchProcess pid)
          else if length buf < 16 then Inl (Unreadable ''sysctl KERN_PROC_PID returned a short buffer'')
          else Inr (le_u64 (take 8 buf)))"

definition exe_path :: "mac_proc \<Rightarrow> u32 \<Rightarrow> identity_error + string" where
  "exe_path p pid =
     (case mp_args p pid of
        Inl errno \<Rightarrow> Inl (map_errno errno ''KERN_PROCARGS2'' pid)
      | Inr buf \<Rightarrow>
          if length buf = 0 then Inl (NoSuchProcess pid)
          else if length buf \<le> 4 then Inl (Unreadable ''sysctl KERN_PROCARGS2 returned a short buffer'')
          else let path = mp_lossy p (takeWhile (\<lambda>b. b \<noteq> 0) (drop 4 buf))
               in if path = [] then Inl (Unreadable ''sysctl KERN_PROCARGS2 gave an empty exec path'')
                  else Inr path)"

definition mac_of_pid :: "mac_proc \<Rightarrow> u32 \<Rightarrow> identity_error + process_identity" where
  "mac_of_pid p pid =
     bindR (start_time p pid) (\<lambda>start.
     bindR (exe_path p pid) (\<lambda>path.
       Inr \<lparr>executable_path = path, id_pid = pid, start_identity = start\<rparr>))"

text \<open>Windows: the three calls, each an error code or its result (handles are not modelled).\<close>

record win_proc =
  wp_open :: "u32 \<Rightarrow> u32 + unit"
  wp_times :: "u32 \<Rightarrow> u32 + (u32 \<times> u32)"
  wp_image :: "u32 \<Rightarrow> u32 + u16 list"
  wp_lossy :: "u16 list \<Rightarrow> string"

definition ERROR_INVALID_PARAMETER :: u32 where "ERROR_INVALID_PARAMETER = 87"

definition filetime_to_u64 :: "u32 \<Rightarrow> u32 \<Rightarrow> u64" where
  "filetime_to_u64 high low = or (push_bit 32 (ucast high)) (ucast low)"

definition win_failed :: "string \<Rightarrow> u32 \<Rightarrow> u32 \<Rightarrow> identity_error" where
  "win_failed what pid err =
     Unreadable (what @ ''('' @ show_nat (unat pid) @ '') failed: '' @ show_nat (unat err))"

definition win_of_pid :: "win_proc \<Rightarrow> u32 \<Rightarrow> identity_error + process_identity" where
  "win_of_pid p pid =
     (case wp_open p pid of
        Inl err \<Rightarrow> Inl (if err = ERROR_INVALID_PARAMETER then NoSuchProcess pid
                         else win_failed ''OpenProcess'' pid err)
      | Inr h \<Rightarrow>
     (case wp_times p pid of
        Inl err \<Rightarrow> Inl (win_failed ''GetProcessTimes'' pid err)
      | Inr (high, low) \<Rightarrow>
     (case wp_image p pid of
        Inl err \<Rightarrow> Inl (win_failed ''QueryFullProcessImageNameW'' pid err)
      | Inr name \<Rightarrow>
          let path = wp_lossy p name
          in if path = [] then Inl (Unreadable (''empty image name for pid '' @ show_nat (unat pid)))
             else Inr \<lparr>executable_path = path, id_pid = pid, start_identity = filetime_to_u64 high low\<rparr>)))"

datatype platform = Linux linux_proc | MacOS mac_proc | Windows win_proc | OtherPlatform

fun of_pid :: "platform \<Rightarrow> u32 \<Rightarrow> identity_error + process_identity" where
  "of_pid (Linux p) pid = linux_of_pid p pid"
| "of_pid (MacOS p) pid = mac_of_pid p pid"
| "of_pid (Windows p) pid = win_of_pid p pid"
| "of_pid OtherPlatform pid = Inl (UnsupportedPlatform ''this platform'')"

definition authorize_signal :: "platform \<Rightarrow> process_identity \<Rightarrow> refusal + unit" where
  "authorize_signal os recorded =
     (case of_pid os (id_pid recorded) of
        Inr live \<Rightarrow> if identity_matches live recorded then Inr () else Inl (Mismatch recorded live)
      | Inl (NoSuchProcess pid) \<Rightarrow> Inl (ProcessGone pid)
      | Inl e \<Rightarrow> Inl (Unverifiable e))"

section \<open>Facts\<close>

lemma identity_matches_iff:
  "identity_matches a b \<longleftrightarrow> a = b \<and> start_identity a \<noteq> 0 \<and> executable_path a \<noteq> []"
  by (auto simp: identity_matches_def)

lemma of_pid_pid: "of_pid os pid = Inr live \<Longrightarrow> id_pid live = pid"
  by (cases os)
     (auto simp: linux_of_pid_def mac_of_pid_def win_of_pid_def bindR_Inr_iff Let_def
        split: sum.splits io_failure.splits option.splits if_splits prod.splits)

lemma of_pid_gone_pid: "of_pid os pid = Inl (NoSuchProcess q) \<Longrightarrow> q = pid"
  by (cases os)
     (auto simp: linux_of_pid_def mac_of_pid_def win_of_pid_def start_time_def exe_path_def map_errno_def
        win_failed_def Let_def
        split: sum.splits io_failure.splits option.splits if_splits prod.splits elim!: bindR.elims)

lemma unat_u32_less: "unat (w :: u32) < 2 ^ 32"
  using unsigned_less [of w, where 'a = nat] by simp

lemma unat_of_nat_u64: "n < 2 ^ 64 \<Longrightarrow> unat (of_nat n :: u64) = n"
  by (simp add: unat_of_nat)

lemma filetime_to_u64_unat: "unat (filetime_to_u64 h l) = unat h * 2 ^ 32 + unat l"
proof -
  have hi: "unat h * 2 ^ 32 + unat l < 2 ^ 64"
    using unat_u32_less [of h] unat_u32_less [of l] by simp
  have "and (push_bit 32 (ucast h)) (ucast l :: u64) = 0"
    by (rule bit_word_eqI) (auto simp: bit_simps dest: bit_imp_le_length)
  then have "filetime_to_u64 h l = push_bit 32 (ucast h) + ucast l"
    by (simp add: filetime_to_u64_def disjunctive_add_eq_or)
  also have "\<dots> = of_nat (unat h * 2 ^ 32 + unat l)"
    by (simp add: push_bit_eq_mult)
  finally show ?thesis
    by (simp only: unat_of_nat_u64 [OF hi])
qed

lemma filetime_to_u64_inject: "filetime_to_u64 h l = filetime_to_u64 h' l' \<longleftrightarrow> h = h' \<and> l = l'"
proof
  assume "filetime_to_u64 h l = filetime_to_u64 h' l'"
  then have e: "unat h * 2 ^ 32 + unat l = unat h' * 2 ^ 32 + unat l'"
    by (metis filetime_to_u64_unat)
  have "unat l < 2 ^ 32" "unat l' < 2 ^ 32"
    by (rule unat_u32_less)+
  with arg_cong [OF e, of "\<lambda>x. x div 2 ^ 32"] arg_cong [OF e, of "\<lambda>x. x mod 2 ^ 32"]
  have "unat h = unat h' \<and> unat l = unat l'" by simp
  then show "h = h' \<and> l = l'" by (simp add: word_unat_eq_iff)
qed simp

lemma split_whitespace_join:
  assumes "list_all (\<lambda>f. f \<noteq> [] \<and> list_all (\<lambda>c. \<not> is_space c) f) fs" "is_space c"
  shows "split_whitespace (join '' '' fs @ [c]) = fs"
  using assms
proof (induction "'' ''" fs rule: join.induct)
  case 1
  then show ?case by simp
next
  case (2 x)
  then show ?case using split_whitespace_word [of x c "[]"] by simp
next
  case (3 x y xs)
  then show ?case
    using split_whitespace_word [of x "CHR '' ''" "join '' '' (y # xs) @ [c]"]
    by (simp add: is_space_def)
qed

lemma stat_starttime_any_comm:
  assumes "list_all (\<lambda>f. f \<noteq> [] \<and> list_all (\<lambda>c. \<not> is_space c \<and> c \<noteq> CHR '')'') f) fs"
    and "19 < length fs" "fs ! 19 = show_nat n" "n \<le> u64_max"
  shows "stat_starttime (pre @ '')'' @ '' '' @ join '' '' fs @ [CHR 0x0A]) = Some (of_nat n)"
proof -
  have sp: "list_all (\<lambda>f. f \<noteq> [] \<and> list_all (\<lambda>c. \<not> is_space c) f) fs"
    using assms(1) by (auto simp: list_all_iff)
  have "\<forall>f \<in> set fs. CHR '')'' \<notin> set f"
    using assms(1) by (auto simp: list_all_iff)
  then have "CHR '')'' \<notin> set (join '' '' fs)"
    by (induction "'' ''" fs rule: join.induct) auto
  then have "rsplit_once (CHR '')'') (pre @ CHR '')'' # ('' '' @ join '' '' fs @ [CHR 0x0A])) =
      Some (pre, '' '' @ join '' '' fs @ [CHR 0x0A])"
    by (intro rsplit_once_append) auto
  moreover have "split_whitespace ('' '' @ join '' '' fs @ [CHR 0x0A]) = fs"
    using split_whitespace_join [OF sp, of "CHR 0x0A"] by (simp add: is_space_def)
  ultimately show ?thesis
    using assms(2-4) by (simp add: stat_starttime_def parse_show_nat)
qed

section \<open>Properties\<close>

text \<open>
  A signal is authorized exactly when the operating system reports, for the recorded pid, the
  recorded identity itself, with a start marker and a path that are not empty; the process is declared
  gone exactly when the operating system says that no process has this pid.
\<close>

theorem authorize_signal_exact:
  "(authorize_signal os r = Inr () \<longleftrightarrow>
      of_pid os (id_pid r) = Inr r \<and> start_identity r \<noteq> 0 \<and> executable_path r \<noteq> []) \<and>
   ((\<exists>p. authorize_signal os r = Inl (ProcessGone p)) \<longleftrightarrow>
      of_pid os (id_pid r) = Inl (NoSuchProcess (id_pid r)))"
  by (cases "of_pid os (id_pid r)")
     (auto simp: authorize_signal_def identity_matches_iff dest: of_pid_gone_pid
        split: identity_error.splits sum.splits)

text \<open>
  On Linux the start marker of a process is read from its stat line whatever the command name holds,
  closing parentheses and spaces included: it is the twentieth field after the last parenthesis.
\<close>

theorem linux_identity_any_comm:
  assumes "list_all (\<lambda>f. f \<noteq> [] \<and> list_all (\<lambda>c. \<not> is_space c \<and> c \<noteq> CHR '')'') f) fs"
    and "19 < length fs" "fs ! 19 = show_nat n" "n \<le> u64_max"
    and "lp_stat p pid = Inr (show_nat (unat pid) @ '' ('' @ comm @ '') '' @ join '' '' fs @ [CHR 0x0A])"
    and "lp_exe p pid = Inr path"
  shows "of_pid (Linux p) pid =
    Inr \<lparr>executable_path = path, id_pid = pid, start_identity = of_nat n\<rparr>"
  using stat_starttime_any_comm [OF assms(1-4), of "show_nat (unat pid) @ '' ('' @ comm"] assms(5,6)
  by (simp add: linux_of_pid_def)

definition sample_proc :: linux_proc where
  "sample_proc =
     \<lparr>lp_stat = (\<lambda>pid. Inr (show_nat (unat pid) @ '' ('' @ ''a) (b'' @ '') '' @
        join '' '' (replicate 19 ''0'' @ [show_nat 7]) @ [CHR 0x0A])),
      lp_exe = (\<lambda>pid. Inr ''/bin/d''), lp_cmdline = (\<lambda>pid. Inr ''d'')\<rparr>"

lemma linux_identity_any_comm_witness:
  "of_pid (Linux sample_proc) 42 =
    Inr \<lparr>executable_path = ''/bin/d'', id_pid = 42, start_identity = of_nat 7\<rparr>"
proof (rule linux_identity_any_comm)
  show "list_all (\<lambda>f. f \<noteq> [] \<and> list_all (\<lambda>c. \<not> is_space c \<and> c \<noteq> CHR '')'') f)
      (replicate 19 ''0'' @ [show_nat 7])"
    by code_simp
  show "lp_stat sample_proc 42 = Inr (show_nat (unat (42 :: u32)) @ '' ('' @ ''a) (b'' @ '') '' @
      join '' '' (replicate 19 ''0'' @ [show_nat 7]) @ [CHR 0x0A])"
    by (simp only: sample_proc_def linux_proc.simps)
qed (simp_all add: nth_append sample_proc_def)

end
