(* ===== verification/Errors.thy ===== *)
theory Errors
  imports Prelude
begin

text \<open>
  \<open>src/error.rs\<close> and the exit-code constants of \<open>src/exit_codes.rs\<close>: the error type every
  command returns, and the four classifications the command line derives from it
  (exit code, machine-readable type, whether a retry is allowed, the suggestion and the
  diagnostic hints shown to the user).

  \<open>std::io::Error\<close> and \<open>serde_json::Error\<close> are carried as the text they display.
\<close>

section \<open>Exit codes\<close>

definition SUCCESS :: int where "SUCCESS = 0"
definition GENERAL_ERROR :: int where "GENERAL_ERROR = 1"
definition USAGE_ERROR :: int where "USAGE_ERROR = 2"
definition NOT_FOUND :: int where "NOT_FOUND = 3"
definition PERMISSION_DENIED :: int where "PERMISSION_DENIED = 4"
definition CONFLICT :: int where "CONFLICT = 5"
definition DRY_RUN_OK :: int where "DRY_RUN_OK = 10"

lemmas exit_code_defs =
  SUCCESS_def GENERAL_ERROR_def USAGE_ERROR_def NOT_FOUND_def PERMISSION_DENIED_def
  CONFLICT_def DRY_RUN_OK_def

section \<open>The error type\<close>

datatype virtuoso_error =
    Connection string
  | Execution string
  | Ssh string
  | Io string
  | Json string
  | Timeout u64
  | TimeoutWithContext u64 string
  | Config string
  | NotFound string
  | Conflict string
  | Auth string
  | VOutcomeUnknown string

fun display_virtuoso_error :: "virtuoso_error \<Rightarrow> string" where
  "display_virtuoso_error (Connection m) = ''connection failed: '' @ m"
| "display_virtuoso_error (Execution m) = ''execution failed: '' @ m"
| "display_virtuoso_error (Ssh m) = ''ssh error: '' @ m"
| "display_virtuoso_error (Io m) = ''io error: '' @ m"
| "display_virtuoso_error (Json m) = ''json error: '' @ m"
| "display_virtuoso_error (Timeout s) = ''timeout after '' @ show_nat (unat s) @ ''s''"
| "display_virtuoso_error (TimeoutWithContext s c) =
     ''timeout after '' @ show_nat (unat s) @ ''s; context: '' @ c"
| "display_virtuoso_error (Config m) = ''config error: '' @ m"
| "display_virtuoso_error (NotFound m) = ''not found: '' @ m"
| "display_virtuoso_error (Conflict m) = ''conflict: '' @ m"
| "display_virtuoso_error (Auth m) = ''auth error: '' @ m"
| "display_virtuoso_error (VOutcomeUnknown m) =
     ''outcome unknown: request was transmitted once and its result could not be proven: '' @ m"

fun virtuoso_exit_code :: "virtuoso_error \<Rightarrow> int" where
  "virtuoso_exit_code (Config _) = USAGE_ERROR"
| "virtuoso_exit_code (Auth _) = USAGE_ERROR"
| "virtuoso_exit_code (NotFound _) = NOT_FOUND"
| "virtuoso_exit_code (Conflict _) = CONFLICT"
| "virtuoso_exit_code (Connection _) = GENERAL_ERROR"
| "virtuoso_exit_code (Ssh _) = GENERAL_ERROR"
| "virtuoso_exit_code (Timeout _) = GENERAL_ERROR"
| "virtuoso_exit_code (TimeoutWithContext _ _) = GENERAL_ERROR"
| "virtuoso_exit_code (Execution _) = GENERAL_ERROR"
| "virtuoso_exit_code (Io _) = GENERAL_ERROR"
| "virtuoso_exit_code (Json _) = GENERAL_ERROR"
| "virtuoso_exit_code (VOutcomeUnknown _) = GENERAL_ERROR"

fun error_type :: "virtuoso_error \<Rightarrow> string" where
  "error_type (Connection _) = ''connection_failed''"
| "error_type (Execution _) = ''execution_failed''"
| "error_type (Ssh _) = ''ssh_error''"
| "error_type (Io _) = ''io_error''"
| "error_type (Json _) = ''json_error''"
| "error_type (Timeout _) = ''timeout''"
| "error_type (TimeoutWithContext _ _) = ''timeout''"
| "error_type (Config _) = ''config_error''"
| "error_type (NotFound _) = ''not_found''"
| "error_type (Conflict _) = ''conflict''"
| "error_type (Auth _) = ''auth_error''"
| "error_type (VOutcomeUnknown _) = ''outcome_unknown''"

fun virtuoso_retryable :: "virtuoso_error \<Rightarrow> bool" where
  "virtuoso_retryable (Connection _) = True"
| "virtuoso_retryable (Timeout _) = True"
| "virtuoso_retryable (TimeoutWithContext _ _) = True"
| "virtuoso_retryable _ = False"

section \<open>Suggestions and diagnostics\<close>

text \<open>The two non-ASCII characters of the messages, as their UTF-8 bytes.\<close>

definition em_dash :: string where
  "em_dash = [CHR 0xE2, CHR 0x80, CHR 0x94]"

definition bullet :: string where
  "bullet = [CHR 0xE2, CHR 0x80, CHR 0xA2]"

definition execution_suggestion :: "string \<Rightarrow> string option" where
  "execution_suggestion msg =
     (if ends_with msg '': nil'' \<or> str_contains msg ''unbound'' then
        Some (''SKILL returned nil '' @ em_dash @ '' check if a cellview/session is open'')
      else if str_contains msg ''maeGetSetup'' \<or> str_contains msg ''maeGetSession'' then
        Some (''No ADE session active '' @ em_dash @ '' open Maestro or run a simulation first'')
      else if str_contains msg ''ddGetObj'' \<or> str_contains msg ''dbOpen'' then
        Some (''Cellview not found '' @ em_dash @ '' check lib/cell/view names'')
      else if str_contains msg ''strmin'' \<or> str_contains msg ''ihdl'' then
        Some (''Import failed '' @ em_dash @ '' check GDS/Verilog paths and PDK libraries'')
      else None)"

fun suggestion :: "virtuoso_error \<Rightarrow> string option" where
  "suggestion (Config msg) =
     (if str_contains msg ''VB_REMOTE_HOST'' then Some ''Run: virtuoso init'' else None)"
| "suggestion (VOutcomeUnknown _) =
     Some (''The request may have executed. Re-run only if it is idempotent '' @
           ''(a read-only probe); never re-run a commit.'')"
| "suggestion (Connection _) = Some ''Run: virtuoso tunnel start''"
| "suggestion (Timeout secs) = Some (''Retry with --timeout '' @ show_nat (unat (secs * 2)))"
| "suggestion (TimeoutWithContext secs _) =
     Some (''Retry with --timeout '' @ show_nat (unat (secs * 2)))"
| "suggestion (Ssh msg) =
     (if str_contains msg ''authentication'' then Some ''Check SSH keys: ssh-add -l'' else None)"
| "suggestion (Execution msg) = execution_suggestion msg"
| "suggestion (NotFound _) = Some ''Use 'vcli session list' to see active sessions''"
| "suggestion _ = None"

definition execution_hints :: "string \<Rightarrow> string list" where
  "execution_hints msg =
     (if ends_with msg '': nil'' \<or> str_contains msg '' returns nil''
      then [''SKILL returned nil '' @ em_dash @ '' variable or object not found''] else []) @
     (if str_contains msg ''unbound''
      then [''Unbound variable '' @ em_dash @ '' check if object exists before accessing''] else []) @
     (if str_contains msg ''maeGetSetup'' \<or> str_contains msg ''maeGetSession''
      then [''Run 'vcli maestro list' to check active sessions''] else []) @
     (if str_contains msg ''ddGetObj'' \<or> str_contains msg ''dbOpen''
      then [''Use 'vcli window list' to check open cellviews''] else []) @
     (if str_contains msg ''daemon'' \<or> str_contains msg ''port''
      then [''Restart Virtuoso daemon: reload the setup script in CIW''] else []) @
     (if str_contains msg ''timeout''
      then [''Increase timeout: --timeout 120 or higher''] else [])"

fun diagnostic_context :: "virtuoso_error \<Rightarrow> string option" where
  "diagnostic_context (Execution msg) =
     (let hints = execution_hints msg; sep = CHR 0x0A # ''  '' @ bullet @ '' ''
      in if hints = [] then None
         else Some (''Diagnostic hints:'' @ sep @ join sep hints))"
| "diagnostic_context _ = None"

record cli_error =
  ce_error :: string
  ce_message :: string
  ce_suggestion :: "string option"
  ce_diagnostic :: "string option"
  ce_retryable :: bool

definition to_cli_error :: "virtuoso_error \<Rightarrow> cli_error" where
  "to_cli_error e =
     \<lparr>ce_error = error_type e, ce_message = display_virtuoso_error e,
      ce_suggestion = suggestion e, ce_diagnostic = diagnostic_context e,
      ce_retryable = virtuoso_retryable e\<rparr>"

section \<open>Properties\<close>

lemma virtuoso_exit_code_nonzero: "virtuoso_exit_code e \<noteq> SUCCESS \<and> virtuoso_exit_code e \<noteq> DRY_RUN_OK"
  by (cases e) (simp_all add: exit_code_defs)

lemma retryable_general: "virtuoso_retryable e \<Longrightarrow> virtuoso_exit_code e = GENERAL_ERROR"
  by (cases e) simp_all

lemma diagnostic_only_execution: "diagnostic_context e = Some d \<Longrightarrow> \<exists>m. e = Execution m"
  by (cases e) simp_all

end
