(* ===== verification/Contract.thy ===== *)
theory Contract
  imports Errors
begin

text \<open>
  \<open>src/transport/contract.rs\<close>: the vocabulary of the remote-transport contract.  Request
  identities and deadlines, the request records and their constructors, the structured
  \<open>TransportError\<close> with its classifications, its conversion to the error type of the
  commands, and the default methods of the \<open>RemoteTransport\<close> trait.

  The clock and the random identifier are arguments: \<open>now\<close> is \<open>Instant::now()\<close>, \<open>anchor\<close> the
  value of \<open>clock_anchor()\<close>, and \<open>id\<close> the identifier that \<open>RequestId::new()\<close> draws.
\<close>

section \<open>Request identity and deadlines\<close>

type_synonym request_id = string
type_synonym deadline = instant

definition deadline_from_now :: "instant \<Rightarrow> duration \<Rightarrow> deadline" where
  "deadline_from_now now timeout = now + timeout"

definition is_expired :: "instant \<Rightarrow> deadline \<Rightarrow> bool" where
  "is_expired now d \<longleftrightarrow> now \<ge> d"

definition remaining :: "instant \<Rightarrow> deadline \<Rightarrow> duration" where
  "remaining now d = d - now"

definition remaining_secs :: "instant \<Rightarrow> deadline \<Rightarrow> nat" where
  "remaining_secs now d = max 1 (as_secs (remaining now d))"

definition to_unix_ms :: "instant \<times> nat \<Rightarrow> deadline \<Rightarrow> nat" where
  "to_unix_ms anchor d =
     (case anchor of (anchor_instant, anchor_ms) \<Rightarrow>
        sat_add_u64 anchor_ms (trunc_u64 (as_millis (d - anchor_instant))))"

definition from_unix_ms :: "instant \<times> nat \<Rightarrow> nat \<Rightarrow> deadline" where
  "from_unix_ms anchor unix_ms =
     (case anchor of (anchor_instant, anchor_ms) \<Rightarrow>
        anchor_instant + from_millis (unix_ms - anchor_ms))"

section \<open>Requests\<close>

definition STARTUP_ALLOWANCE :: duration where
  "STARTUP_ALLOWANCE = from_secs 30"

definition UNTIMED_DEADLINE :: duration where
  "UNTIMED_DEADLINE = from_secs 300"

record command_request =
  cr_id :: request_id
  cr_deadline :: deadline
  cr_command :: string
  cr_timeout :: "duration option"

definition command_request_new :: "request_id \<Rightarrow> string \<Rightarrow> deadline \<Rightarrow> command_request" where
  "command_request_new i command d =
     \<lparr>cr_id = i, cr_deadline = d, cr_command = command, cr_timeout = None\<rparr>"

definition with_exec_timeout :: "request_id \<Rightarrow> instant \<Rightarrow> string \<Rightarrow> duration \<Rightarrow> command_request" where
  "with_exec_timeout i now command timeout =
     \<lparr>cr_id = i, cr_deadline = deadline_from_now now (timeout + STARTUP_ALLOWANCE),
      cr_command = command, cr_timeout = Some timeout\<rparr>"

definition command_untimed :: "request_id \<Rightarrow> instant \<Rightarrow> string \<Rightarrow> command_request" where
  "command_untimed i now command =
     \<lparr>cr_id = i, cr_deadline = deadline_from_now now UNTIMED_DEADLINE,
      cr_command = command, cr_timeout = None\<rparr>"

record command_result =
  res_exit_status :: int
  res_stdout :: string
  res_stderr :: string
  res_success :: bool
  res_duration :: duration

record upload_file_request =
  uf_id :: request_id
  uf_deadline :: deadline
  uf_local :: string
  uf_remote :: string

record upload_text_request =
  ut_id :: request_id
  ut_deadline :: deadline
  ut_text :: string
  ut_remote :: string

record download_file_request =
  df_id :: request_id
  df_deadline :: deadline
  df_remote :: string
  df_local :: string

record download_dir_request =
  dd_id :: request_id
  dd_deadline :: deadline
  dd_remote :: string
  dd_local :: string

definition upload_file_untimed :: "request_id \<Rightarrow> instant \<Rightarrow> string \<Rightarrow> string \<Rightarrow> upload_file_request" where
  "upload_file_untimed i now loc rem =
     \<lparr>uf_id = i, uf_deadline = deadline_from_now now UNTIMED_DEADLINE, uf_local = loc, uf_remote = rem\<rparr>"

definition upload_text_untimed :: "request_id \<Rightarrow> instant \<Rightarrow> string \<Rightarrow> string \<Rightarrow> upload_text_request" where
  "upload_text_untimed i now txt rem =
     \<lparr>ut_id = i, ut_deadline = deadline_from_now now UNTIMED_DEADLINE, ut_text = txt, ut_remote = rem\<rparr>"

definition download_file_untimed :: "request_id \<Rightarrow> instant \<Rightarrow> string \<Rightarrow> string \<Rightarrow> download_file_request" where
  "download_file_untimed i now rem loc =
     \<lparr>df_id = i, df_deadline = deadline_from_now now UNTIMED_DEADLINE, df_remote = rem, df_local = loc\<rparr>"

definition download_dir_untimed :: "request_id \<Rightarrow> instant \<Rightarrow> string \<Rightarrow> string \<Rightarrow> download_dir_request" where
  "download_dir_untimed i now rem loc =
     \<lparr>dd_id = i, dd_deadline = deadline_from_now now UNTIMED_DEADLINE, dd_remote = rem, dd_local = loc\<rparr>"

section \<open>Structured errors\<close>

datatype transport_error =
    Configuration string
  | DaemonUnavailable
  | ProtocolMismatch string string              \<comment> \<open>expected, actual\<close>
  | AuthenticationFailed string
  | InteractionRequired
  | HostKeyUnknown string string                \<comment> \<open>host, fingerprint\<close>
  | HostKeyChanged string                       \<comment> \<open>host\<close>
  | HostKeyPolicyUnsupported string
  | ProxyFailed string
  | JumpFailed string
  | ConnectionFailed string
  | QueueTimeout request_id u64                 \<comment> \<open>request, after\_secs\<close>
  | ExecutionTimeout request_id u64 bool        \<comment> \<open>request, after\_secs, remote\_terminated\<close>
  | RemoteExit int string                       \<comment> \<open>status, stderr\<close>
  | OutcomeUnknown request_id string            \<comment> \<open>request, reason\<close>
  | TransferInterrupted request_id string       \<comment> \<open>request, reason\<close>
  | IntegrityMismatch string string             \<comment> \<open>expected, actual\<close>
  | LocalIo string
  | RemoteIo string
  | Cancelled request_id
  | RestartRequired string
  | UnsupportedOperation string
  | UnsupportedBackend

fun transport_code :: "transport_error \<Rightarrow> string" where
  "transport_code (Configuration _) = ''configuration''"
| "transport_code DaemonUnavailable = ''daemon_unavailable''"
| "transport_code (ProtocolMismatch _ _) = ''protocol_mismatch''"
| "transport_code (AuthenticationFailed _) = ''authentication_failed''"
| "transport_code InteractionRequired = ''interaction_required''"
| "transport_code (HostKeyUnknown _ _) = ''host_key_unknown''"
| "transport_code (HostKeyChanged _) = ''host_key_changed''"
| "transport_code (HostKeyPolicyUnsupported _) = ''host_key_policy_unsupported''"
| "transport_code (ProxyFailed _) = ''proxy_failed''"
| "transport_code (JumpFailed _) = ''jump_failed''"
| "transport_code (ConnectionFailed _) = ''connection_failed''"
| "transport_code (QueueTimeout _ _) = ''queue_timeout''"
| "transport_code (ExecutionTimeout _ _ _) = ''execution_timeout''"
| "transport_code (RemoteExit _ _) = ''remote_exit''"
| "transport_code (OutcomeUnknown _ _) = ''outcome_unknown''"
| "transport_code (TransferInterrupted _ _) = ''transfer_interrupted''"
| "transport_code (IntegrityMismatch _ _) = ''integrity_mismatch''"
| "transport_code (LocalIo _) = ''local_io''"
| "transport_code (RemoteIo _) = ''remote_io''"
| "transport_code (Cancelled _) = ''cancelled''"
| "transport_code (RestartRequired _) = ''restart_required''"
| "transport_code (UnsupportedOperation _) = ''unsupported_operation''"
| "transport_code UnsupportedBackend = ''unsupported_backend''"

fun transport_retryable :: "transport_error \<Rightarrow> bool" where
  "transport_retryable (QueueTimeout _ _) = True"
| "transport_retryable (ConnectionFailed _) = True"
| "transport_retryable (ExecutionTimeout _ _ remote_terminated) = remote_terminated"
| "transport_retryable _ = False"

fun transport_exit_code :: "transport_error \<Rightarrow> int" where
  "transport_exit_code (Configuration _) = USAGE_ERROR"
| "transport_exit_code UnsupportedBackend = USAGE_ERROR"
| "transport_exit_code (AuthenticationFailed _) = USAGE_ERROR"
| "transport_exit_code _ = GENERAL_ERROR"

fun display_transport_error :: "transport_error \<Rightarrow> string" where
  "display_transport_error (Configuration m) = ''transport misconfigured: '' @ m"
| "display_transport_error DaemonUnavailable = ''transport daemon is not running''"
| "display_transport_error (ProtocolMismatch expected actual) =
     ''transport protocol mismatch: expected '' @ expected @ '', got '' @ actual"
| "display_transport_error (AuthenticationFailed m) = ''authentication failed: '' @ m"
| "display_transport_error InteractionRequired =
     ''interactive input required but this session is not interactive''"
| "display_transport_error (HostKeyUnknown host fingerprint) =
     ''unknown host key for '' @ host @ '' ('' @ fingerprint @ '')''"
| "display_transport_error (HostKeyChanged host) = ''host key for '' @ host @ '' changed''"
| "display_transport_error (HostKeyPolicyUnsupported m) = ''unsupported host key policy: '' @ m"
| "display_transport_error (ProxyFailed m) = ''proxy connection failed: '' @ m"
| "display_transport_error (JumpFailed m) = ''jump host connection failed: '' @ m"
| "display_transport_error (ConnectionFailed m) = ''connection failed: '' @ m"
| "display_transport_error (QueueTimeout _ s) =
     ''queued for '' @ show_nat (unat s) @ ''s without starting''"
| "display_transport_error (ExecutionTimeout _ s remote_terminated) =
     (if remote_terminated
      then ''timed out after '' @ show_nat (unat s) @ ''s and was terminated''
      else ''timed out after '' @ show_nat (unat s) @ ''s; termination unproven'')"
| "display_transport_error (RemoteExit status err) =
     ''remote command exited with '' @ show_int status @ '': '' @ err"
| "display_transport_error (OutcomeUnknown _ reason) =
     ''outcome unknown, the operation may have run: '' @ reason"
| "display_transport_error (TransferInterrupted _ reason) = ''transfer interrupted: '' @ reason"
| "display_transport_error (IntegrityMismatch expected actual) =
     ''integrity check failed: expected '' @ expected @ '', got '' @ actual"
| "display_transport_error (LocalIo m) = ''local io error: '' @ m"
| "display_transport_error (RemoteIo m) = ''remote io error: '' @ m"
| "display_transport_error (Cancelled _) = ''cancelled''"
| "display_transport_error (RestartRequired m) = ''transport restart required: '' @ m"
| "display_transport_error (UnsupportedOperation op) = ''operation not supported: '' @ op"
| "display_transport_error UnsupportedBackend =
     ''this build was compiled without the selected ssh backend''"

text \<open>\<open>impl From<TransportError> for VirtuosoError\<close>.\<close>

fun virtuoso_of_transport :: "transport_error \<Rightarrow> virtuoso_error" where
  "virtuoso_of_transport (Configuration m) = Config m"
| "virtuoso_of_transport (AuthenticationFailed m) = Auth m"
| "virtuoso_of_transport (ConnectionFailed m) = Connection m"
| "virtuoso_of_transport (QueueTimeout _ s) = Timeout s"
| "virtuoso_of_transport (ExecutionTimeout _ s _) = Timeout s"
| "virtuoso_of_transport (RemoteExit _ err) = Execution err"
| "virtuoso_of_transport (OutcomeUnknown _ reason) = Execution reason"
| "virtuoso_of_transport (LocalIo m) = Ssh m"
| "virtuoso_of_transport (RemoteIo m) = Ssh m"
| "virtuoso_of_transport other = Ssh (display_transport_error other)"

section \<open>The default methods of the trait\<close>

text \<open>
  \<open>Path::file_name\<close>: the last normal component; empty and \<open>.\<close> components are not components,
  and a path that ends in \<open>..\<close> has no file name.  \<open>PathBuf::push\<close> of a relative component.
\<close>

definition path_file_name :: "string \<Rightarrow> string option" where
  "path_file_name p =
     (let cs = filter (\<lambda>c. c \<noteq> [] \<and> c \<noteq> ''.'') (split_char (CHR ''/'') p)
      in if cs = [] \<or> last cs = ''..'' then None else Some (last cs))"

definition path_push :: "string \<Rightarrow> string \<Rightarrow> string" where
  "path_push dir c =
     (if dir = [] then c else if last dir = CHR ''/'' then dir @ c else dir @ ''/'' @ c)"

definition fetch_file_request ::
    "request_id \<Rightarrow> instant \<Rightarrow> string \<Rightarrow> string \<Rightarrow> duration \<Rightarrow> download_file_request" where
  "fetch_file_request i now rem local_dir timeout =
     \<lparr>df_id = i, df_deadline = deadline_from_now now (timeout + STARTUP_ALLOWANCE), df_remote = rem,
      df_local = path_push local_dir
        (case path_file_name rem of Some n \<Rightarrow> n | None \<Rightarrow> ''fetched'')\<rparr>"

definition default_start_local_forward :: "transport_error + unit" where
  "default_start_local_forward = Inl (UnsupportedOperation ''start_local_forward'')"

definition default_stop_local_forward :: "transport_error + unit" where
  "default_stop_local_forward = Inl (UnsupportedOperation ''stop_local_forward'')"

definition default_health :: "transport_error + unit" where
  "default_health = Inl (UnsupportedOperation ''health'')"

definition default_shutdown :: "transport_error + unit" where
  "default_shutdown = Inl (UnsupportedOperation ''shutdown'')"

section \<open>Properties\<close>

lemma remaining_secs_pos: "1 \<le> remaining_secs now d"
  by (simp add: remaining_secs_def)

lemma remaining_zero_iff: "remaining now d = 0 \<longleftrightarrow> is_expired now d"
  by (auto simp: remaining_def is_expired_def)

lemma virtuoso_of_transport_never_retries_unknown:
  "\<not> virtuoso_retryable (virtuoso_of_transport (OutcomeUnknown r m))"
  by simp

text \<open>
  Sending a deadline over IPC as absolute milliseconds and reading it back in a process with
  the same clock anchor never extends it, and shortens it by less than one millisecond, for every
  deadline at or after the anchor whose wall-clock form fits in 64 bits.
\<close>
theorem deadline_unix_roundtrip:
  assumes "anchor_instant \<le> d" and "anchor_ms + as_millis (d - anchor_instant) \<le> u64_max"
  defines "d' \<equiv> from_unix_ms (anchor_instant, anchor_ms) (to_unix_ms (anchor_instant, anchor_ms) d)"
  shows "d' \<le> d \<and> d < d' + from_millis 1"
proof -
  let ?k = "as_millis (d - anchor_instant)"
  have "to_unix_ms (anchor_instant, anchor_ms) d = anchor_ms + ?k"
    using assms(2) by (simp add: to_unix_ms_def sat_add_u64_def trunc_u64_id)
  then have "d' = anchor_instant + ?k * 1000000"
    by (simp add: d'_def from_unix_ms_def)
  moreover have "?k * 1000000 \<le> d - anchor_instant" and "d - anchor_instant < ?k * 1000000 + 1000000"
    by (simp_all add: div_times_less_eq_dividend dividend_less_div_times add.commute)
  ultimately show ?thesis using assms(1) by linarith
qed

theorem deadline_unix_roundtrip_witness:
  "from_unix_ms (5000000, 1700000000000) (to_unix_ms (5000000, 1700000000000) 12345678) \<le> 12345678 \<and>
   12345678 < from_unix_ms (5000000, 1700000000000) (to_unix_ms (5000000, 1700000000000) 12345678)
     + from_millis 1"
  using deadline_unix_roundtrip [of 5000000 12345678 1700000000000] by simp

text \<open>
  Converting a transport error into the error of the commands keeps whether a retry is allowed,
  with one exception: a timeout whose remote termination was not proven is not retryable as a
  transport error, and becomes a retryable \<open>Timeout\<close>.
\<close>
theorem conversion_retryable_iff:
  "virtuoso_retryable (virtuoso_of_transport e) \<longleftrightarrow>
     transport_retryable e \<or> (\<exists>r s. e = ExecutionTimeout r s False)"
  by (cases e) auto

text \<open>
  The conversion keeps the process exit code of every transport error except
  \<open>UnsupportedBackend\<close>, a usage error (2) as a transport error and a general error (1) once
  converted.
\<close>
theorem conversion_exit_code:
  "virtuoso_exit_code (virtuoso_of_transport e) =
     (if e = UnsupportedBackend then GENERAL_ERROR else transport_exit_code e)"
  by (cases e) simp_all

end
