(* ===== verification/Lifecycle.thy ===== *)
theory Lifecycle
  imports Contract
begin

unbundle bit_operations_syntax

text \<open>
  \<open>src/transport/lifecycle.rs\<close>: the classification of failures, the reconnect backoff with its
  jitter, the circuit breaker, the keepalive policy, the cancellation token and the three-phase
  shutdown.

  The configuration fields that the constructors read are arguments.  Casts between integer
  types are written out: \<open>as u64\<close> on \<open>u128\<close> truncates, \<open>as i64\<close> on \<open>u64\<close> reads two's complement.
\<close>

section \<open>Failure classes\<close>

datatype failure_class = Transient | Permanent | RequestLevel

fun failure_class_of :: "transport_error \<Rightarrow> failure_class" where
  "failure_class_of (Configuration _) = Permanent"
| "failure_class_of (UnsupportedOperation _) = Permanent"
| "failure_class_of UnsupportedBackend = Permanent"
| "failure_class_of (ProtocolMismatch _ _) = Permanent"
| "failure_class_of (RestartRequired _) = Permanent"
| "failure_class_of (HostKeyUnknown _ _) = Permanent"
| "failure_class_of (HostKeyChanged _) = Permanent"
| "failure_class_of (HostKeyPolicyUnsupported _) = Permanent"
| "failure_class_of (AuthenticationFailed _) = Permanent"
| "failure_class_of InteractionRequired = Permanent"
| "failure_class_of (ProxyFailed _) = Permanent"
| "failure_class_of (ConnectionFailed _) = Transient"
| "failure_class_of DaemonUnavailable = Transient"
| "failure_class_of (JumpFailed _) = Transient"
| "failure_class_of (LocalIo _) = Transient"
| "failure_class_of (QueueTimeout _ _) = RequestLevel"
| "failure_class_of (ExecutionTimeout _ _ _) = RequestLevel"
| "failure_class_of (RemoteExit _ _) = RequestLevel"
| "failure_class_of (OutcomeUnknown _ _) = RequestLevel"
| "failure_class_of (TransferInterrupted _ _) = RequestLevel"
| "failure_class_of (IntegrityMismatch _ _) = RequestLevel"
| "failure_class_of (RemoteIo _) = RequestLevel"
| "failure_class_of (Cancelled _) = RequestLevel"

section \<open>Reconnect policy\<close>

record reconnect_policy =
  max_attempts :: u32
  max_delay :: duration
  base :: duration

text \<open>The arguments are \<open>config.ssh_reconnect_max_attempts\<close> and \<open>config.ssh_reconnect_max_delay\<close>.\<close>

definition reconnect_from_config :: "u32 \<Rightarrow> u64 \<Rightarrow> transport_error + reconnect_policy" where
  "reconnect_from_config attempts delay_secs =
     (let md = from_secs (unat delay_secs) in
      if md = 0 then Inl (Configuration ''VB_SSH_RECONNECT_MAX_DELAY must be at least 1'')
      else if attempts = 0 then Inl (Configuration ''VB_SSH_RECONNECT_MAX_ATTEMPTS must be at least 1'')
      else Inr \<lparr>max_attempts = attempts, max_delay = md, base = from_secs 1\<rparr>)"

definition may_retry :: "reconnect_policy \<Rightarrow> u32 \<Rightarrow> bool" where
  "may_retry p attempt \<longleftrightarrow> attempt \<le> max_attempts p"

definition duration_max :: duration where
  "duration_max = 2 ^ 64 * 1000000000 - 1"

definition saturating_mul :: "duration \<Rightarrow> nat \<Rightarrow> duration" where
  "saturating_mul d k = min (d * k) duration_max"

definition delay_for_attempt :: "reconnect_policy \<Rightarrow> u32 \<Rightarrow> duration" where
  "delay_for_attempt p attempt =
     (let e = min (unat attempt - 1) 30;
          raw = saturating_mul (base p) (2 ^ e)
      in min raw (max_delay p))"

definition splitmix64 :: "u64 \<Rightarrow> u64" where
  "splitmix64 x0 =
     (let x = x0 + 0x9E3779B97F4A7C15;
          z = x;
          z = (z XOR drop_bit 30 z) * 0xBF58476D1CE4E5B9;
          z = (z XOR drop_bit 27 z) * 0x94D049BB133111EB
      in z XOR drop_bit 31 z)"

definition as_i64 :: "nat \<Rightarrow> int" where
  "as_i64 n = sint (of_nat n :: u64)"

definition jittered_delay :: "reconnect_policy \<Rightarrow> u32 \<Rightarrow> u64 \<Rightarrow> duration" where
  "jittered_delay p attempt seed =
     (let b = delay_for_attempt p attempt;
          spread = trunc_u64 (as_millis (base p)) div 4;
          offset = as_i64 (unat (splitmix64 seed) mod (2 * spread + 1)) - as_i64 spread;
          millis = nat (max (as_i64 (as_millis b) + offset) 0)
      in from_millis (min millis (trunc_u64 (as_millis (max_delay p)))))"

section \<open>Circuit breaker\<close>

record circuit_breaker =
  threshold :: u32
  degraded :: bool
  consecutive_failures :: u32

definition breaker_new :: "u32 \<Rightarrow> circuit_breaker" where
  "breaker_new th = \<lparr>threshold = max th 1, degraded = False, consecutive_failures = 0\<rparr>"

definition is_degraded :: "circuit_breaker \<Rightarrow> bool" where
  "is_degraded b = degraded b"

definition record_failure :: "circuit_breaker \<Rightarrow> bool \<times> circuit_breaker" where
  "record_failure b =
     (if degraded b then (False, b)
      else let n = consecutive_failures b + 1;
               b' = b\<lparr>consecutive_failures := n\<rparr>
           in if n \<ge> threshold b then (True, b'\<lparr>degraded := True\<rparr>) else (False, b'))"

definition record_success :: "circuit_breaker \<Rightarrow> circuit_breaker" where
  "record_success b = b\<lparr>consecutive_failures := 0\<rparr>"

definition breaker_reset :: "circuit_breaker \<Rightarrow> circuit_breaker" where
  "breaker_reset b = b\<lparr>degraded := False, consecutive_failures := 0\<rparr>"

datatype breaker_event = Failure | Success | Reset

fun breaker_step :: "circuit_breaker \<Rightarrow> breaker_event \<Rightarrow> circuit_breaker" where
  "breaker_step b Failure = snd (record_failure b)"
| "breaker_step b Success = record_success b"
| "breaker_step b Reset = breaker_reset b"

fun breaker_run :: "circuit_breaker \<Rightarrow> breaker_event list \<Rightarrow> circuit_breaker" where
  "breaker_run b [] = b"
| "breaker_run b (e # es) = breaker_run (breaker_step b e) es"

section \<open>Keepalive, cancellation and shutdown\<close>

record keepalive_policy =
  interval :: duration
  max_failures :: u32

text \<open>The arguments are \<open>config.ssh_keepalive_interval\<close> and \<open>config.ssh_keepalive_failures\<close>.\<close>

definition keepalive_from_config :: "u64 \<Rightarrow> u32 \<Rightarrow> transport_error + keepalive_policy" where
  "keepalive_from_config secs failures =
     (if secs = 0 then Inl (Configuration ''VB_SSH_KEEPALIVE_INTERVAL must be at least 1'')
      else if failures = 0 then Inl (Configuration ''VB_SSH_KEEPALIVE_FAILURES must be at least 1'')
      else Inr \<lparr>interval = from_secs (unat secs), max_failures = failures\<rparr>)"

record cancellation_token =
  cancelled :: bool

definition token_new :: cancellation_token where
  "token_new = \<lparr>cancelled = False\<rparr>"

definition token_cancel :: "cancellation_token \<Rightarrow> cancellation_token" where
  "token_cancel t = t\<lparr>cancelled := True\<rparr>"

definition is_cancelled :: "cancellation_token \<Rightarrow> bool" where
  "is_cancelled t = cancelled t"

text \<open>
  \<open>ShutdownCoordinator::execute\<close>.  The three hooks act on the caller's state \<open>'s\<close>.  Each round of
  the wait reads the clock, asks \<open>all_done\<close>, and sleeps for 10 ms or longer, during which the rest
  of the program runs: \<open>tick\<close> gives the state after the sleep and its length.  The rounds are
  bounded by the grace, so the loop is a recursion on the time left; it returns the clock reading
  of its last round beside the state.
\<close>

function grace_loop ::
    "('s \<Rightarrow> bool) \<Rightarrow> ('s \<Rightarrow> instant \<Rightarrow> 's \<times> duration) \<Rightarrow> instant \<Rightarrow> instant \<Rightarrow> 's \<Rightarrow>
     instant \<times> 's" where
  "grace_loop all_done tick limit now s =
     (if now < limit \<and> \<not> all_done s
      then case tick s now of (s', slept) \<Rightarrow>
             grace_loop all_done tick limit (now + max (from_millis 10) slept) s'
      else (now, s))"
  by pat_completeness auto
termination
  by (relation "measure (\<lambda>(d, t, limit, now, s). limit - now)") auto

declare grace_loop.simps [simp del]

definition shutdown_execute ::
    "duration \<Rightarrow> ('s \<Rightarrow> 's) \<Rightarrow> ('s \<Rightarrow> bool) \<Rightarrow> ('s \<Rightarrow> 's) \<Rightarrow>
     ('s \<Rightarrow> instant \<Rightarrow> 's \<times> duration) \<Rightarrow> instant \<Rightarrow> 's \<Rightarrow> 's" where
  "shutdown_execute grace stop_admission all_done cancel_remaining tick now s =
     (let s1 = stop_admission s;
          s2 = snd (grace_loop all_done tick (now + grace) now s1)
      in cancel_remaining s2)"

section \<open>Properties of the backoff\<close>

text \<open>
  A failure the lifecycle calls permanent is never reported as retryable, and of the failures
  that belong to one request only those that prove the remote side is not running are.
\<close>
theorem retryable_not_permanent:
  "transport_retryable e \<longleftrightarrow>
     (failure_class_of e = Transient \<and> (\<exists>m. e = ConnectionFailed m)) \<or>
     (failure_class_of e = RequestLevel \<and>
        ((\<exists>r s. e = QueueTimeout r s) \<or> (\<exists>r s. e = ExecutionTimeout r s True)))"
  by (cases e) auto

lemma permanent_not_retryable: "failure_class_of e = Permanent \<Longrightarrow> \<not> transport_retryable e"
  by (cases e) simp_all

lemma reconnect_from_configD:
  assumes "reconnect_from_config att ds = Inr p"
  shows "base p = from_secs 1" and "max_delay p = from_secs (unat ds)" and "max_attempts p = att"
    and "1 \<le> unat ds" and "att \<noteq> 0"
  using assms by (auto simp: reconnect_from_config_def Let_def Suc_le_eq split: if_splits)

lemma delay_le_max: "delay_for_attempt p n \<le> max_delay p"
  by (simp add: delay_for_attempt_def Let_def)

lemma delay_mono:
  assumes "m \<le> n"
  shows "delay_for_attempt p m \<le> delay_for_attempt p n"
proof -
  have "min (unat m - 1) 30 \<le> min (unat n - 1) 30"
    using assms by (simp add: word_le_nat_alt min.coboundedI1 min.coboundedI2 diff_le_mono)
  then have "(2::nat) ^ min (unat m - 1) 30 \<le> 2 ^ min (unat n - 1) 30"
    by (rule power_increasing) simp
  then have "base p * 2 ^ min (unat m - 1) 30 \<le> base p * 2 ^ min (unat n - 1) 30"
    by (rule mult_left_mono) simp
  then show ?thesis
    by (simp add: delay_for_attempt_def saturating_mul_def Let_def min_le_iff_disj)
qed

lemma delay_closed_form:
  assumes "reconnect_from_config att ds = Inr p"
  shows "delay_for_attempt p n = from_secs (min (2 ^ min (unat n - 1) 30) (unat ds))"
proof -
  have pow: "(2::nat) ^ min (unat n - 1) 30 \<le> 2 ^ 30"
    by (rule power_increasing) simp_all
  then have "saturating_mul (from_secs 1) (2 ^ min (unat n - 1) 30) = from_secs (2 ^ min (unat n - 1) 30)"
    by (simp add: saturating_mul_def duration_max_def)
  then show ?thesis
    using reconnect_from_configD(1,2) [OF assms]
    by (simp add: delay_for_attempt_def Let_def min_def)
qed

text \<open>
  Under a policy built from a configuration, the wait before attempt \<open>n\<close> is one second doubled
  for every attempt after the first (the exponent stops at 30), never more than the configured
  maximum, and never less than the wait before an earlier attempt.
\<close>
theorem backoff_doubles_up_to_cap:
  assumes "reconnect_from_config att ds = Inr p"
  shows "delay_for_attempt p n = from_secs (min (2 ^ min (unat n - 1) 30) (unat ds)) \<and>
    delay_for_attempt p n \<le> max_delay p \<and>
    (\<forall>m \<le> n. delay_for_attempt p m \<le> delay_for_attempt p n)"
  using delay_closed_form [OF assms] delay_le_max delay_mono by blast

theorem backoff_doubles_up_to_cap_witness:
  "delay_for_attempt \<lparr>max_attempts = 8, max_delay = from_secs 30, base = from_secs 1\<rparr> 5 = from_secs 16"
proof -
  have "reconnect_from_config 8 30 = Inr \<lparr>max_attempts = 8, max_delay = from_secs 30, base = from_secs 1\<rparr>"
    by (simp add: reconnect_from_config_def)
  from backoff_doubles_up_to_cap [OF this, of 5] show ?thesis by simp
qed

lemma as_i64_small:
  assumes "n < 2 ^ 63"
  shows "as_i64 n = int n"
proof -
  have "sint (of_nat n :: u64) = signed_take_bit 63 (int n)"
    by (simp add: signed_of_nat)
  also have "\<dots> = int n"
    using assms by (intro signed_take_bit_int_eq_self) auto
  finally show ?thesis by (simp add: as_i64_def)
qed

lemma jitter_offset_range:
  assumes "k < 2 ^ 62"
  shows "- int k \<le> as_i64 (r mod (2 * k + 1)) - as_i64 k \<and> as_i64 (r mod (2 * k + 1)) - as_i64 k \<le> int k"
proof -
  let ?m = "r mod (2 * k + 1)"
  have m: "?m < 2 * k + 1" by simp
  have le: "2 * k + 1 \<le> 2 ^ 63" and k: "k < 2 ^ 63" using assms by simp_all
  from m le have "?m < 2 ^ 63" by (rule less_le_trans)
  then have "as_i64 ?m = int ?m" and "as_i64 k = int k" using k by (simp_all only: as_i64_small)
  with m show ?thesis by linarith
qed

text \<open>
  Under a policy built from a configuration whose maximum delay fits in 64-bit milliseconds,
  the jittered wait stays within a quarter of a second of the plain backoff and never exceeds the
  configured maximum, whatever the seed.
\<close>
theorem jitter_bounded:
  assumes "reconnect_from_config att ds = Inr p" and "unat ds * 1000 \<le> u64_max"
  shows "delay_for_attempt p n \<le> jittered_delay p n seed + from_millis 250 \<and>
    jittered_delay p n seed \<le> delay_for_attempt p n + from_millis 250 \<and>
    jittered_delay p n seed \<le> max_delay p"
proof -
  define w where "w = min (2 ^ min (unat n - 1) 30) (unat ds)"
  define off where "off = as_i64 (unat (splitmix64 seed) mod (2 * 250 + 1)) - as_i64 250"
  have d: "delay_for_attempt p n = from_secs w"
    unfolding w_def by (rule delay_closed_form [OF assms(1)])
  have "w \<le> 2 ^ 30"
    unfolding w_def by (rule min.coboundedI1, rule power_increasing) simp_all
  then have ms: "as_i64 (1000 * w) = int (1000 * w)"
    by (intro as_i64_small) simp
  have off: "- 250 \<le> off \<and> off \<le> 250"
    using jitter_offset_range [of 250 "unat (splitmix64 seed)"] by (simp add: off_def)
  have w: "w \<le> unat ds" by (simp add: w_def)
  have cap: "trunc_u64 (as_millis (max_delay p)) = 1000 * unat ds"
    using assms(2) reconnect_from_configD(2) [OF assms(1)] by (simp add: trunc_u64_id)
  have spread: "trunc_u64 (as_millis (base p)) div 4 = 250"
    using reconnect_from_configD(1) [OF assms(1)] by (simp add: trunc_u64_def)
  have j: "jittered_delay p n seed = from_millis (min (nat (max (int (1000 * w) + off) 0)) (1000 * unat ds))"
    unfolding jittered_delay_def Let_def d cap spread off_def [symmetric]
    by (simp add: ms [simplified])
  show ?thesis
    unfolding j d reconnect_from_configD(2) [OF assms(1)] using off w by (auto simp: min_def max_def)
qed

theorem jitter_bounded_witness:
  "jittered_delay \<lparr>max_attempts = 8, max_delay = from_secs 30, base = from_secs 1\<rparr> 7 99 \<le> from_secs 30"
proof -
  have "reconnect_from_config 8 30 = Inr \<lparr>max_attempts = 8, max_delay = from_secs 30, base = from_secs 1\<rparr>"
    by (simp add: reconnect_from_config_def)
  from jitter_bounded [OF this, of 7 99] show ?thesis by simp
qed

section \<open>Properties of the circuit breaker\<close>

text \<open>The breaker's invariant: while it is closed, the count is below the threshold.\<close>

definition breaker_ok :: "circuit_breaker \<Rightarrow> bool" where
  "breaker_ok b \<longleftrightarrow> 1 \<le> threshold b \<and> (degraded b \<or> consecutive_failures b < threshold b)"

lemma breaker_new_ok: "breaker_ok (breaker_new th)"
  by (auto simp: breaker_ok_def breaker_new_def max_def word_le_nat_alt word_less_nat_alt)

lemma threshold_step [simp]: "threshold (breaker_step b e) = threshold b"
  by (cases e) (simp_all add: record_failure_def record_success_def breaker_reset_def Let_def)

lemma threshold_run [simp]: "threshold (breaker_run b es) = threshold b"
  by (induction es arbitrary: b) simp_all

lemma breaker_run_append: "breaker_run b (es @ fs) = breaker_run (breaker_run b es) fs"
  by (induction es arbitrary: b) simp_all

lemma unat_succ_below: "(x :: u32) < y \<Longrightarrow> unat (x + 1) = Suc (unat x)"
  using unsigned_less [of y, where 'a = nat] by (simp add: word_less_nat_alt unat_word_ariths)

lemma breaker_step_ok: "breaker_ok b \<Longrightarrow> breaker_ok (breaker_step b e)"
  by (cases e)
    (auto simp: breaker_ok_def record_failure_def record_success_def breaker_reset_def Let_def
      word_le_nat_alt word_less_nat_alt)

lemma breaker_run_reset: "es = [] \<or> last es = Reset \<Longrightarrow> breaker_run (breaker_new th) es = breaker_new th"
proof (cases es rule: rev_cases)
  case (snoc fs e)
  assume "es = [] \<or> last es = Reset"
  with snoc have "breaker_run (breaker_new th) es = breaker_reset (breaker_run (breaker_new th) fs)"
    by (simp add: breaker_run_append)
  moreover have "threshold (breaker_run (breaker_new th) fs) = max th 1"
    by (simp add: breaker_new_def)
  ultimately show ?thesis
    by (simp add: breaker_new_def breaker_reset_def)
qed simp

text \<open>The length of the run of failures at the end of a history, and whether one ever got long.\<close>

fun streak :: "breaker_event list \<Rightarrow> nat" where
  "streak es = length (takeWhile (\<lambda>e. e = Failure) (rev es))"

declare streak.simps [simp del]

lemma streak_simps [simp]:
  "streak [] = 0" "streak (es @ [Failure]) = Suc (streak es)" "streak (es @ [Success]) = 0"
  by (simp_all add: streak.simps)

lemma streak_suffix: "k \<le> streak es \<Longrightarrow> \<exists>pre. es = pre @ replicate k Failure"
proof (induction es arbitrary: k rule: rev_induct)
  case (snoc e es)
  show ?case
  proof (cases k)
    case (Suc j)
    with snoc.prems have e: "e = Failure" and "j \<le> streak es"
      by (cases e; simp add: streak.simps)+
    then obtain pre where "es = pre @ replicate j Failure" using snoc.IH by blast
    with e Suc show ?thesis by (auto simp: replicate_append_same)
  qed simp
qed simp

lemma streak_replicate: "k \<le> streak (pre @ replicate k Failure)"
  by (induction k) (auto simp: replicate_append_same [symmetric] simp flip: append_assoc)

definition failures_in_a_row :: "nat \<Rightarrow> breaker_event list \<Rightarrow> bool" where
  "failures_in_a_row k es \<longleftrightarrow> (\<exists>pre post. es = pre @ replicate k Failure @ post)"

lemma failures_in_a_row_snoc:
  "failures_in_a_row k (es @ [e]) \<longleftrightarrow> failures_in_a_row k es \<or> k \<le> streak (es @ [e])"
proof
  assume "failures_in_a_row k (es @ [e])"
  then obtain pre post where *: "es @ [e] = pre @ replicate k Failure @ post"
    by (auto simp: failures_in_a_row_def)
  show "failures_in_a_row k es \<or> k \<le> streak (es @ [e])"
  proof (cases post rule: rev_cases)
    case Nil
    with * have "k \<le> streak (es @ [e])" by (simp add: streak_replicate)
    then show ?thesis ..
  next
    case (snoc post' x)
    with * have "es = pre @ replicate k Failure @ post'" by (metis append.assoc butlast_snoc)
    then show ?thesis by (auto simp: failures_in_a_row_def)
  qed
next
  assume "failures_in_a_row k es \<or> k \<le> streak (es @ [e])"
  then show "failures_in_a_row k (es @ [e])"
  proof
    assume "failures_in_a_row k es"
    then show ?thesis unfolding failures_in_a_row_def by (metis append.assoc)
  next
    assume "k \<le> streak (es @ [e])"
    then show ?thesis unfolding failures_in_a_row_def by (metis append.right_neutral streak_suffix)
  qed
qed

lemma breaker_run_streak:
  fixes th :: u32
  assumes "Reset \<notin> set es"
  defines "b \<equiv> breaker_run (breaker_new th) es" and "k \<equiv> unat (max th 1)"
  shows "(degraded b \<longleftrightarrow> failures_in_a_row k es) \<and>
    (\<not> degraded b \<longrightarrow> unat (consecutive_failures b) = streak es)"
  using assms(1) unfolding b_def
proof (induction es rule: rev_induct)
  case Nil
  have "0 < k" by (auto simp: k_def max_def unat_gt_0)
  then show ?case by (simp add: breaker_new_def failures_in_a_row_def)
next
  case (snoc e es)
  let ?b = "breaker_run (breaker_new th) es"
  have IH: "degraded ?b \<longleftrightarrow> failures_in_a_row k es"
    "\<not> degraded ?b \<Longrightarrow> unat (consecutive_failures ?b) = streak es"
    using snoc by simp_all
  have th: "unat (threshold (breaker_new th)) = k" by (simp add: breaker_new_def k_def)
  have ok: "breaker_ok ?b"
    by (induction es rule: rev_induct) (simp_all add: breaker_new_ok breaker_run_append breaker_step_ok)
  have k: "0 < k" by (auto simp: k_def max_def unat_gt_0)
  show ?case
  proof (cases e)
    case Failure
    show ?thesis
    proof (cases "degraded ?b")
      case True
      with IH Failure show ?thesis
        by (simp add: breaker_run_append record_failure_def failures_in_a_row_snoc)
    next
      case False
      with ok have "consecutive_failures ?b < threshold ?b" by (simp add: breaker_ok_def)
      then have "unat (consecutive_failures ?b + 1) = Suc (streak es)"
        using IH(2) [OF False] by (simp add: unat_succ_below)
      with False Failure IH(1) show ?thesis
        by (simp add: breaker_run_append record_failure_def failures_in_a_row_snoc Let_def
            word_le_nat_alt th)
    qed
  next
    case Success
    with IH k show ?thesis
      by (simp add: breaker_run_append record_success_def failures_in_a_row_snoc)
  next
    case Reset
    with snoc.prems show ?thesis by simp
  qed
qed

text \<open>
  The endpoint is degraded exactly when, since the last explicit reset, some run of consecutive
  transient failures reached the threshold (at least one).  A success breaks a run; nothing but a
  reset clears the degraded state; the counter never wraps.
\<close>
theorem breaker_degraded_iff:
  assumes "before = [] \<or> last before = Reset" and "Reset \<notin> set es"
  shows "is_degraded (breaker_run (breaker_new th) (before @ es)) \<longleftrightarrow>
    (\<exists>pre post. es = pre @ replicate (unat (max th 1)) Failure @ post)"
  using breaker_run_streak [OF assms(2), of th] breaker_run_reset [OF assms(1), of th]
  by (simp add: breaker_run_append is_degraded_def failures_in_a_row_def)

theorem breaker_degraded_iff_witness:
  "is_degraded (breaker_run (breaker_new 2) ([Failure, Reset] @ [Failure, Success, Failure, Failure]))"
proof -
  have k: "unat (max (2::u32) 1) = 2" by (simp add: max_def word_le_nat_alt)
  have "[Failure, Success, Failure, Failure] = [Failure, Success] @ replicate 2 Failure @ []"
    by (simp add: numeral_2_eq_2)
  then have "\<exists>pre post. [Failure, Success, Failure, Failure] =
      pre @ replicate (unat (max (2::u32) 1)) Failure @ post"
    unfolding k by blast
  then show ?thesis
    using breaker_degraded_iff [of "[Failure, Reset]" "[Failure, Success, Failure, Failure]" 2] by simp
qed

section \<open>Properties of the shutdown\<close>

lemma grace_loop_exit:
  "grace_loop all_done tick limit now s = (t, s') \<Longrightarrow> all_done s' \<or> limit \<le> t"
proof (induction all_done tick limit now s rule: grace_loop.induct)
  case (1 all_done tick limit now s)
  show ?case
  proof (cases "now < limit \<and> \<not> all_done s")
    case True
    with 1 show ?thesis by (cases "tick s now") (simp add: grace_loop.simps [of _ _ limit now])
  next
    case False
    with "1.prems" show ?thesis by (auto simp: grace_loop.simps [of _ _ limit now])
  qed
qed

lemma grace_loop_bound:
  assumes "\<And>s now. snd (tick s now) \<le> \<delta>" and "from_millis 10 \<le> \<delta>" and "now < limit + \<delta>"
    and "grace_loop all_done tick limit now s = (t, s')"
  shows "t < limit + \<delta>"
  using assms
proof (induction all_done tick limit now s rule: grace_loop.induct)
  case (1 all_done tick limit now s)
  show ?case
  proof (cases "now < limit \<and> \<not> all_done s")
    case True
    obtain u d where ud: "tick s now = (u, d)" by (cases "tick s now")
    with "1.prems"(1) [of s now] have "d \<le> \<delta>" by simp
    with True "1.prems"(2) have "now + max (from_millis 10) d < limit + \<delta>" by (simp add: max_def)
    from "1.IH" [OF True ud [symmetric] "1.prems"(1,2) this] "1.prems"(4) True ud
    show ?thesis by (simp add: grace_loop.simps [of _ _ limit now])
  next
    case False
    with "1.prems" show ?thesis by (auto simp: grace_loop.simps [of _ _ limit now])
  qed
qed

text \<open>
  A shutdown always reaches its cancel phase: the wait ends either because the work is done or
  because the grace has passed, and no later than one sleep after the grace.  The cancel hook then
  runs on the state the wait ended in, and the admission hook ran before it.
\<close>
theorem shutdown_bounded_and_cancels:
  assumes "\<And>s now. snd (tick s now) \<le> \<delta>" and "from_millis 10 \<le> \<delta>"
  shows "\<exists>t s'. grace_loop all_done tick (now + grace) now (stop_admission s) = (t, s') \<and>
    (all_done s' \<or> now + grace \<le> t) \<and> t < now + grace + \<delta> \<and>
    shutdown_execute grace stop_admission all_done cancel_remaining tick now s = cancel_remaining s'"
proof -
  obtain t s' where *: "grace_loop all_done tick (now + grace) now (stop_admission s) = (t, s')"
    by (cases "grace_loop all_done tick (now + grace) now (stop_admission s)")
  have "now < now + grace + \<delta>" using assms(2) by simp
  from grace_loop_bound [OF assms this *] grace_loop_exit [OF *] * show ?thesis
    by (auto simp: shutdown_execute_def)
qed

theorem shutdown_bounded_and_cancels_witness:
  "\<exists>t s'. grace_loop (\<lambda>n. n = (0::nat)) (\<lambda>n _. (n - 1, from_millis 10)) (0 + from_secs 10) 0 (id 3) = (t, s') \<and>
    (s' = 0 \<or> 0 + from_secs 10 \<le> t) \<and> t < 0 + from_secs 10 + from_millis 10 \<and>
    shutdown_execute (from_secs 10) id (\<lambda>n. n = 0) id (\<lambda>n _. (n - 1, from_millis 10)) 0 3 = id s'"
  by (rule shutdown_bounded_and_cancels) simp_all

end
