(* ===== verification/Scheduler.thy ===== *)
theory Scheduler
  imports Contract
begin

text \<open>
  \<open>src/transport/scheduler.rs\<close>: the admission control of one pooled SSH connection.

  The mutex-protected \<open>State\<close> is the record \<open>state\<close>; every method of \<open>SessionScheduler\<close> is a
  function on it.  \<open>acquire\<close> holds the lock except while it waits on the condition variable, so
  it is modelled as the critical sections it consists of: \<open>acquire_enqueue\<close>, and one
  \<open>acquire_poll\<close> per round of its loop.  The step relation \<open>sched_step\<close> at the end interleaves
  these sections for any number of threads with \<open>try_acquire\<close>, \<open>reduce_capacity\<close> and the drop of
  a permit; the permits that are out are part of the system state.
\<close>

section \<open>Priorities\<close>

datatype priority = Bulk | Normal | Urgent

fun priority_as_str :: "priority \<Rightarrow> string" where
  "priority_as_str Bulk = ''bulk''"
| "priority_as_str Normal = ''normal''"
| "priority_as_str Urgent = ''urgent''"

text \<open>The derived order: by position of the variant.\<close>

fun rank :: "priority \<Rightarrow> nat" where
  "rank Bulk = 0"
| "rank Normal = 1"
| "rank Urgent = 2"

lemma rank_inject [simp]: "rank p = rank q \<longleftrightarrow> p = q"
  by (cases p; cases q) simp_all

instantiation priority :: linorder
begin

definition less_eq_priority :: "priority \<Rightarrow> priority \<Rightarrow> bool" where
  "less_eq_priority p q \<longleftrightarrow> rank p \<le> rank q"

definition less_priority :: "priority \<Rightarrow> priority \<Rightarrow> bool" where
  "less_priority p q \<longleftrightarrow> rank p < rank q"

instance
  by standard (auto simp: less_eq_priority_def less_priority_def)

end

lemmas priority_order = less_eq_priority_def less_priority_def

section \<open>Limits\<close>

record limits =
  total :: nat
  bulk :: nat
  urgent_reserve :: nat
  bulk_starvation_grace :: duration

definition default_limits :: limits where
  "default_limits =
     \<lparr>total = 10, bulk = 2, urgent_reserve = 1, bulk_starvation_grace = from_secs 30\<rparr>"

definition validate :: "limits \<Rightarrow> transport_error + unit" where
  "validate l =
     (if total l = 0 then Inl (Configuration ''VB_SSH_MAX_SESSIONS must be at least 1'')
      else if bulk l = 0 then Inl (Configuration ''VB_SSH_MAX_BULK_SESSIONS must be at least 1'')
      else if urgent_reserve l = 0 then
        Inl (Configuration (''the urgent session reserve must be at least 1, otherwise health checks and '' @
          ''cancellation can be starved by ordinary work''))
      else if urgent_reserve l \<ge> total l then
        Inl (Configuration (''the urgent reserve of '' @ show_nat (urgent_reserve l) @
          '' sessions leaves no capacity for ordinary work: VB_SSH_MAX_SESSIONS is '' @
          show_nat (total l) @ ''. Normal and bulk requests would never start.''))
      else Inr ())"

definition parse_usize :: "string \<Rightarrow> string \<Rightarrow> transport_error + nat" where
  "parse_usize key raw =
     (let err = Configuration (key @ '' must be a positive integer, got '' @ [CHR 0x27] @ raw @ [CHR 0x27])
      in case parse_unsigned u64_max (trim raw) of
           None \<Rightarrow> Inl err
         | Some n \<Rightarrow> if n = 0 then Inl err else Inr n)"

text \<open>The arguments are the two values \<open>Config::env_with_profile\<close> finds in the environment.\<close>

definition limits_from_env :: "string option \<Rightarrow> string option \<Rightarrow> transport_error + limits" where
  "limits_from_env max_sessions max_bulk =
     (case (case max_sessions of None \<Rightarrow> Inr (total default_limits)
            | Some raw \<Rightarrow> parse_usize ''VB_SSH_MAX_SESSIONS'' raw) of
        Inl e \<Rightarrow> Inl e
      | Inr t \<Rightarrow>
          (case (case max_bulk of None \<Rightarrow> Inr (bulk default_limits)
                 | Some raw \<Rightarrow> parse_usize ''VB_SSH_MAX_BULK_SESSIONS'' raw) of
             Inl e \<Rightarrow> Inl e
           | Inr b \<Rightarrow>
               (let l = default_limits\<lparr>total := t, bulk := b\<rparr>
                in case validate l of Inl e \<Rightarrow> Inl e | Inr _ \<Rightarrow> Inr l)))"

definition CONTROL_RESERVE :: nat where
  "CONTROL_RESERVE = 2"

text \<open>
  The arguments are \<open>config.spectre_max_workers\<close>, \<open>config.ssh_max_sessions\<close> and
  \<open>config.ssh_max_bulk_sessions\<close>.
\<close>

definition validate_capacity :: "u32 \<Rightarrow> nat \<Rightarrow> nat \<Rightarrow> transport_error + unit" where
  "validate_capacity max_workers max_sessions max_bulk =
     (let workers = unat max_workers;
          needed = sat_add_u64 workers CONTROL_RESERVE
      in if max_sessions < needed then
           Inl (Configuration (''VB_SSH_MAX_SESSIONS='' @ show_nat max_sessions @
             '' is too small for VB_SPECTRE_MAX_WORKERS='' @ show_nat workers @
             '': it must be at least '' @ show_nat workers @ '' + '' @ show_nat CONTROL_RESERVE @ '' = '' @
             show_nat needed @ '', so urgent and foreground work still has a session while a sweep is running''))
         else validate \<lparr>total = max_sessions, bulk = max_bulk,
                urgent_reserve = urgent_reserve default_limits,
                bulk_starvation_grace = bulk_starvation_grace default_limits\<rparr>)"

definition limits_from_config :: "u32 \<Rightarrow> nat \<Rightarrow> nat \<Rightarrow> transport_error + limits" where
  "limits_from_config max_workers max_sessions max_bulk =
     (case validate_capacity max_workers max_sessions max_bulk of
        Inl e \<Rightarrow> Inl e
      | Inr _ \<Rightarrow> Inr \<lparr>total = max_sessions, bulk = max_bulk,
                urgent_reserve = urgent_reserve default_limits,
                bulk_starvation_grace = bulk_starvation_grace default_limits\<rparr>)"

section \<open>The scheduler's state\<close>

record waiter =
  w_seq :: u64
  w_priority :: priority
  w_enqueued_at :: instant
  w_request :: request_id

record state =
  limits_of :: limits
  active :: nat
  active_bulk :: nat
  effective_total :: nat
  waiters :: "waiter list"
  next_seq :: u64

definition effective_priority :: "state \<Rightarrow> waiter \<Rightarrow> instant \<Rightarrow> priority" where
  "effective_priority s w now =
     (if w_priority w = Bulk \<and> now - w_enqueued_at w \<ge> bulk_starvation_grace (limits_of s)
      then Normal else w_priority w)"

definition can_admit :: "state \<Rightarrow> priority \<Rightarrow> bool" where
  "can_admit s p =
     (let cap = (if p = Urgent then effective_total s
                 else effective_total s - urgent_reserve (limits_of s))
      in if active s \<ge> cap then False
         else if p = Bulk \<and> active_bulk s \<ge> bulk (limits_of s) then False
         else True)"

text \<open>One round of the loop of \<open>chosen_seq\<close>, and the loop.\<close>

definition choose_step ::
    "state \<Rightarrow> instant \<Rightarrow> (priority \<times> u64) option \<Rightarrow> waiter \<Rightarrow> (priority \<times> u64) option" where
  "choose_step s now best w =
     (let p = effective_priority s w now in
      if \<not> can_admit s p then best
      else if (case best of None \<Rightarrow> True
               | Some (bp, bs) \<Rightarrow> p > bp \<or> (p = bp \<and> w_seq w < bs))
           then Some (p, w_seq w) else best)"

definition chosen_seq :: "state \<Rightarrow> instant \<Rightarrow> u64 option" where
  "chosen_seq s now = map_option snd (foldl (choose_step s now) None (waiters s))"

record scheduler_stats =
  st_active :: nat
  st_active_bulk :: nat
  st_queued :: nat
  st_effective_total :: nat

section \<open>Operations\<close>

definition scheduler_new :: "limits \<Rightarrow> transport_error + state" where
  "scheduler_new l =
     (case validate l of
        Inl e \<Rightarrow> Inl e
      | Inr _ \<Rightarrow> Inr \<lparr>limits_of = l, active = 0, active_bulk = 0, effective_total = total l,
                      waiters = [], next_seq = 0\<rparr>)"

definition POLL_CAP :: duration where
  "POLL_CAP = from_millis 50"

definition take_slot :: "state \<Rightarrow> priority \<Rightarrow> state" where
  "take_slot s p =
     s\<lparr>active := active s + 1, active_bulk := (if p = Bulk then active_bulk s + 1 else active_bulk s)\<rparr>"

definition retain_others :: "u64 \<Rightarrow> state \<Rightarrow> state" where
  "retain_others seq s = s\<lparr>waiters := filter (\<lambda>w. w_seq w \<noteq> seq) (waiters s)\<rparr>"

definition acquire_enqueue :: "state \<Rightarrow> priority \<Rightarrow> request_id \<Rightarrow> instant \<Rightarrow> u64 \<times> state" where
  "acquire_enqueue s p req now =
     (next_seq s,
      s\<lparr>next_seq := next_seq s + 1,
        waiters := waiters s @
          [\<lparr>w_seq = next_seq s, w_priority = p, w_enqueued_at = now, w_request = req\<rparr>]\<rparr>)"

datatype poll_outcome =
    Granted state
  | QueueExpired transport_error state
  | Wait duration

text \<open>
  One round of the loop of \<open>acquire\<close>.  The three clock readings of a round are \<open>t1\<close> (the
  \<open>now\<close> of the round), \<open>t2\<close> (in \<open>is_expired\<close>) and \<open>t3\<close> (in \<open>remaining\<close>).
\<close>

definition acquire_poll ::
    "state \<Rightarrow> u64 \<Rightarrow> priority \<Rightarrow> request_id \<Rightarrow> deadline \<Rightarrow> instant \<Rightarrow> instant \<Rightarrow> instant \<Rightarrow> poll_outcome" where
  "acquire_poll s seq p req d t1 t2 t3 =
     (if chosen_seq s t1 = Some seq then Granted (take_slot (retain_others seq s) p)
      else if is_expired t2 d then
        QueueExpired (QueueTimeout req (of_nat (max 1 (as_secs (t1 - d))))) (retain_others seq s)
      else Wait (min (remaining t3 d) POLL_CAP))"

definition try_acquire :: "state \<Rightarrow> priority \<Rightarrow> state option" where
  "try_acquire s p = (if \<not> can_admit s p then None else Some (take_slot s p))"

definition reduce_capacity :: "state \<Rightarrow> nat \<Rightarrow> nat \<times> state" where
  "reduce_capacity s server_limit =
     (let floor = max (urgent_reserve (limits_of s)) 1;
          new = min (max server_limit floor) (effective_total s)
      in (new, s\<lparr>effective_total := new\<rparr>))"

definition release :: "state \<Rightarrow> priority \<Rightarrow> state" where
  "release s p =
     s\<lparr>active := active s - 1, active_bulk := (if p = Bulk then active_bulk s - 1 else active_bulk s)\<rparr>"

definition stats :: "state \<Rightarrow> scheduler_stats" where
  "stats s =
     \<lparr>st_active = active s, st_active_bulk = active_bulk s, st_queued = length (waiters s),
      st_effective_total = effective_total s\<rparr>"

lemmas slot_defs = take_slot_def retain_others_def release_def

section \<open>The scheduler and its threads\<close>

text \<open>
  A thread inside \<open>acquire\<close> knows its sequence number, its class, its request and its deadline.
  A permit is its class; dropping it releases the slot.  Sequence numbers are 64-bit and wrap
  (\<open>wrapping_add\<close> in \<open>acquire_enqueue\<close>); the relation covers the first \<open>2 ^ 64 - 1\<close> acquisitions
  of a scheduler, before the wrap.
\<close>

record sys =
  sched :: state
  pending :: "(u64 \<times> priority \<times> request_id \<times> deadline) list"
  permits :: "priority list"

datatype sched_event =
    EEnqueue priority request_id deadline instant
  | EPoll u64 priority request_id deadline instant instant instant
  | ETry priority
  | EReduce nat
  | EDrop priority

inductive sched_step :: "sys \<Rightarrow> sched_event \<Rightarrow> sys \<Rightarrow> bool" where
  enqueue:
    "next_seq (sched y) \<noteq> - 1 \<Longrightarrow> acquire_enqueue (sched y) p req now = (seq, s') \<Longrightarrow>
     sched_step y (EEnqueue p req d now)
       (y\<lparr>sched := s', pending := pending y @ [(seq, p, req, d)]\<rparr>)"
| granted:
    "(seq, p, req, d) \<in> set (pending y) \<Longrightarrow> t1 \<le> t2 \<Longrightarrow> t2 \<le> t3 \<Longrightarrow>
     acquire_poll (sched y) seq p req d t1 t2 t3 = Granted s' \<Longrightarrow>
     sched_step y (EPoll seq p req d t1 t2 t3)
       (y\<lparr>sched := s', pending := filter (\<lambda>th. fst th \<noteq> seq) (pending y), permits := p # permits y\<rparr>)"
| expired:
    "(seq, p, req, d) \<in> set (pending y) \<Longrightarrow> t1 \<le> t2 \<Longrightarrow> t2 \<le> t3 \<Longrightarrow>
     acquire_poll (sched y) seq p req d t1 t2 t3 = QueueExpired e s' \<Longrightarrow>
     sched_step y (EPoll seq p req d t1 t2 t3)
       (y\<lparr>sched := s', pending := filter (\<lambda>th. fst th \<noteq> seq) (pending y)\<rparr>)"
| waiting:
    "(seq, p, req, d) \<in> set (pending y) \<Longrightarrow> t1 \<le> t2 \<Longrightarrow> t2 \<le> t3 \<Longrightarrow>
     acquire_poll (sched y) seq p req d t1 t2 t3 = Wait b \<Longrightarrow>
     sched_step y (EPoll seq p req d t1 t2 t3) y"
| try_ok:
    "try_acquire (sched y) p = Some s' \<Longrightarrow>
     sched_step y (ETry p) (y\<lparr>sched := s', permits := p # permits y\<rparr>)"
| try_busy:
    "try_acquire (sched y) p = None \<Longrightarrow> sched_step y (ETry p) y"
| reduce:
    "sched_step y (EReduce n) (y\<lparr>sched := snd (reduce_capacity (sched y) n)\<rparr>)"
| drop_permit:
    "p \<in> set (permits y) \<Longrightarrow>
     sched_step y (EDrop p) (y\<lparr>sched := release (sched y) p, permits := remove1 p (permits y)\<rparr>)"

definition sched_init :: "limits \<Rightarrow> sys \<Rightarrow> bool" where
  "sched_init l y \<longleftrightarrow>
     (\<exists>s. scheduler_new l = Inr s \<and> y = \<lparr>sched = s, pending = [], permits = []\<rparr>)"

inductive_cases sched_step_tryE: "sched_step y (ETry p) z"
inductive_cases sched_step_dropE: "sched_step y (EDrop p) z"

section \<open>The choice of the next waiter\<close>

definition outranks :: "priority \<times> u64 \<Rightarrow> priority \<times> u64 \<Rightarrow> bool" where
  "outranks a b \<longleftrightarrow> fst b < fst a \<or> (fst b = fst a \<and> snd a \<le> snd b)"

lemma outranks_refl [simp]: "outranks a a"
  by (simp add: outranks_def)

lemma outranks_trans: "outranks a b \<Longrightarrow> outranks b c \<Longrightarrow> outranks a c"
  by (auto simp: outranks_def)

lemma outranks_antisym: "outranks a b \<Longrightarrow> outranks b a \<Longrightarrow> a = b"
  by (auto simp: outranks_def prod_eq_iff)

definition candidate :: "state \<Rightarrow> instant \<Rightarrow> waiter \<Rightarrow> priority \<times> u64" where
  "candidate s now w = (effective_priority s w now, w_seq w)"

lemma choose_step_skip: "\<not> can_admit s (effective_priority s w now) \<Longrightarrow> choose_step s now best w = best"
  by (simp add: choose_step_def Let_def)

lemma choose_step_first:
  "can_admit s (effective_priority s w now) \<Longrightarrow> choose_step s now None w = Some (candidate s now w)"
  by (simp add: choose_step_def Let_def candidate_def)

lemma choose_step_compare:
  "can_admit s (effective_priority s w now) \<Longrightarrow>
   choose_step s now (Some b) w =
     (if fst b < fst (candidate s now w) \<or> fst (candidate s now w) = fst b \<and> snd (candidate s now w) < snd b
      then Some (candidate s now w) else Some b)"
  by (cases b) (simp add: choose_step_def Let_def candidate_def)

lemma choose_fold:
  "case foldl (choose_step s now) None ws of
     None \<Rightarrow> \<forall>w \<in> set ws. \<not> can_admit s (effective_priority s w now)
   | Some b \<Rightarrow> (\<exists>w \<in> set ws. can_admit s (effective_priority s w now) \<and> b = candidate s now w) \<and>
       (\<forall>w \<in> set ws. can_admit s (effective_priority s w now) \<longrightarrow> outranks b (candidate s now w))"
proof (induction ws rule: rev_induct)
  case (snoc w ws)
  let ?best = "foldl (choose_step s now) None ws"
  show ?case
  proof (cases "can_admit s (effective_priority s w now)")
    case False
    with snoc show ?thesis by (auto simp: choose_step_skip split: option.splits)
  next
    case True
    show ?thesis
    proof (cases ?best)
      case None
      with snoc True show ?thesis by (auto simp: choose_step_first)
    next
      case (Some b)
      let ?c = "candidate s now w"
      have IH: "\<exists>w \<in> set ws. can_admit s (effective_priority s w now) \<and> b = candidate s now w"
        "\<forall>w \<in> set ws. can_admit s (effective_priority s w now) \<longrightarrow> outranks b (candidate s now w)"
        using snoc Some by simp_all
      show ?thesis
      proof (cases "fst ?c > fst b \<or> fst ?c = fst b \<and> snd ?c < snd b")
        case better: True
        then have "outranks ?c b" by (auto simp: outranks_def)
        with IH(2) have "\<forall>v \<in> set ws. can_admit s (effective_priority s v now) \<longrightarrow>
            outranks ?c (candidate s now v)"
          by (blast intro: outranks_trans)
        moreover have "foldl (choose_step s now) None (ws @ [w]) = Some ?c"
          using better True Some by (simp add: choose_step_compare)
        ultimately show ?thesis using True by auto
      next
        case worse: False
        then have "outranks b ?c" by (auto simp: outranks_def)
        moreover have "foldl (choose_step s now) None (ws @ [w]) = Some b"
          using worse True Some by (auto simp: choose_step_compare)
        ultimately show ?thesis using IH by auto
      qed
    qed
  qed
qed simp

lemma chosen_seq_None_iff:
  "chosen_seq s now = None \<longleftrightarrow> (\<forall>w \<in> set (waiters s). \<not> can_admit s (effective_priority s w now))"
  using choose_fold [where s = s and now = now and ws = "waiters s"]
  by (auto simp: chosen_seq_def split: option.splits)

text \<open>
  The waiter that runs next is exactly the one that fits the remaining capacity, has the
  highest effective class among those that fit, and arrived first within that class; there is none
  exactly when no waiter fits.
\<close>
theorem chosen_seq_is_best:
  "(chosen_seq s now = Some q \<longleftrightarrow>
     (\<exists>w \<in> set (waiters s). w_seq w = q \<and> can_admit s (effective_priority s w now) \<and>
        (\<forall>v \<in> set (waiters s). can_admit s (effective_priority s v now) \<longrightarrow>
           effective_priority s v now < effective_priority s w now \<or>
           (effective_priority s v now = effective_priority s w now \<and> q \<le> w_seq v)))) \<and>
   (chosen_seq s now = None \<longleftrightarrow>
     (\<forall>w \<in> set (waiters s). \<not> can_admit s (effective_priority s w now)))"
proof (intro conjI chosen_seq_None_iff)
  let ?best = "foldl (choose_step s now) None (waiters s)"
  let ?fits = "\<lambda>w. can_admit s (effective_priority s w now)"
  let ?top = "\<lambda>w. \<forall>v \<in> set (waiters s). ?fits v \<longrightarrow> outranks (candidate s now w) (candidate s now v)"
  have "chosen_seq s now = Some q \<longleftrightarrow> (\<exists>w \<in> set (waiters s). w_seq w = q \<and> ?fits w \<and> ?top w)"
  proof
    assume "chosen_seq s now = Some q"
    then obtain b where "?best = Some b" and "snd b = q" by (auto simp: chosen_seq_def)
    with choose_fold [where s = s and now = now and ws = "waiters s"] show "\<exists>w \<in> set (waiters s). w_seq w = q \<and> ?fits w \<and> ?top w"
      by (auto simp: candidate_def)
  next
    assume "\<exists>w \<in> set (waiters s). w_seq w = q \<and> ?fits w \<and> ?top w"
    then obtain w where w: "w \<in> set (waiters s)" "w_seq w = q" "?fits w" "?top w" by blast
    with choose_fold [where s = s and now = now and ws = "waiters s"] obtain b where b: "?best = Some b"
      by (cases ?best) auto
    with choose_fold [where s = s and now = now and ws = "waiters s"] w have "outranks b (candidate s now w)"
      and "outranks (candidate s now w) b" by auto
    then have "b = candidate s now w" by (rule outranks_antisym)
    with b w(2) show "chosen_seq s now = Some q" by (simp add: chosen_seq_def candidate_def)
  qed
  then show "chosen_seq s now = Some q \<longleftrightarrow>
     (\<exists>w \<in> set (waiters s). w_seq w = q \<and> ?fits w \<and>
        (\<forall>v \<in> set (waiters s). ?fits v \<longrightarrow>
           effective_priority s v now < effective_priority s w now \<or>
           (effective_priority s v now = effective_priority s w now \<and> q \<le> w_seq v)))"
    by (auto simp: outranks_def candidate_def)
qed

theorem chosen_seq_is_best_witness:
  "chosen_seq \<lparr>limits_of = default_limits, active = 9, active_bulk = 0, effective_total = 10,
     waiters = [\<lparr>w_seq = 3, w_priority = Normal, w_enqueued_at = 0, w_request = ''a''\<rparr>,
                \<lparr>w_seq = 4, w_priority = Urgent, w_enqueued_at = 0, w_request = ''b''\<rparr>],
     next_seq = 5\<rparr> 1 = Some 4"
  by (subst chosen_seq_is_best [THEN conjunct1])
    (simp add: effective_priority_def can_admit_def default_limits_def)

section \<open>The invariant of the running system\<close>

definition ordinary :: "priority list \<Rightarrow> nat" where
  "ordinary ps = length (filter (\<lambda>p. p \<noteq> Urgent) ps)"

definition counts_ok :: "limits \<Rightarrow> sys \<Rightarrow> bool" where
  "counts_ok l y \<longleftrightarrow>
     limits_of (sched y) = l \<and> active (sched y) = length (permits y) \<and>
     active_bulk (sched y) = count_list (permits y) Bulk \<and>
     urgent_reserve l \<le> effective_total (sched y) \<and> effective_total (sched y) \<le> total l \<and>
     length (permits y) \<le> total l \<and> ordinary (permits y) \<le> total l - urgent_reserve l"

text \<open>Every thread in \<open>acquire\<close> has its own entry in the queue, and the other way round.\<close>

definition queue_ok :: "sys \<Rightarrow> bool" where
  "queue_ok y \<longleftrightarrow>
     map (\<lambda>w. (w_seq w, w_priority w, w_request w)) (waiters (sched y)) =
       map (\<lambda>(q, p, r, d). (q, p, r)) (pending y) \<and>
     distinct (map w_seq (waiters (sched y))) \<and>
     (\<forall>w \<in> set (waiters (sched y)). w_seq w < next_seq (sched y))"

definition sched_ok :: "limits \<Rightarrow> sys \<Rightarrow> bool" where
  "sched_ok l y \<longleftrightarrow> validate l = Inr () \<and> counts_ok l y \<and> queue_ok y"

lemma validate_ok_iff:
  "validate l = Inr () \<longleftrightarrow> 0 < bulk l \<and> 0 < urgent_reserve l \<and> urgent_reserve l < total l"
  by (auto simp: validate_def)

lemma sched_init_ok: "sched_init l y \<Longrightarrow> sched_ok l y"
  by (auto simp: sched_init_def scheduler_new_def sched_ok_def counts_ok_def queue_ok_def
      ordinary_def validate_ok_iff split: sum.splits)

lemma can_admit_below:
  "can_admit s p \<Longrightarrow> active s < effective_total s \<and>
     (p \<noteq> Urgent \<longrightarrow> active s < effective_total s - urgent_reserve (limits_of s))"
  by (auto simp: can_admit_def Let_def split: if_splits)

lemma length_permits: "length ps = ordinary ps + count_list ps Urgent"
  by (induction ps) (auto simp: ordinary_def)

lemma ordinary_le_length: "ordinary ps \<le> length ps"
  by (simp add: ordinary_def)

lemma ordinary_Cons [simp]:
  "ordinary (p # ps) = (if p = Urgent then ordinary ps else Suc (ordinary ps))"
  by (simp add: ordinary_def)

lemma take_slot_counts:
  assumes "counts_ok l y" and "can_admit (sched y) p'" and "p' = Urgent \<longrightarrow> p = Urgent"
    and "limits_of s' = limits_of (sched y)" and "active s' = active (sched y)"
    and "active_bulk s' = active_bulk (sched y)" and "effective_total s' = effective_total (sched y)"
  shows "counts_ok l (y\<lparr>sched := take_slot s' p, pending := ths, permits := p # permits y\<rparr>)"
proof -
  have "length (permits y) < total l"
    and "p \<noteq> Urgent \<Longrightarrow> length (permits y) < total l - urgent_reserve l"
    using assms(1,3) can_admit_below [OF assms(2)] by (auto simp: counts_ok_def)
  with assms ordinary_le_length [of "permits y"] show ?thesis
    by (auto simp: counts_ok_def take_slot_def)
qed

lemma release_counts:
  assumes "counts_ok l y" and "p \<in> set (permits y)"
  shows "counts_ok l (y\<lparr>sched := release (sched y) p, permits := remove1 p (permits y)\<rparr>)"
proof -
  have "ordinary (remove1 p (permits y)) \<le> ordinary (permits y)"
    by (simp add: ordinary_def filter_remove1 length_remove1)
  moreover have "length (remove1 p (permits y)) = length (permits y) - 1"
    using assms(2) by (simp add: length_remove1)
  ultimately show ?thesis
    using assms(1) unfolding counts_ok_def release_def
    by (intro conjI) (simp_all, linarith+)
qed

lemma granted_waiter:
  assumes "queue_ok y" and "(q, p, r, d) \<in> set (pending y)" and "chosen_seq (sched y) t = Some q"
  shows "\<exists>w \<in> set (waiters (sched y)). w_seq w = q \<and> w_priority w = p \<and>
    can_admit (sched y) (effective_priority (sched y) w t)"
proof -
  obtain w where w: "w \<in> set (waiters (sched y))" "w_seq w = q"
      "can_admit (sched y) (effective_priority (sched y) w t)"
    using assms(3) chosen_seq_is_best by blast
  have "(q, p, r) \<in> set (map (\<lambda>(q, p, r, d). (q, p, r)) (pending y))" using assms(2) by force
  moreover have "map (\<lambda>(q, p, r, d). (q, p, r)) (pending y) =
      map (\<lambda>w. (w_seq w, w_priority w, w_request w)) (waiters (sched y))"
    using assms(1) by (simp add: queue_ok_def)
  ultimately have "(q, p, r) \<in> (\<lambda>w. (w_seq w, w_priority w, w_request w)) ` set (waiters (sched y))"
    by simp
  then obtain v where "v \<in> set (waiters (sched y))" "w_seq v = q" "w_priority v = p"
    by auto
  with w assms(1) have "w_priority w = p"
    by (auto simp: queue_ok_def distinct_map dest: inj_onD)
  with w show ?thesis by blast
qed

lemma effective_urgent: "effective_priority s w t = Urgent \<Longrightarrow> w_priority w = Urgent"
  by (simp add: effective_priority_def split: if_splits)

lemma queue_ok_filter:
  assumes "queue_ok y" and "waiters s' = filter (\<lambda>w. w_seq w \<noteq> q) (waiters (sched y))"
    and "next_seq s' = next_seq (sched y)"
  shows "queue_ok (y\<lparr>sched := s', pending := filter (\<lambda>th. fst th \<noteq> q) (pending y), permits := ps\<rparr>)"
proof -
  have "map (\<lambda>w. (w_seq w, w_priority w, w_request w)) (filter (\<lambda>w. w_seq w \<noteq> q) (waiters (sched y))) =
      filter (\<lambda>x. fst x \<noteq> q) (map (\<lambda>w. (w_seq w, w_priority w, w_request w)) (waiters (sched y)))"
    by (simp add: filter_map comp_def)
  also have "\<dots> = map (\<lambda>(q, p, r, d). (q, p, r)) (filter (\<lambda>th. fst th \<noteq> q) (pending y))"
    using assms(1) by (simp add: queue_ok_def filter_map comp_def case_prod_beta)
  finally show ?thesis
    using assms by (auto simp: queue_ok_def distinct_map_filter)
qed

lemma queue_ok_same:
  assumes "queue_ok y" and "waiters s' = waiters (sched y)" and "next_seq s' = next_seq (sched y)"
  shows "queue_ok (y\<lparr>sched := s', permits := ps\<rparr>)"
  using assms by (simp add: queue_ok_def)

lemma word_less_succ:
  assumes "(x :: u64) \<le> n" and "n \<noteq> - 1"
  shows "x < n + 1"
proof -
  have "n < n + 1"
    using assms(2) inc_less_eq_self_iff_eq [of n] by (meson not_le)
  with assms(1) show ?thesis by (rule le_less_trans)
qed

lemma enqueue_queue_ok:
  assumes "queue_ok y" and "next_seq (sched y) \<noteq> - 1"
    and "acquire_enqueue (sched y) p req now = (q, s')"
  shows "queue_ok (y\<lparr>sched := s', pending := pending y @ [(q, p, req, d)]\<rparr>)"
proof -
  have "w_seq w < next_seq (sched y) + 1" if "w \<in> set (waiters (sched y))" for w
    using assms(1,2) that by (auto simp: queue_ok_def intro!: word_less_succ)
  moreover have "next_seq (sched y) \<notin> w_seq ` set (waiters (sched y))"
    using assms(1) by (auto simp: queue_ok_def)
  ultimately show ?thesis
    using assms word_less_succ [OF order_refl assms(2)]
    by (auto simp: queue_ok_def acquire_enqueue_def)
qed

lemma sched_step_ok:
  assumes "sched_ok l y" and "sched_step y e z"
  shows "sched_ok l z"
  using assms(2,1)
proof (cases rule: sched_step.cases)
  case (enqueue p req now q s' d)
  with assms(1) show ?thesis
    using enqueue_queue_ok [of y p req now q s' d]
    by (auto simp: sched_ok_def counts_ok_def acquire_enqueue_def)
next
  case (granted q p r d t1 t2 t3 s')
  then have chosen: "chosen_seq (sched y) t1 = Some q"
    and s': "s' = take_slot (retain_others q (sched y)) p"
    by (auto simp: acquire_poll_def split: if_splits)
  obtain w where "can_admit (sched y) (effective_priority (sched y) w t1)" "w_priority w = p"
    using granted_waiter [OF _ granted(3) chosen] assms(1) by (auto simp: sched_ok_def)
  then have "counts_ok l (y\<lparr>sched := take_slot (retain_others q (sched y)) p,
      pending := filter (\<lambda>th. fst th \<noteq> q) (pending y), permits := p # permits y\<rparr>)"
    using assms(1) effective_urgent [of "sched y" w t1]
    by (intro take_slot_counts [where p' = "effective_priority (sched y) w t1"])
      (auto simp: sched_ok_def retain_others_def)
  moreover have "queue_ok (y\<lparr>sched := take_slot (retain_others q (sched y)) p,
      pending := filter (\<lambda>th. fst th \<noteq> q) (pending y), permits := p # permits y\<rparr>)"
    using assms(1) by (intro queue_ok_filter) (simp_all add: sched_ok_def retain_others_def take_slot_def)
  ultimately show ?thesis
    using granted(2) s' assms(1) by (simp add: sched_ok_def)
next
  case (expired q p r d t1 t2 t3 e s')
  then have "s' = retain_others q (sched y)"
    by (auto simp: acquire_poll_def split: if_splits)
  with expired assms(1) queue_ok_filter [of y s' q "permits y"] show ?thesis
    by (auto simp: sched_ok_def counts_ok_def retain_others_def)
next
  case (try_ok p s')
  with assms(1) take_slot_counts [of l y p p "sched y" "pending y"] queue_ok_same [of y s' "p # permits y"]
  show ?thesis
    by (auto simp: sched_ok_def try_acquire_def take_slot_def split: if_splits)
next
  case (reduce n)
  with assms(1) queue_ok_same [of y "snd (reduce_capacity (sched y) n)" "permits y"] show ?thesis
    by (auto simp: sched_ok_def counts_ok_def reduce_capacity_def Let_def)
next
  case (drop_permit p)
  with assms(1) release_counts [of l y p] queue_ok_same [of y "release (sched y) p" "remove1 p (permits y)"]
  show ?thesis
    by (auto simp: sched_ok_def release_def)
qed auto

interpretation sl: step_invariant "sched_init l" sched_step "sched_ok l" for l
  by unfold_locales (auto intro: sched_init_ok sched_step_ok)

section \<open>Safety of the running system\<close>

text \<open>
  C1: In every reachable state of the scheduler and its threads, the counters equal the permits
  that are out (all of them, and the bulk ones), no more permits are out than the configured total,
  and ordinary work never holds one of the sessions reserved for urgent work.
\<close>
theorem reachable_admission_safe:
  assumes "reach (sched_init l) sched_step y"
  shows "active (sched y) = length (permits y) \<and>
    active_bulk (sched y) = count_list (permits y) Bulk \<and>
    length (permits y) \<le> total l \<and>
    length (filter (\<lambda>p. p \<noteq> Urgent) (permits y)) \<le> total l - urgent_reserve l"
  using sl.reach_inv [OF assms] by (simp add: sched_ok_def counts_ok_def ordinary_def)

definition fresh :: "limits \<Rightarrow> sys" where
  "fresh l = \<lparr>sched = \<lparr>limits_of = l, active = 0, active_bulk = 0, effective_total = total l,
               waiters = [], next_seq = 0\<rparr>, pending = [], permits = []\<rparr>"

lemma reach_fresh: "validate l = Inr () \<Longrightarrow> reach (sched_init l) sched_step (fresh l)"
  by (rule reach_init) (simp add: sched_init_def scheduler_new_def fresh_def)

lemma reach_try:
  assumes "reach (sched_init l) sched_step y" and "try_acquire (sched y) p = Some s'"
  shows "reach (sched_init l) sched_step (y\<lparr>sched := s', permits := p # permits y\<rparr>)"
  using assms(1) try_ok [OF assms(2)] by (rule reach_step)

theorem reachable_admission_safe_witness:
  "active (sched ((fresh default_limits)\<lparr>sched := take_slot (sched (fresh default_limits)) Normal,
     permits := [Normal]\<rparr>)) = 1"
proof -
  have "reach (sched_init default_limits) sched_step
      ((fresh default_limits)\<lparr>sched := take_slot (sched (fresh default_limits)) Normal,
        permits := Normal # permits (fresh default_limits)\<rparr>)"
    by (rule reach_try [OF reach_fresh])
      (simp_all add: validate_def default_limits_def try_acquire_def can_admit_def fresh_def)
  from reachable_admission_safe [OF this] show ?thesis by (simp add: fresh_def)
qed

text \<open>
  C8: While the server has not lowered the ceiling and fewer urgent permits are out than sessions are
  reserved for urgent work, an urgent request is admitted at once in every reachable state, however
  ordinary work has saturated the endpoint.
\<close>
theorem urgent_always_admitted:
  assumes "reach (sched_init l) sched_step y" and "effective_total (sched y) = total l"
    and "count_list (permits y) Urgent < urgent_reserve l"
  shows "try_acquire (sched y) Urgent = Some (take_slot (sched y) Urgent)"
proof -
  have ok: "sched_ok l y" by (rule sl.reach_inv [OF assms(1)])
  have "length (permits y) = ordinary (permits y) + count_list (permits y) Urgent" by (rule length_permits)
  with ok assms(3) have "length (permits y) < total l"
    unfolding sched_ok_def counts_ok_def validate_ok_iff by linarith
  with ok have "active (sched y) < effective_total (sched y)"
    using assms(2) by (auto simp: sched_ok_def counts_ok_def)
  then show ?thesis by (simp add: try_acquire_def can_admit_def)
qed

theorem urgent_always_admitted_witness:
  "try_acquire (sched (fresh default_limits)) Urgent = Some (take_slot (sched (fresh default_limits)) Urgent)"
  by (rule urgent_always_admitted [OF reach_fresh])
    (simp_all add: validate_def default_limits_def fresh_def)

section \<open>Outcomes of a wait\<close>

text \<open>
  A wait that ends in a queue timeout proves that nothing was started: the error is the
  retryable \<open>QueueTimeout\<close> of the request, its deadline has passed, the counters and the ceiling
  are what they were, and the queue only lost the entries of this thread.
\<close>
theorem queue_timeout_starts_nothing:
  assumes "acquire_poll s seq p req d t1 t2 t3 = QueueExpired e s'"
  shows "(\<exists>n. e = QueueTimeout req n) \<and> transport_retryable e \<and> d \<le> t2 \<and>
    active s' = active s \<and> active_bulk s' = active_bulk s \<and>
    effective_total s' = effective_total s \<and>
    waiters s' = filter (\<lambda>w. w_seq w \<noteq> seq) (waiters s)"
  using assms by (auto simp: acquire_poll_def retain_others_def is_expired_def split: if_splits)

definition busy_state :: state where
  "busy_state =
     \<lparr>limits_of = default_limits, active = 9, active_bulk = 0, effective_total = 10,
      waiters = [\<lparr>w_seq = 3, w_priority = Normal, w_enqueued_at = 0, w_request = ''a''\<rparr>],
      next_seq = 4\<rparr>"

lemma busy_state_no_choice: "chosen_seq busy_state t = None"
  by (simp add: chosen_seq_None_iff busy_state_def effective_priority_def can_admit_def default_limits_def)

theorem queue_timeout_starts_nothing_witness:
  "waiters (retain_others 3 busy_state) = filter (\<lambda>w. w_seq w \<noteq> 3) (waiters busy_state)"
proof -
  have "acquire_poll busy_state 3 Normal ''a'' 5 7 7 8 =
      QueueExpired (QueueTimeout ''a'' (of_nat (max 1 (as_secs (7 - 5))))) (retain_others 3 busy_state)"
    by (simp add: acquire_poll_def busy_state_no_choice is_expired_def)
  from queue_timeout_starts_nothing [OF this] show ?thesis by simp
qed

text \<open>
  A round of the wait looks at the capacity before the deadline: the chosen waiter is granted
  its slot even when its deadline has already passed, and a waiter that is not chosen gives up
  exactly when its deadline has passed.
\<close>
theorem poll_grants_before_deadline:
  "((\<exists>s'. acquire_poll s seq p req d t1 t2 t3 = Granted s') \<longleftrightarrow> chosen_seq s t1 = Some seq) \<and>
   ((\<exists>e s'. acquire_poll s seq p req d t1 t2 t3 = QueueExpired e s') \<longleftrightarrow>
     chosen_seq s t1 \<noteq> Some seq \<and> d \<le> t2)"
  by (simp add: acquire_poll_def is_expired_def)

section \<open>Bulk transfers\<close>

text \<open>
  C2: A bulk request that has waited for the whole grace is not overtaken any more: whichever waiter runs
  next is an urgent one or one that was queued no later than it.  And it is not held back: when no urgent
  request is queued, none was queued before it and an ordinary session is free, it is the one that runs
  next.
\<close>
theorem aged_bulk_not_overtaken:
  assumes "w \<in> set (waiters s)" and "w_priority w = Bulk"
    and "w_enqueued_at w + bulk_starvation_grace (limits_of s) \<le> now"
  shows "(\<forall>c. chosen_seq s now = Some c \<longrightarrow>
       (\<exists>v \<in> set (waiters s). w_seq v = c \<and> (w_priority v = Urgent \<or> c \<le> w_seq w))) \<and>
    (active s < effective_total s - urgent_reserve (limits_of s) \<and>
     (\<forall>v \<in> set (waiters s). w_priority v \<noteq> Urgent \<and> w_seq w \<le> w_seq v) \<longrightarrow> chosen_seq s now = Some (w_seq w))"
proof (intro conjI allI impI)
  have w: "effective_priority s w now = Normal"
    using assms(2,3) by (simp add: effective_priority_def)
  {
    fix c
    assume "chosen_seq s now = Some c"
    then obtain v where v: "v \<in> set (waiters s)" "w_seq v = c" "can_admit s (effective_priority s v now)"
      and top: "can_admit s Normal \<longrightarrow> Normal < effective_priority s v now \<or>
        (Normal = effective_priority s v now \<and> c \<le> w_seq w)"
      using assms(1) w by (auto simp: chosen_seq_is_best [THEN conjunct1])
    have "w_priority v = Urgent \<or> c \<le> w_seq w"
    proof (cases "w_priority v = Urgent")
      case False
      then have "effective_priority s v now \<noteq> Urgent" by (simp add: effective_priority_def)
      moreover from this v(3) have "can_admit s Normal" by (auto simp: can_admit_def Let_def split: if_splits)
      ultimately show ?thesis
        using top by (cases "effective_priority s v now") (auto simp: priority_order)
    qed simp
    with v show "\<exists>v \<in> set (waiters s). w_seq v = c \<and> (w_priority v = Urgent \<or> c \<le> w_seq w)" by blast
  next
    assume free: "active s < effective_total s - urgent_reserve (limits_of s) \<and>
      (\<forall>v \<in> set (waiters s). w_priority v \<noteq> Urgent \<and> w_seq w \<le> w_seq v)"
    then have "can_admit s Normal" by (simp add: can_admit_def)
    moreover have "effective_priority s v now \<le> Normal" if "v \<in> set (waiters s)" for v
      using free that by (cases "w_priority v") (auto simp: effective_priority_def priority_order)
    ultimately show "chosen_seq s now = Some (w_seq w)"
      using assms(1) free w
      by (subst chosen_seq_is_best [THEN conjunct1]) (force simp: le_less)
  }
qed

theorem aged_bulk_not_overtaken_witness:
  "chosen_seq \<lparr>limits_of = default_limits, active = 0, active_bulk = 2, effective_total = 10,
     waiters = [\<lparr>w_seq = 3, w_priority = Bulk, w_enqueued_at = 0, w_request = ''a''\<rparr>,
                \<lparr>w_seq = 4, w_priority = Normal, w_enqueued_at = 0, w_request = ''b''\<rparr>],
     next_seq = 5\<rparr> (from_secs 30) = Some 3"
  by (rule aged_bulk_not_overtaken
        [of "\<lparr>w_seq = 3, w_priority = Bulk, w_enqueued_at = 0, w_request = ''a''\<rparr>", THEN conjunct2, THEN mp, simplified])
    (auto simp: default_limits_def)

lemma active_bulk_step:
  assumes "sched_step y e z" and "active_bulk (sched z) > active_bulk (sched y)"
  shows "(e = ETry Bulk \<and> can_admit (sched y) Bulk) \<or>
    (\<exists>q r d t1 t2 t3. e = EPoll q Bulk r d t1 t2 t3 \<and> (q, Bulk, r, d) \<in> set (pending y) \<and>
       chosen_seq (sched y) t1 = Some q)"
  using assms
  by (cases rule: sched_step.cases)
    (auto simp: acquire_enqueue_def acquire_poll_def try_acquire_def reduce_capacity_def slot_defs Let_def
      split: if_splits)

lemma active_bulk_step_le: "sched_step y e z \<Longrightarrow> active_bulk (sched z) \<le> active_bulk (sched y) + 1"
  by (cases rule: sched_step.cases)
    (auto simp: acquire_enqueue_def acquire_poll_def try_acquire_def reduce_capacity_def slot_defs Let_def
      split: if_splits)

text \<open>
  The bulk limit is kept by every step except one: the admission of a bulk request that has
  waited for the whole starvation grace.
\<close>
theorem bulk_limit_kept_unless_promoted:
  assumes "reach (sched_init l) sched_step y" and "sched_step y e z"
    and "active_bulk (sched y) \<le> bulk l" and "active_bulk (sched z) > bulk l"
  shows "\<exists>q r d t1 t2 t3 w. e = EPoll q Bulk r d t1 t2 t3 \<and> w \<in> set (waiters (sched y)) \<and>
    w_seq w = q \<and> w_priority w = Bulk \<and> bulk_starvation_grace l \<le> t1 - w_enqueued_at w"
proof -
  have ok: "sched_ok l y" by (rule sl.reach_inv [OF assms(1)])
  have full: "active_bulk (sched y) = bulk l" and more: "active_bulk (sched z) > active_bulk (sched y)"
    using assms(3,4) active_bulk_step_le [OF assms(2)] by simp_all
  then have no: "\<not> can_admit (sched y) Bulk"
    using ok by (simp add: can_admit_def sched_ok_def counts_ok_def)
  with active_bulk_step [OF assms(2) more]
  obtain q r d t1 t2 t3 where e: "e = EPoll q Bulk r d t1 t2 t3"
      "(q, Bulk, r, d) \<in> set (pending y)" "chosen_seq (sched y) t1 = Some q" by blast
  obtain w where w: "w \<in> set (waiters (sched y))" "w_seq w = q" "w_priority w = Bulk"
      "can_admit (sched y) (effective_priority (sched y) w t1)"
    using granted_waiter [OF _ e(2,3)] ok by (auto simp: sched_ok_def)
  with no have "effective_priority (sched y) w t1 \<noteq> Bulk" by auto
  with w(3) have "bulk_starvation_grace l \<le> t1 - w_enqueued_at w"
    using ok by (auto simp: effective_priority_def sched_ok_def counts_ok_def split: if_splits)
  with e(1) w(1-3) show ?thesis by blast
qed

text \<open>A run over one bulk session: the second transfer waits for the grace.\<close>

definition one_bulk :: limits where
  "one_bulk = \<lparr>total = 4, bulk = 1, urgent_reserve = 1, bulk_starvation_grace = from_secs 30\<rparr>"

definition one_bulk_busy :: sys where
  "one_bulk_busy =
     \<lparr>sched = \<lparr>limits_of = one_bulk, active = 1, active_bulk = 1, effective_total = 4,
        waiters = [\<lparr>w_seq = 0, w_priority = Bulk, w_enqueued_at = 0, w_request = ''b''\<rparr>], next_seq = 1\<rparr>,
      pending = [(0, Bulk, ''b'', from_secs 60)], permits = [Bulk]\<rparr>"

definition one_bulk_over :: sys where
  "one_bulk_over =
     \<lparr>sched = \<lparr>limits_of = one_bulk, active = 2, active_bulk = 2, effective_total = 4,
        waiters = [], next_seq = 1\<rparr>, pending = [], permits = [Bulk, Bulk]\<rparr>"

lemma one_bulk_valid: "validate one_bulk = Inr ()"
  by (simp add: validate_def one_bulk_def)

lemma reach_one_bulk_busy: "reach (sched_init one_bulk) sched_step one_bulk_busy"
proof -
  have "reach (sched_init one_bulk) sched_step
      ((fresh one_bulk)\<lparr>sched := take_slot (sched (fresh one_bulk)) Bulk,
        permits := Bulk # permits (fresh one_bulk)\<rparr>)" (is "reach _ _ ?y")
    by (rule reach_try [OF reach_fresh [OF one_bulk_valid]])
      (simp add: try_acquire_def can_admit_def fresh_def one_bulk_def)
  moreover have "sched_step ?y (EEnqueue Bulk ''b'' (from_secs 60) 0)
      (?y\<lparr>sched := snd (acquire_enqueue (sched ?y) Bulk ''b'' 0),
         pending := pending ?y @ [(0, Bulk, ''b'', from_secs 60)]\<rparr>)" (is "sched_step _ _ ?z")
    by (rule enqueue) (simp_all add: acquire_enqueue_def fresh_def take_slot_def)
  ultimately have "reach (sched_init one_bulk) sched_step ?z" by (rule reach_step)
  moreover have "?z = one_bulk_busy"
    by (simp add: acquire_enqueue_def fresh_def take_slot_def one_bulk_busy_def one_bulk_def)
  ultimately show ?thesis by simp
qed

lemma one_bulk_busy_step:
  "sched_step one_bulk_busy
     (EPoll 0 Bulk ''b'' (from_secs 60) (from_secs 30) (from_secs 30) (from_secs 30)) one_bulk_over"
proof -
  let ?s' = "take_slot (retain_others 0 (sched one_bulk_busy)) Bulk"
  have "chosen_seq (sched one_bulk_busy) (from_secs 30) = Some 0"
    by (simp add: chosen_seq_def choose_step_def effective_priority_def can_admit_def
        one_bulk_busy_def one_bulk_def)
  then have "acquire_poll (sched one_bulk_busy) 0 Bulk ''b'' (from_secs 60)
      (from_secs 30) (from_secs 30) (from_secs 30) = Granted ?s'"
    by (simp add: acquire_poll_def)
  moreover have "(0, Bulk, ''b'', from_secs 60) \<in> set (pending one_bulk_busy)"
    by (simp add: one_bulk_busy_def)
  ultimately have "sched_step one_bulk_busy
      (EPoll 0 Bulk ''b'' (from_secs 60) (from_secs 30) (from_secs 30) (from_secs 30))
      (one_bulk_busy\<lparr>sched := ?s', pending := filter (\<lambda>th. fst th \<noteq> 0) (pending one_bulk_busy),
         permits := Bulk # permits one_bulk_busy\<rparr>)"
    by (intro granted) simp_all
  moreover have "one_bulk_busy\<lparr>sched := ?s', pending := filter (\<lambda>th. fst th \<noteq> 0) (pending one_bulk_busy),
      permits := Bulk # permits one_bulk_busy\<rparr> = one_bulk_over"
    by (simp add: one_bulk_busy_def one_bulk_over_def slot_defs)
  ultimately show ?thesis by simp
qed

theorem bulk_limit_kept_unless_promoted_witness:
  "\<exists>w \<in> set (waiters (sched one_bulk_busy)). w_priority w = Bulk"
proof -
  have "active_bulk (sched one_bulk_busy) \<le> bulk one_bulk" and "bulk one_bulk < active_bulk (sched one_bulk_over)"
    by (simp_all add: one_bulk_busy_def one_bulk_over_def one_bulk_def)
  from bulk_limit_kept_unless_promoted [OF reach_one_bulk_busy one_bulk_busy_step this]
  show ?thesis by blast
qed

text \<open>
  The bulk limit is not an upper bound on running bulk transfers: with a limit of one, a run
  that starts one transfer and lets a second wait for the grace reaches a state with two.
\<close>
theorem bulk_limit_can_be_exceeded:
  "\<exists>y. reach (sched_init one_bulk) sched_step y \<and> active_bulk (sched y) > bulk one_bulk"
proof -
  have "reach (sched_init one_bulk) sched_step one_bulk_over"
    using reach_one_bulk_busy one_bulk_busy_step by (rule reach_step)
  moreover have "active_bulk (sched one_bulk_over) > bulk one_bulk"
    by (simp add: one_bulk_over_def one_bulk_def)
  ultimately show ?thesis by blast
qed

section \<open>Configuration\<close>

lemma all_priority: "(\<forall>p. P p) \<longleftrightarrow> P Bulk \<and> P Normal \<and> P Urgent"
  by (metis priority.exhaust)

text \<open>
  The validation of the limits accepts exactly the limits under which an idle endpoint admits
  every class and at least one session is reserved for urgent work.
\<close>
theorem validate_iff_all_classes_admitted:
  "validate l = Inr () \<longleftrightarrow> 1 \<le> urgent_reserve l \<and> (\<forall>p. can_admit (sched (fresh l)) p)"
proof -
  show ?thesis
    unfolding all_priority by (auto simp: validate_ok_iff can_admit_def fresh_def)
qed

text \<open>
  When a configuration passes the capacity check, the endpoint still admits an ordinary and an
  urgent request while every Spectre worker holds a session.
\<close>
theorem capacity_leaves_control_room:
  assumes "limits_from_config workers max_sessions max_bulk = Inr l"
    and "limits_of s = l" and "effective_total s = total l" and "active s \<le> unat workers"
  shows "can_admit s Normal \<and> can_admit s Urgent"
proof -
  have "total l = max_sessions" and "urgent_reserve l = 1"
    and "sat_add_u64 (unat workers) CONTROL_RESERVE \<le> max_sessions"
    using assms(1)
    by (auto simp: limits_from_config_def validate_capacity_def Let_def default_limits_def
        split: sum.splits if_splits)
  moreover have "unat workers + 2 \<le> u64_max"
    using unsigned_less [of workers, where 'a = nat] by simp
  ultimately show ?thesis
    using assms(2-4) by (simp add: can_admit_def sat_add_u64_def CONTROL_RESERVE_def min_def)
qed

theorem capacity_leaves_control_room_witness:
  "can_admit \<lparr>limits_of = default_limits, active = 8, active_bulk = 0, effective_total = 10,
     waiters = [], next_seq = 0\<rparr> Normal"
proof -
  have "limits_from_config 8 10 2 = Inr default_limits"
    by (simp add: limits_from_config_def validate_capacity_def Let_def sat_add_u64_def
        CONTROL_RESERVE_def validate_def default_limits_def)
  from capacity_leaves_control_room [OF this, of "\<lparr>limits_of = default_limits, active = 8,
      active_bulk = 0, effective_total = 10, waiters = [], next_seq = 0\<rparr>"]
  show ?thesis by (simp add: default_limits_def)
qed

text \<open>
  Lowering the ceiling after a server refusal never raises it and never takes it below the
  reserve of a reachable scheduler; and when the server's limit is at most the reserve, no ordinary
  request is admitted any more, whatever slots are released.
\<close>
theorem reduce_capacity_keeps_reserve:
  assumes "reach (sched_init l) sched_step y" and "reduce_capacity (sched y) n = (new, s')"
  shows "new = effective_total s' \<and> new \<le> effective_total (sched y) \<and> urgent_reserve l \<le> new \<and>
    (n \<le> urgent_reserve l \<longrightarrow> (\<forall>k p. p \<noteq> Urgent \<longrightarrow> \<not> can_admit (s'\<lparr>active := k\<rparr>) p))"
proof -
  have "sched_ok l y" by (rule sl.reach_inv [OF assms(1)])
  then have "limits_of (sched y) = l" "0 < urgent_reserve l" "urgent_reserve l \<le> effective_total (sched y)"
    by (auto simp: sched_ok_def counts_ok_def validate_ok_iff)
  with assms(2) show ?thesis
    by (auto simp: reduce_capacity_def Let_def can_admit_def)
qed

theorem reduce_capacity_keeps_reserve_witness:
  "effective_total (snd (reduce_capacity (sched (fresh default_limits)) 4)) = 4"
proof -
  have "reach (sched_init default_limits) sched_step (fresh default_limits)"
    by (rule reach_fresh) (simp add: validate_def default_limits_def)
  moreover have "reduce_capacity (sched (fresh default_limits)) 4 =
      (4, snd (reduce_capacity (sched (fresh default_limits)) 4))"
    by (simp add: reduce_capacity_def fresh_def default_limits_def)
  ultimately show ?thesis
    using reduce_capacity_keeps_reserve by metis
qed

section \<open>A whole call of acquire\<close>

text \<open>
  \<open>acquire\<close> as one thread sees it: it enqueues, then takes turns until one of them ends the call.
  Between two turns the thread sleeps on the condition variable while the others change the state
  (\<open>turn_others\<close>).  \<open>None\<close>: the thread still waits after the given turns.
\<close>

record turn =
  turn_others :: "state \<Rightarrow> state"
  turn_t1 :: instant
  turn_t2 :: instant
  turn_t3 :: instant

fun acquire_loop ::
    "u64 \<Rightarrow> priority \<Rightarrow> request_id \<Rightarrow> deadline \<Rightarrow> state \<Rightarrow> turn list \<Rightarrow>
     ((transport_error + unit) \<times> state) option" where
  "acquire_loop seq p req d s [] = None"
| "acquire_loop seq p req d s (t # ts) =
     (let s' = turn_others t s
      in case acquire_poll s' seq p req d (turn_t1 t) (turn_t2 t) (turn_t3 t) of
           Granted s'' \<Rightarrow> Some (Inr (), s'')
         | QueueExpired e s'' \<Rightarrow> Some (Inl e, s'')
         | Wait b \<Rightarrow> acquire_loop seq p req d s' ts)"

definition acquire ::
    "state \<Rightarrow> priority \<Rightarrow> request_id \<Rightarrow> deadline \<Rightarrow> instant \<Rightarrow> turn list \<Rightarrow>
     ((transport_error + unit) \<times> state) option" where
  "acquire s p req d now ts =
     (case acquire_enqueue s p req now of (seq, s') \<Rightarrow> acquire_loop seq p req d s' ts)"

lemma acquire_loop_expired: "t \<in> set ts \<Longrightarrow> is_expired (turn_t2 t) d \<Longrightarrow> acquire_loop seq p req d s ts \<noteq> None"
proof (induction ts arbitrary: s)
  case (Cons u ts)
  show ?case
  proof (cases "t = u")
    case True
    with Cons.prems(2) show ?thesis by (simp add: acquire_poll_def Let_def)
  next
    case False
    with Cons show ?thesis by (simp add: Let_def split: poll_outcome.split)
  qed
qed simp

text \<open>The result of a call is a permit, or a \<open>QueueTimeout\<close> for this request.\<close>

lemma acquire_loop_result:
  "acquire_loop seq p req d s ts = Some (r, s') \<Longrightarrow>
     (r = Inr () \<or> (\<exists>n. r = Inl (QueueTimeout req n))) \<and> (\<forall>w \<in> set (waiters s'). w_seq w \<noteq> seq)"
  by (induction ts arbitrary: s)
    (auto simp: Let_def acquire_poll_def retain_others_def take_slot_def split: if_splits)

text \<open>
  C21: A call of \<open>acquire\<close> never waits past its deadline: whatever the other threads do, once a turn
  sees the deadline reached the call has returned, with a permit or with the \<open>QueueTimeout\<close> of its own
  request; and however it returns, its entry, which carries the ticket it drew, is no longer in the queue.
\<close>
theorem acquire_returns_by_deadline:
  assumes "t \<in> set ts" and "is_expired (turn_t2 t) d"
  shows "\<exists>r s'. acquire s p req d now ts = Some (r, s') \<and>
    (r = Inr () \<or> (\<exists>n. r = Inl (QueueTimeout req n))) \<and>
    (\<forall>w \<in> set (waiters s'). w_seq w \<noteq> next_seq s)"
proof -
  obtain s1 where q: "acquire_enqueue s p req now = (next_seq s, s1)" by (simp add: acquire_enqueue_def)
  obtain r s' where "acquire_loop (next_seq s) p req d s1 ts = Some (r, s')"
    using acquire_loop_expired [OF assms] by (metis option.exhaust surj_pair)
  with acquire_loop_result [OF this] q show ?thesis by (auto simp: acquire_def)
qed

theorem acquire_returns_by_deadline_witness:
  "acquire (projr (scheduler_new default_limits)) Normal ''r1'' 5 0
     [\<lparr>turn_others = id, turn_t1 = 9, turn_t2 = 9, turn_t3 = 9\<rparr>] \<noteq> None"
  using acquire_returns_by_deadline [of "\<lparr>turn_others = id, turn_t1 = 9, turn_t2 = 9, turn_t3 = 9\<rparr>"
      "[\<lparr>turn_others = id, turn_t1 = 9, turn_t2 = 9, turn_t3 = 9\<rparr>]" 5 "projr (scheduler_new default_limits)" Normal "''r1''" 0]
  by (auto simp: is_expired_def)

section \<open>The interface of the scheduler\<close>

text \<open>
  What the code that serves requests relies on: a session is taken and given back, a taken session
  is given back unchanged, and the number of sessions held never exceeds the capacity.
\<close>

locale session_meter =
  fixes take_permit :: "'m \<Rightarrow> 'c \<Rightarrow> 'm option"
    and drop_permit :: "'m \<Rightarrow> 'c \<Rightarrow> 'm"
    and held :: "'m \<Rightarrow> nat"
    and capacity :: "'m \<Rightarrow> nat"
  assumes take_drop: "take_permit m c = Some m' \<Longrightarrow> drop_permit m' c = m"
    and take_held: "take_permit m c = Some m' \<Longrightarrow> held m' = held m + 1"
    and take_capacity: "take_permit m c = Some m' \<Longrightarrow> held m < capacity m \<and> capacity m' = capacity m"
begin

text \<open>A request takes its permit, does its work, and drops the permit on every path.\<close>

lemma bracket_restores:
  "take_permit m c = Some m' \<Longrightarrow> held (drop_permit m' c) = held m \<and> drop_permit m' c = m"
  by (simp add: take_drop)

lemma taken_within_capacity: "take_permit m c = Some m' \<Longrightarrow> held m' \<le> capacity m'"
  using take_held take_capacity by fastforce

lemma drop_undo_twice:
  "take_permit m c = Some m1 \<Longrightarrow> take_permit m1 c' = Some m2 \<Longrightarrow> drop_permit (drop_permit m2 c') c = m"
  by (simp add: take_drop)

end

interpretation meter: session_meter try_acquire release active effective_total
  by unfold_locales
    (auto simp: try_acquire_def slot_defs dest: can_admit_below split: if_splits)

end
