(* ===== verification/Framing.thy ===== *)
theory Framing
  imports Prelude
begin

text \<open>
  \<open>src/transport/ipc/framing.rs\<close>: length-prefixed frames over a byte stream.

  The underlying stream is the list of the results its \<open>read\<close> (or \<open>write\<close>) calls return; a
  reader whose list is used up is at the end of the file.  The clock is a function from the
  number of the loop round to the reading of that round.
\<close>

section \<open>Constants and errors\<close>

definition MAX_FRAME_SIZE :: nat where
  "MAX_FRAME_SIZE = 8 * 1024 * 1024"

definition FRAME_PREFIX_LEN :: nat where
  "FRAME_PREFIX_LEN = 4"

definition PROTOCOL_MAJOR :: u16 where "PROTOCOL_MAJOR = 1"
definition PROTOCOL_MINOR :: u16 where "PROTOCOL_MINOR = 0"

datatype frame_error = TooLarge nat | Truncated | FrameIo string

fun display_frame_error :: "frame_error \<Rightarrow> string" where
  "display_frame_error (TooLarge n) =
     ''ipc frame too large: '' @ show_nat n @ '' > '' @ show_nat MAX_FRAME_SIZE"
| "display_frame_error Truncated = ''ipc stream ended mid-frame''"
| "display_frame_error (FrameIo m) = ''ipc transport io error: '' @ m"

section \<open>Encoding\<close>

definition to_be_bytes :: "u32 \<Rightarrow> u8 list" where
  "to_be_bytes n =
     (let k = unat n in
      [of_nat (k div 256 div 256 div 256), of_nat (k div 256 div 256), of_nat (k div 256), of_nat k])"

definition from_be_bytes :: "u8 \<Rightarrow> u8 \<Rightarrow> u8 \<Rightarrow> u8 \<Rightarrow> u32" where
  "from_be_bytes b0 b1 b2 b3 =
     of_nat (((unat b0 * 256 + unat b1) * 256 + unat b2) * 256 + unat b3)"

definition encode_frame :: "u8 list \<Rightarrow> frame_error + u8 list" where
  "encode_frame payload =
     (if length payload > MAX_FRAME_SIZE then Inl (TooLarge (length payload))
      else Inr (to_be_bytes (of_nat (length payload)) @ payload))"

section \<open>Reading\<close>

datatype read_result = ReadBytes "u8 list" | ReadErr string

record frame_reader =
  rd_inner :: "read_result list"
  rd_buf :: "u8 list"

definition reader_new :: "read_result list \<Rightarrow> frame_reader" where
  "reader_new inner = \<lparr>rd_inner = inner, rd_buf = []\<rparr>"

text \<open>
  What the buffer holds: \<open>None\<close> when more bytes are needed, an error for an oversized claim, or the
  first complete payload and the bytes after it.
\<close>

definition take_frame :: "u8 list \<Rightarrow> (frame_error + (u8 list \<times> u8 list)) option" where
  "take_frame buf =
     (if length buf \<ge> FRAME_PREFIX_LEN then
        (let len = unat (from_be_bytes (buf ! 0) (buf ! 1) (buf ! 2) (buf ! 3)) in
         if len > MAX_FRAME_SIZE then Some (Inl (TooLarge len))
         else let tot = FRAME_PREFIX_LEN + len in
           if length buf \<ge> tot
           then Some (Inr (drop FRAME_PREFIX_LEN (take tot buf), drop tot buf))
           else None)
      else None)"

definition past_deadline :: "instant option \<Rightarrow> instant \<Rightarrow> bool" where
  "past_deadline d now \<longleftrightarrow> (case d of None \<Rightarrow> False | Some d \<Rightarrow> d - now = 0)"

text \<open>The timeout handed to the socket in a round that goes on.\<close>

definition round_timeout :: "instant option \<Rightarrow> instant \<Rightarrow> duration list" where
  "round_timeout d now = (case d of None \<Rightarrow> [] | Some d \<Rightarrow> [max (d - now) (from_millis 1)])"

text \<open>
  \<open>read_frame_until_with\<close>: the result, the bytes left in the buffer, the rest of the stream, and
  the socket timeouts that were set, in order.
\<close>

fun read_loop ::
    "instant option \<Rightarrow> (nat \<Rightarrow> instant) \<Rightarrow> nat \<Rightarrow> u8 list \<Rightarrow> read_result list \<Rightarrow>
     (frame_error + u8 list option) \<times> u8 list \<times> read_result list \<times> duration list" where
  "read_loop d clock k buf inner =
     (if past_deadline d (clock k) then (Inl (FrameIo ''ipc read deadline exceeded''), buf, inner, [])
      else
        let ts = round_timeout d (clock k) in
        case take_frame buf of
          Some (Inl e) \<Rightarrow> (Inl e, buf, inner, ts)
        | Some (Inr (payload, rest)) \<Rightarrow> (Inr (Some payload), rest, inner, ts)
        | None \<Rightarrow>
            (case inner of
               [] \<Rightarrow> (if buf = [] then Inr None else Inl Truncated, buf, [], ts)
             | ReadErr m # inner' \<Rightarrow> (Inl (FrameIo m), buf, inner', ts)
             | ReadBytes chunk # inner' \<Rightarrow>
                 if chunk = [] then
                   (if buf = [] then Inr None else Inl Truncated, buf, inner', ts)
                 else
                   (case read_loop d clock (Suc k) (buf @ chunk) inner' of
                      (r, buf', inner'', ts') \<Rightarrow> (r, buf', inner'', ts @ ts'))))"

declare read_loop.simps [simp del]

definition read_frame_until_with ::
    "frame_reader \<Rightarrow> instant option \<Rightarrow> (nat \<Rightarrow> instant) \<Rightarrow>
     (frame_error + u8 list option) \<times> frame_reader \<times> duration list" where
  "read_frame_until_with rd d clock =
     (case read_loop d clock 0 (rd_buf rd) (rd_inner rd) of
        (r, buf, inner, ts) \<Rightarrow> (r, \<lparr>rd_inner = inner, rd_buf = buf\<rparr>, ts))"

definition read_frame_until ::
    "frame_reader \<Rightarrow> instant option \<Rightarrow> (nat \<Rightarrow> instant) \<Rightarrow> (frame_error + u8 list option) \<times> frame_reader" where
  "read_frame_until rd d clock =
     (case read_frame_until_with rd d clock of (r, rd', _) \<Rightarrow> (r, rd'))"

definition read_frame :: "frame_reader \<Rightarrow> (frame_error + u8 list option) \<times> frame_reader" where
  "read_frame rd = read_frame_until rd None (\<lambda>_. 0)"

section \<open>Writing\<close>

datatype write_result = WroteBytes nat | WriteInterrupted | WriteErr string

text \<open>
  The loop of \<open>write_frame_with_deadline\<close> over the results of \<open>inner.write\<close>: the outcome and the
  bytes put on the wire.  \<open>None\<close> means that the writer is still in the loop when the given
  results are used up.  \<open>write\<close> never reports more bytes than it was given.
\<close>

fun write_loop ::
    "instant option \<Rightarrow> (nat \<Rightarrow> instant) \<Rightarrow> nat \<Rightarrow> u8 list \<Rightarrow> write_result list \<Rightarrow>
     (frame_error + unit) option \<times> u8 list" where
  "write_loop d clock k [] ws = (Some (Inr ()), [])"
| "write_loop d clock k (b # bs) ws =
     (if past_deadline d (clock k) then (Some (Inl (FrameIo ''ipc write deadline exceeded'')), [])
      else case ws of
        [] \<Rightarrow> (None, [])
      | WriteInterrupted # ws' \<Rightarrow> write_loop d clock (Suc k) (b # bs) ws'
      | WriteErr m # ws' \<Rightarrow> (Some (Inl (FrameIo m)), [])
      | WroteBytes n # ws' \<Rightarrow>
          if n = 0 then (Some (Inl (FrameIo ''ipc write returned 0 bytes'')), [])
          else case write_loop d clock (Suc k) (drop n (b # bs)) ws' of
                 (r, out) \<Rightarrow> (r, take n (b # bs) @ out))"

definition write_frame_with_deadline ::
    "u8 list \<Rightarrow> instant option \<Rightarrow> (nat \<Rightarrow> instant) \<Rightarrow> write_result list \<Rightarrow> (string + unit) \<Rightarrow>
     (frame_error + unit) option \<times> u8 list" where
  "write_frame_with_deadline payload d clock ws flush =
     (case encode_frame payload of
        Inl e \<Rightarrow> (Some (Inl e), [])
      | Inr framed \<Rightarrow>
          (case write_loop d clock 0 framed ws of
             (Some (Inr _), out) \<Rightarrow>
               (Some (case flush of Inl m \<Rightarrow> Inl (FrameIo m) | Inr _ \<Rightarrow> Inr ()), out)
           | r \<Rightarrow> r))"

text \<open>
  \<open>write_frame\<close>: the outcomes of \<open>write_all\<close> and \<open>flush\<close> are arguments.  A failed \<open>write_all\<close> may
  have put the first \<open>n\<close> bytes on the wire.
\<close>

definition write_frame ::
    "u8 list \<Rightarrow> (nat \<times> string + unit) \<Rightarrow> (string + unit) \<Rightarrow> (frame_error + unit) \<times> u8 list" where
  "write_frame payload write_all flush =
     (case encode_frame payload of
        Inl e \<Rightarrow> (Inl e, [])
      | Inr framed \<Rightarrow>
          (case write_all of
             Inl (n, m) \<Rightarrow> (Inl (FrameIo m), take n framed)
           | Inr _ \<Rightarrow> (case flush of Inl m \<Rightarrow> Inl (FrameIo m) | Inr _ \<Rightarrow> Inr (), framed)))"

section \<open>Facts about single frames\<close>

lemma from_to_be_bytes:
  "from_be_bytes (to_be_bytes n ! 0) (to_be_bytes n ! Suc 0) (to_be_bytes n ! 2) (to_be_bytes n ! 3) = n"
proof -
  define a b c where "a = unat n div 256" and "b = a div 256" and "c = b div 256"
  have "unat n < 2 ^ 32" using unsigned_less [of n, where 'a = nat] by simp
  then have "unat n div (256 * 256 * 256) < 256" by (simp add: less_mult_imp_div_less)
  then have "c < 256" unfolding a_def b_def c_def by (simp only: div_mult2_eq)
  then have "c mod 256 = c" by simp
  moreover have "c * 256 + b mod 256 = b" "b * 256 + a mod 256 = a" "a * 256 + unat n mod 256 = unat n"
    unfolding c_def b_def a_def by (rule div_mult_mod_eq)+
  ultimately have sum: "((c mod 256 * 256 + b mod 256) * 256 + a mod 256) * 256 + unat n mod 256 = unat n"
    by simp
  have byte: "unat (of_nat k :: u8) = k mod 256" for k
    by (simp add: unat_of_nat)
  have "to_be_bytes n = [of_nat c, of_nat b, of_nat a, of_nat (unat n)]"
    by (simp add: to_be_bytes_def a_def b_def c_def Let_def)
  then have "from_be_bytes (to_be_bytes n ! 0) (to_be_bytes n ! Suc 0) (to_be_bytes n ! 2) (to_be_bytes n ! 3) =
      of_nat (unat n)"
    by (simp only: nth_Cons_0 nth_Cons_Suc numeral_2_eq_2 numeral_3_eq_3 from_be_bytes_def byte sum)
  then show ?thesis by simp
qed

lemma length_to_be_bytes [simp]: "length (to_be_bytes n) = 4"
  by (simp add: to_be_bytes_def Let_def)

lemma encode_frame_Inr:
  "encode_frame p = Inr f \<longleftrightarrow> length p \<le> MAX_FRAME_SIZE \<and> f = to_be_bytes (of_nat (length p)) @ p"
  by (auto simp: encode_frame_def)

lemma unat_of_frame_length: "n \<le> MAX_FRAME_SIZE \<Longrightarrow> unat (of_nat n :: u32) = n"
  by (simp add: MAX_FRAME_SIZE_def unat_of_nat)

lemma prefix_value:
  assumes "length p \<le> MAX_FRAME_SIZE" and "encode_frame p = Inr f"
  shows "unat (from_be_bytes ((f @ r) ! 0) ((f @ r) ! 1) ((f @ r) ! 2) ((f @ r) ! 3)) = length p"
proof -
  have "(f @ r) ! i = to_be_bytes (of_nat (length p)) ! i" if "i < 4" for i
    using assms(2) that by (simp add: encode_frame_Inr nth_append)
  from this [of 0] this [of "Suc 0"] this [of 2] this [of 3] show ?thesis
    by (simp add: from_to_be_bytes unat_of_frame_length [OF assms(1)])
qed

lemma length_frame: "encode_frame p = Inr f \<Longrightarrow> length f = FRAME_PREFIX_LEN + length p"
  by (auto simp: encode_frame_Inr FRAME_PREFIX_LEN_def)

lemma take_frame_complete:
  assumes "encode_frame p = Inr f"
  shows "take_frame (f @ r) = Some (Inr (p, r))"
proof -
  have p: "length p \<le> MAX_FRAME_SIZE" and f: "f = to_be_bytes (of_nat (length p)) @ p"
    using assms by (simp_all add: encode_frame_Inr)
  have "drop FRAME_PREFIX_LEN f = p" by (simp add: f FRAME_PREFIX_LEN_def)
  then show ?thesis
    using p length_frame [OF assms] prefix_value [OF p assms, of r]
    by (simp add: take_frame_def Let_def)
qed

text \<open>A proper part of a frame never completes and never looks oversized.\<close>

lemma take_frame_incomplete:
  assumes "encode_frame p = Inr f" and "f @ r = buf @ t" and "length buf < length f"
  shows "take_frame buf = None"
proof (cases "FRAME_PREFIX_LEN \<le> length buf")
  case True
  then have "4 \<le> length buf" by (simp add: FRAME_PREFIX_LEN_def)
  then have "buf ! i = (f @ r) ! i" if "i < 4" for i
    using that assms(2) by (simp add: nth_append)
  from this [of 0] this [of 1] this [of 2] this [of 3]
  have "unat (from_be_bytes (buf ! 0) (buf ! 1) (buf ! 2) (buf ! 3)) = length p"
    using prefix_value [OF _ assms(1), of r] assms(1) by (simp add: encode_frame_Inr)
  then show ?thesis
    using assms(1,3) length_frame [OF assms(1)]
    by (simp add: take_frame_def Let_def encode_frame_Inr)
qed (simp add: take_frame_def)

section \<open>Reading is independent of the chunking\<close>

definition nonempty_chunks :: "u8 list list \<Rightarrow> bool" where
  "nonempty_chunks cs \<longleftrightarrow> [] \<notin> set cs"

lemma read_loop_frame:
  assumes "encode_frame p = Inr f" and "nonempty_chunks cs" and "buf @ concat cs = f @ rest"
  shows "\<exists>buf' cs'. read_loop None clock k buf (map ReadBytes cs) =
      (Inr (Some p), buf', map ReadBytes cs', []) \<and> nonempty_chunks cs' \<and> buf' @ concat cs' = rest"
  using assms(2,3)
proof (induction cs arbitrary: buf k)
  case Nil
  then have "take_frame buf = Some (Inr (p, rest))"
    using take_frame_complete [OF assms(1), of rest] by simp
  then show ?case
    by (intro exI [of _ rest] exI [of _ "[]"])
      (simp add: read_loop.simps past_deadline_def round_timeout_def nonempty_chunks_def)
next
  case (Cons c cs)
  show ?case
  proof (cases "length f \<le> length buf")
    case True
    then obtain r where r: "buf = f @ r" "r @ concat (c # cs) = rest"
      using Cons.prems(2) by (auto simp: append_eq_append_conv2)
    then have "take_frame buf = Some (Inr (p, r))" by (simp add: take_frame_complete [OF assms(1)])
    with r Cons.prems(1) show ?thesis
      by (intro exI [of _ r] exI [of _ "c # cs"])
        (simp add: read_loop.simps past_deadline_def round_timeout_def)
  next
    case False
    then have "take_frame buf = None"
      using Cons.prems(2) by (intro take_frame_incomplete [OF assms(1), where r = rest and t = "concat (c # cs)"]) auto
    moreover have "c \<noteq> []" and "nonempty_chunks cs" and "(buf @ c) @ concat cs = f @ rest"
      using Cons.prems by (auto simp: nonempty_chunks_def)
    moreover obtain buf' cs' where "read_loop None clock (Suc k) (buf @ c) (map ReadBytes cs) =
        (Inr (Some p), buf', map ReadBytes cs', [])" "nonempty_chunks cs'" "buf' @ concat cs' = rest"
      using Cons.IH [OF calculation(3,4)] by blast
    ultimately show ?thesis
      by (intro exI [of _ buf'] exI [of _ cs'])
        (simp add: read_loop.simps [of _ _ k] past_deadline_def round_timeout_def)
  qed
qed

text \<open>Reading frame after frame, as the server's dispatch loop does.\<close>

fun read_frames :: "nat \<Rightarrow> frame_reader \<Rightarrow> (frame_error + u8 list option) list \<times> frame_reader" where
  "read_frames 0 rd = ([], rd)"
| "read_frames (Suc n) rd =
     (case read_frame rd of (r, rd') \<Rightarrow>
        (case read_frames n rd' of (rs, rd'') \<Rightarrow> (r # rs, rd'')))"

definition frame_bytes :: "u8 list \<Rightarrow> u8 list" where
  "frame_bytes p = to_be_bytes (of_nat (length p)) @ p"

lemma encode_frame_bytes: "length p \<le> MAX_FRAME_SIZE \<Longrightarrow> encode_frame p = Inr (frame_bytes p)"
  by (simp add: encode_frame_def frame_bytes_def)

lemma read_frame_chunks:
  assumes "length p \<le> MAX_FRAME_SIZE" and "nonempty_chunks cs" and "buf @ concat cs = frame_bytes p @ rest"
  shows "\<exists>buf' cs'. read_frame \<lparr>rd_inner = map ReadBytes cs, rd_buf = buf\<rparr> =
      (Inr (Some p), \<lparr>rd_inner = map ReadBytes cs', rd_buf = buf'\<rparr>) \<and>
      nonempty_chunks cs' \<and> buf' @ concat cs' = rest"
  using read_loop_frame [OF encode_frame_bytes [OF assms(1)] assms(2,3), of "\<lambda>_. 0" 0]
  by (auto simp: read_frame_def read_frame_until_def read_frame_until_with_def)

lemma read_frame_eof:
  "nonempty_chunks cs \<Longrightarrow> buf @ concat cs = [] \<Longrightarrow>
   read_frame \<lparr>rd_inner = map ReadBytes cs, rd_buf = buf\<rparr> =
     (Inr None, \<lparr>rd_inner = [], rd_buf = []\<rparr>)"
  by (cases cs)
    (auto simp: nonempty_chunks_def read_frame_def read_frame_until_def read_frame_until_with_def
      read_loop.simps past_deadline_def round_timeout_def take_frame_def FRAME_PREFIX_LEN_def)

lemma read_frames_chunks:
  assumes "\<forall>p \<in> set ps. length p \<le> MAX_FRAME_SIZE" and "nonempty_chunks cs"
    and "buf @ concat cs = concat (map frame_bytes ps)"
  shows "fst (read_frames (Suc (length ps)) \<lparr>rd_inner = map ReadBytes cs, rd_buf = buf\<rparr>) =
    map (Inr \<circ> Some) ps @ [Inr None]"
  using assms
proof (induction ps arbitrary: cs buf)
  case Nil
  then show ?case by (simp add: read_frame_eof)
next
  case (Cons p ps)
  from Cons.prems obtain buf' cs' where
    "read_frame \<lparr>rd_inner = map ReadBytes cs, rd_buf = buf\<rparr> =
       (Inr (Some p), \<lparr>rd_inner = map ReadBytes cs', rd_buf = buf'\<rparr>)"
    "nonempty_chunks cs'" "buf' @ concat cs' = concat (map frame_bytes ps)"
    using read_frame_chunks [of p cs buf "concat (map frame_bytes ps)"] by auto
  with Cons.IH [of cs' buf'] Cons.prems(1) show ?case
    by (auto split: prod.splits)
qed

text \<open>
  C17: However the transport cuts the byte stream into reads, a reader over the concatenation of the
  frames of some payloads (none larger than 8 MiB) returns exactly those payloads, in order, and
  then a clean end of file.
\<close>
theorem read_frames_roundtrip:
  assumes "\<forall>p \<in> set ps. length p \<le> MAX_FRAME_SIZE" and "[] \<notin> set cs"
    and "\<forall>p \<in> set ps. encode_frame p = Inr (enc p)" and "concat cs = concat (map enc ps)"
  shows "fst (read_frames (Suc (length ps)) (reader_new (map ReadBytes cs))) =
    map (Inr \<circ> Some) ps @ [Inr None]"
proof -
  have "map enc ps = map frame_bytes ps"
    using assms(3) by (auto simp: encode_frame_Inr frame_bytes_def)
  then have "[] @ concat cs = concat (map frame_bytes ps)" using assms(4) by (simp only: append_Nil)
  then show ?thesis
    unfolding reader_new_def using assms(1,2) by (intro read_frames_chunks) (simp_all add: nonempty_chunks_def)
qed

theorem read_frames_roundtrip_witness:
  "fst (read_frames 2 (reader_new (map ReadBytes [[0, 0, 0], [2, 104], [105]]))) =
     [Inr (Some [104, 105]), Inr None]"
proof -
  have "encode_frame [104, 105] = Inr [0, 0, 0, 2, 104, 105]"
    by (simp add: encode_frame_def to_be_bytes_def MAX_FRAME_SIZE_def)
  then have "fst (read_frames (Suc (length [[104, 105 :: u8]]))
      (reader_new (map ReadBytes [[0, 0, 0], [2, 104], [105]]))) =
      map (Inr \<circ> Some) [[104, 105]] @ [Inr None]"
    by (intro read_frames_roundtrip [where enc = "\<lambda>_. [0, 0, 0, 2, 104, 105]"])
      (simp_all add: MAX_FRAME_SIZE_def)
  then show ?thesis by (simp only: numeral_2_eq_2 list.size list.map comp_apply append.simps One_nat_def add_0 add_Suc_right add_0_right)
qed

section \<open>Bounds, deadlines and partial writes\<close>

lemma take_frame_bound: "take_frame buf = Some (Inr (p, r)) \<Longrightarrow> length p \<le> MAX_FRAME_SIZE"
  by (auto simp: take_frame_def Let_def FRAME_PREFIX_LEN_def split: if_splits)

lemma read_loop_bounded:
  "read_loop d clock k buf inner = (r, buf', inner', ts) \<Longrightarrow>
   (\<forall>p. r = Inr (Some p) \<longrightarrow> length p \<le> MAX_FRAME_SIZE) \<and> (\<forall>t \<in> set ts. from_millis 1 \<le> t)"
proof (induction d clock k buf inner arbitrary: r buf' inner' ts rule: read_loop.induct)
  case (1 d clock k buf inner)
  have t: "\<forall>t \<in> set (round_timeout d (clock k)). from_millis 1 \<le> t"
    by (auto simp: round_timeout_def split: option.splits)
  show ?case
  proof (cases "\<not> past_deadline d (clock k) \<and> take_frame buf = None \<and>
      (\<exists>c inner''. inner = ReadBytes c # inner'' \<and> c \<noteq> [])")
    case True
    then obtain c inner'' where c: "inner = ReadBytes c # inner''" "c \<noteq> []" by blast
    obtain r1 b1 i1 t1 where rec: "read_loop d clock (Suc k) (buf @ c) inner'' = (r1, b1, i1, t1)"
      by (metis prod_cases4)
    have "r = r1" and "ts = round_timeout d (clock k) @ t1"
      using "1.prems" True c rec by (auto simp: read_loop.simps [of d clock k])
    with "1.IH" [of "round_timeout d (clock k)" "ReadBytes c" inner'' c] True c rec t
    show ?thesis by auto
  next
    case False
    with "1.prems" t show ?thesis
      by (auto simp: read_loop.simps [of d clock k] Let_def
          split: if_splits option.splits sum.splits list.splits read_result.splits
          dest: take_frame_bound)
  qed
qed

text \<open>
  Whatever the stream delivers, a reader never returns a payload above 8 MiB, never hands the
  socket a timeout below one millisecond, and reports a passed deadline before it reads anything.
\<close>
theorem read_frame_bounded:
  assumes "read_frame_until_with rd d clock = (r, rd', ts)"
  shows "(\<forall>p. r = Inr (Some p) \<longrightarrow> length p \<le> MAX_FRAME_SIZE) \<and>
    (\<forall>t \<in> set ts. from_millis 1 \<le> t) \<and>
    (\<forall>l. d = Some l \<and> l \<le> clock 0 \<longrightarrow>
       r = Inl (FrameIo ''ipc read deadline exceeded'') \<and> rd' = rd \<and> ts = [])"
proof -
  obtain b i where *: "read_loop d clock 0 (rd_buf rd) (rd_inner rd) = (r, b, i, ts)"
      "rd' = \<lparr>rd_inner = i, rd_buf = b\<rparr>"
    using assms by (auto simp: read_frame_until_with_def split: prod.splits)
  moreover have "r = Inl (FrameIo ''ipc read deadline exceeded'') \<and> rd' = rd \<and> ts = []"
    if "d = Some l" "l \<le> clock 0" for l
    using * that by (auto simp: read_loop.simps [of "Some l" clock 0] past_deadline_def)
  ultimately show ?thesis using read_loop_bounded [OF *(1)] by blast
qed

theorem read_frame_bounded_witness:
  "fst (read_frame_until_with (reader_new [ReadBytes [0]]) (Some 5) (\<lambda>_. 7)) =
     Inl (FrameIo ''ipc read deadline exceeded'')"
proof -
  obtain r rd' ts where *: "read_frame_until_with (reader_new [ReadBytes [0]]) (Some 5) (\<lambda>_. 7) = (r, rd', ts)"
    by (metis prod_cases3)
  from read_frame_bounded [OF *] * show ?thesis by simp
qed

lemma write_loop_prefix:
  "write_loop d clock k bs ws = (r, out) \<Longrightarrow>
   (\<exists>rest. bs = out @ rest \<and> (r = Some (Inr ()) \<longrightarrow> rest = []) \<and> (rest = [] \<longrightarrow> r = Some (Inr ())))"
proof (induction d clock k bs ws arbitrary: r out rule: write_loop.induct)
  case (2 d clock k b bs ws)
  show ?case
  proof (cases "\<not> past_deadline d (clock k) \<and> (\<exists>n ws'. ws = WroteBytes n # ws' \<and> n \<noteq> 0)")
    case True
    then obtain n ws' where n: "ws = WroteBytes n # ws'" "n \<noteq> 0" by blast
    obtain r1 o1 where rec: "write_loop d clock (Suc k) (drop n (b # bs)) ws' = (r1, o1)"
      by fastforce
    have ro: "r = r1" "out = take n (b # bs) @ o1"
      using "2.prems" True n rec by auto
    obtain rest where rest: "drop n (b # bs) = o1 @ rest"
        "r1 = Some (Inr ()) \<longrightarrow> rest = []" "rest = [] \<longrightarrow> r1 = Some (Inr ())"
      using "2.IH"(1) [OF _ n(1) refl n(2) rec] True by blast
    have "b # bs = out @ rest"
      using append_take_drop_id [of n "b # bs"] by (simp only: ro rest(1) append_assoc)
    with rest(2,3) ro(1) show ?thesis by blast
  next
    case False
    with 2 show ?thesis
      by (auto split: if_splits list.splits write_result.splits)
  qed
qed simp

text \<open>
  A write with a deadline never puts anything but a prefix of the one frame on the wire,
  whatever partial writes, interruptions and errors the stream reports; it succeeds only when the
  whole frame was written, and writes nothing of an oversized payload.
\<close>
theorem write_frame_prefix:
  assumes "write_frame_with_deadline payload d clock ws flush = (r, out)"
  shows "(\<exists>rest. frame_bytes payload = out @ rest) \<and>
    (r = Some (Inr ()) \<longrightarrow> encode_frame payload = Inr out) \<and>
    (MAX_FRAME_SIZE < length payload \<longrightarrow> out = [] \<and> r = Some (Inl (TooLarge (length payload))))"
proof (cases "encode_frame payload")
  case (Inl e)
  with assms show ?thesis
    by (auto simp: write_frame_with_deadline_def encode_frame_def split: if_splits)
next
  case (Inr f)
  then have f: "f = frame_bytes payload" and small: "length payload \<le> MAX_FRAME_SIZE"
    by (simp_all add: encode_frame_Inr frame_bytes_def)
  obtain r1 where w: "write_loop d clock 0 f ws = (r1, out)" and r1: "r = Some (Inr ()) \<longrightarrow> r1 = Some (Inr ())"
    using assms Inr
    by (cases "write_loop d clock 0 f ws")
      (auto simp: write_frame_with_deadline_def split: option.splits sum.splits)
  from write_loop_prefix [OF w] r1 f small Inr show ?thesis by auto
qed

theorem write_frame_prefix_witness:
  "\<exists>rest. frame_bytes [7] = [0, 0, 0] @ rest"
proof -
  have "write_frame_with_deadline [7] None (\<lambda>_. 0) [WroteBytes 3, WriteInterrupted, WriteErr ''pipe''] (Inr ()) =
      (Some (Inl (FrameIo ''pipe'')), [0, 0, 0])"
    by (simp add: write_frame_with_deadline_def encode_frame_def to_be_bytes_def MAX_FRAME_SIZE_def
        past_deadline_def numeral_3_eq_3)
  from write_frame_prefix [OF this] show ?thesis by blast
qed

end
