(* ===== verification/Messages.thy ===== *)
theory Messages
  imports Lifecycle Framing
begin

text \<open>
  \<open>src/transport/ipc/messages.rs\<close>: the vocabulary of the IPC protocol.  The protocol version, the
  operations with their wire names, the envelopes, and the wire error type with its conversions
  to and from \<open>TransportError\<close>.

  The JSON value type of serde (a third-party crate) is the type parameter \<open>'v\<close>.
\<close>

section \<open>Protocol version\<close>

record protocol_version =
  pv_major :: u16
  pv_minor :: u16

definition current_version :: protocol_version where
  "current_version = \<lparr>pv_major = PROTOCOL_MAJOR, pv_minor = PROTOCOL_MINOR\<rparr>"

definition compatible_with :: "protocol_version \<Rightarrow> protocol_version \<Rightarrow> bool" where
  "compatible_with server client \<longleftrightarrow> pv_major server = pv_major client"

section \<open>Operations\<close>

datatype operation =
    Hello
  | TestConnection
  | RunCommand
  | UploadFile
  | UploadText
  | DownloadFile
  | DownloadDir
  | StartLocalForward
  | StopLocalForward
  | Health
  | Shutdown
  | Cancel
  | Challenge
  | Unknown string

fun operation_as_str :: "operation \<Rightarrow> string" where
  "operation_as_str Hello = ''hello''"
| "operation_as_str TestConnection = ''test_connection''"
| "operation_as_str RunCommand = ''run_command''"
| "operation_as_str UploadFile = ''upload_file''"
| "operation_as_str UploadText = ''upload_text''"
| "operation_as_str DownloadFile = ''download_file''"
| "operation_as_str DownloadDir = ''download_dir''"
| "operation_as_str StartLocalForward = ''start_local_forward''"
| "operation_as_str StopLocalForward = ''stop_local_forward''"
| "operation_as_str Health = ''health''"
| "operation_as_str Shutdown = ''shutdown''"
| "operation_as_str Cancel = ''cancel''"
| "operation_as_str Challenge = ''challenge''"
| "operation_as_str (Unknown s) = s"

text \<open>The \<open>Deserialize\<close> implementation, from the wire name.\<close>

definition operation_of_str :: "string \<Rightarrow> operation" where
  "operation_of_str raw =
     (if raw = ''hello'' then Hello
      else if raw = ''test_connection'' then TestConnection
      else if raw = ''run_command'' then RunCommand
      else if raw = ''upload_file'' then UploadFile
      else if raw = ''upload_text'' then UploadText
      else if raw = ''download_file'' then DownloadFile
      else if raw = ''download_dir'' then DownloadDir
      else if raw = ''start_local_forward'' then StartLocalForward
      else if raw = ''stop_local_forward'' then StopLocalForward
      else if raw = ''health'' then Health
      else if raw = ''shutdown'' then Shutdown
      else if raw = ''cancel'' then Cancel
      else if raw = ''challenge'' then Challenge
      else Unknown raw)"

section \<open>Envelopes\<close>

record hello_msg =
  h_profile :: string
  h_auth_token :: string
  h_client_major :: u16
  h_client_minor :: u16

definition hello_new :: "string \<Rightarrow> string \<Rightarrow> hello_msg" where
  "hello_new profile auth_token =
     \<lparr>h_profile = profile, h_auth_token = auth_token,
      h_client_major = pv_major current_version, h_client_minor = pv_minor current_version\<rparr>"

record hello_ack =
  ack_server_major :: u16
  ack_server_minor :: u16
  ack_daemon_nonce :: string
  ack_capabilities :: "string set"

record 'v request_envelope =
  rq_protocol_major :: u16
  rq_protocol_minor :: u16
  rq_profile :: string
  rq_daemon_nonce :: string
  rq_auth_token :: string
  rq_request_id :: string
  rq_deadline_unix_ms :: nat
  rq_operation :: operation
  rq_payload :: 'v

section \<open>Wire errors\<close>

datatype ipc_error =
    IpcConfiguration string
  | IpcDaemonUnavailable
  | IpcProtocolMismatch string string
  | IpcAuthenticationFailed string
  | IpcInteractionRequired
  | IpcHostKeyUnknown string string
  | IpcHostKeyChanged string
  | IpcHostKeyPolicyUnsupported string
  | IpcProxyFailed string
  | IpcJumpFailed string
  | IpcConnectionFailed string
  | IpcQueueTimeout string u64
  | IpcExecutionTimeout string u64 bool
  | IpcRemoteExit int string
  | IpcOutcomeUnknown string string
  | IpcTransferInterrupted string string
  | IpcIntegrityMismatch string string
  | IpcLocalIo string
  | IpcRemoteIo string
  | IpcCancelled string
  | IpcRestartRequired string
  | IpcUnsupportedOperation string
  | IpcUnsupportedBackend

datatype 'v response_result = Ok 'v | Err ipc_error

record 'v response_envelope =
  rs_request_id :: string
  rs_result :: "'v response_result"

fun ipc_code :: "ipc_error \<Rightarrow> string" where
  "ipc_code (IpcConfiguration _) = ''configuration''"
| "ipc_code IpcDaemonUnavailable = ''daemon_unavailable''"
| "ipc_code (IpcProtocolMismatch _ _) = ''protocol_mismatch''"
| "ipc_code (IpcAuthenticationFailed _) = ''authentication_failed''"
| "ipc_code IpcInteractionRequired = ''interaction_required''"
| "ipc_code (IpcHostKeyUnknown _ _) = ''host_key_unknown''"
| "ipc_code (IpcHostKeyChanged _) = ''host_key_changed''"
| "ipc_code (IpcHostKeyPolicyUnsupported _) = ''host_key_policy_unsupported''"
| "ipc_code (IpcProxyFailed _) = ''proxy_failed''"
| "ipc_code (IpcJumpFailed _) = ''jump_failed''"
| "ipc_code (IpcConnectionFailed _) = ''connection_failed''"
| "ipc_code (IpcQueueTimeout _ _) = ''queue_timeout''"
| "ipc_code (IpcExecutionTimeout _ _ _) = ''execution_timeout''"
| "ipc_code (IpcRemoteExit _ _) = ''remote_exit''"
| "ipc_code (IpcOutcomeUnknown _ _) = ''outcome_unknown''"
| "ipc_code (IpcTransferInterrupted _ _) = ''transfer_interrupted''"
| "ipc_code (IpcIntegrityMismatch _ _) = ''integrity_mismatch''"
| "ipc_code (IpcLocalIo _) = ''local_io''"
| "ipc_code (IpcRemoteIo _) = ''remote_io''"
| "ipc_code (IpcCancelled _) = ''cancelled''"
| "ipc_code (IpcRestartRequired _) = ''restart_required''"
| "ipc_code (IpcUnsupportedOperation _) = ''unsupported_operation''"
| "ipc_code IpcUnsupportedBackend = ''unsupported_backend''"

fun is_connection_level :: "ipc_error \<Rightarrow> bool" where
  "is_connection_level (IpcConnectionFailed _) = True"
| "is_connection_level (IpcJumpFailed _) = True"
| "is_connection_level (IpcProxyFailed _) = True"
| "is_connection_level IpcDaemonUnavailable = True"
| "is_connection_level _ = False"

text \<open>\<open>impl From<TransportError> for IpcError\<close> and \<open>impl From<IpcError> for TransportError\<close>.\<close>

fun ipc_of_transport :: "transport_error \<Rightarrow> ipc_error" where
  "ipc_of_transport (Configuration a) = IpcConfiguration a"
| "ipc_of_transport DaemonUnavailable = IpcDaemonUnavailable"
| "ipc_of_transport (ProtocolMismatch a b) = IpcProtocolMismatch a b"
| "ipc_of_transport (AuthenticationFailed a) = IpcAuthenticationFailed a"
| "ipc_of_transport InteractionRequired = IpcInteractionRequired"
| "ipc_of_transport (HostKeyUnknown a b) = IpcHostKeyUnknown a b"
| "ipc_of_transport (HostKeyChanged a) = IpcHostKeyChanged a"
| "ipc_of_transport (HostKeyPolicyUnsupported a) = IpcHostKeyPolicyUnsupported a"
| "ipc_of_transport (ProxyFailed a) = IpcProxyFailed a"
| "ipc_of_transport (JumpFailed a) = IpcJumpFailed a"
| "ipc_of_transport (ConnectionFailed a) = IpcConnectionFailed a"
| "ipc_of_transport (QueueTimeout a b) = IpcQueueTimeout a b"
| "ipc_of_transport (ExecutionTimeout a b c) = IpcExecutionTimeout a b c"
| "ipc_of_transport (RemoteExit a b) = IpcRemoteExit a b"
| "ipc_of_transport (OutcomeUnknown a b) = IpcOutcomeUnknown a b"
| "ipc_of_transport (TransferInterrupted a b) = IpcTransferInterrupted a b"
| "ipc_of_transport (IntegrityMismatch a b) = IpcIntegrityMismatch a b"
| "ipc_of_transport (LocalIo a) = IpcLocalIo a"
| "ipc_of_transport (RemoteIo a) = IpcRemoteIo a"
| "ipc_of_transport (Cancelled a) = IpcCancelled a"
| "ipc_of_transport (RestartRequired a) = IpcRestartRequired a"
| "ipc_of_transport (UnsupportedOperation a) = IpcUnsupportedOperation a"
| "ipc_of_transport UnsupportedBackend = IpcUnsupportedBackend"

fun transport_of_ipc :: "ipc_error \<Rightarrow> transport_error" where
  "transport_of_ipc (IpcConfiguration a) = Configuration a"
| "transport_of_ipc IpcDaemonUnavailable = DaemonUnavailable"
| "transport_of_ipc (IpcProtocolMismatch a b) = ProtocolMismatch a b"
| "transport_of_ipc (IpcAuthenticationFailed a) = AuthenticationFailed a"
| "transport_of_ipc IpcInteractionRequired = InteractionRequired"
| "transport_of_ipc (IpcHostKeyUnknown a b) = HostKeyUnknown a b"
| "transport_of_ipc (IpcHostKeyChanged a) = HostKeyChanged a"
| "transport_of_ipc (IpcHostKeyPolicyUnsupported a) = HostKeyPolicyUnsupported a"
| "transport_of_ipc (IpcProxyFailed a) = ProxyFailed a"
| "transport_of_ipc (IpcJumpFailed a) = JumpFailed a"
| "transport_of_ipc (IpcConnectionFailed a) = ConnectionFailed a"
| "transport_of_ipc (IpcQueueTimeout a b) = QueueTimeout a b"
| "transport_of_ipc (IpcExecutionTimeout a b c) = ExecutionTimeout a b c"
| "transport_of_ipc (IpcRemoteExit a b) = RemoteExit a b"
| "transport_of_ipc (IpcOutcomeUnknown a b) = OutcomeUnknown a b"
| "transport_of_ipc (IpcTransferInterrupted a b) = TransferInterrupted a b"
| "transport_of_ipc (IpcIntegrityMismatch a b) = IntegrityMismatch a b"
| "transport_of_ipc (IpcLocalIo a) = LocalIo a"
| "transport_of_ipc (IpcRemoteIo a) = RemoteIo a"
| "transport_of_ipc (IpcCancelled a) = Cancelled a"
| "transport_of_ipc (IpcRestartRequired a) = RestartRequired a"
| "transport_of_ipc (IpcUnsupportedOperation a) = UnsupportedOperation a"
| "transport_of_ipc IpcUnsupportedBackend = UnsupportedBackend"

section \<open>Properties\<close>

interpretation wire_error: lossless_iso ipc_of_transport transport_of_ipc
proof unfold_locales
  show "transport_of_ipc (ipc_of_transport e) = e" for e by (cases e) simp_all
  show "ipc_of_transport (transport_of_ipc e) = e" for e by (cases e) simp_all
qed

lemma operation_as_str_of_str: "operation_as_str (operation_of_str raw) = raw"
  by (simp add: operation_of_str_def)

interpretation wire_operation: lossless operation_of_str operation_as_str
  by unfold_locales (rule operation_as_str_of_str)

lemma ipc_code_of_transport: "ipc_code (ipc_of_transport e) = transport_code e"
  by (cases e) simp_all

text \<open>
  Sending a transport error over IPC loses nothing: the conversions are inverse to each other,
  and the error the client gets back has the same code, the same retry class and the same exit code.
\<close>
theorem ipc_error_lossless:
  "transport_of_ipc (ipc_of_transport e) = e \<and> ipc_of_transport (transport_of_ipc i) = i \<and>
   ipc_code (ipc_of_transport e) = transport_code e \<and>
   transport_retryable (transport_of_ipc (ipc_of_transport e)) = transport_retryable e"
  by (simp add: wire_error.from_to wire_error.to_from ipc_code_of_transport)

text \<open>
  Reading an operation from its wire name and writing it back always gives the same name, so an
  operation the daemon does not know survives; writing an operation and reading it back gives the
  same operation unless it is an \<open>Unknown\<close> that carries a known name.
\<close>
theorem operation_wire_roundtrip:
  "operation_as_str (operation_of_str raw) = raw \<and>
   (operation_of_str (operation_as_str oper) = oper \<longleftrightarrow>
      (\<forall>s. oper = Unknown s \<longrightarrow> operation_of_str s = Unknown s))"
proof
  show "operation_as_str (operation_of_str raw) = raw" by (rule wire_operation.from_to)
  show "operation_of_str (operation_as_str oper) = oper \<longleftrightarrow>
      (\<forall>s. oper = Unknown s \<longrightarrow> operation_of_str s = Unknown s)"
    by (cases oper) (simp_all add: operation_of_str_def)
qed

theorem operation_wire_roundtrip_witness:
  "operation_of_str (operation_as_str Hello) = Hello \<and>
   operation_as_str (operation_of_str ''future_op'') = ''future_op''"
  using operation_wire_roundtrip [of "''future_op''" Hello] by simp

text \<open>
  The daemon evicts a pooled connection exactly for the failures the lifecycle classifies as
  transient, except local I/O errors, and for proxy failures, which the lifecycle calls permanent.
\<close>
theorem connection_level_vs_failure_class:
  "is_connection_level (ipc_of_transport e) \<longleftrightarrow>
     (failure_class_of e = Transient \<and> (\<forall>m. e \<noteq> LocalIo m)) \<or> (\<exists>m. e = ProxyFailed m)"
  by (cases e) simp_all

lemma request_level_never_evicts:
  "failure_class_of e = RequestLevel \<Longrightarrow> \<not> is_connection_level (ipc_of_transport e)"
  by (cases e) simp_all

end
