(* ===== verification/Config_File.thy ===== *)
theory Config_File
  imports Errors "HOL-Library.Char_ord" "HOL-Library.List_Lexorder"
begin

text \<open>
  \<open>src/config_file.rs\<close>: the one persistent configuration file.  A \<open>BTreeMap<String, V>\<close> is an
  association list sorted by key.  The TOML text format and the rendering of floating point
  numbers and dates belong to the \<open>toml\<close> crate and the standard library: they are arguments
  (\<open>from_str\<close>, \<open>to_string_pretty\<close>, \<open>show_float\<close>), and \<open>'f\<close> is the type of the numbers.
\<close>

section \<open>Ordered maps\<close>

type_synonym 'v btree = "(string \<times> 'v) list"

fun bt_insert :: "string \<Rightarrow> 'v \<Rightarrow> 'v btree \<Rightarrow> 'v btree" where
  "bt_insert k v [] = [(k, v)]"
| "bt_insert k v ((k', v') # m) =
     (if k < k' then (k, v) # (k', v') # m
      else if k = k' then (k, v) # m
      else (k', v') # bt_insert k v m)"

definition bt_remove :: "string \<Rightarrow> 'v btree \<Rightarrow> 'v btree" where
  "bt_remove k m = filter (\<lambda>(k', v). k' \<noteq> k) m"

definition bt_ok :: "'v btree \<Rightarrow> bool" where
  "bt_ok m \<longleftrightarrow> sorted_wrt (<) (map fst m)"

lemma bt_ok_Nil [simp]: "bt_ok []"
  by (simp add: bt_ok_def)

lemma bt_ok_single [simp]: "bt_ok [x]"
  by (simp add: bt_ok_def)

lemma bt_insert_keys: "fst ` set (bt_insert k v m) = insert k (fst ` set m)"
  by (induction m rule: bt_insert.induct) auto

lemma bt_insert_ok [simp]: "bt_ok m \<Longrightarrow> bt_ok (bt_insert k v m)"
proof (induction m)
  case (Cons a m)
  obtain k' v' where a: "a = (k', v')" by (cases a)
  have "x \<in> set (bt_insert k v m) \<Longrightarrow> fst x = k \<or> fst x \<in> fst ` set m" for x
    using bt_insert_keys [of k v m] by (metis image_eqI insertE)
  with Cons a show ?case
    by (fastforce simp: bt_ok_def)
qed (simp add: bt_ok_def)

lemma bt_remove_ok [simp]: "bt_ok m \<Longrightarrow> bt_ok (bt_remove k m)"
  by (induction m) (auto simp: bt_ok_def bt_remove_def)

lemma map_of_bt_insert: "bt_ok m \<Longrightarrow> map_of (bt_insert k v m) = (map_of m)(k \<mapsto> v)"
proof (induction m)
  case (Cons a m)
  then show ?case by (cases a) (auto simp: bt_ok_def)
qed simp

lemma map_of_bt_remove: "map_of (bt_remove k m) = (map_of m)(k := None)"
  by (induction m) (auto simp: bt_remove_def)

interpretation bt: store bt_ok "[] :: 'v btree" map_of bt_insert bt_remove
  by unfold_locales (auto simp: map_of_bt_insert map_of_bt_remove)

lemma bt_insert_last:
  "bt_ok (m @ [(k, v)]) \<Longrightarrow> bt_insert k v m = m @ [(k, v)]"
  by (induction m) (auto simp: bt_ok_def sorted_wrt_append dest: less_asym)

lemma bt_ok_append1: "bt_ok (m @ [x]) \<Longrightarrow> bt_ok m"
  by (simp add: bt_ok_def sorted_wrt_append)

lemma bt_ok_append1': "bt_ok ((m @ [x]) @ n) \<Longrightarrow> bt_ok (m @ [x])"
  by (simp add: bt_ok_def sorted_wrt_append)

lemma foldl_bt_insert:
  "bt_ok (acc @ m) \<Longrightarrow> foldl (\<lambda>a (k, v). bt_insert k (f v) a) (map (apsnd f) acc) m =
     map (apsnd f) (acc @ m)"
proof (induction m arbitrary: acc)
  case (Cons x m)
  obtain k v where x: "x = (k, v)" by (cases x)
  have ok: "bt_ok ((acc @ [(k, v)]) @ m)" using Cons.prems x by simp
  have "bt_ok (map (apsnd f) acc @ [(k, f v)])"
    using ok by (simp add: bt_ok_def sorted_wrt_append comp_def case_prod_unfold)
  then have "bt_insert k (f v) (map (apsnd f) acc) = map (apsnd f) (acc @ [(k, v)])"
    by (simp add: bt_insert_last)
  with Cons.IH [OF ok] x show ?case by simp
qed simp

section \<open>Keys and scalars\<close>

definition CONFIG_FILE_NAME :: string where "CONFIG_FILE_NAME = ''config.toml''"

definition PROFILE_TABLE :: string where "PROFILE_TABLE = ''profile''"

definition file_key :: "string \<Rightarrow> string" where
  "file_key env_key =
     to_lowercase (case strip_prefix ''VB_'' env_key of Some s \<Rightarrow> s | None \<Rightarrow> env_key)"

definition env_var_for :: "string \<Rightarrow> string" where
  "env_var_for key = ''VB_'' @ to_uppercase key"

datatype 'f scalar = Text string | SInt int | SFloat 'f | SBool bool

fun as_text :: "('f \<Rightarrow> string) \<Rightarrow> 'f scalar \<Rightarrow> string" where
  "as_text show_float (Text s) = s"
| "as_text show_float (SInt i) = show_int i"
| "as_text show_float (SFloat x) = show_float x"
| "as_text show_float (SBool b) = show_bool b"

text \<open>The values of the \<open>toml\<close> crate, as \<open>from_toml\<close> and \<open>kind_of\<close> match on them.\<close>

datatype 'f toml_value =
    TString string
  | TInteger int
  | TFloat 'f
  | TBoolean bool
  | TDatetime string
  | TArray "'f toml_value list"
  | TTable "(string \<times> 'f toml_value) list"

fun to_toml_value :: "'f scalar \<Rightarrow> 'f toml_value" where
  "to_toml_value (Text s) = TString s"
| "to_toml_value (SInt i) = TInteger i"
| "to_toml_value (SFloat x) = TFloat x"
| "to_toml_value (SBool b) = TBoolean b"

fun from_toml :: "'f toml_value \<Rightarrow> 'f scalar option" where
  "from_toml (TString s) = Some (Text s)"
| "from_toml (TInteger i) = Some (SInt i)"
| "from_toml (TFloat x) = Some (SFloat x)"
| "from_toml (TBoolean b) = Some (SBool b)"
| "from_toml (TDatetime d) = Some (Text d)"
| "from_toml (TArray vs) = None"
| "from_toml (TTable t) = None"

fun kind_of :: "'f toml_value \<Rightarrow> string" where
  "kind_of (TString s) = ''string''"
| "kind_of (TInteger i) = ''integer''"
| "kind_of (TFloat x) = ''float''"
| "kind_of (TBoolean b) = ''boolean''"
| "kind_of (TDatetime d) = ''datetime''"
| "kind_of (TArray vs) = ''array''"
| "kind_of (TTable t) = ''table''"

lemma from_to_toml [simp]: "from_toml (to_toml_value s) = Some s"
  by (cases s) auto

section \<open>The file\<close>

datatype file_loc = Profile string string | Global string

record 'f config_file =
  cf_global :: "'f scalar btree"
  cf_profiles :: "'f scalar btree btree"

definition bad_value :: "string \<Rightarrow> string \<Rightarrow> string \<Rightarrow> virtuoso_error" where
  "bad_value origin what tail = Config (''invalid config file '' @ origin @ '': '' @ what @ tail)"

text \<open>The loops of \<open>parse\<close>: one over a section, one over \<open>[profile]\<close>, one over the document.\<close>

fun parse_section ::
    "string \<Rightarrow> string \<Rightarrow> (string \<times> 'f toml_value) list \<Rightarrow> 'f scalar btree \<Rightarrow>
     virtuoso_error + 'f scalar btree" where
  "parse_section origin name [] acc = Inr acc"
| "parse_section origin name ((k, v) # rest) acc =
     (case from_toml v of
        None \<Rightarrow> Inl (bad_value origin (PROFILE_TABLE @ ''.'' @ name @ ''.'' @ k)
                  ('' must be a string, number, boolean or date, got '' @ kind_of v @ '')''))
      | Some s \<Rightarrow> parse_section origin name rest (bt_insert k s acc))"

fun parse_profiles ::
    "string \<Rightarrow> (string \<times> 'f toml_value) list \<Rightarrow> 'f scalar btree btree \<Rightarrow>
     virtuoso_error + 'f scalar btree btree" where
  "parse_profiles origin [] acc = Inr acc"
| "parse_profiles origin ((name, entries) # rest) acc =
     (case entries of
        TTable inner \<Rightarrow>
          bindR (parse_section origin name inner []) (\<lambda>section.
            parse_profiles origin rest (bt_insert name section acc))
      | _ \<Rightarrow> Inl (bad_value origin (''['' @ PROFILE_TABLE @ ''.'' @ name @ '']'')
                ('' must be a table, got '' @ kind_of entries)))"

fun parse_doc ::
    "string \<Rightarrow> (string \<times> 'f toml_value) list \<Rightarrow> 'f config_file \<Rightarrow>
     virtuoso_error + 'f config_file" where
  "parse_doc origin [] f = Inr f"
| "parse_doc origin ((key, value) # rest) f =
     (if key = PROFILE_TABLE then
        (case value of
           TTable table \<Rightarrow>
             bindR (parse_profiles origin table (cf_profiles f)) (\<lambda>ps.
               parse_doc origin rest (f\<lparr>cf_profiles := ps\<rparr>))
         | _ \<Rightarrow> Inl (bad_value origin (''['' @ PROFILE_TABLE @ '']'')
                   ('' must be a table, got '' @ kind_of value)))
      else
        (case from_toml value of
           None \<Rightarrow> Inl (bad_value origin key
                     ('' must be a string, number, boolean or date, got '' @ kind_of value))
         | Some s \<Rightarrow> parse_doc origin rest (f\<lparr>cf_global := bt_insert key s (cf_global f)\<rparr>)))"

definition empty_file :: "'f config_file" where
  "empty_file = \<lparr>cf_global = [], cf_profiles = []\<rparr>"

definition parse_config ::
    "(string \<Rightarrow> string + (string \<times> 'f toml_value) list) \<Rightarrow> string \<Rightarrow> string \<Rightarrow>
     virtuoso_error + 'f config_file" where
  "parse_config from_str raw origin =
     (case from_str raw of
        Inl e \<Rightarrow> Inl (bad_value origin e [])
      | Inr doc \<Rightarrow> parse_doc origin doc empty_file)"

text \<open>
  \<open>read\<close> is \<open>std::fs::read_to_string\<close> on an existing file (its text or the I/O error), \<open>None\<close> when
  the path does not exist.
\<close>

definition load_config ::
    "(string \<Rightarrow> string + (string \<times> 'f toml_value) list) \<Rightarrow> string \<Rightarrow> (string + string) option \<Rightarrow>
     virtuoso_error + 'f config_file option" where
  "load_config from_str p read =
     (case read of
        None \<Rightarrow> Inr None
      | Some (Inl e) \<Rightarrow> Inl (Config (''cannot read config file '' @ p @ '': '' @ e))
      | Some (Inr raw) \<Rightarrow> bindR (parse_config from_str raw p) (\<lambda>f. Inr (Some f)))"

text \<open>The first of the two spellings of a key that a section has.\<close>

fun first_spelling :: "'v btree \<Rightarrow> string list \<Rightarrow> (string \<times> 'v) option" where
  "first_spelling m [] = None"
| "first_spelling m (c # cs) =
     (case map_of m c of Some v \<Rightarrow> Some (c, v) | None \<Rightarrow> first_spelling m cs)"

definition spellings :: "string \<Rightarrow> string list" where
  "spellings key = [file_key key, env_var_for (file_key key)]"

definition get_with_loc ::
    "('f \<Rightarrow> string) \<Rightarrow> 'f config_file \<Rightarrow> string \<Rightarrow> string option \<Rightarrow> (string \<times> file_loc) option" where
  "get_with_loc show_float f key profile =
     (let from_global =
            (case first_spelling (cf_global f) (spellings key) of
               Some (c, v) \<Rightarrow> Some (as_text show_float v, Global c)
             | None \<Rightarrow> None)
      in case profile of
           None \<Rightarrow> from_global
         | Some p \<Rightarrow>
             (case map_of (cf_profiles f) p of
                None \<Rightarrow> from_global
              | Some section \<Rightarrow>
                  (case first_spelling section (spellings key) of
                     Some (c, v) \<Rightarrow> Some (as_text show_float v, Profile p c)
                   | None \<Rightarrow> from_global)))"

definition file_get :: "('f \<Rightarrow> string) \<Rightarrow> 'f config_file \<Rightarrow> string \<Rightarrow> string option \<Rightarrow> string option" where
  "file_get show_float f key profile = map_option fst (get_with_loc show_float f key profile)"

definition file_has :: "'f config_file \<Rightarrow> string \<Rightarrow> string option \<Rightarrow> bool" where
  "file_has f key profile =
     list_ex (\<lambda>c.
       (case profile of
          None \<Rightarrow> False
        | Some p \<Rightarrow>
            (case map_of (cf_profiles f) p of
               None \<Rightarrow> False
             | Some section \<Rightarrow> map_of section c \<noteq> None))
       \<or> map_of (cf_global f) c \<noteq> None) (spellings key)"

definition file_set :: "string option \<Rightarrow> string \<Rightarrow> string \<Rightarrow> 'f config_file \<Rightarrow> 'f config_file" where
  "file_set profile key v f =
     (case profile of
        Some p \<Rightarrow>
          f\<lparr>cf_profiles := bt_insert p
             (bt_insert key (Text v) (case map_of (cf_profiles f) p of None \<Rightarrow> [] | Some s \<Rightarrow> s))
             (cf_profiles f)\<rparr>
      | None \<Rightarrow> f\<lparr>cf_global := bt_insert key (Text v) (cf_global f)\<rparr>)"

definition file_remove :: "string option \<Rightarrow> string \<Rightarrow> 'f config_file \<Rightarrow> 'f config_file" where
  "file_remove profile key f =
     (case profile of
        Some p \<Rightarrow>
          (case map_of (cf_profiles f) p of
             None \<Rightarrow> f
           | Some s \<Rightarrow> f\<lparr>cf_profiles := bt_insert p (bt_remove key s) (cf_profiles f)\<rparr>)
      | None \<Rightarrow> f\<lparr>cf_global := bt_remove key (cf_global f)\<rparr>)"

text \<open>The table \<open>to_toml_string\<close> builds, and its text.\<close>

definition section_table :: "'f scalar btree \<Rightarrow> (string \<times> 'f toml_value) list" where
  "section_table m = foldl (\<lambda>t (k, v). bt_insert k (to_toml_value v) t) [] m"

definition root_table :: "'f config_file \<Rightarrow> (string \<times> 'f toml_value) list" where
  "root_table f =
     (let root = section_table (cf_global f)
      in if cf_profiles f = [] then root
         else bt_insert PROFILE_TABLE
           (TTable (foldl (\<lambda>t (name, s). bt_insert name (TTable (section_table s)) t) [] (cf_profiles f)))
           root)"

definition to_toml_string ::
    "((string \<times> 'f toml_value) list \<Rightarrow> string + string) \<Rightarrow> 'f config_file \<Rightarrow> virtuoso_error + string" where
  "to_toml_string to_string_pretty f =
     (case to_string_pretty (root_table f) of
        Inl e \<Rightarrow> Inl (Config (''cannot serialize config file: '' @ e))
      | Inr s \<Rightarrow> Inr s)"

section \<open>Well-formed files\<close>

definition sections_ok :: "'v btree btree \<Rightarrow> bool" where
  "sections_ok m \<longleftrightarrow> bt_ok m \<and> (\<forall>p s. (p, s) \<in> set m \<longrightarrow> bt_ok s)"

definition file_ok :: "'f config_file \<Rightarrow> bool" where
  "file_ok f \<longleftrightarrow> bt_ok (cf_global f) \<and> sections_ok (cf_profiles f)"


lemma set_bt_insert: "x \<in> set (bt_insert k v m) \<Longrightarrow> x = (k, v) \<or> x \<in> set m"
  by (induction m rule: bt_insert.induct) (auto split: if_splits)

lemma sections_insert_ok [simp]: "sections_ok m \<Longrightarrow> bt_ok s \<Longrightarrow> sections_ok (bt_insert p s m)"
  by (auto simp: sections_ok_def dest!: set_bt_insert)

lemma sections_bt_ok: "sections_ok m \<Longrightarrow> bt_ok m"
  by (simp add: sections_ok_def)

lemma section_member_ok: "sections_ok m \<Longrightarrow> (p, s) \<in> set m \<Longrightarrow> bt_ok s"
  unfolding sections_ok_def by blast

lemma sections_ok_Nil [simp]: "sections_ok []"
  by (simp add: sections_ok_def)

lemma section_of_ok: "sections_ok m \<Longrightarrow> map_of m p = Some s \<Longrightarrow> bt_ok s"
  by (auto simp: sections_ok_def dest!: map_of_SomeD)

lemma parse_section_ok: "parse_section origin name kvs acc = Inr m \<Longrightarrow> bt_ok acc \<Longrightarrow> bt_ok m"
  by (induction kvs arbitrary: acc) (auto split: option.splits)

lemma parse_profiles_ok: "parse_profiles origin t acc = Inr m \<Longrightarrow> sections_ok acc \<Longrightarrow> sections_ok m"
proof (induction t arbitrary: acc)
  case (Cons e t)
  obtain name entries where e: "e = (name, entries)" by (cases e)
  with Cons.prems obtain inner s where
    "parse_section origin name inner [] = Inr s" "parse_profiles origin t (bt_insert name s acc) = Inr m"
    by (cases entries) (auto simp: bindR_Inr_iff)
  with Cons show ?case by (meson bt_ok_Nil parse_section_ok sections_insert_ok)
qed simp

lemma parse_doc_ok: "parse_doc origin doc f = Inr g \<Longrightarrow> file_ok f \<Longrightarrow> file_ok g"
proof (induction doc arbitrary: f)
  case (Cons e doc)
  obtain key v where e: "e = (key, v)" by (cases e)
  show ?case
  proof (cases "key = PROFILE_TABLE")
    case True
    with Cons.prems e obtain t ps where
      t: "parse_profiles origin t (cf_profiles f) = Inr ps"
         "parse_doc origin doc (f\<lparr>cf_profiles := ps\<rparr>) = Inr g"
      by (cases v) (auto simp: bindR_Inr_iff)
    with Cons.prems(2) have "file_ok (f\<lparr>cf_profiles := ps\<rparr>)"
      by (auto simp: file_ok_def dest: parse_profiles_ok)
    with t Cons.IH show ?thesis by blast
  next
    case False
    with Cons show ?thesis
      by (auto simp: e file_ok_def split: option.splits intro: bt_insert_ok)
  qed
qed simp

lemma empty_file_ok [simp]: "file_ok empty_file"
  by (simp add: file_ok_def empty_file_def)

lemma parse_config_ok: "parse_config from_str raw origin = Inr f \<Longrightarrow> file_ok f"
  by (auto simp: parse_config_def intro: parse_doc_ok split: sum.splits)

lemma file_set_ok: "file_ok f \<Longrightarrow> file_ok (file_set profile key v f)"
  by (auto simp: file_set_def file_ok_def section_of_ok split: option.splits)

lemma file_remove_ok: "file_ok f \<Longrightarrow> file_ok (file_remove profile key f)"
  by (auto simp: file_remove_def file_ok_def section_of_ok split: option.splits)

section \<open>Writing and reading back\<close>

lemma section_table_eq: "bt_ok m \<Longrightarrow> section_table m = map (apsnd to_toml_value) m"
  using foldl_bt_insert [of "[]" m to_toml_value] by (simp add: section_table_def)

lemma profiles_table_eq:
  assumes "sections_ok m"
  shows "foldl (\<lambda>t (name, s). bt_insert name (TTable (section_table s)) t) [] m =
    map (apsnd (\<lambda>s. TTable (map (apsnd to_toml_value) s))) m"
proof -
  have "bt_ok ([] @ m)" using assms by (simp add: sections_ok_def)
  from foldl_bt_insert [OF this, of "\<lambda>s. TTable (section_table s)"]
  have "foldl (\<lambda>t (name, s). bt_insert name (TTable (section_table s)) t) [] m =
    map (apsnd (\<lambda>s. TTable (section_table s))) m"
    unfolding list.map append_Nil .
  also have "\<dots> = map (apsnd (\<lambda>s. TTable (map (apsnd to_toml_value) s))) m"
  proof (rule map_cong [OF refl])
    fix x assume "x \<in> set m"
    with assms have "bt_ok (snd x)"
      by (metis prod.collapse section_member_ok)
    then show "apsnd (\<lambda>s. TTable (section_table s)) x =
      apsnd (\<lambda>s. TTable (map (apsnd to_toml_value) s)) x"
      by (cases x) (simp add: section_table_eq)
  qed
  finally show ?thesis .
qed

lemma parse_section_back:
  "bt_ok (acc @ m) \<Longrightarrow> parse_section origin name (map (apsnd to_toml_value) m) acc = Inr (acc @ m)"
proof (induction m arbitrary: acc)
  case (Cons x m)
  obtain k v where x: "x = (k, v)" by (cases x)
  from Cons.prems have ok: "bt_ok ((acc @ [(k, v)]) @ m)" by (simp add: x)
  with bt_ok_append1 have "bt_insert k v acc = acc @ [(k, v)]"
    by (intro bt_insert_last) (simp add: bt_ok_def sorted_wrt_append)
  with Cons.IH [OF ok] show ?case by (simp add: x)
qed simp

lemma parse_section_back0:
  "bt_ok m \<Longrightarrow> parse_section origin name (map (apsnd to_toml_value) m) [] = Inr m"
  by (metis append_Nil parse_section_back)

lemma parse_profiles_back:
  "sections_ok (acc @ m) \<Longrightarrow>
   parse_profiles origin (map (apsnd (\<lambda>s. TTable (map (apsnd to_toml_value) s))) m) acc = Inr (acc @ m)"
proof (induction m arbitrary: acc)
  case (Cons x m)
  obtain k v where x: "x = (k, v)" by (cases x)
  from Cons.prems have ok: "sections_ok ((acc @ [(k, v)]) @ m)" by (simp add: x)
  from sections_bt_ok [OF ok] have "bt_ok (acc @ [(k, v)])" by (rule bt_ok_append1')
  then have "bt_insert k v acc = acc @ [(k, v)]" by (rule bt_insert_last)
  moreover have "(k, v) \<in> set ((acc @ [(k, v)]) @ m)" by simp
  with ok have "bt_ok v" by (rule section_member_ok)
  ultimately show ?case
    using Cons.IH [OF ok] by (simp add: x parse_section_back0)
qed simp

lemma bt_insert_split:
  "k \<notin> fst ` set m \<Longrightarrow> \<exists>a b. m = a @ b \<and> bt_insert k v m = a @ (k, v) # b"
proof (induction m)
  case (Cons x m)
  obtain k' v' where x: "x = (k', v')" by (cases x)
  show ?case
  proof (cases "k < k'")
    case True
    then have "bt_insert k v (x # m) = (k, v) # x # m" by (simp add: x)
    then show ?thesis by (metis append_Nil)
  next
    case False
    from Cons obtain a b where ab: "m = a @ b" "bt_insert k v m = a @ (k, v) # b" by auto
    moreover have "k \<noteq> k'" using Cons.prems by (simp add: x)
    moreover have "bt_insert k v (x # m) = x # bt_insert k v m"
      using False \<open>k \<noteq> k'\<close> unfolding x bt_insert.simps by presburger
    ultimately show ?thesis
      by (intro exI [of _ "x # a"] exI [of _ b]) simp
  qed
qed simp

lemma parse_doc_scalars:
  "PROFILE_TABLE \<notin> fst ` set m \<Longrightarrow> bt_ok (cf_global f @ m) \<Longrightarrow>
   parse_doc origin (map (apsnd to_toml_value) m @ rest) f =
     parse_doc origin rest (f\<lparr>cf_global := cf_global f @ m\<rparr>)"
proof (induction m arbitrary: f)
  case (Cons x m)
  obtain k v where x: "x = (k, v)" by (cases x)
  from Cons.prems have ok: "bt_ok ((cf_global f @ [(k, v)]) @ m)" by (simp add: x)
  have "bt_insert k v (cf_global f) = cf_global f @ [(k, v)]"
    using ok by (intro bt_insert_last) (simp add: bt_ok_def sorted_wrt_append)
  moreover have "k \<noteq> PROFILE_TABLE" using Cons.prems(1) by (auto simp: x)
  ultimately show ?case
    using Cons.IH [of "f\<lparr>cf_global := cf_global f @ [(k, v)]\<rparr>"] Cons.prems ok by (simp add: x)
qed simp

lemma parse_doc_no_profile_key:
  "parse_doc origin doc f = Inr g \<Longrightarrow> PROFILE_TABLE \<notin> fst ` set (cf_global f) \<Longrightarrow>
   PROFILE_TABLE \<notin> fst ` set (cf_global g)"
proof (induction doc arbitrary: f)
  case (Cons e doc)
  obtain key v where e: "e = (key, v)" by (cases e)
  show ?case
  proof (cases "key = PROFILE_TABLE")
    case True
    with Cons.prems e obtain ps where "parse_doc origin doc (f\<lparr>cf_profiles := ps\<rparr>) = Inr g"
      by (cases v) (auto simp: bindR_Inr_iff)
    with Cons.IH Cons.prems(2) show ?thesis by force
  next
    case False
    with Cons.prems e obtain s where
      "parse_doc origin doc (f\<lparr>cf_global := bt_insert key s (cf_global f)\<rparr>) = Inr g"
      by (auto split: option.splits)
    moreover have "PROFILE_TABLE \<notin> fst ` set (cf_global (f\<lparr>cf_global := bt_insert key s (cf_global f)\<rparr>))"
      using Cons.prems(2) False by (simp add: bt_insert_keys)
    ultimately show ?thesis using Cons.IH by blast
  qed
qed simp

lemma root_table_back:
  assumes ok: "file_ok f" and np: "PROFILE_TABLE \<notin> fst ` set (cf_global f)"
  shows "parse_doc origin (root_table f) empty_file = Inr f"
proof (cases "cf_profiles f = []")
  case True
  with ok np parse_doc_scalars [of "cf_global f" empty_file origin "[]"] show ?thesis
    by (simp add: root_table_def section_table_eq file_ok_def empty_file_def)
next
  case False
  let ?t = "map (apsnd (\<lambda>s. TTable (map (apsnd to_toml_value) s))) (cf_profiles f)"
  have "PROFILE_TABLE \<notin> fst ` set (map (apsnd to_toml_value) (cf_global f))"
    using np by force
  from bt_insert_split [OF this, of "TTable ?t"] obtain u w where uw: "map (apsnd to_toml_value) (cf_global f) = u @ w"
    "bt_insert PROFILE_TABLE (TTable ?t) (map (apsnd to_toml_value) (cf_global f)) =
       u @ (PROFILE_TABLE, TTable ?t) # w"
    by metis
  then obtain a b where ab: "cf_global f = a @ b" "u = map (apsnd to_toml_value) a"
    "w = map (apsnd to_toml_value) b"
    by (auto simp: map_eq_append_conv)
  have root: "root_table f = map (apsnd to_toml_value) a @ (PROFILE_TABLE, TTable ?t) #
      map (apsnd to_toml_value) b"
    using ok False uw ab by (simp add: root_table_def file_ok_def section_table_eq profiles_table_eq)
  have bts: "bt_ok a" "bt_ok (a @ b)" "PROFILE_TABLE \<notin> fst ` set a" "PROFILE_TABLE \<notin> fst ` set b"
    using ok np ab(1) by (auto simp: file_ok_def bt_ok_def sorted_wrt_append)
  have prof: "parse_profiles origin ?t [] = Inr (cf_profiles f)"
    using ok parse_profiles_back [of "[]" "cf_profiles f"] by (simp add: file_ok_def)
  have "parse_doc origin (root_table f) empty_file =
      parse_doc origin (map (apsnd to_toml_value) b @ [])
        (empty_file\<lparr>cf_global := a, cf_profiles := cf_profiles f\<rparr>)"
    using bts prof by (simp add: root parse_doc_scalars empty_file_def)
  also have "\<dots> = Inr f"
    using bts ab(1) by (subst parse_doc_scalars) (simp_all add: empty_file_def)
  finally show ?thesis .
qed

text \<open>
  C20: What \<open>to_toml_string\<close> writes for a well-formed file is read back as the same file exactly
  when no global key is called \<open>profile\<close>: \<open>set\<close> accepts that key, and the document written then
  fails to parse or loses the value.
\<close>
theorem config_file_roundtrip:
  assumes "file_ok f"
    and "to_toml_string to_string_pretty f = Inr text"
    and "from_str text = Inr (root_table f)"
  shows "parse_config from_str text origin = Inr f \<longleftrightarrow> PROFILE_TABLE \<notin> fst ` set (cf_global f)"
proof
  assume "parse_config from_str text origin = Inr f"
  with assms(3) have "parse_doc origin (root_table f) empty_file = Inr f"
    by (simp add: parse_config_def)
  then show "PROFILE_TABLE \<notin> fst ` set (cf_global f)"
    by (rule parse_doc_no_profile_key) (simp add: empty_file_def)
next
  assume "PROFILE_TABLE \<notin> fst ` set (cf_global f)"
  with assms show "parse_config from_str text origin = Inr f"
    by (simp add: parse_config_def root_table_back)
qed

theorem config_file_roundtrip_witness:
  "let f = file_set (Some ''prod'') ''timeout'' ''45'' (file_set None ''remote_host'' ''eda'' (empty_file :: nat config_file))
   in parse_config (\<lambda>_. Inr (root_table f)) ''doc'' ''config.toml'' = Inr f"
proof -
  let ?f = "file_set (Some ''prod'') ''timeout'' ''45'' (file_set None ''remote_host'' ''eda'' (empty_file :: nat config_file))"
  have "file_ok ?f" by (intro file_set_ok empty_file_ok)
  moreover have "PROFILE_TABLE \<notin> fst ` set (cf_global ?f)"
    by (simp add: file_set_def empty_file_def PROFILE_TABLE_def)
  ultimately show ?thesis
    using config_file_roundtrip [of ?f "\<lambda>_. Inr ''doc''" "''doc''" "\<lambda>_. Inr (root_table ?f)" "''config.toml''"]
    by (simp add: to_toml_string_def Let_def)
qed

section \<open>Lookup\<close>

lemma map_of_profiles_set:
  "bt_ok (cf_profiles f) \<Longrightarrow> map_of (cf_profiles (file_set (Some p) k v f)) p =
     Some (bt_insert k (Text v) (case map_of (cf_profiles f) p of None \<Rightarrow> [] | Some s \<Rightarrow> s))"
  by (simp add: file_set_def bt.lookup_put_same)

lemma get_profile_hit:
  "map_of (cf_profiles f) p = Some s \<Longrightarrow> first_spelling s (spellings k) = Some (c, v) \<Longrightarrow>
   get_with_loc sf f k (Some p) = Some (as_text sf v, Profile p c)"
  by (simp add: get_with_loc_def)

lemma get_global:
  "(\<forall>p s. profile = Some p \<longrightarrow> map_of (cf_profiles f) p = Some s \<longrightarrow> first_spelling s (spellings k) = None) \<Longrightarrow>
   get_with_loc sf f k profile = get_with_loc sf f k None"
  by (auto simp: get_with_loc_def split: option.splits)

lemma first_spelling_None: "first_spelling m ks = None \<longleftrightarrow> (\<forall>k\<in>set ks. map_of m k = None)"
  by (induction ks) (auto split: option.splits)

lemma file_key_set_lookup:
  "bt_ok m \<Longrightarrow> file_key k = k' \<Longrightarrow> first_spelling (bt_insert k' v m) (spellings k) = Some (k', v)"
  by (simp add: spellings_def bt.lookup_put_same)

text \<open>A value the file sets under the friendly key of a variable is the value its reader finds.\<close>

lemma file_get_set:
  assumes "file_ok f"
  shows "file_get sf (file_set profile (file_key k) v f) k profile = Some v"
proof (cases profile)
  case None
  with assms show ?thesis
    by (simp add: file_get_def get_with_loc_def file_set_def file_ok_def file_key_set_lookup)
next
  case (Some p)
  have "bt_ok (case map_of (cf_profiles f) p of None \<Rightarrow> [] | Some s \<Rightarrow> s)"
    using assms by (auto simp: file_ok_def section_of_ok split: option.splits)
  with Some assms show ?thesis
    by (simp add: file_get_def get_with_loc_def file_ok_def sections_ok_def map_of_profiles_set file_key_set_lookup)
qed

end
