(* ===== verification/Targets.thy ===== *)
theory Targets
  imports Config_File
begin

text \<open>
  \<open>src/target/mod.rs\<close>: the targets file and its manager.  The \<open>HashMap\<close> of targets is an
  association list sorted by name (the code only looks names up and lists them sorted).  YAML
  (\<open>serde_yaml\<close>) and the file system are arguments of \<open>load_from\<close> and \<open>save\<close>.
\<close>

section \<open>Targets\<close>

record target_config =
  t_remote_host :: "string option"
  t_remote_user :: "string option"
  t_port :: "u16 option"
  t_jump_host :: "string option"
  t_jump_user :: "string option"
  t_ssh_port :: "u16 option"
  t_ssh_key :: "string option"
  t_ssh_config :: "string option"
  t_ssh_backend :: "string option"
  t_disable_control_master :: "bool option"
  t_timeout :: "u64 option"
  t_read_timeout :: "u64 option"
  t_keep_remote_files :: "bool option"
  t_spectre_cmd :: "string option"
  t_spectre_args :: "string list option"
  t_spectre_max_workers :: "u32 option"
  t_cadence_cshrc :: "string option"
  t_spectre_bin :: "string option"
  t_ssh_max_sessions :: "nat option"
  t_ssh_max_bulk_sessions :: "nat option"
  t_ssh_reconnect_max_attempts :: "u32 option"
  t_ssh_reconnect_max_delay :: "u64 option"
  t_ssh_keepalive_interval :: "u64 option"
  t_ssh_keepalive_failures :: "u32 option"
  t_transport_daemon_socket :: "string option"
  t_transport_daemon_token :: "string option"
  t_allow_cross_user_daemon :: "bool option"
  t_description :: "string option"

definition default_target :: target_config where
  "default_target =
     \<lparr>t_remote_host = None, t_remote_user = None, t_port = None, t_jump_host = None, t_jump_user = None,
      t_ssh_port = None, t_ssh_key = None, t_ssh_config = None, t_ssh_backend = None,
      t_disable_control_master = None, t_timeout = None, t_read_timeout = None,
      t_keep_remote_files = None, t_spectre_cmd = None, t_spectre_args = None,
      t_spectre_max_workers = None, t_cadence_cshrc = None, t_spectre_bin = None,
      t_ssh_max_sessions = None, t_ssh_max_bulk_sessions = None, t_ssh_reconnect_max_attempts = None,
      t_ssh_reconnect_max_delay = None, t_ssh_keepalive_interval = None,
      t_ssh_keepalive_failures = None, t_transport_daemon_socket = None,
      t_transport_daemon_token = None, t_allow_cross_user_daemon = None, t_description = None\<rparr>"

record targets_config =
  targets :: "target_config btree"
  active_target_field :: "string option"

datatype target_error = TgtIo string | TgtParse string | TgtNotFound string

fun display_target_error :: "target_error \<Rightarrow> string" where
  "display_target_error (TgtIo m) = ''IO error: '' @ m"
| "display_target_error (TgtParse m) = ''Parse error: '' @ m"
| "display_target_error (TgtNotFound m) = ''Target not found: '' @ m"

record target_manager =
  tm_config :: targets_config
  tm_path :: string

definition default_config_path :: "string option \<Rightarrow> string option \<Rightarrow> string" where
  "default_config_path targets_file home =
     (case targets_file of
        Some raw \<Rightarrow>
          if raw \<noteq> [] then raw
          else (case home of Some h \<Rightarrow> h | None \<Rightarrow> ''.'') @ ''/.vcli/targets.yaml''
      | None \<Rightarrow> (case home of Some h \<Rightarrow> h | None \<Rightarrow> ''.'') @ ''/.vcli/targets.yaml'')"

text \<open>\<open>read\<close>: \<open>None\<close> when the path does not exist, else the text or the error of reading it.\<close>

definition load_from ::
    "(string \<Rightarrow> string + targets_config) \<Rightarrow> string \<Rightarrow> (string + string) option \<Rightarrow>
     target_error + target_manager" where
  "load_from from_str p read =
     (case read of
        None \<Rightarrow> Inr \<lparr>tm_config = \<lparr>targets = [], active_target_field = None\<rparr>, tm_path = p\<rparr>
      | Some (Inl e) \<Rightarrow> Inl (TgtIo (''failed to read '' @ p @ '': '' @ e))
      | Some (Inr content) \<Rightarrow>
          (case from_str content of
             Inl e \<Rightarrow> Inl (TgtParse (''failed to parse '' @ p @ '': '' @ e))
           | Inr c \<Rightarrow> Inr \<lparr>tm_config = c, tm_path = p\<rparr>))"

definition target_get :: "target_manager \<Rightarrow> string \<Rightarrow> target_config option" where
  "target_get m name = map_of (targets (tm_config m)) name"

definition active_target_name :: "target_manager \<Rightarrow> string" where
  "active_target_name m =
     (case active_target_field (tm_config m) of Some n \<Rightarrow> n | None \<Rightarrow> ''default'')"

definition active_target :: "target_manager \<Rightarrow> target_config option" where
  "active_target m = target_get m (active_target_name m)"

definition active_target_raw :: "target_manager \<Rightarrow> string option" where
  "active_target_raw m = active_target_field (tm_config m)"

definition list_names :: "target_manager \<Rightarrow> string list" where
  "list_names m = map fst (targets (tm_config m))"

definition target_set :: "string \<Rightarrow> target_config \<Rightarrow> target_manager \<Rightarrow> target_manager" where
  "target_set name c m =
     m\<lparr>tm_config := (tm_config m)\<lparr>targets := bt_insert name c (targets (tm_config m))\<rparr>\<rparr>"

definition target_remove :: "string \<Rightarrow> target_manager \<Rightarrow> bool \<times> target_manager" where
  "target_remove name m =
     (target_get m name \<noteq> None,
      m\<lparr>tm_config := (tm_config m)\<lparr>targets := bt_remove name (targets (tm_config m))\<rparr>\<rparr>)"

definition set_active :: "string \<Rightarrow> target_manager \<Rightarrow> target_error + target_manager" where
  "set_active name m =
     (if target_get m name = None then Inl (TgtNotFound name)
      else Inr (m\<lparr>tm_config := (tm_config m)\<lparr>active_target_field := Some name\<rparr>\<rparr>))"

definition clear_active :: "target_manager \<Rightarrow> target_manager" where
  "clear_active m = m\<lparr>tm_config := (tm_config m)\<lparr>active_target_field := None\<rparr>\<rparr>"

definition targets_empty :: "target_manager \<Rightarrow> bool" where
  "targets_empty m \<longleftrightarrow> targets (tm_config m) = []"

section \<open>Laws of the manager\<close>

text \<open>A manager is consistent when its active target, if one is named, is defined.\<close>

definition manager_ok :: "target_manager \<Rightarrow> bool" where
  "manager_ok m \<longleftrightarrow> bt_ok (targets (tm_config m))"

definition active_defined :: "target_manager \<Rightarrow> bool" where
  "active_defined m \<longleftrightarrow> (case active_target_raw m of None \<Rightarrow> True | Some n \<Rightarrow> target_get m n \<noteq> None)"

definition empty_manager :: target_manager where
  "empty_manager = \<lparr>tm_config = \<lparr>targets = [], active_target_field = None\<rparr>, tm_path = []\<rparr>"

interpretation tm: store manager_ok empty_manager target_get target_set "\<lambda>k m. snd (target_remove k m)"
  by unfold_locales
     (auto simp: manager_ok_def empty_manager_def target_get_def target_set_def target_remove_def
       bt.lookup_put bt.lookup_del)

lemma list_names_sorted: "manager_ok m \<Longrightarrow> sorted_wrt (<) (list_names m)"
  by (simp add: manager_ok_def bt_ok_def list_names_def)

lemma list_names_set: "set (list_names m) = {n. target_get m n \<noteq> None}"
  by (auto simp: list_names_def target_get_def map_of_eq_None_iff)

lemma active_raw_set [simp]: "active_target_raw (target_set n c m) = active_target_raw m"
  by (simp add: active_target_raw_def target_set_def)

lemma active_raw_remove [simp]: "active_target_raw (snd (target_remove n m)) = active_target_raw m"
  by (simp add: active_target_raw_def target_remove_def)

lemma set_keeps_active: "manager_ok m \<Longrightarrow> active_defined m \<Longrightarrow> active_defined (target_set n c m)"
  by (auto simp: active_defined_def tm.lookup_put split: option.splits)

lemma set_active_defined: "set_active n m = Inr m' \<Longrightarrow> active_defined m'"
  by (auto simp: set_active_def active_defined_def active_target_raw_def target_get_def split: if_splits)

lemma clear_active_defined: "active_defined (clear_active m)"
  by (simp add: active_defined_def active_target_raw_def clear_active_def)

text \<open>\<open>remove\<close> leaves an active target that names nothing; the caller has to clear it.\<close>

lemma remove_breaks_active:
  "manager_ok m \<Longrightarrow> active_defined m \<Longrightarrow>
   active_defined (snd (target_remove n m)) \<longleftrightarrow> active_target_raw m \<noteq> Some n"
  by (auto simp: active_defined_def tm.lookup_del split: option.splits)

end
