(* ===== verification/Settings.thy ===== *)
theory Settings
  imports Targets Contract
begin

text \<open>
  \<open>src/config.rs\<close>: how one configuration is resolved from the environment, \<open>config.toml\<close> and
  \<open>targets.yaml\<close>, its identity digest, and the report of \<open>vcli config check\<close>.  The process
  environment is a function \<open>env\<close> from variable names to values; \<open>shlex::split\<close>, the hash of
  \<open>sha2\<close> (\<open>sha256_hex\<close>) and the rendering of TOML numbers (\<open>sf\<close>) are arguments.
\<close>

section \<open>Roles\<close>

record remote_roles =
  r_gui_host :: "string option"
  r_deploy_host :: "string option"
  r_daemon_host :: "string option"
  r_spectre_host :: "string option"
  r_scratch_root :: "string option"

definition default_roles :: remote_roles where
  "default_roles = \<lparr>r_gui_host = None, r_deploy_host = None, r_daemon_host = None,
     r_spectre_host = None, r_scratch_root = None\<rparr>"

definition role_resolve :: "string option \<Rightarrow> string option \<Rightarrow> string option" where
  "role_resolve role fallback =
     (case role of Some v \<Rightarrow> if v \<noteq> [] then Some v else fallback | None \<Rightarrow> fallback)"

definition role_own :: "string option \<Rightarrow> string option" where
  "role_own role = (case role of Some v \<Rightarrow> if v \<noteq> [] then Some v else None | None \<Rightarrow> None)"

definition gui_host_opt :: "remote_roles \<Rightarrow> string option" where
  "gui_host_opt r = role_own (r_gui_host r)"

definition deploy_host_opt :: "remote_roles \<Rightarrow> string option" where
  "deploy_host_opt r = role_own (r_deploy_host r)"

definition daemon_host_opt :: "remote_roles \<Rightarrow> string option" where
  "daemon_host_opt r = role_own (r_daemon_host r)"

definition spectre_host_opt :: "remote_roles \<Rightarrow> string option" where
  "spectre_host_opt r = role_own (r_spectre_host r)"

definition resolve_with :: "string option \<Rightarrow> string option \<Rightarrow> string" where
  "resolve_with role fallback = or_empty (role_resolve role fallback)"

definition gui_host :: "remote_roles \<Rightarrow> string option \<Rightarrow> string" where
  "gui_host r fallback = resolve_with (r_gui_host r) fallback"

definition deploy_host :: "remote_roles \<Rightarrow> string option \<Rightarrow> string" where
  "deploy_host r fallback = resolve_with (r_deploy_host r) fallback"

definition daemon_host :: "remote_roles \<Rightarrow> string option \<Rightarrow> string" where
  "daemon_host r fallback = resolve_with (r_daemon_host r) fallback"

definition spectre_host :: "remote_roles \<Rightarrow> string option \<Rightarrow> string" where
  "spectre_host r fallback = resolve_with (r_spectre_host r) fallback"

section \<open>The resolved configuration\<close>

record config =
  profile :: "string option"
  remote_host :: "string option"
  remote_user :: "string option"
  port :: u16
  port_explicit :: bool
  jump_host :: "string option"
  jump_user :: "string option"
  ssh_port :: "u16 option"
  ssh_key :: "string option"
  ssh_config :: "string option"
  ssh_backend :: "string option"
  disable_control_master :: bool
  cfg_timeout :: u64
  read_timeout :: u64
  keep_remote_files :: bool
  spectre_cmd :: string
  spectre_args :: "string list"
  spectre_max_workers :: u32
  ssh_max_sessions :: nat
  ssh_max_bulk_sessions :: nat
  ssh_reconnect_max_attempts :: u32
  ssh_reconnect_max_delay :: u64
  ssh_keepalive_interval :: u64
  ssh_keepalive_failures :: u32
  transport_shutdown_grace :: u64
  cadence_cshrc :: "string option"
  spectre_bin :: "string option"
  roles :: remote_roles
  transport_daemon_socket :: "string option"
  transport_daemon_token :: "string option"
  allow_cross_user_daemon :: bool

section \<open>Layered lookup\<close>

type_synonym env = "string \<Rightarrow> string option"

datatype default_kind = Hardcoded | Derived

datatype config_source =
    EnvProfile string
  | Env string
  | FileProfile string
  | FileGlobal string
  | TargetSource string string
  | Default string default_kind

record 'f layers =
  ly_profile :: "string option"
  ly_file :: "'f config_file option"
  ly_env :: env
  ly_path :: string

definition nonempty_var :: "env \<Rightarrow> string \<Rightarrow> string option" where
  "nonempty_var env key = (case env key of Some v \<Rightarrow> if v \<noteq> [] then Some v else None | None \<Rightarrow> None)"

definition profile_key :: "string \<Rightarrow> string \<Rightarrow> string" where
  "profile_key key p = key @ ''_'' @ p"

definition file_source :: "string \<Rightarrow> file_loc \<Rightarrow> config_source" where
  "file_source path loc = (case loc of Profile p k \<Rightarrow> FileProfile path | Global k \<Rightarrow> FileGlobal path)"

definition raw_with_source ::
    "('f \<Rightarrow> string) \<Rightarrow> 'f layers \<Rightarrow> string \<Rightarrow> (string \<times> config_source) option" where
  "raw_with_source sf lz key =
     (case Option.bind (ly_profile lz) (\<lambda>p. nonempty_var (ly_env lz) (profile_key key p)) of
        Some v \<Rightarrow> Some (v, EnvProfile (profile_key key (the (ly_profile lz))))
      | None \<Rightarrow>
          (case nonempty_var (ly_env lz) key of
             Some v \<Rightarrow> Some (v, Env key)
           | None \<Rightarrow>
               (case ly_file lz of
                  None \<Rightarrow> None
                | Some file \<Rightarrow>
                    (case get_with_loc sf file key (ly_profile lz) of
                       Some (v, loc) \<Rightarrow> Some (v, file_source (ly_path lz) loc)
                     | None \<Rightarrow> None))))"

definition raw :: "('f \<Rightarrow> string) \<Rightarrow> 'f layers \<Rightarrow> string \<Rightarrow> string option" where
  "raw sf lz key = map_option fst (raw_with_source sf lz key)"

definition env_with_profile :: "env \<Rightarrow> string \<Rightarrow> string option \<Rightarrow> string option" where
  "env_with_profile env key prof =
     (case Option.bind prof (\<lambda>p. nonempty_var env (profile_key key p)) of
        Some v \<Rightarrow> Some v
      | None \<Rightarrow> nonempty_var env key)"

definition text_or :: "('f \<Rightarrow> string) \<Rightarrow> 'f layers \<Rightarrow> string \<Rightarrow> string \<Rightarrow> string" where
  "text_or sf lz key d = (case raw sf lz key of Some v \<Rightarrow> v | None \<Rightarrow> d)"

text \<open>\<open>parsed::<T>\<close> for the unsigned type with maximum \<open>m\<close>.\<close>

definition parsed :: "('f \<Rightarrow> string) \<Rightarrow> 'f layers \<Rightarrow> nat \<Rightarrow> string \<Rightarrow> virtuoso_error + nat option" where
  "parsed sf lz m key =
     (case raw sf lz key of
        None \<Rightarrow> Inr None
      | Some v \<Rightarrow>
          (case parse_int m v of
             Inr n \<Rightarrow> Inr (Some n)
           | Inl e \<Rightarrow> Inl (Config (key @ '': '' @ debug_str v @ '' is not valid: '' @ e))))"

definition parsed_or :: "('f \<Rightarrow> string) \<Rightarrow> 'f layers \<Rightarrow> nat \<Rightarrow> string \<Rightarrow> nat \<Rightarrow> virtuoso_error + nat" where
  "parsed_or sf lz m key d =
     bindR (parsed sf lz m key) (\<lambda>r. Inr (case r of Some n \<Rightarrow> n | None \<Rightarrow> d))"

definition flag :: "('f \<Rightarrow> string) \<Rightarrow> 'f layers \<Rightarrow> string \<Rightarrow> virtuoso_error + bool" where
  "flag sf lz key =
     (case raw sf lz key of
        None \<Rightarrow> Inr False
      | Some v \<Rightarrow>
          if v = ''1'' \<or> to_lowercase v = ''true'' then Inr True
          else if v = ''0'' \<or> to_lowercase v = ''false'' then Inr False
          else Inl (Config (key @ '': expected true/false/1/0, got '' @ debug_str v)))"

definition flag_truthy :: "('f \<Rightarrow> string) \<Rightarrow> 'f layers \<Rightarrow> string \<Rightarrow> bool" where
  "flag_truthy sf lz key \<longleftrightarrow>
     to_lowercase (trim (or_empty (raw sf lz key))) \<in> {''1'', ''true'', ''yes'', ''on''}"

abbreviation u16_limit :: nat where "u16_limit \<equiv> 65535"
abbreviation u32_limit :: nat where "u32_limit \<equiv> 4294967295"

text \<open>The sum is over \<open>u16\<close> and wraps (in a release build).\<close>

definition default_port :: "env \<Rightarrow> nat" where
  "default_port env =
     (let user = (case env ''USER'' of Some u \<Rightarrow> u | None \<Rightarrow> or_empty (env ''USERNAME''));
          hash = (sum_list (map of_char user) mod 65536) mod 500
      in 65000 + hash)"

definition spectre_args_of :: "(string \<Rightarrow> string list option) \<Rightarrow> string option \<Rightarrow> virtuoso_error + string list" where
  "spectre_args_of shlex v =
     (case v of
        None \<Rightarrow> Inr []
      | Some v \<Rightarrow>
          (case shlex v of
             Some args \<Rightarrow> Inr args
           | None \<Rightarrow> Inl (Config (''VB_SPECTRE_ARGS contains invalid shell syntax: '' @ v))))"

definition to_config ::
    "('f \<Rightarrow> string) \<Rightarrow> (string \<Rightarrow> string list option) \<Rightarrow> 'f layers \<Rightarrow> virtuoso_error + config" where
  "to_config sf shlex lz =
     bindR (parsed_or sf lz u16_limit ''VB_PORT'' (default_port (ly_env lz))) (\<lambda>port.
     if port = 0 then Inl (Config ''VB_PORT must be between 1 and 65535'') else
     bindR (parsed sf lz u16_limit ''VB_SSH_PORT'') (\<lambda>ssh_port.
     bindR (flag sf lz ''VB_DISABLE_CONTROL_MASTER'') (\<lambda>no_cm.
     bindR (parsed_or sf lz u64_max ''VB_TIMEOUT'' 30) (\<lambda>timeout.
     bindR (parsed_or sf lz u64_max ''VB_READ_TIMEOUT'' 120) (\<lambda>read_timeout.
     bindR (flag sf lz ''VB_KEEP_REMOTE_FILES'') (\<lambda>keep.
     bindR (spectre_args_of shlex (raw sf lz ''VB_SPECTRE_ARGS'')) (\<lambda>args.
     bindR (parsed_or sf lz u32_limit ''VB_SPECTRE_MAX_WORKERS'' 8) (\<lambda>workers.
     bindR (parsed_or sf lz u64_max ''VB_SSH_MAX_SESSIONS'' 10) (\<lambda>sessions.
     bindR (parsed_or sf lz u64_max ''VB_SSH_MAX_BULK_SESSIONS'' 2) (\<lambda>bulk_sessions.
     bindR (parsed_or sf lz u32_limit ''VB_SSH_RECONNECT_MAX_ATTEMPTS'' 8) (\<lambda>attempts.
     bindR (parsed_or sf lz u64_max ''VB_SSH_RECONNECT_MAX_DELAY'' 30) (\<lambda>delay.
     bindR (parsed_or sf lz u64_max ''VB_SSH_KEEPALIVE_INTERVAL'' 30) (\<lambda>interval.
     bindR (parsed_or sf lz u32_limit ''VB_SSH_KEEPALIVE_FAILURES'' 3) (\<lambda>failures.
     bindR (parsed_or sf lz u64_max ''VB_TRANSPORT_SHUTDOWN_GRACE'' 10) (\<lambda>grace.
     Inr \<lparr>profile = ly_profile lz,
          remote_host = raw sf lz ''VB_REMOTE_HOST'',
          remote_user = raw sf lz ''VB_REMOTE_USER'',
          port = of_nat port,
          port_explicit = (raw sf lz ''VB_PORT'' \<noteq> None),
          jump_host = raw sf lz ''VB_JUMP_HOST'',
          jump_user = raw sf lz ''VB_JUMP_USER'',
          ssh_port = map_option of_nat ssh_port,
          ssh_key = raw sf lz ''VB_SSH_KEY'',
          ssh_config = raw sf lz ''VB_SSH_CONFIG'',
          ssh_backend = raw sf lz ''VB_SSH_BACKEND'',
          disable_control_master = no_cm,
          cfg_timeout = of_nat timeout,
          read_timeout = of_nat read_timeout,
          keep_remote_files = keep,
          spectre_cmd = text_or sf lz ''VB_SPECTRE_CMD'' ''spectre'',
          spectre_args = args,
          spectre_max_workers = of_nat workers,
          ssh_max_sessions = sessions,
          ssh_max_bulk_sessions = bulk_sessions,
          ssh_reconnect_max_attempts = of_nat attempts,
          ssh_reconnect_max_delay = of_nat delay,
          ssh_keepalive_interval = of_nat interval,
          ssh_keepalive_failures = of_nat failures,
          transport_shutdown_grace = of_nat grace,
          cadence_cshrc = raw sf lz ''VB_CADENCE_CSHRC'',
          spectre_bin = raw sf lz ''VB_SPECTRE_BIN'',
          roles = \<lparr>r_gui_host = raw sf lz ''VB_GUI_HOST'',
                   r_deploy_host = raw sf lz ''VB_DEPLOY_HOST'',
                   r_daemon_host = raw sf lz ''VB_DAEMON_HOST'',
                   r_spectre_host = raw sf lz ''VB_SPECTRE_HOST'',
                   r_scratch_root = raw sf lz ''VB_REMOTE_SCRATCH_ROOT''\<rparr>,
          transport_daemon_socket = raw sf lz ''VB_TRANSPORT_DAEMON_SOCKET'',
          transport_daemon_token = raw sf lz ''VB_TRANSPORT_DAEMON_TOKEN'',
          allow_cross_user_daemon = flag_truthy sf lz ''VB_ALLOW_CROSS_USER_DAEMON''\<rparr>)))))))))))))))"

section \<open>Targets\<close>

abbreviation or_default :: "'a option \<Rightarrow> 'a \<Rightarrow> 'a" where
  "or_default x d \<equiv> (case x of Some v \<Rightarrow> v | None \<Rightarrow> d)"

definition from_target :: "env \<Rightarrow> target_config \<Rightarrow> string \<Rightarrow> virtuoso_error + config" where
  "from_target env t name =
     (let port = or_default (t_port t) (of_nat (default_port env)) in
      if port = 0 then Inl (Config ''target port must be between 1 and 65535'') else
      Inr \<lparr>profile = Some name,
           remote_host = t_remote_host t,
           remote_user = t_remote_user t,
           port = port,
           port_explicit = (t_port t \<noteq> None),
           jump_host = t_jump_host t,
           jump_user = t_jump_user t,
           ssh_port = t_ssh_port t,
           ssh_key = t_ssh_key t,
           ssh_config = t_ssh_config t,
           ssh_backend = t_ssh_backend t,
           disable_control_master = or_default (t_disable_control_master t) False,
           cfg_timeout = or_default (t_timeout t) 30,
           read_timeout = or_default (t_read_timeout t) 120,
           keep_remote_files = or_default (t_keep_remote_files t) False,
           spectre_cmd = or_default (t_spectre_cmd t) ''spectre'',
           spectre_args = or_default (t_spectre_args t) [],
           spectre_max_workers = or_default (t_spectre_max_workers t) 8,
           ssh_max_sessions = or_default (t_ssh_max_sessions t) 10,
           ssh_max_bulk_sessions = or_default (t_ssh_max_bulk_sessions t) 2,
           ssh_reconnect_max_attempts = or_default (t_ssh_reconnect_max_attempts t) 8,
           ssh_reconnect_max_delay = or_default (t_ssh_reconnect_max_delay t) 30,
           ssh_keepalive_interval = or_default (t_ssh_keepalive_interval t) 30,
           ssh_keepalive_failures = or_default (t_ssh_keepalive_failures t) 3,
           transport_shutdown_grace = 10,
           cadence_cshrc = t_cadence_cshrc t,
           spectre_bin = t_spectre_bin t,
           roles = default_roles,
           transport_daemon_socket = t_transport_daemon_socket t,
           transport_daemon_token = t_transport_daemon_token t,
           allow_cross_user_daemon = or_default (t_allow_cross_user_daemon t) False\<rparr>)"

section \<open>Which profile, which source\<close>

definition first_profile_line :: "string \<Rightarrow> string option" where
  "first_profile_line content =
     find (\<lambda>l. l \<noteq> [] \<and> \<not> starts_with l ''#'') (map trim (str_lines content))"

definition env_file_profile :: "string \<Rightarrow> string option" where
  "env_file_profile content =
     find (\<lambda>v. v \<noteq> [])
       (map trim (List.map_filter (\<lambda>l. strip_prefix ''VB_PROFILE='' (trim l)) (str_lines content)))"

text \<open>\<open>read\<close> is \<open>std::fs::read_to_string\<close>, \<open>None\<close> for any error; \<open>home\<close> is \<open>dirs::home_dir\<close>.\<close>

definition resolve_profile :: "env \<Rightarrow> (string \<Rightarrow> string option) \<Rightarrow> string option \<Rightarrow> string option" where
  "resolve_profile env read home =
     (case Option.bind (env ''VB_PROFILE'') (\<lambda>v. if trim v \<noteq> [] then Some (trim v) else None) of
        Some p \<Rightarrow> Some p
      | None \<Rightarrow>
     (case Option.bind (nonempty_var env ''VIRTUAL_ENV'') (\<lambda>venv.
             Option.bind (read (path_push venv ''.vcli-profile'')) first_profile_line) of
        Some p \<Rightarrow> Some p
      | None \<Rightarrow>
     (case home of
        None \<Rightarrow> None
      | Some h \<Rightarrow>
          (case Option.bind (read (path_push (path_push h ''.vcli'') ''profile'')) first_profile_line of
             Some p \<Rightarrow> Some p
           | None \<Rightarrow>
               Option.bind (read (path_push (path_push h ''.vcli'') ''.env'')) env_file_profile))))"

text \<open>The two files as they were loaded, and the paths they are loaded from.\<close>

record 'f sources =
  src_targets :: "target_error + target_manager"
  src_config :: "virtuoso_error + 'f config_file option"
  src_config_path :: string
  src_targets_path :: string

definition from_env_resolve ::
    "('f \<Rightarrow> string) \<Rightarrow> (string \<Rightarrow> string list option) \<Rightarrow> env \<Rightarrow> 'f sources \<Rightarrow> string option \<Rightarrow> bool \<Rightarrow>
     virtuoso_error + config" where
  "from_env_resolve sf shlex env src prof honor_vb_target =
     (case (if honor_vb_target then nonempty_var env ''VB_TARGET'' else None) of
        Some name \<Rightarrow>
          (case src_targets src of
             Inl e \<Rightarrow> Inl (Config (''failed to load targets: '' @ display_target_error e))
           | Inr m \<Rightarrow>
               (case target_get m name of
                  None \<Rightarrow> Inl (Config (''target '' @ [CHR 0x27] @ name @ [CHR 0x27] @ '' not found''))
                | Some t \<Rightarrow> from_target env t name))
      | None \<Rightarrow>
          bindR (src_config src) (\<lambda>file.
            to_config sf shlex \<lparr>ly_profile = prof, ly_file = file, ly_env = env, ly_path = src_config_path src\<rparr>))"

section \<open>Identity of a configuration\<close>

definition digest_parts :: "config \<Rightarrow> string list" where
  "digest_parts c =
     [or_empty (remote_host c),
      show_nat (unat (port c)),
      show_bool (port_explicit c),
      or_empty (remote_user c),
      (case ssh_port c of Some p \<Rightarrow> show_nat (unat p) | None \<Rightarrow> ''22''),
      or_empty (ssh_key c),
      or_empty (ssh_config c),
      or_empty (jump_host c),
      or_empty (jump_user c),
      or_empty (profile c),
      or_empty (ssh_backend c),
      show_bool (disable_control_master c),
      show_nat (unat (cfg_timeout c)),
      show_nat (unat (read_timeout c))]"

definition digest_input :: "config \<Rightarrow> string" where
  "digest_input c = concat (map (\<lambda>part. part @ [CHR 0x00]) (digest_parts c))"

definition config_digest :: "(string \<Rightarrow> string) \<Rightarrow> config \<Rightarrow> string" where
  "config_digest sha256_hex c = sha256_hex (digest_input c)"

definition is_remote :: "config \<Rightarrow> bool" where
  "is_remote c \<longleftrightarrow> remote_host c \<noteq> None"

definition ssh_target :: "config \<Rightarrow> string" where
  "ssh_target c =
     (let host = or_empty (remote_host c)
      in case remote_user c of Some user \<Rightarrow> user @ ''@'' @ host | None \<Rightarrow> host)"

definition ssh_jump :: "config \<Rightarrow> string option" where
  "ssh_jump c =
     (case (jump_host c, jump_user c) of
        (Some host, Some user) \<Rightarrow> Some (user @ ''@'' @ host)
      | (Some host, None) \<Rightarrow> Some host
      | _ \<Rightarrow> None)"

section \<open>What the digest identifies\<close>

definition nul_free :: "string \<Rightarrow> bool" where
  "nul_free s \<longleftrightarrow> CHR 0x00 \<notin> set s"

lemma nul_split:
  assumes "p @ CHR 0x00 # u = q @ CHR 0x00 # v" and "nul_free p" and "nul_free q"
  shows "p = q \<and> u = v"
proof -
  have "split_once (CHR 0x00) (p @ CHR 0x00 # u) = Some (p, u)"
    by (rule split_once_append) (use assms(2) in \<open>simp add: nul_free_def\<close>)
  moreover have "split_once (CHR 0x00) (q @ CHR 0x00 # v) = Some (q, v)"
    by (rule split_once_append) (use assms(3) in \<open>simp add: nul_free_def\<close>)
  ultimately show ?thesis unfolding assms(1) by (metis option.inject prod.inject)
qed

lemma nul_terminated_inj:
  "length ps = length qs \<Longrightarrow> list_all nul_free ps \<Longrightarrow> list_all nul_free qs \<Longrightarrow>
   concat (map (\<lambda>p. p @ [CHR 0x00]) ps) = concat (map (\<lambda>p. p @ [CHR 0x00]) qs) \<Longrightarrow> ps = qs"
proof (induction ps qs rule: list_induct2)
  case (Cons p ps q qs)
  have "p @ CHR 0x00 # concat (map (\<lambda>p. p @ [CHR 0x00]) ps) =
      q @ CHR 0x00 # concat (map (\<lambda>p. p @ [CHR 0x00]) qs)" using Cons.prems(3) by simp
  from nul_split [OF this] Cons show ?case by simp
qed simp

lemma digits_nul_free [simp]: "nul_free (show_nat n)"
proof -
  have "\<not> is_digit CHR 0x00" by (simp add: is_digit_def)
  then show ?thesis using show_nat_digits [of n] by (auto simp: nul_free_def list_all_iff)
qed

lemma show_bool_nul_free [simp]: "nul_free (show_bool b)"
  by (simp add: show_bool_def nul_free_def)

lemma show_nat_eq_iff [simp]: "show_nat m = show_nat n \<longleftrightarrow> m = n"
  by (metis digits_val_show_nat)

lemma show_bool_eq_iff [simp]: "show_bool a = show_bool b \<longleftrightarrow> a = b"
  by (simp add: show_bool_def)

lemma unat_inject: "unat x = unat y \<longleftrightarrow> x = y"
  by (simp add: word_unat_eq_iff)

lemma CHR_2: "char_of (50 :: nat) = CHR ''2''"
  by code_simp

text \<open>Environment variables, TOML strings and file paths that reach the digest have no NUL byte.\<close>

definition config_nul_free :: "config \<Rightarrow> bool" where
  "config_nul_free c \<longleftrightarrow>
     list_all (\<lambda>x. nul_free (or_empty x))
       [remote_host c, remote_user c, ssh_key c, ssh_config c, jump_host c, jump_user c, profile c, ssh_backend c]"

lemma digest_parts_nul_free: "config_nul_free c \<Longrightarrow> list_all nul_free (digest_parts c)"
  by (auto simp: config_nul_free_def digest_parts_def nul_free_def [of "''22''"] split: option.splits)

text \<open>
  Two configurations feed the same bytes to the digest's hash exactly when they agree on every
  field the digest names, an absent text counting as the empty one and an absent SSH port as 22: no
  field can be shifted into its neighbour.
\<close>
theorem config_digest_identifies:
  assumes "config_nul_free c" and "config_nul_free d"
  shows "digest_input c = digest_input d \<longleftrightarrow>
    or_empty (remote_host c) = or_empty (remote_host d) \<and> port c = port d \<and>
    port_explicit c = port_explicit d \<and> or_empty (remote_user c) = or_empty (remote_user d) \<and>
    or_default (ssh_port c) 22 = or_default (ssh_port d) 22 \<and>
    or_empty (ssh_key c) = or_empty (ssh_key d) \<and> or_empty (ssh_config c) = or_empty (ssh_config d) \<and>
    or_empty (jump_host c) = or_empty (jump_host d) \<and> or_empty (jump_user c) = or_empty (jump_user d) \<and>
    or_empty (profile c) = or_empty (profile d) \<and> or_empty (ssh_backend c) = or_empty (ssh_backend d) \<and>
    disable_control_master c = disable_control_master d \<and> cfg_timeout c = cfg_timeout d \<and>
    read_timeout c = read_timeout d"
proof -
  have port22: "(case x of Some p \<Rightarrow> show_nat (unat p) | None \<Rightarrow> ''22'') = show_nat (unat (or_default x (22 :: u16)))"
    for x by (cases x) (simp_all add: show_nat.simps [of 22] show_nat.simps [of 2] digit_char_def CHR_2)
  have "digest_input c = digest_input d \<longleftrightarrow> digest_parts c = digest_parts d"
    unfolding digest_input_def
    using nul_terminated_inj [OF _ digest_parts_nul_free [OF assms(1)] digest_parts_nul_free [OF assms(2)]]
    by (auto simp: digest_parts_def [of c] digest_parts_def [of d] simp del: concat.simps list.map)
  then show ?thesis
    by (simp add: digest_parts_def port22 unat_inject)
qed

definition plain_config :: config where
  "plain_config = projr (from_target (\<lambda>k. None) default_target ''lab'')"

theorem config_digest_identifies_witness:
  "digest_input plain_config = digest_input (plain_config\<lparr>ssh_port := Some 22\<rparr>) \<and>
   digest_input plain_config \<noteq> digest_input (plain_config\<lparr>port_explicit := True\<rparr>)"
proof -
  have c: "profile plain_config = Some ''lab''" "remote_host plain_config = None" "remote_user plain_config = None"
    "ssh_key plain_config = None" "ssh_config plain_config = None" "jump_host plain_config = None"
    "jump_user plain_config = None" "ssh_backend plain_config = None" "ssh_port plain_config = None"
    "port_explicit plain_config = False"
    by (simp_all add: plain_config_def from_target_def default_target_def default_port_def or_empty_def)
  then have n: "config_nul_free plain_config" "config_nul_free (plain_config\<lparr>ssh_port := Some 22\<rparr>)"
    "config_nul_free (plain_config\<lparr>port_explicit := True\<rparr>)"
    by (simp_all add: config_nul_free_def nul_free_def or_empty_def)
  from config_digest_identifies [OF n(1) n(2)] config_digest_identifies [OF n(1) n(3)] c
  show ?thesis by simp
qed

end
