(* ===== verification/Config_Report.thy ===== *)
theory Config_Report
  imports Settings
begin

text \<open>
  The provenance report of \<open>src/config.rs\<close> (\<open>Config::build_report\<close>, \<open>KEY_SPECS\<close>) and its
  agreement with the configuration the program runs with.
\<close>

section \<open>Keys\<close>

record config_entry =
  e_key :: string
  e_value :: string
  e_source :: config_source

record config_diagnostic =
  d_code :: string
  d_level :: string
  d_field :: string
  d_message :: string

record config_report =
  rep_profile :: "string option"
  rep_active_target :: "string option"
  rep_config_file :: "string option"
  rep_targets_file :: "string option"
  rep_precedence :: "string list"
  rep_entries :: "config_entry list"
  rep_warnings :: "string list"
  rep_diagnostics :: "config_diagnostic list"
  rep_valid :: bool
  rep_digest :: "string option"

definition all_explicit :: "config_report \<Rightarrow> bool" where
  "all_explicit r = list_all (\<lambda>e. case e_source e of Default d k \<Rightarrow> False | _ \<Rightarrow> True) (rep_entries r)"

record key_spec =
  ks_key :: string
  ks_default :: string
  ks_display :: "config \<Rightarrow> string"
  ks_validate :: "string \<Rightarrow> string + unit"

definition sanitize_raw_value :: "string \<Rightarrow> string \<Rightarrow> string" where
  "sanitize_raw_value key v =
     (if v = [] then v
      else if key = ''VB_TRANSPORT_DAEMON_TOKEN'' \<or> key = ''VB_SSH_KEY'' then ''***set***''
      else v)"

definition v_text :: "string \<Rightarrow> string + unit" where
  "v_text v = Inr ()"

definition v_uint :: "nat \<Rightarrow> string \<Rightarrow> string \<Rightarrow> string + unit" where
  "v_uint m ty v =
     (case parse_int m v of
        Inr n \<Rightarrow> Inr ()
      | Inl e \<Rightarrow> Inl (''expected '' @ ty @ '', got '' @ debug_str v @ '': '' @ e))"

definition v_u16 :: "string \<Rightarrow> string + unit" where "v_u16 = v_uint u16_limit ''u16''"
definition v_u32 :: "string \<Rightarrow> string + unit" where "v_u32 = v_uint u32_limit ''u32''"
definition v_u64 :: "string \<Rightarrow> string + unit" where "v_u64 = v_uint u64_max ''u64''"

definition v_bool :: "string \<Rightarrow> string + unit" where
  "v_bool v =
     (if v = ''1'' \<or> v = ''0'' \<or> to_lowercase v = ''true'' \<or> to_lowercase v = ''false'' then Inr ()
      else Inl (''expected true/false/1/0, got '' @ debug_str v))"

definition v_truthy :: "string \<Rightarrow> string + unit" where
  "v_truthy v =
     (let t = to_lowercase (trim v)
      in if t \<in> {''1'', ''true'', ''yes'', ''on'', ''0'', ''false'', ''no'', ''off''} then Inr ()
         else Inl (''expected true/false/1/0/yes/no/on/off, got '' @ debug_str t))"

definition v_shlex :: "(string \<Rightarrow> string list option) \<Rightarrow> string \<Rightarrow> string + unit" where
  "v_shlex shlex v =
     (case shlex v of
        Some args \<Rightarrow> Inr ()
      | None \<Rightarrow> Inl (''invalid shell syntax: '' @ debug_str v))"

text \<open>The \<open>report_*\<close> functions: how a value is displayed.\<close>

definition report_secret :: "string option \<Rightarrow> string" where
  "report_secret v = (if v \<noteq> None then ''***set***'' else [])"

definition report_ssh_port :: "config \<Rightarrow> string" where
  "report_ssh_port c = (case ssh_port c of Some p \<Rightarrow> show_nat (unat p) | None \<Rightarrow> ''22'')"

definition report_spectre_args :: "config \<Rightarrow> string" where
  "report_spectre_args c = (if spectre_args c = [] then [] else join '' '' (spectre_args c))"

definition mk_spec :: "string \<Rightarrow> string \<Rightarrow> (config \<Rightarrow> string) \<Rightarrow> (string \<Rightarrow> string + unit) \<Rightarrow> key_spec" where
  "mk_spec k d f v = \<lparr>ks_key = k, ks_default = d, ks_display = f, ks_validate = v\<rparr>"

definition KEY_SPECS :: "(string \<Rightarrow> string list option) \<Rightarrow> key_spec list" where
  "KEY_SPECS shlex =
     [mk_spec ''VB_REMOTE_HOST'' [] (\<lambda>c. or_empty (remote_host c)) v_text,
      mk_spec ''VB_REMOTE_USER'' [] (\<lambda>c. or_empty (remote_user c)) v_text,
      mk_spec ''VB_PORT'' ''0'' (\<lambda>c. show_nat (unat (port c))) v_u16,
      mk_spec ''VB_JUMP_HOST'' [] (\<lambda>c. or_empty (jump_host c)) v_text,
      mk_spec ''VB_JUMP_USER'' [] (\<lambda>c. or_empty (jump_user c)) v_text,
      mk_spec ''VB_SSH_PORT'' ''22'' (\<lambda>c. report_ssh_port c) v_u16,
      mk_spec ''VB_SSH_KEY'' [] (\<lambda>c. report_secret (ssh_key c)) v_text,
      mk_spec ''VB_SSH_CONFIG'' [] (\<lambda>c. or_empty (ssh_config c)) v_text,
      mk_spec ''VB_SSH_BACKEND'' ''openssh'' (\<lambda>c. or_empty (ssh_backend c)) v_text,
      mk_spec ''VB_DISABLE_CONTROL_MASTER'' ''false'' (\<lambda>c. show_bool (disable_control_master c)) v_bool,
      mk_spec ''VB_TIMEOUT'' ''30'' (\<lambda>c. show_nat (unat (cfg_timeout c))) v_u64,
      mk_spec ''VB_READ_TIMEOUT'' ''120'' (\<lambda>c. show_nat (unat (read_timeout c))) v_u64,
      mk_spec ''VB_KEEP_REMOTE_FILES'' ''false'' (\<lambda>c. show_bool (keep_remote_files c)) v_bool,
      mk_spec ''VB_SPECTRE_CMD'' ''spectre'' (\<lambda>c. spectre_cmd c) v_text,
      mk_spec ''VB_SPECTRE_ARGS'' [] (\<lambda>c. report_spectre_args c) (v_shlex shlex),
      mk_spec ''VB_SPECTRE_MAX_WORKERS'' ''8'' (\<lambda>c. show_nat (unat (spectre_max_workers c))) v_u32,
      mk_spec ''VB_SSH_MAX_SESSIONS'' ''10'' (\<lambda>c. show_nat (ssh_max_sessions c)) v_u64,
      mk_spec ''VB_SSH_MAX_BULK_SESSIONS'' ''2'' (\<lambda>c. show_nat (ssh_max_bulk_sessions c)) v_u64,
      mk_spec ''VB_SSH_RECONNECT_MAX_ATTEMPTS'' ''8'' (\<lambda>c. show_nat (unat (ssh_reconnect_max_attempts c))) v_u32,
      mk_spec ''VB_SSH_RECONNECT_MAX_DELAY'' ''30'' (\<lambda>c. show_nat (unat (ssh_reconnect_max_delay c))) v_u64,
      mk_spec ''VB_SSH_KEEPALIVE_INTERVAL'' ''30'' (\<lambda>c. show_nat (unat (ssh_keepalive_interval c))) v_u64,
      mk_spec ''VB_SSH_KEEPALIVE_FAILURES'' ''3'' (\<lambda>c. show_nat (unat (ssh_keepalive_failures c))) v_u32,
      mk_spec ''VB_TRANSPORT_SHUTDOWN_GRACE'' ''10'' (\<lambda>c. show_nat (unat (transport_shutdown_grace c))) v_u64,
      mk_spec ''VB_CADENCE_CSHRC'' [] (\<lambda>c. or_empty (cadence_cshrc c)) v_text,
      mk_spec ''VB_SPECTRE_BIN'' [] (\<lambda>c. or_empty (spectre_bin c)) v_text,
      mk_spec ''VB_GUI_HOST'' [] (\<lambda>c. or_empty (r_gui_host (roles c))) v_text,
      mk_spec ''VB_DEPLOY_HOST'' [] (\<lambda>c. or_empty (r_deploy_host (roles c))) v_text,
      mk_spec ''VB_DAEMON_HOST'' [] (\<lambda>c. or_empty (r_daemon_host (roles c))) v_text,
      mk_spec ''VB_SPECTRE_HOST'' [] (\<lambda>c. or_empty (r_spectre_host (roles c))) v_text,
      mk_spec ''VB_REMOTE_SCRATCH_ROOT'' [] (\<lambda>c. or_empty (r_scratch_root (roles c))) v_text,
      mk_spec ''VB_TRANSPORT_DAEMON_SOCKET'' [] (\<lambda>c. or_empty (transport_daemon_socket c)) v_text,
      mk_spec ''VB_TRANSPORT_DAEMON_TOKEN'' [] (\<lambda>c. report_secret (transport_daemon_token c)) v_text,
      mk_spec ''VB_ALLOW_CROSS_USER_DAEMON'' ''false'' (\<lambda>c. show_bool (allow_cross_user_daemon c)) v_truthy]"

definition target_provides :: "string \<Rightarrow> target_config \<Rightarrow> bool" where
  "target_provides key t =
     (case map_of
        [(''VB_REMOTE_HOST'', t_remote_host t \<noteq> None),
         (''VB_REMOTE_USER'', t_remote_user t \<noteq> None),
         (''VB_PORT'', t_port t \<noteq> None),
         (''VB_JUMP_HOST'', t_jump_host t \<noteq> None),
         (''VB_JUMP_USER'', t_jump_user t \<noteq> None),
         (''VB_SSH_PORT'', t_ssh_port t \<noteq> None),
         (''VB_SSH_KEY'', t_ssh_key t \<noteq> None),
         (''VB_SSH_CONFIG'', t_ssh_config t \<noteq> None),
         (''VB_SSH_BACKEND'', t_ssh_backend t \<noteq> None),
         (''VB_DISABLE_CONTROL_MASTER'', t_disable_control_master t \<noteq> None),
         (''VB_TIMEOUT'', t_timeout t \<noteq> None),
         (''VB_READ_TIMEOUT'', t_read_timeout t \<noteq> None),
         (''VB_KEEP_REMOTE_FILES'', t_keep_remote_files t \<noteq> None),
         (''VB_SPECTRE_CMD'', t_spectre_cmd t \<noteq> None),
         (''VB_SPECTRE_ARGS'', t_spectre_args t \<noteq> None),
         (''VB_SPECTRE_MAX_WORKERS'', t_spectre_max_workers t \<noteq> None),
         (''VB_SSH_MAX_SESSIONS'', t_ssh_max_sessions t \<noteq> None),
         (''VB_SSH_MAX_BULK_SESSIONS'', t_ssh_max_bulk_sessions t \<noteq> None),
         (''VB_SSH_RECONNECT_MAX_ATTEMPTS'', t_ssh_reconnect_max_attempts t \<noteq> None),
         (''VB_SSH_RECONNECT_MAX_DELAY'', t_ssh_reconnect_max_delay t \<noteq> None),
         (''VB_SSH_KEEPALIVE_INTERVAL'', t_ssh_keepalive_interval t \<noteq> None),
         (''VB_SSH_KEEPALIVE_FAILURES'', t_ssh_keepalive_failures t \<noteq> None),
         (''VB_CADENCE_CSHRC'', t_cadence_cshrc t \<noteq> None),
         (''VB_SPECTRE_BIN'', t_spectre_bin t \<noteq> None),
         (''VB_TRANSPORT_DAEMON_SOCKET'', t_transport_daemon_socket t \<noteq> None),
         (''VB_TRANSPORT_DAEMON_TOKEN'', t_transport_daemon_token t \<noteq> None),
         (''VB_ALLOW_CROSS_USER_DAEMON'', t_allow_cross_user_daemon t \<noteq> None)]
        key of Some b \<Rightarrow> b | None \<Rightarrow> False)"

definition default_source :: "key_spec \<Rightarrow> config_source" where
  "default_source s = Default (ks_default s) (if ks_key s = ''VB_PORT'' then Derived else Hardcoded)"

definition push_entry :: "config_entry \<Rightarrow> config_report \<Rightarrow> config_report" where
  "push_entry e r = r\<lparr>rep_entries := rep_entries r @ [e]\<rparr>"

text \<open>A diagnostic and the warning of the same text, as the code pushes them together.\<close>

definition push_diag :: "string \<Rightarrow> string \<Rightarrow> string \<Rightarrow> string \<Rightarrow> config_report \<Rightarrow> config_report" where
  "push_diag code level field msg r =
     r\<lparr>rep_warnings := rep_warnings r @ [msg],
       rep_diagnostics := rep_diagnostics r @
         [\<lparr>d_code = code, d_level = level, d_field = field, d_message = msg\<rparr>]\<rparr>"

definition push_error :: "string \<Rightarrow> string \<Rightarrow> string \<Rightarrow> config_report \<Rightarrow> config_report" where
  "push_error code field msg r = (push_diag code ''error'' field msg r)\<lparr>rep_valid := False\<rparr>"

section \<open>The report\<close>

text \<open>
  \<open>from_target\<close> is unwrapped with \<open>expect\<close>: \<open>None\<close> is the panic.
\<close>

definition build_report_from_target ::
    "(string \<Rightarrow> string list option) \<Rightarrow> env \<Rightarrow> string \<Rightarrow> target_config \<Rightarrow> string \<Rightarrow> config_report \<Rightarrow>
     config_report option" where
  "build_report_from_target shlex env targets_path t name report =
     (case from_target env t name of
        Inl e \<Rightarrow> None
      | Inr cfg \<Rightarrow>
          Some (foldl (\<lambda>r s. push_entry
              \<lparr>e_key = ks_key s, e_value = ks_display s cfg,
               e_source = (if target_provides (ks_key s) t then TargetSource name targets_path
                           else default_source s)\<rparr> r)
            report (KEY_SPECS shlex)))"

definition report_key :: "('f \<Rightarrow> string) \<Rightarrow> 'f layers \<Rightarrow> config_report \<Rightarrow> key_spec \<Rightarrow> config_report" where
  "report_key sf lz r s =
     (case (case raw_with_source sf lz (ks_key s) of
              Some x \<Rightarrow> x
            | None \<Rightarrow> (ks_default s, default_source s)) of
        (v, source) \<Rightarrow>
          (let r1 = push_entry \<lparr>e_key = ks_key s, e_value = sanitize_raw_value (ks_key s) v, e_source = source\<rparr> r
           in case ks_validate s v of
                Inr u \<Rightarrow> r1
              | Inl e \<Rightarrow> push_error ''VALUE_PARSE_FAILED'' (ks_key s)
                  (ks_key s @ '': '' @ e @ '' '' @ em_dash @ '' this value would fail to parse at runtime'') r1))"

definition initial_report :: "string option \<Rightarrow> config_report" where
  "initial_report prof =
     \<lparr>rep_profile = prof, rep_active_target = None, rep_config_file = None, rep_targets_file = None,
      rep_precedence = [''<KEY>_<PROFILE> env'', ''<KEY> env'', ''config.toml [profile.<PROFILE>]'',
        ''config.toml global''],
      rep_entries = [], rep_warnings = [], rep_diagnostics = [], rep_valid = True, rep_digest = None\<rparr>"

text \<open>
  The part of \<open>build_report\<close> before the two modes: the failed selection, the active target, the
  deprecated fallback.  \<open>legacy_env\<close> is the text of \<open>~/.vcli/.env\<close> with its path, when that file exists and
  can be read.
\<close>

definition has_legacy_profile :: "string \<Rightarrow> bool" where
  "has_legacy_profile content =
     list_ex (\<lambda>l. case strip_prefix ''VB_PROFILE='' (trim l) of Some v \<Rightarrow> trim v \<noteq> [] | None \<Rightarrow> False)
       (str_lines content)"

definition report_prefix ::
    "env \<Rightarrow> (string \<times> string) option \<Rightarrow> string option \<Rightarrow> virtuoso_error option \<Rightarrow> config_report" where
  "report_prefix env legacy_env prof pre_check =
     (let r0 = initial_report prof;
          r1 = (case pre_check of
                  None \<Rightarrow> r0
                | Some e \<Rightarrow> push_error ''ILLEGAL_CONFIG'' ''selection''
                    (''config selection failed: '' @ display_virtuoso_error e) r0);
          r2 = r1\<lparr>rep_active_target := nonempty_var env ''VB_TARGET''\<rparr>
      in case legacy_env of
           None \<Rightarrow> r2
         | Some (path, content) \<Rightarrow>
             if has_legacy_profile content
             then push_diag ''LEGACY_ENV_PROFILE'' ''warning'' ''profile''
               (path @ '': VB_PROFILE= is a deprecated fallback. Run `vcli profile bind <name> --user` (or '' @
                ''export VB_PROFILE in your shell) '' @ em_dash @
                '' this file will stop being read in a future release.'') r2
             else r2)"

definition report_target_mode ::
    "(string \<Rightarrow> string list option) \<Rightarrow> (string \<Rightarrow> string) \<Rightarrow> env \<Rightarrow> 'f sources \<Rightarrow> string \<Rightarrow> config_report \<Rightarrow>
     config_report option" where
  "report_target_mode shlex sha256_hex env src name r =
     (let r1 = r\<lparr>rep_targets_file := Some (src_targets_path src)\<rparr>
      in case src_targets src of
           Inl e \<Rightarrow> Some (push_error ''TARGETS_LOAD_FAILED'' ''targets.yaml''
               (''failed to load targets: '' @ display_target_error e) r1)
         | Inr m \<Rightarrow>
             (case target_get m name of
                None \<Rightarrow> Some (push_error ''TARGET_NOT_FOUND'' name
                    (''target '' @ [CHR 0x27] @ name @ [CHR 0x27] @ '' not found'') r1)
              | Some t \<Rightarrow>
                  map_option (\<lambda>r2.
                    case from_target env t name of
                      Inr cfg \<Rightarrow> r2\<lparr>rep_digest := Some (config_digest sha256_hex cfg)\<rparr>
                    | Inl e \<Rightarrow> push_error ''TARGET_CONFIG_BUILD_FAILED'' name
                        (''resolved target '' @ [CHR 0x27] @ name @ [CHR 0x27] @ '' failed to build a Config: '' @
                         display_virtuoso_error e @ '' '' @ em_dash @ '' the same error would block the runtime'') r2)
                    (build_report_from_target shlex env (src_targets_path src) t name r1)))"

definition report_legacy_mode ::
    "('f \<Rightarrow> string) \<Rightarrow> (string \<Rightarrow> string list option) \<Rightarrow> (string \<Rightarrow> string) \<Rightarrow> env \<Rightarrow> 'f sources \<Rightarrow>
     string option \<Rightarrow> config_report \<Rightarrow> config_report" where
  "report_legacy_mode sf shlex sha256_hex env src prof r =
     (case src_config src of
        Inl e \<Rightarrow>
          foldl (\<lambda>r s. push_entry \<lparr>e_key = ks_key s, e_value = ks_default s, e_source = default_source s\<rparr> r)
            (push_error ''CONFIG_LOAD_FAILED'' ''config.toml''
               (''failed to load config.toml: '' @ display_virtuoso_error e) r)
            (KEY_SPECS shlex)
      | Inr file \<Rightarrow>
          (let lz = \<lparr>ly_profile = prof, ly_file = file, ly_env = env, ly_path = src_config_path src\<rparr>;
               r1 = r\<lparr>rep_config_file := (case file of Some f \<Rightarrow> Some (src_config_path src) | None \<Rightarrow> None)\<rparr>;
               r2 = foldl (report_key sf lz) r1 (KEY_SPECS shlex)
           in case to_config sf shlex lz of
                Inr cfg \<Rightarrow> r2\<lparr>rep_digest := Some (config_digest sha256_hex cfg)\<rparr>
              | Inl e \<Rightarrow>
                  (push_error ''CONFIG_BUILD_FAILED'' ''config''
                     (''failed to build Config from the merged resolution: '' @ display_virtuoso_error e @
                      '' '' @ em_dash @ '' the runtime would refuse to start'') r2)\<lparr>rep_digest := None\<rparr>))"

definition build_report ::
    "('f \<Rightarrow> string) \<Rightarrow> (string \<Rightarrow> string list option) \<Rightarrow> (string \<Rightarrow> string) \<Rightarrow> env \<Rightarrow> 'f sources \<Rightarrow>
     (string \<times> string) option \<Rightarrow> string option \<Rightarrow> virtuoso_error option \<Rightarrow> config_report option" where
  "build_report sf shlex sha256_hex env src legacy_env prof pre_check =
     (let r = report_prefix env legacy_env prof pre_check
      in case rep_active_target r of
           Some name \<Rightarrow> report_target_mode shlex sha256_hex env src name r
         | None \<Rightarrow> Some (report_legacy_mode sf shlex sha256_hex env src prof r))"

section \<open>The report and the runtime\<close>

lemma is_ok_cases: "is_ok r \<Longrightarrow> (\<And>x. r = Inr x \<Longrightarrow> P) \<Longrightarrow> P"
  by (auto simp: is_ok_def)

definition key_value :: "('f \<Rightarrow> string) \<Rightarrow> 'f layers \<Rightarrow> key_spec \<Rightarrow> string" where
  "key_value sf lz s = text_or sf lz (ks_key s) (ks_default s)"

lemma report_key_entries:
  "map (\<lambda>e. (e_key e, e_value e)) (rep_entries (report_key sf lz r s)) =
     map (\<lambda>e. (e_key e, e_value e)) (rep_entries r) @
     [(ks_key s, sanitize_raw_value (ks_key s) (key_value sf lz s))]"
  by (auto simp: report_key_def push_entry_def push_error_def push_diag_def Let_def key_value_def
      text_or_def raw_def split: sum.splits option.splits)

lemma report_key_flags:
  "rep_valid (report_key sf lz r s) \<longleftrightarrow> rep_valid r \<and> is_ok (ks_validate s (key_value sf lz s))"
  "rep_digest (report_key sf lz r s) = rep_digest r"
  by (auto simp: report_key_def push_entry_def push_error_def push_diag_def Let_def key_value_def
      text_or_def raw_def split: sum.splits option.splits)

lemma report_keys_entries:
  "map (\<lambda>e. (e_key e, e_value e)) (rep_entries (foldl (report_key sf lz) r ss)) =
     map (\<lambda>e. (e_key e, e_value e)) (rep_entries r) @
     map (\<lambda>s. (ks_key s, sanitize_raw_value (ks_key s) (key_value sf lz s))) ss"
  by (induction ss arbitrary: r) (simp_all add: report_key_entries)

lemma report_keys_flags:
  "rep_valid (foldl (report_key sf lz) r ss) \<longleftrightarrow>
     rep_valid r \<and> list_all (\<lambda>s. is_ok (ks_validate s (key_value sf lz s))) ss"
  "rep_digest (foldl (report_key sf lz) r ss) = rep_digest r"
  by (induction ss arbitrary: r) (auto simp: report_key_flags)

lemma push_entries:
  "foldl (\<lambda>r s. push_entry (f s) r) r ss = r\<lparr>rep_entries := rep_entries r @ map f ss\<rparr>"
  by (induction ss arbitrary: r) (simp_all add: push_entry_def)

lemma parsed_validates:
  "is_ok (parsed sf lz m key) \<Longrightarrow> is_ok (v_uint m ty d) \<Longrightarrow> is_ok (v_uint m ty (text_or sf lz key d))"
  by (auto simp: parsed_def v_uint_def text_or_def split: option.splits sum.splits)

lemma parsed_or_ok [simp]: "is_ok (parsed_or sf lz m key d) \<longleftrightarrow> is_ok (parsed sf lz m key)"
  by (simp add: parsed_or_def is_ok_bindR) (simp add: is_ok_def)

lemma parsed_or_Inr: "parsed_or sf lz m key d = Inr x \<Longrightarrow> is_ok (parsed sf lz m key)"
  by (auto simp: parsed_or_def bindR_Inr_iff)

lemma flag_validates: "is_ok (flag sf lz key) \<Longrightarrow> is_ok (v_bool (text_or sf lz key ''false''))"
  by (auto simp: flag_def v_bool_def text_or_def to_lowercase_def lower_char_def
      split: option.splits if_splits)

lemma shlex_validates:
  "is_ok (spectre_args_of shlex (raw sf lz key)) \<Longrightarrow> shlex [] \<noteq> None \<Longrightarrow>
   is_ok (v_shlex shlex (text_or sf lz key []))"
  by (auto simp: spectre_args_of_def v_shlex_def text_or_def split: option.splits)

lemma is_ok_bindRE: "is_ok (bindR r f) \<Longrightarrow> (\<And>x. is_ok r \<Longrightarrow> is_ok (f x) \<Longrightarrow> P) \<Longrightarrow> P"
  by (auto simp: is_ok_def bindR_Inr_iff)

lemma is_ok_ifE: "is_ok (if b then Inl e else r) \<Longrightarrow> (is_ok r \<Longrightarrow> P) \<Longrightarrow> P"
  by (auto split: if_splits)

lemma is_okI: "r = Inr x \<Longrightarrow> is_ok r"
  by simp

lemma to_config_parts:
  assumes "to_config sf shlex lz = Inr c"
  shows "is_ok (parsed sf lz u16_limit ''VB_PORT'')"
    "is_ok (parsed sf lz u16_limit ''VB_SSH_PORT'')"
    "is_ok (flag sf lz ''VB_DISABLE_CONTROL_MASTER'')"
    "is_ok (parsed sf lz u64_max ''VB_TIMEOUT'')"
    "is_ok (parsed sf lz u64_max ''VB_READ_TIMEOUT'')"
    "is_ok (flag sf lz ''VB_KEEP_REMOTE_FILES'')"
    "is_ok (spectre_args_of shlex (raw sf lz ''VB_SPECTRE_ARGS''))"
    "is_ok (parsed sf lz u32_limit ''VB_SPECTRE_MAX_WORKERS'')"
    "is_ok (parsed sf lz u64_max ''VB_SSH_MAX_SESSIONS'')"
    "is_ok (parsed sf lz u64_max ''VB_SSH_MAX_BULK_SESSIONS'')"
    "is_ok (parsed sf lz u32_limit ''VB_SSH_RECONNECT_MAX_ATTEMPTS'')"
    "is_ok (parsed sf lz u64_max ''VB_SSH_RECONNECT_MAX_DELAY'')"
    "is_ok (parsed sf lz u64_max ''VB_SSH_KEEPALIVE_INTERVAL'')"
    "is_ok (parsed sf lz u32_limit ''VB_SSH_KEEPALIVE_FAILURES'')"
    "is_ok (parsed sf lz u64_max ''VB_TRANSPORT_SHUTDOWN_GRACE'')"
  using is_okI [OF assms] unfolding to_config_def
  by - ((erule is_ok_bindRE | erule is_ok_ifE)+, (assumption | (rule parsed_or_ok [THEN iffD1], assumption)))+

lemma v_defaults:
  "is_ok (v_u16 ''0'')" "is_ok (v_u16 ''22'')" "is_ok (v_u64 ''30'')" "is_ok (v_u64 ''120'')"
  "is_ok (v_u32 ''8'')" "is_ok (v_u64 ''10'')" "is_ok (v_u64 ''2'')" "is_ok (v_u32 ''3'')"
  by (simp_all add: v_u16_def v_u32_def v_u64_def v_uint_def parse_int_def is_digit_def digit_val_def)

text \<open>Every value of an accepted configuration passes its validator, the tolerant flag excepted.\<close>

lemma accepted_values_validate:
  assumes "to_config sf shlex lz = Inr c" and "shlex [] \<noteq> None"
  shows "list_all (\<lambda>s. is_ok (ks_validate s (key_value sf lz s))) (KEY_SPECS shlex) \<longleftrightarrow>
    is_ok (v_truthy (text_or sf lz ''VB_ALLOW_CROSS_USER_DAEMON'' ''false''))"
proof -
  note p = to_config_parts [OF assms(1)]
  have u: "is_ok (v_u16 (text_or sf lz ''VB_PORT'' ''0''))"
    "is_ok (v_u16 (text_or sf lz ''VB_SSH_PORT'' ''22''))"
    "is_ok (v_u64 (text_or sf lz ''VB_TIMEOUT'' ''30''))"
    "is_ok (v_u64 (text_or sf lz ''VB_READ_TIMEOUT'' ''120''))"
    "is_ok (v_u32 (text_or sf lz ''VB_SPECTRE_MAX_WORKERS'' ''8''))"
    "is_ok (v_u64 (text_or sf lz ''VB_SSH_MAX_SESSIONS'' ''10''))"
    "is_ok (v_u64 (text_or sf lz ''VB_SSH_MAX_BULK_SESSIONS'' ''2''))"
    "is_ok (v_u32 (text_or sf lz ''VB_SSH_RECONNECT_MAX_ATTEMPTS'' ''8''))"
    "is_ok (v_u64 (text_or sf lz ''VB_SSH_RECONNECT_MAX_DELAY'' ''30''))"
    "is_ok (v_u64 (text_or sf lz ''VB_SSH_KEEPALIVE_INTERVAL'' ''30''))"
    "is_ok (v_u32 (text_or sf lz ''VB_SSH_KEEPALIVE_FAILURES'' ''3''))"
    "is_ok (v_u64 (text_or sf lz ''VB_TRANSPORT_SHUTDOWN_GRACE'' ''10''))"
    unfolding v_u16_def v_u32_def v_u64_def
    by (intro parsed_validates p v_defaults [unfolded v_u16_def v_u32_def v_u64_def])+
  have t: "is_ok (v_text x)" for x by (simp add: v_text_def)
  show ?thesis
    unfolding KEY_SPECS_def mk_spec_def key_value_def
    by (simp add: u t flag_validates p(3,6) shlex_validates [OF p(7) assms(2)])
qed

lemma prefix_flags:
  "rep_active_target (report_prefix env legacy_env prof pre) = nonempty_var env ''VB_TARGET''"
  "rep_valid (report_prefix env legacy_env prof pre) \<longleftrightarrow> pre = None"
  "rep_digest (report_prefix env legacy_env prof pre) = None"
  "rep_entries (report_prefix env legacy_env prof pre) = []"
  by (auto simp: report_prefix_def initial_report_def push_error_def push_diag_def Let_def
      split: option.splits)

definition legacy_layers :: "env \<Rightarrow> 'f sources \<Rightarrow> string option \<Rightarrow> 'f config_file option \<Rightarrow> 'f layers" where
  "legacy_layers env src prof file =
     \<lparr>ly_profile = prof, ly_file = file, ly_env = env, ly_path = src_config_path src\<rparr>"

lemma legacy_report:
  assumes "src_config src = Inr file" and "lz = legacy_layers env src prof file"
  shows "rep_digest (report_legacy_mode sf shlex sha env src prof r) =
      (case to_config sf shlex lz of Inr c \<Rightarrow> Some (config_digest sha c) | Inl e \<Rightarrow> None)"
    and "rep_valid (report_legacy_mode sf shlex sha env src prof r) \<longleftrightarrow>
      rep_valid r \<and> is_ok (to_config sf shlex lz) \<and>
      list_all (\<lambda>s. is_ok (ks_validate s (key_value sf lz s))) (KEY_SPECS shlex)"
  using assms
  by (auto simp: report_legacy_mode_def Let_def legacy_layers_def report_keys_flags push_error_def
      push_diag_def split: sum.splits)

text \<open>
  C19: When \<open>VB_TARGET\<close> is not set and no target is active (and \<open>shlex\<close> accepts the empty text), \<open>config check\<close> shows the digest of exactly the configuration the
  program would run with, none when it would refuse to start, and calls the configuration valid
  exactly when the program accepts it and \<open>VB_ALLOW_CROSS_USER_DAEMON\<close> has a known spelling (the
  program accepts any text there).
\<close>
theorem report_agrees_with_runtime:
  assumes "nonempty_var env ''VB_TARGET'' = None" and "shlex [] \<noteq> None"
  shows "\<exists>r. build_report sf shlex sha env src legacy_env prof None = Some r \<and>
    rep_digest r = (case from_env_resolve sf shlex env src prof True of
                      Inr c \<Rightarrow> Some (config_digest sha c) | Inl e \<Rightarrow> None) \<and>
    (rep_valid r \<longleftrightarrow> is_ok (from_env_resolve sf shlex env src prof True) \<and>
       (\<forall>file. src_config src = Inr file \<longrightarrow>
          is_ok (v_truthy (text_or sf (legacy_layers env src prof file) ''VB_ALLOW_CROSS_USER_DAEMON'' ''false''))))"
proof (cases "src_config src")
  case (Inl e)
  with assms(1) show ?thesis
    by (auto simp: build_report_def prefix_flags Let_def report_legacy_mode_def from_env_resolve_def
        push_entries push_error_def push_diag_def)
next
  case (Inr cf)
  let ?lz = "legacy_layers env src prof cf"
  have live: "from_env_resolve sf shlex env src prof True = to_config sf shlex ?lz"
    using assms(1) Inr by (simp add: from_env_resolve_def legacy_layers_def)
  have "is_ok (to_config sf shlex ?lz) \<Longrightarrow>
      list_all (\<lambda>s. is_ok (ks_validate s (key_value sf ?lz s))) (KEY_SPECS shlex) \<longleftrightarrow>
      is_ok (v_truthy (text_or sf ?lz ''VB_ALLOW_CROSS_USER_DAEMON'' ''false''))"
    using accepted_values_validate [where shlex = shlex and lz = ?lz and sf = sf] assms(2)
    by (elim is_ok_cases) blast
  with assms(1) Inr show ?thesis
    by (auto simp: build_report_def prefix_flags Let_def live legacy_report)
qed

definition no_files :: "nat sources" where
  "no_files = \<lparr>src_targets = Inr empty_manager, src_config = Inr None,
     src_config_path = ''/c.toml'', src_targets_path = ''/t.yaml''\<rparr>"

theorem report_agrees_with_runtime_witness:
  "\<exists>r. build_report show_nat (\<lambda>s. Some []) (\<lambda>s. s) (\<lambda>k. if k = ''VB_ALLOW_CROSS_USER_DAEMON'' then Some ''maybe'' else None)
     no_files None None None = Some r \<and> \<not> rep_valid r \<and> rep_digest r \<noteq> None"
proof -
  let ?env = "\<lambda>k. if k = ''VB_ALLOW_CROSS_USER_DAEMON'' then Some ''maybe'' else None"
  have "is_ok (from_env_resolve show_nat (\<lambda>s. Some []) ?env no_files None True)"
    by (simp add: from_env_resolve_def nonempty_var_def no_files_def to_config_def parsed_or_def
        parsed_def flag_def raw_def raw_with_source_def spectre_args_of_def default_port_def or_empty_def)
  moreover have "\<not> is_ok (v_truthy (text_or show_nat (legacy_layers ?env no_files None None)
      ''VB_ALLOW_CROSS_USER_DAEMON'' ''false''))"
    by (simp add: v_truthy_def text_or_def raw_def raw_with_source_def legacy_layers_def nonempty_var_def
        trim_def is_space_def to_lowercase_def lower_char_def)
  ultimately show ?thesis
    using report_agrees_with_runtime [of ?env "\<lambda>s. Some []" show_nat "\<lambda>s. s" no_files None None]
    by (auto simp: nonempty_var_def no_files_def is_ok_def)
qed

lemma default_port_range: "65000 \<le> default_port env \<and> default_port env < 65500"
  by (simp add: default_port_def Let_def)

lemma default_port_word: "(of_nat (default_port env) :: u16) \<noteq> 0"
proof -
  have "unat (of_nat (default_port env) :: u16) = default_port env"
    using default_port_range [of env] by (simp add: unat_of_nat take_bit_nat_def)
  then show ?thesis using default_port_range [of env] by (metis unat_0 not_numeral_le_zero)
qed

lemma from_target_ok: "is_ok (from_target env t name) \<longleftrightarrow> t_port t \<noteq> Some 0"
  using default_port_word [of env] by (auto simp: from_target_def Let_def split: option.splits)

text \<open>
  With an active target the report is valid exactly when the program would accept the target,
  and carries its digest -- except for a target whose port is 0: the program refuses it with an error,
  but the report panics, although it is documented never to fail.
\<close>
theorem report_target_mode_exact:
  assumes "nonempty_var env ''VB_TARGET'' = Some name"
  shows "(build_report sf shlex sha env src legacy_env prof None = None \<longleftrightarrow>
      (\<exists>m t. src_targets src = Inr m \<and> target_get m name = Some t \<and> t_port t = Some 0)) \<and>
    (\<forall>r. build_report sf shlex sha env src legacy_env prof None = Some r \<longrightarrow>
      (rep_valid r \<longleftrightarrow> is_ok (from_env_resolve sf shlex env src prof True)) \<and>
      rep_digest r = (case from_env_resolve sf shlex env src prof True of
                        Inr c \<Rightarrow> Some (config_digest sha c) | Inl e \<Rightarrow> None))"
proof (cases "\<exists>m t. src_targets src = Inr m \<and> target_get m name = Some t")
  case True
  then obtain m t where "src_targets src = Inr m" "target_get m name = Some t" by blast
  with assms from_target_ok [of env t name] show ?thesis
    by (cases "from_target env t name")
       (auto simp: build_report_def prefix_flags Let_def report_target_mode_def
         build_report_from_target_def push_entries from_env_resolve_def)
next
  case False
  with assms show ?thesis
    by (cases "src_targets src"; cases "target_get (projr (src_targets src)) name")
       (auto simp: build_report_def prefix_flags Let_def report_target_mode_def from_env_resolve_def
         push_error_def push_diag_def)
qed

theorem report_target_mode_exact_witness:
  "build_report show_nat (\<lambda>s. Some []) (\<lambda>s. s) (\<lambda>k. if k = ''VB_TARGET'' then Some ''lab'' else None)
     (no_files\<lparr>src_targets := Inr (target_set ''lab'' (default_target\<lparr>t_port := Some 0\<rparr>) empty_manager)\<rparr>)
     None None None = None"
  using report_target_mode_exact [of "\<lambda>k. if k = ''VB_TARGET'' then Some ''lab'' else None" "''lab''"
      show_nat "\<lambda>s. Some []" "\<lambda>s. s"
      "no_files\<lparr>src_targets := Inr (target_set ''lab'' (default_target\<lparr>t_port := Some 0\<rparr>) empty_manager)\<rparr>" None None]
  by (auto simp: nonempty_var_def no_files_def tm.lookup_put_same tm.inv_empty)

section \<open>Secrets\<close>

lemma specs_hide:
  "list_all (\<lambda>s. ks_key s \<in> {''VB_TRANSPORT_DAEMON_TOKEN'', ''VB_SSH_KEY''} \<longrightarrow>
     (\<forall>c. ks_display s c \<in> {[], ''***set***''}) \<and> ks_default s = []) (KEY_SPECS shlex)"
  unfolding KEY_SPECS_def mk_spec_def by (simp add: report_secret_def)

lemma spec_hides:
  "s \<in> set (KEY_SPECS shlex) \<Longrightarrow> ks_key s \<in> {''VB_TRANSPORT_DAEMON_TOKEN'', ''VB_SSH_KEY''} \<Longrightarrow>
   ks_display s c \<in> {[], ''***set***''} \<and> ks_default s = []"
  using specs_hide [of shlex] unfolding list_all_iff by blast

lemma sanitize_hides:
  "k \<in> {''VB_TRANSPORT_DAEMON_TOKEN'', ''VB_SSH_KEY''} \<Longrightarrow> sanitize_raw_value k v \<in> {[], ''***set***''}"
  by (auto simp: sanitize_raw_value_def)

text \<open>
  Whatever the sources and the mode, no entry of the report shows the daemon token or the path of
  the SSH key: their values are empty or the mask.
\<close>
theorem report_hides_secrets:
  assumes "build_report sf shlex sha env src legacy_env prof pre = Some r" and "e \<in> set (rep_entries r)"
    and "e_key e \<in> {''VB_TRANSPORT_DAEMON_TOKEN'', ''VB_SSH_KEY''}"
  shows "e_value e \<in> {[], ''***set***''}"
proof (cases "nonempty_var env ''VB_TARGET''")
  case (Some name)
  let ?r = "report_prefix env legacy_env prof pre"
  have "(\<exists>cfg. \<exists>s\<in>set (KEY_SPECS shlex). e_key e = ks_key s \<and> e_value e = ks_display s cfg)"
    using assms(1,2) Some
    by (auto simp: build_report_def prefix_flags report_target_mode_def build_report_from_target_def
        push_entries push_error_def push_diag_def Let_def split: sum.splits option.splits) blast
  with assms(3) show ?thesis using spec_hides by metis
next
  case None
  let ?p = "\<lambda>e. (e_key e, e_value e)"
  have mem: "?p e \<in> set (map ?p (rep_entries r))" using assms(2) by auto
  show ?thesis
  proof (cases "src_config src")
    case (Inl err)
    with assms(1) None have "map ?p (rep_entries r) = map (\<lambda>s. (ks_key s, ks_default s)) (KEY_SPECS shlex)"
      by (auto simp: build_report_def prefix_flags report_legacy_mode_def push_entries push_error_def
          push_diag_def Let_def)
    with mem have "\<exists>s\<in>set (KEY_SPECS shlex). e_key e = ks_key s \<and> e_value e = ks_default s"
      unfolding \<open>map ?p (rep_entries r) = _\<close> set_map by blast
    with assms(3) show ?thesis using spec_hides by (metis insertI1)
  next
    case (Inr cf)
    with assms(1) None have "map ?p (rep_entries r) = map (\<lambda>s. (ks_key s, sanitize_raw_value (ks_key s)
        (key_value sf (legacy_layers env src prof cf) s))) (KEY_SPECS shlex)"
      by (auto simp: build_report_def prefix_flags report_legacy_mode_def report_keys_entries
          legacy_layers_def push_error_def push_diag_def Let_def split: sum.splits)
    with mem have "\<exists>s\<in>set (KEY_SPECS shlex). \<exists>v. e_key e = ks_key s \<and> e_value e = sanitize_raw_value (ks_key s) v"
      unfolding \<open>map ?p (rep_entries r) = _\<close> set_map by blast
    with assms(3) show ?thesis using sanitize_hides by metis
  qed
qed

lemma legacy_report_has_keys:
  assumes "build_report sf shlex sha env no_files legacy_env prof None = Some r"
    and "nonempty_var env ''VB_TARGET'' = None" and "s \<in> set (KEY_SPECS shlex)"
  shows "\<exists>e\<in>set (rep_entries r). e_key e = ks_key s"
proof -
  have "map (\<lambda>e. (e_key e, e_value e)) (rep_entries r) =
      map (\<lambda>s. (ks_key s, sanitize_raw_value (ks_key s)
        (key_value sf (legacy_layers env no_files prof None) s))) (KEY_SPECS shlex)"
    using assms(1,2)
    by (auto simp: build_report_def prefix_flags report_legacy_mode_def report_keys_entries no_files_def
        legacy_layers_def push_error_def push_diag_def Let_def split: sum.splits)
  then have "map fst (map (\<lambda>e. (e_key e, e_value e)) (rep_entries r)) = map ks_key (KEY_SPECS shlex)"
    by simp
  then have "set (map e_key (rep_entries r)) = set (map ks_key (KEY_SPECS shlex))"
    by (simp add: comp_def)
  with assms(3) show ?thesis by force
qed

theorem report_hides_secrets_witness:
  "\<exists>r e. build_report show_nat (\<lambda>s. Some []) (\<lambda>s. s) (\<lambda>k. if k = ''VB_SSH_KEY'' then Some ''/id'' else None)
     no_files None None None = Some r \<and> e \<in> set (rep_entries r) \<and> e_key e = ''VB_SSH_KEY'' \<and>
     e_value e \<in> {[], ''***set***''}"
proof -
  let ?env = "\<lambda>k. if k = ''VB_SSH_KEY'' then Some ''/id'' else None"
  let ?sh = "\<lambda>s. Some [] :: string list option"
  obtain r where r: "build_report show_nat ?sh (\<lambda>s. s) ?env no_files None None None = Some r"
    by (simp add: build_report_def prefix_flags nonempty_var_def Let_def)
  have "\<exists>s\<in>set (KEY_SPECS ?sh). ks_key s = ''VB_SSH_KEY''"
    by (simp add: KEY_SPECS_def mk_spec_def)
  with legacy_report_has_keys [OF r] obtain e where
    "e \<in> set (rep_entries r)" "e_key e = ''VB_SSH_KEY''"
    by (force simp: nonempty_var_def)
  with report_hides_secrets [OF r, of e] r show ?thesis by blast
qed

end
