(* ===== verification/Resolve.thy ===== *)
theory Resolve
  imports Settings
begin

text \<open>
  \<open>src/target/resolve.rs\<close>: which target or profile one invocation uses, and the configuration it
  gives.  The process environment, the files and the home directory are the record \<open>ambient\<close>.
\<close>

record 'f ambient =
  am_env :: env
  am_sources :: "'f sources"
  am_read :: "string \<Rightarrow> string option"
  am_home :: "string option"
  am_shlex :: "string \<Rightarrow> string list option"
  am_show_float :: "'f \<Rightarrow> string"

datatype selection =
    CliTarget string
  | CliProfile string
  | EnvTarget string
  | ActiveTarget string
  | LegacyEnv

record resolved_target =
  rt_name :: "string option"
  rt_config :: config

definition resolve_selection ::
    "'f ambient \<Rightarrow> string option \<Rightarrow> string option \<Rightarrow> virtuoso_error + selection" where
  "resolve_selection am cli_target cli_profile =
     (case (cli_target, cli_profile) of
        (Some t, Some p) \<Rightarrow> Inl (Config ''--target and --profile are mutually exclusive; pass exactly one'')
      | (Some name, None) \<Rightarrow> Inr (CliTarget name)
      | (None, Some p) \<Rightarrow> Inr (CliProfile p)
      | (None, None) \<Rightarrow>
          (case Option.bind (am_env am ''VB_TARGET'') (\<lambda>v. if trim v \<noteq> [] then Some v else None) of
             Some v \<Rightarrow> Inr (EnvTarget v)
           | None \<Rightarrow>
               (case src_targets (am_sources am) of
                  Inl e \<Rightarrow> Inl (Config (''failed to load targets: '' @ display_target_error e))
                | Inr m \<Rightarrow>
                    (case active_target_raw m of
                       None \<Rightarrow> Inr LegacyEnv
                     | Some name \<Rightarrow>
                         if target_get m name = None
                         then Inl (Config (''active_target '' @ [CHR 0x27] @ name @ [CHR 0x27] @
                                ''is set but not defined in targets''))
                         else Inr (ActiveTarget name)))))"

definition resolve_target :: "'f ambient \<Rightarrow> string \<Rightarrow> virtuoso_error + resolved_target" where
  "resolve_target am name =
     (case src_targets (am_sources am) of
        Inl e \<Rightarrow> Inl (Config (''failed to load targets: '' @ display_target_error e))
      | Inr m \<Rightarrow>
          (case target_get m name of
             None \<Rightarrow> Inl (NotFound (''target '' @ [CHR 0x27] @ name @ [CHR 0x27] @ '' not found''))
           | Some t \<Rightarrow>
               bindR (from_target (am_env am) t name) (\<lambda>c.
                 Inr \<lparr>rt_name = Some name, rt_config = c\<rparr>)))"

definition from_env_with_profile :: "'f ambient \<Rightarrow> string option \<Rightarrow> virtuoso_error + config" where
  "from_env_with_profile am prof =
     from_env_resolve (am_show_float am) (am_shlex am) (am_env am) (am_sources am) prof True"

definition from_env_with_profile_no_target :: "'f ambient \<Rightarrow> string option \<Rightarrow> virtuoso_error + config" where
  "from_env_with_profile_no_target am prof =
     from_env_resolve (am_show_float am) (am_shlex am) (am_env am) (am_sources am) prof False"

definition from_env :: "'f ambient \<Rightarrow> virtuoso_error + config" where
  "from_env am = from_env_with_profile am (resolve_profile (am_env am) (am_read am) (am_home am))"

fun resolve_from_selection :: "'f ambient \<Rightarrow> selection \<Rightarrow> virtuoso_error + resolved_target" where
  "resolve_from_selection am (CliTarget name) = resolve_target am name"
| "resolve_from_selection am (EnvTarget name) = resolve_target am name"
| "resolve_from_selection am (ActiveTarget name) = resolve_target am name"
| "resolve_from_selection am (CliProfile p) =
     bindR (from_env_with_profile_no_target am (Some p)) (\<lambda>c. Inr \<lparr>rt_name = None, rt_config = c\<rparr>)"
| "resolve_from_selection am LegacyEnv =
     bindR (from_env am) (\<lambda>c. Inr \<lparr>rt_name = None, rt_config = c\<rparr>)"

definition resolve ::
    "'f ambient \<Rightarrow> string option \<Rightarrow> string option \<Rightarrow> virtuoso_error + resolved_target" where
  "resolve am cli_target cli_profile =
     bindR (resolve_selection am cli_target cli_profile) (resolve_from_selection am)"

section \<open>Explicit selections are not influenced by the ambient choice\<close>

text \<open>The targets file with another active target.\<close>

definition with_active :: "string option \<Rightarrow> target_error + target_manager \<Rightarrow> target_error + target_manager" where
  "with_active a loaded =
     map_sum id (\<lambda>m. m\<lparr>tm_config := (tm_config m)\<lparr>active_target_field := a\<rparr>\<rparr>) loaded"

lemma target_get_active [simp]:
  "target_get (m\<lparr>tm_config := (tm_config m)\<lparr>active_target_field := a\<rparr>\<rparr>) name = target_get m name"
  by (simp add: target_get_def)

text \<open>A setting whose name neither is \<open>n\<close> nor can become \<open>n\<close> with a profile's suffix does not depend on \<open>n\<close>.\<close>

lemma raw_irrelevant:
  assumes "k \<noteq> n" and "\<not> starts_with n (k @ ''_'')"
  shows "raw sf (lz\<lparr>ly_env := (ly_env lz)(n := v)\<rparr>) k = raw sf lz k"
proof -
  have "profile_key k p \<noteq> n" for p
    using assms(2) unfolding profile_key_def starts_with_iff by (metis append.assoc)
  then have "Option.bind (ly_profile lz) (\<lambda>p. nonempty_var ((ly_env lz)(n := v)) (profile_key k p)) =
      Option.bind (ly_profile lz) (\<lambda>p. nonempty_var (ly_env lz) (profile_key k p))"
    by (simp add: nonempty_var_def)
  moreover have "nonempty_var ((ly_env lz)(n := v)) k = nonempty_var (ly_env lz) k"
    using assms(1) by (simp add: nonempty_var_def)
  ultimately show ?thesis
    by (simp add: raw_def raw_with_source_def cong: option.case_cong)
qed

lemma parsed_irrelevant:
  assumes "k \<noteq> n" and "\<not> starts_with n (k @ ''_'')"
  shows "parsed sf (lz\<lparr>ly_env := (ly_env lz)(n := v)\<rparr>) m k = parsed sf lz m k"
    and "parsed_or sf (lz\<lparr>ly_env := (ly_env lz)(n := v)\<rparr>) m k d = parsed_or sf lz m k d"
    and "flag sf (lz\<lparr>ly_env := (ly_env lz)(n := v)\<rparr>) k = flag sf lz k"
    and "flag_truthy sf (lz\<lparr>ly_env := (ly_env lz)(n := v)\<rparr>) k = flag_truthy sf lz k"
    and "text_or sf (lz\<lparr>ly_env := (ly_env lz)(n := v)\<rparr>) k e = text_or sf lz k e"
  by (simp_all add: parsed_def parsed_or_def flag_def flag_truthy_def text_or_def
      raw_irrelevant [OF assms])

lemmas key_irrelevant = parsed_irrelevant raw_irrelevant

lemma default_port_irrelevant:
  "default_port (env(''VB_TARGET'' := v)) = default_port env"
  "default_port (env(''VB_PROFILE'' := v)) = default_port env"
  by (simp_all add: default_port_def cong: option.case_cong)

lemma to_config_irrelevant:
  "to_config sf shlex (lz\<lparr>ly_env := (ly_env lz)(''VB_TARGET'' := v)\<rparr>) = to_config sf shlex lz"
  unfolding to_config_def by (simp add: key_irrelevant default_port_irrelevant starts_with_def cong: if_cong)

lemma to_config_irrelevant_profile:
  "to_config sf shlex (lz\<lparr>ly_env := (ly_env lz)(''VB_PROFILE'' := v)\<rparr>) = to_config sf shlex lz"
  unfolding to_config_def by (simp add: key_irrelevant default_port_irrelevant starts_with_def cong: if_cong)

lemma to_config_choice:
  "to_config sf shlex \<lparr>ly_profile = prof, ly_file = f,
      ly_env = env(''VB_TARGET'' := v, ''VB_PROFILE'' := w), ly_path = p\<rparr> =
   to_config sf shlex \<lparr>ly_profile = prof, ly_file = f, ly_env = env, ly_path = p\<rparr>"
  using to_config_irrelevant_profile [of sf shlex
      "\<lparr>ly_profile = prof, ly_file = f, ly_env = env(''VB_TARGET'' := v), ly_path = p\<rparr>" w]
    to_config_irrelevant [of sf shlex "\<lparr>ly_profile = prof, ly_file = f, ly_env = env, ly_path = p\<rparr>" v]
  by simp

lemma from_env_resolve_choice:
  "from_env_resolve sf shlex (env(''VB_TARGET'' := v, ''VB_PROFILE'' := w)) (src\<lparr>src_targets := ts\<rparr>) prof False =
   from_env_resolve sf shlex env src prof False"
  by (simp add: from_env_resolve_def to_config_choice del: fun_upd_apply)

lemma from_target_choice:
  "from_target (env(''VB_TARGET'' := v, ''VB_PROFILE'' := w)) t name = from_target env t name"
  by (simp only: from_target_def default_port_irrelevant)

text \<open>
  C18: An explicit \<open>--target\<close> or \<open>--profile\<close> (exactly one of the two) decides the configuration: the
  result is the same whatever \<open>VB_TARGET\<close> and \<open>VB_PROFILE\<close> hold, whichever target is the active one
  of the targets file, and whatever the files that can name a default profile hold.
\<close>
theorem explicit_selection_ignores_ambient:
  assumes "(cli_target = None) \<noteq> (cli_profile = None)"
  shows "resolve (am\<lparr>am_env := (am_env am)(''VB_TARGET'' := v, ''VB_PROFILE'' := w),
      am_sources := (am_sources am)\<lparr>src_targets := with_active a (src_targets (am_sources am))\<rparr>,
      am_read := files\<rparr>) cli_target cli_profile =
    resolve am cli_target cli_profile"
  using assms
  by (cases cli_target; cases cli_profile)
     (auto simp: resolve_def resolve_selection_def resolve_target_def from_target_choice with_active_def
       from_env_with_profile_no_target_def from_env_resolve_choice
       simp del: fun_upd_apply split: sum.splits option.splits)

definition plain_ambient :: "nat ambient" where
  "plain_ambient =
     \<lparr>am_env = (\<lambda>k. None),
      am_sources = \<lparr>src_targets = Inr empty_manager, src_config = Inr None,
        src_config_path = ''/c.toml'', src_targets_path = ''/t.yaml''\<rparr>,
      am_read = (\<lambda>p. None), am_home = None, am_shlex = (\<lambda>s. Some []), am_show_float = show_nat\<rparr>"

theorem explicit_selection_ignores_ambient_witness:
  "resolve (plain_ambient\<lparr>am_env := (am_env plain_ambient)(''VB_TARGET'' := Some ''other'', ''VB_PROFILE'' := Some ''dev''),
      am_sources := (am_sources plain_ambient)\<lparr>src_targets := with_active (Some ''gone'') (src_targets (am_sources plain_ambient))\<rparr>,
      am_read := (\<lambda>p. Some ''lab'')\<rparr>) None (Some ''prod'') =
   resolve plain_ambient None (Some ''prod'')"
  by (rule explicit_selection_ignores_ambient) simp

lemma from_env_resolve_named:
  "nonempty_var env ''VB_TARGET'' = Some name \<Longrightarrow>
   from_env_resolve sf shlex env src prof True =
     (case src_targets src of
        Inl e \<Rightarrow> Inl (Config (''failed to load targets: '' @ display_target_error e))
      | Inr m \<Rightarrow>
          (case target_get m name of
             None \<Rightarrow> Inl (Config (''target '' @ [CHR 0x27] @ name @ [CHR 0x27] @ '' not found''))
           | Some t \<Rightarrow> from_target env t name))"
  by (simp add: from_env_resolve_def)

text \<open>
  A \<open>VB_TARGET\<close> of blanks is no selection, but it is not ignored either: with no active target the
  invocation selects the legacy configuration, whose resolution then looks for a target called by those
  blanks and fails (unless a target has that name).
\<close>
theorem blank_vb_target_fails:
  assumes "am_env am ''VB_TARGET'' = Some v" and "v \<noteq> []" and "trim v = []"
    and "src_targets (am_sources am) = Inr m" and "active_target_raw m = None" and "target_get m v = None"
  shows "resolve_selection am None None = Inr LegacyEnv \<and>
    resolve am None None = Inl (Config (''target '' @ [CHR 0x27] @ v @ [CHR 0x27] @ '' not found''))"
  using assms
  by (simp add: resolve_def resolve_selection_def from_env_def from_env_with_profile_def
      from_env_resolve_named nonempty_var_def)

theorem blank_vb_target_fails_witness:
  "resolve_selection (plain_ambient\<lparr>am_env := (\<lambda>k. if k = ''VB_TARGET'' then Some '' '' else None)\<rparr>) None None = Inr LegacyEnv"
  using blank_vb_target_fails [of "plain_ambient\<lparr>am_env := (\<lambda>k. if k = ''VB_TARGET'' then Some '' '' else None)\<rparr>" "'' ''"
      empty_manager]
  by (simp add: plain_ambient_def empty_manager_def active_target_raw_def target_get_def trim_def is_space_def)

section \<open>Named selections\<close>

text \<open>A selected target that resolves is the one of that name, and its profile is its name.\<close>

lemma resolve_target_named:
  "resolve_target am name = Inr r \<Longrightarrow>
   rt_name r = Some name \<and> profile (rt_config r) = Some name \<and>
   (\<exists>m t. src_targets (am_sources am) = Inr m \<and> target_get m name = Some t \<and>
      from_target (am_env am) t name = Inr (rt_config r))"
  by (auto simp: resolve_target_def bindR_Inr_iff split: sum.splits option.splits)
     (simp add: from_target_def Let_def split: if_splits, auto)

lemma resolve_both_flags: "\<not> is_ok (resolve am (Some t) (Some p))"
  by (simp add: resolve_def resolve_selection_def)

end
