(* ===== verification/Pool.thy ===== *)
theory Pool
  imports Settings Scheduler
begin

text \<open>
  \<open>src/transport/pool.rs\<close>: the identity of a connection, and the pool that shares connections.

  The \<open>Arc<EndpointSlot>\<close>s are the entries of a heap: a slot is named by its position, and the map of
  the pool holds positions, so that a caller can hold a slot the map no longer has.  A slot owns one
  scheduler for life, hence its position names the scheduler as well.  \<open>'t\<close> is the type of the transports;
  the result of a caller's factory is an argument of the step that would call it.  The \<open>HashMap\<close> is an
  association list (its order is not specified), and \<open>NEXT_ENDPOINT_GENERATION\<close> is part of the state.
\<close>

section \<open>Endpoint keys\<close>

record endpoint_key =
  k_profile :: "string option"
  k_host :: string
  k_port :: u16
  k_user :: "string option"
  k_jump_route :: "string list"
  k_socks_route :: "string option"
  k_identities :: "string list"
  k_host_key_aliases :: "string list"
  k_security_options :: "string list"

definition nonempty :: "string option \<Rightarrow> string option" where
  "nonempty x = (case x of Some s \<Rightarrow> if s \<noteq> [] then Some s else None | None \<Rightarrow> None)"

definition key_from_config :: "config \<Rightarrow> string \<Rightarrow> endpoint_key" where
  "key_from_config c host =
     (let jump_route =
            (case nonempty (jump_host c) of
               None \<Rightarrow> []
             | Some jump \<Rightarrow>
                 [case nonempty (jump_user c) of Some u \<Rightarrow> u @ ''@'' @ jump | None \<Rightarrow> jump]);
          ids = (case nonempty (ssh_key c) of Some k \<Rightarrow> [k] | None \<Rightarrow> []);
          opts = [''backend='' @ (case ssh_backend c of Some b \<Rightarrow> b | None \<Rightarrow> ''openssh'')] @
            (case nonempty (ssh_config c) of Some p \<Rightarrow> [''ssh_config='' @ p] | None \<Rightarrow> [])
      in \<lparr>k_profile = profile c, k_host = host, k_port = or_default (ssh_port c) 22,
          k_user = nonempty (remote_user c), k_jump_route = jump_route, k_socks_route = None,
          k_identities = ids, k_host_key_aliases = [], k_security_options = opts\<rparr>)"

definition debug_opt :: "string option \<Rightarrow> string" where
  "debug_opt x = (case x of None \<Rightarrow> ''None'' | Some s \<Rightarrow> ''Some('' @ debug_str s @ '')'')"

definition debug_list :: "string list \<Rightarrow> string" where
  "debug_list xs = ''['' @ join '', '' (map debug_str xs) @ '']''"

text \<open>The derived \<open>Debug\<close> text of a key, and its digest; \<open>sha256_hex\<close> is the hash of \<open>sha2\<close>, in hex.\<close>

definition debug_key :: "endpoint_key \<Rightarrow> string" where
  "debug_key k =
     ''EndpointKey { profile: '' @ debug_opt (k_profile k) @ '', host: '' @ debug_str (k_host k) @
     '', port: '' @ show_nat (unat (k_port k)) @ '', user: '' @ debug_opt (k_user k) @
     '', jump_route: '' @ debug_list (k_jump_route k) @ '', socks_route: '' @ debug_opt (k_socks_route k) @
     '', identities: '' @ debug_list (k_identities k) @ '', host_key_aliases: '' @
     debug_list (k_host_key_aliases k) @ '', security_options: '' @ debug_list (k_security_options k) @ '' }''"

definition key_digest :: "(string \<Rightarrow> string) \<Rightarrow> endpoint_key \<Rightarrow> string" where
  "key_digest sha256_hex k = take 12 (sha256_hex (debug_key k))"

definition key_summary :: "endpoint_key \<Rightarrow> string" where
  "key_summary k =
     (case k_profile k of Some p \<Rightarrow> ''profile='' @ p @ '' '' | None \<Rightarrow> []) @
     (case k_user k of Some u \<Rightarrow> u | None \<Rightarrow> ''-'') @ ''@'' @ k_host k @ '':'' @ show_nat (unat (k_port k))"

section \<open>Slots\<close>

record 't endpoint =
  ep_key :: endpoint_key
  ep_transport :: 't
  ep_scheduler :: nat
  ep_generation :: u64

record 't slot =
  sl_endpoint :: "'t endpoint option"
  sl_scheduler :: state

record 't pool =
  p_slots :: "(endpoint_key \<times> nat) list"
  p_heap :: "'t slot list"
  p_next_gen :: u64

definition slot_new :: "limits \<Rightarrow> transport_error + 't slot" where
  "slot_new l = bindR (scheduler_new l) (\<lambda>sc. Inr \<lparr>sl_endpoint = None, sl_scheduler = sc\<rparr>)"

definition set_endpoint :: "nat \<Rightarrow> 't endpoint option \<Rightarrow> 't pool \<Rightarrow> 't pool" where
  "set_endpoint sid e p =
     p\<lparr>p_heap := (p_heap p)[sid := (p_heap p ! sid)\<lparr>sl_endpoint := e\<rparr>]\<rparr>"

definition slot_endpoint :: "'t pool \<Rightarrow> nat \<Rightarrow> 't endpoint option" where
  "slot_endpoint p sid = sl_endpoint (p_heap p ! sid)"

text \<open>
  \<open>EndpointSlot::get_or_create\<close>, all under the slot's mutex.  \<open>fac\<close> is what the factory returns when it is
  called; the first component tells whether it was.
\<close>

definition slot_get_or_create ::
    "nat \<Rightarrow> endpoint_key \<Rightarrow> (transport_error + 't) \<Rightarrow> 't pool \<Rightarrow>
     bool \<times> (transport_error + 't endpoint) \<times> 't pool" where
  "slot_get_or_create sid key fac p =
     (case slot_endpoint p sid of
        Some existing \<Rightarrow> (False, Inr existing, p)
      | None \<Rightarrow>
          (case fac of
             Inl e \<Rightarrow> (True, Inl e, p)
           | Inr t \<Rightarrow>
               (let ep = \<lparr>ep_key = key, ep_transport = t, ep_scheduler = sid, ep_generation = p_next_gen p\<rparr>
                in (True, Inr ep, set_endpoint sid (Some ep) (p\<lparr>p_next_gen := p_next_gen p + 1\<rparr>)))))"

definition slot_clear :: "nat \<Rightarrow> 't pool \<Rightarrow> 't pool" where
  "slot_clear sid p = set_endpoint sid None p"

definition has_endpoint :: "'t pool \<Rightarrow> nat \<Rightarrow> bool" where
  "has_endpoint p sid \<longleftrightarrow> slot_endpoint p sid \<noteq> None"

definition current_generation :: "'t pool \<Rightarrow> nat \<Rightarrow> u64 option" where
  "current_generation p sid = map_option ep_generation (slot_endpoint p sid)"

section \<open>The pool\<close>

definition pool_new :: "'t pool" where
  "pool_new = \<lparr>p_slots = [], p_heap = [], p_next_gen = 1\<rparr>"

text \<open>The first critical section of \<open>get_or_create\<close>: find the slot of the key or insert one.\<close>

definition pool_slot_for :: "endpoint_key \<Rightarrow> limits \<Rightarrow> 't pool \<Rightarrow> transport_error + (nat \<times> 't pool)" where
  "pool_slot_for key l p =
     (case map_of (p_slots p) key of
        Some sid \<Rightarrow> Inr (sid, p)
      | None \<Rightarrow>
          bindR (slot_new l) (\<lambda>s.
            Inr (length (p_heap p),
                 p\<lparr>p_slots := (key, length (p_heap p)) # p_slots p, p_heap := p_heap p @ [s]\<rparr>)))"

text \<open>The last one, after a failed creation: drop the key's slot if it is empty.\<close>

definition pool_drop_empty :: "endpoint_key \<Rightarrow> 't pool \<Rightarrow> 't pool" where
  "pool_drop_empty key p =
     (case map_of (p_slots p) key of
        Some sid \<Rightarrow>
          if slot_endpoint p sid = None then p\<lparr>p_slots := filter (\<lambda>(k, s). k \<noteq> key) (p_slots p)\<rparr> else p
      | None \<Rightarrow> p)"

definition pool_get_or_create ::
    "endpoint_key \<Rightarrow> limits \<Rightarrow> (transport_error + 't) \<Rightarrow> 't pool \<Rightarrow>
     bool \<times> (transport_error + 't endpoint) \<times> 't pool" where
  "pool_get_or_create key l fac p =
     (case pool_slot_for key l p of
        Inl e \<Rightarrow> (False, Inl e, p)
      | Inr (sid, p1) \<Rightarrow>
          (case slot_get_or_create sid key fac p1 of
             (called, Inr ep, p2) \<Rightarrow> (called, Inr ep, p2)
           | (called, Inl e, p2) \<Rightarrow> (called, Inl e, pool_drop_empty key p2)))"

definition pool_get :: "'t pool \<Rightarrow> endpoint_key \<Rightarrow> 't endpoint option" where
  "pool_get p key = Option.bind (map_of (p_slots p) key) (slot_endpoint p)"

definition pool_remove :: "endpoint_key \<Rightarrow> 't pool \<Rightarrow> bool \<times> 't pool" where
  "pool_remove key p =
     (map_of (p_slots p) key \<noteq> None, p\<lparr>p_slots := filter (\<lambda>(k, s). k \<noteq> key) (p_slots p)\<rparr>)"

definition remove_if_matches :: "endpoint_key \<Rightarrow> u64 \<Rightarrow> 't pool \<Rightarrow> bool \<times> 't pool" where
  "remove_if_matches key expected_gen p =
     (case map_of (p_slots p) key of
        None \<Rightarrow> (False, p)
      | Some sid \<Rightarrow>
          if current_generation p sid = Some expected_gen then (True, slot_clear sid p) else (False, p))"

definition pool_len :: "'t pool \<Rightarrow> nat" where
  "pool_len p = length (filter (\<lambda>(k, s). has_endpoint p s) (p_slots p))"

definition pool_is_empty :: "'t pool \<Rightarrow> bool" where
  "pool_is_empty p \<longleftrightarrow> pool_len p = 0"

definition pool_keys :: "'t pool \<Rightarrow> endpoint_key list" where
  "pool_keys p = map fst (filter (\<lambda>(k, s). has_endpoint p s) (p_slots p))"

definition pool_clear :: "'t pool \<Rightarrow> 't pool" where
  "pool_clear p = p\<lparr>p_slots := []\<rparr>"

section \<open>Well-formed pools\<close>

text \<open>
  The map names each key once, different keys have different slots, every slot it names exists, and an
  endpoint lies in the slot of its key and is metered by that slot's scheduler.
\<close>

definition pool_ok :: "'t pool \<Rightarrow> bool" where
  "pool_ok p \<longleftrightarrow>
     distinct (map fst (p_slots p)) \<and> distinct (map snd (p_slots p)) \<and>
     (\<forall>k sid. (k, sid) \<in> set (p_slots p) \<longrightarrow> sid < length (p_heap p) \<and>
        (\<forall>ep. slot_endpoint p sid = Some ep \<longrightarrow> ep_key ep = k \<and> ep_scheduler ep = sid))"

lemma pool_ok_mem:
  "pool_ok p \<Longrightarrow> (k, sid) \<in> set (p_slots p) \<Longrightarrow> sid < length (p_heap p) \<and>
     (\<forall>ep. slot_endpoint p sid = Some ep \<longrightarrow> ep_key ep = k \<and> ep_scheduler ep = sid)"
  unfolding pool_ok_def by blast

lemma pool_ok_slot: "pool_ok p \<Longrightarrow> map_of (p_slots p) k = Some sid \<Longrightarrow> sid < length (p_heap p)"
  using pool_ok_mem map_of_SomeD by fast

lemma pool_ok_endpoint:
  "pool_ok p \<Longrightarrow> map_of (p_slots p) k = Some sid \<Longrightarrow> slot_endpoint p sid = Some ep \<Longrightarrow>
   ep_key ep = k \<and> ep_scheduler ep = sid"
  using pool_ok_mem map_of_SomeD by fast

lemma pool_ok_inj_mem:
  "pool_ok p \<Longrightarrow> (k, sid) \<in> set (p_slots p) \<Longrightarrow> (j, sid) \<in> set (p_slots p) \<Longrightarrow> k = j"
  unfolding pool_ok_def by (metis distinct_map inj_onD prod.inject snd_conv)

lemma pool_ok_inj:
  "pool_ok p \<Longrightarrow> map_of (p_slots p) k = Some sid \<Longrightarrow> map_of (p_slots p) j = Some sid \<Longrightarrow> k = j"
  by (metis map_of_SomeD pool_ok_inj_mem)

lemma slot_endpoint_set:
  "sid < length (p_heap p) \<Longrightarrow>
   slot_endpoint (set_endpoint sid e p) s = (if s = sid then e else slot_endpoint p s)"
  by (simp add: slot_endpoint_def set_endpoint_def nth_list_update)

lemma set_endpoint_simps [simp]:
  "p_slots (set_endpoint sid e p) = p_slots p" "length (p_heap (set_endpoint sid e p)) = length (p_heap p)"
  "p_next_gen (set_endpoint sid e p) = p_next_gen p"
  by (simp_all add: set_endpoint_def)

lemma slot_endpoint_update [simp]:
  "slot_endpoint (p\<lparr>p_slots := s\<rparr>) sid = slot_endpoint p sid"
  "slot_endpoint (p\<lparr>p_next_gen := g\<rparr>) sid = slot_endpoint p sid"
  by (simp_all add: slot_endpoint_def)

lemma map_of_filter_key:
  "map_of (filter (\<lambda>(k, s). k \<noteq> key) m) j = (if j = key then None else map_of m j)"
  by (induction m) auto

lemma pool_ok_filter: "pool_ok p \<Longrightarrow> pool_ok (p\<lparr>p_slots := filter (\<lambda>(k, s). k \<noteq> key) (p_slots p)\<rparr>)"
  by (auto simp: pool_ok_def distinct_map_filter)

lemma pool_new_ok [simp]: "pool_ok pool_new"
  by (simp add: pool_ok_def pool_new_def)

lemma pool_clear_ok [simp]: "pool_ok (pool_clear p)"
  by (simp add: pool_ok_def pool_clear_def)

lemma pool_remove_ok: "pool_ok p \<Longrightarrow> pool_ok (snd (pool_remove key p))"
  by (simp add: pool_remove_def pool_ok_filter)

lemma pool_drop_empty_ok: "pool_ok p \<Longrightarrow> pool_ok (pool_drop_empty key p)"
  by (auto simp: pool_drop_empty_def pool_ok_filter split: option.splits)

lemma set_endpoint_ok:
  assumes "pool_ok p" and "sid < length (p_heap p)"
    and "\<And>ep. e = Some ep \<Longrightarrow> ep_scheduler ep = sid \<and> (\<forall>k. (k, sid) \<in> set (p_slots p) \<longrightarrow> ep_key ep = k)"
  shows "pool_ok (set_endpoint sid e p)"
  using assms by (auto simp: pool_ok_def slot_endpoint_set)

lemma remove_if_matches_ok: "pool_ok p \<Longrightarrow> pool_ok (snd (remove_if_matches key g p))"
  by (auto simp: remove_if_matches_def slot_clear_def intro: set_endpoint_ok pool_ok_slot split: option.splits)

lemma slot_for_fresh:
  assumes "pool_ok p" and "map_of (p_slots p) key = None" and "scheduler_new l = Inr sc"
  defines "q \<equiv> p\<lparr>p_slots := (key, length (p_heap p)) # p_slots p,
    p_heap := p_heap p @ [\<lparr>sl_endpoint = None, sl_scheduler = sc\<rparr>]\<rparr>"
  shows "pool_slot_for key l p = Inr (length (p_heap p), q)" "pool_ok q"
    and "slot_endpoint q (length (p_heap p)) = None"
    and "s < length (p_heap p) \<Longrightarrow> slot_endpoint q s = slot_endpoint p s"
proof -
  show "pool_slot_for key l p = Inr (length (p_heap p), q)"
    using assms(2,3) by (simp add: pool_slot_for_def slot_new_def q_def)
  show e: "slot_endpoint q (length (p_heap p)) = None" by (simp add: q_def slot_endpoint_def)
  have s: "s < length (p_heap p) \<Longrightarrow> slot_endpoint q s = slot_endpoint p s" for s
    by (simp add: q_def slot_endpoint_def nth_append)
  then show "s < length (p_heap p) \<Longrightarrow> slot_endpoint q s = slot_endpoint p s" .
  have fresh: "key \<notin> fst ` set (p_slots p)" using assms(2) by (simp add: map_of_eq_None_iff)
  have old: "(k, sid) \<in> set (p_slots p) \<Longrightarrow> sid < length (p_heap p)" for k sid
    using assms(1) by (auto simp: pool_ok_def)
  then have "length (p_heap p) \<notin> snd ` set (p_slots p)" by force
  moreover have "p_slots q = (key, length (p_heap p)) # p_slots p" "length (p_heap q) = Suc (length (p_heap p))"
    by (simp_all add: q_def)
  ultimately show "pool_ok q"
    using assms(1) fresh old e s by (auto simp: pool_ok_def less_Suc_eq)
qed

section \<open>The contract of one call\<close>

lemma pool_get_drop_empty [simp]: "pool_get (pool_drop_empty key p) j = pool_get p j"
  by (auto simp: pool_get_def pool_drop_empty_def map_of_filter_key split: option.splits bind_splits)

lemma pool_get_next_gen [simp]: "pool_get (p\<lparr>p_next_gen := g\<rparr>) j = pool_get p j"
  by (cases "map_of (p_slots p) j") (simp_all add: pool_get_def)

lemma pool_get_set_endpoint:
  "pool_ok p \<Longrightarrow> map_of (p_slots p) key = Some sid \<Longrightarrow>
   pool_get (set_endpoint sid e p) j = (if j = key then e else pool_get p j)"
  by (cases "map_of (p_slots p) j")
     (auto simp: pool_get_def slot_endpoint_set pool_ok_slot dest: pool_ok_inj)

lemma slot_get_or_create_ok:
  assumes "pool_ok p" and "map_of (p_slots p) key = Some sid"
    and "slot_get_or_create sid key fac p = (called, r, p')"
  shows "pool_ok p'" and "p_slots p' = p_slots p" and "length (p_heap p') = length (p_heap p)"
    and "called \<longleftrightarrow> pool_get p key = None"
    and "r = Inr ep \<Longrightarrow> pool_get p' key = Some ep \<and>
      (pool_get p key = Some ep \<and> p' = p \<or> pool_get p key = None \<and> fac = Inr (ep_transport ep) \<and>
        ep_scheduler ep = sid \<and> ep_generation ep = p_next_gen p)"
    and "r = Inl e \<Longrightarrow> pool_get p key = None \<and> fac = Inl e \<and> p' = p"
    and "j \<noteq> key \<Longrightarrow> pool_get p' j = pool_get p j"
proof -
  have get: "pool_get p key = slot_endpoint p sid" using assms(2) by (simp add: pool_get_def)
  have lt: "sid < length (p_heap p)" using assms(1,2) by (rule pool_ok_slot)
  have ok': "pool_ok (p\<lparr>p_next_gen := p_next_gen p + 1\<rparr>)"
    using assms(1) by (simp add: pool_ok_def)
  have own: "(k, sid) \<in> set (p_slots p) \<Longrightarrow> k = key" for k
    using assms(1,2) by (metis map_of_SomeD pool_ok_inj_mem)
  note d = assms(3) [unfolded slot_get_or_create_def Let_def, folded get]
  show "pool_ok p'"
    using d assms(1) ok' lt own
    by (auto split: option.splits sum.splits intro!: set_endpoint_ok)
  show "p_slots p' = p_slots p" "length (p_heap p') = length (p_heap p)" "called \<longleftrightarrow> pool_get p key = None"
    using d by (auto split: option.splits sum.splits)
  show "r = Inr ep \<Longrightarrow> pool_get p' key = Some ep \<and>
      (pool_get p key = Some ep \<and> p' = p \<or> pool_get p key = None \<and> fac = Inr (ep_transport ep) \<and>
        ep_scheduler ep = sid \<and> ep_generation ep = p_next_gen p)"
    using d ok' assms(2) by (auto simp: pool_get_set_endpoint split: option.splits sum.splits)
  show "r = Inl e \<Longrightarrow> pool_get p key = None \<and> fac = Inl e \<and> p' = p"
    using d by (auto split: option.splits sum.splits)
  show "j \<noteq> key \<Longrightarrow> pool_get p' j = pool_get p j"
    using d ok' assms(2)
    by (auto simp: pool_get_set_endpoint split: option.splits sum.splits)
qed

lemma pool_slot_for_ok:
  assumes "pool_ok p" and "pool_slot_for key l p = Inr (sid, q)"
  shows "pool_ok q" and "map_of (p_slots q) key = Some sid" and "pool_get q j = pool_get p j"
    and "map_of (p_slots p) key = Some sid \<and> q = p \<or>
      map_of (p_slots p) key = None \<and> sid = length (p_heap p) \<and> slot_endpoint q sid = None \<and>
      p_next_gen q = p_next_gen p"
proof -
  have "pool_ok q \<and> map_of (p_slots q) key = Some sid \<and> pool_get q j = pool_get p j \<and>
    (map_of (p_slots p) key = Some sid \<and> q = p \<or>
      map_of (p_slots p) key = None \<and> sid = length (p_heap p) \<and> slot_endpoint q sid = None \<and>
      p_next_gen q = p_next_gen p)"
  proof (cases "map_of (p_slots p) key")
    case (Some s)
    with assms show ?thesis by (auto simp: pool_slot_for_def)
  next
    case None
    with assms(2) obtain sc where sc: "scheduler_new l = Inr sc"
      by (auto simp: pool_slot_for_def slot_new_def bindR_Inr_iff)
    note f = slot_for_fresh [OF assms(1) None sc]
    have "pool_get q j = pool_get p j"
    proof (cases "j = key")
      case True
      with f(1,3) assms(2) None show ?thesis by (auto simp: pool_get_def)
    next
      case False
      with f(1,4) assms show ?thesis
        by (cases "map_of (p_slots p) j") (auto simp: pool_get_def pool_ok_slot)
    qed
    with f(1-3) assms(2) None show ?thesis by auto
  qed
  then show "pool_ok q" and "map_of (p_slots q) key = Some sid" and "pool_get q j = pool_get p j"
    and "map_of (p_slots p) key = Some sid \<and> q = p \<or>
      map_of (p_slots p) key = None \<and> sid = length (p_heap p) \<and> slot_endpoint q sid = None \<and>
      p_next_gen q = p_next_gen p" by blast+
qed

lemma get_or_create_cases:
  assumes "pool_get_or_create key l fac p = (called, r, p')"
  obtains (limits) e where "pool_slot_for key l p = Inl e" "called = False" "r = Inl e" "p' = p"
  | (made) sid q ep where "pool_slot_for key l p = Inr (sid, q)"
      "slot_get_or_create sid key fac q = (called, Inr ep, p')" "r = Inr ep"
  | (failed) sid q e p2 where "pool_slot_for key l p = Inr (sid, q)"
      "slot_get_or_create sid key fac q = (called, Inl e, p2)" "r = Inl e" "p' = pool_drop_empty key p2"
  using assms by (auto simp: pool_get_or_create_def split: sum.splits prod.splits)

lemma get_or_create_ok:
  assumes "pool_ok p" and "pool_get_or_create key l fac p = (called, r, p')"
  shows "pool_ok p'"
  using assms(2)
proof (cases rule: get_or_create_cases)
  case (made sid q ep)
  with pool_slot_for_ok(1,2) [OF assms(1) made(1)] show ?thesis by (metis slot_get_or_create_ok(1))
next
  case (failed sid q e p2)
  with pool_slot_for_ok(1,2) [OF assms(1) failed(1)] show ?thesis
    by (metis slot_get_or_create_ok(1) pool_drop_empty_ok)
qed (simp add: assms(1))

lemma get_or_create_other:
  assumes "pool_ok p" and "pool_get_or_create key l fac p = (called, r, p')" and "j \<noteq> key"
  shows "pool_get p' j = pool_get p j"
  using assms(2)
proof (cases rule: get_or_create_cases)
  case (made sid q ep)
  with pool_slot_for_ok [OF assms(1) made(1)] slot_get_or_create_ok(7) assms(3) show ?thesis by metis
next
  case (failed sid q e p2)
  with pool_slot_for_ok [OF assms(1) failed(1)] slot_get_or_create_ok(7) assms(3) show ?thesis
    by (metis pool_get_drop_empty)
qed simp

lemma get_or_create_hit:
  assumes "pool_ok p" and "pool_get p key = Some ep"
  shows "pool_get_or_create key l fac p = (False, Inr ep, p)"
proof -
  from assms(2) obtain sid where "map_of (p_slots p) key = Some sid" "slot_endpoint p sid = Some ep"
    by (auto simp: pool_get_def bind_eq_Some_conv)
  then show ?thesis by (simp add: pool_get_or_create_def pool_slot_for_def slot_get_or_create_def)
qed

lemma get_or_create_Inr:
  assumes "pool_ok p" and "pool_get_or_create key l fac p = (called, Inr ep, p')"
  shows "pool_get p' key = Some ep \<and> (called \<longleftrightarrow> pool_get p key = None) \<and>
    (pool_get p key = Some ep \<and> p' = p \<or> pool_get p key = None \<and> fac = Inr (ep_transport ep))"
  using assms(2)
proof (cases rule: get_or_create_cases)
  case (made sid q ep')
  note q = pool_slot_for_ok [OF assms(1) made(1)]
  note c = slot_get_or_create_ok [OF q(1,2) made(2)]
  from made(3) c(5) [OF refl] c(4) q(3) q(4) show ?thesis
    by (auto simp: get_or_create_hit [OF assms(1)] pool_get_def)
qed auto

lemma get_or_create_Inl:
  assumes "pool_ok p" and "is_ok (scheduler_new l)" and "pool_get_or_create key l fac p = (called, Inl e, p')"
  shows "called \<and> pool_get p key = None \<and> fac = Inl e \<and> map_of (p_slots p') key = None"
  using assms(3)
proof (cases rule: get_or_create_cases)
  case (limits e')
  with assms(2) show ?thesis
    by (auto simp: pool_slot_for_def slot_new_def is_ok_def split: option.splits)
next
  case (failed sid q e' p2)
  note q = pool_slot_for_ok [OF assms(1) failed(1)]
  note c = slot_get_or_create_ok [OF q(1,2) failed(2)]
  from c(6) [OF refl] have n: "pool_get q key = None" "p2 = q" "fac = Inl e'" by auto
  then have "slot_endpoint q sid = None" using q(2) by (simp add: pool_get_def)
  then have "map_of (p_slots p') key = None"
    using failed(4) n(2) q(2) by (simp add: pool_drop_empty_def map_of_filter_key)
  with n c(4) q(3) [of key] failed(3) show ?thesis by simp
qed simp

section \<open>The interface the request loop relies on\<close>

text \<open>
  A cache of connections: \<open>acquire\<close> returns the connection of a key and makes one when there is none;
  \<open>evict\<close> drops the connection of a key if it is the one with the given stamp.
\<close>

locale connection_cache =
  fixes inv :: "'p \<Rightarrow> bool"
    and lookup :: "'p \<Rightarrow> 'k \<Rightarrow> 'e option"
    and acquire :: "'k \<Rightarrow> 'f \<Rightarrow> 'p \<Rightarrow> ('x + 'e) \<times> 'p"
    and evict :: "'k \<Rightarrow> 'g \<Rightarrow> 'p \<Rightarrow> bool \<times> 'p"
    and stamp :: "'e \<Rightarrow> 'g"
  assumes acquire_inv: "inv p \<Longrightarrow> acquire k f p = (r, q) \<Longrightarrow> inv q"
    and acquire_hit: "inv p \<Longrightarrow> lookup p k = Some e \<Longrightarrow> acquire k f p = (Inr e, p)"
    and acquire_lookup: "inv p \<Longrightarrow> acquire k f p = (Inr e, q) \<Longrightarrow> lookup q k = Some e"
    and acquire_other: "inv p \<Longrightarrow> acquire k f p = (r, q) \<Longrightarrow> j \<noteq> k \<Longrightarrow> lookup q j = lookup p j"
    and evict_inv: "inv p \<Longrightarrow> evict k g p = (b, q) \<Longrightarrow> inv q"
    and evict_iff: "inv p \<Longrightarrow> fst (evict k g p) \<longleftrightarrow> (\<exists>e. lookup p k = Some e \<and> stamp e = g)"
    and evict_hit: "inv p \<Longrightarrow> evict k g p = (True, q) \<Longrightarrow> lookup q k = None"
    and evict_miss: "inv p \<Longrightarrow> evict k g p = (False, q) \<Longrightarrow> q = p"
    and evict_other: "inv p \<Longrightarrow> evict k g p = (b, q) \<Longrightarrow> j \<noteq> k \<Longrightarrow> lookup q j = lookup p j"
begin

lemma acquire_twice:
  "inv p \<Longrightarrow> acquire k f p = (Inr e, q) \<Longrightarrow> acquire k f' q = (Inr e, q)"
  using acquire_hit acquire_inv acquire_lookup by blast

lemma evict_noop: "inv p \<Longrightarrow> \<not> fst (evict k g p) \<Longrightarrow> evict k g p = (False, p)"
  by (cases "evict k g p") (auto dest: evict_miss)

lemma evict_stale: "inv p \<Longrightarrow> lookup p k = Some e \<Longrightarrow> stamp e \<noteq> g \<Longrightarrow> evict k g p = (False, p)"
  by (rule evict_noop) (auto simp: evict_iff)

lemma evict_absent: "inv p \<Longrightarrow> lookup p k = None \<Longrightarrow> evict k g p = (False, p)"
  by (rule evict_noop) (auto simp: evict_iff)

lemma evict_twice:
  assumes "inv p" and "evict k g p = (b, q)"
  shows "evict k g q = (False, q)"
proof (cases b)
  case True
  with assms show ?thesis by (auto intro: evict_absent evict_inv evict_hit)
next
  case False
  with assms evict_miss [of p k g q] have "q = p" by simp
  with assms False show ?thesis by simp
qed

text \<open>A late eviction after a reconnect drops the replacement only if the stamps collide.\<close>

lemma late_evict:
  assumes "inv p" and "acquire k f p = (Inr e, q)" and "stamp e \<noteq> g"
  shows "evict k g q = (False, q)"
  using assms acquire_inv acquire_lookup evict_stale by blast

end

lemma remove_if_matches_iff:
  "fst (remove_if_matches key g p) \<longleftrightarrow> (\<exists>ep. pool_get p key = Some ep \<and> ep_generation ep = g)"
  by (auto simp: remove_if_matches_def pool_get_def current_generation_def split: option.splits)

lemma remove_if_matches_get:
  "pool_ok p \<Longrightarrow> remove_if_matches key g p = (b, q) \<Longrightarrow>
   pool_get q j = (if b \<and> j = key then None else pool_get p j)"
  by (auto simp: remove_if_matches_def slot_clear_def pool_get_set_endpoint split: option.splits if_splits)

interpretation cache: connection_cache pool_ok pool_get "\<lambda>k (l, fac) p. snd (pool_get_or_create k l fac p)"
  remove_if_matches ep_generation
proof unfold_locales
  fix p :: "'t pool" and k f r q
  assume p: "pool_ok p"
  {
    assume "(case f of (l, fac) \<Rightarrow> \<lambda>p. snd (pool_get_or_create k l fac p)) p = (r, q)"
    then obtain l fac c where g: "pool_get_or_create k l fac p = (c, r, q)"
      by (cases f) (auto simp: prod_eq_iff intro: prod.collapse)
    from get_or_create_ok [OF p g] show "pool_ok q" .
    from get_or_create_other [OF p g] show "j \<noteq> k \<Longrightarrow> pool_get q j = pool_get p j" for j .
  }
  show "pool_get p k = Some e \<Longrightarrow>
      (case f of (l, fac) \<Rightarrow> \<lambda>p. snd (pool_get_or_create k l fac p)) p = (Inr e, p)" for e
    by (cases f) (simp add: get_or_create_hit [OF p])
  show "(case f of (l, fac) \<Rightarrow> \<lambda>p. snd (pool_get_or_create k l fac p)) p = (Inr e, q) \<Longrightarrow>
      pool_get q k = Some e" for e
    by (cases f) (metis (no_types, lifting) p case_prod_conv get_or_create_Inr prod.collapse)
next
  fix p :: "'t pool" and k g b q
  assume p: "pool_ok p"
  show "remove_if_matches k g p = (b, q) \<Longrightarrow> pool_ok q" by (metis p remove_if_matches_ok snd_conv)
  show "fst (remove_if_matches k g p) \<longleftrightarrow> (\<exists>e. pool_get p k = Some e \<and> ep_generation e = g)"
    by (rule remove_if_matches_iff)
  show "remove_if_matches k g p = (True, q) \<Longrightarrow> pool_get q k = None"
    by (simp add: remove_if_matches_get [OF p])
  show "remove_if_matches k g p = (False, q) \<Longrightarrow> q = p"
    by (auto simp: remove_if_matches_def split: option.splits if_splits)
  show "remove_if_matches k g p = (b, q) \<Longrightarrow> j \<noteq> k \<Longrightarrow> pool_get q j = pool_get p j" for j
    by (simp add: remove_if_matches_get [OF p])
qed

section \<open>Properties of a call\<close>

text \<open>
  One call of \<open>get_or_create\<close> with valid limits: the factory runs exactly when the key has no
  connection; a connection that comes back is the pooled one, either as it was or fresh from the factory; a
  failure is the factory's and leaves nothing under the key; other keys keep their connections.
\<close>
theorem get_or_create_contract:
  assumes "pool_ok p" and "is_ok (scheduler_new l)" and "pool_get_or_create key l fac p = (called, r, q)"
  shows "pool_ok q \<and> (called \<longleftrightarrow> pool_get p key = None) \<and>
    (\<forall>j. j \<noteq> key \<longrightarrow> pool_get q j = pool_get p j) \<and>
    (case r of
       Inr ep \<Rightarrow> pool_get q key = Some ep \<and>
         (if called then fac = Inr (ep_transport ep) else pool_get p key = Some ep \<and> q = p)
     | Inl e \<Rightarrow> fac = Inl e \<and> map_of (p_slots q) key = None)"
proof (cases r)
  case (Inl e)
  note g = assms(3) [unfolded Inl]
  from get_or_create_Inl [OF assms(1,2) g] get_or_create_ok [OF assms(1) g]
    get_or_create_other [OF assms(1) g] Inl
  show ?thesis by simp
next
  case (Inr ep)
  note g = assms(3) [unfolded Inr]
  from get_or_create_Inr [OF assms(1) g] get_or_create_ok [OF assms(1) g]
    get_or_create_other [OF assms(1) g] Inr
  show ?thesis by auto
qed

definition sample_key :: endpoint_key where
  "sample_key = key_from_config plain_config ''eda''"

lemma default_limits_ok: "is_ok (scheduler_new default_limits)"
  by (simp add: scheduler_new_def validate_def default_limits_def)

theorem get_or_create_contract_witness:
  "case pool_get_or_create sample_key default_limits (Inr ()) pool_new of
     (called, r, q) \<Rightarrow> called \<and> pool_ok q \<and> (\<exists>ep. r = Inr ep \<and> pool_get q sample_key = Some ep)"
proof -
  obtain called r q where g: "pool_get_or_create sample_key default_limits (Inr ()) pool_new = (called, r, q)"
    by (cases "pool_get_or_create sample_key default_limits (Inr ()) pool_new")
  have "pool_get (pool_new :: unit pool) sample_key = None" by (simp add: pool_get_def pool_new_def)
  with get_or_create_contract [OF pool_new_ok default_limits_ok g] have
    "called \<and> pool_ok q \<and> (\<exists>ep. r = Inr ep \<and> pool_get q sample_key = Some ep)"
    by (cases r) auto
  with g show ?thesis by simp
qed

text \<open>
  Evicting a failed connection keeps the key's scheduler: the connection made next is metered by the
  same scheduler, so the permits still held under the failed one count against the same budget.
\<close>
theorem eviction_keeps_scheduler:
  assumes "pool_ok p" and "pool_get p key = Some ep"
  shows "\<exists>q. remove_if_matches key (ep_generation ep) p = (True, q) \<and> pool_get q key = None \<and>
    (\<exists>ep2 q2. pool_get_or_create key l (Inr t) q = (True, Inr ep2, q2) \<and> ep_transport ep2 = t \<and>
       ep_scheduler ep2 = ep_scheduler ep)"
proof -
  from assms(2) obtain sid where sid: "map_of (p_slots p) key = Some sid" "slot_endpoint p sid = Some ep"
    by (auto simp: pool_get_def bind_eq_Some_conv)
  define q where "q = set_endpoint sid None p"
  have lt: "sid < length (p_heap p)" using pool_ok_slot [OF assms(1) sid(1)] .
  have q: "map_of (p_slots q) key = Some sid" "slot_endpoint q sid = None"
    using sid lt by (simp_all add: q_def slot_endpoint_set)
  have "remove_if_matches key (ep_generation ep) p = (True, q)"
    using sid by (simp add: remove_if_matches_def current_generation_def slot_clear_def q_def)
  moreover have "pool_get q key = None" using q by (simp add: pool_get_def)
  moreover have "ep_scheduler ep = sid" using pool_ok_endpoint [OF assms(1) sid] by simp
  ultimately show ?thesis
    using q by (simp add: pool_get_or_create_def pool_slot_for_def slot_get_or_create_def Let_def)
qed

theorem eviction_keeps_scheduler_witness:
  "case pool_get_or_create sample_key default_limits (Inr ()) pool_new of
     (called, r, p) \<Rightarrow> \<exists>ep q. pool_get p sample_key = Some ep \<and>
       remove_if_matches sample_key (ep_generation ep) p = (True, q)"
proof -
  obtain called r p where g: "pool_get_or_create sample_key default_limits (Inr ()) pool_new = (called, r, p)"
    by (cases "pool_get_or_create sample_key default_limits (Inr ()) pool_new")
  have "\<exists>ep. r = Inr ep"
    using get_or_create_Inl [OF pool_new_ok default_limits_ok, of sample_key "Inr ()"] g
    by (cases r) auto
  then obtain ep where "pool_get p sample_key = Some ep"
    using get_or_create_Inr [OF pool_new_ok] g by blast
  with eviction_keeps_scheduler [OF get_or_create_ok [OF pool_new_ok g] this, of default_limits "()"] g
  show ?thesis by auto
qed

end
