(* ===== verification/Pool_Steps.thy ===== *)
theory Pool_Steps
  imports Pool
begin

text \<open>
  Callers of the pool of \<open>src/transport/pool.rs\<close> running at the same time.  \<open>get_or_create\<close> is three
  critical sections: it takes the key's slot under the pool's mutex (\<open>enter\<close>), creates under the slot's
  (\<open>create\<close>), and after a failure drops the key's slot if it is empty, under the pool's again (\<open>cleanup\<close>).
  The steps below are those sections and the other operations, in any order.  The generation counter wraps
  after \<open>2 ^ 64 - 1\<close> connections; the relation covers the time before.
\<close>

section \<open>The steps\<close>

text \<open>
  \<open>held\<close> are the callers between \<open>enter\<close> and \<open>create\<close>, \<open>failed\<close> those before their \<open>cleanup\<close>; \<open>made\<close> lists the
  connections ever made.
\<close>

record 't psys =
  shared :: "'t pool"
  held :: "(endpoint_key \<times> nat) list"
  failed :: "endpoint_key list"
  made :: "'t endpoint list"

datatype 't pool_event =
    PEnter endpoint_key limits
  | PCreate endpoint_key nat "transport_error + 't"
  | PCleanup endpoint_key
  | PEvict endpoint_key u64
  | PRemove endpoint_key
  | PClear

inductive pool_step :: "'t psys \<Rightarrow> 't pool_event \<Rightarrow> 't psys \<Rightarrow> bool" where
  enter:
    "pool_slot_for k l (shared s) = Inr (sid, p) \<Longrightarrow>
     pool_step s (PEnter k l) (s\<lparr>shared := p, held := (k, sid) # held s\<rparr>)"
| create:
    "(k, sid) \<in> set (held s) \<Longrightarrow> p_next_gen (shared s) \<noteq> - 1 \<Longrightarrow>
     slot_get_or_create sid k fac (shared s) = (called, Inr ep, p) \<Longrightarrow>
     pool_step s (PCreate k sid fac)
       (s\<lparr>shared := p, held := remove1 (k, sid) (held s), made := (if called then ep # made s else made s)\<rparr>)"
| create_failed:
    "(k, sid) \<in> set (held s) \<Longrightarrow>
     slot_get_or_create sid k fac (shared s) = (called, Inl e, p) \<Longrightarrow>
     pool_step s (PCreate k sid fac)
       (s\<lparr>shared := p, held := remove1 (k, sid) (held s), failed := k # failed s\<rparr>)"
| cleanup:
    "k \<in> set (failed s) \<Longrightarrow>
     pool_step s (PCleanup k) (s\<lparr>shared := pool_drop_empty k (shared s), failed := remove1 k (failed s)\<rparr>)"
| evict:
    "pool_step s (PEvict k g) (s\<lparr>shared := snd (remove_if_matches k g (shared s))\<rparr>)"
| remove:
    "pool_step s (PRemove k) (s\<lparr>shared := snd (pool_remove k (shared s))\<rparr>)"
| clear:
    "pool_step s PClear (s\<lparr>shared := pool_clear (shared s)\<rparr>)"

inductive_cases pool_step_evictE: "pool_step s (PEvict k g) t"

definition psys_init :: "'t psys \<Rightarrow> bool" where
  "psys_init s \<longleftrightarrow> s = \<lparr>shared = pool_new, held = [], failed = [], made = []\<rparr>"

section \<open>Invariant\<close>

text \<open>
  Every slot has one owner, the key under which it was made; the map and the callers respect it, what lies
  in a slot belongs to its owner, and no two connections ever made have the same generation.
\<close>

definition gens_ok :: "'t psys \<Rightarrow> bool" where
  "gens_ok s \<longleftrightarrow>
     (\<forall>ep\<in>set (made s). unat (ep_generation ep) < unat (p_next_gen (shared s))) \<and>
     inj_on ep_generation (set (made s))"

definition slots_owned :: "(nat \<Rightarrow> endpoint_key) \<Rightarrow> 't psys \<Rightarrow> bool" where
  "slots_owned own s \<longleftrightarrow>
     (\<forall>k sid. (k, sid) \<in> set (p_slots (shared s)) \<or> (k, sid) \<in> set (held s) \<longrightarrow>
        own sid = k \<and> sid < length (p_heap (shared s))) \<and>
     (\<forall>sid ep. sid < length (p_heap (shared s)) \<longrightarrow> slot_endpoint (shared s) sid = Some ep \<longrightarrow>
        ep_key ep = own sid \<and> ep_scheduler ep = sid \<and> ep \<in> set (made s))"

definition psys_ok :: "'t psys \<Rightarrow> bool" where
  "psys_ok s \<longleftrightarrow> distinct (map fst (p_slots (shared s))) \<and> gens_ok s \<and> (\<exists>own. slots_owned own s)"

lemma in_set_remove1: "x \<in> set (remove1 y xs) \<Longrightarrow> x \<in> set xs"
  using set_remove1_subset by fast

lemma slots_owned_slot:
  "slots_owned own s \<Longrightarrow> (k, sid) \<in> set (p_slots (shared s)) \<or> (k, sid) \<in> set (held s) \<Longrightarrow>
   own sid = k \<and> sid < length (p_heap (shared s))"
  unfolding slots_owned_def by blast

lemma slots_owned_endpoint:
  "slots_owned own s \<Longrightarrow> sid < length (p_heap (shared s)) \<Longrightarrow> slot_endpoint (shared s) sid = Some ep \<Longrightarrow>
   ep_key ep = own sid \<and> ep_scheduler ep = sid \<and> ep \<in> set (made s)"
  unfolding slots_owned_def by blast

lemma psys_ok_pool:
  assumes "psys_ok s"
  shows "pool_ok (shared s)"
proof -
  from assms obtain own where own: "slots_owned own s" and d: "distinct (map fst (p_slots (shared s)))"
    by (auto simp: psys_ok_def)
  have "inj_on snd (set (p_slots (shared s)))"
  proof (rule inj_onI)
    fix x y assume "x \<in> set (p_slots (shared s))" "y \<in> set (p_slots (shared s))" "snd x = snd y"
    then show "x = y" using slots_owned_slot [OF own] by (metis prod.collapse)
  qed
  moreover have "distinct (p_slots (shared s))" using d by (simp add: distinct_map)
  ultimately have "distinct (map snd (p_slots (shared s)))" by (simp add: distinct_map)
  with d show ?thesis
    unfolding pool_ok_def using slots_owned_slot [OF own] slots_owned_endpoint [OF own] by metis
qed

lemma pool_get_made: "psys_ok s \<Longrightarrow> pool_get (shared s) k = Some ep \<Longrightarrow> ep \<in> set (made s)"
  by (auto simp: psys_ok_def pool_get_def bind_eq_Some_conv
      dest!: map_of_SomeD dest: slots_owned_slot slots_owned_endpoint)

text \<open>Steps that only forget: fewer mappings, fewer holders, emptier slots.\<close>

lemma psys_ok_shrink:
  assumes "psys_ok s" and "made t = made s" and "p_next_gen (shared t) = p_next_gen (shared s)"
    and "length (p_heap (shared t)) = length (p_heap (shared s))"
    and "distinct (map fst (p_slots (shared t)))"
    and "set (p_slots (shared t)) \<subseteq> set (p_slots (shared s))" and "set (held t) \<subseteq> set (held s)"
    and "\<And>sid ep. sid < length (p_heap (shared s)) \<Longrightarrow> slot_endpoint (shared t) sid = Some ep \<Longrightarrow>
      slot_endpoint (shared s) sid = Some ep"
  shows "psys_ok t"
proof -
  from assms(1) obtain own where own: "slots_owned own s" by (auto simp: psys_ok_def)
  have "slots_owned own t"
    unfolding slots_owned_def
  proof (intro conjI allI impI)
    fix k sid
    assume "(k, sid) \<in> set (p_slots (shared t)) \<or> (k, sid) \<in> set (held t)"
    with assms(6,7) have "(k, sid) \<in> set (p_slots (shared s)) \<or> (k, sid) \<in> set (held s)" by blast
    from slots_owned_slot [OF own this] assms(4)
    show "own sid = k" "sid < length (p_heap (shared t))" by auto
  next
    fix sid ep
    assume "sid < length (p_heap (shared t))" "slot_endpoint (shared t) sid = Some ep"
    with assms(2,4,8) slots_owned_endpoint [OF own, of sid ep]
    show "ep_key ep = own sid" "ep_scheduler ep = sid" "ep \<in> set (made t)" by auto
  qed
  with assms show ?thesis by (auto simp: psys_ok_def gens_ok_def)
qed

lemma enter_ok:
  assumes "psys_ok s" and "pool_slot_for k l (shared s) = Inr (sid, p)"
  shows "psys_ok (s\<lparr>shared := p, held := (k, sid) # held s\<rparr>)"
proof (cases "map_of (p_slots (shared s)) k")
  case (Some sid')
  with assms(2) have p: "p = shared s" "sid' = sid" by (auto simp: pool_slot_for_def)
  from Some have "(k, sid) \<in> set (p_slots (shared s))" unfolding p by (rule map_of_SomeD)
  with assms(1) show ?thesis
    unfolding psys_ok_def gens_ok_def slots_owned_def p by auto
next
  case None
  let ?n = "length (p_heap (shared s))"
  from None assms(2) obtain sc where sc: "scheduler_new l = Inr sc"
    by (auto simp: pool_slot_for_def slot_new_def bindR_Inr_iff)
  note f = slot_for_fresh [OF psys_ok_pool [OF assms(1)] None sc]
  from f(1) assms(2) have p: "p_slots p = (k, ?n) # p_slots (shared s)" "length (p_heap p) = Suc ?n"
    "p_next_gen p = p_next_gen (shared s)" "sid = ?n" "slot_endpoint p ?n = None"
    "\<And>i. i < ?n \<Longrightarrow> slot_endpoint p i = slot_endpoint (shared s) i"
    using f(3,4) by auto
  from assms(1) obtain own where own: "slots_owned own s" by (auto simp: psys_ok_def)
  have "slots_owned (own(?n := k)) (s\<lparr>shared := p, held := (k, sid) # held s\<rparr>)"
    unfolding slots_owned_def
  proof (intro conjI allI impI)
    fix j i
    assume "(j, i) \<in> set (p_slots (shared (s\<lparr>shared := p, held := (k, sid) # held s\<rparr>))) \<or>
      (j, i) \<in> set (held (s\<lparr>shared := p, held := (k, sid) # held s\<rparr>))"
    with p slots_owned_slot [OF own, of j i]
    show "(own(?n := k)) i = j" "i < length (p_heap (shared (s\<lparr>shared := p, held := (k, sid) # held s\<rparr>)))"
      by auto
  next
    fix i ep
    assume "i < length (p_heap (shared (s\<lparr>shared := p, held := (k, sid) # held s\<rparr>)))"
      "slot_endpoint (shared (s\<lparr>shared := p, held := (k, sid) # held s\<rparr>)) i = Some ep"
    with p have i: "i < ?n" "slot_endpoint (shared s) i = Some ep" by (auto simp: less_Suc_eq)
    from slots_owned_endpoint [OF own this] i(1)
    show "ep_key ep = (own(?n := k)) i" "ep_scheduler ep = i"
      "ep \<in> set (made (s\<lparr>shared := p, held := (k, sid) # held s\<rparr>))" by auto
  qed
  moreover have "k \<notin> fst ` set (p_slots (shared s))" using None by (simp add: map_of_eq_None_iff)
  ultimately show ?thesis using assms(1) p(1,3) by (auto simp: psys_ok_def gens_ok_def)
qed

lemma create_fresh_ok:
  assumes "psys_ok s" and "(k, sid) \<in> set (held s)" and "p_next_gen (shared s) \<noteq> - 1"
    and "ep = \<lparr>ep_key = k, ep_transport = t, ep_scheduler = sid, ep_generation = p_next_gen (shared s)\<rparr>"
    and "p = set_endpoint sid (Some ep) ((shared s)\<lparr>p_next_gen := p_next_gen (shared s) + 1\<rparr>)"
  shows "psys_ok (s\<lparr>shared := p, held := remove1 (k, sid) (held s), made := ep # made s\<rparr>)"
proof -
  from assms(1) obtain own where own: "slots_owned own s" by (auto simp: psys_ok_def)
  from slots_owned_slot [OF own] assms(2) have o: "own sid = k" "sid < length (p_heap (shared s))" by auto
  have gsuc: "unat (p_next_gen (shared s) + 1) = Suc (unat (p_next_gen (shared s)))"
    using assms(3) by (metis add.commute unatSuc add_eq_0_iff)
  have gen: "gens_ok s" using assms(1) by (simp add: psys_ok_def)
  have "gens_ok (s\<lparr>shared := p, held := remove1 (k, sid) (held s), made := ep # made s\<rparr>)"
  proof -
    have "p_next_gen (shared s) \<notin> ep_generation ` set (made s)" using gen by (auto simp: gens_ok_def)
    with gen gsuc show ?thesis by (auto simp: gens_ok_def assms(4,5) less_Suc_eq)
  qed
  moreover have "slots_owned own (s\<lparr>shared := p, held := remove1 (k, sid) (held s), made := ep # made s\<rparr>)"
    unfolding slots_owned_def
  proof (intro conjI allI impI)
    fix j i
    assume "(j, i) \<in> set (p_slots (shared (s\<lparr>shared := p, held := remove1 (k, sid) (held s), made := ep # made s\<rparr>))) \<or>
      (j, i) \<in> set (held (s\<lparr>shared := p, held := remove1 (k, sid) (held s), made := ep # made s\<rparr>))"
    then have "(j, i) \<in> set (p_slots (shared s)) \<or> (j, i) \<in> set (held s)"
      by (auto simp: assms(5) dest: in_set_remove1)
    from slots_owned_slot [OF own this]
    show "own i = j" "i < length (p_heap (shared (s\<lparr>shared := p, held := remove1 (k, sid) (held s), made := ep # made s\<rparr>)))"
      by (auto simp: assms(5))
  next
    fix i e
    assume "i < length (p_heap (shared (s\<lparr>shared := p, held := remove1 (k, sid) (held s), made := ep # made s\<rparr>)))"
      "slot_endpoint (shared (s\<lparr>shared := p, held := remove1 (k, sid) (held s), made := ep # made s\<rparr>)) i = Some e"
    then have i: "i < length (p_heap (shared s))" "(if i = sid then Some ep else slot_endpoint (shared s) i) = Some e"
      using o(2) by (auto simp: assms(5) slot_endpoint_set)
    then have "ep_key e = own i \<and> ep_scheduler e = i \<and> e \<in> set (ep # made s)"
      using o(1) slots_owned_endpoint [OF own i(1), of e] by (auto simp: assms(4) split: if_splits)
    then show "ep_key e = own i" "ep_scheduler e = i"
      "e \<in> set (made (s\<lparr>shared := p, held := remove1 (k, sid) (held s), made := ep # made s\<rparr>))" by auto
  qed
  ultimately show ?thesis using assms(1) by (auto simp: psys_ok_def assms(5))
qed

lemma drop_ok:
  assumes "psys_ok s" and "shared t = (shared s)\<lparr>p_slots := filter P (p_slots (shared s))\<rparr>"
    and "made t = made s" and "held t = held s"
  shows "psys_ok t"
proof (rule psys_ok_shrink [OF assms(1,3)])
  show "distinct (map fst (p_slots (shared t)))"
    using assms(1) by (simp add: assms(2) psys_ok_def distinct_map_filter)
qed (use assms in auto)

lemma pool_step_ok: "pool_step s ev t \<Longrightarrow> psys_ok s \<Longrightarrow> psys_ok t"
proof (induction rule: pool_step.induct)
  case (enter k l s sid p)
  then show ?case using enter_ok by blast
next
  case (create k sid s fac called ep p)
  show ?case
  proof (cases "slot_endpoint (shared s) sid")
    case (Some e)
    with create have "p = shared s" "\<not> called" by (auto simp: slot_get_or_create_def)
    with create show ?thesis
      by (intro psys_ok_shrink [OF \<open>psys_ok s\<close>])
         (auto simp: psys_ok_def dest: in_set_remove1)
  next
    case None
    with create obtain t where t: "called"
      "ep = \<lparr>ep_key = k, ep_transport = t, ep_scheduler = sid, ep_generation = p_next_gen (shared s)\<rparr>"
      "p = set_endpoint sid (Some ep) ((shared s)\<lparr>p_next_gen := p_next_gen (shared s) + 1\<rparr>)"
      by (auto simp: slot_get_or_create_def Let_def split: sum.splits)
    with create_fresh_ok [OF \<open>psys_ok s\<close> create(1,2) t(2,3)] show ?thesis by simp
  qed
next
  case (create_failed k sid s fac called e p)
  then have "p = shared s" by (auto simp: slot_get_or_create_def Let_def split: option.splits sum.splits)
  with create_failed show ?case
    by (intro psys_ok_shrink [OF \<open>psys_ok s\<close>])
       (auto simp: psys_ok_def dest: in_set_remove1)
next
  case (cleanup k s)
  have "\<exists>P. pool_drop_empty k (shared s) = (shared s)\<lparr>p_slots := filter P (p_slots (shared s))\<rparr>"
    by (auto simp: pool_drop_empty_def split: option.splits intro: exI [of _ "\<lambda>_. True"])
  then obtain P where "pool_drop_empty k (shared s) = (shared s)\<lparr>p_slots := filter P (p_slots (shared s))\<rparr>"
    by blast
  then show ?case by (intro drop_ok [OF \<open>psys_ok s\<close>, where P = P]) simp_all
next
  case (evict s k g)
  show ?case
  proof (cases "map_of (p_slots (shared s)) k")
    case (Some sid)
    then have "sid < length (p_heap (shared s))"
      using psys_ok_pool [OF \<open>psys_ok s\<close>] pool_ok_slot by blast
    with evict Some show ?thesis
      by (intro psys_ok_shrink [OF \<open>psys_ok s\<close>])
         (auto simp: remove_if_matches_def slot_clear_def slot_endpoint_set psys_ok_def split: if_splits)
  qed (use evict in \<open>simp add: remove_if_matches_def\<close>)
next
  case (remove s k)
  then show ?case by (intro drop_ok [OF \<open>psys_ok s\<close>, where P = "\<lambda>(j, i). j \<noteq> k"]) (simp_all add: pool_remove_def)
next
  case (clear s)
  then show ?case by (intro drop_ok [OF \<open>psys_ok s\<close>, where P = "\<lambda>_. False"]) (simp_all add: pool_clear_def)
qed

lemma psys_init_ok: "psys_init s \<Longrightarrow> psys_ok s"
  by (simp add: psys_init_def psys_ok_def gens_ok_def slots_owned_def pool_new_def)

interpretation pl: step_invariant psys_init pool_step psys_ok
  by unfold_locales (auto intro: psys_init_ok pool_step_ok)

section \<open>Late evictions\<close>

lemma made_mono: "pool_step s ev t \<Longrightarrow> set (made s) \<subseteq> set (made t)"
  by (induction rule: pool_step.induct) auto

lemma run_made_mono: "run pool_step s ts \<Longrightarrow> (l, t) \<in> set ts \<Longrightarrow> set (made s) \<subseteq> set (made t)"
proof (induction ts arbitrary: s)
  case (Cons x ts)
  obtain m u where x: "x = (m, u)" by (cases x)
  with Cons.prems made_mono have "set (made s) \<subseteq> set (made u)" by fastforce
  with Cons x show ?case by fastforce
qed simp

text \<open>
  C10: The pool never evicts a replacement.  A request captured the generation of its connection; whatever
  callers do in between, when its eviction arrives and the key holds another connection, the eviction
  changes nothing, and when it holds the captured one, exactly that one is dropped.
\<close>
theorem late_eviction_spares_replacement:
  assumes "reach psys_init pool_step s" and "pool_get (shared s) k = Some ep"
    and "run pool_step s ts" and "(l, t) \<in> set ts" and "pool_get (shared t) k = Some ep2"
  shows "remove_if_matches k (ep_generation ep) (shared t) =
    (if ep2 = ep then (True, slot_clear (ep_scheduler ep) (shared t)) else (False, shared t))"
proof -
  have ok: "psys_ok s" "psys_ok t"
    using pl.reach_inv [OF assms(1)] pl.run_inv [OF _ assms(3,4)] by auto
  have "ep \<in> set (made t)" using pool_get_made [OF ok(1) assms(2)] run_made_mono [OF assms(3,4)] by blast
  moreover have "ep2 \<in> set (made t)" by (rule pool_get_made [OF ok(2) assms(5)])
  moreover have "inj_on ep_generation (set (made t))" using ok(2) by (simp add: psys_ok_def gens_ok_def)
  ultimately have gen: "ep_generation ep2 = ep_generation ep \<longleftrightarrow> ep2 = ep" by (auto dest: inj_onD)
  have pool: "pool_ok (shared t)" using ok(2) by (rule psys_ok_pool)
  obtain sid where sid: "map_of (p_slots (shared t)) k = Some sid" "slot_endpoint (shared t) sid = Some ep2"
    using assms(5) by (auto simp: pool_get_def bind_eq_Some_conv)
  show ?thesis
  proof (cases "ep2 = ep")
    case True
    with sid pool_ok_endpoint [OF pool sid] show ?thesis
      by (simp add: remove_if_matches_def current_generation_def)
  next
    case False
    with gen cache.evict_stale [OF pool assms(5)] show ?thesis by simp
  qed
qed

section \<open>A failed creation and a waiting caller\<close>

text \<open>
  The trace: two callers take the same empty slot; the factory of the first fails and its cleanup drops the
  slot, although the second still holds it; the second then connects in the orphaned slot, and a third
  caller of the same key finds no slot and connects again.
\<close>

definition race_pool :: "nat \<Rightarrow> unit pool" where
  "race_pool n =
     (let empty_slot = \<lparr>sl_endpoint = None, sl_scheduler = projr (scheduler_new default_limits)\<rparr>;
          ep = (\<lambda>sid g. \<lparr>ep_key = sample_key, ep_transport = (), ep_scheduler = sid, ep_generation = g\<rparr>);
          full = (\<lambda>sid g. empty_slot\<lparr>sl_endpoint := Some (ep sid g)\<rparr>)
      in [pool_new,
          \<lparr>p_slots = [(sample_key, 0)], p_heap = [empty_slot], p_next_gen = 1\<rparr>,
          \<lparr>p_slots = [], p_heap = [empty_slot], p_next_gen = 1\<rparr>,
          \<lparr>p_slots = [], p_heap = [full 0 1], p_next_gen = 2\<rparr>,
          \<lparr>p_slots = [(sample_key, 1)], p_heap = [full 0 1, empty_slot], p_next_gen = 2\<rparr>,
          \<lparr>p_slots = [(sample_key, 1)], p_heap = [full 0 1, full 1 2], p_next_gen = 3\<rparr>] ! n)"

definition race_endpoint :: "nat \<Rightarrow> u64 \<Rightarrow> unit endpoint" where
  "race_endpoint sid g = \<lparr>ep_key = sample_key, ep_transport = (), ep_scheduler = sid, ep_generation = g\<rparr>"

definition race_sys ::
    "nat \<Rightarrow> (endpoint_key \<times> nat) list \<Rightarrow> endpoint_key list \<Rightarrow> unit endpoint list \<Rightarrow> unit psys" where
  "race_sys n h f m = \<lparr>shared = race_pool n, held = h, failed = f, made = m\<rparr>"

lemma default_scheduler: "scheduler_new default_limits = Inr (projr (scheduler_new default_limits))"
  by (simp add: scheduler_new_def validate_def default_limits_def)

lemma race_run:
  "reach psys_init pool_step
     (race_sys 5 [] [] [race_endpoint 1 2, race_endpoint 0 1])"
proof -
  let ?k = sample_key and ?d = default_limits
  have s0: "reach psys_init pool_step (race_sys 0 [] [] [])"
    by (rule reach_init) (simp add: psys_init_def race_sys_def race_pool_def Let_def)
  have e1: "pool_slot_for ?k ?d (race_pool 0) = Inr (0, race_pool 1)"
    by (simp add: pool_slot_for_def slot_new_def race_pool_def Let_def pool_new_def) (subst default_scheduler, simp)
  have s1: "reach psys_init pool_step (race_sys 1 [(?k, 0)] [] [])"
    using reach_step [OF s0] pool_step.enter [of ?k ?d "race_sys 0 [] [] []"] e1
    by (force simp: race_sys_def)
  have e2: "pool_slot_for ?k ?d (race_pool 1) = Inr (0, race_pool 1)"
    by (simp add: pool_slot_for_def race_pool_def Let_def)
  have s2: "reach psys_init pool_step (race_sys 1 [(?k, 0), (?k, 0)] [] [])"
    using reach_step [OF s1] pool_step.enter [of ?k ?d "race_sys 1 [(?k, 0)] [] []"] e2
    by (force simp: race_sys_def)
  have e3: "slot_get_or_create 0 ?k (Inl (ConnectFailed ''refused'')) (race_pool 1) =
      (True, Inl (ConnectFailed ''refused''), race_pool 1)"
    by (simp add: slot_get_or_create_def slot_endpoint_def race_pool_def Let_def)
  have s3: "reach psys_init pool_step (race_sys 1 [(?k, 0)] [?k] [])"
    using reach_step [OF s2] pool_step.create_failed [of ?k 0 "race_sys 1 [(?k, 0), (?k, 0)] [] []"] e3
    by (force simp: race_sys_def)
  have s4: "reach psys_init pool_step (race_sys 2 [(?k, 0)] [] [])"
    using reach_step [OF s3] pool_step.cleanup [of ?k "race_sys 1 [(?k, 0)] [?k] []"]
    by (simp add: race_sys_def pool_drop_empty_def slot_endpoint_def race_pool_def Let_def)
  have e5: "slot_get_or_create 0 ?k (Inr ()) (race_pool 2) = (True, Inr (race_endpoint 0 1), race_pool 3)"
    by (simp add: slot_get_or_create_def slot_endpoint_def set_endpoint_def race_endpoint_def race_pool_def Let_def)
  have s5: "reach psys_init pool_step (race_sys 3 [] [] [race_endpoint 0 1])"
    using reach_step [OF s4] pool_step.create [of ?k 0 "race_sys 2 [(?k, 0)] [] []"] e5
    by (force simp: race_sys_def race_pool_def Let_def)
  have e6: "pool_slot_for ?k ?d (race_pool 3) = Inr (1, race_pool 4)"
    by (simp add: pool_slot_for_def slot_new_def race_pool_def Let_def) (subst default_scheduler, simp)
  have s6: "reach psys_init pool_step (race_sys 4 [(?k, 1)] [] [race_endpoint 0 1])"
    using reach_step [OF s5] pool_step.enter [of ?k ?d "race_sys 3 [] [] [race_endpoint 0 1]"] e6
    by (force simp: race_sys_def)
  have e7: "slot_get_or_create 1 ?k (Inr ()) (race_pool 4) = (True, Inr (race_endpoint 1 2), race_pool 5)"
    by (simp add: slot_get_or_create_def slot_endpoint_def set_endpoint_def race_endpoint_def race_pool_def Let_def)
  show ?thesis
    using reach_step [OF s6] pool_step.create [of ?k 1 "race_sys 4 [(?k, 1)] [] [race_endpoint 0 1]"] e7
    by (force simp: race_sys_def race_pool_def Let_def)
qed

text \<open>
  The pool can hold two live connections for one key: after the trace above both the second and the
  third caller have one, each in its own slot with its own scheduler, and only the later is in the pool.
\<close>
theorem two_connections_for_one_key:
  "\<exists>s ep1 ep2. reach psys_init (pool_step :: unit psys \<Rightarrow> _) s \<and> {ep1, ep2} \<subseteq> set (made s) \<and>
     slot_endpoint (shared s) (ep_scheduler ep1) = Some ep1 \<and>
     slot_endpoint (shared s) (ep_scheduler ep2) = Some ep2 \<and>
     ep_key ep1 = ep_key ep2 \<and> ep_scheduler ep1 \<noteq> ep_scheduler ep2 \<and>
     pool_get (shared s) (ep_key ep1) = Some ep2"
proof -
  let ?s = "race_sys 5 [] [] [race_endpoint 1 2, race_endpoint 0 1]"
  have "{race_endpoint 0 1, race_endpoint 1 2} \<subseteq> set (made ?s)"
    "slot_endpoint (shared ?s) (ep_scheduler (race_endpoint 0 1)) = Some (race_endpoint 0 1)"
    "slot_endpoint (shared ?s) (ep_scheduler (race_endpoint 1 2)) = Some (race_endpoint 1 2)"
    "ep_key (race_endpoint 0 1) = ep_key (race_endpoint 1 2)"
    "ep_scheduler (race_endpoint 0 1) \<noteq> ep_scheduler (race_endpoint 1 2)"
    "pool_get (shared ?s) (ep_key (race_endpoint 0 1)) = Some (race_endpoint 1 2)"
    by (simp_all add: race_sys_def race_pool_def race_endpoint_def slot_endpoint_def pool_get_def Let_def)
  with race_run show ?thesis by blast
qed

theorem late_eviction_spares_replacement_witness:
  "\<exists>s ep. reach psys_init (pool_step :: unit psys \<Rightarrow> _) s \<and> pool_get (shared s) sample_key = Some ep \<and>
     remove_if_matches sample_key (ep_generation ep) (shared s) =
       (True, slot_clear (ep_scheduler ep) (shared s))"
proof -
  let ?s = "race_sys 5 [] [] [race_endpoint 1 2, race_endpoint 0 1]"
  have get: "pool_get (shared ?s) sample_key = Some (race_endpoint 1 2)"
    by (simp add: race_sys_def race_pool_def race_endpoint_def slot_endpoint_def pool_get_def Let_def)
  have "remove_if_matches sample_key 99 (shared ?s) = (False, shared ?s)"
    by (simp add: race_sys_def race_pool_def slot_endpoint_def remove_if_matches_def current_generation_def Let_def)
  then have "pool_step ?s (PEvict sample_key 99) ?s"
    using pool_step.evict [of ?s sample_key 99] by simp
  then have "run pool_step ?s [(PEvict sample_key 99, ?s)]" by simp
  from late_eviction_spares_replacement [OF race_run get this _ get, of "PEvict sample_key 99"]
  have "remove_if_matches sample_key (ep_generation (race_endpoint 1 2)) (shared ?s) =
      (True, slot_clear (ep_scheduler (race_endpoint 1 2)) (shared ?s))" by simp
  with race_run get show ?thesis by blast
qed

end
