(* ===== verification/Dispatch.thy ===== *)
theory Dispatch
  imports Messages
begin

text \<open>
  \<open>src/transport/ipc/server.rs\<close>, first half: the wire payloads and \<open>dispatch\<close>.  JSON is an argument: the
  record \<open>codec\<close> holds what the code calls of \<open>serde_json\<close>, over the type \<open>'v\<close> of JSON values.  A
  \<open>dyn RemoteTransport\<close> is an argument too: the record \<open>remote_ops\<close> holds its operations on a handle
  \<open>'t\<close>, which act on the world \<open>'w\<close>.
\<close>

section \<open>Payloads\<close>

record wire_command =
  wc_command :: string
  wc_timeout :: "nat option"

record wire_command_result =
  wr_exit_status :: int
  wr_stdout :: string
  wr_stderr :: string
  wr_success :: bool
  wr_duration_ms :: nat

definition wire_of_result :: "command_result \<Rightarrow> wire_command_result" where
  "wire_of_result r =
     \<lparr>wr_exit_status = res_exit_status r, wr_stdout = res_stdout r, wr_stderr = res_stderr r,
      wr_success = res_success r, wr_duration_ms = as_millis (res_duration r)\<rparr>"

definition result_of_wire :: "wire_command_result \<Rightarrow> command_result" where
  "result_of_wire w =
     \<lparr>res_exit_status = wr_exit_status w, res_stdout = wr_stdout w, res_stderr = wr_stderr w,
      res_success = wr_success w, res_duration = from_millis (trunc_u64 (wr_duration_ms w))\<rparr>"

record wire_upload_file =
  wuf_local :: string
  wuf_remote :: string

record wire_upload_text =
  wut_text :: string
  wut_remote :: string

record wire_download_file =
  wdf_remote :: string
  wdf_local :: string

record wire_download_dir =
  wdd_remote :: string
  wdd_local :: string

record challenge_ack =
  ca_daemon_nonce :: string

record 'v codec =
  dec_envelope :: "u8 list \<Rightarrow> string + 'v request_envelope"
  enc_response :: "'v response_envelope \<Rightarrow> string + u8 list"
  val_null :: 'v
  val_bool :: "bool \<Rightarrow> string + 'v"
  val_result :: "wire_command_result \<Rightarrow> string + 'v"
  val_hello_ack :: "hello_ack \<Rightarrow> string + 'v"
  val_challenge :: "challenge_ack \<Rightarrow> string + 'v"
  as_hello :: "'v \<Rightarrow> string + hello_msg"
  as_command :: "'v \<Rightarrow> string + wire_command"
  as_upload_file :: "'v \<Rightarrow> string + wire_upload_file"
  as_upload_text :: "'v \<Rightarrow> string + wire_upload_text"
  as_download_file :: "'v \<Rightarrow> string + wire_download_file"
  as_download_dir :: "'v \<Rightarrow> string + wire_download_dir"

record ('t, 'w) remote_ops =
  op_test_connection :: "'t \<Rightarrow> deadline \<Rightarrow> 'w \<Rightarrow> (transport_error + bool) \<times> 'w"
  op_run_command :: "'t \<Rightarrow> command_request \<Rightarrow> 'w \<Rightarrow> (transport_error + command_result) \<times> 'w"
  op_upload_file :: "'t \<Rightarrow> upload_file_request \<Rightarrow> 'w \<Rightarrow> (transport_error + unit) \<times> 'w"
  op_upload_text :: "'t \<Rightarrow> upload_text_request \<Rightarrow> 'w \<Rightarrow> (transport_error + unit) \<times> 'w"
  op_download_file :: "'t \<Rightarrow> download_file_request \<Rightarrow> 'w \<Rightarrow> (transport_error + unit) \<times> 'w"
  op_download_dir :: "'t \<Rightarrow> download_dir_request \<Rightarrow> 'w \<Rightarrow> (transport_error + unit) \<times> 'w"

section \<open>Dispatch\<close>

text \<open>The derived \<open>Debug\<close> text of an operation.\<close>

fun debug_operation :: "operation \<Rightarrow> string" where
  "debug_operation Hello = ''Hello''"
| "debug_operation TestConnection = ''TestConnection''"
| "debug_operation RunCommand = ''RunCommand''"
| "debug_operation UploadFile = ''UploadFile''"
| "debug_operation UploadText = ''UploadText''"
| "debug_operation DownloadFile = ''DownloadFile''"
| "debug_operation DownloadDir = ''DownloadDir''"
| "debug_operation StartLocalForward = ''StartLocalForward''"
| "debug_operation StopLocalForward = ''StopLocalForward''"
| "debug_operation Health = ''Health''"
| "debug_operation Shutdown = ''Shutdown''"
| "debug_operation Cancel = ''Cancel''"
| "debug_operation Challenge = ''Challenge''"
| "debug_operation (Unknown s) = ''Unknown('' @ debug_str s @ '')''"

definition unit_reply :: "'v codec \<Rightarrow> (transport_error + unit) \<times> 'w \<Rightarrow> 'v response_result \<times> 'w" where
  "unit_reply c rw =
     (case rw of (Inr u, w) \<Rightarrow> (Ok (val_null c), w) | (Inl e, w) \<Rightarrow> (Err (ipc_of_transport e), w))"

text \<open>\<open>anchor\<close> is the clock anchor of \<open>Deadline::from_unix_ms\<close>.\<close>

definition dispatch ::
    "'v codec \<Rightarrow> ('t, 'w) remote_ops \<Rightarrow> instant \<times> nat \<Rightarrow> string \<Rightarrow> 't \<Rightarrow> 'v request_envelope \<Rightarrow> 'w \<Rightarrow>
     'v response_result \<times> 'w" where
  "dispatch c ops anchor server_nonce t env w =
     (let dl = from_unix_ms anchor (rq_deadline_unix_ms env); i = rq_request_id env
      in case rq_operation env of
           Hello \<Rightarrow> (Err (IpcConfiguration ''Hello must precede any other operation''), w)
         | TestConnection \<Rightarrow>
             (case op_test_connection ops t dl w of
                (Inr b, w') \<Rightarrow> ((case val_bool c b of Inr v \<Rightarrow> Ok v | Inl e \<Rightarrow> Err (IpcLocalIo e)), w')
              | (Inl e, w') \<Rightarrow> (Err (ipc_of_transport e), w'))
         | RunCommand \<Rightarrow>
             (case as_command c (rq_payload env) of
                Inl e \<Rightarrow> (Err (IpcConfiguration e), w)
              | Inr x \<Rightarrow>
                  (case op_run_command ops t
                      \<lparr>cr_id = i, cr_deadline = dl, cr_command = wc_command x,
                       cr_timeout = map_option (\<lambda>s. from_secs s) (wc_timeout x)\<rparr> w of
                     (Inr r, w') \<Rightarrow>
                       (Ok (case val_result c (wire_of_result r) of Inr v \<Rightarrow> v | Inl e \<Rightarrow> val_null c), w')
                   | (Inl e, w') \<Rightarrow> (Err (ipc_of_transport e), w')))
         | UploadFile \<Rightarrow>
             (case as_upload_file c (rq_payload env) of
                Inl e \<Rightarrow> (Err (IpcConfiguration e), w)
              | Inr x \<Rightarrow> unit_reply c (op_upload_file ops t
                  \<lparr>uf_id = i, uf_deadline = dl, uf_local = wuf_local x, uf_remote = wuf_remote x\<rparr> w))
         | UploadText \<Rightarrow>
             (case as_upload_text c (rq_payload env) of
                Inl e \<Rightarrow> (Err (IpcConfiguration e), w)
              | Inr x \<Rightarrow> unit_reply c (op_upload_text ops t
                  \<lparr>ut_id = i, ut_deadline = dl, ut_text = wut_text x, ut_remote = wut_remote x\<rparr> w))
         | DownloadFile \<Rightarrow>
             (case as_download_file c (rq_payload env) of
                Inl e \<Rightarrow> (Err (IpcConfiguration e), w)
              | Inr x \<Rightarrow> unit_reply c (op_download_file ops t
                  \<lparr>df_id = i, df_deadline = dl, df_remote = wdf_remote x, df_local = wdf_local x\<rparr> w))
         | DownloadDir \<Rightarrow>
             (case as_download_dir c (rq_payload env) of
                Inl e \<Rightarrow> (Err (IpcConfiguration e), w)
              | Inr x \<Rightarrow> unit_reply c (op_download_dir ops t
                  \<lparr>dd_id = i, dd_deadline = dl, dd_remote = wdd_remote x, dd_local = wdd_local x\<rparr> w))
         | Challenge \<Rightarrow>
             ((case val_challenge c \<lparr>ca_daemon_nonce = server_nonce\<rparr> of
                 Inr v \<Rightarrow> Ok v | Inl e \<Rightarrow> Err (IpcLocalIo e)), w)
         | Cancel \<Rightarrow>
             (Err (IpcUnsupportedOperation ''cancel: per-request cancellation is a step-6 increment''), w)
         | Unknown name \<Rightarrow> (Err (IpcUnsupportedOperation name), w)
         | oper \<Rightarrow> (Err (IpcUnsupportedOperation (debug_operation oper)), w))"

text \<open>The operations that use the transport, which are those the pooled server meters.\<close>

definition uses_transport :: "operation \<Rightarrow> bool" where
  "uses_transport oper \<longleftrightarrow>
     oper \<in> {RunCommand, TestConnection, UploadFile, UploadText, DownloadFile, DownloadDir}"

lemma dispatch_without_transport:
  "\<not> uses_transport (rq_operation env) \<Longrightarrow> snd (dispatch c ops anchor nonce t env w) = w"
  by (cases "rq_operation env") (auto simp: dispatch_def uses_transport_def Let_def)

text \<open>A connection-level error in a reply comes from the transport.\<close>

lemma dispatch_connection_level:
  "fst (dispatch c ops anchor nonce t env w) = Err e \<Longrightarrow> is_connection_level e \<Longrightarrow>
   uses_transport (rq_operation env)"
  by (cases "rq_operation env") (auto simp: dispatch_def uses_transport_def Let_def split: sum.splits)

section \<open>What a command sees of a request\<close>

text \<open>
  A command dispatched by the daemon carries the identifier of its envelope, the deadline the client
  put in it, and the client's execution timeout in whole seconds; a payload that does not parse never
  reaches the transport.
\<close>
theorem dispatch_run_command:
  assumes "rq_operation env = RunCommand"
  shows "case as_command c (rq_payload env) of
      Inl e \<Rightarrow> dispatch c ops anchor nonce t env w = (Err (IpcConfiguration e), w)
    | Inr x \<Rightarrow> \<exists>req. cr_id req = rq_request_id env \<and> cr_command req = wc_command x \<and>
        cr_deadline req = from_unix_ms anchor (rq_deadline_unix_ms env) \<and>
        cr_timeout req = map_option (\<lambda>s. s * 1000000000) (wc_timeout x) \<and>
        snd (dispatch c ops anchor nonce t env w) = snd (op_run_command ops t req w) \<and>
        (\<forall>e. fst (dispatch c ops anchor nonce t env w) = Err e \<longleftrightarrow>
           fst (op_run_command ops t req w) = Inl (transport_of_ipc e))"
proof (cases "as_command c (rq_payload env)")
  case (Inr x)
  define req where "req = \<lparr>cr_id = rq_request_id env, cr_deadline = from_unix_ms anchor (rq_deadline_unix_ms env),
    cr_command = wc_command x, cr_timeout = map_option (\<lambda>s. s * 1000000000) (wc_timeout x)\<rparr>"
  obtain r w' where r: "op_run_command ops t req w = (r, w')" by (cases "op_run_command ops t req w")
  have "dispatch c ops anchor nonce t env w =
      (case r of Inr y \<Rightarrow> Ok (case val_result c (wire_of_result y) of Inr v \<Rightarrow> v | Inl e \<Rightarrow> val_null c)
       | Inl e \<Rightarrow> Err (ipc_of_transport e), w')"
    using assms Inr r by (cases r) (simp_all add: dispatch_def req_def Let_def)
  with r have "snd (dispatch c ops anchor nonce t env w) = snd (op_run_command ops t req w) \<and>
      (\<forall>e. fst (dispatch c ops anchor nonce t env w) = Err e \<longleftrightarrow>
         fst (op_run_command ops t req w) = Inl (transport_of_ipc e))"
    using wire_error.to_wire_swap by (cases r) auto
  moreover have "cr_id req = rq_request_id env" "cr_command req = wc_command x"
    "cr_deadline req = from_unix_ms anchor (rq_deadline_unix_ms env)"
    "cr_timeout req = map_option (\<lambda>s. s * 1000000000) (wc_timeout x)" by (simp_all add: req_def)
  ultimately show ?thesis unfolding Inr sum.case by blast
qed (simp add: dispatch_def assms)

text \<open>A codec over bytes and a transport that records what it runs, for examples.\<close>

definition byte_codec :: "nat codec" where
  "byte_codec =
     \<lparr>dec_envelope = (\<lambda>b. case b of
         [x] \<Rightarrow> Inr \<lparr>rq_protocol_major = 1, rq_protocol_minor = 0, rq_profile = '''', rq_daemon_nonce = '''',
           rq_auth_token = ''tok'', rq_request_id = [char_of (unat x)], rq_deadline_unix_ms = 60000,
           rq_operation = (if x = 0 then Hello else if x = 1 then RunCommand else if x = 2 then Challenge
             else Shutdown), rq_payload = unat x\<rparr>
       | _ \<Rightarrow> Inl ''bad''),
      enc_response = (\<lambda>r. Inr (map (\<lambda>c. of_nat (of_char c)) (rs_request_id r))),
      val_null = 0, val_bool = (\<lambda>b. Inr (if b then 1 else 0)), val_result = (\<lambda>r. Inr 7),
      val_hello_ack = (\<lambda>a. Inr 8), val_challenge = (\<lambda>a. Inr 9),
      as_hello = (\<lambda>v. if v = 0 then Inr (hello_new ''p'' ''tok'') else Inl ''no hello''),
      as_command = (\<lambda>v. if v = 1 then Inr \<lparr>wc_command = ''ls'', wc_timeout = Some 5\<rparr> else Inl ''no command''),
      as_upload_file = (\<lambda>v. Inl ''none''), as_upload_text = (\<lambda>v. Inl ''none''),
      as_download_file = (\<lambda>v. Inl ''none''), as_download_dir = (\<lambda>v. Inl ''none'')\<rparr>"

definition log_ops :: "(unit, string list) remote_ops" where
  "log_ops =
     \<lparr>op_test_connection = (\<lambda>t d w. (Inr True, w)),
      op_run_command = (\<lambda>t req w. (Inl (ConnectionFailed ''lost''), w @ [cr_id req @ '':'' @ cr_command req])),
      op_upload_file = (\<lambda>t req w. (Inr (), w)), op_upload_text = (\<lambda>t req w. (Inr (), w)),
      op_download_file = (\<lambda>t req w. (Inr (), w)), op_download_dir = (\<lambda>t req w. (Inr (), w))\<rparr>"

definition sample_envelope :: "nat request_envelope" where
  "sample_envelope = projr (dec_envelope byte_codec [1])"

theorem dispatch_run_command_witness:
  "snd (dispatch byte_codec log_ops (0, 0) ''n'' () sample_envelope []) = [[CHR 0x01] @ '':ls'']"
proof -
  have e: "rq_operation sample_envelope = RunCommand" "rq_payload sample_envelope = 1"
    "rq_request_id sample_envelope = [CHR 0x01]"
    by (simp_all add: sample_envelope_def byte_codec_def) code_simp
  have "as_command byte_codec 1 = Inr \<lparr>wc_command = ''ls'', wc_timeout = Some 5\<rparr>" by (simp add: byte_codec_def)
  with dispatch_run_command [OF e(1), of byte_codec log_ops "(0, 0)" "''n''" "()" "[]"] e
  show ?thesis by (auto simp: log_ops_def)
qed

text \<open>
  A command result sent over the wire comes back the same, its duration cut to whole milliseconds,
  for every duration below 2^64 milliseconds.
\<close>
theorem wire_result_roundtrip:
  assumes "as_millis (res_duration r) \<le> u64_max"
  shows "result_of_wire (wire_of_result r) = r\<lparr>res_duration := from_millis (as_millis (res_duration r))\<rparr>"
  using assms by (simp add: result_of_wire_def wire_of_result_def trunc_u64_id)

theorem wire_result_roundtrip_witness:
  "res_duration (result_of_wire (wire_of_result
     \<lparr>res_exit_status = 0, res_stdout = ''ok'', res_stderr = [], res_success = True,
      res_duration = 1500001\<rparr>)) = 1000000"
  by (subst wire_result_roundtrip) simp_all

end
