(* ===== verification/Server.thy ===== *)
theory Server
  imports Dispatch Pool
begin

text \<open>
  \<open>src/transport/ipc/server.rs\<close>, second half: the handshake, the loop that serves one connection, and its
  pooled instance.  The frames a connection reads are given with the loop (\<open>Framing\<close> is what produces
  them); each comes with an input \<open>'i\<close>, what the environment does while the request is served.  \<open>'d\<close> is the
  state the requests act on.  Writing a frame succeeds unless the payload is too large or the peer fails;
  \<open>sv_peer\<close> lists the peer's answers to the next writes (all fine when it runs out).
\<close>

section \<open>One connection\<close>

record shutdown_state =
  sd_token :: cancellation_token
  sd_active :: nat

record 'd serving =
  sv_daemon :: 'd
  sv_peer :: "(frame_error + unit) list"
  sv_out :: "u8 list list"
  sv_shutdown :: "shutdown_state option"

definition write_body :: "u8 list \<Rightarrow> 'd serving \<Rightarrow> (frame_error + unit) \<times> 'd serving" where
  "write_body body s =
     (case encode_frame body of
        Inl e \<Rightarrow> (Inl e, s)
      | Inr f \<Rightarrow>
          (case sv_peer s of
             [] \<Rightarrow> (Inr (), s\<lparr>sv_out := sv_out s @ [body]\<rparr>)
           | Inr u # ps \<Rightarrow> (Inr (), s\<lparr>sv_peer := ps, sv_out := sv_out s @ [body]\<rparr>)
           | Inl e # ps \<Rightarrow> (Inl e, s\<lparr>sv_peer := ps\<rparr>)))"

definition enc_or_empty :: "'v codec \<Rightarrow> 'v response_envelope \<Rightarrow> u8 list" where
  "enc_or_empty c r = (case enc_response c r of Inr b \<Rightarrow> b | Inl e \<Rightarrow> [])"

definition reply :: "'v codec \<Rightarrow> string \<Rightarrow> 'v response_result \<Rightarrow> 'd serving \<Rightarrow> 'd serving" where
  "reply c i r s = snd (write_body (enc_or_empty c \<lparr>rs_request_id = i, rs_result = r\<rparr>) s)"

definition value_or_null :: "'v codec \<Rightarrow> (string + 'v) \<Rightarrow> 'v" where
  "value_or_null c r = (case r of Inr v \<Rightarrow> v | Inl e \<Rightarrow> val_null c)"

text \<open>\<open>do_handshake\<close>: \<open>None\<close> is \<open>HandshakeOutcome::Ok\<close>.\<close>

definition do_handshake ::
    "'v codec \<Rightarrow> 'v request_envelope \<Rightarrow> string \<Rightarrow> string \<Rightarrow> 'd serving \<Rightarrow> ipc_error option \<times> 'd serving" where
  "do_handshake c env expected_token server_nonce s =
     (if rq_operation env \<noteq> Hello then
        (Some (IpcConfiguration (''expected Hello, got '' @ debug_operation (rq_operation env))), s)
      else if rq_protocol_major env \<noteq> PROTOCOL_MAJOR then
        (Some (IpcProtocolMismatch (show_nat (unat PROTOCOL_MAJOR)) (show_nat (unat (rq_protocol_major env)))), s)
      else if rq_auth_token env \<noteq> expected_token then
        (Some (IpcAuthenticationFailed ''auth token did not match''), s)
      else case as_hello c (rq_payload env) of
        Inl e \<Rightarrow> (Some (IpcConfiguration (''malformed hello payload: '' @ e)), s)
      | Inr h \<Rightarrow>
          (let ack = \<lparr>ack_server_major = PROTOCOL_MAJOR, ack_server_minor = PROTOCOL_MINOR,
                 ack_daemon_nonce = server_nonce, ack_capabilities = {}\<rparr>
           in case enc_response c \<lparr>rs_request_id = rq_request_id env,
                     rs_result = Ok (value_or_null c (val_hello_ack c ack))\<rparr> of
                Inl e \<Rightarrow> (Some (IpcLocalIo e), s)
              | Inr body \<Rightarrow>
                  (case write_body body s of
                     (Inr u, s') \<Rightarrow> (None, s')
                   | (Inl (FrameIo m), s') \<Rightarrow> (Some IpcDaemonUnavailable, s')
                   | (Inl other, s') \<Rightarrow> (Some (IpcLocalIo (display_frame_error other)), s'))))"

text \<open>
  The closures of the entry points: \<open>transport_for\<close> (\<open>None\<close> while it waits for a permit) gives the access of
  a request, \<open>on_error\<close> is told the captured generation, \<open>finish\<close> is the drop of the access.
\<close>

record ('t) transport_access =
  ac_transport :: 't
  ac_generation :: u64
  ac_permit :: "nat option"

record ('i, 'v, 't, 'd) server_hooks =
  transport_for :: "'i \<Rightarrow> 'v request_envelope \<Rightarrow> 'd \<Rightarrow> ((transport_error + 't transport_access) \<times> 'd) option"
  on_error :: "u64 \<Rightarrow> 'd \<Rightarrow> 'd"
  run_dispatch :: "'t \<Rightarrow> 'v request_envelope \<Rightarrow> 'd \<Rightarrow> 'v response_result \<times> 'd"
  finish :: "'t transport_access \<Rightarrow> 'd \<Rightarrow> 'd"

definition is_evicting :: "'v response_result \<Rightarrow> bool" where
  "is_evicting r = (case r of Err e \<Rightarrow> is_connection_level e | Ok v \<Rightarrow> False)"

definition fire_token :: "'d serving \<Rightarrow> 'd serving" where
  "fire_token s =
     s\<lparr>sv_shutdown := map_option (\<lambda>sd. sd\<lparr>sd_token := token_cancel (sd_token sd)\<rparr>) (sv_shutdown s)\<rparr>"

definition token_fired :: "'d serving \<Rightarrow> bool" where
  "token_fired s = (case sv_shutdown s of Some sd \<Rightarrow> is_cancelled (sd_token sd) | None \<Rightarrow> False)"

text \<open>A request on the access it was given: the rest of a turn of the loop.\<close>

definition serve_access ::
    "'v codec \<Rightarrow> ('i, 'v, 't, 'd) server_hooks \<Rightarrow> 'v request_envelope \<Rightarrow> 't transport_access \<Rightarrow>
     'd serving \<Rightarrow> bool \<times> 'd serving" where
  "serve_access c hooks env ac s =
     (case run_dispatch hooks (ac_transport ac) env (sv_daemon s) of
        (result, d1) \<Rightarrow>
          (let d2 = (if is_evicting result then on_error hooks (ac_generation ac) d1 else d1);
               body = (case enc_response c \<lparr>rs_request_id = rq_request_id env, rs_result = result\<rparr> of
                         Inr b \<Rightarrow> b
                       | Inl e \<Rightarrow> enc_or_empty c \<lparr>rs_request_id = rq_request_id env, rs_result = Err (IpcLocalIo e)\<rparr>)
           in case write_body body (s\<lparr>sv_daemon := d2\<rparr>) of
                (r, s') \<Rightarrow> (is_ok r, s'\<lparr>sv_daemon := finish hooks ac (sv_daemon s')\<rparr>)))"

text \<open>One turn: whether the loop goes on, and the state.\<close>

definition serve_frame ::
    "'v codec \<Rightarrow> ('i, 'v, 't, 'd) server_hooks \<Rightarrow> 'i \<Rightarrow> u8 list \<Rightarrow> 'd serving \<Rightarrow> (bool \<times> 'd serving) option" where
  "serve_frame c hooks i frame s =
     (if token_fired s then Some (False, s)
      else case dec_envelope c frame of
        Inl e \<Rightarrow> Some (True, reply c [] (Err (IpcLocalIo e)) s)
      | Inr env \<Rightarrow>
          if rq_operation env = Shutdown then
            (let s1 = fire_token s
             in case enc_response c \<lparr>rs_request_id = rq_request_id env, rs_result = Ok (val_null c)\<rparr> of
                  Inr body \<Rightarrow> Some (False, snd (write_body body s1))
                | Inl e \<Rightarrow> Some (False, s1))
          else
            case transport_for hooks i env (sv_daemon s) of
              None \<Rightarrow> None
            | Some (Inl e, d) \<Rightarrow>
                Some (True, reply c (rq_request_id env) (Err (ipc_of_transport e)) (s\<lparr>sv_daemon := d\<rparr>))
            | Some (Inr ac, d) \<Rightarrow> Some (serve_access c hooks env ac (s\<lparr>sv_daemon := d\<rparr>)))"

type_synonym 'i input = "'i \<times> (frame_error + u8 list option)"

fun serve_frames ::
    "'v codec \<Rightarrow> ('i, 'v, 't, 'd) server_hooks \<Rightarrow> 'i input list \<Rightarrow> 'd serving \<Rightarrow> 'd serving option" where
  "serve_frames c hooks [] s = Some s"
| "serve_frames c hooks ((i, r) # rest) s =
     (case r of
        Inr (Some frame) \<Rightarrow>
          (case serve_frame c hooks i frame s of
             None \<Rightarrow> None
           | Some (True, s') \<Rightarrow> serve_frames c hooks rest s'
           | Some (False, s') \<Rightarrow> Some s')
      | _ \<Rightarrow> Some s)"

definition enter_active :: "'d serving \<Rightarrow> 'd serving" where
  "enter_active s = s\<lparr>sv_shutdown := map_option (\<lambda>sd. sd\<lparr>sd_active := sd_active sd + 1\<rparr>) (sv_shutdown s)\<rparr>"

definition leave_active :: "'d serving \<Rightarrow> 'd serving" where
  "leave_active s = s\<lparr>sv_shutdown := map_option (\<lambda>sd. sd\<lparr>sd_active := sd_active sd - 1\<rparr>) (sv_shutdown s)\<rparr>"

definition serve_loop ::
    "'v codec \<Rightarrow> ('i, 'v, 't, 'd) server_hooks \<Rightarrow> string \<Rightarrow> string \<Rightarrow> 'i input list \<Rightarrow> 'd serving \<Rightarrow>
     'd serving option" where
  "serve_loop c hooks auth_token server_nonce frames s =
     (case frames of
        (i, Inr (Some first)) # rest \<Rightarrow>
          (case dec_envelope c first of
             Inl e \<Rightarrow> Some s
           | Inr env \<Rightarrow>
               if rq_operation env \<noteq> Hello then Some s
               else case do_handshake c env auth_token server_nonce s of
                 (Some e, s1) \<Rightarrow> Some (reply c (rq_request_id env) (Err e) s1)
               | (None, s1) \<Rightarrow> map_option leave_active (serve_frames c hooks rest (enter_active s1)))
      | _ \<Rightarrow> Some s)"

text \<open>\<open>serve_one_with_shutdown\<close>: one fixed transport, over the world it acts on.\<close>

definition fixed_hooks ::
    "'v codec \<Rightarrow> ('t, 'w) remote_ops \<Rightarrow> instant \<times> nat \<Rightarrow> string \<Rightarrow> 't \<Rightarrow> ('i, 'v, 't, 'w) server_hooks" where
  "fixed_hooks c ops anchor nonce t =
     \<lparr>transport_for = (\<lambda>i env d. Some (Inr \<lparr>ac_transport = t, ac_generation = 0, ac_permit = None\<rparr>, d)),
      on_error = (\<lambda>g d. d),
      run_dispatch = dispatch c ops anchor nonce,
      finish = (\<lambda>ac d. d)\<rparr>"

definition serve_one_with_shutdown ::
    "'v codec \<Rightarrow> ('t, 'w) remote_ops \<Rightarrow> instant \<times> nat \<Rightarrow> 't \<Rightarrow> string \<Rightarrow> string \<Rightarrow> 'i input list \<Rightarrow>
     'w serving \<Rightarrow> 'w serving option" where
  "serve_one_with_shutdown c ops anchor t auth_token nonce frames s =
     serve_loop c (fixed_hooks c ops anchor nonce t) auth_token nonce frames s"

section \<open>The pooled server\<close>

record ('t, 'w) daemon =
  d_pool :: "'t pool"
  d_world :: 'w

text \<open>
  What the environment does during a request: the result of the factory if it is called, and the clock
  reading and turns of the wait for a permit.
\<close>

record 't request_input =
  in_factory :: "transport_error + 't"
  in_now :: instant
  in_turns :: "turn list"

definition set_scheduler :: "nat \<Rightarrow> state \<Rightarrow> 't pool \<Rightarrow> 't pool" where
  "set_scheduler sid sc p = p\<lparr>p_heap := (p_heap p)[sid := (p_heap p ! sid)\<lparr>sl_scheduler := sc\<rparr>]\<rparr>"

definition slot_scheduler :: "'t pool \<Rightarrow> nat \<Rightarrow> state" where
  "slot_scheduler p sid = sl_scheduler (p_heap p ! sid)"

definition pooled_transport_for ::
    "instant \<times> nat \<Rightarrow> endpoint_key \<Rightarrow> limits \<Rightarrow> 't request_input \<Rightarrow> 'v request_envelope \<Rightarrow>
     ('t, 'w) daemon \<Rightarrow> ((transport_error + 't transport_access) \<times> ('t, 'w) daemon) option" where
  "pooled_transport_for anchor key l i env d =
     (case pool_get_or_create key l (in_factory i) (d_pool d) of
        (called, Inl e, p) \<Rightarrow> Some (Inl e, d\<lparr>d_pool := p\<rparr>)
      | (called, Inr ep, p) \<Rightarrow>
          if uses_transport (rq_operation env) then
            (case acquire (slot_scheduler p (ep_scheduler ep)) Normal (rq_request_id env)
                    (from_unix_ms anchor (rq_deadline_unix_ms env)) (in_now i) (in_turns i) of
               None \<Rightarrow> None
             | Some (Inl e, sc) \<Rightarrow> Some (Inl e, d\<lparr>d_pool := set_scheduler (ep_scheduler ep) sc p\<rparr>)
             | Some (Inr u, sc) \<Rightarrow>
                 Some (Inr \<lparr>ac_transport = ep_transport ep, ac_generation = ep_generation ep,
                            ac_permit = Some (ep_scheduler ep)\<rparr>,
                       d\<lparr>d_pool := set_scheduler (ep_scheduler ep) sc p\<rparr>))
          else
            Some (Inr \<lparr>ac_transport = ep_transport ep, ac_generation = ep_generation ep, ac_permit = None\<rparr>,
                  d\<lparr>d_pool := p\<rparr>))"

definition pooled_on_error :: "endpoint_key \<Rightarrow> u64 \<Rightarrow> ('t, 'w) daemon \<Rightarrow> ('t, 'w) daemon" where
  "pooled_on_error key g d = d\<lparr>d_pool := snd (remove_if_matches key g (d_pool d))\<rparr>"

definition drop_access :: "'t transport_access \<Rightarrow> ('t, 'w) daemon \<Rightarrow> ('t, 'w) daemon" where
  "drop_access ac d =
     (case ac_permit ac of
        None \<Rightarrow> d
      | Some sid \<Rightarrow> d\<lparr>d_pool := set_scheduler sid (release (slot_scheduler (d_pool d) sid) Normal) (d_pool d)\<rparr>)"

definition pooled_hooks ::
    "'v codec \<Rightarrow> ('t, 'w) remote_ops \<Rightarrow> instant \<times> nat \<Rightarrow> endpoint_key \<Rightarrow> limits \<Rightarrow> string \<Rightarrow>
     ('t request_input, 'v, 't, ('t, 'w) daemon) server_hooks" where
  "pooled_hooks c ops anchor key l nonce =
     \<lparr>transport_for = pooled_transport_for anchor key l,
      on_error = pooled_on_error key,
      run_dispatch = (\<lambda>t env d. case dispatch c ops anchor nonce t env (d_world d) of (r, w) \<Rightarrow> (r, d\<lparr>d_world := w\<rparr>)),
      finish = drop_access\<rparr>"

definition serve_one_pooled ::
    "'v codec \<Rightarrow> ('t, 'w) remote_ops \<Rightarrow> instant \<times> nat \<Rightarrow> endpoint_key \<Rightarrow> limits \<Rightarrow> string \<Rightarrow> string \<Rightarrow>
     't request_input input list \<Rightarrow> ('t, 'w) daemon serving \<Rightarrow> ('t, 'w) daemon serving option" where
  "serve_one_pooled c ops anchor key l auth_token nonce frames s =
     serve_loop c (pooled_hooks c ops anchor key l nonce) auth_token nonce frames s"

end
