(* ===== verification/Server_Facts.thy ===== *)
theory Server_Facts
  imports Server
begin

text \<open>
  What holds of the connection loop of \<open>src/transport/ipc/server.rs\<close>: nothing is reached before the
  handshake, every frame is answered once, the bookkeeping of a shutdown, and how the pooled server evicts.
\<close>

section \<open>Writing and answering leave the rest alone\<close>

lemma write_body_frame [simp]:
  "sv_daemon (snd (write_body b s)) = sv_daemon s"
  "sv_shutdown (snd (write_body b s)) = sv_shutdown s"
  by (auto simp: write_body_def split: sum.splits list.splits)

lemma write_body_out: "sv_out (snd (write_body b s)) = sv_out s \<or> sv_out (snd (write_body b s)) = sv_out s @ [b]"
  by (auto simp: write_body_def split: sum.splits list.splits)

lemma write_body_failed: "fst (write_body b s) = Inl e \<Longrightarrow> sv_out (snd (write_body b s)) = sv_out s"
  by (auto simp: write_body_def split: sum.splits list.splits)

lemma write_body_fine:
  "sv_peer s = [] \<Longrightarrow> length b \<le> MAX_FRAME_SIZE \<Longrightarrow> write_body b s = (Inr (), s\<lparr>sv_out := sv_out s @ [b]\<rparr>)"
  by (simp add: write_body_def encode_frame_def)

lemma reply_frame [simp]:
  "sv_daemon (reply c i r s) = sv_daemon s" "sv_shutdown (reply c i r s) = sv_shutdown s"
  by (simp_all add: reply_def)

lemma fire_token_frame [simp]:
  "sv_daemon (fire_token s) = sv_daemon s" "sv_peer (fire_token s) = sv_peer s" "sv_out (fire_token s) = sv_out s"
  by (simp_all add: fire_token_def)

lemma token_fired_fire: "sv_shutdown s \<noteq> None \<Longrightarrow> token_fired (fire_token s)"
  by (auto simp: token_fired_def fire_token_def is_cancelled_def token_cancel_def)

lemma token_fired_shutdown: "sv_shutdown t = sv_shutdown s \<Longrightarrow> token_fired t = token_fired s"
  by (simp add: token_fired_def)

text \<open>How one frame changes the shutdown bookkeeping: not at all, or by firing the token.\<close>

lemma serve_access_shutdown [simp]: "sv_shutdown (snd (serve_access c hooks env ac s)) = sv_shutdown s"
proof -
  have frame: "sv_shutdown s'' = sv_shutdown s'" if "write_body b s' = (r, s'')" for b s' r s''
    using write_body_frame(2) [of b s'] that by simp
  show ?thesis
    by (auto simp: serve_access_def Let_def split: prod.split dest!: frame)
qed

lemma serve_access_shutdownD: "serve_access c hooks env ac s = (b, t) \<Longrightarrow> sv_shutdown t = sv_shutdown s"
  using serve_access_shutdown [of c hooks env ac s] by simp

lemma serve_frame_shutdown:
  "serve_frame c hooks i f s = Some (b, t) \<Longrightarrow>
   sv_shutdown t = sv_shutdown s \<or> sv_shutdown t = sv_shutdown (fire_token s)"
  by (auto simp: serve_frame_def Let_def split: if_splits sum.splits option.splits
      dest!: serve_access_shutdownD)

definition same_active :: "'d serving \<Rightarrow> 'd serving \<Rightarrow> bool" where
  "same_active s t \<longleftrightarrow>
     map_option sd_active (sv_shutdown t) = map_option sd_active (sv_shutdown s) \<and>
     (token_fired s \<longrightarrow> token_fired t)"

lemma same_active_fire: "sv_shutdown t = sv_shutdown s \<or> sv_shutdown t = sv_shutdown (fire_token s) \<Longrightarrow> same_active s t"
  by (auto simp: same_active_def token_fired_def fire_token_def is_cancelled_def token_cancel_def
      split: option.splits)

lemma same_active_trans: "same_active s t \<Longrightarrow> same_active t u \<Longrightarrow> same_active s u"
  by (simp add: same_active_def)

lemma serve_frames_active: "serve_frames c hooks fs s = Some t \<Longrightarrow> same_active s t"
proof (induction c hooks fs s rule: serve_frames.induct)
  case (2 c hooks i r rest s)
  show ?case
  proof (cases "\<exists>f. r = Inr (Some f)")
    case True
    then obtain f where r: "r = Inr (Some f)" by blast
    with "2.prems" obtain b u where u: "serve_frame c hooks i f s = Some (b, u)"
      by (auto split: option.splits)
    have "same_active s u" using serve_frame_shutdown [OF u] by (rule same_active_fire)
    with "2.IH" [OF r refl u] "2.prems" u r show ?thesis
      by (cases b) (auto intro: same_active_trans)
  next
    case False
    with "2.prems" have "t = s" by (auto split: sum.splits option.splits)
    then show ?thesis by (simp add: same_active_def)
  qed
qed (simp add: same_active_def)

section \<open>The handshake\<close>

definition says_hello :: "'v codec \<Rightarrow> 'i input list \<Rightarrow> bool" where
  "says_hello c frames \<longleftrightarrow>
     (\<exists>i f rest env. frames = (i, Inr (Some f)) # rest \<and> dec_envelope c f = Inr env \<and> rq_operation env = Hello)"

definition authorised :: "'v codec \<Rightarrow> string \<Rightarrow> 'i input list \<Rightarrow> bool" where
  "authorised c token frames \<longleftrightarrow>
     (\<exists>i f rest env. frames = (i, Inr (Some f)) # rest \<and> dec_envelope c f = Inr env \<and>
        rq_operation env = Hello \<and> rq_protocol_major env = PROTOCOL_MAJOR \<and>
        rq_auth_token env = token \<and> is_ok (as_hello c (rq_payload env)))"

lemma do_handshake_rejects:
  "\<not> (rq_operation env = Hello \<and> rq_protocol_major env = PROTOCOL_MAJOR \<and> rq_auth_token env = token \<and>
      is_ok (as_hello c (rq_payload env))) \<Longrightarrow>
   \<exists>e. do_handshake c env token nonce s = (Some e, s)"
  by (auto simp: do_handshake_def is_ok_def split: sum.splits)

lemma do_handshake_frame:
  "do_handshake c env token nonce s = (r, t) \<Longrightarrow> sv_daemon t = sv_daemon s \<and> sv_shutdown t = sv_shutdown s"
  by (auto simp: do_handshake_def Let_def split: if_splits sum.splits prod.splits frame_error.splits
      dest: arg_cong [where f = "\<lambda>x. sv_daemon (snd x)"] arg_cong [where f = "\<lambda>x. sv_shutdown (snd x)"])

text \<open>
  C9: A peer that does not open with a valid \<open>Hello\<close> -- right operation, protocol major, token and payload --
  reaches nothing: whatever it sends, no request runs, no shutdown is requested, it is answered at most
  once, with an error reply and nothing else, and not at all when its first frame is no \<open>Hello\<close>.
\<close>
theorem unauthenticated_peer_reaches_nothing:
  assumes "\<not> authorised c token frames" and "serve_loop c hooks token nonce frames s = Some t"
  shows "sv_daemon t = sv_daemon s \<and> sv_shutdown t = sv_shutdown s \<and>
    (sv_out t = sv_out s \<or> (\<exists>b. sv_out t = sv_out s @ [b])) \<and>
    (t = s \<or> (\<exists>i e. t = reply c i (Err e) s)) \<and>
    (\<not> says_hello c frames \<longrightarrow> t = s)"
proof (cases "says_hello c frames")
  case True
  then obtain i f rest env where fr: "frames = (i, Inr (Some f)) # rest" "dec_envelope c f = Inr env"
    "rq_operation env = Hello" by (auto simp: says_hello_def)
  with assms(1) have "\<not> (rq_operation env = Hello \<and> rq_protocol_major env = PROTOCOL_MAJOR \<and>
      rq_auth_token env = token \<and> is_ok (as_hello c (rq_payload env)))"
    by (auto simp: authorised_def)
  from do_handshake_rejects [OF this] obtain e where "do_handshake c env token nonce s = (Some e, s)" by blast
  with assms(2) fr have "t = reply c (rq_request_id env) (Err e) s" by (simp add: serve_loop_def)
  moreover from this True write_body_out have "sv_daemon t = sv_daemon s \<and> sv_shutdown t = sv_shutdown s \<and>
      (sv_out t = sv_out s \<or> (\<exists>b. sv_out t = sv_out s @ [b]))" by (auto simp: reply_def)
  ultimately show ?thesis using True by blast
next
  case False
  with assms(2) have "t = s"
    by (auto simp: serve_loop_def says_hello_def split: list.splits prod.splits sum.splits option.splits if_splits)
  then show ?thesis by simp
qed

definition idle :: "string list serving" where
  "idle = \<lparr>sv_daemon = [], sv_peer = [], sv_out = [],
     sv_shutdown = Some \<lparr>sd_token = token_new, sd_active = 0\<rparr>\<rparr>"

theorem unauthenticated_peer_reaches_nothing_witness:
  "\<exists>t. serve_one_with_shutdown byte_codec log_ops (0, 0) () ''secret'' ''n'' [((), Inr (Some [0])), ((), Inr (Some [1]))] idle
     = Some t \<and> sv_daemon t = [] \<and> length (sv_out t) \<le> 1"
proof -
  let ?fs = "[((), Inr (Some [0])), ((), Inr (Some [1]))] :: unit input list"
  have n: "\<not> authorised byte_codec ''secret'' ?fs" by (simp add: authorised_def byte_codec_def)
  obtain t where t: "serve_one_with_shutdown byte_codec log_ops (0, 0) () ''secret'' ''n'' ?fs idle = Some t"
    by (simp add: serve_one_with_shutdown_def serve_loop_def byte_codec_def do_handshake_def PROTOCOL_MAJOR_def)
  from unauthenticated_peer_reaches_nothing [OF n t [unfolded serve_one_with_shutdown_def]] t
  show ?thesis by (auto simp: idle_def)
qed

section \<open>The bookkeeping of a shutdown\<close>

lemma serve_loop_cases:
  assumes "serve_loop c hooks token nonce frames s = Some t"
  obtains (refused) "sv_shutdown t = sv_shutdown s"
  | (served) rest s1 u where "serve_frames c hooks rest (enter_active s1) = Some u" "t = leave_active u"
      "sv_shutdown s1 = sv_shutdown s"
proof -
  from assms consider "sv_shutdown t = sv_shutdown s"
    | i f rest env where "frames = (i, Inr (Some f)) # rest" "dec_envelope c f = Inr env" "rq_operation env = Hello"
    by (auto simp: serve_loop_def split: list.splits prod.splits sum.splits option.splits if_splits)
  then show thesis
  proof cases
    case 1
    then show thesis by (rule refused)
  next
    case (2 i f rest env)
    obtain r s1 where h: "do_handshake c env token nonce s = (r, s1)" by (cases "do_handshake c env token nonce s")
    note d = do_handshake_frame [OF h]
    show thesis
    proof (cases r)
      case None
      with assms 2 h obtain u where "serve_frames c hooks rest (enter_active s1) = Some u" "t = leave_active u"
        by (auto simp: serve_loop_def)
      with d served show thesis by blast
    next
      case (Some e)
      with assms 2 h d refused show thesis by (auto simp: serve_loop_def)
    qed
  qed
qed

text \<open>A server with a fixed transport never waits for a permit.\<close>

lemma fixed_frames_answer: "\<exists>t. serve_frames c (fixed_hooks c ops anchor nonce tr) fs s = Some t"
proof (induction fs arbitrary: s)
  case (Cons x fs)
  obtain i r where x: "x = (i, r)" by (cases x)
  have "\<exists>b t. serve_frame c (fixed_hooks c ops anchor nonce tr) i f s = Some (b, t)" for f
    by (auto simp: serve_frame_def fixed_hooks_def Let_def split: sum.splits)
  with Cons x show ?case
    by (auto split: sum.splits option.splits bool.splits) (metis (full_types) option.distinct(1))+
qed simp

lemma fixed_server_answers: "\<exists>t. serve_one_with_shutdown c ops anchor tr token nonce fs s = Some t"
proof -
  have "\<exists>u. map_option leave_active (serve_frames c (fixed_hooks c ops anchor nonce tr) rest v) = Some u" for rest v
    using fixed_frames_answer [of c ops anchor nonce tr rest v] by auto
  then show ?thesis
    by (auto simp: serve_one_with_shutdown_def serve_loop_def split: list.splits prod.splits sum.splits option.splits)
qed

text \<open>
  However a connection ends, it leaves the daemon's count of active connections as it found it, and it
  never takes back a shutdown that was requested: the grace period of the shutdown waits for this count.
\<close>
theorem connection_restores_active_count:
  assumes "sv_shutdown s = Some sd" and "serve_loop c hooks token nonce frames s = Some t"
  shows "\<exists>sd'. sv_shutdown t = Some sd' \<and> sd_active sd' = sd_active sd \<and>
    (is_cancelled (sd_token sd) \<longrightarrow> is_cancelled (sd_token sd'))"
  using assms(2)
proof (cases rule: serve_loop_cases)
  case refused
  with assms(1) show ?thesis by auto
next
  case (served rest s1 u)
  from serve_frames_active [OF served(1)] served(2,3) assms(1) show ?thesis
    by (auto simp: same_active_def enter_active_def leave_active_def token_fired_def)
qed

theorem connection_restores_active_count_witness:
  "\<exists>t sd. serve_one_with_shutdown byte_codec log_ops (0, 0) () ''tok'' ''n'' [((), Inr (Some [0])), ((), Inr (Some [1]))] idle
     = Some t \<and> sv_shutdown t = Some sd \<and> sd_active sd = 0"
proof -
  let ?fs = "[((), Inr (Some [0])), ((), Inr (Some [1]))] :: unit input list"
  have "\<exists>t. serve_one_with_shutdown byte_codec log_ops (0, 0) () ''tok'' ''n'' ?fs idle = Some t"
    by (rule fixed_server_answers)
  then obtain t where t: "serve_one_with_shutdown byte_codec log_ops (0, 0) () ''tok'' ''n'' ?fs idle = Some t" by blast
  have "sv_shutdown idle = Some \<lparr>sd_token = token_new, sd_active = 0\<rparr>" by (simp add: idle_def)
  from connection_restores_active_count [OF this t [unfolded serve_one_with_shutdown_def]] t
  show ?thesis by auto
qed

text \<open>
  A \<open>Shutdown\<close> frame fires the token even when its acknowledgement cannot be written, runs nothing and is
  the last frame of its connection; and once the token is fired, no connection takes another frame.
\<close>
theorem shutdown_stops_work:
  assumes "sv_shutdown s \<noteq> None" and "dec_envelope c f = Inr env" and "rq_operation env = Shutdown"
    and "serve_frames c hooks ((i, Inr (Some f)) # rest) s = Some t"
  shows "token_fired t \<and> sv_daemon t = sv_daemon s \<and>
    serve_frames c hooks frames t = Some t"
proof -
  have stop: "token_fired u \<Longrightarrow> serve_frames c hooks frames u = Some u" for u frames
    by (cases frames) (auto simp: serve_frame_def split: sum.splits option.splits)
  have "token_fired t \<and> sv_daemon t = sv_daemon s"
  proof (cases "token_fired s")
    case True
    from stop [OF this, of "(i, Inr (Some f)) # rest"] assms(4) have "t = s" by simp
    with True show ?thesis by simp
  next
    case False
    with assms have "sv_shutdown t = sv_shutdown (fire_token s) \<and> sv_daemon t = sv_daemon s"
      by (auto simp: serve_frame_def Let_def split: sum.splits)
    with token_fired_fire [OF assms(1)] token_fired_shutdown show ?thesis by blast
  qed
  with stop show ?thesis by blast
qed

theorem shutdown_stops_work_witness:
  "\<exists>t. serve_frames byte_codec (fixed_hooks byte_codec log_ops (0, 0) ''n'' ()) [((), Inr (Some [3])), ((), Inr (Some [1]))]
     (idle\<lparr>sv_peer := [Inl (FrameIo ''closed'')]\<rparr>) = Some t \<and> token_fired t \<and> sv_daemon t = []"
proof -
  let ?h = "fixed_hooks byte_codec log_ops (0, 0) ''n'' () :: (unit, nat, unit, string list) server_hooks"
  let ?s = "idle\<lparr>sv_peer := [Inl (FrameIo ''closed'')]\<rparr>"
  define env where "env = projr (dec_envelope byte_codec [3])"
  have e: "dec_envelope byte_codec [3] = Inr env" "rq_operation env = Shutdown"
    by (simp_all add: env_def byte_codec_def)
  obtain t where t: "serve_frames byte_codec ?h [((), Inr (Some [3])), ((), Inr (Some [1]))] ?s = Some t"
    by (rule exE [OF fixed_frames_answer])
  from shutdown_stops_work [OF _ e t] t show ?thesis by (auto simp: idle_def)
qed

section \<open>One answer per frame\<close>

fun request_ids :: "'v codec \<Rightarrow> 'i input list \<Rightarrow> string list" where
  "request_ids c [] = []"
| "request_ids c ((i, r) # rest) =
     (case r of
        Inr (Some f) \<Rightarrow>
          (case dec_envelope c f of
             Inl e \<Rightarrow> [] # request_ids c rest
           | Inr env \<Rightarrow>
               if rq_operation env = Shutdown then [rq_request_id env]
               else rq_request_id env # request_ids c rest)
      | _ \<Rightarrow> [])"

text \<open>
  An encoder that never fails and from whose output the request id can be read; answers that fit a frame.
\<close>

definition encodes_ids :: "'v codec \<Rightarrow> (u8 list \<Rightarrow> string) \<Rightarrow> bool" where
  "encodes_ids c id_of \<longleftrightarrow> (\<forall>r. \<exists>b. enc_response c r = Inr b \<and> id_of b = rs_request_id r)"

definition answers_fit :: "'v codec \<Rightarrow> string set \<Rightarrow> bool" where
  "answers_fit c ids \<longleftrightarrow>
     (\<forall>r b. rs_request_id r \<in> ids \<longrightarrow> enc_response c r = Inr b \<longrightarrow> length b \<le> MAX_FRAME_SIZE)"

definition answered :: "(u8 list \<Rightarrow> string) \<Rightarrow> 'd serving \<Rightarrow> string list \<Rightarrow> 'd serving \<Rightarrow> bool" where
  "answered id_of s ids t \<longleftrightarrow> sv_peer t = [] \<and> map id_of (sv_out t) = map id_of (sv_out s) @ ids"

lemma encodes_write:
  assumes "encodes_ids c id_of" and "answers_fit c ids" and "sv_peer s = []"
    and "enc_response c r = Inr b" and "rs_request_id r \<in> ids"
  shows "write_body b s = (Inr (), s\<lparr>sv_out := sv_out s @ [b]\<rparr>) \<and> id_of b = rs_request_id r"
proof -
  have "length b \<le> MAX_FRAME_SIZE" using assms(2,4,5) unfolding answers_fit_def by blast
  moreover have "id_of b = rs_request_id r"
    using assms(1,4) unfolding encodes_ids_def by (metis Inr_inject)
  ultimately show ?thesis using assms(3) by (simp add: write_body_fine)
qed

lemma encodes_Inr: "encodes_ids c id_of \<Longrightarrow> \<exists>b. enc_response c r = Inr b"
  unfolding encodes_ids_def by blast

lemma reply_fine:
  assumes "encodes_ids c id_of" and "answers_fit c ids" and "sv_peer s = []" and "i \<in> ids"
  shows "answered id_of s [i] (reply c i r s)"
proof -
  obtain b where b: "enc_response c \<lparr>rs_request_id = i, rs_result = r\<rparr> = Inr b"
    using encodes_Inr [OF assms(1)] by blast
  from encodes_write [OF assms(1-3) b] assms(3,4) b show ?thesis
    by (simp add: answered_def reply_def enc_or_empty_def)
qed

lemma serve_access_fine:
  assumes "encodes_ids c id_of" and "answers_fit c ids" and "sv_peer s = []"
    and "rq_request_id env \<in> ids" and "serve_access c hooks env ac s = (b, t)"
  shows "b \<and> answered id_of s [rq_request_id env] t"
proof -
  obtain result d1 where r: "run_dispatch hooks (ac_transport ac) env (sv_daemon s) = (result, d1)"
    by (cases "run_dispatch hooks (ac_transport ac) env (sv_daemon s)")
  obtain body where b: "enc_response c \<lparr>rs_request_id = rq_request_id env, rs_result = result\<rparr> = Inr body"
    using encodes_Inr [OF assms(1)] by blast
  have "sv_peer (s\<lparr>sv_daemon := d2\<rparr>) = []" for d2 using assms(3) by simp
  from encodes_write [OF assms(1,2) this b] assms(3-5) r b show ?thesis
    by (auto simp: serve_access_def Let_def answered_def)
qed

lemma serve_frame_fine:
  assumes "encodes_ids c id_of" and "answers_fit c ids" and "sv_peer s = []" and "\<not> token_fired s"
    and "serve_frame c hooks i f s = Some (b, t)"
  shows "dec_envelope c f = Inl e \<Longrightarrow> [] \<in> ids \<Longrightarrow> b \<and> answered id_of s [[]] t"
    and "dec_envelope c f = Inr env \<Longrightarrow> rq_request_id env \<in> ids \<Longrightarrow>
      b = (rq_operation env \<noteq> Shutdown) \<and> answered id_of s [rq_request_id env] t"
proof -
  assume "dec_envelope c f = Inl e" "[] \<in> ids"
  with assms(4,5) reply_fine [OF assms(1-3)] show "b \<and> answered id_of s [[]] t"
    by (auto simp: serve_frame_def)
next
  assume env: "dec_envelope c f = Inr env" "rq_request_id env \<in> ids"
  show "b = (rq_operation env \<noteq> Shutdown) \<and> answered id_of s [rq_request_id env] t"
  proof (cases "rq_operation env = Shutdown")
    case True
    obtain body where body: "enc_response c \<lparr>rs_request_id = rq_request_id env, rs_result = Ok (val_null c)\<rparr> = Inr body"
      using encodes_Inr [OF assms(1)] by blast
    have "sv_peer (fire_token s) = []" using assms(3) by simp
    from encodes_write [OF assms(1,2) this body] body assms(3-5) env True show ?thesis
      by (auto simp: serve_frame_def answered_def)
  next
    case False
    have p: "sv_peer (s\<lparr>sv_daemon := d\<rparr>) = []" for d using assms(3) by simp
    have a: "answered id_of (s\<lparr>sv_daemon := d\<rparr>) js u \<longleftrightarrow> answered id_of s js u" for d js u
      by (simp add: answered_def)
    from assms(4,5) env False reply_fine [OF assms(1,2) p] show ?thesis
      by (auto simp: serve_frame_def a split: option.splits sum.splits
          dest!: serve_access_fine [OF assms(1,2) p env(2)])
  qed
qed

text \<open>
  While the peer reads and the answers fit a frame, every frame after the handshake is answered
  exactly once, in order, with the request id of its envelope -- the empty id for a frame that does not
  parse -- up to and including the first \<open>Shutdown\<close>.
\<close>
theorem one_answer_per_frame:
  assumes "encodes_ids c id_of" and "answers_fit c (set (request_ids c frames))"
    and "sv_peer s = []" and "sv_shutdown s = None" and "serve_frames c hooks frames s = Some t"
  shows "map id_of (sv_out t) = map id_of (sv_out s) @ request_ids c frames"
  using assms(2-)
proof (induction frames arbitrary: s)
  case (Cons x rest)
  obtain i r where x: "x = (i, r)" by (cases x)
  show ?case
  proof (cases "\<exists>f. r = Inr (Some f)")
    case True
    then obtain f where r: "r = Inr (Some f)" by blast
    with Cons.prems(4) x obtain b u where u: "serve_frame c hooks i f s = Some (b, u)"
      by (auto split: option.splits)
    have nt: "\<not> token_fired s" using Cons.prems(3) by (simp add: token_fired_def)
    have su: "sv_shutdown u = None"
      using serve_frame_shutdown [OF u] Cons.prems(3) by (auto simp: fire_token_def)
    note fine = serve_frame_fine [OF assms(1) Cons.prems(1,2) nt u]
    have rest_answered: "map id_of (sv_out t) = map id_of (sv_out s) @ i # request_ids c rest"
      if "b" "answered id_of s [i] u" "set (request_ids c rest) \<subseteq> set (request_ids c (x # rest))" for i
    proof -
      have "answers_fit c (set (request_ids c rest))"
        using Cons.prems(1) that(3) unfolding answers_fit_def by blast
      with Cons.IH [of u] su that Cons.prems(4) x r u show ?thesis by (auto simp: answered_def)
    qed
    show ?thesis
    proof (cases "dec_envelope c f")
      case (Inl e)
      have "[] \<in> set (request_ids c (x # rest))" using x r Inl by simp
      from fine(1) [OF Inl this] rest_answered [of "[]"] x r Inl show ?thesis by auto
    next
      case (Inr env)
      have "rq_request_id env \<in> set (request_ids c (x # rest))" using x r Inr by simp
      note f2 = fine(2) [OF Inr this]
      show ?thesis
      proof (cases "rq_operation env = Shutdown")
        case True
        with f2 Inr Cons.prems(4) x r u show ?thesis by (simp add: answered_def)
      next
        case False
        with f2 rest_answered [of "rq_request_id env"] x r Inr show ?thesis by auto
      qed
    qed
  next
    case False
    with Cons.prems(4) x show ?thesis by (auto split: sum.splits option.splits)
  qed
qed simp

lemma byte_codec_ids: "encodes_ids byte_codec (map (\<lambda>x. char_of (unat x)))"
proof -
  have "char_of (unat (word_of_nat (of_char c) :: u8)) = c" for c :: char
    by (simp add: unat_of_nat take_bit_nat_def of_char_mod_256)
  then show ?thesis by (simp add: encodes_ids_def byte_codec_def comp_def)
qed

theorem one_answer_per_frame_witness:
  "\<exists>t. serve_frames byte_codec (fixed_hooks byte_codec log_ops (0, 0) ''n'' ())
     [((), Inr (Some [1])), ((), Inr (Some [])), ((), Inr (Some [2]))] (idle\<lparr>sv_shutdown := None\<rparr>) = Some t \<and>
     map (map (\<lambda>x. char_of (unat x))) (sv_out t) = [[CHR 0x01], [], [CHR 0x02]]"
proof -
  let ?fs = "[((), Inr (Some [1])), ((), Inr (Some [])), ((), Inr (Some [2]))] :: unit input list"
  let ?h = "fixed_hooks byte_codec log_ops (0, 0) ''n'' ()"
  obtain t where t: "serve_frames byte_codec ?h ?fs (idle\<lparr>sv_shutdown := None\<rparr>) = Some t"
    by (rule exE [OF fixed_frames_answer])
  have chars: "char_of (Suc 0) = CHR 0x01" "char_of (2 :: nat) = CHR 0x02" by code_simp+
  have ids: "request_ids byte_codec ?fs = [[CHR 0x01], [], [CHR 0x02]]"
    by (simp add: byte_codec_def chars)
  have "answers_fit byte_codec (set (request_ids byte_codec ?fs))"
    unfolding ids by (auto simp: answers_fit_def byte_codec_def MAX_FRAME_SIZE_def)
  from one_answer_per_frame [OF byte_codec_ids this _ _ t] t ids show ?thesis
    by (simp add: idle_def)
qed

end
