(* ===== verification/Server_Pooled.thy ===== *)
theory Server_Pooled
  imports Server_Facts
begin

text \<open>
  The pooled server of \<open>src/transport/ipc/server.rs\<close> (\<open>serve_one_pooled\<close>): permits, evictions, and what an
  identity challenge costs.
\<close>

lemma nth_update_keep: "sel y = sel (xs ! j) \<Longrightarrow> sel (xs[j := y] ! i) = sel (xs ! i)"
  by (cases "i = j"; cases "j < length xs") (auto simp: list_update_beyond)

lemma set_scheduler_endpoint [simp]: "slot_endpoint (set_scheduler sid sc p) i = slot_endpoint p i"
  by (simp add: slot_endpoint_def set_scheduler_def nth_update_keep)

lemma set_scheduler_slots [simp]:
  "p_slots (set_scheduler sid sc p) = p_slots p" "length (p_heap (set_scheduler sid sc p)) = length (p_heap p)"
  by (simp_all add: set_scheduler_def)

lemma set_scheduler_get [simp]: "pool_get (set_scheduler sid sc p) k = pool_get p k"
  by (cases "map_of (p_slots p) k") (simp_all add: pool_get_def)

lemma set_scheduler_ok [simp]: "pool_ok (set_scheduler sid sc p) = pool_ok p"
  by (simp add: pool_ok_def)

lemma set_scheduler_read:
  "sid < length (p_heap p) \<Longrightarrow> slot_scheduler (set_scheduler sid sc p) i = (if i = sid then sc else slot_scheduler p i)"
  by (simp add: slot_scheduler_def set_scheduler_def nth_list_update)

lemma drop_access_pool [simp]:
  "pool_get (d_pool (drop_access ac d)) k = pool_get (d_pool d) k"
  "pool_ok (d_pool (drop_access ac d)) = pool_ok (d_pool d)" "d_world (drop_access ac d) = d_world d"
  by (auto simp: drop_access_def split: option.splits)

lemma evict_schedulers [simp]: "slot_scheduler (snd (remove_if_matches k g p)) i = slot_scheduler p i"
  by (auto simp: remove_if_matches_def slot_clear_def set_endpoint_def slot_scheduler_def nth_update_keep
      split: option.splits)

section \<open>The access of a request\<close>

lemma pooled_access:
  assumes "pool_ok (d_pool d)" and "pooled_transport_for anchor key l i env d = Some (Inr ac, d')"
  obtains ep where "pool_get (d_pool d') key = Some ep" "ac_transport ac = ep_transport ep"
    "ac_generation ac = ep_generation ep" "pool_ok (d_pool d')" "d_world d' = d_world d"
    "ac_permit ac = (if uses_transport (rq_operation env) then Some (ep_scheduler ep) else None)"
    "\<And>j. j \<noteq> key \<Longrightarrow> pool_get (d_pool d') j = pool_get (d_pool d) j"
proof -
  obtain called r p where g: "pool_get_or_create key l (in_factory i) (d_pool d) = (called, r, p)"
    by (cases "pool_get_or_create key l (in_factory i) (d_pool d)")
  with assms(2) obtain ep where r: "r = Inr ep"
    by (cases r) (auto simp: pooled_transport_for_def)
  note ok = get_or_create_ok [OF assms(1) g] and oth = get_or_create_other [OF assms(1) g]
    and get = get_or_create_Inr [OF assms(1) g [unfolded r]]
  from assms(2) g r ok get oth show thesis
    by (intro that [of ep]) (auto simp: pooled_transport_for_def split: if_splits option.splits sum.splits)
qed

text \<open>
  A request on a pooled connection evicts it exactly when its reply is a connection-level error, leaves
  the connections of other keys alone, and gives its permit back to the scheduler it took it from; a request
  that does not use the transport takes none.
\<close>
theorem pooled_request_evicts_and_releases:
  assumes "pool_ok (d_pool (sv_daemon s))"
    and "pooled_transport_for anchor key l i env (sv_daemon s) = Some (Inr ac, d)"
    and "serve_access c (pooled_hooks c ops anchor key l nonce) env ac (s\<lparr>sv_daemon := d\<rparr>) = (b, t)"
  shows "\<exists>ep. pool_get (d_pool d) key = Some ep \<and>
    pool_get (d_pool (sv_daemon t)) key =
      (if is_evicting (fst (dispatch c ops anchor nonce (ep_transport ep) env (d_world d))) then None else Some ep) \<and>
    (\<forall>j. j \<noteq> key \<longrightarrow> pool_get (d_pool (sv_daemon t)) j = pool_get (d_pool (sv_daemon s)) j) \<and>
    slot_scheduler (d_pool (sv_daemon t)) (ep_scheduler ep) =
      (if uses_transport (rq_operation env) then release (slot_scheduler (d_pool d) (ep_scheduler ep)) Normal
       else slot_scheduler (d_pool d) (ep_scheduler ep))"
proof -
  from pooled_access [OF assms(1,2)] obtain ep where a: "pool_get (d_pool d) key = Some ep"
    "ac_transport ac = ep_transport ep" "ac_generation ac = ep_generation ep" "pool_ok (d_pool d)"
    "ac_permit ac = (if uses_transport (rq_operation env) then Some (ep_scheduler ep) else None)"
    "\<And>j. j \<noteq> key \<Longrightarrow> pool_get (d_pool d) j = pool_get (d_pool (sv_daemon s)) j" by metis
  obtain result w where r: "dispatch c ops anchor nonce (ep_transport ep) env (d_world d) = (result, w)"
    by (cases "dispatch c ops anchor nonce (ep_transport ep) env (d_world d)")
  define d2 where "d2 = (if is_evicting result then pooled_on_error key (ep_generation ep) (d\<lparr>d_world := w\<rparr>)
    else d\<lparr>d_world := w\<rparr>)"
  have t: "sv_daemon t = drop_access ac d2"
    using assms(3) a(2,3) r
    by (auto simp: serve_access_def pooled_hooks_def Let_def d2_def split: prod.splits if_splits
        dest!: arg_cong [where f = "\<lambda>x. sv_daemon (snd x)"])
  obtain e q where eq: "remove_if_matches key (ep_generation ep) (d_pool d) = (e, q)"
    by (cases "remove_if_matches key (ep_generation ep) (d_pool d)")
  have e: "e" using remove_if_matches_iff [of key "ep_generation ep" "d_pool d"] a(1) eq by simp
  have lt: "ep_scheduler ep < length (p_heap (d_pool d))"
    using a(1,4) pool_ok_slot pool_ok_endpoint by (fastforce simp: pool_get_def bind_eq_Some_conv)
  have q: "length (p_heap q) = length (p_heap (d_pool d))" "slot_scheduler q j = slot_scheduler (d_pool d) j" for j
    using eq evict_schedulers [of key "ep_generation ep" "d_pool d" j]
    by (auto simp: remove_if_matches_def slot_clear_def split: option.splits if_splits)
  have d2: "d_pool d2 = (if is_evicting result then q else d_pool d)"
    by (simp add: d2_def pooled_on_error_def eq)
  show ?thesis
  proof (intro exI [of _ ep] conjI allI impI)
    show "pool_get (d_pool d) key = Some ep" by (rule a(1))
    show "pool_get (d_pool (sv_daemon t)) key =
      (if is_evicting (fst (dispatch c ops anchor nonce (ep_transport ep) env (d_world d))) then None else Some ep)"
      using a(1) e remove_if_matches_get [OF a(4) eq] by (simp add: t d2 r)
    show "j \<noteq> key \<Longrightarrow> pool_get (d_pool (sv_daemon t)) j = pool_get (d_pool (sv_daemon s)) j" for j
      using a(6) remove_if_matches_get [OF a(4) eq] by (simp add: t d2)
    show "slot_scheduler (d_pool (sv_daemon t)) (ep_scheduler ep) =
      (if uses_transport (rq_operation env) then release (slot_scheduler (d_pool d) (ep_scheduler ep)) Normal
       else slot_scheduler (d_pool d) (ep_scheduler ep))"
      using a(5) lt q by (simp add: t d2 drop_access_def set_scheduler_read)
  qed
qed

text \<open>
  On the pooled server an identity challenge needs a connection: when the key has none and the factory
  fails, the challenge is answered with the factory's error instead of the nonce, although dispatching it
  would not touch the transport -- the server with a fixed transport answers it.
\<close>
theorem challenge_needs_connection:
  assumes "pool_ok (d_pool (sv_daemon s))" and "pool_get (d_pool (sv_daemon s)) key = None"
    and "is_ok (scheduler_new l)" and "in_factory i = Inl e" and "\<not> token_fired s"
    and "dec_envelope c f = Inr env" and "rq_operation env = Challenge"
  shows "\<exists>d. serve_frame c (pooled_hooks c ops anchor key l nonce) i f s =
      Some (True, reply c (rq_request_id env) (Err (ipc_of_transport e)) (s\<lparr>sv_daemon := d\<rparr>)) \<and>
    dispatch c ops anchor nonce t env w =
      (case val_challenge c \<lparr>ca_daemon_nonce = nonce\<rparr> of Inr v \<Rightarrow> Ok v | Inl m \<Rightarrow> Err (IpcLocalIo m), w)"
proof -
  obtain called r p where g: "pool_get_or_create key l (in_factory i) (d_pool (sv_daemon s)) = (called, r, p)"
    by (cases "pool_get_or_create key l (in_factory i) (d_pool (sv_daemon s))")
  from get_or_create_contract [OF assms(1,3) g] assms(2,4) have "r = Inl e" by (auto split: sum.splits)
  with g assms(4-7) show ?thesis
    by (auto simp: serve_frame_def pooled_hooks_def pooled_transport_for_def dispatch_def)
qed

section \<open>Examples\<close>

definition pooled_idle :: "(unit, string list) daemon serving" where
  "pooled_idle = \<lparr>sv_daemon = \<lparr>d_pool = pool_new, d_world = []\<rparr>, sv_peer = [], sv_out = [], sv_shutdown = None\<rparr>"

theorem challenge_needs_connection_witness:
  "\<exists>d. serve_frame byte_codec (pooled_hooks byte_codec log_ops (0, 0) sample_key default_limits ''n'')
     \<lparr>in_factory = Inl (ConnectionFailed ''no route''), in_now = 0, in_turns = []\<rparr> [2] pooled_idle =
   Some (True, reply byte_codec [CHR 0x02] (Err (IpcConnectionFailed ''no route'')) (pooled_idle\<lparr>sv_daemon := d\<rparr>))"
proof -
  define env where "env = projr (dec_envelope byte_codec [2])"
  have env: "dec_envelope byte_codec [2] = Inr env" "rq_operation env = Challenge" "rq_request_id env = [CHR 0x02]"
    by (simp_all add: env_def byte_codec_def) code_simp
  let ?i = "\<lparr>in_factory = Inl (ConnectionFailed ''no route''), in_now = 0, in_turns = []\<rparr> :: unit request_input"
  have p: "pool_ok (d_pool (sv_daemon pooled_idle))" "pool_get (d_pool (sv_daemon pooled_idle)) sample_key = None"
    "\<not> token_fired pooled_idle" "in_factory ?i = Inl (ConnectionFailed ''no route'')"
    by (simp_all add: pooled_idle_def token_fired_def pool_get_def) (simp add: pool_new_def)
  have e: "ipc_of_transport (ConnectionFailed ''no route'') = IpcConnectionFailed ''no route''" by simp
  show ?thesis
    using challenge_needs_connection [OF p(1,2) default_limits_ok p(4,3) env(1,2)] unfolding env(3) e by blast
qed

definition quick_input :: "unit request_input" where
  "quick_input =
     \<lparr>in_factory = Inr (), in_now = 0, in_turns = [\<lparr>turn_others = id, turn_t1 = 0, turn_t2 = 0, turn_t3 = 0\<rparr>]\<rparr>"

lemma first_permit:
  "\<exists>sc. acquire (projr (scheduler_new default_limits)) Normal r d 0 (in_turns quick_input) = Some (Inr (), sc)"
  by (simp add: quick_input_def acquire_def acquire_enqueue_def acquire_poll_def chosen_seq_def choose_step_def
      effective_priority_def can_admit_def scheduler_new_def validate_def default_limits_def)

lemma first_access:
  "\<exists>ac d. pooled_transport_for (0, 0) sample_key default_limits quick_input env (sv_daemon pooled_idle) = Some (Inr ac, d)"
proof -
  obtain sc where sc: "scheduler_new default_limits = Inr sc" using default_limits_ok by (auto simp: is_ok_def)
  obtain sc' where "acquire sc Normal (rq_request_id env) (from_unix_ms (0, 0) (rq_deadline_unix_ms env)) 0
      (in_turns quick_input) = Some (Inr (), sc')"
    using first_permit [of "rq_request_id env"] sc by auto
  with sc show ?thesis
    by (simp add: pooled_transport_for_def pooled_idle_def pool_get_or_create_def pool_slot_for_def pool_new_def
        slot_new_def slot_get_or_create_def slot_endpoint_def Let_def quick_input_def slot_scheduler_def
        set_endpoint_def)
qed

theorem pooled_request_evicts_and_releases_witness:
  "\<exists>ac d b t. pooled_transport_for (0, 0) sample_key default_limits quick_input sample_envelope
       (sv_daemon pooled_idle) = Some (Inr ac, d) \<and>
     serve_access byte_codec (pooled_hooks byte_codec log_ops (0, 0) sample_key default_limits ''n'')
       sample_envelope ac (pooled_idle\<lparr>sv_daemon := d\<rparr>) = (b, t) \<and>
     pool_get (d_pool d) sample_key \<noteq> None \<and> pool_get (d_pool (sv_daemon t)) sample_key = None"
proof -
  obtain ac d where a: "pooled_transport_for (0, 0) sample_key default_limits quick_input sample_envelope
      (sv_daemon pooled_idle) = Some (Inr ac, d)" using first_access by blast
  obtain b t where t: "serve_access byte_codec (pooled_hooks byte_codec log_ops (0, 0) sample_key default_limits ''n'')
      sample_envelope ac (pooled_idle\<lparr>sv_daemon := d\<rparr>) = (b, t)" by (meson surj_pair)
  have p: "pool_ok (d_pool (sv_daemon pooled_idle))" by (simp add: pooled_idle_def)
  have "is_evicting (fst (dispatch byte_codec log_ops (0, 0) ''n'' () sample_envelope w))" for w
    by (simp add: dispatch_def sample_envelope_def byte_codec_def log_ops_def is_evicting_def Let_def)
  with pooled_request_evicts_and_releases [OF p a t] a t show ?thesis by auto
qed

end
