(* ===== verification/Ownership.thy ===== *)
theory Ownership
  imports Resolve
begin

text \<open>
  The records of \<open>src/models.rs\<close> that describe a session and a tunnel, the command context of
  \<open>src/context.rs\<close>, and its rule for which sessions and tunnels belong to the selected target.
\<close>

section \<open>Sessions and tunnels\<close>

record session_info =
  si_id :: string
  si_port :: u16
  si_pid :: u32
  si_host :: string
  si_user :: string
  si_created :: string
  si_daemon_user :: "string option"
  si_daemon_version :: "string option"

record tunnel_state =
  ts_version :: u32
  ts_port :: u16
  ts_pid :: u32
  ts_remote_host :: string
  ts_setup_path :: "string option"
  ts_profile :: "string option"
  ts_backend :: "string option"
  ts_daemon_nonce :: "string option"
  ts_executable_path :: "string option"
  ts_start_identity :: "u64 option"
  ts_ipc_endpoint :: "string option"
  ts_token_path :: "string option"
  ts_local_forward :: "string option"
  ts_start_time_unix_ms :: "u64 option"
  ts_health :: "string option"
  ts_config_digest :: "string option"
  ts_mode :: "string option"
  ts_attached_remote_port :: "u16 option"
  ts_remote_bridge_port :: "u16 option"
  ts_attached_session_id :: "string option"

definition TUNNEL_MODE_DEPLOYED :: string where "TUNNEL_MODE_DEPLOYED = ''deployed''"
definition TUNNEL_MODE_ATTACHED :: string where "TUNNEL_MODE_ATTACHED = ''attached''"
definition CURRENT_STATE_VERSION :: u32 where "CURRENT_STATE_VERSION = 2"

definition backend_or_openssh :: "tunnel_state \<Rightarrow> string" where
  "backend_or_openssh st = (case ts_backend st of Some b \<Rightarrow> b | None \<Rightarrow> ''openssh'')"

definition is_v2 :: "tunnel_state \<Rightarrow> bool" where
  "is_v2 st \<longleftrightarrow> CURRENT_STATE_VERSION \<le> ts_version st"

definition tunnel_mode :: "tunnel_state \<Rightarrow> string" where
  "tunnel_mode st = (case ts_mode st of Some m \<Rightarrow> m | None \<Rightarrow> TUNNEL_MODE_DEPLOYED)"

text \<open>The remote port a tunnel leads to: recorded by attach, or the local port of a legacy file.\<close>

definition tunnel_remote_port :: "tunnel_state \<Rightarrow> u16" where
  "tunnel_remote_port st =
     (case ts_remote_bridge_port st of
        Some p \<Rightarrow> p
      | None \<Rightarrow> (case ts_attached_remote_port st of Some p \<Rightarrow> p | None \<Rightarrow> ts_port st))"

section \<open>The command context\<close>

record command_context =
  cx_config :: config
  cx_target_id :: "string option"
  cx_config_digest :: string

definition context_new :: "(string \<Rightarrow> string) \<Rightarrow> config \<Rightarrow> string option \<Rightarrow> command_context" where
  "context_new sha256_hex cfg target_id =
     \<lparr>cx_config = cfg, cx_target_id = target_id, cx_config_digest = config_digest sha256_hex cfg\<rparr>"

definition from_resolved :: "(string \<Rightarrow> string) \<Rightarrow> resolved_target \<Rightarrow> command_context" where
  "from_resolved sha256_hex r = context_new sha256_hex (rt_config r) (rt_name r)"

definition is_loopback :: "string \<Rightarrow> bool" where
  "is_loopback h \<longleftrightarrow> h = ''127.0.0.1'' \<or> h = ''localhost'' \<or> h = ''::1''"

definition quoted :: "string \<Rightarrow> string" where
  "quoted s = [CHR 0x27] @ s @ [CHR 0x27]"

definition validate_endpoint_ownership ::
    "command_context \<Rightarrow> string \<Rightarrow> string \<Rightarrow> string \<Rightarrow> u16 \<Rightarrow> virtuoso_error + unit" where
  "validate_endpoint_ownership ctx kind i host p =
     (case cx_target_id ctx of
        None \<Rightarrow> Inr ()
      | Some target \<Rightarrow>
          (let target_host = or_empty (remote_host (cx_config ctx))
           in if \<not> is_loopback target_host \<and> target_host \<noteq> [] \<and> host \<noteq> target_host then
                Inl (Config (kind @ '' '' @ quoted i @ '' belongs to host '' @ quoted host @ '' but target '' @
                  quoted target @ '' resolves to '' @ quoted target_host @
                  ''; refusing to reuse the wrong '' @ kind @ '' (run `vcli session list`)''))
              else if port_explicit (cx_config ctx) \<and> port (cx_config ctx) \<noteq> 0 \<and> p \<noteq> port (cx_config ctx) then
                Inl (Config (kind @ '' '' @ quoted i @ '' is on bridge port '' @ show_nat (unat p) @
                  '' but target '' @ quoted target @ '' uses port '' @ show_nat (unat (port (cx_config ctx))) @
                  ''; refusing to reuse the wrong '' @ kind))
              else Inr ()))"

definition validate_session_ownership :: "command_context \<Rightarrow> session_info \<Rightarrow> virtuoso_error + unit" where
  "validate_session_ownership ctx s =
     validate_endpoint_ownership ctx ''session'' (si_id s) (si_host s) (si_port s)"

definition validate_tunnel_ownership :: "command_context \<Rightarrow> tunnel_state \<Rightarrow> virtuoso_error + unit" where
  "validate_tunnel_ownership ctx st =
     validate_endpoint_ownership ctx ''tunnel'' (show_nat (unat (ts_port st))) (ts_remote_host st)
       (tunnel_remote_port st)"

section \<open>What belongs to a target\<close>

text \<open>The rule as a predicate on the endpoint: what the validations accept.\<close>

definition owns_endpoint :: "command_context \<Rightarrow> string \<Rightarrow> u16 \<Rightarrow> bool" where
  "owns_endpoint ctx host p \<longleftrightarrow>
     cx_target_id ctx = None \<or>
     ((is_loopback (or_empty (remote_host (cx_config ctx))) \<or> or_empty (remote_host (cx_config ctx)) \<in> {[], host}) \<and>
      (port_explicit (cx_config ctx) \<longrightarrow> port (cx_config ctx) \<in> {0, p}))"

lemma validate_endpoint_iff: "is_ok (validate_endpoint_ownership ctx kind i host p) \<longleftrightarrow> owns_endpoint ctx host p"
  by (auto simp: validate_endpoint_ownership_def owns_endpoint_def Let_def split: option.splits)

lemma validate_session_iff:
  "is_ok (validate_session_ownership ctx s) \<longleftrightarrow> owns_endpoint ctx (si_host s) (si_port s)"
  by (simp add: validate_session_ownership_def validate_endpoint_iff)

lemma validate_tunnel_iff:
  "is_ok (validate_tunnel_ownership ctx st) \<longleftrightarrow> owns_endpoint ctx (ts_remote_host st) (tunnel_remote_port st)"
  by (simp add: validate_tunnel_ownership_def validate_endpoint_iff)

lemma validate_ownership_error:
  "validate_endpoint_ownership ctx kind i host p = Inl e \<Longrightarrow> \<exists>m. e = Config m"
  by (auto simp: validate_endpoint_ownership_def Let_def split: option.splits if_splits)

lemma owns_endpoint_separates_hosts:
  assumes "cx_target_id a = Some t" "remote_host (cx_config a) = Some h"
    and "\<not> is_loopback h" "h \<noteq> []" "owns_endpoint a host p"
  shows "host = h"
  using assms by (auto simp: owns_endpoint_def or_empty_def)

end
