(* ===== verification/Daemon_Lifecycle.thy ===== *)
theory Daemon_Lifecycle
  imports Identity Ownership Dispatch
begin

text \<open>
  \<open>src/transport/daemon_lifecycle.rs\<close>: whether a recorded daemon is alive, hung, gone or unknown.
  Tier 1 is a nonce challenge over IPC, tier 2 the operating-system identity.  The IPC client, the token
  file and the process table are arguments that act on, or look at, a world \<open>'w\<close>.
\<close>

section \<open>The IPC client\<close>

record ('c, 'w) ipc_ops =
  read_token :: "string \<Rightarrow> 'w \<Rightarrow> string option"
  ic_connect :: "string \<Rightarrow> string \<Rightarrow> string \<Rightarrow> 'w \<Rightarrow> (virtuoso_error + 'c) \<times> 'w"
  ic_challenge :: "'c \<Rightarrow> 'w \<Rightarrow> (virtuoso_error + challenge_ack) \<times> 'w"
  ic_shutdown :: "'c \<Rightarrow> 'w \<Rightarrow> (virtuoso_error + unit) \<times> 'w"

definition nonblank :: "string option \<Rightarrow> string option" where
  "nonblank x = (case x of Some s \<Rightarrow> if s \<noteq> [] then Some s else None | None \<Rightarrow> None)"

text \<open>
  What both functions do first: the recorded endpoint, token and nonce, a connection, and the challenge on
  it.  The connection is returned only when the daemon echoed the recorded nonce.
\<close>

definition open_challenged :: "('c, 'w) ipc_ops \<Rightarrow> tunnel_state \<Rightarrow> 'w \<Rightarrow> 'c option \<times> 'w" where
  "open_challenged ops st w =
     (case nonblank (ts_ipc_endpoint st) of
        None \<Rightarrow> (None, w)
      | Some endpoint \<Rightarrow>
     (case nonblank (ts_token_path st) of
        None \<Rightarrow> (None, w)
      | Some token_path \<Rightarrow>
     (case nonblank (ts_daemon_nonce st) of
        None \<Rightarrow> (None, w)
      | Some expected_nonce \<Rightarrow>
     (case read_token ops token_path w of
        None \<Rightarrow> (None, w)
      | Some token \<Rightarrow>
     (case ic_connect ops endpoint (or_empty (ts_profile st)) (trim token) w of
        (Inl e, w1) \<Rightarrow> (None, w1)
      | (Inr client, w1) \<Rightarrow>
          (case ic_challenge ops client w1 of
             (Inr ack, w2) \<Rightarrow> (if ca_daemon_nonce ack = expected_nonce then Some client else None, w2)
           | (Inl e, w2) \<Rightarrow> (None, w2)))))))"

definition challenge_via_ipc :: "('c, 'w) ipc_ops \<Rightarrow> tunnel_state \<Rightarrow> 'w \<Rightarrow> bool \<times> 'w" where
  "challenge_via_ipc ops st w = (case open_challenged ops st w of (c, w') \<Rightarrow> (c \<noteq> None, w'))"

definition shutdown_via_ipc :: "('c, 'w) ipc_ops \<Rightarrow> tunnel_state \<Rightarrow> 'w \<Rightarrow> bool \<times> 'w" where
  "shutdown_via_ipc ops st w =
     (case open_challenged ops st w of
        (None, w1) \<Rightarrow> (False, w1)
      | (Some client, w1) \<Rightarrow> (case ic_shutdown ops client w1 of (r, w2) \<Rightarrow> (is_ok r, w2)))"

section \<open>The verdict\<close>

datatype verdict = Alive | UnresponsiveButIdentified | Stale | VUnverifiable string

definition may_signal :: "verdict \<Rightarrow> bool" where
  "may_signal v \<longleftrightarrow> v = UnresponsiveButIdentified"

definition may_clear_state :: "verdict \<Rightarrow> bool" where
  "may_clear_state v \<longleftrightarrow> v = Stale"

definition recorded_identity :: "tunnel_state \<Rightarrow> process_identity option" where
  "recorded_identity st =
     (case ts_start_identity st of
        None \<Rightarrow> None
      | Some start \<Rightarrow>
          (case ts_executable_path st of
             None \<Rightarrow> None
           | Some path \<Rightarrow> Some \<lparr>executable_path = path, id_pid = ts_pid st, start_identity = start\<rparr>))"

definition record_identity :: "tunnel_state \<Rightarrow> process_identity \<Rightarrow> tunnel_state" where
  "record_identity st i =
     st\<lparr>ts_executable_path := Some (executable_path i), ts_pid := id_pid i,
        ts_start_identity := Some (start_identity i)\<rparr>"

definition second_tier :: "platform \<Rightarrow> tunnel_state \<Rightarrow> verdict" where
  "second_tier os st =
     (case recorded_identity st of
        None \<Rightarrow> VUnverifiable ''state records no process identity (v1 or OpenSSH state)''
      | Some recorded \<Rightarrow>
          (case authorize_signal os recorded of
             Inr u \<Rightarrow> UnresponsiveButIdentified
           | Inl (ProcessGone p) \<Rightarrow> Stale
           | Inl (Mismatch r l) \<Rightarrow> Stale
           | Inl (Unverifiable e) \<Rightarrow> VUnverifiable (display_identity_error e)))"

text \<open>\<open>os\<close> is the process table as the world is when it is read.\<close>

definition assess ::
    "('w \<Rightarrow> platform) \<Rightarrow> tunnel_state \<Rightarrow> (string \<Rightarrow> 'w \<Rightarrow> bool \<times> 'w) \<Rightarrow> 'w \<Rightarrow> verdict \<times> 'w" where
  "assess os st challenge w =
     (case (case ts_daemon_nonce st of None \<Rightarrow> (False, w) | Some nonce \<Rightarrow> challenge nonce w) of
        (True, w1) \<Rightarrow> (Alive, w1)
      | (False, w1) \<Rightarrow> (second_tier (os w1) st, w1))"

section \<open>Facts\<close>

lemma nonblank_Some [simp]: "nonblank x = Some s \<longleftrightarrow> x = Some s \<and> s \<noteq> []"
  by (auto simp: nonblank_def split: option.splits)

lemma open_challenged_SomeE:
  assumes "open_challenged ops st w = (Some c, w')"
  obtains endpoint path nonce token w1 ack where
    "ts_ipc_endpoint st = Some endpoint" "ts_token_path st = Some path" "ts_daemon_nonce st = Some nonce"
    "nonce \<noteq> []" "read_token ops path w = Some token"
    "ic_connect ops endpoint (or_empty (ts_profile st)) (trim token) w = (Inr c, w1)"
    "ic_challenge ops c w1 = (Inr ack, w')" "ca_daemon_nonce ack = nonce"
  using assms by (auto simp: open_challenged_def split: option.splits prod.splits sum.splits if_splits)

lemma recorded_record [simp]: "recorded_identity (record_identity st i) = Some i"
  by (simp add: recorded_identity_def record_identity_def)

lemma recorded_identity_pid: "recorded_identity st = Some r \<Longrightarrow> id_pid r = ts_pid st"
  by (auto simp: recorded_identity_def split: option.splits)

lemma recorded_identity_None:
  "recorded_identity st = None \<longleftrightarrow> ts_start_identity st = None \<or> ts_executable_path st = None"
  by (auto simp: recorded_identity_def split: option.splits)

lemma may_signal_clear_exclusive: "\<not> (may_signal v \<and> may_clear_state v)"
  by (simp add: may_signal_def may_clear_state_def)

lemma second_tier_not_alive [simp]: "second_tier os st \<noteq> Alive"
  by (simp add: second_tier_def split: option.splits sum.splits refusal.splits)

lemma second_tier_signal:
  "second_tier os st = UnresponsiveButIdentified \<longleftrightarrow>
     (\<exists>r. recorded_identity st = Some r \<and> of_pid os (ts_pid st) = Inr r \<and>
          start_identity r \<noteq> 0 \<and> executable_path r \<noteq> [])"
  by (cases "recorded_identity st")
     (auto simp: second_tier_def authorize_signal_def identity_matches_iff
        dest: recorded_identity_pid split: sum.splits refusal.splits identity_error.splits if_splits)

lemma second_tier_stale:
  "second_tier os st = Stale \<longleftrightarrow>
     (\<exists>r. recorded_identity st = Some r \<and>
        (of_pid os (ts_pid st) = Inl (NoSuchProcess (ts_pid st)) \<or>
         (\<exists>live. of_pid os (ts_pid st) = Inr live \<and> \<not> identity_matches live r)))"
proof (cases "recorded_identity st")
  case None
  then show ?thesis by (simp add: second_tier_def)
next
  case (Some r)
  then have "id_pid r = ts_pid st" by (rule recorded_identity_pid)
  with Some show ?thesis
    by (auto simp: second_tier_def authorize_signal_def dest: of_pid_gone_pid
        split: sum.splits refusal.splits identity_error.splits if_splits)
qed

definition answered :: "tunnel_state \<Rightarrow> (string \<Rightarrow> 'w \<Rightarrow> bool \<times> 'w) \<Rightarrow> 'w \<Rightarrow> bool" where
  "answered st challenge w \<longleftrightarrow> (case ts_daemon_nonce st of None \<Rightarrow> False | Some nonce \<Rightarrow> fst (challenge nonce w))"

lemma assess_cases:
  "fst (assess os st challenge w) =
     (if answered st challenge w then Alive else second_tier (os (snd (assess os st challenge w))) st)"
  by (simp add: assess_def answered_def split: option.splits prod.splits bool.splits)

section \<open>Properties\<close>

text \<open>
  The verdict is exact.  A daemon is alive when it answered the recorded nonce; a forced signal is
  authorized only when it did not answer and the process table shows the recorded identity; the state is
  stale only when it did not answer and the recorded process is absent or another one.
\<close>

theorem assess_exact:
  "let v = fst (assess os st challenge w); now = os (snd (assess os st challenge w)); a = answered st challenge w
   in (v = Alive \<longleftrightarrow> a) \<and>
      (may_signal v \<longleftrightarrow> \<not> a \<and> (\<exists>r. recorded_identity st = Some r \<and> of_pid now (ts_pid st) = Inr r \<and>
         start_identity r \<noteq> 0 \<and> executable_path r \<noteq> [])) \<and>
      (may_clear_state v \<longleftrightarrow> \<not> a \<and> (\<exists>r. recorded_identity st = Some r \<and>
         (of_pid now (ts_pid st) = Inl (NoSuchProcess (ts_pid st)) \<or>
          (\<exists>live. of_pid now (ts_pid st) = Inr live \<and> \<not> identity_matches live r))))"
  unfolding Let_def assess_cases may_signal_def may_clear_state_def
  using second_tier_signal second_tier_stale by auto

text \<open>
  A daemon whose executable was replaced while it runs (Linux then reports its path with
  \<open>(deleted)\<close>) and that does not answer is judged gone: the same pid with the same start
  marker is running, and the verdict lets its state be cleared.
\<close>

theorem replaced_binary_judged_gone:
  assumes "recorded_identity st = Some r" "\<not> answered st challenge w"
    and "of_pid (os (snd (assess os st challenge w))) (ts_pid st) =
      Inr (r\<lparr>executable_path := executable_path r @ '' (deleted)''\<rparr>)"
  shows "fst (assess os st challenge w) = Stale \<and> may_clear_state (fst (assess os st challenge w))"
proof -
  have "\<not> identity_matches (r\<lparr>executable_path := executable_path r @ '' (deleted)''\<rparr>) r"
    by (simp add: identity_matches_def)
  with assms have "second_tier (os (snd (assess os st challenge w))) st = Stale"
    unfolding second_tier_stale by blast
  with assms(2) show ?thesis
    by (simp add: assess_cases may_clear_state_def)
qed

definition plain_tunnel :: tunnel_state where
  "plain_tunnel =
     \<lparr>ts_version = 2, ts_port = 3000, ts_pid = 42, ts_remote_host = ''h'', ts_setup_path = None,
      ts_profile = None, ts_backend = None, ts_daemon_nonce = None, ts_executable_path = None,
      ts_start_identity = None, ts_ipc_endpoint = None, ts_token_path = None, ts_local_forward = None,
      ts_start_time_unix_ms = None, ts_health = None, ts_config_digest = None, ts_mode = None,
      ts_attached_remote_port = None, ts_remote_bridge_port = None, ts_attached_session_id = None\<rparr>"

definition sample_identity :: process_identity where
  "sample_identity = \<lparr>executable_path = ''/bin/d'', id_pid = 42, start_identity = 7\<rparr>"

text \<open>A Linux on which every pid has the given path and start marker 7.\<close>

definition one_process :: "string \<Rightarrow> platform" where
  "one_process path = Linux \<lparr>
     lp_stat = (\<lambda>p. Inr (''1 (d'' @ '')'' @ '' '' @ join '' '' (replicate 19 ''0'' @ [show_nat 7]) @ [CHR 0x0A])),
     lp_exe = (\<lambda>p. Inr path), lp_cmdline = (\<lambda>p. Inr path)\<rparr>"

lemma of_pid_one_process:
  "of_pid (one_process path) pid = Inr \<lparr>executable_path = path, id_pid = pid, start_identity = 7\<rparr>"
proof -
  have "list_all (\<lambda>f. f \<noteq> [] \<and> list_all (\<lambda>c. \<not> is_space c \<and> c \<noteq> CHR '')'') f)
      (replicate 19 ''0'' @ [show_nat 7])"
    by code_simp
  then have "stat_starttime (''1 (d'' @ '')'' @ '' '' @ join '' '' (replicate 19 ''0'' @ [show_nat 7]) @ [CHR 0x0A])
      = Some (of_nat 7)"
    by (rule stat_starttime_any_comm) (simp_all add: nth_append)
  then show ?thesis
    by (simp only: one_process_def of_pid.simps linux_of_pid_def linux_proc.simps sum.case option.case) simp
qed

lemma replaced_binary_judged_gone_witness:
  "fst (assess (\<lambda>w. one_process ''/bin/d (deleted)'') (record_identity plain_tunnel sample_identity)
       (\<lambda>n w. (False, w)) ()) = Stale \<and>
   may_clear_state (fst (assess (\<lambda>w. one_process ''/bin/d (deleted)'')
       (record_identity plain_tunnel sample_identity) (\<lambda>n w. (False, w)) ()))"
  by (rule replaced_binary_judged_gone [where r = sample_identity])
     (simp_all add: answered_def of_pid_one_process sample_identity_def record_identity_def plain_tunnel_def
        recorded_identity_def)

end
