(* ===== verification/Backend.thy ===== *)
theory Backend
  imports Scheduler Settings
begin

text \<open>
  \<open>src/transport/backend.rs\<close>: which SSH implementation carries the traffic.  The features the
  binary was built with are the record \<open>build\<close>; the transports themselves are parameters.
\<close>

section \<open>Selection\<close>

datatype ssh_backend = OpenSsh | NativeSsh

record build =
  bd_native_ssh :: bool
  bd_unix :: bool

definition backend_parse :: "string \<Rightarrow> ssh_backend option" where
  "backend_parse s =
     (let v = to_lowercase (trim s)
      in if v = ''openssh'' then Some OpenSsh else if v = ''native'' then Some NativeSsh else None)"

definition backend_from_config :: "config \<Rightarrow> transport_error + ssh_backend" where
  "backend_from_config cfg =
     (case ssh_backend cfg of
        None \<Rightarrow> Inr OpenSsh
      | Some s \<Rightarrow>
          (case backend_parse s of
             Some b \<Rightarrow> Inr b
           | None \<Rightarrow> Inl (Configuration (''unknown VB_SSH_BACKEND '' @ [CHR 0x27] @ s @ [CHR 0x27] @
               '' (expected '' @ [CHR 0x27] @ ''openssh'' @ [CHR 0x27] @ '' or '' @ [CHR 0x27] @ ''native'' @
               [CHR 0x27] @ '')''))))"

definition native_backend_supported :: "bool \<Rightarrow> bool \<Rightarrow> bool" where
  "native_backend_supported feature_compiled unix \<longleftrightarrow> feature_compiled \<and> unix"

definition supported_in_this_build :: "build \<Rightarrow> ssh_backend \<Rightarrow> bool" where
  "supported_in_this_build bd b =
     (case b of OpenSsh \<Rightarrow> True | NativeSsh \<Rightarrow> native_backend_supported (bd_native_ssh bd) (bd_unix bd))"

fun display_backend :: "ssh_backend \<Rightarrow> string" where
  "display_backend OpenSsh = ''openssh''"
| "display_backend NativeSsh = ''native''"

definition require_openssh :: "config \<Rightarrow> transport_error + unit" where
  "require_openssh cfg =
     bindR (backend_from_config cfg) (\<lambda>b. case b of OpenSsh \<Rightarrow> Inr () | NativeSsh \<Rightarrow> Inl UnsupportedBackend)"

section \<open>Opening a transport\<close>

definition config_capacity :: "config \<Rightarrow> transport_error + unit" where
  "config_capacity cfg =
     validate_capacity (spectre_max_workers cfg) (ssh_max_sessions cfg) (ssh_max_bulk_sessions cfg)"

text \<open>
  \<open>openssh cfg no_master\<close> builds the OpenSSH transport, with ControlMaster disabled or not;
  \<open>connect socket profile token\<close> is the IPC client, \<open>direct cfg\<close> the native transport.
\<close>

definition open_transport ::
    "build \<Rightarrow> (config \<Rightarrow> bool \<Rightarrow> 't) \<Rightarrow> (string \<Rightarrow> string \<Rightarrow> string \<Rightarrow> virtuoso_error + 't) \<Rightarrow> config \<Rightarrow>
     transport_error + 't" where
  "open_transport bd openssh connect cfg =
     bindR (backend_from_config cfg) (\<lambda>b.
       case b of
         OpenSsh \<Rightarrow> Inr (openssh cfg (disable_control_master cfg))
       | NativeSsh \<Rightarrow>
           if bd_native_ssh bd \<and> bd_unix bd then
             bindR (config_capacity cfg) (\<lambda>u.
               case (case transport_daemon_socket cfg of Some s \<Rightarrow> if s \<noteq> [] then Some s else None | None \<Rightarrow> None) of
                 None \<Rightarrow> Inl DaemonUnavailable
               | Some socket \<Rightarrow>
                   (case connect socket (or_empty (profile cfg)) (or_empty (transport_daemon_token cfg)) of
                      Inl e \<Rightarrow> Inl DaemonUnavailable
                    | Inr t \<Rightarrow> Inr t))
           else Inl UnsupportedBackend)"

definition open_transport_for_daemon ::
    "(config \<Rightarrow> bool \<Rightarrow> 't) \<Rightarrow> (config \<Rightarrow> transport_error + 't) \<Rightarrow> config \<Rightarrow> transport_error + 't" where
  "open_transport_for_daemon openssh direct cfg =
     bindR (backend_from_config cfg) (\<lambda>b.
       case b of
         OpenSsh \<Rightarrow> Inr (openssh cfg (disable_control_master cfg))
       | NativeSsh \<Rightarrow>
           bindR (config_capacity cfg) (\<lambda>u. direct cfg))"

section \<open>Facts\<close>

lemma backend_parse_display [simp]: "backend_parse (display_backend b) = Some b"
proof (cases b)
  case OpenSsh
  have "backend_parse (display_backend OpenSsh) = Some OpenSsh" by code_simp
  with OpenSsh show ?thesis by simp
next
  case NativeSsh
  have "backend_parse (display_backend NativeSsh) = Some NativeSsh" by code_simp
  with NativeSsh show ?thesis by simp
qed

lemma require_openssh_iff: "is_ok (require_openssh cfg) \<longleftrightarrow> backend_from_config cfg = Inr OpenSsh"
  by (cases "backend_from_config cfg") (auto simp: require_openssh_def split: ssh_backend.splits)

lemma native_never_openssh:
  assumes "backend_from_config cfg = Inr NativeSsh" "open_transport bd openssh connect cfg = Inr t"
  obtains socket where "bd_native_ssh bd" "bd_unix bd" "is_ok (config_capacity cfg)" "socket \<noteq> []"
    "transport_daemon_socket cfg = Some socket"
    "connect socket (or_empty (profile cfg)) (or_empty (transport_daemon_token cfg)) = Inr t"
  using assms by (auto simp: open_transport_def bindR_Inr_iff split: if_splits option.splits sum.splits)

text \<open>Opening fails or uses the backend that was configured: there is no silent fallback.\<close>

lemma open_transport_ok_iff:
  "is_ok (open_transport bd openssh connect cfg) \<longleftrightarrow>
     (case backend_from_config cfg of
        Inl e \<Rightarrow> False
      | Inr OpenSsh \<Rightarrow> True
      | Inr NativeSsh \<Rightarrow>
          supported_in_this_build bd NativeSsh \<and> is_ok (config_capacity cfg) \<and>
          (\<exists>socket. transport_daemon_socket cfg = Some socket \<and> socket \<noteq> [] \<and>
             is_ok (connect socket (or_empty (profile cfg)) (or_empty (transport_daemon_token cfg)))))"
  by (cases "backend_from_config cfg"; cases "config_capacity cfg")
     (auto simp: open_transport_def supported_in_this_build_def native_backend_supported_def
        split: ssh_backend.splits option.splits sum.splits)

end
