(* ===== verification/Tunnel_Stop.thy ===== *)
theory Tunnel_Stop
  imports Daemon_Lifecycle Backend
begin

text \<open>
  Stopping and detaching a tunnel: the stop path of \<open>src/transport/tunnel.rs\<close> and the commands
  \<open>stop\<close> and \<open>detach\<close> of \<open>src/commands/tunnel.rs\<close>, in the Unix build with the
  native backend.  What the code does to the outside is recorded as a list of events beside the world
  \<open>'w\<close> its operations act on.
\<close>

section \<open>The remote directory of a profile\<close>

definition is_leaf_char :: "char \<Rightarrow> bool" where
  "is_leaf_char c \<longleftrightarrow>
     (let n = (of_char c :: nat)
      in (48 \<le> n \<and> n \<le> 57) \<or> (65 \<le> n \<and> n \<le> 90) \<or> (97 \<le> n \<and> n \<le> 122) \<or>
         c = CHR ''.'' \<or> c = CHR ''_'' \<or> c = CHR ''-'')"

definition profiled_bridge_leaf :: "string option \<Rightarrow> string" where
  "profiled_bridge_leaf prof =
     (case prof of
        None \<Rightarrow> ''virtuoso_bridge''
      | Some p \<Rightarrow>
          (let safe = take 64 (map (\<lambda>c. if is_leaf_char c then c else CHR ''_'') p)
           in if list_ex (\<lambda>c. c \<noteq> CHR ''_'') safe then ''virtuoso_bridge_'' @ safe
              else ''virtuoso_bridge_profile''))"

definition profiled_env_key :: "string \<Rightarrow> string option \<Rightarrow> string" where
  "profiled_env_key k prof = (case prof of None \<Rightarrow> k | Some p \<Rightarrow> k @ ''_'' @ p)"

definition setup_dir_for_profile :: "string option \<Rightarrow> string" where
  "setup_dir_for_profile prof = ''/tmp/'' @ profiled_bridge_leaf prof"

section \<open>Which process a pid is\<close>

definition is_ssh_executable :: "string \<Rightarrow> bool" where
  "is_ssh_executable path = (case path_file_name path of Some n \<Rightarrow> str_contains n ''ssh'' | None \<Rightarrow> False)"

definition runs_ssh_executable :: "platform \<Rightarrow> u32 \<Rightarrow> bool" where
  "runs_ssh_executable os pid =
     (case of_pid os pid of Inr i \<Rightarrow> is_ssh_executable (executable_path i) | Inl e \<Rightarrow> False)"

fun verify_ssh_pid :: "platform \<Rightarrow> u32 \<Rightarrow> bool" where
  "verify_ssh_pid (Linux p) pid = (case lp_cmdline p pid of Inr c \<Rightarrow> str_contains c ''ssh'' | Inl e \<Rightarrow> False)"
| "verify_ssh_pid (MacOS p) pid = runs_ssh_executable (MacOS p) pid"
| "verify_ssh_pid (Windows p) pid = runs_ssh_executable (Windows p) pid"
| "verify_ssh_pid OtherPlatform pid = True"

datatype pid_verdict = VerifiedSsh | Gone | NotVerifiable string

definition classify_executable :: "platform \<Rightarrow> u32 \<Rightarrow> pid_verdict" where
  "classify_executable os pid =
     (case of_pid os pid of
        Inr i \<Rightarrow>
          if is_ssh_executable (executable_path i) then VerifiedSsh
          else NotVerifiable (''pid '' @ show_nat (unat pid) @ '' is alive but its executable is '' @
                 executable_path i @ '', not ssh'')
      | Inl (NoSuchProcess p) \<Rightarrow> Gone
      | Inl e \<Rightarrow> NotVerifiable (display_identity_error e))"

fun classify_ssh_pid :: "platform \<Rightarrow> u32 \<Rightarrow> pid_verdict" where
  "classify_ssh_pid (Linux p) pid =
     (case lp_cmdline p pid of
        Inr c \<Rightarrow>
          if str_contains c ''ssh'' then VerifiedSsh
          else NotVerifiable (''pid '' @ show_nat (unat pid) @ '' is running but its command line is not ssh'')
      | Inl (NotFoundIo e) \<Rightarrow> Gone
      | Inl (OtherIo e) \<Rightarrow> NotVerifiable (''pid '' @ show_nat (unat pid) @ '': '' @ e))"
| "classify_ssh_pid (MacOS p) pid = classify_executable (MacOS p) pid"
| "classify_ssh_pid (Windows p) pid = classify_executable (Windows p) pid"
| "classify_ssh_pid OtherPlatform pid = VerifiedSsh"

section \<open>The world of a stop\<close>

datatype stop_event =
    Signalled u32
  | AskedShutdown
  | RemoteRun string
  | ClearedState "string option"

record 'w traced =
  tr_world :: 'w
  tr_log :: "stop_event list"

text \<open>
  \<open>so_gone\<close>: \<open>kill(pid, 0)\<close> fails with \<open>ESRCH\<close>.  \<open>so_kill\<close>: \<open>SIGTERM\<close>.
  \<open>so_client\<close>: the rest of \<open>SSHClient::from_config\<close> after the backend gate, and
  \<open>so_run\<close> a remote command.  \<open>so_load\<close> and \<open>so_clear\<close>: the state file of a profile.
\<close>

record ('c, 'w) stop_ops =
  so_ipc :: "('c, 'w) ipc_ops"
  so_os :: "'w \<Rightarrow> platform"
  so_kill :: "u32 \<Rightarrow> 'w \<Rightarrow> (string + unit) \<times> 'w"
  so_gone :: "u32 \<Rightarrow> 'w \<Rightarrow> bool \<times> 'w"
  so_clock :: "'w \<Rightarrow> instant \<times> 'w"
  so_sleep :: "duration \<Rightarrow> 'w \<Rightarrow> 'w"
  so_run :: "string \<Rightarrow> 'w \<Rightarrow> (virtuoso_error + unit) \<times> 'w"
  so_load :: "string option \<Rightarrow> 'w \<Rightarrow> string + tunnel_state option"
  so_clear :: "string option \<Rightarrow> 'w \<Rightarrow> (string + unit) \<times> 'w"

definition emit :: "stop_event \<Rightarrow> 'w \<Rightarrow> 'w traced \<Rightarrow> 'w traced" where
  "emit e w s = \<lparr>tr_world = w, tr_log = tr_log s @ [e]\<rparr>"

definition signal_tunnel_pid :: "('c, 'w) stop_ops \<Rightarrow> u32 \<Rightarrow> 'w traced \<Rightarrow> (string + unit) \<times> 'w traced" where
  "signal_tunnel_pid ops pid s = (case so_kill ops pid (tr_world s) of (r, w) \<Rightarrow> (r, emit (Signalled pid) w s))"

definition ask_shutdown :: "('c, 'w) stop_ops \<Rightarrow> tunnel_state \<Rightarrow> 'w traced \<Rightarrow> bool \<times> 'w traced" where
  "ask_shutdown ops st s =
     (case shutdown_via_ipc (so_ipc ops) st (tr_world s) of (r, w) \<Rightarrow> (r, emit AskedShutdown w s))"

definition remote_run :: "('c, 'w) stop_ops \<Rightarrow> string \<Rightarrow> 'w traced \<Rightarrow> 'w traced" where
  "remote_run ops cmd s = (case so_run ops cmd (tr_world s) of (r, w) \<Rightarrow> emit (RemoteRun cmd) w s)"

definition clear_with_profile ::
    "('c, 'w) stop_ops \<Rightarrow> string option \<Rightarrow> 'w traced \<Rightarrow> (string + unit) \<times> 'w traced" where
  "clear_with_profile ops prof s =
     (case so_clear ops prof (tr_world s) of (r, w) \<Rightarrow> (r, emit (ClearedState prof) w s))"

section \<open>Waiting for a daemon to exit\<close>

partial_function (option) wait_loop ::
    "('c, 'w) stop_ops \<Rightarrow> u32 \<Rightarrow> instant \<Rightarrow> 'w \<Rightarrow> (bool \<times> 'w) option" where
  "wait_loop ops pid limit w =
     (case so_gone ops pid w of
        (gone, w1) \<Rightarrow>
          if gone then Some (True, w1)
          else case so_clock ops w1 of
            (now, w2) \<Rightarrow>
              if limit \<le> now then Some (False, w2)
              else wait_loop ops pid limit (so_sleep ops (from_millis 50) w2))"

definition wait_for_daemon_exit ::
    "('c, 'w) stop_ops \<Rightarrow> u32 \<Rightarrow> duration \<Rightarrow> 'w \<Rightarrow> (bool \<times> 'w) option" where
  "wait_for_daemon_exit ops pid grace w =
     (case so_clock ops w of (now, w1) \<Rightarrow> wait_loop ops pid (now + grace) w1)"

section \<open>Deciding and stopping\<close>

datatype stop_decision = SignalPid | GracefulIpcShutdown | Skip string bool

fun verdict_to_decision :: "verdict \<Rightarrow> u32 \<Rightarrow> stop_decision" where
  "verdict_to_decision Alive pid = SignalPid"
| "verdict_to_decision UnresponsiveButIdentified pid = SignalPid"
| "verdict_to_decision Stale pid =
     Skip (''recorded daemon (pid '' @ show_nat (unat pid) @ '') is no longer running'') True"
| "verdict_to_decision (VUnverifiable reason) pid =
     Skip (''cannot verify recorded daemon (pid '' @ show_nat (unat pid) @ ''): '' @ reason) False"

definition decide_native :: "('c, 'w) stop_ops \<Rightarrow> tunnel_state \<Rightarrow> 'w \<Rightarrow> stop_decision \<times> 'w" where
  "decide_native ops st w =
     (case assess (so_os ops) st (\<lambda>nonce. challenge_via_ipc (so_ipc ops) st) w of
        (v, w') \<Rightarrow> (if v = Alive then GracefulIpcShutdown else verdict_to_decision v (ts_pid st), w'))"

definition decide_ssh :: "platform \<Rightarrow> tunnel_state \<Rightarrow> stop_decision" where
  "decide_ssh os st =
     (case classify_ssh_pid os (ts_pid st) of
        VerifiedSsh \<Rightarrow> SignalPid
      | Gone \<Rightarrow> Skip (''tunnel pid '' @ show_nat (unat (ts_pid st)) @ '' is gone; clearing stale state'') True
      | NotVerifiable reason \<Rightarrow> Skip reason False)"

definition decide_stop :: "('c, 'w) stop_ops \<Rightarrow> tunnel_state \<Rightarrow> bool \<Rightarrow> 'w \<Rightarrow> stop_decision \<times> 'w" where
  "decide_stop ops st force w =
     (if recorded_identity st \<noteq> None then decide_native ops st w
      else if force then (SignalPid, w)
      else (decide_ssh (so_os ops w) st, w))"

definition signal_or_fail ::
    "('c, 'w) stop_ops \<Rightarrow> u32 \<Rightarrow> 'w traced \<Rightarrow> (virtuoso_error + bool) \<times> 'w traced" where
  "signal_or_fail ops pid s =
     (case signal_tunnel_pid ops pid s of
        (Inl e, s1) \<Rightarrow>
          (Inl (Ssh (''failed to signal tunnel pid '' @ show_nat (unat pid) @ '': '' @ e)), s1)
      | (Inr u, s1) \<Rightarrow> (Inr True, s1))"

text \<open>The three decisions: an error, or whether the state may be cleared.\<close>

definition carry_out ::
    "('c, 'w) stop_ops \<Rightarrow> config \<Rightarrow> tunnel_state \<Rightarrow> stop_decision \<Rightarrow> 'w traced \<Rightarrow>
     ((virtuoso_error + bool) \<times> 'w traced) option" where
  "carry_out ops cfg st d s =
     (case d of
        SignalPid \<Rightarrow> Some (signal_or_fail ops (ts_pid st) s)
      | GracefulIpcShutdown \<Rightarrow>
          (case ask_shutdown ops st s of
             (False, s1) \<Rightarrow> Some (signal_or_fail ops (ts_pid st) s1)
           | (True, s1) \<Rightarrow>
               (case wait_for_daemon_exit ops (ts_pid st) (from_secs (unat (transport_shutdown_grace cfg)))
                       (tr_world s1) of
                  None \<Rightarrow> None
                | Some (stopped, w2) \<Rightarrow>
                    Some (if stopped then (Inr True, s1\<lparr>tr_world := w2\<rparr>)
                          else signal_or_fail ops (ts_pid st) (s1\<lparr>tr_world := w2\<rparr>))))
      | Skip reason clear_state \<Rightarrow> Some (Inr clear_state, s))"

definition clean_up ::
    "('c, 'w) stop_ops \<Rightarrow> config \<Rightarrow> tunnel_state \<Rightarrow> 'w traced \<Rightarrow> 'w traced" where
  "clean_up ops cfg st s =
     (let s1 =
        (if tunnel_mode st = TUNNEL_MODE_ATTACHED \<or> keep_remote_files cfg then s
         else case require_openssh cfg of
           Inl e \<Rightarrow> s
         | Inr u \<Rightarrow> remote_run ops (''rm -rf '' @ setup_dir_for_profile (profile cfg)) s)
      in snd (clear_with_profile ops (profile cfg) s1))"

definition stop_saved_tunnel ::
    "('c, 'w) stop_ops \<Rightarrow> config \<Rightarrow> tunnel_state \<Rightarrow> bool \<Rightarrow> 'w traced \<Rightarrow>
     ((virtuoso_error + unit) \<times> 'w traced) option" where
  "stop_saved_tunnel ops cfg st force s =
     (if ts_pid st = 0 then Some (Inl (Conflict ''refusing to stop: recorded tunnel pid is 0''), s)
      else case decide_stop ops st force (tr_world s) of
        (d, w) \<Rightarrow>
          (case carry_out ops cfg st d (s\<lparr>tr_world := w\<rparr>) of
             None \<Rightarrow> None
           | Some (Inl e, s1) \<Rightarrow> Some (Inl e, s1)
           | Some (Inr may_clear, s1) \<Rightarrow>
               Some (Inr (), if may_clear then clean_up ops cfg st s1 else s1)))"

section \<open>The commands\<close>

datatype tunnel_reply =
    StopDryRun u16 u32 string string bool
  | Stopped string u16 u32
  | Detached u16 u32 "string option" "u16 option" string

definition cmd_stop ::
    "('c, 'w) stop_ops \<Rightarrow> command_context \<Rightarrow> bool \<Rightarrow> bool \<Rightarrow> 'w traced \<Rightarrow>
     ((virtuoso_error + tunnel_reply) \<times> 'w traced) option" where
  "cmd_stop ops ctx force dry_run s =
     (let cfg = cx_config ctx
      in case so_load ops (profile cfg) (tr_world s) of
           Inl e \<Rightarrow> Some (Inl (Io e), s)
         | Inr None \<Rightarrow> Some (Inl (NotFound ''no running tunnel found''), s)
         | Inr (Some st) \<Rightarrow>
             (case validate_tunnel_ownership ctx st of
                Inl e \<Rightarrow> Some (Inl e, s)
              | Inr u \<Rightarrow>
                  if dry_run then
                    Some (Inr (StopDryRun (ts_port st) (ts_pid st) (ts_remote_host st) (tunnel_mode st)
                       (\<not> keep_remote_files cfg \<and> tunnel_mode st = TUNNEL_MODE_DEPLOYED)), s)
                  else
                    (case stop_saved_tunnel ops cfg st force s of
                       None \<Rightarrow> None
                     | Some (Inl e, s1) \<Rightarrow> Some (Inl e, s1)
                     | Some (Inr v, s1) \<Rightarrow> Some (Inr (Stopped (tunnel_mode st) (ts_port st) (ts_pid st)), s1))))"

text \<open>\<open>/proc\<close> exists on Linux only; elsewhere on Unix the read fails.\<close>

definition kill_tunnel_pid :: "('c, 'w) stop_ops \<Rightarrow> u32 \<Rightarrow> bool \<Rightarrow> 'w traced \<Rightarrow> 'w traced" where
  "kill_tunnel_pid ops pid force s =
     (let is_ssh = (case so_os ops (tr_world s) of
                      Linux p \<Rightarrow> (case lp_cmdline p pid of Inr c \<Rightarrow> str_contains c ''ssh'' | Inl e \<Rightarrow> False)
                    | _ \<Rightarrow> False)
      in if is_ssh \<or> force then snd (signal_tunnel_pid ops pid s) else s)"

definition cmd_detach ::
    "('c, 'w) stop_ops \<Rightarrow> command_context \<Rightarrow> 'w traced \<Rightarrow> (virtuoso_error + tunnel_reply) \<times> 'w traced" where
  "cmd_detach ops ctx s =
     (let cfg = cx_config ctx
      in case so_load ops (profile cfg) (tr_world s) of
           Inl e \<Rightarrow> (Inl (Io e), s)
         | Inr None \<Rightarrow> (Inl (NotFound ''no attached tunnel found''), s)
         | Inr (Some st) \<Rightarrow>
             (case validate_tunnel_ownership ctx st of
                Inl e \<Rightarrow> (Inl e, s)
              | Inr u \<Rightarrow>
                  if tunnel_mode st \<noteq> TUNNEL_MODE_ATTACHED then
                    (Inl (Execution (''this is a '' @ tunnel_mode st @
                       '' tunnel, not attached; use `vcli tunnel stop` instead'')), s)
                  else
                    (case clear_with_profile ops (profile cfg) (kill_tunnel_pid ops (ts_pid st) False s) of
                       (Inl e, s1) \<Rightarrow> (Inl (Io e), s1)
                     | (Inr v, s1) \<Rightarrow>
                         (Inr (Detached (ts_port st) (ts_pid st) (ts_attached_session_id st)
                            (ts_attached_remote_port st) (ts_remote_host st)), s1))))"

section \<open>Both classifications agree\<close>

lemma verify_classify: "verify_ssh_pid os pid \<longleftrightarrow> classify_ssh_pid os pid = VerifiedSsh"
  by (cases os)
     (auto simp: classify_executable_def runs_ssh_executable_def
        split: sum.splits io_failure.splits identity_error.splits)

end
