(* ===== verification/Tunnel_Facts.thy ===== *)
theory Tunnel_Facts
  imports Tunnel_Stop
begin

text \<open>
  What stopping and detaching a tunnel can do: whom it signals, what it removes, what it reports, and
  that its wait ends.
\<close>

section \<open>The events of a stop\<close>

lemma signal_or_fail_log:
  "signal_or_fail ops pid s = (r, s') \<Longrightarrow> tr_log s' = tr_log s @ [Signalled pid] \<and> r \<noteq> Inr False"
  by (auto simp: signal_or_fail_def signal_tunnel_pid_def emit_def split: prod.splits sum.splits)

lemma carry_out_log:
  assumes "carry_out ops cfg st d s = Some (r, s')"
  shows "\<exists>pre. tr_log s' = tr_log s @ pre \<and> set pre \<subseteq> {Signalled (ts_pid st), AskedShutdown} \<and>
     (Signalled (ts_pid st) \<in> set pre \<longrightarrow> d = SignalPid \<or> d = GracefulIpcShutdown) \<and>
     (r = Inr True \<longrightarrow> pre \<noteq> [] \<or> (\<exists>m. d = Skip m True)) \<and>
     (r = Inr False \<longrightarrow> pre = [])"
proof (cases d)
  case SignalPid
  with assms have "signal_or_fail ops (ts_pid st) s = (r, s')" by (simp add: carry_out_def)
  from signal_or_fail_log [OF this] SignalPid show ?thesis by auto
next
  case (Skip m c)
  with assms show ?thesis by (auto simp: carry_out_def)
next
  case GracefulIpcShutdown
  obtain ok s1 where ask: "ask_shutdown ops st s = (ok, s1)" by fastforce
  then have l1: "tr_log s1 = tr_log s @ [AskedShutdown]"
    by (auto simp: ask_shutdown_def emit_def split: prod.splits)
  from assms GracefulIpcShutdown ask consider
      (sig) s2 where "tr_log s2 = tr_log s1" "signal_or_fail ops (ts_pid st) s2 = (r, s')"
    | (gone) "r = Inr True" "tr_log s' = tr_log s1"
  proof (cases ok)
    case False
    with assms GracefulIpcShutdown ask show thesis
      by (intro sig [of s1]) (auto simp: carry_out_def)
  next
    case True
    with assms GracefulIpcShutdown ask obtain stopped w2 where
      "wait_for_daemon_exit ops (ts_pid st) (from_secs (unat (transport_shutdown_grace cfg))) (tr_world s1) =
        Some (stopped, w2)"
      by (auto simp: carry_out_def split: option.splits)
    with True assms GracefulIpcShutdown ask show thesis
      by (cases stopped) (auto simp: carry_out_def intro: sig [of "s1\<lparr>tr_world := w2\<rparr>"] gone)
  qed
  then show ?thesis
  proof cases
    case sig
    with signal_or_fail_log [OF sig(2)] l1 GracefulIpcShutdown show ?thesis
      by (intro exI [of _ "[AskedShutdown, Signalled (ts_pid st)]"]) auto
  next
    case gone
    with l1 GracefulIpcShutdown show ?thesis
      by (intro exI [of _ "[AskedShutdown]"]) auto
  qed
qed

definition clean_up_events :: "config \<Rightarrow> tunnel_state \<Rightarrow> stop_event list" where
  "clean_up_events cfg st =
     (if tunnel_mode st \<noteq> TUNNEL_MODE_ATTACHED \<and> \<not> keep_remote_files cfg \<and> is_ok (require_openssh cfg)
      then [RemoteRun (''rm -rf '' @ setup_dir_for_profile (profile cfg))] else []) @
     [ClearedState (profile cfg)]"

lemma clean_up_log: "tr_log (clean_up ops cfg st s) = tr_log s @ clean_up_events cfg st"
  by (auto simp: clean_up_def clean_up_events_def clear_with_profile_def remote_run_def emit_def Let_def
      split: prod.splits sum.splits)

lemma stop_log:
  assumes "stop_saved_tunnel ops cfg st force s = Some (r, s')"
  shows "(ts_pid st = 0 \<and> s' = s \<and> r \<noteq> Inr ()) \<or>
    (ts_pid st \<noteq> 0 \<and> (\<exists>pre may_clear. let d = fst (decide_stop ops st force (tr_world s)) in
       tr_log s' = tr_log s @ pre @ (if may_clear then clean_up_events cfg st else []) \<and>
       set pre \<subseteq> {Signalled (ts_pid st), AskedShutdown} \<and>
       (Signalled (ts_pid st) \<in> set pre \<longrightarrow> d = SignalPid \<or> d = GracefulIpcShutdown) \<and>
       (may_clear \<longrightarrow> r = Inr () \<and> (pre \<noteq> [] \<or> (\<exists>m. d = Skip m True)))))"
proof (cases "ts_pid st = 0")
  case True
  with assms show ?thesis by (auto simp: stop_saved_tunnel_def)
next
  case False
  obtain d w where d: "decide_stop ops st force (tr_world s) = (d, w)" by fastforce
  from assms False d obtain r1 s1 where c: "carry_out ops cfg st d (s\<lparr>tr_world := w\<rparr>) = Some (r1, s1)"
    by (auto simp: stop_saved_tunnel_def split: option.splits)
  from carry_out_log [OF c] obtain pre where pre: "tr_log s1 = tr_log s @ pre"
      "set pre \<subseteq> {Signalled (ts_pid st), AskedShutdown}"
      "Signalled (ts_pid st) \<in> set pre \<longrightarrow> d = SignalPid \<or> d = GracefulIpcShutdown"
      "r1 = Inr True \<longrightarrow> pre \<noteq> [] \<or> (\<exists>m. d = Skip m True)"
    by auto
  show ?thesis
  proof (cases "r1 = Inr True")
    case True
    with assms False d c have "r = Inr ()" "s' = clean_up ops cfg st s1"
      by (auto simp: stop_saved_tunnel_def)
    with True pre False d show ?thesis
      by (intro disjI2 conjI exI [of _ pre] exI [of _ True]) (auto simp: clean_up_log)
  next
    case no: False
    with assms False d c have "s' = s1"
      by (auto simp: stop_saved_tunnel_def split: sum.splits)
    with pre False d show ?thesis
      by (intro disjI2 conjI exI [of _ pre] exI [of _ False]) auto
  qed
qed

section \<open>The decision\<close>

definition challenged_world :: "('c, 'w) stop_ops \<Rightarrow> tunnel_state \<Rightarrow> 'w \<Rightarrow> 'w" where
  "challenged_world ops st w =
     (if ts_daemon_nonce st = None then w else snd (challenge_via_ipc (so_ipc ops) st w))"

lemma challenge_needs_nonce: "fst (challenge_via_ipc ops st w) \<Longrightarrow> ts_daemon_nonce st \<noteq> None"
  by (auto simp: challenge_via_ipc_def split: prod.splits elim!: open_challenged_SomeE)

lemma assess_challenge:
  "assess (so_os ops) st (\<lambda>nonce. challenge_via_ipc (so_ipc ops) st) w =
     (if fst (challenge_via_ipc (so_ipc ops) st w) then Alive
      else second_tier (so_os ops (challenged_world ops st w)) st, challenged_world ops st w)"
  using challenge_needs_nonce [of "so_ipc ops" st w]
  by (auto simp: assess_def challenged_world_def split: option.splits prod.splits bool.splits)

lemma verdict_to_decision_signal:
  "verdict_to_decision v pid = SignalPid \<longleftrightarrow> v = Alive \<or> v = UnresponsiveButIdentified"
  "verdict_to_decision v pid \<noteq> GracefulIpcShutdown"
  "(\<exists>m. verdict_to_decision v pid = Skip m True) \<longleftrightarrow> v = Stale"
  by (cases v; simp)+

definition stop_authorized :: "('c, 'w) stop_ops \<Rightarrow> tunnel_state \<Rightarrow> bool \<Rightarrow> 'w \<Rightarrow> bool" where
  "stop_authorized ops st force w =
     (case recorded_identity st of
        None \<Rightarrow> force \<or> verify_ssh_pid (so_os ops w) (ts_pid st)
      | Some i \<Rightarrow> fst (challenge_via_ipc (so_ipc ops) st w) \<or>
          (of_pid (so_os ops (challenged_world ops st w)) (ts_pid st) = Inr i \<and>
           start_identity i \<noteq> 0 \<and> executable_path i \<noteq> []))"

definition proven_gone :: "('c, 'w) stop_ops \<Rightarrow> tunnel_state \<Rightarrow> 'w \<Rightarrow> bool" where
  "proven_gone ops st w =
     (case recorded_identity st of
        None \<Rightarrow> classify_ssh_pid (so_os ops w) (ts_pid st) = Gone
      | Some i \<Rightarrow> second_tier (so_os ops (challenged_world ops st w)) st = Stale)"

lemma decide_ssh_cases:
  "decide_ssh os st = SignalPid \<longleftrightarrow> verify_ssh_pid os (ts_pid st)"
  "decide_ssh os st \<noteq> GracefulIpcShutdown"
  "(\<exists>m. decide_ssh os st = Skip m True) \<longleftrightarrow> classify_ssh_pid os (ts_pid st) = Gone"
  by (auto simp: decide_ssh_def verify_classify split: pid_verdict.splits)

lemma decide_stop_signal:
  assumes "fst (decide_stop ops st force w) = SignalPid \<or> fst (decide_stop ops st force w) = GracefulIpcShutdown"
  shows "stop_authorized ops st force w"
  using assms
  by (cases "recorded_identity st")
     (auto simp: decide_stop_def decide_native_def stop_authorized_def assess_challenge decide_ssh_cases
        verdict_to_decision_signal second_tier_signal split: if_splits)

lemma decide_stop_clear:
  assumes "fst (decide_stop ops st force w) = Skip m True"
  shows "proven_gone ops st w"
proof (cases "recorded_identity st")
  case None
  with assms have "decide_ssh (so_os ops w) st = Skip m True"
    by (simp add: decide_stop_def split: if_splits)
  then have "classify_ssh_pid (so_os ops w) (ts_pid st) = Gone"
    using decide_ssh_cases(3) by blast
  with None show ?thesis by (simp add: proven_gone_def)
next
  case (Some i)
  with assms have "verdict_to_decision (second_tier (so_os ops (challenged_world ops st w)) st) (ts_pid st) =
      Skip m True"
    by (auto simp: decide_stop_def decide_native_def assess_challenge split: if_splits)
  then have "second_tier (so_os ops (challenged_world ops st w)) st = Stale"
    using verdict_to_decision_signal(3) by blast
  with Some show ?thesis by (simp add: proven_gone_def)
qed

section \<open>Properties\<close>

text \<open>
  C6: A stop signals no process but the recorded one, and only with authority: for a recorded identity
  the daemon answered the nonce challenge or the process table shows exactly that identity, whatever
  \<open>--force\<close> says; without one the process is an ssh, or the operator forced it.
\<close>

theorem stop_signals_only_authorized:
  assumes "stop_saved_tunnel ops cfg st force \<lparr>tr_world = w, tr_log = []\<rparr> = Some (r, s')"
    and "Signalled p \<in> set (tr_log s')"
  shows "p = ts_pid st \<and> p \<noteq> 0 \<and> stop_authorized ops st force w"
  using stop_log [OF assms(1)] assms(2) decide_stop_signal [of ops st force w]
  by (auto simp: Let_def clean_up_events_def split: if_splits)

text \<open>
  C7: A stop that clears the state or runs a remote command succeeded, after it signalled the process,
  asked the daemon to exit, or had proof that it is gone; the only remote command is the removal of the
  profile's own directory, and only for a tunnel that vcli deployed.
\<close>

theorem stop_removes_only_its_own:
  assumes "stop_saved_tunnel ops cfg st force \<lparr>tr_world = w, tr_log = []\<rparr> = Some (r, s')"
    and "e \<in> set (tr_log s')" "e = ClearedState prof \<or> e = RemoteRun cmd"
  shows "r = Inr () \<and>
    (Signalled (ts_pid st) \<in> set (tr_log s') \<or> AskedShutdown \<in> set (tr_log s') \<or> proven_gone ops st w) \<and>
    (e = ClearedState prof \<longrightarrow> prof = profile cfg) \<and>
    (e = RemoteRun cmd \<longrightarrow> cmd = ''rm -rf '' @ setup_dir_for_profile (profile cfg) \<and>
       tunnel_mode st \<noteq> TUNNEL_MODE_ATTACHED \<and> \<not> keep_remote_files cfg)"
proof -
  from stop_log [OF assms(1)] assms(2,3) obtain pre where
    log: "tr_log s' = pre @ clean_up_events cfg st"
    and pre: "set pre \<subseteq> {Signalled (ts_pid st), AskedShutdown}"
    and ok: "r = Inr ()" "pre \<noteq> [] \<or> (\<exists>m. fst (decide_stop ops st force w) = Skip m True)"
    by (auto simp: Let_def split: if_splits)
  from assms(2,3) log pre have e: "e \<in> set (clean_up_events cfg st)" by auto
  have "Signalled (ts_pid st) \<in> set (tr_log s') \<or> AskedShutdown \<in> set (tr_log s') \<or> proven_gone ops st w"
  proof (cases pre)
    case Nil
    with ok(2) obtain m where "fst (decide_stop ops st force w) = Skip m True" by auto
    then have "proven_gone ops st w" by (rule decide_stop_clear)
    then show ?thesis by simp
  next
    case (Cons x xs)
    with pre log show ?thesis by auto
  qed
  with ok(1) e assms(3) show ?thesis
    by (auto simp: clean_up_events_def split: if_splits)
qed

definition ssh_process :: platform where
  "ssh_process = Linux \<lparr>lp_stat = (\<lambda>p. Inl (NotFoundIo [])), lp_exe = (\<lambda>p. Inl (NotFoundIo [])),
     lp_cmdline = (\<lambda>p. Inr ''ssh'')\<rparr>"

definition quiet_ops :: "platform \<Rightarrow> tunnel_state \<Rightarrow> (unit, nat) stop_ops" where
  "quiet_ops os st = \<lparr>
     so_ipc = \<lparr>read_token = (\<lambda>p w. None), ic_connect = (\<lambda>e p t w. (Inr (), w)),
       ic_challenge = (\<lambda>c w. (Inr \<lparr>ca_daemon_nonce = []\<rparr>, w)), ic_shutdown = (\<lambda>c w. (Inr (), w))\<rparr>,
     so_os = (\<lambda>w. os), so_kill = (\<lambda>p w. (Inr (), w)), so_gone = (\<lambda>p w. (False, w)),
     so_clock = (\<lambda>w. (w, w)), so_sleep = (\<lambda>d w. w + d), so_run = (\<lambda>c w. (Inr (), w)),
     so_load = (\<lambda>p w. Inr (Some st)), so_clear = (\<lambda>p w. (Inr (), w))\<rparr>"

lemma plain_config_sel:
  "profile plain_config = Some ''lab''" "keep_remote_files plain_config = False" "ssh_backend plain_config = None"
  by (simp_all add: plain_config_def from_target_def default_target_def default_port_def or_empty_def)

lemmas quiet_stop = quiet_ops_def stop_saved_tunnel_def decide_stop_def decide_ssh_def carry_out_def
  signal_or_fail_def signal_tunnel_pid_def emit_def clean_up_def require_openssh_def backend_from_config_def
  remote_run_def clear_with_profile_def tunnel_mode_def recorded_identity_def plain_tunnel_def plain_config_sel
  TUNNEL_MODE_ATTACHED_def TUNNEL_MODE_DEPLOYED_def ssh_process_def

lemma quiet_stop_run:
  "stop_saved_tunnel (quiet_ops ssh_process plain_tunnel) plain_config plain_tunnel False \<lparr>tr_world = 0, tr_log = []\<rparr> =
     Some (Inr (), \<lparr>tr_world = 0, tr_log =
       [Signalled 42, RemoteRun (''rm -rf '' @ setup_dir_for_profile (Some ''lab'')), ClearedState (Some ''lab'')]\<rparr>)"
  by (simp add: quiet_stop)

lemma stop_signals_only_authorized_witness:
  "(42 :: u32) = ts_pid plain_tunnel \<and> (42 :: u32) \<noteq> 0 \<and>
   stop_authorized (quiet_ops ssh_process plain_tunnel) plain_tunnel False 0"
  by (rule stop_signals_only_authorized [OF quiet_stop_run]) simp

lemma stop_removes_only_its_own_witness:
  "Inr () = (Inr () :: virtuoso_error + unit) \<and>
   (Signalled (ts_pid plain_tunnel) \<in> set [Signalled 42, RemoteRun (''rm -rf '' @ setup_dir_for_profile (Some ''lab'')),
        ClearedState (Some ''lab'')] \<or>
    AskedShutdown \<in> set [Signalled 42, RemoteRun (''rm -rf '' @ setup_dir_for_profile (Some ''lab'')), ClearedState (Some ''lab'')] \<or>
    proven_gone (quiet_ops ssh_process plain_tunnel) plain_tunnel 0) \<and>
   profile plain_config = Some ''lab'' \<and> \<not> keep_remote_files plain_config"
  using stop_removes_only_its_own [OF quiet_stop_run, of "ClearedState (Some ''lab'')" "Some ''lab''" "[]"]
    stop_removes_only_its_own [OF quiet_stop_run, of "RemoteRun (''rm -rf '' @ setup_dir_for_profile (Some ''lab''))" "Some ''lab''"
      "''rm -rf '' @ setup_dir_for_profile (Some ''lab'')"]
  by simp

text \<open>
  The directory that is removed is one component below \<open>/tmp\<close>, made of characters the shell does
  not interpret.  Profiles whose names use only those characters, have at most 64 of them and one that is not
  an underscore get different directories; other names may share one.
\<close>

theorem setup_dir_safe_and_isolated:
  "(\<exists>leaf. setup_dir_for_profile prof = ''/tmp/virtuoso_bridge'' @ leaf \<and> list_all is_leaf_char leaf) \<and>
   ((\<forall>n \<in> {p, q}. list_all is_leaf_char n \<and> length n \<le> 64 \<and> list_ex (\<lambda>c. c \<noteq> CHR ''_'') n) \<longrightarrow>
      (setup_dir_for_profile (Some p) = setup_dir_for_profile (Some q) \<longleftrightarrow> p = q)) \<and>
   setup_dir_for_profile (Some ''a/b'') = setup_dir_for_profile (Some ''a_b'')"
proof -
  have us: "is_leaf_char (CHR ''_'')" by code_simp
  have leaf: "\<exists>leaf. profiled_bridge_leaf prof = ''virtuoso_bridge'' @ leaf \<and> list_all is_leaf_char leaf"
  proof (cases prof)
    case None
    then show ?thesis by (auto simp: profiled_bridge_leaf_def)
  next
    case (Some p)
    let ?safe = "take 64 (map (\<lambda>c. if is_leaf_char c then c else CHR ''_'') p)"
    have "list_all is_leaf_char (''_'' @ ?safe)"
      using us by (auto simp: list_all_iff dest: in_set_takeD)
    moreover have "list_all is_leaf_char ''_profile''" by code_simp
    ultimately show ?thesis using Some by (auto simp: profiled_bridge_leaf_def Let_def)
  qed
  have id: "profiled_bridge_leaf (Some n) = ''virtuoso_bridge_'' @ n"
    if "list_all is_leaf_char n" "length n \<le> 64" "list_ex (\<lambda>c. c \<noteq> CHR ''_'') n" for n
  proof -
    have "map (\<lambda>c. if is_leaf_char c then c else CHR ''_'') n = n"
      using that(1) by (induction n) auto
    with that show ?thesis by (simp add: profiled_bridge_leaf_def Let_def)
  qed
  have "profiled_bridge_leaf (Some ''a/b'') = profiled_bridge_leaf (Some ''a_b'')" by code_simp
  with leaf id show ?thesis
    by (auto simp: setup_dir_for_profile_def)
qed

lemma setup_dir_safe_and_isolated_witness:
  "setup_dir_for_profile (Some ''a.b'') \<noteq> setup_dir_for_profile (Some ''a-b'')"
proof -
  have "\<forall>n \<in> {''a.b'', ''a-b''}. list_all is_leaf_char n \<and> length n \<le> 64 \<and> list_ex (\<lambda>c. c \<noteq> CHR ''_'') n"
    by code_simp
  with setup_dir_safe_and_isolated [of None "''a.b''" "''a-b''"] show ?thesis by auto
qed

text \<open>
  A stop that is refused because the recorded process cannot be verified does nothing, and the command
  still answers that the tunnel was stopped.
\<close>

theorem refused_stop_reports_stopped:
  assumes "so_load ops (profile (cx_config ctx)) (tr_world s) = Inr (Some st)"
    and "owns_endpoint ctx (ts_remote_host st) (tunnel_remote_port st)"
    and "ts_pid st \<noteq> 0" "recorded_identity st = None"
    and "classify_ssh_pid (so_os ops (tr_world s)) (ts_pid st) = NotVerifiable reason"
  shows "cmd_stop ops ctx False False s = Some (Inr (Stopped (tunnel_mode st) (ts_port st) (ts_pid st)), s)"
proof -
  from assms(2) have "validate_tunnel_ownership ctx st = Inr ()"
    unfolding validate_tunnel_iff [symmetric] by (auto simp: is_ok_def split: sum.splits)
  with assms show ?thesis
    by (simp add: cmd_stop_def Let_def stop_saved_tunnel_def decide_stop_def decide_ssh_def carry_out_def)
qed

definition other_process :: platform where
  "other_process = Linux \<lparr>lp_stat = (\<lambda>p. Inl (NotFoundIo [])), lp_exe = (\<lambda>p. Inl (NotFoundIo [])),
     lp_cmdline = (\<lambda>p. Inr ''vi'')\<rparr>"

lemma refused_stop_reports_stopped_witness:
  "cmd_stop (quiet_ops other_process plain_tunnel) \<lparr>cx_config = plain_config, cx_target_id = None, cx_config_digest = []\<rparr>
     False False \<lparr>tr_world = 0, tr_log = []\<rparr> =
   Some (Inr (Stopped (tunnel_mode plain_tunnel) (ts_port plain_tunnel) (ts_pid plain_tunnel)),
     \<lparr>tr_world = 0, tr_log = []\<rparr>)"
  by (rule refused_stop_reports_stopped
        [where reason = "''pid '' @ show_nat (unat (42 :: u32)) @ '' is running but its command line is not ssh''"])
     (simp_all add: quiet_ops_def plain_tunnel_def owns_endpoint_def recorded_identity_def other_process_def)

text \<open>
  A tunnel opened by attach records the start marker of its ssh but not its executable, and then the stop
  does not look at the marker: a reused pid is told apart only by its command line.
\<close>

lemma stop_ignores_start_marker:
  assumes "ts_executable_path st = None"
  shows "stop_saved_tunnel ops cfg (st\<lparr>ts_start_identity := x\<rparr>) force s = stop_saved_tunnel ops cfg st force s"
proof -
  have none: "recorded_identity (st\<lparr>ts_start_identity := y\<rparr>) = None" for y
    using assms by (simp add: recorded_identity_None)
  have none': "recorded_identity st = None"
    using assms by (simp add: recorded_identity_None)
  have ssh: "decide_ssh os (st\<lparr>ts_start_identity := x\<rparr>) = decide_ssh os st" for os
    by (simp add: decide_ssh_def cong: pid_verdict.case_cong)
  have clean: "clean_up ops cfg (st\<lparr>ts_start_identity := x\<rparr>) = clean_up ops cfg st"
    by (intro ext) (simp add: clean_up_def tunnel_mode_def)
  have out: "carry_out ops cfg (st\<lparr>ts_start_identity := x\<rparr>) d s' = carry_out ops cfg st d s'"
    if "d \<noteq> GracefulIpcShutdown" for d s'
    using that by (cases d) (simp_all add: carry_out_def)
  have "d \<noteq> GracefulIpcShutdown" if "decide_stop ops st force (tr_world s) = (d, w)" for d w
    using that none' decide_ssh_cases(2) by (auto simp: decide_stop_def split: if_splits)
  moreover have "decide_stop ops (st\<lparr>ts_start_identity := x\<rparr>) force (tr_world s) = decide_stop ops st force (tr_world s)"
    by (simp add: decide_stop_def none none' ssh)
  ultimately show ?thesis
    by (auto simp: stop_saved_tunnel_def out clean split: prod.splits option.splits sum.splits)
qed

text \<open>
  On macOS, which has no \<open>/proc\<close>, detach never signals the ssh it is to end: it clears the state
  and answers that the tunnel is detached.
\<close>

theorem detach_on_macos_leaves_ssh:
  assumes "so_os ops (tr_world s) = MacOS p"
    and "so_load ops (profile (cx_config ctx)) (tr_world s) = Inr (Some st)"
    and "owns_endpoint ctx (ts_remote_host st) (tunnel_remote_port st)"
    and "tunnel_mode st = TUNNEL_MODE_ATTACHED"
    and "so_clear ops (profile (cx_config ctx)) (tr_world s) = (Inr (), w)"
  shows "cmd_detach ops ctx s =
    (Inr (Detached (ts_port st) (ts_pid st) (ts_attached_session_id st) (ts_attached_remote_port st)
       (ts_remote_host st)),
     \<lparr>tr_world = w, tr_log = tr_log s @ [ClearedState (profile (cx_config ctx))]\<rparr>)"
proof -
  from assms(3) have "validate_tunnel_ownership ctx st = Inr ()"
    unfolding validate_tunnel_iff [symmetric] by (auto simp: is_ok_def split: sum.splits)
  with assms show ?thesis
    by (simp add: cmd_detach_def Let_def kill_tunnel_pid_def clear_with_profile_def emit_def)
qed

definition mac_process :: platform where
  "mac_process = MacOS \<lparr>mp_proc = (\<lambda>p. Inl 1), mp_args = (\<lambda>p. Inl 1), mp_lossy = (\<lambda>b. [])\<rparr>"

definition attached_tunnel :: tunnel_state where
  "attached_tunnel = plain_tunnel\<lparr>ts_mode := Some TUNNEL_MODE_ATTACHED\<rparr>"

lemma detach_on_macos_leaves_ssh_witness:
  "cmd_detach (quiet_ops mac_process attached_tunnel)
     \<lparr>cx_config = plain_config, cx_target_id = None, cx_config_digest = []\<rparr> \<lparr>tr_world = 0, tr_log = []\<rparr> =
   (Inr (Detached (ts_port attached_tunnel) (ts_pid attached_tunnel) (ts_attached_session_id attached_tunnel)
       (ts_attached_remote_port attached_tunnel) (ts_remote_host attached_tunnel)),
     \<lparr>tr_world = 0, tr_log = [] @ [ClearedState (profile plain_config)]\<rparr>)"
  using detach_on_macos_leaves_ssh [of "quiet_ops mac_process attached_tunnel" "\<lparr>tr_world = 0, tr_log = []\<rparr>"
      "\<lparr>mp_proc = (\<lambda>p. Inl 1), mp_args = (\<lambda>p. Inl 1), mp_lossy = (\<lambda>b. [])\<rparr>"
      "\<lparr>cx_config = plain_config, cx_target_id = None, cx_config_digest = []\<rparr>" attached_tunnel 0]
  by (simp add: quiet_ops_def mac_process_def owns_endpoint_def attached_tunnel_def tunnel_mode_def)

section \<open>The wait\<close>

lemma wait_loop_returns:
  fixes t :: "'w \<Rightarrow> nat"
  assumes clock: "\<And>w. so_clock ops w = (t w, w)"
    and gone: "\<And>w. t w \<le> t (snd (so_gone ops pid w))"
    and sleep: "\<And>d w. t w + d \<le> t (so_sleep ops d w)"
  shows "\<exists>r w'. wait_loop ops pid limit w = Some (r, w') \<and> (\<not> r \<longrightarrow> limit \<le> t w')"
proof (induction "limit - t w" arbitrary: w rule: less_induct)
  case less
  obtain g w1 where g: "so_gone ops pid w = (g, w1)" by fastforce
  show ?case
  proof (cases "g \<or> limit \<le> t w1")
    case True
    with g show ?thesis by (subst wait_loop.simps) (auto simp: clock)
  next
    case False
    let ?w = "so_sleep ops (from_millis 50) w1"
    have "t w \<le> t w1" using gone [of w] g by simp
    moreover have "t w1 < t ?w" using sleep [of w1 "from_millis 50"] by simp
    ultimately have "limit - t ?w < limit - t w" using False by arith
    from less.hyps [OF this] False g show ?thesis
      by (subst wait_loop.simps) (simp add: clock)
  qed
qed

text \<open>
  On a clock that moves with every sleep, the wait for a daemon to exit returns, and it gives up only
  once the grace has passed.
\<close>

theorem wait_for_exit_returns:
  fixes t :: "'w \<Rightarrow> nat"
  assumes "\<And>w. so_clock ops w = (t w, w)"
    and "\<And>w. t w \<le> t (snd (so_gone ops pid w))"
    and "\<And>d w. t w + d \<le> t (so_sleep ops d w)"
  shows "\<exists>r w'. wait_for_daemon_exit ops pid grace w = Some (r, w') \<and> (\<not> r \<longrightarrow> t w + grace \<le> t w')"
  using wait_loop_returns [of ops t pid "t w + grace" w] assms
  by (simp add: wait_for_daemon_exit_def)

lemma wait_for_exit_returns_witness:
  "\<exists>r w'. wait_for_daemon_exit (quiet_ops ssh_process plain_tunnel) 42 (from_secs 3) 5 = Some (r, w') \<and>
     (r \<or> 5 + from_secs 3 \<le> w')"
proof -
  have "\<exists>r w'. wait_for_daemon_exit (quiet_ops ssh_process plain_tunnel) 42 (from_secs 3) 5 = Some (r, w') \<and>
     (\<not> r \<longrightarrow> id 5 + from_secs 3 \<le> id w')"
    by (rule wait_for_exit_returns) (simp_all add: quiet_ops_def)
  then show ?thesis by auto
qed

end
