(* ===== verification/Sessions.thy ===== *)
theory Sessions
  imports Tunnel_Stop
begin

text \<open>
  \<open>src/commands/session.rs\<close>: which port, if any, a session may be probed on, and the commands
  \<open>show\<close>, \<open>list\<close>, \<open>current\<close> and \<open>cleanup\<close>.  What the commands see of the machine is the
  record \<open>host_view\<close>; the daemon's answers are arguments.
\<close>

section \<open>Host names\<close>

text \<open>\<open>is_ip\<close> is the standard library's parser of IP addresses.\<close>

definition hostnames_match :: "(string \<Rightarrow> bool) \<Rightarrow> string \<Rightarrow> string \<Rightarrow> bool" where
  "hostnames_match is_ip a b =
     (if a = b then True
      else if is_ip a \<or> is_ip b then False
      else if CHR ''.'' \<in> set a \<and> CHR ''.'' \<in> set b then False
      else let a_short = hd (split_char (CHR ''.'') a); b_short = hd (split_char (CHR ''.'') b)
           in a_short \<noteq> [] \<and> a_short = b_short)"

text \<open>\<open>hv_system\<close>: \<open>system_hostname\<close>; \<open>hv_env_host\<close>: the variable \<open>HOSTNAME\<close>.\<close>

record host_view =
  hv_is_ip :: "string \<Rightarrow> bool"
  hv_system :: "string option"
  hv_env_host :: "string option"
  hv_reachable :: "u16 \<Rightarrow> bool"
  hv_os :: platform

definition LOCAL_HOSTNAMES :: "string list" where
  "LOCAL_HOSTNAMES = [''localhost'', ''127.0.0.1'', ''::1'']"

definition is_local_session :: "host_view \<Rightarrow> config \<Rightarrow> session_info \<Rightarrow> bool" where
  "is_local_session hv cfg s =
     (case remote_host cfg of
        Some host \<Rightarrow> si_host s = host
      | None \<Rightarrow>
          if si_host s \<in> set LOCAL_HOSTNAMES then True
          else case nonblank (hv_system hv) of
            Some sys_host \<Rightarrow> hostnames_match (hv_is_ip hv) sys_host (si_host s)
          | None \<Rightarrow>
              (case nonblank (hv_env_host hv) of
                 Some env_host \<Rightarrow> hostnames_match (hv_is_ip hv) env_host (si_host s)
               | None \<Rightarrow> False))"

section \<open>The endpoint to probe\<close>

datatype probe_endpoint = LocalProbe u16 | RemoteTunnel u16

type_synonym skip_reason = string

definition ownership_fails :: "command_context \<Rightarrow> session_info \<Rightarrow> bool" where
  "ownership_fails ctx s \<longleftrightarrow> cx_target_id ctx \<noteq> None \<and> \<not> is_ok (validate_session_ownership ctx s)"

definition resolve_local_direct ::
    "host_view \<Rightarrow> command_context \<Rightarrow> session_info \<Rightarrow> skip_reason + probe_endpoint" where
  "resolve_local_direct hv ctx s =
     (if \<not> is_local_session hv (cx_config ctx) s then Inl ''local_ownership_unverified''
      else if ownership_fails ctx s then Inl ''ownership_mismatch''
      else if \<not> hv_reachable hv (si_port s) then Inl ''local_port_unreachable''
      else Inr (LocalProbe (si_port s)))"

definition state_remote_port :: "tunnel_state \<Rightarrow> u16 option" where
  "state_remote_port st =
     (case ts_remote_bridge_port st of Some p \<Rightarrow> Some p | None \<Rightarrow> ts_attached_remote_port st)"

definition check_forward_process :: "host_view \<Rightarrow> tunnel_state \<Rightarrow> skip_reason + probe_endpoint" where
  "check_forward_process hv st =
     (if ts_pid st = 0 then Inl ''tunnel_no_pid''
      else case (case ts_start_identity st of Some i \<Rightarrow> if i > 0 then Some i else None | None \<Rightarrow> None) of
        None \<Rightarrow> Inl ''tunnel_identity_unverified''
      | Some expected \<Rightarrow>
          (case of_pid (hv_os hv) (ts_pid st) of
             Inl (NoSuchProcess p) \<Rightarrow> Inl ''tunnel_process_dead''
           | Inl e \<Rightarrow> Inl ''tunnel_identity_unreadable''
           | Inr actual \<Rightarrow>
               (case classify_ssh_pid (hv_os hv) (ts_pid st) of
                  Gone \<Rightarrow> Inl ''tunnel_process_dead''
                | NotVerifiable r \<Rightarrow> Inl ''tunnel_process_not_ssh''
                | VerifiedSsh \<Rightarrow>
                    if start_identity actual \<noteq> expected then Inl ''tunnel_process_reused''
                    else if \<not> hv_reachable hv (ts_port st) then Inl ''forward_port_unreachable''
                    else Inr (RemoteTunnel (ts_port st)))))"

definition resolve_remote_tunnel ::
    "host_view \<Rightarrow> command_context \<Rightarrow> session_info \<Rightarrow> tunnel_state option \<Rightarrow> skip_reason + probe_endpoint" where
  "resolve_remote_tunnel hv ctx s state =
     (if ownership_fails ctx s then Inl ''ownership_mismatch''
      else case state of
        None \<Rightarrow> Inl ''no_tunnel''
      | Some st \<Rightarrow>
          if ts_mode st \<noteq> Some ''attached'' then Inl ''tunnel_not_attached''
          else if ts_attached_session_id st \<noteq> Some (si_id s) then Inl ''session_id_mismatch''
          else if ts_remote_host st \<noteq> si_host s then Inl ''tunnel_host_mismatch''
          else if state_remote_port st \<noteq> Some (si_port s) then Inl ''tunnel_remote_port_mismatch''
          else if \<not> is_ok (validate_tunnel_ownership ctx st) then Inl ''tunnel_context_mismatch''
          else check_forward_process hv st)"

definition resolve_probe_endpoint_with_state ::
    "host_view \<Rightarrow> command_context \<Rightarrow> session_info \<Rightarrow> tunnel_state option \<Rightarrow> skip_reason + probe_endpoint" where
  "resolve_probe_endpoint_with_state hv ctx s state =
     (if is_remote (cx_config ctx) then resolve_remote_tunnel hv ctx s state
      else resolve_local_direct hv ctx s)"

text \<open>\<open>loaded\<close> is the tunnel state of the context's profile, or the error of reading it.\<close>

definition resolve_probe_endpoint ::
    "host_view \<Rightarrow> (string + tunnel_state option) \<Rightarrow> command_context \<Rightarrow> session_info \<Rightarrow>
     skip_reason + probe_endpoint" where
  "resolve_probe_endpoint hv loaded ctx s =
     (if is_remote (cx_config ctx) then
        (case loaded of
           Inl e \<Rightarrow> Inl ''tunnel_state_error''
         | Inr state \<Rightarrow> resolve_probe_endpoint_with_state hv ctx s state)
      else resolve_probe_endpoint_with_state hv ctx s None)"

section \<open>Matching and the cross-user check\<close>

definition compute_endpoint_match :: "command_context \<Rightarrow> session_info \<Rightarrow> string" where
  "compute_endpoint_match ctx s =
     (if cx_target_id ctx = None then ''unchecked''
      else if is_ok (validate_session_ownership ctx s) then ''match'' else ''mismatch'')"

datatype identity_probe = Ran | Skipped string

definition check_version_skew :: "string \<Rightarrow> string \<Rightarrow> string option" where
  "check_version_skew cli_version v =
     (if v = cli_version then None
      else Some (''daemon reports version '' @ debug_str v @ '' but vcli binary is '' @ debug_str cli_version @
        ''. They are out of sync '' @ em_dash @ '' reinstall vcli (`cargo install --path .` or pull a fresh release) '' @
        ''and reload ramic_bridge.il in the CIW to align versions.''))"

definition unconfirmed_user :: "session_info \<Rightarrow> string \<Rightarrow> identity_probe \<Rightarrow> string" where
  "unconfirmed_user s expected probe =
     ''daemon Unix user unconfirmed for session '' @ si_id s @
     (case probe of
        Skipped reason \<Rightarrow>
          '': the identity probe was skipped ('' @ reason @ ''), so the cross-user check against configured '' @
          ''remote_user '' @ debug_str expected @ '' was NOT performed (UNCONFIRMED identity '' @ em_dash @
          '' not a mismatch).''
      | Ran \<Rightarrow>
          '': the identity probe ran but returned no user, so the cross-user check against configured '' @
          ''remote_user '' @ debug_str expected @ '' was NOT performed (UNCONFIRMED identity '' @ em_dash @
          '' not a mismatch). Check the daemon load, or raise VB_TIMEOUT so the probe gets enough budget.'')"

definition check_cross_user ::
    "config \<Rightarrow> session_info \<Rightarrow> string option \<Rightarrow> identity_probe \<Rightarrow> string option" where
  "check_cross_user cfg s daemon_user probe =
     (case nonblank (map_option trim (remote_user cfg)) of
        None \<Rightarrow> None
      | Some expected \<Rightarrow>
          (case daemon_user of
             None \<Rightarrow> Some (unconfirmed_user s expected probe)
           | Some u \<Rightarrow>
               if u = expected \<or> allow_cross_user_daemon cfg then None
               else Some (''daemon Unix user '' @ debug_str u @ '' does not match configured remote_user '' @
                 debug_str expected @ '' for session '' @ si_id s @
                 ''. Set allow_cross_user_daemon: true (or VB_ALLOW_CROSS_USER_DAEMON=1) to override intentionally.'')))"

section \<open>Showing a session\<close>

record probe_outcome =
  pr_daemon_user :: "string option"
  pr_user_warning :: "string option"
  pr_responsive :: "bool option"
  pr_daemon_version :: "string option"
  pr_version_warning :: "string option"
  pr_skipped :: bool
  pr_skip_reason :: "string option"
  pr_source :: "string option"
  pr_port :: "u16 option"

text \<open>What the daemon answers on a port: liveness, user and version.\<close>

record daemon_answers =
  da_alive :: "u16 \<Rightarrow> bool"
  da_user :: "u16 \<Rightarrow> virtuoso_error + string option"
  da_version :: "u16 \<Rightarrow> virtuoso_error + string option"

fun probe_location :: "probe_endpoint \<Rightarrow> u16 \<times> string" where
  "probe_location (LocalProbe p) = (p, ''local'')"
| "probe_location (RemoteTunnel p) = (p, ''remote_tunnel'')"

definition probe_daemon ::
    "string \<Rightarrow> daemon_answers \<Rightarrow> session_info \<Rightarrow> (skip_reason + probe_endpoint) \<Rightarrow> probe_outcome" where
  "probe_daemon cli_version da s resolved =
     (case resolved of
        Inr ep \<Rightarrow>
          (case probe_location ep of
             (p, source) \<Rightarrow>
               if \<not> da_alive da p then
                 \<lparr>pr_daemon_user = si_daemon_user s, pr_user_warning = None, pr_responsive = Some False,
                  pr_daemon_version = si_daemon_version s, pr_version_warning = None, pr_skipped = True,
                  pr_skip_reason = Some ''daemon_not_alive'', pr_source = Some source, pr_port = Some p\<rparr>
               else
                 \<lparr>pr_daemon_user = (case da_user da p of Inr u \<Rightarrow> u | Inl e \<Rightarrow> None),
                  pr_user_warning = (case da_user da p of Inr u \<Rightarrow> None
                    | Inl e \<Rightarrow> Some (''daemon user query failed: '' @ display_virtuoso_error e)),
                  pr_responsive = Some True,
                  pr_daemon_version = (case da_version da p of Inr v \<Rightarrow> v | Inl e \<Rightarrow> None),
                  pr_version_warning = (case da_version da p of
                      Inr (Some v) \<Rightarrow> check_version_skew cli_version v
                    | Inr None \<Rightarrow> None
                    | Inl e \<Rightarrow> Some (''daemon version query failed: '' @ display_virtuoso_error e)),
                  pr_skipped = False, pr_skip_reason = None, pr_source = Some source, pr_port = Some p\<rparr>)
      | Inl reason \<Rightarrow>
          \<lparr>pr_daemon_user = si_daemon_user s, pr_user_warning = None, pr_responsive = None,
           pr_daemon_version = si_daemon_version s, pr_version_warning = None, pr_skipped = True,
           pr_skip_reason = Some reason, pr_source = None, pr_port = None\<rparr>)"

definition probe_ran :: "probe_outcome \<Rightarrow> identity_probe" where
  "probe_ran pr =
     (if pr_skipped pr then Skipped (case pr_skip_reason pr of Some r \<Rightarrow> r | None \<Rightarrow> ''unknown'') else Ran)"

text \<open>The record that is written back to the session file, if it changed.\<close>

definition write_back :: "session_info \<Rightarrow> probe_outcome \<Rightarrow> session_info option" where
  "write_back s pr =
     (if pr_skipped pr then None
      else let s1 = s\<lparr>si_daemon_user := pr_daemon_user pr\<rparr>;
               s2 = (case pr_daemon_version pr of Some v \<Rightarrow> s1\<lparr>si_daemon_version := Some v\<rparr> | None \<Rightarrow> s1)
           in if s2 \<noteq> s then Some s2 else None)"

record shown_session =
  sh_warning :: bool
  sh_endpoint_match :: string
  sh_probe :: probe_outcome
  sh_cross_user :: "string option"
  sh_stale_hint :: bool
  sh_data_source :: string
  sh_saved :: "session_info option"

definition show_session ::
    "string \<Rightarrow> host_view \<Rightarrow> (string + tunnel_state option) \<Rightarrow> daemon_answers \<Rightarrow> command_context \<Rightarrow>
     session_info \<Rightarrow> shown_session" where
  "show_session cli_version hv loaded da ctx s =
     (let pr = probe_daemon cli_version da s (resolve_probe_endpoint hv loaded ctx s);
          cross = check_cross_user (cx_config ctx) s (pr_daemon_user pr) (probe_ran pr);
          stale = (pr_responsive pr = Some False)
      in \<lparr>sh_warning = (cross \<noteq> None \<or> pr_version_warning pr \<noteq> None \<or> pr_user_warning pr \<noteq> None \<or> stale),
          sh_endpoint_match = compute_endpoint_match ctx s, sh_probe = pr, sh_cross_user = cross,
          sh_stale_hint = stale, sh_data_source = (if pr_skipped pr then ''cached'' else ''live''),
          sh_saved = write_back s pr\<rparr>)"

section \<open>Listing, selecting, cleaning up\<close>

definition listed_status :: "(skip_reason + probe_endpoint) \<Rightarrow> bool \<times> string" where
  "listed_status r =
     (case r of
        Inr (LocalProbe p) \<Rightarrow> (False, ''reachable'')
      | Inr (RemoteTunnel p) \<Rightarrow> (True, ''reachable'')
      | Inl reason \<Rightarrow>
          if reason = ''forward_port_unreachable'' then (True, ''unreachable'')
          else if reason = ''local_port_unreachable'' then (False, ''unreachable'')
          else (False, ''not_probed''))"

text \<open>\<open>is_alive\<close>: the session's port accepts a connection on this machine.\<close>

definition is_alive :: "host_view \<Rightarrow> session_info \<Rightarrow> bool" where
  "is_alive hv s \<longleftrightarrow> hv_reachable hv (si_port s)"

datatype current_session =
    NoSession nat
  | OneSession session_info
  | AmbiguousSessions "string list"

definition session_reachable ::
    "host_view \<Rightarrow> (string + tunnel_state option) \<Rightarrow> command_context \<Rightarrow> session_info \<Rightarrow> bool" where
  "session_reachable hv loaded ctx s =
     (if cx_target_id ctx = None then is_alive hv s
      else compute_endpoint_match ctx s \<noteq> ''mismatch'' \<and> is_ok (resolve_probe_endpoint hv loaded ctx s))"

definition current ::
    "host_view \<Rightarrow> (string + tunnel_state option) \<Rightarrow> command_context \<Rightarrow> session_info list \<Rightarrow> current_session" where
  "current hv loaded ctx all =
     (let reachable = filter (session_reachable hv loaded ctx) all;
          skipped = (if cx_target_id ctx = None then 0 else length all - length reachable)
      in case reachable of
           [] \<Rightarrow> NoSession skipped
         | [s] \<Rightarrow> OneSession s
         | _ \<Rightarrow> AmbiguousSessions (map si_id reachable))"

datatype cleanup_fate = RemoveSession | KeepSession string

definition cleanup_one ::
    "host_view \<Rightarrow> (string + tunnel_state option) \<Rightarrow> command_context \<Rightarrow> session_info \<Rightarrow> cleanup_fate" where
  "cleanup_one hv loaded ctx s =
     (if cx_target_id ctx \<noteq> None \<and> compute_endpoint_match ctx s = ''mismatch'' then KeepSession ''endpoint_mismatch''
      else if cx_target_id ctx = None then
        (if is_alive hv s then KeepSession ''reachable'' else RemoveSession)
      else case resolve_probe_endpoint hv loaded ctx s of
        Inr ep \<Rightarrow> KeepSession ''reachable''
      | Inl reason \<Rightarrow>
          if reason = ''local_port_unreachable'' then RemoveSession
          else KeepSession (''skipped:cannot_verify:'' @ reason))"

text \<open>\<open>removable\<close> says whether deleting a session's file succeeds.  The ids removed and those kept.\<close>

definition cleanup_sessions ::
    "host_view \<Rightarrow> (string + tunnel_state option) \<Rightarrow> (string \<Rightarrow> bool) \<Rightarrow> command_context \<Rightarrow> bool \<Rightarrow>
     session_info list \<Rightarrow> string list \<times> (string \<times> string) list" where
  "cleanup_sessions hv loaded removable ctx dry_run all =
     foldl (\<lambda>(removed, skipped) s.
       case cleanup_one hv loaded ctx s of
         RemoveSession \<Rightarrow>
           if dry_run \<or> removable (si_id s) then (removed @ [si_id s], skipped)
           else (removed, skipped @ [(si_id s, ''remove_failed'')])
       | KeepSession reason \<Rightarrow> (removed, skipped @ [(si_id s, reason)])) ([], []) all"

section \<open>Facts\<close>

lemma hostnames_match_refl [simp]: "hostnames_match is_ip a a"
  by (simp add: hostnames_match_def)

lemma split_char_takeWhile: "hd (split_char d s) = takeWhile (\<lambda>c. c \<noteq> d) s"
  by (induction s) (auto split: list.splits)

lemma takeWhile_eq_dotted:
  "takeWhile (\<lambda>c. c \<noteq> d) b = a \<longleftrightarrow> d \<notin> set a \<and> (b = a \<or> (\<exists>r. b = a @ d # r))"
proof
  assume t: "takeWhile (\<lambda>c. c \<noteq> d) b = a"
  then have "d \<notin> set a" by (auto dest: set_takeWhileD)
  moreover have "b = a @ dropWhile (\<lambda>c. c \<noteq> d) b" using t by (metis takeWhile_dropWhile_id)
  moreover have "dropWhile (\<lambda>c. c \<noteq> d) b = [] \<or> (\<exists>r. dropWhile (\<lambda>c. c \<noteq> d) b = d # r)"
    by (cases "dropWhile (\<lambda>c. c \<noteq> d) b") (auto dest: dropWhile_eq_Cons_conv [THEN iffD1])
  ultimately show "d \<notin> set a \<and> (b = a \<or> (\<exists>r. b = a @ d # r))"
    by (metis append_Nil2)
next
  assume "d \<notin> set a \<and> (b = a \<or> (\<exists>r. b = a @ d # r))"
  then show "takeWhile (\<lambda>c. c \<noteq> d) b = a" by (auto simp: takeWhile_append2 takeWhile_tail)
qed

definition short_of :: "string \<Rightarrow> string \<Rightarrow> bool" where
  "short_of a b \<longleftrightarrow> a \<noteq> [] \<and> CHR ''.'' \<notin> set a \<and> (\<exists>r. b = a @ CHR ''.'' # r)"

lemma cleanup_removed:
  "r \<in> set (fst (cleanup_sessions hv loaded removable ctx dry_run all)) \<longleftrightarrow>
     (\<exists>s \<in> set all. si_id s = r \<and> cleanup_one hv loaded ctx s = RemoveSession \<and> (dry_run \<or> removable (si_id s)))"
proof -
  have "r \<in> set (fst (foldl (\<lambda>(removed, skipped) s.
       case cleanup_one hv loaded ctx s of
         RemoveSession \<Rightarrow>
           if dry_run \<or> removable (si_id s) then (removed @ [si_id s], skipped)
           else (removed, skipped @ [(si_id s, ''remove_failed'')])
       | KeepSession reason \<Rightarrow> (removed, skipped @ [(si_id s, reason)])) (rm, sk) all)) \<longleftrightarrow>
     r \<in> set rm \<or> (\<exists>s \<in> set all. si_id s = r \<and> cleanup_one hv loaded ctx s = RemoveSession \<and>
       (dry_run \<or> removable (si_id s)))" for rm sk
    by (induction all arbitrary: rm sk) (auto split: cleanup_fate.splits)
  from this [of "[]" "[]"] show ?thesis by (simp add: cleanup_sessions_def)
qed

section \<open>Properties\<close>

text \<open>
  Two host names match exactly when they are equal, or neither is an address and one is the first
  label of the other.
\<close>

theorem hostnames_match_exact:
  "hostnames_match is_ip a b \<longleftrightarrow> a = b \<or> (\<not> is_ip a \<and> \<not> is_ip b \<and> (short_of a b \<or> short_of b a))"
proof -
  have eq: "hd (split_char (CHR ''.'') x) = x" if "CHR ''.'' \<notin> set x" for x
    using that by (metis split_char_takeWhile takeWhile_eq_dotted)
  consider "CHR ''.'' \<in> set a" "CHR ''.'' \<in> set b" | "CHR ''.'' \<notin> set a" | "CHR ''.'' \<notin> set b" by blast
  then show ?thesis
  proof cases
    case 1
    then show ?thesis by (auto simp: hostnames_match_def short_of_def)
  next
    case 2
    have "hd (split_char (CHR ''.'') b) = a \<longleftrightarrow> b = a \<or> (\<exists>r. b = a @ CHR ''.'' # r)"
      using 2 by (simp add: split_char_takeWhile takeWhile_eq_dotted)
    with 2 eq [OF 2] show ?thesis by (auto simp: hostnames_match_def short_of_def Let_def)
  next
    case 3
    have "hd (split_char (CHR ''.'') a) = b \<longleftrightarrow> a = b \<or> (\<exists>r. a = b @ CHR ''.'' # r)"
      using 3 by (simp add: split_char_takeWhile takeWhile_eq_dotted)
    with 3 eq [OF 3] show ?thesis by (auto simp: hostnames_match_def short_of_def Let_def)
  qed
qed

lemma hostnames_match_exact_witness:
  "hostnames_match (\<lambda>s. False) ''n42'' ''n42.lab'' \<and> \<not> hostnames_match (\<lambda>s. False) ''n42.a'' ''n42.b''"
proof -
  have "short_of ''n42'' ''n42.lab''" by (simp add: short_of_def)
  moreover have "\<not> short_of ''n42.a'' ''n42.b'' \<and> \<not> short_of ''n42.b'' ''n42.a''" by (simp add: short_of_def)
  ultimately show ?thesis
    using hostnames_match_exact [of "\<lambda>s. False" "''n42''" "''n42.lab''"]
      hostnames_match_exact [of "\<lambda>s. False" "''n42.a''" "''n42.b''"] by simp
qed

lemma check_forward_process_ok:
  assumes "check_forward_process hv st = Inr ep"
  obtains i where "ep = RemoteTunnel (ts_port st)" "ts_pid st \<noteq> 0" "of_pid (hv_os hv) (ts_pid st) = Inr i"
    "ts_start_identity st = Some (start_identity i)" "classify_ssh_pid (hv_os hv) (ts_pid st) = VerifiedSsh"
    "hv_reachable hv (ts_port st)"
  using assms
  by (auto simp: check_forward_process_def
      split: option.splits sum.splits identity_error.splits pid_verdict.splits if_splits)

text \<open>
  A session is probed through a tunnel only when the profile's tunnel is attached to this very session,
  leads to its host and port, belongs to the selected target, and its ssh is running, is an ssh, and is the
  process that was recorded.
\<close>

theorem remote_probe_is_verified:
  assumes "resolve_probe_endpoint hv loaded ctx s = Inr (RemoteTunnel p)"
  shows "\<exists>st i. is_remote (cx_config ctx) \<and> loaded = Inr (Some st) \<and> p = ts_port st \<and>
    owns_endpoint ctx (si_host s) (si_port s) \<and>
    ts_mode st = Some TUNNEL_MODE_ATTACHED \<and> ts_attached_session_id st = Some (si_id s) \<and>
    ts_remote_host st = si_host s \<and> tunnel_remote_port st = si_port s \<and>
    of_pid (hv_os hv) (ts_pid st) = Inr i \<and> ts_start_identity st = Some (start_identity i) \<and>
    classify_ssh_pid (hv_os hv) (ts_pid st) = VerifiedSsh \<and> hv_reachable hv p"
proof -
  have local: "resolve_local_direct hv ctx s \<noteq> Inr (RemoteTunnel p)"
    by (simp add: resolve_local_direct_def)
  with assms obtain st where st: "is_remote (cx_config ctx)" "loaded = Inr (Some st)"
      "\<not> ownership_fails ctx s" "ts_mode st = Some ''attached''" "ts_attached_session_id st = Some (si_id s)"
      "ts_remote_host st = si_host s" "state_remote_port st = Some (si_port s)"
      "check_forward_process hv st = Inr (RemoteTunnel p)"
    by (auto simp: resolve_probe_endpoint_def resolve_probe_endpoint_with_state_def resolve_remote_tunnel_def
        split: sum.splits option.splits if_splits)
  from st(3) have "owns_endpoint ctx (si_host s) (si_port s)"
    unfolding ownership_fails_def validate_session_iff by (auto simp: owns_endpoint_def)
  moreover from st(7) have "tunnel_remote_port st = si_port s"
    by (auto simp: state_remote_port_def tunnel_remote_port_def split: option.splits)
  ultimately show ?thesis
    using st by (auto simp: TUNNEL_MODE_ATTACHED_def elim!: check_forward_process_ok)
qed

text \<open>
  With a target selected, cleaning up removes only sessions of that target on this machine whose port
  no longer accepts connections: for a remote target it removes nothing.
\<close>

theorem cleanup_removes_only_local_dead:
  assumes "r \<in> set (fst (cleanup_sessions hv loaded removable ctx dry_run all))" "cx_target_id ctx \<noteq> None"
  shows "\<not> is_remote (cx_config ctx) \<and>
    (\<exists>s \<in> set all. si_id s = r \<and> owns_endpoint ctx (si_host s) (si_port s) \<and>
       is_local_session hv (cx_config ctx) s \<and> \<not> hv_reachable hv (si_port s))"
proof -
  from assms(1) obtain s where s: "s \<in> set all" "si_id s = r" "cleanup_one hv loaded ctx s = RemoveSession"
    by (auto simp: cleanup_removed)
  with assms(2) have own: "owns_endpoint ctx (si_host s) (si_port s)"
    and r: "resolve_probe_endpoint hv loaded ctx s = Inl ''local_port_unreachable''"
    by (auto simp: cleanup_one_def compute_endpoint_match_def validate_session_iff split: sum.splits if_splits)
  have remote: "resolve_remote_tunnel hv ctx s state \<noteq> Inl ''local_port_unreachable''" for state
    by (auto simp: resolve_remote_tunnel_def check_forward_process_def
        split: option.splits sum.splits identity_error.splits pid_verdict.splits)
  have "\<not> is_remote (cx_config ctx)" and "resolve_local_direct hv ctx s = Inl ''local_port_unreachable''"
    using r remote
    by (auto simp: resolve_probe_endpoint_def resolve_probe_endpoint_with_state_def split: sum.splits if_splits)
  with s own show ?thesis
    by (auto simp: resolve_local_direct_def split: if_splits)
qed

definition quiet_view :: "bool \<Rightarrow> platform \<Rightarrow> host_view" where
  "quiet_view open_port os =
     \<lparr>hv_is_ip = (\<lambda>s. False), hv_system = Some ''n42'', hv_env_host = None,
      hv_reachable = (\<lambda>p. open_port), hv_os = os\<rparr>"

definition sample_session :: session_info where
  "sample_session = \<lparr>si_id = ''s'', si_port = 3000, si_pid = 1, si_host = ''n42'', si_user = ''u'',
     si_created = [], si_daemon_user = None, si_daemon_version = None\<rparr>"

definition lab_context :: "string option \<Rightarrow> command_context" where
  "lab_context host = \<lparr>cx_config = plain_config\<lparr>remote_host := host\<rparr>, cx_target_id = Some ''lab'', cx_config_digest = []\<rparr>"

lemma lab_context_owns:
  "owns_endpoint (lab_context host) h p \<longleftrightarrow> is_loopback (or_empty host) \<or> or_empty host \<in> {[], h}"
proof -
  have "port_explicit plain_config = False"
    by (simp add: plain_config_def from_target_def default_target_def default_port_def or_empty_def)
  then show ?thesis by (auto simp: owns_endpoint_def lab_context_def)
qed

lemma cleanup_removes_only_local_dead_witness:
  "''s'' \<in> set (fst (cleanup_sessions (quiet_view False OtherPlatform) (Inr None) (\<lambda>i. True) (lab_context None) False
     [sample_session])) \<and> \<not> is_remote (cx_config (lab_context None))"
proof -
  have "resolve_probe_endpoint (quiet_view False OtherPlatform) (Inr None) (lab_context None) sample_session =
      Inl ''local_port_unreachable''"
    by (simp add: resolve_probe_endpoint_def resolve_probe_endpoint_with_state_def is_remote_def lab_context_def
        resolve_local_direct_def is_local_session_def quiet_view_def sample_session_def LOCAL_HOSTNAMES_def
        hostnames_match_def ownership_fails_def validate_session_ownership_def validate_endpoint_iff)
       (simp add: owns_endpoint_def or_empty_def plain_config_def from_target_def default_target_def default_port_def
        nonblank_def)
  moreover have "compute_endpoint_match (lab_context None) sample_session = ''match''"
    by (simp add: compute_endpoint_match_def validate_session_iff lab_context_owns or_empty_def)
       (simp add: lab_context_def)
  ultimately have
    "''s'' \<in> set (fst (cleanup_sessions (quiet_view False OtherPlatform) (Inr None) (\<lambda>i. True) (lab_context None)
       False [sample_session]))"
    by (simp add: cleanup_removed cleanup_one_def) (simp add: lab_context_def sample_session_def)
  with cleanup_removes_only_local_dead [OF this] show ?thesis by (simp add: lab_context_def)
qed

definition attached_to_sample :: tunnel_state where
  "attached_to_sample = plain_tunnel\<lparr>ts_mode := Some ''attached'', ts_attached_session_id := Some ''s'',
     ts_remote_host := ''n42'', ts_remote_bridge_port := Some 3000, ts_start_identity := Some 7\<rparr>"

lemma remote_probe_is_verified_witness:
  "resolve_probe_endpoint (quiet_view True (one_process ''/usr/bin/ssh'')) (Inr (Some attached_to_sample))
     (lab_context (Some ''n42'')) sample_session = Inr (RemoteTunnel 3000) \<and>
   hv_reachable (quiet_view True (one_process ''/usr/bin/ssh'')) 3000"
proof -
  have os: "of_pid (one_process ''/usr/bin/ssh'') 42 = Inr \<lparr>executable_path = ''/usr/bin/ssh'', id_pid = 42,
      start_identity = 7\<rparr>" "classify_ssh_pid (one_process ''/usr/bin/ssh'') 42 = VerifiedSsh"
    by (simp add: of_pid_one_process, simp add: one_process_def)
  have own: "\<not> ownership_fails (lab_context (Some ''n42'')) sample_session"
      "is_ok (validate_tunnel_ownership (lab_context (Some ''n42'')) attached_to_sample)"
    by (simp_all add: ownership_fails_def validate_session_iff validate_tunnel_iff lab_context_owns or_empty_def
        sample_session_def attached_to_sample_def)
  have r: "resolve_probe_endpoint (quiet_view True (one_process ''/usr/bin/ssh'')) (Inr (Some attached_to_sample))
     (lab_context (Some ''n42'')) sample_session = Inr (RemoteTunnel 3000)"
    using own os
    by (simp add: resolve_probe_endpoint_def resolve_probe_endpoint_with_state_def resolve_remote_tunnel_def
        is_remote_def) (simp add: lab_context_def attached_to_sample_def plain_tunnel_def sample_session_def
        state_remote_port_def check_forward_process_def quiet_view_def)
  from remote_probe_is_verified [OF r] r show ?thesis by auto
qed

end
