(* ===== verification/Session_Attach.thy ===== *)
theory Session_Attach
  imports Sessions
begin

text \<open>
  Finding a live session on the remote host (\<open>src/transport/session_discovery.rs\<close>) and attaching a
  tunnel to it (\<open>src/commands/tunnel.rs\<close>).  The remote host's answer to a command during one
  discovery is the argument \<open>ask\<close>.
\<close>

section \<open>Discovery\<close>

definition port_probe :: "u16 \<Rightarrow> string" where
  "port_probe p =
     ''(exec 3<>/dev/tcp/127.0.0.1/'' @ show_nat (unat p) @ '') 2>/dev/null && echo alive''"

definition remote_port_alive ::
    "(string \<Rightarrow> transport_error + command_result) \<Rightarrow> u16 \<Rightarrow> virtuoso_error + bool" where
  "remote_port_alive ask p =
     (case ask (port_probe p) of
        Inl e \<Rightarrow> Inl (virtuoso_of_transport e)
      | Inr r \<Rightarrow> Inr (trim (res_stdout r) \<noteq> []))"

text \<open>\<open>sort_by\<close> with the comparison reversed, which keeps the order of equal elements.\<close>

definition newest_first :: "session_info list \<Rightarrow> session_info list" where
  "newest_first ss = rev (sort_key si_created (rev ss))"

definition session_candidates :: "session_info list \<Rightarrow> string option \<Rightarrow> session_info list" where
  "session_candidates ss host_hint =
     (let by_recency = newest_first ss
      in case host_hint of
           None \<Rightarrow> by_recency
         | Some host \<Rightarrow>
             (let matching = filter (\<lambda>s. si_host s = host) by_recency
              in if matching = [] then by_recency else matching))"

fun first_alive ::
    "(string \<Rightarrow> transport_error + command_result) \<Rightarrow> session_info list \<Rightarrow> virtuoso_error + session_info option" where
  "first_alive ask [] = Inr None"
| "first_alive ask (s # rest) =
     bindR (remote_port_alive ask (si_port s)) (\<lambda>alive. if alive then Inr (Some s) else first_alive ask rest)"

definition pick_live_session ::
    "(string \<Rightarrow> transport_error + command_result) \<Rightarrow> session_info list \<Rightarrow> string option \<Rightarrow>
     virtuoso_error + session_info option" where
  "pick_live_session ask ss host_hint =
     (if ss = [] then Inr None else first_alive ask (session_candidates ss host_hint))"

section \<open>Attaching\<close>

definition scoped_attach_sessions :: "session_info list \<Rightarrow> u16 \<Rightarrow> session_info list" where
  "scoped_attach_sessions ss target_port = filter (\<lambda>s. si_port s = target_port) ss"

definition attach_candidate_sessions :: "session_info list \<Rightarrow> bool \<Rightarrow> u16 \<Rightarrow> bool \<Rightarrow> session_info list" where
  "attach_candidate_sessions ss has_target p explicit_port =
     (if has_target \<and> explicit_port then scoped_attach_sessions ss p else ss)"

text \<open>\<open>listed\<close> is what \<open>SessionInfo::list_remote\<close> returned.\<close>

definition discover_live_session ::
    "(string \<Rightarrow> transport_error + command_result) \<Rightarrow> (string + session_info list) \<Rightarrow> command_context \<Rightarrow>
     virtuoso_error + session_info" where
  "discover_live_session ask listed ctx =
     (let cfg = cx_config ctx
      in case listed of
           Inl e \<Rightarrow> Inl (Io e)
         | Inr ss \<Rightarrow>
             if ss = [] then
               Inl (NotFound ''no Virtuoso sessions found on remote; run `vcli tunnel start` to deploy a fresh daemon'')
             else
               (let scoped = attach_candidate_sessions ss (cx_target_id ctx \<noteq> None) (port cfg) (port_explicit cfg)
                in if scoped = [] then
                     Inl (NotFound (''no session found on bridge port '' @ show_nat (unat (port cfg)) @ '' for target '' @
                       quoted (case cx_target_id ctx of Some t \<Rightarrow> t | None \<Rightarrow> ''(selected)'') @
                       ''; run `vcli tunnel start` to deploy a fresh daemon on this target''))
                   else
                     bindR (pick_live_session ask scoped (remote_host cfg)) (\<lambda>picked.
                       case picked of
                         None \<Rightarrow> Inl (NotFound (''found session(s) on remote but no live daemons (port not listening); '' @
                           ''check that Virtuoso is running and the daemon process is alive''))
                       | Some live \<Rightarrow> bindR (validate_session_ownership ctx live) (\<lambda>u. Inr live))))"

text \<open>
  What an attach finds and does: the tunnel state on disk, the sessions, the result of opening the forward
  with the pid and start marker of its ssh, the time, the result of saving, and the sessions synced.
\<close>

record attach_env =
  at_loaded :: "string + tunnel_state option"
  at_run :: "string \<Rightarrow> transport_error + command_result"
  at_listed :: "string + session_info list"
  at_open :: "u16 \<Rightarrow> u16 \<Rightarrow> virtuoso_error + u32 option \<times> u64 option"
  at_now_ms :: u64
  at_save :: "string + unit"
  at_synced :: nat

datatype attach_reply =
    AttachDryRun session_info
  | Attached session_info u16 u32 nat

definition attached_state ::
    "command_context \<Rightarrow> session_info \<Rightarrow> u32 option \<Rightarrow> u64 option \<Rightarrow> u64 \<Rightarrow> tunnel_state" where
  "attached_state ctx live pid identity now_ms =
     \<lparr>ts_version = CURRENT_STATE_VERSION, ts_port = si_port live,
      ts_pid = (case pid of Some p \<Rightarrow> p | None \<Rightarrow> 0), ts_remote_host = si_host live, ts_setup_path = None,
      ts_profile = profile (cx_config ctx), ts_backend = Some ''openssh'', ts_daemon_nonce = None,
      ts_executable_path = None, ts_start_identity = identity, ts_ipc_endpoint = None, ts_token_path = None,
      ts_local_forward = Some (''L*:'' @ show_nat (unat (si_port live))), ts_start_time_unix_ms = Some now_ms,
      ts_health = None, ts_config_digest = Some (cx_config_digest ctx), ts_mode = Some TUNNEL_MODE_ATTACHED,
      ts_attached_remote_port = Some (si_port live), ts_remote_bridge_port = Some (si_port live),
      ts_attached_session_id = Some (si_id live)\<rparr>"

text \<open>The reply, the forward that was opened, and the state that was written, if any.\<close>

definition attach ::
    "attach_env \<Rightarrow> command_context \<Rightarrow> bool \<Rightarrow>
     (virtuoso_error + attach_reply) \<times> (u16 \<times> u16) option \<times> tunnel_state option" where
  "attach env ctx dry_run =
     (case at_loaded env of
        Inl e \<Rightarrow> (Inl (Io e), None, None)
      | Inr (Some existing) \<Rightarrow>
          (Inl (Execution (''tunnel already exists on port '' @ show_nat (unat (ts_port existing)) @ '' (mode='' @
             tunnel_mode existing @ ''); run `vcli tunnel '' @
             (if tunnel_mode existing = TUNNEL_MODE_ATTACHED then ''detach'' else ''stop'') @ ''` first'')), None, None)
      | Inr None \<Rightarrow>
     (case require_openssh (cx_config ctx) of
        Inl e \<Rightarrow> (Inl (virtuoso_of_transport e), None, None)
      | Inr u \<Rightarrow>
     (case discover_live_session (at_run env) (at_listed env) ctx of
        Inl e \<Rightarrow> (Inl e, None, None)
      | Inr live \<Rightarrow>
          if dry_run then (Inr (AttachDryRun live), None, None)
          else case at_open env (si_port live) (si_port live) of
            Inl e \<Rightarrow> (Inl e, Some (si_port live, si_port live), None)
          | Inr (pid, identity) \<Rightarrow>
              (let st = attached_state ctx live pid identity (at_now_ms env)
               in case at_save env of
                    Inl e \<Rightarrow> (Inl (Ssh (''save tunnel state: '' @ e)), Some (si_port live, si_port live), Some st)
                  | Inr v \<Rightarrow> (Inr (Attached live (si_port live) (ts_pid st) (at_synced env)),
                              Some (si_port live, si_port live), Some st)))))"

section \<open>Facts\<close>

lemma set_newest_first [simp]: "set (newest_first ss) = set ss"
  by (simp add: newest_first_def)

lemma newest_first_sorted: "sorted_wrt (\<lambda>a b. si_created b \<le> si_created a) (newest_first ss)"
proof -
  have "sorted (map si_created (sort_key si_created (rev ss)))" by simp
  then have "sorted_wrt (\<lambda>a b. si_created a \<le> si_created b) (sort_key si_created (rev ss))"
    by (simp add: sorted_map)
  then show ?thesis
    unfolding newest_first_def by (simp add: sorted_wrt_rev)
qed

lemma session_candidates_sorted: "sorted_wrt (\<lambda>a b. si_created b \<le> si_created a) (session_candidates ss hint)"
  using newest_first_sorted [of ss]
  by (auto simp: session_candidates_def Let_def sorted_wrt_filter split: option.splits)

lemma set_session_candidates:
  "set (session_candidates ss hint) =
     (case hint of
        None \<Rightarrow> set ss
      | Some h \<Rightarrow> if \<exists>s \<in> set ss. si_host s = h then {s \<in> set ss. si_host s = h} else set ss)"
  by (auto simp: session_candidates_def Let_def filter_empty_conv split: option.splits)

lemma first_alive_Some:
  "first_alive ask ss = Inr (Some s) \<Longrightarrow>
     \<exists>pre post. ss = pre @ s # post \<and> remote_port_alive ask (si_port s) = Inr True \<and>
       (\<forall>x \<in> set pre. remote_port_alive ask (si_port x) = Inr False)"
proof (induction ask ss rule: first_alive.induct)
  case (2 ask x rest)
  from "2.prems" consider "remote_port_alive ask (si_port x) = Inr True" "s = x"
    | "remote_port_alive ask (si_port x) = Inr False" "first_alive ask rest = Inr (Some s)"
    by (auto simp: bindR_Inr_iff split: if_splits)
  then show ?case
  proof cases
    case 1
    then show ?thesis by (intro exI [of _ "[]"] exI [of _ rest]) auto
  next
    case b: 2
    from "2.IH" [OF b(1) _ b(2)] obtain pre post where
      "rest = pre @ s # post" "remote_port_alive ask (si_port s) = Inr True"
      "\<forall>x \<in> set pre. remote_port_alive ask (si_port x) = Inr False"
      by auto
    with b(1) show ?thesis by (intro exI [of _ "x # pre"] exI [of _ post]) auto
  qed
qed simp

lemma first_alive_None:
  "first_alive ask ss = Inr None \<longleftrightarrow> (\<forall>x \<in> set ss. remote_port_alive ask (si_port x) = Inr False)"
  by (induction ask ss rule: first_alive.induct) (auto simp: bindR_Inr_iff)

section \<open>Properties\<close>

text \<open>
  Discovery picks a session whose port answered, among those on the hinted host when one is listed
  there; every candidate whose creation text is greater was probed and did not answer.  It picks none
  exactly when no candidate answers.
\<close>

theorem pick_live_session_correct:
  assumes "pick_live_session ask ss hint = Inr picked"
  shows "case picked of
      Some s \<Rightarrow> s \<in> set (session_candidates ss hint) \<and> remote_port_alive ask (si_port s) = Inr True \<and>
        (\<forall>x \<in> set (session_candidates ss hint).
           si_created s < si_created x \<longrightarrow> remote_port_alive ask (si_port x) = Inr False)
    | None \<Rightarrow> \<forall>x \<in> set (session_candidates ss hint). remote_port_alive ask (si_port x) = Inr False"
proof (cases picked)
  case None
  have "ss = [] \<Longrightarrow> set (session_candidates ss hint) = {}"
    by (simp add: set_session_candidates split: option.splits)
  with None assms show ?thesis
    by (auto simp: pick_live_session_def first_alive_None split: if_splits)
next
  case (Some s)
  with assms have "first_alive ask (session_candidates ss hint) = Inr (Some s)"
    by (simp add: pick_live_session_def split: if_splits)
  from first_alive_Some [OF this] obtain pre post where
    c: "session_candidates ss hint = pre @ s # post" "remote_port_alive ask (si_port s) = Inr True"
      "\<forall>x \<in> set pre. remote_port_alive ask (si_port x) = Inr False"
    by auto
  have "si_created x \<le> si_created s" if "x \<in> set (s # post)" for x
    using session_candidates_sorted [of ss hint] that unfolding c(1) by (auto simp: sorted_wrt_append)
  with c have "\<forall>x \<in> set (session_candidates ss hint).
      si_created s < si_created x \<longrightarrow> remote_port_alive ask (si_port x) = Inr False"
    by (auto simp: not_less dest: leD)
  with c Some show ?thesis by auto
qed

definition answering :: "u16 set \<Rightarrow> string \<Rightarrow> transport_error + command_result" where
  "answering ports cmd = Inr \<lparr>res_exit_status = 0, res_stdout = (if \<exists>p \<in> ports. cmd = port_probe p then ''alive'' else []),
     res_stderr = [], res_success = True, res_duration = 0\<rparr>"

definition created_on :: "string \<Rightarrow> u16 \<Rightarrow> string \<Rightarrow> session_info" where
  "created_on host p date = sample_session\<lparr>si_id := date, si_port := p, si_host := host, si_created := date\<rparr>"

lemma port_probe_inject [simp]: "port_probe p = port_probe q \<longleftrightarrow> p = q"
proof
  assume "port_probe p = port_probe q"
  then have "show_nat (unat p) = show_nat (unat q)" by (simp add: port_probe_def)
  then have "unat p = unat q" by (metis digits_val_show_nat)
  then show "p = q" by (simp add: word_unat_eq_iff)
qed simp

lemma alive_answering: "remote_port_alive (answering ports) p = Inr (p \<in> ports)"
proof -
  have "trim ''alive'' \<noteq> []" "trim [] = []" by (code_simp, simp add: trim_def)
  then show ?thesis by (auto simp: remote_port_alive_def answering_def)
qed

text \<open>
  Creation texts begin with the name of the month, so with a session of March and one of April both
  alive, discovery picks the older one; and when the only session on the hinted host is dead it picks none
  although another host has a live one.
\<close>

theorem discovery_order_and_hint:
  "let old = created_on ''a'' 1 ''Mar 31 10:00:00 2026''; new = created_on ''a'' 2 ''Apr  1 10:00:00 2026'';
       elsewhere = created_on ''b'' 3 ''Apr  2 10:00:00 2026''
   in pick_live_session (answering {1, 2}) [old, new] None = Inr (Some old) \<and>
      pick_live_session (answering {3}) [new, elsewhere] (Some ''a'') = Inr None"
proof -
  let ?old = "created_on ''a'' 1 ''Mar 31 10:00:00 2026''" and ?new = "created_on ''a'' 2 ''Apr  1 10:00:00 2026''"
  let ?else = "created_on ''b'' 3 ''Apr  2 10:00:00 2026''"
  have less: "''Apr  1 10:00:00 2026'' < ''Mar 31 10:00:00 2026''" by code_simp
  have "newest_first [?old, ?new] = [?old, ?new]"
    using less by (simp add: newest_first_def sort_key_def created_on_def)
  then have "pick_live_session (answering {1, 2}) [?old, ?new] None = Inr (Some ?old)"
    by (simp add: pick_live_session_def session_candidates_def alive_answering) (simp add: created_on_def)
  moreover have "filter (\<lambda>s. si_host s = ''a'') (newest_first [?new, ?else]) = [?new]"
    by (simp add: newest_first_def sort_key_def created_on_def)
  then have "pick_live_session (answering {3}) [?new, ?else] (Some ''a'') = Inr None"
    by (simp add: pick_live_session_def session_candidates_def alive_answering) (simp add: created_on_def)
  ultimately show ?thesis by (simp add: Let_def)
qed

text \<open>
  What attach writes describes the session it found: it is alive and belongs to the target, the state
  belongs to the same target, a later stop does not treat its remote files as its own, and while its ssh runs
  the session can be probed through it.
\<close>

theorem attach_state_is_owned_and_probeable:
  assumes "attach env ctx dry_run = (Inr reply, opened, Some st)"
  shows "\<exists>live pid identity. reply = Attached live (si_port live) (ts_pid st) (at_synced env) \<and> \<not> dry_run \<and>
    at_loaded env = Inr None \<and> remote_port_alive (at_run env) (si_port live) = Inr True \<and>
    opened = Some (ts_port st, si_port live) \<and>
    at_open env (ts_port st) (si_port live) = Inr (pid, identity) \<and>
    owns_endpoint ctx (si_host live) (si_port live) \<and>
    owns_endpoint ctx (ts_remote_host st) (tunnel_remote_port st) \<and>
    tunnel_mode st = TUNNEL_MODE_ATTACHED \<and>
    (is_remote (cx_config ctx) \<and> ts_pid st \<noteq> 0 \<and>
       (\<exists>i. identity = Some (start_identity i) \<and> start_identity i \<noteq> 0 \<and> of_pid (hv_os hv) (ts_pid st) = Inr i) \<and>
       verify_ssh_pid (hv_os hv) (ts_pid st) \<and> hv_reachable hv (ts_port st) \<longrightarrow>
     resolve_probe_endpoint hv (Inr (Some st)) ctx live = Inr (RemoteTunnel (ts_port st)))"
proof -
  from assms obtain live pid identity where a:
      "at_loaded env = Inr None" "discover_live_session (at_run env) (at_listed env) ctx = Inr live" "\<not> dry_run"
      "at_open env (si_port live) (si_port live) = Inr (pid, identity)"
      "st = attached_state ctx live pid identity (at_now_ms env)" "opened = Some (si_port live, si_port live)"
      "reply = Attached live (si_port live) (ts_pid st) (at_synced env)"
    by (auto simp: attach_def Let_def split: sum.splits option.splits if_splits prod.splits)
  from a(2) obtain ss hint where p: "pick_live_session (at_run env) ss hint = Inr (Some live)"
    and v: "is_ok (validate_session_ownership ctx live)"
    by (auto simp: discover_live_session_def Let_def bindR_Inr_iff split: sum.splits if_splits option.splits)
  from p have "first_alive (at_run env) (session_candidates ss hint) = Inr (Some live)"
    by (simp add: pick_live_session_def split: if_splits)
  then have alive: "remote_port_alive (at_run env) (si_port live) = Inr True"
    using first_alive_Some by blast
  have own: "owns_endpoint ctx (si_host live) (si_port live)"
    using v by (simp add: validate_session_iff)
  have st: "ts_port st = si_port live" "ts_remote_host st = si_host live" "tunnel_remote_port st = si_port live"
      "state_remote_port st = Some (si_port live)" "ts_start_identity st = identity"
      "ts_mode st = Some TUNNEL_MODE_ATTACHED" "ts_attached_session_id st = Some (si_id live)"
    using a(5) by (simp_all add: attached_state_def tunnel_remote_port_def state_remote_port_def)
  have "resolve_probe_endpoint hv (Inr (Some st)) ctx live = check_forward_process hv st"
    if "is_remote (cx_config ctx)"
    using that st v own
    by (simp add: resolve_probe_endpoint_def resolve_probe_endpoint_with_state_def resolve_remote_tunnel_def
        ownership_fails_def validate_tunnel_iff TUNNEL_MODE_ATTACHED_def)
  moreover have "check_forward_process hv st = Inr (RemoteTunnel (ts_port st))"
    if "ts_pid st \<noteq> 0" "identity = Some (start_identity i)" "start_identity i \<noteq> 0"
      "of_pid (hv_os hv) (ts_pid st) = Inr i" "verify_ssh_pid (hv_os hv) (ts_pid st)" "hv_reachable hv (ts_port st)"
    for i
    using that st(5) by (simp add: check_forward_process_def verify_classify word_gt_0)
  ultimately show ?thesis
    using a alive own st by (intro exI [of _ live] exI [of _ pid] exI [of _ identity]) (auto simp: tunnel_mode_def)
qed

definition sample_attach :: attach_env where
  "sample_attach = \<lparr>at_loaded = Inr None, at_run = answering {3000}, at_listed = Inr [sample_session],
     at_open = (\<lambda>l r. Inr (Some 42, Some 7)), at_now_ms = 0, at_save = Inr (), at_synced = 1\<rparr>"

lemma lab_context_sel [simp]:
  "cx_config (lab_context h) = plain_config\<lparr>remote_host := h\<rparr>" "cx_target_id (lab_context h) = Some ''lab''"
  by (simp_all add: lab_context_def)

lemma discover_sample:
  "discover_live_session (answering {3000}) (Inr [sample_session]) (lab_context (Some ''n42'')) = Inr sample_session"
proof -
  have "is_ok (validate_session_ownership (lab_context (Some ''n42'')) sample_session)"
    by (simp add: validate_session_iff lab_context_owns or_empty_def sample_session_def)
  then have "validate_session_ownership (lab_context (Some ''n42'')) sample_session = Inr ()"
    by (auto simp: is_ok_def split: sum.splits)
  moreover have "port_explicit plain_config = False"
    by (simp add: plain_config_def from_target_def default_target_def default_port_def or_empty_def)
  moreover have "pick_live_session (answering {3000}) [sample_session] (Some ''n42'') = Inr (Some sample_session)"
    by (simp add: pick_live_session_def session_candidates_def newest_first_def alive_answering)
       (simp add: sample_session_def)
  ultimately show ?thesis
    by (simp add: discover_live_session_def attach_candidate_sessions_def)
qed

lemma attach_sample:
  "attach sample_attach (lab_context (Some ''n42'')) False =
     (Inr (Attached sample_session (si_port sample_session) 42 1), Some (si_port sample_session, si_port sample_session),
      Some (attached_state (lab_context (Some ''n42'')) sample_session (Some 42) (Some 7) 0))"
proof -
  have "require_openssh (plain_config\<lparr>remote_host := Some ''n42''\<rparr>) = Inr ()"
    by (simp add: require_openssh_def backend_from_config_def plain_config_def from_target_def default_target_def
        default_port_def or_empty_def)
  then show ?thesis
    by (simp add: attach_def sample_attach_def discover_sample) (simp add: attached_state_def)
qed

lemma attach_state_is_owned_and_probeable_witness:
  "owns_endpoint (lab_context (Some ''n42'')) (si_host sample_session) (si_port sample_session) \<and>
   tunnel_mode (attached_state (lab_context (Some ''n42'')) sample_session (Some 42) (Some 7) 0) = TUNNEL_MODE_ATTACHED"
  using attach_state_is_owned_and_probeable [OF attach_sample, of "quiet_view True (one_process ''/usr/bin/ssh'')"]
  by auto

lemma pick_live_session_correct_witness:
  "remote_port_alive (answering {3000}) (si_port sample_session) = Inr True"
proof -
  have "pick_live_session (answering {3000}) [sample_session] None = Inr (Some sample_session)"
    by (simp add: pick_live_session_def session_candidates_def newest_first_def alive_answering)
       (simp add: sample_session_def)
  from pick_live_session_correct [OF this] show ?thesis by simp
qed

end
