(* ===== verification/Capability.thy ===== *)
theory Capability
  imports Config_File
begin

text \<open>
  \<open>src/capability/mod.rs\<close>: the capabilities a caller holds and the RPC methods they permit.

  A \<open>CapabilitySet\<close> is the list of its members in the order the hash set iterates over
  them; membership tests do not depend on that order.  The checks of the capability plugin
  are in \<open>Capability_Plugin\<close>.
\<close>

section \<open>Capabilities\<close>

datatype capability =
    Schematic | Maestro | Window | Cell | Simulation | Transaction | Library | Admin

definition cap_from_str :: "string \<Rightarrow> capability option" where
  "cap_from_str s =
     (let l = to_lowercase s in
      if l = ''schematic'' then Some Schematic
      else if l = ''maestro'' then Some Maestro
      else if l = ''window'' then Some Window
      else if l = ''cell'' then Some Cell
      else if l = ''simulation'' then Some Simulation
      else if l = ''transaction'' then Some Transaction
      else if l = ''library'' then Some Library
      else if l = ''admin'' then Some Admin
      else None)"

fun cap_domain :: "capability \<Rightarrow> string" where
  "cap_domain Schematic = ''schematic''"
| "cap_domain Maestro = ''maestro''"
| "cap_domain Window = ''window''"
| "cap_domain Cell = ''cell''"
| "cap_domain Simulation = ''simulation''"
| "cap_domain Transaction = ''transaction''"
| "cap_domain Library = ''library''"
| "cap_domain Admin = ''*''"

definition is_admin :: "capability \<Rightarrow> bool" where
  "is_admin c \<longleftrightarrow> c = Admin"

text \<open>\<open>format!("{:?}", cap).to_lowercase()\<close>, the name under which the plugin knows a capability.\<close>

fun cap_name :: "capability \<Rightarrow> string" where
  "cap_name Schematic = ''schematic''"
| "cap_name Maestro = ''maestro''"
| "cap_name Window = ''window''"
| "cap_name Cell = ''cell''"
| "cap_name Simulation = ''simulation''"
| "cap_name Transaction = ''transaction''"
| "cap_name Library = ''library''"
| "cap_name Admin = ''admin''"

section \<open>Capability sets\<close>

type_synonym capability_set = "capability list"

definition default_caps :: capability_set where
  "default_caps = [Schematic, Maestro, Window, Cell, Simulation, Transaction, Library]"

text \<open>\<open>from_env\<close>: the argument is the value of \<open>VCLI_CAPABILITY\<close>, when it is set.\<close>

definition caps_from_env :: "string option \<Rightarrow> capability_set" where
  "caps_from_env v =
     (case v of
        None \<Rightarrow> default_caps
      | Some s \<Rightarrow> remdups (List.map_filter (\<lambda>part. cap_from_str (trim part)) (split_char CHR '','' s)))"

definition from_capabilities :: "capability list \<Rightarrow> capability_set" where
  "from_capabilities caps = remdups caps"

definition permits :: "capability_set \<Rightarrow> capability \<Rightarrow> bool" where
  "permits caps c \<longleftrightarrow> List.member caps c \<or> List.member caps Admin"

definition allows_raw_skill :: "capability_set \<Rightarrow> bool" where
  "allows_raw_skill caps \<longleftrightarrow> List.member caps Admin"

text \<open>\<open>splitn(2, '.')\<close>: the text before the first dot, and what follows it.\<close>

definition method_parts :: "string \<Rightarrow> string \<times> string" where
  "method_parts m = (case split_once CHR ''.'' m of Some (d, rest) \<Rightarrow> (d, rest) | None \<Rightarrow> (m, []))"

definition permits_method :: "capability_set \<Rightarrow> string \<Rightarrow> bool" where
  "permits_method caps method =
     (let (dom, opn) = method_parts method in
      if dom = ''schematic'' then permits caps Schematic
      else if dom = ''symbol'' then permits caps Schematic
      else if dom = ''sim'' then permits caps Simulation
      else if dom = ''maestro'' then permits caps Maestro
      else if dom = ''window'' then permits caps Window
      else if dom = ''cell'' then permits caps Cell
      else if dom = ''tx'' then permits caps Transaction
      else if dom = ''library'' then permits caps Library
      else if dom = ''file'' then True
      else if dom = ''util'' then True
      else if dom = ''libref'' then True
      else if dom = ''skill'' then
        (if opn = ''find'' \<or> opn = ''info'' \<or> opn = ''sync'' \<or> opn = ''cache'' then True
         else allows_raw_skill caps)
      else False)"

section \<open>Facts\<close>

lemma permits_iff: "permits caps c \<longleftrightarrow> c \<in> set caps \<or> Admin \<in> set caps"
  by (simp add: permits_def)

lemma allows_raw_skill_iff: "allows_raw_skill caps \<longleftrightarrow> Admin \<in> set caps"
  by (simp add: allows_raw_skill_def)

lemma method_parts_dot [simp]:
  "CHR ''.'' \<notin> set d \<Longrightarrow> method_parts (d @ CHR ''.'' # rest) = (d, rest)"
  by (simp add: method_parts_def split_once_append)

lemma cap_from_str_name [simp]: "cap_from_str (cap_name c) = Some c"
  by (cases c) (simp_all add: cap_from_str_def to_lowercase_def lower_char_def)

text \<open>The permission a method needs does not depend on the order of the set, and only grows with it.\<close>

lemma permits_mono: "set caps \<subseteq> set caps' \<Longrightarrow> permits caps c \<Longrightarrow> permits caps' c"
  by (auto simp: permits_iff)

lemma permits_method_mono:
  assumes "set caps \<subseteq> set caps'" "permits_method caps m"
  shows "permits_method caps' m"
  using assms permits_mono [OF assms(1)]
  by (auto simp: permits_method_def allows_raw_skill_iff split: prod.splits if_splits)

lemma cap_from_str_admin: "cap_from_str s = Some Admin \<longleftrightarrow> to_lowercase s = ''admin''"
  by (auto simp: cap_from_str_def Let_def)

lemma set_map_filter_iff: "y \<in> set (List.map_filter f xs) \<longleftrightarrow> (\<exists>x \<in> set xs. f x = Some y)"
  by (force simp: map_filter_def)

lemma admin_in_env:
  "Admin \<in> set (caps_from_env v) \<longleftrightarrow>
     (\<exists>s. v = Some s \<and> (\<exists>part \<in> set (split_char CHR '','' s). to_lowercase (trim part) = ''admin''))"
  by (cases v)
     (auto simp: caps_from_env_def default_caps_def set_map_filter_iff cap_from_str_admin [symmetric])

lemma raw_skill_method:
  assumes "opn \<notin> {''find'', ''info'', ''sync'', ''cache''}"
  shows "permits_method caps (''skill.'' @ opn) \<longleftrightarrow> allows_raw_skill caps"
proof -
  have "method_parts (''skill.'' @ opn) = (''skill'', opn)"
    using method_parts_dot [of "''skill''" opn] by simp
  with assms show ?thesis by (simp add: permits_method_def)
qed

section \<open>Properties\<close>

text \<open>
  C5: Running raw SKILL through the RPC interface is granted exactly by naming \<open>admin\<close> in
  \<open>VCLI_CAPABILITY\<close>: for every operation of the \<open>skill\<close> domain other than the four that read
  documentation, the method is permitted to the capabilities read from the environment if and
  only if the variable is set and one of its comma-separated parts is \<open>admin\<close>, up to case and
  surrounding spaces.  In particular the default set never permits it.
\<close>

theorem raw_skill_needs_admin:
  assumes "opn \<notin> {''find'', ''info'', ''sync'', ''cache''}"
  shows "permits_method (caps_from_env v) (''skill.'' @ opn) \<longleftrightarrow>
    (\<exists>s. v = Some s \<and> (\<exists>part \<in> set (split_char CHR '','' s). to_lowercase (trim part) = ''admin''))"
  by (simp only: raw_skill_method [OF assms] allows_raw_skill_iff admin_in_env)

theorem raw_skill_needs_admin_witness:
  "permits_method (caps_from_env (Some ''cell, ADMIN'')) ''skill.eval''
     \<and> \<not> permits_method (caps_from_env None) ''skill.eval''"
proof -
  have "to_lowercase (trim '' ADMIN'') = ''admin''"
    by code_simp
  then have "permits_method (caps_from_env (Some ''cell, ADMIN'')) (''skill.'' @ ''eval'')"
    using raw_skill_needs_admin [of "''eval''" "Some ''cell, ADMIN''"]
    by simp
  moreover have "\<not> permits_method (caps_from_env None) (''skill.'' @ ''eval'')"
    using raw_skill_needs_admin [of "''eval''" None] by simp
  ultimately show ?thesis by simp
qed

text \<open>
  A method is refused to every caller, Admin included, when its domain is not one of the
  twelve the code names; and \<open>file\<close> methods are open to every caller, the empty set included.
\<close>

definition known_domains :: "string list" where
  "known_domains =
     [''schematic'', ''symbol'', ''sim'', ''maestro'', ''window'', ''cell'', ''tx'', ''library'',
      ''file'', ''util'', ''libref'', ''skill'']"

lemma admin_permits_known_domains:
  assumes "Admin \<in> set caps"
  shows "permits_method caps m \<longleftrightarrow> fst (method_parts m) \<in> set known_domains"
  using assms
  by (auto simp: permits_method_def known_domains_def permits_iff allows_raw_skill_iff
      split: prod.splits if_splits)

lemma file_methods_open: "permits_method [] ''file.upload''"
  by code_simp

end
