(* ===== verification/Capability_Plugin.thy ===== *)
theory Capability_Plugin
  imports Capability
begin

text \<open>
  \<open>src/capability/plugin.rs\<close>, and \<open>CapabilitySet::permits_with_plugin\<close> of
  \<open>src/capability/mod.rs\<close>: rate limits, address whitelists, inheritance and expiry.

  The text form of IPv6 addresses (parsing and printing, both of the standard library) and
  \<open>serde_yaml\<close> are parameters; IPv4 addresses are parsed by the model.  Maps behind an
  \<open>RwLock\<close> are fields of the plugin's record, returned updated.  Shifts and subtractions on
  \<open>u32\<close> behave as in a release build: subtraction wraps and the shift amount is taken modulo 32.
\<close>

unbundle bit_operations_syntax

section \<open>The rate limiter\<close>

record rate_limiter =
  max_requests :: nat
  window_secs :: nat
  requests :: "instant list"

definition rate_limiter_new :: "nat \<Rightarrow> nat \<Rightarrow> rate_limiter" where
  "rate_limiter_new m w = \<lparr> max_requests = m, window_secs = w, requests = [] \<rparr>"

definition retain_recent :: "instant \<Rightarrow> rate_limiter \<Rightarrow> instant list" where
  "retain_recent now rl = filter (\<lambda>t. now - t < from_secs (window_secs rl)) (requests rl)"

definition rl_check :: "instant \<Rightarrow> rate_limiter \<Rightarrow> bool \<times> rate_limiter" where
  "rl_check now rl =
     (let rs = retain_recent now rl in
      if max_requests rl \<le> length rs then (False, rl\<lparr>requests := rs\<rparr>)
      else (True, rl\<lparr>requests := rs @ [now]\<rparr>))"

definition rl_remaining :: "rate_limiter \<Rightarrow> nat" where
  "rl_remaining rl = max_requests rl - length (requests rl) mod 2 ^ 32"

definition rl_reset_in :: "instant \<Rightarrow> rate_limiter \<Rightarrow> nat" where
  "rl_reset_in now rl =
     (if requests rl = [] then 0
      else window_secs rl - as_secs (now - Min (set (requests rl))))"

section \<open>Address whitelists\<close>

datatype ip_addr = V4 u32 | V6 "128 word"

record ip_text =
  parse_v6 :: "string \<Rightarrow> (128 word) option"
  show_v6 :: "128 word \<Rightarrow> string"

definition parse_octet :: "string \<Rightarrow> nat option" where
  "parse_octet s =
     (if s \<noteq> [] \<and> length s \<le> 3 \<and> list_all is_digit s \<and> (length s > 1 \<longrightarrow> hd s \<noteq> CHR ''0'')
         \<and> digits_val s \<le> 255
      then Some (digits_val s) else None)"

definition v4_of :: "nat \<Rightarrow> nat \<Rightarrow> nat \<Rightarrow> nat \<Rightarrow> u32" where
  "v4_of a b c d = word_of_nat (((a * 256 + b) * 256 + c) * 256 + d)"

definition parse_v4 :: "string \<Rightarrow> u32 option" where
  "parse_v4 s =
     (case map parse_octet (split_char CHR ''.'' s) of
        [Some a, Some b, Some c, Some d] \<Rightarrow> Some (v4_of a b c d)
      | _ \<Rightarrow> None)"

definition parse_ip :: "ip_text \<Rightarrow> string \<Rightarrow> ip_addr option" where
  "parse_ip tx s =
     (case parse_v4 s of Some a \<Rightarrow> Some (V4 a) | None \<Rightarrow> map_option V6 (parse_v6 tx s))"

definition show_v4 :: "u32 \<Rightarrow> string" where
  "show_v4 a =
     (let n = unat a in
      join ''.'' (map show_nat [n div 16777216, n div 65536 mod 256, n div 256 mod 256, n mod 256]))"

fun show_ip :: "ip_text \<Rightarrow> ip_addr \<Rightarrow> string" where
  "show_ip tx (V4 a) = show_v4 a"
| "show_ip tx (V6 a) = show_v6 tx a"

record ip_entry =
  entry_ip :: string
  entry_description :: "string option"

fun to_ipv4 :: "ip_addr \<Rightarrow> u32" where
  "to_ipv4 (V4 a) = a"
| "to_ipv4 (V6 a) = 0"

text \<open>\<open>!0u32 << (32 - bits)\<close>, with 32 when \<open>bits\<close> is no number.\<close>

definition cidr_mask :: "string \<Rightarrow> u32" where
  "cidr_mask bits =
     (let b = (case parse_unsigned 4294967295 bits of Some n \<Rightarrow> n | None \<Rightarrow> 32) in
      if b = 32 then - 1 else push_bit (unat (32 - word_of_nat b :: u32) mod 32) (- 1))"

text \<open>\<open>addr.to_string().parse()\<close> gives the address back, so it is used as it is.\<close>

definition entry_matches :: "ip_text \<Rightarrow> ip_entry \<Rightarrow> ip_addr \<Rightarrow> bool" where
  "entry_matches tx e addr =
     (case parse_ip tx (entry_ip e) of
        Some entry_addr \<Rightarrow> addr = entry_addr
      | None \<Rightarrow>
          (case split_once CHR ''/'' (entry_ip e) of
             Some (ip, bits) \<Rightarrow>
               (case parse_ip tx ip of
                  Some network \<Rightarrow>
                    to_ipv4 network AND cidr_mask bits = to_ipv4 addr AND cidr_mask bits
                | None \<Rightarrow> False)
           | None \<Rightarrow> False))"

section \<open>Definitions and their resolution\<close>

record rate_limit_def =
  rld_max_requests :: nat
  rld_window_seconds :: nat

record capability_def =
  def_name :: string
  def_domains :: "string list"
  def_inherits :: "string list option"
  def_rate_limit :: "rate_limit_def option"
  def_ip_whitelist :: "ip_entry list option"
  def_ttl_seconds :: "nat option"
  def_description :: "string option"

record plugin_config =
  plugin_version :: string
  capabilities :: "capability_def list"

definition plugin_config_default :: plugin_config where
  "plugin_config_default = \<lparr> plugin_version = ''1.0'', capabilities = [] \<rparr>"

record resolved_capability =
  res_name :: string
  res_domains :: "string list"
  res_rate_limit :: "rate_limit_def option"
  res_ip_whitelist :: "ip_entry list"
  res_ttl_seconds :: "nat option"

definition or_nil :: "'a list option \<Rightarrow> 'a list" where
  "or_nil x = (case x of None \<Rightarrow> [] | Some l \<Rightarrow> l)"

definition own_capability :: "capability_def \<Rightarrow> resolved_capability" where
  "own_capability cap =
     \<lparr> res_name = def_name cap, res_domains = def_domains cap, res_rate_limit = def_rate_limit cap,
       res_ip_whitelist = or_nil (def_ip_whitelist cap), res_ttl_seconds = def_ttl_seconds cap \<rparr>"

definition or_else :: "'a option \<Rightarrow> 'a option \<Rightarrow> 'a option" where
  "or_else x y = (case x of None \<Rightarrow> y | Some _ \<Rightarrow> x)"

definition inherit_from :: "resolved_capability \<Rightarrow> resolved_capability \<Rightarrow> resolved_capability" where
  "inherit_from parent r =
     r\<lparr>res_domains := res_domains r @ res_domains parent,
       res_ip_whitelist := res_ip_whitelist r @ res_ip_whitelist parent,
       res_rate_limit := or_else (res_rate_limit r) (res_rate_limit parent),
       res_ttl_seconds := or_else (res_ttl_seconds r) (res_ttl_seconds parent)\<rparr>"

definition collect_parent ::
  "(string \<rightharpoonup> resolved_capability) \<Rightarrow> resolved_capability \<Rightarrow> string \<Rightarrow> resolved_capability" where
  "collect_parent res r parent_name =
     (case res parent_name of None \<Rightarrow> r | Some parent \<Rightarrow> inherit_from parent r)"

definition resolve_child ::
  "(string \<rightharpoonup> resolved_capability) \<Rightarrow> capability_def \<Rightarrow> string list \<Rightarrow> resolved_capability" where
  "resolve_child res cap inherits =
     (let r = foldl (collect_parent res) (own_capability cap) inherits
      in r\<lparr>res_domains := remdups_adj (sort (res_domains r))\<rparr>)"

definition first_pass_step ::
  "(string \<rightharpoonup> resolved_capability) \<Rightarrow> capability_def \<Rightarrow> (string \<rightharpoonup> resolved_capability)" where
  "first_pass_step res cap =
     (case def_inherits cap of None \<Rightarrow> res(def_name cap \<mapsto> own_capability cap) | Some _ \<Rightarrow> res)"

definition second_pass_step ::
  "(string \<rightharpoonup> resolved_capability) \<Rightarrow> capability_def \<Rightarrow> (string \<rightharpoonup> resolved_capability)" where
  "second_pass_step res cap =
     (case def_inherits cap of
        None \<Rightarrow> res
      | Some inherits \<Rightarrow> res(def_name cap \<mapsto> resolve_child res cap inherits))"

definition resolve_inheritance :: "capability_def list \<Rightarrow> (string \<rightharpoonup> resolved_capability)" where
  "resolve_inheritance caps =
     foldl second_pass_step (foldl first_pass_step Map.empty caps) caps"

section \<open>The plugin\<close>

record plugin =
  plugin_config :: plugin_config
  resolved :: "string \<rightharpoonup> resolved_capability"
  rate_limiters :: "string \<rightharpoonup> rate_limiter"
  expirations :: "string \<rightharpoonup> instant"
  config_path :: "string option"

definition plugin_new :: plugin where
  "plugin_new =
     \<lparr> plugin_config = plugin_config_default, resolved = Map.empty, rate_limiters = Map.empty,
       expirations = Map.empty, config_path = None \<rparr>"

text \<open>\<open>load\<close> on the text of the file (or the error of reading it), with the YAML parser given.\<close>

definition plugin_load ::
  "(string \<Rightarrow> string + plugin_config) \<Rightarrow> string \<Rightarrow> string + string \<Rightarrow> string + plugin" where
  "plugin_load from_yaml path content =
     bindR content (\<lambda>text.
     bindR (from_yaml text) (\<lambda>cfg.
     Inr \<lparr> plugin_config = cfg, resolved = resolve_inheritance (capabilities cfg),
           rate_limiters = Map.empty, expirations = Map.empty, config_path = Some path \<rparr>))"

text \<open>\<open>save\<close> gives the path and the text it writes.\<close>

definition plugin_save :: "(plugin_config \<Rightarrow> string + string) \<Rightarrow> plugin \<Rightarrow> string + string \<times> string" where
  "plugin_save to_yaml pl =
     (case config_path pl of
        Some path \<Rightarrow> bindR (to_yaml (plugin_config pl)) (\<lambda>content. Inr (path, content))
      | None \<Rightarrow> Inl ''no config path set'')"

definition add_capability :: "capability_def \<Rightarrow> plugin \<Rightarrow> plugin" where
  "add_capability d pl =
     (let cfg = (plugin_config pl)\<lparr>capabilities := capabilities (plugin_config pl) @ [d]\<rparr>
      in pl\<lparr>plugin_config := cfg, resolved := resolve_inheritance (capabilities cfg)\<rparr>)"

definition get_capability :: "plugin \<Rightarrow> string \<Rightarrow> resolved_capability option" where
  "get_capability pl n = resolved pl n"

definition domain_matches :: "string \<Rightarrow> string \<Rightarrow> bool" where
  "domain_matches dm d =
     (if d = ''*'' then True
      else if ends_with d ''.*'' then
        (let p = take (length d - 2) d in starts_with dm p \<and> length p < length dm)
      else d = dm)"

definition permits_domain :: "plugin \<Rightarrow> string \<Rightarrow> string \<Rightarrow> bool" where
  "permits_domain pl n dm =
     (case get_capability pl n of
        Some cap \<Rightarrow> list_ex (domain_matches dm) (res_domains cap)
      | None \<Rightarrow> False)"

definition permits_ip :: "ip_text \<Rightarrow> plugin \<Rightarrow> string \<Rightarrow> ip_addr \<Rightarrow> bool" where
  "permits_ip tx pl n ip =
     (case get_capability pl n of
        Some cap \<Rightarrow> res_ip_whitelist cap = []
                      \<or> list_ex (\<lambda>e. entry_matches tx e ip) (res_ip_whitelist cap)
      | None \<Rightarrow> False)"

definition check_rate_limit :: "instant \<Rightarrow> plugin \<Rightarrow> string \<Rightarrow> bool \<times> plugin" where
  "check_rate_limit now pl n =
     (case get_capability pl n of
        None \<Rightarrow> (True, pl)
      | Some cap \<Rightarrow>
          (case res_rate_limit cap of
             None \<Rightarrow> (True, pl)
           | Some rl \<Rightarrow>
               (let limiter = (case rate_limiters pl n of
                                 Some l \<Rightarrow> l
                               | None \<Rightarrow> rate_limiter_new (rld_max_requests rl) (rld_window_seconds rl));
                    (ok, limiter') = rl_check now limiter
                in (ok, pl\<lparr>rate_limiters := (rate_limiters pl)(n \<mapsto> limiter')\<rparr>))))"

definition rate_limit_status :: "instant \<Rightarrow> plugin \<Rightarrow> string \<Rightarrow> (nat \<times> nat) option" where
  "rate_limit_status now pl n =
     map_option (\<lambda>l. (rl_remaining l, rl_reset_in now l)) (rate_limiters pl n)"

definition set_expiration :: "instant \<Rightarrow> string \<Rightarrow> nat \<Rightarrow> plugin \<Rightarrow> plugin" where
  "set_expiration now n ttl_secs pl =
     pl\<lparr>expirations := (expirations pl)(n \<mapsto> now + from_secs ttl_secs)\<rparr>"

definition cap_expired :: "instant \<Rightarrow> plugin \<Rightarrow> string \<Rightarrow> bool" where
  "cap_expired now pl n =
     (case expirations pl n of Some expires_at \<Rightarrow> expires_at < now | None \<Rightarrow> False)"

definition remaining_ttl :: "instant \<Rightarrow> plugin \<Rightarrow> string \<Rightarrow> duration option" where
  "remaining_ttl now pl n = map_option (\<lambda>expires_at. expires_at - now) (expirations pl n)"

definition revoke :: "string \<Rightarrow> plugin \<Rightarrow> plugin" where
  "revoke n pl =
     pl\<lparr>expirations := (expirations pl)(n := None), rate_limiters := (rate_limiters pl)(n := None)\<rparr>"

section \<open>Permission with the plugin\<close>

datatype capability_error =
    NotPermitted string
  | RateLimited string nat nat
  | IpNotAllowed string
  | Expired string

fun display_capability_error :: "capability_error \<Rightarrow> string" where
  "display_capability_error (NotPermitted m) = ''method '' @ [char_of (39 :: nat)] @ m @ [char_of (39 :: nat)] @ '' not permitted''"
| "display_capability_error (RateLimited c r t) =
     ''rate limited for '' @ [char_of (39 :: nat)] @ c @ [char_of (39 :: nat)] @ '': '' @ show_nat r
       @ '' remaining, resets in '' @ show_nat t @ ''s''"
| "display_capability_error (IpNotAllowed ip) = ''IP '' @ [char_of (39 :: nat)] @ ip @ [char_of (39 :: nat)] @ '' not in whitelist''"
| "display_capability_error (Expired c) =
     ''capability '' @ [char_of (39 :: nat)] @ c @ [char_of (39 :: nat)] @ '' has expired''"

text \<open>The readings of the clock: each loop checks a capability at most once.\<close>

record plugin_clock =
  rate_at :: "string \<Rightarrow> instant"
  status_at :: "string \<Rightarrow> instant"
  expiry_at :: "string \<Rightarrow> instant"

fun rate_loop :: "plugin_clock \<Rightarrow> capability_set \<Rightarrow> plugin \<Rightarrow> capability_error option \<times> plugin" where
  "rate_loop clk [] pl = (None, pl)"
| "rate_loop clk (c # cs) pl =
     (let n = cap_name c; (ok, pl') = check_rate_limit (rate_at clk n) pl n in
      if ok then rate_loop clk cs pl'
      else (let st = rate_limit_status (status_at clk n) pl' n in
            (Some (RateLimited n (case st of Some (r, _) \<Rightarrow> r | None \<Rightarrow> 0)
                                 (case st of Some (_, t) \<Rightarrow> t | None \<Rightarrow> 60)), pl')))"

definition ip_denied :: "ip_text \<Rightarrow> ip_addr option \<Rightarrow> capability_set \<Rightarrow> plugin \<Rightarrow> bool" where
  "ip_denied tx client_ip caps pl =
     list_ex (\<lambda>c. \<not> permits_ip tx pl (cap_name c)
        (case client_ip of Some ip \<Rightarrow> ip | None \<Rightarrow> V4 (v4_of 127 0 0 1))) caps"

definition expired_cap :: "plugin_clock \<Rightarrow> capability_set \<Rightarrow> plugin \<Rightarrow> string option" where
  "expired_cap clk caps pl =
     map_option cap_name (find (\<lambda>c. cap_expired (expiry_at clk (cap_name c)) pl (cap_name c)) caps)"

definition permits_with_plugin ::
  "ip_text \<Rightarrow> plugin_clock \<Rightarrow> capability_set \<Rightarrow> string \<Rightarrow> ip_addr option \<Rightarrow> plugin
     \<Rightarrow> (capability_error + unit) \<times> plugin" where
  "permits_with_plugin tx clk caps method client_ip pl =
     (if \<not> permits_method caps method then (Inl (NotPermitted method), pl)
      else case rate_loop clk caps pl of
        (Some e, pl') \<Rightarrow> (Inl e, pl')
      | (None, pl') \<Rightarrow>
          if ip_denied tx client_ip caps pl'
          then (Inl (IpNotAllowed (case client_ip of Some ip \<Rightarrow> show_ip tx ip | None \<Rightarrow> ''unknown'')), pl')
          else case expired_cap clk caps pl' of
            Some n \<Rightarrow> (Inl (Expired n), pl')
          | None \<Rightarrow> (Inr (), pl'))"

text \<open>Without a plugin only the method is checked.\<close>

definition permits_without_plugin :: "capability_set \<Rightarrow> string \<Rightarrow> capability_error + unit" where
  "permits_without_plugin caps method =
     (if permits_method caps method then Inr () else Inl (NotPermitted method))"

section \<open>The rate limiter over time\<close>

text \<open>The instants at which a sequence of checks was allowed.\<close>

fun rl_accepts :: "rate_limiter \<Rightarrow> instant list \<Rightarrow> instant list" where
  "rl_accepts rl [] = []"
| "rl_accepts rl (t # ts) =
     (let (ok, rl') = rl_check t rl in (if ok then [t] else []) @ rl_accepts rl' ts)"

definition in_window :: "instant \<Rightarrow> duration \<Rightarrow> instant \<Rightarrow> bool" where
  "in_window t w a \<longleftrightarrow> t \<le> a \<and> a < t + w"

text \<open>
  The invariant of a limiter of limit \<open>m\<close> and window \<open>w\<close>, with the instants \<open>as\<close> it allowed so
  far and the latest reading \<open>now\<close> of the clock: its list is what the window still holds of
  \<open>as\<close>, and no window of \<open>as\<close> exceeds the limit.
\<close>

definition limiter_inv :: "nat \<Rightarrow> duration \<Rightarrow> instant list \<Rightarrow> instant \<Rightarrow> rate_limiter \<Rightarrow> bool" where
  "limiter_inv m w as now rl \<longleftrightarrow>
     max_requests rl = m \<and> from_secs (window_secs rl) = w \<and> 0 < w
     \<and> list_all (\<lambda>a. a \<le> now) as
     \<and> requests rl = filter (\<lambda>a. now - a < w) as
     \<and> (\<forall>t. length (filter (in_window t w) as) \<le> m)"

lemma limiter_inv_new:
  "0 < w \<Longrightarrow> limiter_inv m (from_secs w) [] now (rate_limiter_new m w)"
  by (simp add: limiter_inv_def rate_limiter_new_def)

lemma retain_recent_inv:
  assumes "limiter_inv m w as prev rl" "prev \<le> now"
  shows "retain_recent now rl = filter (\<lambda>a. now - a < w) as"
proof -
  have "now - a < w \<Longrightarrow> prev - a < w" for a
    using assms(2) by simp
  then show ?thesis
    using assms(1) by (auto simp: limiter_inv_def retain_recent_def intro: filter_cong)
qed

lemma window_le_recent:
  assumes "list_all (\<lambda>a. a \<le> now) as" "in_window t w now"
  shows "length (filter (in_window t w) as) \<le> length (filter (\<lambda>a. now - a < w) as)"
  using assms by (induction as) (auto simp: in_window_def)

lemma limiter_inv_check:
  assumes inv: "limiter_inv m w as prev rl" and le: "prev \<le> now"
  shows "limiter_inv m w (as @ (if fst (rl_check now rl) then [now] else [])) now (snd (rl_check now rl))"
proof -
  have all: "list_all (\<lambda>a. a \<le> now) as"
    using inv le by (auto simp: limiter_inv_def list_all_iff)
  have "length (filter (in_window t w) (as @ [now])) \<le> m"
    if "length (filter (\<lambda>a. now - a < w) as) < m" for t
    using that window_le_recent [OF all, of t w] inv by (auto simp: limiter_inv_def)
  then show ?thesis
    using inv all
    by (auto simp: rl_check_def Let_def retain_recent_inv [OF inv le] limiter_inv_def not_le)
qed

lemma rl_accepts_bound:
  "limiter_inv m w as prev rl \<Longrightarrow> sorted (prev # ts) \<Longrightarrow>
     length (filter (in_window t w) (as @ rl_accepts rl ts)) \<le> m"
proof (induction ts arbitrary: as prev rl)
  case Nil
  then show ?case by (simp add: limiter_inv_def)
next
  case (Cons now ts)
  obtain ok rl' where c: "rl_check now rl = (ok, rl')" by fastforce
  have "limiter_inv m w (as @ (if ok then [now] else [])) now rl'"
    using limiter_inv_check [OF Cons.prems(1), of now] Cons.prems(2) by (simp add: c)
  from Cons.IH [OF this] Cons.prems(2) show ?case by (simp add: c)
qed

text \<open>
  The limiter as it is meant: it remembers every request it allowed and allows one more exactly
  when fewer than \<open>m\<close> of them lie in the last \<open>w\<close>.
\<close>

fun spec_accepts :: "nat \<Rightarrow> duration \<Rightarrow> instant list \<Rightarrow> instant list \<Rightarrow> instant list" where
  "spec_accepts m w hist [] = []"
| "spec_accepts m w hist (now # ts) =
     (if length (filter (\<lambda>a. now - a < w) hist) < m then now # spec_accepts m w (hist @ [now]) ts
      else spec_accepts m w hist ts)"

text \<open>The simulation relation: from now on, the pruned list and the history agree on what is recent.\<close>

definition forgets_only_old :: "nat \<Rightarrow> duration \<Rightarrow> instant list \<Rightarrow> instant \<Rightarrow> rate_limiter \<Rightarrow> bool" where
  "forgets_only_old m w hist prev rl \<longleftrightarrow>
     max_requests rl = m \<and> from_secs (window_secs rl) = w \<and>
     (\<forall>now \<ge> prev. retain_recent now rl = filter (\<lambda>a. now - a < w) hist)"

lemma retain_recent_upd:
  "retain_recent now (rl\<lparr>requests := xs\<rparr>) = filter (\<lambda>t. now - t < from_secs (window_secs rl)) xs"
  by (simp add: retain_recent_def)

lemma forgets_only_old_check:
  assumes "forgets_only_old m w hist prev rl" "prev \<le> now"
  shows "fst (rl_check now rl) \<longleftrightarrow> length (filter (\<lambda>a. now - a < w) hist) < m"
    and "forgets_only_old m w (if fst (rl_check now rl) then hist @ [now] else hist) now (snd (rl_check now rl))"
proof -
  have r: "retain_recent now rl = filter (\<lambda>a. now - a < w) hist"
    using assms by (simp add: forgets_only_old_def)
  show "fst (rl_check now rl) \<longleftrightarrow> length (filter (\<lambda>a. now - a < w) hist) < m"
    using assms(1) by (auto simp: rl_check_def r Let_def forgets_only_old_def)
  have later: "filter (\<lambda>a. u - a < w) (filter (\<lambda>a. now - a < w) hist) = filter (\<lambda>a. u - a < w) hist" if "now \<le> u" for u
    using that by (auto intro: filter_cong)
  show "forgets_only_old m w (if fst (rl_check now rl) then hist @ [now] else hist) now (snd (rl_check now rl))"
    using assms(1) later by (auto simp: rl_check_def r Let_def forgets_only_old_def retain_recent_upd)
qed

lemma limiter_refines_history:
  "forgets_only_old m w hist prev rl \<Longrightarrow> sorted (prev # ts) \<Longrightarrow> rl_accepts rl ts = spec_accepts m w hist ts"
proof (induction ts arbitrary: hist prev rl)
  case (Cons now ts)
  then have "prev \<le> now" "sorted (now # ts)" by auto
  note step = forgets_only_old_check [OF Cons.prems(1) this(1)]
  show ?case
    using Cons.IH [OF step(2) \<open>sorted (now # ts)\<close>] step(1) by (auto simp: split_beta)
qed simp

lemma window_bound:
  assumes "sorted ts"
  shows "length (filter (in_window t (from_secs w)) (rl_accepts (rate_limiter_new m w) ts)) \<le> m"
proof (cases "w = 0")
  case True
  then have "filter (in_window t (from_secs w)) xs = []" for xs
    by (auto simp: filter_empty_conv in_window_def)
  then show ?thesis by simp
next
  case False
  then have "limiter_inv m (from_secs w) [] 0 (rate_limiter_new m w)"
    by (simp add: limiter_inv_new)
  from rl_accepts_bound [OF this, of ts t] assms show ?thesis by simp
qed

text \<open>
  C14: The rate limiter, which forgets requests as soon as they are old, refines the one that
  remembers them all: over any sequence of checks by a monotonic clock it allows the same
  requests; and so any interval of \<open>w\<close> seconds, not only those that start with a request, holds at
  most \<open>m\<close> requests it allowed.
\<close>

theorem rate_limiter_refines_history:
  assumes "sorted ts"
  shows "rl_accepts (rate_limiter_new m w) ts = spec_accepts m (from_secs w) [] ts \<and>
    length (filter (in_window t (from_secs w)) (rl_accepts (rate_limiter_new m w) ts)) \<le> m"
proof
  have "forgets_only_old m (from_secs w) [] 0 (rate_limiter_new m w)"
    by (simp add: forgets_only_old_def rate_limiter_new_def retain_recent_def)
  then show "rl_accepts (rate_limiter_new m w) ts = spec_accepts m (from_secs w) [] ts"
    using assms by (intro limiter_refines_history [where prev = 0]) auto
  show "length (filter (in_window t (from_secs w)) (rl_accepts (rate_limiter_new m w) ts)) \<le> m"
    using assms by (rule window_bound)
qed

theorem rate_limiter_refines_history_witness:
  "rl_accepts (rate_limiter_new 2 1) [0, 1, 2, from_secs 1, from_secs 1] = [0, 1, from_secs 1]
     \<and> length (filter (in_window 1 (from_secs 1))
          (rl_accepts (rate_limiter_new 2 1) [0, 1, 2, from_secs 1, from_secs 1])) \<le> 2"
  using rate_limiter_refines_history [of "[0, 1, 2, from_secs 1, from_secs 1]" 2 1 1]
  by (simp add: rl_check_def retain_recent_def rate_limiter_new_def)

section \<open>Address whitelists\<close>

lemma split_char_member:
  "x \<in> set s \<Longrightarrow> x \<noteq> d \<Longrightarrow> \<exists>p \<in> set (split_char d s). x \<in> set p"
proof (induction s)
  case (Cons c s)
  obtain p ps where s: "split_char d s = p # ps"
    by (meson neq_Nil_conv split_char_nonempty)
  with Cons show ?case by (cases "x = c") auto
qed simp

lemma parse_v4_no_slash:
  assumes "parse_v4 s = Some a"
  shows "CHR ''/'' \<notin> set s"
proof
  assume "CHR ''/'' \<in> set s"
  then obtain p where p: "p \<in> set (split_char CHR ''.'' s)" "CHR ''/'' \<in> set p"
    using split_char_member [of "CHR ''/''" s "CHR ''.''"] by auto
  have "\<not> is_digit CHR ''/''" by (simp add: is_digit_def)
  with p(2) have "parse_octet p = None"
    by (auto simp: parse_octet_def list_all_iff)
  with p(1) have "None \<in> set (map parse_octet (split_char CHR ''.'' s))" by force
  with assms show False
    by (auto simp: parse_v4_def split: list.splits option.splits)
qed

lemma entry_matches_cidr:
  assumes "parse_v6 tx (ip @ CHR ''/'' # bits) = None" "CHR ''/'' \<notin> set ip" "parse_ip tx ip = Some net"
  shows "entry_matches tx \<lparr> entry_ip = ip @ CHR ''/'' # bits, entry_description = d \<rparr> c \<longleftrightarrow>
    to_ipv4 net AND cidr_mask bits = to_ipv4 c AND cidr_mask bits"
proof -
  have "parse_v4 (ip @ CHR ''/'' # bits) = None"
    using parse_v4_no_slash [of "ip @ CHR ''/'' # bits"] by (cases "parse_v4 (ip @ CHR ''/'' # bits)") auto
  then have "parse_ip tx (ip @ CHR ''/'' # bits) = None"
    using assms(1) by (simp add: parse_ip_def)
  then show ?thesis
    using assms(2,3) by (simp add: entry_matches_def split_once_append)
qed

lemma cidr_mask_show:
  assumes "1 \<le> b" "b \<le> 32"
  shows "cidr_mask (show_nat b) = push_bit (32 - b) (- 1)"
proof (cases "b = 32")
  case True
  then show ?thesis by (simp add: cidr_mask_def parse_show_nat)
next
  case False
  with assms have "unat (32 - word_of_nat b :: u32) = 32 - b"
    by (simp add: unat_sub_if' unat_of_nat)
  with False assms show ?thesis by (simp add: cidr_mask_def parse_show_nat)
qed

lemma high_bits_equal:
  fixes x y :: u32
  shows "x AND push_bit k (- 1) = y AND push_bit k (- 1) \<longleftrightarrow> drop_bit k x = drop_bit k y"
proof -
  have m: "z AND push_bit k (- 1) = push_bit k (drop_bit k z)" for z :: u32
    by (rule bit_eqI) (auto simp: bit_simps)
  have "drop_bit k (push_bit k (drop_bit k z)) = drop_bit k z" for z :: u32
    by (rule bit_eqI) (auto simp: bit_simps dest: bit_imp_le_length)
  then have "push_bit k (drop_bit k x) = push_bit k (drop_bit k y) \<longleftrightarrow> drop_bit k x = drop_bit k y"
    by metis
  then show ?thesis by (simp only: m)
qed

text \<open>
  A whitelist entry \<open>network/b\<close> over IPv4 with \<open>b\<close> between 1 and 32 matches exactly the IPv4
  clients that share the network's first \<open>b\<close> bits, whatever the host bits written in the entry.
\<close>

theorem cidr_matches_exactly:
  assumes "parse_v4 ip = Some net" "1 \<le> b" "b \<le> 32"
    and "parse_v6 tx (ip @ CHR ''/'' # show_nat b) = None"
  shows "entry_matches tx \<lparr> entry_ip = ip @ CHR ''/'' # show_nat b, entry_description = d \<rparr> (V4 c) \<longleftrightarrow>
    drop_bit (32 - b) net = drop_bit (32 - b) c"
  using assms
  by (simp add: entry_matches_cidr [where net = "V4 net"] parse_v4_no_slash parse_ip_def cidr_mask_show
      high_bits_equal del: push_bit_minus_one_eq_not_mask)

definition v4_only :: ip_text where
  "v4_only = \<lparr> parse_v6 = (\<lambda>s. if s = ''2001:db8::'' then Some 42540766411282592856903984951653826560 else None),
     show_v6 = (\<lambda>_. ''2001:db8::'') \<rparr>"

theorem cidr_matches_exactly_witness:
  "entry_matches v4_only \<lparr> entry_ip = ''10.1.2.3/8'', entry_description = None \<rparr> (V4 (v4_of 10 9 9 9))
     \<and> \<not> entry_matches v4_only \<lparr> entry_ip = ''10.1.2.3/8'', entry_description = None \<rparr> (V4 (v4_of 11 1 2 3))"
proof -
  have "map parse_octet (split_char CHR ''.'' ''10.1.2.3'') = [Some 10, Some 1, Some 2, Some 3]"
    "show_nat 8 = ''8''"
    by code_simp+
  then have p: "parse_v4 ''10.1.2.3'' = Some (v4_of 10 1 2 3)" "show_nat 8 = ''8''"
    by (simp_all only: parse_v4_def list.case option.case)
  then have "entry_matches v4_only \<lparr> entry_ip = ''10.1.2.3/8'', entry_description = None \<rparr> (V4 c) \<longleftrightarrow>
      drop_bit 24 (v4_of 10 1 2 3) = drop_bit 24 c" for c
    using cidr_matches_exactly [of "''10.1.2.3''" "v4_of 10 1 2 3" 8 v4_only None c]
    by (simp add: v4_only_def)
  then show ?thesis by (simp add: v4_of_def)
qed

text \<open>
  Two networks the arithmetic does not cover.  A shift by 32 is a shift by 0 in a release build,
  so the entry \<open>0.0.0.0/0\<close>, which is written to admit every client, admits only the client
  \<open>0.0.0.0\<close>.  And every IPv6 address stands for the number 0, so an IPv6 network of any prefix
  admits every IPv6 client.
\<close>

theorem zero_prefix_admits_one_client:
  assumes "parse_v4 ip = Some net" "parse_v6 tx (ip @ ''/0'') = None"
  shows "entry_matches tx \<lparr> entry_ip = ip @ ''/0'', entry_description = d \<rparr> (V4 c) \<longleftrightarrow> c = net"
proof -
  have "show_nat 0 = ''0''" by code_simp
  then have "cidr_mask ''0'' = - 1"
    using parse_show_nat [of 0 4294967295] by (simp add: cidr_mask_def)
  then show ?thesis
    using assms entry_matches_cidr [of tx ip "''0''" "V4 net" d "V4 c"] parse_v4_no_slash [of ip net]
    by (auto simp: parse_ip_def)
qed

text \<open>
  An IPv6 network in a whitelist excludes nobody who connects over IPv6: whatever the
  network and the prefix length, the entry matches every IPv6 address, and so a capability whose
  whitelist holds one such entry is usable from all of them.
\<close>

theorem ipv6_network_admits_all:
  assumes "CHR ''/'' \<notin> set ip" "parse_ip tx ip = Some (V6 net)"
    and "parse_v6 tx (ip @ CHR ''/'' # bits) = None"
    and "resolved pl n = Some cap"
    and "\<lparr> entry_ip = ip @ CHR ''/'' # bits, entry_description = d \<rparr> \<in> set (res_ip_whitelist cap)"
  shows "permits_ip tx pl n (V6 client)"
  using assms entry_matches_cidr [OF assms(3,1,2), of d "V6 client"]
  by (auto simp: permits_ip_def get_capability_def list_ex_iff)

definition v6_entry :: ip_entry where
  "v6_entry = \<lparr> entry_ip = ''2001:db8::/32'', entry_description = None \<rparr>"

definition v6_plugin :: plugin where
  "v6_plugin = add_capability
     \<lparr> def_name = ''cell'', def_domains = [''cell.*''], def_inherits = None, def_rate_limit = None,
       def_ip_whitelist = Some [v6_entry], def_ttl_seconds = None, def_description = None \<rparr> plugin_new"

lemma v6_plugin_cell:
  "resolved v6_plugin ''cell'' = Some \<lparr> res_name = ''cell'', res_domains = [''cell.*''],
     res_rate_limit = None, res_ip_whitelist = [v6_entry], res_ttl_seconds = None \<rparr>"
  by (simp add: v6_plugin_def add_capability_def resolve_inheritance_def first_pass_step_def
      second_pass_step_def own_capability_def or_nil_def plugin_new_def plugin_config_default_def)

lemma v6_parses: "parse_ip v4_only ''2001:db8::'' = Some (V6 42540766411282592856903984951653826560)"
proof -
  have "parse_v4 ''2001:db8::'' = None" by code_simp
  then show ?thesis by (simp add: v4_only_def parse_ip_def)
qed

lemma v6_plugin_admits: "permits_ip v4_only v6_plugin ''cell'' (V6 1)"
  using entry_matches_cidr [of v4_only "''2001:db8::''" "''32''" _ None "V6 1"] v6_parses
  by (simp add: permits_ip_def get_capability_def v6_plugin_cell v6_entry_def v4_only_def)

theorem ipv6_network_admits_all_witness:
  "permits_ip v4_only v6_plugin ''cell'' (V6 1)"
proof (rule ipv6_network_admits_all)
  show "CHR ''/'' \<notin> set ''2001:db8::''" by simp
  show "parse_ip v4_only ''2001:db8::'' = Some (V6 42540766411282592856903984951653826560)"
    by (rule v6_parses)
  show "parse_v6 v4_only (''2001:db8::'' @ CHR ''/'' # ''32'') = None" by (simp add: v4_only_def)
  show "resolved v6_plugin ''cell'' = Some \<lparr> res_name = ''cell'', res_domains = [''cell.*''],
     res_rate_limit = None, res_ip_whitelist = [v6_entry], res_ttl_seconds = None \<rparr>"
    by (rule v6_plugin_cell)
  show "\<lparr> entry_ip = ''2001:db8::'' @ CHR ''/'' # ''32'', entry_description = None \<rparr>
      \<in> set (res_ip_whitelist \<lparr> res_name = ''cell'', res_domains = [''cell.*''],
     res_rate_limit = None, res_ip_whitelist = [v6_entry], res_ttl_seconds = None \<rparr>)"
    by (simp add: v6_entry_def)
qed

section \<open>Permission with the plugin, exactly\<close>

lemma cap_name_eq_iff [simp]: "cap_name c = cap_name d \<longleftrightarrow> c = d"
  by (metis cap_from_str_name option.inject)

definition client_or_loopback :: "ip_addr option \<Rightarrow> ip_addr" where
  "client_or_loopback client_ip = (case client_ip of Some ip \<Rightarrow> ip | None \<Rightarrow> V4 (v4_of 127 0 0 1))"

definition rate_ok :: "plugin_clock \<Rightarrow> plugin \<Rightarrow> capability \<Rightarrow> bool" where
  "rate_ok clk pl c \<longleftrightarrow> fst (check_rate_limit (rate_at clk (cap_name c)) pl (cap_name c))"

lemma check_rate_limit_frame:
  "resolved (snd (check_rate_limit now pl n)) = resolved pl"
  "expirations (snd (check_rate_limit now pl n)) = expirations pl"
  by (auto simp: check_rate_limit_def Let_def split: option.splits prod.splits)

lemma check_rate_limit_other:
  "n \<noteq> n' \<Longrightarrow> fst (check_rate_limit now (snd (check_rate_limit now' pl n')) n) = fst (check_rate_limit now pl n)"
  by (auto simp: check_rate_limit_def get_capability_def Let_def split: option.splits prod.splits)

lemma rate_loop_frame:
  "resolved (snd (rate_loop clk caps pl)) = resolved pl"
  "expirations (snd (rate_loop clk caps pl)) = expirations pl"
  by (induction caps arbitrary: pl)
     (auto simp: Let_def split: prod.splits, (metis check_rate_limit_frame snd_conv)+)

lemma rate_loop_None_iff:
  "distinct caps \<Longrightarrow> fst (rate_loop clk caps pl) = None \<longleftrightarrow> (\<forall>c \<in> set caps. rate_ok clk pl c)"
proof (induction caps arbitrary: pl)
  case (Cons c cs)
  obtain ok pl1 where c: "check_rate_limit (rate_at clk (cap_name c)) pl (cap_name c) = (ok, pl1)"
    by fastforce
  have "rate_ok clk pl1 d = rate_ok clk pl d" if "d \<in> set cs" for d
  proof -
    have "d \<noteq> c" using that Cons.prems by auto
    then show ?thesis
      using check_rate_limit_other [of "cap_name d" "cap_name c" "rate_at clk (cap_name d)"
          "rate_at clk (cap_name c)" pl] by (simp add: rate_ok_def c)
  qed
  with Cons show ?case by (auto simp: Let_def c rate_ok_def [of clk pl c])
qed simp

lemma permits_ip_cong: "resolved pl = resolved pl' \<Longrightarrow> permits_ip tx pl n ip = permits_ip tx pl' n ip"
  by (simp add: permits_ip_def get_capability_def)

lemma cap_expired_cong: "expirations pl = expirations pl' \<Longrightarrow> cap_expired now pl n = cap_expired now pl' n"
  by (simp add: cap_expired_def)

text \<open>
  With a plugin a call is permitted exactly when the method is permitted to the set and every
  capability of the set, needed by the method or not, is within its rate limit, is defined in the
  plugin with a whitelist that admits the client (the loopback address for a client without one),
  and has not expired.
\<close>

theorem permits_with_plugin_exact:
  assumes "distinct caps"
  shows "fst (permits_with_plugin tx clk caps method client_ip pl) = Inr () \<longleftrightarrow>
    permits_method caps method \<and>
    (\<forall>c \<in> set caps. rate_ok clk pl c \<and> permits_ip tx pl (cap_name c) (client_or_loopback client_ip)
        \<and> \<not> cap_expired (expiry_at clk (cap_name c)) pl (cap_name c))"
proof -
  obtain e pl' where r: "rate_loop clk caps pl = (e, pl')" by fastforce
  then have rate: "e = None \<longleftrightarrow> (\<forall>c \<in> set caps. rate_ok clk pl c)"
    using rate_loop_None_iff [OF assms, of clk pl] by simp
  have pl': "resolved pl' = resolved pl" "expirations pl' = expirations pl"
    using rate_loop_frame [of clk caps pl] by (simp_all add: r)
  have ip: "ip_denied tx client_ip caps pl' \<longleftrightarrow>
      (\<exists>c \<in> set caps. \<not> permits_ip tx pl (cap_name c) (client_or_loopback client_ip))"
    by (auto simp: ip_denied_def client_or_loopback_def list_ex_iff permits_ip_cong [OF pl'(1)])
  have ex: "expired_cap clk caps pl' = None \<longleftrightarrow>
      (\<forall>c \<in> set caps. \<not> cap_expired (expiry_at clk (cap_name c)) pl (cap_name c))"
    by (auto simp: expired_cap_def find_None_iff cap_expired_cong [OF pl'(2)])
  show ?thesis
    using rate ip ex
    by (cases e) (auto simp: permits_with_plugin_def r split: option.splits)
qed

definition tick :: plugin_clock where
  "tick = \<lparr> rate_at = (\<lambda>_. 5), status_at = (\<lambda>_. 5), expiry_at = (\<lambda>_. 5) \<rparr>"

theorem permits_with_plugin_exact_witness:
  "fst (permits_with_plugin v4_only tick [Cell] ''cell.save'' (Some (V6 1)) v6_plugin) = Inr ()
     \<and> fst (permits_with_plugin v4_only tick [Cell, Window] ''cell.save'' (Some (V6 1)) v6_plugin) \<noteq> Inr ()"
proof -
  have u: "resolved v6_plugin ''window'' = None" "expirations v6_plugin = Map.empty"
    by (simp_all add: v6_plugin_def add_capability_def resolve_inheritance_def first_pass_step_def
      second_pass_step_def plugin_new_def plugin_config_default_def)
  have m: "permits_method [Cell] ''cell.save''" by code_simp
  have ip: "permits_ip v4_only v6_plugin ''cell'' (V6 1)"
    by (rule v6_plugin_admits)
  show ?thesis
    using permits_with_plugin_exact [of "[Cell]" v4_only tick "''cell.save''" "Some (V6 1)" v6_plugin]
      permits_with_plugin_exact [of "[Cell, Window]" v4_only tick "''cell.save''" "Some (V6 1)" v6_plugin] m ip
    by (simp add: client_or_loopback_def rate_ok_def check_rate_limit_def get_capability_def
        v6_plugin_cell u cap_expired_def permits_ip_def [of _ _ "''window''"])
qed

text \<open>
  Revocation does not take a permission away.  It removes the capability's expiry time and its
  rate limiter, and neither \<open>permits_ip\<close> nor \<open>is_expired\<close> knows of it afterwards: a caller whose
  only obstacle was that the capability had expired is permitted again once it is revoked.
\<close>

theorem revoke_lifts_expiry:
  assumes "distinct caps" "permits_method caps method"
    and "\<forall>c \<in> set caps. permits_ip tx pl (cap_name c) (client_or_loopback client_ip)"
    and "\<forall>c \<in> set caps. \<forall>cap. resolved pl (cap_name c) = Some cap \<longrightarrow> res_rate_limit cap = None"
    and "\<forall>c \<in> set caps. cap_expired (expiry_at clk (cap_name c)) pl (cap_name c) \<longrightarrow> cap_name c = n"
  shows "fst (permits_with_plugin tx clk caps method client_ip (revoke n pl)) = Inr ()"
proof -
  have res: "resolved (revoke n pl) = resolved pl" by (simp add: revoke_def)
  have "rate_ok clk (revoke n pl) c" if "c \<in> set caps" for c
    using assms(4) that by (auto simp: rate_ok_def check_rate_limit_def get_capability_def res split: option.splits)
  moreover have "\<not> cap_expired (expiry_at clk (cap_name c)) (revoke n pl) (cap_name c)" if "c \<in> set caps" for c
    using assms(5) that by (auto simp: cap_expired_def revoke_def split: option.splits if_splits)
  ultimately show ?thesis
    using assms(2,3) by (simp add: permits_with_plugin_exact [OF assms(1)] permits_ip_cong [OF res])
qed

end
