(* ===== verification/Api_Auth.thy ===== *)
theory Api_Auth
  imports Capability_Plugin
begin

text \<open>
  \<open>src/auth.rs\<close>: the API key a process expects, the lockout after wrong keys, and the audit entry.

  The singleton's two atomic counters are fields of its record.  \<open>validate\<close> reads and writes them one at
  a time, so it is a little machine (\<open>key_step\<close>) whose steps are the single accesses; \<open>validate_key\<close> runs
  it to its end without interruption, as the program's one dispatching thread does.  Times are seconds
  since the epoch (a clock set before the epoch is not modelled); a call reads the clock once for the
  lockout test and once when it starts a lockout.
\<close>

section \<open>State\<close>

record auth =
  api_key :: "string option"
  auth_caps :: capability_set
  failed_attempts :: u32
  lockout_until :: nat

definition non_empty :: "string option \<Rightarrow> string option" where
  "non_empty x = (case x of Some s \<Rightarrow> if s = [] then None else Some s | None \<Rightarrow> None)"

text \<open>\<open>Auth::init\<close>, given what the cell holds, \<open>VCLI_API_KEY\<close> and \<open>VCLI_CAPABILITY\<close>.\<close>

definition auth_init :: "auth option \<Rightarrow> string option \<Rightarrow> string option \<Rightarrow> auth" where
  "auth_init cell key_var cap_var =
     (case cell of
        Some a \<Rightarrow> a
      | None \<Rightarrow> \<lparr> api_key = non_empty key_var, auth_caps = caps_from_env cap_var,
                 failed_attempts = 0, lockout_until = 0 \<rparr>)"

section \<open>Checking a key\<close>

text \<open>The comparison folds the differences of all bytes before it looks at the result.\<close>

definition byte :: "char \<Rightarrow> u8" where
  "byte c = word_of_nat (of_char c)"

definition constant_time_eq :: "string \<Rightarrow> string \<Rightarrow> bool" where
  "constant_time_eq a b =
     (if length a \<noteq> length b then False
      else foldl (\<lambda>diff (x, y). diff OR (byte x XOR byte y)) 0 (zip a b) = 0)"

definition locked_msg :: "nat \<Rightarrow> string" where
  "locked_msg s = ''too many failed attempts '' @ map char_of [226, 128, 148 :: nat] @ '' locked out for '' @ show_nat s @ ''s''"

text \<open>Where a call of \<open>validate\<close> is: before each access to the counters or the clock, or done.\<close>

datatype key_pc =
    LoadLockout
  | TestLockout nat
  | ClearLockout
  | ClearFailed
  | CompareKey
  | LockoutTime
  | StoreLockout nat
  | KeyChecked "virtuoso_error + unit"

definition wrong_key :: "virtuoso_error" where
  "wrong_key = Auth ''invalid API key''"

fun key_step :: "nat \<times> nat \<Rightarrow> string \<Rightarrow> key_pc \<times> auth \<Rightarrow> key_pc \<times> auth" where
  "key_step now key (LoadLockout, a) =
     (if api_key a = None then KeyChecked (Inr ())
      else if 0 < lockout_until a then TestLockout (lockout_until a) else CompareKey, a)"
| "key_step now key (TestLockout lockout, a) =
     (if fst now < lockout then KeyChecked (Inl (Auth (locked_msg (lockout - fst now)))) else ClearLockout, a)"
| "key_step now key (ClearLockout, a) = (ClearFailed, a\<lparr>lockout_until := 0\<rparr>)"
| "key_step now key (ClearFailed, a) = (CompareKey, a\<lparr>failed_attempts := 0\<rparr>)"
| "key_step now key (CompareKey, a) =
     (case api_key a of
        Some expected \<Rightarrow>
          if constant_time_eq key expected then (KeyChecked (Inr ()), a\<lparr>failed_attempts := 0\<rparr>)
          else (if 5 \<le> failed_attempts a + 1 then LockoutTime else KeyChecked (Inl wrong_key),
                a\<lparr>failed_attempts := failed_attempts a + 1\<rparr>)
      | None \<Rightarrow>
          (if 5 \<le> failed_attempts a + 1 then LockoutTime else KeyChecked (Inl wrong_key),
           a\<lparr>failed_attempts := failed_attempts a + 1\<rparr>))"
| "key_step now key (LockoutTime, a) = (StoreLockout (snd now + 300), a)"
| "key_step now key (StoreLockout t, a) = (KeyChecked (Inl wrong_key), a\<lparr>lockout_until := t\<rparr>)"
| "key_step now key (KeyChecked r, a) = (KeyChecked r, a)"

text \<open>No call takes more than seven steps.\<close>

definition key_run :: "nat \<times> nat \<Rightarrow> string \<Rightarrow> auth \<Rightarrow> key_pc \<times> auth" where
  "key_run now key a = (key_step now key ^^ 7) (LoadLockout, a)"

definition validate_key :: "nat \<times> nat \<Rightarrow> string \<Rightarrow> auth \<Rightarrow> (virtuoso_error + unit) \<times> auth" where
  "validate_key now key a =
     (case key_run now key a of (KeyChecked r, a') \<Rightarrow> (r, a') | (_, a') \<Rightarrow> (Inl wrong_key, a'))"

definition auth_enabled :: "auth \<Rightarrow> bool" where
  "auth_enabled a \<longleftrightarrow> api_key a \<noteq> None"

text \<open>\<open>check_auth\<close>: a request without a key falls back on the process's own \<open>VCLI_API_KEY\<close>.\<close>

definition check_auth ::
  "nat \<times> nat \<Rightarrow> string option \<Rightarrow> string option \<Rightarrow> auth \<Rightarrow> (virtuoso_error + capability_set) \<times> auth" where
  "check_auth now key_var request_key a =
     (if \<not> auth_enabled a then (Inr (auth_caps a), a)
      else case or_else request_key (non_empty key_var) of
        None \<Rightarrow> (Inl (Auth ''API key required''), a)
      | Some key \<Rightarrow>
          (case validate_key now key a of
             (Inl e, a') \<Rightarrow> (Inl e, a')
           | (Inr _, a') \<Rightarrow> (Inr (auth_caps a'), a')))"

section \<open>The audit log\<close>

record 'v audit_entry =
  audit_ts :: string
  audit_user :: string
  audit_session_id :: "string option"
  audit_method :: string
  audit_params :: 'v
  audit_result :: string
  audit_capabilities :: "string list"

definition audit_entry_new ::
  "string \<Rightarrow> string option \<Rightarrow> string option \<Rightarrow> string \<Rightarrow> 'v \<Rightarrow> string \<Rightarrow> string option \<Rightarrow> 'v audit_entry" where
  "audit_entry_new ts user_var username_var method params result session =
     \<lparr> audit_ts = ts,
       audit_user = (case or_else user_var username_var of Some u \<Rightarrow> u | None \<Rightarrow> ''unknown''),
       audit_session_id = session, audit_method = method, audit_params = params,
       audit_result = result, audit_capabilities = [] \<rparr>"

section \<open>Facts\<close>

lemma byte_eq_iff [simp]: "byte a = byte b \<longleftrightarrow> a = b"
proof
  assume "byte a = byte b"
  then have "unat (byte a) = unat (byte b)" by simp
  then have "(of_char a :: nat) = of_char b"
    by (simp add: byte_def unat_of_nat)
  then show "a = b" by simp
qed simp

lemma xor_zero_iff: "x XOR y = 0 \<longleftrightarrow> x = y" for x y :: u8
  by (metis xor.assoc xor.left_neutral xor_self_eq)

lemma fold_diff_zero:
  "foldl (\<lambda>diff (x, y). diff OR (byte x XOR byte y)) d ps = 0 \<longleftrightarrow> d = 0 \<and> (\<forall>(x, y) \<in> set ps. x = y)"
  by (induction ps arbitrary: d) (auto simp: or_eq_0_iff xor_zero_iff)

lemma constant_time_eq_iff: "constant_time_eq a b \<longleftrightarrow> a = b"
proof -
  have "a = b" if "length a = length b" "\<forall>(x, y) \<in> set (zip a b). x = y"
    using that by (induction a b rule: list_induct2) auto
  moreover have "\<forall>(x, y) \<in> set (zip a a). x = y"
    by (induction a) auto
  ultimately show ?thesis
    unfolding constant_time_eq_def fold_diff_zero by auto
qed

section \<open>An uninterrupted call\<close>

definition unlock :: "auth \<Rightarrow> auth" where
  "unlock a = a\<lparr>lockout_until := 0, failed_attempts := 0\<rparr>"

definition compare_key :: "nat \<Rightarrow> string \<Rightarrow> auth \<Rightarrow> (virtuoso_error + unit) \<times> auth" where
  "compare_key now key a =
     (if api_key a = Some key then (Inr (), a\<lparr>failed_attempts := 0\<rparr>)
      else
        (Inl wrong_key,
         if 5 \<le> failed_attempts a + 1
         then a\<lparr>failed_attempts := failed_attempts a + 1, lockout_until := now + 300\<rparr>
         else a\<lparr>failed_attempts := failed_attempts a + 1\<rparr>))"

text \<open>What the seven steps come to; the machine has always ended.\<close>

lemma key_run_eq:
  "key_run now key a =
     (if api_key a = None then (KeyChecked (Inr ()), a)
      else if 0 < lockout_until a \<and> fst now < lockout_until a
      then (KeyChecked (Inl (Auth (locked_msg (lockout_until a - fst now)))), a)
      else case compare_key (snd now) key (if 0 < lockout_until a then unlock a else a) of (r, a') \<Rightarrow> (KeyChecked r, a'))"
  by (simp add: key_run_def eval_nat_numeral compare_key_def unlock_def constant_time_eq_iff wrong_key_def
      split: option.splits)

lemma validate_key_eq:
  "validate_key now key a =
     (if api_key a = None then (Inr (), a)
      else if 0 < lockout_until a \<and> fst now < lockout_until a
      then (Inl (Auth (locked_msg (lockout_until a - fst now))), a)
      else compare_key (snd now) key (if 0 < lockout_until a then unlock a else a))"
  by (simp add: validate_key_def key_run_eq split: prod.splits)

section \<open>Guessing the key\<close>

text \<open>The times at which a sequence of attempts learned that its key is wrong.\<close>

fun guess_times :: "((nat \<times> nat) \<times> string) list \<Rightarrow> auth \<Rightarrow> nat list" where
  "guess_times [] a = []"
| "guess_times ((now, key) # es) a =
     (let (r, a') = validate_key now key a in
      (if r = Inl wrong_key then [snd now] else []) @ guess_times es a')"

fun clock_ok :: "nat \<Rightarrow> ((nat \<times> nat) \<times> string) list \<Rightarrow> bool" where
  "clock_ok t [] \<longleftrightarrow> True"
| "clock_ok t ((now, key) # es) \<longleftrightarrow> t \<le> fst now \<and> fst now \<le> snd now \<and> clock_ok (snd now) es"

text \<open>
  While no lockout runs, the failures counted are the latest ones and all earlier ones are more
  than a lockout away; during a lockout, all failures are a lockout's length before its end.
\<close>

definition guess_inv :: "nat list \<Rightarrow> nat \<Rightarrow> auth \<Rightarrow> bool" where
  "guess_inv as now a \<longleftrightarrow>
     (\<forall>x \<in> set as. x \<le> now) \<and> (\<forall>t. length (filter (in_window t 300) as) \<le> 5)
     \<and> (if lockout_until a = 0
        then \<exists>old cur. as = old @ cur \<and> length cur = unat (failed_attempts a) \<and> length cur < 5
               \<and> (\<forall>x \<in> set old. x + 300 \<le> now)
        else \<forall>x \<in> set as. x + 300 \<le> lockout_until a)"

lemma compare_key_wrong:
  assumes "api_key a = Some k" "key \<noteq> k"
  shows "compare_key now key a =
    (Inl wrong_key,
     if 5 \<le> failed_attempts a + 1 then a\<lparr>failed_attempts := failed_attempts a + 1, lockout_until := now + 300\<rparr>
     else a\<lparr>failed_attempts := failed_attempts a + 1\<rparr>)"
  using assms by (simp add: compare_key_def)

lemma guess_inv_unlock:
  "guess_inv as t a \<Longrightarrow> lockout_until a \<noteq> 0 \<Longrightarrow> lockout_until a \<le> now \<Longrightarrow> t \<le> now
     \<Longrightarrow> guess_inv as now (unlock a)"
  by (force simp: guess_inv_def unlock_def)

lemma guess_inv_wait:
  assumes "guess_inv as t a" "t \<le> now"
  shows "guess_inv as now a"
proof -
  have old: "\<forall>x \<in> set xs. x + 300 \<le> t \<Longrightarrow> \<forall>x \<in> set xs. x + 300 \<le> now" for xs
    using assms(2) by auto
  have "\<forall>x \<in> set as. x \<le> now"
    using assms by (auto simp: guess_inv_def)
  with assms(1) old show ?thesis
    unfolding guess_inv_def by (metis (no_types, lifting))
qed

lemma guess_inv_compare:
  assumes inv: "guess_inv as now a" and a: "lockout_until a = 0" "api_key a = Some k" "key \<noteq> k"
  shows "guess_inv (as @ [now]) now (snd (compare_key now key a))"
proof -
  obtain old cur where as: "as = old @ cur" and cur: "length cur = unat (failed_attempts a)" "length cur < 5"
      and old: "\<forall>x \<in> set old. x + 300 \<le> now"
    using inv a(1) by (auto simp: guess_inv_def)
  have fail: "unat (failed_attempts a + 1) = Suc (length cur)"
    using cur by (simp add: unat_word_ariths)
  have win: "length (filter (in_window t 300) (as @ [now])) \<le> 5" for t
  proof (cases "in_window t 300 now")
    case True
    with old have "filter (in_window t 300) old = []"
      by (force simp: filter_empty_conv in_window_def)
    moreover have "length (filter (in_window t 300) cur) \<le> 4"
      using cur(2) length_filter_le [of "in_window t 300" cur] by linarith
    ultimately show ?thesis by (simp add: as)
  next
    case False
    with inv show ?thesis by (simp add: guess_inv_def)
  qed
  have le: "\<forall>x \<in> set (as @ [now]). x \<le> now"
    using inv by (auto simp: guess_inv_def)
  show ?thesis
  proof (cases "5 \<le> failed_attempts a + 1")
    case True
    with win le a show ?thesis
      by (simp add: compare_key_wrong guess_inv_def)
  next
    case False
    then have "Suc (length cur) < 5" by (simp add: word_le_nat_alt fail not_le)
    moreover have "as @ [now] = old @ (cur @ [now])" by (simp add: as)
    ultimately have "\<exists>old cur'. as @ [now] = old @ cur' \<and> length cur' = unat (failed_attempts a + 1)
        \<and> length cur' < 5 \<and> (\<forall>x \<in> set old. x + 300 \<le> now)"
      using old fail by (intro exI [of _ old] exI [of _ "cur @ [now]"]) simp
    with False win le a show ?thesis
      by (simp add: compare_key_wrong guess_inv_def)
  qed
qed

lemma api_key_validate [simp]: "api_key (snd (validate_key now key a)) = api_key a"
  by (simp add: validate_key_eq compare_key_def unlock_def)

lemma guess_times_bound:
  "guess_inv as t a \<Longrightarrow> clock_ok t es \<Longrightarrow> api_key a = Some k \<Longrightarrow> k \<notin> snd ` set es \<Longrightarrow>
     length (filter (in_window u 300) (as @ guess_times es a)) \<le> 5"
proof (induction es arbitrary: as t a)
  case Nil
  then show ?case by (simp add: guess_inv_def)
next
  case (Cons e es)
  obtain now key where e: "e = (now, key)" by (cases e)
  have key: "key \<noteq> k" and t: "t \<le> fst now" "fst now \<le> snd now"
    using Cons.prems by (auto simp: e)
  obtain r a' where v: "validate_key now key a = (r, a')" by fastforce
  have k': "api_key a' = Some k"
    using api_key_validate [of now key a] Cons.prems(3) by (simp add: v)
  have "guess_inv (as @ (if r = Inl wrong_key then [snd now] else [])) (snd now) a'"
  proof (cases "0 < lockout_until a \<and> fst now < lockout_until a")
    case True
    with v Cons.prems(3) have "r = Inl (Auth (locked_msg (lockout_until a - fst now)))" "a' = a"
      by (auto simp: validate_key_eq)
    with guess_inv_wait [OF Cons.prems(1), of "snd now"] t show ?thesis by (simp add: locked_msg_def wrong_key_def)
  next
    case False
    define b where "b = (if 0 < lockout_until a then unlock a else a)"
    have b: "guess_inv as (snd now) b" "lockout_until b = 0" "api_key b = Some k"
      using False Cons.prems(1,3) t guess_inv_unlock [of as t a "snd now"] guess_inv_wait [of as t a "snd now"]
      by (auto simp: b_def unlock_def)
    have "compare_key (snd now) key b = (r, a')"
      using v False Cons.prems(3) by (auto simp: validate_key_eq b_def)
    with guess_inv_compare [OF b key] compare_key_wrong [OF b(3) key, of "snd now"] show ?thesis
      by simp
  qed
  from Cons.IH [OF this _ k'] Cons.prems show ?case by (simp add: e v)
qed

text \<open>
  C13: Guessing the API key is throttled: for calls made one after the other, as the program's one
  dispatching thread makes them, and a clock that is not set back between them, when none of the keys
  tried is the right one, no interval of 300 seconds holds more than five answers that tell a caller
  its key is wrong, however many attempts are made and however they are spaced.
\<close>

theorem key_guesses_throttled:
  assumes "auth_init None (Some k) cap_var = a" "k \<noteq> []" "clock_ok 0 es" "k \<notin> snd ` set es"
  shows "length (filter (in_window t 300) (guess_times es a)) \<le> 5"
proof -
  have "guess_inv [] 0 a" "api_key a = Some k"
    using assms(1,2) by (auto simp: auth_init_def guess_inv_def non_empty_def)
  from guess_times_bound [OF this(1) assms(3) this(2) assms(4), of t] show ?thesis by simp
qed

theorem key_guesses_throttled_witness:
  "let es = replicate 7 ((2, 2), ''no'') @ [((302, 302), ''no'')];
       a = auth_init None (Some ''key'') None
   in guess_times es a = [2, 2, 2, 2, 2, 302] \<and> length (filter (in_window 2 300) (guess_times es a)) \<le> 5"
proof -
  let ?es = "replicate 7 ((2, 2), ''no'') @ [((302, 302), ''no'')]"
  let ?a = "auth_init None (Some ''key'') None"
  have "length (filter (in_window 2 300) (guess_times ?es ?a)) \<le> 5"
    by (rule key_guesses_throttled [of "''key''" None]) (simp_all add: eval_nat_numeral)
  moreover have "guess_times ?es ?a = [2, 2, 2, 2, 2, 302]"
    by code_simp
  ultimately show ?thesis by simp
qed

text \<open>
  Both conditions are needed.  Calls that overlap all see the counters as they were: six threads that
  read them before any compares its key are all told that it is wrong.  And when the clock is set back, the
  times at which calls are answered are no longer those of an interval.
\<close>

definition threads_step :: "nat \<times> nat \<Rightarrow> string \<Rightarrow> nat \<Rightarrow> key_pc list \<times> auth \<Rightarrow> key_pc list \<times> auth" where
  "threads_step now key i y =
     (case key_step now key (fst y ! i, snd y) of (p, a) \<Rightarrow> ((fst y)[i := p], a))"

lemma overlapping_guesses:
  "let y = fold (threads_step (2, 2) ''no'') ([0..<6] @ [0..<6] @ [0..<6] @ [0..<6])
       (replicate 6 LoadLockout, auth_init None (Some ''key'') None)
   in fst y = replicate 6 (KeyChecked (Inl wrong_key)) \<and> lockout_until (snd y) = 302"
  by code_simp

lemma validate_right_key:
  assumes "api_key b = Some k" "lockout_until b \<le> fst now"
  shows "\<exists>b'. validate_key now k b = (Inr (), b') \<and> auth_caps b' = auth_caps b"
  using assms by (simp add: validate_key_eq compare_key_def unlock_def)

text \<open>
  A request that carries no key is never asked for one.  The key the process expects and the
  key it falls back on are read from the same variable, so outside a lockout \<open>check_auth\<close> grants
  such a request the process's capabilities, as it does when no key is configured at all; it
  refuses the request only while wrong keys of others have it locked out.
\<close>

theorem keyless_request_accepted:
  assumes "auth_init None key_var cap_var = a" "api_key b = api_key a" "auth_caps b = auth_caps a"
    and "lockout_until b \<le> fst now"
  shows "fst (check_auth now key_var None b) = Inr (caps_from_env cap_var)"
proof (cases "api_key b")
  case None
  with assms show ?thesis by (auto simp: check_auth_def auth_enabled_def auth_init_def)
next
  case (Some k)
  with assms have "non_empty key_var = Some k" "auth_caps b = caps_from_env cap_var"
    by (auto simp: auth_init_def)
  moreover obtain b' where "validate_key now k b = (Inr (), b')" "auth_caps b' = auth_caps b"
    using validate_right_key [OF Some assms(4)] by auto
  ultimately show ?thesis
    using Some by (simp add: check_auth_def auth_enabled_def or_else_def)
qed

theorem keyless_request_accepted_witness:
  "let a = auth_init None (Some ''secret'') None in
     fst (check_auth (10, 10) (Some ''secret'') None a) = Inr default_caps
     \<and> fst (check_auth (10, 10) (Some ''secret'') (Some ''wrong'') a) = Inl (Auth ''invalid API key'')"
  using keyless_request_accepted [of "Some ''secret''" None "auth_init None (Some ''secret'') None"
      "auth_init None (Some ''secret'') None" "(10, 10)"]
  by (simp add: auth_init_def caps_from_env_def check_auth_def auth_enabled_def non_empty_def or_else_def
      validate_key_eq compare_key_def wrong_key_def)

end
