(* ===== verification/Whitelist.thy ===== *)
theory Whitelist
  imports Errors
begin

text \<open>
  \<open>src/client/whitelist.rs\<close>: the patterns a SKILL expression is checked against before it is sent,
  and \<open>check_blocking_skill\<close> of \<open>src/client/bridge.rs\<close>, the guard that follows it.

  The two anchored kinds of entry are regular expressions of the form \<open>(?i)\bneedle\<close>; the model
  searches the lower-cased text for the needle at a word boundary, which is what they mean on
  ASCII text.  A \<open>FunctionName\<close> is put into its pattern unescaped and is taken to be a plain
  identifier; the default list has none.
\<close>

section \<open>Entries\<close>

datatype whitelist_entry =
    Substring string
  | SubstringWithAllowlist string "string list"
  | FunctionName string
  | WordBoundary string

definition is_word_char :: "char \<Rightarrow> bool" where
  "is_word_char c \<longleftrightarrow>
     (let n = (of_char c :: nat) in
      48 \<le> n \<and> n \<le> 57 \<or> 65 \<le> n \<and> n \<le> 90 \<or> 97 \<le> n \<and> n \<le> 122 \<or> n = 95)"

fun is_word_opt :: "char option \<Rightarrow> bool" where
  "is_word_opt None = False"
| "is_word_opt (Some c) = is_word_char c"

definition at_boundary :: "char option \<Rightarrow> char option \<Rightarrow> bool" where
  "at_boundary before after \<longleftrightarrow> is_word_opt before \<noteq> is_word_opt after"

text \<open>Is the needle found at a word boundary, when \<open>before\<close> is the character before the text?\<close>

fun word_search :: "char option \<Rightarrow> string \<Rightarrow> string \<Rightarrow> bool" where
  "word_search before p [] \<longleftrightarrow> p = [] \<and> at_boundary before None"
| "word_search before p (c # s) \<longleftrightarrow>
     at_boundary before (Some c) \<and> take (length p) (c # s) = p \<or> word_search (Some c) p s"

fun first_safe_call :: "string list \<Rightarrow> string \<Rightarrow> string option" where
  "first_safe_call [] code_lc = None"
| "first_safe_call (safe # rest) code_lc =
     (case strip_prefix (to_lowercase safe @ ''('') code_lc of
        Some r \<Rightarrow> Some r
      | None \<Rightarrow> first_safe_call rest code_lc)"

fun wl_matches :: "whitelist_entry \<Rightarrow> string \<Rightarrow> bool" where
  "wl_matches (Substring needle) code = str_contains (to_lowercase code) (to_lowercase needle)"
| "wl_matches (SubstringWithAllowlist pattern allowlist) code =
     (let pattern_lc = to_lowercase pattern; code_lc = to_lowercase code in
      if \<not> str_contains code_lc pattern_lc then False
      else case first_safe_call allowlist code_lc of
        Some rest \<Rightarrow> str_contains rest pattern_lc
      | None \<Rightarrow> True)"
| "wl_matches (FunctionName name) code =
     word_search None (to_lowercase (name @ ''('')) (to_lowercase code)"
| "wl_matches (WordBoundary needle) code =
     word_search None (to_lowercase needle) (to_lowercase code)"

fun wl_pattern :: "whitelist_entry \<Rightarrow> string" where
  "wl_pattern (Substring s) = s"
| "wl_pattern (SubstringWithAllowlist p _) = p"
| "wl_pattern (FunctionName n) = n"
| "wl_pattern (WordBoundary s) = s"

definition default_dangerous :: "whitelist_entry list" where
  "default_dangerous =
     [Substring ''system('',
      SubstringWithAllowlist ''sh('' [''hiFlush''],
      Substring ''csh '',
      Substring ''exec('',
      Substring ''pipe('',
      Substring ''rm -rf'',
      Substring ''deleteFile('',
      Substring ''unlink('',
      Substring ''rmdir('',
      Substring ''curl '',
      Substring ''wget '',
      Substring ''| sh'',
      Substring ''|sh'',
      Substring ''; sh'',
      Substring '';sh'',
      WordBoundary ''dd '',
      Substring ''/dev/'',
      Substring ''/proc/'',
      Substring ''ipcBeginProcess'',
      Substring ''send('',
      Substring (''load('' @ [CHR 0x22]),
      Substring ''evalstring'',
      Substring ''evstring'']"

section \<open>The whitelist\<close>

record whitelist =
  entries :: "whitelist_entry list"
  sandbox :: bool

definition wl_strict :: whitelist where
  "wl_strict = \<lparr> entries = default_dangerous, sandbox = False \<rparr>"

definition wl_sandbox :: whitelist where
  "wl_sandbox = \<lparr> entries = default_dangerous, sandbox = True \<rparr>"

definition enable_sandbox :: "whitelist \<Rightarrow> whitelist" where
  "enable_sandbox w = w\<lparr>sandbox := True\<rparr>"

fun first_match :: "whitelist_entry list \<Rightarrow> string \<Rightarrow> string option" where
  "first_match [] code = None"
| "first_match (e # es) code =
     (if wl_matches e code
      then Some (''blocked: matches dangerous pattern '' @ [CHR 0x27] @ wl_pattern e @ [CHR 0x27])
      else first_match es code)"

definition wl_check :: "whitelist \<Rightarrow> string \<Rightarrow> string option" where
  "wl_check w code =
     (if sandbox w \<and> str_contains code ''evalstring''
      then Some ''evalstring is disabled in readonly/sandbox mode''
      else first_match (entries w) code)"

definition check_blocking_skill :: "string \<Rightarrow> string option" where
  "check_blocking_skill code =
     (let lower = to_lowercase code in
      if (str_contains lower ''(system'' \<or> str_contains lower ''(sh'')
         \<and> (str_contains lower ''find /'' \<or> str_contains lower (''find '' @ [CHR 0x22] @ ''/''))
      then Some (''Blocked: system()/sh() with recursive '' @ [CHR 0x27] @ ''find /'' @ [CHR 0x27]
             @ '' can hang the SKILL daemon. Use a specific directory instead (e.g., find /home/...).'')
      else None)"

section \<open>Facts\<close>

lemma to_lowercase_append [simp]: "to_lowercase (a @ b) = to_lowercase a @ to_lowercase b"
  by (simp add: to_lowercase_def)

lemma to_lowercase_Nil_iff [simp]: "to_lowercase s = [] \<longleftrightarrow> s = []"
  by (simp add: to_lowercase_def)

lemma of_char_lower: "(of_char (lower_char c) :: nat) =
    (if 65 \<le> (of_char c :: nat) \<and> (of_char c :: nat) \<le> 90 then of_char c + 32 else of_char c)"
  by (simp add: lower_char_def)

lemma is_word_lower [simp]: "is_word_char (lower_char c) = is_word_char c"
  by (auto simp: is_word_char_def of_char_lower Let_def)

lemma str_contains_append: "str_contains s p \<Longrightarrow> str_contains (a @ s @ b) p"
  by (metis append.assoc str_contains_iff)

lemma first_match_None_iff: "first_match es code = None \<longleftrightarrow> (\<forall>e \<in> set es. \<not> wl_matches e code)"
  by (induction es) auto

lemma word_search_iff:
  assumes "p \<noteq> []"
  shows "word_search before p s \<longleftrightarrow>
    (\<exists>u v. s = u @ p @ v \<and> at_boundary (if u = [] then before else Some (last u)) (Some (hd p)))"
proof (induction s arbitrary: before)
  case (Cons c s)
  have "take (length p) (c # s) = p \<longleftrightarrow> (\<exists>v. c # s = p @ v)"
    by (metis append_eq_conv_conj)
  moreover have "hd p = c" if "c # s = p @ v" for v
    using that assms by (cases p) auto
  ultimately have now: "at_boundary before (Some c) \<and> take (length p) (c # s) = p \<longleftrightarrow>
      (\<exists>v. c # s = p @ v) \<and> at_boundary before (Some (hd p))"
    by blast
  have later: "(\<exists>u v. s = u @ p @ v \<and> at_boundary (if u = [] then Some c else Some (last u)) (Some (hd p)))
      \<longleftrightarrow> (\<exists>u v. u \<noteq> [] \<and> c # s = u @ p @ v \<and> at_boundary (Some (last u)) (Some (hd p)))"
  proof (intro iffI)
    assume "\<exists>u v. s = u @ p @ v \<and> at_boundary (if u = [] then Some c else Some (last u)) (Some (hd p))"
    then obtain u v where "s = u @ p @ v" "at_boundary (if u = [] then Some c else Some (last u)) (Some (hd p))"
      by blast
    then show "\<exists>u v. u \<noteq> [] \<and> c # s = u @ p @ v \<and> at_boundary (Some (last u)) (Some (hd p))"
      by (intro exI [of _ "c # u"] exI [of _ v]) (simp split: if_splits)
  next
    assume "\<exists>u v. u \<noteq> [] \<and> c # s = u @ p @ v \<and> at_boundary (Some (last u)) (Some (hd p))"
    then obtain u v where uv: "u \<noteq> []" "c # s = u @ p @ v" "at_boundary (Some (last u)) (Some (hd p))" by blast
    then obtain u' where "u = c # u'" by (cases u) auto
    with uv show "\<exists>u v. s = u @ p @ v \<and> at_boundary (if u = [] then Some c else Some (last u)) (Some (hd p))"
      by (intro exI [of _ u'] exI [of _ v]) (simp split: if_splits)
  qed
  show ?case
    unfolding word_search.simps now Cons.IH later
  proof (intro iffI)
    assume "(\<exists>v. c # s = p @ v) \<and> at_boundary before (Some (hd p)) \<or>
      (\<exists>u v. u \<noteq> [] \<and> c # s = u @ p @ v \<and> at_boundary (Some (last u)) (Some (hd p)))"
    then consider v where "c # s = p @ v" "at_boundary before (Some (hd p))"
      | u v where "u \<noteq> []" "c # s = u @ p @ v" "at_boundary (Some (last u)) (Some (hd p))"
      by blast
    then show "\<exists>u v. c # s = u @ p @ v \<and> at_boundary (if u = [] then before else Some (last u)) (Some (hd p))"
    proof cases
      case 1
      then show ?thesis by (intro exI [of _ "[]"] exI [of _ v]) simp
    next
      case 2
      then show ?thesis by (intro exI [of _ u] exI [of _ v]) simp
    qed
  next
    assume "\<exists>u v. c # s = u @ p @ v \<and> at_boundary (if u = [] then before else Some (last u)) (Some (hd p))"
    then obtain u v where uv: "c # s = u @ p @ v"
        "at_boundary (if u = [] then before else Some (last u)) (Some (hd p))" by blast
    show "(\<exists>v. c # s = p @ v) \<and> at_boundary before (Some (hd p)) \<or>
      (\<exists>u v. u \<noteq> [] \<and> c # s = u @ p @ v \<and> at_boundary (Some (last u)) (Some (hd p)))"
    proof (cases "u = []")
      case True
      with uv have "c # s = p @ v" "at_boundary before (Some (hd p))" by simp_all
      then show ?thesis by blast
    next
      case False
      with uv have "at_boundary (Some (last u)) (Some (hd p))" by simp
      with False uv(1) show ?thesis by blast
    qed
  qed
qed (use assms in simp)

section \<open>Wrapping an expression\<close>

lemma word_search_wrap:
  assumes "word_search None p s" "p \<noteq> []" "a = [] \<or> \<not> is_word_char (last a)"
  shows "word_search None p (a @ s @ b)"
proof -
  obtain u v where s: "s = u @ p @ v" and bd: "at_boundary (if u = [] then None else Some (last u)) (Some (hd p))"
    using assms(1) by (auto simp: word_search_iff [OF assms(2)])
  have "at_boundary (if a @ u = [] then None else Some (last (a @ u))) (Some (hd p))"
    using bd assms(3) by (cases "u = []") (auto simp: at_boundary_def)
  with s show ?thesis
    unfolding word_search_iff [OF assms(2)]
    by (intro exI [of _ "a @ u"] exI [of _ "v @ b"]) simp
qed

text \<open>Where \<open>sh(\<close> can overlap the exempted call \<open>hiflush(\<close>: only at its fifth character.\<close>

lemma sh_in_hiflush:
  assumes "u @ ''sh('' @ v = ''hiflush('' @ rest" "\<not> str_contains rest ''sh(''"
  shows "u = ''hiflu''"
proof -
  consider "8 \<le> length u" | "length u < 8" by linarith
  then show ?thesis
  proof cases
    case 1
    have "drop 8 (u @ ''sh('' @ v) = rest" using assms(1) by simp
    with 1 have "rest = drop 8 u @ ''sh('' @ v" by simp
    with assms(2) show ?thesis by (auto simp: str_contains_iff)
  next
    case 2
    then have "length u \<in> set [0..<8]" by simp
    then have "length u = 0 \<or> length u = 1 \<or> length u = 2 \<or> length u = 3 \<or> length u = 4
        \<or> length u = 5 \<or> length u = 6 \<or> length u = 7" by (auto simp: upt_rec)
    with assms(1) show ?thesis
      by (auto simp: length_Suc_conv eval_nat_numeral)
  qed
qed

lemma hiflush_exemption_iff:
  "wl_matches (SubstringWithAllowlist ''sh('' [''hiFlush'']) code \<longleftrightarrow>
     str_contains (to_lowercase code) ''sh('' \<and>
     (\<forall>rest. to_lowercase code = ''hiflush('' @ rest \<longrightarrow> str_contains rest ''sh('')"
proof -
  have l: "to_lowercase ''sh('' = ''sh(''" "to_lowercase ''hiFlush'' @ ''('' = ''hiflush(''" by code_simp+
  show ?thesis
  proof (cases "strip_prefix ''hiflush('' (to_lowercase code)")
    case None
    then have "\<forall>rest. to_lowercase code \<noteq> ''hiflush('' @ rest"
      by (metis option.distinct(1) strip_prefix_Some_iff)
    then show ?thesis
      by (simp only: wl_matches.simps Let_def l first_safe_call.simps None option.case) simp
  next
    case (Some r)
    then have "to_lowercase code = ''hiflush('' @ rest \<longleftrightarrow> rest = r" for rest
      by (auto simp: strip_prefix_Some_iff)
    then show ?thesis
      by (simp only: wl_matches.simps Let_def l first_safe_call.simps Some option.case) simp
  qed
qed

lemma hiflush_wrap:
  assumes m: "wl_matches (SubstringWithAllowlist ''sh('' [''hiFlush'']) code"
    and a: "a = [] \<or> \<not> is_word_char (last a)"
  shows "wl_matches (SubstringWithAllowlist ''sh('' [''hiFlush'']) (a @ code @ b)"
  unfolding hiflush_exemption_iff
proof (intro conjI allI impI)
  let ?l = "to_lowercase code"
  have c: "str_contains ?l ''sh(''" and r: "\<And>rest. ?l = ''hiflush('' @ rest \<Longrightarrow> str_contains rest ''sh(''"
    using m unfolding hiflush_exemption_iff by blast+
  show "str_contains (to_lowercase (a @ code @ b)) ''sh(''"
    using str_contains_append [OF c] by simp
  fix rest
  assume eq: "to_lowercase (a @ code @ b) = ''hiflush('' @ rest"
  show "str_contains rest ''sh(''"
  proof (rule ccontr)
    assume none: "\<not> str_contains rest ''sh(''"
    obtain u v where l: "?l = u @ ''sh('' @ v" using c by (auto simp: str_contains_iff)
    with eq have "(to_lowercase a @ u) @ ''sh('' @ (v @ to_lowercase b) = ''hiflush('' @ rest" by simp
    from sh_in_hiflush [OF this none] have u: "to_lowercase a @ u = ''hiflu''" .
    show False
    proof (cases "a = []")
      case True
      then have "u = ''hiflu''" using u by (simp add: to_lowercase_def)
      with l have "?l = ''hiflush('' @ v" by simp
      from r [OF this] have "str_contains (v @ to_lowercase b) ''sh(''"
        using str_contains_append [of v "''sh(''" "[]"] by simp
      moreover have "rest = v @ to_lowercase b"
        using eq True \<open>?l = ''hiflush('' @ v\<close> by (simp add: to_lowercase_def)
      ultimately show False using none by simp
    next
      case False
      then have "last (to_lowercase a) = lower_char (last a)" by (simp add: to_lowercase_def last_map)
      moreover have "last (to_lowercase a) \<in> set ''hiflu''"
        using u False by (metis last_in_set to_lowercase_Nil_iff Un_iff set_append)
      then have "is_word_char (last (to_lowercase a))" by (auto simp: is_word_char_def)
      ultimately show False using a False by simp
    qed
  qed
qed

lemma default_wrap:
  assumes "e \<in> set default_dangerous" "wl_matches e code" "a = [] \<or> \<not> is_word_char (last a)"
  shows "wl_matches e (a @ code @ b)"
proof (cases e)
  case (Substring s)
  with assms(2) show ?thesis using str_contains_append by simp
next
  case (WordBoundary s)
  then have "s = ''dd ''" using assms(1) by (auto simp: default_dangerous_def)
  moreover have "to_lowercase a = [] \<or> \<not> is_word_char (last (to_lowercase a))"
    using assms(3) by (auto simp: to_lowercase_def last_map)
  ultimately show ?thesis
    using assms(2) word_search_wrap by (simp add: WordBoundary)
next
  case (SubstringWithAllowlist p al)
  then have "e = SubstringWithAllowlist ''sh('' [''hiFlush'']"
    using assms(1) by (auto simp: default_dangerous_def)
  with hiflush_wrap assms show ?thesis by simp
next
  case (FunctionName n)
  with assms(1) show ?thesis by (auto simp: default_dangerous_def)
qed

text \<open>
  C11: Nesting does not get an expression past the whitelist: if an expression is blocked, so is
  every text that contains it, as long as what stands directly before it is not a letter, a digit
  or an underscore.  So a call of a blocked function stays blocked as the argument of any other
  call, the exempted \<open>hiFlush\<close> included.
\<close>

theorem nesting_stays_blocked:
  assumes "wl_check wl_strict code \<noteq> None" "a = [] \<or> \<not> is_word_char (last a)"
  shows "wl_check wl_strict (a @ code @ b) \<noteq> None"
proof -
  obtain e where "e \<in> set default_dangerous" "wl_matches e code"
    using assms(1) by (auto simp: wl_check_def wl_strict_def first_match_None_iff)
  with default_wrap [OF this assms(2)] show ?thesis
    by (auto simp: wl_check_def wl_strict_def first_match_None_iff)
qed

theorem nesting_stays_blocked_witness:
  "wl_check wl_strict ''hiFlush()'' = None \<and> wl_check wl_strict (''hiFlush('' @ ''sh(x)'' @ '')'') \<noteq> None"
proof -
  have "wl_check wl_strict ''sh(x)'' \<noteq> None" by code_simp
  from nesting_stays_blocked [OF this, of "''hiFlush(''" "'')''"]
  have "wl_check wl_strict (''hiFlush('' @ ''sh(x)'' @ '')'') \<noteq> None" by (simp add: is_word_char_def)
  moreover have "wl_check wl_strict ''hiFlush()'' = None" by code_simp
  ultimately show ?thesis by simp
qed

text \<open>
  The sandbox blocks no expression that normal use does not: the two configurations, and the
  one obtained by enabling the sandbox later, accept the same expressions.
\<close>

theorem sandbox_blocks_the_same:
  "wl_check wl_sandbox code = None \<longleftrightarrow> wl_check wl_strict code = None"
  "wl_check (enable_sandbox wl_strict) code = None \<longleftrightarrow> wl_check wl_strict code = None"
proof -
  have "first_match default_dangerous code \<noteq> None" if "str_contains code ''evalstring''"
  proof -
    have "to_lowercase ''evalstring'' = ''evalstring''" by code_simp
    moreover obtain u v where "code = u @ ''evalstring'' @ v" using \<open>str_contains code _\<close>
      by (auto simp: str_contains_iff)
    then have "to_lowercase code = to_lowercase u @ to_lowercase ''evalstring'' @ to_lowercase v"
      by (simp only: to_lowercase_append)
    ultimately have "wl_matches (Substring ''evalstring'') code"
      using str_contains_iff by (metis wl_matches.simps(1))
    then show ?thesis by (auto simp: first_match_None_iff default_dangerous_def)
  qed
  then show "wl_check wl_sandbox code = None \<longleftrightarrow> wl_check wl_strict code = None"
    by (auto simp: wl_check_def wl_sandbox_def wl_strict_def)
  then show "wl_check (enable_sandbox wl_strict) code = None \<longleftrightarrow> wl_check wl_strict code = None"
    by (simp add: enable_sandbox_def wl_sandbox_def wl_strict_def)
qed

text \<open>
  The list names calls in the form \<open>system(\<close> only.  SKILL also accepts the list form, which
  \<open>check_blocking_skill\<close> expects, and in it the same command passes both guards.
\<close>

lemma list_form_not_blocked:
  "wl_check wl_strict (''(system '' @ [CHR 0x22] @ ''id'' @ [CHR 0x22] @ '')'') = None
     \<and> check_blocking_skill (''(system '' @ [CHR 0x22] @ ''id'' @ [CHR 0x22] @ '')'') = None
     \<and> wl_check wl_strict (''system('' @ [CHR 0x22] @ ''id'' @ [CHR 0x22] @ '')'') \<noteq> None"
  by code_simp

end
