(* ===== verification/Skill_Text.thy ===== *)
theory Skill_Text
  imports Errors
begin

text \<open>
  SKILL text: \<open>src/client/skill_sexp.rs\<close> (the reader of S-expressions), the quoting functions of
  \<open>src/client/skill_runtime.rs\<close>, and \<open>decode_skill_string\<close> of \<open>src/client/bridge.rs\<close>.

  The reader works on bytes, as the code's does: what is left of the input stands for the
  position in it.  Its two mutually recursive methods take fuel; \<open>parse_sexp\<close> gives them twice
  the length of the text, which is always enough (\<open>parse_value_total\<close>).
\<close>

section \<open>Values\<close>

datatype sexp = Nil_val | BoolV bool | Str string | Atom string | SList "sexp list"

fun sexp_as_str :: "sexp \<Rightarrow> string option" where
  "sexp_as_str (Str s) = Some s"
| "sexp_as_str (Atom s) = Some s"
| "sexp_as_str _ = None"

fun sexp_val_to_opt_str :: "sexp \<Rightarrow> string option" where
  "sexp_val_to_opt_str Nil_val = None"
| "sexp_val_to_opt_str (Str s) = Some s"
| "sexp_val_to_opt_str (BoolV True) = Some ''t''"
| "sexp_val_to_opt_str (BoolV False) = Some ''nil''"
| "sexp_val_to_opt_str (Atom s) = Some s"
| "sexp_val_to_opt_str (SList _) = None"

fun sexp_to_str_list :: "sexp \<Rightarrow> string option list option" where
  "sexp_to_str_list (SList items) = Some (map sexp_val_to_opt_str items)"
| "sexp_to_str_list _ = None"

section \<open>The reader\<close>

abbreviation quote_char :: char where "quote_char \<equiv> CHR 0x22"
abbreviation backslash :: char where "backslash \<equiv> CHR 0x5C"
abbreviation newline :: char where "newline \<equiv> CHR 0x0A"
abbreviation tab :: char where "tab \<equiv> CHR 0x09"

text \<open>\<open>u8::is_ascii_whitespace\<close>: unlike \<open>trim\<close> it leaves out the vertical tab.\<close>

definition is_ascii_ws :: "char \<Rightarrow> bool" where
  "is_ascii_ws c \<longleftrightarrow> c = CHR '' '' \<or> c = tab \<or> c = newline \<or> c = CHR 0x0C \<or> c = CHR 0x0D"

definition skip_ws :: "string \<Rightarrow> string" where
  "skip_ws s = dropWhile is_ascii_ws s"

text \<open>\<open>String::push(c as char)\<close> on a byte: the character of that code, in UTF-8.\<close>

definition push_byte :: "char \<Rightarrow> string" where
  "push_byte c =
     (let n = (of_char c :: nat) in
      if n < 128 then [c] else [char_of (192 + n div 64), char_of (128 + n mod 64)])"

fun parse_string :: "string \<Rightarrow> string \<Rightarrow> virtuoso_error + sexp \<times> string" where
  "parse_string result [] = Inl (Execution ''unterminated string'')"
| "parse_string result (c # s) =
     (if c = quote_char then Inr (Str result, s)
      else if c = backslash then
        (case s of
           [] \<Rightarrow> Inl (Execution ''unterminated escape'')
         | d # s' \<Rightarrow>
             if d = quote_char then parse_string (result @ [quote_char]) s'
             else if d = backslash then parse_string (result @ [backslash]) s'
             else if d = CHR ''n'' then parse_string (result @ [newline]) s'
             else if d = CHR ''t'' then parse_string (result @ [tab]) s'
             else parse_string (result @ backslash # push_byte d) s')
      else parse_string (result @ push_byte c) s)"

definition atom_end :: "char \<Rightarrow> bool" where
  "atom_end b \<longleftrightarrow> is_ascii_ws b \<or> b = CHR '')'' \<or> b = CHR ''('' \<or> b = quote_char"

definition atom_value :: "string \<Rightarrow> sexp" where
  "atom_value a = (if a = ''nil'' then Nil_val else if a = ''t'' then BoolV True else Atom a)"

definition parse_atom :: "string \<Rightarrow> sexp \<times> string" where
  "parse_atom s = (atom_value (takeWhile (\<lambda>b. \<not> atom_end b) s), dropWhile (\<lambda>b. \<not> atom_end b) s)"

fun parse_value :: "nat \<Rightarrow> string \<Rightarrow> (virtuoso_error + sexp \<times> string) option"
and parse_list :: "nat \<Rightarrow> sexp list \<Rightarrow> string \<Rightarrow> (virtuoso_error + sexp \<times> string) option" where
  "parse_value 0 s = None"
| "parse_value (Suc k) s =
     (case skip_ws s of
        [] \<Rightarrow> Some (Inl (Execution ''unexpected end of sexp input''))
      | c # r \<Rightarrow>
          if c = CHR ''('' then parse_list k [] r
          else if c = quote_char then Some (parse_string [] r)
          else Some (Inr (parse_atom (c # r))))"
| "parse_list 0 items s = None"
| "parse_list (Suc k) items s =
     (case skip_ws s of
        [] \<Rightarrow> Some (Inl (Execution ''unterminated list''))
      | c # r \<Rightarrow>
          if c = CHR '')'' then Some (Inr (SList items, r))
          else
            (case parse_value k (c # r) of
               None \<Rightarrow> None
             | Some (Inl e) \<Rightarrow> Some (Inl e)
             | Some (Inr (v, r')) \<Rightarrow> parse_list k (items @ [v]) r'))"

definition parse_fuel :: "string \<Rightarrow> nat" where
  "parse_fuel s = 2 * length s + 1"

text \<open>The text after the value is ignored.\<close>

definition parse_sexp :: "string \<Rightarrow> virtuoso_error + sexp" where
  "parse_sexp input =
     (case parse_value (parse_fuel (trim input)) (trim input) of
        Some (Inr (v, _)) \<Rightarrow> Inr v
      | Some (Inl e) \<Rightarrow> Inl e
      | None \<Rightarrow> Inl (Execution []))"

section \<open>Quoting\<close>

text \<open>
  \<open>escape_string\<close> on the bytes of the text.  The control characters are those below 32, 127, and
  U+0080 to U+009F, whose two bytes are 194 and a byte from 128 to 159.
\<close>

definition is_control :: "char \<Rightarrow> bool" where
  "is_control c \<longleftrightarrow> (of_char c :: nat) < 32 \<or> (of_char c :: nat) = 127"

definition starts_c1_control :: "string \<Rightarrow> bool" where
  "starts_c1_control s \<longleftrightarrow>
     (case s of c # d # _ \<Rightarrow> (of_char c :: nat) = 194 \<and> (of_char d :: nat) \<in> {128..<160} | _ \<Rightarrow> False)"

definition escape_char :: "char \<Rightarrow> string" where
  "escape_char c =
     (if c = backslash then [backslash, backslash]
      else if c = quote_char then [backslash, quote_char]
      else if c = newline then [backslash, CHR ''n'']
      else if c = CHR 0x0D then [backslash, CHR ''r'']
      else if c = tab then [backslash, CHR ''t'']
      else if c = CHR 0x00 then backslash # ''000''
      else if is_control c then [backslash, c]
      else [c])"

fun escape_string :: "string \<Rightarrow> string" where
  "escape_string [] = []"
| "escape_string (c # s) =
     (if starts_c1_control (c # s) then backslash # c # escape_string s
      else escape_char c @ escape_string s)"

definition string_literal :: "string \<Rightarrow> string" where
  "string_literal s = quote_char # escape_string s @ [quote_char]"

definition is_alpha :: "char \<Rightarrow> bool" where
  "is_alpha c \<longleftrightarrow>
     (let n = (of_char c :: nat) in 65 \<le> n \<and> n \<le> 90 \<or> 97 \<le> n \<and> n \<le> 122)"

definition require_identifier :: "string \<Rightarrow> string \<Rightarrow> virtuoso_error + string" where
  "require_identifier val kind =
     (let valid_start = (case val of [] \<Rightarrow> False | c # _ \<Rightarrow> is_alpha c \<or> c = CHR ''_'');
          valid_rest = list_all (\<lambda>c. is_alpha c \<or> is_digit c \<or> c = CHR ''_'') (tl val) in
      if valid_start \<and> valid_rest then Inr val
      else Inl (Config (''invalid '' @ kind @ '' identifier: '' @ [CHR 0x27] @ val @ [CHR 0x27])))"

text \<open>\<open>str::replace\<close>: leftmost matches that do not overlap, for a pattern of two bytes.\<close>

fun replace2 :: "char \<Rightarrow> char \<Rightarrow> char \<Rightarrow> string \<Rightarrow> string" where
  "replace2 a b r (c # d # s) =
     (if c = a \<and> d = b then r # replace2 a b r s else c # replace2 a b r (d # s))"
| "replace2 a b r s = s"

definition decode_skill_string :: "string \<Rightarrow> string" where
  "decode_skill_string text =
     (let trimmed = trim text in
      if starts_with trimmed [quote_char] \<and> ends_with trimmed [quote_char] \<and> 2 \<le> length trimmed
      then replace2 backslash backslash backslash
             (replace2 backslash quote_char quote_char
               (replace2 backslash (CHR ''n'') newline (butlast (tl trimmed))))
      else trimmed)"

section \<open>The reader always returns\<close>

lemma length_skip_ws: "length (skip_ws s) \<le> length s"
  by (simp add: skip_ws_def length_dropWhile_le)

lemma parse_string_shorter: "parse_string acc s = Inr (v, r) \<Longrightarrow> length r < length s"
  by (induction acc s rule: parse_string.induct) (auto split: if_splits list.splits)

lemma parse_atom_shorter: "\<not> atom_end c \<Longrightarrow> length (snd (parse_atom (c # s))) < length (c # s)"
  by (simp add: parse_atom_def length_dropWhile_le le_imp_less_Suc)

lemma parse_atom_le: "length (snd (parse_atom s)) \<le> length s"
  by (simp add: parse_atom_def length_dropWhile_le)

lemma skip_ws_head: "skip_ws s = c # r \<Longrightarrow> \<not> is_ascii_ws c"
  by (simp add: skip_ws_def dropWhile_eq_Cons_conv)

lemma parse_step_bounds:
  "2 * length s + 1 \<le> k \<Longrightarrow> \<exists>x. parse_value k s = Some x \<and>
     (\<forall>v r. x = Inr (v, r) \<longrightarrow> length r \<le> length s \<and>
        (\<forall>c t. skip_ws s = c # t \<longrightarrow> c \<noteq> CHR '')'' \<longrightarrow> length r < length s))"
  "2 * length s + 2 \<le> k \<Longrightarrow> \<exists>x. parse_list k items s = Some x \<and>
     (\<forall>v r. x = Inr (v, r) \<longrightarrow> length r < length s)"
proof (induction k s and k items s rule: parse_value_parse_list.induct)
  case (2 k s)
  show ?case
  proof (cases "skip_ws s")
    case Nil
    then show ?thesis by simp
  next
    case (Cons c r)
    have len: "Suc (length r) \<le> length s" using length_skip_ws [of s] by (simp add: Cons)
    consider "c = CHR ''(''" | "c = quote_char" | "c \<noteq> CHR ''(''" "c \<noteq> quote_char" by blast
    then show ?thesis
    proof cases
      case 1
      with Cons "2.IH" [of c r] "2.prems" len show ?thesis by fastforce
    next
      case 2
      with Cons len show ?thesis
        using parse_string_shorter [of "[]" r] by fastforce
    next
      case 3
      have "length (snd (parse_atom (c # r))) \<le> length (c # r)" by (rule parse_atom_le)
      moreover have "c \<noteq> CHR '')'' \<Longrightarrow> length (snd (parse_atom (c # r))) < length (c # r)"
        using 3 skip_ws_head [OF Cons] by (intro parse_atom_shorter) (simp add: atom_end_def)
      ultimately show ?thesis
        using 3 Cons len by (auto dest!: arg_cong [of _ _ snd])
    qed
  qed
next
  case (4 k items s)
  show ?case
  proof (cases "skip_ws s")
    case Nil
    then show ?thesis by simp
  next
    case (Cons c r)
    have len: "Suc (length r) \<le> length s" using length_skip_ws [of s] by (simp add: Cons)
    show ?thesis
    proof (cases "c = CHR '')''")
      case True
      with Cons len show ?thesis by simp
    next
      case False
      have ws: "skip_ws (c # r) = c # r" using skip_ws_head [OF Cons] by (simp add: skip_ws_def)
      from "4.IH"(1) [OF Cons False] "4.prems" len
      obtain x where x: "parse_value k (c # r) = Some x"
          "\<And>v r'. x = Inr (v, r') \<Longrightarrow> length r' < length (c # r)"
        using ws False by fastforce
      show ?thesis
      proof (cases x)
        case (Inl e)
        with Cons False x show ?thesis by simp
      next
        case (Inr p)
        then obtain v r' where p: "x = Inr (v, r')" by (cases p) auto
        with x have "length r' < Suc (length r)" by simp
        with "4.IH"(2) [OF Cons False x(1) p refl] "4.prems" len Cons False x p show ?thesis by fastforce
      qed
    qed
  qed
qed simp_all

text \<open>
  The reader of SKILL values returns on every input: its recursion uses fuel no faster than
  twice the input's length, so with the fuel \<open>parse_sexp\<close> gives it, it never stops for lack of
  it, and it never reads past the end.
\<close>

theorem parse_value_total:
  "\<exists>x. parse_value (parse_fuel s) s = Some x \<and> (\<forall>v r. x = Inr (v, r) \<longrightarrow> length r \<le> length s)"
  using parse_step_bounds(1) [of s "parse_fuel s"] by (auto simp: parse_fuel_def)

lemma parse_more_fuel:
  "parse_value k s = Some x \<Longrightarrow> parse_value (Suc k) s = Some x"
  "parse_list k items s = Some x \<Longrightarrow> parse_list (Suc k) items s = Some x"
proof (induction k s and k items s arbitrary: x and x rule: parse_value_parse_list.induct)
  case (2 k s)
  show ?case
  proof (cases "skip_ws s")
    case (Cons c r)
    show ?thesis
    proof (cases "c = CHR ''(''")
      case True
      with "2.prems" Cons have "parse_list k [] r = Some x" by simp
      with "2.IH" [OF Cons True] have "parse_list (Suc k) [] r = Some x" by blast
      with Cons True show ?thesis by (simp only: parse_value.simps list.case if_True simp_thms)
    next
      case False
      with "2.prems" Cons show ?thesis by simp
    qed
  qed (use "2.prems" in simp)
next
  case (4 k items s)
  show ?case
  proof (cases "skip_ws s")
    case (Cons c r)
    show ?thesis
    proof (cases "c = CHR '')''")
      case False
      with "4.prems" Cons obtain y where y: "parse_value k (c # r) = Some y"
        by (cases "parse_value k (c # r)") auto
      then have y': "parse_value (Suc k) (c # r) = Some y"
        using "4.IH"(1) [OF Cons False] by blast
      show ?thesis
      proof (cases y)
        case (Inl e)
        with "4.prems" Cons False y have "x = Inl e" by simp
        with Cons False y' Inl show ?thesis
          by (simp only: parse_list.simps list.case if_False option.case sum.case)
      next
        case (Inr p)
        obtain v r' where p: "p = (v, r')" by (cases p)
        with "4.prems" Cons False y Inr have "parse_list k (items @ [v]) r' = Some x" by simp
        with "4.IH"(2) [OF Cons False y Inr p [symmetric]] have "parse_list (Suc k) (items @ [v]) r' = Some x" by blast
        with Cons False y' Inr p show ?thesis
          by (simp only: parse_list.simps list.case if_False option.case sum.case prod.case)
      qed
    qed (use "4.prems" Cons in simp)
  qed (use "4.prems" in simp)
qed simp_all

lemma parse_value_fuel_mono: "k \<le> k' \<Longrightarrow> parse_value k s = Some x \<Longrightarrow> parse_value k' s = Some x"
  by (induction rule: dec_induct) (blast intro: parse_more_fuel)+

lemma parse_list_fuel_mono: "k \<le> k' \<Longrightarrow> parse_list k items s = Some x \<Longrightarrow> parse_list k' items s = Some x"
  by (induction rule: dec_induct) (blast intro: parse_more_fuel)+

lemma parse_sexp_eq:
  assumes "parse_value k (trim s) = Some (Inr (v, r))"
  shows "parse_sexp s = Inr v"
proof -
  obtain x where x: "parse_value (parse_fuel (trim s)) (trim s) = Some x"
    using parse_value_total by blast
  have "x = Inr (v, r)"
    using parse_value_fuel_mono [OF max.cobounded2 x, of k]
      parse_value_fuel_mono [OF max.cobounded1 assms, of "parse_fuel (trim s)"] by simp
  with x show ?thesis by (simp add: parse_sexp_def)
qed

section \<open>Quoted text\<close>

text \<open>
  What the reader makes of a quoted text: the text itself, except for the bytes the reader has no
  escape for, which keep their backslash.
\<close>

lemma parse_backslash:
  "c \<noteq> quote_char \<Longrightarrow> c \<noteq> backslash \<Longrightarrow> c \<noteq> CHR ''n'' \<Longrightarrow> c \<noteq> CHR ''t'' \<Longrightarrow>
     parse_string acc (backslash # c # s) = parse_string (acc @ backslash # push_byte c) s"
  by simp

lemma control_not_letter: "is_control c \<Longrightarrow> c \<noteq> CHR ''n'' \<and> c \<noteq> CHR ''t''"
  by (auto simp: is_control_def)

definition plain_char :: "char \<Rightarrow> bool" where
  "plain_char c \<longleftrightarrow>
     (of_char c :: nat) < 128 \<and> (\<not> is_control c \<or> c = newline \<or> c = tab)"

lemma length_push_byte: "length (push_byte c) = (if (of_char c :: nat) < 128 then 1 else 2)"
  by (simp add: push_byte_def Let_def)

text \<open>What one character of the text contributes: one character when it is plain, more otherwise.\<close>

lemma parse_escape_char:
  "\<exists>t. parse_string acc (escape_char c @ s) = parse_string (acc @ t) s
       \<and> 1 \<le> length t \<and> (length t = 1 \<longrightarrow> plain_char c)"
proof -
  consider "c = backslash" | "c = quote_char" | "c = newline" | "c = CHR 0x0D" | "c = tab" | "c = CHR 0x00"
    | "c \<noteq> backslash" "c \<noteq> quote_char" "c \<noteq> newline" "c \<noteq> CHR 0x0D" "c \<noteq> tab" "c \<noteq> CHR 0x00"
    by blast
  then show ?thesis
  proof cases
    case 7
    let ?t = "if is_control c then backslash # push_byte c else push_byte c"
    from 7 control_not_letter [of c] have "parse_string acc (escape_char c @ s) = parse_string (acc @ ?t) s"
      by (simp add: escape_char_def)
    moreover have "1 \<le> length ?t \<and> (length ?t = 1 \<longrightarrow> plain_char c)"
      by (auto simp: length_push_byte plain_char_def)
    ultimately show ?thesis by blast
  next
    case 4
    then have "parse_string acc (escape_char c @ s) = parse_string (acc @ [backslash, CHR ''r'']) s"
      by (simp add: escape_char_def push_byte_def)
    then show ?thesis by (intro exI [of _ "[backslash, CHR ''r'']"]) simp
  next
    case 6
    then have "parse_string acc (escape_char c @ s) = parse_string (acc @ backslash # ''000'') s"
      by (simp add: escape_char_def push_byte_def)
    then show ?thesis by (intro exI [of _ "backslash # ''000''"]) simp
  qed (auto simp: escape_char_def plain_char_def is_control_def intro!: exI [of _ "[c]"])
qed

lemma c1_first: "starts_c1_control (c # s) \<Longrightarrow> (of_char c :: nat) = 194"
  by (simp add: starts_c1_control_def split: list.splits)

lemma parse_escaped_length:
  "\<exists>t. parse_string acc (escape_string s @ quote_char # rest) = Inr (Str (acc @ t), rest)
       \<and> length s \<le> length t \<and> (length t = length s \<longrightarrow> list_all plain_char s)"
proof (induction s arbitrary: acc)
  case (Cons c s)
  have "\<exists>p. parse_string acc (escape_string (c # s) @ quote_char # rest)
      = parse_string (acc @ p) (escape_string s @ quote_char # rest)
      \<and> 1 \<le> length p \<and> (length p = 1 \<longrightarrow> plain_char c)"
  proof (cases "starts_c1_control (c # s)")
    case True
    then have c: "c \<noteq> quote_char" "c \<noteq> backslash" "c \<noteq> CHR ''n''" "c \<noteq> CHR ''t''"
      using c1_first [OF True] by auto
    have "parse_string acc (escape_string (c # s) @ quote_char # rest)
        = parse_string acc (backslash # c # escape_string s @ quote_char # rest)"
      using True by simp
    also have "\<dots> = parse_string (acc @ backslash # push_byte c) (escape_string s @ quote_char # rest)"
      using c by (rule parse_backslash)
    finally show ?thesis by (intro exI [of _ "backslash # push_byte c"]) (simp add: length_push_byte)
  next
    case False
    then have "escape_string (c # s) @ quote_char # rest = escape_char c @ (escape_string s @ quote_char # rest)"
      by simp
    then show ?thesis using parse_escape_char [of acc c "escape_string s @ quote_char # rest"] by (simp only:)
  qed
  then obtain p where p: "parse_string acc (escape_string (c # s) @ quote_char # rest)
      = parse_string (acc @ p) (escape_string s @ quote_char # rest)"
    "1 \<le> length p" "length p = 1 \<longrightarrow> plain_char c" by blast
  from Cons.IH [of "acc @ p"] obtain t where t:
    "parse_string (acc @ p) (escape_string s @ quote_char # rest) = Inr (Str ((acc @ p) @ t), rest)"
    "length s \<le> length t" "length t = length s \<longrightarrow> list_all plain_char s" by blast
  show ?case
    by (rule exI [of _ "p @ t"]) (use p t in \<open>auto simp del: escape_string.simps\<close>)
qed simp

lemma parse_escaped:
  "\<exists>t. parse_string acc (escape_string s @ quote_char # rest) = Inr (Str t, rest)"
  using parse_escaped_length by blast

lemma parse_plain_char:
  assumes "plain_char c"
  shows "parse_string acc (escape_char c @ s) = parse_string (acc @ [c]) s"
proof -
  consider "c = backslash" | "c = quote_char" | "c = newline" | "c = tab"
    | "c \<noteq> backslash" "c \<noteq> quote_char" "c \<noteq> newline" "c \<noteq> tab" "\<not> is_control c"
    using assms by (auto simp: plain_char_def)
  then show ?thesis
  proof cases
    case 5
    then have "c \<noteq> CHR 0x0D" "c \<noteq> CHR 0x00" by (auto simp: is_control_def)
    with 5 assms show ?thesis by (simp add: escape_char_def push_byte_def plain_char_def)
  qed (simp_all add: escape_char_def)
qed

lemma parse_escaped_plain:
  "list_all plain_char s \<Longrightarrow> parse_string acc (escape_string s @ quote_char # rest) = Inr (Str (acc @ s), rest)"
proof (induction s arbitrary: acc)
  case (Cons c s)
  then have "plain_char c" by simp
  moreover from this have "\<not> starts_c1_control (c # s)"
    by (auto simp: plain_char_def dest: c1_first)
  ultimately show ?case
    using Cons by (simp add: parse_plain_char)
qed simp

text \<open>
  A quoted value cannot end its own literal: whatever bytes it holds, what follows the literal
  \<open>string_literal\<close> makes of it is read from right after the closing quote, and of printable ASCII
  text, newlines and tabs the reader gives back exactly the value.
\<close>

theorem literal_is_one_token:
  "\<exists>t. parse_value (Suc k) (string_literal s @ rest) = Some (Inr (Str t, rest))
       \<and> (list_all plain_char s \<longrightarrow> t = s)"
proof -
  obtain t where "parse_string [] (escape_string s @ quote_char # rest) = Inr (Str t, rest)"
    using parse_escaped by blast
  moreover have "list_all plain_char s \<Longrightarrow> t = s"
    using parse_escaped_plain [of s "[]" rest] calculation by simp
  ultimately show ?thesis
    by (simp add: string_literal_def skip_ws_def is_ascii_ws_def)
qed

theorem literal_is_one_token_witness:
  "\<exists>t. parse_value 1 (string_literal ''ab'' @ '' c'') = Some (Inr (Str t, '' c'')) \<and> t = ''ab''"
proof -
  have "list_all plain_char ''ab''" by code_simp
  with literal_is_one_token [of 0 "''ab''" "'' c''"] show ?thesis
    by (metis One_nat_def)
qed

text \<open>The value read does not depend on what follows the literal.\<close>

lemma parse_string_rest:
  "parse_string acc s = Inr (v, r) \<Longrightarrow> parse_string acc (s @ rest) = Inr (v, r @ rest)"
  by (induction acc s rule: parse_string.induct) (auto split: if_splits list.splits)

lemma literal_token:
  "\<exists>t. (\<forall>k rest. parse_value (Suc k) (string_literal s @ rest) = Some (Inr (Str t, rest)))
       \<and> (length t = length s \<longrightarrow> list_all plain_char s)"
proof -
  obtain t where t: "parse_string [] (escape_string s @ [quote_char]) = Inr (Str t, [])"
      "length t = length s \<longrightarrow> list_all plain_char s"
    using parse_escaped_length [of "[]" s "[]"] by auto
  have "parse_value (Suc k) (string_literal s @ rest) = Some (Inr (Str t, rest))" for k rest
    using parse_string_rest [OF t(1), of rest]
    by (simp add: string_literal_def skip_ws_def is_ascii_ws_def)
  with t(2) show ?thesis by blast
qed

section \<open>Reading printed values\<close>

text \<open>
  The texts on which the reader is run in the lemmas about callers: lists in parentheses with a
  blank between elements, quoted strings, and symbols as they are.  This is a way to write input,
  not a function of the program.
\<close>

fun print_sexp :: "sexp \<Rightarrow> string" where
  "print_sexp Nil_val = ''nil''"
| "print_sexp (BoolV b) = ''t''"
| "print_sexp (Str s) = string_literal s"
| "print_sexp (Atom a) = a"
| "print_sexp (SList xs) = CHR ''('' # join '' '' (map print_sexp xs) @ '')''"

fun printable :: "sexp \<Rightarrow> bool" where
  "printable Nil_val = True"
| "printable (BoolV b) = b"
| "printable (Str s) = list_all plain_char s"
| "printable (Atom a) =
     (a \<noteq> [] \<and> a \<noteq> ''nil'' \<and> a \<noteq> ''t'' \<and> list_all (\<lambda>c. \<not> atom_end c \<and> \<not> is_space c) a)"
| "printable (SList xs) = list_all printable xs"

definition ends_here :: "string \<Rightarrow> bool" where
  "ends_here rest \<longleftrightarrow> (case rest of [] \<Rightarrow> True | c # _ \<Rightarrow> atom_end c)"

lemma parse_word:
  assumes "list_all (\<lambda>c. \<not> atom_end c) a" "a \<noteq> []" "ends_here rest"
  shows "parse_value (Suc k) (a @ rest) = Some (Inr (atom_value a, rest))"
proof -
  obtain c s where a: "a = c # s" using assms(2) by (cases a) auto
  then have "\<not> atom_end c" using assms(1) by simp
  then have "skip_ws (a @ rest) = c # (s @ rest)" "c \<noteq> CHR ''(''" "c \<noteq> quote_char"
    by (auto simp: a skip_ws_def atom_end_def)
  moreover have "takeWhile (\<lambda>b. \<not> atom_end b) (a @ rest) = a" "dropWhile (\<lambda>b. \<not> atom_end b) (a @ rest) = rest"
    using assms(1,3) by (auto simp: ends_here_def list_all_iff takeWhile_append dropWhile_append
        takeWhile_eq_Nil_iff split: list.splits)
  ultimately show ?thesis by (simp add: parse_atom_def a)
qed

lemma print_head:
  assumes "printable v"
  obtains c s where "print_sexp v = c # s" "\<not> is_ascii_ws c" "c \<noteq> CHR '')''"
proof (cases v)
  case (Atom a)
  with assms obtain c s where "a = c # s" "\<not> atom_end c" by (cases a) auto
  with that Atom show ?thesis by (auto simp: atom_end_def)
qed (use that in \<open>auto simp: string_literal_def is_ascii_ws_def\<close>)

lemma skip_ws_print: "printable v \<Longrightarrow> skip_ws (print_sexp v @ rest) = print_sexp v @ rest"
  by (erule print_head [of v]) (simp add: skip_ws_def)

lemma parse_value_skip: "skip_ws s = skip_ws s' \<Longrightarrow> parse_value k s = parse_value k s'"
  by (cases k) simp_all

lemma parse_list_skip: "skip_ws s = skip_ws s' \<Longrightarrow> parse_list k items s = parse_list k items s'"
  by (cases k) simp_all

lemma parse_list_blank: "parse_list k items (CHR '' '' # s) = parse_list k items s"
  by (rule parse_list_skip) (simp add: skip_ws_def is_ascii_ws_def)

lemma parse_list_item:
  assumes v: "printable v" "parse_value k (print_sexp v @ rest) = Some (Inr (v, rest))"
    and l: "parse_list k (items @ [v]) rest = Some x"
  shows "parse_list (Suc k) items (print_sexp v @ rest) = Some x"
proof -
  obtain c s where c: "print_sexp v = c # s" "\<not> is_ascii_ws c" "c \<noteq> CHR '')''"
    using print_head [OF v(1)] .
  then have "skip_ws (c # s @ rest) = c # s @ rest" by (simp add: skip_ws_def)
  with c v(2) l show ?thesis by simp
qed

text \<open>Elements up to the closing parenthesis, each followed by a text that ends a symbol.\<close>

lemma parse_printed_items:
  assumes "\<And>v rest. v \<in> set xs \<Longrightarrow> ends_here rest \<Longrightarrow>
      \<exists>k. parse_value k (print_sexp v @ rest) = Some (Inr (v, rest))"
    and "list_all printable xs"
  shows "\<exists>k. parse_list k items (join '' '' (map print_sexp xs) @ CHR '')'' # rest)
           = Some (Inr (SList (items @ xs), rest))"
  using assms
proof (induction xs arbitrary: items)
  case Nil
  have "parse_list (Suc 0) items (CHR '')'' # rest) = Some (Inr (SList items, rest))"
    by (simp add: skip_ws_def is_ascii_ws_def)
  then show ?case by (intro exI [of _ "Suc 0"]) simp
next
  case (Cons v xs)
  define tl_text where "tl_text = (if xs = [] then [] else '' '' @ join '' '' (map print_sexp xs)) @ CHR '')'' # rest"
  have whole: "join '' '' (map print_sexp (v # xs)) @ CHR '')'' # rest = print_sexp v @ tl_text"
    by (cases xs) (simp_all add: tl_text_def)
  have "ends_here tl_text" by (simp add: tl_text_def ends_here_def atom_end_def is_ascii_ws_def)
  with Cons.prems(1) [of v] obtain k1 where k1: "parse_value k1 (print_sexp v @ tl_text) = Some (Inr (v, tl_text))"
    by auto
  from Cons.IH [of "items @ [v]"] Cons.prems obtain k2 where
    "parse_list k2 (items @ [v]) (join '' '' (map print_sexp xs) @ CHR '')'' # rest)
       = Some (Inr (SList (items @ v # xs), rest))" by auto
  then have k2: "parse_list k2 (items @ [v]) tl_text = Some (Inr (SList (items @ v # xs), rest))"
    by (cases xs) (simp_all add: tl_text_def parse_list_blank del: parse_list.simps)
  have "parse_list (Suc (max k1 k2)) items (print_sexp v @ tl_text) = Some (Inr (SList (items @ v # xs), rest))"
    using Cons.prems(2) parse_value_fuel_mono [OF max.cobounded1 k1, of k2]
      parse_list_fuel_mono [OF max.cobounded2 k2, of k1]
    by (intro parse_list_item) simp_all
  then show ?case unfolding whole by (rule exI)
qed

lemma parse_printed:
  "printable v \<Longrightarrow> ends_here rest \<Longrightarrow> \<exists>k. parse_value k (print_sexp v @ rest) = Some (Inr (v, rest))"
proof (induction v arbitrary: rest)
  case Nil_val
  then show ?case
    using parse_word [of "''nil''" rest 0]
    by (auto simp: atom_end_def is_ascii_ws_def atom_value_def intro: exI [of _ "Suc 0"])
next
  case (BoolV b)
  then show ?case
    using parse_word [of "''t''" rest 0]
    by (auto simp: atom_end_def is_ascii_ws_def atom_value_def intro: exI [of _ "Suc 0"])
next
  case (Str s)
  then have "parse_value (Suc 0) (print_sexp (Str s) @ rest) = Some (Inr (Str s, rest))"
    using parse_escaped_plain [of s "[]" rest]
    by (simp add: string_literal_def skip_ws_def is_ascii_ws_def)
  then show ?case by (rule exI)
next
  case (Atom a)
  then have "parse_value (Suc 0) (print_sexp (Atom a) @ rest) = Some (Inr (Atom a, rest))"
    using parse_word [of a rest 0] by (auto simp: atom_value_def list_all_iff)
  then show ?case by (rule exI)
next
  case (SList xs)
  obtain k where "parse_list k [] (join '' '' (map print_sexp xs) @ CHR '')'' # rest) = Some (Inr (SList xs, rest))"
    using parse_printed_items [of xs "[]" rest] SList by (auto simp: list_all_iff)
  then have "parse_value (Suc k) (print_sexp (SList xs) @ rest) = Some (Inr (SList xs, rest))"
    by (simp add: skip_ws_def is_ascii_ws_def)
  then show ?case by (rule exI)
qed

lemma print_ends:
  assumes "printable v"
  shows "print_sexp v \<noteq> [] \<and> \<not> is_space (hd (print_sexp v)) \<and> \<not> is_space (last (print_sexp v))"
  using assms by (cases v) (auto simp: is_space_def string_literal_def list_all_iff)

lemma trim_id: "s \<noteq> [] \<Longrightarrow> \<not> is_space (hd s) \<Longrightarrow> \<not> is_space (last s) \<Longrightarrow> trim s = s"
proof -
  assume s: "s \<noteq> []" "\<not> is_space (hd s)" "\<not> is_space (last s)"
  then have "dropWhile is_space s = s" by (cases s) auto
  moreover have "dropWhile is_space (rev s) = rev s"
    using s by (cases "rev s") (auto simp: last_conv_nth hd_rev [symmetric])
  ultimately show ?thesis by (simp add: trim_def)
qed

lemma parse_print:
  assumes "printable v"
  shows "parse_sexp (print_sexp v) = Inr v"
proof -
  obtain k where "parse_value k (print_sexp v @ []) = Some (Inr (v, []))"
    using parse_printed [OF assms, of "[]"] by (auto simp: ends_here_def)
  moreover have "trim (print_sexp v) = print_sexp v"
    using print_ends [OF assms] by (simp add: trim_id)
  ultimately show ?thesis
    using parse_sexp_eq [of k "print_sexp v" v "[]"] by simp
qed

section \<open>What the reader can return\<close>

text \<open>
  The values of the type that are really read: symbols without a delimiter in them and other than
  \<open>nil\<close> and \<open>t\<close>, which have their own constructors, and no \<open>Bool(false)\<close>.  The delimiters are
  listed by their codes, apart from the reader's own test: tab, newline, form feed, carriage
  return, blank, the double quote and the two parentheses.
\<close>

definition delimiter :: "char \<Rightarrow> bool" where
  "delimiter c \<longleftrightarrow> (of_char c :: nat) \<in> {9, 10, 12, 13, 32, 34, 40, 41}"

lemma atom_end_delimiter: "atom_end c = delimiter c"
proof -
  have "(of_char c :: nat) = of_char d \<longleftrightarrow> c = d" for d by simp
  from this [of tab] this [of newline] this [of "CHR 0x0C"] this [of "CHR 0x0D"] this [of "CHR '' ''"]
    this [of quote_char] this [of "CHR ''(''"] this [of "CHR '')''"]
  show ?thesis by (simp add: atom_end_def is_ascii_ws_def delimiter_def) blast
qed

fun read_value :: "sexp \<Rightarrow> bool" where
  "read_value Nil_val = True"
| "read_value (BoolV b) = b"
| "read_value (Str s) = True"
| "read_value (Atom a) = (list_all (\<lambda>c. \<not> delimiter c) a \<and> a \<noteq> ''nil'' \<and> a \<noteq> ''t'')"
| "read_value (SList xs) = list_all read_value xs"

lemma parse_string_value: "parse_string acc s = Inr (v, r) \<Longrightarrow> read_value v"
  by (induction acc s rule: parse_string.induct) (auto split: if_splits list.splits)

lemma parse_atom_value: "read_value (fst (parse_atom s))"
  by (auto simp: parse_atom_def atom_value_def list_all_iff atom_end_delimiter dest: set_takeWhileD)

lemma parse_read_values:
  "parse_value k s = Some (Inr (v, r)) \<Longrightarrow> read_value v"
  "parse_list k items s = Some (Inr (v, r)) \<Longrightarrow> list_all read_value items \<Longrightarrow> read_value v"
proof (induction k s and k items s arbitrary: v r and v r rule: parse_value_parse_list.induct)
  case (2 k s)
  then show ?case
    by (auto split: list.splits if_splits dest: parse_string_value)
      (metis fst_conv parse_atom_value)
next
  case (4 k items s)
  then show ?case
    by (auto split: list.splits if_splits option.splits sum.splits)
qed simp_all

text \<open>
  C16: Every value the reader returns is well-formed, at any depth of nesting: \<open>nil\<close> and \<open>t\<close> are
  never symbols, no symbol contains a blank, tab, newline, form feed, carriage return, double quote
  or parenthesis, and \<open>Bool(false)\<close> is never returned, so that a cell of a list is read as \<open>nil\<close>
  in one way only.
\<close>

theorem parsed_values_well_formed:
  assumes "parse_sexp s = Inr v"
  shows "read_value v"
proof -
  obtain r where "parse_value (parse_fuel (trim s)) (trim s) = Some (Inr (v, r))"
    using assms by (auto simp: parse_sexp_def split: option.splits sum.splits)
  then show ?thesis by (rule parse_read_values)
qed

theorem parsed_values_well_formed_witness:
  "parse_sexp ''(x1 nil (t))'' = Inr (SList [Atom ''x1'', Nil_val, SList [BoolV True]])
     \<and> read_value (SList [Atom ''x1'', Nil_val, SList [BoolV True]])"
proof -
  have "parse_sexp ''(x1 nil (t))'' = Inr (SList [Atom ''x1'', Nil_val, SList [BoolV True]])"
    by code_simp
  with parsed_values_well_formed [OF this] show ?thesis by blast
qed

text \<open>
  C15: A text written by the code as a SKILL string literal is always one value to the code's own
  reader: whatever bytes the text holds and whatever follows the literal, the reader returns a
  string and goes on right after the closing quote.  The string read is the text itself exactly
  when every character of it is printable ASCII, a newline or a tab; any other character (a
  carriage return, another control character, a byte outside ASCII) comes back changed.
\<close>

theorem quoted_text_read_back_iff:
  "(\<exists>t. \<forall>k rest. parse_value (Suc k) (string_literal s @ rest) = Some (Inr (Str t, rest)))
   \<and> (parse_sexp (string_literal s) = Inr (Str s) \<longleftrightarrow> list_all plain_char s)"
proof -
  obtain t where t: "\<And>k rest. parse_value (Suc k) (string_literal s @ rest) = Some (Inr (Str t, rest))"
      and len: "length t = length s \<Longrightarrow> list_all plain_char s"
    using literal_token by blast
  have "trim (string_literal s) = string_literal s"
    by (rule trim_id) (simp_all add: string_literal_def is_space_def)
  with t [of 0 "[]"] have "parse_sexp (string_literal s) = Inr (Str t)"
    by (intro parse_sexp_eq [where k = "Suc 0" and r = "[]"]) (simp only: append_Nil2)
  moreover have "list_all plain_char s \<Longrightarrow> t = s"
    using parse_escaped_plain [of s "[]" "[]"] t [of 0 "[]"]
    by (simp add: string_literal_def skip_ws_def is_ascii_ws_def)
  ultimately show ?thesis using t len by auto
qed

text \<open>
  Text outside ASCII does not survive: the reader turns every byte into a character of its own, so
  the two bytes of \<open>e\<close> with an acute accent come back as four.
\<close>

lemma accent_not_read_back:
  "parse_sexp (string_literal (map char_of [195, 169 :: nat]))
     = Inr (Str (map char_of [195, 131, 194, 169 :: nat]))"
  by code_simp

text \<open>
  \<open>decode_skill_string\<close> undoes the escapes one kind after the other, so a backslash followed by
  the letter n, which \<open>string_literal\<close> writes with two backslashes, becomes a backslash and a newline.
\<close>

lemma decode_not_inverse:
  "decode_skill_string (string_literal (''C:'' @ [backslash] @ ''new''))
     = ''C:'' @ [backslash, newline] @ ''ew''
   \<and> parse_sexp (string_literal (''C:'' @ [backslash] @ ''new'')) = Inr (Str (''C:'' @ [backslash] @ ''new''))"
  by code_simp

end
