(* ===== verification/Skill_Result.thy ===== *)
theory Skill_Result
  imports Skill_Text
begin

text \<open>
  The result of a SKILL call: \<open>VirtuosoResult\<close> of \<open>src/models.rs\<close>, the classification helpers of
  \<open>src/client/skill_runtime.rs\<close>, and what the bridge makes of the bytes of an answer
  (\<open>src/client/bridge.rs\<close>).  \<open>execution_time\<close> is kept as the duration the code converts to seconds.
  \<open>serde_json\<close>'s parser is a parameter.
\<close>

section \<open>Results\<close>

datatype execution_status = StSuccess | StFailure | StPartial | StError

record virtuoso_result =
  vr_status :: execution_status
  vr_output :: string
  vr_errors :: "string list"
  vr_warnings :: "string list"
  vr_execution_time :: "duration option"
  vr_metadata :: "string \<rightharpoonup> string"

definition vr_ok :: "virtuoso_result \<Rightarrow> bool" where
  "vr_ok r \<longleftrightarrow> vr_status r = StSuccess"

definition skill_ok :: "virtuoso_result \<Rightarrow> bool" where
  "skill_ok r \<longleftrightarrow> vr_status r = StSuccess \<and> trim (vr_output r) \<noteq> ''nil''"

definition first_or_empty :: "string list \<Rightarrow> string" where
  "first_or_empty xs = (case xs of [] \<Rightarrow> [] | x # _ \<Rightarrow> x)"

definition ok_or_exec :: "string \<Rightarrow> virtuoso_result \<Rightarrow> virtuoso_error + virtuoso_result" where
  "ok_or_exec ctxt r =
     (if skill_ok r then Inr r
      else Inl (Execution (ctxt @ '' failed: '' @
        (if vr_output r = [] then first_or_empty (vr_errors r) else vr_output r))))"

definition ok_or_exec_nil_ok :: "string \<Rightarrow> virtuoso_result \<Rightarrow> virtuoso_error + virtuoso_result" where
  "ok_or_exec_nil_ok ctxt r = (if vr_ok r then Inr r else ok_or_exec ctxt r)"

definition trim_quotes :: "string \<Rightarrow> string" where
  "trim_quotes s = rev (dropWhile (\<lambda>c. c = quote_char) (rev (dropWhile (\<lambda>c. c = quote_char) s)))"

definition output_unquoted :: "virtuoso_result \<Rightarrow> string" where
  "output_unquoted r = trim_quotes (vr_output r)"

definition vr_success :: "string \<Rightarrow> virtuoso_result" where
  "vr_success out =
     \<lparr> vr_status = StSuccess, vr_output = out, vr_errors = [], vr_warnings = [],
       vr_execution_time = None, vr_metadata = Map.empty \<rparr>"

definition vr_error :: "string list \<Rightarrow> virtuoso_result" where
  "vr_error es =
     \<lparr> vr_status = StError, vr_output = [], vr_errors = es, vr_warnings = [],
       vr_execution_time = None, vr_metadata = Map.empty \<rparr>"

section \<open>Classifying a result\<close>

definition require_transport :: "string \<Rightarrow> virtuoso_result \<Rightarrow> virtuoso_error + string" where
  "require_transport action r =
     (if vr_ok r then Inr (trim (vr_output r))
      else Inl (Execution (action @ '': '' @
        (if vr_errors r = [] then ''transport failed'' else join ''; '' (vr_errors r)))))"

definition require_non_nil :: "string \<Rightarrow> virtuoso_result \<Rightarrow> virtuoso_error + string" where
  "require_non_nil action r =
     bindR (require_transport action r) (\<lambda>out.
       if out = ''nil'' then Inl (Execution (action @ '': SKILL returned nil'')) else Inr out)"

text \<open>
  \<open>decode_json_payload\<close>: the parser gives an error text or a value; \<open>as_text\<close> says whether the
  value is a JSON string, whose text is then parsed again, once.
\<close>

definition decode_json_payload ::
  "(string \<Rightarrow> string + 'v) \<Rightarrow> ('v \<Rightarrow> string option) \<Rightarrow> string \<Rightarrow> string \<Rightarrow> virtuoso_error + 'v" where
  "decode_json_payload from_json as_text action out =
     (case from_json out of
        Inl e \<Rightarrow> Inl (Execution (action @ '': invalid JSON result: '' @ e))
      | Inr outer \<Rightarrow>
          (case as_text outer of
             None \<Rightarrow> Inr outer
           | Some inner \<Rightarrow>
               (case from_json inner of
                  Inl e \<Rightarrow> Inl (Execution (action @ '': invalid wrapped JSON result: '' @ e))
                | Inr v \<Rightarrow> Inr v)))"

definition decode_json ::
  "(string \<Rightarrow> string + 'v) \<Rightarrow> ('v \<Rightarrow> string option) \<Rightarrow> string \<Rightarrow> virtuoso_result \<Rightarrow> virtuoso_error + 'v" where
  "decode_json from_json as_text action r =
     bindR (require_non_nil action r) (decode_json_payload from_json as_text action)"

section \<open>Text of an answer\<close>

text \<open>
  \<open>String::from_utf8_lossy\<close>: each maximal ill-formed piece becomes U+FFFD.  \<open>utf8_step\<close> looks at the
  first character of a non-empty text and says whether it is well-formed and how long it is.
\<close>

definition byte_at :: "string \<Rightarrow> nat \<Rightarrow> nat" where
  "byte_at s i = (if i < length s then of_char (s ! i) else 0)"

definition cont_byte :: "nat \<Rightarrow> bool" where
  "cont_byte n \<longleftrightarrow> 128 \<le> n \<and> n < 192"

definition second_of_three :: "nat \<Rightarrow> nat \<Rightarrow> bool" where
  "second_of_three b c \<longleftrightarrow>
     (if b = 224 then 160 \<le> c \<and> c < 192 else if b = 237 then 128 \<le> c \<and> c < 160 else cont_byte c)"

definition second_of_four :: "nat \<Rightarrow> nat \<Rightarrow> bool" where
  "second_of_four b c \<longleftrightarrow>
     (if b = 240 then 144 \<le> c \<and> c < 192 else if b = 244 then 128 \<le> c \<and> c < 144 else cont_byte c)"

definition utf8_step :: "string \<Rightarrow> bool \<times> nat" where
  "utf8_step s =
     (let b = byte_at s 0 in
      if b < 128 then (True, 1)
      else if 194 \<le> b \<and> b < 224 then (if cont_byte (byte_at s 1) then (True, 2) else (False, 1))
      else if 224 \<le> b \<and> b < 240 then
        (if \<not> second_of_three b (byte_at s 1) then (False, 1)
         else if cont_byte (byte_at s 2) then (True, 3) else (False, 2))
      else if 240 \<le> b \<and> b < 245 then
        (if \<not> second_of_four b (byte_at s 1) then (False, 1)
         else if \<not> cont_byte (byte_at s 2) then (False, 2)
         else if cont_byte (byte_at s 3) then (True, 4) else (False, 3))
      else (False, 1))"

lemma utf8_step_pos: "0 < snd (utf8_step s)"
  by (simp add: utf8_step_def Let_def)

definition replacement_char :: string where
  "replacement_char = map char_of [239, 191, 189 :: nat]"

function utf8_lossy :: "string \<Rightarrow> string" where
  "utf8_lossy s =
     (if s = [] then []
      else (if fst (utf8_step s) then take (snd (utf8_step s)) s else replacement_char)
             @ utf8_lossy (drop (snd (utf8_step s)) s))"
  by pat_completeness auto
termination
  by (relation "measure length") (use utf8_step_pos in \<open>auto simp: diff_less\<close>)

declare utf8_lossy.simps [simp del]

definition is_ascii :: "string \<Rightarrow> bool" where
  "is_ascii s \<longleftrightarrow> list_all (\<lambda>c. (of_char c :: nat) < 128) s"

lemma utf8_lossy_ascii: "is_ascii s \<Longrightarrow> utf8_lossy s = s"
proof (induction s)
  case (Cons c s)
  then have "utf8_step (c # s) = (True, 1)"
    by (simp add: utf8_step_def byte_at_def is_ascii_def)
  with Cons show ?case by (subst utf8_lossy.simps) (simp add: is_ascii_def)
qed (subst utf8_lossy.simps, simp)

definition STX :: char where "STX = CHR 0x02"
definition NAK :: char where "NAK = CHR 0x15"
definition MAX_RESPONSE_SIZE :: nat where "MAX_RESPONSE_SIZE = 104857600"

definition is_stale_sync :: "string \<Rightarrow> bool" where
  "is_stale_sync payload \<longleftrightarrow>
     (let p = trim_quotes (trim payload) in
      starts_with p ''sync_'' \<and> is_ok (parse_int 4294967295 (drop 5 p)))"

definition answer_result :: "duration \<Rightarrow> string \<Rightarrow> virtuoso_result" where
  "answer_result elapsed data =
     (let r = (vr_success [])\<lparr>vr_execution_time := Some elapsed\<rparr>;
          status_byte = hd data; payload = utf8_lossy (tl data) in
      if status_byte = STX then r\<lparr>vr_output := payload\<rparr>
      else if status_byte = NAK then r\<lparr>vr_status := StError, vr_errors := [payload]\<rparr>
      else r\<lparr>vr_output := utf8_lossy data, vr_warnings := [''non-standard response marker'']\<rparr>)"

section \<open>Facts\<close>

lemma ok_or_exec_iff: "ok_or_exec ctxt r = Inr r' \<longleftrightarrow> r' = r \<and> skill_ok r"
  by (auto simp: ok_or_exec_def)

lemma ok_or_exec_nil_ok_iff: "ok_or_exec_nil_ok ctxt r = Inr r' \<longleftrightarrow> r' = r \<and> vr_ok r"
  by (auto simp: ok_or_exec_nil_ok_def ok_or_exec_def skill_ok_def vr_ok_def)

lemma require_non_nil_iff: "require_non_nil action r = Inr out \<longleftrightarrow> skill_ok r \<and> out = trim (vr_output r)"
  by (auto simp: require_non_nil_def require_transport_def skill_ok_def vr_ok_def bindR_Inr_iff)

lemma answer_ok_iff: "data \<noteq> [] \<Longrightarrow> vr_ok (answer_result t data) \<longleftrightarrow> hd data \<noteq> NAK"
  by (auto simp: answer_result_def vr_ok_def vr_success_def Let_def STX_def NAK_def)

end
