(* ===== verification/Skill_Client.thy ===== *)
theory Skill_Client
  imports Whitelist Api_Auth Skill_Result
begin

text \<open>
  \<open>src/client/bridge.rs\<close>: how a SKILL expression is checked, sent to the daemon over a fresh
  connection, and its answer classified; and the requests the client builds on that.

  What the network does is given attempt by attempt (\<open>attempt\<close>): where the connection fails, or the
  chunks read from it.  What a call does to the outside is the list of its effects, so that how
  often a request was transmitted can be stated.  A run ends with a result or an error
  (\<open>Done\<close>), or in a panic (\<open>Panicked\<close>).  \<open>serde_json\<close>'s rendering of the request and the parsing of
  a socket address are parameters.
\<close>

section \<open>The client and its surroundings\<close>

datatype retry_policy = Never | IdempotentProbe

record client =
  cl_host :: string
  cl_port :: u16
  cl_timeout :: u64
  cl_read_timeout :: u64
  cl_session_id :: "string option"
  cl_whitelist :: whitelist
  cl_capabilities :: capability_set

definition client_new :: "string option \<Rightarrow> string \<Rightarrow> u16 \<Rightarrow> u64 \<Rightarrow> client" where
  "client_new cap_var h p t =
     \<lparr> cl_host = h, cl_port = p, cl_timeout = t, cl_read_timeout = 120, cl_session_id = None,
       cl_whitelist = wl_strict, cl_capabilities = caps_from_env cap_var \<rparr>"

definition with_sandbox_mode :: "client \<Rightarrow> client" where
  "with_sandbox_mode c = c\<lparr>cl_whitelist := enable_sandbox (cl_whitelist c)\<rparr>"

definition with_capabilities :: "capability_set \<Rightarrow> client \<Rightarrow> client" where
  "with_capabilities caps c = c\<lparr>cl_capabilities := caps\<rparr>"

text \<open>\<open>WouldBlock\<close> and \<open>TimedOut\<close> are the two spellings of an expired read timeout.\<close>

datatype read_failure = ReadTimedOut string | ReadOther string

datatype read_end = Eof | ReadFails read_failure

datatype attempt =
    ConnectFails string
  | WriteFails string
  | ShutdownFails string
  | Answers "string list" read_end

record bridge_env =
  attempt_at :: "nat \<Rightarrow> attempt"
  budget_read_at :: "nat \<Rightarrow> duration"
  result_read :: duration
  log_read :: duration
  socket_addr :: "string \<Rightarrow> string + unit"
  request_json :: "string \<Rightarrow> u64 \<Rightarrow> string + string"

text \<open>\<open>PartlySent\<close>: \<open>write_all\<close> failed, so a part of the request may have reached the daemon.\<close>

datatype skill_effect =
    Sent string
  | PartlySent string
  | CommandLog string nat
  | SkillHistory string string bool string

fun is_transmission :: "skill_effect \<Rightarrow> bool" where
  "is_transmission (Sent _) = True"
| "is_transmission (PartlySent _) = True"
| "is_transmission _ = False"

definition transmissions :: "skill_effect list \<Rightarrow> skill_effect list" where
  "transmissions effs = filter is_transmission effs"

datatype 'a ending = Done "virtuoso_error + 'a" | Panicked

section \<open>One attempt\<close>

fun map_socket_read_error :: "u64 \<Rightarrow> read_failure \<Rightarrow> virtuoso_error" where
  "map_socket_read_error t (ReadTimedOut _) = Timeout t"
| "map_socket_read_error t (ReadOther m) = Connection m"

fun read_response :: "u64 \<Rightarrow> string \<Rightarrow> string list \<Rightarrow> read_end \<Rightarrow> virtuoso_error + string" where
  "read_response t data [] Eof = Inr data"
| "read_response t data [] (ReadFails f) = Inl (map_socket_read_error t f)"
| "read_response t data (c # cs) fin =
     (if c = [] then Inr data
      else if MAX_RESPONSE_SIZE < length data + length c
      then Inl (Execution (''response exceeds '' @ show_nat (MAX_RESPONSE_SIZE div 1024 div 1024) @ ''MB limit''))
      else read_response t (data @ c) cs fin)"

text \<open>\<open>connect_timeout\<close> refuses a zero timeout before it tries to connect.\<close>

definition exchange :: "u64 \<Rightarrow> string \<Rightarrow> attempt \<Rightarrow> skill_effect list \<times> (virtuoso_error + string)" where
  "exchange t req a =
     (if t = 0 then ([], Inl (Connection ''cannot set a 0 duration timeout''))
      else case a of
        ConnectFails m \<Rightarrow> ([], Inl (Connection m))
      | WriteFails m \<Rightarrow> ([PartlySent req], Inl (Connection m))
      | ShutdownFails m \<Rightarrow> ([Sent req], Inl (Connection m))
      | Answers chunks fin \<Rightarrow> ([Sent req], read_response t [] chunks fin))"

section \<open>Recording a result\<close>

text \<open>\<open>&skill_code[..200]\<close> panics unless byte 200 starts a character.\<close>

definition is_char_boundary :: "string \<Rightarrow> nat \<Rightarrow> bool" where
  "is_char_boundary s i \<longleftrightarrow> i = length s \<or> i < length s \<and> \<not> cont_byte (byte_at s i)"

definition log_excerpt :: "string \<Rightarrow> string option" where
  "log_excerpt code =
     (if 200 < length code
      then (if is_char_boundary code 200 then Some (take 200 code @ ''...'') else None)
      else Some code)"

definition finish :: "bridge_env \<Rightarrow> client \<Rightarrow> string \<Rightarrow> string \<Rightarrow> skill_effect list \<times> virtuoso_result ending" where
  "finish env c code data =
     (let result = answer_result (result_read env) data in
      case log_excerpt code of
        None \<Rightarrow> ([], Panicked)
      | Some excerpt \<Rightarrow>
          (CommandLog excerpt (as_millis (log_read env)) #
             (case cl_session_id c of
                None \<Rightarrow> []
              | Some sid \<Rightarrow> [SkillHistory sid code (skill_ok result) (vr_output result)]),
           Done (Inr result)))"

section \<open>The drain loop\<close>

definition outcome_unknown_msg :: string where
  "outcome_unknown_msg =
     ''observed a queued-ticket marker (sync_N); the request was transmitted once and will not be resent because it is not marked idempotent''"

fun drain_loop ::
  "bridge_env \<Rightarrow> client \<Rightarrow> retry_policy \<Rightarrow> u64 \<Rightarrow> string \<Rightarrow> string \<Rightarrow> nat \<Rightarrow> nat
     \<Rightarrow> skill_effect list \<times> virtuoso_result ending" where
  "drain_loop env c policy t code req 0 i =
     ([], Done (Inl (Execution ''bridge queue misaligned: 10 consecutive sync_N responses drained'')))"
| "drain_loop env c policy t code req (Suc left) i =
     (let (effs, r) = exchange t req (attempt_at env i) in
      case r of
        Inl e \<Rightarrow> (effs, Done (Inl e))
      | Inr data \<Rightarrow>
          if data = [] then (effs, Done (Inl (Execution ''empty response from daemon'')))
          else if hd data = STX \<and> is_stale_sync (utf8_lossy (tl data)) then
            (case policy of
               Never \<Rightarrow> (effs, Done (Inl (VOutcomeUnknown outcome_unknown_msg)))
             | IdempotentProbe \<Rightarrow>
                 if from_secs (unat t) \<le> budget_read_at env i then (effs, Done (Inl (Timeout t)))
                 else (let (effs', res) = drain_loop env c policy t code req left (Suc i)
                       in (effs @ effs', res)))
          else (let (effs', res) = finish env c code data in (effs @ effs', res)))"

definition guard_skill :: "client \<Rightarrow> bool \<Rightarrow> string \<Rightarrow> string option" where
  "guard_skill c skip code =
     (if skip \<and> \<not> sandbox (cl_whitelist c) then None
      else case wl_check (cl_whitelist c) code of
        Some w \<Rightarrow> Some w
      | None \<Rightarrow> check_blocking_skill code)"

definition execute_skill_with_policy ::
  "bridge_env \<Rightarrow> client \<Rightarrow> string \<Rightarrow> u64 option \<Rightarrow> bool \<Rightarrow> retry_policy
     \<Rightarrow> skill_effect list \<times> virtuoso_result ending" where
  "execute_skill_with_policy env c code t skip policy =
     (case guard_skill c skip code of
        Some w \<Rightarrow> ([], Done (Inl (Execution w)))
      | None \<Rightarrow>
          (let tmo = (case t of Some x \<Rightarrow> x | None \<Rightarrow> cl_timeout c) in
           case socket_addr env (cl_host c @ '':'' @ show_nat (unat (cl_port c))) of
             Inl e \<Rightarrow> ([], Done (Inl (Connection (''invalid address: '' @ e))))
           | Inr _ \<Rightarrow>
               (case request_json env code tmo of
                  Inl e \<Rightarrow> ([], Done (Inl (Json e)))
                | Inr req \<Rightarrow> drain_loop env c policy tmo code req 10 0)))"

definition execute_skill_with_bypass where
  "execute_skill_with_bypass env c code t skip = execute_skill_with_policy env c code t skip Never"

definition execute_skill_unchecked where
  "execute_skill_unchecked env c code t = execute_skill_with_bypass env c code t False"

definition execute_skill_idempotent_probe where
  "execute_skill_idempotent_probe env c code t = execute_skill_with_policy env c code t True IdempotentProbe"

section \<open>Raw SKILL\<close>

definition check_capability :: "client \<Rightarrow> string option" where
  "check_capability c =
     (if allows_raw_skill (cl_capabilities c) then None
      else Some (''raw SKILL exec is not permitted: use '' @ [CHR 0x27] @ ''vcli rpc call'' @ [CHR 0x27] @ '' instead''))"

text \<open>The process: the cell of \<open>Auth\<close>, its two variables and the clock.\<close>

record process =
  auth_cell :: "auth option"
  key_var :: "string option"
  cap_var :: "string option"
  auth_clock :: "nat \<times> nat"

definition require_raw_skill_access :: "client \<Rightarrow> process \<Rightarrow> (virtuoso_error + unit) \<times> process" where
  "require_raw_skill_access c pr =
     (let a = auth_init (auth_cell pr) (key_var pr) (cap_var pr);
          (r, a') = check_auth (auth_clock pr) (key_var pr) None a;
          pr' = pr\<lparr>auth_cell := Some a'\<rparr> in
      case r of
        Inl e \<Rightarrow> (Inl e, pr')
      | Inr _ \<Rightarrow> (case check_capability c of Some w \<Rightarrow> (Inl (Execution w), pr') | None \<Rightarrow> (Inr (), pr')))"

definition execute_skill ::
  "bridge_env \<Rightarrow> client \<Rightarrow> string \<Rightarrow> u64 option \<Rightarrow> process
     \<Rightarrow> (skill_effect list \<times> virtuoso_result ending) \<times> process" where
  "execute_skill env c code t pr =
     (case require_raw_skill_access c pr of
        (Inl e, pr') \<Rightarrow> (([], Done (Inl e)), pr')
      | (Inr _, pr') \<Rightarrow> (execute_skill_with_bypass env c code t True, pr'))"

definition execute_skill_admin where
  "execute_skill_admin env c code t pr = execute_skill env c code t pr"

end
