(* ===== verification/Skill_Client_Facts.thy ===== *)
theory Skill_Client_Facts
  imports Skill_Client
begin

text \<open>
  What the bridge client promises about a SKILL request: how often it is transmitted, when it may
  be transmitted again, what is never transmitted, and that the answer is passed on unchanged.
\<close>

section \<open>Transmissions\<close>

lemma transmissions_simps [simp]:
  "transmissions [] = []"
  "transmissions (e # es) = (if is_transmission e then e # transmissions es else transmissions es)"
  "transmissions (es @ fs) = transmissions es @ transmissions fs"
  by (simp_all add: transmissions_def)

text \<open>What a run transmitted: nothing or one request, and one request in whole.\<close>

definition at_most_one :: "string \<Rightarrow> skill_effect list \<Rightarrow> bool" where
  "at_most_one req effs \<longleftrightarrow> transmissions effs \<in> {[], [Sent req], [PartlySent req]}"

definition one_sent :: "string \<Rightarrow> skill_effect list \<Rightarrow> bool" where
  "one_sent req effs \<longleftrightarrow> transmissions effs = [Sent req]"

lemma exchange_transmits:
  "exchange t req a = (effs, r) \<Longrightarrow> at_most_one req effs \<and> (\<forall>data. r = Inr data \<longrightarrow> effs = [Sent req])"
  by (auto simp: exchange_def at_most_one_def split: if_splits attempt.splits)

lemma finish_transmits: "finish env c code data = (effs, e) \<Longrightarrow> transmissions effs = []"
  by (auto simp: finish_def Let_def split: option.splits)

lemma finish_ending: "finish env c code data = (effs, e) \<Longrightarrow> e = Panicked \<or> (\<exists>r. e = Done (Inr r))"
  by (auto simp: finish_def Let_def split: option.splits)

fun reached :: "virtuoso_result ending \<Rightarrow> bool" where
  "reached (Done (Inr _)) = True"
| "reached (Done (Inl (VOutcomeUnknown _))) = True"
| "reached (Done (Inl _)) = False"
| "reached Panicked = True"

lemma read_response_error: "read_response t data cs fin = Inl e \<Longrightarrow> \<not> reached (Done (Inl e))"
proof (induction cs arbitrary: data)
  case Nil
  then obtain f where "e = map_socket_read_error t f" by (cases fin) auto
  then show ?case by (cases f) simp_all
qed (auto split: if_splits)

lemma exchange_error: "exchange t req a = (effs, Inl e) \<Longrightarrow> \<not> reached (Done (Inl e))"
  by (cases a) (auto simp: exchange_def split: if_splits dest: read_response_error)

text \<open>One round of the loop: it ends, or it saw a ticket and goes on.\<close>

definition saw_ticket :: "bridge_env \<Rightarrow> u64 \<Rightarrow> string \<Rightarrow> nat \<Rightarrow> bool" where
  "saw_ticket env t req i \<longleftrightarrow>
     (\<exists>payload. snd (exchange t req (attempt_at env i)) = Inr (STX # payload) \<and> is_stale_sync (utf8_lossy payload))"

lemma drain_step:
  obtains (ended) effs e where "drain_loop env c policy t code req (Suc left) i = (effs, e)"
      "at_most_one req effs" "reached e \<longrightarrow> one_sent req effs"
    | (again) "policy = IdempotentProbe" "saw_ticket env t req i"
      "budget_read_at env i < from_secs (unat t)"
      "drain_loop env c policy t code req (Suc left) i =
         (Sent req # fst (drain_loop env c policy t code req left (Suc i)),
          snd (drain_loop env c policy t code req left (Suc i)))"
proof -
  obtain effs r where x: "exchange t req (attempt_at env i) = (effs, r)" by fastforce
  note tx = exchange_transmits [OF x]
  show thesis
  proof (cases r)
    case (Inl e)
    have "\<not> reached (Done (Inl e))"
      using x Inl by (auto dest: exchange_error)
    with Inl x tx show thesis by (intro ended [of effs "Done (Inl e)"]) simp_all
  next
    case (Inr data)
    with tx have effs: "effs = [Sent req]" by blast
    consider "data = []" | "data \<noteq> []" "hd data = STX \<and> is_stale_sync (utf8_lossy (tl data))"
      | "data \<noteq> []" "\<not> (hd data = STX \<and> is_stale_sync (utf8_lossy (tl data)))" by blast
    then show thesis
    proof cases
      case 1
      with Inr x effs show thesis
        by (intro ended [of effs "Done (Inl (Execution ''empty response from daemon''))"])
          (simp_all add: at_most_one_def)
    next
      case 2
      then obtain payload where d: "data = STX # payload" "is_stale_sync (utf8_lossy payload)"
        by (cases data) auto
      with Inr x have ticket: "saw_ticket env t req i" by (simp add: saw_ticket_def)
      show thesis
      proof (cases policy)
        case Never
        with d Inr x effs show thesis
          by (intro ended [of effs "Done (Inl (VOutcomeUnknown outcome_unknown_msg))"])
            (simp_all add: at_most_one_def one_sent_def)
      next
        case IdempotentProbe
        show thesis
        proof (cases "from_secs (unat t) \<le> budget_read_at env i")
          case True
          with IdempotentProbe d Inr x effs show thesis
            by (intro ended [of effs "Done (Inl (Timeout t))"]) (simp_all add: at_most_one_def)
        next
          case False
          with IdempotentProbe d Inr x effs ticket show thesis
            by (intro again) (simp_all add: split_beta)
        qed
      qed
    next
      case 3
      obtain effs' e where f: "finish env c code data = (effs', e)" by fastforce
      have "drain_loop env c policy t code req (Suc left) i = (effs @ effs', e)"
        using f Inr x by (simp only: drain_loop.simps(2) Let_def prod.case sum.case
            if_not_P [OF 3(1)] if_not_P [OF 3(2)])
      with effs finish_transmits [OF f] show thesis
        by (intro ended [of "effs @ effs'" e]) (simp_all add: at_most_one_def one_sent_def)
    qed
  qed
qed

lemma drain_never:
  assumes "drain_loop env c Never t code req (Suc left) i = (effs, e)"
  shows "at_most_one req effs \<and> (reached e \<longrightarrow> one_sent req effs)"
  using assms by (cases rule: drain_step [of env c Never t code req left i]) auto

lemma execute_with_policy_drains:
  assumes "execute_skill_with_policy env c code t skip policy = (effs, e)" "effs \<noteq> [] \<or> reached e"
  obtains req tmo where "guard_skill c skip code = None" "request_json env code tmo = Inr req"
    "drain_loop env c policy tmo code req 10 0 = (effs, e)" "tmo = (case t of Some x \<Rightarrow> x | None \<Rightarrow> cl_timeout c)"
  using assms that
  by (auto simp: execute_skill_with_policy_def Let_def split: option.splits sum.splits)

text \<open>
  C3: A request that may change the design is transmitted at most once.  Whatever the network and
  the daemon do, a call under the default policy hands at most one request to the network, in
  whole or in part, and never repeats it; and when the call reports a result, or that the outcome
  is unknown, it has handed over exactly one, in whole.
\<close>

theorem transmitted_at_most_once:
  assumes "execute_skill_with_bypass env c code t skip = (effs, e)"
  shows "\<exists>req. at_most_one req effs \<and> (reached e \<longrightarrow> one_sent req effs)"
proof (cases "effs \<noteq> [] \<or> reached e")
  case True
  with assms obtain req tmo where "drain_loop env c Never tmo code req (Suc 9) 0 = (effs, e)"
    unfolding execute_skill_with_bypass_def
    by (auto elim!: execute_with_policy_drains simp: eval_nat_numeral)
  from drain_never [OF this] show ?thesis by blast
qed (simp add: at_most_one_def)

lemma drain_probe:
  "drain_loop env c policy t code req left i = (effs, e) \<Longrightarrow>
     length (transmissions effs) \<le> left \<and>
     set (transmissions effs) \<subseteq> {Sent req, PartlySent req} \<and>
     (\<forall>j. Suc j < length (transmissions effs) \<longrightarrow>
        saw_ticket env t req (i + j) \<and> budget_read_at env (i + j) < from_secs (unat t))"
proof (induction left arbitrary: i effs e)
  case (Suc left)
  show ?case
  proof (cases rule: drain_step [of env c policy t code req left i])
    case (ended effs' e')
    with Suc.prems show ?thesis by (auto simp: at_most_one_def)
  next
    case again
    obtain rest e' where rest: "drain_loop env c policy t code req left (Suc i) = (rest, e')" by fastforce
    with again Suc.prems have effs: "effs = Sent req # rest" by auto
    have "saw_ticket env t req (i + j) \<and> budget_read_at env (i + j) < from_secs (unat t)"
      if "Suc j < length (transmissions effs)" for j
    proof (cases j)
      case 0
      with again show ?thesis by simp
    next
      case (Suc k)
      with Suc.IH [OF rest] that effs show ?thesis by auto
    qed
    with Suc.IH [OF rest] effs show ?thesis by auto
  qed
qed simp

text \<open>
  Even a read-only probe is repeated under control: it transmits at most ten times, always the
  same request, and each repetition follows a ticket that the previous attempt was answered with,
  while the call's time budget was not used up.
\<close>

theorem probe_repeats_under_control:
  assumes "execute_skill_idempotent_probe env c code t = (effs, e)"
    and "tmo = (case t of Some x \<Rightarrow> x | None \<Rightarrow> cl_timeout c)"
  shows "\<exists>req. length (transmissions effs) \<le> 10 \<and> set (transmissions effs) \<subseteq> {Sent req, PartlySent req} \<and>
    (\<forall>j. Suc j < length (transmissions effs) \<longrightarrow>
       saw_ticket env tmo req j \<and> budget_read_at env j < from_secs (unat tmo))"
proof (cases "effs = []")
  case False
  with assms obtain req where "drain_loop env c IdempotentProbe tmo code req 10 0 = (effs, e)"
    unfolding execute_skill_idempotent_probe_def by (auto elim!: execute_with_policy_drains)
  from drain_probe [OF this] show ?thesis by auto
qed simp

section \<open>Sample surroundings\<close>

definition sample_env :: "attempt list \<Rightarrow> bridge_env" where
  "sample_env as =
     \<lparr> attempt_at = (\<lambda>i. if i < length as then as ! i else ConnectFails ''refused''),
       budget_read_at = (\<lambda>_. 0), result_read = 5, log_read = 6,
       socket_addr = (\<lambda>_. Inr ()), request_json = (\<lambda>code t. Inr code) \<rparr>"

definition ticket :: attempt where
  "ticket = Answers [STX # [quote_char] @ ''sync_7'' @ [quote_char]] Eof"

definition two :: attempt where
  "two = Answers [[STX], ''2''] Eof"

definition sample_client :: client where
  "sample_client = client_new None ''127.0.0.1'' 65432 30"

lemma sample_env_simps [simp]:
  "attempt_at (sample_env as) i = (if i < length as then as ! i else ConnectFails ''refused'')"
  "budget_read_at (sample_env as) i = 0" "result_read (sample_env as) = 5" "log_read (sample_env as) = 6"
  "socket_addr (sample_env as) s = Inr ()" "request_json (sample_env as) code t = Inr code"
  by (simp_all add: sample_env_def)

lemma sample_client_simps [simp]:
  "cl_host sample_client = ''127.0.0.1''" "cl_port sample_client = 65432" "cl_timeout sample_client = 30"
  "cl_session_id sample_client = None" "cl_whitelist sample_client = wl_strict"
  "cl_capabilities sample_client = default_caps"
  by (simp_all add: sample_client_def client_new_def caps_from_env_def)

lemma suc_nine: "Suc 9 = 10"
  by simp

lemmas drain_ten = drain_loop.simps(2) [where left = 9, unfolded suc_nine]

lemma sample_ticket: "exchange 30 req ticket = ([Sent req], Inr (STX # [quote_char] @ ''sync_7'' @ [quote_char]))"
  by (simp add: exchange_def ticket_def MAX_RESPONSE_SIZE_def)

lemma sample_stale: "is_stale_sync (utf8_lossy ([quote_char] @ ''sync_7'' @ [quote_char]))"
proof -
  have "is_ascii ([quote_char] @ ''sync_7'' @ [quote_char])" by code_simp
  moreover have "trim_quotes (trim ([quote_char] @ ''sync_7'' @ [quote_char])) = ''sync_7''" by code_simp
  ultimately show ?thesis
    by (simp add: utf8_lossy_ascii is_stale_sync_def starts_with_def parse_int_def is_digit_def digit_val_def
        del: append.simps)
qed

lemma sample_guard: "guard_skill sample_client True code = None" "guard_skill sample_client False ''1+1'' = None"
proof -
  show "guard_skill sample_client True code = None"
    by (simp add: guard_skill_def wl_strict_def)
  have "wl_check wl_strict ''1+1'' = None" "check_blocking_skill ''1+1'' = None" by code_simp+
  then show "guard_skill sample_client False ''1+1'' = None"
    by (simp add: guard_skill_def)
qed

lemma sample_commit:
  "execute_skill_with_bypass (sample_env [ticket, two]) sample_client ''1+1'' None False
     = ([Sent ''1+1''], Done (Inl (VOutcomeUnknown outcome_unknown_msg)))"
  using sample_stale
  by (simp add: execute_skill_with_bypass_def execute_skill_with_policy_def sample_guard drain_ten
      sample_ticket)

theorem transmitted_at_most_once_witness:
  "\<exists>req. at_most_one req [Sent ''1+1''] \<and>
     (reached (Done (Inl (VOutcomeUnknown outcome_unknown_msg))) \<longrightarrow> one_sent req [Sent ''1+1''])"
  using transmitted_at_most_once [OF sample_commit] by simp

lemma answer_two: "exchange 30 req two = ([Sent req], Inr [STX, CHR ''2''])"
  by (simp add: exchange_def two_def MAX_RESPONSE_SIZE_def)

lemma two_not_stale: "\<not> is_stale_sync (utf8_lossy ''2'')"
  by (simp add: utf8_lossy_ascii is_ascii_def is_stale_sync_def starts_with_def trim_quotes_def trim_def is_space_def)

lemma sample_probe:
  "fst (execute_skill_idempotent_probe (sample_env [ticket, two]) sample_client ''1+1'' None)
     = [Sent ''1+1'', Sent ''1+1'', CommandLog ''1+1'' 0]"
  using sample_stale two_not_stale
  by (simp add: execute_skill_idempotent_probe_def execute_skill_with_policy_def sample_guard drain_ten
      drain_loop.simps(2) [where left = 8, simplified] sample_ticket answer_two finish_def log_excerpt_def split_beta)

theorem probe_repeats_under_control_witness:
  "saw_ticket (sample_env [ticket, two]) 30 ''1+1'' 0
     \<and> transmissions (fst (execute_skill_idempotent_probe (sample_env [ticket, two]) sample_client ''1+1'' None))
         = [Sent ''1+1'', Sent ''1+1'']"
proof -
  obtain e where r: "execute_skill_idempotent_probe (sample_env [ticket, two]) sample_client ''1+1'' None
      = ([Sent ''1+1'', Sent ''1+1'', CommandLog ''1+1'' 0], e)"
    using sample_probe by (metis prod.collapse)
  from probe_repeats_under_control [OF r, of 30] obtain req where
    "{Sent ''1+1''} \<subseteq> {Sent req, PartlySent req}" "saw_ticket (sample_env [ticket, two]) 30 req 0"
    by auto
  with sample_probe show ?thesis by simp
qed

section \<open>What is never transmitted\<close>

lemma guarded_not_sent:
  "guard_skill c skip code = Some w \<Longrightarrow>
     execute_skill_with_policy env c code t skip policy = ([], Done (Inl (Execution w)))"
  by (simp add: execute_skill_with_policy_def)

lemma sandbox_guard:
  "sandbox (cl_whitelist c) \<Longrightarrow> wl_check (cl_whitelist c) code = Some w \<Longrightarrow> guard_skill c skip code = Some w"
  by (simp add: guard_skill_def)

lemma raw_access_admin:
  "require_raw_skill_access c pr = (Inr u, pr') \<Longrightarrow> Admin \<in> set (cl_capabilities c)"
  by (auto simp: require_raw_skill_access_def check_capability_def allows_raw_skill_iff Let_def
      split: prod.splits sum.splits option.splits if_splits)

text \<open>
  C4: Readonly mode holds on every path: a client in sandbox mode transmits no expression its
  patterns block, whether it is sent unchecked, with the whitelist bypass, as a probe, or as raw
  SKILL by an Admin; and raw SKILL is transmitted at all only for an Admin.
\<close>

theorem readonly_and_admin_respected:
  "(sandbox (cl_whitelist c) \<and> wl_check (cl_whitelist c) code = Some w \<longrightarrow>
      execute_skill_with_policy env c code t skip policy = ([], Done (Inl (Execution w))) \<and>
      fst (fst (execute_skill env c code t pr)) = []) \<and>
   (fst (fst (execute_skill env c code t pr)) \<noteq> [] \<longrightarrow> Admin \<in> set (cl_capabilities c))"
proof (intro conjI impI; (elim conjE)?)
  assume "sandbox (cl_whitelist c)" "wl_check (cl_whitelist c) code = Some w"
  note none = guarded_not_sent [OF sandbox_guard [OF this]]
  show "execute_skill_with_policy env c code t skip policy = ([], Done (Inl (Execution w)))"
    by (rule none)
  show "fst (fst (execute_skill env c code t pr)) = []"
    by (auto simp: execute_skill_def execute_skill_with_bypass_def none split: prod.splits sum.splits)
next
  assume "fst (fst (execute_skill env c code t pr)) \<noteq> []"
  then show "Admin \<in> set (cl_capabilities c)"
    by (auto simp: execute_skill_def split: prod.splits sum.splits dest: raw_access_admin)
qed

definition local_process :: process where
  "local_process = \<lparr> auth_cell = None, key_var = None, cap_var = None, auth_clock = (1, 1) \<rparr>"

definition admin_client :: client where
  "admin_client = with_sandbox_mode (with_capabilities [Admin] sample_client)"

lemma admin_blocked: "wl_check (cl_whitelist admin_client) ''sh(x)'' = Some (''blocked: matches dangerous pattern '' @ [CHR 0x27] @ ''sh('' @ [CHR 0x27])"
  unfolding admin_client_def with_sandbox_mode_def with_capabilities_def
  by simp code_simp

lemma local_raw_access: "fst (require_raw_skill_access (with_capabilities [Admin] sample_client) local_process) = Inr ()"
  by (simp add: require_raw_skill_access_def local_process_def auth_init_def non_empty_def check_auth_def
      auth_enabled_def check_capability_def with_capabilities_def allows_raw_skill_iff)

text \<open>The Admin's raw SKILL is sent when the client is not in sandbox mode, and not when it is.\<close>

theorem readonly_and_admin_respected_witness:
  "fst (fst (execute_skill (sample_env [two]) admin_client ''sh(x)'' None local_process)) = [] \<and>
   fst (fst (execute_skill (sample_env [two]) (with_capabilities [Admin] sample_client) ''sh(x)'' None local_process)) \<noteq> [] \<and>
   Admin \<in> set (cl_capabilities (with_capabilities [Admin] sample_client))"
proof -
  let ?c = "with_capabilities [Admin] sample_client"
  have "sandbox (cl_whitelist admin_client)"
    by (simp add: admin_client_def with_sandbox_mode_def enable_sandbox_def)
  with admin_blocked have "fst (fst (execute_skill (sample_env [two]) admin_client ''sh(x)'' None local_process)) = []"
    using readonly_and_admin_respected by blast
  moreover obtain pr' where "require_raw_skill_access ?c local_process = (Inr (), pr')"
    using local_raw_access by (metis prod.collapse)
  then have sent: "fst (fst (execute_skill (sample_env [two]) ?c ''sh(x)'' None local_process)) \<noteq> []"
    using two_not_stale
    by (simp add: execute_skill_def execute_skill_with_bypass_def execute_skill_with_policy_def guard_skill_def
        with_capabilities_def wl_strict_def drain_ten answer_two split_beta)
  moreover have "Admin \<in> set (cl_capabilities ?c)"
    using readonly_and_admin_respected sent by blast
  ultimately show ?thesis by blast
qed

section \<open>The answer\<close>

lemma read_response_chunks:
  "list_all (\<lambda>c. c \<noteq> []) cs \<Longrightarrow> length data + length (concat cs) \<le> MAX_RESPONSE_SIZE \<Longrightarrow>
     read_response t data cs Eof = Inr (data @ concat cs)"
  by (induction cs arbitrary: data) auto

lemma drain_answered:
  assumes "exchange t req (attempt_at env i) = (effs, Inr data)" "data \<noteq> []"
    and "\<not> (hd data = STX \<and> is_stale_sync (utf8_lossy (tl data)))"
  shows "drain_loop env c policy t code req (Suc left) i =
    (effs @ fst (finish env c code data), snd (finish env c code data))"
  by (simp only: drain_loop.simps(2) assms(1) Let_def prod.case sum.case if_not_P [OF assms(2)]
      if_not_P [OF assms(3)] split_beta fst_conv snd_conv)

text \<open>
  The daemon's answer is passed on as it was sent: when the daemon answers a request with the
  success marker and ASCII text that is not a ticket, the call returns success with exactly that
  text, under either policy, however the network cuts the answer into chunks; and with the failure
  marker it returns the same text as the one error, with an empty output.
\<close>

theorem answer_passed_on:
  assumes "guard_skill c skip code = None" "socket_addr env (cl_host c @ '':'' @ show_nat (unat (cl_port c))) = Inr ()"
    and "request_json env code tmo = Inr req" "tmo = (case t of Some x \<Rightarrow> x | None \<Rightarrow> cl_timeout c)" "tmo \<noteq> 0"
    and "attempt_at env 0 = Answers chunks Eof" "list_all (\<lambda>x. x \<noteq> []) chunks"
    and "concat chunks = marker # payload" "length payload < MAX_RESPONSE_SIZE"
    and "is_ascii payload" "marker = STX \<and> \<not> is_stale_sync payload \<or> marker = NAK" "length code \<le> 200"
  shows "\<exists>effs r. execute_skill_with_policy env c code t skip policy = (effs, Done (Inr r)) \<and>
    (marker = STX \<longrightarrow> vr_ok r \<and> vr_output r = payload \<and> vr_errors r = []) \<and>
    (marker = NAK \<longrightarrow> \<not> vr_ok r \<and> vr_output r = [] \<and> vr_errors r = [payload])"
proof -
  have "exchange tmo req (attempt_at env 0) = ([Sent req], Inr (marker # payload))"
    using assms(5-9) read_response_chunks [of chunks "[]" tmo] by (simp add: exchange_def)
  moreover have "\<not> (hd (marker # payload) = STX \<and> is_stale_sync (utf8_lossy (tl (marker # payload))))"
    using assms(10,11) by (auto simp: utf8_lossy_ascii STX_def NAK_def)
  ultimately have "execute_skill_with_policy env c code t skip policy =
      (Sent req # fst (finish env c code (marker # payload)), snd (finish env c code (marker # payload)))"
    using assms(1-4) drain_answered [of tmo req env 0 _ _ c policy code 9]
    by (simp add: execute_skill_with_policy_def)
  moreover have "snd (finish env c code (marker # payload)) = Done (Inr (answer_result (result_read env) (marker # payload)))"
    using assms(12) by (simp add: finish_def log_excerpt_def Let_def)
  ultimately show ?thesis
    using assms(10,11)
    by (auto simp: answer_result_def vr_success_def vr_ok_def utf8_lossy_ascii STX_def NAK_def)
qed

theorem answer_passed_on_witness:
  "\<exists>effs r. execute_skill_with_policy (sample_env [two]) sample_client ''1+1'' None False Never = (effs, Done (Inr r))
     \<and> vr_output r = ''2''"
proof -
  have "\<not> is_stale_sync ''2''"
    using two_not_stale by (simp add: utf8_lossy_ascii is_ascii_def)
  then have "\<exists>effs r. execute_skill_with_policy (sample_env [two]) sample_client ''1+1'' None False Never = (effs, Done (Inr r)) \<and>
    (STX = STX \<longrightarrow> vr_ok r \<and> vr_output r = ''2'' \<and> vr_errors r = []) \<and>
    (STX = NAK \<longrightarrow> \<not> vr_ok r \<and> vr_output r = [] \<and> vr_errors r = [''2''])"
    by (intro answer_passed_on [where chunks = "[[STX], ''2'']" and tmo = 30 and req = "''1+1''"])
      (simp_all add: sample_guard two_def MAX_RESPONSE_SIZE_def is_ascii_def)
  then show ?thesis by blast
qed

text \<open>
  The excerpt for the command log is cut at byte 200 after the request was transmitted and
  answered; in the middle of a character that is a panic, and the caller never sees the answer.
\<close>

theorem excerpt_panics_after_sending:
  assumes "200 < length code" "\<not> is_char_boundary code 200" "data \<noteq> []" "hd data \<noteq> STX"
    and "exchange t req (attempt_at env i) = ([Sent req], Inr data)"
  shows "drain_loop env c policy t code req (Suc left) i = ([Sent req], Panicked)"
  using assms drain_answered [of t req env i "[Sent req]" data c policy code left]
  by (simp add: finish_def log_excerpt_def)

lemma accent_at_200: "\<not> is_char_boundary (replicate 199 CHR ''a'' @ map char_of [195, 169 :: nat]) 200"
  by (simp add: is_char_boundary_def byte_at_def cont_byte_def nth_append)

end
