(* ===== verification/Skill_Requests.thy ===== *)
theory Skill_Requests
  imports Skill_Client_Facts Ownership
begin

text \<open>
  The requests of \<open>src/client/bridge.rs\<close> that are built on \<open>execute_skill\<close>: the SKILL texts, the probes,
  the batch fetch and the reading of the current design, with the cell-view guard of
  \<open>src/client/schematic_ops.rs\<close>; the guard against another user's daemon; and the names of scratch
  directories.
\<close>

section \<open>SKILL texts\<close>

definition EDIT_CV :: string where
  \<open>EDIT_CV = ''let((w) w = hiGetCurrentWindow() when(w && w->cellView geGetEditCellView()))''\<close>

definition cv_guard :: string where
  \<open>cv_guard =
     ''when(boundp('' @ [CHR 0x27] @ ''RB_SCH_CV) let((probe) probe = nil '' @
     ''errset(probe = RB_SCH_CV~>cellViewType) when(probe cv = RB_SCH_CV))) '' @
     ''when(!cv error("No cellview open '' @ map char_of [226, 128, 148 :: nat] @ '' run '' @ [CHR 0x27]
       @ ''vcli schematic open lib/cell/view'' @ [CHR 0x27] @ '' first"))''\<close>

definition build_fetch_skill :: "string \<Rightarrow> string list \<Rightarrow> string" where
  "build_fetch_skill list_expr slots =
     ''mapcar(lambda((o) list('' @ join '' '' (map (\<lambda>f. ''o~>'' @ f) slots) @ '')) '' @ list_expr @ '')''"

definition view_type_of :: "string \<Rightarrow> string" where
  "view_type_of v =
     (if v = ''layout'' then ''maskLayout'' else if v = ''symbol'' then ''schematicSymbol'' else v)"

definition build_open_cell_view_skill :: "string \<Rightarrow> string \<Rightarrow> string \<Rightarrow> string \<Rightarrow> string" where
  \<open>build_open_cell_view_skill lib cell view mode =
     (let view_type = escape_string (view_type_of view);
          lib = escape_string lib; cell = escape_string cell;
          view = escape_string view; mode = escape_string mode in
      ''let((exists writable) writable = !(strcmp("'' @ mode @ ''" "r")==0) exists = ddGetObj("'' @ lib
      @ ''" "'' @ cell @ ''" "'' @ view @ ''") when(!exists if(writable then let((ncv) ncv = dbOpenCellViewByType("''
      @ lib @ ''" "'' @ cell @ ''" "'' @ view @ ''" "'' @ view_type
      @ ''" "a") when(ncv dbSave(ncv) dbClose(ncv))) else error("cell.open: '' @ lib @ ''/'' @ cell @ ''/'' @ view
      @ '' not found and mode is read-only '' @ map char_of [226, 128, 148 :: nat]
      @ '' create it first"))) deOpenCellView("'' @ lib @ ''" "'' @ cell @ ''" "'' @ view @ ''" "'' @ view_type
      @ ''" nil "'' @ mode @ ''"))'')\<close>

definition save_cellview_skill :: string where
  "save_cellview_skill = ''let((cv) cv = '' @ EDIT_CV @ '' '' @ cv_guard @ '' dbSave(cv))''"

definition current_design_skill :: string where
  "current_design_skill =
     ''let((cv) cv = '' @ EDIT_CV @ '' '' @ cv_guard @ '' list(cv~>libName cv~>cellName cv~>viewName))''"

definition skill_read_file :: "string \<Rightarrow> string" where
  \<open>skill_read_file path =
     ''let((p line body)'' @ [newline] @ ''  p = infile("'' @ escape_string path @ ''")'' @ [newline]
     @ ''  body = ""'' @ [newline] @ ''  when(p'' @ [newline]
     @ ''    while(gets(line p) body = strcat(body line))'' @ [newline] @ ''    close(p))'' @ [newline] @ ''  body)''\<close>

definition operations_skill :: "string list \<Rightarrow> string" where
  "operations_skill commands = ''progn('' @ [newline] @ join [newline] commands @ [newline] @ '')''"

definition ciw_print_skill :: "string \<Rightarrow> string" where
  \<open>ciw_print_skill message =
     ''printf("[virtuoso-cli] '' @ escape_string message @ [backslash] @ ''n")''\<close>

section \<open>Requests\<close>

type_synonym 'a run = "skill_effect list \<times> 'a ending"

text \<open>What a caller does with a result; a panic or an error of the call ends the caller too.\<close>

definition and_then :: "'a run \<Rightarrow> ('a \<Rightarrow> virtuoso_error + 'b) \<Rightarrow> 'b run" where
  "and_then rn f =
     (fst rn, case snd rn of Done r \<Rightarrow> Done (bindR r f) | Panicked \<Rightarrow> Panicked)"

definition open_cell_view ::
  "bridge_env \<Rightarrow> client \<Rightarrow> string \<Rightarrow> string \<Rightarrow> string \<Rightarrow> string \<Rightarrow> virtuoso_result run" where
  "open_cell_view env c lib cell view mode =
     execute_skill_unchecked env c (build_open_cell_view_skill lib cell view mode) None"

definition save_current_cellview :: "bridge_env \<Rightarrow> client \<Rightarrow> virtuoso_result run" where
  "save_current_cellview env c = execute_skill_unchecked env c save_cellview_skill None"

definition test_connection :: "bridge_env \<Rightarrow> client \<Rightarrow> u64 option \<Rightarrow> bool run" where
  "test_connection env c t =
     and_then (execute_skill_idempotent_probe env c ''1+1'' t) (\<lambda>r. Inr (trim (vr_output r) = ''2''))"

text \<open>A raw string literal: the backslash and the line end it is written over are part of the text.\<close>

definition version_skill :: string where
  \<open>version_skill =
     ''let((v) v = if(boundp('' @ [CHR 0x27] @ ''RBDVersion) then RBDVersion else nil) '' @ [backslash, newline]
     @ ''            if(v && v != "" && v != "?" then v else nil))''\<close>

definition user_skill :: string where
  \<open>user_skill = ''let((u) u = getShellEnvVar("USER") if(u && u != "" then u else nil))''\<close>

definition named_answer :: "virtuoso_result \<Rightarrow> string option" where
  "named_answer r =
     (if \<not> skill_ok r then None
      else (let v = trim_quotes (trim (vr_output r)) in if v = [] \<or> v = ''nil'' then None else Some v))"

definition get_daemon_version :: "bridge_env \<Rightarrow> client \<Rightarrow> string option run" where
  "get_daemon_version env c =
     and_then (execute_skill_idempotent_probe env c version_skill (Some 5)) (\<lambda>r. Inr (named_answer r))"

definition get_daemon_user :: "bridge_env \<Rightarrow> client \<Rightarrow> string option run" where
  "get_daemon_user env c =
     and_then (execute_skill_idempotent_probe env c user_skill None) (\<lambda>r. Inr (named_answer r))"

definition daemon_alive :: "bridge_env \<Rightarrow> client \<Rightarrow> bool run" where
  "daemon_alive env c =
     (let (effs, e) = execute_skill_idempotent_probe env c ''plus(1 1)'' (Some 3) in
      (effs, case e of Done (Inr r) \<Rightarrow> Done (Inr (skill_ok r)) | Done (Inl _) \<Rightarrow> Done (Inr False) | Panicked \<Rightarrow> Panicked))"

definition ping :: "bridge_env \<Rightarrow> client \<Rightarrow> unit run" where
  "ping env c =
     and_then (execute_skill_unchecked env c ''plus(1 1)'' (Some 5000))
       (\<lambda>r. if skill_ok r then Inr () else Inl (Execution ''ping failed''))"

text \<open>\<open>execute_operations\<close> on a non-empty list runs raw SKILL; on the empty list it does nothing.\<close>

definition execute_operations ::
  "bridge_env \<Rightarrow> client \<Rightarrow> string list \<Rightarrow> process \<Rightarrow> virtuoso_result run \<times> process" where
  "execute_operations env c commands pr =
     (if commands = [] then (([], Done (Inr (vr_success []))), pr)
      else execute_skill env c (operations_skill commands) None pr)"

definition ciw_print :: "bridge_env \<Rightarrow> client \<Rightarrow> string \<Rightarrow> process \<Rightarrow> virtuoso_result run \<times> process" where
  "ciw_print env c message pr = execute_skill env c (ciw_print_skill message) None pr"

section \<open>Fetching slots\<close>

text \<open>A row is the map built from the slots and the values, the last of equal slots winning.\<close>

definition fetch_row :: "string list \<Rightarrow> sexp \<Rightarrow> (string \<rightharpoonup> string) option" where
  "fetch_row slots item =
     (case sexp_to_str_list item of
        None \<Rightarrow> None
      | Some vals \<Rightarrow>
          if length vals \<noteq> length slots then None
          else Some (foldl (\<lambda>m (k, v). m(k \<mapsto> or_empty v)) Map.empty (zip slots vals)))"

fun fetch_rows :: "string list \<Rightarrow> sexp \<Rightarrow> virtuoso_error + (string \<rightharpoonup> string) list" where
  "fetch_rows slots Nil_val = Inr []"
| "fetch_rows slots (SList items) = Inr (List.map_filter (fetch_row slots) items)"
| "fetch_rows slots _ = Inl (Execution ''execute_skill_fetch: expected list from SKILL'')"

definition fetch_result :: "string list \<Rightarrow> virtuoso_result \<Rightarrow> virtuoso_error + (string \<rightharpoonup> string) list" where
  "fetch_result slots r =
     (if \<not> vr_ok r then Inl (Execution (''execute_skill_fetch failed: '' @ first_or_empty (vr_errors r)))
      else bindR (parse_sexp (vr_output r)) (fetch_rows slots))"

definition execute_skill_fetch ::
  "bridge_env \<Rightarrow> client \<Rightarrow> string \<Rightarrow> string list \<Rightarrow> process \<Rightarrow> (string \<rightharpoonup> string) list run \<times> process" where
  "execute_skill_fetch env c list_expr slots pr =
     (if slots = [] then (([], Done (Inr [])), pr)
      else (let (rn, pr') = execute_skill env c (build_fetch_skill list_expr slots) None pr in
            (and_then rn (fetch_result slots), pr')))"

definition design_token :: "sexp \<Rightarrow> virtuoso_error + string" where
  "design_token v =
     (case sexp_as_str v of
        Some s \<Rightarrow> Inr s
      | None \<Rightarrow> Inl (Execution ''unexpected token in cellview list''))"

fun design_of :: "sexp \<Rightarrow> virtuoso_error + string \<times> string \<times> string" where
  "design_of (SList (a # b # d # rest)) =
     bindR (design_token a) (\<lambda>lib. bindR (design_token b) (\<lambda>cell. bindR (design_token d) (\<lambda>view.
       Inr (lib, cell, view))))"
| "design_of _ = Inl (Execution ''failed to get current design'')"

definition get_current_design :: "bridge_env \<Rightarrow> client \<Rightarrow> (string \<times> string \<times> string) run" where
  "get_current_design env c =
     and_then (execute_skill_unchecked env c current_design_skill None)
       (\<lambda>r. bindR (parse_sexp (trim (vr_output r))) design_of)"

section \<open>Whose daemon\<close>

definition guard_cross_user :: "session_info \<Rightarrow> string option \<Rightarrow> bool \<Rightarrow> virtuoso_error + unit" where
  "guard_cross_user s expected_user allow =
     (let expected = (case expected_user of Some u \<Rightarrow> trim u | None \<Rightarrow> []) in
      if expected = [] then Inr ()
      else case si_daemon_user s of
        None \<Rightarrow> Inr ()
      | Some u \<Rightarrow>
          if u = expected then Inr ()
          else if allow then Inr ()
          else Inl (Connection (''daemon Unix user '' @ quoted u @ '' does not match configured remote_user ''
             @ quoted expected @ '' for session '' @ quoted (si_id s)
             @ ''. Set allow_cross_user_daemon: true (env VB_ALLOW_CROSS_USER_DAEMON=1) to override if you intentionally want to connect.'')))"

section \<open>Scratch directories\<close>

definition safe_id_char :: "char \<Rightarrow> bool" where
  "safe_id_char c \<longleftrightarrow> is_alpha c \<or> is_digit c \<or> c = CHR ''-'' \<or> c = CHR ''_'' \<or> c = CHR ''.''"

text \<open>One character for each of the text: bytes that continue a character do not count.\<close>

definition sanitize_client_id :: "string \<Rightarrow> string" where
  "sanitize_client_id s =
     map (\<lambda>c. if safe_id_char c then c else CHR ''_'') (filter (\<lambda>c. \<not> cont_byte (of_char c)) s)"

definition blank :: "string option \<Rightarrow> bool" where
  "blank x \<longleftrightarrow> (case x of None \<Rightarrow> True | Some s \<Rightarrow> trim s = [])"

text \<open>The arguments: \<open>VB_CLIENT_ID\<close>, \<open>VB_PROFILE\<close>, \<open>HOSTNAME\<close> and what \<open>gethostname\<close> gives.\<close>

definition resolve_client_id :: "string option \<Rightarrow> string option \<Rightarrow> string option \<Rightarrow> string option \<Rightarrow> string" where
  "resolve_client_id client_id prof hostname sys_host =
     (if \<not> blank client_id then sanitize_client_id (trim (the client_id))
      else if \<not> blank prof then sanitize_client_id (trim (the prof))
      else sanitize_client_id
             (if \<not> blank hostname then the hostname
              else case sys_host of Some h \<Rightarrow> h | None \<Rightarrow> ''default''))"

definition remote_scratch_root where
  "remote_scratch_root client_id prof hostname sys_host =
     ''/tmp/virtuoso_bridge/'' @ resolve_client_id client_id prof hostname sys_host"

end
