(* ===== verification/Client_Connect.thy ===== *)
theory Client_Connect
  imports Skill_Requests Backend Sessions
begin

text \<open>
  \<open>VirtuosoClient::from_config\<close> of \<open>src/client/bridge.rs\<close>: which daemon a client connects to, and the
  checks before it does; and facts about the requests of \<open>Skill_Requests\<close>.
\<close>

section \<open>Choosing the port\<close>

text \<open>
  \<open>ce_tunnel\<close>: the profile's tunnel state, when it can be read; \<open>ce_saved_port\<close>: the port a second
  reading of it gives; \<open>ce_listening\<close>: the local ports that accept a connection; \<open>ce_session\<close>:
  \<open>VB_SESSION\<close>; \<open>ce_load\<close>, \<open>ce_sessions\<close>: the session files, by id and in their listing.
\<close>

record connect_env =
  ce_tunnel :: "tunnel_state option"
  ce_saved_port :: "u16 option"
  ce_listening :: "u16 \<Rightarrow> bool"
  ce_session :: "string option"
  ce_load :: "string \<Rightarrow> string + session_info"
  ce_sessions :: "session_info list"

definition list_alive :: "connect_env \<Rightarrow> session_info list" where
  "list_alive env = filter (\<lambda>s. ce_listening env (si_port s)) (ce_sessions env)"

text \<open>Whether a tunnel client is kept: the state belongs to the target and its port is open.\<close>

definition reusable_tunnel :: "connect_env \<Rightarrow> command_context \<Rightarrow> virtuoso_error + bool" where
  "reusable_tunnel env ctx =
     (if \<not> is_remote (cx_config ctx) then Inr False
      else case ce_tunnel env of
        None \<Rightarrow> Inr False
      | Some st \<Rightarrow>
          bindR (validate_tunnel_ownership ctx st) (\<lambda>_.
            if ce_listening env (ts_port st)
            then (case require_openssh (cx_config ctx) of
                    Inl e \<Rightarrow> Inl (virtuoso_of_transport e)
                  | Inr _ \<Rightarrow> Inr True)
            else Inr False))"

definition choose_session :: "connect_env \<Rightarrow> config \<Rightarrow> virtuoso_error + u16 \<times> session_info option" where
  "choose_session env cfg =
     (case ce_session env of
        Some sid \<Rightarrow>
          (case ce_load env sid of
             Inr s \<Rightarrow> Inr (si_port s, Some s)
           | Inl e \<Rightarrow> Inl (Config (''session '' @ quoted sid @ '' not found: '' @ e
                 @ ''. Run `vcli session list`.'')))
      | None \<Rightarrow>
          (case list_alive env of
             [] \<Rightarrow> Inr (port cfg, None)
           | [s] \<Rightarrow> Inr (si_port s, Some s)
           | ss \<Rightarrow> Inl (Config (''multiple Virtuoso sessions active: '' @ join '', '' (map si_id ss)
                 @ ''. Use --session <id> to select one.''))))"

definition choose_port ::
  "connect_env \<Rightarrow> config \<Rightarrow> bool \<Rightarrow> virtuoso_error + u16 \<times> session_info option" where
  "choose_port env cfg tunnel =
     (case (tunnel, ce_saved_port env) of
        (True, Some p) \<Rightarrow> Inr (p, None)
      | _ \<Rightarrow> choose_session env cfg)"

definition check_session :: "command_context \<Rightarrow> session_info option \<Rightarrow> virtuoso_error + unit" where
  "check_session ctx so =
     (case so of
        None \<Rightarrow> Inr ()
      | Some s \<Rightarrow>
          bindR (guard_cross_user s (remote_user (cx_config ctx)) (allow_cross_user_daemon (cx_config ctx)))
            (\<lambda>_. validate_session_ownership ctx s))"

definition client_from_config ::
  "(string \<Rightarrow> string) \<Rightarrow> string option \<Rightarrow> connect_env \<Rightarrow> config \<Rightarrow> string option \<Rightarrow> virtuoso_error + client" where
  "client_from_config sha256_hex caps_var env cfg target =
     (let ctx = context_new sha256_hex cfg target in
      bindR (reusable_tunnel env ctx) (\<lambda>tunnel.
      bindR (choose_port env cfg tunnel) (\<lambda>(p, so).
      bindR (check_session ctx so) (\<lambda>_.
      Inr \<lparr> cl_host = ''127.0.0.1'', cl_port = p, cl_timeout = cfg_timeout cfg,
            cl_read_timeout = read_timeout cfg, cl_session_id = map_option si_id so,
            cl_whitelist = wl_strict, cl_capabilities = caps_from_env caps_var \<rparr>))))"

section \<open>Whose daemon a client talks to\<close>

lemma guard_cross_user_iff:
  "is_ok (guard_cross_user s expected allow) \<longleftrightarrow>
     blank expected \<or> allow \<or> si_daemon_user s = None \<or> si_daemon_user s = Some (trim (the expected))"
  by (cases expected) (auto simp: guard_cross_user_def blank_def Let_def split: option.splits)

lemma check_session_Some:
  "check_session ctx (Some s) = Inr u \<Longrightarrow>
     owns_endpoint ctx (si_host s) (si_port s) \<and>
     (blank (remote_user (cx_config ctx)) \<or> allow_cross_user_daemon (cx_config ctx) \<or> si_daemon_user s = None
        \<or> si_daemon_user s = Some (trim (the (remote_user (cx_config ctx)))))"
  using guard_cross_user_iff [of s "remote_user (cx_config ctx)" "allow_cross_user_daemon (cx_config ctx)"]
    validate_session_iff [of ctx s]
  by (auto simp: check_session_def is_ok_def bindR_Inr_iff)

lemma choose_session_Inr:
  "choose_session env cfg = Inr (p, so) \<Longrightarrow>
     (case so of None \<Rightarrow> p = port cfg \<and> ce_session env = None \<and> list_alive env = []
      | Some s \<Rightarrow> p = si_port s \<and> (case ce_session env of Some sid \<Rightarrow> ce_load env sid = Inr s | None \<Rightarrow> list_alive env = [s]))"
  by (auto simp: choose_session_def split: option.splits sum.splits list.splits)

lemma reusable_tunnel_True:
  "reusable_tunnel env ctx = Inr True \<Longrightarrow>
     \<exists>st. ce_tunnel env = Some st \<and> is_remote (cx_config ctx) \<and> ce_listening env (ts_port st)
       \<and> owns_endpoint ctx (ts_remote_host st) (tunnel_remote_port st)"
  using validate_tunnel_iff [of ctx]
  by (auto simp: reusable_tunnel_def bindR_Inr_iff is_ok_def split: if_splits option.splits sum.splits)

text \<open>
  C12: A client is connected only to what belongs to the selected target.  It talks to this machine;
  and its port is the port of a session that the target owns and whose recorded daemon user, when
  there is one, is the configured user (when one is configured and the check is not switched off), chosen by \<open>VB_SESSION\<close> or as
  the only live one; or the port saved for a tunnel whose state the target owns, for which no user is checked; or, when no
  session is alive and none was asked for, the configured port.
\<close>

theorem client_connects_to_its_own:
  assumes "client_from_config sha256_hex caps_var env cfg target = Inr c"
    and "ctx = context_new sha256_hex cfg target"
  shows "cl_host c = ''127.0.0.1'' \<and>
    ((\<exists>s. cl_session_id c = Some (si_id s) \<and> cl_port c = si_port s \<and> owns_endpoint ctx (si_host s) (si_port s)
        \<and> (case ce_session env of Some sid \<Rightarrow> ce_load env sid = Inr s | None \<Rightarrow> list_alive env = [s])
        \<and> (blank (remote_user cfg) \<or> allow_cross_user_daemon cfg \<or> si_daemon_user s = None
            \<or> si_daemon_user s = Some (trim (the (remote_user cfg)))))
     \<or> (\<exists>st. cl_session_id c = None \<and> ce_tunnel env = Some st \<and> ce_saved_port env = Some (cl_port c)
          \<and> owns_endpoint ctx (ts_remote_host st) (tunnel_remote_port st))
     \<or> cl_session_id c = None \<and> cl_port c = port cfg \<and> ce_session env = None \<and> list_alive env = [])"
proof -
  obtain tunnel p so u where t: "reusable_tunnel env ctx = Inr tunnel" and p: "choose_port env cfg tunnel = Inr (p, so)"
      and s: "check_session ctx so = Inr u"
      and c: "cl_host c = ''127.0.0.1''" "cl_port c = p" "cl_session_id c = map_option si_id so"
    using assms by (auto simp: client_from_config_def Let_def bindR_Inr_iff)
  have cfg: "cx_config ctx = cfg" using assms(2) by (simp add: context_new_def)
  show ?thesis
  proof (cases "tunnel \<and> ce_saved_port env \<noteq> None")
    case True
    with p have "so = None" "ce_saved_port env = Some p" by (auto simp: choose_port_def)
    with True t c reusable_tunnel_True [of env ctx] show ?thesis by auto
  next
    case False
    with p have "choose_session env cfg = Inr (p, so)"
      by (auto simp: choose_port_def split: option.splits bool.splits)
    note ch = choose_session_Inr [OF this]
    show ?thesis
    proof (cases so)
      case None
      with ch c show ?thesis by simp
    next
      case (Some s')
      with ch c s check_session_Some [of ctx s' u] cfg show ?thesis by auto
    qed
  qed
qed

definition one_live_session :: connect_env where
  "one_live_session =
     \<lparr> ce_tunnel = None, ce_saved_port = None, ce_listening = (\<lambda>p. p = 3000), ce_session = None,
       ce_load = (\<lambda>_. Inl ''none''), ce_sessions = [sample_session] \<rparr>"

theorem client_connects_to_its_own_witness:
  "\<exists>c. client_from_config id None one_live_session plain_config (Some ''lab'') = Inr c \<and> cl_port c = 3000
     \<and> owns_endpoint (context_new id plain_config (Some ''lab'')) ''n42'' 3000"
proof -
  have cfg: "remote_host plain_config = None" "remote_user plain_config = None" "port_explicit plain_config = False"
    by (simp_all add: plain_config_def from_target_def default_target_def default_port_def or_empty_def nonblank_def)
  have own: "owns_endpoint (context_new id plain_config (Some ''lab'')) (si_host sample_session) (si_port sample_session)"
    by (simp add: owns_endpoint_def context_new_def cfg or_empty_def)
  have alive: "list_alive one_live_session = [sample_session]"
    by (simp add: list_alive_def one_live_session_def sample_session_def)
  then have "choose_port one_live_session plain_config False = Inr (3000, Some sample_session)"
    by (simp add: choose_port_def choose_session_def) (simp add: one_live_session_def sample_session_def)
  moreover have "reusable_tunnel one_live_session (context_new id plain_config (Some ''lab'')) = Inr False"
    by (simp add: reusable_tunnel_def context_new_def is_remote_def cfg)
  moreover have "check_session (context_new id plain_config (Some ''lab'')) (Some sample_session) = Inr ()"
    using own guard_cross_user_iff [of sample_session None] validate_session_iff [of "context_new id plain_config (Some ''lab'')" sample_session]
    by (auto simp: check_session_def context_new_def cfg blank_def is_ok_def bindR_Inr_iff)
  ultimately obtain c where c: "client_from_config id None one_live_session plain_config (Some ''lab'') = Inr c"
    by (simp add: client_from_config_def)
  from client_connects_to_its_own [OF c refl] alive show ?thesis
    using c by (auto simp: one_live_session_def sample_session_def list_alive_def)
qed

section \<open>Reading rows\<close>

text \<open>A fetched cell: \<open>nil\<close>, or a string.\<close>

fun cell_sexp :: "string option \<Rightarrow> sexp" where
  "cell_sexp None = Nil_val"
| "cell_sexp (Some s) = Str s"

definition row_sexp :: "string option list \<Rightarrow> sexp" where
  "row_sexp row = SList (map cell_sexp row)"

definition plain_row :: "string option list \<Rightarrow> bool" where
  "plain_row row \<longleftrightarrow> (\<forall>s. Some s \<in> set row \<longrightarrow> list_all plain_char s)"

lemma fold_update_zip:
  "distinct ks \<Longrightarrow> length vs = length ks \<Longrightarrow> k \<notin> set ks \<Longrightarrow>
     foldl (\<lambda>m (k, v). m(k \<mapsto> or_empty v)) m (zip ks vs) k = m k"
  by (induction ks arbitrary: vs m) (auto simp: length_Suc_conv)

lemma foldl_zip_map_of:
  "distinct ks \<Longrightarrow> length vs = length ks \<Longrightarrow>
     foldl (\<lambda>m (k, v). m(k \<mapsto> or_empty v)) m (zip ks vs) = m ++ map_of (zip ks (map or_empty vs))"
proof (induction ks arbitrary: vs m)
  case (Cons k ks)
  then obtain v vs' where vs: "vs = v # vs'" "length vs' = length ks" by (auto simp: length_Suc_conv)
  have "k \<notin> dom (map_of (zip ks (map or_empty vs')))"
    using Cons.prems vs by (auto simp: dom_map_of_conv_image_fst set_zip in_set_conv_nth)
  then have "m(k \<mapsto> or_empty v) ++ map_of (zip ks (map or_empty vs')) =
      m ++ (map_of (zip ks (map or_empty vs')))(k \<mapsto> or_empty v)"
    by (auto simp: map_add_def fun_eq_iff split: option.splits)
  with Cons vs show ?case by (simp del: fun_upd_apply)
qed simp

text \<open>
  A batch fetch returns what SKILL listed: when the daemon answers with the printed form of a
  list of rows, each with one value per slot, \<open>nil\<close> or a string of printable ASCII text, newlines
  and tabs, the fetch gives one map per row, in order, that takes each slot to its value, with the
  empty text for \<open>nil\<close>.
\<close>

theorem fetch_returns_rows:
  assumes "distinct slots" "\<forall>row \<in> set rows. length row = length slots \<and> plain_row row"
    and "vr_ok r" "vr_output r = print_sexp (SList (map row_sexp rows))"
  shows "fetch_result slots r = Inr (map (\<lambda>row. map_of (zip slots (map or_empty row))) rows)"
proof -
  have cells: "sexp_val_to_opt_str (cell_sexp x) = x" for x by (cases x) simp_all
  have "printable (cell_sexp x)" if "plain_row row" "x \<in> set row" for x row
    using that by (cases x) (auto simp: plain_row_def)
  then have "printable (SList (map row_sexp rows))"
    using assms(2) by (auto simp: list_all_iff row_sexp_def)
  then have "parse_sexp (vr_output r) = Inr (SList (map row_sexp rows))"
    unfolding assms(4) by (rule parse_print)
  moreover have "List.map_filter (fetch_row slots) (map row_sexp rows) =
      map (\<lambda>row. map_of (zip slots (map or_empty row))) rows"
    using assms(1,2)
    by (induction rows) (simp_all add: map_filter_def fetch_row_def row_sexp_def foldl_zip_map_of cells comp_def)
  ultimately show ?thesis
    using assms(3) by (simp add: fetch_result_def)
qed

theorem fetch_returns_rows_witness:
  "fetch_result [''name'', ''status''] (vr_success (print_sexp (SList [row_sexp [Some ''fnx0'', None]])))
     = Inr [map_of [(''name'', ''fnx0''), (''status'', [])]]"
  using fetch_returns_rows [of "[''name'', ''status'']" "[[Some ''fnx0'', None]]"
      "vr_success (print_sexp (SList [row_sexp [Some ''fnx0'', None]]))"]
  by (simp add: plain_row_def plain_char_def is_control_def vr_ok_def vr_success_def or_empty_def)

section \<open>Two oddities\<close>

text \<open>A client identifier of two dots names the parent of the scratch directories.\<close>

lemma dots_leave_scratch_root:
  "remote_scratch_root (Some ''..'') prof hostname sys_host = ''/tmp/virtuoso_bridge/..''"
  by (simp add: remote_scratch_root_def resolve_client_id_def blank_def sanitize_client_id_def safe_id_char_def
      trim_def is_space_def cont_byte_def)

text \<open>The heartbeat's ping allows the daemon 5000 seconds, not milliseconds, for each connection.\<close>

lemma ping_budget:
  "request_json env = (\<lambda>code t. if t = 5000 then Inl e else Inr code) \<Longrightarrow>
     socket_addr env = (\<lambda>_. Inr ()) \<Longrightarrow> cl_whitelist c = wl_strict \<Longrightarrow> ping env c = ([], Done (Inl (Json e)))"
proof -
  assume env: "request_json env = (\<lambda>code t. if t = 5000 then Inl e else Inr code)"
    "socket_addr env = (\<lambda>_. Inr ())" "cl_whitelist c = wl_strict"
  have "wl_check wl_strict ''plus(1 1)'' = None" "check_blocking_skill ''plus(1 1)'' = None" by code_simp+
  with env show ?thesis
    by (simp add: ping_def and_then_def execute_skill_unchecked_def execute_skill_with_bypass_def
        execute_skill_with_policy_def guard_skill_def)
qed

end
