(* ===== verification/Skill_Template.thy ===== *)
theory Skill_Template
  imports Skill_Text
begin

text \<open>
  How the \<open>*_ops.rs\<close> files of \<open>src/client\<close> write SKILL: a \<open>format!\<close> text with arguments put in.

  A template is the list of its pieces in order: fixed text (\<open>T\<close>, in which a backquote stands for a
  backslash), an argument that went through \<open>escape_skill_string\<close> (\<open>A\<close>), and a value put in as it is
  (\<open>N\<close>: a rendered number, a choice of the code's own).  \<open>render\<close> is the text that results.

  The reader's view of such a text is \<open>code_text\<close>: everything outside its string literals.  The
  theorem of this theory is that a template whose arguments all stand inside string literals
  (\<open>tpl_ok\<close>, a check that evaluates) has the same code whatever the arguments are.
\<close>

section \<open>Templates\<close>

datatype piece = T string | A string | N string

definition tpl_text :: "string \<Rightarrow> string" where
  "tpl_text s = map (\<lambda>c. if c = CHR ''`'' then backslash else c) s"

fun piece_text :: "piece \<Rightarrow> string" where
  "piece_text (T s) = tpl_text s"
| "piece_text (A s) = escape_string s"
| "piece_text (N s) = s"

definition render :: "piece list \<Rightarrow> string" where
  "render ps = concat (map piece_text ps)"

section \<open>What is code and what is a literal\<close>

text \<open>
  The state of a reader: in which kind of text it is, and how many parentheses are open.  A string
  literal ends at the next quote that no backslash precedes; a comment runs from a semicolon to the
  end of the line.  A backslash outside a literal, or a parenthesis closed that was not open, is
  not expected.
\<close>

datatype lex = InCode | InLit | InEsc | InComment | Unexpected

type_synonym lex_state = "lex \<times> nat"

fun lex_step :: "lex_state \<Rightarrow> char \<Rightarrow> lex_state" where
  "lex_step (InCode, d) c =
     (if c = quote_char then (InLit, d) else if c = CHR ''('' then (InCode, Suc d)
      else if c = CHR '')'' then (case d of 0 \<Rightarrow> (Unexpected, 0) | Suc d' \<Rightarrow> (InCode, d'))
      else if c = CHR '';'' then (InComment, d) else if c = backslash then (Unexpected, d)
      else (InCode, d))"
| "lex_step (InLit, d) c =
     (if c = quote_char then (InCode, d) else if c = backslash then (InEsc, d) else (InLit, d))"
| "lex_step (InEsc, d) c = (InLit, d)"
| "lex_step (InComment, d) c = (if c = newline then (InCode, d) else (InComment, d))"
| "lex_step (Unexpected, d) c = (Unexpected, d)"

definition lex_end :: "lex_state \<Rightarrow> string \<Rightarrow> lex_state" where
  "lex_end st s = foldl lex_step st s"

text \<open>The text without the contents of its literals; the quote that opens one stays.\<close>

fun code_text :: "lex_state \<Rightarrow> string \<Rightarrow> string" where
  "code_text st [] = []"
| "code_text st (c # s) = (if fst st = InCode then [c] else []) @ code_text (lex_step st c) s"

definition skill_code :: "string \<Rightarrow> string" where
  "skill_code s = code_text (InCode, 0) s"

text \<open>A text that is read to its end outside every literal, with every parenthesis closed.\<close>

definition well_formed :: "string \<Rightarrow> bool" where
  "well_formed s \<longleftrightarrow> lex_end (InCode, 0) s = (InCode, 0)"

lemma lex_end_simps [simp]:
  "lex_end st [] = st"
  "lex_end st (c # s) = lex_end (lex_step st c) s"
  "lex_end st (s @ t) = lex_end (lex_end st s) t"
  by (simp_all add: lex_end_def)

lemma code_text_append: "code_text st (s @ t) = code_text st s @ code_text (lex_end st s) t"
  by (induction s arbitrary: st) auto

section \<open>An escaped argument stays in its literal\<close>

lemma escape_char_in_literal:
  "lex_end (InLit, d) (escape_char c) = (InLit, d) \<and> code_text (InLit, d) (escape_char c) = []"
  by (auto simp: escape_char_def)

lemma escape_in_literal:
  "lex_end (InLit, d) (escape_string s) = (InLit, d) \<and> code_text (InLit, d) (escape_string s) = []"
proof (induction s rule: escape_string.induct)
  case (2 c s)
  have "lex_end (InLit, d) [backslash, c] = (InLit, d)" "code_text (InLit, d) [backslash, c] = []"
    by simp_all
  with 2 escape_char_in_literal [of d c] show ?case
    by (auto simp: code_text_append)
qed simp

section \<open>The check\<close>

text \<open>A value put in as it is neither opens nor closes anything.\<close>

definition plain_char :: "char \<Rightarrow> bool" where
  "plain_char c \<longleftrightarrow> c \<notin> {quote_char, backslash, CHR '';'', newline, CHR ''('', CHR '')''}"

definition plain_value :: "string \<Rightarrow> bool" where
  "plain_value s \<longleftrightarrow> list_all plain_char s"

fun tpl_run :: "lex_state \<Rightarrow> piece list \<Rightarrow> lex_state option" where
  "tpl_run st [] = Some st"
| "tpl_run st (T s # ps) = tpl_run (lex_end st (tpl_text s)) ps"
| "tpl_run st (A s # ps) = (if fst st = InLit then tpl_run st ps else None)"
| "tpl_run st (N s # ps) =
     (if (fst st = InCode \<or> fst st = InLit) \<and> plain_value s then tpl_run st ps else None)"

definition tpl_ok :: "piece list \<Rightarrow> bool" where
  "tpl_ok ps \<longleftrightarrow> tpl_run (InCode, 0) ps = Some (InCode, 0)"

fun erase :: "piece \<Rightarrow> piece" where
  "erase (A s) = A []"
| "erase p = p"

lemma tpl_run_append: "tpl_run st (ps @ qs) = Option.bind (tpl_run st ps) (\<lambda>st'. tpl_run st' qs)"
  by (induction st ps rule: tpl_run.induct) auto

lemma plain_value_lex: "plain_value s \<Longrightarrow> fst st = InCode \<or> fst st = InLit \<Longrightarrow> lex_end st s = st"
  by (cases st, induction s) (auto simp: plain_value_def plain_char_def)

lemma render_Nil: "render [] = []"
  by (simp add: render_def)

lemma render_Cons: "render (p # ps) = piece_text p @ render ps"
  by (simp add: render_def)

lemma render_append: "render (ps @ qs) = render ps @ render qs"
  by (simp add: render_def)

lemma tpl_run_lex: "tpl_run st ps = Some st' \<Longrightarrow> lex_end st (render ps) = st'"
proof (induction st ps rule: tpl_run.induct)
  case (3 st s ps)
  then show ?case using escape_in_literal [of "snd st" s] by (cases st) (auto simp: render_Cons split: if_splits)
qed (auto simp: render_Cons render_Nil plain_value_lex split: if_splits)

lemma tpl_run_code:
  "tpl_run st ps = Some st' \<Longrightarrow> code_text st (render ps) = code_text st (render (map erase ps))"
proof (induction st ps rule: tpl_run.induct)
  case (3 st s ps)
  then show ?case using escape_in_literal [of "snd st" s]
    by (cases st) (auto simp: render_Cons code_text_append split: if_splits)
qed (auto simp: render_Cons render_Nil code_text_append plain_value_lex split: if_splits)

text \<open>
  The check in two parts: the fixed text, which evaluates, and the values put in as they are.
\<close>

fun tpl_check :: "lex_state \<Rightarrow> piece list \<Rightarrow> lex_state option" where
  "tpl_check st [] = Some st"
| "tpl_check st (T s # ps) = tpl_check (lex_end st (tpl_text s)) ps"
| "tpl_check st (A s # ps) = (if fst st = InLit then tpl_check st ps else None)"
| "tpl_check st (N s # ps) = (if fst st = InCode \<or> fst st = InLit then tpl_check st ps else None)"

fun plain_piece :: "piece \<Rightarrow> bool" where
  "plain_piece (N s) \<longleftrightarrow> plain_value s"
| "plain_piece _ \<longleftrightarrow> True"

lemma tpl_check_append: "tpl_check st (ps @ qs) = Option.bind (tpl_check st ps) (\<lambda>st'. tpl_check st' qs)"
  by (induction st ps rule: tpl_check.induct) auto

text \<open>A fragment that leaves the state as it finds it may be left out of the check.\<close>

lemma tpl_check_skip:
  "tpl_check st ps = Some st' \<Longrightarrow> tpl_check st' qs = Some st' \<Longrightarrow>
     tpl_check st (ps @ rs) = x \<Longrightarrow> tpl_check st (ps @ qs @ rs) = x"
  by (simp add: tpl_check_append)

lemma tpl_run_check: "tpl_check st ps = Some st' \<Longrightarrow> list_all plain_piece ps \<Longrightarrow> tpl_run st ps = Some st'"
  by (induction st ps rule: tpl_check.induct) (auto split: if_splits)

lemma tpl_okI: "tpl_check (InCode, 0) ps = Some (InCode, 0) \<Longrightarrow> list_all plain_piece ps \<Longrightarrow> tpl_ok ps"
  by (simp add: tpl_ok_def tpl_run_check)

section \<open>Data only\<close>

text \<open>
  Two texts that are the same program up to the contents of its literals, both well-formed.
\<close>

definition same_program :: "piece list \<Rightarrow> piece list \<Rightarrow> bool" where
  "same_program ps qs \<longleftrightarrow>
     skill_code (render ps) = skill_code (render qs) \<and> well_formed (render ps) \<and> well_formed (render qs)"

lemma tpl_run_erase [simp]: "tpl_run st (map erase ps) = tpl_run st ps"
  by (induction st ps rule: tpl_run.induct) auto

lemma tpl_ok_erase: "map erase ps = map erase qs \<Longrightarrow> tpl_ok ps \<longleftrightarrow> tpl_ok qs"
  unfolding tpl_ok_def by (metis tpl_run_erase)

lemma tpl_ok_well_formed: "tpl_ok ps \<Longrightarrow> well_formed (render ps)"
  by (simp add: tpl_ok_def well_formed_def tpl_run_lex)

lemma same_code:
  "tpl_ok ps \<Longrightarrow> tpl_ok qs \<Longrightarrow> map erase ps = map erase qs \<Longrightarrow>
     skill_code (render ps) = skill_code (render qs)"
  by (metis skill_code_def tpl_ok_def tpl_run_code)

text \<open>Two fillings of a template that passes the check are the same program.\<close>

lemma same_programI:
  assumes "tpl_check (InCode, 0) ps = Some (InCode, 0)" "list_all plain_piece ps"
    and "map erase ps = map erase qs"
  shows "same_program ps qs"
proof -
  have "tpl_ok ps" by (rule tpl_okI) fact+
  with tpl_ok_erase [OF assms(3)] have "tpl_ok qs" by simp
  with \<open>tpl_ok ps\<close> assms(3) show ?thesis
    unfolding same_program_def by (intro conjI same_code tpl_ok_well_formed)
qed

lemma plain_value_simps [simp]:
  "plain_value []" "plain_value (c # s) \<longleftrightarrow> plain_char c \<and> plain_value s"
  "plain_value (s @ t) \<longleftrightarrow> plain_value s \<and> plain_value t"
  by (simp_all add: plain_value_def)

lemma plain_digit: "is_digit c \<Longrightarrow> plain_char c"
  unfolding is_digit_def plain_char_def by (intro notI) (auto simp del: of_char_of)

lemma plain_join: "list_all plain_value xs \<Longrightarrow> plain_value sep \<Longrightarrow> plain_value (join sep xs)"
  by (induction sep xs rule: join.induct) auto

lemma plain_show_nat [simp]: "plain_value (show_nat n)"
  unfolding plain_value_def by (rule list.pred_mono_strong [OF show_nat_digits]) (rule plain_digit)

lemma plain_show_int [simp]: "plain_value (show_int i)"
  by (simp add: show_int_def plain_char_def)

section \<open>A value that is not plain\<close>

lemma lex_shift:
  "lex_step (l, d) c = (l', d') \<Longrightarrow> l' \<noteq> Unexpected \<Longrightarrow> lex_step (l, d + k) c = (l', d' + k)"
  by (cases l) (auto split: if_splits nat.splits)

lemma lex_end_Unexpected [simp]: "lex_end (Unexpected, d) s = (Unexpected, d)"
  by (induction s) auto

lemma lex_end_shift:
  "lex_end (l, d) s = (l', d') \<Longrightarrow> l' \<noteq> Unexpected \<Longrightarrow>
     lex_end (l, d + k) s = (l', d' + k) \<and> code_text (l, d + k) s = code_text (l, d) s"
proof (induction s arbitrary: l d)
  case (Cons c s)
  obtain m e where step: "lex_step (l, d) c = (m, e)" by (cases "lex_step (l, d) c")
  with Cons.prems have "m \<noteq> Unexpected" by (cases m) auto
  with step have "lex_step (l, d + k) c = (m, e + k)" by (rule lex_shift)
  with Cons step show ?case by auto
qed simp

text \<open>Well-formed text between other code is read as it would be alone.\<close>

lemma well_formed_inside:
  assumes "well_formed c"
  shows "lex_end (InCode, d) c = (InCode, d) \<and> code_text (InCode, d) c = skill_code c"
  using lex_end_shift [of InCode 0 c InCode 0 d] assms by (simp add: well_formed_def skill_code_def)

text \<open>
  What the check does not cover: a value put into the text as it is, at a place where the text is
  read in the state \<open>st\<close>.  If the value leaves the state as it was, what it has of code is part of
  the program.
\<close>

lemma code_in_hole:
  assumes ps: "tpl_check (InCode, 0) ps = Some st" "list_all plain_piece ps"
    and qs: "tpl_check st qs = Some (InCode, 0)" "list_all plain_piece qs"
    and v: "lex_end st v = st"
  shows "skill_code (render (ps @ N v # qs)) =
      skill_code (render ps) @ code_text st v @ code_text st (render qs)"
    and "well_formed (render (ps @ N v # qs))"
proof -
  have "lex_end (InCode, 0) (render ps) = st" "lex_end st (render qs) = (InCode, 0)"
    using ps qs by (simp_all add: tpl_run_lex tpl_run_check)
  with v show "skill_code (render (ps @ N v # qs)) =
      skill_code (render ps) @ code_text st v @ code_text st (render qs)"
    "well_formed (render (ps @ N v # qs))"
    by (simp_all add: skill_code_def well_formed_def render_append render_Cons code_text_append)
qed

end
