(* ===== verification/Schematic_Skill.thy ===== *)
theory Schematic_Skill
  imports Skill_Template Skill_Requests
begin

text \<open>
  \<open>src/client/schematic_ops.rs\<close>: the SKILL texts of the schematic operations, as templates
  (\<open>Skill_Template\<close>).  \<open>render\<close> of such a definition is the text the code's function returns.

  64-bit floats are a parameter: the record \<open>floats\<close> holds what the code does with them, their
  arithmetic and the two ways they are printed.  That no printed float contains a quote, a
  backslash, a semicolon, a newline or a parenthesis is the hypothesis \<open>plain_floats\<close>.
\<close>

section \<open>Floats\<close>

record 'f floats =
  fl_display :: "'f \<Rightarrow> string"
  fl_debug :: "'f \<Rightarrow> string"
  fl_of_int :: "int \<Rightarrow> 'f"
  fl_add :: "'f \<Rightarrow> 'f \<Rightarrow> 'f"
  fl_mul :: "'f \<Rightarrow> 'f \<Rightarrow> 'f"
  fl_div :: "'f \<Rightarrow> 'f \<Rightarrow> 'f"
  fl_eq :: "'f \<Rightarrow> 'f \<Rightarrow> bool"

definition plain_floats :: "'f floats \<Rightarrow> bool" where
  "plain_floats F \<longleftrightarrow> (\<forall>x. plain_value (fl_display F x) \<and> plain_value (fl_debug F x))"

definition fl_mid :: "'f floats \<Rightarrow> 'f \<Rightarrow> 'f \<Rightarrow> 'f" where
  "fl_mid F a b = fl_div F (fl_add F a b) (fl_of_int F 2)"

section \<open>Fragments\<close>

definition term_point :: "string \<Rightarrow> string \<Rightarrow> string \<Rightarrow> piece list" where
  \<open>term_point action inst_name term_name =
     [T ''inst = car(setof(i cv~>instances strcmp(i~>name "'', A inst_name,
      T ''")==0)) when(!inst error("'', N action, T '': no instance named '', A inst_name,
      T ''")) mterm = car(setof(mt inst~>master~>terminals strcmp(mt~>name "'', A term_name,
      T ''")==0)) when(!mterm error("'', N action, T '': master of '', A inst_name,
      T '' has no terminal '', A term_name, T ''")) pin = car(mterm~>pins) when(!pin error("'',
      N action, T '': terminal '', A term_name,
      T '' has no pin")) fig = pin~>fig when(!fig error("'', N action, T '': pin of '',
      A term_name,
      T '' has no figure")) bb = fig~>bBox pc = list((xCoord(car(bb))+xCoord(cadr(bb)))/2.0 '',
      T ''(yCoord(car(bb))+yCoord(cadr(bb)))/2.0) pt = dbTransformPoint(pc inst~>transform) pt = '',
      T ''list(xCoord(pt) yCoord(pt))'']\<close>

definition term_points_of :: "string \<Rightarrow> string \<Rightarrow> piece list" where
  \<open>term_points_of inst_var acc_var =
     [T ''foreach(mt '', N inst_var,
      T ''~>master~>terminals foreach(pn mt~>pins when(pn~>fig let((b c p) b = pn~>fig~>bBox c = '',
      T ''list((xCoord(car(b))+xCoord(cadr(b)))/2.0 (yCoord(car(b))+yCoord(cadr(b)))/2.0) p = '',
      T ''dbTransformPoint(c '', N inst_var, T ''~>transform) '', N acc_var,
      T '' = cons(list(xCoord(p) yCoord(p)) '', N acc_var, T '')))))'']\<close>

definition wires_touching :: "string \<Rightarrow> string \<Rightarrow> piece list" where
  \<open>wires_touching pts_var acc_var =
     [T ''foreach(p '', N pts_var,
      T '' foreach(f dbGetOverlaps(cv list(p p)) when(f~>objType == "line" && !exists(w '',
      N acc_var, T '' w == f) '', N acc_var, T '' = cons(f '', N acc_var, T ''))))'']\<close>

section \<open>Placing and moving\<close>

definition create_instance ::
  "'f floats \<Rightarrow> string \<Rightarrow> string \<Rightarrow> string \<Rightarrow> string \<Rightarrow> 'f \<times> 'f \<Rightarrow> string \<Rightarrow> piece list" where
  \<open>create_instance F lib cell view name origin orient =
     (let (x, y) = origin in
     [T ''let((cv master inst) cv = '', T EDIT_CV, T '' '', T cv_guard,
      T '' master = dbOpenCellViewByType("'', A lib, T ''" "'', A cell, T ''" "'', A view,
      T ''" nil "r") inst = dbCreateInst(cv master "'', A name, T ''" list('',
      N (fl_display F x), T '' '', N (fl_display F y), T '') "'', A orient, T ''" 1) inst)''])\<close>

fun set_orient :: "string option \<Rightarrow> piece list" where
  \<open>set_orient None = []\<close>
| \<open>set_orient (Some orient) = [T '' inst~>orient = "'', A orient, T ''"'']\<close>

definition wire_ownership :: "piece list" where
  \<open>wire_ownership =
     [T ''foreach(oi cv~>instances unless(oi == inst let((opts) opts = nil ''] @
     term_points_of ''oi'' ''opts'' @
     [T '' foreach(p opts foreach(f dbGetOverlaps(cv list(p p)) when(f~>objType == "line" && exists(w wires w '',
      T ''== f) && !exists(s shared s == f) shared = cons(f shared)))))))'']\<close>

definition orient_guard :: "piece list" where
  \<open>orient_guard =
     [T '' when(wires error("%s" sprintf(nil "move_instance: %s carries %d stub(s) and 'orient' would move '',
      T ''its terminals out from under them. Delete the stubs with 'schematic.delete_figure', move with the '',
      T ''new orient, then redraw them with 'schematic.label_term' '', T em_dash,
      T '' or pass with_stubs:false to move the symbol alone." inst~>name length(wires))))'']\<close>

definition move_instance ::
  "'f floats \<Rightarrow> string \<Rightarrow> 'f \<times> 'f \<Rightarrow> string option \<Rightarrow> bool \<Rightarrow> piece list" where
  \<open>move_instance F inst_name target orient with_stubs =
     (let (x, y) = target in
      if \<not> with_stubs then
     [T ''let((cv inst dx dy) cv = '', T EDIT_CV, T '' '', T cv_guard,
      T '' inst = car(setof(i cv~>instances strcmp(i~>name "'', A inst_name,
      T ''")==0)) when(!inst error("move_instance: no instance named '', A inst_name, T ''"))''] @
     set_orient orient @
     [T '' dx = '', N (fl_debug F x), T ''-xCoord(inst~>xy) dy = '', N (fl_debug F y),
      T ''-yCoord(inst~>xy) dbMoveFig(inst cv list(list(dx dy) "R0" 1.0)) sprintf(nil '',
      T ''"{`"status`":`"ok`",`"name`":%L,`"x`":%g,`"y`":%g,`"orient`":%L,`"with_stubs`":false,`"moved_stubs`"'',
      T '':0}" "'', A inst_name, T ''" xCoord(inst~>xy) yCoord(inst~>xy) inst~>orient))'']
      else
     [T ''let((cv inst dx dy pts wires shared nmoved) cv = '', T EDIT_CV, T '' '', T cv_guard,
      T '' inst = car(setof(i cv~>instances strcmp(i~>name "'', A inst_name,
      T ''")==0)) when(!inst error("move_instance: no instance named '', A inst_name,
      T ''")) pts = nil ''] @
     term_points_of ''inst'' ''pts'' @
     [T '' wires = nil ''] @
     wires_touching ''pts'' ''wires'' @
     [T '' shared = nil ''] @
     wire_ownership @
     [T '' when(shared error("%s" sprintf(nil "move_instance: %s shares %d wire(s) with another instance '',
      T em_dash,
      T '' moving it would tear them off the far end, and a torn connection only shows up in the exported '',
      T ''netlist. Delete them with 'schematic.delete_figure', or pass with_stubs:false to move the symbol '',
      T ''alone. First shared wire: %L" inst~>name length(shared) car(shared)~>bBox)))''] @
     (if orient \<noteq> None then orient_guard else []) @
     set_orient orient @
     [T '' dx = '', N (fl_debug F x), T ''-xCoord(inst~>xy) dy = '', N (fl_debug F y),
      T ''-yCoord(inst~>xy) dbMoveFig(inst cv list(list(dx dy) "R0" 1.0)) nmoved = 0 foreach(w wires '',
      T ''when(schMove(w cv list(list(dx dy) "R0")) nmoved = nmoved+1)) unless(nmoved == length(wires) '',
      T ''error("%s" sprintf(nil "move_instance: %s moved but schMove refused %d of its %d stub(s) '',
      T em_dash,
      T '' the drawing is now inconsistent and this cellview must not be saved" inst~>name '',
      T ''length(wires)-nmoved length(wires)))) sprintf(nil '',
      T ''"{`"status`":`"ok`",`"name`":%L,`"x`":%g,`"y`":%g,`"orient`":%L,`"with_stubs`":true,`"moved_stubs`":'',
      T ''%d}" "'', A inst_name, T ''" xCoord(inst~>xy) yCoord(inst~>xy) inst~>orient nmoved))''])\<close>

section \<open>Wires and labels\<close>

definition list_xy :: "'f floats \<Rightarrow> 'f \<times> 'f \<Rightarrow> piece list" where
  \<open>list_xy F p = [T ''list('', N (fl_debug F (fst p)), T '' '', N (fl_debug F (snd p)), T '')'']\<close>

text \<open>The pieces of the points, joined with spaces.\<close>

fun join_pieces :: "piece list list \<Rightarrow> piece list" where
  "join_pieces [] = []"
| "join_pieces [p] = p"
| "join_pieces (p # q # ps) = p @ [T '' ''] @ join_pieces (q # ps)"

definition wire_text :: "'f floats \<Rightarrow> piece list \<Rightarrow> string \<Rightarrow> 'f \<Rightarrow> 'f \<Rightarrow> string \<Rightarrow> piece list" where
  \<open>wire_text F pts net_name mid_x mid_y rot =
     [T ''let((cv wires lbl) cv = '', T EDIT_CV, T '' '', T cv_guard,
      T '' wires = schCreateWire(cv "draw" "full" list(''] @
     pts @
     [T '') 0.0625 0.0625 0.0) when(!wires error("create_wire: schCreateWire failed for net '',
      A net_name, T ''")) lbl = schCreateWireLabel(cv car(wires) list('', N (fl_debug F mid_x),
      T '' '', N (fl_debug F mid_y), T '') "'', A net_name, T ''" "centerCenter" "'', N rot,
      T ''" "stick" 0.0625 nil) when(!lbl error("create_wire: schCreateWireLabel failed for net '',
      A net_name, T ''")) sprintf(nil "'', A net_name, T '': %d segment(s)" length(wires)))'']\<close>

definition create_wire :: "'f floats \<Rightarrow> ('f \<times> 'f) list \<Rightarrow> string \<Rightarrow> piece list" where
  \<open>create_wire F points net_name =
     (case points of
        (x0, y0) # (x1, y1) # _ \<Rightarrow>
          wire_text F (join_pieces (map (list_xy F) points)) net_name (fl_mid F x0 x1) (fl_mid F y0 y1)
            (if fl_eq F x0 x1 then ''R90'' else ''R0'')
      | _ \<Rightarrow>
     [T ''error("create_wire: net '', A net_name, T '' needs at least two points, got '',
      N (show_nat (length points)), T ''")''])\<close>

definition create_wire_label :: "'f floats \<Rightarrow> string \<Rightarrow> 'f \<times> 'f \<Rightarrow> piece list" where
  \<open>create_wire_label F net_name origin =
     (let (x, y) = origin in
     [T ''let((cv figs wire lbl) cv = '', T EDIT_CV, T '' '', T cv_guard,
      T '' figs = dbGetOverlaps(cv list(list('', N (fl_debug F x), T '' '', N (fl_debug F y),
      T '') list('', N (fl_debug F x), T '' '', N (fl_debug F y),
      T ''))) wire = car(setof(f figs f~>objType == "line")) when(!wire error("label: no wire at ('',
      N (fl_debug F x), T '' '', N (fl_debug F y), T '') to name '', A net_name, T '' '',
      T em_dash, T '' draw the wire first")) lbl = schCreateWireLabel(cv wire list('',
      N (fl_debug F x), T '' '', N (fl_debug F y), T '') "'', A net_name,
      T ''" "centerCenter" "R0" "stick" 0.0625 nil) when(!lbl error("label: schCreateWireLabel failed for net '',
      A net_name, T ''")) sprintf(nil "'', A net_name, T '' @ ('', N (fl_debug F x), T '' '',
      N (fl_debug F y), T '')"))''])\<close>

section \<open>Pins\<close>

definition pin_master_for :: "string \<Rightarrow> (string \<times> string) option" where
  "pin_master_for direction =
     (if direction = ''input'' then Some (''ipin'', ''input'')
      else if direction = ''output'' then Some (''opin'', ''output'')
      else if direction = ''inputOutput'' then Some (''iopin'', ''inputOutput'')
      else if direction = ''switch'' then Some (''iopin'', ''switch'')
      else if direction = ''jumper'' then Some (''iopin'', ''jumper'')
      else None)"

definition unknown_pin_direction :: "string \<Rightarrow> virtuoso_error" where
  "unknown_pin_direction direction =
     Execution (''unknown pin direction '' @ quoted direction @
       '': expected one of input, output, inputOutput, switch, jumper'')"

definition PIN_ORIENTS :: "string list" where
  "PIN_ORIENTS = [''R0'', ''R90'', ''R180'', ''R270'', ''MY'', ''MYR90'', ''MX'', ''MXR90'']"

definition PIN_SIGTYPES :: "string list" where
  "PIN_SIGTYPES =
     [''analog'', ''clock'', ''ground'', ''power'', ''reset'', ''scan'', ''signal'', ''tieHi'', ''tieLo'', ''tieOff'']"

definition unknown_pin_orient :: "string \<Rightarrow> virtuoso_error" where
  "unknown_pin_orient orient =
     Execution (''unknown pin orient '' @ quoted orient @ '': expected one of '' @ join '', '' PIN_ORIENTS)"

definition unknown_pin_sigtype :: "string \<Rightarrow> virtuoso_error" where
  "unknown_pin_sigtype sigtype =
     Execution (''unknown pin sigtype '' @ quoted sigtype @ '': expected one of '' @ join '', '' PIN_SIGTYPES @
       ''. Omit the parameter to let the pin inherit the sigType of a same-named wire'')"

fun sig_arg :: "string option \<Rightarrow> piece list" where
  \<open>sig_arg None = []\<close>
| \<open>sig_arg (Some s) = [T '' nil nil "'', A s, T ''"'']\<close>

fun sig_json :: "string option \<Rightarrow> piece list" where
  \<open>sig_json None = []\<close>
| \<open>sig_json (Some s) = [T '',`"sigtype`":`"'', A s, T ''`"'']\<close>

definition pin_text ::
  "'f floats \<Rightarrow> string \<Rightarrow> string \<Rightarrow> string \<Rightarrow> 'f \<times> 'f \<Rightarrow> string \<Rightarrow> string option \<Rightarrow> piece list" where
  \<open>pin_text F net_name master direction origin orient sigtype =
     (let (x, y) = origin in
     [T ''let((cv master pin) cv = '', T EDIT_CV, T '' '', T cv_guard,
      T '' master = dbOpenCellViewByType("basic" "'', N master,
      T ''" "symbol" nil "r") when(!master error("basic/'', N master,
      T ''/symbol not found")) pin = schCreatePin(cv master "'', A net_name, T ''" "'',
      N direction, T ''" nil list('', N (fl_display F x), T '' '', N (fl_display F y), T '') "'',
      A orient, T ''"''] @
     sig_arg sigtype @
     [T '') when(!pin error("schCreatePin failed for net '', A net_name,
      T ''")) sprintf(nil "{`"net`":`"%s`",`"direction`":`"'', N direction,
      T ''`",`"master`":`"basic/'', N master, T ''`",`"orient`":`"'', A orient, T ''`"''] @
     sig_json sigtype @
     [T ''}" "'', A net_name, T ''"))''])\<close>

definition create_pin ::
  "'f floats \<Rightarrow> string \<Rightarrow> string \<Rightarrow> 'f \<times> 'f \<Rightarrow> string option \<Rightarrow> string option
     \<Rightarrow> virtuoso_error + piece list" where
  "create_pin F net_name pin_type origin orient sigtype =
     (case pin_master_for pin_type of
        None \<Rightarrow> Inl (unknown_pin_direction pin_type)
      | Some (master, direction) \<Rightarrow>
          (let orient = (case orient of Some r \<Rightarrow> r | None \<Rightarrow> ''R0'') in
           if orient \<notin> set PIN_ORIENTS then Inl (unknown_pin_orient orient)
           else case sigtype of
             Some s \<Rightarrow>
               if s \<notin> set PIN_SIGTYPES then Inl (unknown_pin_sigtype s)
               else Inr (pin_text F net_name master direction origin orient (Some s))
           | None \<Rightarrow> Inr (pin_text F net_name master direction origin orient None)))"

section \<open>The cell view\<close>

definition check_skill :: "piece list" where
  \<open>check_skill =
     [T ''let((cv) cv = '', T EDIT_CV, T '' '', T cv_guard, T '' schCheck(cv))'']\<close>

definition open_cellview :: "string \<Rightarrow> string \<Rightarrow> string \<Rightarrow> piece list" where
  \<open>open_cellview lib cell view =
     [T ''let((cv w) cv = dbOpenCellViewByType("'', A lib, T ''" "'', A cell, T ''" "'', A view,
      T ''" "schematic" "a") when(!cv error("open_cell_view: cannot open '', A lib, T ''/'',
      A cell, T ''/'', A view,
      T ''")) RB_SCH_CV = cv w = car(setof(x hiGetWindowList() x->cellView == cv)) sprintf(nil '',
      T ''"{`"lib`":`"%s`",`"cell`":`"%s`",`"view`":`"%s`",`"windowed`":%s}" cv~>libName cv~>cellName '',
      T ''cv~>viewName if(w "true" "false")))'']\<close>

definition save_skill :: "piece list" where
  \<open>save_skill =
     [T ''let((cv) cv = '', T EDIT_CV, T '' '', T cv_guard, T '' dbSave(cv))'']\<close>

section \<open>Parameters\<close>

definition set_instance_param :: "string \<Rightarrow> string \<Rightarrow> string \<Rightarrow> piece list" where
  \<open>set_instance_param inst_name param value =
     [T ''let((cv inst cdf names q n k out sep b4 b3 b2 b1 all nm pr lnm lpr msg) cv = '',
      T EDIT_CV, T '' '', T cv_guard, T '' inst = car(setof(i cv~>instances i~>name == "'',
      A inst_name, T ''")) when(!inst error("instance %s not found in this cellview" "'',
      A inst_name,
      T ''")) cdf = cdfGetInstCDF(inst) names = if(cdf cdf~>parameters~>name nil) if(!names || member("'',
      A param, T ''" names) then dbReplaceProp(inst "'', A param, T ''" "string" "'', A value,
      T ''") sprintf(nil "{`"status`":`"ok`",`"param`":`"'', A param,
      T ''`",`"validated`":%s}" if(names "true" "false")) else q = lowerCase("'', A param,
      T ''") n = 0 foreach(p cdf~>parameters n = n + 1 nm = p~>name nm = if(stringp(nm) nm sprintf(nil "%s" '',
      T ''nm)) pr = p~>prompt pr = if(pr && stringp(pr) pr "") lnm = lowerCase(nm) lpr = lowerCase(pr) '',
      T ''cond((strcmp(lnm q) == 0 b4 = cons(nm b4)) ((index(lnm q) || index(q lnm)) b3 = cons(nm b3)) '',
      T ''((nequal(lpr "") && index(lpr q)) b2 = cons(sprintf(nil "%s (%s)" nm pr) b2)) (t b1 = cons(nm '',
      T ''b1)))) all = append(reverse(b4) append(reverse(b3) append(reverse(b2) reverse(b1)))) out = "" sep = '',
      T ''"" k = 0 foreach(nm all when(k < 10 out = strcat(out sep nm) sep = ", ") k = k + 1) msg = '',
      T ''sprintf(nil "unknown CDF parameter '%s' for instance %s '', T em_dash,
      T '' %d defined, closest first: %s. A name in parentheses is that parameter's GUI label; call '',
      T ''schematic.list_cdf_params for the full table." "'', A param, T ''" "'', A inst_name,
      T ''" n out) error("%s" msg)))'']\<close>

definition list_cdf_params :: "string \<Rightarrow> piece list" where
  \<open>list_cdf_params inst_name =
     [T ''let((cv inst cdf out sep sep2 n ty v pr un df ch ds extra) cv = '', T EDIT_CV, T '' '',
      T cv_guard, T '' inst = car(setof(i cv~>instances i~>name == "'', A inst_name,
      T ''")) when(!inst error("instance '', A inst_name,
      T '' not found in this cellview")) cdf = cdfGetInstCDF(inst) out = "[" sep = "" when(cdf foreach(p '',
      T ''cdf~>parameters n = p~>name n = if(stringp(n) n sprintf(nil "%s" n)) ty = p~>paramType ty = if(ty '',
      T ''if(stringp(ty) ty sprintf(nil "%s" ty)) "?") v = p~>value v = if(v if(stringp(v) v sprintf(nil "%L" '',
      T ''v)) "") pr = p~>prompt pr = if(pr if(stringp(pr) pr sprintf(nil "%s" pr)) "") un = p~>units un = '',
      T ''if(un if(stringp(un) un sprintf(nil "%s" un)) "") df = p~>defValue df = if(df if(stringp(df) df '',
      T ''sprintf(nil "%L" df)) "") extra = "" ch = p~>choices when(ch extra = strcat(extra ",`"choices`":[") '',
      T ''sep2 = "" foreach(c ch extra = strcat(extra sep2 sprintf(nil "%L" if(stringp(c) c sprintf(nil "%s" '',
      T ''c)))) sep2 = ",") extra = strcat(extra "]")) ds = p~>description when(ds && stringp(ds) && '',
      T ''strcmp(ds "") != 0 extra = strcat(extra sprintf(nil ",`"description`":%L" ds))) out = strcat(out '',
      T ''sep sprintf(nil "{`"name`":%L,`"prompt`":%L,`"type`":%L,`"units`":%L,`"default`":%L,`"value`":%L%s}"'',
      T '' n pr ty un df v extra)) sep = ",")) strcat(out "]"))'']\<close>

section \<open>Reading\<close>

definition list_instances :: "piece list" where
  \<open>list_instances =
     [T ''let((cv out sep lib cell) cv = '', T EDIT_CV, T '' '', T cv_guard,
      T '' out = "[" sep = "" foreach(inst cv~>instances lib = if(inst~>master inst~>master~>libName "?") '',
      T ''cell = if(inst~>master inst~>master~>cellName "?") out = strcat(out sep sprintf(nil '',
      T ''"{`"name`":`"%s`",`"master`":`"%s/%s`",`"x`":%g,`"y`":%g}" inst~>name lib cell car(inst~>xy) '',
      T ''cadr(inst~>xy))) sep = ",") strcat(out "]"))'']\<close>

definition list_nets :: "piece list" where
  \<open>list_nets =
     [T ''let((cv out sep) cv = '', T EDIT_CV, T '' '', T cv_guard,
      T '' out = "[" sep = "" foreach(net cv~>nets out = strcat(out sep sprintf(nil "`"%s`"" net~>name)) sep '',
      T ''= ",") strcat(out "]"))'']\<close>

definition list_pins :: "piece list" where
  \<open>list_pins =
     [T ''let((cv out sep) cv = '', T EDIT_CV, T '' '', T cv_guard,
      T '' out = "[" sep = "" foreach(term cv~>terminals out = strcat(out sep sprintf(nil '',
      T ''"{`"name`":`"%s`",`"direction`":`"%s`"}" term~>name term~>direction)) sep = ",") strcat(out "]"))'']\<close>

definition get_instance_params :: "string \<Rightarrow> piece list" where
  \<open>get_instance_params inst_name =
     [T ''let((cv inst out sep v) cv = '', T EDIT_CV, T '' '', T cv_guard,
      T '' inst = car(setof(i cv~>instances strcmp(i~>name "'', A inst_name,
      T ''")==0)) if(inst then out = "{" sep = "" foreach(prop inst~>prop when(prop~>name != nil v = '',
      T ''prop~>value when(v out = strcat(out sep sprintf(nil "`"%s`":`"%s`"" prop~>name if(stringp(v) v '',
      T ''sprintf(nil "%L" v)))) sep = ","))) strcat(out "}") else "null"))'']\<close>

section \<open>Connectivity\<close>

definition assign_net :: "string \<Rightarrow> string \<Rightarrow> string \<Rightarrow> piece list" where
  \<open>assign_net inst_name term_name net_name =
     [T ''let((cv inst mterm net existing it) cv = '', T EDIT_CV, T '' '', T cv_guard,
      T '' inst = car(setof(i cv~>instances strcmp(i~>name "'', A inst_name,
      T ''")==0)) when(!inst error("assign_net: instance not found: '', A inst_name,
      T ''")) mterm = car(setof(mt inst~>master~>terminals strcmp(mt~>name "'', A term_name,
      T ''")==0)) when(!mterm error("assign_net: terminal not on master: '', A term_name,
      T ''")) net = dbMakeNet(cv "'', A net_name,
      T ''") existing = car(setof(x inst~>instTerms strcmp(x~>name "'', A term_name,
      T ''")==0)) when(existing && !(strcmp(existing~>net~>name "'', A net_name,
      T ''")==0) dbDeleteObject(existing) existing = nil) it = if(existing existing dbCreateInstTerm(net inst '',
      T ''mterm)) when(!it error("assign_net: connect failed for '', A inst_name, T ''/'',
      A term_name, T ''")) it)'']\<close>

definition stub_direction :: "string \<Rightarrow> int \<times> int \<times> string" where
  "stub_direction direction =
     (if direction = ''up'' then (0, 1, ''R90'')
      else if direction = ''down'' then (0, -1, ''R90'')
      else if direction = ''left'' then (-1, 0, ''R0'')
      else (1, 0, ''R0''))"

definition net_stub_text ::
  "'f floats \<Rightarrow> string \<Rightarrow> 'f \<times> 'f \<Rightarrow> 'f \<times> 'f \<Rightarrow> string \<Rightarrow> string \<Rightarrow> string \<Rightarrow> piece list" where
  \<open>net_stub_text F net_name start end rot font_size just =
     (let (x, y) = start; (end_x, end_y) = end;
          label_x = fl_mid F x end_x; label_y = fl_mid F y end_y in
     [T ''let((cv wires lbl) cv = '', T EDIT_CV, T '' '', T cv_guard,
      T '' wires = schCreateWire(cv "draw" "full" list(list('', N (fl_debug F x), T '' '',
      N (fl_debug F y), T '') list('', N (fl_debug F end_x), T '' '', N (fl_debug F end_y),
      T '')) 0.0625 0.0625 0.0) when(!wires error("net_stub: schCreateWire failed for net '',
      A net_name, T ''")) lbl = schCreateWireLabel(cv car(wires) list('', N (fl_debug F label_x),
      T '' '', N (fl_debug F label_y), T '') "'', A net_name, T ''" "'', N just, T ''" "'',
      N rot, T ''" "stick" '', N font_size,
      T '' nil) when(!lbl error("net_stub: schCreateWireLabel failed for net '', A net_name,
      T ''")) sprintf(nil "'', A net_name, T '' stub ('', N (fl_debug F x), T '' '',
      N (fl_debug F y), T '')->('', N (fl_debug F end_x), T '' '', N (fl_debug F end_y),
      T '')"))''])\<close>

definition create_net_stub ::
  "'f floats \<Rightarrow> string \<Rightarrow> 'f \<Rightarrow> 'f \<Rightarrow> string \<Rightarrow> 'f \<Rightarrow> string \<Rightarrow> piece list" where
  "create_net_stub F net_name x y direction len cosmetic =
     (let (dx, dy, rot) = stub_direction direction;
          end_x = fl_add F x (fl_mul F (fl_of_int F dx) len);
          end_y = fl_add F y (fl_mul F (fl_of_int F dy) len);
          (font_size, just) =
            (if cosmetic = ''clean'' then (''0.125'', ''lowerCenter'') else (''0.0625'', ''centerCenter'')) in
      net_stub_text F net_name (x, y) (end_x, end_y) rot font_size just)"

definition label_instance_term ::
  "string \<Rightarrow> string \<Rightarrow> string \<Rightarrow> string \<Rightarrow> bool \<Rightarrow> piece list" where
  \<open>label_instance_term inst_name term_name net_name cosmetic auto_rotate =
     (let font_size = (if cosmetic = ''clean'' then ''0.125'' else ''0.0625'');
          (up_rot, up_just, dn_rot, dn_just) =
            (if auto_rotate then (''R90'', ''centerLeft'', ''R90'', ''centerRight'')
             else (''R0'', ''lowerCenter'', ''R0'', ''upperCenter'')) in
     [T ''let((cv inst mterm pin fig bb pc pt cxs cys npin mb mbc ctr dx dy stub ex ey lblJust lblRot old '',
      T ''olbls omine otxt wires lbl) cv = '', T EDIT_CV, T '' '', T cv_guard, T '' ''] @
     term_point ''label_term'' inst_name term_name @
     [T '' cxs = 0.0 cys = 0.0 npin = 0 foreach(trm inst~>master~>terminals foreach(pn trm~>pins when(pn~>fig '',
      T ''let((bx) bx = pn~>fig~>bBox cxs = cxs+(xCoord(car(bx))+xCoord(cadr(bx)))/2.0 cys = '',
      T ''cys+(yCoord(car(bx))+yCoord(cadr(bx)))/2.0 npin = npin+1)))) when(npin == 0 error("label_term: '',
      T ''master of '', A inst_name,
      T '' has no pin figures")) mb = inst~>master~>bBox mbc = list((xCoord(car(mb))+xCoord(cadr(mb)))/2.0 '',
      T ''(yCoord(car(mb))+yCoord(cadr(mb)))/2.0) ctr = if(npin >= 2 list(cxs/float(npin) cys/float(npin)) '',
      T ''mbc) when(xCoord(ctr) == xCoord(pc) && yCoord(ctr) == yCoord(pc) ctr = mbc) ctr = '',
      T ''dbTransformPoint(ctr inst~>transform) dx = xCoord(pt)-xCoord(ctr) dy = yCoord(pt)-yCoord(ctr) stub '',
      T ''= 0.25 ex = xCoord(pt) ey = yCoord(pt) if(abs(dx) >= abs(dy) then if(dx >= 0.0 then ex = ex+stub '',
      T ''lblJust = "centerLeft" lblRot = "R0" else ex = ex-stub lblJust = "centerRight" lblRot = "R0") else '',
      T ''if(dy >= 0.0 then ey = ey+stub lblJust = "'', N up_just, T ''" lblRot = "'', N up_rot,
      T ''" else ey = ey-stub lblJust = "'', N dn_just, T ''" lblRot = "'', N dn_rot,
      T ''")) old = car(setof(f dbGetOverlaps(cv list(pt pt)) f~>objType == "line")) if(old then olbls = '',
      T ''setof(f dbGetOverlaps(cv old~>bBox) f~>objType == "label") omine = car(setof(f olbls '',
      T ''strcmp(f~>theLabel "'', A net_name,
      T ''")==0)) otxt = if(olbls car(olbls)~>theLabel "") cond((omine sprintf(nil "already: %s.%s net=%s '',
      T em_dash, T '' stub and label are already drawn" "'', A inst_name, T ''" "'', A term_name,
      T ''" "'', A net_name, T ''")) (olbls error("label_term: '', A inst_name, T ''/'',
      A term_name,
      T ('' already carries a stub labelled '' @ [CHR 0x27] @ ''%s'' @ [CHR 0x27] @ '', not '' @ [CHR 0x27]),
      A net_name, T ([CHR 0x27] @ '' ''), T em_dash,
      T '' delete that stub with 'schematic.delete_figure' before relabelling" otxt)) (t error("label_term: a '',
      T ''wire already meets '', A inst_name, T ''/'', A term_name, T '' but carries no label '',
      T em_dash,
      T '' name it with 'schematic.label' at that point, or delete it with 'schematic.delete_figure'"))) else '',
      T ''wires = schCreateWire(cv "draw" "full" list(pt list(ex ey)) 0.0625 0.0625 0.0) when(!wires '',
      T ''error("label_term: schCreateWire failed at '', A inst_name, T ''/'', A term_name,
      T ''")) lbl = schCreateWireLabel(cv car(wires) list(ex ey) "'', A net_name,
      T ''" lblJust lblRot "stick" '', N font_size,
      T '' nil) when(!lbl error("label_term: schCreateWireLabel failed at '', A inst_name,
      T ''/'', A term_name, T ''")) sprintf(nil "%s.%s stub (%g %g)->(%g %g) net=%s" "'',
      A inst_name, T ''" "'', A term_name, T ''" xCoord(pt) yCoord(pt) ex ey "'', A net_name,
      T ''")))''])\<close>

definition offset_delta :: "string option \<Rightarrow> int" where
  "offset_delta offset =
     (if offset = Some ''small'' then 5 else if offset = Some ''medium'' then 10
      else if offset = Some ''large'' then 20 else 0)"

definition rotate_part :: "bool \<Rightarrow> piece list" where
  \<open>rotate_part auto_rotate =
     (if auto_rotate then
     [T '' when(labels let((bb bbx bby orient) bb=car(labels)~>xy bbx=caar(bb) bby=cadr(bb) '',
      T ''orient=if(bbx>10000 "R90" if(bbx<-10000 "R270" if(bby>10000 "MY" "R0"))) foreach(l labels '',
      T ''l~>orient=orient)))'']
      else [])\<close>

definition offset_part :: "int \<Rightarrow> piece list" where
  \<open>offset_part delta =
     (if delta \<noteq> 0 then
     [T '' foreach(l labels let((xy) xy=l~>xy l~>xy=list(car(xy)+'', N (show_int delta),
      T '' cadr(xy)+'', N (show_int delta), T '')))'']
      else [])\<close>

definition polish_text :: "string \<Rightarrow> string \<Rightarrow> string \<Rightarrow> piece list \<Rightarrow> piece list \<Rightarrow> piece list" where
  \<open>polish_text net_name fs just rot offs =
     [T ''let((cv net labels) cv='', T EDIT_CV, T '' net=dbFindNetByName(cv "'', A net_name,
      T ''") labels=if(net setof(l net~>labels l~>figType=="label") nil) foreach(l labels l~>fontSize='',
      N fs, T '' l~>justify='', T ''"'', N just, T ''"'', T '')''] @
     rot @
     offs @
     [T '' length(labels))'']\<close>

definition polish_labels :: "string \<Rightarrow> string \<Rightarrow> bool \<Rightarrow> string option \<Rightarrow> piece list" where
  "polish_labels net_name preset auto_rotate offset =
     polish_text net_name
       (if preset = ''compact'' then ''0.0625'' else ''0.125'')
       (if preset = ''compact'' then ''centerLeft'' else ''centerCenter'')
       (rotate_part auto_rotate) (offset_part (offset_delta offset))"

end
