(* ===== verification/Schematic_Data.thy ===== *)
theory Schematic_Data
  imports Schematic_Skill
begin

lemmas schematic_defs =
  term_point_def term_points_of_def wires_touching_def create_instance_def wire_ownership_def
  orient_guard_def move_instance_def list_xy_def wire_text_def create_wire_def
  create_wire_label_def pin_text_def create_pin_def check_skill_def open_cellview_def
  save_skill_def set_instance_param_def list_cdf_params_def list_instances_def list_nets_def
  list_pins_def get_instance_params_def assign_net_def net_stub_text_def create_net_stub_def
  label_instance_term_def rotate_part_def offset_part_def polish_text_def polish_labels_def

lemma create_instance_data:
  assumes "plain_floats F"
  shows "same_program (create_instance F lib cell view name (x, y) orient)
     (create_instance F [] [] [] [] (x, y) [])"
  by (rule same_programI, code_simp, use assms in \<open>simp add: schematic_defs plain_floats_def plain_char_def\<close>, simp add: schematic_defs)

lemma move_instance_data:
  assumes "plain_floats F"
  shows "same_program (move_instance F inst (x, y) orient with_stubs)
     (move_instance F [] (x, y) (map_option (\<lambda>_. []) orient) with_stubs)"
proof -
  have "same_program (move_instance F inst (x, y) None True)
     (move_instance F [] (x, y) None True)"
    by (rule same_programI, code_simp, use assms in \<open>simp add: schematic_defs plain_floats_def plain_char_def\<close>, simp add: schematic_defs)
  moreover have "same_program (move_instance F inst (x, y) None False)
     (move_instance F [] (x, y) None False)"
    by (rule same_programI, code_simp, use assms in \<open>simp add: schematic_defs plain_floats_def plain_char_def\<close>, simp add: schematic_defs)
  moreover have "\<And>orient_t. same_program (move_instance F inst (x, y) (Some orient_t) True)
     (move_instance F [] (x, y) (Some []) True)"
    by (rule same_programI, code_simp, use assms in \<open>simp add: schematic_defs plain_floats_def plain_char_def\<close>, simp add: schematic_defs)
  moreover have "\<And>orient_t. same_program (move_instance F inst (x, y) (Some orient_t) False)
     (move_instance F [] (x, y) (Some []) False)"
    by (rule same_programI, code_simp, use assms in \<open>simp add: schematic_defs plain_floats_def plain_char_def\<close>, simp add: schematic_defs)
  ultimately show ?thesis by (cases orient; cases with_stubs) simp_all
qed

lemma create_wire_label_data:
  assumes "plain_floats F"
  shows "same_program (create_wire_label F net (x, y))
     (create_wire_label F [] (x, y))"
  by (rule same_programI, code_simp, use assms in \<open>simp add: schematic_defs plain_floats_def plain_char_def\<close>, simp add: schematic_defs)

lemma check_skill_data:
  "same_program check_skill check_skill"
  by (rule same_programI, code_simp, simp add: schematic_defs plain_char_def, simp add: schematic_defs)

lemma open_cellview_data:
  "same_program (open_cellview lib cell view)
     (open_cellview [] [] [])"
  by (rule same_programI, code_simp, simp add: schematic_defs plain_char_def, simp add: schematic_defs)

lemma save_skill_data:
  "same_program save_skill save_skill"
  by (rule same_programI, code_simp, simp add: schematic_defs plain_char_def, simp add: schematic_defs)

lemma set_instance_param_data:
  "same_program (set_instance_param inst param val)
     (set_instance_param [] [] [])"
  by (rule same_programI, code_simp, simp add: schematic_defs plain_char_def, simp add: schematic_defs)

lemma list_cdf_params_data:
  "same_program (list_cdf_params inst)
     (list_cdf_params [])"
  by (rule same_programI, code_simp, simp add: schematic_defs plain_char_def, simp add: schematic_defs)

lemma list_instances_data:
  "same_program list_instances list_instances"
  by (rule same_programI, code_simp, simp add: schematic_defs plain_char_def, simp add: schematic_defs)

lemma list_nets_data:
  "same_program list_nets list_nets"
  by (rule same_programI, code_simp, simp add: schematic_defs plain_char_def, simp add: schematic_defs)

lemma list_pins_data:
  "same_program list_pins list_pins"
  by (rule same_programI, code_simp, simp add: schematic_defs plain_char_def, simp add: schematic_defs)

lemma get_instance_params_data:
  "same_program (get_instance_params inst)
     (get_instance_params [])"
  by (rule same_programI, code_simp, simp add: schematic_defs plain_char_def, simp add: schematic_defs)

lemma assign_net_data:
  "same_program (assign_net inst term_name net)
     (assign_net [] [] [])"
  by (rule same_programI, code_simp, simp add: schematic_defs plain_char_def, simp add: schematic_defs)

section \<open>Texts with lists and choices in them\<close>

lemma points_check: "tpl_check (InCode, d) (join_pieces (map (list_xy F) points)) = Some (InCode, d)"
proof (induction points rule: induct_list012)
  case (2 p)
  show ?case by (simp add: list_xy_def tpl_text_def)
next
  case (3 p q points)
  then show ?case by (simp add: list_xy_def tpl_text_def)
qed simp

lemma points_plain: "plain_floats F \<Longrightarrow> list_all plain_piece (join_pieces (map (list_xy F) points))"
  by (induction points rule: induct_list012) (auto simp: list_xy_def plain_floats_def)

lemma wire_text_data:
  assumes "plain_floats F" "plain_value rot" "list_all plain_piece pts"
    and "\<And>d. tpl_check (InCode, d) pts = Some (InCode, d)"
  shows "same_program (wire_text F pts net x y rot) (wire_text F pts [] x y rot)"
proof (rule same_programI)
  have base: "tpl_check (InCode, 0) (wire_text F [] net x y rot) = Some (InCode, 0)" by code_simp
  show "tpl_check (InCode, 0) (wire_text F pts net x y rot) = Some (InCode, 0)"
    unfolding wire_text_def
    by (rule tpl_check_skip [where st' = "(InCode, 3)"], code_simp, rule assms,
        rule base [unfolded wire_text_def append_Nil])
  show "list_all plain_piece (wire_text F pts net x y rot)"
    using assms by (simp add: wire_text_def plain_floats_def)
  show "map erase (wire_text F pts net x y rot) = map erase (wire_text F pts [] x y rot)"
    by (simp add: wire_text_def)
qed

lemma too_few_data: \<open>same_program
    [T ''error("create_wire: net '', A net, T '' needs at least two points, got '', N (show_nat n), T ''")'']
    [T ''error("create_wire: net '', A [], T '' needs at least two points, got '', N (show_nat n), T ''")'']\<close>
  by (rule same_programI, code_simp, simp, simp)

lemma create_wire_data:
  assumes "plain_floats F"
  shows "same_program (create_wire F points net) (create_wire F points [])"
proof (cases "length points < 2")
  case True
  then show ?thesis
    by (auto simp: create_wire_def too_few_data split: list.splits)
next
  case False
  then obtain x0 y0 x1 y1 ps where points: "points = (x0, y0) # (x1, y1) # ps"
    by (cases points; cases "tl points") auto
  have "plain_value (if fl_eq F x0 x1 then ''R90'' else ''R0'')"
    by (simp add: plain_char_def)
  then show ?thesis
    unfolding create_wire_def points list.case prod.case
    by (intro wire_text_data assms points_plain points_check)
qed

lemma pin_master_plain:
  "pin_master_for t = Some (master, direction) \<Longrightarrow> plain_value master \<and> plain_value direction"
  by (auto simp: pin_master_for_def plain_char_def split: if_splits)

lemma pin_text_data:
  assumes "plain_floats F" "plain_value master" "plain_value direction"
  shows "same_program (pin_text F net master direction origin orient sigtype)
     (pin_text F [] master direction origin orient sigtype)"
proof -
  obtain x y where origin: "origin = (x, y)" by (cases origin)
  have "same_program (pin_text F net master direction (x, y) orient None)
     (pin_text F [] master direction (x, y) orient None)"
    by (rule same_programI, code_simp, use assms in \<open>simp add: schematic_defs plain_floats_def\<close>,
        simp add: schematic_defs)
  moreover have "\<And>s. same_program (pin_text F net master direction (x, y) orient (Some s))
     (pin_text F [] master direction (x, y) orient (Some s))"
    by (rule same_programI, code_simp, use assms in \<open>simp add: schematic_defs plain_floats_def\<close>,
        simp add: schematic_defs)
  ultimately show ?thesis by (cases sigtype) (simp_all add: origin)
qed

lemma pin_text_erased:
  assumes "plain_floats F" "plain_value master" "plain_value direction"
  shows "same_program (pin_text F net master direction origin orient sigtype)
     (pin_text F [] master direction origin [] (map_option (\<lambda>_. []) sigtype))"
proof -
  obtain x y where origin: "origin = (x, y)" by (cases origin)
  have "same_program (pin_text F net master direction (x, y) orient None)
     (pin_text F [] master direction (x, y) [] None)"
    by (rule same_programI, code_simp, use assms in \<open>simp add: schematic_defs plain_floats_def\<close>,
        simp add: schematic_defs)
  moreover have "\<And>s. same_program (pin_text F net master direction (x, y) orient (Some s))
     (pin_text F [] master direction (x, y) [] (Some []))"
    by (rule same_programI, code_simp, use assms in \<open>simp add: schematic_defs plain_floats_def\<close>,
        simp add: schematic_defs)
  ultimately show ?thesis by (cases sigtype) (simp_all add: origin)
qed

lemma pin_master_listed:
  "pin_master_for t = Some p \<Longrightarrow>
     p \<in> {(''ipin'', ''input''), (''opin'', ''output''), (''iopin'', ''inputOutput''),
          (''iopin'', ''switch''), (''iopin'', ''jumper'')}"
  by (auto simp: pin_master_for_def split: if_splits)

lemma create_pin_erased:
  assumes "plain_floats F" "create_pin F net t origin orient sigtype = Inr ps"
  shows "\<exists>(master, direction) \<in> {(''ipin'', ''input''), (''opin'', ''output''), (''iopin'', ''inputOutput''),
        (''iopin'', ''switch''), (''iopin'', ''jumper'')}.
      same_program ps (pin_text F [] master direction origin [] (map_option (\<lambda>_. []) sigtype))"
proof -
  obtain master direction r where p: "pin_master_for t = Some (master, direction)"
      "ps = pin_text F net master direction origin r sigtype"
    using assms(2) by (auto simp: create_pin_def Let_def split: option.splits if_splits prod.splits)
  have "same_program ps (pin_text F [] master direction origin [] (map_option (\<lambda>_. []) sigtype))"
    unfolding p(2) using pin_text_erased [OF assms(1)] pin_master_plain [OF p(1)] by blast
  with pin_master_listed [OF p(1)] show ?thesis by fast
qed

lemma create_pin_shape:
  "create_pin F net t origin orient sigtype = Inr ps \<Longrightarrow>
     \<exists>master direction r. pin_master_for t = Some (master, direction) \<and> r \<in> set PIN_ORIENTS \<and>
       ps = pin_text F net master direction origin r sigtype \<and>
       (\<forall>net'. create_pin F net' t origin orient sigtype = Inr (pin_text F net' master direction origin r sigtype))"
  by (auto simp: create_pin_def Let_def split: option.splits if_splits prod.splits)

lemma create_pin_data:
  assumes "plain_floats F" "create_pin F net t origin orient sigtype = Inr ps"
  shows "\<exists>qs. create_pin F [] t origin orient sigtype = Inr qs \<and> same_program ps qs"
  using create_pin_shape [OF assms(2)] pin_text_data [OF assms(1)] pin_master_plain by blast

lemma net_stub_text_data:
  assumes "plain_floats F" "plain_value rot" "plain_value font_size" "plain_value just"
  shows "same_program (net_stub_text F net (x, y) (ex, ey) rot font_size just)
     (net_stub_text F [] (x, y) (ex, ey) rot font_size just)"
  by (rule same_programI, code_simp, use assms in \<open>simp add: schematic_defs plain_floats_def\<close>,
      simp add: schematic_defs)

lemma create_net_stub_data:
  assumes "plain_floats F"
  shows "same_program (create_net_stub F net x y direction len cosmetic)
     (create_net_stub F [] x y direction len cosmetic)"
proof -
  obtain dx dy rot where d: "stub_direction direction = (dx, dy, rot)" by (cases "stub_direction direction")
  then have "plain_value rot" by (auto simp: stub_direction_def plain_char_def split: if_splits)
  then have "same_program (net_stub_text F net s e rot font_size just) (net_stub_text F [] s e rot font_size just)"
    if "plain_value font_size" "plain_value just" for s e font_size just
    using net_stub_text_data [OF assms _ that] by (cases s; cases e) simp
  then show ?thesis
    by (simp add: create_net_stub_def d plain_char_def)
qed

lemma label_instance_term_data:
  "same_program (label_instance_term inst term_name net cosmetic auto_rotate)
     (label_instance_term [] [] [] cosmetic auto_rotate)"
proof -
  have "same_program (label_instance_term inst term_name net cosmetic True)
     (label_instance_term [] [] [] cosmetic True)"
    by (rule same_programI, code_simp, simp add: schematic_defs plain_char_def, simp add: schematic_defs)
  moreover have "same_program (label_instance_term inst term_name net cosmetic False)
     (label_instance_term [] [] [] cosmetic False)"
    by (rule same_programI, code_simp, simp add: schematic_defs plain_char_def, simp add: schematic_defs)
  ultimately show ?thesis by (cases auto_rotate) simp_all
qed

lemma rotate_check: "tpl_check (InCode, d) (rotate_part b) = Some (InCode, d)"
  by (cases b) (simp_all add: rotate_part_def tpl_text_def)

lemma offset_check: "tpl_check (InCode, d) (offset_part i) = Some (InCode, d)"
  by (simp add: offset_part_def tpl_text_def)

lemma polish_labels_data:
  "same_program (polish_labels net preset auto_rotate offset) (polish_labels [] preset auto_rotate offset)"
proof (rule same_programI)
  have base: "tpl_check (InCode, 0) (polish_text net fs just [] []) = Some (InCode, 0)" for fs just
    by code_simp
  have "tpl_check (InCode, 0) (polish_text net fs just (rotate_part b) (offset_part i)) = Some (InCode, 0)"
    for fs just b i
    unfolding polish_text_def
    by (rule tpl_check_skip [where st' = "(InCode, 1)"], code_simp, rule rotate_check,
        rule tpl_check_skip [where st' = "(InCode, 1)"], code_simp, rule offset_check,
        rule base [unfolded polish_text_def append_Nil])
  then show "tpl_check (InCode, 0) (polish_labels net preset auto_rotate offset) = Some (InCode, 0)"
    by (simp only: polish_labels_def)
  show "list_all plain_piece (polish_labels net preset auto_rotate offset)"
    by (simp add: schematic_defs plain_char_def)
  show "map erase (polish_labels net preset auto_rotate offset) = map erase (polish_labels [] preset auto_rotate offset)"
    by (simp add: schematic_defs)
qed

end
