(* ===== verification/Design_Skill.thy ===== *)
theory Design_Skill
  imports Skill_Template Schematic_Skill
begin

text \<open>
  The SKILL texts of \<open>src/client/library_ops.rs\<close>, \<open>symbol_ops.rs\<close>, \<open>layout_ops.rs\<close> and
  \<open>window_ops.rs\<close>, as templates.  Coordinates of the layout editor are integers.

  A function that asserts something of its arguments gives \<open>None\<close> where the assertion panics.  The
  identifier \<open>symbol.generate\<close> draws is an argument, in hexadecimal; \<open>canonicalize\<close>, which asks the
  file system, is a parameter of the bootstrap text.
\<close>

section \<open>Libraries\<close>

definition library_list :: "piece list" where
  \<open>library_list =
     [T ''mapcar(lambda((lib) lib~>name) ddGetLibList())'']\<close>

fun cells_filter :: "string option \<Rightarrow> piece list" where
  \<open>cells_filter None = []\<close>
| \<open>cells_filter (Some p) =
     [T ''cells = setof(c cells rexMatchp("'', A p, T ''" c~>name)) '']\<close>

definition list_cells :: "string \<Rightarrow> string option \<Rightarrow> piece list" where
  \<open>list_cells lib pattern =
     [T ''let((lib cells out) lib = ddGetObj("'', A lib,
      T (''") when(!lib error("library.list_cells: no such library '' @ [CHR 0x27]), A lib,
      T ([CHR 0x27] @ '' ''), T em_dash, T '' check 'library.list'")) cells = lib~>cells ''] @
     cells_filter pattern @
     [T ''out = mapcar(lambda((c) list(c~>name sort(mapcar(lambda((v) v~>name) c~>views) nil))) cells) '',
      T ''sort(out lambda((a b) alphalessp(car(a) car(b)))))'']\<close>

section \<open>Symbols\<close>

definition symbol_inspect :: "string \<Rightarrow> string \<Rightarrow> string \<Rightarrow> string \<Rightarrow> piece list" where
  \<open>symbol_inspect lib cell view view_type =
     [T ''let((r cv res) r=errset(dbOpenCellViewByType("'', A lib, T ''" "'', A cell, T ''" "'',
      A view, T ''" "'', A view_type,
      T ''" "r") nil) if(r progn(cv=car(r) res=unwindProtect(progn(list("success" cv~>bBox mapcar(lambda((p) '',
      T ''list(p~>name if(p~>direction p~>direction "inputOutput") if(p~>numBits p~>numBits 1))) '',
      T ''cv~>terminals) schGetPinOrder(cv) cv~>portOrder cv~>termOrder)) dbClose(cv))) list("notFound" '',
      T ''"symbol view not found")) res)'']\<close>

fun sort_expr :: "string option \<Rightarrow> piece list" where
  \<open>sort_expr None = []\<close>
| \<open>sort_expr (Some s) =
     [T ''vbOldSort=schGetEnv("ssgSortPins") vbChanged=schSetEnv("ssgSortPins" "'', A s,
      T ''") '']\<close>

definition symbol_text ::
  "string \<Rightarrow> string \<Rightarrow> string \<Rightarrow> string \<Rightarrow> string \<Rightarrow> string option \<Rightarrow> piece list" where
  \<open>symbol_text temp lib cell src dst sort_pins =
     [T ''let((src pinList gen tmp target expected actual old changed) src=nil tmp=nil target=nil old=nil '',
      T ''changed=nil ''] @
     sort_expr sort_pins @
     [T '' unwindProtect(progn(src=dbOpenCellViewByType("'', A lib, T ''" "'', A cell, T ''" "'',
      A src,
      T ''" "schematic" "r") unless(src list("notFound" "source schematic not found")) when(ddGetObj("'',
      A lib, T ''" "'', A cell, T ''" "'', A dst,
      T ''") list("conflict" "target symbol exists")) pinList=schSchemToPinList("'', A lib,
      T ''" "'', A cell, T ''" "'', A src,
      T ''") unless(pinList list("failed" "schematic to pin list failed")) gen=schPinListToSymbol("'',
      A lib, T ''" "'', A cell, T ''" "'', A temp,
      T ''" pinList) unless(gen list("failed" "symbol generation failed")) tmp=dbOpenCellViewByType("'',
      A lib, T ''" "'', A cell, T ''" "'', A temp,
      T ''" "schematicSymbol" "r") unless(tmp list("failed" "temporary symbol open failed")) '',
      T ''expected=schGetPinOrder(src) actual=schGetPinOrder(tmp) unless(equal(expected actual) list("failed" '',
      T ''"generated symbol pin order mismatch")) target=dbCopyCellView(tmp "'', A lib,
      T ''" "'', A cell, T ''" "'', A dst,
      T ''" nil nil nil) unless(target list("conflict" "target symbol appeared during generation")) '',
      T ''list("success" "'', A lib, T ''" "'', A cell, T ''" "'', A src, T ''" "'', A dst,
      T ''" actual)) progn(when(changed schSetEnv("ssgSortPins" old)) when(src dbClose(src)) when(tmp '',
      T ''dbClose(tmp)) when(target dbClose(target)) when(ddGetObj("'', A lib, T ''" "'', A cell,
      T ''" "'', A temp, T ''") ddDeleteObj(ddGetObj("'', A lib, T ''" "'', A cell, T ''" "'',
      A temp, T ''"))))))'']\<close>

definition symbol_generate ::
  "string \<Rightarrow> string \<Rightarrow> string \<Rightarrow> string \<Rightarrow> string \<Rightarrow> string option \<Rightarrow> piece list option" where
  "symbol_generate uuid lib cell src dst sort_pins =
     (if src = dst then None
      else if (case sort_pins of Some s \<Rightarrow> s \<noteq> ''alphanumeric'' \<and> s \<noteq> ''geometric'' | None \<Rightarrow> False) then None
      else Some (symbol_text (''__vcli_symbol_'' @ uuid) lib cell src dst sort_pins))"

section \<open>Layouts\<close>

record xstream_request =
  xs_library :: string
  xs_top_cell :: string
  xs_view :: string
  xs_stream_file :: string
  xs_layer_map :: string
  xs_log_file :: string
  xs_run_dir :: string

definition xstream_out :: "xstream_request \<Rightarrow> piece list" where
  \<open>xstream_out req =
     [T ''let((vbOldLibrary vbOldTopCell vbOldView vbOldStreamFile vbOldLayerMap vbOldLogFile vbOldRunDir '',
      T ''vbOldMsg) unwindProtect(progn(unless(and(isCallable('xstGetField) isCallable('xstSetField) '',
      T ''isCallable('xstOutDoTranslate)) error("XStream APIs unavailable")) '',
      T ''vbOldLibrary=xstGetField("library") vbOldTopCell=xstGetField("topCell") '',
      T ''vbOldView=xstGetField("view") vbOldStreamFile=xstGetField("strmFile") '',
      T ''vbOldLayerMap=xstGetField("layerMap") vbOldLogFile=xstGetField("logFile") '',
      T ''vbOldRunDir=xstGetField("runDir") vbOldMsg=xstGetField("showCompletionMsgBox") '',
      T ''xstSetField("library" "'', A (xs_library req), T ''") xstSetField("topCell" "'',
      A (xs_top_cell req), T ''") xstSetField("view" "'', A (xs_view req),
      T ''") xstSetField("strmFile" "'', A (xs_stream_file req),
      T ''") xstSetField("layerMap" "'', A (xs_layer_map req), T ''") xstSetField("logFile" "'',
      A (xs_log_file req), T ''") xstSetField("runDir" "'', A (xs_run_dir req),
      T ''") xstSetField("showCompletionMsgBox" "false") xstOutDoTranslate()) progn(when(vbOldLibrary '',
      T ''xstSetField("library" vbOldLibrary)) when(vbOldTopCell xstSetField("topCell" vbOldTopCell)) '',
      T ''when(vbOldView xstSetField("view" vbOldView)) when(vbOldStreamFile xstSetField("strmFile" '',
      T ''vbOldStreamFile)) when(vbOldLayerMap xstSetField("layerMap" vbOldLayerMap)) when(vbOldLogFile '',
      T ''xstSetField("logFile" vbOldLogFile)) when(vbOldRunDir xstSetField("runDir" vbOldRunDir)) '',
      T ''when(vbOldMsg xstSetField("showCompletionMsgBox" vbOldMsg)))))'']\<close>

definition create_rect :: "string \<Rightarrow> string \<Rightarrow> (int \<times> int) \<times> (int \<times> int) \<Rightarrow> piece list" where
  \<open>create_rect layer purpose bbox =
     (let ((x1, y1), (x2, y2)) = bbox in
     [T ''rodCreateRect(?layer "'', A layer, T ''" ?purpose "'', A purpose, T ''" ?bBox (('',
      N (show_int x1), T '' '', N (show_int y1), T '') ('', N (show_int x2), T '' '',
      N (show_int y2), T '')))''])\<close>

definition int_points :: "(int \<times> int) list \<Rightarrow> string" where
  "int_points points = join '' '' (map (\<lambda>(x, y). show_int x @ '' '' @ show_int y) points)"

definition create_polygon :: "string \<Rightarrow> string \<Rightarrow> (int \<times> int) list \<Rightarrow> piece list" where
  \<open>create_polygon layer purpose points =
     [T ''rodCreatePolygon(?layer "'', A layer, T ''" ?purpose "'', A purpose,
      T ''" ?points list('', N (int_points points), T ''))'']\<close>

definition create_path :: "string \<Rightarrow> string \<Rightarrow> int \<Rightarrow> (int \<times> int) list \<Rightarrow> piece list" where
  \<open>create_path layer purpose width points =
     [T ''rodCreatePath(?layer "'', A layer, T ''" ?purpose "'', A purpose, T ''" ?width '',
      N (show_int width), T '' ?points list('', N (int_points points), T ''))'']\<close>

definition create_via :: "string \<Rightarrow> int \<times> int \<Rightarrow> piece list" where
  \<open>create_via via_def origin =
     (let (x, y) = origin in
     [T ''rodCreateVia(?viaHeader "'', A via_def, T ''" ?origin '', N (show_int x), T '':'',
      N (show_int y), T '')''])\<close>

definition create_label :: "string \<Rightarrow> string \<Rightarrow> string \<Rightarrow> int \<times> int \<Rightarrow> piece list" where
  \<open>create_label layer purpose label_text origin =
     (let (x, y) = origin in
     [T ''dbCreateLabel(dbGetCurCellView() dbGetLayerByName(dbGetCurCellView() "'', A layer,
      T ''") '', N (show_int x), T '':'', N (show_int y), T '' "'', A label_text,
      T ''" "centerCenter" "R0" "stick" 0.0625)''])\<close>

definition layout_instance ::
  "string \<Rightarrow> string \<Rightarrow> string \<Rightarrow> int \<times> int \<Rightarrow> string \<Rightarrow> piece list" where
  \<open>layout_instance lib cell view origin orient =
     (let (x, y) = origin in
     [T ''dbCreateInst(dbOpenCellViewByType("'', A lib, T ''" "'', A cell, T ''" "'', A view,
      T ''" nil "r") nil nil '', N (show_int x), T '':'', N (show_int y), T '' "'', A orient,
      T ''" 1)''])\<close>

definition set_active_lpp :: "string \<Rightarrow> string \<Rightarrow> piece list" where
  \<open>set_active_lpp layer purpose =
     [T ''leSetEntryLayer(list("'', A layer, T ''" "'', A purpose, T ''"))'']\<close>

definition fit_view :: "piece list" where
  \<open>fit_view =
     [T ''hiRedraw() hiZoomBox(hiGetCurrentWindow() geGetWindowBox(hiGetCurrentWindow()) '',
      T ''geGetEditCellView()~>bBox)'']\<close>

definition read_summary :: "piece list" where
  \<open>read_summary =
     [T ''let((cv) cv = geGetEditCellView() list(cv~>libName cv~>cellName cv~>viewName cv~>bBox '',
      T ''length(cv~>instances) length(cv~>nets)))'']\<close>

definition read_geometry :: "string \<Rightarrow> string \<Rightarrow> piece list" where
  \<open>read_geometry layer purpose =
     [T ''let((cv shapes) cv = geGetEditCellView() shapes = nil foreach(shape cv~>shapes when(shape~>lpp == '',
      T ''list("'', A layer, T ''" "'', A purpose,
      T ''") shapes = cons(shape~>bBox shapes))) shapes)'']\<close>

definition delete_shapes_on_layer :: "string \<Rightarrow> string \<Rightarrow> piece list" where
  \<open>delete_shapes_on_layer layer purpose =
     [T ''let((cv) cv = geGetEditCellView() foreach(shape cv~>shapes when(shape~>lpp == list("'',
      A layer, T ''" "'', A purpose, T ''") dbDeleteObject(shape))))'']\<close>

definition highlight_net :: "string \<Rightarrow> piece list" where
  \<open>highlight_net net_name =
     [T ''let((cv net) cv = geGetEditCellView() net = dbFindNetByName(cv "'', A net_name,
      T ''") when(net hiHighlight(net)))'']\<close>

section \<open>Windows and dialogs\<close>

definition displayed_forms :: "piece list" where
  \<open>displayed_forms =
     [T ''let((cur out) out = nil cur = hiGetCurrentForm() when(cur && hiIsFormDisplayed(cur) out = '',
      T ''list(cur)) when(!out foreach(s hiFormList() let((f) f = nil errset(f = symeval(s)) when(f && '',
      T ''type(f) == 'formStruct && hiIsFormDisplayed(f) out = cons(f out))))) out)'']\<close>

definition form_name :: "string \<Rightarrow> piece list" where
  \<open>form_name form =
     [T ''if('', T form, T ''->_WMTitle '', T form, T ''->_WMTitle if('', T form,
      T ''->_formName '', T form, T ''->_formName "unnamed-form"))'']\<close>

definition list_windows :: "piece list" where
  \<open>list_windows =
     [T ''let((out sep name idstr) out = "[" sep = "" foreach(w hiGetWindowList() name = hiGetWindowName(w) '',
      T ''idstr = "" errset(idstr = strcat("`"id`":" hiGetWindowId(w) ",")) out = strcat(out sep "{" idstr '',
      T ''"`"name`":`"" name "`"}") sep = ",") strcat(out "]"))'']\<close>

text \<open>The action the caller names is put into a literal of the text as it is.\<close>

definition dismiss_head :: "string \<Rightarrow> piece list" where
  \<open>dismiss_head click =
     [T ''let((forms n names) forms = ''] @
     displayed_forms @
     [T '' if(forms then n = 0 names = "" foreach(f forms when('', T click,
      T ''(f) n = n+1 names = strcat(names sprintf(nil "%s " ''] @
     form_name ''f'' @
     [T '')))) if(n > 0 sprintf(nil "'']\<close>

definition dismiss_tail :: "piece list" where
  \<open>dismiss_tail =
     [T '':%d %s" n names) "no-dialog") else "no-dialog"))'']\<close>

definition dismiss_dialog :: "string \<Rightarrow> piece list" where
  "dismiss_dialog action =
     (let click = (if action = ''ok'' then ''hiFormDone'' else ''hiFormCancel'') in
      dismiss_head click @ [N action] @ dismiss_tail)"

definition get_dialog_info :: "piece list" where
  \<open>get_dialog_info =
     [T ''let((forms extra) forms = ''] @
     displayed_forms @
     [T '' if(forms then extra = length(forms)-1 sprintf(nil "%s%s" ''] @
     form_name ''car(forms)'' @
     [T '' if(extra > 0 sprintf(nil " (+%d more)" extra) "")) else "no-dialog"))'']\<close>

definition skill_capture :: "string \<Rightarrow> piece list" where
  \<open>skill_capture path =
     [T ''let((cmd) cmd = strcat("import -window root -silent " "'', A path,
      T ''") system(cmd) if(isFile("'', A path, T ''") "'', A path, T ''" nil))'']\<close>

definition screenshot :: "string \<Rightarrow> piece list" where
  \<open>screenshot path = skill_capture path\<close>

definition screenshot_by_pattern :: "string \<Rightarrow> string \<Rightarrow> piece list" where
  \<open>screenshot_by_pattern path pattern =
     [T ''let((matched) matched = nil foreach(w hiGetWindowList() when(rexMatchp("'', A pattern,
      T ''" hiGetWindowName(w)) matched = t)) if(matched ''] @
     skill_capture path @
     [T '' "no-match"))'']\<close>

text \<open>\<open>Path::starts_with\<close> on canonical paths: component by component.\<close>

definition path_components :: "string \<Rightarrow> string list" where
  "path_components p = filter (\<lambda>c. c \<noteq> []) (split_char CHR ''/'' p)"

definition path_starts_with :: "string \<Rightarrow> string \<Rightarrow> bool" where
  "path_starts_with p root \<longleftrightarrow> prefix (path_components root) (path_components p)"

definition bootstrap_text :: "string \<Rightarrow> string \<Rightarrow> piece list" where
  \<open>bootstrap_text pattern path =
     [T ''let((matched) matched = nil foreach(w hiGetWindowList() when(rexMatchp("'', A pattern,
      T ''" hiGetWindowName(w)) matched = t)) if(matched load("'', A path,
      T ''") "ciw-not-found"))'']\<close>

definition build_bootstrap_skill ::
  "(string \<Rightarrow> string + string) \<Rightarrow> string option \<Rightarrow> string \<Rightarrow> string \<Rightarrow> virtuoso_error + piece list" where
  "build_bootstrap_skill canonicalize expected_name_pattern path scratch_root =
     (case canonicalize scratch_root of
        Inl e \<Rightarrow> Inl (Config (''scratch_root '' @ quoted scratch_root @ '' cannot be resolved: '' @ e))
      | Inr root \<Rightarrow>
     (case canonicalize path of
        Inl e \<Rightarrow> Inl (Config (''bootstrap path '' @ quoted path @ '' cannot be resolved: '' @ e))
      | Inr canonical \<Rightarrow>
          if \<not> path_starts_with canonical root
          then Inl (Config (''bootstrap path '' @ quoted canonical @ '' escapes scratch root '' @ quoted root))
          else Inr (bootstrap_text
                 (case expected_name_pattern of Some p \<Rightarrow> p | None \<Rightarrow> ''.*'') canonical)))"

end
