(* ===== verification/Design_Data.thy ===== *)
theory Design_Data
  imports Design_Skill
begin

lemma int_points_plain [simp]: "plain_value (int_points points)"
  by (auto simp: int_points_def list_all_iff plain_char_def intro!: plain_join)

lemmas design_defs =
  library_list_def list_cells_def symbol_inspect_def symbol_text_def symbol_generate_def
  xstream_out_def create_rect_def create_polygon_def create_path_def create_via_def
  create_label_def layout_instance_def set_active_lpp_def fit_view_def read_summary_def
  read_geometry_def delete_shapes_on_layer_def highlight_net_def displayed_forms_def
  form_name_def list_windows_def dismiss_head_def dismiss_tail_def dismiss_dialog_def
  get_dialog_info_def skill_capture_def screenshot_def screenshot_by_pattern_def
  bootstrap_text_def build_bootstrap_skill_def

lemma library_list_data:
  "same_program library_list library_list"
  by (rule same_programI, code_simp, simp add: design_defs plain_char_def, simp add: design_defs)

lemma list_cells_data:
  "same_program (list_cells lib pattern)
     (list_cells [] (map_option (\<lambda>_. []) pattern))"
proof -
  have "same_program (list_cells lib None)
     (list_cells [] None)"
    by (rule same_programI, code_simp, simp add: design_defs plain_char_def, simp add: design_defs)
  moreover have "\<And>pattern_t. same_program (list_cells lib (Some pattern_t))
     (list_cells [] (Some []))"
    by (rule same_programI, code_simp, simp add: design_defs plain_char_def, simp add: design_defs)
  ultimately show ?thesis by (cases pattern) simp_all
qed

lemma symbol_inspect_data:
  "same_program (symbol_inspect lib cell view view_type)
     (symbol_inspect [] [] [] [])"
  by (rule same_programI, code_simp, simp add: design_defs plain_char_def, simp add: design_defs)

lemma xstream_out_data:
  "same_program (xstream_out \<lparr>xs_library = a, xs_top_cell = b, xs_view = c, xs_stream_file = d, xs_layer_map = e, xs_log_file = f, xs_run_dir = g\<rparr>)
     (xstream_out \<lparr>xs_library = [], xs_top_cell = [], xs_view = [], xs_stream_file = [], xs_layer_map = [], xs_log_file = [], xs_run_dir = []\<rparr>)"
  by (rule same_programI, code_simp, simp add: design_defs plain_char_def, simp add: design_defs)

lemma create_rect_data:
  "same_program (create_rect layer purpose ((x1, y1), (x2, y2)))
     (create_rect [] [] ((x1, y1), (x2, y2)))"
  by (rule same_programI, code_simp, simp add: design_defs plain_char_def, simp add: design_defs)

lemma create_polygon_data:
  "same_program (create_polygon layer purpose points)
     (create_polygon [] [] points)"
  by (rule same_programI, code_simp, simp add: design_defs plain_char_def, simp add: design_defs)

lemma create_path_data:
  "same_program (create_path layer purpose width points)
     (create_path [] [] width points)"
  by (rule same_programI, code_simp, simp add: design_defs plain_char_def, simp add: design_defs)

lemma create_via_data:
  "same_program (create_via via_def (x, y))
     (create_via [] (x, y))"
  by (rule same_programI, code_simp, simp add: design_defs plain_char_def, simp add: design_defs)

lemma create_label_data:
  "same_program (create_label layer purpose label_text (x, y))
     (create_label [] [] [] (x, y))"
  by (rule same_programI, code_simp, simp add: design_defs plain_char_def, simp add: design_defs)

lemma layout_instance_data:
  "same_program (layout_instance lib cell view (x, y) orient)
     (layout_instance [] [] [] (x, y) [])"
  by (rule same_programI, code_simp, simp add: design_defs plain_char_def, simp add: design_defs)

lemma set_active_lpp_data:
  "same_program (set_active_lpp layer purpose)
     (set_active_lpp [] [])"
  by (rule same_programI, code_simp, simp add: design_defs plain_char_def, simp add: design_defs)

lemma fit_view_data:
  "same_program fit_view fit_view"
  by (rule same_programI, code_simp, simp add: design_defs plain_char_def, simp add: design_defs)

lemma read_summary_data:
  "same_program read_summary read_summary"
  by (rule same_programI, code_simp, simp add: design_defs plain_char_def, simp add: design_defs)

lemma read_geometry_data:
  "same_program (read_geometry layer purpose)
     (read_geometry [] [])"
  by (rule same_programI, code_simp, simp add: design_defs plain_char_def, simp add: design_defs)

lemma delete_shapes_on_layer_data:
  "same_program (delete_shapes_on_layer layer purpose)
     (delete_shapes_on_layer [] [])"
  by (rule same_programI, code_simp, simp add: design_defs plain_char_def, simp add: design_defs)

lemma highlight_net_data:
  "same_program (highlight_net net)
     (highlight_net [])"
  by (rule same_programI, code_simp, simp add: design_defs plain_char_def, simp add: design_defs)

lemma list_windows_data:
  "same_program list_windows list_windows"
  by (rule same_programI, code_simp, simp add: design_defs plain_char_def, simp add: design_defs)

lemma get_dialog_info_data:
  "same_program get_dialog_info get_dialog_info"
  by (rule same_programI, code_simp, simp add: design_defs plain_char_def, simp add: design_defs)

lemma screenshot_data:
  "same_program (screenshot path)
     (screenshot [])"
  by (rule same_programI, code_simp, simp add: design_defs plain_char_def, simp add: design_defs)

lemma screenshot_by_pattern_data:
  "same_program (screenshot_by_pattern path pattern)
     (screenshot_by_pattern [] [])"
  by (rule same_programI, code_simp, simp add: design_defs plain_char_def, simp add: design_defs)

section \<open>Texts built under conditions\<close>

lemma symbol_text_data:
  "same_program (symbol_text temp lib cell src dst sort_pins)
     (symbol_text [] [] [] [] [] (map_option (\<lambda>_. []) sort_pins))"
proof -
  have "same_program (symbol_text temp lib cell src dst None) (symbol_text [] [] [] [] [] None)"
    by (rule same_programI, code_simp, simp add: design_defs, simp add: design_defs)
  moreover have "\<And>s. same_program (symbol_text temp lib cell src dst (Some s)) (symbol_text [] [] [] [] [] (Some []))"
    by (rule same_programI, code_simp, simp add: design_defs, simp add: design_defs)
  ultimately show ?thesis by (cases sort_pins) simp_all
qed

lemma symbol_generate_data:
  "symbol_generate uuid lib cell src dst sort_pins = Some ps \<Longrightarrow>
     same_program ps (symbol_text [] [] [] [] [] (map_option (\<lambda>_. []) sort_pins))"
  by (auto simp: symbol_generate_def symbol_text_data split: if_splits)

lemma bootstrap_text_data: "same_program (bootstrap_text pattern path) (bootstrap_text [] [])"
  by (rule same_programI, code_simp, simp add: design_defs, simp add: design_defs)

lemma bootstrap_contained:
  "build_bootstrap_skill canonicalize pat path root = Inr ps \<Longrightarrow>
     \<exists>r p. canonicalize root = Inr r \<and> canonicalize path = Inr p \<and> path_starts_with p r \<and>
       ps = bootstrap_text (case pat of Some x \<Rightarrow> x | None \<Rightarrow> ''.*'') p"
  by (auto simp: build_bootstrap_skill_def split: sum.splits if_splits)

end
