(* ===== verification/Maestro_Skill.thy ===== *)
theory Maestro_Skill
  imports Skill_Template Skill_Result
begin

text \<open>
  The SKILL texts of \<open>src/client/maestro_ops.rs\<close>, as templates, with \<open>src/version.rs\<close>; and the two
  ways the options of an analysis are put into them.

  The options are a text of SKILL code.  It is either what the caller sent, or built by
  \<open>json_to_skill_alist\<close> from a JSON object; the parser of \<open>serde_json\<close> and the views of its values are
  parameters.  \<open>None\<close> stands for a panic.
\<close>

section \<open>Versions\<close>

datatype virtuoso_version = IC23 | IC25 | UnknownVersion

definition is_ic25 :: "virtuoso_version \<Rightarrow> bool" where
  "is_ic25 v \<longleftrightarrow> v = IC25"

text \<open>\<open>str::find\<close>: what follows the first occurrence.\<close>

fun after_first :: "string \<Rightarrow> string \<Rightarrow> string option" where
  "after_first p [] = (if p = [] then Some [] else None)"
| "after_first p (c # s) =
     (if take (length p) (c # s) = p then Some (drop (length p) (c # s)) else after_first p s)"

definition parse_ic_version :: "string \<Rightarrow> virtuoso_version" where
  "parse_ic_version s =
     (case after_first ''ic'' (to_lowercase s) of
        None \<Rightarrow> UnknownVersion
      | Some rest \<Rightarrow>
          (case parse_unsigned 4294967295 (takeWhile is_digit rest) of
             None \<Rightarrow> UnknownVersion
           | Some major \<Rightarrow> if major \<ge> 25 then IC25 else IC23))"

section \<open>Fragments\<close>

fun resolve_test :: "string \<Rightarrow> string \<Rightarrow> string option \<Rightarrow> piece list" where
  \<open>resolve_test session caller (Some t) =
     [T ''tn = "'', A t, T ''" unless(member(tn tests) error("'', A caller, T '': session `"'',
      A session, T ''`" has no test named `"'', A t, T ''`" '', T em_dash,
      T '' it has %L" tests))'']\<close>
| \<open>resolve_test session caller None =
     [T ''tn = cond((null(tests) error("'', A caller, T '': session `"'', A session,
      T ''`" has no tests")) (cdr(tests) error("'', A caller, T '': session `"'', A session,
      T ''`" has %d tests %L '', T em_dash,
      T '' pass `"test`" to say which one" length(tests) tests)) (t car(tests)))'']\<close>

definition test_binding :: "string \<Rightarrow> string option \<Rightarrow> string \<Rightarrow> piece list" where
  \<open>test_binding session test caller =
     [T ''tests = maeGetSetup(?session "'', A session, T ''") ''] @
     resolve_test session caller test\<close>

definition skill_strings_to_json :: "piece list \<Rightarrow> piece list" where
  \<open>skill_strings_to_json list_expr =
     [T ''let((xs out sep) xs = ''] @
     list_expr @
     [T '' out = "[" sep = "" foreach(x xs out = strcat(out sep sprintf(nil "`"%s`"" x)) sep = ",") '',
      T ''strcat(out "]"))'']\<close>

definition opt_arg :: "string \<Rightarrow> string option \<Rightarrow> piece list" where
  \<open>opt_arg key v = (case v of None \<Rightarrow> [] | Some x \<Rightarrow> [T '' '', T key, T '' "'', A x, T ''"''])\<close>

section \<open>Sessions\<close>

definition open_session :: "string \<Rightarrow> string \<Rightarrow> string \<Rightarrow> string \<Rightarrow> piece list" where
  \<open>open_session lib cell view mode =
     [T ''maeOpenSetup("'', A lib, T ''" "'', A cell, T ''" "'', A view, T ''" ?mode "'', A mode,
      T ''")'']\<close>

definition set_session_mode :: "string \<Rightarrow> bool \<Rightarrow> piece list" where
  \<open>set_session_mode session editable =
     (if editable then
     [T ''maeMakeEditable(?session "'', A session, T ''")'']
      else
     [T ''maeMakeReadonly(?session "'', A session, T ''")''])\<close>

definition close_session :: "string \<Rightarrow> piece list" where
  \<open>close_session session =
     [T ''maeCloseSession(?session "'', A session, T ''" ?forceClose t)'']\<close>

definition list_sessions :: "piece list" where
  \<open>list_sessions = skill_strings_to_json [T ''maeGetSessions()'']\<close>

definition list_tests :: "string \<Rightarrow> piece list" where
  \<open>list_tests session = skill_strings_to_json
     [T ''maeGetSetup(?session "'', A session, T ''")'']\<close>

definition list_corners :: "string \<Rightarrow> piece list" where
  \<open>list_corners session =
     [T ''let((sdb) unless(axlIsValidAXLSession("'', A session,
      T ''") error("maestro.list_corners: no such Maestro session '%s' '', T em_dash,
      T '' check 'maestro.list_sessions'" "'', A session, T ''")) sdb = axlGetMainSetupDB("'',
      A session,
      T ''") unless(sdb error("maestro.list_corners: session '%s' has no setup database" "'',
      A session, T ''")) ''] @
     skill_strings_to_json [T ''cadr(axlGetCorners(sdb))''] @
     [T '')'']\<close>

section \<open>Variables and outputs\<close>

definition set_var :: "string \<Rightarrow> string \<Rightarrow> piece list" where
  \<open>set_var name val =
     [T ''maeSetVar("'', A name, T ''" "'', A val, T ''")'']\<close>

definition get_var :: "string \<Rightarrow> piece list" where
  \<open>get_var name =
     [T ''maeGetVar("'', A name, T ''")'']\<close>

definition list_vars :: "piece list" where
  \<open>list_vars =
     [T ''let((s names out sep raw val) s = car(maeGetSessions()) names = maeGetSetup(?session s ?typeName '',
      T ''"variables") out = "[" sep = "" foreach(n names raw = maeGetVar(n) val = if(stringp(raw) then raw '',
      T ''else if(raw then sprintf(nil "%L" raw) else "")) val = buildString(parseString(val "`"") "```"") '',
      T ''out = strcat(out sep sprintf(nil "{`"name`":`"%s`",`"value`":`"%s`"}" n val)) sep = ",") strcat(out '',
      T ''"]"))'']\<close>

definition delete_var :: "string \<Rightarrow> piece list" where
  \<open>delete_var name =
     [T ''maeDeleteVar("'', A name, T ''")'']\<close>

definition delete_output :: "string \<Rightarrow> string \<Rightarrow> piece list" where
  \<open>delete_output output_name test_name =
     [T ''maeDeleteOutput("'', A output_name, T ''" "'', A test_name, T ''")'']\<close>

text \<open>The closures of \<open>get_outputs\<close>: doubled quotes, and a field that may not be a string.\<close>

definition esc_var :: "string \<Rightarrow> piece list" where
  \<open>esc_var var =
     [T ''buildString(parseString('', T var, T '' "`"") "```"")'']\<close>

definition str_field :: "string \<Rightarrow> piece list" where
  \<open>str_field field =
     [T ''if(stringp(o~>'', T field, T '') then o~>'', T field, T '' else "")'']\<close>

definition expr_field :: "piece list" where
  \<open>expr_field =
     [T ''if(stringp(o~>expr) then o~>expr else if(o~>expression then sprintf(nil "%L" o~>expression) else '',
      T ''""))'']\<close>

definition get_outputs :: "string \<Rightarrow> piece list" where
  \<open>get_outputs test_name =
     [T ''let((outs out sep nm ty sg ex) outs = maeGetTestOutputs("'', A test_name,
      T ''") out = "[" sep = "" foreach(o outs nm = ''] @
     str_field ''name'' @
     [T '' ty = ''] @
     str_field ''outputType'' @
     [T '' sg = ''] @
     str_field ''signalName'' @
     [T '' ex = ''] @
     expr_field @
     [T '' out = strcat(out sep sprintf(nil "{`"name`":`"%s`",`"type`":`"%s`",`"signalName`":`"%s`",`"expr`":`'',
      T ''"%s`"}" ''] @
     esc_var ''nm'' @
     [T '' ''] @
     esc_var ''ty'' @
     [T '' ''] @
     esc_var ''sg'' @
     [T '' ''] @
     esc_var ''ex'' @
     [T '')) sep = ",") strcat(out "]"))'']\<close>

definition add_output :: "string \<Rightarrow> string \<Rightarrow> string \<Rightarrow> piece list" where
  \<open>add_output output_name test_name expr =
     [T ''maeAddOutput("'', A output_name, T ''" "'', A test_name, T ''" ?expr "'', A expr,
      T ''")'']\<close>

section \<open>Setup\<close>

definition set_design ::
  "string \<Rightarrow> string \<Rightarrow> string \<Rightarrow> string \<Rightarrow> string option \<Rightarrow> piece list" where
  \<open>set_design session lib cell view test =
     [T ''maeSetDesignForTest("'', A lib, T ''" "'', A cell, T ''" "'', A view, T ''"''] @
     opt_arg ''?test'' test @
     [T '' ?session "'', A session, T ''")'']\<close>

definition create_test ::
  "string \<Rightarrow> string \<Rightarrow> string \<Rightarrow> string \<Rightarrow> string \<Rightarrow> string \<Rightarrow> piece list" where
  \<open>create_test session test lib cell view simulator =
     [T ''maeCreateTest("'', A test, T ''" ?lib "'', A lib, T ''" ?cell "'', A cell,
      T ''" ?view "'', A view, T ''" ?simulator "'', A simulator, T ''" ?session "'', A session,
      T ''")'']\<close>

definition save_setup :: "string \<Rightarrow> piece list" where
  \<open>save_setup session =
     [T ''let((s) s = "'', A session,
      T ''" when(getd('axlIsSessionReadOnly) && axlIsSessionReadOnly(s) error("maestro.save: session %s is '',
      T ''read-only. maeSaveSetup would report success and write nothing. Switch it with '',
      T ''maestro.set_session_mode mode=a, save, then switch back to mode=r." s)) maeSaveSetup(?session s))'']\<close>

definition create_netlist_for_corner :: "string \<Rightarrow> string \<Rightarrow> string \<Rightarrow> string \<Rightarrow> piece list" where
  \<open>create_netlist_for_corner test_name corner output_dir session =
     [T ''maeCreateNetlistForCorner("'', A test_name, T ''" "'', A corner, T ''" "'',
      A output_dir, T ''" ?session "'', A session, T ''")'']\<close>

section \<open>Analyses\<close>

definition delete_analysis :: "string \<Rightarrow> piece list" where
  \<open>delete_analysis analysis =
     [T ''let((r lst) errset(asiDeleteAnalysis(asiGetCurrentSession() stringToSymbol("'',
      A analysis,
      T ''"))) r = errset(maeGetEnabledAnalysis(car(maeGetSetup()))) lst = if(r car(r) nil) if(exists(a lst '',
      T ''equal(a "'', A analysis, T ''")) "nil" "t"))'']\<close>

definition get_analyses :: "string \<Rightarrow> string option \<Rightarrow> piece list" where
  \<open>get_analyses session test =
     [T ''let((tests tn) ''] @
     test_binding session test ''maestro.get_analyses'' @
     [T '' maeGetEnabledAnalysis(tn))'']\<close>

text \<open>
  \<open>parse_inner_pairs\<close>: the groups at the top level, cut at the parentheses without regard to
  literals.  \<open>inner\<close> is the whole text, \<open>s\<close> what is left of it from position \<open>i\<close>.
\<close>

fun inner_pairs :: "string \<Rightarrow> nat \<Rightarrow> nat \<Rightarrow> nat \<Rightarrow> string \<Rightarrow> string list" where
  "inner_pairs inner depth start i [] = []"
| "inner_pairs inner depth start i (c # s) =
     (if c = CHR ''('' then inner_pairs inner (Suc depth) (if depth = 0 then i else start) (Suc i) s
      else if c = CHR '')'' then
        (case depth of
           0 \<Rightarrow> []
         | Suc 0 \<Rightarrow> trim (take (Suc i - start) (drop start inner)) # inner_pairs inner 0 start (Suc i) s
         | Suc d \<Rightarrow> inner_pairs inner d start (Suc i) s)
      else inner_pairs inner depth start (Suc i) s)"

definition parse_inner_pairs :: "string \<Rightarrow> string list" where
  "parse_inner_pairs inner =
     (let results = inner_pairs inner 0 0 0 inner in if results = [] then [trim inner] else results)"

text \<open>\<open>&alist[1..alist.len() - 1]\<close> panics when the last character has more than one byte.\<close>

definition strip_ends :: "string \<Rightarrow> string option" where
  "strip_ends s = (if cont_byte (of_char (last s)) then None else Some (butlast (tl s)))"

definition parse_skill_pairs :: "string \<Rightarrow> string list option" where
  "parse_skill_pairs alist =
     (let alist = trim alist in
      if length alist < 2 then Some [alist]
      else if starts_with alist ''(list ('' then map_option parse_inner_pairs (strip_ends alist)
      else if starts_with alist ''(('' then map_option parse_inner_pairs (strip_ends alist)
      else Some [alist])"

definition strip_suffix_paren :: "string \<Rightarrow> string" where
  "strip_suffix_paren s = (if s \<noteq> [] \<and> last s = CHR '')'' then butlast s else s)"

definition skill_pair_to_quoted :: "string \<Rightarrow> string" where
  "skill_pair_to_quoted pair =
     (let trimmed = trim pair in
      case strip_prefix ''(list '' trimmed of
        Some without_prefix \<Rightarrow> ''quote(('' @ trim (strip_suffix_paren without_prefix) @ ''))''
      | None \<Rightarrow> ''quote('' @ trimmed @ '')'')"

definition quoted_pairs :: "string \<Rightarrow> string option" where
  "quoted_pairs alist = map_option (\<lambda>ps. join '' '' (map skill_pair_to_quoted ps)) (parse_skill_pairs alist)"

definition opts_binding :: "string option \<Rightarrow> piece list" where
  \<open>opts_binding quoted = (case quoted of Some q \<Rightarrow> [T ''opts = (list '', N q, T '')''] | None \<Rightarrow> [])\<close>

definition opts_arg :: "string option \<Rightarrow> piece list" where
  \<open>opts_arg quoted = (case quoted of Some q \<Rightarrow> [T '' ?options opts''] | None \<Rightarrow> [])\<close>

definition session_arg :: "string \<Rightarrow> virtuoso_version \<Rightarrow> piece list" where
  \<open>session_arg session version = (if is_ic25 version then [T '' ?session "'', A session, T ''"''] else [])\<close>

definition analysis_head :: "string \<Rightarrow> string option \<Rightarrow> piece list" where
  \<open>analysis_head session test =
     [T ''let((tests tn opts) ''] @
     test_binding session test ''maestro.set_analysis'' @
     [T '' '']\<close>

definition analysis_tail :: "string \<Rightarrow> string \<Rightarrow> string option \<Rightarrow> virtuoso_version \<Rightarrow> piece list" where
  \<open>analysis_tail session analysis_type quoted version =
     [T '' maeSetAnalysis(tn "'', A analysis_type, T ''"''] @
     session_arg session version @
     [T '' ?enable t''] @
     opts_arg quoted @
     [T ''))'']\<close>

definition set_analysis_text ::
  "string \<Rightarrow> string \<Rightarrow> string option \<Rightarrow> string option \<Rightarrow> virtuoso_version \<Rightarrow> piece list" where
  "set_analysis_text session analysis_type quoted test version =
     analysis_head session test @ opts_binding quoted @ analysis_tail session analysis_type quoted version"

definition set_analysis ::
  "string \<Rightarrow> string \<Rightarrow> string option \<Rightarrow> string option \<Rightarrow> virtuoso_version \<Rightarrow> piece list option" where
  "set_analysis session analysis_type options test version =
     (case options of
        None \<Rightarrow> Some (set_analysis_text session analysis_type None test version)
      | Some alist \<Rightarrow>
          map_option (\<lambda>q. set_analysis_text session analysis_type (Some q) test version) (quoted_pairs alist))"

section \<open>Running\<close>

definition run_simulation :: "string \<Rightarrow> piece list" where
  \<open>run_simulation session =
     [T ''maeRunSimulation(?session "'', A session, T ''")'']\<close>

definition right_arrow :: string where
  "right_arrow = map char_of [226, 134, 146 :: nat]"

definition run_with_dec_text :: "string \<Rightarrow> string \<Rightarrow> piece list \<Rightarrow> u32 \<Rightarrow> piece list" where
  \<open>run_with_dec_text session analysis_type opts_inner dec =
     [T ''progn('', T [newline], T ''procedure(vcliShellQuote(value)'', T [newline],
      T ''; Return a POSIX single-quoted shell word, escaping embedded apostrophes.'',
      T [newline],
      T ''; Apostrophe in input becomes '"'"' (close sq, add dq-sq-dq, reopen sq).'',
      T [newline], T ''let((out i c len)'', T [newline], T ''out = "'"'', T [newline],
      T ''len = strlen(value)'', T [newline], T ''i = 0'', T [newline], T ''while(i < len'',
      T [newline], T ''c = substring(value i 1)'', T [newline], T ''if(c == "'"'', T [newline],
      T ''out = strcat(out "'`"'`"'")'', T [newline], T ''out = strcat(out c))'', T [newline],
      T ''i = add1(i))'', T [newline], T ''strcat(out "'")))'', T [newline],
      T ''procedure(vcliDecInject(s a o d)'', T [newline],
      T ''let((setupName cellView netDir netPath netPathQuoted cmd ok ds)'', T [newline],
      T ''; Derive netlist path from getWorkingDir + maeGetSetup'', T [newline],
      T ''; IC25 Maestro writes netlist to:'', T [newline],
      T '';   <wd>/simulation/<cellview>/maestro/results/maestro/.tmpADEDir_user1/<setupName>/<cellview>_schem'',
      T ''atic_spectre/netlist/input.scs'', T [newline],
      T ''setupName=car(maeGetSetup(?session s))'', T [newline],
      T ''cellView=substring(setupName 1 sub1(strlen(setupName)))'', T [newline],
      T ''netDir=sprintf(nil "%s/simulation/%s/maestro/results/maestro/.tmpADEDir_user1/%s/%s_schematic_spectr'',
      T ''e/netlist" getWorkingDir() cellView setupName cellView)'', T [newline],
      T ''netPath=strcat(netDir "/input.scs")'', T [newline],
      T ''netPathQuoted=vcliShellQuote(netPath)'', T [newline],
      T ''; Build dec="N" string for sed'', T [newline], T ''ds=sprintf(nil "dec=%d" d)'',
      T [newline], T ''; Set analysis with dec=0 (placeholder, sed will replace it)'',
      T [newline], T ''maeSetAnalysis(setupName a ?session s ?enable t ?options o)'',
      T [newline], T ''; Save '', T right_arrow, T '' generates netlist'', T [newline],
      T ''maeSaveSetup(?session s)'', T [newline], T ''; Primary sed: replace " stop=" '',
      T right_arrow, T '' " dec=N stop=" on the ac line'', T [newline],
      T ''; Uses /0/.../0/ address to match only the first occurrence'', T [newline],
      T ''cmd=sprintf(nil "sed -i '0,/ stop=/s/ stop=/ %s stop=/' %s %s" ds netPathQuoted netPathQuoted)'',
      T [newline], T ''ok=not(system(cmd))'', T [newline],
      T ''when(ok system(sprintf(nil "grep '^ac ' %s" netPathQuoted)))'', T [newline],
      T ''maeRunSimulation(?session s)))'', T [newline], T ''vcliDecInject("'', A session,
      T ''" "'', A analysis_type, T ''" (list ''] @
     opts_inner @
     [T '') '', N (show_nat (unat dec)), T ''))'']\<close>

definition run_with_dec ::
  "string \<Rightarrow> string \<Rightarrow> string option \<Rightarrow> u32 \<Rightarrow> piece list option" where
  \<open>run_with_dec session analysis_type options dec =
     (case options of
        None \<Rightarrow> Some (run_with_dec_text session analysis_type [T ''quote(("dec" "0"))''] dec)
      | Some alist \<Rightarrow>
          map_option (\<lambda>q. run_with_dec_text session analysis_type [T ''quote(("dec" "0")) '', N q] dec)
            (quoted_pairs alist))\<close>

definition get_sim_messages :: "string \<Rightarrow> piece list" where
  \<open>get_sim_messages session =
     [T ''maeGetSimulationMessages(?session "'', A session, T ''")'']\<close>

definition get_sim_status :: "string \<Rightarrow> piece list" where
  \<open>get_sim_status session =
     [T ''let((sess status) sess = asiGetSession("'', A session,
      T ''") status = if(sess sess~>status else "nil"))'']\<close>

definition focused_window_skill :: "piece list" where
  \<open>focused_window_skill =
     [T ''let((cw sess) cw=hiGetCurrentWindow() sess=if(cw cw->davSession nil) list(if(cw hiGetWindowName(cw) '',
      T ''nil) sess mapcar(lambda((w) hiGetWindowName(w)) hiGetWindowList()) maeGetSessions() if(sess let((s) '',
      T ''s=asiGetSession(sess) if(s asiGetAnalogRunDir(s) nil)) nil)))'']\<close>

definition run_dir_skill :: "string \<Rightarrow> piece list" where
  \<open>run_dir_skill session =
     [T ''let((sess) sess=asiGetSession("'', A session,
      T ''") if(sess asiGetAnalogRunDir(sess) nil))'']\<close>

section \<open>Results\<close>

definition export_results ::
  "string \<Rightarrow> string \<Rightarrow> string option \<Rightarrow> string option \<Rightarrow> piece list" where
  \<open>export_results session file_path test_name history =
     [T ''maeExportOutputView(?session "'', A session, T ''"''] @
     opt_arg ''?testName'' test_name @
     opt_arg ''?historyName'' history @
     [T '' ?view "Detail" ?fileName "'', A file_path, T ''")'']\<close>

record export_waveform_request =
  ew_session :: string
  ew_expression :: string
  ew_analysis :: string
  ew_number_notation :: string
  ew_precision :: u8
  ew_width :: u8
  ew_output_path :: string

definition waveform_text :: "export_waveform_request \<Rightarrow> piece list" where
  \<open>waveform_text req =
     [T ''let((v) v = axlWaveformToList(axlGetWaveform(?session "'', A (ew_session req),
      T ''" ?expression "'', A (ew_expression req), T ''" ?analysis "'', A (ew_analysis req),
      T ''")) ocnPrint(?expr v ?numberNotation "'', A (ew_number_notation req),
      T ''" ?precision '', N (show_nat (unat (ew_precision req))), T '' ?width '',
      N (show_nat (unat (ew_width req))), T '' ?outputFile "'', A (ew_output_path req),
      T ''"))'']\<close>

definition export_waveform :: "export_waveform_request \<Rightarrow> piece list option" where
  "export_waveform req =
     (if \<not> (1 \<le> ew_precision req \<and> ew_precision req \<le> 16) then None
      else if ew_width req < 4 then None
      else if ew_number_notation req \<notin> {''scientific'', ''engineering'', ''automatic''} then None
      else Some (waveform_text req))"

definition open_results :: "string \<Rightarrow> piece list" where
  \<open>open_results history =
     [T ''maeOpenResults(?history "'', A history, T ''")'']\<close>

definition close_results :: "piece list" where
  \<open>close_results =
     [T ''maeCloseResults()'']\<close>

definition get_result_tests :: "piece list" where
  \<open>get_result_tests =
     [T ''let((tests out sep) tests = maeGetResultTests() out = "[" sep = "" foreach(tst tests out = '',
      T ''strcat(out sep sprintf(nil "`"%s`"" tst)) sep = ",") strcat(out "]"))'']\<close>

definition get_result_outputs :: "string \<Rightarrow> piece list" where
  \<open>get_result_outputs test_name =
     [T ''let((outs out sep) outs = maeGetResultOutputs(?testName "'', A test_name,
      T ''") out = "[" sep = "" foreach(o outs out = strcat(out sep sprintf(nil "`"%s`"" o)) sep = ",") '',
      T ''strcat(out "]"))'']\<close>

definition get_output_value :: "string \<Rightarrow> string \<Rightarrow> string option \<Rightarrow> piece list" where
  \<open>get_output_value name test_name corner =
     (case corner of
        Some c \<Rightarrow>
     [T ''maeGetOutputValue("'', A name, T ''" "'', A test_name, T ''" ?cornerName "'', A c,
      T ''")'']
      | None \<Rightarrow>
     [T ''maeGetOutputValue("'', A name, T ''" "'', A test_name, T ''")''])\<close>

definition get_output_value_with_open ::
  "string \<Rightarrow> string \<Rightarrow> string \<Rightarrow> string option \<Rightarrow> piece list" where
  \<open>get_output_value_with_open history name test_name corner =
     [T ''(progn (maeOpenResults ?history "'', A history, T ''") ''] @
     get_output_value name test_name corner @
     [T '')'']\<close>

definition get_spec_status :: "string \<Rightarrow> string \<Rightarrow> piece list" where
  \<open>get_spec_status name test_name =
     [T ''maeGetSpecStatus("'', A name, T ''" "'', A test_name, T ''")'']\<close>

definition get_history_list :: "piece list" where
  \<open>get_history_list =
     [T ''let((rd root found hs out sep) rd = car(errset(asiGetResultsDir(asiGetCurrentSession()))) root = '',
      T ''nil found = nil when(stringp(rd) root = "" foreach(p parseString(rd "/") unless(found root = '',
      T ''strcat(root "/" p) when(rexMatchp("/results/maestro$" root) found = t)))) hs = nil when(found && '',
      T ''isDir(root) hs = setof(h getDirFiles(root) h != "." && h != ".." && !rexMatchp("^[.]" h) && '',
      T ''isDir(strcat(root "/" h)))) out = "[" sep = "" foreach(h hs out = strcat(out sep sprintf(nil '',
      T ''"`"%s`"" h)) sep = ",") strcat(out "]"))'']\<close>

definition get_current_session :: "piece list" where
  \<open>get_current_session =
     [T ''let((sess out) sess = asiGetCurrentSession() out = if(sess then sess~>name else "nil"))'']\<close>

definition maestro_session_info :: "piece list" where
  \<open>maestro_session_info =
     [T ''let((sess info) sess = asiGetCurrentSession() info = if(sess list(sess~>name if(sess~>adeSession '',
      T ''then sess~>adeSession~>libName else nil) if(sess~>adeSession then sess~>adeSession~>cellName else '',
      T ''nil) if(sess~>adeSession then sess~>adeSession~>viewName else nil)) else nil))'']\<close>

definition cell_exists :: "string \<Rightarrow> string \<Rightarrow> piece list" where
  \<open>cell_exists lib cell =
     [T ''when(ddGetObj("'', A lib, T ''" "'', A cell, T ''") "exists")'']\<close>

definition libs_with_view :: "string \<Rightarrow> piece list" where
  \<open>libs_with_view view =
     [T ''let((libs out sep) libs = ddGetLibList() out = "[" sep = "" foreach(l libs when(member("'',
      A view,
      T ''" l~>cells~>viewName) out = strcat(out sep sprintf(nil "`"%s`"" l~>name)) sep = ",")) strcat(out '',
      T ''"]"))'']\<close>

definition results_dir :: "piece list" where
  \<open>results_dir =
     [T ''let((sess dir) sess = asiGetCurrentSession() dir = if(sess then asiGetResultsDir(sess) else nil) '',
      T ''if(dir dir "nil"))'']\<close>

definition detect_corner_from_path :: "string \<Rightarrow> piece list" where
  \<open>detect_corner_from_path path =
     [T ''let((name corner) name = "'', A path, T ''" corner = cond('', T [newline],
      T ''                (rexMatchp("tt" name) "tt")'', T [newline],
      T ''                (rexMatchp("ss" name) "ss")'', T [newline],
      T ''                (rexMatchp("ff" name) "ff")'', T [newline],
      T ''                (rexMatchp("snfp" name) "snfp")'', T [newline],
      T ''                (rexMatchp("fnfp" name) "fnfp")'', T [newline],
      T ''                (rexMatchp("fs" name) "fs")'', T [newline],
      T ''                (rexMatchp("sf" name) "sf")'', T [newline],
      T ''                (t nil)'', T [newline], T ''            ) if(corner corner "nil"))'']\<close>

section \<open>Options from JSON\<close>

definition alist_pair :: "('v \<Rightarrow> string option) \<Rightarrow> ('v \<Rightarrow> string) \<Rightarrow> string \<times> 'v \<Rightarrow> string" where
  \<open>alist_pair as_text to_text kv =
     ''("'' @ fst kv @ ''" "'' @ (case as_text (snd kv) of Some s \<Rightarrow> s | None \<Rightarrow> to_text (snd kv)) @ ''")''\<close>

definition json_to_skill_alist ::
  "(string \<Rightarrow> string + 'v) \<Rightarrow> ('v \<Rightarrow> (string \<times> 'v) list option) \<Rightarrow> ('v \<Rightarrow> string option)
     \<Rightarrow> ('v \<Rightarrow> string) \<Rightarrow> string \<Rightarrow> string + string" where
  "json_to_skill_alist from_json as_object as_text to_text json_str =
     (case from_json json_str of
        Inl e \<Rightarrow> Inl (''invalid JSON: '' @ e)
      | Inr parsed \<Rightarrow>
          (case as_object parsed of
             None \<Rightarrow> Inl ''expected a JSON object''
           | Some obj \<Rightarrow> Inr (''('' @ join '' '' (map (alist_pair as_text to_text) obj) @ '')'')))"

end
