(* ===== verification/Maestro_Data.thy ===== *)
theory Maestro_Data
  imports Maestro_Skill
begin

lemmas maestro_defs =
  test_binding_def skill_strings_to_json_def opt_arg_def open_session_def set_session_mode_def
  close_session_def list_sessions_def list_tests_def list_corners_def set_var_def get_var_def
  list_vars_def delete_var_def delete_output_def esc_var_def str_field_def expr_field_def
  get_outputs_def add_output_def set_design_def create_test_def save_setup_def
  create_netlist_for_corner_def delete_analysis_def get_analyses_def opts_binding_def
  opts_arg_def session_arg_def analysis_head_def analysis_tail_def set_analysis_text_def
  set_analysis_def run_simulation_def run_with_dec_text_def run_with_dec_def
  get_sim_messages_def get_sim_status_def focused_window_skill_def run_dir_skill_def
  export_results_def waveform_text_def export_waveform_def open_results_def close_results_def
  get_result_tests_def get_result_outputs_def get_output_value_def
  get_output_value_with_open_def get_spec_status_def get_history_list_def
  get_current_session_def maestro_session_info_def cell_exists_def libs_with_view_def
  results_dir_def detect_corner_from_path_def

lemma open_session_data:
  "same_program (open_session lib cell view mode)
     (open_session [] [] [] [])"
  by (rule same_programI, code_simp, simp add: maestro_defs plain_char_def, simp add: maestro_defs)

lemma set_session_mode_data:
  "same_program (set_session_mode session editable)
     (set_session_mode [] editable)"
proof -
  have "same_program (set_session_mode session True)
     (set_session_mode [] True)"
    by (rule same_programI, code_simp, simp add: maestro_defs plain_char_def, simp add: maestro_defs)
  moreover have "same_program (set_session_mode session False)
     (set_session_mode [] False)"
    by (rule same_programI, code_simp, simp add: maestro_defs plain_char_def, simp add: maestro_defs)
  ultimately show ?thesis by (cases editable) simp_all
qed

lemma close_session_data:
  "same_program (close_session session)
     (close_session [])"
  by (rule same_programI, code_simp, simp add: maestro_defs plain_char_def, simp add: maestro_defs)

lemma list_sessions_data:
  "same_program list_sessions list_sessions"
  by (rule same_programI, code_simp, simp add: maestro_defs plain_char_def, simp add: maestro_defs)

lemma list_tests_data:
  "same_program (list_tests session)
     (list_tests [])"
  by (rule same_programI, code_simp, simp add: maestro_defs plain_char_def, simp add: maestro_defs)

lemma list_corners_data:
  "same_program (list_corners session)
     (list_corners [])"
  by (rule same_programI, code_simp, simp add: maestro_defs plain_char_def, simp add: maestro_defs)

lemma set_var_data:
  "same_program (set_var name val)
     (set_var [] [])"
  by (rule same_programI, code_simp, simp add: maestro_defs plain_char_def, simp add: maestro_defs)

lemma get_var_data:
  "same_program (get_var name)
     (get_var [])"
  by (rule same_programI, code_simp, simp add: maestro_defs plain_char_def, simp add: maestro_defs)

lemma list_vars_data:
  "same_program list_vars list_vars"
  by (rule same_programI, code_simp, simp add: maestro_defs plain_char_def, simp add: maestro_defs)

lemma delete_var_data:
  "same_program (delete_var name)
     (delete_var [])"
  by (rule same_programI, code_simp, simp add: maestro_defs plain_char_def, simp add: maestro_defs)

lemma delete_output_data:
  "same_program (delete_output output_name test_name)
     (delete_output [] [])"
  by (rule same_programI, code_simp, simp add: maestro_defs plain_char_def, simp add: maestro_defs)

lemma get_outputs_data:
  "same_program (get_outputs test_name)
     (get_outputs [])"
  by (rule same_programI, code_simp, simp add: maestro_defs plain_char_def, simp add: maestro_defs)

lemma add_output_data:
  "same_program (add_output output_name test_name expr)
     (add_output [] [] [])"
  by (rule same_programI, code_simp, simp add: maestro_defs plain_char_def, simp add: maestro_defs)

lemma set_design_data:
  "same_program (set_design session lib cell view test)
     (set_design [] [] [] [] (map_option (\<lambda>_. []) test))"
proof -
  have "same_program (set_design session lib cell view None)
     (set_design [] [] [] [] None)"
    by (rule same_programI, code_simp, simp add: maestro_defs plain_char_def, simp add: maestro_defs)
  moreover have "\<And>test_t. same_program (set_design session lib cell view (Some test_t))
     (set_design [] [] [] [] (Some []))"
    by (rule same_programI, code_simp, simp add: maestro_defs plain_char_def, simp add: maestro_defs)
  ultimately show ?thesis by (cases test) simp_all
qed

lemma create_test_data:
  "same_program (create_test session test lib cell view simulator)
     (create_test [] [] [] [] [] [])"
  by (rule same_programI, code_simp, simp add: maestro_defs plain_char_def, simp add: maestro_defs)

lemma save_setup_data:
  "same_program (save_setup session)
     (save_setup [])"
  by (rule same_programI, code_simp, simp add: maestro_defs plain_char_def, simp add: maestro_defs)

lemma create_netlist_for_corner_data:
  "same_program (create_netlist_for_corner test_name corner output_dir session)
     (create_netlist_for_corner [] [] [] [])"
  by (rule same_programI, code_simp, simp add: maestro_defs plain_char_def, simp add: maestro_defs)

lemma delete_analysis_data:
  "same_program (delete_analysis analysis)
     (delete_analysis [])"
  by (rule same_programI, code_simp, simp add: maestro_defs plain_char_def, simp add: maestro_defs)

lemma get_analyses_data:
  "same_program (get_analyses session test)
     (get_analyses [] (map_option (\<lambda>_. []) test))"
proof -
  have "same_program (get_analyses session None)
     (get_analyses [] None)"
    by (rule same_programI, code_simp, simp add: maestro_defs plain_char_def, simp add: maestro_defs)
  moreover have "\<And>test_t. same_program (get_analyses session (Some test_t))
     (get_analyses [] (Some []))"
    by (rule same_programI, code_simp, simp add: maestro_defs plain_char_def, simp add: maestro_defs)
  ultimately show ?thesis by (cases test) simp_all
qed

lemma set_analysis_text_data:
  "same_program (set_analysis_text session analysis_type None test version)
     (set_analysis_text [] [] None (map_option (\<lambda>_. []) test) version)"
proof -
  have "same_program (set_analysis_text session analysis_type None None IC23)
     (set_analysis_text [] [] None None IC23)"
    by (rule same_programI, code_simp, simp add: maestro_defs plain_char_def, simp add: maestro_defs)
  moreover have "same_program (set_analysis_text session analysis_type None None IC25)
     (set_analysis_text [] [] None None IC25)"
    by (rule same_programI, code_simp, simp add: maestro_defs plain_char_def, simp add: maestro_defs)
  moreover have "same_program (set_analysis_text session analysis_type None None UnknownVersion)
     (set_analysis_text [] [] None None UnknownVersion)"
    by (rule same_programI, code_simp, simp add: maestro_defs plain_char_def, simp add: maestro_defs)
  moreover have "\<And>test_t. same_program (set_analysis_text session analysis_type None (Some test_t) IC23)
     (set_analysis_text [] [] None (Some []) IC23)"
    by (rule same_programI, code_simp, simp add: maestro_defs plain_char_def, simp add: maestro_defs)
  moreover have "\<And>test_t. same_program (set_analysis_text session analysis_type None (Some test_t) IC25)
     (set_analysis_text [] [] None (Some []) IC25)"
    by (rule same_programI, code_simp, simp add: maestro_defs plain_char_def, simp add: maestro_defs)
  moreover have "\<And>test_t. same_program (set_analysis_text session analysis_type None (Some test_t) UnknownVersion)
     (set_analysis_text [] [] None (Some []) UnknownVersion)"
    by (rule same_programI, code_simp, simp add: maestro_defs plain_char_def, simp add: maestro_defs)
  ultimately show ?thesis by (cases test; cases version) simp_all
qed

lemma run_simulation_data:
  "same_program (run_simulation session)
     (run_simulation [])"
  by (rule same_programI, code_simp, simp add: maestro_defs plain_char_def, simp add: maestro_defs)

lemma get_sim_messages_data:
  "same_program (get_sim_messages session)
     (get_sim_messages [])"
  by (rule same_programI, code_simp, simp add: maestro_defs plain_char_def, simp add: maestro_defs)

lemma get_sim_status_data:
  "same_program (get_sim_status session)
     (get_sim_status [])"
  by (rule same_programI, code_simp, simp add: maestro_defs plain_char_def, simp add: maestro_defs)

lemma focused_window_skill_data:
  "same_program focused_window_skill focused_window_skill"
  by (rule same_programI, code_simp, simp add: maestro_defs plain_char_def, simp add: maestro_defs)

lemma run_dir_skill_data:
  "same_program (run_dir_skill session)
     (run_dir_skill [])"
  by (rule same_programI, code_simp, simp add: maestro_defs plain_char_def, simp add: maestro_defs)

lemma export_results_data:
  "same_program (export_results session file_path test_name history)
     (export_results [] [] (map_option (\<lambda>_. []) test_name) (map_option (\<lambda>_. []) history))"
proof -
  have "same_program (export_results session file_path None None)
     (export_results [] [] None None)"
    by (rule same_programI, code_simp, simp add: maestro_defs plain_char_def, simp add: maestro_defs)
  moreover have "\<And>history_t. same_program (export_results session file_path None (Some history_t))
     (export_results [] [] None (Some []))"
    by (rule same_programI, code_simp, simp add: maestro_defs plain_char_def, simp add: maestro_defs)
  moreover have "\<And>test_name_t. same_program (export_results session file_path (Some test_name_t) None)
     (export_results [] [] (Some []) None)"
    by (rule same_programI, code_simp, simp add: maestro_defs plain_char_def, simp add: maestro_defs)
  moreover have "\<And>test_name_t history_t. same_program (export_results session file_path (Some test_name_t) (Some history_t))
     (export_results [] [] (Some []) (Some []))"
    by (rule same_programI, code_simp, simp add: maestro_defs plain_char_def, simp add: maestro_defs)
  ultimately show ?thesis by (cases test_name; cases history) simp_all
qed

lemma open_results_data:
  "same_program (open_results history)
     (open_results [])"
  by (rule same_programI, code_simp, simp add: maestro_defs plain_char_def, simp add: maestro_defs)

lemma close_results_data:
  "same_program close_results close_results"
  by (rule same_programI, code_simp, simp add: maestro_defs plain_char_def, simp add: maestro_defs)

lemma get_result_tests_data:
  "same_program get_result_tests get_result_tests"
  by (rule same_programI, code_simp, simp add: maestro_defs plain_char_def, simp add: maestro_defs)

lemma get_result_outputs_data:
  "same_program (get_result_outputs test_name)
     (get_result_outputs [])"
  by (rule same_programI, code_simp, simp add: maestro_defs plain_char_def, simp add: maestro_defs)

lemma get_output_value_data:
  "same_program (get_output_value name test_name corner)
     (get_output_value [] [] (map_option (\<lambda>_. []) corner))"
proof -
  have "same_program (get_output_value name test_name None)
     (get_output_value [] [] None)"
    by (rule same_programI, code_simp, simp add: maestro_defs plain_char_def, simp add: maestro_defs)
  moreover have "\<And>corner_t. same_program (get_output_value name test_name (Some corner_t))
     (get_output_value [] [] (Some []))"
    by (rule same_programI, code_simp, simp add: maestro_defs plain_char_def, simp add: maestro_defs)
  ultimately show ?thesis by (cases corner) simp_all
qed

lemma get_output_value_with_open_data:
  "same_program (get_output_value_with_open history name test_name corner)
     (get_output_value_with_open [] [] [] (map_option (\<lambda>_. []) corner))"
proof -
  have "same_program (get_output_value_with_open history name test_name None)
     (get_output_value_with_open [] [] [] None)"
    by (rule same_programI, code_simp, simp add: maestro_defs plain_char_def, simp add: maestro_defs)
  moreover have "\<And>corner_t. same_program (get_output_value_with_open history name test_name (Some corner_t))
     (get_output_value_with_open [] [] [] (Some []))"
    by (rule same_programI, code_simp, simp add: maestro_defs plain_char_def, simp add: maestro_defs)
  ultimately show ?thesis by (cases corner) simp_all
qed

lemma get_spec_status_data:
  "same_program (get_spec_status name test_name)
     (get_spec_status [] [])"
  by (rule same_programI, code_simp, simp add: maestro_defs plain_char_def, simp add: maestro_defs)

lemma get_history_list_data:
  "same_program get_history_list get_history_list"
  by (rule same_programI, code_simp, simp add: maestro_defs plain_char_def, simp add: maestro_defs)

lemma get_current_session_data:
  "same_program get_current_session get_current_session"
  by (rule same_programI, code_simp, simp add: maestro_defs plain_char_def, simp add: maestro_defs)

lemma maestro_session_info_data:
  "same_program maestro_session_info maestro_session_info"
  by (rule same_programI, code_simp, simp add: maestro_defs plain_char_def, simp add: maestro_defs)

lemma cell_exists_data:
  "same_program (cell_exists lib cell)
     (cell_exists [] [])"
  by (rule same_programI, code_simp, simp add: maestro_defs plain_char_def, simp add: maestro_defs)

lemma libs_with_view_data:
  "same_program (libs_with_view view)
     (libs_with_view [])"
  by (rule same_programI, code_simp, simp add: maestro_defs plain_char_def, simp add: maestro_defs)

lemma results_dir_data:
  "same_program results_dir results_dir"
  by (rule same_programI, code_simp, simp add: maestro_defs plain_char_def, simp add: maestro_defs)

lemma detect_corner_from_path_data:
  "same_program (detect_corner_from_path path)
     (detect_corner_from_path [])"
  by (rule same_programI, code_simp, simp add: maestro_defs plain_char_def, simp add: maestro_defs)

section \<open>Analyses\<close>

lemma waveform_data:
  "same_program (waveform_text req)
     (waveform_text (req\<lparr>ew_session := [], ew_expression := [], ew_analysis := [],
        ew_number_notation := [], ew_output_path := []\<rparr>))"
proof (cases req)
  case (fields a b c d e f g)
  show ?thesis unfolding fields
    by (rule same_programI, code_simp, simp add: maestro_defs, simp add: maestro_defs)
qed

lemma export_waveform_data:
  "export_waveform req = Some ps \<Longrightarrow> \<exists>qs. same_program ps (waveform_text qs) \<and>
     ew_session qs = [] \<and> ew_expression qs = [] \<and> ew_output_path qs = []"
  using waveform_data [of req] by (auto simp: export_waveform_def split: if_splits intro!: exI)

lemma run_with_dec_none_data:
  \<open>same_program (run_with_dec_text session analysis_type [T ''quote(("dec" "0"))''] dec)
     (run_with_dec_text [] [] [T ''quote(("dec" "0"))''] dec)\<close>
  by (rule same_programI, code_simp, simp add: maestro_defs, simp add: maestro_defs)

lemma run_with_dec_no_options_data:
  "\<exists>ps qs. run_with_dec session analysis_type None dec = Some ps \<and> run_with_dec [] [] None dec = Some qs \<and>
     same_program ps qs"
  by (simp add: run_with_dec_def run_with_dec_none_data)

end
