(* ===== verification/Skill_Injection.thy ===== *)
theory Skill_Injection
  imports Design_Data Maestro_Data Capability Whitelist
begin

text \<open>
  Two operations whose text is not data only: \<open>WindowOps::dismiss_dialog\<close>, which puts the caller's
  action into a literal unescaped, and \<open>MaestroOps::set_analysis\<close>, which takes the options as SKILL
  code.  For each, a caller's text that runs as part of the program.
\<close>

section \<open>The dialog's action\<close>

definition dialog_breakout :: "string \<Rightarrow> string" where
  \<open>dialog_breakout c = ''" '' @ c @ '' "''\<close>

lemma dialog_breakout_lex:
  assumes "well_formed c"
  shows "lex_end (InLit, d) (dialog_breakout c) = (InLit, d)"
    "code_text (InLit, d) (dialog_breakout c) = '' '' @ skill_code c @ '' '' @ [quote_char]"
  using well_formed_inside [OF assms, of d] by (simp_all add: dialog_breakout_def code_text_append)

lemma dismiss_head_check:
  "tpl_check (InCode, 0) (dismiss_head ''hiFormCancel'') = Some (InLit, 4)"
  by code_simp

lemma dismiss_tail_check: "tpl_check (InLit, 4) dismiss_tail = Some (InCode, 0)"
  by code_simp

lemma dismiss_plain: "list_all plain_piece (dismiss_head click)" "list_all plain_piece dismiss_tail"
  by (simp_all add: design_defs plain_char_def)

lemma dismiss_dialog_breakout:
  assumes "well_formed c"
  shows "\<exists>u v. skill_code (render (dismiss_dialog (dialog_breakout c))) = u @ skill_code c @ v"
    and "well_formed (render (dismiss_dialog (dialog_breakout c)))"
proof -
  have "dialog_breakout c \<noteq> ''ok''" by (simp add: dialog_breakout_def)
  then have d: "dismiss_dialog (dialog_breakout c) =
      dismiss_head ''hiFormCancel'' @ N (dialog_breakout c) # dismiss_tail"
    by (simp add: dismiss_dialog_def)
  note hole = code_in_hole [OF dismiss_head_check dismiss_plain(1) dismiss_tail_check dismiss_plain(2)
      dialog_breakout_lex(1) [OF assms]]
  show "\<exists>u v. skill_code (render (dismiss_dialog (dialog_breakout c))) = u @ skill_code c @ v"
    unfolding d hole(1) dialog_breakout_lex(2) [OF assms] by (metis append.assoc)
  show "well_formed (render (dismiss_dialog (dialog_breakout c)))"
    unfolding d by (rule hole(2))
qed

section \<open>The options of an analysis\<close>

definition options_breakout :: "string \<Rightarrow> string" where
  "options_breakout c = ''nil) '' @ c @ '' quote(nil''"

lemma trim_options: "trim (options_breakout c) = options_breakout c"
  by (rule trim_id) (simp_all add: options_breakout_def is_space_def)

lemma quoted_pairs_breakout:
  "quoted_pairs (options_breakout c) = Some (''quote(nil) '' @ c @ '' quote(nil)'')"
proof -
  have "parse_skill_pairs (options_breakout c) = Some [options_breakout c]"
    unfolding parse_skill_pairs_def trim_options Let_def
    by (simp add: options_breakout_def starts_with_def)
  moreover have "strip_prefix ''(list '' (options_breakout c) = None"
    by (simp add: options_breakout_def strip_prefix_def)
  ultimately show ?thesis
    by (simp add: quoted_pairs_def skill_pair_to_quoted_def trim_options Let_def)
       (simp add: options_breakout_def)
qed

lemma analysis_head_check:
  "tpl_check (InCode, 0) (analysis_head session test @ [T ''opts = (list '']) = Some (InCode, 2)"
proof -
  have "tpl_check (InCode, 0) (analysis_head session None @ [T ''opts = (list '']) = Some (InCode, 2)"
    by code_simp
  moreover have "tpl_check (InCode, 0) (analysis_head session (Some t) @ [T ''opts = (list '']) = Some (InCode, 2)" for t
    by code_simp
  ultimately show ?thesis by (cases test) simp_all
qed

lemma analysis_tail_check:
  "tpl_check (InCode, 2) (T '')'' # analysis_tail session analysis_type (Some q) version) = Some (InCode, 0)"
proof -
  have "tpl_check (InCode, 2) (T '')'' # analysis_tail session analysis_type (Some q) IC23) = Some (InCode, 0)"
    "tpl_check (InCode, 2) (T '')'' # analysis_tail session analysis_type (Some q) IC25) = Some (InCode, 0)"
    "tpl_check (InCode, 2) (T '')'' # analysis_tail session analysis_type (Some q) UnknownVersion) = Some (InCode, 0)"
    by code_simp+
  then show ?thesis by (cases version) simp_all
qed

lemma set_analysis_breakout:
  assumes "well_formed c"
  shows "\<exists>ps u v. set_analysis session analysis_type (Some (options_breakout c)) test version = Some ps \<and>
     skill_code (render ps) = u @ skill_code c @ v \<and> well_formed (render ps)"
proof -
  let ?q = "''quote(nil) '' @ c @ '' quote(nil)''"
  have q: "lex_end (InCode, 2) ?q = (InCode, 2)"
    "code_text (InCode, 2) ?q = ''quote(nil) '' @ skill_code c @ '' quote(nil)''"
    using well_formed_inside [OF assms, of 2] by (simp_all add: code_text_append)
  have split: "set_analysis_text session analysis_type (Some ?q) test version =
      (analysis_head session test @ [T ''opts = (list '']) @ N ?q #
        (T '')'' # analysis_tail session analysis_type (Some ?q) version)"
    by (simp add: set_analysis_text_def opts_binding_def)
  have plain: "list_all plain_piece (analysis_head session test @ [T ''opts = (list ''])"
    "list_all plain_piece (T '')'' # analysis_tail session analysis_type (Some ?q) version)"
    by (cases test; simp add: maestro_defs plain_char_def)+
  note hole = code_in_hole [OF analysis_head_check plain(1) analysis_tail_check plain(2) q(1)]
  have "set_analysis session analysis_type (Some (options_breakout c)) test version =
      Some (set_analysis_text session analysis_type (Some ?q) test version)"
    by (simp add: set_analysis_def quoted_pairs_breakout)
  moreover have "\<exists>u v. skill_code (render (set_analysis_text session analysis_type (Some ?q) test version)) =
      u @ skill_code c @ v"
    unfolding split hole(1) q(2) by (metis append.assoc)
  ultimately show ?thesis using hole(2) split by metis
qed

end
