(* ===== verification/Analysis_Options.thy ===== *)
theory Analysis_Options
  imports Skill_Injection
begin

text \<open>
  What becomes of options given as a JSON object: \<open>json_to_skill_alist\<close> writes the list of pairs,
  \<open>parse_skill_pairs\<close> takes it apart again, and every pair is quoted.
\<close>

definition paren_free :: "string \<Rightarrow> bool" where
  "paren_free s \<longleftrightarrow> list_all (\<lambda>c. c \<noteq> CHR ''('' \<and> c \<noteq> CHR '')'') s"

lemma paren_free_simps [simp]:
  "paren_free []" "paren_free (c # s) \<longleftrightarrow> c \<noteq> CHR ''('' \<and> c \<noteq> CHR '')'' \<and> paren_free s"
  "paren_free (s @ t) \<longleftrightarrow> paren_free s \<and> paren_free t"
  by (simp_all add: paren_free_def)

lemma inner_pairs_body:
  "paren_free body \<Longrightarrow>
     inner_pairs inner (Suc d) start i (body @ s) = inner_pairs inner (Suc d) start (i + length body) s"
  by (induction body arbitrary: i) auto

definition pair_text :: "string \<Rightarrow> string" where
  "pair_text body = ''('' @ body @ '')''"

lemma inner_pairs_pair:
  assumes "paren_free body" "inner = pre @ pair_text body @ rest"
  shows "inner_pairs inner 0 start (length pre) (pair_text body @ rest) =
    pair_text body # inner_pairs inner 0 (length pre) (length (pre @ pair_text body)) rest"
proof -
  have "trim (pair_text body) = pair_text body"
    by (rule trim_id) (simp_all add: pair_text_def is_space_def)
  then show ?thesis
    using assms inner_pairs_body [OF assms(1), of inner 0 "length pre" "Suc (length pre)" "'')'' @ rest"]
    by (simp add: pair_text_def Suc_diff_le)
qed

lemma inner_pairs_join:
  assumes "list_all paren_free bodies" "inner = pre @ join '' '' (map pair_text bodies)"
  shows "inner_pairs inner 0 start (length pre) (join '' '' (map pair_text bodies)) = map pair_text bodies"
  using assms
proof (induction bodies arbitrary: pre start rule: induct_list012)
  case (2 b)
  then show ?case using inner_pairs_pair [of b inner pre "[]" start] by simp
next
  case (3 b b' bs)
  let ?rest = "join '' '' (map pair_text (b' # bs))"
  have inner: "inner = pre @ pair_text b @ '' '' @ ?rest" "inner = (pre @ pair_text b @ '' '') @ ?rest"
    using "3.prems" by simp_all
  have "inner_pairs inner 0 start (length pre) (pair_text b @ '' '' @ ?rest) =
      pair_text b # inner_pairs inner 0 (length pre) (length (pre @ pair_text b)) ('' '' @ ?rest)"
    using "3.prems" by (intro inner_pairs_pair inner(1)) simp
  also have "inner_pairs inner 0 (length pre) (length (pre @ pair_text b)) ('' '' @ ?rest) =
      inner_pairs inner 0 (length pre) (length (pre @ pair_text b @ '' '')) ?rest"
    by simp
  also have "\<dots> = map pair_text (b' # bs)"
    using "3.prems" by (intro "3.IH"(2) inner(2)) simp
  finally show ?case by simp
qed simp

text \<open>The body of the pair \<open>alist_pair\<close> writes.\<close>

definition pair_body :: "('v \<Rightarrow> string option) \<Rightarrow> ('v \<Rightarrow> string) \<Rightarrow> string \<times> 'v \<Rightarrow> string" where
  \<open>pair_body as_str to_str kv =
     ''"'' @ fst kv @ ''" "'' @ (case as_str (snd kv) of Some s \<Rightarrow> s | None \<Rightarrow> to_str (snd kv)) @ ''"''\<close>

lemma alist_pair_text: "alist_pair as_str to_str kv = pair_text (pair_body as_str to_str kv)"
  by (simp add: alist_pair_def pair_text_def pair_body_def)

lemma parse_pairs_of_alist:
  assumes "bodies \<noteq> []" "list_all paren_free bodies"
  shows "parse_skill_pairs (''('' @ join '' '' (map pair_text bodies) @ '')'') = Some (map pair_text bodies)"
proof -
  let ?inner = "join '' '' (map pair_text bodies)"
  let ?alist = "''('' @ ?inner @ '')''"
  obtain s where head: "?inner = CHR ''('' # s"
    using assms(1) by (cases bodies; cases "tl bodies") (auto simp: pair_text_def)
  have trim: "trim ?alist = ?alist"
    by (rule trim_id) (simp_all add: is_space_def)
  have "starts_with ?alist ''((''" "\<not> starts_with ?alist ''(list (''"
    unfolding head by (simp_all add: starts_with_def)
  moreover have "strip_ends ?alist = Some ?inner"
    by (simp add: strip_ends_def cont_byte_def)
  moreover have "parse_inner_pairs ?inner = map pair_text bodies"
    using inner_pairs_join [OF assms(2), of ?inner "[]" 0] assms(1) by (simp add: parse_inner_pairs_def)
  moreover have "\<not> length ?alist < 2" by simp
  ultimately show ?thesis
    unfolding parse_skill_pairs_def trim Let_def by (simp del: length_append length_Cons)
qed

lemma quote_pair: "skill_pair_to_quoted (pair_text (CHR 0x22 # s)) = ''quote('' @ pair_text (CHR 0x22 # s) @ '')''"
proof -
  have "trim (pair_text (CHR 0x22 # s)) = pair_text (CHR 0x22 # s)"
    by (rule trim_id) (simp_all add: pair_text_def is_space_def)
  then show ?thesis
    by (simp add: skill_pair_to_quoted_def pair_text_def strip_prefix_def)
qed

lemma options_roundtrip:
  assumes "from_json s = Inr v" "as_object v = Some obj" "obj \<noteq> []"
    and "\<forall>kv \<in> set obj. paren_free (pair_body as_str to_str kv)"
  obtains alist where "json_to_skill_alist from_json as_object as_str to_str s = Inr alist"
    "quoted_pairs alist =
       Some (join '' '' (map (\<lambda>kv. ''quote('' @ alist_pair as_str to_str kv @ '')'') obj))"
proof -
  let ?bodies = "map (pair_body as_str to_str) obj"
  let ?alist = "''('' @ join '' '' (map pair_text ?bodies) @ '')''"
  have "alist_pair as_str to_str = (\<lambda>kv. pair_text (pair_body as_str to_str kv))"
    by (rule ext) (rule alist_pair_text)
  then have "json_to_skill_alist from_json as_object as_str to_str s = Inr ?alist"
    using assms(1,2) by (simp add: json_to_skill_alist_def comp_def)
  moreover have "parse_skill_pairs ?alist = Some (map pair_text ?bodies)"
    using assms(3,4) by (intro parse_pairs_of_alist) (auto simp: list_all_iff)
  then have "quoted_pairs ?alist =
      Some (join '' '' (map (\<lambda>kv. ''quote('' @ alist_pair as_str to_str kv @ '')'') obj))"
    by (simp add: quoted_pairs_def comp_def alist_pair_text pair_body_def quote_pair)
  ultimately show ?thesis by (rule that)
qed

section \<open>Properties\<close>

text \<open>
  Options given as a JSON object of pairs without parentheses are passed on completely: the
  list that is made of them is taken apart into exactly the object's pairs, in their order, and each
  is passed as a quoted constant.
\<close>
theorem json_options_passed_on:
  assumes "from_json s = Inr v" "as_object v = Some obj" "obj \<noteq> []"
    and "\<forall>kv \<in> set obj. paren_free (pair_body as_str to_str kv)"
  shows "\<exists>alist. json_to_skill_alist from_json as_object as_str to_str s = Inr alist \<and>
     quoted_pairs alist = Some (join '' '' (map (\<lambda>kv. ''quote('' @ alist_pair as_str to_str kv @ '')'') obj))"
proof -
  obtain alist where "json_to_skill_alist from_json as_object as_str to_str s = Inr alist"
    "quoted_pairs alist = Some (join '' '' (map (\<lambda>kv. ''quote('' @ alist_pair as_str to_str kv @ '')'') obj))"
    using assms by (rule options_roundtrip)
  then show ?thesis by blast
qed

theorem json_options_passed_on_witness:
  \<open>\<exists>alist. json_to_skill_alist Inr (\<lambda>_. Some [(''start'', ''1''), (''stop'', ''1G'')]) Some id ''{}'' = Inr alist \<and>
     quoted_pairs alist = Some ''quote(("start" "1")) quote(("stop" "1G"))''\<close>
proof -
  let ?obj = "[(''start'', ''1''), (''stop'', ''1G'')]"
  have free: "\<forall>kv \<in> set ?obj. paren_free (pair_body Some id kv)"
    by (simp add: pair_body_def)
  have shown: \<open>join '' '' (map (\<lambda>kv. ''quote('' @ alist_pair Some id kv @ '')'') ?obj)
      = ''quote(("start" "1")) quote(("stop" "1G"))''\<close>
    by code_simp
  show ?thesis
    using json_options_passed_on [where from_json = Inr and s = "''{}''" and as_object = "\<lambda>_. Some ?obj",
        OF refl refl _ free]
    unfolding shown by simp
qed

end
