(* ===== verification/Delete_Skill.thy ===== *)
theory Delete_Skill
  imports Schematic_Skill
begin

text \<open>
  \<open>src/client/delete_ops.rs\<close>: what may be deleted, and the SKILL texts that delete it or say what
  would be deleted.

  A \<open>DeleteTarget\<close> has private fields and two constructors; the record here is built by the same
  two, and \<open>checked_target\<close> says what they guarantee.  The value of \<open>VB_DELETE_ALLOW_LIBS\<close> is an
  argument of everything that reads it.
\<close>

section \<open>The allow-set\<close>

definition ALLOW_LIBS_ENV :: string where
  "ALLOW_LIBS_ENV = ''VB_DELETE_ALLOW_LIBS''"

definition DEFAULT_ALLOW_LIBS :: "string list" where
  "DEFAULT_ALLOW_LIBS = []"

definition allowed_libs :: "string option \<Rightarrow> string list" where
  "allowed_libs var =
     (case var of
        Some val \<Rightarrow>
          if trim val \<noteq> [] then filter (\<lambda>s. s \<noteq> []) (map trim (split_char CHR '','' val))
          else DEFAULT_ALLOW_LIBS
      | None \<Rightarrow> DEFAULT_ALLOW_LIBS)"

section \<open>Targets\<close>

record delete_target =
  dt_lib :: string
  dt_cell :: string
  dt_view :: "string option"

definition allow_set_text :: "string list \<Rightarrow> string" where
  "allow_set_text allowed =
     (if allowed = []
      then ''the allow-set is empty, which is what this build ships with; set '' @ ALLOW_LIBS_ENV
        @ '' to a comma-separated list of the libraries you are willing to delete from''
      else ''the allow-set is ('' @ join '', '' allowed @ ''); '' @ ALLOW_LIBS_ENV @ '' changes it'')"

definition target_checked ::
  "string option \<Rightarrow> string \<Rightarrow> string \<Rightarrow> string option \<Rightarrow> virtuoso_error + delete_target" where
  "target_checked var lib cell view =
     (let lib = trim lib; cell = trim cell in
      if cell = []
      then Inl (Config (''delete: a cell name is required '' @ em_dash @ '' a library is never a delete target''))
      else if lib \<notin> set (allowed_libs var)
      then Inl (Config (''delete refused: library '' @ quoted lib @ '' is not in the delete allow-set ''
             @ em_dash @ '' '' @ allow_set_text (allowed_libs var)
             @ ''. A library that is not named there cannot be reached by any sequence of RPC calls.''))
      else if (case view of Some v \<Rightarrow> trim v = [] | None \<Rightarrow> False)
      then Inl (Config (''delete: view name is empty '' @ em_dash @ '' pass a view, or delete the whole cell''))
      else Inr \<lparr>dt_lib = lib, dt_cell = cell, dt_view = map_option trim view\<rparr>)"

definition target_cell where
  "target_cell var lib cell = target_checked var lib cell None"

definition target_view where
  "target_view var lib cell view = target_checked var lib cell (Some view)"

definition target_action :: "delete_target \<Rightarrow> string" where
  "target_action t = (case dt_view t of Some _ \<Rightarrow> ''cell.delete_view'' | None \<Rightarrow> ''cell.delete'')"

definition target_describe :: "delete_target \<Rightarrow> string" where
  "target_describe t =
     (case dt_view t of
        Some v \<Rightarrow> dt_lib t @ ''/'' @ dt_cell t @ ''/'' @ v
      | None \<Rightarrow> dt_lib t @ ''/'' @ dt_cell t)"

definition dd_args :: "delete_target \<Rightarrow> piece list" where
  \<open>dd_args t =
     (case dt_view t of
        Some v \<Rightarrow>
     [T ''"'', A (dt_lib t), T ''" "'', A (dt_cell t), T ''" "'', A v, T ''" nil nil "r"'']
      | None \<Rightarrow>
     [T ''"'', A (dt_lib t), T ''" "'', A (dt_cell t), T ''" nil nil nil "r"''])\<close>

section \<open>Figures\<close>

datatype 'f figure_target = FigTerm string string | FigPoint 'f 'f

definition figure_term :: "string \<Rightarrow> string \<Rightarrow> virtuoso_error + 'f figure_target" where
  "figure_term inst term_name =
     (let inst = trim inst; term_name = trim term_name in
      if inst = [] \<or> term_name = []
      then Inl (Config (''schematic.delete_figure: '' @ quoted ''inst'' @ '' and '' @ quoted ''term''
             @ '' must both be non-empty''))
      else Inr (FigTerm inst term_name))"

definition figure_point :: "('f \<Rightarrow> bool) \<Rightarrow> 'f \<Rightarrow> 'f \<Rightarrow> virtuoso_error + 'f figure_target" where
  "figure_point is_finite x y =
     (if \<not> is_finite x \<or> \<not> is_finite y
      then Inl (Config (''schematic.delete_figure: '' @ quoted ''x'' @ '' and '' @ quoted ''y''
             @ '' must be finite numbers''))
      else Inr (FigPoint x y))"

fun figure_describe :: "'f floats \<Rightarrow> 'f figure_target \<Rightarrow> string" where
  "figure_describe F (FigTerm inst term_name) = inst @ ''/'' @ term_name"
| "figure_describe F (FigPoint x y) = ''('' @ fl_display F x @ '' '' @ fl_display F y @ '')''"

fun figure_locate :: "'f floats \<Rightarrow> string \<Rightarrow> 'f figure_target \<Rightarrow> piece list" where
  "figure_locate F action (FigTerm inst term_name) = term_point action inst term_name"
| "figure_locate F action (FigPoint x y) =
     [T ''pt = list('', N (fl_debug F x), T '' '', N (fl_debug F y), T '')'']"

section \<open>Fragments\<close>

definition instance_count :: "piece \<Rightarrow> piece \<Rightarrow> piece \<Rightarrow> piece list" where
  \<open>instance_count lib cell view =
     [T ''cv = car(setof(c dbGetOpenCellViews() c~>libName == "'', lib,
      T ''" && c~>cellName == "'', cell, T ''" && c~>viewName == "'', view,
      T ''")) if(cv then n = length(cv~>instances) else r = errset(dbOpenCellViewByType("'', lib,
      T ''" "'', cell, T ''" "'', view,
      T ''" nil "r") nil) when(r cv = car(r) when(cv n = length(cv~>instances) dbClose(cv))))'']\<close>

definition figure_manifest :: "'f floats \<Rightarrow> 'f figure_target \<Rightarrow> piece list" where
  \<open>figure_manifest F target =
     [T ''ptxt = sprintf(nil "(%g %g)" car(pt) cadr(pt)) wire = car(setof(f dbGetOverlaps(cv list(pt pt)) '',
      T ''f~>objType == "line")) when(!wire error("%s" sprintf(nil "schematic.delete_figure: no wire figure '',
      T ''at '', A (figure_describe F target), T '' %s '', T em_dash,
      T '' nothing to delete there" ptxt))) n = 1 txt = "" sep = "" foreach(k wire~>children when(k~>objType '',
      T ''== "label" n = n+1 txt = strcat(txt sep sprintf(nil "%L" k~>theLabel)) sep = ","))'']\<close>

definition lib_literal :: "string \<Rightarrow> piece list" where
  \<open>lib_literal l = [T ''"'', A l, T ''"'']\<close>

definition lib_guard :: "string option \<Rightarrow> string \<Rightarrow> piece list" where
  \<open>lib_guard var action =
     [T ''unless(member(cv~>libName '(''] @
     join_pieces (map lib_literal (allowed_libs var)) @
     [T '')) error("%s" sprintf(nil "'', T action,
      T '' refused: library %s is not in the delete allow-set" cv~>libName)))'']\<close>

section \<open>On disk\<close>

definition probe_target :: "delete_target \<Rightarrow> piece list" where
  \<open>probe_target t =
     (let action = T (target_action t); what = A (target_describe t);
          lib = A (dt_lib t); cell = A (dt_cell t) in
      case dt_view t of
        None \<Rightarrow>
     [T ''let((id views path n cv r out sep) id = ddGetObj(''] @
     dd_args t @
     [T '') when(!id error("%s" "'', action, T '': no such cell '', what,
      T ''")) unless(ddIsId(id) error("%s" "'', action, T '': '', what,
      T '' is not a design-management object")) views = sort(mapcar(lambda((v) v~>name) id~>views) nil) path '',
      T ''= ddGetObjReadPath(id) n = -1 when(member("schematic" views) ''] @
     instance_count lib cell (T ''schematic'') @
     [T '') out = "" sep = "" foreach(v views out = strcat(out sep sprintf(nil "%L" v)) sep = ",") '',
      T ''sprintf(nil "{`"action`":`"'', action,
      T ''`",`"lib`":%L,`"cell`":%L,`"views`":[%s],`"path`":%L,`"instances`":%d,`"writable`":%s}" "'',
      lib, T ''" "'', cell,
      T ''" out if(path path "") n if(ddIsObjWritable(id) "true" "false")))'']
      | Some v \<Rightarrow>
     [T ''let((id path n cv r) id = ddGetObj(''] @
     dd_args t @
     [T '') when(!id error("%s" "'', action, T '': no such view '', what,
      T ''")) unless(ddIsId(id) error("%s" "'', action, T '': '', what,
      T '' is not a design-management object")) path = ddGetObjReadPath(id) n = -1 ''] @
     instance_count lib cell (A v) @
     [T '' sprintf(nil "{`"action`":`"'', action,
      T ''`",`"lib`":%L,`"cell`":%L,`"view`":%L,`"views`":[%L],`"path`":%L,`"instances`":%d,`"writable`":%s}" '',
      T ''"'', lib, T ''" "'', cell, T ''" "'', A v, T ''" "'', A v,
      T ''" if(path path "") n if(ddIsObjWritable(id) "true" "false")))''])\<close>

definition delete_target_skill :: "delete_target \<Rightarrow> piece list" where
  \<open>delete_target_skill t =
     (let action = T (target_action t); what = A (target_describe t) in
     [T ''let((id path ok) id = ddGetObj(''] @
     dd_args t @
     [T '') when(!id error("%s" "'', action, T '': no such target '', what,
      T ''")) unless(ddIsId(id) error("%s" "'', action, T '': '', what,
      T '' is not a design-management object")) unless(ddIsObjWritable(id) error("%s" "'',
      action, T '': '', what,
      T '' is not writable by this process")) path = ddGetObjReadPath(id) ok = ddDeleteObj(id) unless(ok '',
      T ''error("%s" "'', action, T '': ddDeleteObj refused '', what, T '' '', T em_dash,
      T '' it takes a non-blocking exclusive lock on the whole subtree, so an open cellview or another '',
      T ''process holding it will fail here")) sprintf(nil "{`"status`":`"ok`",`"action`":`"'',
      action, T ''`",`"deleted`":%L,`"path`":%L}" "'', what, T ''" if(path path "")))''])\<close>

section \<open>In the open schematic\<close>

definition probe_instance :: "string option \<Rightarrow> string \<Rightarrow> piece list" where
  \<open>probe_instance var inst_name =
     [T ''let((cv inst master) cv = '', T EDIT_CV, T '' '', T cv_guard, T '' ''] @
     lib_guard var ''schematic.delete_instance'' @
     [T '' inst = car(setof(i cv~>instances i~>name == "'', A inst_name,
      T ''")) when(!inst error("instance %s not found in this cellview" "'', A inst_name,
      T ''")) master = sprintf(nil "%s/%s" inst~>libName inst~>cellName) sprintf(nil '',
      T ''"{`"action`":`"schematic.delete_instance`",`"lib`":%L,`"cell`":%L,`"view`":%L,`"instance`":%L,`"mast'',
      T ''er`":%L}" cv~>libName cv~>cellName cv~>viewName "'', A inst_name, T ''" master))'']\<close>

definition delete_instance :: "string option \<Rightarrow> string \<Rightarrow> piece list" where
  \<open>delete_instance var inst_name =
     [T ''let((cv inst master ok) cv = '', T EDIT_CV, T '' '', T cv_guard, T '' ''] @
     lib_guard var ''schematic.delete_instance'' @
     [T '' inst = car(setof(i cv~>instances i~>name == "'', A inst_name,
      T ''")) when(!inst error("instance %s not found in this cellview" "'', A inst_name,
      T ''")) master = sprintf(nil "%s/%s" inst~>libName inst~>cellName) ok = schDelete(inst) unless(ok '',
      T ''error("%s" "schematic.delete_instance: schDelete refused instance '', A inst_name,
      T ''")) sprintf(nil "{`"status`":`"ok`",`"action`":`"schematic.delete_instance`",`"lib`":%L,`"cell`":%L,'',
      T ''`"view`":%L,`"instance`":%L,`"master`":%L,`"saved`":false}" cv~>libName cv~>cellName cv~>viewName "'',
      A inst_name, T ''" master))'']\<close>

definition probe_figure :: "'f floats \<Rightarrow> string option \<Rightarrow> 'f figure_target \<Rightarrow> piece list" where
  \<open>probe_figure F var target =
     [T ''let((cv inst mterm pin fig bb pc pt wire txt sep n ptxt) cv = '', T EDIT_CV, T '' '',
      T cv_guard, T '' ''] @
     lib_guard var ''schematic.delete_figure'' @
     [T '' ''] @
     figure_locate F ''schematic.delete_figure'' target @
     [T '' ''] @
     figure_manifest F target @
     [T '' sprintf(nil "{`"action`":`"schematic.delete_figure`",`"lib`":%L,`"cell`":%L,`"view`":%L,`"target`":'',
      T ''%L,`"point`":%L,`"bBox`":%L,`"labels`":[%s],`"figures`":%d}" cv~>libName cv~>cellName cv~>viewName "'',
      A (figure_describe F target), T ''" ptxt sprintf(nil "%L" wire~>bBox) txt n))'']\<close>

definition delete_figure :: "'f floats \<Rightarrow> string option \<Rightarrow> 'f figure_target \<Rightarrow> piece list" where
  \<open>delete_figure F var target =
     [T ''let((cv inst mterm pin fig bb pc pt wire txt sep n ptxt ok) cv = '', T EDIT_CV,
      T '' '', T cv_guard, T '' ''] @
     lib_guard var ''schematic.delete_figure'' @
     [T '' ''] @
     figure_locate F ''schematic.delete_figure'' target @
     [T '' ''] @
     figure_manifest F target @
     [T '' ok = schDelete(wire) unless(ok error("%s" "schematic.delete_figure: schDelete refused the wire at '',
      A (figure_describe F target),
      T ''")) sprintf(nil "{`"status`":`"ok`",`"action`":`"schematic.delete_figure`",`"lib`":%L,`"cell`":%L,`"'',
      T ''view`":%L,`"target`":%L,`"point`":%L,`"labels`":[%s],`"figures`":%d,`"saved`":false}" cv~>libName '',
      T ''cv~>cellName cv~>viewName "'', A (figure_describe F target), T ''" ptxt txt n))'']\<close>

definition probe_prop :: "string option \<Rightarrow> string \<Rightarrow> string \<Rightarrow> piece list" where
  \<open>probe_prop var inst_name prop_name =
     [T ''let((cv inst p was) cv = '', T EDIT_CV, T '' '', T cv_guard, T '' ''] @
     lib_guard var ''schematic.delete_prop'' @
     [T '' inst = car(setof(i cv~>instances i~>name == "'', A inst_name,
      T ''")) when(!inst error("instance %s not found in this cellview" "'', A inst_name,
      T ''")) p = dbSearchPropByName(inst "'', A prop_name,
      T ''") when(!p error("property %s not found on instance %s" "'', A prop_name, T ''" "'',
      A inst_name,
      T ''")) was = p~>value was = if(stringp(was) was sprintf(nil "%L" was)) sprintf(nil '',
      T ''"{`"action`":`"schematic.delete_prop`",`"lib`":%L,`"cell`":%L,`"view`":%L,`"instance`":%L,`"prop`":%'',
      T ''L,`"value`":%L}" cv~>libName cv~>cellName cv~>viewName "'', A inst_name, T ''" "'',
      A prop_name, T ''" was))'']\<close>

definition delete_prop :: "string option \<Rightarrow> string \<Rightarrow> string \<Rightarrow> piece list" where
  \<open>delete_prop var inst_name prop_name =
     [T ''let((cv inst p was ok) cv = '', T EDIT_CV, T '' '', T cv_guard, T '' ''] @
     lib_guard var ''schematic.delete_prop'' @
     [T '' inst = car(setof(i cv~>instances i~>name == "'', A inst_name,
      T ''")) when(!inst error("instance %s not found in this cellview" "'', A inst_name,
      T ''")) p = dbSearchPropByName(inst "'', A prop_name,
      T ''") when(!p error("property %s not found on instance %s" "'', A prop_name, T ''" "'',
      A inst_name,
      T ''")) was = p~>value was = if(stringp(was) was sprintf(nil "%L" was)) ok = dbDeletePropByName(inst "'',
      A prop_name,
      T ''") unless(ok error("%s" "schematic.delete_prop: dbDeletePropByName refused property '',
      A prop_name, T '' on '', A inst_name,
      T ''")) sprintf(nil "{`"status`":`"ok`",`"action`":`"schematic.delete_prop`",`"lib`":%L,`"cell`":%L,`"vi'',
      T ''ew`":%L,`"instance`":%L,`"prop`":%L,`"was`":%L,`"saved`":false}" cv~>libName cv~>cellName '',
      T ''cv~>viewName "'', A inst_name, T ''" "'', A prop_name, T ''" was))'']\<close>

end
