(* ===== verification/Delete_Data.thy ===== *)
theory Delete_Data
  imports Delete_Skill Schematic_Data
begin

text \<open>
  The texts of \<open>Delete_Skill\<close> are data only, for every value of the allow-set; and what a target
  that passed the checks is.
\<close>

lemmas delete_defs =
  instance_count_def figure_manifest_def lib_literal_def lib_guard_def probe_target_def dd_args_def
  target_describe_def target_action_def delete_target_skill_def probe_instance_def delete_instance_def
  probe_figure_def delete_figure_def probe_prop_def delete_prop_def Let_def

section \<open>Targets\<close>

lemma target_checked_iff:
  "target_checked var lib cell view = Inr t \<longleftrightarrow>
     trim cell \<noteq> [] \<and> trim lib \<in> set (allowed_libs var) \<and> (\<forall>v. view = Some v \<longrightarrow> trim v \<noteq> []) \<and>
     t = \<lparr>dt_lib = trim lib, dt_cell = trim cell, dt_view = map_option trim view\<rparr>"
  by (auto simp: target_checked_def Let_def split: option.splits)

lemma allowed_libs_named: "l \<in> set (allowed_libs var) \<Longrightarrow> l \<noteq> [] \<and> (\<exists>val. var = Some val \<and> trim val \<noteq> [])"
  by (auto simp: allowed_libs_def DEFAULT_ALLOW_LIBS_def split: option.splits if_splits)

section \<open>Data only\<close>

lemma libs_check: "tpl_check (InCode, d) (join_pieces (map lib_literal libs)) = Some (InCode, d)"
proof (induction libs rule: induct_list012)
  case (2 p)
  show ?case by (simp add: lib_literal_def tpl_text_def)
next
  case (3 p q libs)
  then show ?case by (simp add: lib_literal_def tpl_text_def)
qed simp

lemma libs_plain: "list_all plain_piece (join_pieces (map lib_literal libs))"
  by (induction libs rule: induct_list012) (auto simp: lib_literal_def)

lemma lib_guard_check:
  assumes "action \<in> {''schematic.delete_instance'', ''schematic.delete_figure'', ''schematic.delete_prop''}"
  shows "tpl_check (InCode, d) (lib_guard var action) = Some (InCode, d)"
proof -
  note guard = tpl_check_skip [where st' = "(InCode, Suc (Suc (Suc d)))", OF _ libs_check]
  have "tpl_check (InCode, d) (lib_guard var ''schematic.delete_instance'') = Some (InCode, d)"
    unfolding lib_guard_def by (rule guard; code_simp)
  moreover have "tpl_check (InCode, d) (lib_guard var ''schematic.delete_figure'') = Some (InCode, d)"
    unfolding lib_guard_def by (rule guard; code_simp)
  moreover have "tpl_check (InCode, d) (lib_guard var ''schematic.delete_prop'') = Some (InCode, d)"
    unfolding lib_guard_def by (rule guard; code_simp)
  ultimately show ?thesis using assms by blast
qed

lemmas guard_skip = tpl_check_skip [where st' = "(InCode, 1)", OF _ lib_guard_check]

lemma probe_target_data:
  "same_program (probe_target t)
     (probe_target \<lparr>dt_lib = [], dt_cell = [], dt_view = map_option (\<lambda>_. []) (dt_view t)\<rparr>)"
proof -
  have "same_program (probe_target \<lparr>dt_lib = l, dt_cell = c, dt_view = None\<rparr>)
      (probe_target \<lparr>dt_lib = [], dt_cell = [], dt_view = None\<rparr>)" for l c
    by (rule same_programI, code_simp, simp add: delete_defs, simp add: delete_defs)
  moreover have "same_program (probe_target \<lparr>dt_lib = l, dt_cell = c, dt_view = Some v\<rparr>)
      (probe_target \<lparr>dt_lib = [], dt_cell = [], dt_view = Some []\<rparr>)" for l c v
    by (rule same_programI, code_simp, simp add: delete_defs, simp add: delete_defs)
  ultimately show ?thesis by (cases t; cases "dt_view t") simp_all
qed

lemma delete_target_data:
  "same_program (delete_target_skill t)
     (delete_target_skill \<lparr>dt_lib = [], dt_cell = [], dt_view = map_option (\<lambda>_. []) (dt_view t)\<rparr>)"
proof -
  have "same_program (delete_target_skill \<lparr>dt_lib = l, dt_cell = c, dt_view = None\<rparr>)
      (delete_target_skill \<lparr>dt_lib = [], dt_cell = [], dt_view = None\<rparr>)" for l c
    by (rule same_programI, code_simp, simp add: delete_defs, simp add: delete_defs)
  moreover have "same_program (delete_target_skill \<lparr>dt_lib = l, dt_cell = c, dt_view = Some v\<rparr>)
      (delete_target_skill \<lparr>dt_lib = [], dt_cell = [], dt_view = Some []\<rparr>)" for l c v
    by (rule same_programI, code_simp, simp add: delete_defs, simp add: delete_defs)
  ultimately show ?thesis by (cases t; cases "dt_view t") simp_all
qed

lemma probe_instance_data: "same_program (probe_instance var inst) (probe_instance var [])"
proof (rule same_programI)
  show "tpl_check (InCode, 0) (probe_instance var inst) = Some (InCode, 0)"
    unfolding probe_instance_def by (rule guard_skip; code_simp)
qed (simp_all add: delete_defs libs_plain)

lemma delete_instance_data: "same_program (delete_instance var inst) (delete_instance var [])"
proof (rule same_programI)
  show "tpl_check (InCode, 0) (delete_instance var inst) = Some (InCode, 0)"
    unfolding delete_instance_def by (rule guard_skip; code_simp)
qed (simp_all add: delete_defs libs_plain)

lemma probe_prop_data: "same_program (probe_prop var inst prop_name) (probe_prop var [] [])"
proof (rule same_programI)
  show "tpl_check (InCode, 0) (probe_prop var inst prop_name) = Some (InCode, 0)"
    unfolding probe_prop_def by (rule guard_skip; code_simp)
qed (simp_all add: delete_defs libs_plain)

lemma delete_prop_data: "same_program (delete_prop var inst prop_name) (delete_prop var [] [])"
proof (rule same_programI)
  show "tpl_check (InCode, 0) (delete_prop var inst prop_name) = Some (InCode, 0)"
    unfolding delete_prop_def by (rule guard_skip; code_simp)
qed (simp_all add: delete_defs libs_plain)

fun blank_figure :: "'f figure_target \<Rightarrow> 'f figure_target" where
  "blank_figure (FigTerm inst term_name) = FigTerm [] []"
| "blank_figure (FigPoint x y) = FigPoint x y"

lemma probe_figure_data:
  assumes "plain_floats F"
  shows "same_program (probe_figure F var target) (probe_figure F var (blank_figure target))"
proof (rule same_programI)
  have "tpl_check (InCode, 0) (probe_figure F var (FigTerm inst term_name)) = Some (InCode, 0)" for inst term_name
    unfolding probe_figure_def by (rule guard_skip; code_simp)
  moreover have "tpl_check (InCode, 0) (probe_figure F var (FigPoint x y)) = Some (InCode, 0)" for x y
    unfolding probe_figure_def by (rule guard_skip; code_simp)
  ultimately show "tpl_check (InCode, 0) (probe_figure F var target) = Some (InCode, 0)"
    by (cases target) simp_all
  show "list_all plain_piece (probe_figure F var target)"
    using assms by (cases target)
      (simp_all add: delete_defs libs_plain term_point_def plain_floats_def plain_char_def)
  show "map erase (probe_figure F var target) = map erase (probe_figure F var (blank_figure target))"
    by (cases target) (simp_all add: delete_defs term_point_def)
qed

lemma delete_figure_data:
  assumes "plain_floats F"
  shows "same_program (delete_figure F var target) (delete_figure F var (blank_figure target))"
proof (rule same_programI)
  have "tpl_check (InCode, 0) (delete_figure F var (FigTerm inst term_name)) = Some (InCode, 0)" for inst term_name
    unfolding delete_figure_def by (rule guard_skip; code_simp)
  moreover have "tpl_check (InCode, 0) (delete_figure F var (FigPoint x y)) = Some (InCode, 0)" for x y
    unfolding delete_figure_def by (rule guard_skip; code_simp)
  ultimately show "tpl_check (InCode, 0) (delete_figure F var target) = Some (InCode, 0)"
    by (cases target) simp_all
  show "list_all plain_piece (delete_figure F var target)"
    using assms by (cases target)
      (simp_all add: delete_defs libs_plain term_point_def plain_floats_def plain_char_def)
  show "map erase (delete_figure F var target) = map erase (delete_figure F var (blank_figure target))"
    by (cases target) (simp_all add: delete_defs term_point_def)
qed

end
