(* ===== verification/Rpc_Json.thy ===== *)
theory Rpc_Json
  imports Config_File Schematic_Skill
begin

text \<open>
  JSON values as \<open>serde_json::Value\<close> has them, and the functions of \<open>src/rpc/dispatcher.rs\<close> that read
  parameters and the JSON texts Virtuoso answers with.  An object is its entries by key in order (the
  build's \<open>Map\<close> is a \<open>BTreeMap\<close>); a number is an integer or a float.  Parser and printer are parameters.
\<close>

section \<open>A concrete instance of the floats\<close>

text \<open>Integers in the place of 64-bit floats, for the witnesses.\<close>

definition int_floats :: "int floats" where
  "int_floats = \<lparr>fl_display = show_int, fl_debug = show_int, fl_of_int = id, fl_add = (+), fl_mul = (*),
     fl_div = (div), fl_eq = (=)\<rparr>"

lemma plain_int_floats: "plain_floats int_floats"
  by (simp add: plain_floats_def int_floats_def plain_show_int)

section \<open>Values\<close>

datatype 'f json = JNull | JBool bool | JInt int | JFloat 'f | JStr string
  | JArr "'f json list" | JObj "(string \<times> 'f json) list"

fun as_string :: "'f json \<Rightarrow> string option" where
  "as_string (JStr s) = Some s"
| "as_string _ = None"

fun as_array :: "'f json \<Rightarrow> 'f json list option" where
  "as_array (JArr vs) = Some vs"
| "as_array _ = None"

fun as_obj :: "'f json \<Rightarrow> (string \<times> 'f json) list option" where
  "as_obj (JObj m) = Some m"
| "as_obj _ = None"

fun as_u64 :: "'f json \<Rightarrow> u64 option" where
  "as_u64 (JInt i) = (if 0 \<le> i \<and> i < 2 ^ 64 then Some (of_int i) else None)"
| "as_u64 _ = None"

fun as_f64 :: "'f floats \<Rightarrow> 'f json \<Rightarrow> 'f option" where
  "as_f64 F (JInt i) = Some (fl_of_int F i)"
| "as_f64 F (JFloat x) = Some x"
| "as_f64 F _ = None"

text \<open>\<open>v.get(key)\<close>, and \<open>v[key]\<close>, which is null where there is no such entry.\<close>

fun jget :: "'f json \<Rightarrow> string \<Rightarrow> 'f json option" where
  "jget (JObj m) k = map_of m k"
| "jget _ k = None"

definition jat :: "'f json \<Rightarrow> string \<Rightarrow> 'f json" where
  "jat v k = (case jget v k of Some x \<Rightarrow> x | None \<Rightarrow> JNull)"

definition opt_and_then :: "'a option \<Rightarrow> ('a \<Rightarrow> 'b option) \<Rightarrow> 'b option" where
  "opt_and_then x f = (case x of Some a \<Rightarrow> f a | None \<Rightarrow> None)"

definition json_object :: "(string \<times> 'f json) list \<Rightarrow> 'f json" where
  "json_object kvs = JObj (foldl (\<lambda>m (k, v). bt_insert k v m) [] kvs)"

definition str_or :: "string \<Rightarrow> 'f json \<Rightarrow> string" where
  "str_or d v = (case as_string v of Some s \<Rightarrow> s | None \<Rightarrow> d)"

section \<open>The JSON text in an answer\<close>

definition is_octal :: "char \<Rightarrow> bool" where
  "is_octal c \<longleftrightarrow> CHR ''0'' \<le> c \<and> c \<le> CHR ''7''"

definition octal_digits :: "string \<Rightarrow> string" where
  "octal_digits s = takeWhile is_octal (take 3 s)"

definition octal_val :: "string \<Rightarrow> nat" where
  "octal_val ds = foldl (\<lambda>n c. 8 * n + (of_char c - 48)) 0 ds"

definition upper_hex_digit :: "nat \<Rightarrow> char" where
  "upper_hex_digit n = (if n < 10 then char_of (48 + n) else char_of (55 + n))"

definition octal_escape :: "string \<Rightarrow> string" where
  "octal_escape ds =
     (let n = octal_val ds in
      if n < 256 then backslash # ''u00'' @ [upper_hex_digit (n div 16), upper_hex_digit (n mod 16)]
      else backslash # ds)"

function fix_skill_octal_escapes :: "string \<Rightarrow> string" where
  "fix_skill_octal_escapes [] = []"
| "fix_skill_octal_escapes (c # s) =
     (if c = backslash \<and> octal_digits s \<noteq> []
      then octal_escape (octal_digits s) @ fix_skill_octal_escapes (drop (length (octal_digits s)) s)
      else c # fix_skill_octal_escapes s)"
  by pat_completeness auto
termination by (relation "measure length") auto

definition parse_skill_json :: "(string \<Rightarrow> string + 'f json) \<Rightarrow> string \<Rightarrow> virtuoso_error + 'f json" where
  "parse_skill_json from_json output =
     (let fixed = fix_skill_octal_escapes (trim_quotes output) in
      case from_json fixed of
        Inr v \<Rightarrow> Inr v
      | Inl _ \<Rightarrow>
          (case from_json (replace2 backslash backslash backslash
                 (replace2 backslash quote_char quote_char fixed)) of
             Inr v \<Rightarrow> Inr v
           | Inl e \<Rightarrow> Inl (Execution (''Failed to parse SKILL JSON output: '' @ e @ ''. Raw: '' @ output))))"

section \<open>Parameters\<close>

definition json_str :: "'f json option \<Rightarrow> string \<Rightarrow> virtuoso_error + string" where
  "json_str v field =
     (case opt_and_then v as_string of
        Some s \<Rightarrow> Inr s
      | None \<Rightarrow> Inl (Execution (''missing required field: '' @ field)))"

definition confirm_of :: "'f json \<Rightarrow> string option" where
  "confirm_of params =
     (case opt_and_then (jget params ''confirm'') as_string of
        Some s \<Rightarrow> if trim s = [] then None else Some (trim s)
      | None \<Rightarrow> None)"

definition json_str_or :: "'f json option \<Rightarrow> string \<Rightarrow> virtuoso_error + string" where
  "json_str_or v d = Inr (case opt_and_then v as_string of Some s \<Rightarrow> s | None \<Rightarrow> d)"

definition json_f64 :: "'f floats \<Rightarrow> 'f json option \<Rightarrow> string \<Rightarrow> virtuoso_error + 'f" where
  "json_f64 F v field =
     (case opt_and_then v (as_f64 F) of
        Some x \<Rightarrow> Inr x
      | None \<Rightarrow> Inl (Execution (''missing required field: '' @ field)))"

definition json_coord_or ::
  "'f floats \<Rightarrow> ('f \<Rightarrow> bool) \<Rightarrow> ('f json \<Rightarrow> string) \<Rightarrow> 'f json option \<Rightarrow> string \<Rightarrow> 'f
     \<Rightarrow> virtuoso_error + 'f" where
  "json_coord_or F is_finite print_json v field d =
     (case v of
        None \<Rightarrow> Inr d
      | Some JNull \<Rightarrow> Inr d
      | Some u \<Rightarrow>
          (case as_f64 F u of
             Some x \<Rightarrow> if is_finite x then Inr x
               else Inl (Execution (''field '' @ [CHR 0x27] @ field @ [CHR 0x27] @
                 '' must be a finite number in user units, got '' @ print_json u))
           | None \<Rightarrow> Inl (Execution (''field '' @ [CHR 0x27] @ field @ [CHR 0x27] @
               '' must be a finite number in user units, got '' @ print_json u))))"

definition cell_view_type_for :: "string \<Rightarrow> string option" where
  "cell_view_type_for view =
     (if view = ''schematic'' then Some ''schematic''
      else if view = ''symbol'' then Some ''schematicSymbol''
      else if view = ''layout'' then Some ''maskLayout''
      else if view = ''netlist'' then Some ''netlist'' else None)"

definition bad_point :: "nat \<Rightarrow> string \<Rightarrow> virtuoso_error" where
  "bad_point i what = Execution (''points['' @ show_nat i @ '']: '' @ what)"

definition point_number :: "(string \<Rightarrow> 'f option) \<Rightarrow> ('f \<Rightarrow> bool) \<Rightarrow> nat \<Rightarrow> string \<Rightarrow> virtuoso_error + 'f" where
  "point_number parse_f64 is_finite i t =
     (case parse_f64 (trim t) of
        Some x \<Rightarrow> if is_finite x then Inr x
          else Inl (bad_point i ([CHR 0x27] @ t @ [CHR 0x27] @ '' is not a finite number''))
      | None \<Rightarrow> Inl (bad_point i ([CHR 0x27] @ t @ [CHR 0x27] @ '' is not a finite number'')))"

definition wire_point ::
  "(string \<Rightarrow> 'f option) \<Rightarrow> ('f \<Rightarrow> bool) \<Rightarrow> nat \<Rightarrow> 'f json \<Rightarrow> virtuoso_error + 'f \<times> 'f" where
  "wire_point parse_f64 is_finite i v =
     (case as_string v of
        None \<Rightarrow> Inl (bad_point i (''expected a '' @ [quote_char] @ ''x,y'' @ [quote_char] @ '' string''))
      | Some s \<Rightarrow>
          (case split_once CHR '','' s of
             None \<Rightarrow> Inl (bad_point i ([CHR 0x27] @ s @ [CHR 0x27] @ '' is not in x,y form''))
           | Some (x, y) \<Rightarrow>
               bindR (point_number parse_f64 is_finite i x) (\<lambda>px.
               bindR (point_number parse_f64 is_finite i y) (\<lambda>py. Inr (px, py)))))"

text \<open>\<open>collect\<close> into a \<open>Result\<close>: the first error ends it.\<close>

fun collect_results :: "('e + 'a) list \<Rightarrow> 'e + 'a list" where
  "collect_results [] = Inr []"
| "collect_results (r # rs) = bindR r (\<lambda>x. bindR (collect_results rs) (\<lambda>xs. Inr (x # xs)))"

definition parse_wire_points ::
  "(string \<Rightarrow> 'f option) \<Rightarrow> ('f \<Rightarrow> bool) \<Rightarrow> 'f json option \<Rightarrow> virtuoso_error + ('f \<times> 'f) list" where
  "parse_wire_points parse_f64 is_finite v =
     (case opt_and_then v as_array of
        None \<Rightarrow> Inl (Execution (''field '' @ [CHR 0x27] @ ''points'' @ [CHR 0x27] @ '' must be an array of '' @
          [quote_char] @ ''x,y'' @ [quote_char] @ '' strings''))
      | Some arr \<Rightarrow>
          bindR (collect_results (map (\<lambda>(i, u). wire_point parse_f64 is_finite i u) (List.enumerate 0 arr))) (\<lambda>pts.
          if length pts < 2
          then Inl (Execution (''field '' @ [CHR 0x27] @ ''points'' @ [CHR 0x27] @
            '' needs at least two points to make a wire, got '' @ show_nat (length pts)))
          else Inr pts))"

definition merge_status_ok :: "(string \<Rightarrow> string + 'f json) \<Rightarrow> string \<Rightarrow> 'f json" where
  "merge_status_ok from_json payload =
     (let parsed =
        (case from_json payload of
           Inr (JStr inner) \<Rightarrow> (case from_json inner of Inr v \<Rightarrow> Some v | Inl _ \<Rightarrow> None)
         | Inr other \<Rightarrow> Some other
         | Inl _ \<Rightarrow> None) in
      case parsed of
        Some (JObj m) \<Rightarrow> JObj (bt_insert ''status'' (JStr ''ok'') m)
      | _ \<Rightarrow> json_object [(''status'', JStr ''ok''), (''output'', JStr payload)])"

section \<open>Lemmas\<close>

lemma jat_simps [simp]: "jat (JObj m) k = (case map_of m k of Some x \<Rightarrow> x | None \<Rightarrow> JNull)"
  by (simp add: jat_def)

lemma opt_and_then_Some_iff [simp]: "opt_and_then x f = Some b \<longleftrightarrow> (\<exists>a. x = Some a \<and> f a = Some b)"
  by (auto simp: opt_and_then_def split: option.splits)

text \<open>
  Text without a backslash is left alone; a backslash that was itself escaped and is followed by
  octal digits is rewritten although it stands for a backslash.
\<close>

lemma fix_octal_no_backslash: "backslash \<notin> set s \<Longrightarrow> fix_skill_octal_escapes s = s"
  by (induction s) auto

lemma octal_after_escaped_backslash:
  "fix_skill_octal_escapes [backslash, backslash, CHR ''1'', CHR ''0'', CHR ''1''] = backslash # backslash # ''u0041''"
  by code_simp

lemma confirm_of_Some: "confirm_of params = Some t \<Longrightarrow> t \<noteq> []"
  by (auto simp: confirm_of_def split: option.splits if_splits)

lemma wire_points_at_least_two:
  "parse_wire_points parse_f64 is_finite v = Inr pts \<Longrightarrow> 2 \<le> length pts"
  by (auto simp: parse_wire_points_def bindR_Inr_iff split: option.splits if_splits)

end

