(* ===== verification/Skill_Safety.thy ===== *)
theory Skill_Safety
  imports Rpc_Json Schematic_Data Design_Data Maestro_Data Delete_Data Skill_Injection
begin

text \<open>
  What a caller's text can do to the SKILL programs of \<open>src/client/*_ops.rs\<close>: it stays inside the
  literals of a text whose code does not depend on it, except for three arguments, the action of
  \<open>dismiss_dialog\<close> and the options of \<open>set_analysis\<close> and of \<open>run_with_dec\<close>; for the first two, the
  program a caller can make out of it.
\<close>

section \<open>Properties\<close>

text \<open>
  C23: No name, net, parameter value or orientation given to an operation that edits a schematic is
  code: the text sent for it has, outside its string literals, exactly the characters of the text
  sent for empty arguments, and it is read to its end with every literal and parenthesis closed.
  The direction of a pin selects one of five pairs of a master and a direction, or is refused.
  That rendered floats contain no delimiter is the hypothesis on \<open>f64\<close>.
\<close>
theorem schematic_arguments_are_data:
  assumes "plain_floats F"
  shows "same_program (create_instance F lib cell view name (x, y) orient) (create_instance F [] [] [] [] (x, y) []) \<and>
     same_program (move_instance F name (x, y) turn stubs) (move_instance F [] (x, y) (map_option (\<lambda>_. []) turn) stubs) \<and>
     same_program (create_wire F points net) (create_wire F points []) \<and>
     same_program (create_wire_label F net (x, y)) (create_wire_label F [] (x, y)) \<and>
     same_program (open_cellview lib cell view) (open_cellview [] [] []) \<and>
     same_program (set_instance_param name param val) (set_instance_param [] [] []) \<and>
     same_program (list_cdf_params name) (list_cdf_params []) \<and>
     same_program (get_instance_params name) (get_instance_params []) \<and>
     same_program (assign_net name term_name net) (assign_net [] [] []) \<and>
     same_program (create_net_stub F net x y direction len cosmetic) (create_net_stub F [] x y direction len cosmetic) \<and>
     same_program (label_instance_term name term_name net cosmetic auto_rotate)
          (label_instance_term [] [] [] cosmetic auto_rotate) \<and>
     same_program (polish_labels net preset auto_rotate offset) (polish_labels [] preset auto_rotate offset) \<and>
     (\<forall>ps. create_pin F net pin_direction origin pin_orient sigtype = Inr ps \<longrightarrow>
        (\<exists>(master, listed) \<in> {(''ipin'', ''input''), (''opin'', ''output''), (''iopin'', ''inputOutput''),
             (''iopin'', ''switch''), (''iopin'', ''jumper'')}.
           same_program ps (pin_text F [] master listed origin [] (map_option (\<lambda>_. []) sigtype))))"
  by (intro conjI create_instance_data move_instance_data create_wire_data create_wire_label_data
      open_cellview_data set_instance_param_data list_cdf_params_data get_instance_params_data
      assign_net_data create_net_stub_data label_instance_term_data polish_labels_data allI impI create_pin_erased assms)

theorem schematic_arguments_are_data_witness:
  \<open>same_program (create_wire_label int_floats ''") hiQuit() ("'' (1, 2)) (create_wire_label int_floats [] (1, 2))\<close>
  by (rule schematic_arguments_are_data
      [OF plain_int_floats, THEN conjunct2, THEN conjunct2, THEN conjunct2, THEN conjunct1])

text \<open>
  C27: The same of every operation on layouts, libraries, symbols, windows and Maestro that takes a
  text, with three exceptions: no name, path, expression, session or value is code.  The exceptions
  are the action of \<open>dismiss_dialog\<close> and the options of \<open>set_analysis\<close> and of \<open>run_with_dec\<close>; the
  other arguments of these two last operations are data when no options are given.
\<close>
theorem operation_arguments_are_data:
  "same_program (list_cells lib pattern) (list_cells [] (map_option (\<lambda>_. []) pattern)) \<and>
   same_program (symbol_inspect lib cell view view_type) (symbol_inspect [] [] [] []) \<and>
   same_program (symbol_text temp lib cell src dst sort_pins)
     (symbol_text [] [] [] [] [] (map_option (\<lambda>_. []) sort_pins)) \<and>
   same_program (create_rect layer purpose ((x1, y1), (x2, y2))) (create_rect [] [] ((x1, y1), (x2, y2))) \<and>
   same_program (create_polygon layer purpose points) (create_polygon [] [] points) \<and>
   same_program (create_path layer purpose width points) (create_path [] [] width points) \<and>
   same_program (create_via via_def (x1, y1)) (create_via [] (x1, y1)) \<and>
   same_program (create_label layer purpose label_text (x1, y1)) (create_label [] [] [] (x1, y1)) \<and>
   same_program (layout_instance lib cell view (x1, y1) orient) (layout_instance [] [] [] (x1, y1) []) \<and>
   same_program (set_active_lpp layer purpose) (set_active_lpp [] []) \<and>
   same_program (read_geometry layer purpose) (read_geometry [] []) \<and>
   same_program (delete_shapes_on_layer layer purpose) (delete_shapes_on_layer [] []) \<and>
   same_program (highlight_net net) (highlight_net []) \<and>
   same_program (screenshot path) (screenshot []) \<and>
   same_program (screenshot_by_pattern path title) (screenshot_by_pattern [] []) \<and>
   same_program (bootstrap_text title path) (bootstrap_text [] []) \<and>
   same_program (open_session lib cell view mode) (open_session [] [] [] []) \<and>
   same_program (set_session_mode session editable) (set_session_mode [] editable) \<and>
   same_program (close_session session) (close_session []) \<and>
   same_program (set_var name val) (set_var [] []) \<and>
   same_program (get_var name) (get_var []) \<and>
   same_program (delete_var name) (delete_var []) \<and>
   same_program (delete_output name test_name) (delete_output [] []) \<and>
   same_program (add_output name test_name expr) (add_output [] [] []) \<and>
   same_program (set_design session lib cell view test) (set_design [] [] [] [] (map_option (\<lambda>_. []) test)) \<and>
   same_program (create_test session test_name lib cell view simulator) (create_test [] [] [] [] [] []) \<and>
   same_program (create_netlist_for_corner test_name corner output_dir session) (create_netlist_for_corner [] [] [] []) \<and>
   same_program (delete_analysis analysis) (delete_analysis []) \<and>
   same_program (get_analyses session test) (get_analyses [] (map_option (\<lambda>_. []) test)) \<and>
   same_program (set_analysis_text session analysis None test version)
     (set_analysis_text [] [] None (map_option (\<lambda>_. []) test) version) \<and>
   same_program (run_simulation session) (run_simulation []) \<and>
   same_program (export_results session path test history)
     (export_results [] [] (map_option (\<lambda>_. []) test) (map_option (\<lambda>_. []) history)) \<and>
   same_program (waveform_text req) (waveform_text (req\<lparr>ew_session := [], ew_expression := [], ew_analysis := [],
     ew_number_notation := [], ew_output_path := []\<rparr>)) \<and>
   same_program (get_output_value_with_open path name test_name history)
     (get_output_value_with_open [] [] [] (map_option (\<lambda>_. []) history)) \<and>
   same_program (detect_corner_from_path path) (detect_corner_from_path []) \<and>
   same_program (xstream_out \<lparr>xs_library = lib, xs_top_cell = cell, xs_view = view, xs_stream_file = path,
       xs_layer_map = layer, xs_log_file = logfile, xs_run_dir = rundir\<rparr>)
     (xstream_out \<lparr>xs_library = [], xs_top_cell = [], xs_view = [], xs_stream_file = [],
       xs_layer_map = [], xs_log_file = [], xs_run_dir = []\<rparr>) \<and>
   same_program (list_tests session) (list_tests []) \<and>
   same_program (list_corners session) (list_corners []) \<and>
   same_program (get_outputs test_name) (get_outputs []) \<and>
   same_program (save_setup session) (save_setup []) \<and>
   same_program (get_sim_messages session) (get_sim_messages []) \<and>
   same_program (get_sim_status session) (get_sim_status []) \<and>
   same_program (run_dir_skill session) (run_dir_skill []) \<and>
   same_program (open_results path) (open_results []) \<and>
   same_program (get_result_outputs test_name) (get_result_outputs []) \<and>
   same_program (get_output_value name test_name history) (get_output_value [] [] (map_option (\<lambda>_. []) history)) \<and>
   same_program (get_spec_status name test_name) (get_spec_status [] []) \<and>
   same_program (cell_exists lib cell) (cell_exists [] []) \<and>
   same_program (libs_with_view view) (libs_with_view []) \<and>
   (\<exists>ps qs. run_with_dec session analysis None dec = Some ps \<and> run_with_dec [] [] None dec = Some qs \<and>
      same_program ps qs)"
  by (intro conjI list_cells_data symbol_inspect_data symbol_text_data create_rect_data create_polygon_data
      create_path_data create_via_data create_label_data layout_instance_data set_active_lpp_data
      read_geometry_data delete_shapes_on_layer_data highlight_net_data screenshot_data
      screenshot_by_pattern_data bootstrap_text_data
      open_session_data set_session_mode_data close_session_data set_var_data get_var_data
      delete_var_data delete_output_data add_output_data set_design_data create_test_data
      create_netlist_for_corner_data delete_analysis_data get_analyses_data set_analysis_text_data
      run_simulation_data export_results_data waveform_data get_output_value_with_open_data
      detect_corner_from_path_data xstream_out_data list_tests_data list_corners_data get_outputs_data
      save_setup_data get_sim_messages_data get_sim_status_data run_dir_skill_data open_results_data
      get_result_outputs_data get_output_value_data get_spec_status_data cell_exists_data
      libs_with_view_data run_with_dec_no_options_data)

text \<open>
  C26: What a delete may name: a target that was checked has a cell that is not blank, in a library
  the operator listed in \<open>VB_DELETE_ALLOW_LIBS\<close>, so it is never a whole library and nothing at all
  without that setting; and its names, like those of an instance, a figure or a property, are data
  in the texts that probe and that delete it.
\<close>
theorem deletion_targets_allowed_and_data:
  assumes "target_checked var lib cell view = Inr t" "plain_floats F"
  shows "trim cell \<noteq> [] \<and> dt_cell t = trim cell \<and> dt_lib t = trim lib \<and> dt_lib t \<in> set (allowed_libs var) \<and>
     (\<exists>val. var = Some val \<and> trim val \<noteq> []) \<and>
     same_program (probe_target t)
       (probe_target \<lparr>dt_lib = [], dt_cell = [], dt_view = map_option (\<lambda>_. []) (dt_view t)\<rparr>) \<and>
     same_program (delete_target_skill t)
       (delete_target_skill \<lparr>dt_lib = [], dt_cell = [], dt_view = map_option (\<lambda>_. []) (dt_view t)\<rparr>) \<and>
     same_program (delete_instance var name) (delete_instance var []) \<and>
     same_program (delete_figure F var figure) (delete_figure F var (blank_figure figure)) \<and>
     same_program (delete_prop var name prop_name) (delete_prop var [] [])"
proof -
  have "trim cell \<noteq> []" "dt_cell t = trim cell" "dt_lib t = trim lib" and lib: "dt_lib t \<in> set (allowed_libs var)"
    using assms(1) by (simp_all add: target_checked_iff)
  moreover have "\<exists>val. var = Some val \<and> trim val \<noteq> []"
    using allowed_libs_named [OF lib] by simp
  ultimately show ?thesis
    by (intro conjI probe_target_data delete_target_data delete_instance_data delete_figure_data delete_prop_data
        assms(2))
qed

theorem deletion_targets_allowed_and_data_witness:
  "dt_lib \<lparr>dt_lib = ''scratch'', dt_cell = ''inv'', dt_view = None\<rparr> \<in> set (allowed_libs (Some ''scratch, old''))"
proof -
  have "target_checked (Some ''scratch, old'') ''scratch'' '' inv'' None =
      Inr \<lparr>dt_lib = ''scratch'', dt_cell = ''inv'', dt_view = None\<rparr>"
    by code_simp
  from deletion_targets_allowed_and_data
    [OF this plain_int_floats, THEN conjunct2, THEN conjunct2, THEN conjunct2, THEN conjunct1]
  show ?thesis .
qed

text \<open>
  C24: Two of the exceptions.  Whatever SKILL a caller writes, as long as it is well formed, an action
  of \<open>window.dismiss_dialog\<close> and options of \<open>maestro.set_analysis\<close> can be built around it so that the
  text sent is a well-formed program of which it is a part, outside every literal.  The interface
  permits these methods to callers it refuses raw SKILL.
\<close>
theorem unescaped_arguments_run_as_code:
  assumes "well_formed c"
  shows "(\<exists>u v. skill_code (render (dismiss_dialog (dialog_breakout c))) = u @ skill_code c @ v) \<and>
     well_formed (render (dismiss_dialog (dialog_breakout c))) \<and>
     (\<exists>ps u v. set_analysis session analysis_type (Some (options_breakout c)) test version = Some ps \<and>
        skill_code (render ps) = u @ skill_code c @ v \<and> well_formed (render ps)) \<and>
     permits_method [Window] ''window.dismiss_dialog'' \<and> permits_method [Maestro] ''maestro.set_analysis'' \<and>
     \<not> permits_method [Window, Maestro] ''skill.exec''"
proof -
  have "permits_method [Window] ''window.dismiss_dialog''" "permits_method [Maestro] ''maestro.set_analysis''"
    "\<not> permits_method [Window, Maestro] ''skill.exec''"
    by code_simp+
  with dismiss_dialog_breakout [OF assms] set_analysis_breakout [OF assms] show ?thesis
    by (intro conjI) assumption+
qed

theorem unescaped_arguments_run_as_code_witness:
  \<open>\<exists>u v. skill_code (render (dismiss_dialog (dialog_breakout ''system("id")''))) = u @ ''system(")'' @ v\<close>
proof -
  have ok: \<open>well_formed ''system("id")''\<close> and code: \<open>skill_code ''system("id")'' = ''system(")''\<close>
    by code_simp+
  show ?thesis
    by (rule unescaped_arguments_run_as_code [OF ok, THEN conjunct1, unfolded code])
qed

end
