(* ===== verification/Acts.thy ===== *)
theory Acts
  imports Skill_Client
begin

text \<open>
  A function of the program that reads and changes a state: it returns a value or an error, or panics,
  with the state it leaves behind.
\<close>

type_synonym ('s, 'a) act = "'s \<Rightarrow> 'a ending \<times> 's"

definition pure_act :: "'a \<Rightarrow> ('s, 'a) act" where
  "pure_act x st = (Done (Inr x), st)"

definition fail_act :: "virtuoso_error \<Rightarrow> ('s, 'a) act" where
  "fail_act e st = (Done (Inl e), st)"

text \<open>The question mark: an error ends the function.\<close>

definition bind_act :: "('s, 'a) act \<Rightarrow> ('a \<Rightarrow> ('s, 'b) act) \<Rightarrow> ('s, 'b) act" where
  "bind_act a f st =
     (case a st of
        (Done (Inr x), st') \<Rightarrow> f x st'
      | (Done (Inl e), st') \<Rightarrow> (Done (Inl e), st')
      | (Panicked, st') \<Rightarrow> (Panicked, st'))"

definition of_result :: "virtuoso_error + 'a \<Rightarrow> ('s, 'a) act" where
  "of_result r st = (Done r, st)"

text \<open>A failed \<open>expect\<close> or an index out of range.\<close>

definition panic_act :: "('s, 'a) act" where
  "panic_act st = (Panicked, st)"

lemma bind_act_Inr_iff:
  "bind_act a f st = (Done (Inr y), st') \<longleftrightarrow>
     (\<exists>x st1. a st = (Done (Inr x), st1) \<and> f x st1 = (Done (Inr y), st'))"
  by (auto simp: bind_act_def split: prod.splits ending.splits sum.splits)

lemma bind_act_simps [simp]:
  "bind_act (pure_act x) f = f x"
  "bind_act (fail_act e) f = fail_act e"
  "bind_act (of_result (Inr x)) f = f x"
  "bind_act (of_result (Inl e)) f = fail_act e"
  by (auto simp: bind_act_def pure_act_def fail_act_def of_result_def)

lemmas act_core = bind_act_def pure_act_def fail_act_def of_result_def

end
