(* ===== verification/Delete_Confirm.thy ===== *)
theory Delete_Confirm
  imports Delete_Skill Rpc_Json Acts
begin

text \<open>
  \<open>src/commands/delete.rs\<close>: the two phases of a destructive call.  The first reads the design, shows
  what would be deleted and issues a token, a file of the state directory; the second is given the
  token, reads the design again, and deletes only if it is what was approved.

  The world is a state \<open>'w\<close> with Virtuoso's answers, the clock and the random bytes; the token files
  and what was asked of Virtuoso and logged are part of the state here.  \<open>ce_ask\<close> is
  \<open>execute_skill_unchecked\<close> of the client.  JSON's parser and printer and SHA-256 are parameters.
\<close>

section \<open>State\<close>

record ('w, 'f) confirm_env =
  ce_ask :: "string \<Rightarrow> 'w \<Rightarrow> virtuoso_result ending \<times> 'w"
  ce_now :: "'w \<Rightarrow> u64 \<times> 'w"
  ce_uuid :: "'w \<Rightarrow> string \<times> 'w"
  ce_sha256 :: "string \<Rightarrow> string"
  ce_parse :: "string \<Rightarrow> string + 'f json"
  ce_print :: "'f json \<Rightarrow> string"
  ce_pretty :: "'f json \<Rightarrow> string"
  ce_create_fails :: "string \<Rightarrow> 'w \<Rightarrow> string option"
  ce_remove_fails :: "string \<Rightarrow> 'w \<Rightarrow> bool"

datatype confirm_event =
    Asked string
  | TokenIssued string
  | DeleteLogged string string

record 'w confirm_state =
  cs_files :: "string \<Rightarrow> string option"
  cs_events :: "confirm_event list"
  cs_world :: 'w

definition record_event :: "confirm_event \<Rightarrow> ('w confirm_state, unit) act" where
  "record_event e st = (Done (Inr ()), st\<lparr>cs_events := cs_events st @ [e]\<rparr>)"

section \<open>The world\<close>

definition ask :: "('w, 'f) confirm_env \<Rightarrow> string \<Rightarrow> ('w confirm_state, virtuoso_result) act" where
  "ask env code st =
     (let (r, w) = ce_ask env code (cs_world st) in
      (r, st\<lparr>cs_events := cs_events st @ [Asked code], cs_world := w\<rparr>))"

definition unix_now :: "('w, 'f) confirm_env \<Rightarrow> ('w confirm_state, u64) act" where
  "unix_now env st = (let (t, w) = ce_now env (cs_world st) in (Done (Inr t), st\<lparr>cs_world := w\<rparr>))"

definition uuid_bytes :: "('w, 'f) confirm_env \<Rightarrow> ('w confirm_state, string) act" where
  "uuid_bytes env st = (let (u, w) = ce_uuid env (cs_world st) in (Done (Inr u), st\<lparr>cs_world := w\<rparr>))"

section \<open>Operations\<close>

record delete_op =
  op_action :: string
  op_probe :: string
  op_execute :: string
  op_occupancy :: "delete_target option"

definition op_on_disk :: "delete_target \<Rightarrow> delete_op" where
  "op_on_disk t =
     \<lparr>op_action = target_action t, op_probe = render (probe_target t), op_execute = render (delete_target_skill t),
      op_occupancy = Some t\<rparr>"

definition OPEN_CELLVIEWS :: string where
  \<open>OPEN_CELLVIEWS = tpl_text
     (''let((out sep) out = "[" sep = "" foreach(c dbGetOpenCellViews() out = strcat(out sep '' @
      ''sprintf(nil '' @
      ''"{`"lib`":`"%s`",`"cell`":`"%s`",`"view`":`"%s`",`"mode`":`"%s`",`"window`":%s}" c~>libName '' @
      ''c~>cellName c~>viewName c~>mode if(exists(w hiGetWindowList() w->cellView == c) "true" '' @
      ''"false"))) sep = ",") strcat(out "]"))'')\<close>

section \<open>The token store\<close>

definition TOKEN_TTL_S :: u64 where
  "TOKEN_TTL_S = 300"

definition TOKEN_PREFIX :: string where
  "TOKEN_PREFIX = ''del-''"

definition token_file :: "string \<Rightarrow> string" where
  "token_file t = t @ ''.json''"

definition is_hexdigit :: "char \<Rightarrow> bool" where
  "is_hexdigit c \<longleftrightarrow> is_digit c \<or> CHR ''a'' \<le> c \<and> c \<le> CHR ''f'' \<or> CHR ''A'' \<le> c \<and> c \<le> CHR ''F''"

definition is_token :: "string \<Rightarrow> bool" where
  "is_token t \<longleftrightarrow>
     (case strip_prefix TOKEN_PREFIX t of
        None \<Rightarrow> False
      | Some h \<Rightarrow> length h = 32 \<and> list_all is_hexdigit h)"

definition validate_token :: "string \<Rightarrow> virtuoso_error + string" where
  "validate_token t =
     (if is_token t then Inr t
      else Inl (Config (''malformed confirm token '' @ quoted t @ '' '' @ em_dash @ '' expected '' @
        quoted TOKEN_PREFIX @ '' followed by 32 hex characters'')))"

text \<open>A removal that fails is ignored.\<close>

definition remove_token :: "('w, 'f) confirm_env \<Rightarrow> string \<Rightarrow> ('w confirm_state, unit) act" where
  "remove_token env t st =
     (if is_token t \<and> \<not> ce_remove_fails env (token_file t) (cs_world st)
      then (Done (Inr ()), st\<lparr>cs_files := (cs_files st)(token_file t := None)\<rparr>)
      else (Done (Inr ()), st))"

definition read_file :: "string \<Rightarrow> ('w confirm_state, string option) act" where
  "read_file name st = (Done (Inr (cs_files st name)), st)"

definition load_token :: "('w, 'f) confirm_env \<Rightarrow> string \<Rightarrow> ('w confirm_state, 'f json) act" where
  "load_token env t =
     bind_act (of_result (validate_token t)) (\<lambda>t.
     bind_act (read_file (token_file t)) (\<lambda>txt.
       case txt of
         None \<Rightarrow> fail_act (NotFound (''unknown confirm token '' @ quoted t @ '' '' @ em_dash @
           '' it was already used, it expired (TTL 300s), or it was never issued. Re-run without '' @
           quoted ''confirm'' @ '' to get a fresh manifest.''))
       | Some raw_text \<Rightarrow>
           (case ce_parse env raw_text of
              Inl e \<Rightarrow> fail_act (Json e)
            | Inr rec \<Rightarrow>
                bind_act (unix_now env) (\<lambda>now.
                if (case as_u64 (jat rec ''expires_at'') of Some x \<Rightarrow> x | None \<Rightarrow> 0) \<le> now
                then bind_act (remove_token env t) (\<lambda>_.
                  fail_act (Conflict (''confirm token '' @ quoted t @ '' expired (300s TTL) '' @ em_dash @
                    '' re-run without '' @ quoted ''confirm'' @ '' to get a fresh manifest'')))
                else pure_act rec))))"

definition hex_encode :: "string \<Rightarrow> string" where
  "hex_encode bs = concat (map (\<lambda>c. [hex_digit (of_char c div 16), hex_digit (of_char c mod 16)]) bs)"

definition manifest_hash :: "('w, 'f) confirm_env \<Rightarrow> 'f json list \<Rightarrow> string" where
  "manifest_hash env manifest = hex_encode (ce_sha256 env (ce_print env (JArr manifest)))"

definition token_record :: "('w, 'f) confirm_env \<Rightarrow> string \<Rightarrow> string \<Rightarrow> 'f json list \<Rightarrow> u64 \<Rightarrow> 'f json" where
  "token_record env t action manifest now =
     json_object [(''token'', JStr t), (''action'', JStr action), (''manifest'', JArr manifest),
       (''manifest_hash'', JStr (manifest_hash env manifest)), (''created_at'', JInt (uint now)),
       (''expires_at'', JInt (uint (now + TOKEN_TTL_S)))]"

text \<open>\<open>create_new\<close>: a file that exists is not overwritten.\<close>

definition write_private :: "('w, 'f) confirm_env \<Rightarrow> string \<Rightarrow> string \<Rightarrow> ('w confirm_state, unit) act" where
  "write_private env name content st =
     (case ce_create_fails env name (cs_world st) of
        Some e \<Rightarrow> (Done (Inl (Io e)), st)
      | None \<Rightarrow>
          if cs_files st name \<noteq> None then (Done (Inl (Io ''File exists (os error 17)'')), st)
          else (Done (Inr ()), st\<lparr>cs_files := (cs_files st)(name := Some content)\<rparr>))"

definition stale_file :: "('w, 'f) confirm_env \<Rightarrow> u64 \<Rightarrow> string \<Rightarrow> bool" where
  "stale_file env now content =
     (case ce_parse env content of
        Inl _ \<Rightarrow> True
      | Inr v \<Rightarrow> (case as_u64 (jat v ''expires_at'') of None \<Rightarrow> True | Some x \<Rightarrow> x \<le> now))"

definition sweep_expired :: "('w, 'f) confirm_env \<Rightarrow> ('w confirm_state, unit) act" where
  "sweep_expired env =
     bind_act (unix_now env) (\<lambda>now st.
       (Done (Inr ()), st\<lparr>cs_files := (\<lambda>name.
          case cs_files st name of
            None \<Rightarrow> None
          | Some content \<Rightarrow>
              if stale_file env now content \<and> \<not> ce_remove_fails env name (cs_world st) then None
              else Some content)\<rparr>))"

definition mint :: "('w, 'f) confirm_env \<Rightarrow> string \<Rightarrow> 'f json list \<Rightarrow> ('w confirm_state, string) act" where
  "mint env action manifest =
     bind_act (uuid_bytes env) (\<lambda>u1.
     bind_act (uuid_bytes env) (\<lambda>u2.
     let t = TOKEN_PREFIX @ hex_encode (take 16 (ce_sha256 env (u1 @ u2))) in
     bind_act (unix_now env) (\<lambda>now.
     bind_act (write_private env (token_file t) (ce_pretty env (token_record env t action manifest now))) (\<lambda>_.
     bind_act (record_event (TokenIssued t)) (\<lambda>_.
     bind_act (sweep_expired env) (\<lambda>_. pure_act t))))))"

section \<open>The two phases\<close>

definition describe_entry :: "'f json \<Rightarrow> string" where
  "describe_entry m =
     str_or ''?'' (jat m ''lib'') @ ''/'' @ str_or ''?'' (jat m ''cell'') @
     (case as_string (jat m ''view'') of Some v \<Rightarrow> ''/'' @ v | None \<Rightarrow> [])"

definition describe_manifest :: "'f json list \<Rightarrow> string" where
  "describe_manifest manifest = join '', '' (map describe_entry manifest)"

definition probe_design :: "('w, 'f) confirm_env \<Rightarrow> delete_op \<Rightarrow> ('w confirm_state, 'f json list) act" where
  "probe_design env dop =
     bind_act (ask env (op_probe dop)) (\<lambda>r.
     bind_act (of_result (ok_or_exec (op_action dop @ '' (probe)'') r)) (\<lambda>r.
     bind_act (of_result (parse_skill_json (ce_parse env) (vr_output r))) (\<lambda>v. pure_act [v])))"

definition blocks :: "delete_target \<Rightarrow> 'f json \<Rightarrow> bool" where
  "blocks t c \<longleftrightarrow>
     jat c ''lib'' = JStr (dt_lib t) \<and> jat c ''cell'' = JStr (dt_cell t) \<and>
     (case dt_view t of None \<Rightarrow> True | Some v \<Rightarrow> jat c ''view'' = JStr v)"

definition open_cellviews :: "('w, 'f) confirm_env \<Rightarrow> delete_op \<Rightarrow> ('w confirm_state, 'f json list) act" where
  "open_cellviews env dop =
     (case op_occupancy dop of
        None \<Rightarrow> pure_act []
      | Some t \<Rightarrow>
          bind_act (ask env OPEN_CELLVIEWS) (\<lambda>r.
          bind_act (of_result (ok_or_exec ''list open cellviews'' r)) (\<lambda>r.
          bind_act (of_result (parse_skill_json (ce_parse env) (vr_output r))) (\<lambda>all.
          pure_act (case as_array all of None \<Rightarrow> [] | Some vs \<Rightarrow> filter (blocks t) vs)))))"

definition open_entry :: "'f json \<Rightarrow> string" where
  "open_entry c =
     str_or ''?'' (jat c ''lib'') @ ''/'' @ str_or ''?'' (jat c ''cell'') @ ''/'' @ str_or ''?'' (jat c ''view'') @
     '' mode='' @ str_or ''?'' (jat c ''mode'') @ (if jat c ''window'' = JBool True then '' (windowed)'' else [])"

definition irreversible :: string where
  "irreversible = [CHR 0xE4, CHR 0xB8, CHR 0x8D, CHR 0xE5, CHR 0x8F, CHR 0xAF, CHR 0xE6, CHR 0x92, CHR 0xA4,
     CHR 0xE9, CHR 0x94, CHR 0x80] @ '' / irreversible''"

definition offer :: "('w, 'f) confirm_env \<Rightarrow> delete_op \<Rightarrow> ('w confirm_state, 'f json) act" where
  "offer env dop =
     bind_act (probe_design env dop) (\<lambda>manifest.
     bind_act (open_cellviews env dop) (\<lambda>opened.
     if opened \<noteq> [] then
       fail_act (Conflict (op_action dop @ '': '' @ describe_manifest manifest @ '' is open in Virtuoso ('' @
         join '', '' (map open_entry opened) @ '') '' @ em_dash @ '' close it first ('' @ quoted ''cell.close'' @
         '', or the window in the GUI). ddDeleteObj cannot lock a subtree that is in use.''))
     else
       bind_act (mint env (op_action dop) manifest) (\<lambda>t.
       pure_act (json_object
         [(''status'', JStr ''confirm_required''), (''action'', JStr (op_action dop)), (''manifest'', JArr manifest),
          (''warning'', JStr irreversible), (''confirm_token'', JStr t), (''expires_in_s'', JInt (uint TOKEN_TTL_S)),
          (''next'', JStr (''re-send the same call with '' @ [quote_char] @ ''confirm'' @ [quote_char] @ '': '' @
             [quote_char] @ t @ [quote_char] @ '' '' @ em_dash @
             '' only after a human has read the manifest above''))]))))"

text \<open>The second phase up to the point where the token is spent.\<close>

definition check_approval :: "('w, 'f) confirm_env \<Rightarrow> delete_op \<Rightarrow> string \<Rightarrow> ('w confirm_state, 'f json list) act" where
  "check_approval env dop t =
     bind_act (load_token env t) (\<lambda>rec.
     if jat rec ''action'' \<noteq> JStr (op_action dop) then
       bind_act (remove_token env t) (\<lambda>_.
       fail_act (Conflict (''confirm token was issued for '' @ quoted (str_or ''?'' (jat rec ''action'')) @ '', not '' @
         quoted (op_action dop) @ '' '' @ em_dash @ '' a token is not transferable between operations'')))
     else
       bind_act (probe_design env dop) (\<lambda>manifest.
       if jat rec ''manifest_hash'' \<noteq> JStr (manifest_hash env manifest) then
         bind_act (remove_token env t) (\<lambda>_.
         fail_act (Conflict (''the design changed since this token was issued '' @ em_dash @
           '' approval withdrawn.'' @ [newline] @ ''approved: '' @ ce_print env (jat rec ''manifest'') @ [newline] @
           ''now:      '' @ ce_print env (JArr manifest) @ [newline] @ ''Re-run without '' @ quoted ''confirm'' @
           '' to get a fresh manifest.'')))
       else
         bind_act (open_cellviews env dop) (\<lambda>opened.
         if opened \<noteq> [] then
           fail_act (Conflict (op_action dop @ '': '' @ describe_manifest manifest @
             '' was opened in Virtuoso after the manifest was approved '' @ em_dash @
             '' close it and retry with the same token''))
         else pure_act manifest)))"

definition spend_and_delete ::
  "('w, 'f) confirm_env \<Rightarrow> delete_op \<Rightarrow> string \<Rightarrow> 'f json list \<Rightarrow> ('w confirm_state, 'f json) act" where
  "spend_and_delete env dop t manifest =
     bind_act (remove_token env t) (\<lambda>_.
     bind_act (record_event (DeleteLogged t (op_action dop @ '' '' @ describe_manifest manifest @ '' token='' @ t @
       '' manifest='' @ ce_print env (JArr manifest)))) (\<lambda>_.
     bind_act (ask env (op_execute dop)) (\<lambda>r.
     bind_act (of_result (ok_or_exec (op_action dop) r)) (\<lambda>r.
     pure_act
       (case (case parse_skill_json (ce_parse env) (vr_output r) of
                Inr v \<Rightarrow> v
              | Inl _ \<Rightarrow> json_object [(''output'', JStr (vr_output r))]) of
          JObj m \<Rightarrow> JObj (bt_insert ''manifest'' (JArr manifest)
            (bt_insert ''confirmed'' (JBool True) (bt_insert ''status'' (JStr ''ok'') m)))
        | v \<Rightarrow> v)))))"

definition execute_delete :: "('w, 'f) confirm_env \<Rightarrow> delete_op \<Rightarrow> string \<Rightarrow> ('w confirm_state, 'f json) act" where
  "execute_delete env dop t = bind_act (check_approval env dop t) (spend_and_delete env dop t)"

definition run_delete :: "('w, 'f) confirm_env \<Rightarrow> delete_op \<Rightarrow> string option \<Rightarrow> ('w confirm_state, 'f json) act" where
  "run_delete env dop confirm =
     (case confirm of None \<Rightarrow> offer env dop | Some t \<Rightarrow> execute_delete env dop t)"

section \<open>The five calls\<close>

text \<open>\<open>connect\<close> is what \<open>VirtuosoClient::from_env\<close> returns, \<open>var\<close> the value of \<open>VB_DELETE_ALLOW_LIBS\<close>.\<close>

definition delete_cell where
  "delete_cell env connect var lib cell confirm =
     bind_act (of_result (target_cell var lib cell)) (\<lambda>t.
     bind_act (of_result connect) (\<lambda>(_::unit). run_delete env (op_on_disk t) confirm))"

definition delete_cell_view where
  "delete_cell_view env connect var lib cell view confirm =
     bind_act (of_result (target_view var lib cell view)) (\<lambda>t.
     bind_act (of_result connect) (\<lambda>(_::unit). run_delete env (op_on_disk t) confirm))"

definition delete_instance_call where
  "delete_instance_call env connect var inst confirm =
     bind_act (of_result connect) (\<lambda>(_::unit). run_delete env
       \<lparr>op_action = ''schematic.delete_instance'', op_probe = render (probe_instance var inst),
        op_execute = render (delete_instance var inst), op_occupancy = None\<rparr> confirm)"

definition choose_figure ::
  "('f floats \<times> ('f \<Rightarrow> bool)) \<Rightarrow> string option \<Rightarrow> string option \<Rightarrow> 'f option \<Rightarrow> 'f option
     \<Rightarrow> virtuoso_error + 'f figure_target" where
  "choose_figure F inst term_name x y =
     (case (inst, term_name, x, y) of
        (Some i, Some t, None, None) \<Rightarrow> figure_term i t
      | (None, None, Some px, Some py) \<Rightarrow> figure_point (snd F) px py
      | _ \<Rightarrow> Inl (Config (''schematic.delete_figure: address the figure either by terminal ('' @ quoted ''inst'' @
          '' + '' @ quoted ''term'' @ '') or by point ('' @ quoted ''x'' @ '' + '' @ quoted ''y'' @ '') '' @ em_dash @
          '' exactly one of the two pairs, and both halves of it'')))"

definition delete_figure_call where
  "delete_figure_call env connect F var inst term_name x y confirm =
     bind_act (of_result (choose_figure F inst term_name x y)) (\<lambda>target.
     bind_act (of_result connect) (\<lambda>(_::unit). run_delete env
       \<lparr>op_action = ''schematic.delete_figure'', op_probe = render (probe_figure (fst F) var target),
        op_execute = render (delete_figure (fst F) var target), op_occupancy = None\<rparr> confirm))"

definition delete_prop_call where
  "delete_prop_call env connect var inst prop_name confirm =
     bind_act (of_result connect) (\<lambda>(_::unit). run_delete env
       \<lparr>op_action = ''schematic.delete_prop'', op_probe = render (probe_prop var inst prop_name),
        op_execute = render (delete_prop var inst prop_name), op_occupancy = None\<rparr> confirm)"

end
