(* ===== verification/Delete_Facts.thy ===== *)
theory Delete_Facts
  imports Delete_Confirm
begin

text \<open>
  What is proved of \<open>src/commands/delete.rs\<close>: a destructive call is made only with an approval of the
  same action for the design as it is now, each approval is spent once, and expires.
\<close>

section \<open>What each part does to the state\<close>

lemmas act_defs = bind_act_def pure_act_def fail_act_def of_result_def record_event_def ask_def unix_now_def
  uuid_bytes_def read_file_def Let_def

lemma probe_design_effect:
  assumes "probe_design env dop st = (r, st')"
  shows "cs_files st' = cs_files st" "cs_events st' = cs_events st @ [Asked (op_probe dop)]"
    "cs_world st' = snd (ce_ask env (op_probe dop) (cs_world st))"
  using assms
  by (auto simp: probe_design_def act_defs split: prod.splits ending.splits sum.splits)

lemma probe_design_answer:
  assumes "probe_design env dop st = (Done (Inr manifest), st')"
  shows "\<exists>x v. fst (ce_ask env (op_probe dop) (cs_world st)) = Done (Inr x) \<and> skill_ok x \<and>
     parse_skill_json (ce_parse env) (vr_output x) = Inr v \<and> manifest = [v]"
  using assms
  by (auto simp: probe_design_def act_defs ok_or_exec_def split: prod.splits ending.splits sum.splits if_splits)

lemma open_cellviews_effect:
  assumes "open_cellviews env dop st = (r, st')"
  shows "cs_files st' = cs_files st"
    "\<exists>evs. cs_events st' = cs_events st @ evs \<and> set evs \<subseteq> {Asked OPEN_CELLVIEWS}"
  using assms
  by (auto simp: open_cellviews_def act_defs split: prod.splits ending.splits sum.splits option.splits)

lemma remove_token_effect:
  assumes "remove_token env t st = (r, st')"
  shows "r = Done (Inr ())" "cs_events st' = cs_events st" "cs_world st' = cs_world st"
    "cs_files st' = (if is_token t \<and> \<not> ce_remove_fails env (token_file t) (cs_world st)
       then (cs_files st)(token_file t := None) else cs_files st)"
  using assms by (auto simp: remove_token_def split: if_splits)


lemma load_token_effect:
  assumes "load_token env t st = (r, st')"
  shows "cs_events st' = cs_events st"
    and "cs_files st' = cs_files st \<or> cs_files st' = (cs_files st)(token_file t := None)"
  using assms
  by (auto simp: load_token_def act_defs validate_token_def remove_token_def
      split: if_splits option.splits sum.splits prod.splits)

lemma load_token_record:
  assumes "load_token env t st = (Done (Inr rec), st')"
  shows "is_token t" and "cs_files st' = cs_files st" and "cs_world st' = snd (ce_now env (cs_world st))"
    and "\<exists>content x. cs_files st (token_file t) = Some content \<and> ce_parse env content = Inr rec \<and>
       as_u64 (jat rec ''expires_at'') = Some x \<and> fst (ce_now env (cs_world st)) < x"
  using assms
  by (auto simp: load_token_def act_defs validate_token_def remove_token_def
      split: if_splits option.splits sum.splits prod.splits)

section \<open>Approval\<close>

text \<open>
  The content of a token file approves an operation at a time for a design: it parses, names the
  operation's action, carries the hash of the manifest, and is not expired.
\<close>

definition approves ::
  "('w, 'f) confirm_env \<Rightarrow> delete_op \<Rightarrow> string \<Rightarrow> u64 \<Rightarrow> 'f json list \<Rightarrow> bool" where
  "approves env dop content now manifest \<longleftrightarrow>
     (case ce_parse env content of
        Inl _ \<Rightarrow> False
      | Inr rec \<Rightarrow>
          jat rec ''action'' = JStr (op_action dop) \<and>
          jat rec ''manifest_hash'' = JStr (manifest_hash env manifest) \<and>
          (case as_u64 (jat rec ''expires_at'') of None \<Rightarrow> False | Some x \<Rightarrow> now < x))"

text \<open>What Virtuoso says of the design in a world: the manifest of one entry.\<close>

definition manifest_in :: "('w, 'f) confirm_env \<Rightarrow> delete_op \<Rightarrow> 'w \<Rightarrow> 'f json list option" where
  "manifest_in env dop w =
     (case fst (ce_ask env (op_probe dop) w) of
        Done (Inr x) \<Rightarrow>
          if skill_ok x then (case parse_skill_json (ce_parse env) (vr_output x) of Inr v \<Rightarrow> Some [v] | Inl _ \<Rightarrow> None)
          else None
      | _ \<Rightarrow> None)"

definition only_reads :: "delete_op \<Rightarrow> confirm_event list \<Rightarrow> bool" where
  "only_reads dop evs \<longleftrightarrow> set evs \<subseteq> {Asked (op_probe dop), Asked OPEN_CELLVIEWS}"

lemma probe_design_manifest:
  "probe_design env dop st = (Done (Inr manifest), st') \<Longrightarrow> manifest_in env dop (cs_world st) = Some manifest"
  by (drule probe_design_answer) (auto simp: manifest_in_def)

lemma only_reads_simps [simp]:
  "only_reads dop []"
  "only_reads dop (e # evs) \<longleftrightarrow> (e = Asked (op_probe dop) \<or> e = Asked OPEN_CELLVIEWS) \<and> only_reads dop evs"
  "only_reads dop (xs @ ys) \<longleftrightarrow> only_reads dop xs \<and> only_reads dop ys"
  by (auto simp: only_reads_def)

lemma check_approval_effect:
  assumes "check_approval env dop t st = (r, st')"
  shows "\<exists>evs. cs_events st' = cs_events st @ evs \<and> only_reads dop evs"
    and "cs_files st' = cs_files st \<or> cs_files st' = (cs_files st)(token_file t := None)"
proof -
  obtain r1 s1 where load: "load_token env t st = (r1, s1)" by fastforce
  note 1 = load_token_effect [OF load]
  have "(\<exists>evs. cs_events st' = cs_events st @ evs \<and> only_reads dop evs) \<and>
     (cs_files st' = cs_files st \<or> cs_files st' = (cs_files st)(token_file t := None))"
  proof (cases "\<exists>rec. r1 = Done (Inr rec) \<and> jat rec ''action'' = JStr (op_action dop)")
    case False
    then show ?thesis
      using assms 1 load
      by (auto simp: check_approval_def bind_act_def fail_act_def remove_token_def
          split: prod.splits ending.splits sum.splits if_splits)
  next
    case True
    then obtain rec where rec: "r1 = Done (Inr rec)" "jat rec ''action'' = JStr (op_action dop)" by blast
    obtain r2 s2 where probe: "probe_design env dop s1 = (r2, s2)" by fastforce
    obtain r3 s3 where opened: "open_cellviews env dop s2 = (r3, s3)" by fastforce
    obtain evs where evs: "cs_events s3 = cs_events s2 @ evs" "set evs \<subseteq> {Asked OPEN_CELLVIEWS}"
      using open_cellviews_effect(2) [OF opened] by blast
    have files: "cs_files s2 = cs_files s1" "cs_files s3 = cs_files s2"
      using probe_design_effect(1) [OF probe] open_cellviews_effect(1) [OF opened] by simp_all
    have events: "cs_events s2 = cs_events s1 @ [Asked (op_probe dop)]"
      by (rule probe_design_effect(2) [OF probe])
    have "only_reads dop evs" using evs(2) by (auto simp: only_reads_def)
    then show ?thesis
      using assms 1 load rec probe opened files events evs(1)
      by (auto simp: check_approval_def bind_act_def fail_act_def pure_act_def remove_token_def
          split: prod.splits ending.splits sum.splits if_splits)
  qed
  then show "\<exists>evs. cs_events st' = cs_events st @ evs \<and> only_reads dop evs"
    and "cs_files st' = cs_files st \<or> cs_files st' = (cs_files st)(token_file t := None)" by blast+
qed

lemma check_approval_approves:
  assumes "check_approval env dop t st = (Done (Inr manifest), st')"
  shows "is_token t" and "cs_files st' = cs_files st"
    and "\<exists>content. cs_files st (token_file t) = Some content \<and>
       approves env dop content (fst (ce_now env (cs_world st))) manifest"
    and "manifest_in env dop (snd (ce_now env (cs_world st))) = Some manifest"
proof -
  obtain rec s1 s2 where load: "load_token env t st = (Done (Inr rec), s1)"
    and act: "jat rec ''action'' = JStr (op_action dop)"
    and probe: "probe_design env dop s1 = (Done (Inr manifest), s2)"
    and hash: "jat rec ''manifest_hash'' = JStr (manifest_hash env manifest)"
    and opened: "open_cellviews env dop s2 = (Done (Inr []), st')"
    using assms by (auto simp: check_approval_def bind_act_Inr_iff fail_act_def pure_act_def split: if_splits)
  note rec = load_token_record [OF load]
  show "is_token t" by (rule rec(1))
  show "cs_files st' = cs_files st"
    using rec(2) probe_design_effect(1) [OF probe] open_cellviews_effect(1) [OF opened] by simp
  show "manifest_in env dop (snd (ce_now env (cs_world st))) = Some manifest"
    using probe_design_manifest [OF probe] rec(3) by simp
  show "\<exists>content. cs_files st (token_file t) = Some content \<and>
       approves env dop content (fst (ce_now env (cs_world st))) manifest"
    using rec(4) act hash by (auto simp: approves_def)
qed

lemma spend_and_delete_effect:
  assumes "spend_and_delete env dop t manifest st = (r, st')"
  shows "\<exists>entry. cs_events st' = cs_events st @ [DeleteLogged t entry, Asked (op_execute dop)]"
    and "cs_files st' = (if is_token t \<and> \<not> ce_remove_fails env (token_file t) (cs_world st)
       then (cs_files st)(token_file t := None) else cs_files st)"
  using assms
  by (auto simp: spend_and_delete_def act_defs remove_token_def
      split: if_splits sum.splits prod.splits ending.splits)

lemma execute_delete_cases:
  assumes "execute_delete env dop t st = (r, st')"
  obtains (refused) r' where "check_approval env dop t st = (r', st')"
  | (deleted) manifest s where "check_approval env dop t st = (Done (Inr manifest), s)"
      "spend_and_delete env dop t manifest s = (r, st')"
  using assms
  by (auto simp: execute_delete_def bind_act_def split: prod.splits ending.splits sum.splits)

lemma mint_effect:
  assumes "mint env action manifest st = (r, st')"
  shows "cs_events st' = cs_events st \<and> cs_files st' = cs_files st \<or>
    (\<exists>t. cs_files st (token_file t) = None \<and> cs_events st' = cs_events st @ [TokenIssued t] \<and>
       (\<forall>f. f \<noteq> token_file t \<and> cs_files st f = None \<longrightarrow> cs_files st' f = None))"
  using assms
  by (auto simp: mint_def act_defs write_private_def sweep_expired_def
      split: prod.splits ending.splits sum.splits option.splits if_splits)

lemma offer_effect:
  assumes "offer env dop st = (r, st')"
  shows "(\<exists>evs. cs_events st' = cs_events st @ evs \<and> only_reads dop evs \<and> cs_files st' = cs_files st) \<or>
    (\<exists>evs t. cs_events st' = cs_events st @ evs @ [TokenIssued t] \<and> only_reads dop evs \<and>
       cs_files st (token_file t) = None \<and>
       (\<forall>f. f \<noteq> token_file t \<and> cs_files st f = None \<longrightarrow> cs_files st' f = None))"
proof -
  obtain r1 s1 where probe: "probe_design env dop st = (r1, s1)" by fastforce
  obtain r2 s2 where opened: "open_cellviews env dop s1 = (r2, s2)" by fastforce
  obtain evs where evs: "cs_events s2 = cs_events s1 @ evs" "set evs \<subseteq> {Asked OPEN_CELLVIEWS}"
    using open_cellviews_effect(2) [OF opened] by blast
  have files: "cs_files s1 = cs_files st" "cs_files s2 = cs_files st"
    using probe_design_effect(1) [OF probe] open_cellviews_effect(1) [OF opened] by simp_all
  have events: "cs_events s1 = cs_events st @ [Asked (op_probe dop)]"
    by (rule probe_design_effect(2) [OF probe])
  have reads: "only_reads dop (Asked (op_probe dop) # evs)" using evs(2) by (auto simp: only_reads_def)
  show ?thesis
  proof (cases "\<exists>manifest. r1 = Done (Inr manifest) \<and> r2 = Done (Inr [])")
    case False
    then show ?thesis
      using assms probe opened files events evs(1) reads
      by (auto simp: offer_def bind_act_def fail_act_def split: prod.splits ending.splits sum.splits if_splits)
  next
    case True
    then obtain manifest where ok: "r1 = Done (Inr manifest)" "r2 = Done (Inr [])" by blast
    obtain r3 s3 where minted: "mint env (op_action dop) manifest s2 = (r3, s3)" by fastforce
    have "st' = s3"
      using assms probe opened ok minted
      by (auto simp: offer_def bind_act_def pure_act_def split: ending.splits sum.splits)
    with mint_effect [OF minted] files events evs(1) reads show ?thesis
      by (metis append.assoc append_Cons append_Nil)
  qed
qed

section \<open>Runs\<close>

definition run_deletes ::
  "('w, 'f) confirm_env \<Rightarrow> (delete_op \<times> string option) list \<Rightarrow> 'w confirm_state \<Rightarrow> 'w confirm_state" where
  "run_deletes env calls st = foldl (\<lambda>st (dop, confirm). snd (run_delete env dop confirm st)) st calls"

fun is_delete_of :: "string \<Rightarrow> confirm_event \<Rightarrow> bool" where
  "is_delete_of t (DeleteLogged u entry) \<longleftrightarrow> u = t"
| "is_delete_of t _ \<longleftrightarrow> False"

definition deletes_with :: "string \<Rightarrow> confirm_event list \<Rightarrow> nat" where
  "deletes_with t evs = length (filter (is_delete_of t) evs)"

definition times_issued :: "string \<Rightarrow> confirm_event list \<Rightarrow> nat" where
  "times_issued t evs = length (filter (\<lambda>e. e = TokenIssued t) evs)"

text \<open>Deletes made with a token, plus one if it can still be used, are at most the times it was issued.\<close>

definition spent_once :: "string \<Rightarrow> 'w confirm_state \<Rightarrow> bool" where
  "spent_once t st \<longleftrightarrow>
     deletes_with t (cs_events st) + (if cs_files st (token_file t) = None then 0 else 1)
       \<le> times_issued t (cs_events st)"

lemma counts_append [simp]:
  "deletes_with t (xs @ ys) = deletes_with t xs + deletes_with t ys"
  "times_issued t (xs @ ys) = times_issued t xs + times_issued t ys"
  by (simp_all add: deletes_with_def times_issued_def)

lemma counts_single [simp]:
  "deletes_with t [] = 0" "times_issued t [] = 0"
  "deletes_with t (e # es) = (if is_delete_of t e then 1 else 0) + deletes_with t es"
  "times_issued t (e # es) = (if e = TokenIssued t then 1 else 0) + times_issued t es"
  by (simp_all add: deletes_with_def times_issued_def)

lemma only_reads_counts:
  "only_reads dop evs \<Longrightarrow> deletes_with t evs = 0" "only_reads dop evs \<Longrightarrow> times_issued t evs = 0"
  by (induction evs) auto

lemma token_file_inject [simp]: "token_file t = token_file u \<longleftrightarrow> t = u"
  by (simp add: token_file_def)

lemma check_spent_once:
  assumes "check_approval env dop u st = (r, st')" "spent_once t st"
  shows "spent_once t st'"
  using check_approval_effect [OF assms(1)] assms(2) only_reads_counts [of dop _ t]
  by (auto simp: spent_once_def split: if_splits)

lemma run_spent_once:
  assumes "\<And>name w. \<not> ce_remove_fails env name w" "spent_once t st"
  shows "spent_once t (snd (run_delete env dop confirm st))"
proof (cases confirm)
  case None
  obtain r st' where run: "offer env dop st = (r, st')" by fastforce
  have "spent_once t st'"
    using offer_effect [OF run] assms(2) only_reads_counts [of dop _ t]
    by (auto simp: spent_once_def split: if_splits)
  with None run show ?thesis by (simp add: run_delete_def)
next
  case (Some u)
  obtain r st' where run: "execute_delete env dop u st = (r, st')" by fastforce
  have "spent_once t st'"
    using run
  proof (cases rule: execute_delete_cases)
    case (refused r')
    then show ?thesis using assms(2) by (rule check_spent_once)
  next
    case (deleted manifest s)
    note ok = check_approval_approves [OF deleted(1)]
    have "spent_once t s" by (rule check_spent_once [OF deleted(1) assms(2)])
    moreover have "cs_files s (token_file u) \<noteq> None" using ok(2,3) by auto
    ultimately show ?thesis
      using spend_and_delete_effect [OF deleted(2)] assms(1) ok(1)
      by (cases "t = u") (auto simp: spent_once_def)
  qed
  with Some run show ?thesis by (simp add: run_delete_def)
qed

lemma runs_spent_once:
  assumes "\<And>name w. \<not> ce_remove_fails env name w"
  shows "spent_once t st \<Longrightarrow> spent_once t (run_deletes env calls st)"
proof (induction calls arbitrary: st)
  case (Cons a calls)
  then show ?case
    using run_spent_once [OF assms] by (cases a) (simp add: run_deletes_def)
qed (simp add: run_deletes_def)

section \<open>Issued tokens\<close>

lemma hex_encode_hexdigits: "list_all is_hexdigit (hex_encode bs)" "length (hex_encode bs) = 2 * length bs"
proof -
  have digit: "is_hexdigit (hex_digit n)" if "n < 16" for n
    using that by (simp add: hex_digit_def is_hexdigit_def is_digit_def less_eq_char_def)
  have byte: "of_char c < (256 :: nat)" for c :: char by simp
  show "list_all is_hexdigit (hex_encode bs)"
    by (auto simp: hex_encode_def list_all_iff intro!: digit less_mult_imp_div_less byte [THEN order_less_le_trans])
  show "length (hex_encode bs) = 2 * length bs"
    by (induction bs) (simp_all add: hex_encode_def)
qed

lemma is_token_hex: "16 \<le> length d \<Longrightarrow> is_token (TOKEN_PREFIX @ hex_encode (take 16 d))"
  by (simp add: is_token_def TOKEN_PREFIX_def strip_prefix_def hex_encode_hexdigits)

definition issue_time :: "('w, 'f) confirm_env \<Rightarrow> 'w confirm_state \<Rightarrow> u64" where
  "issue_time env st = fst (ce_now env (snd (ce_uuid env (snd (ce_uuid env (cs_world st))))))"

lemma mint_issues:
  assumes "mint env action manifest st = (Done (Inr t), st')" "cs_files st' (token_file t) = Some content"
    and "\<And>x. 16 \<le> length (ce_sha256 env x)"
  shows "is_token t" "content = ce_pretty env (token_record env t action manifest (issue_time env st))"
  using assms(1,2) is_token_hex [OF assms(3)]
  by (auto simp: mint_def act_defs write_private_def sweep_expired_def issue_time_def
      split: prod.splits ending.splits sum.splits option.splits if_splits)

lemma record_fields:
  "jat (token_record env t action manifest c) ''action'' = JStr action"
  "jat (token_record env t action manifest c) ''manifest_hash'' = JStr (manifest_hash env manifest)"
  "jat (token_record env t action manifest c) ''expires_at'' = JInt (uint (c + TOKEN_TTL_S))"
  by (simp_all add: token_record_def json_object_def)

lemma of_int_uint_u64: "of_int (uint (x :: u64)) = x" "uint (x :: u64) < 18446744073709551616" "0 \<le> uint (x :: u64)"
  using uint_lt2p [of x] by simp_all

section \<open>Two processes\<close>

text \<open>
  The token is removed after it was checked, and nothing looks at whether the removal removed
  anything: a second process that checked the token before the first one spent it deletes as well.
\<close>

lemma concurrent_confirms_both_delete:
  assumes "check_approval env dop t st = (Done (Inr manifest), s1)"
    and "check_approval env dop t (st\<lparr>cs_world := w\<rparr>) = (Done (Inr manifest), s2)"
    and "spend_and_delete env dop t manifest s1 = (r, s1')"
    and "s2' = s2\<lparr>cs_files := cs_files s1', cs_world := cs_world s1'\<rparr>"
    and "spend_and_delete env dop t manifest s2' = (r', s3)"
  shows "Asked (op_execute dop) \<in> set (cs_events s1') \<and> Asked (op_execute dop) \<in> set (cs_events s3)"
  using spend_and_delete_effect(1) [OF assms(3)] spend_and_delete_effect(1) [OF assms(5)] by auto

section \<open>A concrete world\<close>

text \<open>The world is the time; Virtuoso answers every text with an empty object.\<close>

definition sample_token :: string where
  "sample_token = ''del-'' @ replicate 32 (CHR ''1'')"

definition sample_op :: delete_op where
  "sample_op = \<lparr>op_action = ''cell.delete'', op_probe = ''probe()'', op_execute = ''ddDeleteObj(c)'', op_occupancy = None\<rparr>"

definition sample_record :: "int json" where
  "sample_record = json_object [(''token'', JStr sample_token), (''action'', JStr ''cell.delete''),
     (''manifest'', JArr [JObj []]), (''manifest_hash'', JStr (replicate 64 (CHR ''1''))),
     (''created_at'', JInt 100), (''expires_at'', JInt 400)]"

definition sample_confirm_env :: "(nat, int) confirm_env" where
  "sample_confirm_env =
     \<lparr>ce_ask = (\<lambda>_ w. (Done (Inr (vr_success ''{}'')), w)), ce_now = (\<lambda>w. (of_nat w, w)),
      ce_uuid = (\<lambda>w. (''u'', w)), ce_sha256 = (\<lambda>_. replicate 32 (CHR 0x11)),
      ce_parse = (\<lambda>s. if s = ''R'' then Inr sample_record else Inr (JObj [])),
      ce_print = (\<lambda>_. ''{}''), ce_pretty = (\<lambda>_. ''R''),
      ce_create_fails = (\<lambda>_ _. None), ce_remove_fails = (\<lambda>_ _. False)\<rparr>"

definition no_tokens :: "nat \<Rightarrow> nat confirm_state" where
  "no_tokens w = \<lparr>cs_files = (\<lambda>_. None), cs_events = [], cs_world = w\<rparr>"

text \<open>Offered at time 100, confirmed at time 150.\<close>

definition offered :: "nat confirm_state" where
  "offered = (snd (offer sample_confirm_env sample_op (no_tokens 100)))\<lparr>cs_world := 150\<rparr>"

section \<open>Properties\<close>

text \<open>
  C22: Nothing is deleted without an approval of what is there.  A call either asks Virtuoso only
  for the manifest and the open cellviews, and may issue a token, or it was given a well-formed
  token whose file approves this action, has not expired, and carries the hash of the manifest that
  Virtuoso gives now; only then, after the delete was logged, is the destructive text sent, once and
  last.  The token's file is gone afterwards, unless the file system refuses to remove it: the code
  ignores that error.
\<close>
theorem deletes_only_what_was_approved:
  assumes "run_delete env dop confirm st = (r, st')"
  shows "\<exists>evs. cs_events st' = cs_events st @ evs \<and>
     ((\<exists>reads issued. evs = reads @ map TokenIssued issued \<and> only_reads dop reads) \<or>
      (\<exists>t content manifest reads entry.
         confirm = Some t \<and> is_token t \<and> cs_files st (token_file t) = Some content \<and>
         approves env dop content (fst (ce_now env (cs_world st))) manifest \<and>
         manifest_in env dop (snd (ce_now env (cs_world st))) = Some manifest \<and>
         evs = reads @ [DeleteLogged t entry, Asked (op_execute dop)] \<and> only_reads dop reads \<and>
         ((\<forall>w. \<not> ce_remove_fails env (token_file t) w) \<longrightarrow> cs_files st' (token_file t) = None)))"
proof (cases confirm)
  case None
  with assms have "offer env dop st = (r, st')" by (simp add: run_delete_def)
  from offer_effect [OF this] show ?thesis
  proof
    assume "\<exists>evs. cs_events st' = cs_events st @ evs \<and> only_reads dop evs \<and> cs_files st' = cs_files st"
    then obtain evs where "cs_events st' = cs_events st @ evs @ map TokenIssued []" "only_reads dop evs" by auto
    then show ?thesis by blast
  next
    assume "\<exists>evs t. cs_events st' = cs_events st @ evs @ [TokenIssued t] \<and> only_reads dop evs \<and>
       cs_files st (token_file t) = None \<and>
       (\<forall>f. f \<noteq> token_file t \<and> cs_files st f = None \<longrightarrow> cs_files st' f = None)"
    then obtain evs t where "cs_events st' = cs_events st @ evs @ map TokenIssued [t]" "only_reads dop evs" by auto
    then show ?thesis by blast
  qed
next
  case (Some t)
  with assms have "execute_delete env dop t st = (r, st')" by (simp add: run_delete_def)
  then show ?thesis
  proof (cases rule: execute_delete_cases)
    case (refused r')
    from check_approval_effect(1) [OF this] obtain evs
      where "cs_events st' = cs_events st @ evs @ map TokenIssued []" "only_reads dop evs" by auto
    then show ?thesis by blast
  next
    case (deleted manifest s)
    note ok = check_approval_approves [OF deleted(1)] and spent = spend_and_delete_effect [OF deleted(2)]
    obtain reads where reads: "cs_events s = cs_events st @ reads" "only_reads dop reads"
      using check_approval_effect(1) [OF deleted(1)] by blast
    obtain entry where "cs_events st' = cs_events st @ (reads @ [DeleteLogged t entry, Asked (op_execute dop)])"
      using spent(1) reads(1) by auto
    moreover have "(\<forall>w. \<not> ce_remove_fails env (token_file t) w) \<longrightarrow> cs_files st' (token_file t) = None"
      using spent(2) ok(1) by simp
    ultimately show ?thesis
      using Some ok reads(2) by blast
  qed
qed

theorem deletes_only_what_was_approved_witness:
  "\<exists>content manifest. cs_files offered (token_file sample_token) = Some content \<and>
     approves sample_confirm_env sample_op content 150 manifest \<and>
     Asked ''ddDeleteObj(c)'' \<in> set (cs_events (snd (run_delete sample_confirm_env sample_op (Some sample_token) offered)))"
proof -
  let ?run = "run_delete sample_confirm_env sample_op (Some sample_token) offered"
  have sent: "Asked ''ddDeleteObj(c)'' \<in> set (cs_events (snd ?run))"
    by code_simp
  have before: "cs_events offered = [Asked ''probe()'', TokenIssued sample_token]"
    by code_simp
  have time: "fst (ce_now sample_confirm_env (cs_world offered)) = 150"
    by (simp add: sample_confirm_env_def offered_def)
  have "only_reads sample_op reads \<Longrightarrow> Asked ''ddDeleteObj(c)'' \<notin> set reads" for reads
    by (auto simp: only_reads_def sample_op_def OPEN_CELLVIEWS_def tpl_text_def)
  with deletes_only_what_was_approved [of sample_confirm_env sample_op "Some sample_token" offered "fst ?run" "snd ?run"]
    sent before time
  show ?thesis by fastforce
qed

text \<open>
  C25: A token is spent once: over any sequence of calls that starts without tokens, the deletes made
  with a token are at most as many as the times it was issued, when used files can be removed.
\<close>
theorem each_approval_spent_once:
  assumes "\<And>name w. \<not> ce_remove_fails env name w"
    and "cs_files st = (\<lambda>_. None)" and "cs_events st = []"
  shows "deletes_with t (cs_events (run_deletes env calls st)) \<le> times_issued t (cs_events (run_deletes env calls st))"
proof -
  have "spent_once t st" using assms(2,3) by (simp add: spent_once_def)
  with assms(1) have "spent_once t (run_deletes env calls st)" by (rule runs_spent_once)
  then show ?thesis by (simp add: spent_once_def)
qed

theorem each_approval_spent_once_witness:
  "deletes_with sample_token (cs_events (run_deletes sample_confirm_env
     [(sample_op, None), (sample_op, Some sample_token), (sample_op, Some sample_token)] (no_tokens 100))) \<le> 1"
proof -
  let ?final = "run_deletes sample_confirm_env
     [(sample_op, None), (sample_op, Some sample_token), (sample_op, Some sample_token)] (no_tokens 100)"
  have "times_issued sample_token (cs_events ?final) = 1" by code_simp
  moreover have "deletes_with sample_token (cs_events ?final) \<le> times_issued sample_token (cs_events ?final)"
    by (rule each_approval_spent_once) (simp_all add: sample_confirm_env_def no_tokens_def)
  ultimately show ?thesis by simp
qed

text \<open>
  A token is good for 300 seconds after it was issued, and for the action and the design it was
  issued for: as long as its file is as it was written, it is accepted exactly while the clock is below
  the time of issue plus 300; after that a call with it is refused and asks nothing of Virtuoso.
\<close>
theorem approval_lasts_300_seconds:
  assumes "mint env action manifest st = (Done (Inr t), st')"
    and "cs_files st' (token_file t) = Some content" "cs_files s (token_file t) = Some content"
    and "\<And>x. 16 \<le> length (ce_sha256 env x)"
    and "ce_parse env (ce_pretty env (token_record env t action manifest (issue_time env st))) =
          Inr (token_record env t action manifest (issue_time env st))"
  shows "((\<exists>rec s'. load_token env t s = (Done (Inr rec), s') \<and> jat rec ''action'' = JStr action \<and>
        jat rec ''manifest_hash'' = JStr (manifest_hash env manifest)) \<longleftrightarrow>
       fst (ce_now env (cs_world s)) < issue_time env st + TOKEN_TTL_S) \<and>
     (issue_time env st + TOKEN_TTL_S \<le> fst (ce_now env (cs_world s)) \<longrightarrow>
       (\<exists>e s'. execute_delete env dop t s = (Done (Inl e), s') \<and> cs_events s' = cs_events s))"
proof -
  note issued = mint_issues [OF assms(1,2,4)]
  let ?rec = "token_record env t action manifest (issue_time env st)"
  have kept: "cs_files s (token_file t) = Some (ce_pretty env ?rec)" using assms(3) issued(2) by simp
  have expires: "as_u64 (jat ?rec ''expires_at'') = Some (issue_time env st + TOKEN_TTL_S)"
    by (simp add: record_fields of_int_uint_u64 del: of_int_uint)
  let ?late = "issue_time env st + TOKEN_TTL_S \<le> fst (ce_now env (cs_world s))"
  have valid: "validate_token t = Inr t" using issued(1) by (simp add: validate_token_def)
  obtain n w where clock: "ce_now env (cs_world s) = (n, w)" by fastforce
  have early: "load_token env t s = (Done (Inr ?rec), s\<lparr>cs_world := snd (ce_now env (cs_world s))\<rparr>)" if "\<not> ?late"
    using that valid kept expires clock
    by (simp add: load_token_def act_defs assms(5))
  have late: "\<exists>e s'. load_token env t s = (Done (Inl e), s') \<and> cs_events s' = cs_events s" if ?late
    using that valid kept expires clock
    by (simp add: load_token_def act_defs assms(5) remove_token_def)
  have refused: "\<exists>e s'. execute_delete env dop t s = (Done (Inl e), s') \<and> cs_events s' = cs_events s" if ?late
    using late [OF that] by (auto simp: execute_delete_def check_approval_def bind_act_def)
  show ?thesis
  proof (cases ?late)
    case True
    with late [OF True] refused show ?thesis by (auto simp: not_less [symmetric])
  next
    case False
    with early [OF False] show ?thesis by (auto simp: record_fields not_le)
  qed
qed

theorem approval_lasts_300_seconds_witness:
  "\<exists>e s'. execute_delete sample_confirm_env sample_op sample_token (offered\<lparr>cs_world := 400\<rparr>) = (Done (Inl e), s') \<and>
     cs_events s' = cs_events offered"
proof -
  let ?s = "offered\<lparr>cs_world := 400\<rparr>"
  let ?mint = "mint sample_confirm_env ''cell.delete'' [JObj []] (no_tokens 100)"
  have "fst ?mint = Done (Inr sample_token)" by code_simp
  then have 1: "?mint = (Done (Inr sample_token), snd ?mint)" by (metis prod.collapse)
  have 2: "cs_files (snd ?mint) (token_file sample_token) = Some ''R''" by code_simp
  have 3: "cs_files ?s (token_file sample_token) = Some ''R''" by code_simp
  have 4: "16 \<le> length (ce_sha256 sample_confirm_env x)" for x by (simp add: sample_confirm_env_def)
  have time: "issue_time sample_confirm_env (no_tokens 100) = 100"
    by (simp add: issue_time_def sample_confirm_env_def no_tokens_def)
  have "token_record sample_confirm_env sample_token ''cell.delete'' [JObj []] 100 = sample_record" by code_simp
  then have 5: "ce_parse sample_confirm_env (ce_pretty sample_confirm_env
      (token_record sample_confirm_env sample_token ''cell.delete'' [JObj []] (issue_time sample_confirm_env (no_tokens 100)))) =
     Inr (token_record sample_confirm_env sample_token ''cell.delete'' [JObj []]
       (issue_time sample_confirm_env (no_tokens 100)))"
    unfolding time by (simp add: sample_confirm_env_def)
  have "issue_time sample_confirm_env (no_tokens 100) + TOKEN_TTL_S \<le> fst (ce_now sample_confirm_env (cs_world ?s))"
    unfolding time by (simp add: sample_confirm_env_def TOKEN_TTL_S_def)
  with approval_lasts_300_seconds [OF 1 2 3 4 5, THEN conjunct2] show ?thesis by auto
qed

end
