(* ===== verification/Editor.thy ===== *)
theory Editor
  imports Schematic_Skill Design_Skill
begin

text \<open>
  \<open>src/client/editor.rs\<close>: an editor collects the SKILL texts of its operations, to be sent as one
  program.
\<close>

section \<open>Schematics\<close>

text \<open>The commands of an editor.\<close>

type_synonym editor = "string list"

definition ed_add_instance where
  "ed_add_instance F ed lib cell view name origin orient =
     ed @ [render (create_instance F lib cell view name origin orient)]"

definition ed_add_wire where
  "ed_add_wire F ed points net = ed @ [render (create_wire F points net)]"

definition ed_add_label where
  "ed_add_label F ed net origin = ed @ [render (create_wire_label F net origin)]"

definition ed_add_pin where
  "ed_add_pin F ed net pin_type origin orient sigtype =
     bindR (create_pin F net pin_type origin orient sigtype) (\<lambda>ps. Inr (ed @ [render ps]))"

definition ed_set_param where
  "ed_set_param ed inst param val = ed @ [render (set_instance_param inst param val)]"

definition ed_assign_net where
  "ed_assign_net ed inst term_name net = ed @ [render (assign_net inst term_name net)]"

section \<open>Layouts\<close>

definition ld_add_rect where
  "ld_add_rect ed layer purpose bbox = ed @ [render (create_rect layer purpose bbox)]"

definition ld_add_polygon where
  "ld_add_polygon ed layer purpose points = ed @ [render (create_polygon layer purpose points)]"

definition ld_add_path where
  "ld_add_path ed layer purpose width points = ed @ [render (create_path layer purpose width points)]"

definition ld_add_via where
  "ld_add_via ed via_def origin = ed @ [render (create_via via_def origin)]"

definition ld_add_instance where
  "ld_add_instance ed lib cell view origin orient = ed @ [render (layout_instance lib cell view origin orient)]"

end
