(* ===== verification/Transactions.thy ===== *)
theory Transactions
  imports Skill_Requests Editor Rpc_Json Acts
begin

text \<open>
  \<open>src/transaction/\<close> and \<open>src/commands/transaction.rs\<close>: a snapshot of the open schematic, the difference of two snapshots, and a
  transaction that is begun, committed or rolled back.

  The world \<open>'w\<close> holds the daemon's answers (\<open>tx_ask\<close> is \<open>execute_skill\<close>) and the clock; the files of
  the snapshot directory are part of the state.  The order in which a \<open>HashMap\<close> gives its keys is the
  argument \<open>key_order\<close>, of which only is known that it gives every key.
\<close>

section \<open>Snapshots\<close>

record 'f instance_snapshot =
  in_name :: string
  in_lib :: string
  in_cell :: string
  in_x :: 'f
  in_y :: 'f
  in_orient :: string
  in_params :: "(string \<times> string) list"

record pin_snapshot =
  pn_name :: string
  pn_direction :: string

record 'f snapshot =
  sn_transaction :: string
  sn_timestamp :: string
  sn_lib :: string
  sn_cell :: string
  sn_view :: string
  sn_instances :: "'f instance_snapshot list"
  sn_nets :: "string list"
  sn_pins :: "pin_snapshot list"

record ('w, 'f) tx_env =
  tx_ask :: "string \<Rightarrow> 'w \<Rightarrow> virtuoso_result ending \<times> 'w"
  tx_connect :: "'w \<Rightarrow> (virtuoso_error + unit) \<times> 'w"
  tx_timestamp :: "'w \<Rightarrow> string"
  tx_parse :: "string \<Rightarrow> string + 'f json"
  tx_floats :: "'f floats"
  tx_far :: "'f \<Rightarrow> 'f \<Rightarrow> bool"
  tx_snapshot_dir :: string
  tx_remove :: "string \<Rightarrow> 'w \<Rightarrow> string option"

record ('w, 'f) tx_state =
  ts_active :: "(string \<times> 'f snapshot) option"
  ts_committed :: "string list"
  ts_files :: "string \<Rightarrow> string option"
  ts_sent :: "string list"
  ts_world :: 'w

definition tx_send :: "('w, 'f) tx_env \<Rightarrow> string \<Rightarrow> (('w, 'f) tx_state, virtuoso_result) act" where
  "tx_send env code st =
     (let (r, w) = tx_ask env code (ts_world st) in
      (r, st\<lparr>ts_sent := ts_sent st @ [code], ts_world := w\<rparr>))"

definition tx_from_env :: "('w, 'f) tx_env \<Rightarrow> (('w, 'f) tx_state, unit) act" where
  "tx_from_env env st = (let (r, w) = tx_connect env (ts_world st) in (Done r, st\<lparr>ts_world := w\<rparr>))"

text \<open>\<open>commands::schematic::parse_skill_json\<close>, which leaves octal escapes as they are.\<close>

definition schematic_parse_json :: "(string \<Rightarrow> string + 'f json) \<Rightarrow> string \<Rightarrow> virtuoso_error + 'f json" where
  "schematic_parse_json from_json output =
     (let s = trim_quotes output in
      case from_json s of
        Inr v \<Rightarrow> Inr v
      | Inl _ \<Rightarrow>
          (case from_json (replace2 backslash backslash backslash (replace2 backslash quote_char quote_char s)) of
             Inr v \<Rightarrow> Inr v
           | Inl e \<Rightarrow> Inl (Execution (''Failed to parse SKILL JSON output: '' @ e @ ''. Raw: '' @ output))))"

text \<open>\<open>commands::schematic::list_instances\<close>, \<open>list_nets\<close>, \<open>list_pins\<close>: each connects anew.\<close>

definition list_design ::
  "('w, 'f) tx_env \<Rightarrow> string \<Rightarrow> piece list \<Rightarrow> (('w, 'f) tx_state, 'f json) act" where
  "list_design env what code =
     bind_act (tx_from_env env) (\<lambda>_.
     bind_act (tx_send env (render code)) (\<lambda>r.
     if \<not> skill_ok r then fail_act (Execution (''Failed to list '' @ what @ '': '' @ vr_output r))
     else of_result (schematic_parse_json (tx_parse env) (vr_output r))))"

definition captured_instance :: "'f floats \<Rightarrow> string \<Rightarrow> string \<Rightarrow> 'f json \<Rightarrow> 'f instance_snapshot option" where
  "captured_instance F lib cell v =
     (case (as_string (jat v ''name''), as_string (jat v ''master'')) of
        (Some name, Some master) \<Rightarrow>
          (case split_once CHR ''/'' master of
             None \<Rightarrow> None
           | Some (lib_cell, _) \<Rightarrow>
               (let (l, c) = (case rsplit_once CHR ''/'' lib_cell of Some lc \<Rightarrow> lc | None \<Rightarrow> (lib, cell)) in
                Some \<lparr>in_name = name, in_lib = l, in_cell = c,
                  in_x = (case as_f64 F (jat v ''x'') of Some x \<Rightarrow> x | None \<Rightarrow> fl_of_int F 0),
                  in_y = (case as_f64 F (jat v ''y'') of Some y \<Rightarrow> y | None \<Rightarrow> fl_of_int F 0),
                  in_orient = (case opt_and_then (jget v ''orient'') as_string of Some s \<Rightarrow> s | None \<Rightarrow> ''R0''),
                  in_params = []\<rparr>))
      | _ \<Rightarrow> None)"

definition captured_pin :: "'f json \<Rightarrow> pin_snapshot option" where
  "captured_pin v =
     map_option (\<lambda>name. \<lparr>pn_name = name,
        pn_direction = (case opt_and_then (jget v ''direction'') as_string of Some s \<Rightarrow> s | None \<Rightarrow> ''input'')\<rparr>)
       (as_string (jat v ''name''))"

definition array_of :: "string \<Rightarrow> 'f json \<Rightarrow> virtuoso_error + 'f json list" where
  "array_of what v =
     (case as_array v of Some vs \<Rightarrow> Inr vs | None \<Rightarrow> Inl (Execution (what @ '' not an array'')))"

definition capture ::
  "('w, 'f) tx_env \<Rightarrow> string \<Rightarrow> string \<Rightarrow> string \<Rightarrow> string \<Rightarrow> (('w, 'f) tx_state, 'f snapshot) act" where
  "capture env tid lib cell view =
     bind_act (list_design env ''instances'' list_instances) (\<lambda>inst_val.
     bind_act (list_design env ''nets'' list_nets) (\<lambda>nets_val.
     bind_act (list_design env ''pins'' list_pins) (\<lambda>pins_val.
     bind_act (of_result (array_of ''instances'' inst_val)) (\<lambda>insts.
     bind_act (of_result (array_of ''nets'' nets_val)) (\<lambda>nets.
     bind_act (of_result (array_of ''pins'' pins_val)) (\<lambda>pins st.
       (Done (Inr \<lparr>sn_transaction = tid, sn_timestamp = tx_timestamp env (ts_world st), sn_lib = lib,
          sn_cell = cell, sn_view = view,
          sn_instances = List.map_filter (captured_instance (tx_floats env) lib cell) insts,
          sn_nets = List.map_filter as_string nets, sn_pins = List.map_filter captured_pin pins\<rparr>), st)))))))"

text \<open>\<open>Path::join\<close>: a name that is absolute replaces the directory.\<close>

definition path_for :: "('w, 'f) tx_env \<Rightarrow> string \<Rightarrow> string" where
  "path_for env tid =
     (let name = tid @ ''.json'' in
      if starts_with name ''/'' then name else tx_snapshot_dir env @ ''/'' @ name)"

definition delete_snapshot :: "('w, 'f) tx_env \<Rightarrow> 'f snapshot \<Rightarrow> (('w, 'f) tx_state, unit) act" where
  "delete_snapshot env sn st =
     (let p = path_for env (sn_transaction sn) in
      if ts_files st p = None then (Done (Inl (Io ''No such file or directory (os error 2)'')), st)
      else case tx_remove env p (ts_world st) of
        Some e \<Rightarrow> (Done (Inl (Io e)), st)
      | None \<Rightarrow> (Done (Inr ()), st\<lparr>ts_files := (ts_files st)(p := None)\<rparr>))"

section \<open>Differences\<close>

record param_change =
  pc_old :: string
  pc_new :: string

record instance_modify =
  im_name :: string
  im_changes :: "(string \<times> param_change) list"

record schematic_diff =
  df_before_id :: string
  df_after_id :: string
  df_instances_added :: "string list"
  df_instances_removed :: "string list"
  df_instances_modified :: "instance_modify list"
  df_nets_added :: "string list"
  df_nets_removed :: "string list"
  df_pins_added :: "string list"
  df_pins_removed :: "string list"

text \<open>Collected into a \<open>HashMap\<close>, the last instance of a name stays.\<close>

definition by_name :: "'f instance_snapshot list \<Rightarrow> string \<Rightarrow> 'f instance_snapshot option" where
  "by_name insts = map_of (rev (map (\<lambda>i. (in_name i, i)) insts))"

definition at_text :: "'f floats \<Rightarrow> 'f instance_snapshot \<Rightarrow> string" where
  "at_text F i = ''('' @ fl_display F (in_x i) @ '','' @ fl_display F (in_y i) @ '')''"

definition instance_changes ::
  "'f floats \<Rightarrow> ('f \<Rightarrow> 'f \<Rightarrow> bool) \<Rightarrow> 'f instance_snapshot \<Rightarrow> 'f instance_snapshot
     \<Rightarrow> (string \<times> param_change) list" where
  "instance_changes F far b a =
     (if far (in_x b) (in_x a) \<or> far (in_y b) (in_y a)
      then [(''position'', \<lparr>pc_old = at_text F b, pc_new = at_text F a\<rparr>)] else []) @
     (if in_orient b \<noteq> in_orient a
      then [(''orient'', \<lparr>pc_old = in_orient b, pc_new = in_orient a\<rparr>)] else [])"

definition compute_diff ::
  "'f floats \<Rightarrow> ('f \<Rightarrow> 'f \<Rightarrow> bool) \<Rightarrow> (string list \<Rightarrow> string list) \<Rightarrow> 'f snapshot \<Rightarrow> 'f snapshot
     \<Rightarrow> schematic_diff" where
  "compute_diff F far key_order before after =
     (let b = by_name (sn_instances before); a = by_name (sn_instances after);
          b_keys = key_order (remdups (map in_name (sn_instances before)));
          a_keys = key_order (remdups (map in_name (sn_instances after))) in
      \<lparr>df_before_id = sn_transaction before, df_after_id = sn_transaction after,
       df_instances_added = filter (\<lambda>k. b k = None) a_keys,
       df_instances_removed = filter (\<lambda>k. a k = None) b_keys,
       df_instances_modified = List.map_filter (\<lambda>k.
         (case (b k, a k) of
            (Some bi, Some ai) \<Rightarrow>
              (let ch = instance_changes F far bi ai in
               if ch = [] then None else Some \<lparr>im_name = k, im_changes = ch\<rparr>)
          | _ \<Rightarrow> None)) b_keys,
       df_nets_added = filter (\<lambda>n. n \<notin> set (sn_nets before)) (sn_nets after),
       df_nets_removed = filter (\<lambda>n. n \<notin> set (sn_nets after)) (sn_nets before),
       df_pins_added = map pn_name (filter (\<lambda>p. pn_name p \<notin> pn_name ` set (sn_pins before)) (sn_pins after)),
       df_pins_removed = map pn_name (filter (\<lambda>p. pn_name p \<notin> pn_name ` set (sn_pins after)) (sn_pins before))\<rparr>)"

definition diff_is_empty :: "schematic_diff \<Rightarrow> bool" where
  "diff_is_empty d \<longleftrightarrow>
     df_instances_added d = [] \<and> df_instances_removed d = [] \<and> df_instances_modified d = [] \<and>
     df_nets_added d = [] \<and> df_nets_removed d = [] \<and> df_pins_added d = [] \<and> df_pins_removed d = []"

text \<open>\<open>execute_operations\<close> of the client, over this state.\<close>

definition ed_execute :: "('w, 'f) tx_env \<Rightarrow> editor \<Rightarrow> (('w, 'f) tx_state, virtuoso_result) act" where
  "ed_execute env ed =
     (if ed = [] then pure_act (vr_success []) else tx_send env (operations_skill ed))"

section \<open>Transactions\<close>

definition no_transaction :: virtuoso_error where
  "no_transaction = Execution ''no active transaction''"

definition active_of :: "(('w, 'f) tx_state, string \<times> 'f snapshot) act" where
  "active_of st = (case ts_active st of None \<Rightarrow> (Done (Inl no_transaction), st) | Some t \<Rightarrow> (Done (Inr t), st))"

definition tx_begin where
  "tx_begin env tid lib cell view st =
     (if ts_active st \<noteq> None then (Done (Inl (Execution ''transaction already active'')), st)
      else bind_act (capture env tid lib cell view)
        (\<lambda>sn st. (Done (Inr ()), st\<lparr>ts_active := Some (tid, sn)\<rparr>)) st)"

definition tx_commit :: "('w, 'f) tx_env \<Rightarrow> (('w, 'f) tx_state, unit) act" where
  "tx_commit env =
     bind_act active_of (\<lambda>(tid, sn) st.
       bind_act (delete_snapshot env sn)
         (\<lambda>_ st. (Done (Inr ()), st\<lparr>ts_committed := ts_committed st @ [tid]\<rparr>))
         (st\<lparr>ts_active := None\<rparr>))"

definition restore_instances :: "'f floats \<Rightarrow> 'f snapshot \<Rightarrow> editor" where
  "restore_instances F sn =
     foldl (\<lambda>ed i. ed_add_instance F ed (in_lib i) (in_cell i) ''symbol'' (in_name i) (in_x i, in_y i) (in_orient i))
       [] (sn_instances sn)"

definition tx_rollback :: "('w, 'f) tx_env \<Rightarrow> (('w, 'f) tx_state, unit) act" where
  "tx_rollback env =
     bind_act active_of (\<lambda>(tid, sn).
     bind_act (tx_send env (render (open_cellview (sn_lib sn) (sn_cell sn) (sn_view sn)))) (\<lambda>_.
     bind_act (ed_execute env (restore_instances (tx_floats env) sn)) (\<lambda>_. pure_act ())))"

definition tx_diff ::
  "('w, 'f) tx_env \<Rightarrow> (string list \<Rightarrow> string list) \<Rightarrow> (('w, 'f) tx_state, schematic_diff) act" where
  "tx_diff env key_order =
     bind_act active_of (\<lambda>(tid, sn).
     bind_act (capture env (sn_transaction sn) (sn_lib sn) (sn_cell sn) (sn_view sn)) (\<lambda>now.
     pure_act (compute_diff (tx_floats env) (tx_far env) key_order sn now)))"

definition tx_status :: "('w, 'f) tx_state \<Rightarrow> (string \<times> 'f snapshot) option" where
  "tx_status st = ts_active st"

section \<open>The commands\<close>

text \<open>\<open>VirtuosoClient::from_context\<close> makes a client with a \<open>TransactionManager\<close> of its own.\<close>

definition new_client :: "('w, 'f) tx_env \<Rightarrow> (('w, 'f) tx_state, unit) act" where
  "new_client env st =
     (let (r, w) = tx_connect env (ts_world st) in
      (Done r, st\<lparr>ts_active := None, ts_committed := [], ts_world := w\<rparr>))"

definition cmd_begin where
  "cmd_begin env tid lib cell view =
     bind_act (new_client env) (\<lambda>_.
     bind_act (tx_begin env tid lib cell view) (\<lambda>_.
     pure_act (json_object [(''status'', JStr ''transaction_began''), (''id'', JStr tid)])))"

definition cmd_commit where
  "cmd_commit env =
     bind_act (new_client env) (\<lambda>_.
     bind_act (tx_commit env) (\<lambda>_.
     pure_act (json_object [(''status'', JStr ''transaction_committed'')])))"

definition cmd_rollback where
  "cmd_rollback env =
     bind_act (new_client env) (\<lambda>_.
     bind_act (tx_rollback env) (\<lambda>_.
     pure_act (json_object [(''status'', JStr ''transaction_rolled_back'')])))"

definition cmd_diff where
  "cmd_diff env key_order diff_json =
     bind_act (new_client env) (\<lambda>_.
     bind_act (tx_diff env key_order) (\<lambda>d.
     bind_act active_of (\<lambda>(tid, _).
     pure_act (json_object [(''status'', JStr ''ok''), (''transaction'', JStr tid), (''diff'', diff_json d)]))))"

definition cmd_status :: "('w, 'f) tx_env \<Rightarrow> (('w, 'f) tx_state, 'f json) act" where
  "cmd_status env =
     bind_act (new_client env) (\<lambda>_ st.
     (Done (Inr (case tx_status st of
        Some (tid, sn) \<Rightarrow> json_object
          [(''status'', JStr ''active''), (''id'', JStr tid), (''lib'', JStr (sn_lib sn)), (''cell'', JStr (sn_cell sn)),
           (''view'', JStr (sn_view sn)), (''instances'', JInt (int (length (sn_instances sn)))),
           (''nets'', JInt (int (length (sn_nets sn)))), (''pins'', JInt (int (length (sn_pins sn))))]
      | None \<Rightarrow> json_object [(''status'', JStr ''no_active_transaction'')])), st))"

end
