(* ===== verification/Transaction_Facts.thy ===== *)
theory Transaction_Facts
  imports Transactions
begin

text \<open>
  What is proved of transactions: the difference of two snapshots is empty exactly when they agree;
  and what capture, rollback, commit and the commands do in fact.
\<close>

section \<open>Differences\<close>

lemma map_filter_empty_iff: "List.map_filter f xs = [] \<longleftrightarrow> (\<forall>x \<in> set xs. f x = None)"
  by (induction xs) (auto simp: map_filter_simps split: option.splits)

lemma by_name_iff: "by_name insts k \<noteq> None \<longleftrightarrow> k \<in> in_name ` set insts"
  by (force simp: by_name_def map_of_eq_None_iff)

lemma by_name_None: "by_name insts k = None \<longleftrightarrow> k \<notin> in_name ` set insts"
  using by_name_iff by blast

text \<open>Same names, each at the same place up to the tolerance and with the same orientation.\<close>

definition same_instances :: "('f \<Rightarrow> 'f \<Rightarrow> bool) \<Rightarrow> 'f snapshot \<Rightarrow> 'f snapshot \<Rightarrow> bool" where
  "same_instances far before after \<longleftrightarrow>
     in_name ` set (sn_instances before) = in_name ` set (sn_instances after) \<and>
     (\<forall>k \<in> in_name ` set (sn_instances before).
        case (by_name (sn_instances before) k, by_name (sn_instances after) k) of
          (Some b, Some a) \<Rightarrow>
            \<not> far (in_x b) (in_x a) \<and> \<not> far (in_y b) (in_y a) \<and> in_orient b = in_orient a
        | _ \<Rightarrow> False)"

lemma changes_empty_iff:
  "instance_changes F far b a = [] \<longleftrightarrow>
     \<not> far (in_x b) (in_x a) \<and> \<not> far (in_y b) (in_y a) \<and> in_orient b = in_orient a"
  by (simp add: instance_changes_def)

lemma diff_empty:
  assumes "\<And>ks. set (key_order ks) = set ks"
  shows "diff_is_empty (compute_diff F far key_order before after) \<longleftrightarrow>
     same_instances far before after \<and> set (sn_nets before) = set (sn_nets after) \<and>
     pn_name ` set (sn_pins before) = pn_name ` set (sn_pins after)"
proof -
  let ?d = "compute_diff F far key_order before after"
  let ?b = "by_name (sn_instances before)" and ?a = "by_name (sn_instances after)"
  have names: "df_instances_added ?d = [] \<and> df_instances_removed ?d = [] \<longleftrightarrow>
      in_name ` set (sn_instances before) = in_name ` set (sn_instances after)"
    by (auto simp: compute_diff_def Let_def filter_empty_conv assms by_name_None by_name_iff)
  have modified: "df_instances_modified ?d = [] \<longleftrightarrow>
      (\<forall>k \<in> in_name ` set (sn_instances before). case (?b k, ?a k) of
         (Some b, Some a) \<Rightarrow> instance_changes F far b a = [] | _ \<Rightarrow> True)"
    by (auto simp: compute_diff_def Let_def map_filter_empty_iff assms split: option.splits)
  have nets: "df_nets_added ?d = [] \<and> df_nets_removed ?d = [] \<longleftrightarrow> set (sn_nets before) = set (sn_nets after)"
    by (auto simp: compute_diff_def Let_def filter_empty_conv)
  have pins: "df_pins_added ?d = [] \<and> df_pins_removed ?d = [] \<longleftrightarrow>
      pn_name ` set (sn_pins before) = pn_name ` set (sn_pins after)"
    by (auto simp: compute_diff_def Let_def filter_empty_conv)
  have same: "same_instances far before after \<longleftrightarrow>
      (df_instances_added ?d = [] \<and> df_instances_removed ?d = []) \<and> df_instances_modified ?d = []"
  proof (cases "in_name ` set (sn_instances before) = in_name ` set (sn_instances after)")
    case False
    then show ?thesis unfolding names by (simp add: same_instances_def)
  next
    case True
    have "?b k \<noteq> None \<and> ?a k \<noteq> None" if "k \<in> in_name ` set (sn_instances before)" for k
      using that True by (metis by_name_iff)
    then have "(\<forall>k \<in> in_name ` set (sn_instances before). case (?b k, ?a k) of
         (Some b, Some a) \<Rightarrow> instance_changes F far b a = [] | _ \<Rightarrow> True) \<longleftrightarrow>
      (\<forall>k \<in> in_name ` set (sn_instances before). case (?b k, ?a k) of
         (Some b, Some a) \<Rightarrow> \<not> far (in_x b) (in_x a) \<and> \<not> far (in_y b) (in_y a) \<and> in_orient b = in_orient a
       | _ \<Rightarrow> False)"
      by (intro ball_cong refl) (force simp: changes_empty_iff split: option.splits)
    with True show ?thesis unfolding names modified by (simp add: same_instances_def)
  qed
  show ?thesis
    unfolding same diff_is_empty_def using nets pins by blast
qed

section \<open>Capture\<close>

text \<open>
  Splitting at the first slash leaves no slash to split at again, so the library and the cell of an
  instance's master are never read.
\<close>

lemma captured_instance_own:
  assumes "captured_instance F lib cell v = Some i"
  shows "in_lib i = lib" "in_cell i = cell"
proof -
  obtain name master lib_cell rest where split: "split_once CHR ''/'' master = Some (lib_cell, rest)"
    and i: "Some i = (let (l, c) = (case rsplit_once CHR ''/'' lib_cell of Some lc \<Rightarrow> lc | None \<Rightarrow> (lib, cell)) in
                Some \<lparr>in_name = name, in_lib = l, in_cell = c,
                  in_x = (case as_f64 F (jat v ''x'') of Some x \<Rightarrow> x | None \<Rightarrow> fl_of_int F 0),
                  in_y = (case as_f64 F (jat v ''y'') of Some y \<Rightarrow> y | None \<Rightarrow> fl_of_int F 0),
                  in_orient = (case opt_and_then (jget v ''orient'') as_string of Some s \<Rightarrow> s | None \<Rightarrow> ''R0''),
                  in_params = []\<rparr>)"
    using assms by (auto simp: captured_instance_def simp del: jat_simps split: option.splits)
  have "rsplit_once CHR ''/'' lib_cell = None"
    using split_once_Some [OF split] by (simp add: rsplit_once_None)
  with i have "in_lib i = lib \<and> in_cell i = cell" by simp
  then show "in_lib i = lib" "in_cell i = cell" by simp_all
qed

lemma captured_instances_own:
  "i \<in> set (List.map_filter (captured_instance F lib cell) vs) \<Longrightarrow> in_lib i = lib \<and> in_cell i = cell"
  using captured_instance_own by (force simp: map_filter_def)

lemmas tx_act_defs = bind_act_def pure_act_def fail_act_def of_result_def Let_def tx_send_def tx_from_env_def
  list_design_def active_of_def

definition keeps_transaction :: "('w, 'f) tx_state \<Rightarrow> ('w, 'f) tx_state \<Rightarrow> bool" where
  "keeps_transaction st st' \<longleftrightarrow>
     ts_active st' = ts_active st \<and> ts_committed st' = ts_committed st \<and> ts_files st' = ts_files st"

lemma keeps_transaction_trans: "keeps_transaction a b \<Longrightarrow> keeps_transaction b c \<Longrightarrow> keeps_transaction a c"
  by (simp add: keeps_transaction_def)

lemma list_design_keeps: "keeps_transaction st (snd (list_design env what code st))"
  by (auto simp: tx_act_defs keeps_transaction_def split: prod.splits ending.splits sum.splits)

lemma bind_keeps:
  assumes "\<And>st. keeps_transaction st (snd (a st))" "\<And>x st. keeps_transaction st (snd (f x st))"
  shows "keeps_transaction st (snd (bind_act a f st))"
proof -
  obtain r st1 where a: "a st = (r, st1)" by fastforce
  have first: "keeps_transaction st st1" using assms(1) [of st] a by simp
  show ?thesis
  proof (cases "\<exists>x. r = Done (Inr x)")
    case True
    then obtain x where "r = Done (Inr x)" by blast
    with a first show ?thesis
      using keeps_transaction_trans [OF first assms(2) [of st1 x]] by (simp add: bind_act_def)
  next
    case False
    with a first show ?thesis by (auto simp: bind_act_def split: ending.splits sum.splits)
  qed
qed

lemma result_keeps: "keeps_transaction st (snd (of_result r st))"
  by (simp add: of_result_def keeps_transaction_def)

lemma capture_keeps: "keeps_transaction st (snd (capture env tid lib cell view st))"
  unfolding capture_def
  by (intro bind_keeps list_design_keeps result_keeps) (simp add: keeps_transaction_def)

lemma capture_snapshot:
  assumes "capture env tid lib cell view st = (Done (Inr sn), st')"
  shows "sn_transaction sn = tid" "sn_lib sn = lib" "sn_cell sn = cell" "sn_view sn = view"
    and "i \<in> set (sn_instances sn) \<Longrightarrow> in_lib i = lib \<and> in_cell i = cell"
  using assms by (auto simp: capture_def bind_act_Inr_iff dest!: captured_instances_own)

lemma begin_captures:
  assumes "tx_begin env tid lib cell view st = (Done (Inr ()), st')"
  obtains sn s where "capture env tid lib cell view st = (Done (Inr sn), s)" "st' = s\<lparr>ts_active := Some (tid, sn)\<rparr>"
    "ts_files st' = ts_files st" "ts_committed st' = ts_committed st" "ts_active st = None"
proof -
  obtain sn s where cap: "capture env tid lib cell view st = (Done (Inr sn), s)"
    and st': "st' = s\<lparr>ts_active := Some (tid, sn)\<rparr>" and none: "ts_active st = None"
    using assms by (auto simp: tx_begin_def bind_act_Inr_iff simp del: not_None_eq split: if_splits)
  have "keeps_transaction st s" using capture_keeps [of st env tid lib cell view] cap by simp
  then have kept: "ts_files st' = ts_files st" "ts_committed st' = ts_committed st"
    using st' by (simp_all add: keeps_transaction_def)
  show ?thesis using cap st' kept none by (rule that)
qed

lemma restore_instances_map:
  fixes F :: "'f floats" and sn :: "'f snapshot"
  shows "restore_instances F sn =
     map (\<lambda>i. render (create_instance F (in_lib i) (in_cell i) ''symbol'' (in_name i) (in_x i, in_y i) (in_orient i)))
       (sn_instances sn)"
proof -
  have "foldl (\<lambda>ed i. ed_add_instance F ed (in_lib i) (in_cell i) ''symbol'' (in_name i) (in_x i, in_y i) (in_orient i))
      ed insts = ed @ map (\<lambda>i. render (create_instance F (in_lib i) (in_cell i) ''symbol'' (in_name i)
        (in_x i, in_y i) (in_orient i))) insts" for ed and insts :: "'f instance_snapshot list"
    by (induction insts arbitrary: ed) (simp_all add: ed_add_instance_def)
  then show ?thesis by (simp add: restore_instances_def)
qed

section \<open>A concrete world\<close>

text \<open>Virtuoso's answers in their order: the instances, the nets, the pins, and then \<open>t\<close>.\<close>

definition sample_answer :: "nat \<Rightarrow> string" where
  "sample_answer w = (if w < 3 then ''INP'' ! w # [] else ''t'')"

definition sample_tx_env :: "(nat, int) tx_env" where
  "sample_tx_env =
     \<lparr>tx_ask = (\<lambda>_ w. (Done (Inr (vr_success (sample_answer w))), Suc w)), tx_connect = (\<lambda>w. (Inr (), w)),
      tx_timestamp = (\<lambda>_. ''now''),
      tx_parse = (\<lambda>s. Inr (JArr (if s = ''I''
        then [json_object [(''name'', JStr ''M1''), (''master'', JStr ''analogLib/nmos4''), (''x'', JInt 1), (''y'', JInt 2)]]
        else []))),
      tx_floats = int_floats, tx_far = (\<lambda>x y. x \<noteq> y), tx_snapshot_dir = ''/cache/snapshots'',
      tx_remove = (\<lambda>_ _. None)\<rparr>"

definition sample_tx_state :: "(nat, int) tx_state" where
  "sample_tx_state =
     \<lparr>ts_active = None, ts_committed = [], ts_files = (\<lambda>f. if f = ''/home/u/notes.json'' then Some ''x'' else None),
      ts_sent = [], ts_world = 0\<rparr>"

definition sample_begun :: "string \<Rightarrow> (nat, int) tx_state" where
  "sample_begun tid = snd (tx_begin sample_tx_env tid ''work'' ''amp'' ''schematic'' sample_tx_state)"

lemma sample_begin:
  "tx_begin sample_tx_env tid ''work'' ''amp'' ''schematic'' sample_tx_state = (Done (Inr ()), sample_begun tid)"
proof -
  have "fst (tx_begin sample_tx_env tid ''work'' ''amp'' ''schematic'' sample_tx_state) = Done (Inr ())"
    by code_simp
  then show ?thesis unfolding sample_begun_def by (metis prod.collapse)
qed

section \<open>Properties\<close>

text \<open>
  The difference of two snapshots is empty exactly when they name the same instances, each at
  the same place up to the tolerance and with the same orientation, the same nets and the same pins,
  in whatever order the maps give their keys; masters, parameters and pin directions are not compared.
\<close>
theorem diff_empty_iff_same:
  assumes "\<And>ks. set (key_order ks) = set ks"
  shows "diff_is_empty (compute_diff F far key_order before after) \<longleftrightarrow>
     same_instances far before after \<and> set (sn_nets before) = set (sn_nets after) \<and>
     pn_name ` set (sn_pins before) = pn_name ` set (sn_pins after)"
  by (rule diff_empty [OF assms])

theorem diff_empty_iff_same_witness:
  "\<forall>sn :: int snapshot. diff_is_empty (compute_diff int_floats (\<noteq>) id sn sn)"
proof
  fix sn :: "int snapshot"
  have "by_name (sn_instances sn) k \<noteq> None" if "k \<in> in_name ` set (sn_instances sn)" for k
    using that by (simp only: by_name_iff)
  then have "same_instances (\<noteq>) sn sn"
    unfolding same_instances_def by (auto split: option.splits)
  then show "diff_is_empty (compute_diff int_floats (\<noteq>) id sn sn)"
    using diff_empty_iff_same [of id int_floats "(\<noteq>)" sn sn] by simp
qed

text \<open>
  Rolling back does not restore what was there: every instance of the snapshot is created again
  as an instance of the symbol of the edited cell itself, whatever its master was, in one program after
  the cell was opened; nothing is deleted, and the transaction stays active.
\<close>
theorem rollback_places_cell_in_itself:
  assumes "tx_begin env tid lib cell view st = (Done (Inr ()), st1)"
    and "tx_rollback env st1 = (Done (Inr ()), st2)"
  shows "\<exists>sn. ts_active st1 = Some (tid, sn) \<and> ts_active st2 = Some (tid, sn) \<and>
     ts_sent st2 = ts_sent st1 @ render (open_cellview lib cell view) #
       (if sn_instances sn = [] then [] else
         [operations_skill (map (\<lambda>i. render (create_instance (tx_floats env) lib cell ''symbol'' (in_name i)
            (in_x i, in_y i) (in_orient i))) (sn_instances sn))])"
proof -
  obtain sn s where cap: "capture env tid lib cell view st = (Done (Inr sn), s)"
    and st1: "st1 = s\<lparr>ts_active := Some (tid, sn)\<rparr>"
    using assms(1) by (rule begin_captures)
  note sn = capture_snapshot [OF cap]
  have restore: "restore_instances (tx_floats env) sn =
      map (\<lambda>i. render (create_instance (tx_floats env) lib cell ''symbol'' (in_name i) (in_x i, in_y i) (in_orient i)))
        (sn_instances sn)"
    unfolding restore_instances_map by (rule map_cong) (simp_all add: sn(5))
  have "ts_active st1 = Some (tid, sn)" using st1 by simp
  with assms(2) restore sn(2-4) show ?thesis
    by (auto simp: tx_rollback_def ed_execute_def tx_act_defs split: prod.splits ending.splits sum.splits if_splits)
qed

theorem rollback_places_cell_in_itself_witness:
  "\<exists>sn. ts_active (sample_begun ''t1'') = Some (''t1'', sn) \<and> map in_name (sn_instances sn) = [''M1''] \<and>
     ts_sent (snd (tx_rollback sample_tx_env (sample_begun ''t1''))) = ts_sent (sample_begun ''t1'') @
       [render (open_cellview ''work'' ''amp'' ''schematic''),
        operations_skill [render (create_instance int_floats ''work'' ''amp'' ''symbol'' ''M1'' (1, 2) ''R0'')]]"
proof -
  have "fst (tx_rollback sample_tx_env (sample_begun ''t1'')) = Done (Inr ())" by code_simp
  then have "tx_rollback sample_tx_env (sample_begun ''t1'') =
      (Done (Inr ()), snd (tx_rollback sample_tx_env (sample_begun ''t1'')))"
    by (metis prod.collapse)
  from rollback_places_cell_in_itself [OF sample_begin this] obtain sn where
    sn: "ts_active (sample_begun ''t1'') = Some (''t1'', sn)"
    and sent: "ts_sent (snd (tx_rollback sample_tx_env (sample_begun ''t1''))) =
      ts_sent (sample_begun ''t1'') @ render (open_cellview ''work'' ''amp'' ''schematic'') #
       (if sn_instances sn = [] then [] else
         [operations_skill (map (\<lambda>i. render (create_instance (tx_floats sample_tx_env) ''work'' ''amp'' ''symbol''
            (in_name i) (in_x i, in_y i) (in_orient i))) (sn_instances sn))])"
    by blast
  have "map_option (\<lambda>(_, sn). map (\<lambda>i. (in_name i, in_x i, in_y i, in_orient i)) (sn_instances sn))
      (ts_active (sample_begun ''t1'')) = Some [(''M1'', 1, 2, ''R0'')]"
    by code_simp
  with sn obtain i where i: "sn_instances sn = [i]" "in_name i = ''M1''" "in_x i = 1" "in_y i = 2" "in_orient i = ''R0''"
    by auto
  have "tx_floats sample_tx_env = int_floats" by (simp add: sample_tx_env_def)
  with sn sent i show ?thesis by simp
qed

text \<open>
  Committing deletes the file a transaction's identifier names, which beginning never wrote: when
  there is no such file the commit fails, and the transaction is lost without being recorded; when
  there is one, it is removed, wherever the identifier points to.
\<close>
theorem commit_deletes_a_file_never_written:
  assumes "tx_begin env tid lib cell view st = (Done (Inr ()), st1)" "tx_remove env (path_for env tid) (ts_world st1) = None"
  shows "(ts_files st (path_for env tid) = None \<longrightarrow>
      (\<exists>st2. tx_commit env st1 = (Done (Inl (Io ''No such file or directory (os error 2)'')), st2) \<and>
         ts_active st2 = None \<and> ts_committed st2 = ts_committed st \<and> ts_files st2 = ts_files st)) \<and>
     (ts_files st (path_for env tid) \<noteq> None \<longrightarrow>
      (\<exists>st2. tx_commit env st1 = (Done (Inr ()), st2) \<and> ts_active st2 = None \<and>
         ts_committed st2 = ts_committed st @ [tid] \<and> ts_files st2 = (ts_files st)(path_for env tid := None)))"
proof -
  obtain sn s where cap: "capture env tid lib cell view st = (Done (Inr sn), s)"
    and st1: "st1 = s\<lparr>ts_active := Some (tid, sn)\<rparr>"
    and "ts_files st1 = ts_files st" "ts_committed st1 = ts_committed st"
    using assms(1) by (rule begin_captures)
  with assms(2) capture_snapshot(1) [OF cap] show ?thesis
    by (simp add: tx_commit_def tx_act_defs delete_snapshot_def)
qed

theorem commit_deletes_a_file_never_written_witness:
  "ts_files sample_tx_state ''/home/u/notes.json'' \<noteq> None \<and>
   ts_files (snd (tx_commit sample_tx_env (sample_begun ''/home/u/notes''))) ''/home/u/notes.json'' = None \<and>
   fst (tx_commit sample_tx_env (sample_begun ''t1'')) = Done (Inl (Io ''No such file or directory (os error 2)''))"
proof -
  have path: "path_for sample_tx_env ''/home/u/notes'' = ''/home/u/notes.json''"
    "path_for sample_tx_env ''t1'' = ''/cache/snapshots/t1.json''"
    by code_simp+
  have removable: "tx_remove sample_tx_env f w = None" for f w by (simp add: sample_tx_env_def)
  have files: "ts_files sample_tx_state ''/home/u/notes.json'' \<noteq> None"
    "ts_files sample_tx_state ''/cache/snapshots/t1.json'' = None"
    by (simp_all add: sample_tx_state_def)
  from commit_deletes_a_file_never_written [OF sample_begin removable, of "''/home/u/notes''"]
    commit_deletes_a_file_never_written [OF sample_begin removable, of "''t1''"] files
  show ?thesis unfolding path by auto
qed

lemma absolute_identifier: "starts_with tid ''/'' \<Longrightarrow> path_for env tid = tid @ ''.json''"
  by (cases tid) (auto simp: path_for_def starts_with_def)

text \<open>
  The transaction commands cannot work across invocations: each makes a client whose manager has
  no transaction, so commit, rollback and diff always fail without sending anything, and status
  answers that there is none, whatever was begun before.
\<close>
theorem commands_have_no_transaction:
  "(\<exists>e st'. cmd_commit env st = (Done (Inl e), st') \<and> ts_sent st' = ts_sent st) \<and>
   (\<exists>e st'. cmd_rollback env st = (Done (Inl e), st') \<and> ts_sent st' = ts_sent st) \<and>
   (\<exists>e st'. cmd_diff env key_order diff_json st = (Done (Inl e), st') \<and> ts_sent st' = ts_sent st) \<and>
   (fst (tx_connect env (ts_world st)) = Inr () \<longrightarrow>
     fst (cmd_status env st) = Done (Inr (json_object [(''status'', JStr ''no_active_transaction'')])))"
  by (auto simp: cmd_commit_def cmd_rollback_def cmd_diff_def cmd_status_def tx_commit_def tx_rollback_def
      tx_diff_def tx_status_def tx_act_defs new_client_def split: prod.splits sum.splits)

theorem commands_have_no_transaction_witness:
  "fst (cmd_status sample_tx_env (sample_begun ''t1'')) = Done (Inr (json_object [(''status'', JStr ''no_active_transaction'')]))"
proof -
  have "fst (tx_connect sample_tx_env (ts_world (sample_begun ''t1''))) = Inr ()" by (simp add: sample_tx_env_def)
  then show ?thesis
    using commands_have_no_transaction [of sample_tx_env "sample_begun ''t1''" id "\<lambda>_. JNull"] by blast
qed

end
