(* ===== verification/Host_Keys.thy ===== *)
theory Host_Keys
  imports Framing
begin

text \<open>
  \<open>src/transport/host_keys.rs\<close>: the store of known host keys, its file format, the verdict on a key
  that a server presents, and the SHA-1 and HMAC of the hashed host names.

  Text is a list of characters, bytes are 8-bit words; \<open>b64_encode\<close> and \<open>b64_decode\<close> (a third-party
  codec) are parameters.
\<close>

section \<open>Keys and entries\<close>

datatype key_type = SshEd25519 | SshRsa | EcdsaSha2Nistp256 | EcdsaSha2Nistp384 | EcdsaSha2Nistp521
  | SkSshEd25519 | SkSshRsa | OtherKey string

definition from_known_hosts_token :: "string \<Rightarrow> key_type" where
  "from_known_hosts_token t =
     (if t = ''ssh-ed25519'' then SshEd25519
      else if t = ''ssh-rsa'' then SshRsa
      else if t = ''ecdsa-sha2-nistp256'' then EcdsaSha2Nistp256
      else if t = ''ecdsa-sha2-nistp384'' then EcdsaSha2Nistp384
      else if t = ''ecdsa-sha2-nistp521'' then EcdsaSha2Nistp521
      else if t = ''sk-ssh-ed25519@openssh.com'' then SkSshEd25519
      else if t = ''sk-ssh-rsa@openssh.com'' then SkSshRsa
      else OtherKey t)"

fun as_known_hosts_token :: "key_type \<Rightarrow> string" where
  "as_known_hosts_token SshEd25519 = ''ssh-ed25519''"
| "as_known_hosts_token SshRsa = ''ssh-rsa''"
| "as_known_hosts_token EcdsaSha2Nistp256 = ''ecdsa-sha2-nistp256''"
| "as_known_hosts_token EcdsaSha2Nistp384 = ''ecdsa-sha2-nistp384''"
| "as_known_hosts_token EcdsaSha2Nistp521 = ''ecdsa-sha2-nistp521''"
| "as_known_hosts_token SkSshEd25519 = ''sk-ssh-ed25519@openssh.com''"
| "as_known_hosts_token SkSshRsa = ''sk-ssh-rsa@openssh.com''"
| "as_known_hosts_token (OtherKey s) = s"

datatype verification = Trusted | UnknownKey | ChangedKey key_type string | RevokedKey

datatype host_pattern = AnyHost | PlainHost string "u16 option" | HashedHost "u8 list" "u8 list"

record entry =
  en_revoked :: bool
  en_hosts :: "host_pattern list"
  en_key_type :: key_type
  en_key :: string

record known_hosts =
  kh_path :: "string option"
  kh_entries :: "entry list"

section \<open>SHA-1\<close>

unbundle bit_operations_syntax

definition sha1_init :: "u32 list" where
  "sha1_init = [0x67452301, 0xEFCDAB89, 0x98BADCFE, 0x10325476, 0xC3D2E1F0]"

definition u64_be_bytes :: "u64 \<Rightarrow> u8 list" where
  "u64_be_bytes n = map (\<lambda>i. ucast (drop_bit (8 * (7 - i)) n)) [0, 1, 2, 3, 4, 5, 6, 7]"

definition sha1_pad :: "u8 list \<Rightarrow> u8 list" where
  "sha1_pad m =
     (let ml = of_nat (length m) * (8 :: u64);
          z = (119 - length m mod 64) mod 64
      in m @ [0x80] @ replicate z 0 @ u64_be_bytes ml)"

fun chunks :: "nat \<Rightarrow> 'a list \<Rightarrow> 'a list list" where
  "chunks n [] = []"
| "chunks n (x # xs) = (if n = 0 then [] else take n (x # xs) # chunks n (drop n (x # xs)))"

definition word_at :: "u8 list \<Rightarrow> nat \<Rightarrow> u32" where
  "word_at chunk i =
     from_be_bytes (chunk ! (i * 4)) (chunk ! (i * 4 + 1)) (chunk ! (i * 4 + 2)) (chunk ! (i * 4 + 3))"

text \<open>The message schedule: sixteen words of the chunk, and 64 more.\<close>

fun extend_schedule :: "nat \<Rightarrow> u32 list \<Rightarrow> u32 list" where
  "extend_schedule 0 w = w"
| "extend_schedule (Suc n) w =
     (let i = length w in
      extend_schedule n (w @ [word_rotl 1 (w ! (i - 3) XOR w ! (i - 8) XOR w ! (i - 14) XOR w ! (i - 16))]))"

definition schedule :: "u8 list \<Rightarrow> u32 list" where
  "schedule chunk = extend_schedule 64 (map (word_at chunk) [0..<16])"

definition round_const :: "nat \<Rightarrow> u32 \<Rightarrow> u32 \<Rightarrow> u32 \<Rightarrow> u32 \<times> u32" where
  "round_const i b c d =
     (if i < 20 then ((b AND c) OR (NOT b AND d), 0x5A827999)
      else if i < 40 then (b XOR c XOR d, 0x6ED9EBA1)
      else if i < 60 then ((b AND c) OR (b AND d) OR (c AND d), 0x8F1BBCDC)
      else (b XOR c XOR d, 0xCA62C1D6))"

fun sha1_rounds :: "nat \<Rightarrow> u32 list \<Rightarrow> u32 \<times> u32 \<times> u32 \<times> u32 \<times> u32 \<Rightarrow> u32 \<times> u32 \<times> u32 \<times> u32 \<times> u32" where
  "sha1_rounds i [] s = s"
| "sha1_rounds i (w # ws) (a, b, c, d, e) =
     (case round_const i b c d of (f, k) \<Rightarrow>
        sha1_rounds (Suc i) ws (word_rotl 5 a + f + e + k + w, a, word_rotl 30 b, c, d))"

fun sha1_chunk :: "u32 list \<Rightarrow> u8 list \<Rightarrow> u32 list" where
  "sha1_chunk [h0, h1, h2, h3, h4] chunk =
     (case sha1_rounds 0 (schedule chunk) (h0, h1, h2, h3, h4) of
        (a, b, c, d, e) \<Rightarrow> [h0 + a, h1 + b, h2 + c, h3 + d, h4 + e])"
| "sha1_chunk h chunk = h"

definition sha1 :: "u8 list \<Rightarrow> u8 list" where
  "sha1 message = concat (map to_be_bytes (foldl sha1_chunk sha1_init (chunks 64 (sha1_pad message))))"

definition hmac_sha1 :: "u8 list \<Rightarrow> u8 list \<Rightarrow> u8 list" where
  "hmac_sha1 key message =
     (let k0 = (if 64 < length key then sha1 key else key);
          k = k0 @ replicate (64 - length k0) 0;
          inner = sha1 (map (\<lambda>x. 0x36 XOR x) k @ message)
      in sha1 (map (\<lambda>x. 0x5c XOR x) k @ inner))"

section \<open>Matching a host\<close>

definition text_bytes :: "string \<Rightarrow> u8 list" where
  "text_bytes s = map (\<lambda>c. of_nat (of_char c)) s"

fun pattern_matches :: "host_pattern \<Rightarrow> string \<Rightarrow> u16 option \<Rightarrow> bool" where
  "pattern_matches AnyHost host port \<longleftrightarrow> True"
| "pattern_matches (PlainHost h p) host port \<longleftrightarrow> h = host \<and> (p = None \<or> p = port)"
| "pattern_matches (HashedHost salt hash) host port \<longleftrightarrow> False"

fun hashed_matches :: "host_pattern \<Rightarrow> u8 list \<Rightarrow> bool" where
  "hashed_matches (HashedHost salt hash) s \<longleftrightarrow> hmac_sha1 salt s = hash"
| "hashed_matches _ s \<longleftrightarrow> False"

definition host_spec :: "string \<Rightarrow> u16 option \<Rightarrow> string" where
  "host_spec host port =
     (case port of Some p \<Rightarrow> ''['' @ host @ '']:'' @ show_nat (unat p) | None \<Rightarrow> host)"

definition host_hit :: "entry \<Rightarrow> string \<Rightarrow> u16 option \<Rightarrow> bool" where
  "host_hit en host port \<longleftrightarrow>
     list_ex (\<lambda>h. case h of
        HashedHost _ _ \<Rightarrow> hashed_matches h (text_bytes host) \<or> hashed_matches h (text_bytes (host_spec host port))
      | _ \<Rightarrow> pattern_matches h host port) (en_hosts en)"

fun check_entries :: "entry list \<Rightarrow> string \<Rightarrow> u16 option \<Rightarrow> key_type \<Rightarrow> string \<Rightarrow> verification" where
  "check_entries [] host port kt key = UnknownKey"
| "check_entries (en # ens) host port kt key =
     (if \<not> host_hit en host port then check_entries ens host port kt key
      else if en_revoked en then RevokedKey
      else if en_key_type en = kt \<and> en_key en = key then Trusted
      else ChangedKey (en_key_type en) (en_key en))"

definition check_key :: "known_hosts \<Rightarrow> string \<Rightarrow> u16 option \<Rightarrow> key_type \<Rightarrow> string \<Rightarrow> verification" where
  "check_key kh host port kt key = check_entries (kh_entries kh) host port kt key"

section \<open>The file\<close>

definition decode_hashed :: "(string \<Rightarrow> u8 list option) \<Rightarrow> string \<Rightarrow> host_pattern option" where
  "decode_hashed b64_decode rest =
     (case split_char CHR ''|'' rest of
        salt # hash # _ \<Rightarrow>
          (case (b64_decode salt, b64_decode hash) of
             (Some s, Some h) \<Rightarrow> Some (HashedHost s h)
           | _ \<Rightarrow> None)
      | _ \<Rightarrow> None)"

text \<open>\<open>split_once("]:")\<close>.\<close>

fun split_bracket :: "string \<Rightarrow> (string \<times> string) option" where
  "split_bracket (c # d # s) =
     (if c = CHR '']'' \<and> d = CHR '':'' then Some ([], s)
      else map_option (\<lambda>(a, b). (c # a, b)) (split_bracket (d # s)))"
| "split_bracket s = None"

definition bracketed :: "string \<Rightarrow> host_pattern option" where
  "bracketed s =
     (case strip_prefix ''['' s of
        None \<Rightarrow> None
      | Some rest \<Rightarrow>
          (case split_bracket rest of
             None \<Rightarrow> None
           | Some (host, port) \<Rightarrow>
               (case parse_int 65535 port of
                  Inr p \<Rightarrow> Some (PlainHost host (Some (of_nat p)))
                | Inl _ \<Rightarrow> None)))"

definition parse_host_pattern :: "(string \<Rightarrow> u8 list option) \<Rightarrow> string \<Rightarrow> host_pattern" where
  "parse_host_pattern b64_decode s =
     (if s = ''*'' then AnyHost
      else case (case strip_prefix ''|1|'' s of Some rest \<Rightarrow> decode_hashed b64_decode rest | None \<Rightarrow> None) of
        Some h \<Rightarrow> h
      | None \<Rightarrow> (case bracketed s of Some h \<Rightarrow> h | None \<Rightarrow> PlainHost s None))"

definition parse_line :: "(string \<Rightarrow> u8 list option) \<Rightarrow> string \<Rightarrow> entry option" where
  "parse_line b64_decode line0 =
     (let line = trim line0; tokens = split_whitespace line in
      if line = [] \<or> hd line = CHR ''#'' \<or> length tokens < 3 then None
      else
        (let rev = (tokens ! 0 = ''@revoked''); start = (if rev then 1 else 0) in
         if length tokens < start + 3 then None
         else Some \<lparr>en_revoked = rev,
           en_hosts = map (parse_host_pattern b64_decode) (drop start (take (length tokens - 2) tokens)),
           en_key_type = from_known_hosts_token (tokens ! (length tokens - 2)),
           en_key = tokens ! (length tokens - 1)\<rparr>))"

definition parse_known_hosts :: "(string \<Rightarrow> u8 list option) \<Rightarrow> string \<Rightarrow> entry list" where
  "parse_known_hosts b64_decode txt = List.map_filter (parse_line b64_decode) (str_lines txt)"

fun show_pattern :: "(u8 list \<Rightarrow> string) \<Rightarrow> host_pattern \<Rightarrow> string" where
  "show_pattern b64_encode AnyHost = ''*''"
| "show_pattern b64_encode (PlainHost host port) = host_spec host port"
| "show_pattern b64_encode (HashedHost salt hash) = ''|1|'' @ b64_encode salt @ ''|'' @ b64_encode hash"

definition show_entry :: "(u8 list \<Rightarrow> string) \<Rightarrow> entry \<Rightarrow> string" where
  "show_entry b64_encode en =
     (if en_revoked en then ''@revoked '' else []) @ join '' '' (map (show_pattern b64_encode) (en_hosts en)) @
     '' '' @ as_known_hosts_token (en_key_type en) @ '' '' @ en_key en @ [CHR 10]"

definition show_known_hosts :: "(u8 list \<Rightarrow> string) \<Rightarrow> entry list \<Rightarrow> string" where
  "show_known_hosts b64_encode ens = concat (map (show_entry b64_encode) ens)"

section \<open>The store\<close>

text \<open>What reading a file gives: its text, that it is not there, or another error.\<close>

datatype read_outcome = FileText string | FileMissing | FileError string

definition load_known_hosts ::
  "(string \<Rightarrow> u8 list option) \<Rightarrow> (string \<Rightarrow> read_outcome) \<Rightarrow> string \<Rightarrow> string + known_hosts" where
  "load_known_hosts b64_decode read path =
     (case read path of
        FileText t \<Rightarrow> Inr \<lparr>kh_path = Some path, kh_entries = parse_known_hosts b64_decode t\<rparr>
      | FileMissing \<Rightarrow> Inr \<lparr>kh_path = Some path, kh_entries = []\<rparr>
      | FileError e \<Rightarrow> Inl e)"

definition memory_store :: known_hosts where
  "memory_store = \<lparr>kh_path = None, kh_entries = []\<rparr>"

text \<open>\<open>write\<close> is what the file system answers to a file's new text; the text is returned with it.\<close>

definition save_known_hosts ::
  "(u8 list \<Rightarrow> string) \<Rightarrow> (string \<Rightarrow> string \<Rightarrow> string + unit) \<Rightarrow> known_hosts \<Rightarrow> string + (string \<times> string) option" where
  "save_known_hosts b64_encode write kh =
     (case kh_path kh of
        None \<Rightarrow> Inr None
      | Some path \<Rightarrow>
          (let txt = show_known_hosts b64_encode (kh_entries kh) in
           bindR (write path txt) (\<lambda>_. Inr (Some (path, txt)))))"

definition trust_key where
  "trust_key b64_encode b64_decode write kh host port kt key =
     (let kh' = kh\<lparr>kh_entries := kh_entries kh @
          [\<lparr>en_revoked = False, en_hosts = [parse_host_pattern b64_decode (host_spec host port)],
            en_key_type = kt, en_key = key\<rparr>]\<rparr>
      in (kh', save_known_hosts b64_encode write kh'))"

end
