(* ===== verification/Host_Keys_Facts.thy ===== *)
theory Host_Keys_Facts
  imports Host_Keys Identity Skill_Text
begin

text \<open>
  What is proved of the known hosts: when a key is trusted, what a file keeps, what trusting a key
  changes, and that the hash never reads outside its chunks.
\<close>

section \<open>The hash\<close>

lemma length_pad: "length (sha1_pad m) mod 64 = 0" "length m + 9 \<le> length (sha1_pad m)"
proof -
  have len: "length (sha1_pad m) = length m + 9 + (119 - length m mod 64) mod 64"
    by (simp add: sha1_pad_def u64_be_bytes_def Let_def)
  define r where "r = length m mod 64"
  have "r < 64" by (simp add: r_def)
  then have "r \<in> set [0..<64]" by simp
  then have "(r + 9 + (119 - r) mod 64) mod 64 = 0"
    by (simp add: upt_rec) (elim disjE; simp)
  moreover have "length (sha1_pad m) mod 64 = (r + 9 + (119 - r) mod 64) mod 64"
    unfolding len r_def by (metis mod_add_left_eq)
  ultimately show "length (sha1_pad m) mod 64 = 0" by simp
  show "length m + 9 \<le> length (sha1_pad m)" unfolding len by simp
qed

lemma chunks_full: "0 < n \<Longrightarrow> length xs mod n = 0 \<Longrightarrow> c \<in> set (chunks n xs) \<Longrightarrow> length c = n"
proof (induction n xs rule: chunks.induct)
  case (2 n x xs)
  have "n \<le> length (x # xs)"
    using "2.prems" by (metis dvd_imp_le length_greater_0_conv list.distinct(1) mod_0_imp_dvd)
  moreover have "length (drop n (x # xs)) mod n = 0"
    using "2.prems"(2) calculation by (metis length_drop le_mod_geq)
  ultimately show ?case using 2 by auto
qed simp

lemma extend_length: "length (extend_schedule n w) = length w + n"
  by (induction n w rule: extend_schedule.induct) (auto simp: Let_def)

lemma length_rounds_chunk: "length h = 5 \<Longrightarrow> length (sha1_chunk h c) = 5"
proof -
  assume "length h = 5"
  then obtain h0 h1 h2 h3 h4 where "h = [h0, h1, h2, h3, h4]"
    by (auto simp: numeral_eq_Suc length_Suc_conv)
  moreover obtain a b c' d e where "sha1_rounds 0 (schedule c) (h0, h1, h2, h3, h4) = (a, b, c', d, e)"
    by (rule prod_cases5)
  ultimately show ?thesis by simp
qed

lemma length_sha1: "length (sha1 m) = 20"
proof -
  have "length (foldl sha1_chunk h cs) = 5" if "length h = 5" for h cs
    using that by (induction cs arbitrary: h) (auto intro: length_rounds_chunk)
  then have five: "length (foldl sha1_chunk sha1_init cs) = 5" for cs
    by (simp add: sha1_init_def)
  have "length (concat (map to_be_bytes ws)) = 4 * length ws" for ws
    by (induction ws) simp_all
  then show ?thesis by (simp add: sha1_def five)
qed

section \<open>The verdict\<close>

lemma check_entries_unknown:
  "check_entries ens host port kt key = UnknownKey \<longleftrightarrow> \<not> list_ex (\<lambda>en. host_hit en host port) ens"
  by (induction ens) auto

text \<open>\<open>en\<close> is the first of the entries that covers the host at the port.\<close>

definition decides :: "entry list \<Rightarrow> string \<Rightarrow> u16 option \<Rightarrow> entry \<Rightarrow> bool" where
  "decides ens host port en \<longleftrightarrow>
     (\<exists>before after. ens = before @ en # after \<and> \<not> list_ex (\<lambda>e. host_hit e host port) before) \<and>
     host_hit en host port"

lemma decides_Nil: "\<not> decides [] host port en"
  by (simp add: decides_def)

lemma decides_Cons:
  "decides (e # ens) host port en \<longleftrightarrow> (if host_hit e host port then en = e else decides ens host port en)"
proof (cases "host_hit e host port")
  case True
  then show ?thesis by (auto simp: decides_def Cons_eq_append_conv intro: exI [of _ "[]"])
next
  case False
  have "\<exists>before after. e # ens = before @ en # after \<and> \<not> list_ex (\<lambda>e. host_hit e host port) before"
    if "ens = before @ en # after" "\<not> list_ex (\<lambda>e. host_hit e host port) before" for before after
    by (rule exI [of _ "e # before"], rule exI [of _ after]) (use that False in simp)
  then have "decides ens host port en \<Longrightarrow> decides (e # ens) host port en"
    unfolding decides_def by blast
  moreover have "decides (e # ens) host port en \<Longrightarrow> decides ens host port en"
    using False by (auto simp: decides_def Cons_eq_append_conv)
  ultimately show ?thesis using False by auto
qed

lemma check_entries_trusted:
  "check_entries ens host port kt key = Trusted \<longleftrightarrow>
     (\<exists>en. decides ens host port en \<and> \<not> en_revoked en \<and> en_key_type en = kt \<and> en_key en = key)"
  by (induction ens) (auto simp: decides_Nil decides_Cons)

lemma check_entries_revoked:
  "check_entries ens host port kt key = RevokedKey \<longleftrightarrow> (\<exists>en. decides ens host port en \<and> en_revoked en)"
  by (induction ens) (auto simp: decides_Nil decides_Cons)

lemma check_entries_changed:
  "check_entries ens host port kt key = ChangedKey kt' key' \<longleftrightarrow>
     (\<exists>en. decides ens host port en \<and> \<not> en_revoked en \<and> en_key_type en = kt' \<and> en_key en = key' \<and>
        (kt', key') \<noteq> (kt, key))"
  by (induction ens) (auto simp: decides_Nil decides_Cons)

text \<open>The first entry that covers a host decides: a revocation that comes later is not seen.\<close>

lemma revocation_after_key_ignored:
  assumes "host_hit en host port" "\<not> en_revoked en" "en_revoked gone"
  shows "check_entries [en, gone] host port (en_key_type en) (en_key en) = Trusted"
  using assms by simp

text \<open>A host with keys of two types: the second is taken for a change.\<close>

lemma second_key_type_changed:
  assumes "host_hit en host port" "\<not> en_revoked en" "en_key_type en \<noteq> kt"
  shows "check_entries (en # ens) host port kt key = ChangedKey (en_key_type en) (en_key en)"
  using assms by simp

section \<open>Patterns and their text\<close>

definition word_text :: "string \<Rightarrow> bool" where
  "word_text s \<longleftrightarrow> s \<noteq> [] \<and> (\<forall>c \<in> set s. \<not> is_space c)"

fun bracket_free :: "string \<Rightarrow> bool" where
  "bracket_free (c # d # s) \<longleftrightarrow> \<not> (c = CHR '']'' \<and> d = CHR '':'') \<and> bracket_free (d # s)"
| "bracket_free s \<longleftrightarrow> True"

lemma split_bracket_append:
  "bracket_free h \<Longrightarrow> split_bracket (h @ CHR '']'' # CHR '':'' # s) = Some (h, s)"
  by (induction h rule: bracket_free.induct) (simp_all split: if_splits)

fun pattern_ok :: "host_pattern \<Rightarrow> bool" where
  "pattern_ok AnyHost \<longleftrightarrow> True"
| "pattern_ok (PlainHost h None) \<longleftrightarrow> word_text h \<and> h \<noteq> ''*'' \<and> \<not> starts_with h ''|1|'' \<and> bracketed h = None"
| "pattern_ok (PlainHost h (Some p)) \<longleftrightarrow> bracket_free h \<and> (\<forall>c \<in> set h. \<not> is_space c)"
| "pattern_ok (HashedHost s h) \<longleftrightarrow> True"

text \<open>What is documented of the codec: decoding undoes encoding, and the alphabet.\<close>

definition codec_ok :: "(u8 list \<Rightarrow> string) \<Rightarrow> (string \<Rightarrow> u8 list option) \<Rightarrow> bool" where
  "codec_ok b64_encode b64_decode \<longleftrightarrow>
     (\<forall>x. b64_decode (b64_encode x) = Some x \<and> (\<forall>c \<in> set (b64_encode x). c \<noteq> CHR ''|'' \<and> \<not> is_space c))"

lemma bracketed_port: "bracket_free h \<Longrightarrow> bracketed (host_spec h (Some p)) = Some (PlainHost h (Some p))"
proof -
  assume h: "bracket_free h"
  have "parse_int 65535 (show_nat (unat p)) = Inr (unat p)"
    using unsigned_less [of p, where 'a = nat] by (intro parse_int_show_nat) simp
  then show ?thesis
    using split_bracket_append [OF h, of "show_nat (unat p)"]
    by (simp add: bracketed_def host_spec_def strip_prefix_def)
qed

lemma split_char_none: "c \<notin> set s \<Longrightarrow> split_char c s = [s]"
  by (induction s) auto

lemma split_char_append: "c \<notin> set s \<Longrightarrow> split_char c (s @ c # t) = s # split_char c t"
  by (induction s) auto

lemma parse_show_pattern:
  assumes "pattern_ok h" "codec_ok b64_encode b64_decode"
  shows "parse_host_pattern b64_decode (show_pattern b64_encode h) = h"
proof (cases h)
  case (PlainHost host port)
  show ?thesis
  proof (cases port)
    case None
    with assms(1) PlainHost show ?thesis
      by (auto simp: parse_host_pattern_def host_spec_def strip_prefix_def starts_with_def)
  next
    case (Some p)
    with assms(1) PlainHost show ?thesis
      using bracketed_port [of host p]
      by (auto simp: parse_host_pattern_def strip_prefix_def host_spec_def)
  qed
next
  case (HashedHost salt hash)
  have enc: "CHR ''|'' \<notin> set (b64_encode x)" "b64_decode (b64_encode x) = Some x" for x
    using assms(2) by (auto simp: codec_ok_def)
  have "decode_hashed b64_decode (b64_encode salt @ CHR ''|'' # b64_encode hash) = Some (HashedHost salt hash)"
    by (simp add: decode_hashed_def split_char_append [OF enc(1)] split_char_none [OF enc(1)] enc(2))
  with HashedHost show ?thesis
    by (simp add: parse_host_pattern_def strip_prefix_def)
qed (simp add: parse_host_pattern_def)

section \<open>Entries and their lines\<close>

fun key_type_ok :: "key_type \<Rightarrow> bool" where
  "key_type_ok (OtherKey s) \<longleftrightarrow> word_text s \<and> from_known_hosts_token s = OtherKey s"
| "key_type_ok _ \<longleftrightarrow> True"

definition entry_ok :: "entry \<Rightarrow> bool" where
  "entry_ok en \<longleftrightarrow>
     en_hosts en \<noteq> [] \<and> list_all pattern_ok (en_hosts en) \<and> key_type_ok (en_key_type en) \<and> word_text (en_key en) \<and>
     (case hd (en_hosts en) of
        PlainHost h None \<Rightarrow> h \<noteq> ''@revoked'' \<and> hd h \<noteq> CHR ''#''
      | _ \<Rightarrow> True)"

definition entry_tokens :: "(u8 list \<Rightarrow> string) \<Rightarrow> entry \<Rightarrow> string list" where
  "entry_tokens b64_encode en =
     (if en_revoked en then [''@revoked''] else []) @ map (show_pattern b64_encode) (en_hosts en) @
     [as_known_hosts_token (en_key_type en), en_key en]"

lemma join_append: "xs \<noteq> [] \<Longrightarrow> ys \<noteq> [] \<Longrightarrow> join sep (xs @ ys) = join sep xs @ sep @ join sep ys"
  by (induction sep xs rule: join.induct) (auto simp: neq_Nil_conv)

lemma join_Cons: "ys \<noteq> [] \<Longrightarrow> join sep (x # ys) = x @ sep @ join sep ys"
  by (cases ys) simp_all

lemma show_entry_tokens:
  "en_hosts en \<noteq> [] \<Longrightarrow> show_entry b64_encode en = join '' '' (entry_tokens b64_encode en) @ [CHR 10]"
  by (simp add: show_entry_def entry_tokens_def join_append join_Cons)

lemma key_type_back: "key_type_ok kt \<Longrightarrow> from_known_hosts_token (as_known_hosts_token kt) = kt"
  by (cases kt) (simp_all add: from_known_hosts_token_def)

lemma key_type_word: "key_type_ok kt \<Longrightarrow> word_text (as_known_hosts_token kt)"
  by (cases kt) (simp_all add: word_text_def is_space_def)

lemma digits_not_space: "c \<in> set (show_nat n) \<Longrightarrow> \<not> is_space c"
  using show_nat_digits [of n] by (auto simp: list_all_iff is_digit_def is_space_def)

lemma pattern_word:
  assumes "pattern_ok h" "codec_ok b64_encode b64_decode"
  shows "word_text (show_pattern b64_encode h)"
proof (cases h)
  case (PlainHost host port)
  then show ?thesis
    using assms(1) digits_not_space
    by (cases port) (auto simp: word_text_def host_spec_def is_space_def)
next
  case (HashedHost salt hash)
  then show ?thesis
    using assms(2) by (auto simp: word_text_def codec_ok_def is_space_def)
qed (simp add: word_text_def is_space_def)

lemma tokens_words:
  assumes "entry_ok en" "codec_ok b64_encode b64_decode"
  shows "list_all word_text (entry_tokens b64_encode en)"
  using assms pattern_word key_type_word
  by (auto simp: entry_tokens_def entry_ok_def list_all_iff) (auto simp: word_text_def is_space_def)

lemma split_space_snoc: "is_space c \<Longrightarrow> split_space (s @ [c]) = split_space s @ [[]]"
  by (induction s) (auto split: list.splits)

lemma split_whitespace_tokens:
  assumes "list_all word_text ws"
  shows "split_whitespace (join '' '' ws) = ws"
proof -
  have sp: "is_space (CHR '' '')" by (simp add: is_space_def)
  have "split_whitespace (join '' '' ws @ [CHR '' '']) = ws"
    using assms sp by (intro split_whitespace_join) (auto simp: word_text_def list_all_iff)
  then show ?thesis
    by (simp add: split_whitespace_def split_space_snoc [OF sp])
qed

lemma join_hd_last:
  assumes "ws \<noteq> []" "list_all word_text ws"
  shows "join '' '' ws \<noteq> []" "hd (join '' '' ws) = hd (hd ws)" "last (join '' '' ws) = last (last ws)"
proof -
  have "join '' '' ws \<noteq> [] \<and> hd (join '' '' ws) = hd (hd ws) \<and> last (join '' '' ws) = last (last ws)"
    using assms by (induction "'' ''" ws rule: join.induct) (auto simp: word_text_def)
  then show "join '' '' ws \<noteq> []" "hd (join '' '' ws) = hd (hd ws)" "last (join '' '' ws) = last (last ws)"
    by simp_all
qed

lemma trim_tokens:
  assumes "ws \<noteq> []" "list_all word_text ws"
  shows "trim (join '' '' ws) = join '' '' ws"
proof (rule trim_id)
  show "join '' '' ws \<noteq> []" by (rule join_hd_last(1) [OF assms])
  show "\<not> is_space (hd (join '' '' ws))"
    using assms by (simp add: join_hd_last) (auto simp: neq_Nil_conv word_text_def)
  show "\<not> is_space (last (join '' '' ws))"
    using assms by (simp add: join_hd_last) (metis last_in_set list_all_iff word_text_def)
qed

lemma first_token:
  assumes "entry_ok en" "codec_ok b64_encode b64_decode" "\<not> en_revoked en"
  shows "hd (entry_tokens b64_encode en) \<noteq> ''@revoked''" "hd (hd (entry_tokens b64_encode en)) \<noteq> CHR ''#''"
proof -
  obtain h hs where hosts: "en_hosts en = h # hs" using assms(1) by (cases "en_hosts en") (auto simp: entry_ok_def)
  have ok: "pattern_ok h" "case h of PlainHost h None \<Rightarrow> h \<noteq> ''@revoked'' \<and> hd h \<noteq> CHR ''#'' | _ \<Rightarrow> True"
    using assms(1) hosts by (simp_all add: entry_ok_def)
  have first: "hd (entry_tokens b64_encode en) = show_pattern b64_encode h"
    using assms(3) hosts by (simp add: entry_tokens_def)
  have "show_pattern b64_encode h \<noteq> ''@revoked'' \<and> hd (show_pattern b64_encode h) \<noteq> CHR ''#''"
  proof (cases h)
    case (PlainHost host port)
    with ok show ?thesis by (cases port) (simp_all add: host_spec_def)
  qed simp_all
  then show "hd (entry_tokens b64_encode en) \<noteq> ''@revoked''" "hd (hd (entry_tokens b64_encode en)) \<noteq> CHR ''#''"
    unfolding first by simp_all
qed

lemma parse_tokens:
  assumes "entry_ok en" "codec_ok b64_encode b64_decode"
  shows "parse_line b64_decode (join '' '' (entry_tokens b64_encode en)) = Some en"
proof -
  let ?ts = "entry_tokens b64_encode en"
  let ?start = "if en_revoked en then 1 else 0 :: nat"
  have words: "list_all word_text ?ts" by (rule tokens_words [OF assms])
  have some: "?ts \<noteq> []" by (simp add: entry_tokens_def)
  obtain h hs where hosts: "en_hosts en = h # hs" using assms(1) by (cases "en_hosts en") (auto simp: entry_ok_def)
  have len: "length ?ts = ?start + length (en_hosts en) + 2" by (simp add: entry_tokens_def)
  have rev: "(?ts ! 0 = ''@revoked'') = en_revoked en"
    using first_token(1) [OF assms] some by (cases "en_revoked en") (auto simp: entry_tokens_def hd_conv_nth)
  have hash: "hd (join '' '' ?ts) \<noteq> CHR ''#''"
    using first_token(2) [OF assms] join_hd_last(2) [OF some words]
    by (cases "en_revoked en") (auto simp: entry_tokens_def)
  have mid: "drop ?start (take (length ?ts - 2) ?ts) = map (show_pattern b64_encode) (en_hosts en)"
    by (simp add: entry_tokens_def)
  have kt: "?ts ! (length ?ts - 2) = as_known_hosts_token (en_key_type en)" and key: "?ts ! (length ?ts - 1) = en_key en"
    by (simp_all add: entry_tokens_def nth_append)
  have hosts_back: "map (parse_host_pattern b64_decode) (map (show_pattern b64_encode) (en_hosts en)) = en_hosts en"
    using assms(1) parse_show_pattern [OF _ assms(2)] by (simp add: entry_ok_def list_all_iff map_idI)
  have kt_back: "from_known_hosts_token (as_known_hosts_token (en_key_type en)) = en_key_type en"
    using assms(1) by (intro key_type_back) (simp add: entry_ok_def)
  show ?thesis
    unfolding parse_line_def Let_def trim_tokens [OF some words] split_whitespace_tokens [OF words] rev mid kt key hosts_back kt_back
    using hash join_hd_last(1) [OF some words] len hosts by simp
qed

section \<open>Files\<close>

lemma line_no_newline:
  assumes "list_all word_text ws"
  shows "CHR 10 \<notin> set (join '' '' ws)" "CHR 13 \<notin> set (join '' '' ws)"
  using assms by (induction "'' ''" ws rule: join.induct) (auto simp: word_text_def is_space_def)

lemma str_lines_concat:
  assumes "\<forall>l \<in> set ls. CHR 10 \<notin> set l \<and> CHR 13 \<notin> set l"
  shows "str_lines (concat (map (\<lambda>l. l @ [CHR 10]) ls)) = ls"
proof -
  have split: "split_char (CHR 10) (concat (map (\<lambda>l. l @ [CHR 10]) ls)) = ls @ [[]]"
    using assms by (induction ls) (simp_all add: split_char_append)
  have strip: "strip_cr l = l" if "l \<in> set ls" for l
  proof -
    have "char_of (13 :: nat) = CHR 13" by code_simp
    moreover have "l \<noteq> [] \<Longrightarrow> last l \<noteq> CHR 13" using assms that last_in_set by metis
    ultimately show ?thesis by (auto simp: strip_cr_def)
  qed
  have "char_of (10 :: nat) = CHR 10" by code_simp
  then show ?thesis
    using split strip by (simp add: str_lines_def Let_def map_idI)
qed

lemma parse_show_file:
  assumes "list_all entry_ok ens" "codec_ok b64_encode b64_decode"
  shows "parse_known_hosts b64_decode (show_known_hosts b64_encode ens) = ens"
proof -
  let ?line = "\<lambda>en. join '' '' (entry_tokens b64_encode en)"
  have ok: "entry_ok en" if "en \<in> set ens" for en using assms(1) that by (simp add: list_all_iff)
  have "map (show_entry b64_encode) ens = map (\<lambda>en. ?line en @ [CHR 10]) ens"
    using ok by (intro map_cong refl show_entry_tokens) (simp add: entry_ok_def)
  then have "show_known_hosts b64_encode ens = concat (map (\<lambda>l. l @ [CHR 10]) (map ?line ens))"
    unfolding show_known_hosts_def by (simp only: map_map comp_def)
  moreover have "\<forall>l \<in> set (map ?line ens). CHR 10 \<notin> set l \<and> CHR 13 \<notin> set l"
    using line_no_newline tokens_words [OF ok assms(2)] by auto
  ultimately have "str_lines (show_known_hosts b64_encode ens) = map ?line ens"
    by (simp only: str_lines_concat)
  moreover have "List.map_filter (parse_line b64_decode) (map ?line ens) = ens"
    using ok by (induction ens) (simp_all add: map_filter_simps parse_tokens [OF _ assms(2)])
  ultimately show ?thesis by (simp add: parse_known_hosts_def)
qed

section \<open>Trusting a key\<close>

lemma host_spec_covers:
  assumes "pattern_ok (PlainHost host port)" "codec_ok b64_encode b64_decode"
  shows "host_hit \<lparr>en_revoked = False, en_hosts = [parse_host_pattern b64_decode (host_spec host port)],
     en_key_type = kt, en_key = key\<rparr> host port"
  using parse_show_pattern [OF assms] by (simp add: host_hit_def)

lemma check_entries_snoc:
  "check_entries (ens @ [en]) host port kt key =
     (case check_entries ens host port kt key of
        UnknownKey \<Rightarrow> check_entries [en] host port kt key
      | v \<Rightarrow> v)"
  by (induction ens) auto

section \<open>Properties\<close>

text \<open>
  C28: The first entry that covers the host at the port decides the verdict.  A server's key is
  trusted exactly when that entry is not revoked and holds this very key with its type; it is
  revoked exactly when that entry is a revoked one, whatever its key; it is reported as changed,
  from the key that entry holds, exactly when that entry is not revoked and holds another one; and
  it is unknown exactly when no entry covers the host.
\<close>
theorem trusted_iff_first_entry_agrees:
  "(check_key kh host port kt key = Trusted \<longleftrightarrow>
     (\<exists>en. decides (kh_entries kh) host port en \<and> \<not> en_revoked en \<and> en_key_type en = kt \<and> en_key en = key)) \<and>
   (check_key kh host port kt key = RevokedKey \<longleftrightarrow>
     (\<exists>en. decides (kh_entries kh) host port en \<and> en_revoked en)) \<and>
   (check_key kh host port kt key = ChangedKey kt' key' \<longleftrightarrow>
     (\<exists>en. decides (kh_entries kh) host port en \<and> \<not> en_revoked en \<and> en_key_type en = kt' \<and>
        en_key en = key' \<and> (kt', key') \<noteq> (kt, key))) \<and>
   (check_key kh host port kt key = UnknownKey \<longleftrightarrow> \<not> list_ex (\<lambda>en. host_hit en host port) (kh_entries kh))"
  unfolding check_key_def
  by (intro conjI check_entries_trusted check_entries_revoked check_entries_changed check_entries_unknown)

text \<open>
  C29: A store that is written and read again is the same store: its entries, revocations, hashed
  hosts and key types included.  Entries are well-formed when no word of theirs contains white space
  and no host reads as a pattern of another kind; the codec's laws are hypotheses.
\<close>
theorem known_hosts_roundtrip:
  assumes "list_all entry_ok (kh_entries kh)" "codec_ok b64_encode b64_decode" "kh_path kh = Some path"
    and "save_known_hosts b64_encode write kh = Inr (Some (path, txt))"
    and "read path = FileText txt"
  shows "load_known_hosts b64_decode read path = Inr kh"
proof -
  have "txt = show_known_hosts b64_encode (kh_entries kh)"
    using assms(3,4) by (auto simp: save_known_hosts_def Let_def bindR_Inr_iff)
  with assms(3,5) parse_show_file [OF assms(1,2)] show ?thesis
    by (cases kh) (simp add: load_known_hosts_def)
qed

text \<open>
  Recording a key makes it trusted exactly when the host was unknown or the key trusted before:
  where the host has another key or a revocation, the new entry comes after it and is never reached,
  so the key is still rejected.
\<close>
theorem trust_effective_iff:
  assumes "pattern_ok (PlainHost host port)" "codec_ok b64_encode b64_decode"
    and "trust_key b64_encode b64_decode write kh host port kt key = (kh', r)"
  shows "check_key kh' host port kt key = Trusted \<longleftrightarrow> check_key kh host port kt key \<in> {Trusted, UnknownKey}"
  using assms(3) host_spec_covers [OF assms(1,2), of kt key]
  by (auto simp: trust_key_def Let_def check_key_def check_entries_snoc split: verification.splits)

section \<open>Witnesses\<close>

text \<open>Two hexadecimal digits to a byte stand for the third-party codec.\<close>

definition hex_codec :: "u8 list \<Rightarrow> string" where
  "hex_codec bs = concat (map (\<lambda>b. [char_of (65 + unat b div 16), char_of (65 + unat b mod 16)]) bs)"

fun hex_decodec :: "string \<Rightarrow> u8 list option" where
  "hex_decodec [] = Some []"
| "hex_decodec [c] = None"
| "hex_decodec (c # d # s) =
     map_option (\<lambda>bs. of_nat (16 * (of_char c - 65) + (of_char d - 65)) # bs) (hex_decodec s)"

lemma hex_codec_ok: "codec_ok hex_codec hex_decodec"
proof -
  have small: "unat (b :: u8) div 16 < 16" "unat b mod 16 < 16" for b
    using unsigned_less [of b, where 'a = nat] by (simp_all add: less_mult_imp_div_less)
  have byte: "of_nat (16 * (of_char (char_of (65 + unat b div 16) :: char) - 65) +
      (of_char (char_of (65 + unat b mod 16) :: char) - 65)) = b" for b :: u8
  proof -
    have "(of_char (char_of (65 + unat b div 16) :: char) :: nat) = 65 + unat b div 16"
      "(of_char (char_of (65 + unat b mod 16) :: char) :: nat) = 65 + unat b mod 16"
      using small [of b] by simp_all
    then show ?thesis by (simp only: diff_add_inverse mult_div_mod_eq) simp
  qed
  have "hex_decodec (hex_codec x) = Some x" for x
    by (induction x) (simp_all only: hex_codec_def list.map concat.simps append.simps hex_decodec.simps byte
        option.map)
  moreover have "c \<noteq> CHR ''|'' \<and> \<not> is_space c" if "c \<in> set (hex_codec x)" for c x
  proof -
    have digit: "(65 + unat b div 16) mod 256 = 65 + unat b div 16" for b :: u8 using small(1) [of b] by simp
    have "list_all (\<lambda>c. 65 \<le> (of_char c :: nat) \<and> (of_char c :: nat) < 81) (hex_codec x)"
      using small by (induction x) (simp_all add: hex_codec_def digit)
    then have "65 \<le> (of_char c :: nat)" "(of_char c :: nat) < 81" using that by (simp_all add: list_all_iff)
    then show ?thesis by (auto simp: is_space_def)
  qed
  ultimately show ?thesis by (simp add: codec_ok_def)
qed

definition sample_hosts :: known_hosts where
  "sample_hosts = \<lparr>kh_path = Some ''/home/u/.ssh/known_hosts'', kh_entries =
     [\<lparr>en_revoked = True, en_hosts = [PlainHost ''old'' None], en_key_type = SshRsa, en_key = ''AAAB''\<rparr>,
      \<lparr>en_revoked = False, en_hosts = [PlainHost ''eda'' (Some 2222), HashedHost [1, 2] [3]], en_key_type = SshEd25519,
        en_key = ''AAAC''\<rparr>]\<rparr>"

theorem known_hosts_roundtrip_witness:
  "load_known_hosts hex_decodec (\<lambda>_. FileText (show_known_hosts hex_codec (kh_entries sample_hosts)))
     ''/home/u/.ssh/known_hosts'' = Inr sample_hosts"
proof (rule known_hosts_roundtrip [OF _ hex_codec_ok])
  show "list_all entry_ok (kh_entries sample_hosts)"
    by (simp add: sample_hosts_def entry_ok_def word_text_def is_space_def bracketed_def strip_prefix_def
        starts_with_def)
  show "save_known_hosts hex_codec (\<lambda>_ _. Inr ()) sample_hosts =
      Inr (Some (''/home/u/.ssh/known_hosts'', show_known_hosts hex_codec (kh_entries sample_hosts)))"
    by (simp add: save_known_hosts_def sample_hosts_def)
qed (simp_all add: sample_hosts_def)

theorem trust_effective_iff_witness:
  "check_key (fst (trust_key hex_codec hex_decodec (\<lambda>_ _. Inr ()) memory_store ''new'' (Some 22) SshRsa ''AAAD''))
     ''new'' (Some 22) SshRsa ''AAAD'' = Trusted"
proof -
  have "pattern_ok (PlainHost ''new'' (Some 22))" by (simp add: is_space_def)
  then show ?thesis
    using trust_effective_iff [OF _ hex_codec_ok, of "''new''" "Some 22" "\<lambda>_ _. Inr ()" memory_store SshRsa "''AAAD''"]
    by (simp add: memory_store_def check_key_def prod_eq_iff)
qed

end
