(* ===== verification/Native.thy ===== *)
theory Native
  imports Host_Keys Settings Lifecycle
begin

unbundle bit_operations_syntax

text \<open>
  \<open>src/transport/native.rs\<close>: the transport that speaks SSH itself, through the \<open>russh\<close> and
  \<open>russh_sftp\<close> crates.

  The crates, the clock and the file system are the parameter \<open>russh\<close>: each of its operations acts
  on the outside world \<open>'w\<close>, is given the instant at which the enclosing \<open>timeout\<close> fires, and answers
  \<open>None\<close> when it is still pending then.  Sessions, channels, SFTP sessions and files are numbers.  A
  task that waits for the session lock lets the other tasks run: the lock's answer is the shared
  state as they leave it.  What is sent to the server and written locally is recorded in a log, in
  the order of the calls.
\<close>

section \<open>The parameters\<close>

text \<open>An error of \<open>russh\<close>: the variants the code tells apart, and its text.\<close>

datatype russh_kind =
    ConnectionTimeout | HUP | KeepaliveTimeout | InactivityTimeout
  | CouldNotReadKey | KeysError | SshKeyError
  | NoAuthMethod | PacketAuth | NotAuthenticated
  | KeyChangedError | OtherRussh

datatype russh_error = Russh (russh_kind_of: russh_kind) (russh_text: string)

text \<open>The key the server presents: the bytes of a public key, if it can be encoded, and the name of
  its algorithm, or a certificate.\<close>

datatype server_key = PublicKey "u8 list option" string | Certificate

datatype channel_msg =
    MsgData "u8 list"
  | MsgExtended "u8 list" u32
  | MsgExitStatus u32
  | MsgExitSignal
  | MsgOther

type_synonym session = "u64 \<times> nat"

text \<open>\<open>SessionState\<close>: the slot with the epoch and the session, and the two counters.\<close>

record session_state =
  ss_slot :: "session option"
  ss_epoch :: u64
  ss_connections :: u64

record 'w russh =
  rx_now :: "'w \<Rightarrow> instant"
  rx_fresh_id :: "'w \<Rightarrow> string \<times> 'w"
  rx_lock :: "instant \<Rightarrow> session_state \<Rightarrow> 'w \<Rightarrow> session_state option \<times> 'w"
  rx_load_key :: "string \<Rightarrow> 'w \<Rightarrow> string + string"
  rx_connect :: "string \<times> u16 \<Rightarrow> keepalive_policy \<Rightarrow> (server_key \<Rightarrow> bool) \<Rightarrow> instant \<Rightarrow> 'w
                   \<Rightarrow> (server_key list \<times> (russh_error + nat) option) \<times> 'w"
  rx_rsa_hash :: "nat \<Rightarrow> instant \<Rightarrow> 'w \<Rightarrow> (russh_error + string option option) option \<times> 'w"
  rx_authenticate :: "nat \<Rightarrow> string \<Rightarrow> string \<times> string option \<Rightarrow> instant \<Rightarrow> 'w \<Rightarrow> (russh_error + bool) option \<times> 'w"
  rx_sleep :: "duration \<Rightarrow> instant \<Rightarrow> 'w \<Rightarrow> unit option \<times> 'w"
  rx_nanos :: "'w \<Rightarrow> u64"
  rx_pid :: u64
  rx_is_closed :: "nat \<Rightarrow> 'w \<Rightarrow> bool"
  rx_ping :: "nat \<Rightarrow> instant \<Rightarrow> 'w \<Rightarrow> (russh_error + unit) option \<times> 'w"
  rx_disconnect :: "nat \<Rightarrow> 'w \<Rightarrow> 'w"
  rx_open_channel :: "nat \<Rightarrow> instant \<Rightarrow> 'w \<Rightarrow> (russh_error + nat) option \<times> 'w"
  rx_exec :: "nat \<Rightarrow> string \<Rightarrow> instant \<Rightarrow> 'w \<Rightarrow> (russh_error + unit) option \<times> 'w"
  rx_data :: "nat \<Rightarrow> u8 list \<Rightarrow> instant \<Rightarrow> 'w \<Rightarrow> (russh_error + unit) option \<times> 'w"
  rx_eof :: "nat \<Rightarrow> instant \<Rightarrow> 'w \<Rightarrow> (russh_error + unit) option \<times> 'w"
  rx_messages :: "nat \<Rightarrow> instant \<Rightarrow> 'w \<Rightarrow> (channel_msg list \<times> bool) \<times> 'w"
  rx_subsystem :: "nat \<Rightarrow> string \<Rightarrow> instant \<Rightarrow> 'w \<Rightarrow> (russh_error + unit) option \<times> 'w"
  rx_sftp :: "nat \<Rightarrow> instant \<Rightarrow> 'w \<Rightarrow> (string + nat) option \<times> 'w"
  rx_create :: "nat \<Rightarrow> string \<Rightarrow> instant \<Rightarrow> 'w \<Rightarrow> (string + nat) option \<times> 'w"
  rx_open :: "nat \<Rightarrow> string \<Rightarrow> instant \<Rightarrow> 'w \<Rightarrow> (string + nat) option \<times> 'w"
  rx_write :: "nat \<Rightarrow> u8 list \<Rightarrow> instant \<Rightarrow> 'w \<Rightarrow> (string + unit) option \<times> 'w"
  rx_shutdown :: "nat \<Rightarrow> instant \<Rightarrow> 'w \<Rightarrow> (string + unit) option \<times> 'w"
  rx_reads :: "nat \<Rightarrow> nat \<Rightarrow> instant \<Rightarrow> 'w \<Rightarrow> (string + u8 list) list \<times> 'w"
  rx_local_read :: "string \<Rightarrow> 'w \<Rightarrow> string + u8 list"
  rx_local_write :: "string \<Rightarrow> u8 list \<Rightarrow> 'w \<Rightarrow> (string + unit) \<times> 'w"
  rx_local_rename :: "string \<Rightarrow> string \<Rightarrow> 'w \<Rightarrow> (string + unit) \<times> 'w"
  rx_local_remove :: "string \<Rightarrow> 'w \<Rightarrow> 'w"
  rx_create_dir_all :: "string \<Rightarrow> 'w \<Rightarrow> (string + unit) \<times> 'w"
  rx_untar :: "string \<Rightarrow> string \<Rightarrow> 'w \<Rightarrow> (string + bool \<times> string) \<times> 'w"
  rx_quote :: "string \<Rightarrow> string option"
  rx_base64 :: "u8 list \<Rightarrow> string"
  rx_base64_url :: "u8 list \<Rightarrow> string"
  rx_sha256 :: "u8 list \<Rightarrow> u8 list"
  rx_lossy :: "u8 list \<Rightarrow> string"

text \<open>What the log records; \<open>Wrote\<close>, \<open>Flushed\<close> and \<open>Exited\<close> when the server has answered.\<close>

datatype wire =
    Connect
  | Exec nat string
  | Stdin nat "u8 list"
  | Eof nat
  | Exited nat int
  | Created nat string
  | Wrote nat "u8 list"
  | Flushed nat
  | LocalWrote string "u8 list"
  | LocalRenamed string string
  | LocalRemoved string
  | Untarred string string bool

record 'w native =
  nv_shared :: session_state
  nv_log :: "wire list"
  nv_world :: 'w

section \<open>Waiting\<close>

text \<open>
  An \<open>async\<close> block under a \<open>timeout\<close>: \<open>None\<close> when it is pending as the timeout fires, and then what
  it had done so far stands.  \<open>op\<close> is a function that waits for its blocks.
\<close>

type_synonym ('w, 'a) aio = "'w native \<Rightarrow> (transport_error + 'a) option \<times> 'w native"
type_synonym ('w, 'a) op = "'w native \<Rightarrow> (transport_error + 'a) \<times> 'w native"

definition aio_of :: "transport_error + 'a \<Rightarrow> ('w, 'a) aio" where
  "aio_of r st = (Some r, st)"

abbreviation aio_ok :: "'a \<Rightarrow> ('w, 'a) aio" where
  "aio_ok x \<equiv> aio_of (Inr x)"

abbreviation aio_err :: "transport_error \<Rightarrow> ('w, 'a) aio" where
  "aio_err e \<equiv> aio_of (Inl e)"

definition aio_bind :: "('w, 'a) aio \<Rightarrow> ('a \<Rightarrow> ('w, 'b) aio) \<Rightarrow> ('w, 'b) aio" where
  "aio_bind m f st =
     (case m st of
        (None, st') \<Rightarrow> (None, st')
      | (Some (Inl e), st') \<Rightarrow> (Some (Inl e), st')
      | (Some (Inr x), st') \<Rightarrow> f x st')"

definition await :: "('e \<Rightarrow> transport_error) \<Rightarrow> ('w \<Rightarrow> ('e + 'a) option \<times> 'w) \<Rightarrow> ('w, 'a) aio" where
  "await err p st =
     (case p (nv_world st) of (r, w) \<Rightarrow> (map_option (map_sum err id) r, st\<lparr>nv_world := w\<rparr>))"

definition record_wire :: "wire \<Rightarrow> 'w native \<Rightarrow> 'w native" where
  "record_wire x st = st\<lparr>nv_log := nv_log st @ [x]\<rparr>"

definition aio_note :: "wire \<Rightarrow> ('w, unit) aio" where
  "aio_note x st = (Some (Inr ()), record_wire x st)"

definition op_of :: "transport_error + 'a \<Rightarrow> ('w, 'a) op" where
  "op_of r st = (r, st)"

definition op_bind :: "('w, 'a) op \<Rightarrow> ('a \<Rightarrow> ('w, 'b) op) \<Rightarrow> ('w, 'b) op" where
  "op_bind m f st = (case m st of (Inl e, st') \<Rightarrow> (Inl e, st') | (Inr x, st') \<Rightarrow> f x st')"

definition fresh_id :: "'w russh \<Rightarrow> 'w native \<Rightarrow> string \<times> 'w native" where
  "fresh_id S st = (case rx_fresh_id S (nv_world st) of (i, w) \<Rightarrow> (i, st\<lparr>nv_world := w\<rparr>))"

abbreviation clock_of :: "'w russh \<Rightarrow> 'w native \<Rightarrow> instant" where
  "clock_of S st \<equiv> rx_now S (nv_world st)"

text \<open>\<open>block_on(timeout(remaining, \<dots>))\<close> with the error the code gives when the time is over.\<close>

definition within :: "'w russh \<Rightarrow> request_id \<Rightarrow> duration \<Rightarrow> (instant \<Rightarrow> ('w, 'a) aio) \<Rightarrow> ('w, 'a) op" where
  "within S rid rem body st =
     (case body (clock_of S st + rem) st of
        (None, st') \<Rightarrow> (Inl (ExecutionTimeout rid (of_nat (max 1 (as_secs rem))) False), st')
      | (Some r, st') \<Rightarrow> (r, st'))"

definition unless_expired :: "'w russh \<Rightarrow> deadline \<Rightarrow> request_id \<Rightarrow> ('w, 'a) op \<Rightarrow> ('w, 'a) op" where
  "unless_expired S dl rid m st =
     (if is_expired (clock_of S st) dl then (Inl (QueueTimeout rid 0), st) else m st)"

section \<open>The server's key\<close>

record native_config =
  nc_host :: string
  nc_user :: "string option"
  nc_ssh_port :: u16
  nc_jump_host :: "string option"
  nc_key_path :: "string option"
  nc_known_hosts :: "known_hosts list"
  nc_connect_timeout :: duration
  nc_keepalive :: keepalive_policy
  nc_reconnect :: reconnect_policy

record host_key_check =
  hc_verification :: verification
  hc_fingerprint :: "string option"

fun verify_against_stores :: "known_hosts list \<Rightarrow> string \<Rightarrow> u16 option \<Rightarrow> key_type \<Rightarrow> string \<Rightarrow> verification" where
  "verify_against_stores [] host prt kt b64 = UnknownKey"
| "verify_against_stores (kh # khs) host prt kt b64 =
     (case check_key kh host prt kt b64 of
        Trusted \<Rightarrow> Trusted
      | ChangedKey kt' k \<Rightarrow> ChangedKey kt' k
      | RevokedKey \<Rightarrow> RevokedKey
      | UnknownKey \<Rightarrow> verify_against_stores khs host prt kt b64)"

definition check_server_key :: "'w russh \<Rightarrow> native_config \<Rightarrow> server_key \<Rightarrow> host_key_check \<times> bool" where
  "check_server_key S cfg key =
     (case key of
        PublicKey (Some bytes) algorithm \<Rightarrow>
          (let v = verify_against_stores (nc_known_hosts cfg) (nc_host cfg) (Some (nc_ssh_port cfg))
                     (from_known_hosts_token algorithm) (rx_base64 S bytes)
           in (\<lparr>hc_verification = v,
                hc_fingerprint = Some (''SHA256:'' @ rx_base64_url S (rx_sha256 S bytes))\<rparr>, v = Trusted))
      | _ \<Rightarrow> (\<lparr>hc_verification = UnknownKey, hc_fingerprint = None\<rparr>, False))"

definition load_known_hosts_or_empty ::
  "(string \<Rightarrow> u8 list option) \<Rightarrow> (string \<Rightarrow> read_outcome) \<Rightarrow> string \<Rightarrow> known_hosts" where
  "load_known_hosts_or_empty b64_decode read path =
     (case load_known_hosts b64_decode read path of Inr kh \<Rightarrow> kh | Inl _ \<Rightarrow> memory_store)"

definition map_verification :: "string \<Rightarrow> host_key_check \<Rightarrow> transport_error" where
  "map_verification host check =
     (case hc_verification check of
        Trusted \<Rightarrow> ConnectionFailed (''internal error: host key for '' @ host @ '' unexpectedly trusted after rejection'')
      | UnknownKey \<Rightarrow> HostKeyUnknown host (case hc_fingerprint check of Some f \<Rightarrow> f | None \<Rightarrow> [])
      | ChangedKey _ _ \<Rightarrow> HostKeyChanged host
      | RevokedKey \<Rightarrow> HostKeyPolicyUnsupported (''host key for '' @ host @ '' is revoked''))"

definition map_russh_error :: "russh_error \<Rightarrow> transport_error" where
  "map_russh_error e =
     (case e of Russh k t \<Rightarrow>
        if k \<in> {ConnectionTimeout, HUP, KeepaliveTimeout, InactivityTimeout} then ConnectionFailed t
        else if k \<in> {CouldNotReadKey, KeysError, SshKeyError} then LocalIo (''ssh key error: '' @ t)
        else if k \<in> {NoAuthMethod, PacketAuth, NotAuthenticated} then AuthenticationFailed t
        else if k = KeyChangedError then HostKeyChanged ''<unknown>''
        else ConnectionFailed t)"

definition shell_quote :: "'w russh \<Rightarrow> string \<Rightarrow> string" where
  "shell_quote S s = (case rx_quote S s of Some q \<Rightarrow> q | None \<Rightarrow> s)"

section \<open>Establishing a session\<close>

definition native_needs_key :: transport_error where
  "native_needs_key = Configuration (''native backend requires VB_SSH_KEY: agent, password, and keyboard-interactive '' @
     ''auth are not yet supported'')"

text \<open>The connection under its own timeout: the key presented last is the one captured.\<close>

definition connect_checked :: "'w russh \<Rightarrow> native_config \<Rightarrow> instant \<Rightarrow> ('w, nat) aio" where
  "connect_checked S cfg limit st =
     (let own = clock_of S st + nc_connect_timeout cfg in
      case rx_connect S (nc_host cfg, nc_ssh_port cfg) (nc_keepalive cfg) (\<lambda>k. snd (check_server_key S cfg k))
             (min own limit) (nv_world st) of
        ((keys, answer), w) \<Rightarrow>
          (let captured = (if keys = [] then None else Some (fst (check_server_key S cfg (last keys))));
               rejected = (case captured of
                   Some v \<Rightarrow> if hc_verification v \<noteq> Trusted then Some (map_verification (nc_host cfg) v) else None
                 | None \<Rightarrow> None);
               st' = record_wire Connect (st\<lparr>nv_world := w\<rparr>)
           in (case answer of
                 None \<Rightarrow>
                   (if own \<le> limit
                    then Some (Inl (ConnectionFailed (''connection to '' @ nc_host cfg @ '':'' @
                           show_nat (unat (nc_ssh_port cfg)) @ '' timed out'')))
                    else None)
               | Some (Inl e) \<Rightarrow> Some (Inl (case rejected of Some r \<Rightarrow> r | None \<Rightarrow> map_russh_error e))
               | Some (Inr h) \<Rightarrow> Some (case rejected of Some r \<Rightarrow> Inl r | None \<Rightarrow> Inr h), st')))"

definition flatten_opt :: "'a option option \<Rightarrow> 'a option" where
  "flatten_opt x = (case x of Some y \<Rightarrow> y | None \<Rightarrow> None)"

definition establish :: "'w russh \<Rightarrow> native_config \<Rightarrow> instant \<Rightarrow> ('w, nat) aio" where
  "establish S cfg limit st =
     (if nc_jump_host cfg \<noteq> None
      then aio_err (UnsupportedOperation (''native backend: ProxyJump / jump-host routing is not implemented yet '' @
             ''(planned for a later step)'')) st
      else case nc_key_path cfg of
        None \<Rightarrow> aio_err native_needs_key st
      | Some path \<Rightarrow>
          (case rx_load_key S path (nv_world st) of
             Inl e \<Rightarrow> aio_err (LocalIo (''could not load key '' @ path @ '': '' @ e)) st
           | Inr key \<Rightarrow>
               aio_bind (connect_checked S cfg limit) (\<lambda>h.
               aio_bind (await map_russh_error (rx_rsa_hash S h limit)) (\<lambda>hash.
               aio_bind (await map_russh_error
                 (rx_authenticate S h (case nc_user cfg of Some u \<Rightarrow> u | None \<Rightarrow> ''root'') (key, flatten_opt hash) limit))
                 (\<lambda>ok. if ok then aio_ok h
                       else aio_err (AuthenticationFailed (''public-key authentication to '' @ nc_host cfg @ '' failed''))))) st))"

definition establishment_seed :: "u64 \<Rightarrow> u64 \<Rightarrow> u64" where
  "establishment_seed nanos pid = nanos XOR push_bit 32 pid"

text \<open>The wait before the next attempt, never past the deadline.\<close>

definition backoff :: "'w russh \<Rightarrow> native_config \<Rightarrow> deadline \<Rightarrow> u32 \<Rightarrow> instant \<Rightarrow> ('w, unit) aio" where
  "backoff S cfg dl attempt limit st =
     (let seed = establishment_seed (rx_nanos S (nv_world st)) (rx_pid S);
          d = min (jittered_delay (nc_reconnect cfg) attempt seed) (remaining (clock_of S st) dl)
      in if d = 0 then (Some (Inr ()), st)
         else (case rx_sleep S d limit (nv_world st) of
                 (r, w) \<Rightarrow> (map_option Inr r, st\<lparr>nv_world := w\<rparr>)))"

text \<open>
  The loop of \<open>establish_with_retry\<close>.  Nothing in it counts the attempts but \<open>attempt\<close> itself, a \<open>u32\<close>
  that wraps, so the loop need not end when the policy allows \<open>u32::MAX\<close> attempts: a loop that does
  not return is None.  For every other policy it returns (\<open>retry_loop_returns\<close>).
\<close>

partial_function (option) retry_loop ::
    "'w russh \<Rightarrow> native_config \<Rightarrow> deadline \<Rightarrow> u32 \<Rightarrow> instant \<Rightarrow> 'w native
      \<Rightarrow> ((transport_error + nat) option \<times> 'w native) option" where
  "retry_loop S cfg dl attempt limit st =
     (case establish S cfg limit st of
        (Some (Inl e), st1) \<Rightarrow>
          (if failure_class_of e = Transient then
             (if \<not> may_retry (nc_reconnect cfg) attempt \<or> is_expired (clock_of S st1) dl then Some (Some (Inl e), st1)
              else (case backoff S cfg dl attempt limit st1 of
                      (Some (Inr _), st2) \<Rightarrow>
                        (if is_expired (clock_of S st2) dl then Some (Some (Inl e), st2)
                         else retry_loop S cfg dl (attempt + 1) limit st2)
                    | (_, st2) \<Rightarrow> Some (None, st2)))
           else Some (Some (Inl e), st1))
      | r \<Rightarrow> Some r)"

declare retry_loop.simps [code]

definition establish_with_retry :: "'w russh \<Rightarrow> native_config \<Rightarrow> deadline \<Rightarrow> instant \<Rightarrow> ('w, nat) aio" where
  "establish_with_retry S cfg dl limit st =
     (case retry_loop S cfg dl 1 limit st of Some r \<Rightarrow> r | None \<Rightarrow> (None, st))"

section \<open>The shared session\<close>

text \<open>Waiting for the lock: the others leave the shared state they leave.\<close>

definition lock_session :: "'w russh \<Rightarrow> instant \<Rightarrow> ('w, unit) aio" where
  "lock_session S limit st =
     (case rx_lock S limit (nv_shared st) (nv_world st) of
        (None, w) \<Rightarrow> (None, st\<lparr>nv_world := w\<rparr>)
      | (Some sh, w) \<Rightarrow> (Some (Inr ()), st\<lparr>nv_shared := sh, nv_world := w\<rparr>))"

definition install_session :: "nat \<Rightarrow> ('w, session) aio" where
  "install_session h st =
     (let sh = nv_shared st; e = ss_epoch sh + 1
      in (Some (Inr (e, h)),
          st\<lparr>nv_shared := \<lparr>ss_slot = Some (e, h), ss_epoch = e, ss_connections = ss_connections sh + 1\<rparr>\<rparr>))"

definition ensure_session :: "'w russh \<Rightarrow> native_config \<Rightarrow> deadline \<Rightarrow> instant \<Rightarrow> ('w, session) aio" where
  "ensure_session S cfg dl limit st =
     (case ss_slot (nv_shared st) of
        Some (e, h) \<Rightarrow>
          (if rx_is_closed S h (nv_world st)
           then aio_bind (establish_with_retry S cfg dl limit) install_session st
           else (Some (Inr (e, h)), st))
      | None \<Rightarrow> aio_bind (establish_with_retry S cfg dl limit) install_session st)"

definition open_channel :: "'w russh \<Rightarrow> native_config \<Rightarrow> deadline \<Rightarrow> instant \<Rightarrow> ('w, session) aio" where
  "open_channel S cfg dl limit =
     aio_bind (lock_session S limit) (\<lambda>_.
     aio_bind (ensure_session S cfg dl limit) (\<lambda>(e, h).
     aio_bind (await map_russh_error (rx_open_channel S h limit)) (\<lambda>ch. aio_ok (e, ch))))"

definition clear_slot :: "u64 \<Rightarrow> session_state \<Rightarrow> session_state" where
  "clear_slot e sh = (if map_option fst (ss_slot sh) = Some e then sh\<lparr>ss_slot := None\<rparr> else sh)"

definition evict :: "'w russh \<Rightarrow> u64 \<Rightarrow> deadline \<Rightarrow> 'w native \<Rightarrow> 'w native" where
  "evict S e dl st =
     (case lock_session S (clock_of S st + remaining (clock_of S st) dl) st of
        (None, st') \<Rightarrow> st'
      | (Some _, st') \<Rightarrow> st'\<lparr>nv_shared := clear_slot e (nv_shared st')\<rparr>)"

definition is_transient_err :: "transport_error + 'a \<Rightarrow> bool" where
  "is_transient_err r = (case r of Inl e \<Rightarrow> failure_class_of e = Transient | Inr _ \<Rightarrow> False)"

definition with_channel ::
  "'w russh \<Rightarrow> native_config \<Rightarrow> deadline \<Rightarrow> request_id \<Rightarrow> (nat \<Rightarrow> duration \<Rightarrow> ('w, 'a) op) \<Rightarrow> ('w, 'a) op" where
  "with_channel S cfg dl rid f =
     unless_expired S dl rid (\<lambda>st.
       case within S rid (remaining (clock_of S st) dl) (open_channel S cfg dl) st of
         (Inl e, st1) \<Rightarrow> (Inl e, st1)
       | (Inr (epoch, ch), st1) \<Rightarrow>
           (case f ch (remaining (clock_of S st1) dl) st1 of
              (r, st2) \<Rightarrow> (r, if is_transient_err r then evict S epoch dl st2 else st2)))"

section \<open>Commands\<close>

record raw_output =
  ro_stdout :: "u8 list"
  ro_stderr :: "u8 list"
  ro_exit_status :: int

fun take_msg :: "raw_output \<Rightarrow> channel_msg \<Rightarrow> raw_output" where
  "take_msg o1 (MsgData d) = o1\<lparr>ro_stdout := ro_stdout o1 @ d\<rparr>"
| "take_msg o1 (MsgExtended d ext) = (if ext = 1 then o1\<lparr>ro_stderr := ro_stderr o1 @ d\<rparr> else o1)"
| "take_msg o1 (MsgExitStatus c) = o1\<lparr>ro_exit_status := sint c\<rparr>"
| "take_msg o1 MsgExitSignal = o1\<lparr>ro_exit_status := - 1\<rparr>"
| "take_msg o1 MsgOther = o1"

text \<open>The messages until the channel ends; when it does not end in time the loop is pending.\<close>

definition drain_channel :: "'w russh \<Rightarrow> nat \<Rightarrow> instant \<Rightarrow> ('w, raw_output) aio" where
  "drain_channel S ch limit st =
     (case rx_messages S ch limit (nv_world st) of
        ((msgs, ended), w) \<Rightarrow>
          (let st' = st\<lparr>nv_world := w\<rparr>;
               out = foldl take_msg \<lparr>ro_stdout = [], ro_stderr = [], ro_exit_status = - 1\<rparr> msgs
           in if ended then (Some (Inr out), record_wire (Exited ch (ro_exit_status out)) st') else (None, st')))"

definition send_stdin :: "'w russh \<Rightarrow> nat \<Rightarrow> u8 list option \<Rightarrow> instant \<Rightarrow> ('w, unit) aio" where
  "send_stdin S ch stdin limit =
     (case stdin of
        None \<Rightarrow> aio_ok ()
      | Some bytes \<Rightarrow>
          aio_bind (aio_note (Stdin ch bytes)) (\<lambda>_.
          aio_bind (await map_russh_error (rx_data S ch bytes limit)) (\<lambda>_.
          aio_bind (aio_note (Eof ch)) (\<lambda>_.
          await map_russh_error (rx_eof S ch limit)))))"

definition exec_on_channel :: "'w russh \<Rightarrow> string \<Rightarrow> u8 list option \<Rightarrow> nat \<Rightarrow> instant \<Rightarrow> ('w, raw_output) aio" where
  "exec_on_channel S cmd stdin ch limit =
     aio_bind (aio_note (Exec ch cmd)) (\<lambda>_.
     aio_bind (await map_russh_error (rx_exec S ch cmd limit)) (\<lambda>_.
     aio_bind (send_stdin S ch stdin limit) (\<lambda>_.
     drain_channel S ch limit)))"

definition exec_command ::
  "'w russh \<Rightarrow> native_config \<Rightarrow> string \<Rightarrow> u8 list option \<Rightarrow> deadline \<Rightarrow> request_id \<Rightarrow> ('w, raw_output) op" where
  "exec_command S cfg command stdin dl rid =
     with_channel S cfg dl rid (\<lambda>ch rem. within S rid rem (exec_on_channel S command stdin ch))"

definition native_run_command :: "'w russh \<Rightarrow> native_config \<Rightarrow> command_request \<Rightarrow> ('w, command_result) op" where
  "native_run_command S cfg req =
     unless_expired S (cr_deadline req) (cr_id req)
       (op_bind (exec_command S cfg (cr_command req) None (cr_deadline req) (cr_id req)) (\<lambda>raw.
          op_of (Inr \<lparr>res_exit_status = ro_exit_status raw, res_stdout = rx_lossy S (ro_stdout raw),
                      res_stderr = rx_lossy S (ro_stderr raw), res_success = ro_exit_status raw = 0,
                      res_duration = 0\<rparr>)))"

section \<open>Files over SFTP\<close>

definition SFTP_CHUNK :: nat where
  "SFTP_CHUNK = 64 * 1024"

definition sftp_unavailable :: "transport_error \<Rightarrow> bool" where
  "sftp_unavailable e = (case e of UnsupportedOperation _ \<Rightarrow> True | _ \<Rightarrow> False)"

text \<open>An error of a transfer carries a request identifier drawn for it.\<close>

definition await_transfer :: "'w russh \<Rightarrow> string \<Rightarrow> ('w \<Rightarrow> (string + 'a) option \<times> 'w) \<Rightarrow> ('w, 'a) aio" where
  "await_transfer S what p st =
     (case p (nv_world st) of
        (None, w) \<Rightarrow> (None, st\<lparr>nv_world := w\<rparr>)
      | (Some (Inr x), w) \<Rightarrow> (Some (Inr x), st\<lparr>nv_world := w\<rparr>)
      | (Some (Inl e), w) \<Rightarrow>
          (case fresh_id S (st\<lparr>nv_world := w\<rparr>) of
             (i, st') \<Rightarrow> (Some (Inl (TransferInterrupted i (what @ e))), st')))"

fun write_chunks :: "'w russh \<Rightarrow> nat \<Rightarrow> u8 list list \<Rightarrow> instant \<Rightarrow> ('w, unit) aio" where
  "write_chunks S fh [] limit = aio_ok ()"
| "write_chunks S fh (c # cs) limit =
     aio_bind (await_transfer S ''sftp write: '' (rx_write S fh c limit)) (\<lambda>_.
     aio_bind (aio_note (Wrote fh c)) (\<lambda>_. write_chunks S fh cs limit))"

definition sftp_write_all :: "'w russh \<Rightarrow> nat \<Rightarrow> u8 list \<Rightarrow> instant \<Rightarrow> ('w, unit) aio" where
  "sftp_write_all S fh data limit =
     aio_bind (write_chunks S fh (chunks SFTP_CHUNK data) limit) (\<lambda>_.
     aio_bind (await_transfer S ''sftp flush: '' (rx_shutdown S fh limit)) (\<lambda>_.
     aio_note (Flushed fh)))"

fun read_answers :: "u8 list \<Rightarrow> (string + u8 list) list \<Rightarrow> (string + u8 list) option" where
  "read_answers buf [] = None"
| "read_answers buf (Inl e # rs) = Some (Inl e)"
| "read_answers buf (Inr d # rs) = (if d = [] then Some (Inr buf) else read_answers (buf @ d) rs)"

definition sftp_read_all :: "'w russh \<Rightarrow> nat \<Rightarrow> instant \<Rightarrow> ('w, u8 list) aio" where
  "sftp_read_all S fh limit =
     await_transfer S ''sftp read: '' (\<lambda>w.
       case rx_reads S fh SFTP_CHUNK limit w of (rs, w') \<Rightarrow> (read_answers [] rs, w'))"

definition open_sftp :: "'w russh \<Rightarrow> native_config \<Rightarrow> deadline \<Rightarrow> request_id \<Rightarrow> ('w, nat) op" where
  "open_sftp S cfg dl rid =
     with_channel S cfg dl rid (\<lambda>ch rem. within S rid rem (\<lambda>limit.
       aio_bind (await (\<lambda>e. UnsupportedOperation (''sftp subsystem unavailable: '' @ russh_text e))
                   (rx_subsystem S ch ''sftp'' limit)) (\<lambda>_.
       await (\<lambda>e. UnsupportedOperation (''sftp session init failed: '' @ e)) (rx_sftp S ch limit))))"

definition remove_staging :: "'w russh \<Rightarrow> native_config \<Rightarrow> string \<Rightarrow> deadline \<Rightarrow> request_id \<Rightarrow> 'w native \<Rightarrow> 'w native" where
  "remove_staging S cfg staging dl rid st =
     snd (exec_command S cfg (''rm -f '' @ shell_quote S staging) None dl rid st)"

definition mv_command :: "'w russh \<Rightarrow> string \<Rightarrow> string \<Rightarrow> string" where
  "mv_command S staging remote =
     (let src = shell_quote S staging in ''mv -f '' @ src @ '' '' @ shell_quote S remote @ '' && rm -f '' @ src)"

definition staging_name :: "string \<Rightarrow> string \<Rightarrow> string" where
  "staging_name remote i = remote @ ''.tmp.'' @ i"

definition rename_failed :: "'w russh \<Rightarrow> request_id \<Rightarrow> raw_output \<Rightarrow> transport_error" where
  "rename_failed S rid r = TransferInterrupted rid (''atomic rename failed: '' @ rx_lossy S (ro_stderr r))"

text \<open>Publishing after the staging file was written by SFTP: an error of the command, too, removes it.\<close>

definition publish_sftp :: "'w russh \<Rightarrow> native_config \<Rightarrow> string \<Rightarrow> string \<Rightarrow> deadline \<Rightarrow> request_id \<Rightarrow> ('w, unit) op" where
  "publish_sftp S cfg staging remote dl rid st =
     (case exec_command S cfg (mv_command S staging remote) None dl rid st of
        (Inr r, st1) \<Rightarrow>
          (if ro_exit_status r = 0 then (Inr (), st1)
           else (Inl (rename_failed S rid r), remove_staging S cfg staging dl rid st1))
      | (Inl e, st1) \<Rightarrow> (Inl e, remove_staging S cfg staging dl rid st1))"

definition stage_sftp :: "'w russh \<Rightarrow> nat \<Rightarrow> string \<Rightarrow> u8 list \<Rightarrow> request_id \<Rightarrow> instant \<Rightarrow> ('w, unit) aio" where
  "stage_sftp S sftp staging data rid limit =
     aio_bind (await (\<lambda>e. TransferInterrupted rid (''sftp create '' @ staging @ '': '' @ e)) (rx_create S sftp staging limit))
       (\<lambda>fh. aio_bind (aio_note (Created fh staging)) (\<lambda>_. sftp_write_all S fh data limit))"

definition upload_via_sftp ::
  "'w russh \<Rightarrow> native_config \<Rightarrow> string \<Rightarrow> u8 list \<Rightarrow> deadline \<Rightarrow> request_id \<Rightarrow> ('w, unit) op" where
  "upload_via_sftp S cfg remote data dl rid =
     unless_expired S dl rid
       (op_bind (open_sftp S cfg dl rid) (\<lambda>sftp st.
          let rem = remaining (clock_of S st) dl in
          case fresh_id S st of
            (i, st1) \<Rightarrow>
              op_bind (within S rid rem (stage_sftp S sftp (staging_name remote i) data rid))
                (\<lambda>_. publish_sftp S cfg (staging_name remote i) remote dl rid) st1))"

definition download_via_sftp ::
  "'w russh \<Rightarrow> native_config \<Rightarrow> string \<Rightarrow> deadline \<Rightarrow> request_id \<Rightarrow> ('w, u8 list) op" where
  "download_via_sftp S cfg remote dl rid =
     unless_expired S dl rid
       (op_bind (open_sftp S cfg dl rid) (\<lambda>sftp st.
          within S rid (remaining (clock_of S st) dl) (\<lambda>limit.
            aio_bind (await (\<lambda>e. TransferInterrupted rid (''sftp open '' @ remote @ '': '' @ e)) (rx_open S sftp remote limit))
              (\<lambda>fh. sftp_read_all S fh limit)) st))"

section \<open>Files over a command\<close>

text \<open>
  The staging file is written by \<open>cat\<close> and published by \<open>mv\<close>; an error of one of the two commands
  returns at once.
\<close>

definition upload_via_exec ::
  "'w russh \<Rightarrow> native_config \<Rightarrow> string \<Rightarrow> u8 list \<Rightarrow> deadline \<Rightarrow> request_id \<Rightarrow> ('w, unit) op" where
  "upload_via_exec S cfg remote bytes dl rid st0 =
     (case fresh_id S st0 of
        (i, st) \<Rightarrow>
          (let staging = staging_name remote i in
           op_bind (exec_command S cfg (''cat > '' @ shell_quote S staging) (Some bytes) dl rid) (\<lambda>raw st1.
             if ro_exit_status raw \<noteq> 0
             then (Inl (TransferInterrupted rid (rx_lossy S (ro_stderr raw))), remove_staging S cfg staging dl rid st1)
             else op_bind (exec_command S cfg (mv_command S staging remote) None dl rid) (\<lambda>mv st2.
               if ro_exit_status mv \<noteq> 0
               then (Inl (rename_failed S rid mv), remove_staging S cfg staging dl rid st2)
               else (Inr (), st2)) st1) st))"

definition native_upload_text :: "'w russh \<Rightarrow> native_config \<Rightarrow> upload_text_request \<Rightarrow> ('w, unit) op" where
  "native_upload_text S cfg req =
     unless_expired S (ut_deadline req) (ut_id req)
       (upload_via_exec S cfg (ut_remote req) (text_bytes (ut_text req)) (ut_deadline req) (ut_id req))"

definition native_upload_file :: "'w russh \<Rightarrow> native_config \<Rightarrow> upload_file_request \<Rightarrow> ('w, unit) op" where
  "native_upload_file S cfg req =
     unless_expired S (uf_deadline req) (uf_id req) (\<lambda>st.
       case rx_local_read S (uf_local req) (nv_world st) of
         Inl e \<Rightarrow> (Inl (LocalIo (''read '' @ uf_local req @ '': '' @ e)), st)
       | Inr bytes \<Rightarrow>
           (case upload_via_sftp S cfg (uf_remote req) bytes (uf_deadline req) (uf_id req) st of
              (Inl e, st1) \<Rightarrow>
                (if sftp_unavailable e
                 then upload_via_exec S cfg (uf_remote req) bytes (uf_deadline req) (uf_id req) st1
                 else (Inl e, st1))
            | r \<Rightarrow> r))"

section \<open>Downloads\<close>

definition local_write :: "'w russh \<Rightarrow> (string \<Rightarrow> string) \<Rightarrow> string \<Rightarrow> u8 list \<Rightarrow> ('w, unit) op" where
  "local_write S err path bytes st =
     (case rx_local_write S path bytes (nv_world st) of
        (Inr _, w) \<Rightarrow> (Inr (), record_wire (LocalWrote path bytes) (st\<lparr>nv_world := w\<rparr>))
      | (Inl e, w) \<Rightarrow> (Inl (LocalIo (err e)), st\<lparr>nv_world := w\<rparr>))"

definition local_remove :: "'w russh \<Rightarrow> string \<Rightarrow> 'w native \<Rightarrow> 'w native" where
  "local_remove S path st = record_wire (LocalRemoved path) (st\<lparr>nv_world := rx_local_remove S path (nv_world st)\<rparr>)"

definition local_publish :: "'w russh \<Rightarrow> string \<Rightarrow> string \<Rightarrow> ('w, unit) op" where
  "local_publish S staging target st =
     (case rx_local_rename S staging target (nv_world st) of
        (Inr _, w) \<Rightarrow> (Inr (), record_wire (LocalRenamed staging target) (st\<lparr>nv_world := w\<rparr>))
      | (Inl e, w) \<Rightarrow>
          (Inl (LocalIo (''atomic rename '' @ staging @ '' -> '' @ target @ '': '' @ e)),
           local_remove S staging (st\<lparr>nv_world := w\<rparr>)))"

definition native_download_file :: "'w russh \<Rightarrow> native_config \<Rightarrow> download_file_request \<Rightarrow> ('w, unit) op" where
  "native_download_file S cfg req =
     unless_expired S (df_deadline req) (df_id req) (\<lambda>st0.
       case fresh_id S st0 of
         (i, st) \<Rightarrow>
           (let staging = staging_name (df_local req) i;
                write = local_write S (\<lambda>e. ''write '' @ staging @ '': '' @ e) staging
            in case download_via_sftp S cfg (df_remote req) (df_deadline req) (df_id req) st of
                 (Inr bytes, st1) \<Rightarrow> op_bind (write bytes) (\<lambda>_. local_publish S staging (df_local req)) st1
               | (Inl e, st1) \<Rightarrow>
                   (if sftp_unavailable e then
                      op_bind (exec_command S cfg (''cat '' @ shell_quote S (df_remote req)) None (df_deadline req) (df_id req))
                        (\<lambda>raw st2.
                           if ro_exit_status raw \<noteq> 0
                           then (Inl (TransferInterrupted (df_id req) (rx_lossy S (ro_stderr raw))), local_remove S staging st2)
                           else op_bind (write (ro_stdout raw)) (\<lambda>_. local_publish S staging (df_local req)) st2) st1
                    else (Inl e, local_remove S staging st1))))"

text \<open>\<open>pid\<close> is the process identifier in the name of the archive; the status of \<open>tar\<close> is its success and its text.\<close>

definition native_download_dir :: "'w russh \<Rightarrow> native_config \<Rightarrow> download_dir_request \<Rightarrow> ('w, unit) op" where
  "native_download_dir S cfg req =
     unless_expired S (dd_deadline req) (dd_id req)
       (op_bind (exec_command S cfg (''tar -cf - -C '' @ shell_quote S (dd_remote req) @ '' .'') None (dd_deadline req) (dd_id req))
         (\<lambda>raw st.
            if ro_exit_status raw \<noteq> 0 then (Inl (TransferInterrupted (dd_id req) (rx_lossy S (ro_stderr raw))), st)
            else case rx_create_dir_all S (dd_local req) (nv_world st) of
              (Inl e, w) \<Rightarrow> (Inl (LocalIo (''create '' @ dd_local req @ '': '' @ e)), st\<lparr>nv_world := w\<rparr>)
            | (Inr _, w) \<Rightarrow>
                (let tmp = dd_local req @ ''/.vcli-dl-'' @ show_nat (unat (rx_pid S)) @ ''.tar'' in
                 op_bind (local_write S (\<lambda>e. ''stage tar: '' @ e) tmp (ro_stdout raw)) (\<lambda>_ st1.
                   case rx_untar S tmp (dd_local req) (nv_world st1) of
                     (status, w1) \<Rightarrow>
                       (let ok = (case status of Inr (b, _) \<Rightarrow> b | Inl _ \<Rightarrow> False);
                            st2 = local_remove S tmp (record_wire (Untarred tmp (dd_local req) ok) (st1\<lparr>nv_world := w1\<rparr>))
                        in (case status of
                              Inr (True, _) \<Rightarrow> (Inr (), st2)
                            | Inr (False, s) \<Rightarrow> (Inl (TransferInterrupted (dd_id req) (''local tar exited with '' @ s)), st2)
                            | Inl e \<Rightarrow> (Inl (LocalIo (''failed to run local tar (required for download_dir): '' @ e)), st2))))
                   (st\<lparr>nv_world := w\<rparr>))))"

section \<open>The liveness probe\<close>

definition probe_session :: "'w russh \<Rightarrow> native_config \<Rightarrow> deadline \<Rightarrow> instant \<Rightarrow> ('w, u64 \<times> (transport_error + unit)) aio" where
  "probe_session S cfg dl limit =
     aio_bind (lock_session S limit) (\<lambda>_ st.
       let ping = (\<lambda>(e, h) st1.
             case rx_ping S h limit (nv_world st1) of
               (None, w) \<Rightarrow> (None, st1\<lparr>nv_world := w\<rparr>)
             | (Some r, w) \<Rightarrow>
                 (Some (Inr (e, case r of
                     Inl err \<Rightarrow> Inl (map_russh_error err)
                   | Inr _ \<Rightarrow> if rx_is_closed S h w
                              then Inl (ConnectionFailed ''session closed during liveness probe'') else Inr ())),
                  st1\<lparr>nv_world := w\<rparr>))
       in case ss_slot (nv_shared st) of
            None \<Rightarrow> aio_bind (aio_bind (establish_with_retry S cfg dl limit) install_session) ping st
          | Some (e, h) \<Rightarrow>
              (if rx_is_closed S h (nv_world st)
               then (Some (Inr (0, Inl (ConnectionFailed ''session closed since last use''))),
                     st\<lparr>nv_shared := (nv_shared st)\<lparr>ss_slot := None\<rparr>\<rparr>)
               else ping (e, h) st))"

definition surfaced :: "transport_error \<Rightarrow> bool" where
  "surfaced e = (case e of
       ConnectionFailed _ \<Rightarrow> True | HostKeyUnknown _ _ \<Rightarrow> True | HostKeyChanged _ \<Rightarrow> True
     | HostKeyPolicyUnsupported _ \<Rightarrow> True | AuthenticationFailed _ \<Rightarrow> True | _ \<Rightarrow> False)"

definition native_test_connection :: "'w russh \<Rightarrow> native_config \<Rightarrow> deadline \<Rightarrow> ('w, bool) op" where
  "native_test_connection S cfg dl st0 =
     (case fresh_id S st0 of
        (rid, st) \<Rightarrow>
          unless_expired S dl rid (\<lambda>st.
            case within S rid (remaining (clock_of S st) dl) (probe_session S cfg dl) st of
              (Inl e, st1) \<Rightarrow> (Inl e, st1)
            | (Inr (epoch, Inr _), st1) \<Rightarrow> (Inr True, st1)
            | (Inr (epoch, Inl e), st1) \<Rightarrow>
                (let st2 = (if failure_class_of e = Transient then evict S epoch dl st1 else st1)
                 in (if surfaced e then Inl e else Inr False, st2))) st)"

definition drop_transport :: "'w russh \<Rightarrow> nat \<Rightarrow> 'w native \<Rightarrow> 'w native" where
  "drop_transport S strong_count st =
     (if 1 < strong_count then st
      else case ss_slot (nv_shared st) of
        None \<Rightarrow> st
      | Some (_, h) \<Rightarrow> st\<lparr>nv_shared := (nv_shared st)\<lparr>ss_slot := None\<rparr>, nv_world := rx_disconnect S h (nv_world st)\<rparr>)"

section \<open>From the configuration\<close>

definition native_from_config ::
  "(string \<Rightarrow> u8 list option) \<Rightarrow> (string \<Rightarrow> read_outcome) \<Rightarrow> string option \<Rightarrow> config \<Rightarrow> transport_error + native_config" where
  "native_from_config b64_decode read home cfg =
     (case remote_host cfg of
        None \<Rightarrow> Inl (Configuration ''native backend requires VB_REMOTE_HOST'')
      | Some host \<Rightarrow>
          (case ssh_key cfg of
             None \<Rightarrow> Inl native_needs_key
           | Some key \<Rightarrow>
               (let stores = (case home of
                        Some h \<Rightarrow> [load_known_hosts_or_empty b64_decode read (h @ ''/.ssh/known_hosts'')]
                      | None \<Rightarrow> []) @ [load_known_hosts_or_empty b64_decode read ''/etc/ssh/ssh_known_hosts'']
                in bindR (keepalive_from_config (ssh_keepalive_interval cfg) (ssh_keepalive_failures cfg)) (\<lambda>ka.
                   bindR (reconnect_from_config (ssh_reconnect_max_attempts cfg) (ssh_reconnect_max_delay cfg)) (\<lambda>rc.
                   Inr \<lparr>nc_host = host, nc_user = remote_user cfg,
                        nc_ssh_port = (case ssh_port cfg of Some p \<Rightarrow> p | None \<Rightarrow> 22),
                        nc_jump_host = jump_host cfg, nc_key_path = Some key, nc_known_hosts = stores,
                        nc_connect_timeout = from_secs (unat (max (cfg_timeout cfg) 5)),
                        nc_keepalive = ka, nc_reconnect = rc\<rparr>)))))"

end
