(* ===== verification/Native_Facts.thy ===== *)
theory Native_Facts
  imports Native
begin

text \<open>
  What the native transport guarantees: a session is only used on a trusted host key, a command is
  sent at most once however often the connection is attempted, a target is replaced only by what was
  staged completely, and the probe does not reconnect.
\<close>

section \<open>What the steps add to the log\<close>

lemma record_wire_sel [simp]:
  "nv_log (record_wire x st) = nv_log st @ [x]"
  "nv_world (record_wire x st) = nv_world st"
  "nv_shared (record_wire x st) = nv_shared st"
  by (simp_all add: record_wire_def)

lemma await_log [simp]: "nv_log (snd (await err p st)) = nv_log st"
  by (simp add: await_def split: prod.splits)

lemma await_transfer_log [simp]: "nv_log (snd (await_transfer S what p st)) = nv_log st"
  by (simp add: await_transfer_def fresh_id_def split: prod.splits option.splits sum.splits)

lemma fresh_id_log [simp]: "fresh_id S st = (i, st') \<Longrightarrow> nv_log st' = nv_log st"
  by (auto simp: fresh_id_def split: prod.splits)

lemma lock_session_log [simp]: "nv_log (snd (lock_session S limit st)) = nv_log st"
  by (simp add: lock_session_def split: prod.splits option.splits)

lemma install_session_log [simp]: "nv_log (snd (install_session h st)) = nv_log st"
  by (simp add: install_session_def Let_def)

lemma evict_log [simp]: "nv_log (evict S e dl st) = nv_log st"
  using lock_session_log [of S "clock_of S st + remaining (clock_of S st) dl" st]
  by (cases "lock_session S (clock_of S st + remaining (clock_of S st) dl) st")
    (simp add: evict_def split: option.splits)

lemma aio_bindE:
  assumes "aio_bind m f st = (r, st')"
  obtains "m st = (None, st')" "r = None"
  | e where "m st = (Some (Inl e), st')" "r = Some (Inl e)"
  | x st1 where "m st = (Some (Inr x), st1)" "f x st1 = (r, st')"
  using assms by (auto simp: aio_bind_def split: prod.splits option.splits sum.splits)

lemma op_bindE:
  assumes "op_bind m f st = (r, st')"
  obtains e where "m st = (Inl e, st')" "r = Inl e"
  | x st1 where "m st = (Inr x, st1)" "f x st1 = (r, st')"
  using assms by (auto simp: op_bind_def split: prod.splits sum.splits)

lemma await_logD: "await err p st = (r, st') \<Longrightarrow> nv_log st' = nv_log st"
  using await_log [of err p st] by simp

lemma await_transfer_logD: "await_transfer S what p st = (r, st') \<Longrightarrow> nv_log st' = nv_log st"
  using await_transfer_log [of S what p st] by simp

lemma connect_checked_log: "connect_checked S cfg limit st = (r, st') \<Longrightarrow> nv_log st' = nv_log st @ [Connect]"
  by (auto simp: connect_checked_def Let_def split: prod.splits option.splits sum.splits if_splits)

lemma establish_log:
  assumes "establish S cfg limit st = (r, st')"
  shows "nv_log st' = nv_log st \<or> nv_log st' = nv_log st @ [Connect]"
  using assms
  by (auto simp: establish_def aio_of_def dest!: await_logD connect_checked_log
        split: if_splits option.splits sum.splits elim!: aio_bindE)

lemma backoff_log: "backoff S cfg dl attempt limit st = (r, st') \<Longrightarrow> nv_log st' = nv_log st"
  by (auto simp: backoff_def Let_def split: if_splits prod.splits)

text \<open>
  The attempts to connect the policy allows: one, and as many again as \<open>max_attempts\<close>.  A policy of
  \<open>u32::MAX\<close> attempts allows any number, since the counter wraps before it exceeds them.
\<close>

definition connect_bound :: "native_config \<Rightarrow> nat \<Rightarrow> bool" where
  "connect_bound cfg k \<longleftrightarrow>
     max_attempts (nc_reconnect cfg) = - 1 \<or> k \<le> Suc (unat (max_attempts (nc_reconnect cfg)))"

definition connects :: "native_config \<Rightarrow> wire list \<Rightarrow> wire list \<Rightarrow> bool" where
  "connects cfg l l' \<longleftrightarrow> (\<exists>k. connect_bound cfg k \<and> l' = l @ replicate k Connect)"

lemma connect_bound_0 [simp]: "connect_bound cfg 0"
  by (simp add: connect_bound_def)

lemma connects_refl [simp]: "connects cfg l l"
  unfolding connects_def by (rule exI [of _ 0]) simp

lemma may_retry_next:
  assumes "may_retry p attempt" "max_attempts p \<noteq> - 1"
  shows "unat (attempt + 1) = Suc (unat attempt)" "unat attempt \<le> unat (max_attempts p)"
proof -
  show le: "unat attempt \<le> unat (max_attempts p)"
    using assms(1) by (simp add: may_retry_def word_le_nat_alt)
  have "unat (max_attempts p) \<noteq> unat (- 1 :: u32)"
    using assms(2) by (simp only: word_unat_eq_iff simp_thms)
  moreover have "unat (- 1 :: u32) = 2 ^ 32 - 1"
    by (simp add: unsigned_minus_1_eq_mask mask_eq_exp_minus_1)
  moreover have "unat (max_attempts p) < 2 ^ 32"
    using unsigned_less [of "max_attempts p", where 'a = nat] by simp
  ultimately have "unat (max_attempts p) < 2 ^ 32 - 1"
    by linarith
  with le show "unat (attempt + 1) = Suc (unat attempt)"
    by (simp add: unat_word_ariths)
qed

text \<open>
  What the loop does from a given attempt on: it connects once per turn, and starts another turn only
  when the policy still allows one.
\<close>

lemmas retry_loop_induct [consumes 1, case_names turn] = retry_loop.raw_induct [rotated]

lemma retry_loop_log:
  assumes "retry_loop S cfg dl attempt limit st = Some (r, st')"
  shows "\<exists>k. (max_attempts (nc_reconnect cfg) \<noteq> - 1 \<longrightarrow>
        k \<le> Suc (Suc (unat (max_attempts (nc_reconnect cfg))) - unat attempt)) \<and>
      nv_log st' = nv_log st @ replicate k Connect"
proof -
  have "\<exists>k. (max_attempts (nc_reconnect cfg) \<noteq> - 1 \<longrightarrow>
        k \<le> Suc (Suc (unat (max_attempts (nc_reconnect cfg))) - unat attempt)) \<and>
      nv_log (snd x) = nv_log st @ replicate k Connect"
    if "retry_loop S cfg dl attempt limit st = Some x" for x
    using that
  proof (induction rule: retry_loop_induct)
    case (turn retry S cfg dl attempt limit st x)
    let ?bound = "Suc (Suc (unat (max_attempts (nc_reconnect cfg))) - unat attempt)"
    obtain a st1 where est: "establish S cfg limit st = (a, st1)" by fastforce
    obtain j where j: "j \<le> 1" "nv_log st1 = nv_log st @ replicate j Connect"
      using establish_log [OF est] by (metis append_Nil2 le_numeral_extra(4) replicate_0 replicate_Suc zero_le_one One_nat_def)
    obtain b st2 where bo: "backoff S cfg dl attempt limit st1 = (b, st2)" by fastforce
    note l2 = backoff_log [OF bo]
    consider (stop) "snd x = st1 \<or> snd x = st2"
      | (again) "may_retry (nc_reconnect cfg) attempt" "retry S cfg dl (attempt + 1) limit st2 = Some x"
      using turn(2) unfolding est prod.case bo
      by (auto simp: bo split: option.splits sum.splits if_splits)
    then show ?case
    proof cases
      case stop
      with j l2 show ?thesis by (intro exI [of _ j]) auto
    next
      case again
      from turn(1) [OF again(2)] obtain k where k: "max_attempts (nc_reconnect cfg) \<noteq> - 1 \<longrightarrow>
            k \<le> Suc (Suc (unat (max_attempts (nc_reconnect cfg))) - unat (attempt + 1))"
          "nv_log (snd x) = nv_log st2 @ replicate k Connect" by blast
      have "max_attempts (nc_reconnect cfg) \<noteq> - 1 \<longrightarrow> j + k \<le> ?bound"
        using k(1) j(1) may_retry_next [OF again(1)] by auto
      moreover have "nv_log (snd x) = nv_log st @ replicate (j + k) Connect"
        using k(2) j(2) l2 by (simp add: replicate_add)
      ultimately show ?thesis by blast
    qed
  qed
  with assms show ?thesis by fastforce
qed

lemma establish_with_retry_log:
  assumes "establish_with_retry S cfg dl limit st = (r, st')"
  shows "connects cfg (nv_log st) (nv_log st')"
proof (cases "retry_loop S cfg dl 1 limit st")
  case None
  with assms show ?thesis by (simp add: establish_with_retry_def)
next
  case (Some x)
  with assms have "retry_loop S cfg dl 1 limit st = Some (r, st')"
    by (simp add: establish_with_retry_def)
  from retry_loop_log [OF this] show ?thesis
    by (auto simp: connects_def connect_bound_def)
qed

text \<open>The loop returns, unless the policy allows \<open>u32::MAX\<close> attempts.\<close>

lemma retry_loop_returns:
  assumes "max_attempts (nc_reconnect cfg) \<noteq> - 1"
  shows "\<exists>x. retry_loop S cfg dl attempt limit st = Some x"
proof (induction "Suc (unat (max_attempts (nc_reconnect cfg))) - unat attempt" arbitrary: attempt st rule: less_induct)
  case less
  obtain a st1 where est: "establish S cfg limit st = (a, st1)" by fastforce
  obtain b st2 where bo: "backoff S cfg dl attempt limit st1 = (b, st2)" by fastforce
  have "\<exists>x. retry_loop S cfg dl (attempt + 1) limit st2 = Some x" if "may_retry (nc_reconnect cfg) attempt"
    using less [of "attempt + 1" st2] may_retry_next [OF that assms] by simp
  then show ?case
    by (subst retry_loop.simps) (auto simp: est bo split: option.splits sum.splits)
qed

lemma install_session_logD: "install_session h st = (r, st') \<Longrightarrow> nv_log st' = nv_log st"
  by (auto simp: install_session_def Let_def)

lemma lock_session_logD: "lock_session S limit st = (r, st') \<Longrightarrow> nv_log st' = nv_log st"
  using lock_session_log [of S limit st] by simp

lemma ensure_session_log:
  assumes "ensure_session S cfg dl limit st = (r, st')"
  shows "connects cfg (nv_log st) (nv_log st')"
  using assms
  by (auto simp: ensure_session_def split: option.splits prod.splits if_splits elim!: aio_bindE
        dest!: install_session_logD establish_with_retry_log)

lemma open_channel_log:
  assumes "open_channel S cfg dl limit st = (r, st')"
  shows "connects cfg (nv_log st) (nv_log st')"
  using assms
  by (auto simp: open_channel_def aio_of_def split: prod.splits elim!: aio_bindE
        dest!: lock_session_logD ensure_session_log await_logD)

lemma withinE:
  assumes "within S rid rem body st = (r, st')"
  obtains "body (clock_of S st + rem) st = (None, st')" "r = Inl (ExecutionTimeout rid (of_nat (max 1 (as_secs rem))) False)"
  | "body (clock_of S st + rem) st = (Some r, st')"
  using assms by (auto simp: within_def split: prod.splits option.splits)

text \<open>A channel: the attempts to connect, then what the function does on it, if it is reached.\<close>

lemma with_channelE:
  assumes "with_channel S cfg dl rid f st = (r, st')"
  obtains e where "r = Inl e" "connects cfg (nv_log st) (nv_log st')"
  | ch rem st1 st2 where "connects cfg (nv_log st) (nv_log st1)"
      "f ch rem st1 = (r, st2)" "nv_log st' = nv_log st2"
  using assms
  by (auto simp: with_channel_def unless_expired_def split: if_splits prod.splits sum.splits
        elim!: withinE dest!: open_channel_log)

section \<open>Commands\<close>

definition stdin_part :: "nat \<Rightarrow> u8 list option \<Rightarrow> wire list" where
  "stdin_part ch stdin = (case stdin of None \<Rightarrow> [] | Some b \<Rightarrow> [Stdin ch b, Eof ch])"

definition sent :: "nat \<Rightarrow> string \<Rightarrow> u8 list option \<Rightarrow> wire list" where
  "sent ch cmd stdin = Exec ch cmd # stdin_part ch stdin"

lemma send_stdin_log:
  assumes "send_stdin S ch stdin limit st = (r, st')"
  obtains x where "r = Some (Inr x)" "nv_log st' = nv_log st @ stdin_part ch stdin"
  | t where "\<forall>x. r \<noteq> Some (Inr x)" "nv_log st' = nv_log st @ t" "prefix t (stdin_part ch stdin)"
proof (cases stdin)
  case None
  with assms that(1) show ?thesis by (auto simp: send_stdin_def aio_of_def stdin_part_def)
next
  case (Some bytes)
  let ?st = "record_wire (Stdin ch bytes) st"
  have "aio_bind (await map_russh_error (rx_data S ch bytes limit)) (\<lambda>_.
      aio_bind (aio_note (Eof ch)) (\<lambda>_. await map_russh_error (rx_eof S ch limit))) ?st = (r, st')"
    using assms Some by (simp add: send_stdin_def aio_bind_def aio_note_def)
  then show thesis
  proof (cases rule: aio_bindE)
    case 1
    with that(2) [of "[Stdin ch bytes]"] Some show ?thesis by (auto dest!: await_logD simp: stdin_part_def)
  next
    case (2 e)
    with that(2) [of "[Stdin ch bytes]"] Some show ?thesis by (auto dest!: await_logD simp: stdin_part_def)
  next
    case (3 x st1)
    then have r: "await map_russh_error (rx_eof S ch limit) (record_wire (Eof ch) st1) = (r, st')"
      by (simp add: aio_bind_def aio_note_def)
    have l: "nv_log st' = nv_log st @ [Stdin ch bytes, Eof ch]"
      using await_logD [OF 3(1)] await_logD [OF r] by simp
    show ?thesis
    proof (cases "\<exists>x. r = Some (Inr x)")
      case True
      then obtain x where "r = Some (Inr x)" ..
      with l Some show ?thesis by (intro that(1)) (simp_all add: stdin_part_def)
    next
      case False
      with l Some show ?thesis by (intro that(2) [of "[Stdin ch bytes, Eof ch]"]) (simp_all add: stdin_part_def)
    qed
  qed
qed

lemma drain_channel_log:
  assumes "drain_channel S ch limit st = (r, st')"
  obtains out where "r = Some (Inr out)" "nv_log st' = nv_log st @ [Exited ch (ro_exit_status out)]"
  | "r = None" "nv_log st' = nv_log st"
  using assms by (auto simp: drain_channel_def Let_def split: prod.splits if_splits)

lemma exec_on_channel_log:
  assumes "exec_on_channel S cmd stdin ch limit st = (r, st')"
  obtains out where "r = Some (Inr out)"
      "nv_log st' = nv_log st @ sent ch cmd stdin @ [Exited ch (ro_exit_status out)]"
  | t where "\<forall>x. r \<noteq> Some (Inr x)" "nv_log st' = nv_log st @ t" "prefix t (sent ch cmd stdin)"
proof -
  let ?st = "record_wire (Exec ch cmd) st"
  have "aio_bind (await map_russh_error (rx_exec S ch cmd limit)) (\<lambda>_.
      aio_bind (send_stdin S ch stdin limit) (\<lambda>_. drain_channel S ch limit)) ?st = (r, st')"
    using assms by (simp add: exec_on_channel_def aio_bind_def aio_note_def)
  then show thesis
  proof (cases rule: aio_bindE)
    case 1
    with that(2) [of "[Exec ch cmd]"] show ?thesis by (auto dest!: await_logD simp: sent_def)
  next
    case (2 e)
    with that(2) [of "[Exec ch cmd]"] show ?thesis by (auto dest!: await_logD simp: sent_def)
  next
    case (3 x st1)
    note l1 = await_logD [OF 3(1)]
    from 3(2) show ?thesis
    proof (cases rule: aio_bindE)
      case 1
      from 1(1) show ?thesis
        by (rule send_stdin_log) (use 1(2) l1 in \<open>auto intro!: that(2) simp: sent_def\<close>)
    next
      case (2 e)
      from 2(1) show ?thesis
        by (rule send_stdin_log) (use 2(2) l1 in \<open>auto intro!: that(2) simp: sent_def\<close>)
    next
      case (3 y st2)
      have "nv_log st2 = nv_log st @ sent ch cmd stdin"
        using 3(1) by (rule send_stdin_log) (use l1 in \<open>auto simp: sent_def\<close>)
      with 3(2) show ?thesis
        by (elim drain_channel_log) (auto intro: that)
    qed
  qed
qed

text \<open>A command: a bounded number of attempts to connect, then the command at most once.\<close>

lemma exec_command_log:
  assumes "exec_command S cfg cmd stdin dl rid st = (r, st')"
  obtains k ch out where "r = Inr out" "connect_bound cfg k"
      "nv_log st' = nv_log st @ replicate k Connect @ sent ch cmd stdin @ [Exited ch (ro_exit_status out)]"
  | e k ch t where "r = Inl e" "connect_bound cfg k" "prefix t (sent ch cmd stdin)"
      "nv_log st' = nv_log st @ replicate k Connect @ t"
  using assms unfolding exec_command_def
proof (cases rule: with_channelE)
  case (1 e)
  with that(2) [of e _ "[]"] show ?thesis by (auto simp: connects_def)
next
  case (2 ch rem st1 st2)
  obtain k where k: "connect_bound cfg k" "nv_log st1 = nv_log st @ replicate k Connect"
    using 2(1) by (auto simp: connects_def)
  from 2(2) show ?thesis
  proof (cases rule: withinE)
    case 1
    then show ?thesis
      using that(2) [of _ k _ ch] k 2(3) by (elim exec_on_channel_log) auto
  next
    case 2
    note l = k \<open>nv_log st' = nv_log st2\<close>
    from 2 show ?thesis
    proof (cases rule: exec_on_channel_log)
      case (1 out)
      with l that(1) show ?thesis by auto
    next
      case (2 t)
      with l that(2) show ?thesis by (cases r) auto
    qed
  qed
qed

text \<open>
  C30: running a command makes at most one attempt to connect more than the configured number of
  reconnects, unless that number is \<open>u32::MAX\<close>, which the attempt counter never exceeds; and it sends
  the command at most once, whatever fails.  When it reports a result, the command was sent once and
  the reported status is the one the channel ended with.
\<close>

theorem command_sent_at_most_once:
  fixes S :: "'w russh" and req :: command_request
  shows "\<exists>k ch t. (max_attempts (nc_reconnect cfg) = - 1 \<or> k \<le> Suc (unat (max_attempts (nc_reconnect cfg)))) \<and>
     nv_log (snd (native_run_command S cfg req st)) = nv_log st @ replicate k Connect @ t \<and>
     (case fst (native_run_command S cfg req st) of
        Inr res \<Rightarrow> t = [Exec ch (cr_command req), Exited ch (res_exit_status res)]
      | Inl _ \<Rightarrow> t = [] \<or> t = [Exec ch (cr_command req)])"
proof -
  obtain r st' where x: "exec_command S cfg (cr_command req) None (cr_deadline req) (cr_id req) st = (r, st')"
    by fastforce
  then have "\<exists>k ch t. connect_bound cfg k \<and> nv_log st' = nv_log st @ replicate k Connect @ t \<and>
     (case r of Inr out \<Rightarrow> t = [Exec ch (cr_command req), Exited ch (ro_exit_status out)]
              | Inl _ \<Rightarrow> t = [] \<or> t = [Exec ch (cr_command req)])"
    by (elim exec_command_log) (auto simp: sent_def stdin_part_def prefix_Cons)
  note y = this [unfolded connect_bound_def]
  show ?thesis
  proof (cases "is_expired (clock_of S st) (cr_deadline req)")
    case True
    then have run: "native_run_command S cfg req st = (Inl (QueueTimeout (cr_id req) 0), st)"
      by (simp add: native_run_command_def unless_expired_def)
    show ?thesis
      unfolding run by (rule exI [of _ 0]) simp
  next
    case False
    then have run: "native_run_command S cfg req st =
        op_bind (\<lambda>_. (r, st')) (\<lambda>out. op_of (Inr \<lparr>res_exit_status = ro_exit_status out,
          res_stdout = rx_lossy S (ro_stdout out), res_stderr = rx_lossy S (ro_stderr out),
          res_success = ro_exit_status out = 0, res_duration = 0\<rparr>)) st"
      by (simp add: native_run_command_def unless_expired_def op_bind_def x)
    show ?thesis
      using y unfolding run by (cases r) (simp_all add: op_bind_def op_of_def)
  qed
qed

section \<open>Uploads\<close>

text \<open>The bytes are completely in the staging file: written by \<open>cat\<close>, which succeeded, or by SFTP, flushed.\<close>

definition staged :: "'w russh \<Rightarrow> wire list \<Rightarrow> string \<Rightarrow> u8 list \<Rightarrow> bool" where
  "staged S log staging bytes \<longleftrightarrow>
     (\<exists>ch. subseq (sent ch (''cat > '' @ shell_quote S staging) (Some bytes) @ [Exited ch 0]) log) \<or>
     (\<exists>fh. subseq (Created fh staging # map (Wrote fh) (chunks SFTP_CHUNK bytes) @ [Flushed fh]) log)"

text \<open>Every \<open>mv\<close> in the log moves a staging file onto the target that was staged completely before it.\<close>

fun publishes_staged :: "'w russh \<Rightarrow> string \<Rightarrow> u8 list \<Rightarrow> wire list \<Rightarrow> wire list \<Rightarrow> bool" where
  "publishes_staged S remote bytes before [] \<longleftrightarrow> True"
| "publishes_staged S remote bytes before (x # xs) \<longleftrightarrow>
     (case x of
        Exec ch cmd \<Rightarrow> starts_with cmd ''mv '' \<longrightarrow>
          (\<exists>sg. cmd = mv_command S sg remote \<and> staged S before sg bytes)
      | _ \<Rightarrow> True) \<and> publishes_staged S remote bytes (before @ [x]) xs"

lemma publishes_staged_append:
  "publishes_staged S remote bytes before (xs @ ys) \<longleftrightarrow>
     publishes_staged S remote bytes before xs \<and> publishes_staged S remote bytes (before @ xs) ys"
  by (induction xs arbitrary: before) auto

definition no_mv :: "wire \<Rightarrow> bool" where
  "no_mv x \<longleftrightarrow> (case x of Exec ch cmd \<Rightarrow> \<not> starts_with cmd ''mv '' | _ \<Rightarrow> True)"

lemma no_mv_simps [simp]:
  "no_mv Connect" "no_mv (Stdin ch b)" "no_mv (Eof ch)" "no_mv (Exited ch k)" "no_mv (Created fh p)"
  "no_mv (Wrote fh d)" "no_mv (Flushed fh)" "no_mv (Exec ch cmd) \<longleftrightarrow> \<not> starts_with cmd ''mv ''"
  by (simp_all add: no_mv_def)

lemma publishes_no_mv: "list_all no_mv xs \<Longrightarrow> publishes_staged S remote bytes before xs"
  by (induction xs arbitrary: before) (auto simp: no_mv_def split: wire.splits)

lemma sent_no_mv: "\<not> starts_with cmd ''mv '' \<Longrightarrow> list_all no_mv (sent ch cmd stdin)"
  by (auto simp: sent_def stdin_part_def split: option.splits)

lemma replicate_no_mv: "list_all no_mv (replicate k Connect)"
  by (simp add: list_all_iff)

lemma prefix_list_all: "prefix xs ys \<Longrightarrow> list_all P ys \<Longrightarrow> list_all P xs"
  by (auto simp: prefix_def)

lemma other_commands [simp]:
  "\<not> starts_with (''cat > '' @ x) ''mv ''" "\<not> starts_with (''rm -f '' @ x) ''mv ''"
  by (simp_all add: starts_with_def)

lemma exec_command_quiet:
  assumes "exec_command S cfg cmd stdin dl rid st = (r, st')" "\<not> starts_with cmd ''mv ''"
  obtains t where "nv_log st' = nv_log st @ t" "list_all no_mv t"
  using assms(1)
proof (cases rule: exec_command_log)
  case (1 k ch out)
  show ?thesis
  proof (rule that)
    show "nv_log st' = nv_log st @ replicate k Connect @ sent ch cmd stdin @ [Exited ch (ro_exit_status out)]"
      by (rule 1(3))
    show "list_all no_mv (replicate k Connect @ sent ch cmd stdin @ [Exited ch (ro_exit_status out)])"
      using sent_no_mv [OF assms(2)] by (simp add: replicate_no_mv)
  qed
next
  case (2 e k ch t)
  show ?thesis
  proof (rule that)
    show "nv_log st' = nv_log st @ replicate k Connect @ t"
      by (rule 2(4))
    show "list_all no_mv (replicate k Connect @ t)"
      using prefix_list_all [OF 2(3) sent_no_mv [OF assms(2)]] by (simp add: replicate_no_mv)
  qed
qed

lemma remove_staging_quiet:
  obtains t where "nv_log (remove_staging S cfg sg dl rid st) = nv_log st @ t" "list_all no_mv t"
  using exec_command_quiet [of S cfg "''rm -f '' @ shell_quote S sg" None dl rid st]
  unfolding remove_staging_def by (metis other_commands(2) prod.collapse)

lemma staged_append: "staged S log sg bytes \<Longrightarrow> staged S (log @ t) sg bytes"
  unfolding staged_def by (meson list_emb_prefix)


lemma publish_step:
  assumes run: "exec_command S cfg (mv_command S sg remote) None dl rid st = (r, st')"
    and staged: "staged S before sg bytes"
  obtains t where "nv_log st' = nv_log st @ t" "publishes_staged S remote bytes before t"
    "case r of Inr out \<Rightarrow> \<exists>ch. suffix [Exec ch (mv_command S sg remote), Exited ch (ro_exit_status out)] t | Inl _ \<Rightarrow> True"
proof -
  let ?mv = "mv_command S sg remote"
  have mv: "publishes_staged S remote bytes before (replicate k Connect @ Exec ch ?mv # t)" if "list_all no_mv t" for k ch t
    using publishes_no_mv [OF replicate_no_mv] publishes_no_mv [OF that] staged_append [OF staged]
    by (auto simp: publishes_staged_append)
  show thesis
    using run
  proof (cases rule: exec_command_log)
    case (1 k ch out)
    let ?t = "replicate k Connect @ Exec ch ?mv # [Exited ch (ro_exit_status out)]"
    have "nv_log st' = nv_log st @ ?t"
      using 1(3) by (simp add: sent_def stdin_part_def)
    moreover have "publishes_staged S remote bytes before ?t"
      by (rule mv) simp
    moreover have "suffix [Exec ch ?mv, Exited ch (ro_exit_status out)] ?t"
      by (simp add: suffix_def)
    ultimately show ?thesis
      using 1(1) by (intro that) (assumption, assumption, auto)
  next
    case (2 e k ch t)
    then have t: "t = [] \<or> t = [Exec ch ?mv]"
      by (auto simp: sent_def stdin_part_def prefix_Cons)
    show ?thesis
    proof (rule that)
      show "nv_log st' = nv_log st @ replicate k Connect @ t"
        by (rule 2(4))
      show "publishes_staged S remote bytes before (replicate k Connect @ t)"
        using t mv [of "[]" k ch] publishes_no_mv [OF replicate_no_mv] by auto
    qed (simp add: 2(1))
  qed
qed

text \<open>What an upload adds to the log, and that it ends with the successful \<open>mv\<close> when it succeeds.\<close>

definition uploads :: "'w russh \<Rightarrow> string \<Rightarrow> u8 list \<Rightarrow> 'w native \<Rightarrow> (transport_error + unit) \<times> 'w native \<Rightarrow> bool" where
  "uploads S remote bytes st res \<longleftrightarrow>
     (\<exists>new. nv_log (snd res) = nv_log st @ new \<and> publishes_staged S remote bytes [] new \<and>
        (case fst res of
           Inr _ \<Rightarrow> \<exists>ch sg. suffix [Exec ch (mv_command S sg remote), Exited ch 0] new
         | Inl _ \<Rightarrow> True))"

lemma uploads_failed:
  assumes "nv_log st' = nv_log st @ new" "publishes_staged S remote bytes [] new"
  shows "uploads S remote bytes st (Inl e, st')"
  using assms by (auto simp: uploads_def)

lemma uploads_failed_removing:
  assumes "nv_log st' = nv_log st @ new" "publishes_staged S remote bytes [] new"
  shows "uploads S remote bytes st (Inl e, remove_staging S cfg sg dl rid st')"
proof -
  obtain t where "nv_log (remove_staging S cfg sg dl rid st') = nv_log st' @ t" "list_all no_mv t"
    by (rule remove_staging_quiet)
  with assms show ?thesis
    by (intro uploads_failed [where new = "new @ t"]) (simp_all add: publishes_staged_append publishes_no_mv)
qed

lemma staged_prepend: "staged S log sg bytes \<Longrightarrow> staged S (t @ log) sg bytes"
  unfolding staged_def by (meson list_emb_append2)

lemma publishes_staged_later:
  "publishes_staged S remote bytes before xs \<Longrightarrow> publishes_staged S remote bytes (t @ before) xs"
proof (induction xs arbitrary: before)
  case (Cons x xs)
  then have "publishes_staged S remote bytes ((t @ before) @ [x]) xs"
    by simp
  with Cons.prems show ?case
    by (auto split: wire.splits intro: staged_prepend)
qed simp

lemma uploads_later:
  assumes "nv_log st' = nv_log st @ t" "publishes_staged S remote bytes [] t" "uploads S remote bytes st' res"
  shows "uploads S remote bytes st res"
proof -
  obtain new where new: "nv_log (snd res) = nv_log st' @ new" "publishes_staged S remote bytes [] new"
    "case fst res of Inr _ \<Rightarrow> \<exists>ch sg. suffix [Exec ch (mv_command S sg remote), Exited ch 0] new | Inl _ \<Rightarrow> True"
    using assms(3) by (auto simp: uploads_def)
  have "publishes_staged S remote bytes [] (t @ new)"
    using new(2) assms(2) publishes_staged_later [of S remote bytes "[]" new t]
    by (simp add: publishes_staged_append)
  moreover have "case fst res of Inr _ \<Rightarrow> \<exists>ch sg. suffix [Exec ch (mv_command S sg remote), Exited ch 0] (t @ new) | Inl _ \<Rightarrow> True"
  proof (cases "fst res")
    case (Inr x)
    with new(3) obtain ch sg where "suffix [Exec ch (mv_command S sg remote), Exited ch 0] new"
      by auto
    then have "suffix [Exec ch (mv_command S sg remote), Exited ch 0] (t @ new)"
      by (rule suffix_appendI)
    with Inr show ?thesis
      unfolding Inr sum.case by (intro exI)
  qed simp
  ultimately show ?thesis
    using new(1) assms(1) by (auto simp: uploads_def)
qed

text \<open>The end of an upload, once the staging file is complete.\<close>

lemma uploads_published:
  assumes run: "exec_command S cfg (mv_command S sg remote) None dl rid st1 = (r, st2)"
    and log: "nv_log st1 = nv_log st @ new" "publishes_staged S remote bytes [] new" "staged S new sg bytes"
  shows "case r of
      Inr out \<Rightarrow> (ro_exit_status out = 0 \<longrightarrow> uploads S remote bytes st (Inr (), st2)) \<and>
                 uploads S remote bytes st (Inl e, remove_staging S cfg sg dl rid st2)
    | Inl _ \<Rightarrow> uploads S remote bytes st (Inl e, st2) \<and>
               uploads S remote bytes st (Inl e, remove_staging S cfg sg dl rid st2)"
proof -
  obtain t where t: "nv_log st2 = nv_log st1 @ t" "publishes_staged S remote bytes new t"
    "case r of Inr out \<Rightarrow> \<exists>ch. suffix [Exec ch (mv_command S sg remote), Exited ch (ro_exit_status out)] t | Inl _ \<Rightarrow> True"
    by (rule publish_step [OF run log(3)])
  then have l: "nv_log st2 = nv_log st @ new @ t" "publishes_staged S remote bytes [] (new @ t)"
    using log by (simp_all add: publishes_staged_append)
  show ?thesis
  proof (cases r)
    case (Inl err)
    with l show ?thesis by (simp add: uploads_failed uploads_failed_removing)
  next
    case (Inr out)
    with t(3) obtain ch where "suffix [Exec ch (mv_command S sg remote), Exited ch (ro_exit_status out)] t"
      by auto
    then have "suffix [Exec ch (mv_command S sg remote), Exited ch (ro_exit_status out)] (new @ t)"
      by (rule suffix_appendI)
    then have "\<exists>ch sg. suffix [Exec ch (mv_command S sg remote), Exited ch 0] (new @ t)" if "ro_exit_status out = 0"
      using that by metis
    then have "ro_exit_status out = 0 \<longrightarrow> uploads S remote bytes st (Inr (), st2)"
      using l unfolding uploads_def by (intro impI exI [of _ "new @ t"]) simp
    with l Inr show ?thesis
      by (simp add: uploads_failed_removing)
  qed
qed

lemma uploads_exec: "uploads S remote bytes st (upload_via_exec S cfg remote bytes dl rid st)"
proof -
  obtain i st0 where i: "fresh_id S st = (i, st0)" by fastforce
  let ?sg = "staging_name remote i" and ?cat = "''cat > '' @ shell_quote S (staging_name remote i)"
  obtain r st1 where cat: "exec_command S cfg ?cat (Some bytes) dl rid st0 = (r, st1)" by fastforce
  obtain t where t: "nv_log st1 = nv_log st @ t" "list_all no_mv t"
    by (rule exec_command_quiet [OF cat other_commands(1)]) (use i in simp)
  note failed = uploads_failed [OF t(1) publishes_no_mv [OF t(2)]]
    and removing = uploads_failed_removing [OF t(1) publishes_no_mv [OF t(2)]]
  show ?thesis
  proof (cases r)
    case (Inl e)
    with i cat failed show ?thesis
      by (simp add: upload_via_exec_def op_bind_def)
  next
    case (Inr out)
    show ?thesis
    proof (cases "ro_exit_status out = 0")
      case False
      with i cat Inr removing show ?thesis
        by (simp add: upload_via_exec_def op_bind_def)
    next
      case True
      obtain k ch where "nv_log st1 = nv_log st0 @ replicate k Connect @ sent ch ?cat (Some bytes) @ [Exited ch 0]"
        using cat Inr True by (elim exec_command_log) auto
      then have "t = replicate k Connect @ sent ch ?cat (Some bytes) @ [Exited ch 0]"
        using t(1) i by simp
      then have st: "staged S t ?sg bytes"
        unfolding staged_def by (metis list_emb_append2 subseq_order.order_refl)
      obtain r2 st2 where mv: "exec_command S cfg (mv_command S ?sg remote) None dl rid st1 = (r2, st2)" by fastforce
      from uploads_published [OF mv t(1) publishes_no_mv [OF t(2)] st] i cat Inr True mv show ?thesis
        by (cases r2) (auto simp: upload_via_exec_def op_bind_def Let_def)
    qed
  qed
qed

text \<open>Steps that add no \<open>mv\<close>, and exactly \<open>t\<close> when they succeed.\<close>

definition adds :: "wire list \<Rightarrow> 'w native \<Rightarrow> (transport_error + 'a) option \<times> 'w native \<Rightarrow> bool" where
  "adds t st res \<longleftrightarrow>
     (\<exists>new. nv_log (snd res) = nv_log st @ new \<and> list_all no_mv new \<and>
        (\<forall>x. fst res = Some (Inr x) \<longrightarrow> new = t))"

lemma adds_bind:
  assumes "adds t st (m st)" "\<And>x st'. m st = (Some (Inr x), st') \<Longrightarrow> adds u st' (f x st')"
  shows "adds (t @ u) st (aio_bind m f st)"
proof (cases "\<exists>x st'. m st = (Some (Inr x), st')")
  case True
  then obtain x st' where m: "m st = (Some (Inr x), st')" by blast
  with assms(1) have "nv_log st' = nv_log st @ t" "list_all no_mv t" by (auto simp: adds_def)
  with assms(2) [OF m] m show ?thesis
    by (auto simp: adds_def aio_bind_def)
next
  case False
  then obtain r st' where m: "m st = (r, st')" "\<forall>x. r \<noteq> Some (Inr x)" by (metis prod.collapse)
  with assms(1) show ?thesis
    by (auto simp: adds_def aio_bind_def split: option.splits sum.splits)
qed

lemma adds_await: "adds [] st (await err p st)" "adds [] st (await_transfer S what p st)" "adds [] st (aio_ok x st)"
  by (simp_all add: adds_def aio_of_def)

lemma adds_note: "no_mv x \<Longrightarrow> adds [x] st (aio_note x st)"
  by (simp add: adds_def aio_note_def)

lemma adds_write_chunks: "adds (map (Wrote fh) cs) st (write_chunks S fh cs limit st)"
proof (induction cs arbitrary: st)
  case Nil
  then show ?case by (simp add: adds_await)
next
  case (Cons c cs)
  have "adds ([] @ [Wrote fh c] @ map (Wrote fh) cs) st (write_chunks S fh (c # cs) limit st)"
    unfolding write_chunks.simps by (intro adds_bind adds_await adds_note Cons.IH) simp
  then show ?case by simp
qed

lemma adds_stage:
  "\<exists>fh. adds (Created fh sg # map (Wrote fh) (chunks SFTP_CHUNK data) @ [Flushed fh]) st (stage_sftp S sftp sg data rid limit st)"
proof -
  define m where "m = await (\<lambda>e. TransferInterrupted rid (''sftp create '' @ sg @ '': '' @ e)) (rx_create S sftp sg limit) st"
  define fh where "fh = (case fst m of Some (Inr h) \<Rightarrow> h | _ \<Rightarrow> 0)"
  have "adds ([] @ [Created fh sg] @ map (Wrote fh) (chunks SFTP_CHUNK data) @ [] @ [Flushed fh]) st
      (stage_sftp S sftp sg data rid limit st)"
    unfolding stage_sftp_def
  proof (intro adds_bind [OF adds_await(1)])
    fix h st1
    assume "await (\<lambda>e. TransferInterrupted rid (''sftp create '' @ sg @ '': '' @ e)) (rx_create S sftp sg limit) st
        = (Some (Inr h), st1)"
    then have "h = fh" by (simp add: fh_def m_def)
    then show "adds ([Created fh sg] @ map (Wrote fh) (chunks SFTP_CHUNK data) @ [] @ [Flushed fh]) st1
        (aio_bind (aio_note (Created h sg)) (\<lambda>_. sftp_write_all S h data limit) st1)"
      unfolding sftp_write_all_def
      by (intro adds_bind adds_await adds_note adds_write_chunks) (simp_all add: adds_write_chunks adds_note)
  qed
  then show ?thesis by auto
qed

lemma open_sftp_quiet:
  assumes "open_sftp S cfg dl rid st = (r, st')"
  obtains t where "nv_log st' = nv_log st @ t" "list_all no_mv t"
  using assms unfolding open_sftp_def
proof (cases rule: with_channelE)
  case (1 e)
  then obtain k where "nv_log st' = nv_log st @ replicate k Connect"
    by (auto simp: connects_def)
  then show ?thesis
    by (rule that) (rule replicate_no_mv)
next
  case (2 ch rem st1 st2)
  obtain k where "nv_log st1 = nv_log st @ replicate k Connect"
    using 2(1) by (auto simp: connects_def)
  moreover have "nv_log st2 = nv_log st1"
    using 2(2) by (elim withinE) (auto elim!: aio_bindE dest!: await_logD)
  ultimately have "nv_log st' = nv_log st @ replicate k Connect"
    using 2(3) by simp
  then show ?thesis
    by (rule that) (rule replicate_no_mv)
qed

lemma uploads_publish_sftp:
  assumes "nv_log st1 = nv_log st @ new" "publishes_staged S remote bytes [] new" "staged S new sg bytes"
  shows "uploads S remote bytes st (publish_sftp S cfg sg remote dl rid st1)"
proof -
  obtain r st2 where mv: "exec_command S cfg (mv_command S sg remote) None dl rid st1 = (r, st2)" by fastforce
  from uploads_published [OF mv assms] mv show ?thesis
    by (cases r) (auto simp: publish_sftp_def)
qed

lemma uploads_sftp: "uploads S remote bytes st (upload_via_sftp S cfg remote bytes dl rid st)"
proof (cases "is_expired (clock_of S st) dl")
  case True
  then show ?thesis
    using uploads_failed [of st st "[]" S remote bytes] by (simp add: upload_via_sftp_def unless_expired_def)
next
  case False
  obtain r st1 where sftp: "open_sftp S cfg dl rid st = (r, st1)" by fastforce
  obtain t where t: "nv_log st1 = nv_log st @ t" "list_all no_mv t"
    by (rule open_sftp_quiet [OF sftp])
  note failed = uploads_failed [OF t(1) publishes_no_mv [OF t(2)]]
  show ?thesis
  proof (cases r)
    case (Inl e)
    with False sftp failed show ?thesis
      by (simp add: upload_via_sftp_def unless_expired_def op_bind_def)
  next
    case (Inr h)
    obtain i st2 where i: "fresh_id S st1 = (i, st2)" by fastforce
    let ?sg = "staging_name remote i" and ?rem = "remaining (clock_of S st1) dl"
    obtain r2 st3 where w: "within S rid ?rem (stage_sftp S h ?sg bytes rid) st2 = (r2, st3)" by fastforce
    obtain fh new where new: "nv_log st3 = nv_log st1 @ new" "list_all no_mv new"
      "\<And>x. r2 = Inr x \<Longrightarrow> new = Created fh ?sg # map (Wrote fh) (chunks SFTP_CHUNK bytes) @ [Flushed fh]"
      using adds_stage [of ?sg bytes st2 S h rid "clock_of S st2 + ?rem"] w i
      by (elim withinE exE) (auto simp: adds_def)
    have log: "nv_log st3 = nv_log st @ t @ new" "list_all no_mv (t @ new)"
      using t new by simp_all
    have run: "upload_via_sftp S cfg remote bytes dl rid st =
        op_bind (\<lambda>_. (r2, st3)) (\<lambda>_. publish_sftp S cfg ?sg remote dl rid) st2"
      using False sftp Inr i w by (simp add: upload_via_sftp_def unless_expired_def op_bind_def Let_def)
    show ?thesis
    proof (cases r2)
      case (Inl e)
      with uploads_failed [OF log(1) publishes_no_mv [OF log(2)]] show ?thesis
        by (simp add: run op_bind_def)
    next
      case (Inr x)
      have "staged S (t @ new) ?sg bytes"
        unfolding staged_def new(3) [OF Inr] by (metis list_emb_append2 subseq_order.order_refl)
      from uploads_publish_sftp [OF log(1) publishes_no_mv [OF log(2)] this] Inr show ?thesis
        by (simp add: run op_bind_def)
    qed
  qed
qed

text \<open>
  C31: whatever fails, an upload moves only complete staging files onto its target: every \<open>mv\<close> it sends
  comes after the whole content was written to the file it moves and the server confirmed it; and when
  the upload reports success, the last thing it did was such a \<open>mv\<close>, which succeeded.
\<close>

theorem upload_publishes_complete_files:
  fixes S :: "'w russh"
  shows "uploads S (ut_remote t) (text_bytes (ut_text t)) st (native_upload_text S cfg t st) \<and>
    (case rx_local_read S (uf_local f) (nv_world st) of
       Inr bytes \<Rightarrow> uploads S (uf_remote f) bytes st (native_upload_file S cfg f st)
     | Inl _ \<Rightarrow> nv_log (snd (native_upload_file S cfg f st)) = nv_log st)"
proof -
  have expired: "uploads S remote bytes st (Inl e, st)" for remote bytes e
    by (rule uploads_failed [where new = "[]"]) simp_all
  have "uploads S (uf_remote f) bytes st (native_upload_file S cfg f st)"
    if "rx_local_read S (uf_local f) (nv_world st) = Inr bytes" for bytes
  proof -
    obtain r st1 where sftp: "upload_via_sftp S cfg (uf_remote f) bytes (uf_deadline f) (uf_id f) st = (r, st1)"
      by fastforce
    note up = uploads_sftp [of S "uf_remote f" bytes st cfg "uf_deadline f" "uf_id f", unfolded sftp]
    then obtain new where "nv_log st1 = nv_log st @ new" "publishes_staged S (uf_remote f) bytes [] new"
      by (auto simp: uploads_def)
    then have "uploads S (uf_remote f) bytes st (upload_via_exec S cfg (uf_remote f) bytes (uf_deadline f) (uf_id f) st1)"
      by (rule uploads_later) (rule uploads_exec)
    with that sftp up expired show ?thesis
      by (cases r) (auto simp: native_upload_file_def unless_expired_def)
  qed
  then show ?thesis
    using uploads_exec expired
    by (auto simp: native_upload_text_def native_upload_file_def unless_expired_def split: sum.splits)
qed

section \<open>Host keys\<close>

text \<open>The handshake of \<open>h\<close>: the last key presented in it is trusted by the stores.\<close>

definition on_trusted_key :: "'w russh \<Rightarrow> native_config \<Rightarrow> nat \<Rightarrow> bool" where
  "on_trusted_key S cfg h \<longleftrightarrow>
     (\<exists>limit w keys w' bytes alg.
        rx_connect S (nc_host cfg, nc_ssh_port cfg) (nc_keepalive cfg) (\<lambda>k. snd (check_server_key S cfg k)) limit w
          = ((keys, Some (Inr h)), w') \<and>
        last keys = PublicKey (Some bytes) alg \<and>
        verify_against_stores (nc_known_hosts cfg) (nc_host cfg) (Some (nc_ssh_port cfg))
          (from_known_hosts_token alg) (rx_base64 S bytes) = Trusted)"

text \<open>What \<open>russh\<close> documents: a handshake that succeeds has asked the handler about a key.\<close>

definition asks_for_key :: "'w russh \<Rightarrow> bool" where
  "asks_for_key S \<longleftrightarrow>
     (\<forall>addr ka handler limit w keys h w'.
        rx_connect S addr ka handler limit w = ((keys, Some (Inr h)), w') \<longrightarrow> keys \<noteq> [])"

lemma connect_checked_trusted:
  assumes "connect_checked S cfg limit st = (Some (Inr h), st')" "asks_for_key S"
  shows "on_trusted_key S cfg h"
proof -
  let ?lim = "min (clock_of S st + nc_connect_timeout cfg) limit"
  obtain keys w where conn: "rx_connect S (nc_host cfg, nc_ssh_port cfg) (nc_keepalive cfg)
      (\<lambda>k. snd (check_server_key S cfg k)) ?lim (nv_world st) = ((keys, Some (Inr h)), w)"
    and ver: "keys \<noteq> [] \<longrightarrow> hc_verification (fst (check_server_key S cfg (last keys))) = Trusted"
    using assms(1)
    by (auto simp: connect_checked_def Let_def split: prod.splits option.splits sum.splits if_splits)
  with assms(2) have "hc_verification (fst (check_server_key S cfg (last keys))) = Trusted"
    unfolding asks_for_key_def by blast
  then obtain bytes alg where "last keys = PublicKey (Some bytes) alg"
    "verify_against_stores (nc_known_hosts cfg) (nc_host cfg) (Some (nc_ssh_port cfg))
      (from_known_hosts_token alg) (rx_base64 S bytes) = Trusted"
    by (auto simp: check_server_key_def Let_def split: server_key.splits option.splits)
  with conn show ?thesis
    unfolding on_trusted_key_def by blast
qed

lemma establish_trusted:
  assumes "establish S cfg limit st = (Some (Inr h), st')" "asks_for_key S"
  shows "on_trusted_key S cfg h"
  using assms
  by (auto simp: establish_def aio_of_def split: if_splits option.splits sum.splits elim!: aio_bindE
        intro: connect_checked_trusted)

lemma retry_loop_trusted:
  assumes "retry_loop S cfg dl attempt limit st = Some (Some (Inr h), st')" "asks_for_key S"
  shows "on_trusted_key S cfg h"
proof -
  have "fst x = Some (Inr h) \<longrightarrow> asks_for_key S \<longrightarrow> on_trusted_key S cfg h"
    if "retry_loop S cfg dl attempt limit st = Some x" for x
    using that
    by (induction rule: retry_loop_induct)
      (auto split: prod.splits option.splits sum.splits if_splits intro: establish_trusted)
  with assms show ?thesis by fastforce
qed

lemma establish_with_retry_trusted:
  "establish_with_retry S cfg dl limit st = (Some (Inr h), st') \<Longrightarrow> asks_for_key S \<Longrightarrow> on_trusted_key S cfg h"
  by (auto simp: establish_with_retry_def split: option.splits intro: retry_loop_trusted)

text \<open>
  C32: every session the transport uses is one it found open, or comes from a handshake in which the
  server presented a key that the known-hosts stores trust for this host and port: neither a missing
  entry, nor a changed or revoked key, nor a certificate, nor a retry lets a session through.
\<close>

theorem session_needs_trusted_key:
  assumes "asks_for_key S" "ensure_session S cfg dl limit st = (Some (Inr (e, h)), st')"
  shows "ss_slot (nv_shared st) = Some (e, h) \<and> \<not> rx_is_closed S h (nv_world st) \<or> on_trusted_key S cfg h"
proof -
  have "on_trusted_key S cfg h"
    if "aio_bind (establish_with_retry S cfg dl limit) install_session st = (Some (Inr (e, h)), st')"
    using that assms(1)
    by (elim aio_bindE) (auto simp: install_session_def Let_def intro: establish_with_retry_trusted)
  with assms(2) show ?thesis
    by (auto simp: ensure_session_def split: option.splits prod.splits if_splits)
qed

section \<open>Commands whose channel ends early\<close>

definition exit_reported :: "channel_msg \<Rightarrow> bool" where
  "exit_reported m \<longleftrightarrow> (case m of MsgExitStatus _ \<Rightarrow> True | _ \<Rightarrow> False)"

lemma no_exit_status:
  "list_all (\<lambda>m. \<not> exit_reported m) msgs \<Longrightarrow> ro_exit_status out = - 1 \<Longrightarrow> ro_exit_status (foldl take_msg out msgs) = - 1"
proof (induction msgs arbitrary: out)
  case (Cons m msgs)
  have "ro_exit_status (take_msg out m) = - 1"
    using Cons.prems by (cases m) (auto simp: exit_reported_def)
  with Cons show ?case by simp
qed simp

text \<open>
  C35: when the channel of a command that was sent ends without an exit status, as it does when the
  connection is lost, the transport reports a command that completed with status -1, not an unknown
  outcome, and keeps the session.
\<close>

theorem lost_command_reported_as_completed:
  fixes S :: "'w russh"
  assumes "\<not> is_expired (clock_of S st) (cr_deadline req)"
    and "within S (cr_id req) (remaining (clock_of S st) (cr_deadline req)) (open_channel S cfg (cr_deadline req)) st
           = (Inr (e, ch), st1)"
    and "\<forall>limit. \<exists>msgs w1 w2. rx_exec S ch (cr_command req) limit (nv_world st1) = (Some (Inr ()), w1) \<and>
           rx_messages S ch limit w1 = ((msgs, True), w2) \<and> list_all (\<lambda>m. \<not> exit_reported m) msgs"
  shows "\<exists>res. fst (native_run_command S cfg req st) = Inr res \<and> res_exit_status res = - 1 \<and> \<not> res_success res \<and>
     nv_shared (snd (native_run_command S cfg req st)) = nv_shared st1"
proof -
  let ?dl = "cr_deadline req"
  let ?rem = "remaining (clock_of S st1) ?dl"
  obtain msgs w1 w2 where io: "rx_exec S ch (cr_command req) (clock_of S st1 + ?rem) (nv_world st1) = (Some (Inr ()), w1)"
    "rx_messages S ch (clock_of S st1 + ?rem) w1 = ((msgs, True), w2)" "list_all (\<lambda>m. \<not> exit_reported m) msgs"
    using assms(3) by blast
  define out where "out = foldl take_msg \<lparr>ro_stdout = [], ro_stderr = [], ro_exit_status = - 1\<rparr> msgs"
  have st: "ro_exit_status out = - 1"
    unfolding out_def by (rule no_exit_status [OF io(3)]) simp
  have body: "within S (cr_id req) ?rem (exec_on_channel S (cr_command req) None ch) st1 =
      (Inr out, record_wire (Exited ch (- 1)) ((record_wire (Exec ch (cr_command req)) st1)\<lparr>nv_world := w2\<rparr>))"
    using io(1,2) st
    by (simp add: within_def exec_on_channel_def aio_bind_def aio_note_def await_def send_stdin_def aio_of_def
        drain_channel_def Let_def out_def record_wire_def)
  show ?thesis
    using assms(1,2) body st
    by (simp add: native_run_command_def unless_expired_def op_bind_def op_of_def exec_command_def with_channel_def
        is_transient_err_def)
qed

section \<open>A server to try it on\<close>

text \<open>
  The world is the clock.  The server presents one key, confirms everything, and ends the channel of
  a command without an exit status.
\<close>

definition sample_russh :: "nat russh" where
  "sample_russh =
     \<lparr>rx_now = (\<lambda>w. w), rx_fresh_id = (\<lambda>w. (''id'', w)), rx_lock = (\<lambda>_ sh w. (Some sh, w)),
      rx_load_key = (\<lambda>_ _. Inr ''key''),
      rx_connect = (\<lambda>_ _ handler _ w.
        (([PublicKey (Some [1]) ''ssh-ed25519''],
          Some (if handler (PublicKey (Some [1]) ''ssh-ed25519'') then Inr 7 else Inl (Russh OtherRussh ''rejected''))), w)),
      rx_rsa_hash = (\<lambda>_ _ w. (Some (Inr None), w)), rx_authenticate = (\<lambda>_ _ _ _ w. (Some (Inr True), w)),
      rx_sleep = (\<lambda>_ _ w. (Some (), w)), rx_nanos = (\<lambda>_. 0), rx_pid = 42, rx_is_closed = (\<lambda>_ _. False),
      rx_ping = (\<lambda>_ _ w. (Some (Inr ()), w)), rx_disconnect = (\<lambda>_ w. w),
      rx_open_channel = (\<lambda>_ _ w. (Some (Inr 3), w)), rx_exec = (\<lambda>_ _ _ w. (Some (Inr ()), w)),
      rx_data = (\<lambda>_ _ _ w. (Some (Inr ()), w)), rx_eof = (\<lambda>_ _ w. (Some (Inr ()), w)),
      rx_messages = (\<lambda>_ _ w. (([MsgData [104, 105]], True), w)),
      rx_subsystem = (\<lambda>_ _ _ w. (Some (Inr ()), w)), rx_sftp = (\<lambda>_ _ w. (Some (Inr 5), w)),
      rx_create = (\<lambda>_ _ _ w. (Some (Inr 6), w)), rx_open = (\<lambda>_ _ _ w. (Some (Inr 6), w)),
      rx_write = (\<lambda>_ _ _ w. (Some (Inr ()), w)), rx_shutdown = (\<lambda>_ _ w. (Some (Inr ()), w)),
      rx_reads = (\<lambda>_ _ _ w. ([Inr []], w)), rx_local_read = (\<lambda>_ _. Inr [1, 2]),
      rx_local_write = (\<lambda>_ _ w. (Inr (), w)), rx_local_rename = (\<lambda>_ _ w. (Inr (), w)), rx_local_remove = (\<lambda>_ w. w),
      rx_create_dir_all = (\<lambda>_ w. (Inr (), w)), rx_untar = (\<lambda>_ _ w. (Inr (True, []), w)),
      rx_quote = Some, rx_base64 = (\<lambda>_. ''AAAA''), rx_base64_url = (\<lambda>_. ''AAAA''), rx_sha256 = (\<lambda>b. b),
      rx_lossy = (\<lambda>b. map (\<lambda>x. char_of (unat x)) b)\<rparr>"

definition sample_native :: native_config where
  "sample_native =
     \<lparr>nc_host = ''h'', nc_user = None, nc_ssh_port = 22, nc_jump_host = None, nc_key_path = Some ''/k'',
      nc_known_hosts = [\<lparr>kh_path = None, kh_entries =
        [\<lparr>en_revoked = False, en_hosts = [PlainHost ''h'' None], en_key_type = SshEd25519, en_key = ''AAAA''\<rparr>]\<rparr>],
      nc_connect_timeout = 5, nc_keepalive = \<lparr>interval = 1, max_failures = 3\<rparr>,
      nc_reconnect = \<lparr>max_attempts = 3, max_delay = 10, base = 1\<rparr>\<rparr>"

definition sample_state :: "nat native" where
  "sample_state = \<lparr>nv_shared = \<lparr>ss_slot = None, ss_epoch = 0, ss_connections = 0\<rparr>, nv_log = [], nv_world = 1\<rparr>"

definition sample_command :: command_request where
  "sample_command = \<lparr>cr_id = ''r'', cr_deadline = 100, cr_command = ''rm x'', cr_timeout = None\<rparr>"

lemma sample_asks: "asks_for_key sample_russh"
  by (simp add: asks_for_key_def sample_russh_def)

theorem session_needs_trusted_key_witness: "on_trusted_key sample_russh sample_native 7"
proof -
  have "fst (ensure_session sample_russh sample_native 100 100 sample_state) = Some (Inr (1, 7))"
    by code_simp
  then obtain st' where "ensure_session sample_russh sample_native 100 100 sample_state = (Some (Inr (1, 7)), st')"
    by (metis prod.collapse)
  from session_needs_trusted_key [OF sample_asks this] show ?thesis
    by (simp add: sample_state_def)
qed

theorem lost_command_reported_as_completed_witness:
  "\<exists>res. fst (native_run_command sample_russh sample_native sample_command sample_state) = Inr res \<and>
     res_exit_status res = - 1 \<and> res_success res = False"
proof -
  define m where "m = within sample_russh (cr_id sample_command)
      (remaining (clock_of sample_russh sample_state) (cr_deadline sample_command))
      (open_channel sample_russh sample_native (cr_deadline sample_command)) sample_state"
  have "fst m = Inr (1, 3)"
    unfolding m_def by code_simp
  then have m: "m = (Inr (1, 3), snd m)"
    by (metis prod.collapse)
  have "\<exists>res. fst (native_run_command sample_russh sample_native sample_command sample_state) = Inr res \<and>
      res_exit_status res = - 1 \<and> \<not> res_success res \<and>
      nv_shared (snd (native_run_command sample_russh sample_native sample_command sample_state)) = nv_shared (snd m)"
  proof (rule lost_command_reported_as_completed)
    show "\<not> is_expired (clock_of sample_russh sample_state) (cr_deadline sample_command)"
      by code_simp
    show "within sample_russh (cr_id sample_command)
        (remaining (clock_of sample_russh sample_state) (cr_deadline sample_command))
        (open_channel sample_russh sample_native (cr_deadline sample_command)) sample_state = (Inr (1, 3), snd m)"
      using m unfolding m_def .
  qed (simp add: sample_russh_def exit_reported_def)
  then show ?thesis by auto
qed

end
