(* ===== verification/Rpc_Schema.thy ===== *)
theory Rpc_Schema
  imports Errors
begin

text \<open>
  \<open>src/rpc/schema.rs\<close>: the methods the RPC server declares, with their parameters, in the order of the
  source, a definition for each run of methods of one domain.
\<close>

record rpc_param =
  pa_name :: string
  pa_type :: string
  pa_description :: string
  pa_required :: bool

record rpc_method =
  me_name :: string
  me_summary :: string
  me_params :: "rpc_param list"
  me_returns :: string

record rpc_schema =
  sc_version :: string
  sc_methods :: "rpc_method list"

definition schema_new :: "rpc_method list \<Rightarrow> rpc_schema" where
  "schema_new ms = \<lparr>sc_version = ''1.0'', sc_methods = ms\<rparr>"

definition CONFIRM_PARAM :: string where
  "CONFIRM_PARAM = (''Omit on the first call: the reply is a manifest of exactly what would be destroyed, '' @
         ''plus a one-shot token (TTL 300s). Send that token back to carry the delete out. The '' @
         ''token is bound to the manifest '' @ em_dash @
         '' if the design changed in between, it is refused. A human must read the manifest '' @
         ''before the token is used; an agent must not mint, guess, or re-use one on its own.'')"

definition LIB_PARAM :: string where
  "LIB_PARAM = (''Library name. Restricted to the delete allow-set, which is empty until '' @
         ''VB_DELETE_ALLOW_LIBS names libraries '' @ em_dash @
         '' so these methods refuse everything on a stock install. Any library left out of that '' @
         ''list, including the PDK, analogLib and basic, is refused before a manifest is even '' @ ''built.'')"

definition schematic_methods :: "rpc_method list" where
  "schematic_methods =
    [\<lparr>me_name = ''schematic.open_cell_view'', me_summary = ''Open or create a schematic cellview for editing'',
      me_params = [\<lparr>pa_name = ''lib'', pa_type = ''string'',
        pa_description = ''Library name'', pa_required = True\<rparr>,
       \<lparr>pa_name = ''cell'', pa_type = ''string'',
        pa_description = ''Cell name'', pa_required = True\<rparr>,
       \<lparr>pa_name = ''view'', pa_type = ''string'',
        pa_description = ''View name (default: schematic)'', pa_required = False\<rparr>],
      me_returns = ''null on success''\<rparr>,
     \<lparr>me_name = ''schematic.place'', me_summary = ''Place an instance in the open schematic'',
      me_params = [\<lparr>pa_name = ''master'', pa_type = ''string'',
        pa_description = ''Master cell in lib/cell format (e.g. smic13mmrf/p12)'', pa_required = True\<rparr>,
       \<lparr>pa_name = ''name'', pa_type = ''string'',
        pa_description = ''Instance name'', pa_required = True\<rparr>,
       \<lparr>pa_name = ''x'', pa_type = ''integer'',
        pa_description = ''X coordinate'', pa_required = False\<rparr>,
       \<lparr>pa_name = ''y'', pa_type = ''integer'',
        pa_description = ''Y coordinate'', pa_required = False\<rparr>,
       \<lparr>pa_name = ''orient'', pa_type = ''string'',
        pa_description = ''Orientation (R0, R90, R180, R270, MY, MX, etc.)'', pa_required = False\<rparr>],
      me_returns = ''null on success''\<rparr>,
     \<lparr>me_name = ''schematic.move_instance'', me_summary = ''Move a placed instance to an absolute position'',
      me_params = [\<lparr>pa_name = ''name'', pa_type = ''string'',
        pa_description = ''Instance name'', pa_required = True\<rparr>,
       \<lparr>pa_name = ''x'', pa_type = ''number'',
        pa_description = ''Target X coordinate (absolute, same frame as place)'', pa_required = True\<rparr>,
       \<lparr>pa_name = ''y'', pa_type = ''number'',
        pa_description = ''Target Y coordinate (absolute, same frame as place)'', pa_required = True\<rparr>,
       \<lparr>pa_name = ''orient'', pa_type = ''string'',
        pa_description = ''Absolute orientation (R0, R90, R180, R270, MY, MX, ...); omit to keep the current one'', pa_required = False\<rparr>,
       \<lparr>pa_name = ''with_stubs'', pa_type = ''boolean'',
        pa_description = (''Default true: also move the wire stubs sitting on this instance'' @ [CHR 0x27] @
         ''s terminals, so the symbol stays connected to its own wiring. Set false to move the '' @
         ''symbol alone and leave the wires where they are. A stub shared with another instance '' @
         ''is never moved '' @ em_dash @
         '' the whole call is refused instead, since moving it would tear the far end off.''), pa_required = False\<rparr>],
      me_returns = ''{status, name, x, y, orient, with_stubs, moved_stubs}''\<rparr>,
     \<lparr>me_name = ''schematic.wire'', me_summary = ''Create a wire between named net and coordinates'',
      me_params = [\<lparr>pa_name = ''net'', pa_type = ''string'',
        pa_description = ''Net name'', pa_required = True\<rparr>,
       \<lparr>pa_name = ''points'', pa_type = ''array'',
        pa_description = ''Points as x1,y1 x2,y2 ...'', pa_required = True\<rparr>],
      me_returns = ''null on success''\<rparr>,
     \<lparr>me_name = ''schematic.label'', me_summary = ''Add a net label at coordinates'',
      me_params = [\<lparr>pa_name = ''net'', pa_type = ''string'',
        pa_description = ''Net name'', pa_required = True\<rparr>,
       \<lparr>pa_name = ''x'', pa_type = ''integer'',
        pa_description = ''X coordinate'', pa_required = False\<rparr>,
       \<lparr>pa_name = ''y'', pa_type = ''integer'',
        pa_description = ''Y coordinate'', pa_required = False\<rparr>],
      me_returns = ''null on success''\<rparr>]"

definition schematic_methods_2 :: "rpc_method list" where
  "schematic_methods_2 =
    [\<lparr>me_name = ''schematic.pin'', me_summary = ''Add a pin to a net'',
      me_params = [\<lparr>pa_name = ''net'', pa_type = ''string'',
        pa_description = ''Net name'', pa_required = True\<rparr>,
       \<lparr>pa_name = ''direction'', pa_type = ''string'',
        pa_description = ''Pin direction: input, output, inputOutput, switch, jumper'', pa_required = True\<rparr>,
       \<lparr>pa_name = ''x'', pa_type = ''integer'',
        pa_description = ''X coordinate'', pa_required = False\<rparr>,
       \<lparr>pa_name = ''y'', pa_type = ''integer'',
        pa_description = ''Y coordinate'', pa_required = False\<rparr>,
       \<lparr>pa_name = ''orient'', pa_type = ''string'',
        pa_description = (''Pin orientation, default R0. One of R0, R90, R180, R270, MY, MYR90, MX, MXR90. The '' @ ''pin symbol'' @
         [CHR 0x27] @ ''s box sits to one side of its origin, so this decides which direction the wire '' @
         ''reaches the pin from '' @ em_dash @ '' R0 leaves to the right, R270 downward.''), pa_required = False\<rparr>,
       \<lparr>pa_name = ''sigtype'', pa_type = ''string'',
        pa_description = (''Signal type recorded on the terminal: analog, clock, ground, power, reset, scan, '' @
         ''signal, tieHi, tieLo, tieOff. Left out, the pin inherits the sigType of an existing '' @
         ''wire of the same name and falls back to signal '' @ em_dash @
         '' that inheritance, not a fixed default, is what omitting it means. Set it to match '' @ ''the symbol'' @
         [CHR 0x27] @ ''s terminal or schCheck reports a signal type mismatch that never clears.''), pa_required = False\<rparr>],
      me_returns = ''{status, net, direction, orient, sigtype}''\<rparr>,
     \<lparr>me_name = ''schematic.assign_net'', me_summary = (''Connect an instance terminal to a named net, logically only '' @ em_dash @
         '' ERASED by the next schematic.check or GUI Check&Save (connectivity is derived from '' @
         ''geometry); use schematic.label_term to build connectivity that lasts''),
      me_params = [\<lparr>pa_name = ''inst'', pa_type = ''string'',
        pa_description = ''Instance name (e.g. M0)'', pa_required = True\<rparr>,
       \<lparr>pa_name = ''term'', pa_type = ''string'',
        pa_description = ''Instance terminal name (e.g. D, G, S, B, PLUS, MINUS)'', pa_required = True\<rparr>,
       \<lparr>pa_name = ''net'', pa_type = ''string'',
        pa_description = ''Net name to connect the terminal to'', pa_required = True\<rparr>],
      me_returns = ''JSON object {instance, term, net, status}''\<rparr>]"

definition symbol_methods :: "rpc_method list" where
  "symbol_methods =
    [\<lparr>me_name = ''symbol.inspect'', me_summary = ''Inspect a symbol view'',
      me_params = [\<lparr>pa_name = ''lib'', pa_type = ''string'',
        pa_description = ''Library'', pa_required = True\<rparr>,
       \<lparr>pa_name = ''cell'', pa_type = ''string'',
        pa_description = ''Cell'', pa_required = True\<rparr>,
       \<lparr>pa_name = ''view'', pa_type = ''string'',
        pa_description = ''Symbol view'', pa_required = False\<rparr>,
       \<lparr>pa_name = ''view_type'', pa_type = ''string'',
        pa_description = ''View type'', pa_required = False\<rparr>],
      me_returns = ''Symbol inspection result''\<rparr>,
     \<lparr>me_name = ''symbol.generate'', me_summary = ''Generate a symbol from a schematic'',
      me_params = [\<lparr>pa_name = ''lib'', pa_type = ''string'',
        pa_description = ''Library'', pa_required = True\<rparr>,
       \<lparr>pa_name = ''cell'', pa_type = ''string'',
        pa_description = ''Cell'', pa_required = True\<rparr>,
       \<lparr>pa_name = ''schematic_view'', pa_type = ''string'',
        pa_description = ''Source schematic view'', pa_required = False\<rparr>,
       \<lparr>pa_name = ''symbol_view'', pa_type = ''string'',
        pa_description = ''Target symbol view'', pa_required = False\<rparr>,
       \<lparr>pa_name = ''sort_pins'', pa_type = ''string'',
        pa_description = ''alphanumeric or geometric'', pa_required = False\<rparr>],
      me_returns = ''Symbol generation result''\<rparr>]"

definition library_methods :: "rpc_method list" where
  "library_methods =
    [\<lparr>me_name = ''library.list'', me_summary = ''List registered OA libraries (read-only)'',
      me_params = [],
      me_returns = ''JSON array of library names''\<rparr>,
     \<lparr>me_name = ''library.list_cells'', me_summary = ''List the cells in a library with their views (read-only)'',
      me_params = [\<lparr>pa_name = ''lib'', pa_type = ''string'',
        pa_description = ''Library name, as reported by library.list'', pa_required = True\<rparr>,
       \<lparr>pa_name = ''pattern'', pa_type = ''string'',
        pa_description = (''SKILL regular expression matched against the cell name; a plain word acts as a '' @ ''substring filter''), pa_required = False\<rparr>],
      me_returns = (''{lib, count, cells:[{name, views:['' @ [CHR 0xE2, CHR 0x80, CHR 0xA6] @
         '']}]}; errors if the library does not exist, empty list if it has no cells'')\<rparr>]"

definition schematic_methods_3 :: "rpc_method list" where
  "schematic_methods_3 =
    [\<lparr>me_name = ''schematic.save'', me_summary = ''Save the current schematic'',
      me_params = [],
      me_returns = ''null on success''\<rparr>,
     \<lparr>me_name = ''schematic.check'', me_summary = (''Run schematic check (schCheck) '' @ em_dash @
         '' re-extracts connectivity from geometry, so any connection made only with '' @
         ''schematic.assign_net is discarded here''),
      me_params = [],
      me_returns = ''schCheck output''\<rparr>,
     \<lparr>me_name = ''schematic.list_instances'', me_summary = ''List all instances in the open cellview'',
      me_params = [],
      me_returns = ''JSON array of instances''\<rparr>,
     \<lparr>me_name = ''schematic.list_nets'', me_summary = ''List all nets in the open cellview'',
      me_params = [],
      me_returns = ''JSON array of net names''\<rparr>,
     \<lparr>me_name = ''schematic.list_pins'', me_summary = ''List all pins in the open cellview'',
      me_params = [],
      me_returns = ''JSON array of pins''\<rparr>,
     \<lparr>me_name = ''schematic.get_params'', me_summary = ''Get parameters of a specific instance'',
      me_params = [\<lparr>pa_name = ''inst'', pa_type = ''string'',
        pa_description = ''Instance name (e.g. M1)'', pa_required = True\<rparr>],
      me_returns = (''JSON object of param name'' @ [CHR 0xE2, CHR 0x86, CHR 0x92] @ ''value'')\<rparr>,
     \<lparr>me_name = ''schematic.list_cdf_params'', me_summary = (''List an instance'' @ [CHR 0x27] @ ''s CDF parameters with their GUI labels, units and defaults''),
      me_params = [\<lparr>pa_name = ''inst'', pa_type = ''string'',
        pa_description = ''Instance name (e.g. M1)'', pa_required = True\<rparr>],
      me_returns = (''JSON array of {name, prompt (the GUI label), type, units, default, value, choices? '' @
         ''(cyclic values), description?} '' @ em_dash @ '' the authoritative parameter list for this instance'' @
         [CHR 0x27] @ ''s master, and the only source that covers PDK devices, which no Cadence manual '' @
         ''documents. `description` is empty on analogLib, so read prose from libref.info and '' @
         ''treat this as the final word on names and values.'')\<rparr>,
     \<lparr>me_name = ''schematic.set_param'', me_summary = ''Set one CDF parameter of a specific instance'',
      me_params = [\<lparr>pa_name = ''inst'', pa_type = ''string'',
        pa_description = ''Instance name (e.g. M1)'', pa_required = True\<rparr>,
       \<lparr>pa_name = ''param'', pa_type = ''string'',
        pa_description = ''Parameter name (e.g. w, l, nf, fingers)'', pa_required = True\<rparr>,
       \<lparr>pa_name = ''value'', pa_type = ''string'',
        pa_description = ''New value (e.g. 4u)'', pa_required = True\<rparr>],
      me_returns = ''JSON object {instance, param, value, status}''\<rparr>,
     \<lparr>me_name = ''schematic.delete_instance'', me_summary = ''Remove one instance from the open schematic (two-phase; in memory until cell.save)'',
      me_params = [\<lparr>pa_name = ''inst'', pa_type = ''string'',
        pa_description = ''Instance name (e.g. M1)'', pa_required = True\<rparr>,
       \<lparr>pa_name = ''confirm'', pa_type = ''string'',
        pa_description = CONFIRM_PARAM, pa_required = False\<rparr>],
      me_returns = (''Without '' @ [CHR 0x27] @ ''confirm'' @ [CHR 0x27] @
         '': {status: confirm_required, manifest, confirm_token, expires_in_s}. With it: '' @
         ''{status: ok, instance, master, saved: false} '' @ em_dash @ '' the edit is in memory, '' @ [CHR 0x27] @
         ''cell.save'' @ [CHR 0x27] @ '' is what writes it.'')\<rparr>,
     \<lparr>me_name = ''schematic.delete_prop'', me_summary = (''Remove one property from an instance in the open schematic (two-phase; in memory '' @ ''until cell.save)''),
      me_params = [\<lparr>pa_name = ''inst'', pa_type = ''string'',
        pa_description = ''Instance name (e.g. VIN)'', pa_required = True\<rparr>,
       \<lparr>pa_name = ''prop'', pa_type = ''string'',
        pa_description = ''Property name to remove, as reported by schematic.get_params'', pa_required = True\<rparr>,
       \<lparr>pa_name = ''confirm'', pa_type = ''string'',
        pa_description = CONFIRM_PARAM, pa_required = False\<rparr>],
      me_returns = (''Without '' @ [CHR 0x27] @ ''confirm'' @ [CHR 0x27] @
         '': {status: confirm_required, manifest, confirm_token, expires_in_s} '' @ em_dash @
         '' the manifest carries the current value. With it: {status: ok, prop, was, saved: false}.'')\<rparr>]"

definition schematic_methods_4 :: "rpc_method list" where
  "schematic_methods_4 =
    [\<lparr>me_name = ''schematic.delete_figure'', me_summary = (''Remove one wire (and the label riding on it) from the open schematic (two-phase; in '' @
         ''memory until cell.save)''),
      me_params = [\<lparr>pa_name = ''inst'', pa_type = ''string'',
        pa_description = (''Terminal addressing, half 1: instance name (e.g. M1). Use with '' @ [CHR 0x27] @ ''term'' @ [CHR 0x27] @
         '' to delete the stub schematic.label_term drew on that terminal.''), pa_required = False\<rparr>,
       \<lparr>pa_name = ''term'', pa_type = ''string'',
        pa_description = (''Terminal addressing, half 2: terminal name on the instance'' @ [CHR 0x27] @
         ''s master (e.g. G, D, PLUS).''), pa_required = False\<rparr>,
       \<lparr>pa_name = ''x'', pa_type = ''number'',
        pa_description = (''Point addressing, half 1: X of a point the wire passes through. For a wire with no '' @
         ''terminal and no label to name it by.''), pa_required = False\<rparr>,
       \<lparr>pa_name = ''y'', pa_type = ''number'',
        pa_description = ''Point addressing, half 2: Y of that point.'', pa_required = False\<rparr>,
       \<lparr>pa_name = ''confirm'', pa_type = ''string'',
        pa_description = CONFIRM_PARAM, pa_required = False\<rparr>],
      me_returns = (''Give exactly one addressing pair: '' @ [CHR 0x27] @ ''inst'' @ [CHR 0x27] @ ''+'' @ [CHR 0x27] @
         ''term'' @ [CHR 0x27] @ '', or '' @ [CHR 0x27] @ ''x'' @ [CHR 0x27] @ ''+'' @ [CHR 0x27] @ ''y'' @
         [CHR 0x27] @ ''. Without '' @ [CHR 0x27] @ ''confirm'' @ [CHR 0x27] @
         '': {status: confirm_required, manifest, confirm_token, expires_in_s} '' @ em_dash @
         '' the manifest carries the wire'' @ [CHR 0x27] @
         ''s bBox, the labels that go with it, and the total figure count. With it: {status: '' @
         ''ok, target, labels, figures, saved: false}. The label is a child of the wire, so one '' @
         ''delete takes both.'')\<rparr>]"

definition window_methods :: "rpc_method list" where
  \<open>window_methods =
    [\<lparr>me_name = ''window.list'', me_summary = ''List all open Virtuoso windows'',
      me_params = [],
      me_returns = ''JSON array of window names''\<rparr>,
     \<lparr>me_name = ''window.screenshot'', me_summary = ''Capture screenshot of current window'',
      me_params = [\<lparr>pa_name = ''path'', pa_type = ''string'',
        pa_description = ''Output PNG file path'', pa_required = True\<rparr>,
       \<lparr>pa_name = ''window_id'', pa_type = ''string'',
        pa_description = (''Window id (dismiss_id from list_windows_x11). Used as the fallback capture target '' @
         ''when the X server refuses a root-window grab.''), pa_required = False\<rparr>,
       \<lparr>pa_name = ''display'', pa_type = ''string'',
        pa_description = ''Override the detected DISPLAY'', pa_required = False\<rparr>],
      me_returns = (''{"status": "saved"|"capture-failed", "path": <png path>, "capture": "skill"|"x11", '' @
         ''"window_id": <id>, "error": <reason>}'')\<rparr>,
     \<lparr>me_name = ''window.screenshot_by_pattern'', me_summary = ''Capture screenshot of window matching regex pattern'',
      me_params = [\<lparr>pa_name = ''path'', pa_type = ''string'',
        pa_description = ''Output PNG file path'', pa_required = True\<rparr>,
       \<lparr>pa_name = ''pattern'', pa_type = ''string'',
        pa_description = ''Regex pattern to match window name'', pa_required = True\<rparr>],
      me_returns = ''file path on success, or no-match''\<rparr>,
     \<lparr>me_name = ''window.dismiss_dialog'', me_summary = ''Dismiss the current blocking dialog'',
      me_params = [\<lparr>pa_name = ''action'', pa_type = ''string'',
        pa_description = (''Action: '' @ [CHR 0x27] @ ''ok'' @ [CHR 0x27] @ '' or '' @ [CHR 0x27] @ ''cancel'' @ [CHR 0x27]), pa_required = False\<rparr>],
      me_returns = ''action taken or no-dialog''\<rparr>,
     \<lparr>me_name = ''window.get_dialog_info'', me_summary = ''Get current dialog name without dismissing'',
      me_params = [],
      me_returns = ''dialog name or null''\<rparr>,
     \<lparr>me_name = ''window.dismiss_dialog_x11'', me_summary = ''Dismiss blocking dialog(s) via X11 SSH bypass (works when SKILL is deadlocked)'',
      me_params = [\<lparr>pa_name = ''action'', pa_type = ''string'',
        pa_description = ''enter|escape|alt-y|alt-n|alt-o (default: enter)'', pa_required = False\<rparr>,
       \<lparr>pa_name = ''dry_run'', pa_type = ''bool'',
        pa_description = ''List dialogs without sending keypress'', pa_required = False\<rparr>,
       \<lparr>pa_name = ''display'', pa_type = ''string'',
        pa_description = ''Override the detected DISPLAY'', pa_required = False\<rparr>,
       \<lparr>pa_name = ''window_id'', pa_type = ''string'',
        pa_description = ''Dismiss only this X11 window id instead of every dialog-sized window'', pa_required = False\<rparr>],
      me_returns = ''{status, found, dismissed, errors, display, raw_log}''\<rparr>,
     \<lparr>me_name = ''window.geometry'', me_summary = (''Client-area geometry of one X11 window '' @ em_dash @
         '' the coordinate space action-x11 bounds-checks clicks against. Note: '' @
         ''list_windows_x11 reports the window FRAME geometry instead (WM decorations '' @
         ''included), so the two are not interchangeable.''),
      me_params = [\<lparr>pa_name = ''window_id'', pa_type = ''string'',
        pa_description = ''X11 window id (e.g. 0x2e01f16) from list_windows_x11'', pa_required = True\<rparr>,
       \<lparr>pa_name = ''display'', pa_type = ''string'',
        pa_description = ''Override the detected DISPLAY'', pa_required = False\<rparr>],
      me_returns = ''{status, window_id, display, geometry}''\<rparr>,
     \<lparr>me_name = ''window.list_windows_x11'', me_summary = ''Enumerate all Virtuoso-related X11 windows (no keypress sent)'',
      me_params = [\<lparr>pa_name = ''display'', pa_type = ''string'',
        pa_description = ''Override the detected DISPLAY'', pa_required = False\<rparr>],
      me_returns = ''{display, xauthority, windows, count}''\<rparr>]\<close>

definition window_methods_2 :: "rpc_method list" where
  "window_methods_2 =
    [\<lparr>me_name = ''window.dismiss_window_x11'', me_summary = (''Dismiss a SPECIFIC X11 window by id (typically the dismiss_id from '' @
         ''list_windows_x11). Bypasses the dialog-size filter.''),
      me_params = [\<lparr>pa_name = ''window_id'', pa_type = ''string'',
        pa_description = (''X11 window id (e.g. 0x2e01f16) from list_windows_x11. Required unless pid is given; '' @
         ''wins if both are.''), pa_required = False\<rparr>,
       \<lparr>pa_name = ''pid'', pa_type = ''integer'',
        pa_description = ''Resolve the window by owning PID instead. Errors if it matches zero or several windows.'', pa_required = False\<rparr>,
       \<lparr>pa_name = ''action'', pa_type = ''string'',
        pa_description = ''enter|escape|alt-y|alt-n|alt-o (default: enter)'', pa_required = False\<rparr>,
       \<lparr>pa_name = ''display'', pa_type = ''string'',
        pa_description = ''Override the detected DISPLAY'', pa_required = False\<rparr>],
      me_returns = ''{status, dismissed, errors, display, raw_log}''\<rparr>]"

definition cell_methods :: "rpc_method list" where
  \<open>cell_methods =
    [\<lparr>me_name = ''cell.open'', me_summary = ''Open a cellview'',
      me_params = [\<lparr>pa_name = ''lib'', pa_type = ''string'',
        pa_description = ''Library name'', pa_required = True\<rparr>,
       \<lparr>pa_name = ''cell'', pa_type = ''string'',
        pa_description = ''Cell name'', pa_required = True\<rparr>,
       \<lparr>pa_name = ''view'', pa_type = ''string'',
        pa_description = ''View name'', pa_required = False\<rparr>,
       \<lparr>pa_name = ''mode'', pa_type = ''string'',
        pa_description = ''Open mode: r(ead), o(verwrite), a(ppend)'', pa_required = False\<rparr>],
      me_returns = ''null on success''\<rparr>,
     \<lparr>me_name = ''cell.save'', me_summary = ''Save the current cellview'',
      me_params = [],
      me_returns = ''null on success''\<rparr>,
     \<lparr>me_name = ''cell.close'', me_summary = ''Close the current cellview'',
      me_params = [\<lparr>pa_name = ''save'', pa_type = ''boolean'',
        pa_description = (''Save before closing (default true). Pass false to discard edits (silently, via '' @
         ''dbReopen to read mode). One of the two must happen: closing a modified cellview '' @
         ''otherwise pops a modal that freezes the bridge.''), pa_required = False\<rparr>],
      me_returns = ''null on success''\<rparr>,
     \<lparr>me_name = ''cell.info'', me_summary = ''Get current cellview info (lib/cell/view)'',
      me_params = [],
      me_returns = ''JSON object with lib, cell, view''\<rparr>,
     \<lparr>me_name = ''cell.list_open'', me_summary = ''List every cellview this Virtuoso holds open, and whether a window shows it'',
      me_params = [],
      me_returns = (''JSON array of {lib, cell, view, mode, window}. mode "a" holds an edit lock, "r" does '' @
         ''not; a row with mode "a" and window false is an orphan that no GUI action can close '' @
         ''and that locks a human out of that cell.'')\<rparr>,
     \<lparr>me_name = ''cell.create'', me_summary = ''Create a new cellview'',
      me_params = [\<lparr>pa_name = ''lib'', pa_type = ''string'',
        pa_description = ''Library name'', pa_required = True\<rparr>,
       \<lparr>pa_name = ''cell'', pa_type = ''string'',
        pa_description = ''Cell name'', pa_required = True\<rparr>,
       \<lparr>pa_name = ''view'', pa_type = ''string'',
        pa_description = ''View name (default schematic)'', pa_required = False\<rparr>,
       \<lparr>pa_name = ''view_type'', pa_type = ''string'',
        pa_description = (''DFII cellViewType, needed to create the view. Inferred for schematic, symbol '' @
         ''(schematicSymbol), layout (maskLayout) and netlist; required for any other view name.''), pa_required = False\<rparr>],
      me_returns = ''{lib, cell, view, view_type}; errors if the view already exists''\<rparr>,
     \<lparr>me_name = ''cell.read_path'', me_summary = ''Return the on-disk readPath of a registered OA library'',
      me_params = [\<lparr>pa_name = ''lib'', pa_type = ''string'',
        pa_description = ''Library name (must be registered in remote cds.lib)'', pa_required = True\<rparr>],
      me_returns = ''{lib, read_path: string|null}''\<rparr>,
     \<lparr>me_name = ''cell.delete_view'', me_summary = ''Delete one view of a cell from disk (two-phase, irreversible)'',
      me_params = [\<lparr>pa_name = ''lib'', pa_type = ''string'',
        pa_description = LIB_PARAM, pa_required = True\<rparr>,
       \<lparr>pa_name = ''cell'', pa_type = ''string'',
        pa_description = ''Cell name'', pa_required = True\<rparr>,
       \<lparr>pa_name = ''view'', pa_type = ''string'',
        pa_description = ''View to delete (e.g. schematic, symbol)'', pa_required = True\<rparr>,
       \<lparr>pa_name = ''confirm'', pa_type = ''string'',
        pa_description = CONFIRM_PARAM, pa_required = False\<rparr>],
      me_returns = (''Without '' @ [CHR 0x27] @ ''confirm'' @ [CHR 0x27] @
         '': {status: confirm_required, manifest: [{lib, cell, view, path, instances, '' @
         ''writable}], confirm_token, expires_in_s}. With it: {status: ok, deleted, path}. '' @
         ''Refuses while the view is open in Virtuoso.'')\<rparr>]\<close>

definition cell_methods_2 :: "rpc_method list" where
  "cell_methods_2 =
    [\<lparr>me_name = ''cell.delete'', me_summary = ''Delete a cell and every view of it from disk (two-phase, irreversible)'',
      me_params = [\<lparr>pa_name = ''lib'', pa_type = ''string'',
        pa_description = LIB_PARAM, pa_required = True\<rparr>,
       \<lparr>pa_name = ''cell'', pa_type = ''string'',
        pa_description = (''Cell name. Required and non-empty '' @ em_dash @
         '' without it the underlying ddGetObj would return the *library*, and ddDeleteObj on a '' @
         ''library deletes the directory and its cds.lib entry.''), pa_required = True\<rparr>,
       \<lparr>pa_name = ''confirm'', pa_type = ''string'',
        pa_description = CONFIRM_PARAM, pa_required = False\<rparr>],
      me_returns = (''Without '' @ [CHR 0x27] @ ''confirm'' @ [CHR 0x27] @
         '': {status: confirm_required, manifest: [{lib, cell, views, path, instances, '' @
         ''writable}], confirm_token, expires_in_s} '' @ em_dash @ '' '' @ [CHR 0x27] @ ''views'' @ [CHR 0x27] @
         '' is everything that would go. With it: {status: ok, deleted, path}. Refuses while '' @
         ''any view of the cell is open in Virtuoso.'')\<rparr>]"

definition maestro_methods :: "rpc_method list" where
  \<open>maestro_methods =
    [\<lparr>me_name = ''maestro.open_session'', me_summary = ''Open a Maestro session'',
      me_params = [\<lparr>pa_name = ''lib'', pa_type = ''string'',
        pa_description = ''Library name'', pa_required = True\<rparr>,
       \<lparr>pa_name = ''cell'', pa_type = ''string'',
        pa_description = ''Cell name'', pa_required = True\<rparr>,
       \<lparr>pa_name = ''view'', pa_type = ''string'',
        pa_description = ''View name'', pa_required = False\<rparr>,
       \<lparr>pa_name = ''mode'', pa_type = ''string'',
        pa_description = (''"r" (default) opens read-only and takes NO edit lock, so a human keeps edit access '' @
         ''to the cellview; the setup is still fully readable. "a" opens editable and TAKES the '' @ ''edit lock '' @
         em_dash @ '' and a SKILL-opened session has no window, so that locks a human out of the cell '' @
         ''with nothing to click. Prefer "r" plus maestro.set_session_mode around the writes. '' @
         ''Note "a" is required to open a maestro view that does not exist yet, since '' @
         ''maeOpenSetup creates it and cannot create in read mode.''), pa_required = False\<rparr>],
      me_returns = ''session handle string''\<rparr>,
     \<lparr>me_name = ''maestro.set_session_mode'', me_summary = ''Switch an open Maestro session between read-only and editable'',
      me_params = [\<lparr>pa_name = ''session'', pa_type = ''string'',
        pa_description = ''Session handle from maestro.open_session'', pa_required = True\<rparr>,
       \<lparr>pa_name = ''mode'', pa_type = ''string'',
        pa_description = (''"a" takes the edit lock (maeMakeEditable), "r" hands it back (maeMakeReadonly). Both '' @
         ''act in place with no reopen, so hold "a" only across the writes themselves.''), pa_required = True\<rparr>],
      me_returns = (''{status, session, mode} '' @ em_dash @ '' the mode now in effect'')\<rparr>,
     \<lparr>me_name = ''maestro.close_session'', me_summary = ''Close a Maestro session'',
      me_params = [\<lparr>pa_name = ''session'', pa_type = ''string'',
        pa_description = ''Session ID (e.g. fnxSession4)'', pa_required = True\<rparr>],
      me_returns = ''null on success''\<rparr>,
     \<lparr>me_name = ''maestro.list_sessions'', me_summary = ''List all active Maestro sessions'',
      me_params = [],
      me_returns = ''JSON array of session objects''\<rparr>,
     \<lparr>me_name = ''maestro.list_tests'', me_summary = ''List the test names in a Maestro session'',
      me_params = [\<lparr>pa_name = ''session'', pa_type = ''string'',
        pa_description = ''Session ID (e.g. fnxSession4)'', pa_required = True\<rparr>],
      me_returns = ''JSON array of test-name strings''\<rparr>,
     \<lparr>me_name = ''maestro.list_corners'', me_summary = (''List the corner and corner-group names in a Maestro session'' @ [CHR 0x27] @ ''s setup''),
      me_params = [\<lparr>pa_name = ''session'', pa_type = ''string'',
        pa_description = ''Session ID (e.g. fnxSession4)'', pa_required = True\<rparr>],
      me_returns = (''JSON array of corner names as they appear in ADE Assembler (e.g. C0, Nominal) '' @ em_dash @
         '' these are setup labels, not PDK model sections; maestro.create_corner_netlist takes '' @
         ''one of these. Empty array if the setup defines no corners; errors if the session '' @ ''does not exist'')\<rparr>,
     \<lparr>me_name = ''maestro.set_var'', me_summary = ''Set a design variable'',
      me_params = [\<lparr>pa_name = ''name'', pa_type = ''string'',
        pa_description = ''Variable name'', pa_required = True\<rparr>,
       \<lparr>pa_name = ''value'', pa_type = ''string'',
        pa_description = ''Variable value'', pa_required = True\<rparr>],
      me_returns = ''null on success''\<rparr>,
     \<lparr>me_name = ''maestro.get_var'', me_summary = ''Get a design variable'',
      me_params = [\<lparr>pa_name = ''name'', pa_type = ''string'',
        pa_description = ''Variable name'', pa_required = True\<rparr>],
      me_returns = ''variable value string''\<rparr>,
     \<lparr>me_name = ''maestro.list_vars'', me_summary = ''List all Assembler-global design variables'',
      me_params = [],
      me_returns = ''JSON array of {name, value}''\<rparr>]\<close>

definition maestro_methods_2 :: "rpc_method list" where
  "maestro_methods_2 =
    [\<lparr>me_name = ''maestro.delete_var'', me_summary = ''Delete an Assembler-global design variable'',
      me_params = [\<lparr>pa_name = ''name'', pa_type = ''string'',
        pa_description = ''Variable name'', pa_required = True\<rparr>],
      me_returns = ''{status}''\<rparr>,
     \<lparr>me_name = ''maestro.delete_output'', me_summary = (''Delete an output from a test'' @ [CHR 0x27] @ ''s setup''),
      me_params = [\<lparr>pa_name = ''name'', pa_type = ''string'',
        pa_description = ''Output name'', pa_required = True\<rparr>,
       \<lparr>pa_name = ''test'', pa_type = ''string'',
        pa_description = ''Test name'', pa_required = True\<rparr>],
      me_returns = ''{status}''\<rparr>,
     \<lparr>me_name = ''maestro.delete_analysis'', me_summary = ''Delete an analysis from the current test'',
      me_params = [\<lparr>pa_name = ''analysis'', pa_type = ''string'',
        pa_description = ''Analysis type (e.g. ac, dc, tran)'', pa_required = True\<rparr>],
      me_returns = ''{status}''\<rparr>,
     \<lparr>me_name = ''maestro.run'', me_summary = ''Run simulation asynchronously'',
      me_params = [\<lparr>pa_name = ''session'', pa_type = ''string'',
        pa_description = ''Session ID'', pa_required = True\<rparr>],
      me_returns = ''null on success''\<rparr>,
     \<lparr>me_name = ''maestro.save'', me_summary = ''Save Maestro setup to disk'',
      me_params = [\<lparr>pa_name = ''session'', pa_type = ''string'',
        pa_description = ''Session ID'', pa_required = True\<rparr>],
      me_returns = ''null on success''\<rparr>,
     \<lparr>me_name = ''maestro.export'', me_summary = ''Export results to CSV'',
      me_params = [\<lparr>pa_name = ''session'', pa_type = ''string'',
        pa_description = ''Session ID'', pa_required = True\<rparr>,
       \<lparr>pa_name = ''path'', pa_type = ''string'',
        pa_description = ''Output CSV file path'', pa_required = True\<rparr>,
       \<lparr>pa_name = ''test_name'', pa_type = ''string'',
        pa_description = ''Test name (optional)'', pa_required = False\<rparr>],
      me_returns = ''null on success''\<rparr>,
     \<lparr>me_name = ''maestro.open_results'', me_summary = ''Open simulation results for a history run'',
      me_params = [\<lparr>pa_name = ''history'', pa_type = ''string'',
        pa_description = ''History name (e.g. ExplorerRun.0)'', pa_required = True\<rparr>],
      me_returns = ''null on success''\<rparr>,
     \<lparr>me_name = ''maestro.close_results'', me_summary = ''Close the currently open simulation results'',
      me_params = [],
      me_returns = ''null on success''\<rparr>,
     \<lparr>me_name = ''maestro.get_result_tests'', me_summary = ''List all test names with results'',
      me_params = [],
      me_returns = ''JSON array of test names''\<rparr>,
     \<lparr>me_name = ''maestro.get_result_outputs'', me_summary = ''List all output names for a test'',
      me_params = [\<lparr>pa_name = ''test'', pa_type = ''string'',
        pa_description = ''Test name'', pa_required = True\<rparr>],
      me_returns = ''JSON array of output names''\<rparr>,
     \<lparr>me_name = ''maestro.get_output_value'', me_summary = ''Get the value of a simulation output'',
      me_params = [\<lparr>pa_name = ''name'', pa_type = ''string'',
        pa_description = ''Output name'', pa_required = True\<rparr>,
       \<lparr>pa_name = ''test'', pa_type = ''string'',
        pa_description = ''Test name'', pa_required = True\<rparr>,
       \<lparr>pa_name = ''corner'', pa_type = ''string'',
        pa_description = ''Corner name (optional)'', pa_required = False\<rparr>],
      me_returns = ''value as string''\<rparr>]"

definition maestro_methods_3 :: "rpc_method list" where
  \<open>maestro_methods_3 =
    [\<lparr>me_name = ''maestro.get_history_list'', me_summary = ''List available simulation history runs'',
      me_params = [],
      me_returns = ''JSON array of history names''\<rparr>,
     \<lparr>me_name = ''maestro.get_analyses'', me_summary = ''Get enabled analysis types for a test'',
      me_params = [\<lparr>pa_name = ''session'', pa_type = ''string'',
        pa_description = ''Session ID'', pa_required = True\<rparr>,
       \<lparr>pa_name = ''test'', pa_type = ''string'',
        pa_description = (''Test name. Optional only when the session holds exactly one test; with several it is '' @
         ''required, because analyses are per-test and picking one silently would report '' @ ''another test'' @
         [CHR 0x27] @ ''s setup.''), pa_required = False\<rparr>],
      me_returns = ''analysis types string''\<rparr>,
     \<lparr>me_name = ''maestro.get_outputs'', me_summary = ''List all outputs for a test'',
      me_params = [\<lparr>pa_name = ''test'', pa_type = ''string'',
        pa_description = ''Test name'', pa_required = True\<rparr>],
      me_returns = ''JSON array of output objects''\<rparr>,
     \<lparr>me_name = ''maestro.get_sim_messages'', me_summary = ''Get simulation log messages'',
      me_params = [\<lparr>pa_name = ''session'', pa_type = ''string'',
        pa_description = ''Session ID'', pa_required = True\<rparr>],
      me_returns = ''messages string''\<rparr>,
     \<lparr>me_name = ''maestro.set_analysis'', me_summary = ''Set simulation analysis parameters'',
      me_params = [\<lparr>pa_name = ''session'', pa_type = ''string'',
        pa_description = ''Session ID'', pa_required = True\<rparr>,
       \<lparr>pa_name = ''type'', pa_type = ''string'',
        pa_description = ''Analysis type (e.g. ac, tran, dc)'', pa_required = True\<rparr>,
       \<lparr>pa_name = ''options'', pa_type = ''string'',
        pa_description = (''Options alist (e.g. '' @ [CHR 0x27] @ ''((freq "1k"))'' @ [CHR 0x27] @ '')''), pa_required = False\<rparr>,
       \<lparr>pa_name = ''test'', pa_type = ''string'',
        pa_description = (''Test the analysis belongs to. Optional only when the session holds exactly one test; '' @
         ''with several it is required, since maeSetAnalysis is per-test and would otherwise '' @
         ''configure whichever test comes first.''), pa_required = False\<rparr>],
      me_returns = ''null on success''\<rparr>,
     \<lparr>me_name = ''maestro.add_output'', me_summary = ''Add a measurement output'',
      me_params = [\<lparr>pa_name = ''name'', pa_type = ''string'',
        pa_description = ''Output name'', pa_required = True\<rparr>,
       \<lparr>pa_name = ''test'', pa_type = ''string'',
        pa_description = ''Test name'', pa_required = True\<rparr>,
       \<lparr>pa_name = ''expr'', pa_type = ''string'',
        pa_description = ''Expression (e.g. bandwidth(vf("/out") 3))'', pa_required = True\<rparr>],
      me_returns = ''null on success''\<rparr>,
     \<lparr>me_name = ''maestro.set_design'', me_summary = ''Set the simulation design target'',
      me_params = [\<lparr>pa_name = ''session'', pa_type = ''string'',
        pa_description = ''Session ID'', pa_required = True\<rparr>,
       \<lparr>pa_name = ''lib'', pa_type = ''string'',
        pa_description = ''Library name'', pa_required = True\<rparr>,
       \<lparr>pa_name = ''cell'', pa_type = ''string'',
        pa_description = ''Cell name'', pa_required = True\<rparr>,
       \<lparr>pa_name = ''view'', pa_type = ''string'',
        pa_description = ''View name'', pa_required = True\<rparr>,
       \<lparr>pa_name = ''test'', pa_type = ''string'',
        pa_description = ''Test to retarget; omit to set the design for every test in the session'', pa_required = False\<rparr>],
      me_returns = ''null on success''\<rparr>]\<close>

definition maestro_methods_4 :: "rpc_method list" where
  \<open>maestro_methods_4 =
    [\<lparr>me_name = ''maestro.create_test'', me_summary = ''Create a test in an open Maestro session'',
      me_params = [\<lparr>pa_name = ''session'', pa_type = ''string'',
        pa_description = ''Session ID'', pa_required = True\<rparr>,
       \<lparr>pa_name = ''test'', pa_type = ''string'',
        pa_description = ''Name for the new test'', pa_required = True\<rparr>,
       \<lparr>pa_name = ''lib'', pa_type = ''string'',
        pa_description = ''Library of the design under test'', pa_required = True\<rparr>,
       \<lparr>pa_name = ''cell'', pa_type = ''string'',
        pa_description = ''Cell of the design under test'', pa_required = True\<rparr>,
       \<lparr>pa_name = ''view'', pa_type = ''string'',
        pa_description = ''View of the design under test (default "schematic")'', pa_required = False\<rparr>,
       \<lparr>pa_name = ''simulator'', pa_type = ''string'',
        pa_description = ''Simulator name (default "spectre")'', pa_required = False\<rparr>],
      me_returns = ''{status, test, lib, cell, view, simulator}''\<rparr>,
     \<lparr>me_name = ''maestro.save_setup'', me_summary = ''Save the simulation setup'',
      me_params = [\<lparr>pa_name = ''session'', pa_type = ''string'',
        pa_description = ''Session ID'', pa_required = True\<rparr>],
      me_returns = ''null on success''\<rparr>,
     \<lparr>me_name = ''maestro.get_spec_status'', me_summary = ''Get spec pass/fail status for an output'',
      me_params = [\<lparr>pa_name = ''name'', pa_type = ''string'',
        pa_description = ''Output name'', pa_required = True\<rparr>,
       \<lparr>pa_name = ''test'', pa_type = ''string'',
        pa_description = ''Test name'', pa_required = True\<rparr>],
      me_returns = ''pass/fail status string''\<rparr>,
     \<lparr>me_name = ''maestro.get_current_session'', me_summary = ''Get the current Maestro session name'',
      me_params = [],
      me_returns = ''session name or null''\<rparr>]\<close>

definition tx_methods :: "rpc_method list" where
  "tx_methods =
    [\<lparr>me_name = ''tx.begin'', me_summary = ''Begin a schematic transaction (snapshot)'',
      me_params = [\<lparr>pa_name = ''id'', pa_type = ''string'',
        pa_description = ''Transaction ID'', pa_required = True\<rparr>,
       \<lparr>pa_name = ''lib'', pa_type = ''string'',
        pa_description = ''Library name'', pa_required = True\<rparr>,
       \<lparr>pa_name = ''cell'', pa_type = ''string'',
        pa_description = ''Cell name'', pa_required = True\<rparr>,
       \<lparr>pa_name = ''view'', pa_type = ''string'',
        pa_description = ''View name'', pa_required = False\<rparr>],
      me_returns = ''null on success''\<rparr>,
     \<lparr>me_name = ''tx.commit'', me_summary = ''Commit the current transaction'',
      me_params = [],
      me_returns = ''null on success''\<rparr>,
     \<lparr>me_name = ''tx.rollback'', me_summary = ''Rollback the current transaction'',
      me_params = [],
      me_returns = ''null on success''\<rparr>,
     \<lparr>me_name = ''tx.diff'', me_summary = ''Get the diff between current and snapshot'',
      me_params = [],
      me_returns = ''JSON object with added/removed/modified lists''\<rparr>,
     \<lparr>me_name = ''tx.status'', me_summary = ''Get current transaction status'',
      me_params = [],
      me_returns = ''JSON object with active/id/snapshot info''\<rparr>]"

definition file_methods :: "rpc_method list" where
  "file_methods =
    [\<lparr>me_name = ''file.upload'', me_summary = ''Upload a local file to Virtuoso server'',
      me_params = [\<lparr>pa_name = ''local'', pa_type = ''string'',
        pa_description = ''Local file path'', pa_required = True\<rparr>,
       \<lparr>pa_name = ''remote'', pa_type = ''string'',
        pa_description = ''Remote file path on server'', pa_required = True\<rparr>],
      me_returns = ''null on success''\<rparr>,
     \<lparr>me_name = ''file.download'', me_summary = ''Download a file from Virtuoso server'',
      me_params = [\<lparr>pa_name = ''remote'', pa_type = ''string'',
        pa_description = ''Remote file path on server'', pa_required = True\<rparr>,
       \<lparr>pa_name = ''local'', pa_type = ''string'',
        pa_description = ''Local destination path'', pa_required = True\<rparr>],
      me_returns = ''null on success''\<rparr>]"

definition util_methods :: "rpc_method list" where
  "util_methods =
    [\<lparr>me_name = ''util.version'', me_summary = ''Get Virtuoso version info'',
      me_params = [],
      me_returns = ''version object with is_ic23/is_ic25 flags''\<rparr>,
     \<lparr>me_name = ''util.ping'', me_summary = ''Check connection to Virtuoso'',
      me_params = [],
      me_returns = ''ok on success''\<rparr>,
     \<lparr>me_name = ''util.ciw_print'', me_summary = ''Print message to CIW console'',
      me_params = [\<lparr>pa_name = ''message'', pa_type = ''string'',
        pa_description = ''Message to print'', pa_required = True\<rparr>],
      me_returns = ''null on success''\<rparr>,
     \<lparr>me_name = ''util.reconnect'', me_summary = ''Reconnect to a session'',
      me_params = [\<lparr>pa_name = ''session'', pa_type = ''string'',
        pa_description = ''Session ID'', pa_required = True\<rparr>],
      me_returns = ''ok/failed status''\<rparr>]"

definition skill_methods :: "rpc_method list" where
  "skill_methods =
    [\<lparr>me_name = ''skill.exec'', me_summary = ''Execute raw SKILL code (Admin only)'',
      me_params = [\<lparr>pa_name = ''code'', pa_type = ''string'',
        pa_description = ''SKILL code to execute'', pa_required = True\<rparr>,
       \<lparr>pa_name = ''timeout'', pa_type = ''integer'',
        pa_description = ''Timeout in seconds (optional)'', pa_required = False\<rparr>],
      me_returns = ''SKILL output''\<rparr>,
     \<lparr>me_name = ''skill.load'', me_summary = ''Load a SKILL (.il/.ils) file (Admin only)'',
      me_params = [\<lparr>pa_name = ''path'', pa_type = ''string'',
        pa_description = ''Local file path; uploaded when using an SSH tunnel'', pa_required = True\<rparr>],
      me_returns = ''status, output, loaded_path; error if loading fails''\<rparr>,
     \<lparr>me_name = ''skill.eval'', me_summary = ''Execute inline SKILL expressions (supports multi-statement)'',
      me_params = [\<lparr>pa_name = ''code'', pa_type = ''string'',
        pa_description = ''SKILL expression to evaluate (omit when using stdin)'', pa_required = False\<rparr>,
       \<lparr>pa_name = ''stdin'', pa_type = ''boolean'',
        pa_description = ''Read expression from stdin instead of code argument'', pa_required = False\<rparr>],
      me_returns = ''VirtuosoResult JSON''\<rparr>,
     \<lparr>me_name = ''skill.find'', me_summary = ''Search SKILL function database (fuzzy/prefix/suffix/exact/regex)'',
      me_params = [\<lparr>pa_name = ''query'', pa_type = ''string'',
        pa_description = ''Search string'', pa_required = True\<rparr>,
       \<lparr>pa_name = ''mode'', pa_type = ''string'',
        pa_description = ''Search mode: fuzzy (default), prefix, suffix, exact, regex'', pa_required = False\<rparr>,
       \<lparr>pa_name = ''limit'', pa_type = ''integer'',
        pa_description = ''Max results (default: 50)'', pa_required = False\<rparr>,
       \<lparr>pa_name = ''include_desc'', pa_type = ''boolean'',
        pa_description = ''Also search in description field'', pa_required = False\<rparr>,
       \<lparr>pa_name = ''refresh'', pa_type = ''boolean'',
        pa_description = ''Force refresh remote cache'', pa_required = False\<rparr>],
      me_returns = ''{query, mode, count, entries[]}''\<rparr>,
     \<lparr>me_name = ''skill.info'', me_summary = (''Look up a SKILL function'' @ [CHR 0x27] @
         ''s signature and description in the local .fnd databases (no Virtuoso, no Admin)''),
      me_params = [\<lparr>pa_name = ''func'', pa_type = ''string'',
        pa_description = ''Function name'', pa_required = True\<rparr>],
      me_returns = (''{func_name, found, name, syntax, description, source} | {func_name, found:false, '' @
         ''reason, entries_loaded, suggestions[], hint}'')\<rparr>,
     \<lparr>me_name = ''skill.sync'', me_summary = ''Sync SKILL Finder cache from remote host'',
      me_params = [\<lparr>pa_name = ''host'', pa_type = ''string'',
        pa_description = ''Remote host to sync from (optional; uses VB_REMOTE_HOST)'', pa_required = False\<rparr>],
      me_returns = ''{status, cached_count}''\<rparr>,
     \<lparr>me_name = ''skill.cache'', me_summary = ''Show or clear local SKILL Finder cache'',
      me_params = [\<lparr>pa_name = ''host'', pa_type = ''string'',
        pa_description = ''Host to show cache for (optional)'', pa_required = False\<rparr>,
       \<lparr>pa_name = ''clear'', pa_type = ''boolean'',
        pa_description = ''Clear the cache for this host'', pa_required = False\<rparr>],
      me_returns = ''{cache_dir, file_count, modified}''\<rparr>]"

definition libref_methods :: "rpc_method list" where
  "libref_methods =
    [\<lparr>me_name = ''libref.list'', me_summary = (''List documented library cells '' @ em_dash @
         '' analogLib (vsin, idc, cap, nmos4, ...) and basic (ipin, opin, gnd, vdd, ...)''),
      me_params = [\<lparr>pa_name = ''lib'', pa_type = ''string'',
        pa_description = (''Virtuoso library to restrict to: analogLib (sources, passives, actives), basic '' @
         ''(pins, supplies). rfLib, fBlockLib, pcLib and ahdlLib are registered but not parsed '' @ em_dash @
         '' they answer with the reason and what to use instead, never with an empty list. Omit '' @
         ''to search all.''), pa_required = False\<rparr>,
       \<lparr>pa_name = ''category'', pa_type = ''string'',
        pa_description = (''Filter by category substring, e.g. '' @ [CHR 0x27] @ ''Passive'' @ [CHR 0x27] @ '', '' @ [CHR 0x27] @
         ''Sources'' @ [CHR 0x27] @ '', '' @ [CHR 0x27] @ ''Pins'' @ [CHR 0x27]), pa_required = False\<rparr>,
       \<lparr>pa_name = ''refresh'', pa_type = ''boolean'',
        pa_description = ''Force re-sync of the cached documentation'', pa_required = False\<rparr>],
      me_returns = (''{lib, count, symbols[{lib, name, cell ('' @ [CHR 0x27] @ ''analogLib/vsin'' @ [CHR 0x27] @ '' '' @
         em_dash @ '' what schematic.place takes), category, title, param_count, primitives[], '' @
         ''description?}], symbols_loaded, symbols_indexed, source, libraries[{lib, state, '' @
         ''symbols}], libraries_without_symbols?}'')\<rparr>,
     \<lparr>me_name = ''libref.info'', me_summary = (''Full CDF parameter table for one library cell '' @ em_dash @
         '' the lookup to run BEFORE schematic.set_param, so parameter names are read, not guessed''),
      me_params = [\<lparr>pa_name = ''symbol'', pa_type = ''string'',
        pa_description = (''Cell name, e.g. vsin, idc, cap, res, ipin, gnd. Optional when `lib` is given: that '' @
         ''form asks about the library itself and returns its documentation status.''), pa_required = False\<rparr>,
       \<lparr>pa_name = ''lib'', pa_type = ''string'',
        pa_description = (''Virtuoso library to restrict to: analogLib (sources, passives, actives), basic '' @
         ''(pins, supplies). rfLib, fBlockLib, pcLib and ahdlLib are registered but not parsed '' @ em_dash @
         '' they answer with the reason and what to use instead, never with an empty list. Omit '' @
         ''to search all.''), pa_required = False\<rparr>,
       \<lparr>pa_name = ''refresh'', pa_type = ''boolean'',
        pa_description = ''Force re-sync of the cached documentation'', pa_required = False\<rparr>],
      me_returns = (''{lib, symbol, cell, found, category, title, description, primitives[], param_count, '' @
         ''params[{name, label, spectre, description, default, expands_to?}], note?, '' @
         ''verify_with} | {symbol, found:true, ambiguous:true, libraries[], matches[]} when the '' @
         ''name is in more than one library | {symbol, found:false, reason, suggestions[], '' @
         ''hint} | {lib, found:false, state:'' @ [CHR 0x27] @ ''no_parser'' @ [CHR 0x27] @ ''|'' @ [CHR 0x27] @
         ''no_manual'' @ [CHR 0x27] @ ''|'' @ [CHR 0x27] @ ''docs_missing'' @ [CHR 0x27] @ '', reason}'')\<rparr>,
     \<lparr>me_name = ''libref.find'', me_summary = (''Search CDF parameters or cells '' @ em_dash @ '' '' @ [CHR 0x27] @ ''amplitude'' @ [CHR 0x27] @
         '' finds va (Amplitude 1 (Vpk)), vaDBm, ia, each with the cell it belongs to''),
      me_params = [\<lparr>pa_name = ''query'', pa_type = ''string'',
        pa_description = ''Search string: a CDF name, a GUI label, or a plain word'', pa_required = True\<rparr>,
       \<lparr>pa_name = ''lib'', pa_type = ''string'',
        pa_description = (''Virtuoso library to restrict to: analogLib (sources, passives, actives), basic '' @
         ''(pins, supplies). rfLib, fBlockLib, pcLib and ahdlLib are registered but not parsed '' @ em_dash @
         '' they answer with the reason and what to use instead, never with an empty list. Omit '' @
         ''to search all.''), pa_required = False\<rparr>,
       \<lparr>pa_name = ''scope'', pa_type = ''string'',
        pa_description = ''params (default), symbols, or both'', pa_required = False\<rparr>,
       \<lparr>pa_name = ''mode'', pa_type = ''string'',
        pa_description = ''Search mode: fuzzy (default), prefix, suffix, exact, regex'', pa_required = False\<rparr>,
       \<lparr>pa_name = ''limit'', pa_type = ''integer'',
        pa_description = ''Max results (default: 50)'', pa_required = False\<rparr>,
       \<lparr>pa_name = ''refresh'', pa_type = ''boolean'',
        pa_description = ''Force re-sync of the cached documentation'', pa_required = False\<rparr>],
      me_returns = (''{query, mode, scope, lib, param_count (total matches, not the truncated page), '' @
         ''params_shown, params_truncated?, params[{lib, symbol, cell, name, label, spectre, '' @
         ''description, default}], symbol_count, symbols_shown, symbols_truncated?, symbols[]}'')\<rparr>]"

definition sim_methods :: "rpc_method list" where
  "sim_methods =
    [\<lparr>me_name = ''sim.check_license'', me_summary = ''Check Spectre license availability and version'',
      me_params = [],
      me_returns = ''{ok, remote, version, spectre_path, licenses[]}''\<rparr>]"

definition maestro_methods_5 :: "rpc_method list" where
  "maestro_methods_5 =
    [\<lparr>me_name = ''maestro.snapshot'', me_summary = ''Snapshot Maestro run artifacts to local directory (YAML-filtered)'',
      me_params = [\<lparr>pa_name = ''output_dir'', pa_type = ''string'',
        pa_description = ''Output directory path'', pa_required = True\<rparr>,
       \<lparr>pa_name = ''session'', pa_type = ''string'',
        pa_description = ''Maestro session name (optional; auto-detects)'', pa_required = False\<rparr>,
       \<lparr>pa_name = ''history'', pa_type = ''string'',
        pa_description = ''History run name (optional; picks newest)'', pa_required = False\<rparr>,
       \<lparr>pa_name = ''filter_path'', pa_type = ''string'',
        pa_description = ''Custom filter YAML path (optional; uses built-in)'', pa_required = False\<rparr>],
      me_returns = ''Snapshot result with files_copied count''\<rparr>,
     \<lparr>me_name = ''maestro.create_corner_netlist'', me_summary = (''Export a single corner'' @ [CHR 0x27] @
         ''s netlist for a Maestro session (remote temp dir, download to local)''),
      me_params = [\<lparr>pa_name = ''session'', pa_type = ''string'',
        pa_description = ''Maestro session name (e.g. fnxSession4)'', pa_required = True\<rparr>,
       \<lparr>pa_name = ''test'', pa_type = ''string'',
        pa_description = ''Test name (e.g. AC)'', pa_required = True\<rparr>,
       \<lparr>pa_name = ''corner'', pa_type = ''string'',
        pa_description = (''Corner name as it appears in the Assembler setup (e.g. C0, Nominal) '' @ em_dash @
         '' list them with maestro.list_corners. NOT a PDK model section: passing tt/ss/ff '' @
         ''fails with a bare nil''), pa_required = True\<rparr>,
       \<lparr>pa_name = ''output_dir'', pa_type = ''string'',
        pa_description = ''Local destination directory for downloaded netlist files'', pa_required = True\<rparr>],
      me_returns = ''JSON {status, session, test, corner, output_dir, remote_dir, files[], remote_cleaned}''\<rparr>]"

definition schematic_methods_5 :: "rpc_method list" where
  "schematic_methods_5 =
    [\<lparr>me_name = ''schematic.polish_label'', me_summary = ''Polish net labels with cosmetic presets, auto-rotation, or offset'',
      me_params = [\<lparr>pa_name = ''net'', pa_type = ''string'',
        pa_description = ''Net name whose labels to polish'', pa_required = True\<rparr>,
       \<lparr>pa_name = ''preset'', pa_type = ''string'',
        pa_description = (''Preset: '' @ [CHR 0x27] @ ''readable'' @ [CHR 0x27] @ '' (0.125 font) or '' @ [CHR 0x27] @ ''compact'' @
         [CHR 0x27] @ '' (0.0625)''), pa_required = False\<rparr>,
       \<lparr>pa_name = ''auto_rotate'', pa_type = ''boolean'',
        pa_description = ''Apply auto-rotation based on wire direction'', pa_required = False\<rparr>,
       \<lparr>pa_name = ''offset'', pa_type = ''string'',
        pa_description = (''Offset: '' @ [CHR 0x27] @ ''small'' @ [CHR 0x27] @ '' (+5), '' @ [CHR 0x27] @ ''medium'' @ [CHR 0x27] @
         '' (+10), '' @ [CHR 0x27] @ ''large'' @ [CHR 0x27] @ '' (+20) DBU''), pa_required = False\<rparr>],
      me_returns = ''Number of labels updated''\<rparr>,
     \<lparr>me_name = ''schematic.net_stub'', me_summary = ''Create a short labeled net stub in a given direction'',
      me_params = [\<lparr>pa_name = ''net'', pa_type = ''string'',
        pa_description = ''Net name'', pa_required = True\<rparr>,
       \<lparr>pa_name = ''x'', pa_type = ''integer'',
        pa_description = ''X origin in DBU'', pa_required = True\<rparr>,
       \<lparr>pa_name = ''y'', pa_type = ''integer'',
        pa_description = ''Y origin in DBU'', pa_required = True\<rparr>,
       \<lparr>pa_name = ''direction'', pa_type = ''string'',
        pa_description = ''Direction: right (default), left, up, down'', pa_required = False\<rparr>,
       \<lparr>pa_name = ''length'', pa_type = ''number'',
        pa_description = ''Stub length in grid units (default 0.5)'', pa_required = False\<rparr>,
       \<lparr>pa_name = ''cosmetic'', pa_type = ''string'',
        pa_description = ([CHR 0x27] @ ''default'' @ [CHR 0x27] @ '' (0.0625, centerCenter) or '' @ [CHR 0x27] @ ''clean'' @
         [CHR 0x27] @ '' (0.125, lowerCenter)''), pa_required = False\<rparr>],
      me_returns = ''{status, net, direction, origin}''\<rparr>,
     \<lparr>me_name = ''schematic.label_term'', me_summary = (''Draw a wire stub out of an instance terminal and name it; nets merge by label, so '' @
         ''this is the coordinate-free way to build connectivity that survives schematic.check''),
      me_params = [\<lparr>pa_name = ''inst'', pa_type = ''string'',
        pa_description = ''Instance name (e.g. M1)'', pa_required = True\<rparr>,
       \<lparr>pa_name = ''term'', pa_type = ''string'',
        pa_description = ''Terminal name on the master (e.g. D, G, S, B, PLUS, VDD)'', pa_required = True\<rparr>,
       \<lparr>pa_name = ''net'', pa_type = ''string'',
        pa_description = ''Net name to label the stub with'', pa_required = True\<rparr>,
       \<lparr>pa_name = ''cosmetic'', pa_type = ''string'',
        pa_description = ([CHR 0x27] @ ''default'' @ [CHR 0x27] @ '' (0.0625 font) or '' @ [CHR 0x27] @ ''clean'' @ [CHR 0x27] @
         '' (0.125 font)''), pa_required = False\<rparr>,
       \<lparr>pa_name = ''auto_rotate'', pa_type = ''boolean'',
        pa_description = ''Rotate labels on vertical stubs to R90; default leaves them upright'', pa_required = False\<rparr>],
      me_returns = (''{status, instance, terminal, net, already, output} '' @ em_dash @
         '' already=true means the stub and its label were already there (idempotent re-run, '' @
         ''still success); a stub carrying a different net name is an error'')\<rparr>]"

definition standard_schema :: rpc_schema where
  "standard_schema = schema_new
     (schematic_methods @ schematic_methods_2 @ symbol_methods @ library_methods @
      schematic_methods_3 @ schematic_methods_4 @ window_methods @ window_methods_2 @ cell_methods @
      cell_methods_2 @ maestro_methods @ maestro_methods_2 @ maestro_methods_3 @ maestro_methods_4 @
      tx_methods @ file_methods @ util_methods @ skill_methods @ libref_methods @ sim_methods @
      maestro_methods_5 @ schematic_methods_5)"

lemmas schema_defs =
  schematic_methods_def schematic_methods_2_def symbol_methods_def library_methods_def
  schematic_methods_3_def schematic_methods_4_def window_methods_def window_methods_2_def
  cell_methods_def cell_methods_2_def maestro_methods_def maestro_methods_2_def
  maestro_methods_3_def maestro_methods_4_def tx_methods_def file_methods_def util_methods_def
  skill_methods_def libref_methods_def sim_methods_def maestro_methods_5_def
  schematic_methods_5_def

section \<open>The names\<close>

definition declared_names :: "(string \<times> string list) list" where
  "declared_names =
    [(''schematic.open_cell_view'', [''lib'', ''cell'', ''view'']),
     (''schematic.place'', [''master'', ''name'', ''x'', ''y'', ''orient'']),
     (''schematic.move_instance'', [''name'', ''x'', ''y'', ''orient'', ''with_stubs'']),
     (''schematic.wire'', [''net'', ''points'']),
     (''schematic.label'', [''net'', ''x'', ''y'']),
     (''schematic.pin'', [''net'', ''direction'', ''x'', ''y'', ''orient'', ''sigtype'']),
     (''schematic.assign_net'', [''inst'', ''term'', ''net'']),
     (''symbol.inspect'', [''lib'', ''cell'', ''view'', ''view_type'']),
     (''symbol.generate'', [''lib'', ''cell'', ''schematic_view'', ''symbol_view'', ''sort_pins'']),
     (''library.list'', []),
     (''library.list_cells'', [''lib'', ''pattern'']),
     (''schematic.save'', []),
     (''schematic.check'', []),
     (''schematic.list_instances'', []),
     (''schematic.list_nets'', []),
     (''schematic.list_pins'', []),
     (''schematic.get_params'', [''inst'']),
     (''schematic.list_cdf_params'', [''inst'']),
     (''schematic.set_param'', [''inst'', ''param'', ''value'']),
     (''schematic.delete_instance'', [''inst'', ''confirm'']),
     (''schematic.delete_prop'', [''inst'', ''prop'', ''confirm'']),
     (''schematic.delete_figure'', [''inst'', ''term'', ''x'', ''y'', ''confirm'']),
     (''window.list'', []),
     (''window.screenshot'', [''path'', ''window_id'', ''display'']),
     (''window.screenshot_by_pattern'', [''path'', ''pattern'']),
     (''window.dismiss_dialog'', [''action'']),
     (''window.get_dialog_info'', []),
     (''window.dismiss_dialog_x11'', [''action'', ''dry_run'', ''display'', ''window_id'']),
     (''window.geometry'', [''window_id'', ''display'']),
     (''window.list_windows_x11'', [''display'']),
     (''window.dismiss_window_x11'', [''window_id'', ''pid'', ''action'', ''display'']),
     (''cell.open'', [''lib'', ''cell'', ''view'', ''mode'']),
     (''cell.save'', []),
     (''cell.close'', [''save'']),
     (''cell.info'', []),
     (''cell.list_open'', []),
     (''cell.create'', [''lib'', ''cell'', ''view'', ''view_type'']),
     (''cell.read_path'', [''lib'']),
     (''cell.delete_view'', [''lib'', ''cell'', ''view'', ''confirm'']),
     (''cell.delete'', [''lib'', ''cell'', ''confirm'']),
     (''maestro.open_session'', [''lib'', ''cell'', ''view'', ''mode'']),
     (''maestro.set_session_mode'', [''session'', ''mode'']),
     (''maestro.close_session'', [''session'']),
     (''maestro.list_sessions'', []),
     (''maestro.list_tests'', [''session'']),
     (''maestro.list_corners'', [''session'']),
     (''maestro.set_var'', [''name'', ''value'']),
     (''maestro.get_var'', [''name'']),
     (''maestro.list_vars'', []),
     (''maestro.delete_var'', [''name'']),
     (''maestro.delete_output'', [''name'', ''test'']),
     (''maestro.delete_analysis'', [''analysis'']),
     (''maestro.run'', [''session'']),
     (''maestro.save'', [''session'']),
     (''maestro.export'', [''session'', ''path'', ''test_name'']),
     (''maestro.open_results'', [''history'']),
     (''maestro.close_results'', []),
     (''maestro.get_result_tests'', []),
     (''maestro.get_result_outputs'', [''test'']),
     (''maestro.get_output_value'', [''name'', ''test'', ''corner'']),
     (''maestro.get_history_list'', []),
     (''maestro.get_analyses'', [''session'', ''test'']),
     (''maestro.get_outputs'', [''test'']),
     (''maestro.get_sim_messages'', [''session'']),
     (''maestro.set_analysis'', [''session'', ''type'', ''options'', ''test'']),
     (''maestro.add_output'', [''name'', ''test'', ''expr'']),
     (''maestro.set_design'', [''session'', ''lib'', ''cell'', ''view'', ''test'']),
     (''maestro.create_test'', [''session'', ''test'', ''lib'', ''cell'', ''view'', ''simulator'']),
     (''maestro.save_setup'', [''session'']),
     (''maestro.get_spec_status'', [''name'', ''test'']),
     (''maestro.get_current_session'', []),
     (''tx.begin'', [''id'', ''lib'', ''cell'', ''view'']),
     (''tx.commit'', []),
     (''tx.rollback'', []),
     (''tx.diff'', []),
     (''tx.status'', []),
     (''file.upload'', [''local'', ''remote'']),
     (''file.download'', [''remote'', ''local'']),
     (''util.version'', []),
     (''util.ping'', []),
     (''util.ciw_print'', [''message'']),
     (''util.reconnect'', [''session'']),
     (''skill.exec'', [''code'', ''timeout'']),
     (''skill.load'', [''path'']),
     (''skill.eval'', [''code'', ''stdin'']),
     (''skill.find'', [''query'', ''mode'', ''limit'', ''include_desc'', ''refresh'']),
     (''skill.info'', [''func'']),
     (''skill.sync'', [''host'']),
     (''skill.cache'', [''host'', ''clear'']),
     (''libref.list'', [''lib'', ''category'', ''refresh'']),
     (''libref.info'', [''symbol'', ''lib'', ''refresh'']),
     (''libref.find'', [''query'', ''lib'', ''scope'', ''mode'', ''limit'', ''refresh'']),
     (''sim.check_license'', []),
     (''maestro.snapshot'', [''output_dir'', ''session'', ''history'', ''filter_path'']),
     (''maestro.create_corner_netlist'', [''session'', ''test'', ''corner'', ''output_dir'']),
     (''schematic.polish_label'', [''net'', ''preset'', ''auto_rotate'', ''offset'']),
     (''schematic.net_stub'', [''net'', ''x'', ''y'', ''direction'', ''length'', ''cosmetic'']),
     (''schematic.label_term'', [''inst'', ''term'', ''net'', ''cosmetic'', ''auto_rotate''])]"

definition required_names :: "(string \<times> string list) list" where
  "required_names =
    [(''schematic.open_cell_view'', [''lib'', ''cell'']),
     (''schematic.place'', [''master'', ''name'']),
     (''schematic.move_instance'', [''name'', ''x'', ''y'']),
     (''schematic.wire'', [''net'', ''points'']),
     (''schematic.label'', [''net'']),
     (''schematic.pin'', [''net'', ''direction'']),
     (''schematic.assign_net'', [''inst'', ''term'', ''net'']),
     (''symbol.inspect'', [''lib'', ''cell'']),
     (''symbol.generate'', [''lib'', ''cell'']),
     (''library.list'', []),
     (''library.list_cells'', [''lib'']),
     (''schematic.save'', []),
     (''schematic.check'', []),
     (''schematic.list_instances'', []),
     (''schematic.list_nets'', []),
     (''schematic.list_pins'', []),
     (''schematic.get_params'', [''inst'']),
     (''schematic.list_cdf_params'', [''inst'']),
     (''schematic.set_param'', [''inst'', ''param'', ''value'']),
     (''schematic.delete_instance'', [''inst'']),
     (''schematic.delete_prop'', [''inst'', ''prop'']),
     (''schematic.delete_figure'', []),
     (''window.list'', []),
     (''window.screenshot'', [''path'']),
     (''window.screenshot_by_pattern'', [''path'', ''pattern'']),
     (''window.dismiss_dialog'', []),
     (''window.get_dialog_info'', []),
     (''window.dismiss_dialog_x11'', []),
     (''window.geometry'', [''window_id'']),
     (''window.list_windows_x11'', []),
     (''window.dismiss_window_x11'', []),
     (''cell.open'', [''lib'', ''cell'']),
     (''cell.save'', []),
     (''cell.close'', []),
     (''cell.info'', []),
     (''cell.list_open'', []),
     (''cell.create'', [''lib'', ''cell'']),
     (''cell.read_path'', [''lib'']),
     (''cell.delete_view'', [''lib'', ''cell'', ''view'']),
     (''cell.delete'', [''lib'', ''cell'']),
     (''maestro.open_session'', [''lib'', ''cell'']),
     (''maestro.set_session_mode'', [''session'', ''mode'']),
     (''maestro.close_session'', [''session'']),
     (''maestro.list_sessions'', []),
     (''maestro.list_tests'', [''session'']),
     (''maestro.list_corners'', [''session'']),
     (''maestro.set_var'', [''name'', ''value'']),
     (''maestro.get_var'', [''name'']),
     (''maestro.list_vars'', []),
     (''maestro.delete_var'', [''name'']),
     (''maestro.delete_output'', [''name'', ''test'']),
     (''maestro.delete_analysis'', [''analysis'']),
     (''maestro.run'', [''session'']),
     (''maestro.save'', [''session'']),
     (''maestro.export'', [''session'', ''path'']),
     (''maestro.open_results'', [''history'']),
     (''maestro.close_results'', []),
     (''maestro.get_result_tests'', []),
     (''maestro.get_result_outputs'', [''test'']),
     (''maestro.get_output_value'', [''name'', ''test'']),
     (''maestro.get_history_list'', []),
     (''maestro.get_analyses'', [''session'']),
     (''maestro.get_outputs'', [''test'']),
     (''maestro.get_sim_messages'', [''session'']),
     (''maestro.set_analysis'', [''session'', ''type'']),
     (''maestro.add_output'', [''name'', ''test'', ''expr'']),
     (''maestro.set_design'', [''session'', ''lib'', ''cell'', ''view'']),
     (''maestro.create_test'', [''session'', ''test'', ''lib'', ''cell'']),
     (''maestro.save_setup'', [''session'']),
     (''maestro.get_spec_status'', [''name'', ''test'']),
     (''maestro.get_current_session'', []),
     (''tx.begin'', [''id'', ''lib'', ''cell'']),
     (''tx.commit'', []),
     (''tx.rollback'', []),
     (''tx.diff'', []),
     (''tx.status'', []),
     (''file.upload'', [''local'', ''remote'']),
     (''file.download'', [''remote'', ''local'']),
     (''util.version'', []),
     (''util.ping'', []),
     (''util.ciw_print'', [''message'']),
     (''util.reconnect'', [''session'']),
     (''skill.exec'', [''code'']),
     (''skill.load'', [''path'']),
     (''skill.eval'', []),
     (''skill.find'', [''query'']),
     (''skill.info'', [''func'']),
     (''skill.sync'', []),
     (''skill.cache'', []),
     (''libref.list'', []),
     (''libref.info'', []),
     (''libref.find'', [''query'']),
     (''sim.check_license'', []),
     (''maestro.snapshot'', [''output_dir'']),
     (''maestro.create_corner_netlist'', [''session'', ''test'', ''corner'', ''output_dir'']),
     (''schematic.polish_label'', [''net'']),
     (''schematic.net_stub'', [''net'', ''x'', ''y'']),
     (''schematic.label_term'', [''inst'', ''term'', ''net''])]"

lemma declared_names_schema:
  "map (\<lambda>m. (me_name m, map pa_name (me_params m))) (sc_methods standard_schema) = declared_names"
  by (simp add: standard_schema_def schema_new_def schema_defs declared_names_def)

lemma required_names_schema:
  "map (\<lambda>m. (me_name m, map pa_name (filter pa_required (me_params m)))) (sc_methods standard_schema) = required_names"
  by (simp add: standard_schema_def schema_new_def schema_defs required_names_def)

end
