(* ===== verification/Rpc_Dispatch.thy ===== *)
theory Rpc_Dispatch
  imports Transactions Delete_Confirm Maestro_Skill Design_Skill Capability Ownership
begin

text \<open>
  \<open>src/rpc/dispatcher.rs\<close>: the method table of the RPC server.  A method reads its parameters, builds
  the SKILL text with the operations of the other theories, sends it through the client it is given
  and makes the answer; some methods run a command that has a client of its own.

  The record \<open>rpc_env\<close> is what the dispatcher calls: the client, the commands (\<open>rpc_call\<close> names each
  with its arguments), authentication, the audit log and the plugins.  Its functions act on the state
  \<open>'w\<close> of everything else.  Also the commands of \<open>commands/symbol.rs\<close>, \<open>commands/library.rs\<close> and
  \<open>commands/schematic.rs\<close> that a method calls for.
\<close>

section \<open>What the dispatcher calls\<close>

datatype 'f rpc_call =
    CDeleteInstance string "string option"
  | CDeleteFigure "string option" "string option" "'f option" "'f option" "string option"
  | CDeleteProp string string "string option"
  | CDeleteView string string string "string option"
  | CDeleteCell string string "string option"
  | CSnapshot string "string option" "string option" "string option"
  | CCornerNetlist string string string string
  | CScreenshot string "string option" "string option"
  | CDismissDialogX11 string bool "string option" "string option"
  | CListWindowsX11 "string option"
  | CDismissWindowX11 "string option" "u32 option" string "string option"
  | CGeometry string "string option"
  | CSkillEval "string option" bool
  | CSkillFind string string u64 bool bool
  | CSkillInfo string
  | CSkillSync "string option"
  | CSkillCache "string option" bool
  | CLibrefList string "string option" bool
  | CLibrefInfo string string bool
  | CLibrefFind string string string string u64 bool
  | CCheckLicense

text \<open>The calls of the client whose result is a \<open>VirtuosoResult\<close>, beside sending a generated text.\<close>

datatype client_request =
    ROpenCellView string string string string
  | RSaveCellview
  | RCloseCellview bool
  | RProbe string "u64 option"
  | RExecute string "u64 option"
  | RLoad string bool

text \<open>
  \<open>rp_send\<close> is \<open>execute_skill_unchecked(text, None)\<close>; \<open>rp_own\<close> makes a client and \<open>rp_own_send\<close> sends
  through it with the read timeout.
\<close>

record ('w, 'f) rpc_env =
  rp_floats :: "'f floats"
  rp_finite :: "'f \<Rightarrow> bool"
  rp_parse_f64 :: "string \<Rightarrow> 'f option"
  rp_parse :: "string \<Rightarrow> string + 'f json"
  rp_print :: "'f json \<Rightarrow> string"
  rp_uuid :: "'w \<Rightarrow> string"
  rp_send :: "string \<Rightarrow> ('w, virtuoso_result) act"
  rp_request :: "client_request \<Rightarrow> ('w, virtuoso_result) act"
  rp_own :: "('w, unit) act"
  rp_own_send :: "string \<Rightarrow> ('w, virtuoso_result) act"
  rp_design :: "('w, string \<times> string \<times> string) act"
  rp_tx_begin :: "string \<Rightarrow> string \<Rightarrow> string \<Rightarrow> string \<Rightarrow> ('w, unit) act"
  rp_tx_commit :: "('w, unit) act"
  rp_tx_rollback :: "('w, unit) act"
  rp_tx_diff :: "('w, schematic_diff) act"
  rp_tx_status :: "('w, (string \<times> 'f snapshot) option) act"
  rp_upload :: "string \<Rightarrow> string \<Rightarrow> ('w, unit) act"
  rp_download :: "string \<Rightarrow> string \<Rightarrow> ('w, unit) act"
  rp_version :: "('w, virtuoso_version) act"
  rp_reconnect :: "string \<Rightarrow> ('w, bool) act"
  rp_command :: "'f rpc_call \<Rightarrow> ('w, 'f json) act"
  rp_plugin :: "(string \<Rightarrow> string \<Rightarrow> 'f json \<Rightarrow> ('w, 'f json) act) option"
  rp_auth :: "string option \<Rightarrow> ('w, capability_set) act"
  rp_log :: "string \<Rightarrow> 'f json \<Rightarrow> string \<Rightarrow> 'w \<Rightarrow> 'w"

section \<open>Parameters\<close>

fun as_bool :: "'f json \<Rightarrow> bool option" where
  "as_bool (JBool b) = Some b"
| "as_bool _ = None"

definition need :: "'f json \<Rightarrow> string \<Rightarrow> ('w, string) act" where
  "need params k = of_result (json_str (jget params k) k)"

definition str_param_or :: "'f json \<Rightarrow> string \<Rightarrow> string \<Rightarrow> ('w, string) act" where
  "str_param_or params k d = of_result (json_str_or (jget params k) d)"

definition coord :: "('w, 'f) rpc_env \<Rightarrow> 'f json \<Rightarrow> string \<Rightarrow> ('w, 'f) act" where
  "coord R params k =
     of_result (json_coord_or (rp_floats R) (rp_finite R) (rp_print R) (jget params k) k (fl_of_int (rp_floats R) 0))"

definition number :: "('w, 'f) rpc_env \<Rightarrow> 'f json \<Rightarrow> string \<Rightarrow> ('w, 'f) act" where
  "number R params k = of_result (json_f64 (rp_floats R) (jget params k) k)"

definition opt_number :: "('w, 'f) rpc_env \<Rightarrow> 'f json \<Rightarrow> string \<Rightarrow> ('w, 'f option) act" where
  "opt_number R params k =
     (if jget params k = None then pure_act None else bind_act (number R params k) (\<lambda>x. pure_act (Some x)))"

definition opt_str :: "'f json \<Rightarrow> string \<Rightarrow> string option" where
  "opt_str params k = opt_and_then (jget params k) as_string"

definition flag_or :: "'f json \<Rightarrow> string \<Rightarrow> bool \<Rightarrow> bool" where
  "flag_or params k d = (case opt_and_then (jget params k) as_bool of Some b \<Rightarrow> b | None \<Rightarrow> d)"

definition opt_u64 :: "'f json \<Rightarrow> string \<Rightarrow> u64 option" where
  "opt_u64 params k = opt_and_then (jget params k) as_u64"

definition limit_or_50 :: "'f json \<Rightarrow> u64" where
  "limit_or_50 params = (case opt_u64 params ''limit'' of Some n \<Rightarrow> n | None \<Rightarrow> 50)"

definition opt_json :: "string option \<Rightarrow> 'f json" where
  "opt_json x = (case x of Some s \<Rightarrow> JStr s | None \<Rightarrow> JNull)"

definition half :: "'f floats \<Rightarrow> 'f" where
  "half F = fl_div F (fl_of_int F 1) (fl_of_int F 2)"

section \<open>Sending\<close>

definition rpc_ok :: "(string \<times> 'f json) list \<Rightarrow> ('w, 'f json) act" where
  "rpc_ok kvs = pure_act (json_object ((''status'', JStr ''ok'') # kvs))"

definition execute_required :: "('w, 'f) rpc_env \<Rightarrow> string \<Rightarrow> string \<Rightarrow> ('w, virtuoso_result) act" where
  "execute_required R code opn = bind_act (rp_send R code) (\<lambda>r. of_result (ok_or_exec opn r))"

definition require_transport_result :: "string \<Rightarrow> virtuoso_result \<Rightarrow> virtuoso_error + virtuoso_result" where
  "require_transport_result opn r = bindR (require_transport opn r) (\<lambda>_. Inr r)"

definition execute_query :: "('w, 'f) rpc_env \<Rightarrow> string \<Rightarrow> string \<Rightarrow> ('w, virtuoso_result) act" where
  "execute_query R code opn = bind_act (rp_send R code) (\<lambda>r. of_result (require_transport_result opn r))"

definition cell_write :: "('w, 'f) rpc_env \<Rightarrow> client_request \<Rightarrow> string \<Rightarrow> ('w, virtuoso_result) act" where
  "cell_write R req opn = bind_act (rp_request R req) (\<lambda>r. of_result (ok_or_exec opn r))"

text \<open>\<open>client.version().unwrap_or(IC23)\<close>, and a match that turns an error into a value.\<close>

definition catch_act :: "('w, 'a) act \<Rightarrow> (virtuoso_error \<Rightarrow> 'a) \<Rightarrow> ('w, 'a) act" where
  "catch_act m h st = (case m st of (Done (Inl e), st') \<Rightarrow> (Done (Inr (h e)), st') | r \<Rightarrow> r)"

definition version_or_default :: "('w, 'f) rpc_env \<Rightarrow> ('w, virtuoso_version) act" where
  "version_or_default R = catch_act (rp_version R) (\<lambda>_. IC23)"

fun debug_version :: "virtuoso_version \<Rightarrow> string" where
  "debug_version IC23 = ''IC23''"
| "debug_version IC25 = ''IC25''"
| "debug_version UnknownVersion = ''Unknown''"

definition master_format :: "string \<Rightarrow> virtuoso_error" where
  "master_format master =
     Execution (''master must be in lib/cell format (e.g. analogLib/res), got '' @ quoted master)"

definition check_session_mode :: "string \<Rightarrow> virtuoso_error + unit" where
  \<open>check_session_mode mode =
     (if mode \<noteq> ''r'' \<and> mode \<noteq> ''a''
      then Inl (Execution (''mode must be "r" (read, no edit lock) or "a" (append, takes the edit lock), '' @
             ''got '' @ debug_str mode))
      else Inr ())\<close>

section \<open>Commands on symbols, libraries and schematics\<close>

fun sexp_to_json :: "sexp \<Rightarrow> 'f json" where
  "sexp_to_json Nil_val = JNull"
| "sexp_to_json (BoolV b) = JBool b"
| "sexp_to_json (Str s) = JStr s"
| "sexp_to_json (Atom s) = JStr s"
| "sexp_to_json (SList xs) = JArr (map sexp_to_json xs)"

definition sexp_json :: "string \<Rightarrow> virtuoso_error + 'f json" where
  "sexp_json s =
     (case parse_sexp s of
        Inr v \<Rightarrow> Inr (sexp_to_json v)
      | Inl e \<Rightarrow> Inl (Execution (''symbol response parse failed: '' @ display_virtuoso_error e)))"

definition answer_tag :: "'f json \<Rightarrow> string option" where
  "answer_tag data =
     (case as_array data of Some (v # _) \<Rightarrow> as_string v | _ \<Rightarrow> None)"

definition cmd_symbol_inspect ::
  "('w, 'f) rpc_env \<Rightarrow> string \<Rightarrow> string \<Rightarrow> string \<Rightarrow> string \<Rightarrow> ('w, 'f json) act" where
  "cmd_symbol_inspect R lib cell view view_type =
     bind_act (rp_own R) (\<lambda>_.
     bind_act (rp_own_send R (render (symbol_inspect lib cell view view_type))) (\<lambda>r.
     if \<not> skill_ok r then fail_act (Execution (''symbol inspect failed: '' @ vr_output r))
     else bind_act (of_result (sexp_json (output_unquoted r))) (\<lambda>data.
       if answer_tag data = Some ''notFound''
       then fail_act (NotFound (''symbol '' @ lib @ ''/'' @ cell @ ''/'' @ view @ '' not found''))
       else if answer_tag data = Some ''failed''
       then fail_act (Execution (''symbol inspect failed: '' @ rp_print R data))
       else pure_act (json_object [(''status'', JStr ''success''), (''lib'', JStr lib), (''cell'', JStr cell),
              (''view'', JStr view), (''data'', data)]))))"

definition cmd_symbol_generate ::
  "('w, 'f) rpc_env \<Rightarrow> string \<Rightarrow> string \<Rightarrow> string \<Rightarrow> string \<Rightarrow> string option \<Rightarrow> ('w, 'f json) act" where
  "cmd_symbol_generate R lib cell src dst sort_pins =
     (if src = dst then fail_act (Config ''schematic_view and symbol_view must differ'')
      else if (case sort_pins of Some s \<Rightarrow> s \<noteq> ''alphanumeric'' \<and> s \<noteq> ''geometric'' | None \<Rightarrow> False)
      then fail_act (Config ''sort_pins must be alphanumeric or geometric'')
      else bind_act (rp_own R) (\<lambda>_ st.
        case symbol_generate (rp_uuid R st) lib cell src dst sort_pins of
          None \<Rightarrow> (Panicked, st)
        | Some ps \<Rightarrow>
           bind_act (rp_own_send R (render ps)) (\<lambda>r.
           if \<not> skill_ok r then fail_act (Execution (''symbol generate failed: '' @ vr_output r))
           else bind_act (of_result (sexp_json (output_unquoted r))) (\<lambda>data.
             if answer_tag data = Some ''conflict''
             then fail_act (Conflict (''symbol target '' @ lib @ ''/'' @ cell @ ''/'' @ dst @ '' already exists''))
             else if answer_tag data = Some ''notFound''
             then fail_act (NotFound (''source schematic '' @ lib @ ''/'' @ cell @ ''/'' @ src @ '' not found''))
             else if answer_tag data = Some ''failed''
             then fail_act (Execution (''symbol generate failed: '' @ rp_print R data))
             else pure_act (json_object [(''status'', JStr ''success''), (''lib'', JStr lib), (''cell'', JStr cell),
                    (''source_view'', JStr src), (''symbol_view'', JStr dst), (''data'', data)]))) st))"

definition cmd_library_list :: "('w, 'f) rpc_env \<Rightarrow> ('w, 'f json) act" where
  "cmd_library_list R =
     bind_act (rp_own R) (\<lambda>_.
     bind_act (rp_own_send R (render library_list)) (\<lambda>r0.
     bind_act (of_result (ok_or_exec ''library list'' r0)) (\<lambda>r.
     bind_act (of_result (case parse_sexp (output_unquoted r) of
         Inr v \<Rightarrow> Inr v
       | Inl e \<Rightarrow> Inl (Execution (''library list parse failed: '' @ display_virtuoso_error e)))) (\<lambda>v.
     case sexp_to_str_list v of
       None \<Rightarrow> fail_act (Execution ''library list returned non-list'')
     | Some xs \<Rightarrow> pure_act (json_object [(''status'', JStr ''success''),
         (''libraries'', JArr (map JStr (List.map_filter id xs)))])))))"

text \<open>\<open>show\<close> is the debug text of a value, in the errors only.\<close>

definition cell_row :: "(sexp \<Rightarrow> string) \<Rightarrow> sexp \<Rightarrow> virtuoso_error + 'f json" where
  "cell_row debug row =
     (case row of
        SList parts \<Rightarrow>
          (case (case parts of p # _ \<Rightarrow> sexp_as_str p | [] \<Rightarrow> None) of
             None \<Rightarrow> Inl (Execution ''library list_cells: cell with no name'')
           | Some name \<Rightarrow>
               (let views = (case parts of
                      _ # SList vs # _ \<Rightarrow> List.map_filter sexp_val_to_opt_str vs
                    | _ \<Rightarrow> [])
                in Inr (json_object [(''name'', JStr name), (''views'', JArr (map JStr views))])))
      | _ \<Rightarrow> Inl (Execution (''library list_cells: expected (name views), got '' @ debug row)))"

definition parse_cell_rows :: "(sexp \<Rightarrow> string) \<Rightarrow> sexp \<Rightarrow> virtuoso_error + 'f json list" where
  "parse_cell_rows debug v =
     (case v of
        Nil_val \<Rightarrow> Inr []
      | SList rows \<Rightarrow> collect_results (map (cell_row debug) rows)
      | _ \<Rightarrow> Inl (Execution (''library list_cells returned non-list: '' @ debug v)))"

fun debug_sexp :: "sexp \<Rightarrow> string" where
  "debug_sexp Nil_val = ''Nil''"
| "debug_sexp (BoolV b) = ''Bool('' @ (if b then ''true'' else ''false'') @ '')''"
| "debug_sexp (Str s) = ''Str('' @ debug_str s @ '')''"
| "debug_sexp (Atom s) = ''Atom('' @ debug_str s @ '')''"
| "debug_sexp (SList xs) = ''List(['' @ join '', '' (map debug_sexp xs) @ ''])''"

definition cmd_library_list_cells :: "('w, 'f) rpc_env \<Rightarrow> string \<Rightarrow> string option \<Rightarrow> ('w, 'f json) act" where
  "cmd_library_list_cells R lib pattern =
     bind_act (rp_own R) (\<lambda>_.
     bind_act (rp_own_send R (render (list_cells lib pattern))) (\<lambda>r0.
     bind_act (of_result (ok_or_exec_nil_ok ''library list_cells'' r0)) (\<lambda>r.
     bind_act (of_result (case parse_sexp (output_unquoted r) of
         Inr v \<Rightarrow> Inr v
       | Inl e \<Rightarrow> Inl (Execution (''library list_cells parse failed: '' @ display_virtuoso_error e)))) (\<lambda>v.
     bind_act (of_result (parse_cell_rows debug_sexp v)) (\<lambda>cells.
     pure_act (json_object [(''status'', JStr ''success''), (''lib'', JStr lib),
       (''count'', JInt (int (length cells))), (''cells'', JArr cells)]))))))"

definition status_of :: "virtuoso_result \<Rightarrow> 'f json" where
  "status_of r = JStr (if skill_ok r then ''success'' else ''error'')"

text \<open>These three send with no timeout of their own, through \<open>execute_skill_unchecked(text, None)\<close> of a new client.\<close>

definition schematic_polish_label ::
  "('w, 'f) rpc_env \<Rightarrow> string \<Rightarrow> string \<Rightarrow> bool \<Rightarrow> string option \<Rightarrow> ('w, 'f json) act" where
  "schematic_polish_label R net preset auto_rotate offset =
     bind_act (rp_own R) (\<lambda>_.
     bind_act (rp_send R (render (polish_labels net preset auto_rotate offset))) (\<lambda>r.
     pure_act (json_object [(''status'', status_of r), (''net'', JStr net),
       (''labels_updated'', JInt (case parse_unsigned u64_max (output_unquoted r) of Some n \<Rightarrow> int n | None \<Rightarrow> 0)),
       (''preset'', JStr preset), (''auto_rotate'', JBool auto_rotate), (''offset'', opt_json offset)])))"

definition schematic_net_stub ::
  "('w, 'f) rpc_env \<Rightarrow> string \<Rightarrow> 'f \<Rightarrow> 'f \<Rightarrow> string \<Rightarrow> 'f \<Rightarrow> string \<Rightarrow> ('w, 'f json) act" where
  "schematic_net_stub R net x y direction len cosmetic =
     bind_act (rp_own R) (\<lambda>_.
     bind_act (rp_send R (render (create_net_stub (rp_floats R) net x y direction len cosmetic))) (\<lambda>r.
     pure_act (json_object [(''status'', status_of r), (''net'', JStr net), (''direction'', JStr direction),
       (''origin'', JArr [JFloat x, JFloat y]), (''output'', JStr (vr_output r)),
       (''errors'', JArr (map JStr (vr_errors r)))])))"

definition schematic_label_term ::
  "('w, 'f) rpc_env \<Rightarrow> string \<Rightarrow> string \<Rightarrow> string \<Rightarrow> string \<Rightarrow> bool \<Rightarrow> ('w, 'f json) act" where
  "schematic_label_term R inst term_name net cosmetic auto_rotate =
     bind_act (rp_own R) (\<lambda>_.
     bind_act (rp_send R (render (label_instance_term inst term_name net cosmetic auto_rotate))) (\<lambda>r.
     pure_act (json_object [(''status'', status_of r), (''instance'', JStr inst), (''terminal'', JStr term_name),
       (''net'', JStr net), (''already'', JBool (skill_ok r \<and> starts_with (output_unquoted r) ''already:'')),
       (''output'', JStr (vr_output r)), (''errors'', JArr (map JStr (vr_errors r)))])))"

section \<open>\<open>schematic\<close>\<close>

definition rpc_schematic_open_cell_view :: "('w, 'f) rpc_env \<Rightarrow> 'f json \<Rightarrow> ('w, 'f json) act" where
  "rpc_schematic_open_cell_view R params =
     bind_act (need params ''lib'') (\<lambda>lib.
     bind_act (need params ''cell'') (\<lambda>cell.
     bind_act (str_param_or params ''view'' ''schematic'') (\<lambda>view.
     bind_act (execute_required R (render (open_cellview lib cell view)) ''open cell view'') (\<lambda>r. pure_act (merge_status_ok (rp_parse R) (trim (vr_output r)))))))"

definition rpc_schematic_place :: "('w, 'f) rpc_env \<Rightarrow> 'f json \<Rightarrow> ('w, 'f json) act" where
  "rpc_schematic_place R params =
     bind_act (need params ''master'') (\<lambda>master.
     (case split_once CHR ''/'' master of
        None \<Rightarrow> fail_act (master_format master)
      | Some (lib, cell) \<Rightarrow>
          bind_act (need params ''name'') (\<lambda>name.
     bind_act (coord R params ''x'') (\<lambda>x.
     bind_act (coord R params ''y'') (\<lambda>y.
     bind_act (str_param_or params ''orient'' ''R0'') (\<lambda>orient.
     bind_act (execute_required R (render (create_instance (rp_floats R) lib cell ''symbol'' name (x, y) orient)) ''place instance'') (\<lambda>_. rpc_ok [])))))))"

definition rpc_schematic_move_instance :: "('w, 'f) rpc_env \<Rightarrow> 'f json \<Rightarrow> ('w, 'f json) act" where
  "rpc_schematic_move_instance R params =
     bind_act (need params ''name'') (\<lambda>name.
     bind_act (number R params ''x'') (\<lambda>x.
     bind_act (number R params ''y'') (\<lambda>y.
     (let orient = opt_str params ''orient'' in
     (let with_stubs = flag_or params ''with_stubs'' True in
     bind_act (execute_required R (render (move_instance (rp_floats R) name (x, y) orient with_stubs)) ''move instance'') (\<lambda>r. of_result (parse_skill_json (rp_parse R) (vr_output r))))))))"

definition rpc_schematic_wire :: "('w, 'f) rpc_env \<Rightarrow> 'f json \<Rightarrow> ('w, 'f json) act" where
  "rpc_schematic_wire R params =
     bind_act (need params ''net'') (\<lambda>net.
     bind_act (of_result (parse_wire_points (rp_parse_f64 R) (rp_finite R) (jget params ''points''))) (\<lambda>pts.
     bind_act (execute_required R (render (create_wire (rp_floats R) pts net)) ''create wire'') (\<lambda>_. rpc_ok [(''net'', JStr net), (''segments'', JInt (int (length pts) - 1))])))"

definition rpc_schematic_label :: "('w, 'f) rpc_env \<Rightarrow> 'f json \<Rightarrow> ('w, 'f json) act" where
  "rpc_schematic_label R params =
     bind_act (need params ''net'') (\<lambda>net.
     bind_act (coord R params ''x'') (\<lambda>x.
     bind_act (coord R params ''y'') (\<lambda>y.
     bind_act (execute_required R (render (create_wire_label (rp_floats R) net (x, y))) ''create label'') (\<lambda>_. rpc_ok [(''net'', JStr net), (''x'', JFloat x), (''y'', JFloat y)]))))"

definition rpc_schematic_pin :: "('w, 'f) rpc_env \<Rightarrow> 'f json \<Rightarrow> ('w, 'f json) act" where
  "rpc_schematic_pin R params =
     bind_act (need params ''net'') (\<lambda>net.
     bind_act (need params ''direction'') (\<lambda>direction.
     bind_act (coord R params ''x'') (\<lambda>x.
     bind_act (coord R params ''y'') (\<lambda>y.
     (let orient = opt_str params ''orient'' in
     (let sigtype = opt_str params ''sigtype'' in
     bind_act (of_result (create_pin (rp_floats R) net direction (x, y) orient sigtype)) (\<lambda>ps.
     bind_act (execute_required R (render (ps)) ''create pin'') (\<lambda>_. rpc_ok [(''net'', JStr net), (''direction'', JStr direction),
       (''orient'', JStr (case orient of Some s \<Rightarrow> s | None \<Rightarrow> ''R0'')), (''sigtype'', opt_json sigtype)]))))))))"

definition rpc_schematic_save :: "('w, 'f) rpc_env \<Rightarrow> 'f json \<Rightarrow> ('w, 'f json) act" where
  "rpc_schematic_save R params =
     bind_act (execute_required R (render (save_skill)) ''save schematic'') (\<lambda>_. rpc_ok [])"

definition rpc_schematic_check :: "('w, 'f) rpc_env \<Rightarrow> 'f json \<Rightarrow> ('w, 'f json) act" where
  "rpc_schematic_check R params =
     bind_act (execute_required R (render (check_skill)) ''check schematic'') (\<lambda>r. rpc_ok [(''output'', JStr (vr_output r))])"

definition rpc_schematic_list_instances :: "('w, 'f) rpc_env \<Rightarrow> 'f json \<Rightarrow> ('w, 'f json) act" where
  "rpc_schematic_list_instances R params =
     bind_act (execute_query R (render (list_instances)) ''list schematic instances'') (\<lambda>r. of_result (parse_skill_json (rp_parse R) (vr_output r)))"

definition rpc_schematic_list_nets :: "('w, 'f) rpc_env \<Rightarrow> 'f json \<Rightarrow> ('w, 'f json) act" where
  "rpc_schematic_list_nets R params =
     bind_act (execute_query R (render (list_nets)) ''list schematic nets'') (\<lambda>r. of_result (parse_skill_json (rp_parse R) (vr_output r)))"

definition rpc_schematic_list_pins :: "('w, 'f) rpc_env \<Rightarrow> 'f json \<Rightarrow> ('w, 'f json) act" where
  "rpc_schematic_list_pins R params =
     bind_act (execute_query R (render (list_pins)) ''list schematic pins'') (\<lambda>r. of_result (parse_skill_json (rp_parse R) (vr_output r)))"

definition rpc_schematic_list_cdf_params :: "('w, 'f) rpc_env \<Rightarrow> 'f json \<Rightarrow> ('w, 'f json) act" where
  "rpc_schematic_list_cdf_params R params =
     bind_act (need params ''inst'') (\<lambda>inst.
     bind_act (execute_query R (render (list_cdf_params inst)) ''list CDF parameters'') (\<lambda>r. of_result (parse_skill_json (rp_parse R) (vr_output r))))"

definition rpc_schematic_get_params :: "('w, 'f) rpc_env \<Rightarrow> 'f json \<Rightarrow> ('w, 'f json) act" where
  "rpc_schematic_get_params R params =
     bind_act (need params ''inst'') (\<lambda>inst.
     bind_act (execute_query R (render (get_instance_params inst)) ''get instance parameters'') (\<lambda>r. if trim (vr_output r) = ''null'' then pure_act JNull
       else of_result (parse_skill_json (rp_parse R) (vr_output r))))"

definition rpc_schematic_set_param :: "('w, 'f) rpc_env \<Rightarrow> 'f json \<Rightarrow> ('w, 'f json) act" where
  "rpc_schematic_set_param R params =
     bind_act (need params ''inst'') (\<lambda>inst.
     bind_act (need params ''param'') (\<lambda>param_name.
     bind_act (need params ''value'') (\<lambda>val.
     bind_act (execute_required R (render (set_instance_param inst param_name val)) ''set instance parameter'') (\<lambda>_. rpc_ok [(''instance'', JStr inst), (''param'', JStr param_name), (''value'', JStr val)]))))"

definition rpc_schematic_delete_instance :: "('w, 'f) rpc_env \<Rightarrow> 'f json \<Rightarrow> ('w, 'f json) act" where
  "rpc_schematic_delete_instance R params =
     bind_act (need params ''inst'') (\<lambda>inst.
     rp_command R (CDeleteInstance inst (confirm_of params)))"

definition rpc_schematic_delete_figure :: "('w, 'f) rpc_env \<Rightarrow> 'f json \<Rightarrow> ('w, 'f json) act" where
  "rpc_schematic_delete_figure R params =
     (let inst = opt_str params ''inst'' in
     (let term_name = opt_str params ''term'' in
     bind_act (opt_number R params ''x'') (\<lambda>x.
     bind_act (opt_number R params ''y'') (\<lambda>y.
     rp_command R (CDeleteFigure inst term_name x y (confirm_of params))))))"

definition rpc_schematic_delete_prop :: "('w, 'f) rpc_env \<Rightarrow> 'f json \<Rightarrow> ('w, 'f json) act" where
  "rpc_schematic_delete_prop R params =
     bind_act (need params ''inst'') (\<lambda>inst.
     bind_act (need params ''prop'') (\<lambda>prop_name.
     rp_command R (CDeleteProp inst prop_name (confirm_of params))))"

definition rpc_schematic_polish_label :: "('w, 'f) rpc_env \<Rightarrow> 'f json \<Rightarrow> ('w, 'f json) act" where
  "rpc_schematic_polish_label R params =
     bind_act (need params ''net'') (\<lambda>net.
     bind_act (str_param_or params ''preset'' ''readable'') (\<lambda>preset.
     (let auto_rotate = flag_or params ''auto_rotate'' False in
     (let offset = opt_str params ''offset'' in
     schematic_polish_label R net preset auto_rotate offset))))"

definition rpc_schematic_net_stub :: "('w, 'f) rpc_env \<Rightarrow> 'f json \<Rightarrow> ('w, 'f json) act" where
  "rpc_schematic_net_stub R params =
     bind_act (need params ''net'') (\<lambda>net.
     bind_act (coord R params ''x'') (\<lambda>x.
     bind_act (coord R params ''y'') (\<lambda>y.
     bind_act (str_param_or params ''direction'' ''right'') (\<lambda>direction.
     (let len = (case opt_and_then (jget params ''length'') (as_f64 (rp_floats R)) of Some v \<Rightarrow> v | None \<Rightarrow> half (rp_floats R)) in
     bind_act (str_param_or params ''cosmetic'' ''default'') (\<lambda>cosmetic.
     schematic_net_stub R net x y direction len cosmetic))))))"

definition rpc_schematic_label_term :: "('w, 'f) rpc_env \<Rightarrow> 'f json \<Rightarrow> ('w, 'f json) act" where
  "rpc_schematic_label_term R params =
     bind_act (need params ''inst'') (\<lambda>inst.
     bind_act (need params ''term'') (\<lambda>term_name.
     bind_act (need params ''net'') (\<lambda>net.
     bind_act (str_param_or params ''cosmetic'' ''default'') (\<lambda>cosmetic.
     (let auto_rotate = flag_or params ''auto_rotate'' False in
     schematic_label_term R inst term_name net cosmetic auto_rotate)))))"

definition rpc_schematic_assign_net :: "('w, 'f) rpc_env \<Rightarrow> 'f json \<Rightarrow> ('w, 'f json) act" where
  "rpc_schematic_assign_net R params =
     bind_act (need params ''inst'') (\<lambda>inst.
     bind_act (need params ''term'') (\<lambda>term_name.
     bind_act (need params ''net'') (\<lambda>net.
     bind_act (execute_required R (render (assign_net inst term_name net)) ''assign net'') (\<lambda>_. rpc_ok [(''instance'', JStr inst), (''term'', JStr term_name), (''net'', JStr net)]))))"

section \<open>\<open>symbol\<close> and \<open>library\<close>\<close>

definition rpc_symbol_inspect :: "('w, 'f) rpc_env \<Rightarrow> 'f json \<Rightarrow> ('w, 'f json) act" where
  "rpc_symbol_inspect R params =
     bind_act (need params ''lib'') (\<lambda>lib.
     bind_act (need params ''cell'') (\<lambda>cell.
     bind_act (str_param_or params ''view'' ''symbol'') (\<lambda>view.
     bind_act (str_param_or params ''view_type'' ''schematicSymbol'') (\<lambda>view_type.
     cmd_symbol_inspect R lib cell view view_type))))"

definition rpc_symbol_generate :: "('w, 'f) rpc_env \<Rightarrow> 'f json \<Rightarrow> ('w, 'f json) act" where
  "rpc_symbol_generate R params =
     bind_act (need params ''lib'') (\<lambda>lib.
     bind_act (need params ''cell'') (\<lambda>cell.
     bind_act (str_param_or params ''schematic_view'' ''schematic'') (\<lambda>schematic_view.
     bind_act (str_param_or params ''symbol_view'' ''symbol'') (\<lambda>symbol_view.
     (let sort_pins = opt_str params ''sort_pins'' in
     cmd_symbol_generate R lib cell schematic_view symbol_view sort_pins)))))"

text \<open>\<open>library.list\<close> is only matched when there are no parameters.\<close>

definition no_params :: "'f json \<Rightarrow> bool" where
  "no_params params \<longleftrightarrow> params = JNull \<or> as_obj params = Some []"

definition rpc_library_list :: "('w, 'f) rpc_env \<Rightarrow> 'f json \<Rightarrow> ('w, 'f json) act" where
  "rpc_library_list R params =
     (if no_params params then cmd_library_list R
     else fail_act (NotFound (''unknown library method '' @ quoted ''list'')))"

definition rpc_library_list_cells :: "('w, 'f) rpc_env \<Rightarrow> 'f json \<Rightarrow> ('w, 'f json) act" where
  "rpc_library_list_cells R params =
     bind_act (need params ''lib'') (\<lambda>lib.
     (let pattern = opt_str params ''pattern'' in
     cmd_library_list_cells R lib pattern))"

section \<open>\<open>maestro\<close>\<close>

definition rpc_maestro_open_session :: "('w, 'f) rpc_env \<Rightarrow> 'f json \<Rightarrow> ('w, 'f json) act" where
  "rpc_maestro_open_session R params =
     bind_act (need params ''lib'') (\<lambda>lib.
     bind_act (need params ''cell'') (\<lambda>cell.
     bind_act (str_param_or params ''view'' ''maestro'') (\<lambda>view.
     bind_act (str_param_or params ''mode'' ''r'') (\<lambda>mode.
     bind_act (of_result (check_session_mode mode)) (\<lambda>_.
     bind_act (execute_required R (render (open_session lib cell view mode)) ''open Maestro session'') (\<lambda>r. rpc_ok [(''session'', JStr (output_unquoted r)), (''mode'', JStr mode)]))))))"

definition rpc_maestro_set_session_mode :: "('w, 'f) rpc_env \<Rightarrow> 'f json \<Rightarrow> ('w, 'f json) act" where
  "rpc_maestro_set_session_mode R params =
     bind_act (need params ''session'') (\<lambda>session.
     bind_act (need params ''mode'') (\<lambda>mode.
     bind_act (of_result (check_session_mode mode)) (\<lambda>_.
     bind_act (execute_required R (render (set_session_mode session (mode = ''a''))) ''set Maestro session mode'') (\<lambda>_. rpc_ok [(''session'', JStr session), (''mode'', JStr mode)]))))"

definition rpc_maestro_close_session :: "('w, 'f) rpc_env \<Rightarrow> 'f json \<Rightarrow> ('w, 'f json) act" where
  "rpc_maestro_close_session R params =
     bind_act (need params ''session'') (\<lambda>session.
     bind_act (execute_required R (render (close_session session)) ''close Maestro session'') (\<lambda>_. rpc_ok []))"

definition rpc_maestro_list_sessions :: "('w, 'f) rpc_env \<Rightarrow> 'f json \<Rightarrow> ('w, 'f json) act" where
  "rpc_maestro_list_sessions R params =
     bind_act (execute_query R (render (list_sessions)) ''list Maestro sessions'') (\<lambda>r. of_result (parse_skill_json (rp_parse R) (vr_output r)))"

definition rpc_maestro_list_tests :: "('w, 'f) rpc_env \<Rightarrow> 'f json \<Rightarrow> ('w, 'f json) act" where
  "rpc_maestro_list_tests R params =
     bind_act (need params ''session'') (\<lambda>session.
     bind_act (execute_query R (render (list_tests session)) ''list Maestro tests'') (\<lambda>r. of_result (parse_skill_json (rp_parse R) (vr_output r))))"

definition rpc_maestro_list_corners :: "('w, 'f) rpc_env \<Rightarrow> 'f json \<Rightarrow> ('w, 'f json) act" where
  "rpc_maestro_list_corners R params =
     bind_act (need params ''session'') (\<lambda>session.
     bind_act (bind_act (execute_query R (render (list_corners session)) ''list Maestro corners'') (\<lambda>r. of_result (ok_or_exec ''list Maestro corners'' r)))
       (\<lambda>r. of_result (parse_skill_json (rp_parse R) (vr_output r))))"

definition rpc_maestro_set_var :: "('w, 'f) rpc_env \<Rightarrow> 'f json \<Rightarrow> ('w, 'f json) act" where
  "rpc_maestro_set_var R params =
     bind_act (need params ''name'') (\<lambda>name.
     bind_act (need params ''value'') (\<lambda>val.
     bind_act (execute_required R (render (set_var name val)) ''set Maestro variable'') (\<lambda>_. rpc_ok [])))"

definition rpc_maestro_get_var :: "('w, 'f) rpc_env \<Rightarrow> 'f json \<Rightarrow> ('w, 'f json) act" where
  "rpc_maestro_get_var R params =
     bind_act (need params ''name'') (\<lambda>name.
     bind_act (execute_query R (render (get_var name)) ''get Maestro variable'') (\<lambda>r. pure_act (json_object [(''value'', JStr (trim (vr_output r)))])))"

definition rpc_maestro_list_vars :: "('w, 'f) rpc_env \<Rightarrow> 'f json \<Rightarrow> ('w, 'f json) act" where
  "rpc_maestro_list_vars R params =
     bind_act (execute_query R (render (list_vars)) ''list Maestro variables'') (\<lambda>r. of_result (parse_skill_json (rp_parse R) (vr_output r)))"

definition rpc_maestro_delete_var :: "('w, 'f) rpc_env \<Rightarrow> 'f json \<Rightarrow> ('w, 'f json) act" where
  "rpc_maestro_delete_var R params =
     bind_act (need params ''name'') (\<lambda>name.
     bind_act (execute_required R (render (delete_var name)) ''delete Maestro variable'') (\<lambda>_. rpc_ok []))"

definition rpc_maestro_delete_output :: "('w, 'f) rpc_env \<Rightarrow> 'f json \<Rightarrow> ('w, 'f json) act" where
  "rpc_maestro_delete_output R params =
     bind_act (need params ''name'') (\<lambda>name.
     bind_act (need params ''test'') (\<lambda>test.
     bind_act (execute_required R (render (delete_output name test)) ''delete Maestro output'') (\<lambda>_. rpc_ok [])))"

definition rpc_maestro_delete_analysis :: "('w, 'f) rpc_env \<Rightarrow> 'f json \<Rightarrow> ('w, 'f json) act" where
  "rpc_maestro_delete_analysis R params =
     bind_act (need params ''analysis'') (\<lambda>analysis.
     bind_act (execute_query R (render (delete_analysis analysis)) ''delete Maestro analysis'') (\<lambda>r. if trim_quotes (trim (vr_output r)) = ''t'' then rpc_ok []
       else fail_act (Execution (''analysis '' @ quoted analysis @ '' is still enabled after delete''))))"

definition rpc_maestro_run :: "('w, 'f) rpc_env \<Rightarrow> 'f json \<Rightarrow> ('w, 'f json) act" where
  "rpc_maestro_run R params =
     bind_act (need params ''session'') (\<lambda>session.
     bind_act (execute_required R (render (run_simulation session)) ''run Maestro simulation'') (\<lambda>_. rpc_ok []))"

definition rpc_maestro_save :: "('w, 'f) rpc_env \<Rightarrow> 'f json \<Rightarrow> ('w, 'f json) act" where
  "rpc_maestro_save R params =
     bind_act (need params ''session'') (\<lambda>session.
     bind_act (execute_required R (render (save_setup session)) ''save Maestro setup'') (\<lambda>_. rpc_ok []))"

definition rpc_maestro_export :: "('w, 'f) rpc_env \<Rightarrow> 'f json \<Rightarrow> ('w, 'f json) act" where
  "rpc_maestro_export R params =
     bind_act (need params ''session'') (\<lambda>session.
     bind_act (need params ''path'') (\<lambda>path.
     (let test_name = opt_str params ''test_name'' in
     bind_act (execute_required R (render (export_results session path test_name None)) ''export Maestro results'') (\<lambda>_. rpc_ok []))))"

definition rpc_maestro_open_results :: "('w, 'f) rpc_env \<Rightarrow> 'f json \<Rightarrow> ('w, 'f json) act" where
  "rpc_maestro_open_results R params =
     bind_act (need params ''history'') (\<lambda>history.
     bind_act (execute_required R (render (open_results history)) ''open Maestro results'') (\<lambda>_. rpc_ok []))"

definition rpc_maestro_close_results :: "('w, 'f) rpc_env \<Rightarrow> 'f json \<Rightarrow> ('w, 'f json) act" where
  "rpc_maestro_close_results R params =
     bind_act (execute_required R (render (close_results)) ''close Maestro results'') (\<lambda>_. rpc_ok [])"

definition rpc_maestro_get_result_tests :: "('w, 'f) rpc_env \<Rightarrow> 'f json \<Rightarrow> ('w, 'f json) act" where
  "rpc_maestro_get_result_tests R params =
     bind_act (execute_query R (render (get_result_tests)) ''get Maestro result tests'') (\<lambda>r. of_result (parse_skill_json (rp_parse R) (vr_output r)))"

definition rpc_maestro_get_result_outputs :: "('w, 'f) rpc_env \<Rightarrow> 'f json \<Rightarrow> ('w, 'f json) act" where
  "rpc_maestro_get_result_outputs R params =
     bind_act (need params ''test'') (\<lambda>test.
     bind_act (execute_query R (render (get_result_outputs test)) ''get Maestro result outputs'') (\<lambda>r. of_result (parse_skill_json (rp_parse R) (vr_output r))))"

definition rpc_maestro_get_output_value :: "('w, 'f) rpc_env \<Rightarrow> 'f json \<Rightarrow> ('w, 'f json) act" where
  "rpc_maestro_get_output_value R params =
     bind_act (need params ''name'') (\<lambda>name.
     bind_act (need params ''test'') (\<lambda>test.
     (let corner = opt_str params ''corner'' in
     bind_act (execute_query R (render (get_output_value name test corner)) ''get Maestro output value'') (\<lambda>r. pure_act (json_object [(''value'', JStr (trim (vr_output r)))])))))"

definition rpc_maestro_get_history_list :: "('w, 'f) rpc_env \<Rightarrow> 'f json \<Rightarrow> ('w, 'f json) act" where
  "rpc_maestro_get_history_list R params =
     bind_act (execute_query R (render (get_history_list)) ''get Maestro history list'') (\<lambda>r. of_result (parse_skill_json (rp_parse R) (vr_output r)))"

definition rpc_maestro_get_analyses :: "('w, 'f) rpc_env \<Rightarrow> 'f json \<Rightarrow> ('w, 'f json) act" where
  "rpc_maestro_get_analyses R params =
     bind_act (need params ''session'') (\<lambda>session.
     (let test = opt_str params ''test'' in
     bind_act (version_or_default R) (\<lambda>version.
     bind_act (execute_query R (render (get_analyses session test)) ''get Maestro analyses'') (\<lambda>r. pure_act (json_object [(''analyses'', JStr (trim (vr_output r)))])))))"

definition rpc_maestro_get_outputs :: "('w, 'f) rpc_env \<Rightarrow> 'f json \<Rightarrow> ('w, 'f json) act" where
  "rpc_maestro_get_outputs R params =
     bind_act (need params ''test'') (\<lambda>test.
     bind_act (execute_query R (render (get_outputs test)) ''get Maestro outputs'') (\<lambda>r. of_result (parse_skill_json (rp_parse R) (vr_output r))))"

definition rpc_maestro_get_sim_messages :: "('w, 'f) rpc_env \<Rightarrow> 'f json \<Rightarrow> ('w, 'f json) act" where
  "rpc_maestro_get_sim_messages R params =
     bind_act (need params ''session'') (\<lambda>session.
     bind_act (execute_query R (render (get_sim_messages session)) ''get Maestro simulation messages'') (\<lambda>r. pure_act (json_object [(''messages'', JStr (trim (vr_output r)))])))"

definition rpc_maestro_get_current_session :: "('w, 'f) rpc_env \<Rightarrow> 'f json \<Rightarrow> ('w, 'f json) act" where
  "rpc_maestro_get_current_session R params =
     bind_act (execute_query R (render (get_current_session)) ''get current Maestro session'') (\<lambda>r. let s = trim_quotes (trim (vr_output r)) in
       pure_act (json_object [(''session'', if s = ''nil'' then JNull else JStr s)]))"

definition rpc_maestro_set_analysis :: "('w, 'f) rpc_env \<Rightarrow> 'f json \<Rightarrow> ('w, 'f json) act" where
  "rpc_maestro_set_analysis R params =
     bind_act (need params ''session'') (\<lambda>session.
     bind_act (need params ''type'') (\<lambda>type_name.
     (let options = opt_str params ''options'' in
     (let test = opt_str params ''test'' in
     bind_act (version_or_default R) (\<lambda>version.
     case set_analysis session type_name options test version of
       None \<Rightarrow> panic_act
     | Some ps \<Rightarrow> bind_act (execute_required R (render (ps)) ''set Maestro analysis'') (\<lambda>r. rpc_ok [(''output'', JStr (trim (vr_output r)))]))))))"

definition rpc_maestro_add_output :: "('w, 'f) rpc_env \<Rightarrow> 'f json \<Rightarrow> ('w, 'f json) act" where
  "rpc_maestro_add_output R params =
     bind_act (need params ''name'') (\<lambda>name.
     bind_act (need params ''test'') (\<lambda>test.
     bind_act (need params ''expr'') (\<lambda>expr.
     bind_act (execute_required R (render (add_output name test expr)) ''add Maestro output'') (\<lambda>r. rpc_ok [(''output'', JStr (trim (vr_output r)))]))))"

definition rpc_maestro_set_design :: "('w, 'f) rpc_env \<Rightarrow> 'f json \<Rightarrow> ('w, 'f json) act" where
  "rpc_maestro_set_design R params =
     bind_act (need params ''session'') (\<lambda>session.
     bind_act (need params ''lib'') (\<lambda>lib.
     bind_act (need params ''cell'') (\<lambda>cell.
     bind_act (need params ''view'') (\<lambda>view.
     (let test = opt_str params ''test'' in
     bind_act (execute_required R (render (set_design session lib cell view test)) ''set Maestro design'') (\<lambda>r. rpc_ok [(''output'', JStr (trim (vr_output r)))]))))))"

definition rpc_maestro_create_test :: "('w, 'f) rpc_env \<Rightarrow> 'f json \<Rightarrow> ('w, 'f json) act" where
  "rpc_maestro_create_test R params =
     bind_act (need params ''session'') (\<lambda>session.
     bind_act (need params ''test'') (\<lambda>test.
     bind_act (need params ''lib'') (\<lambda>lib.
     bind_act (need params ''cell'') (\<lambda>cell.
     bind_act (str_param_or params ''view'' ''schematic'') (\<lambda>view.
     bind_act (str_param_or params ''simulator'' ''spectre'') (\<lambda>simulator.
     bind_act (execute_required R (render (create_test session test lib cell view simulator)) ''create Maestro test'') (\<lambda>_. rpc_ok [(''test'', JStr test), (''lib'', JStr lib), (''cell'', JStr cell),
       (''view'', JStr view), (''simulator'', JStr simulator)])))))))"

definition rpc_maestro_save_setup :: "('w, 'f) rpc_env \<Rightarrow> 'f json \<Rightarrow> ('w, 'f json) act" where
  "rpc_maestro_save_setup R params =
     bind_act (need params ''session'') (\<lambda>session.
     bind_act (execute_required R (render (save_setup session)) ''save Maestro setup'') (\<lambda>r. rpc_ok [(''output'', JStr (trim (vr_output r)))]))"

definition rpc_maestro_get_spec_status :: "('w, 'f) rpc_env \<Rightarrow> 'f json \<Rightarrow> ('w, 'f json) act" where
  "rpc_maestro_get_spec_status R params =
     bind_act (need params ''name'') (\<lambda>name.
     bind_act (need params ''test'') (\<lambda>test.
     bind_act (execute_query R (render (get_spec_status name test)) ''get Maestro spec status'') (\<lambda>r. pure_act (json_object [(''status'', JStr (trim (vr_output r)))]))))"

definition rpc_maestro_snapshot :: "('w, 'f) rpc_env \<Rightarrow> 'f json \<Rightarrow> ('w, 'f json) act" where
  "rpc_maestro_snapshot R params =
     bind_act (need params ''output_dir'') (\<lambda>output_dir.
     (let session = opt_str params ''session'' in
     (let history = opt_str params ''history'' in
     (let filter_path = opt_str params ''filter_path'' in
     rp_command R (CSnapshot output_dir session history filter_path)))))"

definition rpc_maestro_create_corner_netlist :: "('w, 'f) rpc_env \<Rightarrow> 'f json \<Rightarrow> ('w, 'f json) act" where
  "rpc_maestro_create_corner_netlist R params =
     bind_act (need params ''session'') (\<lambda>session.
     bind_act (need params ''test'') (\<lambda>test.
     bind_act (need params ''corner'') (\<lambda>corner.
     bind_act (need params ''output_dir'') (\<lambda>output_dir.
     rp_command R (CCornerNetlist session test corner output_dir)))))"

section \<open>\<open>window\<close>\<close>

definition rpc_window_list :: "('w, 'f) rpc_env \<Rightarrow> 'f json \<Rightarrow> ('w, 'f json) act" where
  "rpc_window_list R params =
     bind_act (execute_query R (render (list_windows)) ''list windows'') (\<lambda>r. of_result (parse_skill_json (rp_parse R) (vr_output r)))"

definition rpc_window_screenshot :: "('w, 'f) rpc_env \<Rightarrow> 'f json \<Rightarrow> ('w, 'f json) act" where
  "rpc_window_screenshot R params =
     bind_act (need params ''path'') (\<lambda>path.
     (let window_id = opt_str params ''window_id'' in
     (let disp = opt_str params ''display'' in
     catch_act (rp_command R (CScreenshot path window_id disp))
       (\<lambda>e. json_object [(''status'', JStr ''capture-failed''), (''error'', JStr (display_virtuoso_error e))]))))"

definition rpc_window_screenshot_by_pattern :: "('w, 'f) rpc_env \<Rightarrow> 'f json \<Rightarrow> ('w, 'f json) act" where
  "rpc_window_screenshot_by_pattern R params =
     bind_act (need params ''path'') (\<lambda>path.
     bind_act (need params ''pattern'') (\<lambda>pattern.
     bind_act (execute_query R (render (screenshot_by_pattern path pattern)) ''capture screenshot by pattern'') (\<lambda>r. let out = trim (vr_output r) in
       if out = ''no-match'' then pure_act (json_object [(''status'', JStr ''no-match'')])
       else if out = [] \<or> out = ''nil'' then pure_act (json_object [(''status'', JStr ''capture-failed'')])
       else rpc_ok [(''path'', JStr out)])))"

definition rpc_window_dismiss_dialog :: "('w, 'f) rpc_env \<Rightarrow> 'f json \<Rightarrow> ('w, 'f json) act" where
  "rpc_window_dismiss_dialog R params =
     bind_act (str_param_or params ''action'' ''cancel'') (\<lambda>action.
     bind_act (execute_required R (render (dismiss_dialog action)) ''dismiss dialog'') (\<lambda>r. let out = trim_quotes (trim (vr_output r)) in
       if out = ''no-dialog'' then pure_act (json_object [(''status'', JStr ''no-dialog'')]) else rpc_ok [(''action'', JStr out)]))"

definition rpc_window_get_dialog_info :: "('w, 'f) rpc_env \<Rightarrow> 'f json \<Rightarrow> ('w, 'f json) act" where
  "rpc_window_get_dialog_info R params =
     bind_act (execute_query R (render (get_dialog_info)) ''get dialog information'') (\<lambda>r. let out = trim_quotes (trim (vr_output r)) in
       pure_act (json_object [(''dialog'', if out = ''no-dialog'' then JNull else JStr out)]))"

definition rpc_window_dismiss_dialog_x11 :: "('w, 'f) rpc_env \<Rightarrow> 'f json \<Rightarrow> ('w, 'f json) act" where
  "rpc_window_dismiss_dialog_x11 R params =
     bind_act (str_param_or params ''action'' ''enter'') (\<lambda>action.
     (let dry_run = flag_or params ''dry_run'' False in
     (let disp = opt_str params ''display'' in
     (let window_id = opt_str params ''window_id'' in
     rp_command R (CDismissDialogX11 action dry_run window_id disp)))))"

definition rpc_window_list_windows_x11 :: "('w, 'f) rpc_env \<Rightarrow> 'f json \<Rightarrow> ('w, 'f json) act" where
  "rpc_window_list_windows_x11 R params =
     (let disp = opt_str params ''display'' in
     rp_command R (CListWindowsX11 disp))"

definition rpc_window_dismiss_window_x11 :: "('w, 'f) rpc_env \<Rightarrow> 'f json \<Rightarrow> ('w, 'f json) act" where
  "rpc_window_dismiss_window_x11 R params =
     (let window_id = opt_str params ''window_id'' in
     (let pid = map_option (\<lambda>n. ucast n :: u32) (opt_u64 params ''pid'') in
     bind_act (str_param_or params ''action'' ''enter'') (\<lambda>action.
     (let disp = opt_str params ''display'' in
     rp_command R (CDismissWindowX11 window_id pid action disp)))))"

definition rpc_window_geometry :: "('w, 'f) rpc_env \<Rightarrow> 'f json \<Rightarrow> ('w, 'f json) act" where
  "rpc_window_geometry R params =
     bind_act (need params ''window_id'') (\<lambda>window_id.
     (let disp = opt_str params ''display'' in
     rp_command R (CGeometry window_id disp)))"

section \<open>\<open>cell\<close>\<close>

definition rpc_cell_open :: "('w, 'f) rpc_env \<Rightarrow> 'f json \<Rightarrow> ('w, 'f json) act" where
  "rpc_cell_open R params =
     bind_act (need params ''lib'') (\<lambda>lib.
     bind_act (need params ''cell'') (\<lambda>cell.
     bind_act (str_param_or params ''view'' ''layout'') (\<lambda>view.
     bind_act (str_param_or params ''mode'' ''a'') (\<lambda>mode.
     bind_act (cell_write R (ROpenCellView lib cell view mode) ''open cell'') (\<lambda>r.
     rpc_ok [(''output'', JStr (vr_output r))])))))"

definition rpc_cell_save :: "('w, 'f) rpc_env \<Rightarrow> 'f json \<Rightarrow> ('w, 'f json) act" where
  "rpc_cell_save R params =
     bind_act (cell_write R RSaveCellview ''save cell'') (\<lambda>r. rpc_ok [(''output'', JStr (vr_output r))])"

definition rpc_cell_close :: "('w, 'f) rpc_env \<Rightarrow> 'f json \<Rightarrow> ('w, 'f json) act" where
  "rpc_cell_close R params =
     (let saved = flag_or params ''save'' True in
     bind_act (cell_write R (RCloseCellview saved) ''close cell'') (\<lambda>r.
     rpc_ok [(''saved'', JBool saved), (''output'', JStr (vr_output r))]))"

definition rpc_cell_info :: "('w, 'f) rpc_env \<Rightarrow> 'f json \<Rightarrow> ('w, 'f json) act" where
  "rpc_cell_info R params =
     bind_act (rp_design R) (\<lambda>(lib, cell, view).
     pure_act (json_object [(''lib'', JStr lib), (''cell'', JStr cell), (''view'', JStr view)]))"

definition rpc_cell_list_open :: "('w, 'f) rpc_env \<Rightarrow> 'f json \<Rightarrow> ('w, 'f json) act" where
  "rpc_cell_list_open R params =
     bind_act (execute_query R (OPEN_CELLVIEWS) ''list open cellviews'') (\<lambda>r. of_result (parse_skill_json (rp_parse R) (vr_output r)))"

definition unknown_view_type :: "string \<Rightarrow> virtuoso_error" where
  "unknown_view_type view =
     Config (''cell.create: don'' @ [CHR 0x27] @ ''t know the cellViewType for view '' @ quoted view @ '' '' @ em_dash @
       '' pass '' @ quoted ''view_type'' @ '' explicitly (e.g. schematic, schematicSymbol, maskLayout, netlist)'')"

definition cell_create_text :: "string \<Rightarrow> string \<Rightarrow> string \<Rightarrow> string \<Rightarrow> piece list" where
  \<open>cell_create_text lib cell view view_type =
     [T ''let((existing cv) existing = nil errset(existing = ddGetObj("'', A lib, T ''" "'', A cell, T ''" "'', A view,
      T ''")) when(existing error("cell.create: '', A lib, T ''/'', A cell, T ''/'', A view, T '' already exists '',
      T em_dash, T '' delete it first, this would overwrite it")) cv = dbOpenCellViewByType("'', A lib, T ''" "'', A cell,
      T ''" "'', A view, T ''" "'', A view_type, T ''" "w") when(!cv error("cell.create: dbOpenCellViewByType failed for '',
      A lib, T ''/'', A cell, T ''/'', A view, T '' (type '', A view_type,
      T '')")) when(!dbSave(cv) dbClose(cv) error("cell.create: dbSave failed for '', A lib, T ''/'', A cell, T ''/'', A view,
      T ''")) dbClose(cv) sprintf(nil "'', A lib, T ''/'', A cell, T ''/'', A view, T '' ('', A view_type, T '')"))'']\<close>

definition read_path_text :: "string \<Rightarrow> piece list" where
  \<open>read_path_text lib = [T ''ddGetObj("'', A lib, T ''")~>readPath'']\<close>

definition rpc_cell_create :: "('w, 'f) rpc_env \<Rightarrow> 'f json \<Rightarrow> ('w, 'f json) act" where
  "rpc_cell_create R params =
     bind_act (need params ''lib'') (\<lambda>lib.
     bind_act (need params ''cell'') (\<lambda>cell.
     bind_act (str_param_or params ''view'' ''schematic'') (\<lambda>view.
     bind_act (of_result (case opt_str params ''view_type'' of
         Some t \<Rightarrow> Inr t
       | None \<Rightarrow> (case cell_view_type_for view of Some t \<Rightarrow> Inr t | None \<Rightarrow> Inl (unknown_view_type view)))) (\<lambda>view_type.
     bind_act (execute_required R (render (cell_create_text lib cell view view_type)) ''create cell'') (\<lambda>r. rpc_ok [(''lib'', JStr lib), (''cell'', JStr cell), (''view'', JStr view),
       (''view_type'', JStr view_type), (''output'', JStr (trim (vr_output r)))])))))"

definition rpc_cell_delete_view :: "('w, 'f) rpc_env \<Rightarrow> 'f json \<Rightarrow> ('w, 'f json) act" where
  "rpc_cell_delete_view R params =
     bind_act (need params ''lib'') (\<lambda>lib.
     bind_act (need params ''cell'') (\<lambda>cell.
     bind_act (need params ''view'') (\<lambda>view.
     rp_command R (CDeleteView lib cell view (confirm_of params)))))"

definition rpc_cell_delete :: "('w, 'f) rpc_env \<Rightarrow> 'f json \<Rightarrow> ('w, 'f json) act" where
  "rpc_cell_delete R params =
     bind_act (need params ''lib'') (\<lambda>lib.
     bind_act (need params ''cell'') (\<lambda>cell.
     rp_command R (CDeleteCell lib cell (confirm_of params))))"

definition rpc_cell_read_path :: "('w, 'f) rpc_env \<Rightarrow> 'f json \<Rightarrow> ('w, 'f json) act" where
  "rpc_cell_read_path R params =
     bind_act (need params ''lib'') (\<lambda>lib.
     bind_act (execute_query R (render (read_path_text lib)) ''read library path'') (\<lambda>r. let p = trim_quotes (trim (vr_output r)) in
       pure_act (json_object [(''lib'', JStr lib), (''read_path'', if p = ''nil'' \<or> p = [] then JNull else JStr p)])))"

section \<open>\<open>tx\<close>, \<open>file\<close> and \<open>util\<close>\<close>

definition rpc_tx_begin :: "('w, 'f) rpc_env \<Rightarrow> 'f json \<Rightarrow> ('w, 'f json) act" where
  "rpc_tx_begin R params =
     bind_act (need params ''id'') (\<lambda>tid.
     bind_act (need params ''lib'') (\<lambda>lib.
     bind_act (need params ''cell'') (\<lambda>cell.
     bind_act (str_param_or params ''view'' ''schematic'') (\<lambda>view.
     bind_act (rp_tx_begin R tid lib cell view) (\<lambda>_. rpc_ok [(''id'', JStr tid)])))))"

definition rpc_tx_commit :: "('w, 'f) rpc_env \<Rightarrow> 'f json \<Rightarrow> ('w, 'f json) act" where
  "rpc_tx_commit R params =
     bind_act (rp_tx_commit R) (\<lambda>_. rpc_ok [])"

definition rpc_tx_rollback :: "('w, 'f) rpc_env \<Rightarrow> 'f json \<Rightarrow> ('w, 'f json) act" where
  "rpc_tx_rollback R params =
     bind_act (rp_tx_rollback R) (\<lambda>_. rpc_ok [])"

text \<open>The changes of an instance: a \<open>HashMap\<close> of objects with the old and the new text.\<close>

definition modify_json :: "instance_modify \<Rightarrow> 'f json" where
  "modify_json im =
     json_object [(''name'', JStr (im_name im)),
       (''changes'', json_object (map (\<lambda>(k, c).
          (k, json_object [(''old'', JStr (pc_old c)), (''new'', JStr (pc_new c))])) (im_changes im)))]"

definition strings_json :: "string list \<Rightarrow> 'f json" where
  "strings_json xs = JArr (map JStr xs)"

definition rpc_tx_diff :: "('w, 'f) rpc_env \<Rightarrow> 'f json \<Rightarrow> ('w, 'f json) act" where
  "rpc_tx_diff R params =
     bind_act (rp_tx_diff R) (\<lambda>d.
     pure_act (json_object [(''instances_added'', strings_json (df_instances_added d)),
       (''instances_removed'', strings_json (df_instances_removed d)),
       (''instances_modified'', JArr (map modify_json (df_instances_modified d))),
       (''nets_added'', strings_json (df_nets_added d)), (''nets_removed'', strings_json (df_nets_removed d)),
       (''pins_added'', strings_json (df_pins_added d)), (''pins_removed'', strings_json (df_pins_removed d))]))"

definition rpc_tx_status :: "('w, 'f) rpc_env \<Rightarrow> 'f json \<Rightarrow> ('w, 'f json) act" where
  "rpc_tx_status R params =
     bind_act (rp_tx_status R) (\<lambda>s.
     case s of
       Some (tid, sn) \<Rightarrow> pure_act (json_object [(''active'', JBool True), (''id'', JStr tid),
         (''snapshot'', json_object [(''lib'', JStr (sn_lib sn)), (''cell'', JStr (sn_cell sn)), (''view'', JStr (sn_view sn)),
            (''instances'', JInt (int (length (sn_instances sn)))), (''nets'', JInt (int (length (sn_nets sn))))])])
     | None \<Rightarrow> pure_act (json_object [(''active'', JBool False)]))"

definition rpc_file_upload :: "('w, 'f) rpc_env \<Rightarrow> 'f json \<Rightarrow> ('w, 'f json) act" where
  "rpc_file_upload R params =
     bind_act (need params ''local'') (\<lambda>loc.
     bind_act (need params ''remote'') (\<lambda>remote.
     bind_act (rp_upload R loc remote) (\<lambda>_. rpc_ok [(''remote'', JStr remote)])))"

definition rpc_file_download :: "('w, 'f) rpc_env \<Rightarrow> 'f json \<Rightarrow> ('w, 'f json) act" where
  "rpc_file_download R params =
     bind_act (need params ''remote'') (\<lambda>remote.
     bind_act (need params ''local'') (\<lambda>loc.
     bind_act (rp_download R remote loc) (\<lambda>_. rpc_ok [(''local'', JStr loc)])))"

definition rpc_util_version :: "('w, 'f) rpc_env \<Rightarrow> 'f json \<Rightarrow> ('w, 'f json) act" where
  "rpc_util_version R params =
     bind_act (rp_version R) (\<lambda>v.
     pure_act (json_object [(''version'', JStr (debug_version v)), (''is_ic25'', JBool (is_ic25 v))]))"

definition rpc_util_ping :: "('w, 'f) rpc_env \<Rightarrow> 'f json \<Rightarrow> ('w, 'f json) act" where
  "rpc_util_ping R params =
     bind_act (rp_request R (RProbe ''plus(1 1)'' (Some 5000))) (\<lambda>r.
     if skill_ok r then rpc_ok [] else fail_act (Execution ''ping failed''))"

definition rpc_util_ciw_print :: "('w, 'f) rpc_env \<Rightarrow> 'f json \<Rightarrow> ('w, 'f json) act" where
  \<open>rpc_util_ciw_print R params =
     bind_act (need params ''message'') (\<lambda>message.
     bind_act (execute_required R (render ([T ''println("'', A message, T ''")''])) ''print to CIW'') (\<lambda>r. rpc_ok [(''output'', JStr (trim (vr_output r)))]))\<close>

definition rpc_util_reconnect :: "('w, 'f) rpc_env \<Rightarrow> 'f json \<Rightarrow> ('w, 'f json) act" where
  "rpc_util_reconnect R params =
     bind_act (need params ''session'') (\<lambda>session.
     bind_act (rp_reconnect R session) (\<lambda>ok.
     pure_act (json_object [(''status'', JStr (if ok then ''ok'' else ''failed''))])))"

section \<open>\<open>skill\<close>, \<open>libref\<close> and \<open>sim\<close>\<close>

definition rpc_skill_exec :: "('w, 'f) rpc_env \<Rightarrow> 'f json \<Rightarrow> ('w, 'f json) act" where
  "rpc_skill_exec R params =
     bind_act (need params ''code'') (\<lambda>code.
     (let timeout = opt_u64 params ''timeout'' in
     bind_act (rp_request R (RExecute code timeout)) (\<lambda>r.
     pure_act (json_object [(''output'', JStr (trim (vr_output r)))]))))"

definition rpc_skill_load :: "('w, 'f) rpc_env \<Rightarrow> 'f json \<Rightarrow> ('w, 'f json) act" where
  "rpc_skill_load R params =
     bind_act (need params ''path'') (\<lambda>path.
     bind_act (rp_request R (RLoad path False)) (\<lambda>r.
     rpc_ok [(''output'', JStr (trim (vr_output r))), (''loaded_path'', opt_json (vr_metadata r ''loaded_path''))]))"

definition rpc_skill_eval :: "('w, 'f) rpc_env \<Rightarrow> 'f json \<Rightarrow> ('w, 'f json) act" where
  "rpc_skill_eval R params =
     (let code = opt_str params ''code'' in
     (let stdin = flag_or params ''stdin'' False in
     rp_command R (CSkillEval code stdin)))"

definition rpc_skill_find :: "('w, 'f) rpc_env \<Rightarrow> 'f json \<Rightarrow> ('w, 'f json) act" where
  "rpc_skill_find R params =
     bind_act (need params ''query'') (\<lambda>query.
     (let mode = (case opt_str params ''mode'' of Some m \<Rightarrow> m | None \<Rightarrow> ''fuzzy'');
          limit = limit_or_50 params in
     (let include_desc = flag_or params ''include_desc'' False in
     (let refresh = flag_or params ''refresh'' False in
     rp_command R (CSkillFind mode query limit include_desc refresh)))))"

definition rpc_skill_info :: "('w, 'f) rpc_env \<Rightarrow> 'f json \<Rightarrow> ('w, 'f json) act" where
  "rpc_skill_info R params =
     bind_act (need params ''func'') (\<lambda>func_name.
     rp_command R (CSkillInfo func_name))"

definition rpc_skill_sync :: "('w, 'f) rpc_env \<Rightarrow> 'f json \<Rightarrow> ('w, 'f json) act" where
  "rpc_skill_sync R params =
     (let host = opt_str params ''host'' in
     rp_command R (CSkillSync host))"

definition rpc_skill_cache :: "('w, 'f) rpc_env \<Rightarrow> 'f json \<Rightarrow> ('w, 'f json) act" where
  "rpc_skill_cache R params =
     (let host = opt_str params ''host'' in
     (let clear = flag_or params ''clear'' False in
     rp_command R (CSkillCache host clear)))"

definition rpc_libref_list :: "('w, 'f) rpc_env \<Rightarrow> 'f json \<Rightarrow> ('w, 'f json) act" where
  "rpc_libref_list R params =
     (let refresh = flag_or params ''refresh'' False;
          lib = (case opt_str params ''lib'' of Some l \<Rightarrow> l | None \<Rightarrow> []) in
     rp_command R (CLibrefList lib (opt_str params ''category'') refresh))"

definition rpc_libref_info :: "('w, 'f) rpc_env \<Rightarrow> 'f json \<Rightarrow> ('w, 'f json) act" where
  "rpc_libref_info R params =
     (let refresh = flag_or params ''refresh'' False;
          lib = (case opt_str params ''lib'' of Some l \<Rightarrow> l | None \<Rightarrow> []) in
     bind_act (case opt_str params ''symbol'' of
         Some s \<Rightarrow> pure_act s
       | None \<Rightarrow> if lib \<noteq> [] then pure_act [] else need params ''symbol'') (\<lambda>symbol.
     rp_command R (CLibrefInfo symbol lib refresh)))"

definition rpc_libref_find :: "('w, 'f) rpc_env \<Rightarrow> 'f json \<Rightarrow> ('w, 'f json) act" where
  "rpc_libref_find R params =
     (let refresh = flag_or params ''refresh'' False; limit = limit_or_50 params;
          lib = (case opt_str params ''lib'' of Some l \<Rightarrow> l | None \<Rightarrow> []) in
     bind_act (need params ''query'') (\<lambda>query.
     (let mode = (case opt_str params ''mode'' of Some m \<Rightarrow> m | None \<Rightarrow> ''fuzzy'');
          scope = (case opt_str params ''scope'' of Some s \<Rightarrow> s | None \<Rightarrow> ''params'') in
     rp_command R (CLibrefFind query mode scope lib limit refresh))))"

definition rpc_sim_check_license :: "('w, 'f) rpc_env \<Rightarrow> 'f json \<Rightarrow> ('w, 'f json) act" where
  "rpc_sim_check_license R params =
     rp_command R (CCheckLicense)"

section \<open>The domains and the dispatcher\<close>

definition dispatch_schematic :: "('w, 'f) rpc_env \<Rightarrow> string \<Rightarrow> 'f json \<Rightarrow> ('w, 'f json) act" where
  "dispatch_schematic R op params =
     (if op = ''open_cell_view'' then rpc_schematic_open_cell_view R params
      else if op = ''place'' then rpc_schematic_place R params
      else if op = ''move_instance'' then rpc_schematic_move_instance R params
      else if op = ''wire'' then rpc_schematic_wire R params
      else if op = ''label'' then rpc_schematic_label R params
      else if op = ''pin'' then rpc_schematic_pin R params
      else if op = ''save'' then rpc_schematic_save R params
      else if op = ''check'' then rpc_schematic_check R params
      else if op = ''list_instances'' then rpc_schematic_list_instances R params
      else if op = ''list_nets'' then rpc_schematic_list_nets R params
      else if op = ''list_pins'' then rpc_schematic_list_pins R params
      else if op = ''list_cdf_params'' then rpc_schematic_list_cdf_params R params
      else if op = ''get_params'' then rpc_schematic_get_params R params
      else if op = ''set_param'' then rpc_schematic_set_param R params
      else if op = ''delete_instance'' then rpc_schematic_delete_instance R params
      else if op = ''delete_figure'' then rpc_schematic_delete_figure R params
      else if op = ''delete_prop'' then rpc_schematic_delete_prop R params
      else if op = ''polish_label'' then rpc_schematic_polish_label R params
      else if op = ''net_stub'' then rpc_schematic_net_stub R params
      else if op = ''label_term'' then rpc_schematic_label_term R params
      else if op = ''assign_net'' then rpc_schematic_assign_net R params
      else fail_act (Execution (''unknown schematic method '' @ quoted op)))"

definition dispatch_symbol :: "('w, 'f) rpc_env \<Rightarrow> string \<Rightarrow> 'f json \<Rightarrow> ('w, 'f json) act" where
  "dispatch_symbol R op params =
     (if op = ''inspect'' then rpc_symbol_inspect R params
      else if op = ''generate'' then rpc_symbol_generate R params
      else fail_act (NotFound (''unknown symbol method '' @ quoted op)))"

definition dispatch_library :: "('w, 'f) rpc_env \<Rightarrow> string \<Rightarrow> 'f json \<Rightarrow> ('w, 'f json) act" where
  "dispatch_library R op params =
     (if op = ''list'' then rpc_library_list R params
      else if op = ''list_cells'' then rpc_library_list_cells R params
      else fail_act (NotFound (''unknown library method '' @ quoted op)))"

definition dispatch_maestro :: "('w, 'f) rpc_env \<Rightarrow> string \<Rightarrow> 'f json \<Rightarrow> ('w, 'f json) act" where
  "dispatch_maestro R op params =
     (if op = ''open_session'' then rpc_maestro_open_session R params
      else if op = ''set_session_mode'' then rpc_maestro_set_session_mode R params
      else if op = ''close_session'' then rpc_maestro_close_session R params
      else if op = ''list_sessions'' then rpc_maestro_list_sessions R params
      else if op = ''list_tests'' then rpc_maestro_list_tests R params
      else if op = ''list_corners'' then rpc_maestro_list_corners R params
      else if op = ''set_var'' then rpc_maestro_set_var R params
      else if op = ''get_var'' then rpc_maestro_get_var R params
      else if op = ''list_vars'' then rpc_maestro_list_vars R params
      else if op = ''delete_var'' then rpc_maestro_delete_var R params
      else if op = ''delete_output'' then rpc_maestro_delete_output R params
      else if op = ''delete_analysis'' then rpc_maestro_delete_analysis R params
      else if op = ''run'' then rpc_maestro_run R params
      else if op = ''save'' then rpc_maestro_save R params
      else if op = ''export'' then rpc_maestro_export R params
      else if op = ''open_results'' then rpc_maestro_open_results R params
      else if op = ''close_results'' then rpc_maestro_close_results R params
      else if op = ''get_result_tests'' then rpc_maestro_get_result_tests R params
      else if op = ''get_result_outputs'' then rpc_maestro_get_result_outputs R params
      else if op = ''get_output_value'' then rpc_maestro_get_output_value R params
      else if op = ''get_history_list'' then rpc_maestro_get_history_list R params
      else if op = ''get_analyses'' then rpc_maestro_get_analyses R params
      else if op = ''get_outputs'' then rpc_maestro_get_outputs R params
      else if op = ''get_sim_messages'' then rpc_maestro_get_sim_messages R params
      else if op = ''get_current_session'' then rpc_maestro_get_current_session R params
      else if op = ''set_analysis'' then rpc_maestro_set_analysis R params
      else if op = ''add_output'' then rpc_maestro_add_output R params
      else if op = ''set_design'' then rpc_maestro_set_design R params
      else if op = ''create_test'' then rpc_maestro_create_test R params
      else if op = ''save_setup'' then rpc_maestro_save_setup R params
      else if op = ''get_spec_status'' then rpc_maestro_get_spec_status R params
      else if op = ''snapshot'' then rpc_maestro_snapshot R params
      else if op = ''create_corner_netlist'' then rpc_maestro_create_corner_netlist R params
      else fail_act (Execution (''unknown maestro method '' @ quoted op)))"

definition dispatch_window :: "('w, 'f) rpc_env \<Rightarrow> string \<Rightarrow> 'f json \<Rightarrow> ('w, 'f json) act" where
  "dispatch_window R op params =
     (if op = ''list'' then rpc_window_list R params
      else if op = ''screenshot'' then rpc_window_screenshot R params
      else if op = ''screenshot_by_pattern'' then rpc_window_screenshot_by_pattern R params
      else if op = ''dismiss_dialog'' then rpc_window_dismiss_dialog R params
      else if op = ''get_dialog_info'' then rpc_window_get_dialog_info R params
      else if op = ''dismiss_dialog_x11'' then rpc_window_dismiss_dialog_x11 R params
      else if op = ''list_windows_x11'' then rpc_window_list_windows_x11 R params
      else if op = ''dismiss_window_x11'' then rpc_window_dismiss_window_x11 R params
      else if op = ''geometry'' then rpc_window_geometry R params
      else fail_act (Execution (''unknown window method '' @ quoted op)))"

definition dispatch_cell :: "('w, 'f) rpc_env \<Rightarrow> string \<Rightarrow> 'f json \<Rightarrow> ('w, 'f json) act" where
  "dispatch_cell R op params =
     (if op = ''open'' then rpc_cell_open R params
      else if op = ''save'' then rpc_cell_save R params
      else if op = ''close'' then rpc_cell_close R params
      else if op = ''info'' then rpc_cell_info R params
      else if op = ''list_open'' then rpc_cell_list_open R params
      else if op = ''create'' then rpc_cell_create R params
      else if op = ''delete_view'' then rpc_cell_delete_view R params
      else if op = ''delete'' then rpc_cell_delete R params
      else if op = ''read_path'' then rpc_cell_read_path R params
      else fail_act (Execution (''unknown cell method '' @ quoted op)))"

definition dispatch_tx :: "('w, 'f) rpc_env \<Rightarrow> string \<Rightarrow> 'f json \<Rightarrow> ('w, 'f json) act" where
  "dispatch_tx R op params =
     (if op = ''begin'' then rpc_tx_begin R params
      else if op = ''commit'' then rpc_tx_commit R params
      else if op = ''rollback'' then rpc_tx_rollback R params
      else if op = ''diff'' then rpc_tx_diff R params
      else if op = ''status'' then rpc_tx_status R params
      else fail_act (Execution (''unknown tx method '' @ quoted op)))"

definition dispatch_file :: "('w, 'f) rpc_env \<Rightarrow> string \<Rightarrow> 'f json \<Rightarrow> ('w, 'f json) act" where
  "dispatch_file R op params =
     (if op = ''upload'' then rpc_file_upload R params
      else if op = ''download'' then rpc_file_download R params
      else fail_act (Execution (''unknown file method '' @ quoted op)))"

definition dispatch_util :: "('w, 'f) rpc_env \<Rightarrow> string \<Rightarrow> 'f json \<Rightarrow> ('w, 'f json) act" where
  "dispatch_util R op params =
     (if op = ''version'' then rpc_util_version R params
      else if op = ''ping'' then rpc_util_ping R params
      else if op = ''ciw_print'' then rpc_util_ciw_print R params
      else if op = ''reconnect'' then rpc_util_reconnect R params
      else fail_act (Execution (''unknown util method '' @ quoted op)))"

definition dispatch_skill :: "('w, 'f) rpc_env \<Rightarrow> string \<Rightarrow> 'f json \<Rightarrow> ('w, 'f json) act" where
  "dispatch_skill R op params =
     (if op = ''exec'' then rpc_skill_exec R params
      else if op = ''load'' then rpc_skill_load R params
      else if op = ''eval'' then rpc_skill_eval R params
      else if op = ''find'' then rpc_skill_find R params
      else if op = ''info'' then rpc_skill_info R params
      else if op = ''sync'' then rpc_skill_sync R params
      else if op = ''cache'' then rpc_skill_cache R params
      else fail_act (Execution (''unknown skill method '' @ quoted op)))"

definition dispatch_libref :: "('w, 'f) rpc_env \<Rightarrow> string \<Rightarrow> 'f json \<Rightarrow> ('w, 'f json) act" where
  "dispatch_libref R op params =
     (if op = ''list'' then rpc_libref_list R params
      else if op = ''info'' then rpc_libref_info R params
      else if op = ''find'' then rpc_libref_find R params
      else fail_act (NotFound (''unknown libref method '' @ quoted op)))"

definition dispatch_sim :: "('w, 'f) rpc_env \<Rightarrow> string \<Rightarrow> 'f json \<Rightarrow> ('w, 'f json) act" where
  "dispatch_sim R op params =
     (if op = ''check_license'' then rpc_sim_check_license R params
      else fail_act (Execution (''unknown sim method '' @ quoted op)))"

definition dispatch_domain :: "('w, 'f) rpc_env \<Rightarrow> string \<Rightarrow> string \<Rightarrow> string \<Rightarrow> 'f json \<Rightarrow> ('w, 'f json) act" where
  "dispatch_domain R method area op params =
     (if area = ''schematic'' then dispatch_schematic R op params
      else if area = ''symbol'' then dispatch_symbol R op params
      else if area = ''library'' then dispatch_library R op params
      else if area = ''maestro'' then dispatch_maestro R op params
      else if area = ''window'' then dispatch_window R op params
      else if area = ''cell'' then dispatch_cell R op params
      else if area = ''tx'' then dispatch_tx R op params
      else if area = ''file'' then dispatch_file R op params
      else if area = ''util'' then dispatch_util R op params
      else if area = ''skill'' then dispatch_skill R op params
      else if area = ''libref'' then dispatch_libref R op params
      else if area = ''sim'' then dispatch_sim R op params
      else case rp_plugin R of
        Some plugin \<Rightarrow> plugin area op params
      | None \<Rightarrow> fail_act (Execution (''unknown domain '' @ quoted area @ '' in method '' @ quoted method)))"

definition dispatch_inner :: "('w, 'f) rpc_env \<Rightarrow> string \<Rightarrow> 'f json \<Rightarrow> ('w, 'f json) act" where
  "dispatch_inner R method params =
     (case split_once CHR ''.'' method of
        None \<Rightarrow> fail_act (Execution (''invalid method '' @ quoted method @ '': expected '' @ quoted ''domain.method''))
      | Some (area, op) \<Rightarrow> dispatch_domain R method area op params)"

end
