(* ===== verification/Rpc_Gate.thy ===== *)
theory Rpc_Gate
  imports Rpc_Schema Rpc_Dispatch
begin

text \<open>
  \<open>src/rpc/dispatcher.rs\<close>: \<open>dispatch\<close>, which authenticates a request, checks its capability and its
  parameters, runs the method and writes the audit log.
\<close>

section \<open>The checks\<close>

definition declared_params :: "string \<Rightarrow> (string \<times> string list) option" where
  "declared_params method =
     map_of (rev (map (\<lambda>m. (me_name m, me_summary m, map pa_name (me_params m))) (sc_methods standard_schema))) method"

definition not_accepted :: "string \<Rightarrow> string list \<Rightarrow> string \<Rightarrow> string list \<Rightarrow> virtuoso_error" where
  "not_accepted method unknown summary declared =
     Config (''method '' @ quoted method @ '' does not accept '' @ join '', '' (map quoted unknown) @ '' '' @ em_dash @
       '' '' @ (if declared = [] then ''it takes no parameters'' else ''it accepts: '' @ join '', '' declared) @
       '' ('' @ summary @ '')'')"

definition reject_undeclared_params :: "string \<Rightarrow> 'f json \<Rightarrow> virtuoso_error + unit" where
  "reject_undeclared_params method params =
     (case (declared_params method, as_obj params) of
        (Some (summary, declared), Some obj) \<Rightarrow>
          (let unknown = filter (\<lambda>k. k \<notin> set declared) (map fst obj) in
           if unknown = [] then Inr () else Inl (not_accepted method unknown summary declared))
      | _ \<Rightarrow> Inr ())"

definition not_permitted :: "string \<Rightarrow> virtuoso_error" where
  "not_permitted method = Execution (''method '' @ quoted method @ '' not permitted: missing required capability'')"

definition run_logged :: "('w, 'f) rpc_env \<Rightarrow> string \<Rightarrow> 'f json \<Rightarrow> ('w, 'f json) act" where
  "run_logged R method params st =
     (case bind_act (of_result (reject_undeclared_params method params)) (\<lambda>_. dispatch_inner R method params) st of
        (Panicked, st') \<Rightarrow> (Panicked, st')
      | (Done r, st') \<Rightarrow>
          (Done r, rp_log R method params
             (case r of Inr v \<Rightarrow> rp_print R v | Inl e \<Rightarrow> ''error: '' @ display_virtuoso_error e) st'))"

definition rpc_dispatch :: "('w, 'f) rpc_env \<Rightarrow> string option \<Rightarrow> string \<Rightarrow> 'f json \<Rightarrow> ('w, 'f json) act" where
  "rpc_dispatch R key method params =
     bind_act (rp_auth R key) (\<lambda>caps.
       if \<not> permits_method caps method then fail_act (not_permitted method) else run_logged R method params)"

section \<open>The methods by name\<close>

lemma split_methods:
  "dispatch_inner R ''schematic.open_cell_view'' params = dispatch_domain R ''schematic.open_cell_view'' ''schematic'' ''open_cell_view'' params"
  "dispatch_inner R ''schematic.place'' params = dispatch_domain R ''schematic.place'' ''schematic'' ''place'' params"
  "dispatch_inner R ''schematic.move_instance'' params = dispatch_domain R ''schematic.move_instance'' ''schematic'' ''move_instance'' params"
  "dispatch_inner R ''schematic.wire'' params = dispatch_domain R ''schematic.wire'' ''schematic'' ''wire'' params"
  "dispatch_inner R ''schematic.label'' params = dispatch_domain R ''schematic.label'' ''schematic'' ''label'' params"
  "dispatch_inner R ''schematic.pin'' params = dispatch_domain R ''schematic.pin'' ''schematic'' ''pin'' params"
  "dispatch_inner R ''schematic.save'' params = dispatch_domain R ''schematic.save'' ''schematic'' ''save'' params"
  "dispatch_inner R ''schematic.check'' params = dispatch_domain R ''schematic.check'' ''schematic'' ''check'' params"
  "dispatch_inner R ''schematic.list_instances'' params = dispatch_domain R ''schematic.list_instances'' ''schematic'' ''list_instances'' params"
  "dispatch_inner R ''schematic.list_nets'' params = dispatch_domain R ''schematic.list_nets'' ''schematic'' ''list_nets'' params"
  "dispatch_inner R ''schematic.list_pins'' params = dispatch_domain R ''schematic.list_pins'' ''schematic'' ''list_pins'' params"
  "dispatch_inner R ''schematic.list_cdf_params'' params = dispatch_domain R ''schematic.list_cdf_params'' ''schematic'' ''list_cdf_params'' params"
  "dispatch_inner R ''schematic.get_params'' params = dispatch_domain R ''schematic.get_params'' ''schematic'' ''get_params'' params"
  "dispatch_inner R ''schematic.set_param'' params = dispatch_domain R ''schematic.set_param'' ''schematic'' ''set_param'' params"
  "dispatch_inner R ''schematic.delete_instance'' params = dispatch_domain R ''schematic.delete_instance'' ''schematic'' ''delete_instance'' params"
  "dispatch_inner R ''schematic.delete_figure'' params = dispatch_domain R ''schematic.delete_figure'' ''schematic'' ''delete_figure'' params"
  "dispatch_inner R ''schematic.delete_prop'' params = dispatch_domain R ''schematic.delete_prop'' ''schematic'' ''delete_prop'' params"
  "dispatch_inner R ''schematic.polish_label'' params = dispatch_domain R ''schematic.polish_label'' ''schematic'' ''polish_label'' params"
  "dispatch_inner R ''schematic.net_stub'' params = dispatch_domain R ''schematic.net_stub'' ''schematic'' ''net_stub'' params"
  "dispatch_inner R ''schematic.label_term'' params = dispatch_domain R ''schematic.label_term'' ''schematic'' ''label_term'' params"
  "dispatch_inner R ''schematic.assign_net'' params = dispatch_domain R ''schematic.assign_net'' ''schematic'' ''assign_net'' params"
  "dispatch_inner R ''symbol.inspect'' params = dispatch_domain R ''symbol.inspect'' ''symbol'' ''inspect'' params"
  "dispatch_inner R ''symbol.generate'' params = dispatch_domain R ''symbol.generate'' ''symbol'' ''generate'' params"
  "dispatch_inner R ''library.list'' params = dispatch_domain R ''library.list'' ''library'' ''list'' params"
  "dispatch_inner R ''library.list_cells'' params = dispatch_domain R ''library.list_cells'' ''library'' ''list_cells'' params"
  "dispatch_inner R ''maestro.open_session'' params = dispatch_domain R ''maestro.open_session'' ''maestro'' ''open_session'' params"
  "dispatch_inner R ''maestro.set_session_mode'' params = dispatch_domain R ''maestro.set_session_mode'' ''maestro'' ''set_session_mode'' params"
  "dispatch_inner R ''maestro.close_session'' params = dispatch_domain R ''maestro.close_session'' ''maestro'' ''close_session'' params"
  "dispatch_inner R ''maestro.list_sessions'' params = dispatch_domain R ''maestro.list_sessions'' ''maestro'' ''list_sessions'' params"
  "dispatch_inner R ''maestro.list_tests'' params = dispatch_domain R ''maestro.list_tests'' ''maestro'' ''list_tests'' params"
  "dispatch_inner R ''maestro.list_corners'' params = dispatch_domain R ''maestro.list_corners'' ''maestro'' ''list_corners'' params"
  "dispatch_inner R ''maestro.set_var'' params = dispatch_domain R ''maestro.set_var'' ''maestro'' ''set_var'' params"
  "dispatch_inner R ''maestro.get_var'' params = dispatch_domain R ''maestro.get_var'' ''maestro'' ''get_var'' params"
  "dispatch_inner R ''maestro.list_vars'' params = dispatch_domain R ''maestro.list_vars'' ''maestro'' ''list_vars'' params"
  "dispatch_inner R ''maestro.delete_var'' params = dispatch_domain R ''maestro.delete_var'' ''maestro'' ''delete_var'' params"
  "dispatch_inner R ''maestro.delete_output'' params = dispatch_domain R ''maestro.delete_output'' ''maestro'' ''delete_output'' params"
  "dispatch_inner R ''maestro.delete_analysis'' params = dispatch_domain R ''maestro.delete_analysis'' ''maestro'' ''delete_analysis'' params"
  "dispatch_inner R ''maestro.run'' params = dispatch_domain R ''maestro.run'' ''maestro'' ''run'' params"
  "dispatch_inner R ''maestro.save'' params = dispatch_domain R ''maestro.save'' ''maestro'' ''save'' params"
  "dispatch_inner R ''maestro.export'' params = dispatch_domain R ''maestro.export'' ''maestro'' ''export'' params"
  "dispatch_inner R ''maestro.open_results'' params = dispatch_domain R ''maestro.open_results'' ''maestro'' ''open_results'' params"
  "dispatch_inner R ''maestro.close_results'' params = dispatch_domain R ''maestro.close_results'' ''maestro'' ''close_results'' params"
  "dispatch_inner R ''maestro.get_result_tests'' params = dispatch_domain R ''maestro.get_result_tests'' ''maestro'' ''get_result_tests'' params"
  "dispatch_inner R ''maestro.get_result_outputs'' params = dispatch_domain R ''maestro.get_result_outputs'' ''maestro'' ''get_result_outputs'' params"
  "dispatch_inner R ''maestro.get_output_value'' params = dispatch_domain R ''maestro.get_output_value'' ''maestro'' ''get_output_value'' params"
  "dispatch_inner R ''maestro.get_history_list'' params = dispatch_domain R ''maestro.get_history_list'' ''maestro'' ''get_history_list'' params"
  "dispatch_inner R ''maestro.get_analyses'' params = dispatch_domain R ''maestro.get_analyses'' ''maestro'' ''get_analyses'' params"
  "dispatch_inner R ''maestro.get_outputs'' params = dispatch_domain R ''maestro.get_outputs'' ''maestro'' ''get_outputs'' params"
  "dispatch_inner R ''maestro.get_sim_messages'' params = dispatch_domain R ''maestro.get_sim_messages'' ''maestro'' ''get_sim_messages'' params"
  "dispatch_inner R ''maestro.get_current_session'' params = dispatch_domain R ''maestro.get_current_session'' ''maestro'' ''get_current_session'' params"
  "dispatch_inner R ''maestro.set_analysis'' params = dispatch_domain R ''maestro.set_analysis'' ''maestro'' ''set_analysis'' params"
  "dispatch_inner R ''maestro.add_output'' params = dispatch_domain R ''maestro.add_output'' ''maestro'' ''add_output'' params"
  "dispatch_inner R ''maestro.set_design'' params = dispatch_domain R ''maestro.set_design'' ''maestro'' ''set_design'' params"
  "dispatch_inner R ''maestro.create_test'' params = dispatch_domain R ''maestro.create_test'' ''maestro'' ''create_test'' params"
  "dispatch_inner R ''maestro.save_setup'' params = dispatch_domain R ''maestro.save_setup'' ''maestro'' ''save_setup'' params"
  "dispatch_inner R ''maestro.get_spec_status'' params = dispatch_domain R ''maestro.get_spec_status'' ''maestro'' ''get_spec_status'' params"
  "dispatch_inner R ''maestro.snapshot'' params = dispatch_domain R ''maestro.snapshot'' ''maestro'' ''snapshot'' params"
  "dispatch_inner R ''maestro.create_corner_netlist'' params = dispatch_domain R ''maestro.create_corner_netlist'' ''maestro'' ''create_corner_netlist'' params"
  "dispatch_inner R ''window.list'' params = dispatch_domain R ''window.list'' ''window'' ''list'' params"
  "dispatch_inner R ''window.screenshot'' params = dispatch_domain R ''window.screenshot'' ''window'' ''screenshot'' params"
  "dispatch_inner R ''window.screenshot_by_pattern'' params = dispatch_domain R ''window.screenshot_by_pattern'' ''window'' ''screenshot_by_pattern'' params"
  "dispatch_inner R ''window.dismiss_dialog'' params = dispatch_domain R ''window.dismiss_dialog'' ''window'' ''dismiss_dialog'' params"
  "dispatch_inner R ''window.get_dialog_info'' params = dispatch_domain R ''window.get_dialog_info'' ''window'' ''get_dialog_info'' params"
  "dispatch_inner R ''window.dismiss_dialog_x11'' params = dispatch_domain R ''window.dismiss_dialog_x11'' ''window'' ''dismiss_dialog_x11'' params"
  "dispatch_inner R ''window.list_windows_x11'' params = dispatch_domain R ''window.list_windows_x11'' ''window'' ''list_windows_x11'' params"
  "dispatch_inner R ''window.dismiss_window_x11'' params = dispatch_domain R ''window.dismiss_window_x11'' ''window'' ''dismiss_window_x11'' params"
  "dispatch_inner R ''window.geometry'' params = dispatch_domain R ''window.geometry'' ''window'' ''geometry'' params"
  "dispatch_inner R ''cell.open'' params = dispatch_domain R ''cell.open'' ''cell'' ''open'' params"
  "dispatch_inner R ''cell.save'' params = dispatch_domain R ''cell.save'' ''cell'' ''save'' params"
  "dispatch_inner R ''cell.close'' params = dispatch_domain R ''cell.close'' ''cell'' ''close'' params"
  "dispatch_inner R ''cell.info'' params = dispatch_domain R ''cell.info'' ''cell'' ''info'' params"
  "dispatch_inner R ''cell.list_open'' params = dispatch_domain R ''cell.list_open'' ''cell'' ''list_open'' params"
  "dispatch_inner R ''cell.create'' params = dispatch_domain R ''cell.create'' ''cell'' ''create'' params"
  "dispatch_inner R ''cell.delete_view'' params = dispatch_domain R ''cell.delete_view'' ''cell'' ''delete_view'' params"
  "dispatch_inner R ''cell.delete'' params = dispatch_domain R ''cell.delete'' ''cell'' ''delete'' params"
  "dispatch_inner R ''cell.read_path'' params = dispatch_domain R ''cell.read_path'' ''cell'' ''read_path'' params"
  "dispatch_inner R ''tx.begin'' params = dispatch_domain R ''tx.begin'' ''tx'' ''begin'' params"
  "dispatch_inner R ''tx.commit'' params = dispatch_domain R ''tx.commit'' ''tx'' ''commit'' params"
  "dispatch_inner R ''tx.rollback'' params = dispatch_domain R ''tx.rollback'' ''tx'' ''rollback'' params"
  "dispatch_inner R ''tx.diff'' params = dispatch_domain R ''tx.diff'' ''tx'' ''diff'' params"
  "dispatch_inner R ''tx.status'' params = dispatch_domain R ''tx.status'' ''tx'' ''status'' params"
  "dispatch_inner R ''file.upload'' params = dispatch_domain R ''file.upload'' ''file'' ''upload'' params"
  "dispatch_inner R ''file.download'' params = dispatch_domain R ''file.download'' ''file'' ''download'' params"
  "dispatch_inner R ''util.version'' params = dispatch_domain R ''util.version'' ''util'' ''version'' params"
  "dispatch_inner R ''util.ping'' params = dispatch_domain R ''util.ping'' ''util'' ''ping'' params"
  "dispatch_inner R ''util.ciw_print'' params = dispatch_domain R ''util.ciw_print'' ''util'' ''ciw_print'' params"
  "dispatch_inner R ''util.reconnect'' params = dispatch_domain R ''util.reconnect'' ''util'' ''reconnect'' params"
  "dispatch_inner R ''skill.exec'' params = dispatch_domain R ''skill.exec'' ''skill'' ''exec'' params"
  "dispatch_inner R ''skill.load'' params = dispatch_domain R ''skill.load'' ''skill'' ''load'' params"
  "dispatch_inner R ''skill.eval'' params = dispatch_domain R ''skill.eval'' ''skill'' ''eval'' params"
  "dispatch_inner R ''skill.find'' params = dispatch_domain R ''skill.find'' ''skill'' ''find'' params"
  "dispatch_inner R ''skill.info'' params = dispatch_domain R ''skill.info'' ''skill'' ''info'' params"
  "dispatch_inner R ''skill.sync'' params = dispatch_domain R ''skill.sync'' ''skill'' ''sync'' params"
  "dispatch_inner R ''skill.cache'' params = dispatch_domain R ''skill.cache'' ''skill'' ''cache'' params"
  "dispatch_inner R ''libref.list'' params = dispatch_domain R ''libref.list'' ''libref'' ''list'' params"
  "dispatch_inner R ''libref.info'' params = dispatch_domain R ''libref.info'' ''libref'' ''info'' params"
  "dispatch_inner R ''libref.find'' params = dispatch_domain R ''libref.find'' ''libref'' ''find'' params"
  "dispatch_inner R ''sim.check_license'' params = dispatch_domain R ''sim.check_license'' ''sim'' ''check_license'' params"
  by (simp_all add: dispatch_inner_def)

lemma dispatch_methods:
  "dispatch_inner R ''schematic.open_cell_view'' params = rpc_schematic_open_cell_view R params"
  "dispatch_inner R ''schematic.place'' params = rpc_schematic_place R params"
  "dispatch_inner R ''schematic.move_instance'' params = rpc_schematic_move_instance R params"
  "dispatch_inner R ''schematic.wire'' params = rpc_schematic_wire R params"
  "dispatch_inner R ''schematic.label'' params = rpc_schematic_label R params"
  "dispatch_inner R ''schematic.pin'' params = rpc_schematic_pin R params"
  "dispatch_inner R ''schematic.save'' params = rpc_schematic_save R params"
  "dispatch_inner R ''schematic.check'' params = rpc_schematic_check R params"
  "dispatch_inner R ''schematic.list_instances'' params = rpc_schematic_list_instances R params"
  "dispatch_inner R ''schematic.list_nets'' params = rpc_schematic_list_nets R params"
  "dispatch_inner R ''schematic.list_pins'' params = rpc_schematic_list_pins R params"
  "dispatch_inner R ''schematic.list_cdf_params'' params = rpc_schematic_list_cdf_params R params"
  "dispatch_inner R ''schematic.get_params'' params = rpc_schematic_get_params R params"
  "dispatch_inner R ''schematic.set_param'' params = rpc_schematic_set_param R params"
  "dispatch_inner R ''schematic.delete_instance'' params = rpc_schematic_delete_instance R params"
  "dispatch_inner R ''schematic.delete_figure'' params = rpc_schematic_delete_figure R params"
  "dispatch_inner R ''schematic.delete_prop'' params = rpc_schematic_delete_prop R params"
  "dispatch_inner R ''schematic.polish_label'' params = rpc_schematic_polish_label R params"
  "dispatch_inner R ''schematic.net_stub'' params = rpc_schematic_net_stub R params"
  "dispatch_inner R ''schematic.label_term'' params = rpc_schematic_label_term R params"
  "dispatch_inner R ''schematic.assign_net'' params = rpc_schematic_assign_net R params"
  "dispatch_inner R ''symbol.inspect'' params = rpc_symbol_inspect R params"
  "dispatch_inner R ''symbol.generate'' params = rpc_symbol_generate R params"
  "dispatch_inner R ''library.list'' params = rpc_library_list R params"
  "dispatch_inner R ''library.list_cells'' params = rpc_library_list_cells R params"
  "dispatch_inner R ''maestro.open_session'' params = rpc_maestro_open_session R params"
  "dispatch_inner R ''maestro.set_session_mode'' params = rpc_maestro_set_session_mode R params"
  "dispatch_inner R ''maestro.close_session'' params = rpc_maestro_close_session R params"
  "dispatch_inner R ''maestro.list_sessions'' params = rpc_maestro_list_sessions R params"
  "dispatch_inner R ''maestro.list_tests'' params = rpc_maestro_list_tests R params"
  "dispatch_inner R ''maestro.list_corners'' params = rpc_maestro_list_corners R params"
  "dispatch_inner R ''maestro.set_var'' params = rpc_maestro_set_var R params"
  "dispatch_inner R ''maestro.get_var'' params = rpc_maestro_get_var R params"
  "dispatch_inner R ''maestro.list_vars'' params = rpc_maestro_list_vars R params"
  "dispatch_inner R ''maestro.delete_var'' params = rpc_maestro_delete_var R params"
  "dispatch_inner R ''maestro.delete_output'' params = rpc_maestro_delete_output R params"
  "dispatch_inner R ''maestro.delete_analysis'' params = rpc_maestro_delete_analysis R params"
  "dispatch_inner R ''maestro.run'' params = rpc_maestro_run R params"
  "dispatch_inner R ''maestro.save'' params = rpc_maestro_save R params"
  "dispatch_inner R ''maestro.export'' params = rpc_maestro_export R params"
  "dispatch_inner R ''maestro.open_results'' params = rpc_maestro_open_results R params"
  "dispatch_inner R ''maestro.close_results'' params = rpc_maestro_close_results R params"
  "dispatch_inner R ''maestro.get_result_tests'' params = rpc_maestro_get_result_tests R params"
  "dispatch_inner R ''maestro.get_result_outputs'' params = rpc_maestro_get_result_outputs R params"
  "dispatch_inner R ''maestro.get_output_value'' params = rpc_maestro_get_output_value R params"
  "dispatch_inner R ''maestro.get_history_list'' params = rpc_maestro_get_history_list R params"
  "dispatch_inner R ''maestro.get_analyses'' params = rpc_maestro_get_analyses R params"
  "dispatch_inner R ''maestro.get_outputs'' params = rpc_maestro_get_outputs R params"
  "dispatch_inner R ''maestro.get_sim_messages'' params = rpc_maestro_get_sim_messages R params"
  "dispatch_inner R ''maestro.get_current_session'' params = rpc_maestro_get_current_session R params"
  "dispatch_inner R ''maestro.set_analysis'' params = rpc_maestro_set_analysis R params"
  "dispatch_inner R ''maestro.add_output'' params = rpc_maestro_add_output R params"
  "dispatch_inner R ''maestro.set_design'' params = rpc_maestro_set_design R params"
  "dispatch_inner R ''maestro.create_test'' params = rpc_maestro_create_test R params"
  "dispatch_inner R ''maestro.save_setup'' params = rpc_maestro_save_setup R params"
  "dispatch_inner R ''maestro.get_spec_status'' params = rpc_maestro_get_spec_status R params"
  "dispatch_inner R ''maestro.snapshot'' params = rpc_maestro_snapshot R params"
  "dispatch_inner R ''maestro.create_corner_netlist'' params = rpc_maestro_create_corner_netlist R params"
  "dispatch_inner R ''window.list'' params = rpc_window_list R params"
  "dispatch_inner R ''window.screenshot'' params = rpc_window_screenshot R params"
  "dispatch_inner R ''window.screenshot_by_pattern'' params = rpc_window_screenshot_by_pattern R params"
  "dispatch_inner R ''window.dismiss_dialog'' params = rpc_window_dismiss_dialog R params"
  "dispatch_inner R ''window.get_dialog_info'' params = rpc_window_get_dialog_info R params"
  "dispatch_inner R ''window.dismiss_dialog_x11'' params = rpc_window_dismiss_dialog_x11 R params"
  "dispatch_inner R ''window.list_windows_x11'' params = rpc_window_list_windows_x11 R params"
  "dispatch_inner R ''window.dismiss_window_x11'' params = rpc_window_dismiss_window_x11 R params"
  "dispatch_inner R ''window.geometry'' params = rpc_window_geometry R params"
  "dispatch_inner R ''cell.open'' params = rpc_cell_open R params"
  "dispatch_inner R ''cell.save'' params = rpc_cell_save R params"
  "dispatch_inner R ''cell.close'' params = rpc_cell_close R params"
  "dispatch_inner R ''cell.info'' params = rpc_cell_info R params"
  "dispatch_inner R ''cell.list_open'' params = rpc_cell_list_open R params"
  "dispatch_inner R ''cell.create'' params = rpc_cell_create R params"
  "dispatch_inner R ''cell.delete_view'' params = rpc_cell_delete_view R params"
  "dispatch_inner R ''cell.delete'' params = rpc_cell_delete R params"
  "dispatch_inner R ''cell.read_path'' params = rpc_cell_read_path R params"
  "dispatch_inner R ''tx.begin'' params = rpc_tx_begin R params"
  "dispatch_inner R ''tx.commit'' params = rpc_tx_commit R params"
  "dispatch_inner R ''tx.rollback'' params = rpc_tx_rollback R params"
  "dispatch_inner R ''tx.diff'' params = rpc_tx_diff R params"
  "dispatch_inner R ''tx.status'' params = rpc_tx_status R params"
  "dispatch_inner R ''file.upload'' params = rpc_file_upload R params"
  "dispatch_inner R ''file.download'' params = rpc_file_download R params"
  "dispatch_inner R ''util.version'' params = rpc_util_version R params"
  "dispatch_inner R ''util.ping'' params = rpc_util_ping R params"
  "dispatch_inner R ''util.ciw_print'' params = rpc_util_ciw_print R params"
  "dispatch_inner R ''util.reconnect'' params = rpc_util_reconnect R params"
  "dispatch_inner R ''skill.exec'' params = rpc_skill_exec R params"
  "dispatch_inner R ''skill.load'' params = rpc_skill_load R params"
  "dispatch_inner R ''skill.eval'' params = rpc_skill_eval R params"
  "dispatch_inner R ''skill.find'' params = rpc_skill_find R params"
  "dispatch_inner R ''skill.info'' params = rpc_skill_info R params"
  "dispatch_inner R ''skill.sync'' params = rpc_skill_sync R params"
  "dispatch_inner R ''skill.cache'' params = rpc_skill_cache R params"
  "dispatch_inner R ''libref.list'' params = rpc_libref_list R params"
  "dispatch_inner R ''libref.info'' params = rpc_libref_info R params"
  "dispatch_inner R ''libref.find'' params = rpc_libref_find R params"
  "dispatch_inner R ''sim.check_license'' params = rpc_sim_check_license R params"
  unfolding split_methods dispatch_domain_def
  by (simp_all add: dispatch_schematic_def dispatch_symbol_def dispatch_library_def dispatch_maestro_def
      dispatch_window_def dispatch_cell_def dispatch_tx_def dispatch_file_def dispatch_util_def
      dispatch_skill_def dispatch_libref_def dispatch_sim_def)

end
