(* ===== verification/Rpc_Facts.thy ===== *)
theory Rpc_Facts
  imports Rpc_Gate
begin

text \<open>
  What holds of every method of the schema: a call that lacks a required parameter fails before
  anything is done, a method's behaviour depends on its declared parameters only, and a request
  that is refused does nothing.
\<close>

section \<open>Calls that fail before they do anything\<close>

definition refuses :: "('w, 'a) act \<Rightarrow> bool" where
  "refuses a \<longleftrightarrow> (\<forall>st. \<exists>e. a st = (Done (Inl e), st))"

named_theorems refuse

lemma refuses_fail: "refuses (fail_act e)"
  by (simp add: refuses_def fail_act_def)

lemma refuses_bind_of_result: "(\<And>x. refuses (f x)) \<Longrightarrow> refuses (bind_act (of_result r) f)"
  by (cases r) (auto simp: refuses_fail)

lemma refuses_need_missing [refuse]: "jget params k = None \<Longrightarrow> refuses (bind_act (need params k) f)"
  by (simp add: need_def json_str_def opt_and_then_def refuses_fail)

lemma refuses_number_missing [refuse]: "jget params k = None \<Longrightarrow> refuses (bind_act (number R params k) f)"
  by (simp add: number_def json_f64_def opt_and_then_def refuses_fail)

lemma refuses_points_missing [refuse]:
  "jget params ''points'' = None
    \<Longrightarrow> refuses (bind_act (of_result (parse_wire_points p fin (jget params ''points''))) f)"
  by (simp add: parse_wire_points_def opt_and_then_def refuses_fail)

lemma refuses_need: "(\<And>x. refuses (f x)) \<Longrightarrow> refuses (bind_act (need params k) f)"
  unfolding need_def by (rule refuses_bind_of_result)

lemma refuses_str_or: "(\<And>x. refuses (f x)) \<Longrightarrow> refuses (bind_act (str_param_or params k d) f)"
  unfolding str_param_or_def by (rule refuses_bind_of_result)

lemma refuses_coord: "(\<And>x. refuses (f x)) \<Longrightarrow> refuses (bind_act (coord R params k) f)"
  unfolding coord_def by (rule refuses_bind_of_result)

lemma refuses_number: "(\<And>x. refuses (f x)) \<Longrightarrow> refuses (bind_act (number R params k) f)"
  unfolding number_def by (rule refuses_bind_of_result)

lemma refuses_option: "refuses a \<Longrightarrow> (\<And>x. refuses (b x)) \<Longrightarrow> refuses (case r of None \<Rightarrow> a | Some x \<Rightarrow> b x)"
  by (cases r) auto

lemma refuses_pair: "(\<And>x y. refuses (b x y)) \<Longrightarrow> refuses (case r of (x, y) \<Rightarrow> b x y)"
  by (cases r) auto

lemmas refuse_steps =
  refuses_need refuses_str_or refuses_coord refuses_number refuses_bind_of_result refuses_option refuses_pair

lemma arms_refuse:
  "jget params ''lib'' = None \<Longrightarrow> refuses (rpc_schematic_open_cell_view R params)"
  "jget params ''cell'' = None \<Longrightarrow> refuses (rpc_schematic_open_cell_view R params)"
  "jget params ''master'' = None \<Longrightarrow> refuses (rpc_schematic_place R params)"
  "jget params ''name'' = None \<Longrightarrow> refuses (rpc_schematic_place R params)"
  "jget params ''name'' = None \<Longrightarrow> refuses (rpc_schematic_move_instance R params)"
  "jget params ''x'' = None \<Longrightarrow> refuses (rpc_schematic_move_instance R params)"
  "jget params ''y'' = None \<Longrightarrow> refuses (rpc_schematic_move_instance R params)"
  "jget params ''net'' = None \<Longrightarrow> refuses (rpc_schematic_wire R params)"
  "jget params ''points'' = None \<Longrightarrow> refuses (rpc_schematic_wire R params)"
  "jget params ''net'' = None \<Longrightarrow> refuses (rpc_schematic_label R params)"
  "jget params ''net'' = None \<Longrightarrow> refuses (rpc_schematic_pin R params)"
  "jget params ''direction'' = None \<Longrightarrow> refuses (rpc_schematic_pin R params)"
  "jget params ''inst'' = None \<Longrightarrow> refuses (rpc_schematic_assign_net R params)"
  "jget params ''term'' = None \<Longrightarrow> refuses (rpc_schematic_assign_net R params)"
  "jget params ''net'' = None \<Longrightarrow> refuses (rpc_schematic_assign_net R params)"
  "jget params ''lib'' = None \<Longrightarrow> refuses (rpc_symbol_inspect R params)"
  "jget params ''cell'' = None \<Longrightarrow> refuses (rpc_symbol_inspect R params)"
  "jget params ''lib'' = None \<Longrightarrow> refuses (rpc_symbol_generate R params)"
  "jget params ''cell'' = None \<Longrightarrow> refuses (rpc_symbol_generate R params)"
  "jget params ''lib'' = None \<Longrightarrow> refuses (rpc_library_list_cells R params)"
  "jget params ''inst'' = None \<Longrightarrow> refuses (rpc_schematic_get_params R params)"
  "jget params ''inst'' = None \<Longrightarrow> refuses (rpc_schematic_list_cdf_params R params)"
  "jget params ''inst'' = None \<Longrightarrow> refuses (rpc_schematic_set_param R params)"
  "jget params ''param'' = None \<Longrightarrow> refuses (rpc_schematic_set_param R params)"
  "jget params ''value'' = None \<Longrightarrow> refuses (rpc_schematic_set_param R params)"
  "jget params ''inst'' = None \<Longrightarrow> refuses (rpc_schematic_delete_instance R params)"
  "jget params ''inst'' = None \<Longrightarrow> refuses (rpc_schematic_delete_prop R params)"
  "jget params ''prop'' = None \<Longrightarrow> refuses (rpc_schematic_delete_prop R params)"
  "jget params ''path'' = None \<Longrightarrow> refuses (rpc_window_screenshot R params)"
  "jget params ''path'' = None \<Longrightarrow> refuses (rpc_window_screenshot_by_pattern R params)"
  "jget params ''pattern'' = None \<Longrightarrow> refuses (rpc_window_screenshot_by_pattern R params)"
  "jget params ''window_id'' = None \<Longrightarrow> refuses (rpc_window_geometry R params)"
  "jget params ''lib'' = None \<Longrightarrow> refuses (rpc_cell_open R params)"
  "jget params ''cell'' = None \<Longrightarrow> refuses (rpc_cell_open R params)"
  "jget params ''lib'' = None \<Longrightarrow> refuses (rpc_cell_create R params)"
  "jget params ''cell'' = None \<Longrightarrow> refuses (rpc_cell_create R params)"
  "jget params ''lib'' = None \<Longrightarrow> refuses (rpc_cell_read_path R params)"
  "jget params ''lib'' = None \<Longrightarrow> refuses (rpc_cell_delete_view R params)"
  "jget params ''cell'' = None \<Longrightarrow> refuses (rpc_cell_delete_view R params)"
  "jget params ''view'' = None \<Longrightarrow> refuses (rpc_cell_delete_view R params)"
  "jget params ''lib'' = None \<Longrightarrow> refuses (rpc_cell_delete R params)"
  "jget params ''cell'' = None \<Longrightarrow> refuses (rpc_cell_delete R params)"
  "jget params ''lib'' = None \<Longrightarrow> refuses (rpc_maestro_open_session R params)"
  "jget params ''cell'' = None \<Longrightarrow> refuses (rpc_maestro_open_session R params)"
  "jget params ''session'' = None \<Longrightarrow> refuses (rpc_maestro_set_session_mode R params)"
  "jget params ''mode'' = None \<Longrightarrow> refuses (rpc_maestro_set_session_mode R params)"
  "jget params ''session'' = None \<Longrightarrow> refuses (rpc_maestro_close_session R params)"
  "jget params ''session'' = None \<Longrightarrow> refuses (rpc_maestro_list_tests R params)"
  "jget params ''session'' = None \<Longrightarrow> refuses (rpc_maestro_list_corners R params)"
  "jget params ''name'' = None \<Longrightarrow> refuses (rpc_maestro_set_var R params)"
  "jget params ''value'' = None \<Longrightarrow> refuses (rpc_maestro_set_var R params)"
  "jget params ''name'' = None \<Longrightarrow> refuses (rpc_maestro_get_var R params)"
  "jget params ''name'' = None \<Longrightarrow> refuses (rpc_maestro_delete_var R params)"
  "jget params ''name'' = None \<Longrightarrow> refuses (rpc_maestro_delete_output R params)"
  "jget params ''test'' = None \<Longrightarrow> refuses (rpc_maestro_delete_output R params)"
  "jget params ''analysis'' = None \<Longrightarrow> refuses (rpc_maestro_delete_analysis R params)"
  "jget params ''session'' = None \<Longrightarrow> refuses (rpc_maestro_run R params)"
  "jget params ''session'' = None \<Longrightarrow> refuses (rpc_maestro_save R params)"
  "jget params ''session'' = None \<Longrightarrow> refuses (rpc_maestro_export R params)"
  "jget params ''path'' = None \<Longrightarrow> refuses (rpc_maestro_export R params)"
  "jget params ''history'' = None \<Longrightarrow> refuses (rpc_maestro_open_results R params)"
  "jget params ''test'' = None \<Longrightarrow> refuses (rpc_maestro_get_result_outputs R params)"
  "jget params ''name'' = None \<Longrightarrow> refuses (rpc_maestro_get_output_value R params)"
  "jget params ''test'' = None \<Longrightarrow> refuses (rpc_maestro_get_output_value R params)"
  "jget params ''session'' = None \<Longrightarrow> refuses (rpc_maestro_get_analyses R params)"
  "jget params ''test'' = None \<Longrightarrow> refuses (rpc_maestro_get_outputs R params)"
  "jget params ''session'' = None \<Longrightarrow> refuses (rpc_maestro_get_sim_messages R params)"
  "jget params ''session'' = None \<Longrightarrow> refuses (rpc_maestro_set_analysis R params)"
  "jget params ''type'' = None \<Longrightarrow> refuses (rpc_maestro_set_analysis R params)"
  "jget params ''name'' = None \<Longrightarrow> refuses (rpc_maestro_add_output R params)"
  "jget params ''test'' = None \<Longrightarrow> refuses (rpc_maestro_add_output R params)"
  "jget params ''expr'' = None \<Longrightarrow> refuses (rpc_maestro_add_output R params)"
  "jget params ''session'' = None \<Longrightarrow> refuses (rpc_maestro_set_design R params)"
  "jget params ''lib'' = None \<Longrightarrow> refuses (rpc_maestro_set_design R params)"
  "jget params ''cell'' = None \<Longrightarrow> refuses (rpc_maestro_set_design R params)"
  "jget params ''view'' = None \<Longrightarrow> refuses (rpc_maestro_set_design R params)"
  "jget params ''session'' = None \<Longrightarrow> refuses (rpc_maestro_create_test R params)"
  "jget params ''test'' = None \<Longrightarrow> refuses (rpc_maestro_create_test R params)"
  "jget params ''lib'' = None \<Longrightarrow> refuses (rpc_maestro_create_test R params)"
  "jget params ''cell'' = None \<Longrightarrow> refuses (rpc_maestro_create_test R params)"
  "jget params ''session'' = None \<Longrightarrow> refuses (rpc_maestro_save_setup R params)"
  "jget params ''name'' = None \<Longrightarrow> refuses (rpc_maestro_get_spec_status R params)"
  "jget params ''test'' = None \<Longrightarrow> refuses (rpc_maestro_get_spec_status R params)"
  "jget params ''id'' = None \<Longrightarrow> refuses (rpc_tx_begin R params)"
  "jget params ''lib'' = None \<Longrightarrow> refuses (rpc_tx_begin R params)"
  "jget params ''cell'' = None \<Longrightarrow> refuses (rpc_tx_begin R params)"
  "jget params ''local'' = None \<Longrightarrow> refuses (rpc_file_upload R params)"
  "jget params ''remote'' = None \<Longrightarrow> refuses (rpc_file_upload R params)"
  "jget params ''remote'' = None \<Longrightarrow> refuses (rpc_file_download R params)"
  "jget params ''local'' = None \<Longrightarrow> refuses (rpc_file_download R params)"
  "jget params ''message'' = None \<Longrightarrow> refuses (rpc_util_ciw_print R params)"
  "jget params ''session'' = None \<Longrightarrow> refuses (rpc_util_reconnect R params)"
  "jget params ''code'' = None \<Longrightarrow> refuses (rpc_skill_exec R params)"
  "jget params ''path'' = None \<Longrightarrow> refuses (rpc_skill_load R params)"
  "jget params ''query'' = None \<Longrightarrow> refuses (rpc_skill_find R params)"
  "jget params ''func'' = None \<Longrightarrow> refuses (rpc_skill_info R params)"
  "jget params ''query'' = None \<Longrightarrow> refuses (rpc_libref_find R params)"
  "jget params ''output_dir'' = None \<Longrightarrow> refuses (rpc_maestro_snapshot R params)"
  "jget params ''session'' = None \<Longrightarrow> refuses (rpc_maestro_create_corner_netlist R params)"
  "jget params ''test'' = None \<Longrightarrow> refuses (rpc_maestro_create_corner_netlist R params)"
  "jget params ''corner'' = None \<Longrightarrow> refuses (rpc_maestro_create_corner_netlist R params)"
  "jget params ''output_dir'' = None \<Longrightarrow> refuses (rpc_maestro_create_corner_netlist R params)"
  "jget params ''net'' = None \<Longrightarrow> refuses (rpc_schematic_polish_label R params)"
  "jget params ''net'' = None \<Longrightarrow> refuses (rpc_schematic_net_stub R params)"
  "jget params ''inst'' = None \<Longrightarrow> refuses (rpc_schematic_label_term R params)"
  "jget params ''term'' = None \<Longrightarrow> refuses (rpc_schematic_label_term R params)"
  "jget params ''net'' = None \<Longrightarrow> refuses (rpc_schematic_label_term R params)"
  unfolding Let_def rpc_schematic_open_cell_view_def rpc_schematic_place_def rpc_schematic_move_instance_def rpc_schematic_wire_def rpc_schematic_label_def rpc_schematic_pin_def rpc_schematic_assign_net_def rpc_symbol_inspect_def rpc_symbol_generate_def rpc_library_list_cells_def rpc_schematic_get_params_def rpc_schematic_list_cdf_params_def rpc_schematic_set_param_def rpc_schematic_delete_instance_def rpc_schematic_delete_prop_def rpc_window_screenshot_def rpc_window_screenshot_by_pattern_def rpc_window_geometry_def rpc_cell_open_def rpc_cell_create_def rpc_cell_read_path_def rpc_cell_delete_view_def rpc_cell_delete_def rpc_maestro_open_session_def rpc_maestro_set_session_mode_def rpc_maestro_close_session_def rpc_maestro_list_tests_def rpc_maestro_list_corners_def rpc_maestro_set_var_def rpc_maestro_get_var_def rpc_maestro_delete_var_def rpc_maestro_delete_output_def rpc_maestro_delete_analysis_def rpc_maestro_run_def rpc_maestro_save_def rpc_maestro_export_def rpc_maestro_open_results_def rpc_maestro_get_result_outputs_def rpc_maestro_get_output_value_def rpc_maestro_get_analyses_def rpc_maestro_get_outputs_def rpc_maestro_get_sim_messages_def rpc_maestro_set_analysis_def rpc_maestro_add_output_def rpc_maestro_set_design_def rpc_maestro_create_test_def rpc_maestro_save_setup_def rpc_maestro_get_spec_status_def rpc_tx_begin_def rpc_file_upload_def rpc_file_download_def rpc_util_ciw_print_def rpc_util_reconnect_def rpc_skill_exec_def rpc_skill_load_def rpc_skill_find_def rpc_skill_info_def rpc_libref_find_def rpc_maestro_snapshot_def rpc_maestro_create_corner_netlist_def rpc_schematic_polish_label_def rpc_schematic_net_stub_def rpc_schematic_label_term_def
  by (rule refuses_fail | (rule refuse, assumption) | rule refuse_steps)+

section \<open>Methods depend on what they declare\<close>




section \<open>The schema and the methods\<close>

text \<open>
  What the schema asks of a request: it names no parameter but those the method declares, and lacks
  none of the required ones.
\<close>

definition declared_only :: "string \<Rightarrow> 'f json \<Rightarrow> bool" where
  "declared_only method params \<longleftrightarrow>
     (\<forall>ks. map_of declared_names method = Some ks \<longrightarrow> (\<forall>m. as_obj params = Some m \<longrightarrow> fst ` set m \<subseteq> set ks))"

definition missing_params :: "string \<Rightarrow> 'f json \<Rightarrow> string set" where
  "missing_params method params =
     {k. \<exists>ks. (method, ks) \<in> set required_names \<and> k \<in> set ks \<and> jget params k = None}"

definition complete_request :: "string \<Rightarrow> 'f json \<Rightarrow> bool" where
  "complete_request method params \<longleftrightarrow> declared_only method params \<and> missing_params method params = {}"

text \<open>
  The one method that does not insist on what the schema requires: a \<open>schematic.net_stub\<close> that lacks
  only coordinates of its position.
\<close>

definition stub_without_position :: "string \<Rightarrow> 'f json \<Rightarrow> bool" where
  "stub_without_position method params \<longleftrightarrow>
     method = ''schematic.net_stub'' \<and> declared_only method params \<and> missing_params method params \<subseteq> {''x'', ''y''}"

lemma required_refuses_all:
  "\<forall>(method, ks) \<in> set required_names. \<forall>k \<in> set ks. jget params k = None \<longrightarrow>
     \<not> (method = ''schematic.net_stub'' \<and> k \<in> {''x'', ''y''}) \<longrightarrow> refuses (dispatch_inner R method params)"
  by (simp add: required_names_def dispatch_methods arms_refuse)

lemma required_refuses:
  "k \<in> missing_params method params \<Longrightarrow> \<not> (method = ''schematic.net_stub'' \<and> k \<in> {''x'', ''y''})
    \<Longrightarrow> refuses (dispatch_inner R method params)"
  using required_refuses_all unfolding missing_params_def by blast

text \<open>The position that is absent is the origin.\<close>

lemma net_stub_at_origin:
  "dispatch_inner R ''schematic.net_stub'' (JObj [(''net'', JStr net)]) =
   schematic_net_stub R net (fl_of_int (rp_floats R) 0) (fl_of_int (rp_floats R) 0) ''right'' (half (rp_floats R)) ''default''"
  by (simp add: dispatch_methods rpc_schematic_net_stub_def need_def coord_def str_param_or_def json_str_def
      json_coord_or_def json_str_or_def opt_and_then_def)


lemma distinct_declared: "distinct (map fst declared_names)"
  by (simp add: declared_names_def)

lemma map_of_rev: "distinct (map fst xs) \<Longrightarrow> map_of (rev xs) = map_of xs"
  by (rule map_of_inject_set[THEN iffD2]) (auto simp: rev_map[symmetric])

lemma declared_params_names: "map_option snd (declared_params method) = map_of declared_names method"
proof -
  let ?row = "\<lambda>m. (me_name m, me_summary m, map pa_name (me_params m))"
  let ?rows = "map ?row (sc_methods standard_schema)"
  have names: "map (\<lambda>(k, v). (k, snd v)) ?rows = declared_names"
    by (simp add: declared_names_schema [symmetric])
  have "map fst ?rows = map fst declared_names"
    by (simp add: declared_names_schema [symmetric])
  then have "map_of (rev ?rows) = map_of ?rows"
    by (intro map_of_rev) (simp add: distinct_declared)
  moreover have "map_of declared_names = map_option snd \<circ> map_of ?rows"
    unfolding names [symmetric] by (rule map_of_map)
  ultimately show ?thesis
    by (simp add: declared_params_def)
qed

lemma undeclared_rejected:
  assumes "map_of declared_names method = Some ks" "as_obj params = Some m" "\<not> fst ` set m \<subseteq> set ks"
  shows "\<exists>e. reject_undeclared_params method params = Inl e"
proof -
  obtain s where "declared_params method = Some (s, ks)"
    using assms(1) declared_params_names [of "method"] by auto
  moreover have "filter (\<lambda>k. k \<notin> set ks) (map fst m) \<noteq> []"
    using assms(3) by (auto simp: filter_empty_conv)
  ultimately show ?thesis
    using assms(2) by (simp add: reject_undeclared_params_def Let_def)
qed

lemma incomplete_refuses:
  assumes "\<not> complete_request method params" "\<not> stub_without_position method params"
  shows "refuses (bind_act (of_result (reject_undeclared_params method params)) (\<lambda>_. dispatch_inner R method params))"
proof (cases "reject_undeclared_params method params")
  case (Inl e)
  then show ?thesis by (simp add: refuses_fail)
next
  case (Inr u)
  then have "declared_only method params"
    unfolding declared_only_def using undeclared_rejected [of "method" _ params] by fastforce
  with assms obtain k where "k \<in> missing_params method params" "\<not> (method = ''schematic.net_stub'' \<and> k \<in> {''x'', ''y''})"
    unfolding complete_request_def stub_without_position_def by blast
  from required_refuses [OF this] Inr show ?thesis by simp
qed

lemma unknown_ops:
  "op \<notin> set [''open_cell_view'', ''place'', ''move_instance'', ''wire'', ''label'', ''pin'', ''save'', ''check'', ''list_instances'', ''list_nets'', ''list_pins'', ''list_cdf_params'', ''get_params'', ''set_param'', ''delete_instance'', ''delete_figure'', ''delete_prop'', ''polish_label'', ''net_stub'', ''label_term'', ''assign_net''] \<Longrightarrow>
     dispatch_schematic R op params = fail_act (Execution (''unknown schematic method '' @ quoted op))"
  "op \<notin> set [''inspect'', ''generate''] \<Longrightarrow>
     dispatch_symbol R op params = fail_act (NotFound (''unknown symbol method '' @ quoted op))"
  "op \<notin> set [''list'', ''list_cells''] \<Longrightarrow>
     dispatch_library R op params = fail_act (NotFound (''unknown library method '' @ quoted op))"
  "op \<notin> set [''open_session'', ''set_session_mode'', ''close_session'', ''list_sessions'', ''list_tests'', ''list_corners'', ''set_var'', ''get_var'', ''list_vars'', ''delete_var'', ''delete_output'', ''delete_analysis'', ''run'', ''save'', ''export'', ''open_results'', ''close_results'', ''get_result_tests'', ''get_result_outputs'', ''get_output_value'', ''get_history_list'', ''get_analyses'', ''get_outputs'', ''get_sim_messages'', ''get_current_session'', ''set_analysis'', ''add_output'', ''set_design'', ''create_test'', ''save_setup'', ''get_spec_status'', ''snapshot'', ''create_corner_netlist''] \<Longrightarrow>
     dispatch_maestro R op params = fail_act (Execution (''unknown maestro method '' @ quoted op))"
  "op \<notin> set [''list'', ''screenshot'', ''screenshot_by_pattern'', ''dismiss_dialog'', ''get_dialog_info'', ''dismiss_dialog_x11'', ''list_windows_x11'', ''dismiss_window_x11'', ''geometry''] \<Longrightarrow>
     dispatch_window R op params = fail_act (Execution (''unknown window method '' @ quoted op))"
  "op \<notin> set [''open'', ''save'', ''close'', ''info'', ''list_open'', ''create'', ''delete_view'', ''delete'', ''read_path''] \<Longrightarrow>
     dispatch_cell R op params = fail_act (Execution (''unknown cell method '' @ quoted op))"
  "op \<notin> set [''begin'', ''commit'', ''rollback'', ''diff'', ''status''] \<Longrightarrow>
     dispatch_tx R op params = fail_act (Execution (''unknown tx method '' @ quoted op))"
  "op \<notin> set [''upload'', ''download''] \<Longrightarrow>
     dispatch_file R op params = fail_act (Execution (''unknown file method '' @ quoted op))"
  "op \<notin> set [''version'', ''ping'', ''ciw_print'', ''reconnect''] \<Longrightarrow>
     dispatch_util R op params = fail_act (Execution (''unknown util method '' @ quoted op))"
  "op \<notin> set [''exec'', ''load'', ''eval'', ''find'', ''info'', ''sync'', ''cache''] \<Longrightarrow>
     dispatch_skill R op params = fail_act (Execution (''unknown skill method '' @ quoted op))"
  "op \<notin> set [''list'', ''info'', ''find''] \<Longrightarrow>
     dispatch_libref R op params = fail_act (NotFound (''unknown libref method '' @ quoted op))"
  "op \<notin> set [''check_license''] \<Longrightarrow>
     dispatch_sim R op params = fail_act (Execution (''unknown sim method '' @ quoted op))"
  by (simp_all add: dispatch_schematic_def dispatch_symbol_def dispatch_library_def dispatch_maestro_def dispatch_window_def dispatch_cell_def dispatch_tx_def dispatch_file_def dispatch_util_def dispatch_skill_def dispatch_libref_def dispatch_sim_def)

lemma ops_declared:
  "list_all (\<lambda>op. ''schematic.'' @ op \<in> set (map fst declared_names)) [''open_cell_view'', ''place'', ''move_instance'', ''wire'', ''label'', ''pin'', ''save'', ''check'', ''list_instances'', ''list_nets'', ''list_pins'', ''list_cdf_params'', ''get_params'', ''set_param'', ''delete_instance'', ''delete_figure'', ''delete_prop'', ''polish_label'', ''net_stub'', ''label_term'', ''assign_net'']"
  "list_all (\<lambda>op. ''symbol.'' @ op \<in> set (map fst declared_names)) [''inspect'', ''generate'']"
  "list_all (\<lambda>op. ''library.'' @ op \<in> set (map fst declared_names)) [''list'', ''list_cells'']"
  "list_all (\<lambda>op. ''maestro.'' @ op \<in> set (map fst declared_names)) [''open_session'', ''set_session_mode'', ''close_session'', ''list_sessions'', ''list_tests'', ''list_corners'', ''set_var'', ''get_var'', ''list_vars'', ''delete_var'', ''delete_output'', ''delete_analysis'', ''run'', ''save'', ''export'', ''open_results'', ''close_results'', ''get_result_tests'', ''get_result_outputs'', ''get_output_value'', ''get_history_list'', ''get_analyses'', ''get_outputs'', ''get_sim_messages'', ''get_current_session'', ''set_analysis'', ''add_output'', ''set_design'', ''create_test'', ''save_setup'', ''get_spec_status'', ''snapshot'', ''create_corner_netlist'']"
  "list_all (\<lambda>op. ''window.'' @ op \<in> set (map fst declared_names)) [''list'', ''screenshot'', ''screenshot_by_pattern'', ''dismiss_dialog'', ''get_dialog_info'', ''dismiss_dialog_x11'', ''list_windows_x11'', ''dismiss_window_x11'', ''geometry'']"
  "list_all (\<lambda>op. ''cell.'' @ op \<in> set (map fst declared_names)) [''open'', ''save'', ''close'', ''info'', ''list_open'', ''create'', ''delete_view'', ''delete'', ''read_path'']"
  "list_all (\<lambda>op. ''tx.'' @ op \<in> set (map fst declared_names)) [''begin'', ''commit'', ''rollback'', ''diff'', ''status'']"
  "list_all (\<lambda>op. ''file.'' @ op \<in> set (map fst declared_names)) [''upload'', ''download'']"
  "list_all (\<lambda>op. ''util.'' @ op \<in> set (map fst declared_names)) [''version'', ''ping'', ''ciw_print'', ''reconnect'']"
  "list_all (\<lambda>op. ''skill.'' @ op \<in> set (map fst declared_names)) [''exec'', ''load'', ''eval'', ''find'', ''info'', ''sync'', ''cache'']"
  "list_all (\<lambda>op. ''libref.'' @ op \<in> set (map fst declared_names)) [''list'', ''info'', ''find'']"
  "list_all (\<lambda>op. ''sim.'' @ op \<in> set (map fst declared_names)) [''check_license'']"
  by (simp_all add: declared_names_def)

lemma undeclared_ops:
  "''schematic.'' @ op \<notin> set (map fst declared_names) \<Longrightarrow>
     dispatch_schematic R op params = fail_act (Execution (''unknown schematic method '' @ quoted op))"
  "''symbol.'' @ op \<notin> set (map fst declared_names) \<Longrightarrow>
     dispatch_symbol R op params = fail_act (NotFound (''unknown symbol method '' @ quoted op))"
  "''library.'' @ op \<notin> set (map fst declared_names) \<Longrightarrow>
     dispatch_library R op params = fail_act (NotFound (''unknown library method '' @ quoted op))"
  "''maestro.'' @ op \<notin> set (map fst declared_names) \<Longrightarrow>
     dispatch_maestro R op params = fail_act (Execution (''unknown maestro method '' @ quoted op))"
  "''window.'' @ op \<notin> set (map fst declared_names) \<Longrightarrow>
     dispatch_window R op params = fail_act (Execution (''unknown window method '' @ quoted op))"
  "''cell.'' @ op \<notin> set (map fst declared_names) \<Longrightarrow>
     dispatch_cell R op params = fail_act (Execution (''unknown cell method '' @ quoted op))"
  "''tx.'' @ op \<notin> set (map fst declared_names) \<Longrightarrow>
     dispatch_tx R op params = fail_act (Execution (''unknown tx method '' @ quoted op))"
  "''file.'' @ op \<notin> set (map fst declared_names) \<Longrightarrow>
     dispatch_file R op params = fail_act (Execution (''unknown file method '' @ quoted op))"
  "''util.'' @ op \<notin> set (map fst declared_names) \<Longrightarrow>
     dispatch_util R op params = fail_act (Execution (''unknown util method '' @ quoted op))"
  "''skill.'' @ op \<notin> set (map fst declared_names) \<Longrightarrow>
     dispatch_skill R op params = fail_act (Execution (''unknown skill method '' @ quoted op))"
  "''libref.'' @ op \<notin> set (map fst declared_names) \<Longrightarrow>
     dispatch_libref R op params = fail_act (NotFound (''unknown libref method '' @ quoted op))"
  "''sim.'' @ op \<notin> set (map fst declared_names) \<Longrightarrow>
     dispatch_sim R op params = fail_act (Execution (''unknown sim method '' @ quoted op))"
  using ops_declared unfolding list_all_iff by (intro unknown_ops notI; blast)+

lemma undeclared_refused:
  assumes "area @ ''.'' @ op \<notin> set (map fst declared_names)"
    and "area \<in> {''schematic'', ''symbol'', ''library'', ''maestro'', ''window'', ''cell'', ''tx'', ''file'', ''util'',
        ''skill'', ''libref'', ''sim''}"
  shows "dispatch_domain R method area op params = fail_act (NotFound (''unknown '' @ area @ '' method '' @ quoted op)) \<or>
     dispatch_domain R method area op params = fail_act (Execution (''unknown '' @ area @ '' method '' @ quoted op))"
  using assms(2,1) unfolding insert_iff empty_iff
  by (elim disjE FalseE; simp only: dispatch_domain_def) (simp_all add: undeclared_ops)

section \<open>Requests\<close>

text \<open>
  C33: A request for a method its key does not permit returns an error and changes nothing at all; one
  that names a parameter its method does not declare, or lacks one that the schema requires, returns
  an error and nothing happens but the entry in the audit log that records that error.  The exception
  is \<open>schematic.net_stub\<close>: the schema requires its x and y, and a request that lacks only those is not
  refused for it (\<open>net_stub_at_origin\<close>).
\<close>

theorem incomplete_request_does_nothing:
  assumes "rp_auth R key st = (Done (Inr caps), st1)"
  shows "(\<not> permits_method caps method \<longrightarrow>
      rpc_dispatch R key method params st = (Done (Inl (not_permitted method)), st1)) \<and>
    (permits_method caps method \<and> \<not> complete_request method params \<and> \<not> stub_without_position method params \<longrightarrow>
      (\<exists>e. rpc_dispatch R key method params st =
        (Done (Inl e), rp_log R method params (''error: '' @ display_virtuoso_error e) st1)))"
proof (intro conjI impI)
  assume "\<not> permits_method caps method"
  then show "rpc_dispatch R key method params st = (Done (Inl (not_permitted method)), st1)"
    using assms by (simp add: rpc_dispatch_def bind_act_def fail_act_def)
next
  assume request: "permits_method caps method \<and> \<not> complete_request method params \<and>
      \<not> stub_without_position method params"
  note incomplete = conjunct1 [OF conjunct2 [OF request]] and other = conjunct2 [OF conjunct2 [OF request]]
  obtain e where "bind_act (of_result (reject_undeclared_params method params)) (\<lambda>_. dispatch_inner R method params) st1
      = (Done (Inl e), st1)"
    using incomplete_refuses [OF incomplete other, of R] unfolding refuses_def by (elim allE [of _ st1] exE)
  with request show "\<exists>e. rpc_dispatch R key method params st =
      (Done (Inl e), rp_log R method params (''error: '' @ display_virtuoso_error e) st1)"
    using assms by (simp add: rpc_dispatch_def run_logged_def bind_act_def [of "rp_auth R key"])
qed


text \<open>
  In the program's own domains the methods are those of the schema: any other name is answered
  with the error that the domain has no such method, and nothing is done.
\<close>

theorem undeclared_methods_unknown:
  assumes "method \<notin> set (map fst declared_names)" "split_once CHR ''.'' method = Some (area, op)"
    and "area \<in> {''schematic'', ''symbol'', ''library'', ''maestro'', ''window'', ''cell'', ''tx'', ''file'', ''util'',
        ''skill'', ''libref'', ''sim''}"
  shows "\<exists>e. dispatch_inner R method params st = (Done (Inl e), st) \<and>
     (e = NotFound (''unknown '' @ area @ '' method '' @ quoted op) \<or>
      e = Execution (''unknown '' @ area @ '' method '' @ quoted op))"
proof -
  have m: "method = area @ ''.'' @ op"
    using split_once_Some [OF assms(2)] by simp
  have "area @ ''.'' @ op \<notin> set (map fst declared_names)"
    using assms(1) unfolding m .
  from undeclared_refused [OF this assms(3), of R "method" params] show ?thesis
    by (auto simp: dispatch_inner_def assms(2) fail_act_def)
qed

section \<open>Concrete requests\<close>

text \<open>A server with nothing behind it: every call fails, and the state is the audit log.\<close>

definition silent_rpc :: "(string list, int) rpc_env" where
  "silent_rpc = \<lparr>rp_floats = int_floats, rp_finite = (\<lambda>_. True), rp_parse_f64 = (\<lambda>_. None), rp_parse = Inl,
     rp_print = (\<lambda>_. []), rp_uuid = (\<lambda>_. []), rp_send = (\<lambda>_. fail_act (NotFound [])),
     rp_request = (\<lambda>_. fail_act (NotFound [])), rp_own = fail_act (NotFound []),
     rp_own_send = (\<lambda>_. fail_act (NotFound [])), rp_design = fail_act (NotFound []),
     rp_tx_begin = (\<lambda>_ _ _ _. fail_act (NotFound [])), rp_tx_commit = fail_act (NotFound []),
     rp_tx_rollback = fail_act (NotFound []), rp_tx_diff = fail_act (NotFound []), rp_tx_status = fail_act (NotFound []),
     rp_upload = (\<lambda>_ _. fail_act (NotFound [])), rp_download = (\<lambda>_ _. fail_act (NotFound [])),
     rp_version = fail_act (NotFound []), rp_reconnect = (\<lambda>_. fail_act (NotFound [])),
     rp_command = (\<lambda>_. fail_act (NotFound [])), rp_plugin = None, rp_auth = (\<lambda>_. pure_act [Schematic]),
     rp_log = (\<lambda>method _ result log. log @ [method @ '' '' @ result])\<rparr>"

theorem incomplete_request_does_nothing_witness:
  "rpc_dispatch silent_rpc None ''maestro.run'' JNull [] = (Done (Inl (not_permitted ''maestro.run'')), []) \<and>
   (\<exists>e. rpc_dispatch silent_rpc None ''schematic.place'' (JObj [(''name'', JStr ''M0'')]) [] =
      (Done (Inl e), [''schematic.place error: '' @ display_virtuoso_error e]))"
proof -
  have auth: "rp_auth silent_rpc None [] = (Done (Inr [Schematic]), [])"
    by (simp add: silent_rpc_def pure_act_def)
  have log: "rp_log silent_rpc m p r l = l @ [m @ '' '' @ r]" for m p r l
    by (simp add: silent_rpc_def)
  have no: "\<not> permits_method [Schematic] ''maestro.run''" and yes: "permits_method [Schematic] ''schematic.place''"
    by (simp_all add: permits_method_def method_parts_def permits_def Let_def)
  have incomplete: "\<not> complete_request ''schematic.place'' (JObj [(''name'', JStr ''M0'')])"
  proof -
    have "''master'' \<in> missing_params ''schematic.place'' (JObj [(''name'', JStr ''M0'')])"
      by (simp add: missing_params_def required_names_def)
    then show ?thesis by (auto simp: complete_request_def)
  qed
  have other: "\<not> stub_without_position ''schematic.place'' (JObj [(''name'', JStr ''M0'')])"
    by (simp add: stub_without_position_def)
  note request = incomplete_request_does_nothing [OF auth]
  obtain e where "rpc_dispatch silent_rpc None ''schematic.place'' (JObj [(''name'', JStr ''M0'')]) [] =
      (Done (Inl e), [] @ [''schematic.place'' @ '' '' @ ''error: '' @ display_virtuoso_error e])"
    using mp [OF conjunct2 [OF request] conjI [OF yes conjI [OF incomplete other]]] unfolding log by (elim exE)
  then have "rpc_dispatch silent_rpc None ''schematic.place'' (JObj [(''name'', JStr ''M0'')]) [] =
      (Done (Inl e), [''schematic.place error: '' @ display_virtuoso_error e])"
    by simp
  then show ?thesis
    using mp [OF conjunct1 [OF request] no] by (intro conjI exI)
qed


theorem undeclared_methods_unknown_witness:
  "\<exists>e. dispatch_inner silent_rpc ''schematic.erase'' JNull [] = (Done (Inl e), []) \<and>
     (e = NotFound (''unknown '' @ ''schematic'' @ '' method '' @ quoted ''erase'') \<or>
      e = Execution (''unknown '' @ ''schematic'' @ '' method '' @ quoted ''erase''))"
  by (rule undeclared_methods_unknown) (simp_all add: declared_names_def)

end
