(* ===== verification/Regex_Search.thy ===== *)
theory Regex_Search
  imports Whitelist
begin

text \<open>
  The regular expressions of the program's patterns, with the search of the \<open>regex\<close> crate: the leftmost
  match, and among the matches there the first in the order of the alternatives, greedy repetitions
  preferring more and lazy ones fewer.  Texts are ASCII where a class or a boundary looks at them.
\<close>

datatype rx =
    RChar "char \<Rightarrow> bool"
  | RSeq rx rx
  | RAlt rx rx
  | RMany rx
  | RLazy rx
  | RUpTo nat rx
  | REmpty
  | RWord
  | RLine
  | RGroup nat rx

text \<open>A position in the text: what is before it, reversed, what follows, and the groups that have matched.\<close>

type_synonym rx_pos = "string \<times> string \<times> (nat \<times> string) list"

fun rx_many :: "(rx_pos \<Rightarrow> rx_pos list) \<Rightarrow> nat \<Rightarrow> rx_pos \<Rightarrow> rx_pos list" where
  "rx_many f 0 p = [p]"
| "rx_many f (Suc n) p = concat (map (rx_many f n) (filter (\<lambda>q. fst (snd q) \<noteq> fst (snd p)) (f p))) @ [p]"

fun rx_lazy :: "(rx_pos \<Rightarrow> rx_pos list) \<Rightarrow> nat \<Rightarrow> rx_pos \<Rightarrow> rx_pos list" where
  "rx_lazy f 0 p = [p]"
| "rx_lazy f (Suc n) p = p # concat (map (rx_lazy f n) (filter (\<lambda>q. fst (snd q) \<noteq> fst (snd p)) (f p)))"

fun char_before :: "string \<Rightarrow> char option" where
  "char_before [] = None"
| "char_before (c # _) = Some c"

primrec rx_match :: "rx \<Rightarrow> rx_pos \<Rightarrow> rx_pos list" where
  "rx_match (RChar f) = (\<lambda>(b, s, g). case s of c # s' \<Rightarrow> if f c then [(c # b, s', g)] else [] | [] \<Rightarrow> [])"
| "rx_match (RSeq r1 r2) = (\<lambda>p. concat (map (rx_match r2) (rx_match r1 p)))"
| "rx_match (RAlt r1 r2) = (\<lambda>p. rx_match r1 p @ rx_match r2 p)"
| "rx_match (RMany r) = (\<lambda>p. rx_many (rx_match r) (length (fst (snd p))) p)"
| "rx_match (RLazy r) = (\<lambda>p. rx_lazy (rx_match r) (length (fst (snd p))) p)"
| "rx_match (RUpTo n r) = (\<lambda>p. rx_many (rx_match r) n p)"
| "rx_match REmpty = (\<lambda>p. [p])"
| "rx_match RWord = (\<lambda>(b, s, g). if at_boundary (char_before b) (char_before s) then [(b, s, g)] else [])"
| "rx_match RLine = (\<lambda>(b, s, g). if b = [] \<or> hd b = char_of (10 :: nat) then [(b, s, g)] else [])"
| "rx_match (RGroup n r) = (\<lambda>(b, s, g).
     map (\<lambda>(b', s', g'). (b', s', (n, take (length s - length s') s) # g')) (rx_match r (b, s, g)))"

text \<open>\<open>Regex::captures\<close> from a position on: where the match starts, what precedes it, what it is, what follows, and its groups.\<close>

record rx_found =
  rf_before :: string
  rf_text :: string
  rf_after :: string
  rf_groups :: "(nat \<times> string) list"

fun rx_search_from :: "rx \<Rightarrow> string \<Rightarrow> string \<Rightarrow> rx_found option" where
  "rx_search_from r b s =
     (case rx_match r (b, s, []) of
        (b', s', g) # _ \<Rightarrow>
          Some \<lparr>rf_before = rev b, rf_text = take (length s - length s') s, rf_after = s', rf_groups = g\<rparr>
      | [] \<Rightarrow> (case s of [] \<Rightarrow> None | c # s' \<Rightarrow> rx_search_from r (c # b) s'))"

definition rx_captures :: "rx \<Rightarrow> string \<Rightarrow> rx_found option" where
  "rx_captures r s = rx_search_from r [] s"

definition rx_is_match :: "rx \<Rightarrow> string \<Rightarrow> bool" where
  "rx_is_match r s \<longleftrightarrow> rx_captures r s \<noteq> None"

section \<open>Building expressions\<close>

fun r_lit :: "string \<Rightarrow> rx" where
  "r_lit [] = REmpty"
| "r_lit (c # s) = RSeq (RChar ((=) c)) (r_lit s)"

text \<open>A literal under \<open>(?i)\<close>.\<close>

fun r_nocase :: "string \<Rightarrow> rx" where
  "r_nocase [] = REmpty"
| "r_nocase (c # s) = RSeq (RChar (\<lambda>d. lower_char d = lower_char c)) (r_nocase s)"

fun r_seq :: "rx list \<Rightarrow> rx" where
  "r_seq [] = REmpty"
| "r_seq (r # rs) = RSeq r (r_seq rs)"

definition r_opt :: "rx \<Rightarrow> rx" where "r_opt r = RAlt r REmpty"
definition r_some :: "rx \<Rightarrow> rx" where "r_some r = RSeq r (RMany r)"
definition r_space :: rx where "r_space = RChar is_space"
definition r_spaces :: rx where "r_spaces = RMany r_space"
definition r_digit :: rx where "r_digit = RChar is_digit"
definition r_digits :: rx where "r_digits = r_some r_digit"

section \<open>Facts\<close>

text \<open>A match consumes a prefix of what follows: nothing outside the text is ever returned.\<close>

definition consumes :: "rx_pos \<Rightarrow> rx_pos \<Rightarrow> bool" where
  "consumes p q \<longleftrightarrow> rev (fst q) @ fst (snd q) = rev (fst p) @ fst (snd p) \<and> length (fst (snd q)) \<le> length (fst (snd p))"

lemma consumes_refl [simp]: "consumes p p"
  by (simp add: consumes_def)

lemma consumes_trans: "consumes p q \<Longrightarrow> consumes q r \<Longrightarrow> consumes p r"
  by (simp add: consumes_def)

lemma rx_many_consumes:
  "(\<And>p q. q \<in> set (f p) \<Longrightarrow> consumes p q) \<Longrightarrow> q \<in> set (rx_many f n p) \<Longrightarrow> consumes p q"
proof (induction n arbitrary: p)
  case (Suc n)
  then consider "q = p" | x where "x \<in> set (f p)" "q \<in> set (rx_many f n x)"
    by (auto simp del: split_paired_Ex)
  then show ?case
  proof cases
    case 2
    then have "consumes p x" "consumes x q" using Suc by blast+
    then show ?thesis by (rule consumes_trans)
  qed simp
qed simp

lemma rx_lazy_consumes:
  "(\<And>p q. q \<in> set (f p) \<Longrightarrow> consumes p q) \<Longrightarrow> q \<in> set (rx_lazy f n p) \<Longrightarrow> consumes p q"
proof (induction n arbitrary: p)
  case (Suc n)
  then consider "q = p" | x where "x \<in> set (f p)" "q \<in> set (rx_lazy f n x)"
    by (auto simp del: split_paired_Ex)
  then show ?case
  proof cases
    case 2
    then have "consumes p x" "consumes x q" using Suc by blast+
    then show ?thesis by (rule consumes_trans)
  qed simp
qed simp

lemma rx_match_consumes: "q \<in> set (rx_match r p) \<Longrightarrow> consumes p q"
proof (induction r arbitrary: p q)
  case (RChar f)
  then show ?case by (auto simp: consumes_def split: list.splits if_splits)
next
  case (RSeq r1 r2)
  then show ?case using consumes_trans by (simp del: split_paired_Ex) blast
next
  case (RMany r)
  then show ?case using rx_many_consumes [of "rx_match r"] by simp
next
  case (RLazy r)
  then show ?case using rx_lazy_consumes [of "rx_match r"] by simp
next
  case (RUpTo n r)
  then show ?case using rx_many_consumes [of "rx_match r"] by simp
next
  case (RGroup n r)
  then show ?case by (fastforce simp: consumes_def split: prod.splits)
qed (auto split: if_splits)

lemma rx_search_text:
  "rx_search_from r b s = Some m \<Longrightarrow> rf_before m @ rf_text m @ rf_after m = rev b @ s"
proof (induction r b s rule: rx_search_from.induct)
  case (1 r b s)
  show ?case
  proof (cases "rx_match r (b, s, [])")
    case Nil
    with 1 show ?thesis by (cases s) auto
  next
    case (Cons p ps)
    obtain b' s' g where p: "p = (b', s', g)" by (cases p) auto
    then have "consumes (b, s, []) (b', s', g)"
      using Cons by (intro rx_match_consumes [of _ r]) simp
    then have len: "length s' \<le> length s" and eq: "rev b' @ s' = rev b @ s"
      by (simp_all add: consumes_def)
    have "drop (length s - length s') s = s'"
      using arg_cong [OF eq, of "\<lambda>t. drop (length t - length s') t"] len by simp
    then have "take (length s - length s') s @ s' = s"
      using append_take_drop_id [of "length s - length s'" s] by simp
    with 1(2) Cons p show ?thesis by auto
  qed
qed

lemma rx_captures_text: "rx_captures r s = Some m \<Longrightarrow> rf_before m @ rf_text m @ rf_after m = s"
  using rx_search_text [of r "[]" s m] by (simp add: rx_captures_def)

end
