(* ===== verification/Spectre_Outcome.thy ===== *)
theory Spectre_Outcome
  imports Regex_Search Skill_Result
begin

text \<open>
  \<open>src/spectre/runner.rs\<close>: what the log of a Spectre run says.  The classifier, the messages taken out of
  a log, and the progress read from it.
\<close>

section \<open>Messages\<close>

definition contains_any :: "string \<Rightarrow> string list \<Rightarrow> bool" where
  "contains_any s needles \<longleftrightarrow> list_ex (str_contains s) needles"

definition has_readin_error :: "string \<Rightarrow> bool" where
  "has_readin_error content \<longleftrightarrow>
     str_contains (to_lowercase content) ''error reading'' \<or> str_contains (to_lowercase content) ''read-in failed''"

definition extract_error_messages :: "string \<Rightarrow> string list" where
  "extract_error_messages content =
     filter (\<lambda>line. contains_any line [''Error'', ''ERROR'', ''error:''] \<and>
         \<not> contains_any line [''No licences'', ''Warning'', ''info:'', ''Reading''])
       (map trim (str_lines content))"

definition r_warnings :: rx where
  "r_warnings = RSeq (r_nocase ''warning'') (r_opt (r_nocase ''s''))"

definition zero_summary :: rx where
  "zero_summary =
     RAlt (r_seq [RWord, RAlt (r_nocase ''no'') (r_nocase ''zero''), r_some r_space, r_warnings, RWord])
    (RAlt (r_seq [RWord, r_lit ''0'', r_some r_space, r_warnings, RWord])
    (RAlt (r_seq [RWord, r_warnings, r_spaces, r_lit '':'', r_spaces, r_lit ''0'', RWord])
          (r_seq [RWord, r_nocase ''warning count'', r_spaces, r_lit '':'', r_spaces, r_lit ''0'', RWord])))"

definition extract_warning_messages :: "string \<Rightarrow> string list" where
  "extract_warning_messages content =
     filter (\<lambda>line. line \<noteq> [] \<and> str_contains (to_lowercase line) ''warning'' \<and>
         \<not> rx_is_match zero_summary (to_lowercase line))
       (map trim (str_lines content))"

definition has_license_error :: "string \<Rightarrow> bool" where
  "has_license_error content \<longleftrightarrow>
     (let lc = to_lowercase content in
      contains_any lc [''license'', ''licence''] \<and> contains_any lc [''error'', ''denied'', ''unavailable''])"

text \<open>The Chinese pattern is the UTF-8 text of the source.\<close>

definition completed_chinese :: string where
  "completed_chinese = map char_of [230, 136, 144, 229, 176, 177 :: nat]"

definition is_simulation_complete :: "string option \<Rightarrow> string \<Rightarrow> bool" where
  "is_simulation_complete pattern content \<longleftrightarrow>
     str_contains content ''Simulation completed'' \<or> str_contains content completed_chinese \<or>
     (case pattern of Some p \<Rightarrow> str_contains content p | None \<Rightarrow> False)"

section \<open>Outcomes\<close>

datatype spectre_outcome =
    OSuccess
  | PartialSuccess "string list"
  | OFailure string
  | PartialFailure string

fun outcome_is_ok :: "spectre_outcome \<Rightarrow> bool" where
  "outcome_is_ok OSuccess = True"
| "outcome_is_ok (PartialSuccess _) = True"
| "outcome_is_ok _ = False"

fun outcome_is_failure :: "spectre_outcome \<Rightarrow> bool" where
  "outcome_is_failure (OFailure _) = True"
| "outcome_is_failure (PartialFailure _) = True"
| "outcome_is_failure _ = False"

fun outcome_is_partial :: "spectre_outcome \<Rightarrow> bool" where
  "outcome_is_partial (PartialSuccess _) = True"
| "outcome_is_partial (PartialFailure _) = True"
| "outcome_is_partial _ = False"

fun outcome_status :: "spectre_outcome \<Rightarrow> execution_status" where
  "outcome_status OSuccess = StSuccess"
| "outcome_status (PartialSuccess _) = StPartial"
| "outcome_status (OFailure _) = StError"
| "outcome_status (PartialFailure _) = StPartial"

fun short_reason :: "spectre_outcome \<Rightarrow> string" where
  "short_reason OSuccess = []"
| "short_reason (PartialSuccess ws) = (if ws = [] then [] else show_nat (length ws) @ '' warning(s)'')"
| "short_reason (OFailure r) = r"
| "short_reason (PartialFailure r) = r"

section \<open>The classifier\<close>

record classifier =
  cl_exit_ok :: bool
  cl_log :: string
  cl_has_raw :: bool

definition sfe_error :: rx where
  "sfe_error = r_seq [RLine, r_spaces, RAlt (r_nocase ''error'') (r_nocase ''fatal''), RWord,
     RUpTo 40 (RChar (\<lambda>c. c \<noteq> char_of (10 :: nat))), r_lit ''('', r_spaces, r_nocase ''SFE-'', r_digits, r_spaces, r_lit '')'']"

definition spcrtrf_code :: rx where
  "spcrtrf_code = r_seq [r_nocase ''SPCRTRF'', RChar (\<lambda>c. c = CHR '':'' \<or> c = CHR ''-''), r_digits]"

definition spcrtrf_underscore :: rx where
  "spcrtrf_underscore = r_seq [r_nocase ''SPCRTRF_'', r_digits]"

definition spcrtrf_capture :: rx where
  "spcrtrf_capture =
     RGroup 1 (r_seq [r_nocase ''SPCRTRF'', r_opt (RChar (\<lambda>c. c = CHR '':'' \<or> c = CHR ''-'')), r_digits])"

definition exit_code_rx :: rx where
  "exit_code_rx = r_seq [r_lit ''exit code'', RLazy (RChar (\<lambda>c. c \<noteq> char_of (10 :: nat))), RGroup 1 r_digits]"

definition has_convergence_failure :: "string \<Rightarrow> bool" where
  "has_convergence_failure content \<longleftrightarrow>
     contains_any (to_lowercase content)
       [''failed to converge'', ''convergence failure'', ''failed during convergence'', ''do not converge'',
        ''could not converge''] \<or>
     rx_is_match spcrtrf_code content \<or> rx_is_match spcrtrf_underscore content"

definition convergence_reason :: "string \<Rightarrow> string" where
  "convergence_reason content =
     (if contains_any (to_lowercase content) [''failed to converge'', ''convergence failure'']
      then ''convergence failure''
      else case rx_captures spcrtrf_capture content of
        Some m \<Rightarrow> ''Spectre error '' @ rf_text m @ '': convergence failed''
      | None \<Rightarrow> ''convergence failure'')"

definition has_fatal_error :: "string \<Rightarrow> bool" where
  "has_fatal_error content \<longleftrightarrow>
     (let lc = to_lowercase content in
      rx_is_match sfe_error content \<or> str_contains lc ''fatal'' \<or>
      (str_contains lc ''sev'' \<and> str_contains lc ''error'') \<or> contains_any lc [''panic'', ''assertion''] \<or>
      contains_any lc [''coredump'', ''core dumped''])"

definition fatal_reason :: "string \<Rightarrow> string" where
  "fatal_reason content =
     (let lc = to_lowercase content in
      if str_contains lc ''panic'' then ''spectre panic''
      else if str_contains lc ''assertion'' then ''spectre assertion failure''
      else if contains_any lc [''coredump'', ''core dumped''] then ''spectre coredump''
      else if str_contains lc ''sev'' then ''SEV fatal error''
      else ''fatal error'')"

definition has_missing_include :: "string \<Rightarrow> bool" where
  "has_missing_include content \<longleftrightarrow>
     (let lc = to_lowercase content in
      contains_any lc [''missing include'', ''cannot open''] \<and>
      contains_any lc [''.scs'', ''.include'', ''file not found''])"

definition short_exit_reason :: "string \<Rightarrow> string" where
  "short_exit_reason content =
     (case rx_captures exit_code_rx content of
        Some m \<Rightarrow> '' (exit '' @ or_empty (map_of (rf_groups m) 1) @ '')''
      | None \<Rightarrow> [])"

definition outcome_dash :: string where
  "outcome_dash = map char_of [226, 128, 148 :: nat]"

definition classify :: "classifier \<Rightarrow> spectre_outcome" where
  "classify c =
     (let lc = cl_log c; raw = cl_has_raw c in
      if has_fatal_error lc then OFailure (fatal_reason lc)
      else if has_missing_include lc then OFailure ''missing netlist include or library''
      else if has_convergence_failure lc
      then (if raw then PartialFailure (convergence_reason lc) else OFailure (convergence_reason lc))
      else if has_readin_error lc then OFailure ''netlist read-in failed''
      else if has_license_error lc
      then (if raw then PartialSuccess [''license error '' @ outcome_dash @ '' simulation may be incomplete'']
            else OFailure (''license error '' @ outcome_dash @ '' simulation did not run''))
      else if \<not> cl_exit_ok c
      then (if raw then PartialFailure (''non-zero exit code'' @ short_exit_reason lc)
            else OFailure (''spectre exited with error'' @ short_exit_reason lc))
      else let warnings = extract_warning_messages lc in
        if raw then (if warnings = [] then OSuccess else PartialSuccess warnings)
        else OFailure ''spectre exited cleanly but produced no output data'')"

definition should_cleanup_remote :: "spectre_outcome \<Rightarrow> bool \<Rightarrow> bool" where
  "should_cleanup_remote out keep_remote_files \<longleftrightarrow> \<not> keep_remote_files \<and> out = OSuccess"

section \<open>Progress\<close>

text \<open>The 64-bit and 32-bit floats the progress is computed with; \<open>pf_pow10 (-15)\<close> is the constant \<open>1e-15\<close>.\<close>

record ('f, 'g) progress_floats =
  pf_parse :: "string \<Rightarrow> 'f option"
  pf_pow10 :: "int \<Rightarrow> 'f"
  pf_mul :: "'f \<Rightarrow> 'f \<Rightarrow> 'f"
  pf_div :: "'f \<Rightarrow> 'f \<Rightarrow> 'f"
  pf_min :: "'f \<Rightarrow> 'f \<Rightarrow> 'f"
  pf_zero :: 'f
  pf_positive :: "'f \<Rightarrow> bool"
  pf_to_f32 :: "'f \<Rightarrow> 'g"
  pf_parse32 :: "string \<Rightarrow> 'g option"
  pf_clamp32 :: "'g \<Rightarrow> 'g"
  pf_of_nat32 :: "nat \<Rightarrow> 'g"

text \<open>\<open>str::find\<close> with a predicate, and of a text: what is before the place found, and what is from there on.\<close>

definition split_at :: "(char \<Rightarrow> bool) \<Rightarrow> string \<Rightarrow> (string \<times> string) option" where
  "split_at f s = (if list_ex f s then Some (takeWhile (\<lambda>c. \<not> f c) s, dropWhile (\<lambda>c. \<not> f c) s) else None)"

fun find_text :: "string \<Rightarrow> string \<Rightarrow> (string \<times> string) option" where
  "find_text p [] = (if p = [] then Some ([], []) else None)"
| "find_text p (c # s) =
     (if starts_with (c # s) p then Some ([], c # s)
      else map_option (\<lambda>(a, b). (c # a, b)) (find_text p s))"

definition parse_time_value :: "('f, 'g) progress_floats \<Rightarrow> string \<Rightarrow> 'f option" where
  "parse_time_value F s0 =
     (let s = trim s0 in
      if s = [] then Some (pf_zero F)
      else let (num, unit) =
          (case split_at (\<lambda>c. \<not> is_digit c \<and> c \<notin> set ''.-eE'') s of Some nu \<Rightarrow> nu | None \<Rightarrow> (s, []))
        in case pf_parse F num of
          None \<Rightarrow> None
        | Some v \<Rightarrow> Some
            (if unit = ''f'' then pf_mul F v (pf_pow10 F (- 15))
             else if unit = ''p'' then pf_mul F v (pf_pow10 F (- 12))
             else if unit = ''n'' then pf_mul F v (pf_pow10 F (- 9))
             else if unit = ''u'' then pf_mul F v (pf_pow10 F (- 6))
             else if unit = ''m'' then pf_mul F v (pf_pow10 F (- 3))
             else v))"

definition parse_time_ratio :: "('f, 'g) progress_floats \<Rightarrow> string \<Rightarrow> ('f \<times> 'f) option" where
  "parse_time_ratio F msg =
     (case find_text ''t='' msg of
        None \<Rightarrow> None
      | Some (_, from_t) \<Rightarrow>
          (case split_once CHR ''/'' (drop 2 from_t) of
             None \<Rightarrow> None
           | Some (cur, whole) \<Rightarrow>
               (case (parse_time_value F cur, parse_time_value F whole) of
                  (Some c, Some t) \<Rightarrow> if pf_positive F t then Some (c, t) else None
                | _ \<Rightarrow> None)))"

definition extract_percent :: "('f, 'g) progress_floats \<Rightarrow> string \<Rightarrow> 'g option" where
  "extract_percent F s =
     (case split_at is_digit s of
        None \<Rightarrow> None
      | Some (_, rest) \<Rightarrow>
          (case split_once CHR ''%'' rest of
             None \<Rightarrow> None
           | Some (num, _) \<Rightarrow> map_option (pf_clamp32 F) (pf_parse32 F (trim num))))"

text \<open>The loop over the lines from the last to the first.\<close>

definition time_text :: "string \<Rightarrow> string" where
  "time_text t = trim (rev (dropWhile ((=) CHR ''s'') (rev (trim t))))"

fun scan_progress :: "string list \<Rightarrow> string option \<Rightarrow> u64 option \<Rightarrow> string option \<times> u64 option" where
  "scan_progress [] last_time last_iter = (last_time, last_iter)"
| "scan_progress (l # ls) last_time last_iter =
     (let line = trim l;
          t = (case strip_prefix ''Time:'' line of Some v \<Rightarrow> Some (time_text v) | None \<Rightarrow> last_time);
          i = (case strip_prefix ''Iteration:'' line of
                 Some v \<Rightarrow> (case parse_unsigned u64_max (trim v) of Some n \<Rightarrow> Some (of_nat n) | None \<Rightarrow> last_iter)
               | None \<Rightarrow> last_iter)
      in if t \<noteq> None \<and> i \<noteq> None then (t, i) else scan_progress ls t i)"

fun percent_line :: "('f, 'g) progress_floats \<Rightarrow> string list \<Rightarrow> ('g \<times> string) option" where
  "percent_line F [] = None"
| "percent_line F (l # ls) =
     (let line = trim l in
      if contains_any line [''Progress:'', ''progress:'']
      then (case extract_percent F line of Some p \<Rightarrow> Some (p, line) | None \<Rightarrow> percent_line F ls)
      else percent_line F ls)"

definition parse_spectre_progress ::
  "('f, 'g) progress_floats \<Rightarrow> string option \<Rightarrow> string \<Rightarrow> ('g \<times> string) option" where
  "parse_spectre_progress F pattern log_content =
     (let ls = rev (str_lines log_content) in
      case scan_progress ls None None of
        (Some time, Some iter) \<Rightarrow>
          (let message = ''t='' @ time @ '', iter='' @ show_nat (unat iter) in
           Some (case parse_time_ratio F message of
               Some (c, t) \<Rightarrow> pf_to_f32 F (pf_min F (pf_mul F (pf_div F c t) (pf_pow10 F 2)) (pf_pow10 F 2))
             | None \<Rightarrow> pf_of_nat32 F 50, message))
      | _ \<Rightarrow>
          (case percent_line F ls of
             Some r \<Rightarrow> Some r
           | None \<Rightarrow> if is_simulation_complete pattern log_content then Some (pf_of_nat32 F 100, ''completed'') else None))"

section \<open>What is proved\<close>

text \<open>The signs of trouble the classifier looks for before it considers warnings.\<close>

definition trouble :: "string \<Rightarrow> bool" where
  "trouble l \<longleftrightarrow> has_fatal_error l \<or> has_missing_include l \<or> has_convergence_failure l \<or> has_readin_error l \<or>
     has_license_error l"

lemma classify_success_iff:
  "classify c = OSuccess \<longleftrightarrow>
     cl_has_raw c \<and> cl_exit_ok c \<and> \<not> trouble (cl_log c) \<and> extract_warning_messages (cl_log c) = []"
  by (simp add: classify_def trouble_def Let_def)

lemma classify_needs_data: "outcome_is_ok (classify c) \<or> outcome_is_partial (classify c) \<Longrightarrow> cl_has_raw c"
  by (simp add: classify_def Let_def split: if_splits)

lemma outcome_status_cases:
  "outcome_status r = StSuccess \<longleftrightarrow> r = OSuccess"
  "outcome_status r = StError \<longleftrightarrow> outcome_is_failure r \<and> \<not> outcome_is_partial r"
  "outcome_status r = StPartial \<longleftrightarrow> outcome_is_partial r"
  by (cases r; simp)+

text \<open>A log that mentions a license, and reports no errors in Spectre's own words, is taken for a license error.\<close>

lemma clean_log_with_license:
  "classify \<lparr>cl_exit_ok = True, cl_log = ''License: ok. 0 errors'', cl_has_raw = True\<rparr>
     = PartialSuccess [''license error '' @ outcome_dash @ '' simulation may be incomplete'']"
  by code_simp

lemma several_is_fatal:
  "classify \<lparr>cl_exit_ok = True, cl_log = ''several nodes. 0 errors'', cl_has_raw = True\<rparr>
     = OFailure ''SEV fatal error''"
  by code_simp

text \<open>Of several times after the last iteration the first is reported.\<close>

lemma stale_time_reported:
  "scan_progress (rev [''Iteration: 7'', ''Time: 1u'', ''Time: 2u'']) None None = (Some ''1u'', Some 7)"
  by (simp add: time_text_def trim_def is_space_def strip_prefix_def starts_with_def parse_unsigned_def is_digit_def
      digits_val_def digit_val_def)

end
