(* ===== verification/Spectre_Psf.thy ===== *)
theory Spectre_Psf
  imports Regex_Search Config_File Skill_Client Contract Ownership
begin

text \<open>
  \<open>src/spectre/parsers.rs\<close>: the readers of Spectre's PSF ASCII results, the lenient ones, the strict ones,
  sweeps, and the operating points.  The file system is a record of functions on paths, whose names are
  UTF-8 text; a hash map is its entries by key.  A function that can panic returns an \<open>ending\<close>, or
  \<open>None\<close> where it has no error of its own.
\<close>

section \<open>Files and numbers\<close>

datatype stat_failure = IoNotFound | IoOther string
datatype file_kind = RegularFile | Directory | Symlink | OtherFile

record psf_fs =
  fs_exists :: "string \<Rightarrow> bool"
  fs_is_file :: "string \<Rightarrow> bool"
  fs_is_dir :: "string \<Rightarrow> bool"
  fs_entries :: "string \<Rightarrow> string + (string + string) list"
  fs_text :: "string \<Rightarrow> string + string"
  fs_metadata :: "string \<Rightarrow> string + file_kind"
  fs_symlink_metadata :: "string \<Rightarrow> stat_failure + file_kind"
  fs_canonical :: "string \<Rightarrow> string + string"

record 'f psf_floats =
  ps_parse :: "string \<Rightarrow> 'f option"
  ps_display :: "'f \<Rightarrow> string"
  ps_finite :: "'f \<Rightarrow> bool"
  ps_negative :: "'f \<Rightarrow> bool"
  ps_le :: "'f \<Rightarrow> 'f \<Rightarrow> bool"
  ps_of_nat :: "nat \<Rightarrow> 'f"

definition end_bind :: "'a ending \<Rightarrow> ('a \<Rightarrow> 'b ending) \<Rightarrow> 'b ending" where
  "end_bind r f = (case r of Done (Inr x) \<Rightarrow> f x | Done (Inl e) \<Rightarrow> Done (Inl e) | Panicked \<Rightarrow> Panicked)"

text \<open>\<open>Path::file_stem\<close> of a name, \<open>Path::components\<close>, and \<open>Path::starts_with\<close>.\<close>

definition file_stem :: "string \<Rightarrow> string" where
  "file_stem name =
     (if name = ''..'' then name
      else case rsplit_once CHR ''.'' name of
        Some (stem, _) \<Rightarrow> if stem = [] then name else stem
      | None \<Rightarrow> name)"

datatype path_component = RootDir | CurDir | ParentDir | Normal string

definition lexical_components :: "string \<Rightarrow> path_component list" where
  "lexical_components p =
     (let parts = split_char CHR ''/'' p;
          first = (if starts_with p ''/'' then [RootDir] else if hd parts = ''.'' then [CurDir] else [])
      in first @ map (\<lambda>c. if c = ''..'' then ParentDir else Normal c)
                   (filter (\<lambda>c. c \<noteq> [] \<and> c \<noteq> ''.'') parts))"

definition lexical_starts_with :: "string \<Rightarrow> string \<Rightarrow> bool" where
  "lexical_starts_with p base \<longleftrightarrow>
     take (length (lexical_components base)) (lexical_components p) = lexical_components base"

section \<open>The lenient readers\<close>

definition parse_simple_floats :: "'f psf_floats \<Rightarrow> string \<Rightarrow> 'f list option" where
  "parse_simple_floats F content =
     (let vs = List.map_filter (ps_parse F)
          (filter (\<lambda>l. \<not> (l = [] \<or> starts_with l ''#'')) (map trim (str_lines content)))
      in if vs = [] then None else Some vs)"

text \<open>The index of the last line that is the given keyword.\<close>

fun last_index :: "string \<Rightarrow> string list \<Rightarrow> nat option" where
  "last_index k [] = None"
| "last_index k (l # ls) =
     (case last_index k ls of Some i \<Rightarrow> Some (Suc i) | None \<Rightarrow> if trim l = k then Some 0 else None)"

definition sweep_lines :: "(nat \<times> string) list \<Rightarrow> string list" where
  "sweep_lines ils =
     map (trim \<circ> snd) (filter (\<lambda>(i, l). trim l \<noteq> [] \<and> trim l \<noteq> ''TRACE'' \<and> trim l \<noteq> ''VALUE'' \<and>
       \<not> (i = 0 \<and> quote_char \<in> set (trim l))) ils)"

text \<open>\<open>None\<close> is the panic of a slice whose start is after its end.\<close>

definition parse_psf_ascii_content :: "'f psf_floats \<Rightarrow> string \<Rightarrow> 'f list option option" where
  "parse_psf_ascii_content F content =
     (let ls = str_lines content in
      case last_index ''SWEEP'' ls of
        None \<Rightarrow> Some None
      | Some i \<Rightarrow>
          (let stop = (case last_index ''TRACE'' ls of Some j \<Rightarrow> j | None \<Rightarrow> length ls) in
           if Suc i > stop then None
           else let vs = List.map_filter (ps_parse F) (sweep_lines (enumerate 0 (drop (Suc i) (take stop ls))))
             in Some (if vs = [] then None else Some vs)))"

definition parse_psf_signal_file :: "psf_fs \<Rightarrow> 'f psf_floats \<Rightarrow> string \<Rightarrow> 'f list option option" where
  "parse_psf_signal_file fs F path =
     (case fs_text fs path of
        Inl _ \<Rightarrow> Some None
      | Inr text \<Rightarrow>
          (let content = trim text in
           if content = [] \<or> starts_with content ''#'' \<or> starts_with content ''title'' then Some None
           else if str_contains content ''SWEEP'' \<or> str_contains content ''TRACE'' \<or> str_contains content ''VALUE''
           then parse_psf_ascii_content F content
           else Some (parse_simple_floats F content)))"

fun psf_entries :: "psf_fs \<Rightarrow> 'f psf_floats \<Rightarrow> string \<Rightarrow> (string + string) list \<Rightarrow> 'f list btree \<Rightarrow> 'f list btree ending" where
  "psf_entries fs F dir [] data = Done (Inr data)"
| "psf_entries fs F dir (Inl e # es) data = Done (Inl (Io e))"
| "psf_entries fs F dir (Inr name # es) data =
     (if \<not> fs_is_file fs (path_push dir name) then psf_entries fs F dir es data
      else case parse_psf_signal_file fs F (path_push dir name) of
        None \<Rightarrow> Panicked
      | Some None \<Rightarrow> psf_entries fs F dir es data
      | Some (Some vs) \<Rightarrow> psf_entries fs F dir es (bt_insert (file_stem name) vs data))"

definition parse_psf_dir :: "psf_fs \<Rightarrow> 'f psf_floats \<Rightarrow> string \<Rightarrow> 'f list btree ending" where
  "parse_psf_dir fs F dir =
     (case fs_entries fs dir of Inl e \<Rightarrow> Done (Inl (Io e)) | Inr es \<Rightarrow> psf_entries fs F dir es [])"

definition bt_extend :: "'v btree \<Rightarrow> 'v btree \<Rightarrow> 'v btree" where
  "bt_extend m n = fold (\<lambda>(k, v). bt_insert k v) n m"

fun psf_dirs :: "psf_fs \<Rightarrow> 'f psf_floats \<Rightarrow> string list \<Rightarrow> 'f list btree \<Rightarrow> 'f list btree ending" where
  "psf_dirs fs F [] data = Done (Inr data)"
| "psf_dirs fs F (dir # dirs) data =
     (if \<not> fs_exists fs dir then psf_dirs fs F dirs data
      else case parse_psf_dir fs F dir of
        Panicked \<Rightarrow> Panicked
      | Done (Inl _) \<Rightarrow> psf_dirs fs F dirs data
      | Done (Inr m) \<Rightarrow> psf_dirs fs F dirs (bt_extend data m))"

definition parse_psf_ascii :: "psf_fs \<Rightarrow> 'f psf_floats \<Rightarrow> string \<Rightarrow> 'f list btree ending" where
  "parse_psf_ascii fs F raw_dir = psf_dirs fs F [path_push raw_dir ''psf'', path_push raw_dir ''results''] []"

section \<open>Sweeps\<close>

text \<open>A hash map by sweep point.\<close>

fun nat_insert :: "nat \<Rightarrow> 'v \<Rightarrow> (nat \<times> 'v) list \<Rightarrow> (nat \<times> 'v) list" where
  "nat_insert k v [] = [(k, v)]"
| "nat_insert k v ((k', v') # m) =
     (if k < k' then (k, v) # (k', v') # m else if k = k' then (k, v) # m else (k', v') # nat_insert k v m)"

fun ok_names :: "string + (string + string) list \<Rightarrow> string list" where
  "ok_names (Inl _) = []"
| "ok_names (Inr es) = List.map_filter (\<lambda>e. case e of Inr n \<Rightarrow> Some n | Inl _ \<Rightarrow> None) es"

definition sweep_number :: "string \<Rightarrow> nat option" where
  "sweep_number s = parse_unsigned u64_max s"

fun sweep_points ::
  "psf_fs \<Rightarrow> 'f psf_floats \<Rightarrow> string \<Rightarrow> string list \<Rightarrow> (nat \<times> 'f list btree) list \<Rightarrow> (nat \<times> 'f list btree) list option" where
  "sweep_points fs F dir [] acc = Some acc"
| "sweep_points fs F dir (name # names) acc =
     (if \<not> fs_is_dir fs (path_push dir name) then sweep_points fs F dir names acc
      else case sweep_number name of
        None \<Rightarrow> sweep_points fs F dir names acc
      | Some point \<Rightarrow>
          (case parse_psf_dir fs F (path_push dir name) of
             Panicked \<Rightarrow> None
           | Done (Inl _) \<Rightarrow> sweep_points fs F dir names acc
           | Done (Inr data) \<Rightarrow>
               sweep_points fs F dir names (if data = [] then acc else nat_insert point data acc)))"

fun sweep_dirs ::
  "psf_fs \<Rightarrow> 'f psf_floats \<Rightarrow> string \<Rightarrow> string list \<Rightarrow> (nat \<times> 'f list btree) list \<Rightarrow> (nat \<times> 'f list btree) list option" where
  "sweep_dirs fs F out [] acc = Some acc"
| "sweep_dirs fs F out (d # ds) acc =
     (case sweep_points fs F (path_push out d) (ok_names (fs_entries fs (path_push out d))) acc of
        None \<Rightarrow> None
      | Some acc' \<Rightarrow> sweep_dirs fs F out ds acc')"

text \<open>\<open>^sw\d+-(\d+)_\<close>, which begins where the text does.\<close>

definition flat_rx :: rx where
  "flat_rx = r_seq [r_lit ''sw'', r_digits, r_lit ''-'', RGroup 1 r_digits, r_lit ''_'']"

definition flat_index :: "string \<Rightarrow> string option" where
  "flat_index name = (case rx_match flat_rx ([], name, []) of (_, _, g) # _ \<Rightarrow> map_of g 1 | [] \<Rightarrow> None)"

fun flat_files ::
  "psf_fs \<Rightarrow> 'f psf_floats \<Rightarrow> string \<Rightarrow> string list \<Rightarrow> (nat \<times> 'f list btree) list \<Rightarrow> (nat \<times> 'f list btree) list option" where
  "flat_files fs F out [] acc = Some acc"
| "flat_files fs F out (name # names) acc =
     (case Option.bind (flat_index name) sweep_number of
        None \<Rightarrow> flat_files fs F out names acc
      | Some n \<Rightarrow>
          (case parse_psf_signal_file fs F (path_push out name) of
             None \<Rightarrow> None
           | Some None \<Rightarrow> flat_files fs F out names acc
           | Some (Some vs) \<Rightarrow>
               flat_files fs F out names (nat_insert ((n + 1) mod 2 ^ 64) (bt_insert (file_stem name) vs []) acc)))"

definition is_sweep_name :: "string \<Rightarrow> bool" where
  "is_sweep_name name \<longleftrightarrow> starts_with name ''sw'' \<and> str_contains name ''.sweep''"

definition parse_sweep_psf_directory ::
  "psf_fs \<Rightarrow> 'f psf_floats \<Rightarrow> string \<Rightarrow> (nat \<times> 'f list btree) list option" where
  "parse_sweep_psf_directory fs F out =
     (let names = ok_names (fs_entries fs out) in
      case sweep_dirs fs F out (sort (filter (\<lambda>n. fs_is_dir fs (path_push out n) \<and> is_sweep_name n) names)) [] of
        None \<Rightarrow> None
      | Some data \<Rightarrow>
          if data \<noteq> [] then Some data
          else flat_files fs F out
            (sort (filter (\<lambda>n. fs_is_file fs (path_push out n) \<and> flat_index n \<noteq> None) names)) [])"

record 'f sweep_point =
  sp_index :: nat
  sp_value :: 'f
  sp_signals :: "'f list btree"

text \<open>\<open>first\<close> is the value a hash map yields first.\<close>

definition sweep_value ::
  "'f psf_floats \<Rightarrow> ('f list btree \<Rightarrow> 'f list option) \<Rightarrow> nat \<Rightarrow> 'f list btree \<Rightarrow> 'f" where
  "sweep_value F first i data =
     (case first data of
        Some (v # _) \<Rightarrow> v
      | _ \<Rightarrow> ps_of_nat F i)"

definition parse_sweep_flat ::
  "psf_fs \<Rightarrow> 'f psf_floats \<Rightarrow> ('f list btree \<Rightarrow> 'f list option) \<Rightarrow> string \<Rightarrow> 'f sweep_point list option" where
  "parse_sweep_flat fs F first out =
     map_option (map (\<lambda>(i, data). \<lparr>sp_index = i, sp_value = sweep_value F first i data, sp_signals = data\<rparr>))
       (parse_sweep_psf_directory fs F out)"

definition get_scalar :: "'f sweep_point \<Rightarrow> string \<Rightarrow> 'f option" where
  "get_scalar p s = (case map_of (sp_signals p) s of Some (v # vs) \<Rightarrow> Some (last (v # vs)) | _ \<Rightarrow> None)"

definition get_value_at :: "'f sweep_point \<Rightarrow> string \<Rightarrow> nat \<Rightarrow> 'f option" where
  "get_value_at p s i =
     (case map_of (sp_signals p) s of Some vs \<Rightarrow> if i < length vs then Some (vs ! i) else None | None \<Rightarrow> None)"

definition num_samples :: "('f list btree \<Rightarrow> 'f list option) \<Rightarrow> 'f sweep_point \<Rightarrow> nat" where
  "num_samples first p = (case first (sp_signals p) of Some vs \<Rightarrow> length vs | None \<Rightarrow> 0)"

definition find_psf_scan_root :: "psf_fs \<Rightarrow> string \<Rightarrow> string" where
  "find_psf_scan_root fs out =
     (if fs_exists fs (path_push out ''psf'') then path_push out ''psf''
      else if fs_exists fs (path_push out ''results'') then path_push out ''results''
      else out)"

section \<open>Strict access to a data set\<close>

definition psf_signal :: "'f list btree \<Rightarrow> string \<Rightarrow> virtuoso_error + 'f list" where
  "psf_signal signals key =
     (case map_of signals key of
        Some vs \<Rightarrow> Inr vs
      | None \<Rightarrow> Inl (NotFound (''signal '' @ quoted key @ '' not found'')))"

definition require_scalar :: "'f psf_floats \<Rightarrow> 'f list btree \<Rightarrow> string \<Rightarrow> virtuoso_error + 'f" where
  "require_scalar F signals key =
     bindR (psf_signal signals key) (\<lambda>vs.
       case vs of
         [] \<Rightarrow> Inl (Execution (''signal '' @ quoted key @ '' has no samples; expected a single scalar''))
       | [v] \<Rightarrow>
           (if \<not> ps_finite F v
            then Inl (Execution (''signal '' @ quoted key @ '' is not finite ('' @ ps_display F v @ ''); expected a finite scalar''))
            else Inr v)
       | _ \<Rightarrow> Inl (Execution (''signal '' @ quoted key @ '' has '' @ show_nat (length vs) @ '' samples; expected exactly one'')))"

fun first_error :: "(nat \<Rightarrow> 'f \<Rightarrow> virtuoso_error option) \<Rightarrow> nat \<Rightarrow> 'f list \<Rightarrow> virtuoso_error option" where
  "first_error f i [] = None"
| "first_error f i (v # vs) = (case f i v of Some e \<Rightarrow> Some e | None \<Rightarrow> first_error f (Suc i) vs)"

definition require_vector :: "'f psf_floats \<Rightarrow> 'f list btree \<Rightarrow> string \<Rightarrow> virtuoso_error + 'f list" where
  "require_vector F signals key =
     bindR (psf_signal signals key) (\<lambda>vs.
       if vs = [] then Inl (Execution (''signal '' @ quoted key @ '' has no samples; expected a non-empty vector''))
       else case first_error (\<lambda>i v. if ps_finite F v then None
              else Some (Execution (''signal '' @ quoted key @ '' has non-finite sample at index '' @ show_nat i @
                     '' ('' @ ps_display F v @ '')''))) 0 vs of
         Some e \<Rightarrow> Inl e
       | None \<Rightarrow> Inr vs)"

fun first_descent :: "'f psf_floats \<Rightarrow> 'f list \<Rightarrow> ('f \<times> 'f) option" where
  "first_descent F (a # b # vs) = (if ps_le F b a then Some (a, b) else first_descent F (b # vs))"
| "first_descent F vs = None"

definition require_frequency_hz :: "'f psf_floats \<Rightarrow> 'f list btree \<Rightarrow> string \<Rightarrow> virtuoso_error + 'f list" where
  "require_frequency_hz F signals key =
     bindR (psf_signal signals key) (\<lambda>vs.
       if vs = [] then Inl (Execution (''signal '' @ quoted key @ '' has no samples; expected a non-empty frequency axis''))
       else case first_error (\<lambda>i v.
              if \<not> ps_finite F v
              then Some (Execution (''signal '' @ quoted key @ '' has non-finite frequency sample at index '' @
                     show_nat i @ '' ('' @ ps_display F v @ '')''))
              else if ps_negative F v
              then Some (Execution (''signal '' @ quoted key @ '' has negative frequency at index '' @ show_nat i @
                     '' ('' @ ps_display F v @ '')''))
              else None) 0 vs of
         Some e \<Rightarrow> Inl e
       | None \<Rightarrow>
           (case first_descent F vs of
              Some (a, b) \<Rightarrow> Inl (Execution (''signal '' @ quoted key @ '' is not strictly increasing ('' @
                  ps_display F a @ '' -> '' @ ps_display F b @ '')''))
            | None \<Rightarrow> Inr vs))"

section \<open>The strict readers\<close>

fun strict_floats :: "'f psf_floats \<Rightarrow> string \<Rightarrow> string list \<Rightarrow> virtuoso_error + 'f list" where
  "strict_floats F what [] = Inr []"
| "strict_floats F what (t # ts) =
     (case ps_parse F t of
        None \<Rightarrow> Inl (Execution (''invalid float '' @ quoted t @ '' in '' @ what))
      | Some v \<Rightarrow>
          if \<not> ps_finite F v
          then Inl (Execution (''non-finite value '' @ quoted (ps_display F v) @ '' in '' @ what))
          else bindR (strict_floats F what ts) (\<lambda>vs. Inr (v # vs)))"

definition parse_simple_floats_strict :: "'f psf_floats \<Rightarrow> string \<Rightarrow> virtuoso_error + 'f list" where
  "parse_simple_floats_strict F content =
     bindR (strict_floats F ''PSF data''
         (filter (\<lambda>l. \<not> (l = [] \<or> starts_with l ''#'')) (map trim (str_lines content)))) (\<lambda>vs.
       if vs = [] then Inl (Execution ''PSF data contains no finite samples'') else Inr vs)"

text \<open>The data lines of a section: up to its end, without the empty ones and the header.\<close>

fun section_data :: "bool \<Rightarrow> string list \<Rightarrow> string list" where
  "section_data header_consumed [] = []"
| "section_data header_consumed (l # ls) =
     (let t = trim l in
      if t = [] then section_data header_consumed ls
      else if t = ''TRACE'' \<or> t = ''VALUE'' \<or> t = ''END'' then []
      else if \<not> header_consumed \<and> quote_char \<in> set t then section_data True ls
      else t # section_data True ls)"

definition parse_sweep_section_strict :: "'f psf_floats \<Rightarrow> string \<Rightarrow> virtuoso_error + 'f list" where
  "parse_sweep_section_strict F content =
     bindR (strict_floats F ''SWEEP section'' (section_data False (tl (str_lines content)))) (\<lambda>vs.
       if vs = [] then Inl (Execution ''SWEEP section contains no finite samples'') else Inr vs)"

definition parse_psf_ascii_strict_content :: "'f psf_floats \<Rightarrow> string \<Rightarrow> virtuoso_error + 'f list" where
  "parse_psf_ascii_strict_content F content =
     (let trimmed = trim content in
      if trimmed = [] then Inl (Execution ''PSF file content is empty'')
      else if trim (case str_lines trimmed of l # _ \<Rightarrow> l | [] \<Rightarrow> []) = ''SWEEP''
      then parse_sweep_section_strict F trimmed
      else parse_simple_floats_strict F trimmed)"

definition io_result :: "string + 'a \<Rightarrow> virtuoso_error + 'a" where
  "io_result r = (case r of Inl e \<Rightarrow> Inl (Io e) | Inr x \<Rightarrow> Inr x)"

text \<open>The stem is that of the last component; a path without one has none.\<close>

definition read_psf_ascii_strict :: "psf_fs \<Rightarrow> 'f psf_floats \<Rightarrow> string \<Rightarrow> virtuoso_error + 'f list btree" where
  "read_psf_ascii_strict fs F path =
     bindR (io_result (fs_metadata fs path)) (\<lambda>k.
     if k \<noteq> RegularFile then Inl (Execution (''PSF path '' @ quoted path @ '' is not a regular file''))
     else bindR (io_result (fs_text fs path)) (\<lambda>content.
     case path_file_name path of
       None \<Rightarrow> Inl (Execution (''PSF file '' @ quoted path @ '' has no valid UTF-8 file stem''))
     | Some name \<Rightarrow>
         bindR (parse_psf_ascii_strict_content F content) (\<lambda>vs. Inr [(file_stem name, vs)])))"

fun allowed_component :: "path_component \<Rightarrow> bool" where
  "allowed_component (Normal _) = True"
| "allowed_component CurDir = True"
| "allowed_component _ = False"

fun debug_component :: "path_component \<Rightarrow> string" where
  "debug_component RootDir = ''RootDir''"
| "debug_component CurDir = ''CurDir''"
| "debug_component ParentDir = ''ParentDir''"
| "debug_component (Normal s) = ''Normal('' @ debug_str s @ '')''"

definition find_exact_result_file :: "psf_fs \<Rightarrow> string \<Rightarrow> string \<Rightarrow> virtuoso_error + string" where
  "find_exact_result_file fs root relative =
     (if starts_with relative ''/''
      then Inl (Config (''relative_name must be relative, got absolute path '' @ quoted relative))
      else case List.find (\<lambda>c. \<not> allowed_component c) (lexical_components relative) of
        Some c \<Rightarrow> Inl (Config (''relative_name '' @ quoted relative @ '' contains disallowed path component '' @ debug_component c))
      | None \<Rightarrow>
          bindR (io_result (fs_canonical fs root)) (\<lambda>croot.
          let candidate = path_push croot relative in
          case fs_symlink_metadata fs candidate of
            Inl IoNotFound \<Rightarrow> Inl (NotFound (''result file '' @ quoted relative @ '' not found under root '' @ quoted croot))
          | Inl (IoOther e) \<Rightarrow> Inl (Io e)
          | Inr Symlink \<Rightarrow> Inl (Config (''result file '' @ quoted relative @ '' is a symlink''))
          | Inr RegularFile \<Rightarrow>
              bindR (io_result (fs_canonical fs candidate)) (\<lambda>target.
                if \<not> lexical_starts_with target croot
                then Inl (Config (''result file '' @ quoted target @ '' escapes canonical root '' @ quoted croot))
                else Inr target)
          | Inr _ \<Rightarrow> Inl (Config (''result file '' @ quoted relative @ '' is not a regular file''))))"

fun strict_entries ::
  "psf_fs \<Rightarrow> 'f psf_floats \<Rightarrow> string \<Rightarrow> (string + string) list \<Rightarrow> 'f list btree \<Rightarrow> virtuoso_error + 'f list btree" where
  "strict_entries fs F dir [] data = Inr data"
| "strict_entries fs F dir (Inl e # es) data = Inl (Io e)"
| "strict_entries fs F dir (Inr name # es) data =
     (if fs_symlink_metadata fs (path_push dir name) \<noteq> Inr RegularFile then strict_entries fs F dir es data
      else case fs_canonical fs dir of
        Inl _ \<Rightarrow> strict_entries fs F dir es data
      | Inr cdir \<Rightarrow>
          bindR (find_exact_result_file fs cdir name) (\<lambda>contained.
          bindR (read_psf_ascii_strict fs F contained) (\<lambda>m.
          strict_entries fs F dir es (bt_extend data m))))"

fun strict_dirs :: "psf_fs \<Rightarrow> 'f psf_floats \<Rightarrow> string list \<Rightarrow> 'f list btree \<Rightarrow> virtuoso_error + 'f list btree" where
  "strict_dirs fs F [] data = Inr data"
| "strict_dirs fs F (dir # dirs) data =
     (if \<not> fs_exists fs dir then strict_dirs fs F dirs data
      else bindR (io_result (fs_entries fs dir)) (\<lambda>es.
        bindR (strict_entries fs F dir es data) (\<lambda>data'. strict_dirs fs F dirs data')))"

definition parse_psf_ascii_strict_directory :: "psf_fs \<Rightarrow> 'f psf_floats \<Rightarrow> string \<Rightarrow> virtuoso_error + 'f list btree" where
  "parse_psf_ascii_strict_directory fs F raw_dir =
     strict_dirs fs F [path_push raw_dir ''psf'', path_push raw_dir ''results''] []"

end
