(* ===== verification/Spectre_Ops.thy ===== *)
theory Spectre_Ops
  imports Spectre_Psf Spectre_Outcome
begin

text \<open>
  \<open>src/spectre/parsers.rs\<close>: operating points.  Blocks of a PSF file that give a device's values by position,
  named by the file's type library or by convention.
\<close>

section \<open>Scalars\<close>

datatype 'f op_scalar = SFloat 'f | SString string | SInteger int

fun scalar_as_f64 :: "(int \<Rightarrow> 'f) \<Rightarrow> 'f op_scalar \<Rightarrow> 'f option" where
  "scalar_as_f64 of_i64 (SFloat v) = Some v"
| "scalar_as_f64 of_i64 (SInteger v) = Some (of_i64 v)"
| "scalar_as_f64 of_i64 (SString _) = None"

fun scalar_as_str :: "'f op_scalar \<Rightarrow> string option" where
  "scalar_as_str (SString v) = Some v"
| "scalar_as_str _ = None"

definition parse_i64 :: "string \<Rightarrow> int option" where
  "parse_i64 s =
     (let (neg, ds) = (case s of c # t \<Rightarrow> if c = CHR ''-'' then (True, t) else if c = CHR ''+'' then (False, t) else (False, s)
                       | [] \<Rightarrow> (False, []));
          n = (if neg then - int (digits_val ds) else int (digits_val ds))
      in if ds \<noteq> [] \<and> list_all is_digit ds \<and> - (2 ^ 63) \<le> n \<and> n < 2 ^ 63 then Some n else None)"

text \<open>The outer option is the panic of the slice \<open>1 .. len - 1\<close> of a lone quote.\<close>

definition parse_scalar :: "'f psf_floats \<Rightarrow> string \<Rightarrow> 'f op_scalar option option" where
  "parse_scalar F token =
     (let t = trim token in
      if t \<noteq> [] \<and> hd t = quote_char \<and> last t = quote_char
      then (if length t = 1 then None else Some (Some (SString (butlast (tl t)))))
      else case parse_i64 t of
        Some i \<Rightarrow> Some (Some (SInteger i))
      | None \<Rightarrow> Some (map_option SFloat (ps_parse F t)))"

definition is_separator :: "char \<Rightarrow> bool" where
  "is_separator c \<longleftrightarrow> c \<in> {CHR '','', char_of (10 :: nat), char_of (13 :: nat), char_of (9 :: nat), CHR '' ''}"

definition push_value :: "'f psf_floats \<Rightarrow> string \<Rightarrow> 'f op_scalar list \<Rightarrow> 'f op_scalar list option" where
  "push_value F cur values =
     (let t = trim cur in
      if t = [] \<or> t = [quote_char, quote_char] then Some values
      else case parse_scalar F t of
        None \<Rightarrow> None
      | Some None \<Rightarrow> Some values
      | Some (Some v) \<Rightarrow> Some (values @ [v]))"

fun inner_values :: "'f psf_floats \<Rightarrow> bool \<Rightarrow> string \<Rightarrow> 'f op_scalar list \<Rightarrow> string \<Rightarrow> 'f op_scalar list option" where
  "inner_values F in_string cur values [] = push_value F cur values"
| "inner_values F in_string cur values (c # cs) =
     (if c = quote_char then inner_values F (\<not> in_string) (cur @ [c]) values cs
      else if is_separator c \<and> \<not> in_string
      then (case push_value F cur values of None \<Rightarrow> None | Some values' \<Rightarrow> inner_values F in_string [] values' cs)
      else inner_values F in_string (cur @ [c]) values cs)"

definition parse_op_inner_values :: "'f psf_floats \<Rightarrow> string \<Rightarrow> 'f op_scalar list option" where
  "parse_op_inner_values F inner = inner_values F False [] [] inner"

section \<open>Blocks\<close>

text \<open>What is before the closing parenthesis, and the text from it on.  The depth is an \<open>i32\<close>.\<close>

fun find_closing_paren :: "32 word \<Rightarrow> bool \<Rightarrow> string \<Rightarrow> (string \<times> string) option" where
  "find_closing_paren depth in_string [] = None"
| "find_closing_paren depth in_string (c # cs) =
     (if c = CHR '')'' \<and> \<not> in_string \<and> depth - 1 = 0 then Some ([], c # cs)
      else map_option (\<lambda>(a, b). (c # a, b))
        (if c = quote_char then find_closing_paren depth (\<not> in_string) cs
         else if c = CHR ''('' \<and> \<not> in_string then find_closing_paren (depth + 1) in_string cs
         else if c = CHR '')'' \<and> \<not> in_string then find_closing_paren (depth - 1) in_string cs
         else find_closing_paren depth in_string cs))"

definition not_quote :: rx where "not_quote = RChar (\<lambda>c. c \<noteq> quote_char)"
definition r_quote :: rx where "r_quote = RChar ((=) quote_char)"

definition block_rx :: rx where
  "block_rx = RSeq r_quote (r_seq [RGroup 1 (r_some not_quote), r_quote, r_some r_space, r_quote,
     RGroup 2 (r_some not_quote), r_quote, r_spaces, r_lit ''('', r_spaces])"

section \<open>The type library\<close>

definition not_newline :: rx where "not_newline = RChar (\<lambda>c. c \<noteq> char_of (10 :: nat))"

definition type_rx :: rx where
  "type_rx = r_seq [RLine, RGroup 1 (RSeq (RChar (\<lambda>c. \<not> is_space c)) (RMany not_newline)), r_some r_space,
     r_lit ''@fields'', r_spaces, r_lit ''('', RGroup 2 (r_some (RChar (\<lambda>c. c \<noteq> CHR '')''))), r_lit '')'']"

text \<open>\<open>Regex::captures_iter\<close>, for an expression that matches no empty text.\<close>

function rx_iter :: "rx \<Rightarrow> string \<Rightarrow> string \<Rightarrow> rx_found list" where
  "rx_iter r b s =
     (case rx_search_from r b s of
        None \<Rightarrow> []
      | Some m \<Rightarrow>
          m # (if length (rf_after m) < length s
               then rx_iter r (rev (rf_before m @ rf_text m)) (rf_after m) else []))"
  by pat_completeness auto
termination by (relation "measure (\<lambda>(r, b, s). length s)") auto

declare rx_iter.simps [simp del]

definition group :: "rx_found \<Rightarrow> nat \<Rightarrow> string" where
  "group m n = or_empty (map_of (rf_groups m) n)"

fun fields_of :: "rx_found list \<Rightarrow> string list btree \<Rightarrow> string list btree" where
  "fields_of [] acc = acc"
| "fields_of (m # ms) acc =
     (let field_names = split_whitespace (group m 2) in
      fields_of ms (if field_names = [] then acc else bt_insert (to_lowercase (trim (group m 1))) field_names acc))"

definition inherit_mos :: "string \<Rightarrow> string list btree \<Rightarrow> string list btree" where
  "inherit_mos t m =
     (case (map_of m ''mos'', map_of m t) of (Some fs, None) \<Rightarrow> bt_insert t fs m | _ \<Rightarrow> m)"

definition parse_psf_type_library :: "string \<Rightarrow> string list btree option" where
  "parse_psf_type_library content =
     (case find_text ''@output-library'' content of
        None \<Rightarrow> None
      | Some (_, sec) \<Rightarrow> Some (inherit_mos ''pmos'' (inherit_mos ''nmos'' (fields_of (rx_iter type_rx [] sec) []))))"

section \<open>Operating points\<close>

text \<open>Indexing a vector: out of range, it panics.\<close>

definition index_at :: "'a list \<Rightarrow> nat \<Rightarrow> 'a option" where
  "index_at vs i = (if i < length vs then Some (vs ! i) else None)"

definition put_value ::
  "string \<Rightarrow> string \<Rightarrow> 'f op_scalar list \<Rightarrow> nat \<Rightarrow> 'f op_scalar btree \<Rightarrow> 'f op_scalar btree option" where
  "put_value dev name vs i ops = map_option (\<lambda>v. bt_insert (dev @ '':'' @ name) v ops) (index_at vs i)"

fun named_values ::
  "string \<Rightarrow> nat \<Rightarrow> string list \<Rightarrow> 'f op_scalar list \<Rightarrow> 'f op_scalar btree \<Rightarrow> 'f op_scalar btree option" where
  "named_values dev idx [] vs ops = Some ops"
| "named_values dev idx (f # fs) vs ops =
     (if idx < length vs
      then Option.bind (put_value dev f vs idx ops) (named_values dev (Suc idx) fs vs)
      else named_values dev (Suc idx) fs vs ops)"

fun param_values :: "string \<Rightarrow> nat \<Rightarrow> 'f op_scalar list \<Rightarrow> 'f op_scalar btree \<Rightarrow> 'f op_scalar btree" where
  "param_values dev i [] ops = ops"
| "param_values dev i (v # vs) ops =
     param_values dev (Suc i) vs (bt_insert (dev @ '':param'' @ show_nat i) v ops)"

definition mos_values :: "string \<Rightarrow> 'f op_scalar list \<Rightarrow> 'f op_scalar btree \<Rightarrow> 'f op_scalar btree option" where
  "mos_values dev vs ops =
     Option.bind (if vs \<noteq> [] then put_value dev ''gm'' vs 0 ops else Some ops) (\<lambda>ops.
     Option.bind (if 2 \<le> length vs then put_value dev ''vdsat'' vs 1 ops else Some ops) (\<lambda>ops.
     Option.bind
       (if 3 \<le> length vs
        then Option.bind (index_at vs 2) (\<lambda>v. if scalar_as_str v = None then put_value dev ''vth'' vs 2 ops else Some ops)
        else Some ops) (\<lambda>ops.
     Option.bind
       (if 4 \<le> length vs
        then Option.bind (index_at vs 3) (\<lambda>v. if scalar_as_str v \<noteq> None then put_value dev ''region'' vs 3 ops else Some ops)
        else Some ops) (\<lambda>ops.
     Some (param_values dev 4 (drop 4 vs) ops)))))"

definition is_mos_family :: "string \<Rightarrow> bool" where
  "is_mos_family t \<longleftrightarrow> str_contains t ''mos'' \<or> t = ''nmos'' \<or> t = ''pmos'' \<or> t = ''pch''"

text \<open>None is the panic of an index out of range.\<close>

definition block_values ::
  "string list btree \<Rightarrow> string \<Rightarrow> string \<Rightarrow> 'f op_scalar list \<Rightarrow> 'f op_scalar btree \<Rightarrow> 'f op_scalar btree option" where
  "block_values types dev dev_type vs ops =
     (if vs = [] then Some ops
      else case map_of types dev_type of
        Some field_names \<Rightarrow> named_values dev 0 field_names vs ops
      | None \<Rightarrow> if is_mos_family dev_type then mos_values dev vs ops else Some (param_values dev 0 vs ops))"

lemma rx_char_consumes: "q \<in> set (rx_match (RSeq (RChar f) r) p) \<Longrightarrow> length (fst (snd q)) < length (fst (snd p))"
  by (cases p) (force split: list.splits if_splits dest: rx_match_consumes simp: consumes_def)

lemma rx_found_shorter: "rx_search_from (RSeq (RChar f) r) b s = Some m \<Longrightarrow> length (rf_after m) < length s"
proof (induction s arbitrary: b)
  case Nil
  then show ?case by (simp split: list.splits)
next
  case (Cons c s)
  show ?case
  proof (cases "rx_match (RSeq (RChar f) r) (b, c # s, [])")
    case Nil
    then have "rx_search_from (RSeq (RChar f) r) (c # b) s = Some m"
      using Cons.prems by (subst (asm) rx_search_from.simps) (simp del: rx_search_from.simps rx_match.simps)
    then show ?thesis using Cons.IH by fastforce
  next
    case (Cons p ps)
    then have "length (fst (snd p)) < length (c # s)"
      using rx_char_consumes [of p f r "(b, c # s, [])"] by (simp del: rx_match.simps)
    with \<open>rx_search_from (RSeq (RChar f) r) b (c # s) = Some m\<close> Cons show ?thesis
      by (subst (asm) rx_search_from.simps) (cases p, auto simp del: rx_match.simps rx_search_from.simps)
  qed
qed

lemma block_found_shorter: "rx_captures block_rx s = Some m \<Longrightarrow> length (rf_after m) < length s"
  unfolding rx_captures_def block_rx_def r_quote_def by (rule rx_found_shorter)

lemma closing_paren_split: "find_closing_paren d q s = Some (a, b) \<Longrightarrow> s = a @ b"
  by (induction s arbitrary: d q a b) (auto split: if_splits)

function op_blocks ::
  "'f psf_floats \<Rightarrow> string list btree \<Rightarrow> string \<Rightarrow> 'f op_scalar btree \<Rightarrow> 'f op_scalar btree option" where
  "op_blocks F types s ops =
     (case rx_captures block_rx s of
        None \<Rightarrow> Some ops
      | Some m \<Rightarrow>
          (case find_closing_paren 1 False (rf_after m) of
             None \<Rightarrow> op_blocks F types (rf_after m) ops
           | Some (inner, rest) \<Rightarrow>
               (case parse_op_inner_values F inner of
                  None \<Rightarrow> None
                | Some vs \<Rightarrow>
                    (case block_values types (group m 1) (to_lowercase (group m 2)) vs ops of
                       None \<Rightarrow> None
                     | Some ops' \<Rightarrow> op_blocks F types rest ops'))))"
  by pat_completeness auto
termination
proof (relation "measure (\<lambda>(F, types, s, ops). length s)")
qed (auto dest!: block_found_shorter closing_paren_split)

declare op_blocks.simps [simp del]

definition parse_op_blocks_from_content :: "'f psf_floats \<Rightarrow> string \<Rightarrow> 'f op_scalar btree \<Rightarrow> 'f op_scalar btree option" where
  "parse_op_blocks_from_content F content ops =
     op_blocks F (case parse_psf_type_library content of Some t \<Rightarrow> t | None \<Rightarrow> []) content ops"

definition skip_type :: "string \<Rightarrow> string \<Rightarrow> bool" where
  "skip_type n t \<longleftrightarrow>
     n = t @ ''.'' @ t \<or> (starts_with n (t @ ''_'') \<and> \<not> starts_with n (t @ ''_op.''))"

definition should_skip_psf_file :: "string \<Rightarrow> bool" where
  "should_skip_psf_file name \<longleftrightarrow>
     str_contains name ''tran'' \<or> skip_type name ''dc'' \<or> skip_type name ''ac'' \<or> str_contains name ''noise'' \<or>
     skip_type name ''pss'' \<or> skip_type name ''pxf'' \<or> skip_type name ''sp'' \<or> ends_with name ''.tr0'' \<or>
     ends_with name ''.asci''"

fun op_files :: "psf_fs \<Rightarrow> 'f psf_floats \<Rightarrow> string \<Rightarrow> string list \<Rightarrow> 'f op_scalar btree \<Rightarrow> 'f op_scalar btree option" where
  "op_files fs F dir [] ops = Some ops"
| "op_files fs F dir (name # names) ops =
     (if \<not> fs_is_file fs (path_push dir name) then op_files fs F dir names ops
      else case fs_text fs (path_push dir name) of
        Inl _ \<Rightarrow> op_files fs F dir names ops
      | Inr content \<Rightarrow>
          if should_skip_psf_file name then op_files fs F dir names ops
          else (case parse_op_blocks_from_content F content ops of
              None \<Rightarrow> None
            | Some ops' \<Rightarrow> op_files fs F dir names ops'))"

definition parse_structured_op_blocks :: "psf_fs \<Rightarrow> 'f psf_floats \<Rightarrow> string \<Rightarrow> 'f op_scalar btree option" where
  "parse_structured_op_blocks fs F raw_dir =
     (let root = find_psf_scan_root fs raw_dir in op_files fs F root (ok_names (fs_entries fs root)) [])"

end
