(* ===== verification/Spectre_Facts.thy ===== *)
theory Spectre_Facts
  imports Spectre_Ops
begin

text \<open>
  What is proved of the readers of Spectre's results: operating points never panic, where the lenient reader
  of a signal does, the strict readers against the lenient ones, and what the strict accessors promise.
\<close>

section \<open>Quotes in operating points\<close>

definition quotes :: "string \<Rightarrow> nat" where
  "quotes s = length (filter ((=) quote_char) s)"

lemma quotes_simps [simp]:
  "quotes [] = 0"
  "quotes (c # s) = (if c = quote_char then 1 else 0) + quotes s"
  "quotes (s @ t) = quotes s + quotes t"
  "quotes (rev s) = quotes s"
  by (auto simp: quotes_def rev_filter [symmetric])

lemma space_not_quote: "is_space c \<Longrightarrow> c \<noteq> quote_char"
  by (auto simp: is_space_def)

lemma quotes_dropWhile: "quotes (dropWhile is_space s) = quotes s"
  by (induction s) (auto dest: space_not_quote)

lemma quotes_trim [simp]: "quotes (trim s) = quotes s"
  by (simp add: trim_def quotes_dropWhile)

lemma parse_scalar_no_panic: "even (quotes t) \<Longrightarrow> parse_scalar F t \<noteq> None"
proof -
  assume e: "even (quotes t)"
  have "\<not> (trim t \<noteq> [] \<and> hd (trim t) = quote_char \<and> length (trim t) = 1)"
  proof
    assume "trim t \<noteq> [] \<and> hd (trim t) = quote_char \<and> length (trim t) = 1"
    then have "trim t = [quote_char]" by (cases "trim t") auto
    then have "quotes t = 1" using quotes_trim [of t] by simp
    with e show False by simp
  qed
  then show ?thesis by (auto simp: parse_scalar_def Let_def split: option.splits)
qed

lemma push_value_no_panic: "even (quotes cur) \<Longrightarrow> push_value F cur vs \<noteq> None"
  using parse_scalar_no_panic [of "trim cur" F] by (auto simp: push_value_def Let_def split: option.splits)

lemma inner_values_no_panic:
  "(even (quotes cur) \<longleftrightarrow> \<not> q) \<Longrightarrow> (even (quotes s) \<longleftrightarrow> \<not> q) \<Longrightarrow> inner_values F q cur vs s \<noteq> None"
proof (induction s arbitrary: q cur vs)
  case Nil
  then show ?case using push_value_no_panic by simp
next
  case (Cons c s)
  show ?case
  proof (cases "c = quote_char")
    case True
    with Cons.prems have "inner_values F (\<not> q) (cur @ [c]) vs s \<noteq> None"
      by (intro Cons.IH) auto
    with True show ?thesis by simp
  next
    case False
    show ?thesis
    proof (cases "is_separator c \<and> \<not> q")
      case True
      with Cons.prems obtain vs' where v: "push_value F cur vs = Some vs'"
        using push_value_no_panic [of cur F vs] by auto
      have "inner_values F q [] vs' s \<noteq> None"
        using Cons.prems False True by (intro Cons.IH) auto
      with True False v show ?thesis by simp
    next
      case sep: False
      have "inner_values F q (cur @ [c]) vs s \<noteq> None"
        using Cons.prems False by (intro Cons.IH) auto
      with sep False show ?thesis by (simp only: inner_values.simps if_False simp_thms split: if_split)
    qed
  qed
qed

lemma closing_paren_quotes: "find_closing_paren d q s = Some (a, b) \<Longrightarrow> even (quotes a) \<longleftrightarrow> \<not> q"
proof (induction s arbitrary: d q a b)
  case (Cons c s)
  from Cons.prems show ?case
    by (auto split: if_splits dest!: Cons.IH)
qed simp

lemma put_value_no_panic: "i < length vs \<Longrightarrow> \<exists>ops'. put_value dev f vs i ops = Some ops'"
  by (simp add: put_value_def index_at_def)

lemma named_values_no_panic: "named_values dev idx fs vs ops \<noteq> None"
  by (induction dev idx fs vs ops rule: named_values.induct) (auto simp: put_value_def index_at_def)

lemma mos_values_no_panic: "mos_values dev vs ops \<noteq> None"
  by (simp add: mos_values_def put_value_def index_at_def)

lemma block_values_no_panic: "block_values types dev t vs ops \<noteq> None"
  using mos_values_no_panic [of dev vs ops] named_values_no_panic [of dev 0 _ vs ops]
  by (cases "map_of types t") (auto simp: block_values_def)

lemma op_blocks_no_panic: "op_blocks F types s ops \<noteq> None"
proof (induction F types s ops rule: op_blocks.induct)
  case (1 F types s ops)
  show ?case
  proof (cases "rx_captures block_rx s")
    case None
    then show ?thesis by (simp add: op_blocks.simps)
  next
    case m: (Some m)
    show ?thesis
    proof (cases "find_closing_paren 1 False (rf_after m)")
      case None
      with m 1(1) show ?thesis by (subst op_blocks.simps) simp
    next
      case (Some ab)
      obtain a b where ab: "ab = (a, b)" by (cases ab)
      then have "inner_values F False [] [] a \<noteq> None"
        using Some closing_paren_quotes by (intro inner_values_no_panic) auto
      then obtain vs where vs: "parse_op_inner_values F a = Some vs"
        by (auto simp: parse_op_inner_values_def)
      moreover obtain ops' where "block_values types (group m 1) (to_lowercase (group m 2)) vs ops = Some ops'"
        using block_values_no_panic by blast
      ultimately show ?thesis using m Some ab 1(2) by (subst op_blocks.simps) simp
    qed
  qed
qed

lemma op_files_no_panic: "op_files fs F dir names ops \<noteq> None"
  by (induction fs F dir names ops rule: op_files.induct)
    (auto simp: parse_op_blocks_from_content_def op_blocks_no_panic split: sum.splits option.splits)

text \<open>
  C40: Reading the operating points of a result directory never panics, whatever its files hold: the
  slice between the quotes of a value is never taken of a lone quote, because the scan for the closing
  parenthesis leaves as many opening quotes as closing ones; and no value is asked for beyond the last
  one, neither by the names of the type library nor by the positions of a transistor's values.
\<close>

theorem operating_points_never_panic: "parse_structured_op_blocks fs F raw_dir \<noteq> None"
  by (simp add: parse_structured_op_blocks_def Let_def op_files_no_panic)

section \<open>Sections in the wrong order\<close>

lemma last_index_less: "last_index k ls = Some i \<Longrightarrow> i < length ls"
  by (induction ls arbitrary: i) (auto split: option.splits if_splits)

lemma last_index_line: "last_index k ls = Some i \<Longrightarrow> trim (ls ! i) = k"
  by (induction ls arbitrary: i) (auto split: option.splits if_splits)

text \<open>
  The lenient reader of a signal panics exactly on a file whose last \<open>TRACE\<close> line comes before its
  last \<open>SWEEP\<close> line.
\<close>

theorem lenient_reader_panics_iff:
  "parse_psf_ascii_content F content = None \<longleftrightarrow>
     (\<exists>i j. last_index ''SWEEP'' (str_lines content) = Some i \<and> last_index ''TRACE'' (str_lines content) = Some j \<and> j < i)"
proof -
  have "i \<noteq> j" if "last_index ''SWEEP'' (str_lines content) = Some i"
    "last_index ''TRACE'' (str_lines content) = Some j" for i j
    using last_index_line [OF that(1)] last_index_line [OF that(2)] by auto
  moreover have "Suc i \<le> length (str_lines content)" if "last_index ''SWEEP'' (str_lines content) = Some i" for i
    using last_index_less [OF that] by simp
  ultimately show ?thesis
    by (auto simp: parse_psf_ascii_content_def Let_def not_le less_Suc_eq split: option.splits)
qed

section \<open>Strict and lenient\<close>

lemma strict_floats_parsed:
  "strict_floats F what ts = Inr vs \<longleftrightarrow>
     map (ps_parse F) ts = map Some vs \<and> list_all (ps_finite F) vs"
proof (induction ts arbitrary: vs)
  case Nil
  then show ?case by auto
next
  case (Cons t ts)
  show ?case
  proof (cases "ps_parse F t")
    case None
    then show ?thesis by (cases vs) auto
  next
    case (Some v)
    have "strict_floats F what (t # ts) = Inr vs \<longleftrightarrow>
        ps_finite F v \<and> (\<exists>vs'. strict_floats F what ts = Inr vs' \<and> vs = v # vs')"
      using Some by (cases "strict_floats F what ts") auto
    also have "\<dots> \<longleftrightarrow> map (ps_parse F) (t # ts) = map Some vs \<and> list_all (ps_finite F) vs"
      using Some Cons.IH by (cases vs) auto
    finally show ?thesis .
  qed
qed

lemma map_filter_all: "map f ts = map Some vs \<Longrightarrow> List.map_filter f ts = vs"
proof (induction ts arbitrary: vs)
  case (Cons t ts)
  then show ?case by (cases vs) (auto simp: map_filter_simps)
qed (simp add: map_filter_simps)

text \<open>
  What the strict reader of plain numbers accepts it reads completely: one finite number for every
  line that is neither empty nor a comment, at least one, and the lenient reader returns the same; what
  it refuses has a line that is no finite number, or no line at all.
\<close>

theorem strict_reader_exact:
  "parse_simple_floats_strict F content = Inr vs \<longleftrightarrow>
     vs \<noteq> [] \<and> list_all (ps_finite F) vs \<and>
     map (ps_parse F) (filter (\<lambda>l. \<not> (l = [] \<or> starts_with l ''#'')) (map trim (str_lines content))) = map Some vs \<and>
     parse_simple_floats F content = Some vs"
proof -
  let ?ts = "filter (\<lambda>l. \<not> (l = [] \<or> starts_with l ''#'')) (map trim (str_lines content))"
  have "parse_simple_floats_strict F content = Inr vs \<longleftrightarrow> vs \<noteq> [] \<and> strict_floats F ''PSF data'' ?ts = Inr vs"
    by (cases "strict_floats F ''PSF data'' ?ts") (auto simp: parse_simple_floats_strict_def)
  then show ?thesis
    using map_filter_all [of "ps_parse F" ?ts vs]
    by (auto simp: strict_floats_parsed parse_simple_floats_def Let_def)
qed

section \<open>Accessors\<close>

lemma first_error_None: "first_error f i vs = None \<longleftrightarrow> (\<forall>j < length vs. f (i + j) (vs ! j) = None)"
proof (induction vs arbitrary: i)
  case (Cons v vs)
  have "(\<forall>j < length (v # vs). f (i + j) ((v # vs) ! j) = None) \<longleftrightarrow>
      f i v = None \<and> (\<forall>j < length vs. f (Suc i + j) (vs ! j) = None)"
    by (auto simp: less_Suc_eq_0_disj)
  then show ?case using Cons by (auto split: option.splits)
qed simp

lemma first_descent_None: "first_descent F vs = None \<longleftrightarrow> (\<forall>i. Suc i < length vs \<longrightarrow> \<not> ps_le F (vs ! Suc i) (vs ! i))"
proof (induction F vs rule: first_descent.induct)
  case (1 F a b vs)
  have "(\<forall>i. Suc i < length (a # b # vs) \<longrightarrow> \<not> ps_le F ((a # b # vs) ! Suc i) ((a # b # vs) ! i)) \<longleftrightarrow>
      \<not> ps_le F b a \<and> (\<forall>i. Suc i < length (b # vs) \<longrightarrow> \<not> ps_le F ((b # vs) ! Suc i) ((b # vs) ! i))"
    by (auto simp: less_Suc_eq_0_disj all_conj_distrib nth_Cons split: nat.splits)
  with 1 show ?case by auto
qed auto

text \<open>
  A frequency axis is returned exactly when the signal exists, has samples, and they are finite, not
  negative and each above the one before; then it is returned unchanged.
\<close>

theorem frequency_axis_exact:
  "require_frequency_hz F signals key = Inr vs \<longleftrightarrow>
     map_of signals key = Some vs \<and> vs \<noteq> [] \<and> (\<forall>v \<in> set vs. ps_finite F v \<and> \<not> ps_negative F v) \<and>
     (\<forall>i. Suc i < length vs \<longrightarrow> \<not> ps_le F (vs ! Suc i) (vs ! i))"
proof (cases "map_of signals key")
  case None
  then show ?thesis by (simp add: require_frequency_hz_def psf_signal_def)
next
  case (Some ws)
  let ?chk = "\<lambda>i v. if \<not> ps_finite F v
      then Some (Execution (''signal '' @ quoted key @ '' has non-finite frequency sample at index '' @
             show_nat i @ '' ('' @ ps_display F v @ '')''))
      else if ps_negative F v
      then Some (Execution (''signal '' @ quoted key @ '' has negative frequency at index '' @ show_nat i @
             '' ('' @ ps_display F v @ '')''))
      else None"
  have "(\<forall>j < length ws. ps_finite F (ws ! j) \<and> \<not> ps_negative F (ws ! j)) \<longleftrightarrow>
      (\<forall>v \<in> set ws. ps_finite F v \<and> \<not> ps_negative F v)"
    by (metis in_set_conv_nth nth_mem)
  then have chk: "first_error ?chk 0 ws = None \<longleftrightarrow> (\<forall>v \<in> set ws. ps_finite F v \<and> \<not> ps_negative F v)"
    unfolding first_error_None by (simp split: if_split cong: imp_cong) blast
  have "require_frequency_hz F signals key = Inr vs \<longleftrightarrow>
      ws \<noteq> [] \<and> first_error ?chk 0 ws = None \<and> first_descent F ws = None \<and> ws = vs"
    using Some by (auto simp: require_frequency_hz_def psf_signal_def simp del: first_error.simps split: option.splits)
  with Some show ?thesis
    unfolding chk first_descent_None by auto
qed

section \<open>Containment\<close>

text \<open>
  A result file that is found lies under the canonical root, is a regular file and no symbolic link,
  and its name was relative and had no component that leads upwards.
\<close>

theorem result_file_contained:
  assumes "find_exact_result_file fs root relative = Inr target"
  shows "\<exists>croot. fs_canonical fs root = Inr croot \<and> lexical_starts_with target croot \<and>
     fs_symlink_metadata fs (path_push croot relative) = Inr RegularFile \<and>
     fs_canonical fs (path_push croot relative) = Inr target \<and>
     \<not> starts_with relative ''/'' \<and> list_all allowed_component (lexical_components relative)"
  using assms
  by (auto simp: find_exact_result_file_def io_result_def Let_def find_None_iff list_all_iff
      split: if_splits option.splits sum.splits stat_failure.splits file_kind.splits)

end
