(* ===== verification/Spectre_Run.thy ===== *)
theory Spectre_Run
  imports Spectre_Ops Acts Backend
begin

text \<open>
  \<open>src/spectre/runner.rs\<close>: the simulator.  Running Spectre here or on a remote host, in the background and
  in parallel, from the upload of the netlist to the result and what is removed afterwards.  What is
  done to the outside is logged in the state, in order.
\<close>

section \<open>The simulator and what it depends on\<close>

record simulator =
  si_cmd :: string
  si_args :: "string list"
  si_timeout :: u64
  si_work_dir :: string
  si_format :: string
  si_remote :: bool
  si_has_transport :: bool
  si_remote_target :: "string option"
  si_keep_remote :: bool
  si_max_workers :: u32
  si_cshrc :: "string option"
  si_bin :: "string option"
  si_strict_psf :: bool

text \<open>
  \<open>from_config\<close>.  Of the \<open>SSHRunner\<close> only its target is kept; \<open>strict\<close> is \<open>VB_STRICT_PSF\<close>, \<open>cwd\<close> the
  current directory if it has one.
\<close>

definition strict_psf_set :: "string option \<Rightarrow> bool" where
  "strict_psf_set v = (case v of Some t \<Rightarrow> t = ''1'' \<or> to_lowercase t = ''true'' | None \<Rightarrow> False)"

definition simulator_from_config :: "string option \<Rightarrow> string option \<Rightarrow> config \<Rightarrow> virtuoso_error + simulator" where
  "simulator_from_config cwd strict cfg =
     (case (if is_remote cfg then require_openssh cfg else Inr ()) of
        Inl e \<Rightarrow> Inl (virtuoso_of_transport e)
      | Inr _ \<Rightarrow> Inr
          \<lparr>si_cmd = spectre_cmd cfg, si_args = config.spectre_args cfg, si_timeout = cfg_timeout cfg,
           si_work_dir = (case cwd of Some d \<Rightarrow> d | None \<Rightarrow> ''.''), si_format = ''psfascii'', si_remote = is_remote cfg,
           si_has_transport = is_remote cfg, si_remote_target = (if is_remote cfg then Some (ssh_target cfg) else None),
           si_keep_remote = keep_remote_files cfg, si_max_workers = spectre_max_workers cfg,
           si_cshrc = cadence_cshrc cfg, si_bin = config.spectre_bin cfg, si_strict_psf = strict_psf_set strict\<rparr>)"

datatype job_event =
    EvStarted string string
  | EvCompleted string nat "string list"
  | EvFailed string string

datatype sim_step =
    RemoteCommand string
  | UploadText string string
  | DownloadDir string string
  | Spawned string "string list"
  | Killed
  | Emitted job_event

record ('w, 'f) sim_env =
  sv_quote :: "string \<Rightarrow> string option"
  sv_floats :: "'f psf_floats"
  sv_fs :: "'w \<Rightarrow> psf_fs"
  sv_clock :: "'w \<Rightarrow> instant"
  sv_request_id :: "'w \<Rightarrow> request_id \<times> 'w"
  sv_uuid :: "'w \<Rightarrow> string \<times> 'w"
  sv_created :: "'w \<Rightarrow> string"
  sv_run :: "command_request \<Rightarrow> 'w \<Rightarrow> (transport_error + command_result) \<times> 'w"
  sv_upload_text :: "upload_text_request \<Rightarrow> 'w \<Rightarrow> (transport_error + unit) \<times> 'w"
  sv_download_dir :: "download_dir_request \<Rightarrow> 'w \<Rightarrow> (transport_error + unit) \<times> 'w"
  sv_create_dir :: "string \<Rightarrow> 'w \<Rightarrow> (string + unit) \<times> 'w"
  sv_write :: "string \<Rightarrow> string \<Rightarrow> 'w \<Rightarrow> (string + unit) \<times> 'w"
  sv_spawn :: "string \<Rightarrow> string list \<Rightarrow> 'w \<Rightarrow> (string + u32) \<times> 'w"
  sv_try_wait :: "'w \<Rightarrow> (string + bool option) \<times> 'w"
  sv_kill :: "'w \<Rightarrow> (string + unit) \<times> 'w"
  sv_wait :: "'w \<Rightarrow> (string + unit) \<times> 'w"
  sv_sleep :: "duration \<Rightarrow> 'w \<Rightarrow> 'w"

record 'w sim_state =
  sm_log :: "sim_step list"
  sm_world :: 'w

record 'f sim_result =
  sr_status :: execution_status
  sr_data :: "'f list btree"
  sr_ops :: "'f op_scalar btree"
  sr_errors :: "string list"
  sr_warnings :: "string list"
  sr_metadata :: "string btree"

definition ssh_quote :: "('w, 'f) sim_env \<Rightarrow> string \<Rightarrow> string" where
  "ssh_quote env s = (case sv_quote env s of Some q \<Rightarrow> q | None \<Rightarrow> s)"

definition on_world :: "('w \<Rightarrow> 'a \<times> 'w) \<Rightarrow> ('w sim_state, 'a) act" where
  "on_world f st = (case f (sm_world st) of (x, w) \<Rightarrow> (Done (Inr x), st\<lparr>sm_world := w\<rparr>))"

definition log_step :: "sim_step \<Rightarrow> ('w sim_state, unit) act" where
  "log_step s st = (Done (Inr ()), st\<lparr>sm_log := sm_log st @ [s]\<rparr>)"

definition ask_world :: "('w \<Rightarrow> (virtuoso_error + 'a) \<times> 'w) \<Rightarrow> ('w sim_state, 'a) act" where
  "ask_world f st = (case f (sm_world st) of (r, w) \<Rightarrow> (Done r, st\<lparr>sm_world := w\<rparr>))"

definition map_error :: "('e \<Rightarrow> 'e') \<Rightarrow> 'e + 'a \<Rightarrow> 'e' + 'a" where
  "map_error f r = (case r of Inl e \<Rightarrow> Inl (f e) | Inr x \<Rightarrow> Inr x)"

text \<open>\<open>CommandRequest::untimed\<close> or \<open>with_exec_timeout\<close>, and \<open>run_command(...)?\<close>.\<close>

definition remote_command ::
  "('w, 'f) sim_env \<Rightarrow> string \<Rightarrow> duration option \<Rightarrow> ('w sim_state, command_result) act" where
  "remote_command env command timeout =
     bind_act (on_world (sv_request_id env)) (\<lambda>i.
     bind_act (log_step (RemoteCommand command)) (\<lambda>_.
     ask_world (\<lambda>w. let now = sv_clock env w;
         req = (case timeout of None \<Rightarrow> command_untimed i now command | Some d \<Rightarrow> with_exec_timeout i now command d)
       in case sv_run env req w of (r, w') \<Rightarrow> (map_error virtuoso_of_transport r, w'))))"

definition upload_netlist :: "('w, 'f) sim_env \<Rightarrow> string \<Rightarrow> string \<Rightarrow> ('w sim_state, unit) act" where
  "upload_netlist env netlist remote =
     bind_act (on_world (sv_request_id env)) (\<lambda>i.
     bind_act (log_step (UploadText netlist remote)) (\<lambda>_.
     ask_world (\<lambda>w. case sv_upload_text env (upload_text_untimed i (sv_clock env w) netlist remote) w of
       (r, w') \<Rightarrow> (map_error virtuoso_of_transport r, w'))))"

definition download_raw :: "('w, 'f) sim_env \<Rightarrow> string \<Rightarrow> string \<Rightarrow> string \<Rightarrow> ('w sim_state, unit) act" where
  "download_raw env remote_dir remote local_raw =
     bind_act (on_world (sv_request_id env)) (\<lambda>i.
     bind_act (log_step (DownloadDir remote local_raw)) (\<lambda>_.
     ask_world (\<lambda>w. case sv_download_dir env (download_dir_untimed i (sv_clock env w) remote local_raw) w of
       (r, w') \<Rightarrow> (map_error (\<lambda>e. Ssh (transport_code e @ '': failed to retrieve remote Spectre raw results from '' @
           remote_dir @ '': '' @ display_transport_error e)) r, w'))))"

section \<open>Commands\<close>

definition spectre_command :: "simulator \<Rightarrow> string" where
  "spectre_command s = (case si_bin s of Some b \<Rightarrow> b | None \<Rightarrow> si_cmd s)"

definition show_u32 :: "u32 \<Rightarrow> string" where
  "show_u32 n = show_nat (unat n)"

definition spectre_args :: "simulator \<Rightarrow> string \<Rightarrow> string \<Rightarrow> string \<Rightarrow> string list" where
  "spectre_args s netlist logf rawf =
     [''-64'', netlist, ''+escchars'', ''+log'', logf, ''-format'', si_format s, ''-raw'', rawf, ''+lqtimeout'', ''900'',
      ''-maxw'', ''5'', ''-maxn'', show_u32 (si_max_workers s), ''+logstatus''] @ si_args s"

definition remote_spectre_argv :: "simulator \<Rightarrow> string list" where
  "remote_spectre_argv s = spectre_command s # spectre_args s ''input.scs'' ''spectre.out'' ''raw''"

definition is_csh :: "string \<Rightarrow> bool" where
  "is_csh cshrc \<longleftrightarrow> ends_with cshrc ''.csh'' \<or> ends_with cshrc ''.cshrc''"

definition remote_spectre_command :: "('w, 'f) sim_env \<Rightarrow> simulator \<Rightarrow> string \<Rightarrow> bool \<Rightarrow> string" where
  "remote_spectre_command env s remote_dir background =
     (let tool = join '' '' (map (ssh_quote env) (remote_spectre_argv s));
          environment_command = (case si_cshrc s of
             Some cshrc \<Rightarrow>
               (if is_csh cshrc
                then ''csh -c '' @ ssh_quote env (''source '' @ ssh_quote env cshrc @ '' && exec '' @ tool)
                else ''sh -c '' @ ssh_quote env (''. '' @ ssh_quote env cshrc @ '' && exec '' @ tool))
           | None \<Rightarrow> tool);
          cd = ''cd '' @ ssh_quote env remote_dir
      in if background
         then ''. /etc/profile 2>/dev/null; . ~/.bash_profile 2>/dev/null; . ~/.bashrc 2>/dev/null; '' @ cd @
              '' && nohup '' @ environment_command @ '' > /dev/null 2>&1 & echo $!''
         else cd @ '' && '' @ environment_command)"

definition build_remote_license_command :: "('w, 'f) sim_env \<Rightarrow> string option \<Rightarrow> string \<Rightarrow> string" where
  "build_remote_license_command env cshrc0 spectre0 =
     (let spectre = ssh_quote env spectre0;
          q = [CHR 0x27];
          probe = ''command -v '' @ spectre @ '' 2>/dev/null || echo '' @ q @ ''not found'' @ q @ ''; '' @ spectre @
            '' -W 2>/dev/null | head -1 || echo '' @ q @ ''unknown'' @ q @
            ''; lmstat -a 2>/dev/null | grep -i spectre | head -5 || echo '' @ q @ ''lmstat not available'' @ q
      in case cshrc0 of
           Some cshrc \<Rightarrow>
             (if is_csh cshrc
              then ''csh -c '' @ ssh_quote env (''source '' @ ssh_quote env cshrc @ '' && exec sh -c '' @ ssh_quote env probe)
              else ''. '' @ ssh_quote env cshrc @ '' && ('' @ probe @ '')'')
         | None \<Rightarrow> probe)"

text \<open>\<open>check_license\<close> on a transport; without one the output of the local command is a parameter.\<close>

definition check_license ::
  "('w, 'f) sim_env \<Rightarrow> (string \<Rightarrow> 'w \<Rightarrow> (string + string) \<times> 'w) \<Rightarrow> simulator \<Rightarrow> ('w sim_state, string) act" where
  "check_license env local_output s =
     (if si_has_transport s
      then bind_act (remote_command env (build_remote_license_command env (si_cshrc s) (spectre_command s)) None)
        (\<lambda>r. pure_act (trim (res_stdout r)))
      else ask_world (\<lambda>w. case local_output (spectre_command s) w of (r, w') \<Rightarrow> (map_error Execution r, w')))"

section \<open>Results\<close>

definition flat_signals :: "nat \<Rightarrow> 'f list btree \<Rightarrow> 'f list btree \<Rightarrow> 'f list btree" where
  "flat_signals i signals flat =
     fold (\<lambda>(signal, values). bt_insert (''point_'' @ show_nat i @ ''_'' @ signal) values) signals flat"

definition parse_simulation_output ::
  "psf_fs \<Rightarrow> 'f psf_floats \<Rightarrow> string \<Rightarrow> bool \<Rightarrow> ('f list btree \<times> 'f op_scalar btree) ending" where
  "parse_simulation_output fs F raw_dir strict =
     (case parse_sweep_psf_directory fs F raw_dir of
        None \<Rightarrow> Panicked
      | Some sweep \<Rightarrow>
          end_bind
            (if sweep \<noteq> [] then Done (Inr (fold (\<lambda>(i, signals). flat_signals i signals) sweep []))
             else if fs_exists fs (path_push raw_dir ''psf'') \<or> fs_exists fs (path_push raw_dir ''results'')
             then (if strict then Done (parse_psf_ascii_strict_directory fs F raw_dir) else parse_psf_ascii fs F raw_dir)
             else Done (Inr []))
            (\<lambda>data. case parse_structured_op_blocks fs F raw_dir of
               None \<Rightarrow> Panicked
             | Some ops \<Rightarrow> Done (Inr (data, ops))))"

definition parse_output :: "('w, 'f) sim_env \<Rightarrow> simulator \<Rightarrow> string \<Rightarrow> ('w sim_state, 'f list btree \<times> 'f op_scalar btree) act" where
  "parse_output env s raw_dir st =
     (parse_simulation_output (sv_fs env (sm_world st)) (sv_floats env) raw_dir (si_strict_psf s), st)"

definition has_usable_output :: "'f list btree \<Rightarrow> 'f op_scalar btree \<Rightarrow> bool" where
  "has_usable_output data ops \<longleftrightarrow> data \<noteq> [] \<or> ops \<noteq> []"

definition classify_simulation_output ::
  "bool \<Rightarrow> string \<Rightarrow> 'f list btree \<Rightarrow> 'f op_scalar btree \<Rightarrow> spectre_outcome" where
  "classify_simulation_output exit_ok log data ops =
     classify \<lparr>cl_exit_ok = exit_ok, cl_log = log, cl_has_raw = has_usable_output data ops\<rparr>"

definition combined_remote_log :: "command_result \<Rightarrow> command_result \<Rightarrow> virtuoso_error + string" where
  "combined_remote_log simulation log_res =
     (if \<not> res_success log_res
      then let detail = trim (res_stderr log_res) in
        Inl (Ssh (''failed to read remote spectre.out (exit '' @ show_int (res_exit_status log_res) @ ''): '' @
          (if detail = [] then ''no stderr'' else detail)))
      else Inr (res_stdout simulation @ [char_of (10 :: nat)] @ res_stderr simulation @ [char_of (10 :: nat)] @
             res_stdout log_res))"

definition remote_directory_exists :: "command_result \<Rightarrow> virtuoso_error + bool" where
  "remote_directory_exists r =
     (if res_exit_status r = 0 then Inr True
      else if res_exit_status r = 1 then Inr False
      else Inl (Ssh (''failed to inspect remote result directory (exit '' @ show_int (res_exit_status r) @ ''): '' @
             trim (res_stderr r))))"

fun outcome_errors :: "spectre_outcome \<Rightarrow> string list" where
  "outcome_errors (OFailure r) = [r]"
| "outcome_errors (PartialFailure r) = [r]"
| "outcome_errors _ = []"

fun outcome_warnings :: "spectre_outcome \<Rightarrow> string list" where
  "outcome_warnings (PartialSuccess ws) = ws"
| "outcome_warnings _ = []"

definition sim_result_of ::
  "spectre_outcome \<Rightarrow> 'f list btree \<Rightarrow> 'f op_scalar btree \<Rightarrow> (string \<times> string) list \<Rightarrow> 'f sim_result" where
  "sim_result_of out data ops meta =
     \<lparr>sr_status = outcome_status out, sr_data = data, sr_ops = ops, sr_errors = outcome_errors out,
      sr_warnings = outcome_warnings out, sr_metadata = bt_extend [] meta\<rparr>"

section \<open>On a remote host\<close>

definition rm_command :: "('w, 'f) sim_env \<Rightarrow> string \<Rightarrow> string" where
  "rm_command env remote_dir = ''rm -rf '' @ ssh_quote env remote_dir"

definition mkdir_command :: "('w, 'f) sim_env \<Rightarrow> string \<Rightarrow> string" where
  "mkdir_command env remote_dir = ''mkdir -p '' @ ssh_quote env remote_dir"

definition cat_command :: "('w, 'f) sim_env \<Rightarrow> string \<Rightarrow> string" where
  "cat_command env remote_dir = ''cat '' @ ssh_quote env (remote_dir @ ''/spectre.out'')"

definition test_command :: "('w, 'f) sim_env \<Rightarrow> string \<Rightarrow> string" where
  "test_command env remote_dir = ''test -d '' @ ssh_quote env (remote_dir @ ''/raw'')"

definition sim_remote_dir :: "string \<Rightarrow> string" where
  "sim_remote_dir run_id = ''/tmp/virtuoso_bridge/spectre/'' @ run_id"

definition secs :: "u64 \<Rightarrow> duration" where
  "secs n = from_secs (unat n)"

definition fetch_results ::
  "('w, 'f) sim_env \<Rightarrow> simulator \<Rightarrow> string \<Rightarrow> string \<Rightarrow> command_result \<Rightarrow>
     ('w sim_state, 'f list btree \<times> 'f op_scalar btree) act" where
  "fetch_results env s run_id remote_dir raw_check =
     bind_act (of_result (remote_directory_exists raw_check)) (\<lambda>present.
     if present
     then let local_raw = path_push (path_push (si_work_dir s) run_id) ''raw'' in
       bind_act (download_raw env remote_dir (remote_dir @ ''/raw'') local_raw) (\<lambda>_. parse_output env s local_raw)
     else pure_act ([], []))"

text \<open>What is done once the identifier of the run is chosen.\<close>

definition finish_remote ::
  "('w, 'f) sim_env \<Rightarrow> simulator \<Rightarrow> string \<Rightarrow> string \<Rightarrow> command_result \<Rightarrow> string \<Rightarrow>
     'f list btree \<times> 'f op_scalar btree \<Rightarrow> ('w sim_state, 'f sim_result) act" where
  "finish_remote env s run_id remote_dir result combined results =
     (let (data, ops) = results; out = classify_simulation_output (res_success result) combined data ops in
      bind_act (if should_cleanup_remote out (si_keep_remote s)
                then bind_act (remote_command env (rm_command env remote_dir) None) (\<lambda>_. pure_act ())
                else pure_act ()) (\<lambda>_.
      pure_act (sim_result_of out data ops [(''run_id'', run_id), (''remote_dir'', remote_dir), (''log'', combined)])))"

definition run_remote_at :: "('w, 'f) sim_env \<Rightarrow> simulator \<Rightarrow> string \<Rightarrow> string \<Rightarrow> ('w sim_state, 'f sim_result) act" where
  "run_remote_at env s netlist run_id =
     (let remote_dir = sim_remote_dir run_id in
      bind_act (remote_command env (mkdir_command env remote_dir) None) (\<lambda>_.
      bind_act (upload_netlist env netlist (remote_dir @ ''/input.scs'')) (\<lambda>_.
      bind_act (remote_command env (remote_spectre_command env s remote_dir False) (Some (secs (si_timeout s * 2)))) (\<lambda>result.
      bind_act (remote_command env (cat_command env remote_dir) (Some (secs (si_timeout s)))) (\<lambda>remote_log.
      bind_act (of_result (combined_remote_log result remote_log)) (\<lambda>combined.
      bind_act (remote_command env (test_command env remote_dir) (Some (secs (si_timeout s)))) (\<lambda>raw_check.
      bind_act (fetch_results env s run_id remote_dir raw_check) (\<lambda>results.
      finish_remote env s run_id remote_dir result combined results))))))))"

definition run_remote :: "('w, 'f) sim_env \<Rightarrow> simulator \<Rightarrow> string \<Rightarrow> ('w sim_state, 'f sim_result) act" where
  "run_remote env s netlist =
     (if \<not> si_has_transport s
      then fail_act (Execution ''no remote transport available for remote simulation'')
      else bind_act (on_world (sv_uuid env)) (\<lambda>run_id. run_remote_at env s netlist run_id))"

section \<open>Here\<close>

datatype wait_end = WExited bool | WTimedOut | WFailed string

text \<open>\<open>None\<close> only when the fuel is used up.\<close>

fun wait_child :: "nat \<Rightarrow> ('w, 'f) sim_env \<Rightarrow> instant \<Rightarrow> 'w \<Rightarrow> (wait_end \<times> 'w) option" where
  "wait_child 0 env deadline w = None"
| "wait_child (Suc n) env deadline w =
     (case sv_try_wait env w of
        (Inr (Some ok), w1) \<Rightarrow> Some (WExited ok, w1)
      | (Inr None, w1) \<Rightarrow>
          if sv_clock env w1 > deadline then Some (WTimedOut, w1)
          else wait_child n env deadline (sv_sleep env (from_millis 500) w1)
      | (Inl e, w1) \<Rightarrow> Some (WFailed e, w1))"

definition wait_fuel :: "u64 \<Rightarrow> nat" where
  "wait_fuel timeout = unat timeout * 2 + 2"

definition describe_failed_kill :: "string \<Rightarrow> string + bool option \<Rightarrow> (bool \<Rightarrow> string) \<Rightarrow> virtuoso_error" where
  "describe_failed_kill kill_error wait_state show_status =
     Execution (''spectre kill failed ('' @ kill_error @
       (case wait_state of
          Inr (Some status) \<Rightarrow> ''); child was already reaped with '' @ show_status status
        | Inr None \<Rightarrow> ''); child is still running and was not waited indefinitely''
        | Inl e \<Rightarrow> ''); status check also failed ('' @ e @ '')''))"

definition terminate_timed_out_child ::
  "('w, 'f) sim_env \<Rightarrow> (bool \<Rightarrow> string) \<Rightarrow> 'w \<Rightarrow> (virtuoso_error + unit) \<times> 'w" where
  "terminate_timed_out_child env show_status w =
     (case sv_kill env w of
        (Inr _, w1) \<Rightarrow>
          (case sv_wait env w1 of
             (Inr _, w2) \<Rightarrow> (Inr (), w2)
           | (Inl e, w2) \<Rightarrow> (Inl (Execution (''spectre kill succeeded but reap failed: '' @ e)), w2))
      | (Inl e, w1) \<Rightarrow> (case sv_try_wait env w1 of (ws, w2) \<Rightarrow> (Inl (describe_failed_kill e ws show_status), w2)))"

definition outcome_event :: "string \<Rightarrow> nat \<Rightarrow> spectre_outcome \<Rightarrow> job_event" where
  "outcome_event run_id ms out =
     (case out of
        OFailure r \<Rightarrow> EvFailed run_id r
      | PartialFailure r \<Rightarrow> EvFailed run_id r
      | PartialSuccess ws \<Rightarrow> EvCompleted run_id ms ws
      | OSuccess \<Rightarrow> EvCompleted run_id ms [])"

definition finish_local ::
  "('w, 'f) sim_env \<Rightarrow> simulator \<Rightarrow> string \<Rightarrow> instant \<Rightarrow> bool \<Rightarrow> ('w sim_state, 'f sim_result) act" where
  "finish_local env s run_id start ok st =
     (let run_dir = path_push (si_work_dir s) run_id;
          ms = as_millis (sv_clock env (sm_world st) - start) mod 2 ^ 64;
          log = (case fs_text (sv_fs env (sm_world st)) (path_push run_dir ''spectre.out'') of Inr t \<Rightarrow> t | Inl _ \<Rightarrow> [])
      in bind_act (parse_output env s (path_push run_dir ''raw'')) (\<lambda>(data, ops).
         let out = classify_simulation_output ok log data ops in
         bind_act (log_step (Emitted (outcome_event run_id ms out))) (\<lambda>_.
         pure_act (sim_result_of out data ops [(''log'', log), (''run_id'', run_id)]))) st)"

definition await_local ::
  "('w, 'f) sim_env \<Rightarrow> (bool \<Rightarrow> string) \<Rightarrow> simulator \<Rightarrow> string \<Rightarrow> instant \<Rightarrow> ('w sim_state, 'f sim_result) act" where
  "await_local env show_status s run_id start st =
     (case wait_child (wait_fuel (si_timeout s)) env (start + secs (si_timeout s)) (sm_world st) of
        None \<Rightarrow> (Panicked, st)
      | Some (WExited ok, w) \<Rightarrow> finish_local env s run_id start ok (st\<lparr>sm_world := w\<rparr>)
      | Some (WFailed e, w) \<Rightarrow> fail_act (Execution (''failed to wait on spectre: '' @ e)) (st\<lparr>sm_world := w\<rparr>)
      | Some (WTimedOut, w) \<Rightarrow>
          (case terminate_timed_out_child env show_status w of
             (r, w') \<Rightarrow>
               (Done (Inl (case r of
                   Inr _ \<Rightarrow> Timeout (si_timeout s)
                 | Inl e \<Rightarrow> Execution (''spectre timed out after '' @ show_nat (unat (si_timeout s)) @ ''s; '' @
                     display_virtuoso_error e))),
                st\<lparr>sm_log := sm_log st @ [Killed], sm_world := w'\<rparr>)))"

definition create_dir :: "('w, 'f) sim_env \<Rightarrow> string \<Rightarrow> ('w sim_state, unit) act" where
  "create_dir env p = ask_world (\<lambda>w. case sv_create_dir env p w of (r, w') \<Rightarrow> (map_error Execution r, w'))"

definition write_text :: "('w, 'f) sim_env \<Rightarrow> string \<Rightarrow> string \<Rightarrow> ('w sim_state, unit) act" where
  "write_text env p t = ask_world (\<lambda>w. case sv_write env p t w of (r, w') \<Rightarrow> (map_error Execution r, w'))"

definition spawn_spectre :: "('w, 'f) sim_env \<Rightarrow> simulator \<Rightarrow> string \<Rightarrow> ('w sim_state, u32) act" where
  "spawn_spectre env s run_dir =
     (let args = spectre_args s (path_push run_dir ''input.scs'') (path_push run_dir ''spectre.out'') (path_push run_dir ''raw'') in
      bind_act (log_step (Spawned (spectre_command s) args)) (\<lambda>_.
      ask_world (\<lambda>w. case sv_spawn env (spectre_command s) args w of
        (r, w') \<Rightarrow> (map_error (\<lambda>e. Execution (''spectre failed to start: '' @ e)) r, w'))))"

definition prepare_local :: "('w, 'f) sim_env \<Rightarrow> string \<Rightarrow> string \<Rightarrow> ('w sim_state, unit) act" where
  "prepare_local env run_dir netlist =
     bind_act (create_dir env run_dir) (\<lambda>_.
     bind_act (write_text env (path_push run_dir ''input.scs'') netlist) (\<lambda>_.
     create_dir env (path_push run_dir ''raw'')))"

definition run_local ::
  "('w, 'f) sim_env \<Rightarrow> (bool \<Rightarrow> string) \<Rightarrow> simulator \<Rightarrow> string \<Rightarrow> ('w sim_state, 'f sim_result) act" where
  "run_local env show_status s netlist =
     bind_act (on_world (sv_uuid env)) (\<lambda>run_id.
     let run_dir = path_push (si_work_dir s) run_id in
     bind_act (prepare_local env run_dir netlist) (\<lambda>_.
     bind_act (on_world (\<lambda>w. (sv_created env w, w))) (\<lambda>created.
     bind_act (log_step (Emitted (EvStarted run_id created))) (\<lambda>_.
     bind_act (spawn_spectre env s run_dir) (\<lambda>_.
     bind_act (on_world (\<lambda>w. (sv_clock env w, w))) (\<lambda>start.
     await_local env show_status s run_id start))))))"

definition spectre_run_simulation ::
  "('w, 'f) sim_env \<Rightarrow> (bool \<Rightarrow> string) \<Rightarrow> simulator \<Rightarrow> string \<Rightarrow> ('w sim_state, 'f sim_result) act" where
  "spectre_run_simulation env show_status s netlist =
     (if si_remote s then run_remote env s netlist else run_local env show_status s netlist)"

section \<open>In parallel\<close>

text \<open>
  What a worker's job or a worker ends in is arbitrary: \<open>outcome\<close> gives it for each input, \<open>Inl\<close> a panic
  with its message, and \<open>worker_panic\<close> for each worker.
\<close>

fun chunked :: "nat \<Rightarrow> 'a list \<Rightarrow> 'a list list" where
  "chunked n [] = []"
| "chunked n (x # xs) = take (max 1 n) (x # xs) # chunked n (drop (max 1 n) (x # xs))"

definition catch_parallel_job ::
  "string \<Rightarrow> string + (virtuoso_error + 'r) \<Rightarrow> string \<times> (virtuoso_error + 'r)" where
  "catch_parallel_job lab r =
     (lab, case r of Inr x \<Rightarrow> x | Inl message \<Rightarrow> Inl (Execution (''parallel simulation worker panicked: '' @ message)))"

definition parallel_chunk_panic_results :: "string list \<Rightarrow> string \<Rightarrow> (string \<times> (virtuoso_error + 'r)) list" where
  "parallel_chunk_panic_results labels message =
     map (\<lambda>l. (l, Inl (Execution (''parallel simulation chunk panicked: '' @ message)))) labels"

definition worker_results ::
  "(nat \<Rightarrow> string + (virtuoso_error + 'r)) \<Rightarrow> string option \<Rightarrow> (nat \<times> string \<times> string) list \<Rightarrow> (string \<times> (virtuoso_error + 'r)) list" where
  "worker_results outcome panic chunk =
     (case panic of
        None \<Rightarrow> map (\<lambda>(i, lab, _). catch_parallel_job lab (outcome i)) chunk
      | Some message \<Rightarrow> parallel_chunk_panic_results (map (fst \<circ> snd) chunk) message)"

definition run_parallel ::
  "u32 \<Rightarrow> simulator \<Rightarrow> (nat \<Rightarrow> string + (virtuoso_error + 'r)) \<Rightarrow> (nat \<Rightarrow> string option) \<Rightarrow> (string \<times> string) list \<Rightarrow>
     (string \<times> (virtuoso_error + 'r)) list" where
  "run_parallel cpus s outcome worker_panic inputs =
     (if inputs = [] then []
      else let n = max 1 (min (unat (si_max_workers s)) (unat cpus));
               per = (length inputs + n - 1) div n;
               chunks = chunked per (enumerate 0 inputs)
        in concat (map (\<lambda>(k, chunk). worker_results outcome (worker_panic k) chunk) (enumerate 0 chunks)))"

end
