(* ===== verification/Spectre_Jobs.thy ===== *)
theory Spectre_Jobs
  imports Spectre_Run
begin

text \<open>
  \<open>src/spectre/jobs.rs\<close>, and \<open>run_async\<close> of \<open>src/spectre/runner.rs\<close>: simulations in the background.  The job
  files and the signals sent are part of the state; \<open>serde_json\<close> is a parameter.  The Unix build.
\<close>

section \<open>Jobs and their files\<close>

datatype job_status = JobRunning | JobCompleted | JobFailed | JobCancelled

record job =
  jb_id :: string
  jb_status :: job_status
  jb_netlist :: string
  jb_raw_dir :: "string option"
  jb_pid :: "u32 option"
  jb_created :: string
  jb_finished :: "string option"
  jb_error :: "string option"
  jb_remote_host :: "string option"
  jb_remote_dir :: "string option"

datatype unix_signal = SigTerm | SigKill

record 'w job_env =
  jv_print :: "job \<Rightarrow> string + string"
  jv_parse :: "string \<Rightarrow> string + job"
  jv_write :: "'w \<Rightarrow> (string + unit) \<times> 'w"
  jv_alive :: "int \<Rightarrow> 'w \<Rightarrow> bool \<times> 'w"
  jv_ssh_ok :: "string \<Rightarrow> string \<Rightarrow> 'w \<Rightarrow> bool \<times> 'w"
  jv_ssh_output :: "string \<Rightarrow> string \<Rightarrow> 'w \<Rightarrow> string option \<times> 'w"
  jv_exists :: "string \<Rightarrow> 'w \<Rightarrow> bool"
  jv_text :: "string \<Rightarrow> 'w \<Rightarrow> string option"
  jv_now :: "'w \<Rightarrow> string"
  jv_signal :: "int \<Rightarrow> unix_signal \<Rightarrow> 'w \<Rightarrow> 'w"
  jv_sleep :: "duration \<Rightarrow> 'w \<Rightarrow> 'w"

record 'w job_state =
  js_files :: "(string \<times> string) list"
  js_signals :: "(int \<times> unix_signal) list"
  js_world :: 'w

definition job_file :: "string \<Rightarrow> string" where
  "job_file i = i @ ''.json''"

definition put_file :: "string \<Rightarrow> string \<Rightarrow> (string \<times> string) list \<Rightarrow> (string \<times> string) list" where
  "put_file name text files =
     (if name \<in> set (map fst files) then map (\<lambda>(n, t). if n = name then (n, text) else (n, t)) files
      else files @ [(name, text)])"

text \<open>Writing the temporary file and renaming it is one step that fails or not.\<close>

definition job_save :: "'w job_env \<Rightarrow> job \<Rightarrow> ('w job_state, unit) act" where
  "job_save env j st =
     (case jv_print env j of
        Inl e \<Rightarrow> (Done (Inl (Execution e)), st)
      | Inr text \<Rightarrow>
          (case jv_write env (js_world st) of
             (Inl e, w) \<Rightarrow> (Done (Inl (Execution e)), st\<lparr>js_world := w\<rparr>)
           | (Inr _, w) \<Rightarrow>
               (Done (Inr ()), st\<lparr>js_files := put_file (job_file (jb_id j)) text (js_files st), js_world := w\<rparr>)))"

definition job_not_found :: "string \<Rightarrow> virtuoso_error" where
  "job_not_found i = NotFound (''job '' @ quoted i @ '' not found'')"

definition job_load :: "'w job_env \<Rightarrow> string \<Rightarrow> ('w job_state, job) act" where
  "job_load env i st =
     ((case map_of (js_files st) (job_file i) of
         None \<Rightarrow> Done (Inl (job_not_found i))
       | Some text \<Rightarrow> Done (map_error (\<lambda>e. Execution (''bad job file: '' @ e)) (jv_parse env text))), st)"

definition has_json_extension :: "string \<Rightarrow> bool" where
  "has_json_extension name \<longleftrightarrow>
     (case rsplit_once CHR ''.'' name of Some (stem, e) \<Rightarrow> stem \<noteq> [] \<and> e = ''json'' | None \<Rightarrow> False)"

definition list_all_jobs :: "'w job_env \<Rightarrow> (string \<times> string) list \<Rightarrow> job list" where
  "list_all_jobs env files =
     sort_key jb_created
       (List.map_filter (\<lambda>(name, text). case jv_parse env text of Inr j \<Rightarrow> Some j | Inl _ \<Rightarrow> None)
         (filter (has_json_extension \<circ> fst) files))"

definition job_delete :: "string \<Rightarrow> ('w job_state, unit) act" where
  "job_delete i st =
     (if job_file i \<in> set (map fst (js_files st))
      then (Done (Inr ()), st\<lparr>js_files := filter (\<lambda>(n, _). n \<noteq> job_file i) (js_files st)\<rparr>)
      else (Done (Inl (job_not_found i)), st))"

section \<open>The end of a job\<close>

text \<open>\<open>Path::parent\<close>, or the directory \<open>.\<close>, with the log's name.\<close>

definition spectre_log_path :: "string \<Rightarrow> string" where
  "spectre_log_path netlist =
     (case rsplit_once CHR ''/'' netlist of
        Some (dir, _) \<Rightarrow> path_push (if dir = [] then ''/'' else dir) ''spectre.out''
      | None \<Rightarrow> if netlist = [] then ''./spectre.out'' else ''spectre.out'')"

text \<open>\<open>pid as i32\<close>.\<close>

definition pid_i32 :: "u32 \<Rightarrow> int" where
  "pid_i32 pid = sint pid"

definition job_log :: "'w job_env \<Rightarrow> job \<Rightarrow> 'w \<Rightarrow> string \<times> 'w" where
  "job_log env j w =
     (case (jb_remote_host j, jb_remote_dir j) of
        (Some host, Some dir) \<Rightarrow>
          (case jv_ssh_output env host (''cat '' @ dir @ ''/spectre.out 2>/dev/null'') w of
             (Some out, w') \<Rightarrow> (out, w')
           | (None, w') \<Rightarrow> ([], w'))
      | _ \<Rightarrow> (if jv_exists env (spectre_log_path (jb_netlist j)) w
              then (case jv_text env (spectre_log_path (jb_netlist j)) w of Some t \<Rightarrow> t | None \<Rightarrow> []) else [], w))"

definition last_error_line :: "string \<Rightarrow> string option" where
  "last_error_line content =
     map_option trim (List.find (\<lambda>l. contains_any l [''Error'', ''error'']) (rev (str_lines content)))"

definition judged :: "string \<Rightarrow> job \<Rightarrow> job" where
  "judged content j =
     (if str_contains content ''completes with 0 errors'' then j\<lparr>jb_status := JobCompleted\<rparr>
      else if content = [] then j\<lparr>jb_status := JobFailed, jb_error := Some ''process exited, no log found''\<rparr>
      else j\<lparr>jb_status := JobFailed, jb_error := last_error_line content\<rparr>)"

text \<open>The functions on \<open>&mut self\<close> return the job they leave, with the result of the call.\<close>

definition finish_from_log :: "'w job_env \<Rightarrow> job \<Rightarrow> 'w job_state \<Rightarrow> unit ending \<times> job \<times> 'w job_state" where
  "finish_from_log env j st =
     (case job_log env j (js_world st) of
        (content, w) \<Rightarrow>
          (let j' = (judged content j)\<lparr>jb_finished := Some (jv_now env w)\<rparr> in
           case job_save env j' (st\<lparr>js_world := w\<rparr>) of (r, st') \<Rightarrow> (r, j', st')))"

definition done_ok :: "unit ending" where
  "done_ok = Done (Inr ())"

definition job_alive :: "'w job_env \<Rightarrow> job \<Rightarrow> u32 \<Rightarrow> 'w \<Rightarrow> bool \<times> 'w" where
  "job_alive env j pid w =
     (case jb_remote_host j of
        Some host \<Rightarrow> jv_ssh_ok env host (''kill -0 '' @ show_nat (unat pid)) w
      | None \<Rightarrow> jv_alive env (pid_i32 pid) w)"

definition log_says_complete :: "'w job_env \<Rightarrow> job \<Rightarrow> 'w \<Rightarrow> bool" where
  "log_says_complete env j w \<longleftrightarrow>
     jv_exists env (spectre_log_path (jb_netlist j)) w \<and>
     str_contains (or_empty (jv_text env (spectre_log_path (jb_netlist j)) w)) ''completes with''"

definition job_refresh :: "'w job_env \<Rightarrow> job \<Rightarrow> 'w job_state \<Rightarrow> unit ending \<times> job \<times> 'w job_state" where
  "job_refresh env j st =
     (if jb_status j \<noteq> JobRunning then (done_ok, j, st)
      else case jb_pid j of
        None \<Rightarrow> (done_ok, j, st)
      | Some pid \<Rightarrow>
          (case job_alive env j pid (js_world st) of
             (alive, w) \<Rightarrow>
               (let st' = st\<lparr>js_world := w\<rparr> in
                if \<not> alive then finish_from_log env j st'
                else if jb_remote_host j = None \<and> log_says_complete env j w then finish_from_log env j st'
                else (done_ok, j, st'))))"

section \<open>Cancelling\<close>

definition terminate_process_group :: "'w job_env \<Rightarrow> u32 \<Rightarrow> 'w job_state \<Rightarrow> 'w job_state" where
  "terminate_process_group env pid st =
     (let g = - pid_i32 pid in
      st\<lparr>js_signals := js_signals st @ [(g, SigTerm), (g, SigKill)],
         js_world := jv_signal env g SigKill (jv_sleep env (from_millis 500) (jv_signal env g SigTerm (js_world st)))\<rparr>)"

fun debug_status :: "job_status \<Rightarrow> string" where
  "debug_status JobRunning = ''Running''"
| "debug_status JobCompleted = ''Completed''"
| "debug_status JobFailed = ''Failed''"
| "debug_status JobCancelled = ''Cancelled''"

definition job_cancel :: "'w job_env \<Rightarrow> job \<Rightarrow> 'w job_state \<Rightarrow> unit ending \<times> job \<times> 'w job_state" where
  "job_cancel env j st =
     (if jb_status j \<noteq> JobRunning
      then (Done (Inl (Execution (''job '' @ quoted (jb_id j) @ '' is not running (status: '' @
              debug_status (jb_status j) @ '')''))), j, st)
      else let st1 = (case jb_pid j of Some pid \<Rightarrow> terminate_process_group env pid st | None \<Rightarrow> st);
               j' = j\<lparr>jb_status := JobCancelled, jb_finished := Some (jv_now env (js_world st1))\<rparr>
           in case job_save env j' st1 of (r, st2) \<Rightarrow> (r, j', st2))"

section \<open>Starting in the background\<close>

definition short_id :: "('w, 'f) sim_env \<Rightarrow> ('w sim_state, string) act" where
  "short_id env = bind_act (on_world (sv_uuid env)) (\<lambda>u. pure_act (take 8 u))"

definition new_job ::
  "string \<Rightarrow> string \<Rightarrow> string \<Rightarrow> u32 \<Rightarrow> string \<Rightarrow> string option \<Rightarrow> string option \<Rightarrow> job" where
  "new_job run_id netlist rawdir pid created host dir =
     \<lparr>jb_id = run_id, jb_status = JobRunning, jb_netlist = netlist, jb_raw_dir = Some rawdir, jb_pid = Some pid,
      jb_created = created, jb_finished = None, jb_error = None, jb_remote_host = host, jb_remote_dir = dir\<rparr>"

definition save_new ::
  "(job \<Rightarrow> 'w \<Rightarrow> (virtuoso_error + unit) \<times> 'w) \<Rightarrow> job \<Rightarrow> ('w sim_state, job) act" where
  "save_new save j = bind_act (ask_world (save j)) (\<lambda>_. pure_act j)"

definition run_async_remote ::
  "('w, 'f) sim_env \<Rightarrow> (job \<Rightarrow> 'w \<Rightarrow> (virtuoso_error + unit) \<times> 'w) \<Rightarrow> simulator \<Rightarrow> string \<Rightarrow> ('w sim_state, job) act" where
  "run_async_remote env save s netlist =
     (if \<not> si_has_transport s then fail_act (Execution ''no remote transport for remote async simulation'')
      else
        bind_act (short_id env) (\<lambda>run_id.
        let remote_dir = sim_remote_dir run_id in
        bind_act (remote_command env (mkdir_command env remote_dir) None) (\<lambda>_.
        bind_act (upload_netlist env netlist (remote_dir @ ''/input.scs'')) (\<lambda>_.
        bind_act (remote_command env (remote_spectre_command env s remote_dir True) (Some (from_secs 10))) (\<lambda>result.
        bind_act (of_result (case parse_unsigned (2 ^ 32 - 1) (trim (res_stdout result)) of
            Some n \<Rightarrow> Inr (of_nat n :: u32)
          | None \<Rightarrow> Inl (Execution (''bad PID: '' @ res_stdout result)))) (\<lambda>pid.
        bind_act (on_world (\<lambda>w. (sv_created env w, w))) (\<lambda>created.
        save_new save (new_job run_id (remote_dir @ ''/input.scs'') (remote_dir @ ''/raw'') pid created
          (si_remote_target s) (Some remote_dir)))))))))"

definition run_async ::
  "('w, 'f) sim_env \<Rightarrow> (job \<Rightarrow> 'w \<Rightarrow> (virtuoso_error + unit) \<times> 'w) \<Rightarrow> simulator \<Rightarrow> string \<Rightarrow> ('w sim_state, job) act" where
  "run_async env save s netlist =
     (if si_remote s then run_async_remote env save s netlist
      else
        bind_act (short_id env) (\<lambda>run_id.
        let run_dir = path_push (si_work_dir s) run_id in
        bind_act (prepare_local env run_dir netlist) (\<lambda>_.
        bind_act (spawn_spectre env s run_dir) (\<lambda>pid.
        bind_act (on_world (\<lambda>w. (sv_created env w, w))) (\<lambda>created.
        save_new save (new_job run_id (path_push run_dir ''input.scs'') (path_push run_dir ''raw'') pid created None None))))))"

end
