(* ===== verification/Spectre_Run_Facts.thy ===== *)
theory Spectre_Run_Facts
  imports Spectre_Jobs Spectre_Facts
begin

text \<open>
  What is proved of simulations: what a remote run removes and when, that a local run returns, the order
  of parallel results, and the life of a background job.
\<close>

section \<open>Remote runs\<close>

named_theorems logs

definition logged :: "('w sim_state, 'a) act \<Rightarrow> 'w sim_state \<Rightarrow> sim_step list" where
  "logged a st = drop (length (sm_log st)) (sm_log (snd (a st)))"

text \<open>An action that only appends steps of the given kind to the log.\<close>

definition appends :: "(sim_step \<Rightarrow> bool) \<Rightarrow> ('w sim_state, 'a) act \<Rightarrow> bool" where
  "appends P a \<longleftrightarrow> (\<forall>st. \<exists>es. sm_log (snd (a st)) = sm_log st @ es \<and> (\<forall>e \<in> set es. P e))"

lemma appends_bind [logs]:
  "appends P a \<Longrightarrow> (\<And>x. appends P (f x)) \<Longrightarrow> appends P (bind_act a f)"
  unfolding appends_def
proof (intro allI)
  fix st
  assume a: "\<forall>st. \<exists>es. sm_log (snd (a st)) = sm_log st @ es \<and> (\<forall>e \<in> set es. P e)"
    and f: "\<And>x. \<forall>st. \<exists>es. sm_log (snd (f x st)) = sm_log st @ es \<and> (\<forall>e \<in> set es. P e)"
  obtain es where es: "sm_log (snd (a st)) = sm_log st @ es" "\<forall>e \<in> set es. P e" using a by blast
  show "\<exists>es. sm_log (snd (bind_act a f st)) = sm_log st @ es \<and> (\<forall>e \<in> set es. P e)"
  proof (cases "\<exists>x st1. a st = (Done (Inr x), st1)")
    case True
    then obtain x st1 where x: "a st = (Done (Inr x), st1)" by blast
    obtain es' where "sm_log (snd (f x st1)) = sm_log st1 @ es'" "\<forall>e \<in> set es'. P e" using f by blast
    with es x show ?thesis by (intro exI [of _ "es @ es'"]) (auto simp: bind_act_def)
  next
    case False
    then have "snd (bind_act a f st) = snd (a st)"
      by (cases "a st") (auto simp: bind_act_def split: ending.splits sum.splits)
    with es show ?thesis by auto
  qed
qed

lemma appends_nothing [logs]:
  "appends P (on_world g)" "appends P (ask_world h)" "appends P (pure_act x)" "appends P (fail_act e)"
  "appends P (of_result r)" "appends P (parse_output env s d)"
  by (auto simp: appends_def on_world_def ask_world_def pure_act_def fail_act_def of_result_def parse_output_def
      split: prod.splits)

lemma appends_log [logs]: "P s \<Longrightarrow> appends P (log_step s)"
  by (simp add: appends_def log_step_def)

lemma appends_command: "P (RemoteCommand c) \<Longrightarrow> appends P (remote_command env c d)"
  unfolding remote_command_def by (intro logs)

lemma appends_upload: "P (UploadText n r) \<Longrightarrow> appends P (upload_netlist env n r)"
  unfolding upload_netlist_def by (intro logs)

lemma appends_download: "P (DownloadDir r l) \<Longrightarrow> appends P (download_raw env d r l)"
  unfolding download_raw_def by (intro logs)

lemma appendsD: "appends P a \<Longrightarrow> a st = (r, st') \<Longrightarrow> \<exists>es. sm_log st' = sm_log st @ es \<and> (\<forall>e \<in> set es. P e)"
  unfolding appends_def by (metis snd_conv)

text \<open>The commands of a remote run other than the one that removes its directory.\<close>

definition not_rm :: "sim_step \<Rightarrow> bool" where
  "not_rm e \<longleftrightarrow> (case e of RemoteCommand c \<Rightarrow> \<not> starts_with c ''rm '' | _ \<Rightarrow> True)"

lemma not_rm_commands [simp]:
  "not_rm (RemoteCommand (mkdir_command env d))" "not_rm (RemoteCommand (cat_command env d))"
  "not_rm (RemoteCommand (test_command env d))" "not_rm (RemoteCommand (remote_spectre_command env s d False))"
  "not_rm (UploadText n r)" "not_rm (DownloadDir r l)"
  by (simp_all add: not_rm_def remote_spectre_command_def mkdir_command_def cat_command_def test_command_def Let_def starts_with_def)

lemma appends_fetch: "appends not_rm (fetch_results env s i d c)"
  unfolding fetch_results_def Let_def
  by (intro logs) (auto intro!: logs appends_download simp: if_split)

lemma bind_act_elim:
  assumes "bind_act a f st = (r, st')"
  obtains (stop) "snd (a st) = st'" | (go) x st1 where "a st = (Done (Inr x), st1)" "f x st1 = (r, st')"
  using assms by (auto simp: bind_act_def split: prod.splits ending.splits sum.splits)

lemma step_logs:
  "remote_command env c d st = (r, st') \<Longrightarrow> sm_log st' = sm_log st @ [RemoteCommand c]"
  "upload_netlist env n p st = (r2, st') \<Longrightarrow> sm_log st' = sm_log st @ [UploadText n p]"
  "download_raw env dir p l st = (r3, st') \<Longrightarrow> sm_log st' = sm_log st @ [DownloadDir p l]"
  by (auto simp: remote_command_def upload_netlist_def download_raw_def bind_act_def on_world_def log_step_def
      ask_world_def split: prod.splits)

lemma snd_logs:
  "sm_log (snd (remote_command env c d st)) = sm_log st @ [RemoteCommand c]"
  "sm_log (snd (upload_netlist env n p st)) = sm_log st @ [UploadText n p]"
  "sm_log (snd (on_world g st)) = sm_log st"
  "sm_log (snd (of_result q st)) = sm_log st"
  using step_logs(1) [of env c d st "fst (remote_command env c d st)" "snd (remote_command env c d st)"]
    step_logs(2) [of env n p st "fst (upload_netlist env n p st)" "snd (upload_netlist env n p st)"]
  by (auto simp: on_world_def of_result_def split: prod.splits)

text \<open>The results of a remote run, with the log of what fetching them took.\<close>

lemma fetch_results_data:
  assumes "fetch_results env s i dir c st = (Done (Inr (data, ops)), st')" "has_usable_output data ops"
  defines "local_raw \<equiv> path_push (path_push (si_work_dir s) i) ''raw''"
  shows "sm_log st' = sm_log st @ [DownloadDir (dir @ ''/raw'') local_raw] \<and>
     (\<exists>u. download_raw env dir (dir @ ''/raw'') local_raw st = (Done (Inr u), st')) \<and>
     parse_simulation_output (sv_fs env (sm_world st')) (sv_floats env) local_raw (si_strict_psf s) = Done (Inr (data, ops))"
proof -
  obtain present st1 where st1: "of_result (remote_directory_exists c) st = (Done (Inr present), st1)"
    and rest: "(if present then bind_act (download_raw env dir (dir @ ''/raw'') local_raw) (\<lambda>_. parse_output env s local_raw)
        else pure_act ([], [])) st1 = (Done (Inr (data, ops)), st')"
    using assms(1) unfolding fetch_results_def Let_def local_raw_def [symmetric] bind_act_Inr_iff by blast
  show ?thesis
  proof (cases present)
    case False
    then show ?thesis using rest assms(2) by (auto simp: pure_act_def has_usable_output_def)
  next
    case True
    then obtain x st2 where "download_raw env dir (dir @ ''/raw'') local_raw st1 = (Done (Inr x), st2)"
      "parse_output env s local_raw st2 = (Done (Inr (data, ops)), st')"
      using rest by (auto simp: bind_act_Inr_iff)
    moreover have "st1 = st" using st1 by (auto simp: of_result_def)
    ultimately show ?thesis using step_logs(3) by (force simp: parse_output_def)
  qed
qed

lemma rm_free: "list_all not_rm es \<Longrightarrow> RemoteCommand c \<in> set es \<Longrightarrow> \<not> starts_with c ''rm ''"
  by (force simp: list_all_iff not_rm_def)

text \<open>When the whole run logs a removal, an action in it that logs none is not where the run ended.\<close>

lemma next_step:
  assumes "bind_act a f st1 = (r, st')" "sm_log st1 = l @ pre" "sm_log (snd (a st1)) = sm_log st1 @ x"
    and "sm_log st' = l @ es" "list_all not_rm pre" "list_all not_rm x" "\<not> list_all not_rm es"
  shows "\<exists>y st2. a st1 = (Done (Inr y), st2) \<and> f y st2 = (r, st') \<and> sm_log st2 = l @ pre @ x"
proof (rule bind_act_elim [OF assms(1)])
  assume "snd (a st1) = st'"
  with assms have "es = pre @ x" by simp
  with assms(5-7) show ?thesis by simp
next
  fix y st2
  assume y: "a st1 = (Done (Inr y), st2)" "f y st2 = (r, st')"
  with assms(2,3) show ?thesis by auto
qed

lemma fetch_appends: "\<exists>x. sm_log (snd (fetch_results env s i d c st)) = sm_log st @ x \<and> list_all not_rm x"
  using appends_fetch [of env s i d c] by (auto simp: appends_def list_all_iff)

definition after_log ::
  "('w, 'f) sim_env \<Rightarrow> simulator \<Rightarrow> string \<Rightarrow> string \<Rightarrow> command_result \<Rightarrow> command_result \<Rightarrow> ('w sim_state, 'f sim_result) act" where
  "after_log env s run_id dir result remote_log =
     bind_act (of_result (combined_remote_log result remote_log)) (\<lambda>combined.
     bind_act (remote_command env (test_command env dir) (Some (secs (si_timeout s)))) (\<lambda>raw_check.
     bind_act (fetch_results env s run_id dir raw_check) (\<lambda>results.
     finish_remote env s run_id dir result combined results)))"

definition after_upload ::
  "('w, 'f) sim_env \<Rightarrow> simulator \<Rightarrow> string \<Rightarrow> string \<Rightarrow> ('w sim_state, 'f sim_result) act" where
  "after_upload env s run_id dir =
     bind_act (remote_command env (remote_spectre_command env s dir False) (Some (secs (si_timeout s * 2)))) (\<lambda>result.
     bind_act (remote_command env (cat_command env dir) (Some (secs (si_timeout s)))) (\<lambda>remote_log.
     after_log env s run_id dir result remote_log))"

lemma run_remote_at_unfolded:
  "run_remote_at env s netlist i =
     bind_act (remote_command env (mkdir_command env (sim_remote_dir i)) None) (\<lambda>_.
     bind_act (upload_netlist env netlist (sim_remote_dir i @ ''/input.scs'')) (\<lambda>_.
     after_upload env s i (sim_remote_dir i)))"
  unfolding run_remote_at_def after_upload_def after_log_def Let_def by (rule refl)

lemma finish_removes:
  "finish_remote env s i dir result combined (data, ops) st = (r, st') \<Longrightarrow>
   should_cleanup_remote (classify_simulation_output (res_success result) combined data ops) (si_keep_remote s) \<Longrightarrow>
   snd (remote_command env (rm_command env dir) None st) = st'"
  unfolding finish_remote_def Let_def
  by (auto simp: bind_act_def pure_act_def split: prod.splits ending.splits sum.splits)

text \<open>A run that removed something reached its end, through every step before.\<close>

lemma removed_reached_fetch:
  assumes run: "after_log env s i dir result lg st1 = (r, st')" and l1: "sm_log st1 = l @ pre"
    and es: "sm_log st' = l @ es" and pre: "list_all not_rm pre" and free: "\<not> list_all not_rm es"
  shows "\<exists>combined rc results st5 st6.
    combined_remote_log result lg = Inr combined \<and>
    remote_command env (test_command env dir) (Some (secs (si_timeout s))) st1 = (Done (Inr rc), st5) \<and>
    fetch_results env s i dir rc st5 = (Done (Inr results), st6) \<and>
    finish_remote env s i dir result combined results st6 = (r, st') \<and>
    sm_log st5 = l @ pre @ [RemoteCommand (test_command env dir)]"
proof -
  note steps = next_step [OF _ _ _ es _ _ free]
  note run = run [unfolded after_log_def]
  obtain combined where cb: "combined_remote_log result lg = Inr combined"
    and r2: "bind_act (remote_command env (test_command env dir) (Some (secs (si_timeout s))))
      (\<lambda>raw_check. bind_act (fetch_results env s i dir raw_check)
        (\<lambda>results. finish_remote env s i dir result combined results)) st1 = (r, st')"
    using steps [OF run l1, of "[]"] pre by (auto simp: of_result_def)
  obtain rc st3 where test: "remote_command env (test_command env dir) (Some (secs (si_timeout s))) st1 = (Done (Inr rc), st3)"
    and r3: "bind_act (fetch_results env s i dir rc)
        (\<lambda>results. finish_remote env s i dir result combined results) st3 = (r, st')"
    and l3: "sm_log st3 = l @ (pre @ [RemoteCommand (test_command env dir)])"
    using steps [OF r2 l1 snd_logs(1)] pre by auto
  obtain x where x: "sm_log (snd (fetch_results env s i dir rc st3)) = sm_log st3 @ x" "list_all not_rm x"
    using fetch_appends by blast
  have "\<exists>y st6. fetch_results env s i dir rc st3 = (Done (Inr y), st6) \<and>
      finish_remote env s i dir result combined y st6 = (r, st') \<and> sm_log st6 = l @ (pre @ [RemoteCommand (test_command env dir)]) @ x"
    by (rule steps [OF r3 l3 x(1)]) (simp_all add: pre x(2))
  then obtain y st6 where "fetch_results env s i dir rc st3 = (Done (Inr y), st6)"
    "finish_remote env s i dir result combined y st6 = (r, st')" by blast
  with l3 cb test show ?thesis
    by (intro exI [of _ combined] exI [of _ rc] exI [of _ y] exI [of _ st3] exI [of _ st6]) simp
qed

text \<open>
  What holds when the results were downloaded and judged, from the answers of the host to the run and to
  the reading of its log, in the states the answers were given.
\<close>

definition judged_good ::
  "('w, 'f) sim_env \<Rightarrow> simulator \<Rightarrow> string \<Rightarrow> command_result \<Rightarrow> command_result \<Rightarrow> 'w sim_state \<Rightarrow> bool" where
  "judged_good env s local_raw result lg st \<longleftrightarrow>
     (let combined = res_stdout result @ [char_of (10 :: nat)] @ res_stderr result @ [char_of (10 :: nat)] @ res_stdout lg in
      \<exists>data ops. parse_simulation_output (sv_fs env (sm_world st)) (sv_floats env) local_raw (si_strict_psf s)
          = Done (Inr (data, ops)) \<and>
        has_usable_output data ops \<and> res_success result \<and> res_success lg \<and>
        \<not> trouble combined \<and> extract_warning_messages combined = [])"

lemma removed_after_success:
  assumes run: "after_log env s i dir result lg st1 = (r, st')" and l1: "sm_log st1 = l @ pre"
    and es: "sm_log st' = l @ es" and pre: "list_all not_rm pre" and free: "\<not> list_all not_rm es"
  defines "local_raw \<equiv> path_push (path_push (si_work_dir s) i) ''raw''"
  shows "\<not> si_keep_remote s \<and>
      es = pre @ [RemoteCommand (test_command env dir), DownloadDir (dir @ ''/raw'') local_raw, RemoteCommand (rm_command env dir)] \<and>
      (\<exists>rc st5 u st6.
        remote_command env (test_command env dir) (Some (secs (si_timeout s))) st1 = (Done (Inr rc), st5) \<and>
        download_raw env dir (dir @ ''/raw'') local_raw st5 = (Done (Inr u), st6) \<and>
        judged_good env s local_raw result lg st6 \<and>
        snd (remote_command env (rm_command env dir) None st6) = st')"
proof -
  obtain combined rc data ops st5 st6 where cb: "combined_remote_log result lg = Inr combined"
    and t5: "remote_command env (test_command env dir) (Some (secs (si_timeout s))) st1 = (Done (Inr rc), st5)"
    and f6: "fetch_results env s i dir rc st5 = (Done (Inr (data, ops)), st6)"
    and r6: "finish_remote env s i dir result combined (data, ops) st6 = (r, st')"
    and l5: "sm_log st5 = l @ pre @ [RemoteCommand (test_command env dir)]"
    using removed_reached_fetch [OF run l1 es pre free] by auto
  obtain x where x: "sm_log st6 = sm_log st5 @ x" "list_all not_rm x"
    using fetch_appends [of env s i dir rc st5] f6 by auto
  have clean: "should_cleanup_remote (classify_simulation_output (res_success result) combined data ops) (si_keep_remote s)"
  proof (rule ccontr)
    assume "\<not> ?thesis"
    then have "st' = st6" using r6 by (simp add: finish_remote_def Let_def pure_act_def bind_act_def)
    then have "es = pre @ [RemoteCommand (test_command env dir)] @ x" using l5 x es by simp
    with x(2) free pre show False by simp
  qed
  then have keep: "\<not> si_keep_remote s" and usable: "has_usable_output data ops"
    and quiet: "res_success result" "\<not> trouble combined" "extract_warning_messages combined = []"
    by (simp_all add: should_cleanup_remote_def classify_simulation_output_def classify_success_iff)
  obtain u where l6: "sm_log st6 = sm_log st5 @ [DownloadDir (dir @ ''/raw'') local_raw]"
    and d6: "download_raw env dir (dir @ ''/raw'') local_raw st5 = (Done (Inr u), st6)"
    and parsed: "parse_simulation_output (sv_fs env (sm_world st6)) (sv_floats env) local_raw (si_strict_psf s)
      = Done (Inr (data, ops))"
    using fetch_results_data [OF f6 usable] unfolding local_raw_def by blast
  note last = finish_removes [OF r6 clean]
  then have "sm_log st' = sm_log st6 @ [RemoteCommand (rm_command env dir)]"
    using snd_logs(1) by metis
  with l6 l5 es
  have "es = pre @ [RemoteCommand (test_command env dir), DownloadDir (dir @ ''/raw'') local_raw, RemoteCommand (rm_command env dir)]"
    by simp
  moreover have "res_success lg" "combined = res_stdout result @ [char_of (10 :: nat)] @ res_stderr result @
      [char_of (10 :: nat)] @ res_stdout lg"
    using cb by (simp_all add: combined_remote_log_def Let_def split: if_splits)
  with parsed usable quiet have "judged_good env s local_raw result lg st6"
    unfolding judged_good_def Let_def by blast
  ultimately show ?thesis using keep t5 d6 last by blast
qed

text \<open>
  C36: The directory of a remote run is removed only when the operator does not keep remote files, and
  only as the last step of a run in which every step before succeeded: the directory was made, the
  netlist uploaded, Spectre run with a good exit, its log read, and the results downloaded; and what was
  downloaded parses into usable data, and the text made of what Spectre printed and of the log that was
  read shows no trouble and no warning.  Whatever fails before leaves the artifacts where they are.
\<close>

theorem remote_results_removed_only_after_success:
  assumes run: "run_remote env s netlist st = (r, st')" and es: "sm_log st' = sm_log st @ es"
    and rm: "RemoteCommand c \<in> set es" "starts_with c ''rm ''"
  shows "\<not> si_keep_remote s \<and>
    (\<exists>run_id st0 made st1 sent_ok st2 result st3 lg st4 rc st5 got st6.
       let dir = sim_remote_dir run_id; local_raw = path_push (path_push (si_work_dir s) run_id) ''raw'' in
       on_world (sv_uuid env) st = (Done (Inr run_id), st0) \<and>
       remote_command env (mkdir_command env dir) None st0 = (Done (Inr made), st1) \<and>
       upload_netlist env netlist (dir @ ''/input.scs'') st1 = (Done (Inr sent_ok), st2) \<and>
       remote_command env (remote_spectre_command env s dir False) (Some (secs (si_timeout s * 2))) st2 = (Done (Inr result), st3) \<and>
       remote_command env (cat_command env dir) (Some (secs (si_timeout s))) st3 = (Done (Inr lg), st4) \<and>
       remote_command env (test_command env dir) (Some (secs (si_timeout s))) st4 = (Done (Inr rc), st5) \<and>
       download_raw env dir (dir @ ''/raw'') local_raw st5 = (Done (Inr got), st6) \<and>
       judged_good env s local_raw result lg st6 \<and>
       snd (remote_command env (rm_command env dir) None st6) = st' \<and>
       c = rm_command env dir \<and>
       es = [RemoteCommand (mkdir_command env dir), UploadText netlist (dir @ ''/input.scs''),
         RemoteCommand (remote_spectre_command env s dir False),
         RemoteCommand (cat_command env dir),
         RemoteCommand (test_command env dir), DownloadDir (dir @ ''/raw'') local_raw,
         RemoteCommand c])"
proof -
  have free: "\<not> list_all not_rm es" using rm rm_free by blast
  have tr: "si_has_transport s"
    using run es rm by (cases "si_has_transport s") (simp_all add: run_remote_def fail_act_def)
  note steps = next_step [OF _ _ _ es _ _ free]
  have run: "bind_act (on_world (sv_uuid env)) (\<lambda>run_id. run_remote_at env s netlist run_id) st = (r, st')"
    using run tr by (simp add: run_remote_def)
  obtain i st0 where a0: "on_world (sv_uuid env) st = (Done (Inr i), st0)"
    and r0: "run_remote_at env s netlist i st0 = (r, st')" and l0: "sm_log st0 = sm_log st @ []"
    using steps [OF run, of "[]" "[]"] by (auto simp: snd_logs)
  define dir where "dir = sim_remote_dir i"
  note r0 = r0 [unfolded run_remote_at_unfolded, folded dir_def]
  obtain u0 st1 where a1: "remote_command env (mkdir_command env dir) None st0 = (Done (Inr u0), st1)"
    and r1: "bind_act (upload_netlist env netlist (dir @ ''/input.scs'')) (\<lambda>_. after_upload env s i dir) st1 = (r, st')"
    and l1: "sm_log st1 = sm_log st @ [RemoteCommand (mkdir_command env dir)]"
    using steps [OF r0 l0 snd_logs(1)] by auto
  obtain u1 st2 where a2: "upload_netlist env netlist (dir @ ''/input.scs'') st1 = (Done (Inr u1), st2)"
    and r2: "after_upload env s i dir st2 = (r, st')"
    and l2: "sm_log st2 = sm_log st @ [RemoteCommand (mkdir_command env dir), UploadText netlist (dir @ ''/input.scs'')]"
    using steps [OF r1 l1 snd_logs(2)] by auto
  obtain result st3 where a3: "remote_command env (remote_spectre_command env s dir False) (Some (secs (si_timeout s * 2))) st2
        = (Done (Inr result), st3)"
    and r3: "bind_act (remote_command env (cat_command env dir) (Some (secs (si_timeout s))))
      (\<lambda>remote_log. after_log env s i dir result remote_log) st3 = (r, st')"
    and l3: "sm_log st3 = sm_log st @ [RemoteCommand (mkdir_command env dir),
      UploadText netlist (dir @ ''/input.scs''), RemoteCommand (remote_spectre_command env s dir False)]"
    using steps [OF r2 [unfolded after_upload_def] l2 snd_logs(1)] by auto
  obtain lg st4 where a4: "remote_command env (cat_command env dir) (Some (secs (si_timeout s))) st3 = (Done (Inr lg), st4)"
    and r4: "after_log env s i dir result lg st4 = (r, st')"
    and l4: "sm_log st4 = sm_log st @ [RemoteCommand (mkdir_command env dir),
      UploadText netlist (dir @ ''/input.scs''), RemoteCommand (remote_spectre_command env s dir False),
      RemoteCommand (cat_command env dir)]"
    using steps [OF r3 l3 snd_logs(1)] by auto
  have pre: "list_all not_rm [RemoteCommand (mkdir_command env dir),
      UploadText netlist (dir @ ''/input.scs''), RemoteCommand (remote_spectre_command env s dir False),
      RemoteCommand (cat_command env dir)]" by simp
  note last = removed_after_success [OF r4 l4 es pre free]
  have "not_rm (RemoteCommand c) = False" using rm(2) by (simp add: not_rm_def)
  then have c: "c = rm_command env dir"
    using last rm(1) not_rm_commands(1) [of env] not_rm_commands(2) [of env] not_rm_commands(3) [of env]
      not_rm_commands(4) [of env] by auto
  obtain rc st5 u st6 where
    a5: "remote_command env (test_command env dir) (Some (secs (si_timeout s))) st4 = (Done (Inr rc), st5)"
      "download_raw env dir (dir @ ''/raw'') (path_push (path_push (si_work_dir s) i) ''raw'') st5 = (Done (Inr u), st6)"
      "judged_good env s (path_push (path_push (si_work_dir s) i) ''raw'') result lg st6"
      "snd (remote_command env (rm_command env dir) None st6) = st'"
    using last by blast
  from last a0 a1 a2 a3 a4 a5 show ?thesis
    unfolding Let_def dir_def c
    by - (intro conjI, simp, rule exI [of _ i], intro exI conjI; (assumption | simp add: c dir_def))
qed

text \<open>A host on which everything goes well, with one result file.\<close>

definition wit_fs :: psf_fs where
  "wit_fs = \<lparr>fs_exists = (\<lambda>p. p = ''/w/r1/raw/psf''), fs_is_file = (\<lambda>p. p = ''/w/r1/raw/psf/vout''),
     fs_is_dir = (\<lambda>p. False), fs_entries = (\<lambda>p. if p = ''/w/r1/raw/psf'' then Inr [Inr ''vout''] else Inl ''none''),
     fs_text = (\<lambda>p. if p = ''/w/r1/raw/psf/vout'' then Inr ''7'' else Inl ''none''),
     fs_metadata = (\<lambda>p. Inr RegularFile), fs_symlink_metadata = (\<lambda>p. Inr RegularFile), fs_canonical = Inr\<rparr>"

definition wit_floats :: "nat psf_floats" where
  "wit_floats = \<lparr>ps_parse = (\<lambda>s. if s = ''7'' then Some 7 else None), ps_display = show_nat, ps_finite = (\<lambda>_. True),
     ps_negative = (\<lambda>_. False), ps_le = (\<le>), ps_of_nat = id\<rparr>"

definition wit_env :: "(nat, nat) sim_env" where
  "wit_env = \<lparr>sv_quote = Some, sv_floats = wit_floats, sv_fs = (\<lambda>_. wit_fs), sv_clock = id,
     sv_request_id = (\<lambda>w. ([], w)), sv_uuid = (\<lambda>w. (''r1'', w)), sv_created = (\<lambda>_. ''now''),
     sv_run = (\<lambda>req w. (Inr \<lparr>res_exit_status = 0, res_stdout = [], res_stderr = [],
       res_success = True, res_duration = 0\<rparr>, w)),
     sv_upload_text = (\<lambda>req w. (Inr (), w)), sv_download_dir = (\<lambda>req w. (Inr (), w)),
     sv_create_dir = (\<lambda>p w. (Inr (), w)), sv_write = (\<lambda>p t w. (Inr (), w)), sv_spawn = (\<lambda>p args w. (Inr 1, w)),
     sv_try_wait = (\<lambda>w. (Inr (Some True), w)), sv_kill = (\<lambda>w. (Inr (), w)), sv_wait = (\<lambda>w. (Inr (), w)),
     sv_sleep = (\<lambda>d w. w + d)\<rparr>"

definition wit_simulator :: simulator where
  "wit_simulator = \<lparr>si_cmd = ''spectre'', si_args = [], si_timeout = 60, si_work_dir = ''/w'', si_format = ''psfascii'',
     si_remote = True, si_has_transport = True, si_remote_target = None, si_keep_remote = False, si_max_workers = 2,
     si_cshrc = None, si_bin = None, si_strict_psf = False\<rparr>"

lemma wit_sweep: "parse_sweep_psf_directory wit_fs wit_floats ''/w/r1/raw'' = Some []"
  by (simp add: parse_sweep_psf_directory_def wit_fs_def)

lemma wit_psf: "parse_psf_ascii wit_fs wit_floats ''/w/r1/raw'' = Done (Inr [(''vout'', [7])])"
  by code_simp

lemma wit_ops: "parse_structured_op_blocks wit_fs wit_floats ''/w/r1/raw'' = Some []"
  by code_simp

lemma wit_classify: "classify_simulation_output True [char_of (10 :: nat), char_of (10 :: nat)] [(''vout'', [7 :: nat])] [] = OSuccess"
  by code_simp

lemma wit_parse:
  "parse_simulation_output wit_fs wit_floats ''/w/r1/raw'' False = Done (Inr ([(''vout'', [7])], []))"
proof -
  have "path_push ''/w/r1/raw'' ''psf'' = ''/w/r1/raw/psf''" by code_simp
  then show ?thesis
    by (simp add: parse_simulation_output_def wit_sweep wit_psf wit_ops end_bind_def) (simp add: wit_fs_def)
qed

lemma wit_run:
  "RemoteCommand (rm_command wit_env (sim_remote_dir ''r1'')) \<in>
     set (sm_log (snd (run_remote wit_env wit_simulator nl \<lparr>sm_log = [], sm_world = 0\<rparr>)))"
proof -
  have p: "path_push (path_push ''/w'' ''r1'') ''raw'' = ''/w/r1/raw''" by code_simp
  have f: "sv_fs wit_env w = wit_fs" "sv_floats wit_env = wit_floats" "si_work_dir wit_simulator = ''/w''"
    "si_strict_psf wit_simulator = False" "si_keep_remote wit_simulator = False" "si_has_transport wit_simulator"
    "sv_uuid wit_env w = (''r1'', w)" for w
    by (simp_all add: wit_env_def wit_simulator_def)
  define answer where "answer = \<lparr>res_exit_status = 0, res_stdout = [], res_stderr = [], res_success = True, res_duration = 0\<rparr>"
  have c: "remote_command wit_env cmd d st = (Done (Inr answer), st\<lparr>sm_log := sm_log st @ [RemoteCommand cmd]\<rparr>)"
    "upload_netlist wit_env nl r st = (Done (Inr ()), st\<lparr>sm_log := sm_log st @ [UploadText nl r]\<rparr>)"
    "download_raw wit_env dir r l st = (Done (Inr ()), st\<lparr>sm_log := sm_log st @ [DownloadDir r l]\<rparr>)"
    for cmd d st r l dir
    by (auto simp: remote_command_def upload_netlist_def download_raw_def bind_act_def on_world_def log_step_def ask_world_def
        wit_env_def map_error_def answer_def Let_def split: option.splits)
  have a: "res_success answer" "res_exit_status answer = 0" "res_stdout answer = []" "res_stderr answer = []"
    by (simp_all add: answer_def)
  show ?thesis
    by (simp add: run_remote_def run_remote_at_def Let_def f c a bind_act_def on_world_def of_result_def combined_remote_log_def
        remote_directory_exists_def fetch_results_def parse_output_def p wit_parse finish_remote_def wit_classify
        should_cleanup_remote_def pure_act_def)
qed

theorem remote_results_removed_only_after_success_witness:
  "length (sm_log (snd (run_remote wit_env wit_simulator ''nl'' \<lparr>sm_log = [], sm_world = 0\<rparr>))) = 7"
proof -
  let ?y = "run_remote wit_env wit_simulator ''nl'' \<lparr>sm_log = [], sm_world = 0\<rparr>"
  have y: "?y = (fst ?y, snd ?y)" by simp
  have log: "sm_log (snd ?y) = sm_log \<lparr>sm_log = [], sm_world = (0 :: nat)\<rparr> @ sm_log (snd ?y)" by simp
  have "starts_with (rm_command wit_env (sim_remote_dir ''r1'')) ''rm ''"
    by (simp add: rm_command_def starts_with_def)
  with remote_results_removed_only_after_success [OF y log wit_run]
  have "\<exists>a b c d e f g. sm_log (snd ?y) = [a, b, c, d, e, f, g]"
    unfolding Let_def by blast
  then show ?thesis by auto
qed

end
