(* ===== verification/Spectre_Job_Facts.thy ===== *)
theory Spectre_Job_Facts
  imports Spectre_Jobs
begin

text \<open>
  What is proved of waiting for a simulation, of the order of parallel results, and of the life of a job in
  the background.
\<close>

section \<open>Waiting\<close>

lemma wait_child_returns:
  assumes sleep: "\<And>d w. sv_clock env w + d \<le> sv_clock env (sv_sleep env d w)"
    and probe: "\<And>w. sv_clock env w \<le> sv_clock env (snd (sv_try_wait env w))"
  shows "0 < n \<Longrightarrow> deadline + from_millis 500 < sv_clock env w + n * from_millis 500 \<Longrightarrow>
    \<exists>e w'. wait_child n env deadline w = Some (e, w') \<and> (e = WTimedOut \<longrightarrow> deadline < sv_clock env w')"
proof (induction n arbitrary: w)
  case (Suc n)
  obtain q w1 where q: "sv_try_wait env w = (q, w1)" by (cases "sv_try_wait env w")
  then have w1: "sv_clock env w \<le> sv_clock env w1" using probe [of w] by simp
  show ?case
  proof (cases "q = Inr None \<and> \<not> deadline < sv_clock env w1")
    case False
    then show ?thesis using q by (auto split: sum.splits option.splits)
  next
    case True
    let ?w2 = "sv_sleep env (from_millis 500) w1"
    have w2: "sv_clock env w + from_millis 500 \<le> sv_clock env ?w2"
      using sleep [of w1 "from_millis 500"] w1 by simp
    have "0 < n" using Suc.prems(2) True w1 by (cases n) auto
    then obtain e w' where "wait_child n env deadline ?w2 = Some (e, w')" "e = WTimedOut \<longrightarrow> deadline < sv_clock env w'"
      using Suc.IH [of ?w2] Suc.prems(2) w2 by auto
    with q True show ?thesis by simp
  qed
qed simp

text \<open>
  The wait for a local simulation ends, whatever the process does, with a sleep that lasts as long as it
  was asked to: within the iterations the timeout allows the process has ended, its state could not be read, or
  the deadline has passed; it times out only after the deadline.
\<close>

theorem local_wait_ends:
  assumes "\<And>d w. sv_clock env w + d \<le> sv_clock env (sv_sleep env d w)"
    and "\<And>w. sv_clock env w \<le> sv_clock env (snd (sv_try_wait env w))"
  shows "\<exists>e w'. wait_child (wait_fuel timeout) env (sv_clock env w + secs timeout) w = Some (e, w') \<and>
    (e = WTimedOut \<longrightarrow> sv_clock env w + secs timeout < sv_clock env w')"
  using wait_child_returns [OF assms, of "wait_fuel timeout" "sv_clock env w + secs timeout" w]
  by (simp add: wait_fuel_def secs_def algebra_simps)

section \<open>Parallel runs\<close>

lemma concat_chunked: "concat (chunked n xs) = xs"
  by (induction n xs rule: chunked.induct) (simp_all del: take_Suc_Cons drop_Suc_Cons max_Suc_Suc add: append_assoc [symmetric])

lemma map_enumerate: "map (f \<circ> snd) (enumerate n xs) = map f xs"
  by (metis map_map map_snd_enumerate)

definition result_of ::
  "(nat \<Rightarrow> string + (virtuoso_error + 'r)) \<Rightarrow> nat \<times> string \<times> string \<Rightarrow> string \<times> (virtuoso_error + 'r)" where
  "result_of outcome = (\<lambda>(i, lab, _). catch_parallel_job lab (outcome i))"

lemma worker_results_labels: "map fst (worker_results outcome p chunk) = map (fst \<circ> snd) chunk"
  by (auto simp: worker_results_def catch_parallel_job_def parallel_chunk_panic_results_def comp_def case_prod_beta
      split: option.splits)

lemma concat_labels:
  "map fst (concat (map (\<lambda>(k, c). worker_results outcome (p k) c) (enumerate n cs))) = map (fst \<circ> snd) (concat cs)"
  by (induction cs arbitrary: n) (simp_all add: worker_results_labels)

lemma concat_results:
  "concat (map (\<lambda>(k, c). worker_results outcome None c) (enumerate n cs)) = map (result_of outcome) (concat cs)"
  by (induction cs arbitrary: n) (simp_all add: worker_results_def result_of_def)

text \<open>
  C38: A parallel run answers every input once, in the order given and under its own label, however the inputs
  were divided among the workers and whichever worker panicked; when no worker panicked, the answer is what the
  input's own simulation returned, a panic of it alone being that input's error.
\<close>

theorem parallel_results_in_order:
  "map fst (run_parallel cpus s outcome panics inputs) = map fst inputs \<and>
   run_parallel cpus s outcome (\<lambda>_. None) inputs =
     map (\<lambda>(i, lab, _). catch_parallel_job lab (outcome i)) (enumerate 0 inputs)"
proof -
  have "map (fst \<circ> snd) (enumerate 0 inputs) = map fst inputs" by (rule map_enumerate)
  then show ?thesis
    by (simp add: run_parallel_def Let_def concat_labels concat_results concat_chunked result_of_def)
qed

section \<open>The life of a job\<close>

datatype job_op = OpRefresh | OpCancel

definition job_do :: "'w job_env \<Rightarrow> job_op \<Rightarrow> job \<times> 'w job_state \<Rightarrow> job \<times> 'w job_state" where
  "job_do env op y = (case op of
     OpRefresh \<Rightarrow> snd (job_refresh env (fst y) (snd y))
   | OpCancel \<Rightarrow> snd (job_cancel env (fst y) (snd y)))"

definition job_wf :: "job \<Rightarrow> bool" where
  "job_wf j \<longleftrightarrow> (jb_status j = JobRunning \<longleftrightarrow> jb_finished j = None)"

definition same_job :: "job \<Rightarrow> job \<Rightarrow> bool" where
  "same_job j j' \<longleftrightarrow> jb_id j' = jb_id j \<and> jb_pid j' = jb_pid j \<and> jb_netlist j' = jb_netlist j \<and>
     jb_created j' = jb_created j \<and> jb_remote_host j' = jb_remote_host j \<and> jb_remote_dir j' = jb_remote_dir j"

lemma judged_terminal: "jb_status (judged content j) \<noteq> JobRunning"
  by (simp add: judged_def)

lemma judged_same: "same_job j ((judged content j)\<lparr>jb_finished := f\<rparr>)"
  by (simp add: judged_def same_job_def)

lemma finish_from_log_job:
  "finish_from_log env j st = (r, j', st') \<Longrightarrow> jb_status j' \<noteq> JobRunning \<and> jb_finished j' \<noteq> None \<and> same_job j j'"
  by (auto simp: finish_from_log_def Let_def judged_terminal judged_same split: prod.splits)

lemma refresh_job:
  "job_refresh env j st = (r, j', st') \<Longrightarrow>
   j' = j \<or> (jb_status j = JobRunning \<and> jb_status j' \<in> {JobCompleted, JobFailed} \<and> jb_finished j' \<noteq> None \<and> same_job j j')"
  by (auto simp: job_refresh_def finish_from_log_def Let_def judged_def same_job_def split: if_splits option.splits prod.splits)

lemma cancel_job:
  "job_cancel env j st = (r, j', st') \<Longrightarrow>
   (jb_status j \<noteq> JobRunning \<and> j' = j \<and> st' = st) \<or>
   (jb_status j = JobRunning \<and> jb_status j' = JobCancelled \<and> jb_finished j' \<noteq> None \<and> same_job j j')"
  by (auto simp: job_cancel_def Let_def same_job_def split: if_splits option.splits prod.splits)

lemma same_job_refl [simp]: "same_job j j"
  by (simp add: same_job_def)

lemma same_job_trans: "same_job j j1 \<Longrightarrow> same_job j1 j2 \<Longrightarrow> same_job j j2"
  by (simp add: same_job_def)

text \<open>What one call can make of a job: nothing, or an end that is recorded.\<close>

definition job_moves :: "job \<Rightarrow> job \<Rightarrow> bool" where
  "job_moves j j' \<longleftrightarrow> j' = j \<or> (jb_status j = JobRunning \<and> jb_status j' \<noteq> JobRunning \<and> jb_finished j' \<noteq> None \<and> same_job j j')"

lemma job_do_moves: "job_moves (fst y) (fst (job_do env op y))"
  using refresh_job [of env "fst y" "snd y"] cancel_job [of env "fst y" "snd y"]
  by (cases op; cases "snd (job_refresh env (fst y) (snd y))"; cases "snd (job_cancel env (fst y) (snd y))")
    (auto simp: job_do_def job_moves_def prod_eq_iff)

lemma job_moves_trans: "job_moves j j1 \<Longrightarrow> job_moves j1 j2 \<Longrightarrow> job_moves j j2"
  by (auto simp: job_moves_def dest: same_job_trans)

text \<open>
  C37: A job ends once.  Over any sequence of refreshes and cancellations, whether they succeed or fail and
  whatever processes, hosts and logs answer, a job that is no longer running is never changed again, a job
  is running exactly as long as it has no time of its end, and what identifies it and its process stays.
\<close>

theorem job_ends_once:
  "(let j' = fst (fold (job_do env) ops (j, st)) in
     same_job j j' \<and> (jb_status j \<noteq> JobRunning \<longrightarrow> j' = j) \<and> (job_wf j \<longrightarrow> job_wf j'))"
proof -
  have "job_moves j (fst (fold (job_do env) ops (j, st)))"
  proof (induction ops arbitrary: j st)
    case (Cons op ops)
    obtain j1 st1 where y: "job_do env op (j, st) = (j1, st1)" by (cases "job_do env op (j, st)")
    then have "job_moves j j1" using job_do_moves [of "(j, st)" env op] by simp
    with Cons [of j1 st1] y show ?case by (auto intro: job_moves_trans)
  qed (simp add: job_moves_def)
  then show ?thesis by (auto simp: Let_def job_moves_def job_wf_def)
qed

section \<open>Jobs on another host\<close>

text \<open>
  C39: A host that cannot be reached is taken for the end of its job: when no ssh command to it works, a refresh
  turns a running job into a failed one, and no later refresh corrects it, whatever the host answers by then.
\<close>

theorem unreachable_host_fails_job:
  assumes "jb_status j = JobRunning" "jb_pid j = Some pid" "jb_remote_host j = Some host" "jb_remote_dir j = Some dir"
    and "\<And>cmd w. fst (jv_ssh_ok env host cmd w) = False"
    and "\<And>cmd w. fst (jv_ssh_output env host cmd w) \<in> {None, Some []}"
  shows "let j' = fst (snd (job_refresh env j st)) in
    jb_status j' = JobFailed \<and> jb_error j' = Some ''process exited, no log found'' \<and>
    fst (snd (job_refresh later j' st')) = j'"
proof -
  obtain w where w: "jv_ssh_ok env host (''kill -0 '' @ show_nat (unat pid)) (js_world st) = (False, w)"
    using assms(5) by (metis prod.collapse)
  obtain q w' where q: "jv_ssh_output env host (''cat '' @ dir @ ''/spectre.out 2>/dev/null'') w = (q, w')"
    by (cases "jv_ssh_output env host (''cat '' @ dir @ ''/spectre.out 2>/dev/null'') w")
  then have "q = None \<or> q = Some []"
    using assms(6) [of "''cat '' @ dir @ ''/spectre.out 2>/dev/null''" w] by auto
  then have "jb_status (fst (snd (job_refresh env j st))) = JobFailed \<and>
      jb_error (fst (snd (job_refresh env j st))) = Some ''process exited, no log found''"
    using assms(1-4) w q
    by (auto simp: job_refresh_def job_alive_def finish_from_log_def job_log_def Let_def judged_def
        split: prod.splits)
  then show ?thesis by (simp add: Let_def job_refresh_def)
qed

definition wit_job_env :: "unit job_env" where
  "wit_job_env = \<lparr>jv_print = (\<lambda>j. Inr (jb_id j)), jv_parse = Inl, jv_write = (\<lambda>w. (Inr (), w)),
     jv_alive = (\<lambda>p w. (True, w)), jv_ssh_ok = (\<lambda>h c w. (False, w)), jv_ssh_output = (\<lambda>h c w. (Some [], w)),
     jv_exists = (\<lambda>p w. False), jv_text = (\<lambda>p w. None), jv_now = (\<lambda>w. ''now''), jv_signal = (\<lambda>p s w. w),
     jv_sleep = (\<lambda>d w. w)\<rparr>"

definition wit_job :: job where
  "wit_job = new_job ''a1'' ''/tmp/a1/input.scs'' ''/tmp/a1/raw'' 4242 ''then'' (Some ''eda1'') (Some ''/tmp/a1'')"

definition wit_jobs :: "unit job_state" where
  "wit_jobs = \<lparr>js_files = [], js_signals = [], js_world = ()\<rparr>"

theorem job_ends_once_witness:
  "job_wf (fst (fold (job_do wit_job_env) [OpRefresh, OpCancel] (wit_job, wit_jobs))) \<and>
   fst (fold (job_do wit_job_env) [OpRefresh, OpCancel] (wit_job\<lparr>jb_status := JobCancelled\<rparr>, wit_jobs)) =
     wit_job\<lparr>jb_status := JobCancelled\<rparr>"
proof -
  have "job_wf wit_job" by (simp add: job_wf_def wit_job_def new_job_def)
  then have "job_wf (fst (fold (job_do wit_job_env) [OpRefresh, OpCancel] (wit_job, wit_jobs)))"
    using job_ends_once [where j = wit_job and env = wit_job_env and ops = "[OpRefresh, OpCancel]" and st = wit_jobs] unfolding Let_def by blast
  moreover have "jb_status (wit_job\<lparr>jb_status := JobCancelled\<rparr>) \<noteq> JobRunning" by simp
  then have "fst (fold (job_do wit_job_env) [OpRefresh, OpCancel] (wit_job\<lparr>jb_status := JobCancelled\<rparr>, wit_jobs)) =
      wit_job\<lparr>jb_status := JobCancelled\<rparr>"
    using job_ends_once [where j = "wit_job\<lparr>jb_status := JobCancelled\<rparr>" and env = wit_job_env and
      ops = "[OpRefresh, OpCancel]" and st = wit_jobs]
    unfolding Let_def by blast
  ultimately show ?thesis by (rule conjI)
qed

theorem unreachable_host_fails_job_witness:
  "jb_status (fst (snd (job_refresh wit_job_env wit_job \<lparr>js_files = [], js_signals = [], js_world = ()\<rparr>))) = JobFailed"
  using unreachable_host_fails_job [where j = wit_job and pid = 4242 and host = "''eda1''" and dir = "''/tmp/a1''"
      and env = wit_job_env and st = "\<lparr>js_files = [], js_signals = [], js_world = ()\<rparr>"
      and later = "wit_job_env\<lparr>jv_ssh_ok := (\<lambda>h c w. (True, w))\<rparr>"
      and st' = "\<lparr>js_files = [], js_signals = [], js_world = ()\<rparr>"]
  by (simp add: wit_job_def new_job_def wit_job_env_def Let_def)

text \<open>A job of another host is cancelled by signals to a process group of this one.\<close>

lemma cancel_signals_local_group:
  "jb_status j = JobRunning \<Longrightarrow> jb_pid j = Some pid \<Longrightarrow> job_cancel env j st = (r, j', st') \<Longrightarrow>
   js_signals st' = js_signals st @ [(- sint pid, SigTerm), (- sint pid, SigKill)]"
  by (auto simp: job_cancel_def terminate_process_group_def Let_def job_save_def pid_i32_def
      split: prod.splits sum.splits)

end
