(* ===== verification/Spec2Isabelle.thy ===== *)
theory Spec2Isabelle
  imports Prelude Identity Errors Contract Lifecycle Scheduler Framing Messages Config_File Targets Settings
    Config_Report Resolve Pool Pool_Steps Dispatch Server Server_Facts Server_Pooled Ownership Daemon_Lifecycle
    Backend Tunnel_Stop Tunnel_Facts Sessions Session_Attach Capability Capability_Plugin Api_Auth Whitelist
    Skill_Text Skill_Result Skill_Client Skill_Client_Facts Skill_Requests Client_Connect
    Skill_Template Schematic_Skill Schematic_Data Design_Skill Design_Data Maestro_Skill Maestro_Data
    Skill_Injection Analysis_Options Delete_Skill Delete_Data Skill_Safety Acts Rpc_Json Delete_Confirm Delete_Facts
    Editor Transactions Transaction_Facts Host_Keys Host_Keys_Facts Native Native_Facts
    Rpc_Schema Rpc_Dispatch Rpc_Gate Rpc_Facts Regex_Search Spectre_Outcome Spectre_Psf Spectre_Ops Spectre_Facts
    Spectre_Run Spectre_Run_Facts Spectre_Jobs Spectre_Job_Facts
begin

text \<open>
  Verification of virtuoso-cli (\<open>vcli\<close>), the command-line bridge to Cadence Virtuoso.

  \<^bold>\<open>The program.\<close>  A command resolves a configuration (environment, profile, file, target), finds the
  daemon that runs inside Virtuoso, directly or through an SSH tunnel, and sends it SKILL
  expressions over TCP.  The tunnel, or a local transport daemon that shares SSH connections
  between processes over framed IPC, is started, checked and stopped by the program; which process
  it may signal and which files it may remove is decided from recorded identities.  Capabilities, an
  API key and a whitelist decide what a caller may send.

  \<^bold>\<open>Theories and the code they model\<close> (paths under \<open>src/\<close> of the crate):

  \<^item> \<open>Prelude\<close>: integers, time, strings, results, number parsing, and the locales shared by the
    components (\<open>lossless\<close>, \<open>lossless_iso\<close>, \<open>store\<close>, transition systems with invariants).
  \<^item> \<open>Errors\<close>: \<open>error.rs\<close>, \<open>exit_codes.rs\<close>.  \<open>Contract\<close>: \<open>transport/contract.rs\<close>, requests, deadlines,
    the error taxonomy of transports.  \<open>Lifecycle\<close>: \<open>transport/lifecycle.rs\<close>, backoff, circuit
    breaker, cancellation, shutdown.  \<open>Identity\<close>: \<open>transport/identity.rs\<close>, who a pid is.
  \<^item> \<open>Scheduler\<close>: \<open>transport/scheduler.rs\<close>.  Each operation is the step it takes under the mutex;
    \<open>step\<close> interleaves threads, and reachability carries the invariant of the counters and the queue.
  \<^item> \<open>Framing\<close>, \<open>Messages\<close>, \<open>Dispatch\<close>, \<open>Server\<close>, \<open>Server_Facts\<close>, \<open>Server_Pooled\<close>: \<open>transport/ipc/\<close>.
    Frames over a stream of arbitrary chunks; the messages; a request's dispatch to a transport;
    the handshake, the serving loop, the fixed and the pooled server.
  \<^item> \<open>Pool\<close>, \<open>Pool_Steps\<close>: \<open>transport/pool.rs\<close>, sequentially and as interleavings of threads over an
    explicit heap of slots with generations.
  \<^item> \<open>Config_File\<close>, \<open>Settings\<close>, \<open>Config_Report\<close>, \<open>Targets\<close>, \<open>Resolve\<close>: \<open>config_file.rs\<close>, \<open>config.rs\<close>,
    \<open>target/mod.rs\<close>, \<open>target/resolve.rs\<close>: every setting's layers, the report of \<open>config check\<close>, targets.
  \<^item> \<open>Ownership\<close>: the session and tunnel records of \<open>models.rs\<close> and the rule of \<open>context.rs\<close> for what
    belongs to a target.  \<open>Daemon_Lifecycle\<close>: \<open>transport/daemon_lifecycle.rs\<close>.  \<open>Backend\<close>:
    \<open>transport/backend.rs\<close>.
  \<^item> \<open>Tunnel_Stop\<close>, \<open>Tunnel_Facts\<close>: the stop path of \<open>transport/tunnel.rs\<close> with stop and detach of
    \<open>commands/tunnel.rs\<close>, as a trace of what is done to the outside.  \<open>Sessions\<close>: \<open>commands/session.rs\<close>.
    \<open>Session_Attach\<close>: \<open>transport/session_discovery.rs\<close> and attach of \<open>commands/tunnel.rs\<close>.
  \<^item> \<open>Capability\<close>, \<open>Capability_Plugin\<close>: \<open>capability/\<close>.  \<open>Api_Auth\<close>: \<open>auth.rs\<close>.  \<open>Whitelist\<close>:
    \<open>client/whitelist.rs\<close>.
  \<^item> \<open>Skill_Text\<close>: \<open>client/skill_sexp.rs\<close> and the quoting of \<open>client/skill_runtime.rs\<close>.
    \<open>Skill_Result\<close>: \<open>VirtuosoResult\<close> of \<open>models.rs\<close> and what becomes of an answer's bytes.
    \<open>Skill_Client\<close>, \<open>Skill_Client_Facts\<close>, \<open>Skill_Requests\<close>, \<open>Client_Connect\<close>: \<open>client/bridge.rs\<close>, the
    transmission of a request, the requests built on it, and the choice of a daemon.
  \<^item> \<open>Skill_Template\<close>: how the operations write SKILL, and what a reader takes for code.
    \<open>Schematic_Skill\<close>, \<open>Design_Skill\<close>, \<open>Maestro_Skill\<close>, \<open>Delete_Skill\<close>: every text of
    \<open>client/schematic_ops.rs\<close>, of \<open>layout_ops.rs\<close>, \<open>library_ops.rs\<close>, \<open>symbol_ops.rs\<close> and
    \<open>window_ops.rs\<close>, of \<open>maestro_ops.rs\<close> with \<open>version.rs\<close>, and of \<open>delete_ops.rs\<close>.
    \<open>Schematic_Data\<close>, \<open>Design_Data\<close>, \<open>Maestro_Data\<close>, \<open>Delete_Data\<close>, \<open>Skill_Safety\<close>: their arguments
    are data.  \<open>Skill_Injection\<close>: the two that are not.  \<open>Analysis_Options\<close>: options from JSON.
  \<^item> \<open>Rpc_Json\<close>: JSON values and the parameter functions of \<open>rpc/dispatcher.rs\<close>.  \<open>Acts\<close>: functions
    on a state that may fail or panic.  \<open>Delete_Confirm\<close>, \<open>Delete_Facts\<close>: \<open>commands/delete.rs\<close>, the
    token files as part of the state, what was asked of Virtuoso as a list of events.
  \<^item> \<open>Editor\<close>, \<open>Transactions\<close>, \<open>Transaction_Facts\<close>: \<open>client/editor.rs\<close>, \<open>transaction/\<close> and
    \<open>commands/transaction.rs\<close>.
  \<^item> \<open>Host_Keys\<close>, \<open>Host_Keys_Facts\<close>: \<open>transport/host_keys.rs\<close>, the known-hosts file with its hashed
    names (SHA-1 and HMAC written out).  \<open>Native\<close>, \<open>Native_Facts\<close>: \<open>transport/native.rs\<close>, the session
    slot, the handshake's verdict, reconnection, commands and transfers, with a log of what went out.
  \<^item> \<open>Rpc_Schema\<close>: \<open>rpc/schema.rs\<close>, the table of methods.  \<open>Rpc_Dispatch\<close>: \<open>rpc/dispatcher.rs\<close>, a
    definition \<open>rpc_<domain>_<method>\<close> for every arm and the tables \<open>dispatch_<domain>\<close>, with the commands of
    \<open>commands/symbol.rs\<close>, \<open>library.rs\<close> and \<open>schematic.rs\<close> they call.  \<open>Rpc_Gate\<close>: the checks before a
    method and the audit log after it.  \<open>Rpc_Facts\<close>: what holds of every method of the table.
  \<^item> \<open>Regex_Search\<close>: the leftmost-first search the patterns of the log and result readers rely on.
    \<open>Spectre_Outcome\<close>: the classifier and the progress of \<open>spectre/runner.rs\<close>.  \<open>Spectre_Psf\<close>,
    \<open>Spectre_Ops\<close>, \<open>Spectre_Facts\<close>: \<open>spectre/parsers.rs\<close>, the lenient and the strict readers of results,
    sweeps and operating points.  \<open>Spectre_Run\<close>, \<open>Spectre_Run_Facts\<close>: runs of \<open>spectre/runner.rs\<close> here, on
    a remote host and in parallel, with a log of what is done outside.  \<open>Spectre_Jobs\<close>,
    \<open>Spectre_Job_Facts\<close>: \<open>spectre/jobs.rs\<close>, simulations in the background.

  \<^bold>\<open>How state and operations correspond.\<close>  A struct is a record with the source's fields, an enum a
  datatype; a method that changes its object returns it updated.  What runs under one lock is one
  function; where threads interleave (scheduler, pool) a step relation composes these functions and
  invariants are proved by rule induction.  What the operating system, the network, a clock or the
  daemon answers is an argument.  Where the order of outside effects matters (stopping a tunnel,
  transmitting SKILL) the functions return the list of effects.

  \<^bold>\<open>What the lemmas show.\<close>  Each theory proves the invariant of its component and the behaviour of every
  operation on every branch, and states its properties over them, each with a claim id:

  \<^item> admission control never exceeds its limits, chooses the best waiter, and does not starve;
  \<^item> a request that may change a design is transmitted at most once, a probe under control; the answer
    is passed on unchanged, however the network cuts it;
  \<^item> only authorized processes are signalled, only the program's own files are removed; sessions,
    tunnels and clients are used only by the target that owns them;
  \<^item> an unauthenticated peer reaches nothing, raw SKILL needs Admin, blocked SKILL stays blocked when
    it is nested, readonly mode holds on every path, key guesses made one after the other are
    throttled;
  \<^item> the code of the SKILL texts does not depend on their arguments, three arguments excepted (the
    action of \<open>dismiss_dialog\<close>, the options of \<open>set_analysis\<close> and of \<open>run_with_dec\<close>); nothing is
    deleted without an unexpired approval of what is there, and each approval is spent once, when the
    file system lets used token files be removed;
  \<^item> the difference of two snapshots is empty exactly when they agree; what rollback and commit do;
  \<^item> an RPC request that is not permitted, incomplete or misspelt does nothing, and the methods are
    those of the schema and depend on what it declares (\<open>schematic.net_stub\<close> does without the position
    that the schema requires, \<open>library.list\<close> insists on an empty object);
  \<^item> a host key is trusted by the first entry that covers its host; a native session rests on a trusted
    key, sends a command at most once, and publishes complete files only;
  \<^item> a remote simulation's results are removed only after they were read and found good; parallel results
    come in the order of the inputs; a job ends once; operating points are read without a panic, and
    what the strict readers and accessors return is exactly what their contract says;
  \<^item> frames, configuration files and known-hosts files survive a round trip; values that are quoted
    cannot end their literal, and are read back unchanged exactly when they are plain text; the rate limiter refines the one that never forgets;
  \<^item> loops end within their deadlines, with the clock's progress as a hypothesis.

  Findings that these proofs brought up are theorems too, next to the component they concern.

  \<^bold>\<open>Bounds and fuel.\<close>  Ticket numbers and generations are 64-bit counters that are assumed not to wrap
  (\<open>2^64 - 1\<close> steps).  Frames are bounded by 8 MiB, SKILL answers by 100 MiB, as in the code.  The
  S-expression reader has fuel \<open>2 * length + 1\<close>, proved to be enough (\<open>parse_value_total\<close>); the waiting
  loops have fuel for the polls up to their deadline, proved to be enough from the clock's progress
  (\<open>local_wait_ends\<close> for a local simulation).
  The drain loop has the code's own bound of ten.  The loop that reconnects has no fuel: it is a partial
  function, which returns unless the policy allows \<open>u32::MAX\<close> attempts (\<open>retry_loop_returns\<close>).

  \<^bold>\<open>Conventions.\<close>  Strings are byte lists; case conversion, trimming and word boundaries are those of
  ASCII text, and UTF-8 is modelled where the code decodes or cuts it.  Arithmetic is that of a release
  build (wrapping, shift amounts masked).  Debug printing of errors of libraries is carried as text.
  A SKILL text is a template of fixed text, arguments that were escaped, and values put in as they are;
  64-bit floats are a parameter with their printed forms.  Parameters: the clock, random values, UUIDs, serde (JSON), TOML and YAML, shlex, SHA-256, the
  text of IPv6 addresses, the file system simulation results are read from, the operating system's process table, sockets, the SSH transports, the
  IPC client.  The stop path is that of the Unix build with the native SSH backend.

  \<^bold>\<open>Not modelled\<close>, with the reasons in the manifest: the SSH protocol and the native transport's
  streams, the external programs of the OpenSSH transport, the X11 dialogs, the argument parser and the
  printing of commands, Maestro's CSV tables, the documentation search, the MCP adapter; files are
  values that are read and written as a whole, and their permissions and atomic replacement are left
  out, but for the staging files of an upload.
\<close>

end
